(* ===== verification/FF_Prelude.thy ===== *)
theory FF_Prelude
  imports Main "HOL-Library.Char_ord" "HOL-Library.List_Lexorder"
begin

text \<open>
  Shared vocabulary of the development: Rust strings, optional values and unsigned
  integers as the runtime under \<^verbatim>\<open>src/src/\<close> uses them.

  A Rust \<^verbatim>\<open>str\<close> is a \<^typ>\<open>string\<close>.  The development speaks about ASCII text, on which the
  bytes and the chars of a \<^verbatim>\<open>str\<close> coincide; white space is the ASCII part of the Unicode
  property that \<^verbatim>\<open>str::trim\<close> and \<^verbatim>\<open>str::split_whitespace\<close> use.  The order on strings is the byte order of
  \<^verbatim>\<open>str\<close> and of \<^verbatim>\<open>BTreeMap\<close> keys.  A \<^verbatim>\<open>u32\<close> or \<^verbatim>\<open>u64\<close> is a \<^typ>\<open>nat\<close>; the places
  where the code checks or saturates its range say so with \<open>u32_max\<close> and \<open>u64_max\<close>.
\<close>

named_theorems ff_simps "equations of the runtime's small helper functions"
named_theorems ff_tokens "definitions of token constants"

subsection \<open>Machine integers\<close>

definition u32_max :: nat where
  "u32_max = 4294967295"

definition u64_max :: nat where
  "u64_max = 18446744073709551615"

definition u32_try_from :: "nat \<Rightarrow> nat option" where
  "u32_try_from n = (if n \<le> u32_max then Some n else None)"

definition saturating_add_u64 :: "nat \<Rightarrow> nat \<Rightarrow> nat" where
  "saturating_add_u64 a b = min (a + b) u64_max"

text \<open>Code equations that compare against the bounds as binary integers.\<close>

lemma saturating_add_u64_code [code]:
  "saturating_add_u64 a b = nat (min (int a + int b) 18446744073709551615)"
  by (simp add: saturating_add_u64_def u64_max_def min_def nat_add_distrib)

lemma u32_try_from_code [code]: "u32_try_from n = (if int n \<le> 4294967295 then Some n else None)"
  by (simp add: u32_try_from_def u32_max_def)

lemma u32_try_from_Some [simp]: "u32_try_from n = Some m \<longleftrightarrow> n = m \<and> m \<le> u32_max"
  by (auto simp: u32_try_from_def)

lemma saturating_add_u64_le [simp]: "saturating_add_u64 a b \<le> u64_max"
  by (simp add: saturating_add_u64_def)

lemma saturating_add_u64_min:
  "saturating_add_u64 (min n u64_max) 1 = min (Suc n) u64_max"
  by (simp add: saturating_add_u64_def min_def)

subsection \<open>Options\<close>

definition opt_or :: "'a option \<Rightarrow> 'a option \<Rightarrow> 'a option" where
  "opt_or a b = (case a of None \<Rightarrow> b | Some x \<Rightarrow> Some x)"

definition opt_filter :: "('a \<Rightarrow> bool) \<Rightarrow> 'a option \<Rightarrow> 'a option" where
  "opt_filter P a = (case a of None \<Rightarrow> None | Some x \<Rightarrow> if P x then Some x else None)"

definition is_some_and :: "'a option \<Rightarrow> ('a \<Rightarrow> bool) \<Rightarrow> bool" where
  "is_some_and a P = (case a of None \<Rightarrow> False | Some x \<Rightarrow> P x)"

definition is_none_or :: "'a option \<Rightarrow> ('a \<Rightarrow> bool) \<Rightarrow> bool" where
  "is_none_or a P = (case a of None \<Rightarrow> True | Some x \<Rightarrow> P x)"

definition unwrap_or :: "'a \<Rightarrow> 'a option \<Rightarrow> 'a" where
  "unwrap_or d a = (case a of None \<Rightarrow> d | Some x \<Rightarrow> x)"

definition option_list :: "'a option \<Rightarrow> 'a list" where
  "option_list a = (case a of None \<Rightarrow> [] | Some x \<Rightarrow> [x])"

definition then_some :: "bool \<Rightarrow> 'a \<Rightarrow> 'a option" where
  "then_some b x = (if b then Some x else None)"

lemma opt_or_simps [simp]: "opt_or None b = b" "opt_or (Some x) b = Some x" "opt_or a None = a"
  by (auto simp: opt_or_def split: option.splits)

lemma opt_or_assoc: "opt_or (opt_or a b) c = opt_or a (opt_or b c)"
  by (auto simp: opt_or_def split: option.splits)

lemma opt_or_eq_None [simp]: "opt_or a b = None \<longleftrightarrow> a = None \<and> b = None"
  by (auto simp: opt_or_def split: option.splits)

lemma opt_filter_simps [simp]:
  "opt_filter P None = None"
  "opt_filter P (Some x) = (if P x then Some x else None)"
  by (simp_all add: opt_filter_def)

lemma opt_filter_eq_Some [simp]: "opt_filter P a = Some x \<longleftrightarrow> a = Some x \<and> P x"
  by (cases a) auto

lemma is_some_and_simps [simp]: "is_some_and None P = False" "is_some_and (Some x) P = P x"
  by (simp_all add: is_some_and_def)

lemma is_none_or_simps [simp]: "is_none_or None P = True" "is_none_or (Some x) P = P x"
  by (simp_all add: is_none_or_def)

lemma then_some_simps [simp]: "then_some True x = Some x" "then_some False x = None"
  by (simp_all add: then_some_def)

lemma then_some_eq_Some [simp]: "then_some b x = Some y \<longleftrightarrow> b \<and> x = y"
  by (simp add: then_some_def)

lemma then_some_eq_None [simp]: "then_some b x = None \<longleftrightarrow> \<not> b"
  by (simp add: then_some_def)

subsection \<open>Strings\<close>

definition is_ws :: "char \<Rightarrow> bool" where
  "is_ws c \<longleftrightarrow> c \<in> {CHR '' '', CHR 0x09, CHR 0x0A, CHR 0x0B, CHR 0x0C, CHR 0x0D}"

definition trim_start :: "string \<Rightarrow> string" where
  "trim_start s = dropWhile is_ws s"

definition trim_end :: "string \<Rightarrow> string" where
  "trim_end s = rev (dropWhile is_ws (rev s))"

definition trim :: "string \<Rightarrow> string" where
  "trim s = trim_end (trim_start s)"

definition trim_nonempty :: "string option \<Rightarrow> string option" where
  "trim_nonempty a = opt_filter (\<lambda>v. v \<noteq> []) (map_option trim a)"

definition is_digit :: "char \<Rightarrow> bool" where
  "is_digit c \<longleftrightarrow> 48 \<le> (of_char c :: nat) \<and> (of_char c :: nat) \<le> 57"

definition is_ascii_alphabetic :: "char \<Rightarrow> bool" where
  "is_ascii_alphabetic c \<longleftrightarrow>
     (65 \<le> (of_char c :: nat) \<and> (of_char c :: nat) \<le> 90) \<or>
     (97 \<le> (of_char c :: nat) \<and> (of_char c :: nat) \<le> 122)"

definition is_ascii_alphanumeric :: "char \<Rightarrow> bool" where
  "is_ascii_alphanumeric c \<longleftrightarrow> is_ascii_alphabetic c \<or> is_digit c"

definition starts_with :: "string \<Rightarrow> string \<Rightarrow> bool" where
  "starts_with s p \<longleftrightarrow> take (length p) s = p"

definition strip_prefix :: "string \<Rightarrow> string \<Rightarrow> string option" where
  "strip_prefix s p = (if starts_with s p then Some (drop (length p) s) else None)"

fun split_on :: "char \<Rightarrow> string \<Rightarrow> string list" where
  "split_on c [] = [[]]"
| "split_on c (x # xs) =
     (if x = c then [] # split_on c xs
      else (case split_on c xs of [] \<Rightarrow> [[x]] | y # ys \<Rightarrow> (x # y) # ys))"

fun join_with :: "string \<Rightarrow> string list \<Rightarrow> string" where
  "join_with sep [] = []"
| "join_with sep [x] = x"
| "join_with sep (x # y # ys) = x @ sep @ join_with sep (y # ys)"

definition split_once :: "char \<Rightarrow> string \<Rightarrow> (string \<times> string) option" where
  "split_once c s =
     (case dropWhile (\<lambda>x. x \<noteq> c) s of
        [] \<Rightarrow> None
      | _ # rest \<Rightarrow> Some (takeWhile (\<lambda>x. x \<noteq> c) s, rest))"

lemma strip_prefix_append [simp]: "strip_prefix (p @ s) p = Some s"
  by (simp add: strip_prefix_def starts_with_def)

lemma strip_prefix_Some: "strip_prefix s p = Some r \<longleftrightarrow> s = p @ r"
  by (auto simp: strip_prefix_def starts_with_def) (metis append_take_drop_id)

lemma trim_id:
  assumes "s \<noteq> []" "\<not> is_ws (hd s)" "\<not> is_ws (last s)"
  shows "trim s = s"
proof -
  from assms have "trim_start s = s"
    by (simp add: trim_start_def dropWhile_eq_self_iff)
  moreover from assms have "dropWhile is_ws (rev s) = rev s"
    by (simp add: dropWhile_eq_self_iff hd_rev)
  ultimately show ?thesis by (simp add: trim_def trim_end_def)
qed

lemma trim_Nil [simp]: "trim [] = []"
  by (simp add: trim_def trim_start_def trim_end_def)

lemma dropWhile_hd_not: "dropWhile P s \<noteq> [] \<Longrightarrow> \<not> P (hd (dropWhile P s))"
  by (rule hd_dropWhile) (simp add: dropWhile_eq_Nil_conv)

lemma trim_ends:
  assumes "trim s \<noteq> []"
  shows "\<not> is_ws (hd (trim s))" "\<not> is_ws (last (trim s))"
proof -
  let ?t = "trim_start s"
  from assms have ne: "dropWhile is_ws (rev ?t) \<noteq> []"
    by (simp add: trim_def trim_end_def)
  then show "\<not> is_ws (last (trim s))"
    by (simp add: trim_def trim_end_def last_rev dropWhile_hd_not)
  from ne have t: "?t \<noteq> []" by auto
  then have h: "\<not> is_ws (hd ?t)"
    by (simp add: trim_start_def dropWhile_hd_not)
  have "rev ?t = takeWhile is_ws (rev ?t) @ dropWhile is_ws (rev ?t)" by simp
  then have "?t = trim s @ rev (takeWhile is_ws (rev ?t))"
    by (metis rev_append rev_rev_ident trim_def trim_end_def)
  with assms have "hd ?t = hd (trim s)" by (metis hd_append2)
  with h show "\<not> is_ws (hd (trim s))" by simp
qed

lemma trim_idem [simp]: "trim (trim s) = trim s"
  by (cases "trim s = []") (auto intro: trim_id dest: trim_ends)

lemma trim_nonempty_Some: "trim_nonempty a = Some t \<Longrightarrow> t \<noteq> [] \<and> trim t = t"
  by (cases a) (auto simp: trim_nonempty_def split: if_splits)

lemma trim_nonempty_None [simp]: "trim_nonempty None = None"
  by (simp add: trim_nonempty_def)

subsection \<open>Decimal numerals\<close>

definition digit_char :: "nat \<Rightarrow> char" where
  "digit_char n = char_of (48 + n)"

definition digit_val :: "char \<Rightarrow> nat" where
  "digit_val c = of_char c - 48"

definition digits_val :: "string \<Rightarrow> nat" where
  "digits_val s = foldl (\<lambda>a c. 10 * a + digit_val c) 0 s"

text \<open>What \<^verbatim>\<open>format!("{n}")\<close> prints for an unsigned integer.\<close>

fun show_nat :: "nat \<Rightarrow> string" where
  "show_nat n = (if n < 10 then [digit_char n] else show_nat (n div 10) @ [digit_char (n mod 10)])"

declare show_nat.simps [simp del]

text \<open>What \<^verbatim>\<open>str::parse\<close> reads for an unsigned integer type: an optional plus sign, then at
  least one digit, and the value must fit.\<close>

definition parse_uint :: "nat \<Rightarrow> string \<Rightarrow> nat option" where
  "parse_uint bound s =
     (let ds = (case s of c # cs \<Rightarrow> if c = CHR ''+'' then cs else s | [] \<Rightarrow> [])
      in if ds = [] \<or> \<not> list_all is_digit ds then None
         else if digits_val ds \<le> bound then Some (digits_val ds) else None)"

abbreviation parse_u32 :: "string \<Rightarrow> nat option" where
  "parse_u32 \<equiv> parse_uint u32_max"

lemma of_char_digit_char: "n < 10 \<Longrightarrow> (of_char (digit_char n) :: nat) = 48 + n"
  by (simp add: digit_char_def of_char_of)

lemma is_digit_digit_char: "n < 10 \<Longrightarrow> is_digit (digit_char n)"
  by (simp add: is_digit_def of_char_digit_char)

lemma digit_val_digit_char: "n < 10 \<Longrightarrow> digit_val (digit_char n) = n"
  by (simp add: digit_val_def of_char_digit_char)

lemma digits_val_snoc [simp]: "digits_val (s @ [c]) = 10 * digits_val s + digit_val c"
  by (simp add: digits_val_def)

lemma show_nat_nonempty [simp]: "show_nat n \<noteq> []"
  by (subst show_nat.simps) simp

lemma show_nat_digits: "list_all is_digit (show_nat n)"
proof (induction n rule: show_nat.induct)
  case (1 n)
  then show ?case
    by (cases "n < 10") (simp_all add: show_nat.simps [of n] is_digit_digit_char)
qed

lemma digits_val_show_nat [simp]: "digits_val (show_nat n) = n"
proof (induction n rule: show_nat.induct)
  case (1 n)
  show ?case
  proof (cases "n < 10")
    case True
    then show ?thesis
      by (simp add: show_nat.simps [of n] digits_val_def digit_val_digit_char)
  next
    case False
    with 1 show ?thesis
      by (simp add: show_nat.simps [of n] digit_val_digit_char)
  qed
qed

lemma show_nat_inject [simp]: "show_nat a = show_nat b \<longleftrightarrow> a = b"
  by (metis digits_val_show_nat)

lemma plus_not_digit: "\<not> is_digit (CHR ''+'')" "\<not> is_digit (CHR ''.'')" "\<not> is_digit (CHR ''-'')"
  by (simp_all add: is_digit_def)

lemma digits_not_ws: "is_digit c \<Longrightarrow> \<not> is_ws c"
  by (auto simp: is_digit_def is_ws_def)

lemma parse_uint_digits:
  assumes "ds \<noteq> []" "list_all is_digit ds"
  shows "parse_uint b ds = (if digits_val ds \<le> b then Some (digits_val ds) else None)"
proof -
  from assms obtain c cs where "ds = c # cs" "is_digit c" by (cases ds) auto
  then have "c \<noteq> CHR ''+''" using plus_not_digit(1) by auto
  with \<open>ds = c # cs\<close> assms show ?thesis by (simp add: parse_uint_def)
qed

lemma parse_uint_show_nat: "parse_uint b (show_nat n) = (if n \<le> b then Some n else None)"
  by (simp add: parse_uint_digits show_nat_digits)

lemma parse_uint_bound: "parse_uint b s = Some n \<Longrightarrow> n \<le> b"
  by (auto simp: parse_uint_def Let_def split: if_splits list.splits)

text \<open>A key \<^verbatim>\<open>format!("{a}.{b}")\<close> determines both numbers.\<close>

lemma takeWhile_not_dot: "takeWhile (\<lambda>x. x \<noteq> CHR ''.'') (show_nat a @ CHR ''.'' # r) = show_nat a"
proof -
  have "\<forall>c \<in> set (show_nat a). c \<noteq> CHR ''.''"
    using show_nat_digits [of a] plus_not_digit(2) by (auto simp: list_all_iff)
  then show ?thesis by (simp add: takeWhile_append2)
qed

lemma dotted_key_inject:
  "show_nat a @ CHR ''.'' # show_nat b = show_nat c @ CHR ''.'' # show_nat d \<longleftrightarrow> a = c \<and> b = d"
proof
  assume eq: "show_nat a @ CHR ''.'' # show_nat b = show_nat c @ CHR ''.'' # show_nat d"
  then have "show_nat a = show_nat c"
    using takeWhile_not_dot [of a "show_nat b"] takeWhile_not_dot [of c "show_nat d"] by simp
  with eq show "a = c \<and> b = d" by simp
qed simp

lemma split_once_dotted:
  "split_once (CHR ''.'') (show_nat a @ CHR ''.'' # r) = Some (show_nat a, r)"
proof -
  have "\<forall>c \<in> set (show_nat a). c \<noteq> CHR ''.''"
    using show_nat_digits [of a] plus_not_digit(2) by (auto simp: list_all_iff)
  then have "dropWhile (\<lambda>x. x \<noteq> CHR ''.'') (show_nat a @ CHR ''.'' # r) = CHR ''.'' # r"
    by (simp add: dropWhile_append2)
  then show ?thesis by (simp add: split_once_def takeWhile_not_dot)
qed

lemma trim_show_nat [simp]: "trim (show_nat n) = show_nat n"
proof (rule trim_id)
  show "show_nat n \<noteq> []" by simp
  have "\<forall>c \<in> set (show_nat n). \<not> is_ws c"
    using show_nat_digits [of n] digits_not_ws by (auto simp: list_all_iff)
  then show "\<not> is_ws (hd (show_nat n))" "\<not> is_ws (last (show_nat n))" by auto
qed

end
