(* ===== verification/Json_Value.thy ===== *)
theory Json_Value
  imports FF_Prelude
begin

text \<open>
  JSON values as the runtime handles them (\<^verbatim>\<open>serde_json::Value\<close>) and the ordered maps inside
  them (\<^verbatim>\<open>serde_json::Map\<close>, which is a \<^verbatim>\<open>BTreeMap\<close> because the crate is built without
  \<^verbatim>\<open>preserve_order\<close>).  An object is an association list with strictly increasing keys; the
  invariant \<open>json_wf\<close> says so at every level.  Integral numbers are \<open>JInt\<close>; any other number is
  \<open>JFloat\<close> with its canonical spelling, which no function of the runtime inspects.

  The ordered-map operations are polymorphic: the same definitions model the other
  \<^verbatim>\<open>BTreeMap\<close>s of the runtime.

  The interface of an ordered map is the locale \<open>ordered_map\<close>; what clients prove once from its
  laws is what a sequence of per-key updates, each an insertion or a removal, does to every key, and
  what a map collected from a function of the key holds.
\<close>

datatype json =
    JNull
  | JBool bool
  | JInt int
  | JFloat string
  | JString string
  | JArray "json list"
  | JObject "(string \<times> json) list"

type_synonym json_map = "(string \<times> json) list"

subsection \<open>Ordered maps\<close>

locale ordered_map =
  fixes emp :: "'m"
    and ins :: "'k \<Rightarrow> 'v \<Rightarrow> 'm \<Rightarrow> 'm"
    and del :: "'k \<Rightarrow> 'm \<Rightarrow> 'm"
    and get :: "'m \<Rightarrow> 'k \<Rightarrow> 'v option"
    and inv :: "'m \<Rightarrow> bool"
  assumes inv_emp: "inv emp"
    and inv_ins: "inv m \<Longrightarrow> inv (ins k v m)"
    and inv_del: "inv m \<Longrightarrow> inv (del k m)"
    and get_emp: "get emp k = None"
    and get_ins: "inv m \<Longrightarrow> get (ins k v m) k' = (if k' = k then Some v else get m k')"
    and get_del: "inv m \<Longrightarrow> get (del k m) k' = (if k' = k then None else get m k')"
begin

text \<open>One update of one key: the new binding is computed from the old one, and \<open>None\<close> stands for
  "remove this key".\<close>

definition alter :: "'k \<Rightarrow> ('v option \<Rightarrow> 'v option) \<Rightarrow> 'm \<Rightarrow> 'm" where
  "alter k h m = (case h (get m k) of None \<Rightarrow> del k m | Some v \<Rightarrow> ins k v m)"

lemma inv_alter: "inv m \<Longrightarrow> inv (alter k h m)"
  by (simp add: alter_def inv_ins inv_del split: option.splits)

lemma get_alter: "inv m \<Longrightarrow> get (alter k h m) k' = (if k' = k then h (get m k) else get m k')"
  by (simp add: alter_def get_ins get_del split: option.splits)

lemma inv_fold_alter: "inv m \<Longrightarrow> inv (fold (\<lambda>kv. alter (fst kv) (h kv)) kvs m)"
  by (induction kvs arbitrary: m) (auto simp: inv_alter)

lemma get_fold_alter:
  assumes "inv m" "distinct (map fst kvs)"
  shows "get (fold (\<lambda>kv. alter (fst kv) (h kv)) kvs m) k =
    (case map_of kvs k of None \<Rightarrow> get m k | Some v \<Rightarrow> h (k, v) (get m k))"
  using assms
proof (induction kvs arbitrary: m)
  case Nil
  then show ?case by simp
next
  case (Cons kv kvs)
  have "map_of kvs (fst kv) = None"
    using Cons.prems(2) by (simp add: map_of_eq_None_iff)
  then show ?case
    using Cons by (cases kv) (auto simp: get_alter inv_alter split: option.splits)
qed

text \<open>Bindings inserted from a function of the key.\<close>

definition collect :: "('k \<Rightarrow> 'v option) \<Rightarrow> 'k list \<Rightarrow> 'm" where
  "collect g ks = fold (\<lambda>k m. case g k of None \<Rightarrow> m | Some v \<Rightarrow> ins k v m) ks emp"

lemma fold_collect:
  assumes "inv m"
  shows "inv (fold (\<lambda>k m. case g k of None \<Rightarrow> m | Some v \<Rightarrow> ins k v m) ks m) \<and>
    get (fold (\<lambda>k m. case g k of None \<Rightarrow> m | Some v \<Rightarrow> ins k v m) ks m) k =
    (if k \<in> set ks then opt_or (g k) (get m k) else get m k)"
  using assms
proof (induction ks arbitrary: m)
  case Nil
  then show ?case by simp
next
  case (Cons a ks)
  then show ?case
    by (cases "g a") (auto simp: inv_ins get_ins opt_or_def split: option.splits)
qed

lemma inv_collect: "inv (collect g ks)"
  unfolding collect_def using fold_collect [OF inv_emp] by blast

lemma get_collect: "get (collect g ks) k = (if k \<in> set ks then g k else None)"
  unfolding collect_def using fold_collect [OF inv_emp, of g ks k] by (simp add: get_emp)

end

fun obj_insert :: "'k::linorder \<Rightarrow> 'v \<Rightarrow> ('k \<times> 'v) list \<Rightarrow> ('k \<times> 'v) list" where
  "obj_insert k v [] = [(k, v)]"
| "obj_insert k v (e # es) =
     (if fst e = k then (k, v) # es
      else if k < fst e then (k, v) # e # es
      else e # obj_insert k v es)"

definition obj_remove :: "'k \<Rightarrow> ('k \<times> 'v) list \<Rightarrow> ('k \<times> 'v) list" where
  "obj_remove k es = filter (\<lambda>e. fst e \<noteq> k) es"

definition obj_get :: "('k \<times> 'v) list \<Rightarrow> 'k \<Rightarrow> 'v option" where
  "obj_get es k = map_of es k"

definition obj_keys :: "('k \<times> 'v) list \<Rightarrow> 'k list" where
  "obj_keys es = map fst es"

definition obj_values :: "('k \<times> 'v) list \<Rightarrow> 'v list" where
  "obj_values es = map snd es"

definition obj_sorted :: "('k::linorder \<times> 'v) list \<Rightarrow> bool" where
  "obj_sorted es = sorted_wrt (<) (map fst es)"

lemma fst_set_obj_insert: "fst ` set (obj_insert k v es) = insert k (fst ` set es)"
  by (induction k v es rule: obj_insert.induct) auto

lemma ball_obj_insert:
  "(\<forall>x\<in>set (obj_insert k v es). P (fst x)) \<longleftrightarrow> P k \<and> (\<forall>x\<in>set es. P (fst x))"
proof -
  have "(\<forall>y\<in>fst ` set (obj_insert k v es). P y) \<longleftrightarrow> (\<forall>y\<in>insert k (fst ` set es). P y)"
    by (simp only: fst_set_obj_insert)
  then show ?thesis by simp
qed

lemma obj_sorted_Cons:
  "obj_sorted (e # es) \<longleftrightarrow> (\<forall>x\<in>set es. fst e < fst x) \<and> obj_sorted es"
  by (simp add: obj_sorted_def)

lemma obj_sorted_insert: "obj_sorted es \<Longrightarrow> obj_sorted (obj_insert k v es)"
proof (induction k v es rule: obj_insert.induct)
  case (1 k v)
  then show ?case by (simp add: obj_sorted_def)
next
  case (2 k v e es)
  consider "fst e = k" | "fst e \<noteq> k" "k < fst e" | "fst e < k" using linorder_less_linear by blast
  then show ?case
  proof cases
    case 1
    with 2 show ?thesis by (simp add: obj_sorted_Cons)
  next
    case c: 2
    from 2 have "\<forall>x\<in>set es. fst e < fst x" by (simp add: obj_sorted_Cons)
    with c have "\<forall>x\<in>set es. k < fst x" using order.strict_trans by blast
    with 2 c show ?thesis by (simp add: obj_sorted_Cons)
  next
    case 3
    then have "fst e \<noteq> k" "\<not> k < fst e" by auto
    with 2 3 show ?thesis by (simp add: obj_sorted_Cons ball_obj_insert)
  qed
qed

lemma obj_sorted_remove: "obj_sorted es \<Longrightarrow> obj_sorted (obj_remove k es)"
  by (simp add: obj_sorted_def obj_remove_def sorted_wrt_map sorted_wrt_filter)

lemma obj_sorted_distinct: "obj_sorted es \<Longrightarrow> distinct (map fst es)"
  by (auto simp: obj_sorted_def strict_sorted_iff)

lemma obj_get_insert: "obj_get (obj_insert k v es) k' = (if k' = k then Some v else obj_get es k')"
  by (induction k v es rule: obj_insert.induct) (auto simp: obj_get_def)

lemma obj_get_remove: "obj_get (obj_remove k es) k' = (if k' = k then None else obj_get es k')"
  by (induction es) (auto simp: obj_get_def obj_remove_def)

interpretation objm: ordered_map "[] :: ('k::linorder \<times> 'v) list" obj_insert obj_remove obj_get obj_sorted
  by unfold_locales
     (simp_all add: obj_sorted_insert obj_sorted_remove obj_get_insert obj_get_remove,
      simp_all add: obj_sorted_def obj_get_def)

text \<open>Two ordered maps with the same lookups are the same map.\<close>

lemma map_of_rebuild:
  assumes "distinct (map fst a)"
  shows "map (\<lambda>k. (k, the (map_of a k))) (map fst a) = a"
proof -
  have "map (\<lambda>e. (fst e, the (map_of a (fst e)))) a = a"
    using assms by (intro map_idI) auto
  then show ?thesis by (simp add: comp_def)
qed

lemma obj_ext:
  assumes "obj_sorted a" "obj_sorted b" "\<And>k. obj_get a k = obj_get b k"
  shows "a = b"
proof -
  have m: "map_of a = map_of b" using assms(3) by (auto simp: obj_get_def)
  then have "set (map fst a) = set (map fst b)"
    by (metis dom_map_of_conv_image_fst list.set_map)
  then have k: "map fst a = map fst b"
    using assms(1,2) strict_sorted_equal unfolding obj_sorted_def by blast
  have "a = map (\<lambda>k. (k, the (map_of a k))) (map fst a)"
    using map_of_rebuild [OF obj_sorted_distinct [OF assms(1)]] by simp
  also have "\<dots> = map (\<lambda>k. (k, the (map_of b k))) (map fst b)" by (simp only: m k)
  also have "\<dots> = b" using map_of_rebuild [OF obj_sorted_distinct [OF assms(2)]] .
  finally show ?thesis .
qed

subsection \<open>Reading values\<close>

fun json_get :: "json \<Rightarrow> string \<Rightarrow> json option" where
  "json_get (JObject es) k = obj_get es k"
| "json_get _ k = None"

fun as_object :: "json \<Rightarrow> json_map option" where
  "as_object (JObject es) = Some es"
| "as_object _ = None"

fun as_str :: "json \<Rightarrow> string option" where
  "as_str (JString s) = Some s"
| "as_str _ = None"

fun as_u64 :: "json \<Rightarrow> nat option" where
  "as_u64 (JInt i) = (if 0 \<le> i \<and> i \<le> int u64_max then Some (nat i) else None)"
| "as_u64 _ = None"

fun as_array :: "json \<Rightarrow> json list option" where
  "as_array (JArray xs) = Some xs"
| "as_array _ = None"

fun as_bool :: "json \<Rightarrow> bool option" where
  "as_bool (JBool b) = Some b"
| "as_bool _ = None"

fun is_null :: "json \<Rightarrow> bool" where
  "is_null JNull = True"
| "is_null _ = False"

fun is_object :: "json \<Rightarrow> bool" where
  "is_object (JObject es) = True"
| "is_object _ = False"

text \<open>The entries of the object stored under a key; none when the key is absent or holds
  something else.\<close>

definition entries_at :: "json \<Rightarrow> string \<Rightarrow> json_map" where
  "entries_at v f = (case Option.bind (json_get v f) as_object of None \<Rightarrow> [] | Some es \<Rightarrow> es)"

definition json_string :: "json \<Rightarrow> string \<Rightarrow> string option" where
  "json_string v key = trim_nonempty (Option.bind (json_get v key) as_str)"

fun json_cursor :: "json \<Rightarrow> string list \<Rightarrow> json option" where
  "json_cursor v [] = Some v"
| "json_cursor v (segment # path) =
     (case json_get v segment of None \<Rightarrow> None | Some w \<Rightarrow> json_cursor w path)"

definition json_string_from_path :: "json \<Rightarrow> string list \<Rightarrow> string option" where
  "json_string_from_path v path = trim_nonempty (Option.bind (json_cursor v path) as_str)"

definition json_u32 :: "json \<Rightarrow> string \<Rightarrow> nat option" where
  "json_u32 v key = Option.bind (Option.bind (json_get v key) as_u64) u32_try_from"

definition json_u32_from_path :: "json \<Rightarrow> string list \<Rightarrow> nat option" where
  "json_u32_from_path v path = Option.bind (Option.bind (json_cursor v path) as_u64) u32_try_from"

lemma is_object_conv: "is_object v \<longleftrightarrow> (\<exists>es. v = JObject es)"
  by (cases v) auto

lemma is_null_conv [simp]: "is_null v \<longleftrightarrow> v = JNull"
  by (cases v) auto

lemma as_object_Some [simp]: "as_object v = Some es \<longleftrightarrow> v = JObject es"
  by (cases v) auto

lemma as_object_None: "as_object v = None \<longleftrightarrow> \<not> is_object v"
  by (cases v) auto

lemma as_u64_code [code]:
  "as_u64 v = (case v of JInt i \<Rightarrow> if 0 \<le> i \<and> i \<le> 18446744073709551615 then Some (nat i) else None | _ \<Rightarrow> None)"
  by (cases v) (simp_all add: u64_max_def)

lemma json_u32_le: "json_u32 v k = Some n \<Longrightarrow> n \<le> u32_max"
  by (auto simp: json_u32_def bind_eq_Some_conv)

lemma json_u32_from_path_le: "json_u32_from_path v p = Some n \<Longrightarrow> n \<le> u32_max"
  by (auto simp: json_u32_from_path_def bind_eq_Some_conv)

subsection \<open>Building values\<close>

text \<open>\<^verbatim>\<open>serde_json::json!\<close> of an object literal, and what \<^verbatim>\<open>Serialize\<close> makes of optional
  values, unsigned integers and string lists.\<close>

definition json_object :: "(string \<times> json) list \<Rightarrow> json" where
  "json_object kvs = JObject (fold (\<lambda>kv. obj_insert (fst kv) (snd kv)) kvs [])"

definition json_opt :: "('a \<Rightarrow> json) \<Rightarrow> 'a option \<Rightarrow> json" where
  "json_opt f a = (case a of None \<Rightarrow> JNull | Some x \<Rightarrow> f x)"

definition json_nat :: "nat \<Rightarrow> json" where
  "json_nat n = JInt (int n)"

definition json_strings :: "string list \<Rightarrow> json" where
  "json_strings xs = JArray (map JString xs)"

lemma json_opt_simps [simp]: "json_opt f None = JNull" "json_opt f (Some x) = f x"
  by (simp_all add: json_opt_def)

lemma as_u64_json_nat: "n \<le> u64_max \<Longrightarrow> as_u64 (json_nat n) = Some n"
  by (simp add: json_nat_def)

lemma json_nat_readers [simp]:
  "as_str (json_nat n) = None" "as_object (json_nat n) = None" "as_bool (json_nat n) = None"
  by (simp_all add: json_nat_def)

lemma fold_obj_insert_get:
  "obj_get (fold (\<lambda>kv. obj_insert (fst kv) (snd kv)) kvs es) k =
   (case map_of (rev kvs) k of None \<Rightarrow> obj_get es k | Some v \<Rightarrow> Some v)"
  by (induction kvs arbitrary: es) (auto simp: obj_get_insert map_add_def split: option.splits)

lemma json_get_object: "json_get (json_object kvs) k = map_of (rev kvs) k"
  by (simp add: json_object_def fold_obj_insert_get) (simp add: obj_get_def split: option.splits)

lemma is_object_json_object [simp]: "is_object (json_object kvs)"
  by (simp add: json_object_def)

subsection \<open>Well-formed values\<close>

fun json_wf :: "json \<Rightarrow> bool" where
  "json_wf (JArray xs) = (\<forall>x\<in>set xs. json_wf x)"
| "json_wf (JObject es) = (obj_sorted es \<and> (\<forall>e\<in>set es. json_wf (snd e)))"
| "json_wf JNull = True"
| "json_wf (JBool b) = True"
| "json_wf (JInt i) = True"
| "json_wf (JFloat s) = True"
| "json_wf (JString s) = True"

lemma json_wf_get: "json_wf v \<Longrightarrow> json_get v k = Some w \<Longrightarrow> json_wf w"
  by (cases v) (auto simp: obj_get_def dest!: map_of_SomeD)

lemma entries_at_sorted: "json_wf v \<Longrightarrow> obj_sorted (entries_at v f)"
  by (auto simp: entries_at_def obj_sorted_def split: option.splits bind_splits
      dest: json_wf_get)

lemma json_wf_object:
  "obj_sorted es \<Longrightarrow> (\<And>k w. obj_get es k = Some w \<Longrightarrow> json_wf w) \<Longrightarrow> json_wf (JObject es)"
  by (auto simp: obj_get_def dest: obj_sorted_distinct)

lemma obj_get_wf: "\<forall>e\<in>set es. json_wf (snd e) \<Longrightarrow> obj_get es k = Some w \<Longrightarrow> json_wf w"
  by (auto simp: obj_get_def dest!: map_of_SomeD)

lemma json_wf_insert:
  "json_wf (JObject es) \<Longrightarrow> json_wf w \<Longrightarrow> json_wf (JObject (obj_insert k w es))"
  by (rule json_wf_object) (auto simp: obj_sorted_insert obj_get_insert split: if_splits
      dest: obj_get_wf)

lemma json_wf_fold_insert:
  "list_all (\<lambda>kv. json_wf (snd kv)) kvs \<Longrightarrow> json_wf (JObject es) \<Longrightarrow>
   json_wf (JObject (fold (\<lambda>kv. obj_insert (fst kv) (snd kv)) kvs es))"
proof (induction kvs arbitrary: es)
  case (Cons kv kvs)
  have "json_wf (JObject (obj_insert (fst kv) (snd kv) es))"
    using Cons.prems by (intro json_wf_insert) auto
  with Cons show ?case by (simp del: json_wf.simps)
qed simp

lemma json_wf_json_object: "list_all (\<lambda>kv. json_wf (snd kv)) kvs \<Longrightarrow> json_wf (json_object kvs)"
  unfolding json_object_def by (rule json_wf_fold_insert) (simp_all add: obj_sorted_def)

lemma json_wf_built [simp]:
  "json_wf (json_nat n)" "json_wf (json_strings xs)"
  "json_wf (json_opt f a) \<longleftrightarrow> (\<forall>x. a = Some x \<longrightarrow> json_wf (f x))"
  by (auto simp: json_nat_def json_strings_def json_opt_def split: option.splits)

lemma json_wf_remove: "json_wf (JObject es) \<Longrightarrow> json_wf (JObject (obj_remove k es))"
  by (rule json_wf_object) (auto simp: obj_sorted_remove obj_get_remove split: if_splits
      dest: obj_get_wf)

end
