(* ===== verification/Runtime_Tokens.thy ===== *)
theory Runtime_Tokens
  imports FF_Prelude
begin

text \<open>
  The runtime's public string vocabulary: execution phases and phase details
  (\<^verbatim>\<open>src/src/execution/phase.rs\<close>), review-state statuses and follow-up tokens
  (\<^verbatim>\<open>review_route_tokens.rs\<close>), and the task-boundary reason codes with their classification
  (\<^verbatim>\<open>closure_diagnostics/reason_codes.rs\<close>).
\<close>

subsection \<open>Phases and phase details\<close>

definition PHASE_BLOCKED :: string where [simp, ff_tokens]:
  "PHASE_BLOCKED = ''blocked''"

definition PHASE_DOCUMENT_RELEASE_PENDING :: string where [simp, ff_tokens]:
  "PHASE_DOCUMENT_RELEASE_PENDING = ''document_release_pending''"

definition PHASE_EXECUTING :: string where [simp, ff_tokens]:
  "PHASE_EXECUTING = ''executing''"

definition PHASE_EXECUTION_PREFLIGHT :: string where [simp, ff_tokens]:
  "PHASE_EXECUTION_PREFLIGHT = ''execution_preflight''"

definition PHASE_FINAL_REVIEW_PENDING :: string where [simp, ff_tokens]:
  "PHASE_FINAL_REVIEW_PENDING = ''final_review_pending''"

definition PHASE_HANDOFF_REQUIRED :: string where [simp, ff_tokens]:
  "PHASE_HANDOFF_REQUIRED = ''handoff_required''"

definition PHASE_IMPLEMENTATION_HANDOFF :: string where [simp, ff_tokens]:
  "PHASE_IMPLEMENTATION_HANDOFF = ''implementation_handoff''"

definition PHASE_PIVOT_REQUIRED :: string where [simp, ff_tokens]:
  "PHASE_PIVOT_REQUIRED = ''pivot_required''"

definition PHASE_QA_PENDING :: string where [simp, ff_tokens]:
  "PHASE_QA_PENDING = ''qa_pending''"

definition PHASE_READY_FOR_BRANCH_COMPLETION :: string where [simp, ff_tokens]:
  "PHASE_READY_FOR_BRANCH_COMPLETION = ''ready_for_branch_completion''"

definition PHASE_TASK_CLOSURE_PENDING :: string where [simp, ff_tokens]:
  "PHASE_TASK_CLOSURE_PENDING = ''task_closure_pending''"

definition DETAIL_BLOCKED_RUNTIME_BUG :: string where [simp, ff_tokens]:
  "DETAIL_BLOCKED_RUNTIME_BUG = ''blocked_runtime_bug''"

definition DETAIL_BRANCH_CLOSURE_RECORDING_REQUIRED_FOR_RELEASE_READINESS :: string where [simp, ff_tokens]:
  "DETAIL_BRANCH_CLOSURE_RECORDING_REQUIRED_FOR_RELEASE_READINESS = ''branch_closure_recording_required_for_release_readiness''"

definition DETAIL_EXECUTION_IN_PROGRESS :: string where [simp, ff_tokens]:
  "DETAIL_EXECUTION_IN_PROGRESS = ''execution_in_progress''"

definition DETAIL_EXECUTION_PREFLIGHT_REQUIRED :: string where [simp, ff_tokens]:
  "DETAIL_EXECUTION_PREFLIGHT_REQUIRED = ''execution_preflight_required''"

definition DETAIL_EXECUTION_REENTRY_REQUIRED :: string where [simp, ff_tokens]:
  "DETAIL_EXECUTION_REENTRY_REQUIRED = ''execution_reentry_required''"

definition DETAIL_FINAL_REVIEW_DISPATCH_REQUIRED :: string where [simp, ff_tokens]:
  "DETAIL_FINAL_REVIEW_DISPATCH_REQUIRED = ''final_review_dispatch_required''"

definition DETAIL_FINAL_REVIEW_OUTCOME_PENDING :: string where [simp, ff_tokens]:
  "DETAIL_FINAL_REVIEW_OUTCOME_PENDING = ''final_review_outcome_pending''"

definition DETAIL_FINAL_REVIEW_RECORDING_READY :: string where [simp, ff_tokens]:
  "DETAIL_FINAL_REVIEW_RECORDING_READY = ''final_review_recording_ready''"

definition DETAIL_FINISH_COMPLETION_GATE_READY :: string where [simp, ff_tokens]:
  "DETAIL_FINISH_COMPLETION_GATE_READY = ''finish_completion_gate_ready''"

definition DETAIL_FINISH_REVIEW_GATE_READY :: string where [simp, ff_tokens]:
  "DETAIL_FINISH_REVIEW_GATE_READY = ''finish_review_gate_ready''"

definition DETAIL_HANDOFF_RECORDING_REQUIRED :: string where [simp, ff_tokens]:
  "DETAIL_HANDOFF_RECORDING_REQUIRED = ''handoff_recording_required''"

definition DETAIL_PLANNING_REENTRY_REQUIRED :: string where [simp, ff_tokens]:
  "DETAIL_PLANNING_REENTRY_REQUIRED = ''planning_reentry_required''"

definition DETAIL_QA_RECORDING_REQUIRED :: string where [simp, ff_tokens]:
  "DETAIL_QA_RECORDING_REQUIRED = ''qa_recording_required''"

definition DETAIL_RELEASE_BLOCKER_RESOLUTION_REQUIRED :: string where [simp, ff_tokens]:
  "DETAIL_RELEASE_BLOCKER_RESOLUTION_REQUIRED = ''release_blocker_resolution_required''"

definition DETAIL_RELEASE_READINESS_RECORDING_READY :: string where [simp, ff_tokens]:
  "DETAIL_RELEASE_READINESS_RECORDING_READY = ''release_readiness_recording_ready''"

definition DETAIL_RUNTIME_RECONCILE_REQUIRED :: string where [simp, ff_tokens]:
  "DETAIL_RUNTIME_RECONCILE_REQUIRED = ''runtime_reconcile_required''"

definition DETAIL_TASK_CLOSURE_RECORDING_READY :: string where [simp, ff_tokens]:
  "DETAIL_TASK_CLOSURE_RECORDING_READY = ''task_closure_recording_ready''"

definition DETAIL_TASK_REVIEW_DISPATCH_REQUIRED :: string where [simp, ff_tokens]:
  "DETAIL_TASK_REVIEW_DISPATCH_REQUIRED = ''task_review_dispatch_required''"

definition DETAIL_TASK_REVIEW_RESULT_PENDING :: string where [simp, ff_tokens]:
  "DETAIL_TASK_REVIEW_RESULT_PENDING = ''task_review_result_pending''"

definition DETAIL_TEST_PLAN_REFRESH_REQUIRED :: string where [simp, ff_tokens]:
  "DETAIL_TEST_PLAN_REFRESH_REQUIRED = ''test_plan_refresh_required''"

definition WORKFLOW_STATUS_IMPLEMENTATION_READY :: string where [simp, ff_tokens]:
  "WORKFLOW_STATUS_IMPLEMENTATION_READY = ''implementation_ready''"

definition PUBLIC_STATUS_PHASE_VALUES :: "string list" where
  "PUBLIC_STATUS_PHASE_VALUES =
    [PHASE_BLOCKED, PHASE_DOCUMENT_RELEASE_PENDING, PHASE_EXECUTING,
     PHASE_EXECUTION_PREFLIGHT, PHASE_FINAL_REVIEW_PENDING, PHASE_HANDOFF_REQUIRED,
     PHASE_PIVOT_REQUIRED, PHASE_QA_PENDING, PHASE_READY_FOR_BRANCH_COMPLETION,
     PHASE_TASK_CLOSURE_PENDING]"

definition WORKFLOW_OPERATOR_PHASE_VALUES :: "string list" where
  "WORKFLOW_OPERATOR_PHASE_VALUES =
    [PHASE_BLOCKED, PHASE_DOCUMENT_RELEASE_PENDING, PHASE_EXECUTING,
     PHASE_EXECUTION_PREFLIGHT, PHASE_FINAL_REVIEW_PENDING, PHASE_HANDOFF_REQUIRED,
     PHASE_IMPLEMENTATION_HANDOFF, PHASE_PIVOT_REQUIRED, PHASE_QA_PENDING,
     PHASE_READY_FOR_BRANCH_COMPLETION, PHASE_TASK_CLOSURE_PENDING]"

definition PLAN_EXECUTION_STATUS_PHASE_DETAIL_VALUES :: "string list" where
  "PLAN_EXECUTION_STATUS_PHASE_DETAIL_VALUES =
    [DETAIL_BLOCKED_RUNTIME_BUG,
     DETAIL_BRANCH_CLOSURE_RECORDING_REQUIRED_FOR_RELEASE_READINESS,
     DETAIL_EXECUTION_IN_PROGRESS, DETAIL_EXECUTION_PREFLIGHT_REQUIRED,
     DETAIL_EXECUTION_REENTRY_REQUIRED, DETAIL_FINAL_REVIEW_DISPATCH_REQUIRED,
     DETAIL_FINAL_REVIEW_OUTCOME_PENDING, DETAIL_FINAL_REVIEW_RECORDING_READY,
     DETAIL_FINISH_COMPLETION_GATE_READY, DETAIL_FINISH_REVIEW_GATE_READY,
     DETAIL_HANDOFF_RECORDING_REQUIRED, DETAIL_PLANNING_REENTRY_REQUIRED,
     DETAIL_QA_RECORDING_REQUIRED, DETAIL_RELEASE_BLOCKER_RESOLUTION_REQUIRED,
     DETAIL_RELEASE_READINESS_RECORDING_READY, DETAIL_RUNTIME_RECONCILE_REQUIRED,
     DETAIL_TASK_CLOSURE_RECORDING_READY, DETAIL_TASK_REVIEW_RESULT_PENDING,
     DETAIL_TEST_PLAN_REFRESH_REQUIRED]"

definition RECORDING_CONTEXT_PHASE_DETAILS :: "string list" where
  "RECORDING_CONTEXT_PHASE_DETAILS =
    [DETAIL_TASK_CLOSURE_RECORDING_READY, DETAIL_RELEASE_READINESS_RECORDING_READY,
     DETAIL_RELEASE_BLOCKER_RESOLUTION_REQUIRED, DETAIL_FINAL_REVIEW_RECORDING_READY]"

definition RECOMMENDED_COMMAND_OMITTED_PHASE_DETAILS :: "string list" where
  "RECOMMENDED_COMMAND_OMITTED_PHASE_DETAILS =
    [DETAIL_BLOCKED_RUNTIME_BUG, DETAIL_TASK_REVIEW_RESULT_PENDING,
     DETAIL_EXECUTION_IN_PROGRESS, DETAIL_PLANNING_REENTRY_REQUIRED,
     DETAIL_RUNTIME_RECONCILE_REQUIRED, DETAIL_FINAL_REVIEW_OUTCOME_PENDING,
     DETAIL_TEST_PLAN_REFRESH_REQUIRED]"

subsection \<open>Review-state and follow-up tokens\<close>

definition REVIEW_STATE_STALE_UNREVIEWED :: string where [simp, ff_tokens]:
  "REVIEW_STATE_STALE_UNREVIEWED = ''stale_unreviewed''"

definition REVIEW_STATE_MISSING_CURRENT_CLOSURE :: string where [simp, ff_tokens]:
  "REVIEW_STATE_MISSING_CURRENT_CLOSURE = ''missing_current_closure''"

definition FOLLOW_UP_REPAIR_REVIEW_STATE :: string where [simp, ff_tokens]:
  "FOLLOW_UP_REPAIR_REVIEW_STATE = ''repair_review_state''"

definition FOLLOW_UP_ADVANCE_LATE_STAGE :: string where [simp, ff_tokens]:
  "FOLLOW_UP_ADVANCE_LATE_STAGE = ''advance_late_stage''"

definition FOLLOW_UP_EXECUTION_REENTRY :: string where [simp, ff_tokens]:
  "FOLLOW_UP_EXECUTION_REENTRY = ''execution_reentry''"

definition FOLLOW_UP_CLOSE_CURRENT_TASK :: string where [simp, ff_tokens]:
  "FOLLOW_UP_CLOSE_CURRENT_TASK = ''close_current_task''"

definition FOLLOW_UP_REQUEST_EXTERNAL_REVIEW :: string where [simp, ff_tokens]:
  "FOLLOW_UP_REQUEST_EXTERNAL_REVIEW = ''request_external_review''"

definition FOLLOW_UP_WAIT_FOR_EXTERNAL_REVIEW_RESULT :: string where [simp, ff_tokens]:
  "FOLLOW_UP_WAIT_FOR_EXTERNAL_REVIEW_RESULT = ''wait_for_external_review_result''"

definition FOLLOW_UP_RUN_VERIFICATION :: string where [simp, ff_tokens]:
  "FOLLOW_UP_RUN_VERIFICATION = ''run_verification''"

definition FOLLOW_UP_RESOLVE_RELEASE_BLOCKER :: string where [simp, ff_tokens]:
  "FOLLOW_UP_RESOLVE_RELEASE_BLOCKER = ''resolve_release_blocker''"

definition FOLLOW_UP_RECORD_HANDOFF :: string where [simp, ff_tokens]:
  "FOLLOW_UP_RECORD_HANDOFF = ''record_handoff''"

definition FOLLOW_UP_GATE_REVIEW :: string where [simp, ff_tokens]:
  "FOLLOW_UP_GATE_REVIEW = ''gate_review''"

definition FOLLOW_UP_GATE_FINISH :: string where [simp, ff_tokens]:
  "FOLLOW_UP_GATE_FINISH = ''gate_finish''"

definition REASON_RELEASE_DOCS_STATE_MISSING :: string where [simp, ff_tokens]:
  "REASON_RELEASE_DOCS_STATE_MISSING = ''release_docs_state_missing''"

definition REASON_RELEASE_DOCS_STATE_STALE :: string where [simp, ff_tokens]:
  "REASON_RELEASE_DOCS_STATE_STALE = ''release_docs_state_stale''"

definition REASON_RELEASE_DOCS_STATE_NOT_FRESH :: string where [simp, ff_tokens]:
  "REASON_RELEASE_DOCS_STATE_NOT_FRESH = ''release_docs_state_not_fresh''"

definition REASON_FINAL_REVIEW_STATE_MISSING :: string where [simp, ff_tokens]:
  "REASON_FINAL_REVIEW_STATE_MISSING = ''final_review_state_missing''"

definition REASON_FINAL_REVIEW_STATE_STALE :: string where [simp, ff_tokens]:
  "REASON_FINAL_REVIEW_STATE_STALE = ''final_review_state_stale''"

definition REASON_FINAL_REVIEW_STATE_NOT_FRESH :: string where [simp, ff_tokens]:
  "REASON_FINAL_REVIEW_STATE_NOT_FRESH = ''final_review_state_not_fresh''"

definition REASON_BROWSER_QA_STATE_MISSING :: string where [simp, ff_tokens]:
  "REASON_BROWSER_QA_STATE_MISSING = ''browser_qa_state_missing''"

definition REASON_BROWSER_QA_STATE_STALE :: string where [simp, ff_tokens]:
  "REASON_BROWSER_QA_STATE_STALE = ''browser_qa_state_stale''"

definition REASON_BROWSER_QA_STATE_NOT_FRESH :: string where [simp, ff_tokens]:
  "REASON_BROWSER_QA_STATE_NOT_FRESH = ''browser_qa_state_not_fresh''"

definition PUBLIC_REVIEW_STATE_STATUS_VALUES :: "string list" where
  "PUBLIC_REVIEW_STATE_STATUS_VALUES =
    [''clean'', REVIEW_STATE_STALE_UNREVIEWED, REVIEW_STATE_MISSING_CURRENT_CLOSURE]"

definition REQUIRED_FOLLOW_UP_SCHEMA_VALUES :: "string list" where
  "REQUIRED_FOLLOW_UP_SCHEMA_VALUES =
    [FOLLOW_UP_EXECUTION_REENTRY, FOLLOW_UP_REPAIR_REVIEW_STATE,
     FOLLOW_UP_REQUEST_EXTERNAL_REVIEW, FOLLOW_UP_RUN_VERIFICATION,
     FOLLOW_UP_ADVANCE_LATE_STAGE, FOLLOW_UP_RESOLVE_RELEASE_BLOCKER,
     FOLLOW_UP_RECORD_HANDOFF]"

definition RELEASE_DOCS_FRESHNESS_REASON_CODES :: "string list" where
  "RELEASE_DOCS_FRESHNESS_REASON_CODES =
    [REASON_RELEASE_DOCS_STATE_MISSING, REASON_RELEASE_DOCS_STATE_STALE,
     REASON_RELEASE_DOCS_STATE_NOT_FRESH]"

definition FINAL_REVIEW_FRESHNESS_REASON_CODES :: "string list" where
  "FINAL_REVIEW_FRESHNESS_REASON_CODES =
    [REASON_FINAL_REVIEW_STATE_MISSING, REASON_FINAL_REVIEW_STATE_STALE,
     REASON_FINAL_REVIEW_STATE_NOT_FRESH]"

definition FINAL_REVIEW_REFRESH_REASON_CODES :: "string list" where
  "FINAL_REVIEW_REFRESH_REASON_CODES =
    [REASON_FINAL_REVIEW_STATE_STALE, REASON_FINAL_REVIEW_STATE_NOT_FRESH]"

definition BROWSER_QA_FRESHNESS_REASON_CODES :: "string list" where
  "BROWSER_QA_FRESHNESS_REASON_CODES =
    [REASON_BROWSER_QA_STATE_MISSING, REASON_BROWSER_QA_STATE_STALE,
     REASON_BROWSER_QA_STATE_NOT_FRESH]"

definition is_release_docs_freshness_reason :: "string \<Rightarrow> bool" where
  "is_release_docs_freshness_reason c \<longleftrightarrow> c \<in> set RELEASE_DOCS_FRESHNESS_REASON_CODES"

definition is_final_review_freshness_reason :: "string \<Rightarrow> bool" where
  "is_final_review_freshness_reason c \<longleftrightarrow> c \<in> set FINAL_REVIEW_FRESHNESS_REASON_CODES"

definition is_final_review_refresh_reason :: "string \<Rightarrow> bool" where
  "is_final_review_refresh_reason c \<longleftrightarrow> c \<in> set FINAL_REVIEW_REFRESH_REASON_CODES"

definition is_browser_qa_freshness_reason :: "string \<Rightarrow> bool" where
  "is_browser_qa_freshness_reason c \<longleftrightarrow> c \<in> set BROWSER_QA_FRESHNESS_REASON_CODES"

subsection \<open>Task-boundary reason codes\<close>

definition TASK_BOUNDARY_DIAGNOSTIC_REASON_PRIOR_TASK_REVIEW_DISPATCH_MISSING :: string where [simp, ff_tokens]:
  "TASK_BOUNDARY_DIAGNOSTIC_REASON_PRIOR_TASK_REVIEW_DISPATCH_MISSING = ''prior_task_review_dispatch_missing''"

definition TASK_BOUNDARY_DIAGNOSTIC_REASON_PRIOR_TASK_REVIEW_DISPATCH_STALE :: string where [simp, ff_tokens]:
  "TASK_BOUNDARY_DIAGNOSTIC_REASON_PRIOR_TASK_REVIEW_DISPATCH_STALE = ''prior_task_review_dispatch_stale''"

definition TASK_BOUNDARY_DIAGNOSTIC_REASON_PRIOR_TASK_VERIFICATION_MISSING :: string where [simp, ff_tokens]:
  "TASK_BOUNDARY_DIAGNOSTIC_REASON_PRIOR_TASK_VERIFICATION_MISSING = ''prior_task_verification_missing''"

definition TASK_BOUNDARY_DIAGNOSTIC_REASON_PRIOR_TASK_VERIFICATION_MISSING_LEGACY :: string where [simp, ff_tokens]:
  "TASK_BOUNDARY_DIAGNOSTIC_REASON_PRIOR_TASK_VERIFICATION_MISSING_LEGACY = ''prior_task_verification_missing_legacy''"

definition TASK_BOUNDARY_DIAGNOSTIC_REASON_TASK_REVIEW_NOT_INDEPENDENT :: string where [simp, ff_tokens]:
  "TASK_BOUNDARY_DIAGNOSTIC_REASON_TASK_REVIEW_NOT_INDEPENDENT = ''task_review_not_independent''"

definition TASK_BOUNDARY_DIAGNOSTIC_REASON_TASK_REVIEW_ARTIFACT_MALFORMED :: string where [simp, ff_tokens]:
  "TASK_BOUNDARY_DIAGNOSTIC_REASON_TASK_REVIEW_ARTIFACT_MALFORMED = ''task_review_artifact_malformed''"

definition TASK_BOUNDARY_DIAGNOSTIC_REASON_TASK_VERIFICATION_SUMMARY_MALFORMED :: string where [simp, ff_tokens]:
  "TASK_BOUNDARY_DIAGNOSTIC_REASON_TASK_VERIFICATION_SUMMARY_MALFORMED = ''task_verification_summary_malformed''"

definition TASK_BOUNDARY_REASON_PRIOR_TASK_CURRENT_CLOSURE_MISSING :: string where [simp, ff_tokens]:
  "TASK_BOUNDARY_REASON_PRIOR_TASK_CURRENT_CLOSURE_MISSING = ''prior_task_current_closure_missing''"

definition TASK_BOUNDARY_REASON_PRIOR_TASK_CURRENT_CLOSURE_STALE :: string where [simp, ff_tokens]:
  "TASK_BOUNDARY_REASON_PRIOR_TASK_CURRENT_CLOSURE_STALE = ''prior_task_current_closure_stale''"

definition TASK_BOUNDARY_REASON_PRIOR_TASK_CURRENT_CLOSURE_INVALID :: string where [simp, ff_tokens]:
  "TASK_BOUNDARY_REASON_PRIOR_TASK_CURRENT_CLOSURE_INVALID = ''prior_task_current_closure_invalid''"

definition TASK_BOUNDARY_REASON_PRIOR_TASK_CURRENT_CLOSURE_REVIEWED_STATE_MALFORMED :: string where [simp, ff_tokens]:
  "TASK_BOUNDARY_REASON_PRIOR_TASK_CURRENT_CLOSURE_REVIEWED_STATE_MALFORMED = ''prior_task_current_closure_reviewed_state_malformed''"

definition TASK_BOUNDARY_REASON_TASK_CYCLE_BREAK_ACTIVE :: string where [simp, ff_tokens]:
  "TASK_BOUNDARY_REASON_TASK_CYCLE_BREAK_ACTIVE = ''task_cycle_break_active''"

definition TASK_BOUNDARY_REASON_CURRENT_TASK_CLOSURE_OVERLAY_RESTORE_REQUIRED :: string where [simp, ff_tokens]:
  "TASK_BOUNDARY_REASON_CURRENT_TASK_CLOSURE_OVERLAY_RESTORE_REQUIRED = ''current_task_closure_overlay_restore_required''"

definition TASK_BOUNDARY_REASON_PRIOR_TASK_REVIEW_NOT_GREEN :: string where [simp, ff_tokens]:
  "TASK_BOUNDARY_REASON_PRIOR_TASK_REVIEW_NOT_GREEN = ''prior_task_review_not_green''"

definition TASK_BOUNDARY_REASON_TASK_CLOSURE_BASELINE_REPAIR_CANDIDATE :: string where [simp, ff_tokens]:
  "TASK_BOUNDARY_REASON_TASK_CLOSURE_BASELINE_REPAIR_CANDIDATE = ''task_closure_baseline_repair_candidate''"

definition TASK_BOUNDARY_REASON_TASK_CLOSURE_BASELINE_BRIDGE_READY :: string where [simp, ff_tokens]:
  "TASK_BOUNDARY_REASON_TASK_CLOSURE_BASELINE_BRIDGE_READY = ''task_closure_baseline_bridge_ready''"

definition TASK_BOUNDARY_REASON_TASK_CLOSURE_RECORDING_READY :: string where [simp, ff_tokens]:
  "TASK_BOUNDARY_REASON_TASK_CLOSURE_RECORDING_READY = DETAIL_TASK_CLOSURE_RECORDING_READY"

definition BRANCH_BOUNDARY_REASON_CURRENT_BRANCH_CLOSURE_REVIEWED_STATE_MALFORMED :: string where [simp, ff_tokens]:
  "BRANCH_BOUNDARY_REASON_CURRENT_BRANCH_CLOSURE_REVIEWED_STATE_MALFORMED = ''current_branch_closure_reviewed_state_malformed''"

definition TASK_BOUNDARY_PROJECTION_DIAGNOSTIC_REASON_CODES :: "string list" where
  "TASK_BOUNDARY_PROJECTION_DIAGNOSTIC_REASON_CODES =
    [TASK_BOUNDARY_DIAGNOSTIC_REASON_PRIOR_TASK_REVIEW_DISPATCH_MISSING,
     TASK_BOUNDARY_DIAGNOSTIC_REASON_PRIOR_TASK_REVIEW_DISPATCH_STALE,
     TASK_BOUNDARY_DIAGNOSTIC_REASON_PRIOR_TASK_VERIFICATION_MISSING,
     TASK_BOUNDARY_DIAGNOSTIC_REASON_PRIOR_TASK_VERIFICATION_MISSING_LEGACY,
     TASK_BOUNDARY_DIAGNOSTIC_REASON_TASK_REVIEW_NOT_INDEPENDENT,
     TASK_BOUNDARY_DIAGNOSTIC_REASON_TASK_REVIEW_ARTIFACT_MALFORMED,
     TASK_BOUNDARY_DIAGNOSTIC_REASON_TASK_VERIFICATION_SUMMARY_MALFORMED]"

definition PUBLIC_TASK_BOUNDARY_REASON_CODES :: "string list" where
  "PUBLIC_TASK_BOUNDARY_REASON_CODES =
    [TASK_BOUNDARY_REASON_PRIOR_TASK_CURRENT_CLOSURE_MISSING,
     TASK_BOUNDARY_REASON_PRIOR_TASK_CURRENT_CLOSURE_STALE,
     TASK_BOUNDARY_REASON_PRIOR_TASK_CURRENT_CLOSURE_INVALID,
     TASK_BOUNDARY_REASON_PRIOR_TASK_CURRENT_CLOSURE_REVIEWED_STATE_MALFORMED,
     TASK_BOUNDARY_REASON_TASK_CYCLE_BREAK_ACTIVE,
     TASK_BOUNDARY_REASON_CURRENT_TASK_CLOSURE_OVERLAY_RESTORE_REQUIRED,
     TASK_BOUNDARY_REASON_PRIOR_TASK_REVIEW_NOT_GREEN,
     TASK_BOUNDARY_REASON_TASK_CLOSURE_BASELINE_REPAIR_CANDIDATE,
     TASK_BOUNDARY_REASON_TASK_CLOSURE_BASELINE_BRIDGE_READY,
     TASK_BOUNDARY_REASON_TASK_CLOSURE_RECORDING_READY]"

definition task_boundary_projection_diagnostic_reason_code :: "string \<Rightarrow> bool" where
  "task_boundary_projection_diagnostic_reason_code c \<longleftrightarrow>
     c \<in> set TASK_BOUNDARY_PROJECTION_DIAGNOSTIC_REASON_CODES"

definition public_task_boundary_reason_code :: "string \<Rightarrow> bool" where
  "public_task_boundary_reason_code c \<longleftrightarrow>
     c \<in> set PUBLIC_TASK_BOUNDARY_REASON_CODES"

definition task_boundary_cycle_break_reason_code :: "string \<Rightarrow> bool" where
  "task_boundary_cycle_break_reason_code c \<longleftrightarrow>
     c = TASK_BOUNDARY_REASON_TASK_CYCLE_BREAK_ACTIVE"

definition task_boundary_overlay_restore_reason_code :: "string \<Rightarrow> bool" where
  "task_boundary_overlay_restore_reason_code c \<longleftrightarrow>
     c = TASK_BOUNDARY_REASON_CURRENT_TASK_CLOSURE_OVERLAY_RESTORE_REQUIRED"

definition task_boundary_negative_review_reason_code :: "string \<Rightarrow> bool" where
  "task_boundary_negative_review_reason_code c \<longleftrightarrow>
     c = TASK_BOUNDARY_REASON_PRIOR_TASK_REVIEW_NOT_GREEN"

definition task_boundary_current_closure_missing_reason_code :: "string \<Rightarrow> bool" where
  "task_boundary_current_closure_missing_reason_code c \<longleftrightarrow>
     c = TASK_BOUNDARY_REASON_PRIOR_TASK_CURRENT_CLOSURE_MISSING"

definition task_boundary_current_closure_stale_reason_code :: "string \<Rightarrow> bool" where
  "task_boundary_current_closure_stale_reason_code c \<longleftrightarrow>
     c = TASK_BOUNDARY_REASON_PRIOR_TASK_CURRENT_CLOSURE_STALE"

definition task_boundary_current_closure_structural_reason_code :: "string \<Rightarrow> bool" where
  "task_boundary_current_closure_structural_reason_code c \<longleftrightarrow>
     c \<in> {TASK_BOUNDARY_REASON_PRIOR_TASK_CURRENT_CLOSURE_INVALID,
      TASK_BOUNDARY_REASON_PRIOR_TASK_CURRENT_CLOSURE_REVIEWED_STATE_MALFORMED}"

definition task_boundary_current_closure_repair_reason_code :: "string \<Rightarrow> bool" where
  "task_boundary_current_closure_repair_reason_code c \<longleftrightarrow>
     task_boundary_current_closure_stale_reason_code c \<or>
     task_boundary_current_closure_structural_reason_code c"

definition task_boundary_current_closure_boundary_reason_code :: "string \<Rightarrow> bool" where
  "task_boundary_current_closure_boundary_reason_code c \<longleftrightarrow>
     task_boundary_current_closure_missing_reason_code c \<or>
     task_boundary_current_closure_repair_reason_code c \<or>
     task_boundary_cycle_break_reason_code c"

definition task_boundary_closure_baseline_repair_candidate_reason_code :: "string \<Rightarrow> bool" where
  "task_boundary_closure_baseline_repair_candidate_reason_code c \<longleftrightarrow>
     c = TASK_BOUNDARY_REASON_TASK_CLOSURE_BASELINE_REPAIR_CANDIDATE"

definition task_boundary_closure_baseline_bridge_ready_reason_code :: "string \<Rightarrow> bool" where
  "task_boundary_closure_baseline_bridge_ready_reason_code c \<longleftrightarrow>
     c = TASK_BOUNDARY_REASON_TASK_CLOSURE_BASELINE_BRIDGE_READY"

definition task_boundary_closure_recording_ready_reason_code :: "string \<Rightarrow> bool" where
  "task_boundary_closure_recording_ready_reason_code c \<longleftrightarrow>
     task_boundary_closure_baseline_repair_candidate_reason_code c \<or>
     task_boundary_closure_baseline_bridge_ready_reason_code c \<or>
     c = TASK_BOUNDARY_REASON_TASK_CLOSURE_RECORDING_READY"

definition current_branch_closure_reviewed_state_malformed_reason_code :: "string \<Rightarrow> bool" where
  "current_branch_closure_reviewed_state_malformed_reason_code c \<longleftrightarrow>
     c = BRANCH_BOUNDARY_REASON_CURRENT_BRANCH_CLOSURE_REVIEWED_STATE_MALFORMED"

definition task_boundary_progress_edge_reason_code :: "string \<Rightarrow> bool" where
  "task_boundary_progress_edge_reason_code c \<longleftrightarrow>
     task_boundary_current_closure_missing_reason_code c \<or>
     task_boundary_current_closure_stale_reason_code c \<or>
     task_boundary_overlay_restore_reason_code c"

definition task_boundary_stale_truth_reason_code :: "string \<Rightarrow> bool" where
  "task_boundary_stale_truth_reason_code c \<longleftrightarrow>
     task_boundary_current_closure_missing_reason_code c \<or>
     task_boundary_current_closure_stale_reason_code c \<or>
     task_boundary_closure_baseline_repair_candidate_reason_code c \<or>
     task_boundary_closure_baseline_bridge_ready_reason_code c \<or>
     task_boundary_cycle_break_reason_code c"

definition task_boundary_blocks_closure_baseline_bridge_reason_code :: "string \<Rightarrow> bool" where
  "task_boundary_blocks_closure_baseline_bridge_reason_code c \<longleftrightarrow>
     task_boundary_current_closure_structural_reason_code c \<or>
     task_boundary_negative_review_reason_code c"

definition task_boundary_begin_block_reason_code :: "string \<Rightarrow> bool" where
  "task_boundary_begin_block_reason_code c \<longleftrightarrow>
     task_boundary_negative_review_reason_code c \<or>
     task_boundary_current_closure_stale_reason_code c \<or>
     task_boundary_current_closure_structural_reason_code c \<or>
     task_boundary_cycle_break_reason_code c \<or>
     task_boundary_overlay_restore_reason_code c"

definition task_boundary_verification_diagnostic_reason_code :: "string \<Rightarrow> bool" where
  "task_boundary_verification_diagnostic_reason_code c \<longleftrightarrow>
     c \<in> {TASK_BOUNDARY_DIAGNOSTIC_REASON_PRIOR_TASK_VERIFICATION_MISSING,
      TASK_BOUNDARY_DIAGNOSTIC_REASON_PRIOR_TASK_VERIFICATION_MISSING_LEGACY,
      TASK_BOUNDARY_DIAGNOSTIC_REASON_TASK_VERIFICATION_SUMMARY_MALFORMED}"

definition task_boundary_pending_review_projection_reason_code :: "string \<Rightarrow> bool" where
  "task_boundary_pending_review_projection_reason_code c \<longleftrightarrow>
     c \<in> {TASK_BOUNDARY_DIAGNOSTIC_REASON_PRIOR_TASK_VERIFICATION_MISSING,
      TASK_BOUNDARY_DIAGNOSTIC_REASON_PRIOR_TASK_VERIFICATION_MISSING_LEGACY,
      TASK_BOUNDARY_DIAGNOSTIC_REASON_TASK_REVIEW_NOT_INDEPENDENT,
      TASK_BOUNDARY_DIAGNOSTIC_REASON_TASK_REVIEW_ARTIFACT_MALFORMED,
      TASK_BOUNDARY_DIAGNOSTIC_REASON_TASK_VERIFICATION_SUMMARY_MALFORMED}"

end
