(* ===== verification/Follow_Up.thy ===== *)
theory Follow_Up
  imports Runtime_Tokens
begin

text \<open>
  Follow-up kinds, their alias table, and the repair follow-up record
  (\<^verbatim>\<open>src/src/execution/follow_up.rs\<close>).  The constructors of \<^verbatim>\<open>FollowUpKind\<close> carry the prefix
  \<open>FU\<close>, those of \<^verbatim>\<open>RepairFollowUpKind\<close> the prefix \<open>RFU\<close>, those of \<^verbatim>\<open>RepairTargetScope\<close> the
  suffix \<open>Scope\<close>, because the Rust enums reuse each other's variant names.
\<close>

datatype FollowUpKind =
    FU_RepairReviewState
  | FU_AdvanceLateStage
  | FU_ExecutionReentry
  | FU_CloseCurrentTask
  | FU_RequestExternalReview
  | FU_WaitForExternalReviewResult
  | FU_RunVerification
  | FU_ResolveReleaseBlocker
  | FU_RecordHandoff
  | FU_GateReview
  | FU_GateFinish

definition PUBLIC_FOLLOW_UP_KINDS :: "FollowUpKind list" where
  "PUBLIC_FOLLOW_UP_KINDS =
    [FU_RepairReviewState, FU_AdvanceLateStage, FU_ExecutionReentry, FU_CloseCurrentTask,
     FU_RequestExternalReview, FU_WaitForExternalReviewResult, FU_RunVerification,
     FU_ResolveReleaseBlocker, FU_RecordHandoff, FU_GateReview, FU_GateFinish]"

datatype FollowUpAliasContext = PublicRouting | PersistedRepairState

datatype RepairFollowUpKind =
    RFU_RecordBranchClosure
  | RFU_AdvanceLateStage
  | RFU_RecordFinalReview
  | RFU_RecordQa
  | RFU_CloseTask
  | RFU_RepairReviewState
  | RFU_ExecutionReentry
  | RFU_RequestExternalReview
  | RFU_WaitForExternalReviewResult
  | RFU_RunVerification
  | RFU_ResolveReleaseBlocker
  | RFU_RecordHandoff
  | RFU_GateReview
  | RFU_GateFinish

datatype RepairTargetScope =
    TaskClosureScope
  | BranchClosureScope
  | ReleaseReadinessScope
  | FinalReviewScope
  | QaScope
  | ExecutionStepScope

record RepairFollowUpRecord =
  rfu_kind :: RepairFollowUpKind
  rfu_target_scope :: RepairTargetScope
  rfu_target_task :: "nat option"
  rfu_target_step :: "nat option"
  rfu_target_record_id :: "string option"
  rfu_semantic_workspace_state_id :: "string option"
  rfu_source_route_decision_hash :: "string option"
  rfu_created_sequence :: nat
  rfu_created_at :: "string option"
  rfu_expires_on_plan_fingerprint_change :: bool

definition execution_step_repair_target_id :: "nat \<Rightarrow> nat \<Rightarrow> string" where
  "execution_step_repair_target_id task step =
     ''execution-step-'' @ show_nat task @ ''-'' @ show_nat step"

record FollowUpAliasRule =
  rule_token :: string
  rule_public_kind :: "FollowUpKind option"
  rule_persisted_repair_kind :: "FollowUpKind option"

definition alias_rule :: "string \<Rightarrow> FollowUpKind \<Rightarrow> FollowUpKind \<Rightarrow> FollowUpAliasRule" where
  "alias_rule t p r =
     \<lparr>rule_token = t, rule_public_kind = Some p, rule_persisted_repair_kind = Some r\<rparr>"

definition FOLLOW_UP_ALIAS_RULES :: "FollowUpAliasRule list" where
  "FOLLOW_UP_ALIAS_RULES =
    [alias_rule ''record_branch_closure'' FU_AdvanceLateStage FU_AdvanceLateStage,
     alias_rule ''branch_closure'' FU_AdvanceLateStage FU_AdvanceLateStage,
     alias_rule FOLLOW_UP_ADVANCE_LATE_STAGE FU_AdvanceLateStage FU_AdvanceLateStage,
     alias_rule ''record_task_closure'' FU_ExecutionReentry FU_CloseCurrentTask,
     alias_rule FOLLOW_UP_CLOSE_CURRENT_TASK FU_CloseCurrentTask FU_CloseCurrentTask,
     alias_rule FOLLOW_UP_EXECUTION_REENTRY FU_ExecutionReentry FU_ExecutionReentry,
     alias_rule FOLLOW_UP_REQUEST_EXTERNAL_REVIEW FU_RequestExternalReview FU_RequestExternalReview,
     alias_rule FOLLOW_UP_WAIT_FOR_EXTERNAL_REVIEW_RESULT
       FU_WaitForExternalReviewResult FU_WaitForExternalReviewResult,
     alias_rule FOLLOW_UP_RUN_VERIFICATION FU_RunVerification FU_RunVerification,
     alias_rule FOLLOW_UP_RESOLVE_RELEASE_BLOCKER FU_ResolveReleaseBlocker FU_ResolveReleaseBlocker,
     alias_rule FOLLOW_UP_RECORD_HANDOFF FU_RecordHandoff FU_RecordHandoff,
     alias_rule FOLLOW_UP_REPAIR_REVIEW_STATE FU_RepairReviewState FU_RepairReviewState,
     alias_rule ''record_pivot'' FU_RepairReviewState FU_RepairReviewState,
     alias_rule FOLLOW_UP_GATE_REVIEW FU_GateReview FU_GateReview,
     alias_rule FOLLOW_UP_GATE_FINISH FU_GateFinish FU_GateFinish]"

fun follow_up_public_token :: "FollowUpKind \<Rightarrow> string" where
  "follow_up_public_token FU_RepairReviewState = FOLLOW_UP_REPAIR_REVIEW_STATE"
| "follow_up_public_token FU_AdvanceLateStage = FOLLOW_UP_ADVANCE_LATE_STAGE"
| "follow_up_public_token FU_ExecutionReentry = FOLLOW_UP_EXECUTION_REENTRY"
| "follow_up_public_token FU_CloseCurrentTask = FOLLOW_UP_CLOSE_CURRENT_TASK"
| "follow_up_public_token FU_RequestExternalReview = FOLLOW_UP_REQUEST_EXTERNAL_REVIEW"
| "follow_up_public_token FU_WaitForExternalReviewResult =
     FOLLOW_UP_WAIT_FOR_EXTERNAL_REVIEW_RESULT"
| "follow_up_public_token FU_RunVerification = FOLLOW_UP_RUN_VERIFICATION"
| "follow_up_public_token FU_ResolveReleaseBlocker = FOLLOW_UP_RESOLVE_RELEASE_BLOCKER"
| "follow_up_public_token FU_RecordHandoff = FOLLOW_UP_RECORD_HANDOFF"
| "follow_up_public_token FU_GateReview = FOLLOW_UP_GATE_REVIEW"
| "follow_up_public_token FU_GateFinish = FOLLOW_UP_GATE_FINISH"

definition public_follow_up_tokens :: "string list" where
  "public_follow_up_tokens = map follow_up_public_token PUBLIC_FOLLOW_UP_KINDS"

definition repair_kind_from_persisted_token :: "string \<Rightarrow> RepairFollowUpKind option" where
  "repair_kind_from_persisted_token token =
     (let t = trim token in
      if t \<in> {''record_branch_closure'', ''branch_closure''} then Some RFU_RecordBranchClosure
      else if t = FOLLOW_UP_ADVANCE_LATE_STAGE then Some RFU_AdvanceLateStage
      else if t \<in> {''record_task_closure'', FOLLOW_UP_CLOSE_CURRENT_TASK} then Some RFU_CloseTask
      else if t = FOLLOW_UP_EXECUTION_REENTRY then Some RFU_ExecutionReentry
      else if t \<in> {FOLLOW_UP_REPAIR_REVIEW_STATE, ''record_pivot''} then Some RFU_RepairReviewState
      else if t = FOLLOW_UP_REQUEST_EXTERNAL_REVIEW then Some RFU_RequestExternalReview
      else if t = FOLLOW_UP_WAIT_FOR_EXTERNAL_REVIEW_RESULT
        then Some RFU_WaitForExternalReviewResult
      else if t = FOLLOW_UP_RUN_VERIFICATION then Some RFU_RunVerification
      else if t = FOLLOW_UP_RESOLVE_RELEASE_BLOCKER then Some RFU_ResolveReleaseBlocker
      else if t = FOLLOW_UP_RECORD_HANDOFF then Some RFU_RecordHandoff
      else if t = FOLLOW_UP_GATE_REVIEW then Some RFU_GateReview
      else if t = FOLLOW_UP_GATE_FINISH then Some RFU_GateFinish
      else None)"

fun repair_kind_persisted_token :: "RepairFollowUpKind \<Rightarrow> string" where
  "repair_kind_persisted_token RFU_RecordBranchClosure = ''record_branch_closure''"
| "repair_kind_persisted_token RFU_AdvanceLateStage = FOLLOW_UP_ADVANCE_LATE_STAGE"
| "repair_kind_persisted_token RFU_RecordFinalReview = ''record_final_review''"
| "repair_kind_persisted_token RFU_RecordQa = ''record_qa''"
| "repair_kind_persisted_token RFU_CloseTask = ''record_task_closure''"
| "repair_kind_persisted_token RFU_RepairReviewState = FOLLOW_UP_REPAIR_REVIEW_STATE"
| "repair_kind_persisted_token RFU_ExecutionReentry = FOLLOW_UP_EXECUTION_REENTRY"
| "repair_kind_persisted_token RFU_RequestExternalReview = FOLLOW_UP_REQUEST_EXTERNAL_REVIEW"
| "repair_kind_persisted_token RFU_WaitForExternalReviewResult =
     FOLLOW_UP_WAIT_FOR_EXTERNAL_REVIEW_RESULT"
| "repair_kind_persisted_token RFU_RunVerification = FOLLOW_UP_RUN_VERIFICATION"
| "repair_kind_persisted_token RFU_ResolveReleaseBlocker = FOLLOW_UP_RESOLVE_RELEASE_BLOCKER"
| "repair_kind_persisted_token RFU_RecordHandoff = FOLLOW_UP_RECORD_HANDOFF"
| "repair_kind_persisted_token RFU_GateReview = FOLLOW_UP_GATE_REVIEW"
| "repair_kind_persisted_token RFU_GateFinish = FOLLOW_UP_GATE_FINISH"

fun repair_kind_public_token :: "RepairFollowUpKind \<Rightarrow> string" where
  "repair_kind_public_token RFU_RecordBranchClosure = FOLLOW_UP_ADVANCE_LATE_STAGE"
| "repair_kind_public_token RFU_AdvanceLateStage = FOLLOW_UP_ADVANCE_LATE_STAGE"
| "repair_kind_public_token RFU_CloseTask = FOLLOW_UP_CLOSE_CURRENT_TASK"
| "repair_kind_public_token other = repair_kind_persisted_token other"

fun repair_kind_target_scope :: "RepairFollowUpKind \<Rightarrow> RepairTargetScope" where
  "repair_kind_target_scope RFU_RecordBranchClosure = BranchClosureScope"
| "repair_kind_target_scope RFU_AdvanceLateStage = BranchClosureScope"
| "repair_kind_target_scope RFU_ResolveReleaseBlocker = BranchClosureScope"
| "repair_kind_target_scope RFU_RecordFinalReview = FinalReviewScope"
| "repair_kind_target_scope RFU_RequestExternalReview = FinalReviewScope"
| "repair_kind_target_scope RFU_WaitForExternalReviewResult = FinalReviewScope"
| "repair_kind_target_scope RFU_GateReview = FinalReviewScope"
| "repair_kind_target_scope RFU_GateFinish = FinalReviewScope"
| "repair_kind_target_scope RFU_RecordQa = QaScope"
| "repair_kind_target_scope RFU_RunVerification = QaScope"
| "repair_kind_target_scope RFU_CloseTask = TaskClosureScope"
| "repair_kind_target_scope RFU_RepairReviewState = ExecutionStepScope"
| "repair_kind_target_scope RFU_ExecutionReentry = ExecutionStepScope"
| "repair_kind_target_scope RFU_RecordHandoff = ExecutionStepScope"

definition public_routing_alias :: "string \<Rightarrow> FollowUpKind option" where
  "public_routing_alias follow_up =
     Option.bind (find (\<lambda>rule. rule_token rule = follow_up) FOLLOW_UP_ALIAS_RULES)
       rule_public_kind"

definition persisted_repair_state_alias :: "string \<Rightarrow> FollowUpKind option" where
  "persisted_repair_state_alias follow_up =
     Option.bind (find (\<lambda>rule. rule_token rule = follow_up) FOLLOW_UP_ALIAS_RULES)
       rule_persisted_repair_kind"

definition normalize_follow_up_alias ::
  "string option \<Rightarrow> FollowUpAliasContext \<Rightarrow> FollowUpKind option" where
  "normalize_follow_up_alias follow_up ctx =
     (case trim_nonempty follow_up of
        None \<Rightarrow> None
      | Some f \<Rightarrow>
          (case ctx of
             PublicRouting \<Rightarrow> public_routing_alias f
           | PersistedRepairState \<Rightarrow> persisted_repair_state_alias f))"

definition normalize_public_routing_follow_up_token :: "string option \<Rightarrow> string option" where
  "normalize_public_routing_follow_up_token follow_up =
     map_option follow_up_public_token (normalize_follow_up_alias follow_up PublicRouting)"

definition normalize_persisted_repair_follow_up_token :: "string option \<Rightarrow> string option" where
  "normalize_persisted_repair_follow_up_token follow_up =
     map_option follow_up_public_token (normalize_follow_up_alias follow_up PersistedRepairState)"

definition task_review_result_requires_verification :: "string list \<Rightarrow> bool" where
  "task_review_result_requires_verification reason_codes =
     list_ex task_boundary_verification_diagnostic_reason_code reason_codes"

definition follow_up_from_phase_detail :: "string \<Rightarrow> string list \<Rightarrow> FollowUpKind option" where
  "follow_up_from_phase_detail phase_detail blocking_reason_codes =
     (if phase_detail = DETAIL_BRANCH_CLOSURE_RECORDING_REQUIRED_FOR_RELEASE_READINESS
        then Some FU_AdvanceLateStage
      else if phase_detail = DETAIL_FINAL_REVIEW_DISPATCH_REQUIRED
        then Some FU_RequestExternalReview
      else if phase_detail = DETAIL_TASK_REVIEW_RESULT_PENDING
        then (if task_review_result_requires_verification blocking_reason_codes
              then Some FU_RunVerification else Some FU_WaitForExternalReviewResult)
      else if phase_detail = DETAIL_FINAL_REVIEW_OUTCOME_PENDING
        then Some FU_WaitForExternalReviewResult
      else if phase_detail = DETAIL_RELEASE_BLOCKER_RESOLUTION_REQUIRED
        then Some FU_ResolveReleaseBlocker
      else if phase_detail = DETAIL_EXECUTION_REENTRY_REQUIRED
        then Some FU_ExecutionReentry
      else if phase_detail = DETAIL_HANDOFF_RECORDING_REQUIRED
        then Some FU_RecordHandoff
      else None)"

definition finish_review_gate_already_current_reason_code :: "string \<Rightarrow> bool" where
  "finish_review_gate_already_current_reason_code c \<longleftrightarrow> c = ''finish_review_gate_already_current''"

definition direct_gate_follow_up_from_reason_codes ::
  "string list \<Rightarrow> string option \<Rightarrow> FollowUpKind option \<Rightarrow> FollowUpKind option" where
  "direct_gate_follow_up_from_reason_codes reason_codes review_state_status required_follow_up =
     (if list_ex (\<lambda>code. code \<in>
           {DETAIL_BRANCH_CLOSURE_RECORDING_REQUIRED_FOR_RELEASE_READINESS,
            DETAIL_RELEASE_BLOCKER_RESOLUTION_REQUIRED,
            DETAIL_RELEASE_READINESS_RECORDING_READY}) reason_codes
        then opt_or required_follow_up (Some FU_AdvanceLateStage)
      else if list_ex finish_review_gate_already_current_reason_code reason_codes
        then Some FU_GateFinish
      else if ''finish_review_gate_checkpoint_missing'' \<in> set reason_codes
        then Some FU_GateReview
      else if list_ex task_boundary_overlay_restore_reason_code reason_codes
        then Some FU_RepairReviewState
      else if ''current_branch_reviewed_state_id_missing'' \<in> set reason_codes
        then Some FU_RepairReviewState
      else if ''unfinished_steps_remaining'' \<in> set reason_codes \<and>
              (is_some_and review_state_status (\<lambda>status. status \<noteq> ''clean'') \<or>
               required_follow_up = Some FU_RepairReviewState)
        then Some FU_RepairReviewState
      else None)"

subsection \<open>Facts about the alias table\<close>

lemmas alias_defs = FOLLOW_UP_ALIAS_RULES_def alias_rule_def public_routing_alias_def
  persisted_repair_state_alias_def

lemma trim_public_token [simp]: "trim_nonempty (Some (follow_up_public_token k)) = Some (follow_up_public_token k)"
  by (cases k) (simp_all add: trim_nonempty_def trim_def trim_start_def trim_end_def is_ws_def)

lemma aliases_of_public_token:
  "public_routing_alias (follow_up_public_token k) = Some k"
  "persisted_repair_state_alias (follow_up_public_token k) = Some k"
  by (cases k; simp add: alias_defs)+

lemma normalize_public_token [simp]:
  "normalize_follow_up_alias (Some (follow_up_public_token k)) ctx = Some k"
  by (cases ctx) (simp_all add: normalize_follow_up_alias_def aliases_of_public_token)

lemma trim_persisted_token [simp]:
  "trim (repair_kind_persisted_token k) = repair_kind_persisted_token k"
  by (cases k) (simp_all add: trim_def trim_start_def trim_end_def is_ws_def)

end
