(* ===== verification/Command_Kind.thy ===== *)
theory Command_Kind
  imports Runtime_Tokens
begin

text \<open>
  The public command kinds and their tokens (\<^verbatim>\<open>PublicCommandKind\<close> of
  \<^verbatim>\<open>src/src/execution/command_eligibility/command_kind.rs\<close>).
\<close>

datatype PublicCommandKind =
    WorkflowOperator
  | Status
  | RepairReviewStateCommand
  | CloseCurrentTaskCommand
  | AdvanceLateStageCommand
  | BeginCommand
  | CompleteCommand
  | ReopenCommand
  | TransferCommand
  | MaterializeProjectionsStateDirOnly

definition PUBLIC_MUTATION_COMMAND_KINDS :: "PublicCommandKind list" where
  "PUBLIC_MUTATION_COMMAND_KINDS =
    [BeginCommand, CompleteCommand, ReopenCommand, TransferCommand, CloseCurrentTaskCommand,
     RepairReviewStateCommand, AdvanceLateStageCommand]"

fun command_kind_as_str :: "PublicCommandKind \<Rightarrow> string" where
  "command_kind_as_str WorkflowOperator = ''workflow_operator''"
| "command_kind_as_str Status = ''status''"
| "command_kind_as_str RepairReviewStateCommand = FOLLOW_UP_REPAIR_REVIEW_STATE"
| "command_kind_as_str CloseCurrentTaskCommand = FOLLOW_UP_CLOSE_CURRENT_TASK"
| "command_kind_as_str AdvanceLateStageCommand = FOLLOW_UP_ADVANCE_LATE_STAGE"
| "command_kind_as_str BeginCommand = ''begin''"
| "command_kind_as_str CompleteCommand = ''complete''"
| "command_kind_as_str ReopenCommand = ''reopen''"
| "command_kind_as_str TransferCommand = ''transfer''"
| "command_kind_as_str MaterializeProjectionsStateDirOnly =
     ''materialize_projections_state_dir_only''"

fun public_mutation_name :: "PublicCommandKind \<Rightarrow> string option" where
  "public_mutation_name BeginCommand = Some ''begin''"
| "public_mutation_name CompleteCommand = Some ''complete''"
| "public_mutation_name ReopenCommand = Some ''reopen''"
| "public_mutation_name TransferCommand = Some ''transfer''"
| "public_mutation_name CloseCurrentTaskCommand = Some ''close-current-task''"
| "public_mutation_name RepairReviewStateCommand = Some ''repair-review-state''"
| "public_mutation_name AdvanceLateStageCommand = Some ''advance-late-stage''"
| "public_mutation_name _ = None"

fun is_execution_mutation :: "PublicCommandKind \<Rightarrow> bool" where
  "is_execution_mutation BeginCommand = True"
| "is_execution_mutation CompleteCommand = True"
| "is_execution_mutation ReopenCommand = True"
| "is_execution_mutation _ = False"

definition execution_mutation_name :: "PublicCommandKind \<Rightarrow> string option" where
  "execution_mutation_name k = (if is_execution_mutation k then public_mutation_name k else None)"

definition is_public_mutation :: "PublicCommandKind \<Rightarrow> bool" where
  "is_public_mutation k \<longleftrightarrow> public_mutation_name k \<noteq> None"

definition matches_public_mutation_token :: "PublicCommandKind \<Rightarrow> string \<Rightarrow> bool" where
  "matches_public_mutation_token k token \<longleftrightarrow> public_mutation_name k = Some token"

definition from_execution_mutation_name :: "string \<Rightarrow> PublicCommandKind option" where
  "from_execution_mutation_name command_kind =
     (if command_kind = ''begin'' then Some BeginCommand
      else if command_kind = ''complete'' then Some CompleteCommand
      else if command_kind = ''reopen'' then Some ReopenCommand
      else None)"

definition from_public_mutation_token :: "string \<Rightarrow> PublicCommandKind option" where
  "from_public_mutation_token command_kind =
     find (\<lambda>k. matches_public_mutation_token k command_kind) PUBLIC_MUTATION_COMMAND_KINDS"

lemma PUBLIC_MUTATION_COMMAND_KINDS_iff:
  "k \<in> set PUBLIC_MUTATION_COMMAND_KINDS \<longleftrightarrow> is_public_mutation k"
  by (cases k) (simp_all add: PUBLIC_MUTATION_COMMAND_KINDS_def is_public_mutation_def)

lemma public_mutation_name_inj:
  "public_mutation_name k = Some t \<Longrightarrow> public_mutation_name k' = Some t \<Longrightarrow> k = k'"
  by (cases k; cases k') auto

lemma from_public_mutation_token_iff:
  "from_public_mutation_token t = Some k \<longleftrightarrow> public_mutation_name k = Some t"
proof
  assume "from_public_mutation_token t = Some k"
  then show "public_mutation_name k = Some t"
    by (auto simp: from_public_mutation_token_def matches_public_mutation_token_def
        find_Some_iff)
next
  assume t: "public_mutation_name k = Some t"
  then have "from_public_mutation_token t \<noteq> None"
    using PUBLIC_MUTATION_COMMAND_KINDS_iff [of k]
    by (auto simp: from_public_mutation_token_def matches_public_mutation_token_def
        find_None_iff is_public_mutation_def)
  then obtain k' where k': "from_public_mutation_token t = Some k'" by blast
  then have "public_mutation_name k' = Some t"
    by (auto simp: from_public_mutation_token_def matches_public_mutation_token_def
        find_Some_iff)
  with t k' show "from_public_mutation_token t = Some k"
    using public_mutation_name_inj by metis
qed

lemma from_execution_mutation_name_iff:
  "from_execution_mutation_name t = Some k \<longleftrightarrow> execution_mutation_name k = Some t"
  by (cases k) (auto simp: from_execution_mutation_name_def execution_mutation_name_def)

end
