(* ===== verification/Event_Types.thy ===== *)
theory Event_Types
  imports Json_Value Follow_Up Command_Kind
begin

text \<open>
  The data of the authoritative event log (\<^verbatim>\<open>src/src/execution/event_log.rs\<close>): the constant
  lists of field names each event scope may carry, the typed fact payloads, the events and the
  envelope around them.

  A fact payload struct such as \<^verbatim>\<open>StepEventFacts\<close> has one optional JSON value per declared
  field.  It is modelled by the list \<open>StepEventFacts_fields\<close> of its field names, in declaration
  order, and a value of the struct by the association list of its populated fields; the
  predicate \<open>facts_typed\<close> says that an association list is such a value.
\<close>

subsection \<open>Field lists\<close>

definition FIELD_HANDOFF_REQUIRED :: string where [simp]:
  "FIELD_HANDOFF_REQUIRED = ''handoff_required''"

definition RUN_METADATA_FIELDS :: "string list" where
  "RUN_METADATA_FIELDS =
    [''schema_version'', ''harness_phase'', ''latest_authoritative_sequence'',
     ''authoritative_sequence'', ''source_plan_path'', ''source_plan_revision'',
     ''execution_plan_projection_fingerprint'',
     ''execution_evidence_projection_fingerprint'', ''execution_evidence_attempts'',
     ''run_identity'', ''execution_run_id'', ''chunk_id'', ''active_contract_path'',
     ''active_contract_fingerprint'', ''active_worktree_lease_fingerprints'',
     ''active_worktree_lease_bindings'', ''released_worktree_lease_records'',
     ''required_evaluator_kinds'', ''completed_evaluator_kinds'',
     ''pending_evaluator_kinds'', ''non_passing_evaluator_kinds'',
     ''failed_evaluator_kinds'', ''blocked_evaluator_kinds'', ''aggregate_evaluation_state'',
     ''last_evaluation_report_path'', ''last_evaluation_report_fingerprint'',
     ''last_evaluation_evaluator_kind'', ''last_evaluation_verdict'',
     ''current_chunk_retry_count'', ''current_chunk_retry_budget'',
     ''current_chunk_pivot_threshold'', FIELD_HANDOFF_REQUIRED, ''open_failed_criteria'',
     ''write_authority_state'', ''write_authority_holder'', ''write_authority_worktree'',
     ''repo_state_baseline_head_sha'', ''repo_state_baseline_worktree_fingerprint'',
     ''repo_state_drift_state'', ''reason_codes'', ''strategy_state'',
     ''last_strategy_checkpoint_fingerprint'', ''strategy_checkpoint_kind'',
     ''strategy_reset_required'', ''strategy_cycle_counts'',
     ''strategy_review_dispatch_credits'', ''dependency_index_state'']"

definition HANDOFF_FIELDS :: "string list" where
  "HANDOFF_FIELDS =
    [FIELD_HANDOFF_REQUIRED, ''last_handoff_path'', ''last_handoff_fingerprint'',
     ''harness_phase'']"

definition STEP_EVENT_FIELDS :: "string list" where
  "STEP_EVENT_FIELDS =
    [''current_open_step_state'', ''execution_plan_projection_fingerprint'',
     ''execution_evidence_projection_fingerprint'', ''execution_evidence_attempts'',
     ''harness_phase'', FIELD_HANDOFF_REQUIRED, ''aggregate_evaluation_state'',
     ''review_state_repair_follow_up_record'', ''review_state_repair_follow_up'',
     ''strategy_checkpoints'', ''strategy_state'', ''strategy_checkpoint_kind'',
     ''last_strategy_checkpoint_fingerprint'', ''strategy_reset_required'',
     ''strategy_cycle_counts'', ''strategy_review_dispatch_credits'',
     ''strategy_cycle_break_task'', ''strategy_cycle_break_step'',
     ''strategy_cycle_break_checkpoint_fingerprint'', ''last_evaluation_report_path'',
     ''last_evaluation_report_fingerprint'', ''last_evaluation_evaluator_kind'',
     ''last_evaluation_verdict'', ''last_handoff_path'', ''last_handoff_fingerprint'',
     ''last_pivot_path'', ''last_pivot_fingerprint'']"

definition TRANSFER_EVENT_FIELDS :: "string list" where
  "TRANSFER_EVENT_FIELDS =
    [''current_transfer_scope'', ''current_transfer_to'', ''current_open_step_state'',
     ''harness_phase'', FIELD_HANDOFF_REQUIRED, ''last_handoff_path'',
     ''last_handoff_fingerprint'']"

definition DISPATCH_EVENT_FIELDS :: "string list" where
  "DISPATCH_EVENT_FIELDS =
    [''current_task_review_dispatch_id'', ''current_final_review_dispatch_id'',
     ''task_closure_negative_result_records'', ''task_closure_negative_result_history'',
     ''strategy_review_dispatch_lineage'', ''strategy_review_dispatch_lineage_history'',
     ''final_review_dispatch_lineage'', ''final_review_dispatch_lineage_history'',
     ''harness_phase'', ''strategy_checkpoints'', ''strategy_state'',
     ''strategy_checkpoint_kind'', ''last_strategy_checkpoint_fingerprint'',
     ''strategy_reset_required'', ''strategy_cycle_counts'',
     ''strategy_review_dispatch_credits'', ''strategy_cycle_break_task'',
     ''strategy_cycle_break_step'', ''strategy_cycle_break_checkpoint_fingerprint'']"

definition DISPATCH_PRIMARY_EVENT_FIELDS :: "string list" where
  "DISPATCH_PRIMARY_EVENT_FIELDS =
    [''current_task_review_dispatch_id'', ''current_final_review_dispatch_id'',
     ''strategy_review_dispatch_lineage'', ''strategy_review_dispatch_lineage_history'',
     ''final_review_dispatch_lineage'', ''final_review_dispatch_lineage_history'']"

definition TASK_CLOSURE_EVENT_FIELDS :: "string list" where
  "TASK_CLOSURE_EVENT_FIELDS =
    [''current_open_step_state'', ''harness_phase'', ''current_task_closure_records'',
     ''task_closure_record_history'', ''task_closure_negative_result_records'',
     ''task_closure_negative_result_history'', ''superseded_task_closure_ids'',
     ''review_state_repair_follow_up_record'', ''review_state_repair_follow_up'',
     ''current_task_review_dispatch_id'', ''strategy_review_dispatch_lineage'',
     ''strategy_review_dispatch_lineage_history'', ''strategy_checkpoints'',
     ''strategy_state'', ''strategy_checkpoint_kind'',
     ''last_strategy_checkpoint_fingerprint'', ''strategy_reset_required'',
     ''strategy_cycle_counts'', ''strategy_review_dispatch_credits'',
     ''strategy_cycle_break_task'', ''strategy_cycle_break_step'',
     ''strategy_cycle_break_checkpoint_fingerprint'']"

definition BRANCH_CLOSURE_EVENT_FIELDS :: "string list" where
  "BRANCH_CLOSURE_EVENT_FIELDS =
    [''branch_closure_records'', ''current_branch_closure_id'',
     ''current_branch_closure_reviewed_state_id'',
     ''current_branch_closure_contract_identity'', ''superseded_branch_closure_ids'',
     ''review_state_repair_follow_up_record'', ''review_state_repair_follow_up'',
     ''review_state_repair_follow_up_task'', ''review_state_repair_follow_up_step'',
     ''review_state_repair_follow_up_closure_record_id'',
     ''release_readiness_record_history'', ''current_release_readiness_record_id'',
     ''current_release_readiness_result'', ''current_release_readiness_summary_hash'',
     ''release_docs_state'', ''last_release_docs_artifact_fingerprint'',
     ''final_review_record_history'', ''current_final_review_branch_closure_id'',
     ''current_final_review_dispatch_id'', ''current_final_review_reviewer_source'',
     ''current_final_review_reviewer_id'', ''current_final_review_result'',
     ''current_final_review_summary_hash'', ''current_final_review_record_id'',
     ''final_review_state'', ''last_final_review_artifact_fingerprint'',
     ''final_review_dispatch_lineage'', ''final_review_dispatch_lineage_history'',
     ''browser_qa_record_history'', ''current_qa_branch_closure_id'', ''current_qa_result'',
     ''current_qa_summary_hash'', ''current_qa_record_id'', ''browser_qa_state'',
     ''last_browser_qa_artifact_fingerprint'', ''finish_review_gate_pass_branch_closure_id'',
     ''harness_phase'']"

definition BRANCH_CLOSURE_PRIMARY_EVENT_FIELDS :: "string list" where
  "BRANCH_CLOSURE_PRIMARY_EVENT_FIELDS =
    [''branch_closure_records'', ''current_branch_closure_id'',
     ''current_branch_closure_reviewed_state_id'',
     ''current_branch_closure_contract_identity'', ''superseded_branch_closure_ids'']"

definition BRANCH_CLOSURE_REPAIR_EVENT_FIELDS :: "string list" where
  "BRANCH_CLOSURE_REPAIR_EVENT_FIELDS =
    [''review_state_repair_follow_up_record'', ''review_state_repair_follow_up'',
     ''review_state_repair_follow_up_task'', ''review_state_repair_follow_up_step'',
     ''review_state_repair_follow_up_closure_record_id'']"

definition RELEASE_READINESS_EVENT_FIELDS :: "string list" where
  "RELEASE_READINESS_EVENT_FIELDS =
    [''release_readiness_record_history'', ''current_release_readiness_record_id'',
     ''current_release_readiness_result'', ''current_release_readiness_summary_hash'',
     ''release_docs_state'', ''last_release_docs_artifact_fingerprint'',
     ''final_review_record_history'', ''current_final_review_branch_closure_id'',
     ''current_final_review_dispatch_id'', ''current_final_review_reviewer_source'',
     ''current_final_review_reviewer_id'', ''current_final_review_result'',
     ''current_final_review_summary_hash'', ''current_final_review_record_id'',
     ''final_review_state'', ''last_final_review_artifact_fingerprint'',
     ''browser_qa_record_history'', ''current_qa_branch_closure_id'', ''current_qa_result'',
     ''current_qa_summary_hash'', ''current_qa_record_id'', ''browser_qa_state'',
     ''last_browser_qa_artifact_fingerprint'', ''final_review_dispatch_lineage'',
     ''final_review_dispatch_lineage_history'',
     ''finish_review_gate_pass_branch_closure_id'', ''harness_phase'']"

definition RELEASE_READINESS_PRIMARY_EVENT_FIELDS :: "string list" where
  "RELEASE_READINESS_PRIMARY_EVENT_FIELDS =
    [''release_readiness_record_history'', ''current_release_readiness_record_id'']"

definition FINAL_REVIEW_EVENT_FIELDS :: "string list" where
  "FINAL_REVIEW_EVENT_FIELDS =
    [''final_review_record_history'', ''current_final_review_branch_closure_id'',
     ''current_final_review_dispatch_id'', ''current_final_review_reviewer_source'',
     ''current_final_review_reviewer_id'', ''current_final_review_result'',
     ''current_final_review_summary_hash'', ''current_final_review_record_id'',
     ''final_review_state'', ''last_final_review_artifact_fingerprint'',
     ''browser_qa_record_history'', ''current_qa_branch_closure_id'', ''current_qa_result'',
     ''current_qa_summary_hash'', ''current_qa_record_id'', ''browser_qa_state'',
     ''last_browser_qa_artifact_fingerprint'', ''finish_review_gate_pass_branch_closure_id'',
     ''harness_phase'']"

definition FINAL_REVIEW_PRIMARY_EVENT_FIELDS :: "string list" where
  "FINAL_REVIEW_PRIMARY_EVENT_FIELDS =
    [''final_review_record_history'', ''current_final_review_record_id'']"

definition QA_EVENT_FIELDS :: "string list" where
  "QA_EVENT_FIELDS =
    [''browser_qa_record_history'', ''current_qa_branch_closure_id'', ''current_qa_result'',
     ''current_qa_summary_hash'', ''current_qa_record_id'', ''browser_qa_state'',
     ''last_browser_qa_artifact_fingerprint'', ''finish_review_gate_pass_branch_closure_id'',
     ''harness_phase'']"

definition QA_PRIMARY_EVENT_FIELDS :: "string list" where
  "QA_PRIMARY_EVENT_FIELDS =
    [''browser_qa_record_history'', ''current_qa_record_id'']"

definition REPAIR_EVENT_FIELDS :: "string list" where
  "REPAIR_EVENT_FIELDS =
    [''current_open_step_state'', ''current_task_closure_records'',
     ''task_closure_record_history'', ''task_closure_negative_result_records'',
     ''task_closure_negative_result_history'', ''superseded_task_closure_ids'',
     ''current_branch_closure_id'', ''current_branch_closure_reviewed_state_id'',
     ''current_branch_closure_contract_identity'', ''branch_closure_records'',
     ''superseded_branch_closure_ids'', ''current_release_readiness_record_id'',
     ''current_release_readiness_result'', ''current_release_readiness_summary_hash'',
     ''release_readiness_record_history'', ''release_docs_state'',
     ''last_release_docs_artifact_fingerprint'', ''current_final_review_branch_closure_id'',
     ''current_final_review_dispatch_id'', ''current_final_review_reviewer_source'',
     ''current_final_review_reviewer_id'', ''current_final_review_result'',
     ''current_final_review_summary_hash'', ''current_final_review_record_id'',
     ''final_review_record_history'', ''final_review_state'',
     ''last_final_review_artifact_fingerprint'', ''current_qa_branch_closure_id'',
     ''current_qa_result'', ''current_qa_summary_hash'', ''current_qa_record_id'',
     ''browser_qa_record_history'', ''browser_qa_state'',
     ''last_browser_qa_artifact_fingerprint'', ''review_state_repair_follow_up_record'',
     ''review_state_repair_follow_up'', ''review_state_repair_follow_up_task'',
     ''review_state_repair_follow_up_step'',
     ''review_state_repair_follow_up_closure_record_id'', ''explicit_reopen_repair_targets'',
     ''harness_phase'', ''current_task_review_dispatch_id'',
     ''current_final_review_dispatch_id'', ''strategy_review_dispatch_lineage'',
     ''strategy_review_dispatch_lineage_history'', ''final_review_dispatch_lineage'',
     ''final_review_dispatch_lineage_history'', ''strategy_checkpoints'', ''strategy_state'',
     ''strategy_checkpoint_kind'', ''last_strategy_checkpoint_fingerprint'',
     ''strategy_reset_required'', ''strategy_cycle_counts'',
     ''strategy_review_dispatch_credits'', ''strategy_cycle_break_task'',
     ''strategy_cycle_break_step'', ''strategy_cycle_break_checkpoint_fingerprint'',
     ''finish_review_gate_pass_branch_closure_id'']"

definition STRATEGY_EVENT_FIELDS :: "string list" where
  "STRATEGY_EVENT_FIELDS =
    [''strategy_checkpoints'', ''strategy_state'', ''strategy_checkpoint_kind'',
     ''last_strategy_checkpoint_fingerprint'', ''strategy_reset_required'',
     ''strategy_cycle_counts'', ''strategy_review_dispatch_credits'',
     ''strategy_cycle_break_task'', ''strategy_cycle_break_step'',
     ''strategy_cycle_break_checkpoint_fingerprint'',
     ''finish_review_gate_pass_branch_closure_id'', ''harness_phase'']"

definition AUTHORITATIVE_EVENT_FIELDS :: "string list" where
  "AUTHORITATIVE_EVENT_FIELDS =
    [''schema_version'', ''harness_phase'', ''latest_authoritative_sequence'',
     ''authoritative_sequence'', ''source_plan_path'', ''source_plan_revision'',
     ''execution_plan_projection_fingerprint'',
     ''execution_evidence_projection_fingerprint'', ''execution_evidence_attempts'',
     ''run_identity'', ''execution_run_id'', ''chunk_id'', ''active_contract_path'',
     ''active_contract_fingerprint'', ''active_worktree_lease_fingerprints'',
     ''active_worktree_lease_bindings'', ''released_worktree_lease_records'',
     ''required_evaluator_kinds'', ''completed_evaluator_kinds'',
     ''pending_evaluator_kinds'', ''non_passing_evaluator_kinds'',
     ''failed_evaluator_kinds'', ''blocked_evaluator_kinds'', ''aggregate_evaluation_state'',
     ''last_evaluation_report_path'', ''last_evaluation_report_fingerprint'',
     ''last_evaluation_evaluator_kind'', ''last_evaluation_verdict'',
     ''current_chunk_retry_count'', ''current_chunk_retry_budget'',
     ''current_chunk_pivot_threshold'', FIELD_HANDOFF_REQUIRED, ''open_failed_criteria'',
     ''write_authority_state'', ''write_authority_holder'', ''write_authority_worktree'',
     ''repo_state_baseline_head_sha'', ''repo_state_baseline_worktree_fingerprint'',
     ''repo_state_drift_state'', ''reason_codes'', ''dependency_index_state'',
     ''current_open_step_state'', ''current_transfer_scope'', ''current_transfer_to'',
     ''current_task_closure_records'', ''task_closure_record_history'',
     ''task_closure_negative_result_records'', ''task_closure_negative_result_history'',
     ''superseded_task_closure_ids'', ''branch_closure_records'',
     ''current_branch_closure_id'', ''current_branch_closure_reviewed_state_id'',
     ''current_branch_closure_contract_identity'', ''superseded_branch_closure_ids'',
     ''release_readiness_record_history'', ''current_release_readiness_record_id'',
     ''current_release_readiness_result'', ''current_release_readiness_summary_hash'',
     ''release_docs_state'', ''last_release_docs_artifact_fingerprint'',
     ''final_review_record_history'', ''current_final_review_branch_closure_id'',
     ''current_final_review_dispatch_id'', ''current_final_review_reviewer_source'',
     ''current_final_review_reviewer_id'', ''current_final_review_result'',
     ''current_final_review_summary_hash'', ''current_final_review_record_id'',
     ''final_review_state'', ''last_final_review_artifact_fingerprint'',
     ''browser_qa_record_history'', ''current_qa_branch_closure_id'', ''current_qa_result'',
     ''current_qa_summary_hash'', ''current_qa_record_id'', ''browser_qa_state'',
     ''last_browser_qa_artifact_fingerprint'', ''review_state_repair_follow_up_record'',
     ''review_state_repair_follow_up'', ''review_state_repair_follow_up_task'',
     ''review_state_repair_follow_up_step'',
     ''review_state_repair_follow_up_closure_record_id'', ''explicit_reopen_repair_targets'',
     ''current_task_review_dispatch_id'', ''strategy_review_dispatch_lineage'',
     ''strategy_review_dispatch_lineage_history'', ''final_review_dispatch_lineage'',
     ''final_review_dispatch_lineage_history'', ''strategy_checkpoints'', ''strategy_state'',
     ''strategy_checkpoint_kind'', ''last_strategy_checkpoint_fingerprint'',
     ''strategy_reset_required'', ''strategy_cycle_counts'',
     ''strategy_review_dispatch_credits'', ''strategy_cycle_break_task'',
     ''strategy_cycle_break_step'', ''strategy_cycle_break_checkpoint_fingerprint'',
     ''finish_review_gate_pass_branch_closure_id'', ''last_handoff_path'',
     ''last_handoff_fingerprint'', ''last_pivot_path'', ''last_pivot_fingerprint'']"

definition RECORD_MAP_DELTA_FIELDS :: "string list" where
  "RECORD_MAP_DELTA_FIELDS =
    [''current_task_closure_records'', ''task_closure_record_history'',
     ''task_closure_negative_result_records'', ''task_closure_negative_result_history'',
     ''branch_closure_records'', ''release_readiness_record_history'',
     ''final_review_record_history'', ''browser_qa_record_history'',
     ''strategy_review_dispatch_lineage'', ''strategy_review_dispatch_lineage_history'',
     ''final_review_dispatch_lineage'', ''final_review_dispatch_lineage_history'']"

subsection \<open>Typed fact payloads\<close>

definition AuthoritativeFactBuilder_fields :: "string list" where
  "AuthoritativeFactBuilder_fields =
    [''schema_version'', ''harness_phase'', ''latest_authoritative_sequence'',
     ''authoritative_sequence'', ''source_plan_path'', ''source_plan_revision'',
     ''execution_plan_projection_fingerprint'',
     ''execution_evidence_projection_fingerprint'', ''execution_evidence_attempts'',
     ''run_identity'', ''execution_run_id'', ''chunk_id'', ''active_contract_path'',
     ''active_contract_fingerprint'', ''active_worktree_lease_fingerprints'',
     ''active_worktree_lease_bindings'', ''released_worktree_lease_records'',
     ''required_evaluator_kinds'', ''completed_evaluator_kinds'',
     ''pending_evaluator_kinds'', ''non_passing_evaluator_kinds'',
     ''failed_evaluator_kinds'', ''blocked_evaluator_kinds'', ''aggregate_evaluation_state'',
     ''last_evaluation_report_path'', ''last_evaluation_report_fingerprint'',
     ''last_evaluation_evaluator_kind'', ''last_evaluation_verdict'',
     ''current_chunk_retry_count'', ''current_chunk_retry_budget'',
     ''current_chunk_pivot_threshold'', FIELD_HANDOFF_REQUIRED, ''open_failed_criteria'',
     ''write_authority_state'', ''write_authority_holder'', ''write_authority_worktree'',
     ''repo_state_baseline_head_sha'', ''repo_state_baseline_worktree_fingerprint'',
     ''repo_state_drift_state'', ''reason_codes'', ''strategy_state'',
     ''last_strategy_checkpoint_fingerprint'', ''strategy_checkpoint_kind'',
     ''strategy_reset_required'', ''strategy_cycle_counts'',
     ''strategy_review_dispatch_credits'', ''dependency_index_state'',
     ''current_open_step_state'', ''current_transfer_scope'', ''current_transfer_to'',
     ''current_task_closure_records'', ''task_closure_record_history'',
     ''task_closure_negative_result_records'', ''task_closure_negative_result_history'',
     ''superseded_task_closure_ids'', ''branch_closure_records'',
     ''current_branch_closure_id'', ''current_branch_closure_reviewed_state_id'',
     ''current_branch_closure_contract_identity'', ''superseded_branch_closure_ids'',
     ''release_readiness_record_history'', ''current_release_readiness_record_id'',
     ''current_release_readiness_result'', ''current_release_readiness_summary_hash'',
     ''final_review_record_history'', ''current_final_review_branch_closure_id'',
     ''current_final_review_dispatch_id'', ''current_final_review_reviewer_source'',
     ''current_final_review_reviewer_id'', ''current_final_review_result'',
     ''current_final_review_summary_hash'', ''current_final_review_record_id'',
     ''browser_qa_record_history'', ''current_qa_branch_closure_id'', ''current_qa_result'',
     ''current_qa_summary_hash'', ''current_qa_record_id'',
     ''review_state_repair_follow_up_record'', ''review_state_repair_follow_up'',
     ''review_state_repair_follow_up_task'', ''review_state_repair_follow_up_step'',
     ''review_state_repair_follow_up_closure_record_id'', ''explicit_reopen_repair_targets'',
     ''current_task_review_dispatch_id'', ''strategy_review_dispatch_lineage'',
     ''strategy_review_dispatch_lineage_history'', ''final_review_dispatch_lineage'',
     ''final_review_dispatch_lineage_history'', ''strategy_checkpoints'',
     ''strategy_cycle_break_task'', ''strategy_cycle_break_step'',
     ''strategy_cycle_break_checkpoint_fingerprint'',
     ''finish_review_gate_pass_branch_closure_id'', ''last_handoff_path'',
     ''last_handoff_fingerprint'', ''last_pivot_path'', ''last_pivot_fingerprint'']"

definition StepEventFacts_fields :: "string list" where
  "StepEventFacts_fields =
    [''current_open_step_state'', ''execution_plan_projection_fingerprint'',
     ''execution_evidence_projection_fingerprint'', ''execution_evidence_attempts'',
     ''harness_phase'', FIELD_HANDOFF_REQUIRED, ''aggregate_evaluation_state'',
     ''review_state_repair_follow_up_record'', ''review_state_repair_follow_up'',
     ''strategy_checkpoints'', ''strategy_state'', ''strategy_checkpoint_kind'',
     ''last_strategy_checkpoint_fingerprint'', ''strategy_reset_required'',
     ''strategy_cycle_counts'', ''strategy_review_dispatch_credits'',
     ''strategy_cycle_break_task'', ''strategy_cycle_break_step'',
     ''strategy_cycle_break_checkpoint_fingerprint'', ''last_evaluation_report_path'',
     ''last_evaluation_report_fingerprint'', ''last_evaluation_evaluator_kind'',
     ''last_evaluation_verdict'', ''last_handoff_path'', ''last_handoff_fingerprint'',
     ''last_pivot_path'', ''last_pivot_fingerprint'']"

definition TransferEventFacts_fields :: "string list" where
  "TransferEventFacts_fields =
    [''current_transfer_scope'', ''current_transfer_to'', ''current_open_step_state'',
     ''harness_phase'', FIELD_HANDOFF_REQUIRED, ''last_handoff_path'',
     ''last_handoff_fingerprint'']"

definition DispatchEventFacts_fields :: "string list" where
  "DispatchEventFacts_fields =
    [''current_task_review_dispatch_id'', ''current_final_review_dispatch_id'',
     ''task_closure_negative_result_records'', ''task_closure_negative_result_history'',
     ''strategy_review_dispatch_lineage'', ''strategy_review_dispatch_lineage_history'',
     ''final_review_dispatch_lineage'', ''final_review_dispatch_lineage_history'',
     ''harness_phase'', ''strategy_checkpoints'', ''strategy_state'',
     ''strategy_checkpoint_kind'', ''last_strategy_checkpoint_fingerprint'',
     ''strategy_reset_required'', ''strategy_cycle_counts'',
     ''strategy_review_dispatch_credits'', ''strategy_cycle_break_task'',
     ''strategy_cycle_break_step'', ''strategy_cycle_break_checkpoint_fingerprint'']"

definition TaskClosureEventFacts_fields :: "string list" where
  "TaskClosureEventFacts_fields =
    [''current_open_step_state'', ''harness_phase'', ''current_task_closure_records'',
     ''task_closure_record_history'', ''task_closure_negative_result_records'',
     ''task_closure_negative_result_history'', ''superseded_task_closure_ids'',
     ''review_state_repair_follow_up_record'', ''review_state_repair_follow_up'',
     ''current_task_review_dispatch_id'', ''strategy_review_dispatch_lineage'',
     ''strategy_review_dispatch_lineage_history'', ''strategy_checkpoints'',
     ''strategy_state'', ''strategy_checkpoint_kind'',
     ''last_strategy_checkpoint_fingerprint'', ''strategy_reset_required'',
     ''strategy_cycle_counts'', ''strategy_review_dispatch_credits'',
     ''strategy_cycle_break_task'', ''strategy_cycle_break_step'',
     ''strategy_cycle_break_checkpoint_fingerprint'']"

definition BranchClosureEventFacts_fields :: "string list" where
  "BranchClosureEventFacts_fields =
    [''branch_closure_records'', ''current_branch_closure_id'',
     ''current_branch_closure_reviewed_state_id'',
     ''current_branch_closure_contract_identity'', ''superseded_branch_closure_ids'',
     ''review_state_repair_follow_up_record'', ''review_state_repair_follow_up'',
     ''review_state_repair_follow_up_task'', ''review_state_repair_follow_up_step'',
     ''review_state_repair_follow_up_closure_record_id'',
     ''release_readiness_record_history'', ''current_release_readiness_record_id'',
     ''current_release_readiness_result'', ''current_release_readiness_summary_hash'',
     ''final_review_record_history'', ''current_final_review_branch_closure_id'',
     ''current_final_review_dispatch_id'', ''current_final_review_reviewer_source'',
     ''current_final_review_reviewer_id'', ''current_final_review_result'',
     ''current_final_review_summary_hash'', ''current_final_review_record_id'',
     ''final_review_dispatch_lineage'', ''final_review_dispatch_lineage_history'',
     ''browser_qa_record_history'', ''current_qa_branch_closure_id'', ''current_qa_result'',
     ''current_qa_summary_hash'', ''current_qa_record_id'',
     ''finish_review_gate_pass_branch_closure_id'', ''harness_phase'']"

definition ReleaseReadinessEventFacts_fields :: "string list" where
  "ReleaseReadinessEventFacts_fields =
    [''release_readiness_record_history'', ''current_release_readiness_record_id'',
     ''current_release_readiness_result'', ''current_release_readiness_summary_hash'',
     ''final_review_record_history'', ''current_final_review_branch_closure_id'',
     ''current_final_review_dispatch_id'', ''current_final_review_reviewer_source'',
     ''current_final_review_reviewer_id'', ''current_final_review_result'',
     ''current_final_review_summary_hash'', ''current_final_review_record_id'',
     ''browser_qa_record_history'', ''current_qa_branch_closure_id'', ''current_qa_result'',
     ''current_qa_summary_hash'', ''current_qa_record_id'',
     ''final_review_dispatch_lineage'', ''final_review_dispatch_lineage_history'',
     ''finish_review_gate_pass_branch_closure_id'', ''harness_phase'']"

definition FinalReviewEventFacts_fields :: "string list" where
  "FinalReviewEventFacts_fields =
    [''final_review_record_history'', ''current_final_review_branch_closure_id'',
     ''current_final_review_dispatch_id'', ''current_final_review_reviewer_source'',
     ''current_final_review_reviewer_id'', ''current_final_review_result'',
     ''current_final_review_summary_hash'', ''current_final_review_record_id'',
     ''browser_qa_record_history'', ''current_qa_branch_closure_id'', ''current_qa_result'',
     ''current_qa_summary_hash'', ''current_qa_record_id'',
     ''finish_review_gate_pass_branch_closure_id'', ''harness_phase'']"

definition QaEventFacts_fields :: "string list" where
  "QaEventFacts_fields =
    [''browser_qa_record_history'', ''current_qa_branch_closure_id'', ''current_qa_result'',
     ''current_qa_summary_hash'', ''current_qa_record_id'',
     ''finish_review_gate_pass_branch_closure_id'', ''harness_phase'']"

definition RepairEventFacts_fields :: "string list" where
  "RepairEventFacts_fields =
    [''current_open_step_state'', ''current_task_closure_records'',
     ''task_closure_record_history'', ''task_closure_negative_result_records'',
     ''task_closure_negative_result_history'', ''superseded_task_closure_ids'',
     ''current_branch_closure_id'', ''current_branch_closure_reviewed_state_id'',
     ''current_branch_closure_contract_identity'', ''branch_closure_records'',
     ''superseded_branch_closure_ids'', ''current_release_readiness_record_id'',
     ''current_release_readiness_result'', ''current_release_readiness_summary_hash'',
     ''release_readiness_record_history'', ''current_final_review_branch_closure_id'',
     ''current_final_review_dispatch_id'', ''current_final_review_reviewer_source'',
     ''current_final_review_reviewer_id'', ''current_final_review_result'',
     ''current_final_review_summary_hash'', ''current_final_review_record_id'',
     ''final_review_record_history'', ''current_qa_branch_closure_id'',
     ''current_qa_result'', ''current_qa_summary_hash'', ''current_qa_record_id'',
     ''browser_qa_record_history'', ''review_state_repair_follow_up_record'',
     ''review_state_repair_follow_up'', ''review_state_repair_follow_up_task'',
     ''review_state_repair_follow_up_step'',
     ''review_state_repair_follow_up_closure_record_id'', ''explicit_reopen_repair_targets'',
     ''harness_phase'', ''current_task_review_dispatch_id'',
     ''strategy_review_dispatch_lineage'', ''strategy_review_dispatch_lineage_history'',
     ''final_review_dispatch_lineage'', ''final_review_dispatch_lineage_history'',
     ''strategy_checkpoints'', ''strategy_state'', ''strategy_checkpoint_kind'',
     ''last_strategy_checkpoint_fingerprint'', ''strategy_reset_required'',
     ''strategy_cycle_counts'', ''strategy_review_dispatch_credits'',
     ''strategy_cycle_break_task'', ''strategy_cycle_break_step'',
     ''strategy_cycle_break_checkpoint_fingerprint'',
     ''finish_review_gate_pass_branch_closure_id'']"

definition StrategyEventFacts_fields :: "string list" where
  "StrategyEventFacts_fields =
    [''strategy_checkpoints'', ''strategy_state'', ''strategy_checkpoint_kind'',
     ''last_strategy_checkpoint_fingerprint'', ''strategy_reset_required'',
     ''strategy_cycle_counts'', ''strategy_review_dispatch_credits'',
     ''strategy_cycle_break_task'', ''strategy_cycle_break_step'',
     ''strategy_cycle_break_checkpoint_fingerprint'',
     ''finish_review_gate_pass_branch_closure_id'', ''harness_phase'']"

definition RunMetadataEventFacts_fields :: "string list" where
  "RunMetadataEventFacts_fields =
    [''schema_version'', ''harness_phase'', ''latest_authoritative_sequence'',
     ''authoritative_sequence'', ''source_plan_path'', ''source_plan_revision'',
     ''execution_plan_projection_fingerprint'',
     ''execution_evidence_projection_fingerprint'', ''execution_evidence_attempts'',
     ''run_identity'', ''execution_run_id'', ''chunk_id'', ''active_contract_path'',
     ''active_contract_fingerprint'', ''active_worktree_lease_fingerprints'',
     ''active_worktree_lease_bindings'', ''released_worktree_lease_records'',
     ''required_evaluator_kinds'', ''completed_evaluator_kinds'',
     ''pending_evaluator_kinds'', ''non_passing_evaluator_kinds'',
     ''failed_evaluator_kinds'', ''blocked_evaluator_kinds'', ''aggregate_evaluation_state'',
     ''last_evaluation_report_path'', ''last_evaluation_report_fingerprint'',
     ''last_evaluation_evaluator_kind'', ''last_evaluation_verdict'',
     ''current_chunk_retry_count'', ''current_chunk_retry_budget'',
     ''current_chunk_pivot_threshold'', FIELD_HANDOFF_REQUIRED, ''open_failed_criteria'',
     ''write_authority_state'', ''write_authority_holder'', ''write_authority_worktree'',
     ''repo_state_baseline_head_sha'', ''repo_state_baseline_worktree_fingerprint'',
     ''repo_state_drift_state'', ''reason_codes'', ''strategy_state'',
     ''last_strategy_checkpoint_fingerprint'', ''strategy_checkpoint_kind'',
     ''strategy_reset_required'', ''strategy_cycle_counts'',
     ''strategy_review_dispatch_credits'', ''dependency_index_state'']"

definition HandoffEventFacts_fields :: "string list" where
  "HandoffEventFacts_fields =
    [FIELD_HANDOFF_REQUIRED, ''last_handoff_path'', ''last_handoff_fingerprint'',
     ''harness_phase'']"

text \<open>The builder: one optional value per field of \<^verbatim>\<open>authoritative_fact_fields!\<close>.\<close>

type_synonym facts = "(string \<times> json) list"
type_synonym fact_builder = "string \<rightharpoonup> json"

definition set_field_value :: "fact_builder \<Rightarrow> string \<Rightarrow> json \<Rightarrow> bool \<times> fact_builder" where
  "set_field_value b field v =
     (if field \<in> set AuthoritativeFactBuilder_fields then (True, b(field \<mapsto> v)) else (False, b))"

definition builder_from_iter :: "(string \<times> json) list \<Rightarrow> fact_builder" where
  "builder_from_iter kvs = fold (\<lambda>kv b. snd (set_field_value b (fst kv) (snd kv))) kvs Map.empty"

text \<open>\<^verbatim>\<open>From<AuthoritativeFactBuilder>\<close>: a payload struct takes the builder's values of its own
  fields, in declaration order.\<close>

definition facts_from_builder :: "string list \<Rightarrow> fact_builder \<Rightarrow> facts" where
  "facts_from_builder flds b =
     concat (map (\<lambda>f. case b f of None \<Rightarrow> [] | Some v \<Rightarrow> [(f, v)]) flds)"

definition facts_get :: "facts \<Rightarrow> string \<Rightarrow> json option" where
  "facts_get fs field = map_of fs field"

definition populated_field_names :: "facts \<Rightarrow> string list" where
  "populated_field_names fs = map fst fs"

definition facts_typed :: "string list \<Rightarrow> facts \<Rightarrow> bool" where
  "facts_typed flds fs \<longleftrightarrow> set (map fst fs) \<subseteq> set flds"

subsection \<open>Events and envelopes\<close>

record BranchContext =
  bc_repo_slug :: string
  bc_branch_name :: string
  bc_safe_branch :: string

datatype ExecutionEvent =
    MigrationImported (legacy_state_backup_path: string)
  | Begin "nat option" "nat option" facts
  | Note "nat option" "nat option" "string option" facts
  | Complete "nat option" "nat option" facts
  | Reopen "nat option" "nat option" facts
  | Transfer "string option" "string option" facts
  | DispatchRecorded "string option" "string option" facts
  | TaskClosureRecorded "nat option" "string option" facts
  | BranchClosureRecorded "string option" facts
  | ReleaseReadinessRecorded "string option" facts
  | FinalReviewRecorded "string option" "string option" facts
  | QaRecorded "string option" facts
  | RepairFollowUpSet "RepairFollowUpRecord option" facts
  | RepairFollowUpCleared facts
  | StrategyCheckpointRecorded "string option" "string option" facts
  | StrategyCheckpointCleared facts
  | PreflightBootstrapRecorded facts
  | ContractRecorded facts
  | EvaluationRecorded facts
  | HandoffRecorded facts
  | WorktreeLeaseIndexUpdated facts
  | RecordStatusTransition string "string option" "string option" "nat option"

fun event_facts :: "ExecutionEvent \<Rightarrow> facts option" where
  "event_facts (MigrationImported _) = None"
| "event_facts (RecordStatusTransition _ _ _ _) = None"
| "event_facts (Begin _ _ facts) = Some facts"
| "event_facts (Note _ _ _ facts) = Some facts"
| "event_facts (Complete _ _ facts) = Some facts"
| "event_facts (Reopen _ _ facts) = Some facts"
| "event_facts (Transfer _ _ facts) = Some facts"
| "event_facts (DispatchRecorded _ _ facts) = Some facts"
| "event_facts (TaskClosureRecorded _ _ facts) = Some facts"
| "event_facts (BranchClosureRecorded _ facts) = Some facts"
| "event_facts (ReleaseReadinessRecorded _ facts) = Some facts"
| "event_facts (FinalReviewRecorded _ _ facts) = Some facts"
| "event_facts (QaRecorded _ facts) = Some facts"
| "event_facts (RepairFollowUpSet _ facts) = Some facts"
| "event_facts (RepairFollowUpCleared facts) = Some facts"
| "event_facts (StrategyCheckpointRecorded _ _ facts) = Some facts"
| "event_facts (StrategyCheckpointCleared facts) = Some facts"
| "event_facts (PreflightBootstrapRecorded facts) = Some facts"
| "event_facts (ContractRecorded facts) = Some facts"
| "event_facts (EvaluationRecorded facts) = Some facts"
| "event_facts (WorktreeLeaseIndexUpdated facts) = Some facts"
| "event_facts (HandoffRecorded facts) = Some facts"

text \<open>The struct each event's \<^verbatim>\<open>facts\<close> member has, by its field names.\<close>

fun event_struct_fields :: "ExecutionEvent \<Rightarrow> string list" where
  "event_struct_fields (MigrationImported _) = []"
| "event_struct_fields (RecordStatusTransition _ _ _ _) = []"
| "event_struct_fields (Begin _ _ _) = StepEventFacts_fields"
| "event_struct_fields (Note _ _ _ _) = StepEventFacts_fields"
| "event_struct_fields (Complete _ _ _) = StepEventFacts_fields"
| "event_struct_fields (Reopen _ _ _) = StepEventFacts_fields"
| "event_struct_fields (Transfer _ _ _) = TransferEventFacts_fields"
| "event_struct_fields (DispatchRecorded _ _ _) = DispatchEventFacts_fields"
| "event_struct_fields (TaskClosureRecorded _ _ _) = TaskClosureEventFacts_fields"
| "event_struct_fields (BranchClosureRecorded _ _) = BranchClosureEventFacts_fields"
| "event_struct_fields (ReleaseReadinessRecorded _ _) = ReleaseReadinessEventFacts_fields"
| "event_struct_fields (FinalReviewRecorded _ _ _) = FinalReviewEventFacts_fields"
| "event_struct_fields (QaRecorded _ _) = QaEventFacts_fields"
| "event_struct_fields (RepairFollowUpSet _ _) = RepairEventFacts_fields"
| "event_struct_fields (RepairFollowUpCleared _) = RepairEventFacts_fields"
| "event_struct_fields (StrategyCheckpointRecorded _ _ _) = StrategyEventFacts_fields"
| "event_struct_fields (StrategyCheckpointCleared _) = StrategyEventFacts_fields"
| "event_struct_fields (PreflightBootstrapRecorded _) = RunMetadataEventFacts_fields"
| "event_struct_fields (ContractRecorded _) = RunMetadataEventFacts_fields"
| "event_struct_fields (EvaluationRecorded _) = RunMetadataEventFacts_fields"
| "event_struct_fields (WorktreeLeaseIndexUpdated _) = RunMetadataEventFacts_fields"
| "event_struct_fields (HandoffRecorded _) = HandoffEventFacts_fields"

definition event_typed :: "ExecutionEvent \<Rightarrow> bool" where
  "event_typed e \<longleftrightarrow>
     (case event_facts e of None \<Rightarrow> True | Some fs \<Rightarrow> facts_typed (event_struct_fields e) fs)"

fun kind_name :: "ExecutionEvent \<Rightarrow> string" where
  "kind_name (MigrationImported _) = ''migration_imported''"
| "kind_name (Begin _ _ _) = ''begin''"
| "kind_name (Note _ _ _ _) = ''note''"
| "kind_name (Complete _ _ _) = ''complete''"
| "kind_name (Reopen _ _ _) = ''reopen''"
| "kind_name (Transfer _ _ _) = ''transfer''"
| "kind_name (DispatchRecorded _ _ _) = ''dispatch_recorded''"
| "kind_name (TaskClosureRecorded _ _ _) = ''task_closure_recorded''"
| "kind_name (BranchClosureRecorded _ _) = ''branch_closure_recorded''"
| "kind_name (ReleaseReadinessRecorded _ _) = ''release_readiness_recorded''"
| "kind_name (FinalReviewRecorded _ _ _) = ''final_review_recorded''"
| "kind_name (QaRecorded _ _) = ''qa_recorded''"
| "kind_name (RepairFollowUpSet _ _) = ''repair_follow_up_set''"
| "kind_name (RepairFollowUpCleared _) = ''repair_follow_up_cleared''"
| "kind_name (StrategyCheckpointRecorded _ _ _) = ''strategy_checkpoint_recorded''"
| "kind_name (StrategyCheckpointCleared _) = ''strategy_checkpoint_cleared''"
| "kind_name (PreflightBootstrapRecorded _) = ''preflight_bootstrap_recorded''"
| "kind_name (ContractRecorded _) = ''contract_recorded''"
| "kind_name (EvaluationRecorded _) = ''evaluation_recorded''"
| "kind_name (HandoffRecorded _) = ''handoff_recorded''"
| "kind_name (WorktreeLeaseIndexUpdated _) = ''worktree_lease_index_updated''"
| "kind_name (RecordStatusTransition _ _ _ _) = ''record_status_transition''"

record ExecutionEventEnvelope =
  schema_version :: nat
  event_id :: string
  sequence :: nat
  timestamp :: string
  command :: string
  plan_path :: "string option"
  plan_revision :: "nat option"
  execution_run_id :: "string option"
  branch_context :: BranchContext
  previous_event_hash :: "string option"
  event_hash :: string
  payload :: ExecutionEvent

record EventHashShape =
  hs_schema_version :: nat
  hs_event_id :: string
  hs_sequence :: nat
  hs_timestamp :: string
  hs_command :: string
  hs_plan_path :: "string option"
  hs_plan_revision :: "nat option"
  hs_execution_run_id :: "string option"
  hs_branch_context :: BranchContext
  hs_previous_event_hash :: "string option"
  hs_payload :: ExecutionEvent

record EventEnvelopeMetadata =
  md_command :: string
  md_plan_path :: "string option"
  md_plan_revision :: "nat option"
  md_execution_run_id :: "string option"
  md_branch_context :: BranchContext

definition authoritative_event_field_allowed :: "string \<Rightarrow> bool" where
  "authoritative_event_field_allowed field \<longleftrightarrow> field \<in> set AUTHORITATIVE_EVENT_FIELDS"

definition record_map_delta_field :: "string \<Rightarrow> bool" where
  "record_map_delta_field field \<longleftrightarrow> field \<in> set RECORD_MAP_DELTA_FIELDS"

text \<open>The list of the match in \<^verbatim>\<open>event_fact_field_allowed\<close> for each event.\<close>

fun event_scope_fields :: "ExecutionEvent \<Rightarrow> string list" where
  "event_scope_fields (MigrationImported _) = []"
| "event_scope_fields (RecordStatusTransition _ _ _ _) = []"
| "event_scope_fields (Begin _ _ _) = STEP_EVENT_FIELDS"
| "event_scope_fields (Note _ _ _ _) = STEP_EVENT_FIELDS"
| "event_scope_fields (Complete _ _ _) = STEP_EVENT_FIELDS"
| "event_scope_fields (Reopen _ _ _) = STEP_EVENT_FIELDS"
| "event_scope_fields (Transfer _ _ _) = TRANSFER_EVENT_FIELDS"
| "event_scope_fields (DispatchRecorded _ _ _) = DISPATCH_EVENT_FIELDS"
| "event_scope_fields (TaskClosureRecorded _ _ _) = TASK_CLOSURE_EVENT_FIELDS"
| "event_scope_fields (BranchClosureRecorded _ _) = BRANCH_CLOSURE_EVENT_FIELDS"
| "event_scope_fields (ReleaseReadinessRecorded _ _) = RELEASE_READINESS_EVENT_FIELDS"
| "event_scope_fields (FinalReviewRecorded _ _ _) = FINAL_REVIEW_EVENT_FIELDS"
| "event_scope_fields (QaRecorded _ _) = QA_EVENT_FIELDS"
| "event_scope_fields (RepairFollowUpSet _ _) = REPAIR_EVENT_FIELDS"
| "event_scope_fields (RepairFollowUpCleared _) = REPAIR_EVENT_FIELDS"
| "event_scope_fields (StrategyCheckpointRecorded _ _ _) = STRATEGY_EVENT_FIELDS"
| "event_scope_fields (StrategyCheckpointCleared _) = STRATEGY_EVENT_FIELDS"
| "event_scope_fields (PreflightBootstrapRecorded _) = RUN_METADATA_FIELDS"
| "event_scope_fields (ContractRecorded _) = RUN_METADATA_FIELDS"
| "event_scope_fields (EvaluationRecorded _) = RUN_METADATA_FIELDS"
| "event_scope_fields (WorktreeLeaseIndexUpdated _) = RUN_METADATA_FIELDS"
| "event_scope_fields (HandoffRecorded _) = HANDOFF_FIELDS"

definition event_fact_field_allowed :: "ExecutionEvent \<Rightarrow> string \<Rightarrow> bool" where
  "event_fact_field_allowed event field \<longleftrightarrow>
     authoritative_event_field_allowed field \<and> field \<in> set (event_scope_fields event)"

subsection \<open>Scopes and payload structs\<close>

text \<open>Every field of an event's payload struct is allowed in that event's scope, and is a field
  of the builder; so a payload that came through the builder always passes the scope check.\<close>

lemma insert_subsetI: "a \<in> B \<Longrightarrow> A \<subseteq> B \<Longrightarrow> insert a A \<subseteq> B"
  by simp

lemma builder_fields_authoritative:
  "set AuthoritativeFactBuilder_fields \<subseteq> set AUTHORITATIVE_EVENT_FIELDS"
  unfolding AuthoritativeFactBuilder_fields_def AUTHORITATIVE_EVENT_FIELDS_def list.set
  by (intro insert_subsetI empty_subsetI; (rule insertI1 | rule insertI2)+)

lemma StepEventFacts_in_builder:
  "set StepEventFacts_fields \<subseteq> set AuthoritativeFactBuilder_fields"
  unfolding StepEventFacts_fields_def AuthoritativeFactBuilder_fields_def list.set
  by (intro insert_subsetI empty_subsetI; (rule insertI1 | rule insertI2)+)

lemma StepEventFacts_in_scope:
  "set StepEventFacts_fields \<subseteq> set STEP_EVENT_FIELDS"
  unfolding StepEventFacts_fields_def STEP_EVENT_FIELDS_def list.set
  by (intro insert_subsetI empty_subsetI; (rule insertI1 | rule insertI2)+)

lemma TransferEventFacts_in_builder:
  "set TransferEventFacts_fields \<subseteq> set AuthoritativeFactBuilder_fields"
  unfolding TransferEventFacts_fields_def AuthoritativeFactBuilder_fields_def list.set
  by (intro insert_subsetI empty_subsetI; (rule insertI1 | rule insertI2)+)

lemma TransferEventFacts_in_scope:
  "set TransferEventFacts_fields \<subseteq> set TRANSFER_EVENT_FIELDS"
  unfolding TransferEventFacts_fields_def TRANSFER_EVENT_FIELDS_def list.set
  by (intro insert_subsetI empty_subsetI; (rule insertI1 | rule insertI2)+)

lemma DispatchEventFacts_in_builder:
  "set DispatchEventFacts_fields \<subseteq> set AuthoritativeFactBuilder_fields"
  unfolding DispatchEventFacts_fields_def AuthoritativeFactBuilder_fields_def list.set
  by (intro insert_subsetI empty_subsetI; (rule insertI1 | rule insertI2)+)

lemma DispatchEventFacts_in_scope:
  "set DispatchEventFacts_fields \<subseteq> set DISPATCH_EVENT_FIELDS"
  unfolding DispatchEventFacts_fields_def DISPATCH_EVENT_FIELDS_def list.set
  by (intro insert_subsetI empty_subsetI; (rule insertI1 | rule insertI2)+)

lemma TaskClosureEventFacts_in_builder:
  "set TaskClosureEventFacts_fields \<subseteq> set AuthoritativeFactBuilder_fields"
  unfolding TaskClosureEventFacts_fields_def AuthoritativeFactBuilder_fields_def list.set
  by (intro insert_subsetI empty_subsetI; (rule insertI1 | rule insertI2)+)

lemma TaskClosureEventFacts_in_scope:
  "set TaskClosureEventFacts_fields \<subseteq> set TASK_CLOSURE_EVENT_FIELDS"
  unfolding TaskClosureEventFacts_fields_def TASK_CLOSURE_EVENT_FIELDS_def list.set
  by (intro insert_subsetI empty_subsetI; (rule insertI1 | rule insertI2)+)

lemma BranchClosureEventFacts_in_builder:
  "set BranchClosureEventFacts_fields \<subseteq> set AuthoritativeFactBuilder_fields"
  unfolding BranchClosureEventFacts_fields_def AuthoritativeFactBuilder_fields_def list.set
  by (intro insert_subsetI empty_subsetI; (rule insertI1 | rule insertI2)+)

lemma BranchClosureEventFacts_in_scope:
  "set BranchClosureEventFacts_fields \<subseteq> set BRANCH_CLOSURE_EVENT_FIELDS"
  unfolding BranchClosureEventFacts_fields_def BRANCH_CLOSURE_EVENT_FIELDS_def list.set
  by (intro insert_subsetI empty_subsetI; (rule insertI1 | rule insertI2)+)

lemma ReleaseReadinessEventFacts_in_builder:
  "set ReleaseReadinessEventFacts_fields \<subseteq> set AuthoritativeFactBuilder_fields"
  unfolding ReleaseReadinessEventFacts_fields_def AuthoritativeFactBuilder_fields_def list.set
  by (intro insert_subsetI empty_subsetI; (rule insertI1 | rule insertI2)+)

lemma ReleaseReadinessEventFacts_in_scope:
  "set ReleaseReadinessEventFacts_fields \<subseteq> set RELEASE_READINESS_EVENT_FIELDS"
  unfolding ReleaseReadinessEventFacts_fields_def RELEASE_READINESS_EVENT_FIELDS_def list.set
  by (intro insert_subsetI empty_subsetI; (rule insertI1 | rule insertI2)+)

lemma FinalReviewEventFacts_in_builder:
  "set FinalReviewEventFacts_fields \<subseteq> set AuthoritativeFactBuilder_fields"
  unfolding FinalReviewEventFacts_fields_def AuthoritativeFactBuilder_fields_def list.set
  by (intro insert_subsetI empty_subsetI; (rule insertI1 | rule insertI2)+)

lemma FinalReviewEventFacts_in_scope:
  "set FinalReviewEventFacts_fields \<subseteq> set FINAL_REVIEW_EVENT_FIELDS"
  unfolding FinalReviewEventFacts_fields_def FINAL_REVIEW_EVENT_FIELDS_def list.set
  by (intro insert_subsetI empty_subsetI; (rule insertI1 | rule insertI2)+)

lemma QaEventFacts_in_builder:
  "set QaEventFacts_fields \<subseteq> set AuthoritativeFactBuilder_fields"
  unfolding QaEventFacts_fields_def AuthoritativeFactBuilder_fields_def list.set
  by (intro insert_subsetI empty_subsetI; (rule insertI1 | rule insertI2)+)

lemma QaEventFacts_in_scope:
  "set QaEventFacts_fields \<subseteq> set QA_EVENT_FIELDS"
  unfolding QaEventFacts_fields_def QA_EVENT_FIELDS_def list.set
  by (intro insert_subsetI empty_subsetI; (rule insertI1 | rule insertI2)+)

lemma RepairEventFacts_in_builder:
  "set RepairEventFacts_fields \<subseteq> set AuthoritativeFactBuilder_fields"
  unfolding RepairEventFacts_fields_def AuthoritativeFactBuilder_fields_def list.set
  by (intro insert_subsetI empty_subsetI; (rule insertI1 | rule insertI2)+)

lemma RepairEventFacts_in_scope:
  "set RepairEventFacts_fields \<subseteq> set REPAIR_EVENT_FIELDS"
  unfolding RepairEventFacts_fields_def REPAIR_EVENT_FIELDS_def list.set
  by (intro insert_subsetI empty_subsetI; (rule insertI1 | rule insertI2)+)

lemma StrategyEventFacts_in_builder:
  "set StrategyEventFacts_fields \<subseteq> set AuthoritativeFactBuilder_fields"
  unfolding StrategyEventFacts_fields_def AuthoritativeFactBuilder_fields_def list.set
  by (intro insert_subsetI empty_subsetI; (rule insertI1 | rule insertI2)+)

lemma StrategyEventFacts_in_scope:
  "set StrategyEventFacts_fields \<subseteq> set STRATEGY_EVENT_FIELDS"
  unfolding StrategyEventFacts_fields_def STRATEGY_EVENT_FIELDS_def list.set
  by (intro insert_subsetI empty_subsetI; (rule insertI1 | rule insertI2)+)

lemma RunMetadataEventFacts_in_builder:
  "set RunMetadataEventFacts_fields \<subseteq> set AuthoritativeFactBuilder_fields"
  unfolding RunMetadataEventFacts_fields_def AuthoritativeFactBuilder_fields_def list.set
  by (intro insert_subsetI empty_subsetI; (rule insertI1 | rule insertI2)+)

lemma RunMetadataEventFacts_in_scope:
  "set RunMetadataEventFacts_fields \<subseteq> set RUN_METADATA_FIELDS"
  unfolding RunMetadataEventFacts_fields_def RUN_METADATA_FIELDS_def list.set
  by (intro insert_subsetI empty_subsetI; (rule insertI1 | rule insertI2)+)

lemma HandoffEventFacts_in_builder:
  "set HandoffEventFacts_fields \<subseteq> set AuthoritativeFactBuilder_fields"
  unfolding HandoffEventFacts_fields_def AuthoritativeFactBuilder_fields_def list.set
  by (intro insert_subsetI empty_subsetI; (rule insertI1 | rule insertI2)+)

lemma HandoffEventFacts_in_scope:
  "set HandoffEventFacts_fields \<subseteq> set HANDOFF_FIELDS"
  unfolding HandoffEventFacts_fields_def HANDOFF_FIELDS_def list.set
  by (intro insert_subsetI empty_subsetI; (rule insertI1 | rule insertI2)+)

text \<open>The scope lists also name six summaries of the projection, which no payload struct has; they are all
  that a scope has and its struct has not.\<close>

definition PROJECTION_SUMMARY_FIELDS :: "string list" where
  "PROJECTION_SUMMARY_FIELDS =
    [''release_docs_state'', ''last_release_docs_artifact_fingerprint'', ''final_review_state'',
     ''last_final_review_artifact_fingerprint'', ''browser_qa_state'',
     ''last_browser_qa_artifact_fingerprint'']"

lemma Step_scope_covered:
  "set STEP_EVENT_FIELDS \<subseteq> set (PROJECTION_SUMMARY_FIELDS @ StepEventFacts_fields)"
  unfolding STEP_EVENT_FIELDS_def StepEventFacts_fields_def PROJECTION_SUMMARY_FIELDS_def
    append_Cons append_Nil list.set
  by (intro insert_subsetI empty_subsetI; (rule insertI1 | rule insertI2)+)

lemma Transfer_scope_covered:
  "set TRANSFER_EVENT_FIELDS \<subseteq> set (PROJECTION_SUMMARY_FIELDS @ TransferEventFacts_fields)"
  unfolding TRANSFER_EVENT_FIELDS_def TransferEventFacts_fields_def PROJECTION_SUMMARY_FIELDS_def
    append_Cons append_Nil list.set
  by (intro insert_subsetI empty_subsetI; (rule insertI1 | rule insertI2)+)

lemma Dispatch_scope_covered:
  "set DISPATCH_EVENT_FIELDS \<subseteq> set (PROJECTION_SUMMARY_FIELDS @ DispatchEventFacts_fields)"
  unfolding DISPATCH_EVENT_FIELDS_def DispatchEventFacts_fields_def PROJECTION_SUMMARY_FIELDS_def
    append_Cons append_Nil list.set
  by (intro insert_subsetI empty_subsetI; (rule insertI1 | rule insertI2)+)

lemma TaskClosure_scope_covered:
  "set TASK_CLOSURE_EVENT_FIELDS \<subseteq> set (PROJECTION_SUMMARY_FIELDS @ TaskClosureEventFacts_fields)"
  unfolding TASK_CLOSURE_EVENT_FIELDS_def TaskClosureEventFacts_fields_def PROJECTION_SUMMARY_FIELDS_def
    append_Cons append_Nil list.set
  by (intro insert_subsetI empty_subsetI; (rule insertI1 | rule insertI2)+)

lemma BranchClosure_scope_covered:
  "set BRANCH_CLOSURE_EVENT_FIELDS \<subseteq> set (PROJECTION_SUMMARY_FIELDS @ BranchClosureEventFacts_fields)"
  unfolding BRANCH_CLOSURE_EVENT_FIELDS_def BranchClosureEventFacts_fields_def PROJECTION_SUMMARY_FIELDS_def
    append_Cons append_Nil list.set
  by (intro insert_subsetI empty_subsetI; (rule insertI1 | rule insertI2)+)

lemma ReleaseReadiness_scope_covered:
  "set RELEASE_READINESS_EVENT_FIELDS \<subseteq> set (PROJECTION_SUMMARY_FIELDS @ ReleaseReadinessEventFacts_fields)"
  unfolding RELEASE_READINESS_EVENT_FIELDS_def ReleaseReadinessEventFacts_fields_def PROJECTION_SUMMARY_FIELDS_def
    append_Cons append_Nil list.set
  by (intro insert_subsetI empty_subsetI; (rule insertI1 | rule insertI2)+)

lemma FinalReview_scope_covered:
  "set FINAL_REVIEW_EVENT_FIELDS \<subseteq> set (PROJECTION_SUMMARY_FIELDS @ FinalReviewEventFacts_fields)"
  unfolding FINAL_REVIEW_EVENT_FIELDS_def FinalReviewEventFacts_fields_def PROJECTION_SUMMARY_FIELDS_def
    append_Cons append_Nil list.set
  by (intro insert_subsetI empty_subsetI; (rule insertI1 | rule insertI2)+)

lemma Qa_scope_covered:
  "set QA_EVENT_FIELDS \<subseteq> set (PROJECTION_SUMMARY_FIELDS @ QaEventFacts_fields)"
  unfolding QA_EVENT_FIELDS_def QaEventFacts_fields_def PROJECTION_SUMMARY_FIELDS_def
    append_Cons append_Nil list.set
  by (intro insert_subsetI empty_subsetI; (rule insertI1 | rule insertI2)+)

lemma Repair_scope_covered:
  "set REPAIR_EVENT_FIELDS \<subseteq> set (PROJECTION_SUMMARY_FIELDS @ RepairEventFacts_fields)"
  unfolding REPAIR_EVENT_FIELDS_def RepairEventFacts_fields_def PROJECTION_SUMMARY_FIELDS_def
    append_Cons append_Nil list.set
  by (intro insert_subsetI empty_subsetI; (rule insertI1 | rule insertI2)+)

lemma Strategy_scope_covered:
  "set STRATEGY_EVENT_FIELDS \<subseteq> set (PROJECTION_SUMMARY_FIELDS @ StrategyEventFacts_fields)"
  unfolding STRATEGY_EVENT_FIELDS_def StrategyEventFacts_fields_def PROJECTION_SUMMARY_FIELDS_def
    append_Cons append_Nil list.set
  by (intro insert_subsetI empty_subsetI; (rule insertI1 | rule insertI2)+)

lemma RunMetadata_scope_covered:
  "set RUN_METADATA_FIELDS \<subseteq> set (PROJECTION_SUMMARY_FIELDS @ RunMetadataEventFacts_fields)"
  unfolding RUN_METADATA_FIELDS_def RunMetadataEventFacts_fields_def PROJECTION_SUMMARY_FIELDS_def
    append_Cons append_Nil list.set
  by (intro insert_subsetI empty_subsetI; (rule insertI1 | rule insertI2)+)

lemma Handoff_scope_covered:
  "set HANDOFF_FIELDS \<subseteq> set (PROJECTION_SUMMARY_FIELDS @ HandoffEventFacts_fields)"
  unfolding HANDOFF_FIELDS_def HandoffEventFacts_fields_def PROJECTION_SUMMARY_FIELDS_def
    append_Cons append_Nil list.set
  by (intro insert_subsetI empty_subsetI; (rule insertI1 | rule insertI2)+)

lemma scope_field_in_struct:
  "f \<in> set (event_scope_fields e) \<Longrightarrow> f \<notin> set PROJECTION_SUMMARY_FIELDS \<Longrightarrow> f \<in> set (event_struct_fields e)"
  using Step_scope_covered Transfer_scope_covered Dispatch_scope_covered TaskClosure_scope_covered BranchClosure_scope_covered ReleaseReadiness_scope_covered FinalReview_scope_covered Qa_scope_covered Repair_scope_covered Strategy_scope_covered RunMetadata_scope_covered Handoff_scope_covered
  by (cases e) auto

lemma event_struct_fields_in_builder:
  "set (event_struct_fields e) \<subseteq> set AuthoritativeFactBuilder_fields"
  by (cases e)
     (simp_all only: event_struct_fields.simps list.set empty_subsetI
       StepEventFacts_in_builder
       TransferEventFacts_in_builder
       DispatchEventFacts_in_builder
       TaskClosureEventFacts_in_builder
       BranchClosureEventFacts_in_builder
       ReleaseReadinessEventFacts_in_builder
       FinalReviewEventFacts_in_builder
       QaEventFacts_in_builder
       RepairEventFacts_in_builder
       StrategyEventFacts_in_builder
       RunMetadataEventFacts_in_builder
       HandoffEventFacts_in_builder)

lemma event_struct_fields_in_scope:
  "set (event_struct_fields e) \<subseteq> set (event_scope_fields e)"
  by (cases e)
     (simp_all only: event_struct_fields.simps event_scope_fields.simps list.set empty_subsetI
       StepEventFacts_in_scope
       TransferEventFacts_in_scope
       DispatchEventFacts_in_scope
       TaskClosureEventFacts_in_scope
       BranchClosureEventFacts_in_scope
       ReleaseReadinessEventFacts_in_scope
       FinalReviewEventFacts_in_scope
       QaEventFacts_in_scope
       RepairEventFacts_in_scope
       StrategyEventFacts_in_scope
       RunMetadataEventFacts_in_scope
       HandoffEventFacts_in_scope)

lemma struct_field_allowed: "f \<in> set (event_struct_fields e) \<Longrightarrow> event_fact_field_allowed e f"
  using event_struct_fields_in_builder event_struct_fields_in_scope builder_fields_authoritative
  by (fastforce simp: event_fact_field_allowed_def authoritative_event_field_allowed_def)

lemma event_typed_allowed:
  "event_typed e \<Longrightarrow> event_facts e = Some fs \<Longrightarrow> f \<in> set (populated_field_names fs) \<Longrightarrow>
   event_fact_field_allowed e f"
  by (auto simp: event_typed_def facts_typed_def populated_field_names_def intro!: struct_field_allowed)

subsection \<open>Facts from the builder\<close>

lemma map_of_facts_from_builder:
  "map_of (facts_from_builder flds b) f = (if f \<in> set flds then b f else None)"
  by (induction flds) (auto simp: facts_from_builder_def split: option.splits)

lemma fst_set_facts_from_builder:
  "fst ` set (facts_from_builder flds b) = {f \<in> set flds. b f \<noteq> None}"
  unfolding dom_map_of_conv_image_fst [symmetric]
  by (auto simp: map_of_facts_from_builder dom_def split: if_splits)

lemma facts_typed_from_builder: "facts_typed flds (facts_from_builder flds b)"
  by (auto simp: facts_typed_def fst_set_facts_from_builder)

lemma distinct_facts_from_builder:
  "distinct flds \<Longrightarrow> distinct (map fst (facts_from_builder flds b))"
proof (induction flds)
  case Nil
  then show ?case by (simp add: facts_from_builder_def)
next
  case (Cons f flds)
  have eq: "facts_from_builder (f # flds) b =
      (case b f of None \<Rightarrow> [] | Some v \<Rightarrow> [(f, v)]) @ facts_from_builder flds b"
    by (simp add: facts_from_builder_def)
  show ?case using Cons fst_set_facts_from_builder [of flds b]
    by (auto simp: eq split: option.splits)
qed

lemma builder_fold_get:
  "distinct (map fst kvs) \<Longrightarrow>
   fold (\<lambda>kv b. snd (set_field_value b (fst kv) (snd kv))) kvs b0 f =
   (if f \<in> set AuthoritativeFactBuilder_fields then opt_or (map_of kvs f) (b0 f) else b0 f)"
proof (induction kvs arbitrary: b0)
  case Nil
  then show ?case by simp
next
  case (Cons kv kvs)
  have "map_of kvs (fst kv) = None" using Cons.prems by (simp add: map_of_eq_None_iff)
  then show ?case
    using Cons by (cases kv) (auto simp: set_field_value_def opt_or_def split: option.splits)
qed

lemma builder_from_iter_get:
  "distinct (map fst kvs) \<Longrightarrow>
   builder_from_iter kvs f =
   (if f \<in> set AuthoritativeFactBuilder_fields then map_of kvs f else None)"
  by (simp add: builder_from_iter_def builder_fold_get)

end
