(* ===== verification/Diagnostics.thy ===== *)
theory Diagnostics
  imports FF_Prelude
begin

text \<open>
  Failures (\<^verbatim>\<open>src/src/diagnostics/mod.rs\<close>): the failure classes, the class names printed to
  callers, and the two carriers of an error, \<^verbatim>\<open>DiagnosticError\<close> and \<^verbatim>\<open>JsonFailure\<close>.  A
  fallible operation of the runtime returns \<open>JsonFailure + 'a\<close>.
\<close>

datatype FailureClass =
    ApprovalWriteFailed
  | ArtifactIntegrityMismatch
  | AuthoritativeOrderingMismatch
  | BlockedRuntimeBug
  | BlockedOnPlanPivot
  | BranchDetectionFailed
  | ConcurrentWriterConflict
  | ContractMismatch
  | DecisionReadFailed
  | DecisionWriteFailed
  | DependencyIndexMismatch
  | EvidenceWriteFailed
  | EvaluationMismatch
  | ExecutionStateNotReady
  | IdempotencyConflict
  | IllegalHarnessPhase
  | InstructionParseFailed
  | InvalidCommandInput
  | InvalidConfigFormat
  | InvalidExecutionMode
  | InvalidRepoPath
  | InvalidWriteTarget
  | InvalidStepTransition
  | MalformedExecutionState
  | MissedReopenRequired
  | MissingRequiredHandoff
  | NonAuthoritativeArtifact
  | NonHarnessProvenance
  | PartialAuthoritativeMutation
  | PlanNotExecutionReady
  | PromptPayloadBuildFailed
  | QaArtifactNotFresh
  | RepoStateDrift
  | ReviewArtifactNotFresh
  | RecommendAfterExecutionStart
  | RepoContextUnavailable
  | ReleaseArtifactNotFresh
  | ResolverContractViolation
  | ResolverRuntimeFailure
  | StaleProvenance
  | StaleExecutionEvidence
  | StaleMutation
  | UnsupportedArtifactVersion
  | UpdateCheckStateFailed
  | WorkspaceNotSafe
  | WorkspaceRuntimeLiveMutationBlocked

fun failure_class_as_str :: "FailureClass \<Rightarrow> string" where
  "failure_class_as_str ApprovalWriteFailed = ''ApprovalWriteFailed''"
| "failure_class_as_str ArtifactIntegrityMismatch = ''ArtifactIntegrityMismatch''"
| "failure_class_as_str AuthoritativeOrderingMismatch = ''AuthoritativeOrderingMismatch''"
| "failure_class_as_str BlockedRuntimeBug = ''BlockedRuntimeBug''"
| "failure_class_as_str BlockedOnPlanPivot = ''BlockedOnPlanPivot''"
| "failure_class_as_str BranchDetectionFailed = ''BranchDetectionFailed''"
| "failure_class_as_str ConcurrentWriterConflict = ''ConcurrentWriterConflict''"
| "failure_class_as_str ContractMismatch = ''ContractMismatch''"
| "failure_class_as_str DecisionReadFailed = ''DecisionReadFailed''"
| "failure_class_as_str DecisionWriteFailed = ''DecisionWriteFailed''"
| "failure_class_as_str DependencyIndexMismatch = ''DependencyIndexMismatch''"
| "failure_class_as_str EvidenceWriteFailed = ''EvidenceWriteFailed''"
| "failure_class_as_str EvaluationMismatch = ''EvaluationMismatch''"
| "failure_class_as_str ExecutionStateNotReady = ''ExecutionStateNotReady''"
| "failure_class_as_str IdempotencyConflict = ''IdempotencyConflict''"
| "failure_class_as_str IllegalHarnessPhase = ''IllegalHarnessPhase''"
| "failure_class_as_str InstructionParseFailed = ''InstructionParseFailed''"
| "failure_class_as_str InvalidCommandInput = ''InvalidCommandInput''"
| "failure_class_as_str InvalidConfigFormat = ''InvalidConfigFormat''"
| "failure_class_as_str InvalidExecutionMode = ''InvalidExecutionMode''"
| "failure_class_as_str InvalidRepoPath = ''InvalidRepoPath''"
| "failure_class_as_str InvalidWriteTarget = ''InvalidWriteTarget''"
| "failure_class_as_str InvalidStepTransition = ''InvalidStepTransition''"
| "failure_class_as_str MalformedExecutionState = ''MalformedExecutionState''"
| "failure_class_as_str MissedReopenRequired = ''MissedReopenRequired''"
| "failure_class_as_str MissingRequiredHandoff = ''MissingRequiredHandoff''"
| "failure_class_as_str NonAuthoritativeArtifact = ''NonAuthoritativeArtifact''"
| "failure_class_as_str NonHarnessProvenance = ''NonHarnessProvenance''"
| "failure_class_as_str PartialAuthoritativeMutation = ''PartialAuthoritativeMutation''"
| "failure_class_as_str PlanNotExecutionReady = ''PlanNotExecutionReady''"
| "failure_class_as_str PromptPayloadBuildFailed = ''PromptPayloadBuildFailed''"
| "failure_class_as_str QaArtifactNotFresh = ''QaArtifactNotFresh''"
| "failure_class_as_str RepoStateDrift = ''RepoStateDrift''"
| "failure_class_as_str ReviewArtifactNotFresh = ''ReviewArtifactNotFresh''"
| "failure_class_as_str RecommendAfterExecutionStart = ''RecommendAfterExecutionStart''"
| "failure_class_as_str RepoContextUnavailable = ''RepoContextUnavailable''"
| "failure_class_as_str ReleaseArtifactNotFresh = ''ReleaseArtifactNotFresh''"
| "failure_class_as_str ResolverContractViolation = ''ResolverContractViolation''"
| "failure_class_as_str ResolverRuntimeFailure = ''ResolverRuntimeFailure''"
| "failure_class_as_str StaleProvenance = ''StaleProvenance''"
| "failure_class_as_str StaleExecutionEvidence = ''StaleExecutionEvidence''"
| "failure_class_as_str StaleMutation = ''StaleMutation''"
| "failure_class_as_str UnsupportedArtifactVersion = ''UnsupportedArtifactVersion''"
| "failure_class_as_str UpdateCheckStateFailed = ''UpdateCheckStateFailed''"
| "failure_class_as_str WorkspaceNotSafe = ''WorkspaceNotSafe''"
| "failure_class_as_str WorkspaceRuntimeLiveMutationBlocked = ''workspace_runtime_live_mutation_blocked''"

record DiagnosticError =
  de_failure_class :: FailureClass
  de_message :: string

record JsonFailure =
  error_class :: string
  message :: string

definition json_failure :: "FailureClass \<Rightarrow> string \<Rightarrow> JsonFailure" where
  "json_failure cls msg = \<lparr>error_class = failure_class_as_str cls, message = msg\<rparr>"

definition json_failure_from_diagnostic :: "DiagnosticError \<Rightarrow> JsonFailure" where
  "json_failure_from_diagnostic e =
     \<lparr>error_class = failure_class_as_str (de_failure_class e), message = de_message e\<rparr>"

type_synonym 'a result = "JsonFailure + 'a"

definition res_bind :: "'e + 'a \<Rightarrow> ('a \<Rightarrow> 'e + 'b) \<Rightarrow> 'e + 'b" where
  "res_bind r f = (case r of Inl e \<Rightarrow> Inl e | Inr x \<Rightarrow> f x)"

lemma res_bind_simps [simp]: "res_bind (Inl e) f = Inl e" "res_bind (Inr x) f = f x"
  by (simp_all add: res_bind_def)

lemma res_bind_Inr: "res_bind r f = Inr y \<longleftrightarrow> (\<exists>x. r = Inr x \<and> f x = Inr y)"
  by (cases r) auto

lemma res_bind_Inl: "res_bind r f = Inl e \<longleftrightarrow> r = Inl e \<or> (\<exists>x. r = Inr x \<and> f x = Inl e)"
  by (cases r) auto

text \<open>Collecting an iterator of results: the first error ends it.\<close>

fun collect_results :: "('a \<Rightarrow> 'e + 'b) \<Rightarrow> 'a list \<Rightarrow> 'e + 'b list" where
  "collect_results f [] = Inr []"
| "collect_results f (x # xs) =
     res_bind (f x) (\<lambda>y. res_bind (collect_results f xs) (\<lambda>ys. Inr (y # ys)))"

lemma error_class_json_failure [simp]:
  "error_class (json_failure c m) = failure_class_as_str c"
  "message (json_failure c m) = m"
  by (simp_all add: json_failure_def)

end
