(* ===== verification/Event_Chain.thy ===== *)
theory Event_Chain
  imports Event_Types Diagnostics
begin

text \<open>
  The hash chain of the event log (\<^verbatim>\<open>src/src/execution/event_log.rs\<close>): the hash of an
  envelope, the construction of the next envelope and the validation of a whole log.

  Code of other crates is a parameter, gathered in the record \<open>event_codec\<close>: the JSON text
  \<^verbatim>\<open>serde_json\<close> writes for the hashed shape and for an envelope (or its error text), what it
  reads back, the decoding of a stored repair follow-up, and \<^verbatim>\<open>sha256_hex\<close>.  The clock is an
  argument.  A Rust \<^verbatim>\<open>usize\<close> index is converted to \<^verbatim>\<open>u64\<close> without loss.

  The locale \<open>hash_chain\<close> states what the chain promises about any entries that carry their own
  digest and the digest of their predecessor, and proves once that such chains are tamper evident.
\<close>

record event_codec =
  hash_shape_json :: "EventHashShape \<Rightarrow> string + string"
  sha256_hex :: "string \<Rightarrow> string"
  envelope_json :: "ExecutionEventEnvelope \<Rightarrow> string + string"
  envelope_parse :: "string \<Rightarrow> string + ExecutionEventEnvelope"
  follow_up_decode :: "json \<Rightarrow> RepairFollowUpRecord option"

definition EVENT_LOG_SCHEMA_VERSION :: nat where
  "EVENT_LOG_SCHEMA_VERSION = 1"

definition event_hash_shape :: "ExecutionEventEnvelope \<Rightarrow> EventHashShape" where
  "event_hash_shape event =
     \<lparr>hs_schema_version = schema_version event,
      hs_event_id = event_id event,
      hs_sequence = sequence event,
      hs_timestamp = timestamp event,
      hs_command = command event,
      hs_plan_path = plan_path event,
      hs_plan_revision = plan_revision event,
      hs_execution_run_id = execution_run_id event,
      hs_branch_context = branch_context event,
      hs_previous_event_hash = previous_event_hash event,
      hs_payload = payload event\<rparr>"

definition compute_event_hash :: "event_codec \<Rightarrow> ExecutionEventEnvelope \<Rightarrow> string result" where
  "compute_event_hash cd event =
     (case hash_shape_json cd (event_hash_shape event) of
        Inl err \<Rightarrow> Inl (json_failure MalformedExecutionState
                    (''Could not serialize event hash shape: '' @ err))
      | Inr serialized \<Rightarrow> Inr (sha256_hex cd serialized))"

definition last_event :: "ExecutionEventEnvelope list \<Rightarrow> ExecutionEventEnvelope option" where
  "last_event events = (if events = [] then None else Some (last events))"

definition next_event_envelope ::
  "event_codec \<Rightarrow> string \<Rightarrow> ExecutionEventEnvelope list \<Rightarrow> EventEnvelopeMetadata \<Rightarrow> ExecutionEvent \<Rightarrow>
   ExecutionEventEnvelope result" where
  "next_event_envelope cd now prior_events metadata event =
     (let prev = map_option event_hash (last_event prior_events);
          seq = (case last_event prior_events of
                   None \<Rightarrow> 1
                 | Some e \<Rightarrow> saturating_add_u64 (sequence e) 1);
          seed = show_nat seq @ '':'' @ md_command metadata @ '':'' @ now @ '':'' @
                 (case prev of None \<Rightarrow> ''none'' | Some h \<Rightarrow> h);
          eid = ''evt-'' @ show_nat seq @ ''-'' @ take 12 (sha256_hex cd seed);
          envelope =
            \<lparr>schema_version = EVENT_LOG_SCHEMA_VERSION,
             event_id = eid,
             sequence = seq,
             timestamp = now,
             command = md_command metadata,
             plan_path = md_plan_path metadata,
             plan_revision = md_plan_revision metadata,
             execution_run_id = md_execution_run_id metadata,
             branch_context = md_branch_context metadata,
             previous_event_hash = prev,
             event_hash = [],
             payload = event\<rparr>
      in res_bind (compute_event_hash cd envelope)
           (\<lambda>h. Inr (envelope\<lparr>event_hash := h\<rparr>)))"

text \<open>The body of the loop of \<^verbatim>\<open>validate_event_log\<close> for the entry at index \<open>idx\<close>.\<close>

definition validate_event_log_entry ::
  "event_codec \<Rightarrow> ExecutionEventEnvelope list \<Rightarrow> nat \<Rightarrow> unit result" where
  "validate_event_log_entry cd events idx =
     (let event = events ! idx;
          expected_sequence = saturating_add_u64 idx 1;
          expected_previous =
            (if idx = 0 then None else Some (event_hash (events ! (idx - 1))))
      in
      if sequence event \<noteq> expected_sequence then
        Inl (json_failure MalformedExecutionState
          (''Event log sequence mismatch at entry '' @ show_nat (idx + 1) @ '': expected '' @
           show_nat expected_sequence @ '', found '' @ show_nat (sequence event) @ ''.''))
      else if schema_version event \<noteq> EVENT_LOG_SCHEMA_VERSION then
        Inl (json_failure MalformedExecutionState
          (''Event log schema mismatch at entry '' @ show_nat (idx + 1) @ '': expected '' @
           show_nat EVENT_LOG_SCHEMA_VERSION @ '', found '' @ show_nat (schema_version event) @ ''.''))
      else if previous_event_hash event \<noteq> expected_previous then
        Inl (json_failure MalformedExecutionState
          (''Event log continuity mismatch at entry '' @ show_nat (idx + 1) @
           '': previous hash does not match.''))
      else
        (case compute_event_hash cd event of
           Inl err \<Rightarrow> Inl err
         | Inr computed_hash \<Rightarrow>
             if computed_hash \<noteq> event_hash event then
               Inl (json_failure MalformedExecutionState
                 (''Event log hash mismatch at entry '' @ show_nat (idx + 1) @
                  '': payload hash does not match envelope hash.''))
             else
               (case event_facts (payload event) of
                  None \<Rightarrow> Inr ()
                | Some fs \<Rightarrow>
                    (case find (\<lambda>field. \<not> event_fact_field_allowed (payload event) field)
                            (populated_field_names fs) of
                       None \<Rightarrow> Inr ()
                     | Some field \<Rightarrow>
                         Inl (json_failure MalformedExecutionState
                           (''Event log entry '' @ show_nat (idx + 1) @
                            '' contains non-authoritative field `'' @ field @ ''` for `'' @
                            kind_name (payload event) @ ''` event scope.''))))))"

fun for_each :: "('a \<Rightarrow> 'e + unit) \<Rightarrow> 'a list \<Rightarrow> 'e + unit" where
  "for_each f [] = Inr ()"
| "for_each f (x # xs) = res_bind (f x) (\<lambda>_. for_each f xs)"

definition validate_event_log :: "event_codec \<Rightarrow> ExecutionEventEnvelope list \<Rightarrow> unit result" where
  "validate_event_log cd events =
     for_each (validate_event_log_entry cd events) [0..<length events]"

lemma for_each_Inr: "for_each f xs = Inr () \<longleftrightarrow> (\<forall>x\<in>set xs. f x = Inr ())"
  by (induction xs) (auto simp: res_bind_Inr)

lemma for_each_cong: "(\<And>x. x \<in> set xs \<Longrightarrow> f x = g x) \<Longrightarrow> for_each f xs = for_each g xs"
  by (induction xs) (auto simp: res_bind_def split: sum.splits)

lemma for_each_append:
  "for_each f (xs @ ys) = res_bind (for_each f xs) (\<lambda>_. for_each f ys)"
  by (induction xs) (auto simp: res_bind_def split: sum.splits)

subsection \<open>What validation means\<close>

definition payload_in_scope :: "ExecutionEvent \<Rightarrow> bool" where
  "payload_in_scope e \<longleftrightarrow>
     (\<forall>fs. event_facts e = Some fs \<longrightarrow> (\<forall>f\<in>set (populated_field_names fs). event_fact_field_allowed e f))"

definition entry_valid :: "event_codec \<Rightarrow> ExecutionEventEnvelope list \<Rightarrow> nat \<Rightarrow> bool" where
  "entry_valid cd events idx \<longleftrightarrow>
     sequence (events ! idx) = min (idx + 1) u64_max \<and>
     schema_version (events ! idx) = EVENT_LOG_SCHEMA_VERSION \<and>
     previous_event_hash (events ! idx) =
       (if idx = 0 then None else Some (event_hash (events ! (idx - 1)))) \<and>
     compute_event_hash cd (events ! idx) = Inr (event_hash (events ! idx)) \<and>
     payload_in_scope (payload (events ! idx))"

lemma validate_entry_iff: "validate_event_log_entry cd events idx = Inr () \<longleftrightarrow> entry_valid cd events idx"
proof -
  have f: "(case event_facts e of None \<Rightarrow> (Inr () :: unit result)
     | Some fs \<Rightarrow> (case find (\<lambda>f. \<not> event_fact_field_allowed e f) (populated_field_names fs) of
         None \<Rightarrow> Inr () | Some field \<Rightarrow> Inl (g field))) = Inr () \<longleftrightarrow> payload_in_scope e" for e g
    by (auto simp: payload_in_scope_def find_None_iff find_Some_iff split: option.splits)
  show ?thesis
    unfolding validate_event_log_entry_def entry_valid_def Let_def saturating_add_u64_def
    by (auto simp: f split: sum.splits)
qed

lemma validate_event_log_iff:
  "validate_event_log cd events = Inr () \<longleftrightarrow> (\<forall>idx < length events. entry_valid cd events idx)"
  by (auto simp: validate_event_log_def for_each_Inr validate_entry_iff)

lemma entry_valid_append: "idx < length es \<Longrightarrow> entry_valid cd (es @ fs) idx = entry_valid cd es idx"
  by (auto simp: entry_valid_def nth_append)

lemma validate_event_log_append1:
  "validate_event_log cd (es @ [e]) = Inr () \<longleftrightarrow>
   validate_event_log cd es = Inr () \<and> entry_valid cd (es @ [e]) (length es)"
  by (auto simp: validate_event_log_iff entry_valid_append less_Suc_eq)

lemma validate_event_log_prefix:
  "validate_event_log cd (es @ fs) = Inr () \<Longrightarrow> validate_event_log cd es = Inr ()"
  by (auto simp: validate_event_log_iff) (metis entry_valid_append trans_less_add1)

lemma event_typed_in_scope: "event_typed e \<Longrightarrow> payload_in_scope e"
  by (auto simp: payload_in_scope_def intro: event_typed_allowed)

subsection \<open>The next envelope\<close>

lemma next_event_envelope_Inr:
  assumes "next_event_envelope cd now prior md ev = Inr e"
  shows "payload e = ev" "schema_version e = EVENT_LOG_SCHEMA_VERSION"
    "previous_event_hash e = map_option event_hash (last_event prior)"
    "sequence e = (case last_event prior of None \<Rightarrow> 1 | Some p \<Rightarrow> saturating_add_u64 (sequence p) 1)"
    "compute_event_hash cd e = Inr (event_hash e)"
    "command e = md_command md" "timestamp e = now"
    "plan_path e = md_plan_path md" "plan_revision e = md_plan_revision md"
    "execution_run_id e = md_execution_run_id md" "branch_context e = md_branch_context md"
  using assms
  by (auto simp: next_event_envelope_def Let_def res_bind_Inr compute_event_hash_def
      event_hash_shape_def split: sum.splits)

text \<open>An envelope built on a valid log extends it to a valid log; saturation keeps this true at
  the end of the range of sequence numbers.\<close>

lemma next_event_envelope_valid:
  assumes "validate_event_log cd es = Inr ()" "next_event_envelope cd now es md ev = Inr e"
    "payload_in_scope ev"
  shows "validate_event_log cd (es @ [e]) = Inr ()"
proof -
  note n = next_event_envelope_Inr [OF assms(2)]
  have s: "sequence e = min (length es + 1) u64_max"
  proof (cases "es = []")
    case True
    then show ?thesis using n(4) by (simp add: last_event_def u64_max_def)
  next
    case False
    then have "entry_valid cd es (length es - 1)"
      using assms(1) by (auto simp: validate_event_log_iff)
    then have "sequence (last es) = min (length es) u64_max"
      using False by (simp add: entry_valid_def last_conv_nth)
    then show ?thesis
      using False n(4) saturating_add_u64_min [of "length es"] by (simp add: last_event_def)
  qed
  have p: "previous_event_hash e =
      (if length es = 0 then None else Some (event_hash ((es @ [e]) ! (length es - 1))))"
    using n(3) by (auto simp: last_event_def nth_append last_conv_nth)
  have "entry_valid cd (es @ [e]) (length es)"
    using s p n assms(3) by (simp add: entry_valid_def)
  with assms(1) show ?thesis by (simp add: validate_event_log_append1)
qed

lemma next_event_envelope_total:
  assumes "\<And>shape. \<exists>s. hash_shape_json cd shape = Inr s"
  shows "\<exists>e. next_event_envelope cd now es md ev = Inr e"
proof -
  have "\<exists>h. compute_event_hash cd x = Inr h" for x
    using assms [of "event_hash_shape x"] by (auto simp: compute_event_hash_def)
  then show ?thesis
    by (simp add: next_event_envelope_def Let_def res_bind_Inr)
qed

subsection \<open>Tamper evidence\<close>

locale hash_chain =
  fixes stored :: "'e \<Rightarrow> 'h"
    and prev :: "'e \<Rightarrow> 'h option"
    and body :: "'e \<Rightarrow> 'b"
    and digest :: "'b \<Rightarrow> 'h"
    and ok :: "'e \<Rightarrow> bool"
  assumes stored_digest: "ok e \<Longrightarrow> stored e = digest (body e)"
    and body_prev: "body e = body e' \<Longrightarrow> prev e = prev e'"
    and entry_ext: "body e = body e' \<Longrightarrow> stored e = stored e' \<Longrightarrow> e = e'"
begin

definition chained :: "'e list \<Rightarrow> bool" where
  "chained es \<longleftrightarrow>
     (\<forall>i<length es. ok (es ! i) \<and> prev (es ! i) = (if i = 0 then None else Some (stored (es ! (i - 1)))))"

lemma chained_snoc:
  "chained (es @ [e]) \<longleftrightarrow>
   chained es \<and> ok e \<and> prev e = (if es = [] then None else Some (stored (last es)))"
proof -
  let ?P = "\<lambda>es i. ok (es ! i) \<and> prev (es ! i) = (if i = 0 then None else Some (stored (es ! (i - 1))))"
  have "?P (es @ [e]) i = ?P es i" if "i < length es" for i
  proof -
    have "(es @ [e]) ! i = es ! i" "(es @ [e]) ! (i - 1) = es ! (i - 1)"
      using that by (simp_all add: nth_append less_imp_diff_less)
    then show ?thesis by simp
  qed
  moreover have "?P (es @ [e]) (length es) \<longleftrightarrow>
      ok e \<and> prev e = (if es = [] then None else Some (stored (last es)))"
    by (simp add: nth_append last_conv_nth)
  ultimately show ?thesis
    unfolding chained_def length_append_singleton All_less_Suc by blast
qed

lemma same_last_same_log:
  assumes "chained xs" "chained ys" "xs \<noteq> []" "ys \<noteq> []" "stored (last xs) = stored (last ys)"
    "inj_on digest (body ` (set xs \<union> set ys))"
  shows "xs = ys"
  using assms
proof (induction xs arbitrary: ys rule: rev_induct)
  case Nil
  then show ?case by simp
next
  case (snoc x xs)
  from snoc.prems obtain ys' y where ys: "ys = ys' @ [y]" by (metis append_butlast_last_id)
  from snoc.prems ys have c: "chained xs" "chained ys'" "ok x" "ok y"
    "prev x = (if xs = [] then None else Some (stored (last xs)))"
    "prev y = (if ys' = [] then None else Some (stored (last ys')))"
    by (simp_all add: chained_snoc)
  have "digest (body x) = digest (body y)"
    using snoc.prems(5) c ys stored_digest by simp
  then have b: "body x = body y"
    by (rule inj_onD [OF snoc.prems(6)]) (simp_all add: ys)
  then have xy: "x = y" using entry_ext snoc.prems(5) ys by simp
  have p: "prev x = prev y" using b body_prev by blast
  show ?case
  proof (cases "xs = [] \<or> ys' = []")
    case True
    then have "xs = []" "ys' = []" using c p by (auto split: if_splits)
    with xy ys show ?thesis by simp
  next
    case False
    then have "stored (last xs) = stored (last ys')" using c p by simp
    moreover have "inj_on digest (body ` (set xs \<union> set ys'))"
      using snoc.prems(6) ys by (auto intro: inj_on_subset)
    ultimately have "xs = ys'" using snoc.IH [of ys'] c False by blast
    with xy ys show ?thesis by simp
  qed
qed

end

definition shape_digest :: "event_codec \<Rightarrow> EventHashShape \<Rightarrow> string" where
  "shape_digest cd shape =
     (case hash_shape_json cd shape of Inl err \<Rightarrow> [] | Inr s \<Rightarrow> sha256_hex cd s)"

definition hash_ok :: "event_codec \<Rightarrow> ExecutionEventEnvelope \<Rightarrow> bool" where
  "hash_ok cd e \<longleftrightarrow> compute_event_hash cd e = Inr (event_hash e)"

interpretation evc: hash_chain event_hash previous_event_hash event_hash_shape
  "shape_digest cd" "hash_ok cd" for cd
proof unfold_locales
  fix e e' :: ExecutionEventEnvelope
  show "hash_ok cd e \<Longrightarrow> event_hash e = shape_digest cd (event_hash_shape e)"
    by (auto simp: hash_ok_def compute_event_hash_def shape_digest_def split: sum.splits)
  show "event_hash_shape e = event_hash_shape e' \<Longrightarrow> previous_event_hash e = previous_event_hash e'"
    by (simp add: event_hash_shape_def)
  show "event_hash_shape e = event_hash_shape e' \<Longrightarrow> event_hash e = event_hash e' \<Longrightarrow> e = e'"
    by (cases e; cases e') (simp add: event_hash_shape_def)
qed

lemma validate_chained: "validate_event_log cd es = Inr () \<Longrightarrow> evc.chained cd es"
  by (auto simp: validate_event_log_iff evc.chained_def entry_valid_def hash_ok_def)

end
