(* ===== verification/Event_Reduce.thy ===== *)
theory Event_Reduce
  imports Event_Chain
begin

text \<open>
  Event sourcing: how the authoritative state is rebuilt from the log
  (\<^verbatim>\<open>reduce_events_to_state\<close> and the \<^verbatim>\<open>apply_*\<close> functions of
  \<^verbatim>\<open>src/src/execution/event_log.rs\<close>).  A function that mutates \<^verbatim>\<open>&mut Value\<close> and returns a
  flag is a function from the value to the flag and the new value.

  The lemmas give the effect of one event on every field: a field the event does not carry keeps
  its value, a plain field takes the new value (\<^verbatim>\<open>null\<close> removes it), and a record map is updated
  entry by entry.  The completed-step index follows the \<^verbatim>\<open>Complete\<close> and \<^verbatim>\<open>Reopen\<close> events.
\<close>

subsection \<open>Definitions\<close>

text \<open>\<^verbatim>\<open>if !v.is_object() { *v = Value::Object(Map::new()) }\<close>, then the entries.\<close>

fun normalize_object :: "json \<Rightarrow> json_map" where
  "normalize_object (JObject es) = es"
| "normalize_object _ = []"

definition entry_object :: "json_map \<Rightarrow> string \<Rightarrow> json_map" where
  "entry_object m field = (case obj_get m field of None \<Rightarrow> [] | Some v \<Rightarrow> normalize_object v)"

definition apply_record_map_delta :: "json_map \<Rightarrow> string \<Rightarrow> json \<Rightarrow> json_map" where
  "apply_record_map_delta target_map field delta =
     (case as_object delta of
        None \<Rightarrow> obj_insert field delta target_map
      | Some delta_entries \<Rightarrow>
          (let existing_entries = entry_object target_map field;
               updated = fold (\<lambda>(record_key, record_value) es.
                   if is_null record_value then obj_remove record_key es
                   else obj_insert record_key record_value es) delta_entries existing_entries
           in obj_insert field (JObject updated) target_map))"

definition apply_authoritative_field :: "string \<times> json \<Rightarrow> json_map \<Rightarrow> json_map" where
  "apply_authoritative_field fv target_map =
     (if is_null (snd fv) then obj_remove (fst fv) target_map
      else if record_map_delta_field (fst fv)
      then apply_record_map_delta target_map (fst fv) (snd fv)
      else obj_insert (fst fv) (snd fv) target_map)"

definition apply_authoritative_fields :: "json \<Rightarrow> json_map \<Rightarrow> json" where
  "apply_authoritative_fields target authoritative_fields =
     (if authoritative_fields = [] then target
      else JObject (fold apply_authoritative_field authoritative_fields (normalize_object target)))"

definition selected_facts :: "facts \<Rightarrow> json_map" where
  "selected_facts fs =
     fold (\<lambda>field m. case facts_get fs field of None \<Rightarrow> m | Some v \<Rightarrow> obj_insert field v m)
       (populated_field_names fs) []"

definition apply_typed_authoritative_facts :: "json \<Rightarrow> facts \<Rightarrow> bool \<times> json" where
  "apply_typed_authoritative_facts target fs =
     (let selected = selected_facts fs
      in (selected \<noteq> [], apply_authoritative_fields target selected))"

definition step_key :: "nat \<Rightarrow> nat \<Rightarrow> string" where
  "step_key task step = show_nat task @ ''.'' @ show_nat step"

definition completed_step_entry :: "nat \<Rightarrow> nat \<Rightarrow> json" where
  "completed_step_entry task step =
     JObject (obj_insert ''task'' (JInt (int task)) (obj_insert ''step'' (JInt (int step)) []))"

definition apply_completed_step_event ::
  "json \<Rightarrow> nat option \<Rightarrow> nat option \<Rightarrow> bool \<Rightarrow> bool \<times> json" where
  "apply_completed_step_event target task step completed =
     (case (task, step) of
        (Some task, Some step) \<Rightarrow>
          (let target_map = normalize_object target;
               completed_map = entry_object target_map ''event_completed_steps'';
               key = step_key task step;
               completed_map' =
                 (if completed then obj_insert key (completed_step_entry task step) completed_map
                  else obj_remove key completed_map)
           in (True, JObject (obj_insert ''event_completed_steps'' (JObject completed_map') target_map)))
      | _ \<Rightarrow> (False, target))"

definition record_status_map_fields :: "string \<Rightarrow> string list option" where
  "record_status_map_fields record_family =
     (if record_family = ''task_closure_record''
      then Some [''current_task_closure_records'', ''task_closure_record_history'']
      else if record_family = ''branch_closure_record'' then Some [''branch_closure_records'']
      else if record_family = ''release_readiness_record''
      then Some [''release_readiness_record_history'']
      else if record_family = ''final_review_record'' then Some [''final_review_record_history'']
      else if record_family = ''browser_qa_record'' \<or> record_family = ''qa_record''
      then Some [''browser_qa_record_history'']
      else None)"

definition record_entry_matches_id :: "string \<Rightarrow> json \<Rightarrow> string \<Rightarrow> bool" where
  "record_entry_matches_id entry_key entry record_id \<longleftrightarrow>
     entry_key = record_id \<or>
     is_some_and
       (map_option trim
         (Option.bind
           (opt_or (json_get entry ''record_id'')
             (opt_or (json_get entry ''closure_record_id'') (json_get entry ''branch_closure_id'')))
           as_str))
       (\<lambda>candidate. candidate = record_id)"

definition new_record_entry ::
  "string \<Rightarrow> string option \<Rightarrow> nat option \<Rightarrow> json_map \<Rightarrow> json_map" where
  "new_record_entry record_id record_status record_sequence entry_map =
     (let e1 = obj_insert ''record_id'' (JString record_id) entry_map;
          e2 = (case trim_nonempty record_status of
                  None \<Rightarrow> e1
                | Some s \<Rightarrow> obj_insert ''record_status'' (JString s) e1)
      in case record_sequence of
           None \<Rightarrow> e2
         | Some n \<Rightarrow> obj_insert ''record_sequence'' (JInt (int n)) e2)"

text \<open>One turn of the loop over the record maps of the family.\<close>

definition apply_record_status_to_field ::
  "string \<Rightarrow> string \<Rightarrow> string option \<Rightarrow> nat option \<Rightarrow> string \<Rightarrow> bool \<times> json_map \<Rightarrow> bool \<times> json_map" where
  "apply_record_status_to_field record_family record_id record_status record_sequence map_field am =
     (case am of (applied, target_map) \<Rightarrow>
       if record_family = ''task_closure_record'' \<and> map_field = ''current_task_closure_records'' \<and>
          record_status \<noteq> Some ''current'' then am
       else if record_family = ''task_closure_record'' \<and>
          map_field = ''task_closure_record_history'' \<and> record_status = Some ''current'' then am
       else
         (let records = entry_object target_map map_field;
              existing_key =
                map_option fst (find (\<lambda>(k, e). record_entry_matches_id k e record_id) records);
              key = (case existing_key of None \<Rightarrow> record_id | Some k \<Rightarrow> k);
              entry0 = entry_object records key;
              entry1 =
                (if existing_key \<noteq> None then entry0
                 else new_record_entry record_id record_status record_sequence entry0)
          in (True, obj_insert map_field (JObject (obj_insert key (JObject entry1) records)) target_map)))"

definition apply_record_status_transition ::
  "json \<Rightarrow> string \<Rightarrow> string option \<Rightarrow> string option \<Rightarrow> nat option \<Rightarrow> bool \<times> json" where
  "apply_record_status_transition target record_family record_id record_status record_sequence =
     (case trim_nonempty record_id of
        None \<Rightarrow> (False, target)
      | Some rid \<Rightarrow>
          (case record_status_map_fields record_family of
             None \<Rightarrow> (False, target)
           | Some map_fields \<Rightarrow>
               (let (applied, m) =
                  fold (apply_record_status_to_field record_family rid record_status record_sequence)
                    map_fields (False, normalize_object target)
                in (applied, JObject m))))"

fun apply_event :: "json \<Rightarrow> ExecutionEvent \<Rightarrow> bool \<times> json" where
  "apply_event target (MigrationImported _) = (False, target)"
| "apply_event target (RecordStatusTransition fam rid status seq) =
     apply_record_status_transition target fam rid status seq"
| "apply_event target (Complete task step fs) =
     (let (applied, t) = apply_typed_authoritative_facts target fs;
          (c, t') = apply_completed_step_event t task step True
      in (c \<or> applied, t'))"
| "apply_event target (Reopen task step fs) =
     (let (applied, t) = apply_typed_authoritative_facts target fs;
          (c, t') = apply_completed_step_event t task step False
      in (c \<or> applied, t'))"
| "apply_event target e =
     (case event_facts e of
        None \<Rightarrow> (False, target)
      | Some fs \<Rightarrow> apply_typed_authoritative_facts target fs)"

definition apply_typed_event_to_state :: "json \<Rightarrow> ExecutionEventEnvelope \<Rightarrow> bool \<times> json" where
  "apply_typed_event_to_state target event = apply_event target (payload event)"

definition reduce_step :: "ExecutionEventEnvelope \<Rightarrow> bool \<times> json \<Rightarrow> bool \<times> json" where
  "reduce_step event br =
     (let (applied, r) = apply_typed_event_to_state (snd br) event in (fst br \<or> applied, r))"

definition reduce_events_to_state :: "ExecutionEventEnvelope list \<Rightarrow> json option" where
  "reduce_events_to_state events =
     (let (reduced_any, reduced) = fold reduce_step events (False, JNull)
      in then_some reduced_any reduced)"

text \<open>The state the next delta is computed against.\<close>

definition current_state :: "ExecutionEventEnvelope list \<Rightarrow> json" where
  "current_state events = (case reduce_events_to_state events of None \<Rightarrow> JNull | Some s \<Rightarrow> s)"

subsection \<open>Views of a state\<close>

text \<open>The value of a plain field, an explicit \<^verbatim>\<open>null\<close> counting as absent, and one entry of a
  record map.\<close>

definition state_field :: "json \<Rightarrow> string \<Rightarrow> json option" where
  "state_field s f = opt_filter (\<lambda>v. v \<noteq> JNull) (json_get s f)"

definition record_entry :: "json \<Rightarrow> string \<Rightarrow> string \<Rightarrow> json option" where
  "record_entry s f k = opt_filter (\<lambda>v. v \<noteq> JNull) (obj_get (entries_at s f) k)"

definition same_field :: "json \<Rightarrow> json \<Rightarrow> string \<Rightarrow> bool" where
  "same_field s t f \<longleftrightarrow>
     (if record_map_delta_field f then (\<forall>k. record_entry s f k = record_entry t f k)
      else state_field s f = state_field t f)"

lemma same_field_get: "json_get s f = json_get t f \<Longrightarrow> same_field s t f"
  by (simp add: same_field_def state_field_def record_entry_def entries_at_def)

lemma same_field_trans: "same_field s t f \<Longrightarrow> same_field t u f \<Longrightarrow> same_field s u f"
  by (auto simp: same_field_def split: if_splits)

lemma same_field_sym: "same_field s t f \<Longrightarrow> same_field t s f"
  by (auto simp: same_field_def split: if_splits)

subsection \<open>Applying facts\<close>

lemma json_get_normalize: "obj_get (normalize_object v) k = json_get v k"
  by (cases v) (auto simp: obj_get_def)

lemma entries_at_JObject: "entries_at (JObject m) f = entry_object m f"
proof (cases "obj_get m f")
  case None
  then show ?thesis by (simp add: entries_at_def entry_object_def)
next
  case (Some v)
  then show ?thesis by (cases v) (simp_all add: entries_at_def entry_object_def)
qed

lemma normalize_object_wf: "json_wf v \<Longrightarrow> obj_sorted (normalize_object v)"
  by (cases v) (auto simp: obj_sorted_def)

lemma normalize_object_json_wf: "json_wf v \<Longrightarrow> json_wf (JObject (normalize_object v))"
  by (cases v) (auto simp: obj_sorted_def)

lemma entry_object_wf: "json_wf (JObject m) \<Longrightarrow> json_wf (JObject (entry_object m f))"
proof (cases "obj_get m f")
  case None
  then show ?thesis by (simp add: entry_object_def obj_sorted_def)
next
  case (Some v)
  assume "json_wf (JObject m)"
  with Some have "json_wf v" using json_wf_get [of "JObject m" f v] by simp
  with Some show ?thesis by (simp add: entry_object_def normalize_object_json_wf del: json_wf.simps)
qed

text \<open>What a delta makes of the previous binding of a field.\<close>

definition delta_entries :: "json_map \<Rightarrow> json_map \<Rightarrow> json_map" where
  "delta_entries ents existing =
     fold (\<lambda>kv. objm.alter (fst kv) (\<lambda>_. if is_null (snd kv) then None else Some (snd kv))) ents existing"

definition field_update :: "string \<Rightarrow> json \<Rightarrow> json option \<Rightarrow> json option" where
  "field_update f v old =
     (if v = JNull then None
      else if record_map_delta_field f \<and> is_object v
      then Some (JObject (delta_entries (normalize_object v)
                  (case old of None \<Rightarrow> [] | Some w \<Rightarrow> normalize_object w)))
      else Some v)"

lemma delta_entries_fold:
  "fold (\<lambda>(record_key, record_value) es.
      if is_null record_value then obj_remove record_key es
      else obj_insert record_key record_value es) ents existing = delta_entries ents existing"
  unfolding delta_entries_def
  by (rule fold_cong) (auto simp: objm.alter_def fun_eq_iff)

lemma apply_authoritative_field_alter:
  "apply_authoritative_field fv m = objm.alter (fst fv) (field_update (fst fv) (snd fv)) m"
proof (cases "as_object (snd fv)")
  case None
  then have "\<not> is_object (snd fv)" by (simp add: as_object_None)
  with None show ?thesis
    by (auto simp: apply_authoritative_field_def apply_record_map_delta_def objm.alter_def
        field_update_def)
next
  case (Some es)
  then show ?thesis
    unfolding apply_authoritative_field_def apply_record_map_delta_def delta_entries_fold Let_def
    by (auto simp: objm.alter_def field_update_def entry_object_def)
qed

lemma selected_facts_collect: "selected_facts fs = objm.collect (facts_get fs) (populated_field_names fs)"
  by (simp add: selected_facts_def objm.collect_def)

lemma selected_facts_get: "obj_get (selected_facts fs) f = facts_get fs f"
  using map_of_eq_None_iff [of fs f]
  by (auto simp: selected_facts_collect objm.get_collect populated_field_names_def facts_get_def)

lemma selected_facts_sorted: "obj_sorted (selected_facts fs)"
  by (simp add: selected_facts_collect objm.inv_collect)

lemma selected_facts_Nil: "selected_facts fs = [] \<longleftrightarrow> fs = []"
proof
  assume e: "selected_facts fs = []"
  show "fs = []"
  proof (rule ccontr)
    assume "fs \<noteq> []"
    then obtain k v r where "fs = (k, v) # r" by (metis neq_Nil_conv surj_pair)
    then have "facts_get fs k \<noteq> None" by (simp add: facts_get_def)
    with e show False using selected_facts_get [of fs k] by (simp add: obj_get_def)
  qed
qed (simp add: selected_facts_def populated_field_names_def)

definition facts_target :: "json \<Rightarrow> facts \<Rightarrow> json" where
  "facts_target target fs = snd (apply_typed_authoritative_facts target fs)"

lemma facts_target_get:
  assumes "json_wf target"
  shows "json_get (facts_target target fs) f =
    (case facts_get fs f of None \<Rightarrow> json_get target f | Some v \<Rightarrow> field_update f v (json_get target f))"
proof (cases "selected_facts fs = []")
  case True
  then show ?thesis
    by (simp add: facts_target_def apply_typed_authoritative_facts_def apply_authoritative_fields_def
        selected_facts_Nil facts_get_def)
next
  case False
  let ?sel = "selected_facts fs"
  have h: "(case map_of ?sel f of None \<Rightarrow> x | Some v \<Rightarrow> g v) =
      (case facts_get fs f of None \<Rightarrow> x | Some v \<Rightarrow> g v)" for x :: "json option" and g
    using selected_facts_get [of fs f] by (simp add: obj_get_def)
  have "obj_get (fold apply_authoritative_field ?sel (normalize_object target)) f =
     (case map_of ?sel f of None \<Rightarrow> obj_get (normalize_object target) f
      | Some v \<Rightarrow> field_update f v (obj_get (normalize_object target) f))"
    unfolding apply_authoritative_field_alter [abs_def]
    using objm.get_fold_alter [of "normalize_object target" ?sel
        "\<lambda>fv. field_update (fst fv) (snd fv)" f]
      normalize_object_wf [OF assms] obj_sorted_distinct [OF selected_facts_sorted]
    by (simp split: option.splits)
  with False show ?thesis
    by (simp add: facts_target_def apply_typed_authoritative_facts_def apply_authoritative_fields_def
        Let_def h json_get_normalize split: option.splits)
qed

subsection \<open>Well-formed events and states\<close>

definition facts_wf :: "facts \<Rightarrow> bool" where
  "facts_wf fs \<longleftrightarrow> (\<forall>kv\<in>set fs. json_wf (snd kv))"

definition event_wf :: "ExecutionEvent \<Rightarrow> bool" where
  "event_wf e \<longleftrightarrow> event_typed e \<and> (case event_facts e of None \<Rightarrow> True | Some fs \<Rightarrow> facts_wf fs)"

definition reduced_fields :: "string set" where
  "reduced_fields = insert ''event_completed_steps'' (set AuthoritativeFactBuilder_fields)"

text \<open>The invariant of every reduced state: ordered maps at every level, only authoritative
  fields, no explicit \<^verbatim>\<open>null\<close> as a field and none as an entry of a record map.\<close>

definition reduced_inv :: "json \<Rightarrow> bool" where
  "reduced_inv s \<longleftrightarrow>
     json_wf s \<and> (s = JNull \<or> is_object s) \<and>
     (\<forall>f v. json_get s f = Some v \<longrightarrow> f \<in> reduced_fields \<and> v \<noteq> JNull) \<and>
     (\<forall>f k v. record_map_delta_field f \<longrightarrow> obj_get (entries_at s f) k = Some v \<longrightarrow> v \<noteq> JNull)"

lemma facts_get_wf: "facts_wf fs \<Longrightarrow> facts_get fs f = Some v \<Longrightarrow> json_wf v"
  by (force simp: facts_wf_def facts_get_def dest!: map_of_SomeD)

lemma facts_get_typed: "facts_typed flds fs \<Longrightarrow> facts_get fs f = Some v \<Longrightarrow> f \<in> set flds"
  by (force simp: facts_typed_def facts_get_def dest!: map_of_SomeD)

lemma delta_entries_get:
  "obj_sorted old \<Longrightarrow> obj_sorted ents \<Longrightarrow>
   obj_get (delta_entries ents old) k =
     (case obj_get ents k of None \<Rightarrow> obj_get old k | Some v \<Rightarrow> if v = JNull then None else Some v)"
  unfolding delta_entries_def
  using objm.get_fold_alter [of old ents
      "\<lambda>kv _. if is_null (snd kv) then None else Some (snd kv)" k] obj_sorted_distinct [of ents]
  by (simp add: obj_get_def split: option.splits)

lemma delta_entries_sorted: "obj_sorted old \<Longrightarrow> obj_sorted (delta_entries ents old)"
  unfolding delta_entries_def
  using objm.inv_fold_alter [of old "\<lambda>kv _. if is_null (snd kv) then None else Some (snd kv)" ents]
  by simp

lemma delta_entries_wf:
  assumes "json_wf (JObject old)" "json_wf (JObject ents)"
  shows "json_wf (JObject (delta_entries ents old))"
proof (rule json_wf_object)
  show "obj_sorted (delta_entries ents old)" using assms by (simp add: delta_entries_sorted)
  fix k w
  assume "obj_get (delta_entries ents old) k = Some w"
  then have "obj_get ents k = Some w \<or> obj_get old k = Some w"
    using assms delta_entries_get [of old ents k] by (auto split: option.splits if_splits)
  then show "json_wf w" using assms obj_get_wf by auto
qed

lemma field_update_wf:
  assumes "json_wf v" "\<And>w. old = Some w \<Longrightarrow> json_wf w" "field_update f v old = Some u"
  shows "json_wf u"
proof -
  have "json_wf (JObject (case old of None \<Rightarrow> [] | Some w \<Rightarrow> normalize_object w))"
    using assms(2) by (cases old) (simp_all add: normalize_object_json_wf obj_sorted_def del: json_wf.simps,
        simp add: obj_sorted_def)
  then show ?thesis
    using assms(1,3) normalize_object_json_wf [of v] delta_entries_wf
    by (auto simp: field_update_def simp del: json_wf.simps split: if_splits)
qed

lemma field_update_not_null: "field_update f v old \<noteq> Some JNull"
  by (simp add: field_update_def)

lemma facts_target_object: "json_wf target \<Longrightarrow> facts_target target fs = target \<or> is_object (facts_target target fs)"
  by (simp add: facts_target_def apply_typed_authoritative_facts_def apply_authoritative_fields_def Let_def)

lemma facts_target_sorted:
  assumes "json_wf target" "facts_target target fs = JObject m"
  shows "obj_sorted m"
proof (cases "selected_facts fs = []")
  case True
  then show ?thesis
    using assms by (auto simp: facts_target_def apply_typed_authoritative_facts_def
        apply_authoritative_fields_def Let_def)
next
  case False
  then show ?thesis
    using assms normalize_object_wf [OF assms(1)]
      objm.inv_fold_alter [of "normalize_object target" "\<lambda>fv. field_update (fst fv) (snd fv)"]
    by (auto simp: facts_target_def apply_typed_authoritative_facts_def
        apply_authoritative_fields_def Let_def apply_authoritative_field_alter [abs_def])
qed

lemma facts_target_wf:
  assumes "json_wf target" "facts_wf fs"
  shows "json_wf (facts_target target fs)"
proof (cases "facts_target target fs")
  case (JObject m)
  show ?thesis unfolding JObject
  proof (rule json_wf_object)
    show "obj_sorted m" using facts_target_sorted [OF assms(1) JObject] .
    fix k w
    assume "obj_get m k = Some w"
    then have "json_get (facts_target target fs) k = Some w" by (simp add: JObject)
    then show "json_wf w"
      using facts_target_get [OF assms(1), of fs k] json_wf_get [OF assms(1)] facts_get_wf [OF assms(2)]
      by (auto split: option.splits elim!: field_update_wf [rotated 2])
  qed
qed (use assms facts_target_object [OF assms(1), of fs] in auto)

subsection \<open>The effect of one event\<close>

definition event_target :: "json \<Rightarrow> ExecutionEvent \<Rightarrow> json" where
  "event_target target e = snd (apply_event target e)"

lemma completed_steps_not_builder: "''event_completed_steps'' \<notin> set AuthoritativeFactBuilder_fields"
  by (simp add: AuthoritativeFactBuilder_fields_def)

lemma completed_steps_not_record_map: "\<not> record_map_delta_field ''event_completed_steps''"
  by (simp add: record_map_delta_field_def RECORD_MAP_DELTA_FIELDS_def)

lemma struct_field_in_reduced_fields: "f \<in> set (event_struct_fields e) \<Longrightarrow> f \<in> reduced_fields"
  using event_struct_fields_in_builder by (auto simp: reduced_fields_def)

lemma struct_field_not_completed: "f \<in> set (event_struct_fields e) \<Longrightarrow> f \<noteq> ''event_completed_steps''"
  using event_struct_fields_in_builder completed_steps_not_builder by blast

lemma entries_at_insert:
  "entries_at (JObject (obj_insert f (JObject es) m)) f' = (if f' = f then es else entries_at (JObject m) f')"
  by (simp add: entries_at_def obj_get_insert)

lemma completed_step_target:
  "snd (apply_completed_step_event target task step c) =
   (case (task, step) of
      (Some a, Some b) \<Rightarrow>
        JObject (obj_insert ''event_completed_steps''
          (JObject (if c then obj_insert (step_key a b) (completed_step_entry a b)
                           (entry_object (normalize_object target) ''event_completed_steps'')
                    else obj_remove (step_key a b)
                           (entry_object (normalize_object target) ''event_completed_steps'')))
          (normalize_object target))
    | _ \<Rightarrow> target)"
  by (simp add: apply_completed_step_event_def Let_def split: option.splits)

lemma event_target_facts:
  assumes "event_facts e = Some fs"
  obtains (plain) "event_target t e = facts_target t fs" "\<And>a b. e \<noteq> Complete a b fs" "\<And>a b. e \<noteq> Reopen a b fs"
  | (complete) a b where "e = Complete a b fs"
      "event_target t e = snd (apply_completed_step_event (facts_target t fs) a b True)"
  | (reopen) a b where "e = Reopen a b fs"
      "event_target t e = snd (apply_completed_step_event (facts_target t fs) a b False)"
  using assms
  by (cases e) (auto simp: event_target_def facts_target_def split: prod.splits)

lemma event_target_get:
  assumes "event_facts e = Some fs" "f \<noteq> ''event_completed_steps''"
  shows "json_get (event_target t e) f = json_get (facts_target t fs) f"
  using assms(1)
  by (cases rule: event_target_facts [where t = t])
     (use assms(2) in \<open>auto simp: completed_step_target obj_get_insert json_get_normalize split: option.splits\<close>)

lemma event_target_no_facts:
  "event_facts e = None \<Longrightarrow>
   (\<exists>b. e = MigrationImported b) \<or> (\<exists>fam rid st sq. e = RecordStatusTransition fam rid st sq)"
  by (cases e) auto

text \<open>Frame: an event leaves every field outside its own payload struct alone.\<close>

lemma event_target_frame:
  assumes "json_wf t" "event_typed e" "event_facts e = Some fs" "f \<notin> set (event_struct_fields e)"
    "f \<noteq> ''event_completed_steps''"
  shows "json_get (event_target t e) f = json_get t f"
proof -
  have "facts_get fs f = None"
    using assms facts_get_typed [of "event_struct_fields e" fs f]
    by (cases "facts_get fs f") (auto simp: event_typed_def)
  then show ?thesis
    using event_target_get [OF assms(3,5)] facts_target_get [OF assms(1), of fs f] by simp
qed

subsection \<open>The invariant\<close>

lemma reduced_inv_JNull: "reduced_inv JNull"
  by (simp add: reduced_inv_def entries_at_def obj_get_def)

lemma entries_at_normalize: "entries_at (JObject (normalize_object s)) f = entries_at s f"
  by (cases s) (simp_all add: entries_at_def obj_get_def)

text \<open>The projection summaries are in the scopes of some events but in the payload of none.\<close>

lemma summary_fields_not_reduced: "f \<in> set PROJECTION_SUMMARY_FIELDS \<Longrightarrow> f \<notin> reduced_fields"
  by (auto simp: PROJECTION_SUMMARY_FIELDS_def reduced_fields_def AuthoritativeFactBuilder_fields_def)

lemma summary_field_absent:
  "reduced_inv s \<Longrightarrow> f \<in> set PROJECTION_SUMMARY_FIELDS \<Longrightarrow> json_get s f = None"
  using summary_fields_not_reduced [of f] by (cases "json_get s f") (auto simp: reduced_inv_def)

lemma summary_field_not_struct:
  "f \<in> set PROJECTION_SUMMARY_FIELDS \<Longrightarrow> f \<notin> set (event_struct_fields e)"
  using summary_fields_not_reduced [of f] event_struct_fields_in_builder [of e]
  by (auto simp: reduced_fields_def)

lemma reduced_inv_normalize: "reduced_inv s \<Longrightarrow> reduced_inv (JObject (normalize_object s))"
  unfolding reduced_inv_def entries_at_normalize json_get.simps json_get_normalize
  using normalize_object_json_wf by auto

lemma reduced_inv_insert_object:
  assumes "reduced_inv (JObject m)" "f \<in> reduced_fields" "json_wf (JObject es)"
    "\<And>k v. record_map_delta_field f \<Longrightarrow> obj_get es k = Some v \<Longrightarrow> v \<noteq> JNull"
  shows "reduced_inv (JObject (obj_insert f (JObject es) m))"
  using assms json_wf_insert [of m "JObject es" f]
  unfolding reduced_inv_def entries_at_insert by (auto simp: obj_get_insert simp del: json_wf.simps)

lemma reduced_inv_facts:
  assumes "reduced_inv t" "facts_wf fs" "facts_typed flds fs" "set flds \<subseteq> reduced_fields"
  shows "reduced_inv (facts_target t fs)"
  unfolding reduced_inv_def
proof (intro conjI allI impI)
  have wf: "json_wf t" using assms(1) by (simp add: reduced_inv_def)
  note g = facts_target_get [OF wf, of fs]
  show "json_wf (facts_target t fs)" by (rule facts_target_wf [OF wf assms(2)])
  show "facts_target t fs = JNull \<or> is_object (facts_target t fs)"
    using facts_target_object [OF wf, of fs] assms(1) by (auto simp: reduced_inv_def)
  fix f
  show "f \<in> reduced_fields" "v \<noteq> JNull" if "json_get (facts_target t fs) f = Some v" for v
    using that assms facts_get_typed [OF assms(3), of f] field_update_not_null [of f]
    by (auto simp: g reduced_inv_def split: option.splits)
  fix k v
  assume r: "record_map_delta_field f" and k: "obj_get (entries_at (facts_target t fs) f) k = Some v"
  show "v \<noteq> JNull"
  proof (cases "facts_get fs f")
    case None
    then have "entries_at (facts_target t fs) f = entries_at t f" by (simp add: entries_at_def g)
    then show ?thesis using k r assms(1) by (auto simp: reduced_inv_def)
  next
    case (Some d)
    show ?thesis
    proof (cases "is_object d")
      case True
      then obtain ds where d: "d = JObject ds" by (auto simp: is_object_conv)
      let ?old = "case json_get t f of None \<Rightarrow> [] | Some w \<Rightarrow> normalize_object w"
      have e: "entries_at (facts_target t fs) f = delta_entries ds ?old"
        using Some d r by (simp add: entries_at_def g field_update_def)
      have old: "?old = entries_at t f"
        by (cases "json_get t f"; cases "the (json_get t f)") (auto simp: entries_at_def)
      have "obj_sorted ?old" unfolding old using wf by (rule entries_at_sorted)
      moreover have "obj_sorted ds" using facts_get_wf [OF assms(2) Some] d by simp
      ultimately have "obj_get (delta_entries ds ?old) k =
        (case obj_get ds k of None \<Rightarrow> obj_get ?old k | Some v \<Rightarrow> if v = JNull then None else Some v)"
        by (rule delta_entries_get)
      then show ?thesis
        using k e old r assms(1) by (auto simp: reduced_inv_def split: option.splits if_splits)
    next
      case False
      then have "entries_at (facts_target t fs) f = []"
        using Some by (cases d) (simp_all add: entries_at_def g field_update_def)
      with k show ?thesis by (simp add: obj_get_def)
    qed
  qed
qed

text \<open>Record status transitions only touch the record maps of their family.\<close>

lemma record_status_fields_in_builder:
  "set [''current_task_closure_records'', ''task_closure_record_history'', ''branch_closure_records'',
        ''release_readiness_record_history'', ''final_review_record_history'',
        ''browser_qa_record_history''] \<subseteq> set AuthoritativeFactBuilder_fields"
  unfolding AuthoritativeFactBuilder_fields_def list.set
  by (intro insert_subsetI empty_subsetI; (rule insertI1 | rule insertI2)+)

lemma record_status_map_fields_sub:
  assumes "record_status_map_fields fam = Some flds"
  shows "set flds \<subseteq> set [''current_task_closure_records'', ''task_closure_record_history'',
     ''branch_closure_records'', ''release_readiness_record_history'',
     ''final_review_record_history'', ''browser_qa_record_history'']"
proof -
  have "flds = [''current_task_closure_records'', ''task_closure_record_history''] \<or>
    flds = [''branch_closure_records''] \<or> flds = [''release_readiness_record_history''] \<or>
    flds = [''final_review_record_history''] \<or> flds = [''browser_qa_record_history'']"
    using assms unfolding record_status_map_fields_def
    by (simp only: option.inject option.distinct simp_thms split: if_split_asm)
  then show ?thesis by (elim disjE; simp only: list.set) (intro insert_subsetI empty_subsetI insertI1 insertI2)+
qed

lemma record_status_fields_reduced:
  "record_status_map_fields fam = Some flds \<Longrightarrow> set flds \<subseteq> reduced_fields"
  unfolding reduced_fields_def
  using record_status_map_fields_sub [THEN subset_trans, OF _ record_status_fields_in_builder]
  by (rule subset_insertI2)

lemma entry_object_not_null:
  "reduced_inv (JObject m) \<Longrightarrow> record_map_delta_field f \<Longrightarrow> obj_get (entry_object m f) k = Some v \<Longrightarrow>
   v \<noteq> JNull"
  unfolding reduced_inv_def entries_at_JObject by blast

lemma new_record_entry_wf: "json_wf (JObject e) \<Longrightarrow> json_wf (JObject (new_record_entry rid st sq e))"
  unfolding new_record_entry_def Let_def
  by (auto intro!: json_wf_insert simp del: json_wf.simps split: option.splits)
     (simp_all add: json_wf_insert del: json_wf.simps(2))

lemma record_status_to_field_cases:
  obtains (skip) "apply_record_status_to_field fam rid st sq mf (a, m) = (a, m)"
  | (put) key e where
      "apply_record_status_to_field fam rid st sq mf (a, m) =
         (True, obj_insert mf (JObject (obj_insert key (JObject e) (entry_object m mf))) m)"
      "json_wf (JObject m) \<Longrightarrow> json_wf (JObject e)"
proof -
  let ?records = "entry_object m mf"
  let ?ek = "map_option fst (find (\<lambda>(k, e). record_entry_matches_id k e rid) ?records)"
  let ?key = "case ?ek of None \<Rightarrow> rid | Some k \<Rightarrow> k"
  let ?e0 = "entry_object ?records ?key"
  let ?e = "if ?ek \<noteq> None then ?e0 else new_record_entry rid st sq ?e0"
  have w: "json_wf (JObject m) \<Longrightarrow> json_wf (JObject ?e)"
    by (simp only: entry_object_wf new_record_entry_wf split: if_split) simp
  consider "apply_record_status_to_field fam rid st sq mf (a, m) = (a, m)"
    | "apply_record_status_to_field fam rid st sq mf (a, m) =
         (True, obj_insert mf (JObject (obj_insert ?key (JObject ?e) ?records)) m)"
    unfolding apply_record_status_to_field_def prod.case Let_def by presburger
  then show thesis by cases (use w that in blast)+
qed

lemma record_status_to_field_frame:
  "f \<noteq> mf \<Longrightarrow>
   obj_get (snd (apply_record_status_to_field fam rid st sq mf am)) f = obj_get (snd am) f"
  by (cases am; cases fam rid st sq mf "fst am" "snd am" rule: record_status_to_field_cases)
     (simp_all add: obj_get_insert)

lemma record_status_to_field_inv:
  assumes "reduced_inv (JObject (snd am))" "mf \<in> reduced_fields"
  shows "reduced_inv (JObject (snd (apply_record_status_to_field fam rid st sq mf am)))"
proof (cases fam rid st sq mf "fst am" "snd am" rule: record_status_to_field_cases)
  case skip
  then show ?thesis using assms(1) by simp
next
  case (put key e)
  have wf: "json_wf (JObject (snd am))" using assms(1) by (simp add: reduced_inv_def del: json_wf.simps)
  let ?es = "obj_insert key (JObject e) (entry_object (snd am) mf)"
  have "json_wf (JObject ?es)" using put(2) wf by (intro json_wf_insert entry_object_wf)
  moreover have "v \<noteq> JNull" if "record_map_delta_field mf" "obj_get ?es k = Some v" for k v
    using that entry_object_not_null [OF assms(1)] by (auto simp: obj_get_insert split: if_splits)
  ultimately show ?thesis using put(1) assms by (simp add: reduced_inv_insert_object)
qed

lemma record_status_fold:
  assumes "reduced_inv (JObject (snd am))" "set mfs \<subseteq> reduced_fields"
  shows "reduced_inv (JObject (snd (fold (apply_record_status_to_field fam rid st sq) mfs am)))"
    "f \<notin> set mfs \<Longrightarrow>
     obj_get (snd (fold (apply_record_status_to_field fam rid st sq) mfs am)) f = obj_get (snd am) f"
  using assms
  by (induction mfs arbitrary: am)
     (simp_all add: record_status_to_field_inv record_status_to_field_frame)

lemma record_status_target:
  obtains (none) "event_target t (RecordStatusTransition fam rid st sq) = t"
  | (some) r mfs where "record_status_map_fields fam = Some mfs"
      "event_target t (RecordStatusTransition fam rid st sq) =
         JObject (snd (fold (apply_record_status_to_field fam r st sq) mfs (False, normalize_object t)))"
  unfolding event_target_def apply_event.simps apply_record_status_transition_def
  by (cases "trim_nonempty rid"; cases "record_status_map_fields fam")
     (auto simp: split_beta Let_def intro: that)

lemma record_status_inv:
  assumes "reduced_inv t"
  shows "reduced_inv (event_target t (RecordStatusTransition fam rid st sq))"
proof (cases rule: record_status_target [where t = t and fam = fam and rid = rid and st = st and sq = sq])
  case none
  with assms show ?thesis by simp
next
  case (some r mfs)
  then show ?thesis
    using record_status_fold(1) [of "(False, normalize_object t)" mfs fam r st sq]
      reduced_inv_normalize [OF assms] record_status_fields_reduced by simp
qed

lemma record_status_frame:
  assumes "reduced_inv t"
    "\<And>mfs. record_status_map_fields fam = Some mfs \<Longrightarrow> f \<notin> set mfs"
  shows "json_get (event_target t (RecordStatusTransition fam rid st sq)) f = json_get t f"
proof (cases rule: record_status_target [where t = t and fam = fam and rid = rid and st = st and sq = sq])
  case none
  then show ?thesis by simp
next
  case (some r mfs)
  then show ?thesis
    using record_status_fold(2) [of "(False, normalize_object t)" mfs f fam r st sq]
      reduced_inv_normalize [OF assms(1)] record_status_fields_reduced assms(2)
    by (simp add: json_get_normalize)
qed

lemma completed_step_inv:
  assumes "reduced_inv t"
  shows "reduced_inv (snd (apply_completed_step_event t a b c))"
proof (cases "\<exists>x y. a = Some x \<and> b = Some y")
  case True
  then obtain x y where xy: "a = Some x" "b = Some y" by blast
  have inv: "reduced_inv (JObject (normalize_object t))" by (rule reduced_inv_normalize [OF assms])
  then have "json_wf (JObject (entry_object (normalize_object t) ''event_completed_steps''))"
    by (intro entry_object_wf) (simp add: reduced_inv_def del: json_wf.simps)
  moreover have "json_wf (completed_step_entry x y)"
    by (simp add: completed_step_entry_def obj_sorted_def)
  ultimately have "json_wf (JObject (if c
      then obj_insert (step_key x y) (completed_step_entry x y)
             (entry_object (normalize_object t) ''event_completed_steps'')
      else obj_remove (step_key x y) (entry_object (normalize_object t) ''event_completed_steps'')))"
    by (cases c) (simp_all only: if_True if_False json_wf_insert json_wf_remove)
  then show ?thesis
    unfolding completed_step_target xy prod.case option.case
    by (intro reduced_inv_insert_object [OF inv])
       (auto simp: reduced_fields_def completed_steps_not_record_map simp del: json_wf.simps)
next
  case False
  then show ?thesis using assms by (auto simp: completed_step_target split: option.splits)
qed

lemma event_inv:
  assumes "reduced_inv t" "event_wf e"
  shows "reduced_inv (event_target t e)"
proof (cases "event_facts e")
  case None
  then show ?thesis
    using event_target_no_facts [OF None] record_status_inv [OF assms(1)] assms(1)
    by (auto simp: event_target_def)
next
  case (Some fs)
  have f: "reduced_inv (facts_target t fs)"
    using assms Some struct_field_in_reduced_fields [of _ e]
    by (intro reduced_inv_facts [of t fs "event_struct_fields e"]) (auto simp: event_wf_def event_typed_def)
  from Some show ?thesis
    by (cases rule: event_target_facts [where t = t]) (simp_all add: f completed_step_inv)
qed

subsection \<open>Reducing a log\<close>

lemma record_status_map_fields_cases:
  assumes "record_status_map_fields fam = Some mfs"
  obtains (task) "fam = ''task_closure_record''"
      "mfs = [''current_task_closure_records'', ''task_closure_record_history'']"
  | (single) mf where "mfs = [mf]" "mf \<noteq> ''current_task_closure_records''"
      "mf \<noteq> ''task_closure_record_history''"
proof (cases "fam = ''task_closure_record''")
  case True
  then show ?thesis using assms by (intro task) (simp_all add: record_status_map_fields_def)
next
  case False
  have "mfs = [''branch_closure_records''] \<or> mfs = [''release_readiness_record_history''] \<or>
    mfs = [''final_review_record_history''] \<or> mfs = [''browser_qa_record_history'']"
    using assms unfolding record_status_map_fields_def if_not_P [OF False]
    by (simp only: option.inject option.distinct simp_thms split: if_split_asm)
  then show ?thesis by (elim disjE) (rule single, assumption, simp, simp)+
qed

lemma event_not_applied: "\<not> fst (apply_event t e) \<Longrightarrow> snd (apply_event t e) = t"
proof -
  have f: "\<not> fst (apply_typed_authoritative_facts t fs) \<Longrightarrow> snd (apply_typed_authoritative_facts t fs) = t"
    for t fs
    by (simp add: apply_typed_authoritative_facts_def apply_authoritative_fields_def Let_def)
  have c: "\<not> fst (apply_completed_step_event t a b x) \<Longrightarrow> snd (apply_completed_step_event t a b x) = t"
    for t a b x
    by (simp add: apply_completed_step_event_def Let_def split: option.splits)
  have s1: "fst am \<Longrightarrow> fst (apply_record_status_to_field fam rid st sq mf am)" for fam rid st sq mf am
    by (cases am; cases fam rid st sq mf "fst am" "snd am" rule: record_status_to_field_cases) simp_all
  have s2: "mf \<noteq> ''current_task_closure_records'' \<Longrightarrow> mf \<noteq> ''task_closure_record_history'' \<Longrightarrow>
     fst (apply_record_status_to_field fam rid st sq mf am)" for fam rid st sq mf am
    by (simp add: apply_record_status_to_field_def Let_def split: prod.splits)
  have s3: "fst (fold (apply_record_status_to_field ''task_closure_record'' rid st sq)
      [''current_task_closure_records'', ''task_closure_record_history''] am)" for rid st sq am
    by (cases "st = Some ''current''")
       (simp_all add: apply_record_status_to_field_def Let_def split: prod.splits)
  have s: "fst (fold (apply_record_status_to_field fam rid st sq) mfs am)"
    if "record_status_map_fields fam = Some mfs" for fam rid st sq mfs am
    using that
  proof (cases rule: record_status_map_fields_cases)
    case task
    then show ?thesis using s3 by simp
  next
    case (single mf)
    then show ?thesis by (simp add: s2)
  qed
  show "\<not> fst (apply_event t e) \<Longrightarrow> ?thesis"
    using f [of t] c s
    by (cases e) (auto simp: apply_record_status_transition_def split_beta Let_def split: option.splits)
qed

definition log_target :: "ExecutionEvent list \<Rightarrow> json" where
  "log_target es = fold (\<lambda>e t. event_target t e) es JNull"

lemma reduce_fold:
  "snd (fold reduce_step es br) = fold (\<lambda>e t. event_target t e) (map payload es) (snd br)"
  by (induction es arbitrary: br)
     (simp_all add: reduce_step_def split_beta Let_def event_target_def apply_typed_event_to_state_def)

lemma reduce_unchanged: "\<not> fst (fold reduce_step es br) \<Longrightarrow> \<not> fst br \<and> snd (fold reduce_step es br) = snd br"
proof (induction es arbitrary: br)
  case Nil
  then show ?case by simp
next
  case (Cons e es)
  from Cons.IH [of "reduce_step e br"] Cons.prems
  have "\<not> fst (reduce_step e br)" "snd (fold reduce_step (e # es) br) = snd (reduce_step e br)" by simp_all
  moreover have "\<not> fst (reduce_step e br) \<Longrightarrow> \<not> fst br \<and> snd (reduce_step e br) = snd br"
    using event_not_applied [of "snd br" "payload e"]
    by (simp add: reduce_step_def split_beta Let_def apply_typed_event_to_state_def)
  ultimately show ?case by simp
qed

text \<open>The state used for the next delta is the left fold of the events.\<close>

lemma current_state_log_target: "current_state es = log_target (map payload es)"
proof -
  have "snd (fold reduce_step es (False, JNull)) = log_target (map payload es)"
    by (simp add: reduce_fold log_target_def)
  then show ?thesis
    using reduce_unchanged [of es "(False, JNull)"]
    by (auto simp: current_state_def reduce_events_to_state_def split_beta Let_def then_some_def)
qed

lemma log_target_snoc: "log_target (es @ [e]) = event_target (log_target es) e"
  by (simp add: log_target_def)

lemma log_target_inv: "\<forall>e\<in>set es. event_wf e \<Longrightarrow> reduced_inv (log_target es)"
proof (induction es rule: rev_induct)
  case Nil
  then show ?case by (simp add: log_target_def reduced_inv_JNull)
next
  case (snoc e es)
  then show ?case by (simp add: log_target_snoc event_inv)
qed

lemma current_state_snoc: "current_state (es @ [e]) = event_target (current_state es) (payload e)"
  by (simp add: current_state_log_target log_target_snoc)

lemma current_state_inv: "\<forall>e\<in>set es. event_wf (payload e) \<Longrightarrow> reduced_inv (current_state es)"
  by (simp add: current_state_log_target log_target_inv)

subsection \<open>Completed steps\<close>

definition step_completed :: "json \<Rightarrow> nat \<Rightarrow> nat \<Rightarrow> bool" where
  "step_completed s task step \<longleftrightarrow>
     obj_get (entries_at s ''event_completed_steps'') (step_key task step) \<noteq> None"

text \<open>The specification: the set of completed steps as the events describe it.\<close>

fun completed_set_step :: "ExecutionEvent \<Rightarrow> (nat \<times> nat) set \<Rightarrow> (nat \<times> nat) set" where
  "completed_set_step (Complete (Some a) (Some b) _) S = insert (a, b) S"
| "completed_set_step (Reopen (Some a) (Some b) _) S = S - {(a, b)}"
| "completed_set_step _ S = S"

definition completed_set :: "json \<Rightarrow> (nat \<times> nat) set" where
  "completed_set s = {(a, b). step_completed s a b}"

lemma step_key_inject: "step_key a b = step_key c d \<longleftrightarrow> a = c \<and> b = d"
  by (simp add: step_key_def dotted_key_inject)

lemma completed_set_get: "json_get s ''event_completed_steps'' = json_get t ''event_completed_steps'' \<Longrightarrow>
   completed_set s = completed_set t"
  by (simp add: completed_set_def step_completed_def entries_at_def)

lemma completed_set_completed_step:
  "completed_set (snd (apply_completed_step_event t (Some a) (Some b) True)) = insert (a, b) (completed_set t)"
  "completed_set (snd (apply_completed_step_event t (Some a) (Some b) False)) = completed_set t - {(a, b)}"
  unfolding completed_step_target prod.case option.case completed_set_def step_completed_def
    entries_at_insert simp_thms if_True if_False
  by (auto simp: obj_get_insert obj_get_remove step_key_inject entries_at_JObject [symmetric]
      entries_at_normalize)

lemma completed_step_none:
  "a = None \<or> b = None \<Longrightarrow> snd (apply_completed_step_event t a b c) = t"
  by (auto simp: completed_step_target split: option.splits)

lemma facts_keep_completed:
  assumes "json_wf t" "event_typed e" "event_facts e = Some fs"
  shows "completed_set (facts_target t fs) = completed_set t"
proof -
  have "facts_get fs ''event_completed_steps'' = None"
    using assms(2,3) facts_get_typed [of "event_struct_fields e" fs] struct_field_not_completed
    by (cases "facts_get fs ''event_completed_steps''") (auto simp: event_typed_def)
  then show ?thesis
    by (intro completed_set_get) (simp add: facts_target_get [OF assms(1)])
qed

lemma record_status_fields_not_completed:
  "record_status_map_fields fam = Some mfs \<Longrightarrow> ''event_completed_steps'' \<notin> set mfs"
  using record_status_map_fields_sub record_status_fields_in_builder completed_steps_not_builder by blast

lemma completed_set_event:
  assumes "reduced_inv t" "event_typed e"
  shows "completed_set (event_target t e) = completed_set_step e (completed_set t)"
proof (cases "event_facts e")
  case None
  from event_target_no_facts [OF None] show ?thesis
  proof (elim disjE exE)
    fix fam rid st sq
    assume e: "e = RecordStatusTransition fam rid st sq"
    have "json_get (event_target t e) ''event_completed_steps'' = json_get t ''event_completed_steps''"
      unfolding e by (rule record_status_frame [OF assms(1)]) (rule record_status_fields_not_completed)
    from completed_set_get [OF this] show ?thesis by (simp add: e)
  qed (simp add: event_target_def)
next
  case (Some fs)
  have wf: "json_wf t" using assms(1) by (simp add: reduced_inv_def)
  note k = facts_keep_completed [OF wf assms(2) Some]
  from Some show ?thesis
  proof (cases rule: event_target_facts [where t = t])
    case plain
    moreover have "completed_set_step e S = S" for S
      using plain Some by (cases e) auto
    ultimately show ?thesis by (simp add: k)
  next
    case (complete a b)
    then show ?thesis
      by (cases a; cases b) (simp_all add: k completed_set_completed_step completed_step_none)
  next
    case (reopen a b)
    then show ?thesis
      by (cases a; cases b) (simp_all add: k completed_set_completed_step completed_step_none)
  qed
qed

lemma completed_set_log:
  "\<forall>e\<in>set es. event_wf e \<Longrightarrow> completed_set (log_target es) = fold completed_set_step es {}"
proof (induction es rule: rev_induct)
  case Nil
  then show ?case
    by (simp add: log_target_def completed_set_def step_completed_def entries_at_def obj_get_def)
next
  case (snoc e es)
  then show ?case
    using completed_set_event [OF log_target_inv [of es], of e]
    by (simp add: log_target_snoc event_wf_def)
qed

lemma completed_set_step_mem:
  "(a, b) \<in> completed_set_step e S \<longleftrightarrow>
   (\<exists>fs. e = Complete (Some a) (Some b) fs) \<or> ((a, b) \<in> S \<and> \<not> (\<exists>fs. e = Reopen (Some a) (Some b) fs))"
  by (cases "(e, S)" rule: completed_set_step.cases) auto

lemma completed_set_trace:
  "(a, b) \<in> fold completed_set_step es {} \<longleftrightarrow>
   (\<exists>es1 fs es2. es = es1 @ Complete (Some a) (Some b) fs # es2 \<and>
      (\<forall>gs. Reopen (Some a) (Some b) gs \<notin> set es2))"
proof (induction es rule: rev_induct)
  case Nil
  then show ?case by simp
next
  case (snoc e es)
  let ?Q = "\<lambda>es. \<exists>es1 fs es2. es = es1 @ Complete (Some a) (Some b) fs # es2 \<and>
      (\<forall>gs. Reopen (Some a) (Some b) gs \<notin> set es2)"
  have "?Q (es @ [e]) \<longleftrightarrow>
     (\<exists>fs. e = Complete (Some a) (Some b) fs) \<or> (?Q es \<and> \<not> (\<exists>fs. e = Reopen (Some a) (Some b) fs))"
  proof
    assume "?Q (es @ [e])"
    then obtain es1 fs es2 where q: "es @ [e] = es1 @ Complete (Some a) (Some b) fs # es2"
      "\<forall>gs. Reopen (Some a) (Some b) gs \<notin> set es2" by blast
    show "(\<exists>fs. e = Complete (Some a) (Some b) fs) \<or> (?Q es \<and> \<not> (\<exists>fs. e = Reopen (Some a) (Some b) fs))"
    proof (cases es2 rule: rev_cases)
      case Nil
      with q show ?thesis by simp
    next
      case (snoc ys y)
      with q have "es = es1 @ Complete (Some a) (Some b) fs # ys" "e = y" by simp_all
      with q snoc show ?thesis by auto
    qed
  next
    assume "(\<exists>fs. e = Complete (Some a) (Some b) fs) \<or> (?Q es \<and> \<not> (\<exists>fs. e = Reopen (Some a) (Some b) fs))"
    then show "?Q (es @ [e])"
    proof (elim disjE conjE exE)
      fix fs
      assume "e = Complete (Some a) (Some b) fs"
      then have "es @ [e] = es @ Complete (Some a) (Some b) fs # []" by simp
      then show ?thesis by (metis empty_iff empty_set)
    next
      fix es1 fs es2
      assume "\<not> (\<exists>fs. e = Reopen (Some a) (Some b) fs)" "es = es1 @ Complete (Some a) (Some b) fs # es2"
        "\<forall>gs. Reopen (Some a) (Some b) gs \<notin> set es2"
      then have "es @ [e] = es1 @ Complete (Some a) (Some b) fs # (es2 @ [e])"
        "\<forall>gs. Reopen (Some a) (Some b) gs \<notin> set (es2 @ [e])" by auto
      then show ?thesis by blast
    qed
  qed
  then show ?case using snoc completed_set_step_mem [of a b e] by simp
qed

end
