(* ===== verification/Paths.thy ===== *)
theory Paths
  imports Diagnostics
begin

text \<open>
  Repository-relative paths, identifier tokens and the layout of the state directory
  (\<^verbatim>\<open>src/src/paths/mod.rs\<close>).  A \<^verbatim>\<open>PathBuf\<close> of the state directory is the list of its
  components; \<^verbatim>\<open>sha256\<close> is the hexadecimal SHA-256 digest of a text, a parameter.
\<close>

subsection \<open>Repository-relative paths\<close>

definition invalid_repo_path :: "string \<Rightarrow> DiagnosticError" where
  "invalid_repo_path input =
     \<lparr>de_failure_class = InvalidRepoPath,
      de_message = ''Paths must stay repo-relative and non-traversing: '' @ input\<rparr>"

fun looks_like_windows_absolute :: "string \<Rightarrow> bool" where
  "looks_like_windows_absolute (d # c # s # r) =
     (is_ascii_alphabetic d \<and> c = CHR '':'' \<and> (s = CHR ''/'' \<or> s = CHR 0x5C) \<or>
      d = CHR 0x5C \<and> c = CHR 0x5C)"
| "looks_like_windows_absolute [d, c] = (d = CHR 0x5C \<and> c = CHR 0x5C)"
| "looks_like_windows_absolute _ = False"

definition replace_backslashes :: "string \<Rightarrow> string" where
  "replace_backslashes s = map (\<lambda>c. if c = CHR 0x5C then CHR ''/'' else c) s"

fun collect_path_parts :: "string list \<Rightarrow> string list option" where
  "collect_path_parts [] = Some []"
| "collect_path_parts (part # rest) =
     (if part = [] \<or> part = ''.'' then collect_path_parts rest
      else if part = ''..'' then None
      else map_option ((#) part) (collect_path_parts rest))"

definition normalize_repo_relative_path :: "string \<Rightarrow> DiagnosticError + string" where
  "normalize_repo_relative_path input =
     (if input = [] \<or> starts_with input ''/'' then Inl (invalid_repo_path input)
      else if looks_like_windows_absolute input then Inl (invalid_repo_path input)
      else let normalized_input = replace_backslashes input in
        if normalized_input = [] \<or> starts_with normalized_input ''/'' \<or>
           starts_with normalized_input ''//'' \<or> looks_like_windows_absolute normalized_input
        then Inl (invalid_repo_path input)
        else (case collect_path_parts (split_on (CHR ''/'') normalized_input) of
                None \<Rightarrow> Inl (invalid_repo_path input)
              | Some parts \<Rightarrow>
                  if parts = [] then Inl (invalid_repo_path input)
                  else Inr (join_with ''/'' parts)))"

text \<open>The loop of \<^verbatim>\<open>strip_file_reference_suffix\<close>, on the reversed text: it cuts a trailing
  \<^verbatim>\<open>:12\<close> or \<^verbatim>\<open>-12\<close> while there is one.\<close>

function strip_reference_rev :: "string \<Rightarrow> string" where
  "strip_reference_rev r =
     (let digits = takeWhile is_digit r; rest = dropWhile is_digit r in
      if digits = [] \<or> rest = [] then r
      else if hd rest \<noteq> CHR '':'' \<and> hd rest \<noteq> CHR ''-'' then r
      else strip_reference_rev (tl rest))"
  by auto
termination
proof (relation "measure length")
  fix r :: string and digits rest
  assume "rest = dropWhile is_digit r" "\<not> (digits = [] \<or> rest = [])"
  then have "length (tl rest) < length rest" "length rest \<le> length r"
    by (simp_all add: length_dropWhile_le)
  then show "(tl rest, r) \<in> measure length" by simp
qed simp

declare strip_reference_rev.simps [simp del]

definition strip_file_reference_suffix :: "string \<Rightarrow> string" where
  "strip_file_reference_suffix input = rev (strip_reference_rev (rev input))"

definition normalize_repo_relative_file_reference :: "string \<Rightarrow> DiagnosticError + string" where
  "normalize_repo_relative_file_reference input =
     normalize_repo_relative_path (strip_file_reference_suffix input)"

subsection \<open>Identifier tokens\<close>

fun split_whitespace_acc :: "string \<Rightarrow> string \<Rightarrow> string list" where
  "split_whitespace_acc acc [] = (if acc = [] then [] else [acc])"
| "split_whitespace_acc acc (c # cs) =
     (if is_ws c then (if acc = [] then [] else [acc]) @ split_whitespace_acc [] cs
      else split_whitespace_acc (acc @ [c]) cs)"

definition split_whitespace :: "string \<Rightarrow> string list" where
  "split_whitespace s = split_whitespace_acc [] s"

definition normalize_whitespace :: "string \<Rightarrow> string" where
  "normalize_whitespace value =
     foldl (\<lambda>normalized token. (if normalized \<noteq> [] then normalized @ '' '' else normalized) @ token)
       [] (split_whitespace value)"

definition identifier_char :: "char \<Rightarrow> bool" where
  "identifier_char ch \<longleftrightarrow>
     is_ascii_alphanumeric ch \<or> ch = CHR ''.'' \<or> ch = CHR ''_'' \<or> ch = CHR ''-''"

definition normalize_identifier_token :: "string \<Rightarrow> string" where
  "normalize_identifier_token value =
     (let normalized = normalize_whitespace value in
      if normalized = [] then []
      else let out = map (\<lambda>ch. if identifier_char ch then ch else CHR ''-'') normalized in
        if list_all (\<lambda>ch. ch = CHR ''-'') out then [] else out)"

definition branch_storage_key :: "(string \<Rightarrow> string) \<Rightarrow> string \<Rightarrow> string" where
  "branch_storage_key sha256 value =
     (let normalized = normalize_identifier_token value in
      if normalized = [] then ''current''
      else if normalized = value then normalized
      else normalized @ ''-'' @ take 12 (sha256 value))"

subsection \<open>The state directory\<close>

type_synonym state_path = "string list"

definition harness_branch_root ::
  "(string \<Rightarrow> string) \<Rightarrow> state_path \<Rightarrow> string \<Rightarrow> string \<Rightarrow> state_path" where
  "harness_branch_root sha256 state_dir repo_slug branch_name =
     (let safe_branch = branch_storage_key sha256 branch_name in
      state_dir @ [''projects'', repo_slug, ''branches'', safe_branch, ''execution-harness''])"

definition harness_state_path ::
  "(string \<Rightarrow> string) \<Rightarrow> state_path \<Rightarrow> string \<Rightarrow> string \<Rightarrow> state_path" where
  "harness_state_path sha256 d slug br = harness_branch_root sha256 d slug br @ [''state.json'']"

definition harness_state_legacy_backup_path ::
  "(string \<Rightarrow> string) \<Rightarrow> state_path \<Rightarrow> string \<Rightarrow> string \<Rightarrow> state_path" where
  "harness_state_legacy_backup_path sha256 d slug br =
     harness_branch_root sha256 d slug br @ [''state.legacy.json'']"

definition harness_events_log_path ::
  "(string \<Rightarrow> string) \<Rightarrow> state_path \<Rightarrow> string \<Rightarrow> string \<Rightarrow> state_path" where
  "harness_events_log_path sha256 d slug br = harness_branch_root sha256 d slug br @ [''events.jsonl'']"

definition harness_events_lock_path ::
  "(string \<Rightarrow> string) \<Rightarrow> state_path \<Rightarrow> string \<Rightarrow> string \<Rightarrow> state_path" where
  "harness_events_lock_path sha256 d slug br = harness_branch_root sha256 d slug br @ [''events.lock'']"

definition harness_dependency_index_path ::
  "(string \<Rightarrow> string) \<Rightarrow> state_path \<Rightarrow> string \<Rightarrow> string \<Rightarrow> state_path" where
  "harness_dependency_index_path sha256 d slug br =
     harness_branch_root sha256 d slug br @ [''dependency-index.json'']"

definition harness_observability_events_path ::
  "(string \<Rightarrow> string) \<Rightarrow> state_path \<Rightarrow> string \<Rightarrow> string \<Rightarrow> state_path" where
  "harness_observability_events_path sha256 d slug br =
     harness_branch_root sha256 d slug br @ [''observability-events.jsonl'']"

definition harness_telemetry_counters_path ::
  "(string \<Rightarrow> string) \<Rightarrow> state_path \<Rightarrow> string \<Rightarrow> string \<Rightarrow> state_path" where
  "harness_telemetry_counters_path sha256 d slug br =
     harness_branch_root sha256 d slug br @ [''telemetry-counters.json'']"

definition harness_authoritative_artifacts_dir ::
  "(string \<Rightarrow> string) \<Rightarrow> state_path \<Rightarrow> string \<Rightarrow> string \<Rightarrow> state_path" where
  "harness_authoritative_artifacts_dir sha256 d slug br =
     harness_branch_root sha256 d slug br @ [''authoritative-artifacts'']"

definition harness_authoritative_artifact_path ::
  "(string \<Rightarrow> string) \<Rightarrow> state_path \<Rightarrow> string \<Rightarrow> string \<Rightarrow> string \<Rightarrow> state_path" where
  "harness_authoritative_artifact_path sha256 d slug br artifact_file_name =
     harness_authoritative_artifacts_dir sha256 d slug br @ [artifact_file_name]"

definition resolve_home_dir :: "(string \<Rightarrow> string option) \<Rightarrow> string option" where
  "resolve_home_dir get_var =
     opt_or (opt_filter (\<lambda>v. v \<noteq> []) (get_var ''HOME''))
      (opt_or (opt_filter (\<lambda>v. v \<noteq> []) (get_var ''USERPROFILE''))
        (case opt_filter (\<lambda>v. v \<noteq> []) (get_var ''HOMEDRIVE'') of
           None \<Rightarrow> None
         | Some home_drive \<Rightarrow>
             (case opt_filter (\<lambda>v. v \<noteq> []) (get_var ''HOMEPATH'') of
                None \<Rightarrow> None
              | Some home_path \<Rightarrow> Some (home_drive @ home_path))))"

subsection \<open>Splitting and joining\<close>

lemma split_on_nonempty [simp]: "split_on c s \<noteq> []"
  by (induction c s rule: split_on.induct) (auto split: list.splits)

lemma split_on_no_sep: "c \<notin> set s \<Longrightarrow> split_on c s = [s]"
  by (induction c s rule: split_on.induct) auto

lemma split_on_append_sep: "c \<notin> set s \<Longrightarrow> split_on c (s @ c # t) = s # split_on c t"
  by (induction s) (auto split: list.splits)

lemma split_on_append: "split_on c (s @ c # t) = split_on c s @ split_on c t"
proof (induction s)
  case Nil
  then show ?case by simp
next
  case (Cons x s)
  then show ?case by (cases "split_on c s") (auto split: list.splits)
qed

lemma split_on_parts: "p \<in> set (split_on c s) \<Longrightarrow> c \<notin> set p \<and> set p \<subseteq> set s"
proof (induction c s arbitrary: p rule: split_on.induct)
  case (1 c)
  then show ?case by simp
next
  case (2 c x xs)
  then show ?case
    by (cases "x = c") (fastforce split: list.splits)+
qed

lemma split_on_join_with:
  assumes "ps \<noteq> []" "\<forall>p\<in>set ps. c \<notin> set p"
  shows "split_on c (join_with [c] ps) = ps"
  using assms
  by (induction "[c]" ps rule: join_with.induct)
     (auto simp: split_on_no_sep split_on_append_sep)

lemma split_on_join:
  "\<forall>p\<in>set ps. c \<notin> set p \<Longrightarrow> split_on c (join_with [c] ps) = (if ps = [] then [[]] else ps)"
  by (simp add: split_on_join_with)

lemma collect_path_parts_Some:
  "collect_path_parts ps = Some qs \<Longrightarrow>
   qs = filter (\<lambda>p. p \<noteq> [] \<and> p \<noteq> ''.'') ps \<and> ''..'' \<notin> set qs"
  by (induction ps arbitrary: qs) (auto split: if_splits)

lemma collect_path_parts_id:
  "\<forall>p\<in>set ps. p \<noteq> [] \<and> p \<noteq> ''.'' \<and> p \<noteq> ''..'' \<Longrightarrow> collect_path_parts ps = Some ps"
  by (induction ps) auto

lemma set_join_with: "set (join_with sep ps) \<subseteq> set sep \<union> (\<Union>p\<in>set ps. set p)"
  by (induction sep ps rule: join_with.induct) auto

lemma replace_backslashes_no_backslash: "CHR 0x5C \<notin> set (replace_backslashes s)"
  by (auto simp: replace_backslashes_def)

lemma replace_backslashes_id: "CHR 0x5C \<notin> set s \<Longrightarrow> replace_backslashes s = s"
  by (auto simp: replace_backslashes_def intro: map_idI)

text \<open>What an accepted path is made of: its components are the non-trivial components of the
  input, and none of them leaves the repository.\<close>

lemma normalize_repo_relative_path_Inr:
  assumes "normalize_repo_relative_path input = Inr p"
  obtains parts where
    "parts = filter (\<lambda>q. q \<noteq> [] \<and> q \<noteq> ''.'') (split_on (CHR ''/'') (replace_backslashes input))"
    "parts \<noteq> []" "p = join_with ''/'' parts"
    "\<forall>q\<in>set parts. q \<noteq> [] \<and> q \<noteq> ''.'' \<and> q \<noteq> ''..'' \<and> CHR ''/'' \<notin> set q \<and> CHR 0x5C \<notin> set q"
proof -
  from assms obtain parts where
    c: "collect_path_parts (split_on (CHR ''/'') (replace_backslashes input)) = Some parts"
    and p: "parts \<noteq> []" "p = join_with ''/'' parts"
    by (auto simp: normalize_repo_relative_path_def Let_def split: if_splits option.splits)
  have f: "parts = filter (\<lambda>q. q \<noteq> [] \<and> q \<noteq> ''.'') (split_on (CHR ''/'') (replace_backslashes input))"
    and d: "''..'' \<notin> set parts"
    using collect_path_parts_Some [OF c] by blast+
  have "CHR ''/'' \<notin> set q \<and> CHR 0x5C \<notin> set q" if "q \<in> set parts" for q
    using that split_on_parts [of q "CHR ''/''" "replace_backslashes input"]
      replace_backslashes_no_backslash [of input] unfolding f by auto
  moreover have "q \<noteq> [] \<and> q \<noteq> ''.'' \<and> q \<noteq> ''..''" if "q \<in> set parts" for q
    using that d unfolding f by auto
  ultimately show thesis using f p by (intro that [of parts]) blast+
qed

lemma normalized_path_chars:
  assumes "normalize_repo_relative_path input = Inr p"
  shows "set p \<subseteq> insert (CHR ''/'') (set input)"
proof -
  from assms obtain parts where
    f: "parts = filter (\<lambda>q. q \<noteq> [] \<and> q \<noteq> ''.'') (split_on (CHR ''/'') (replace_backslashes input))"
    and p: "parts \<noteq> []" "p = join_with ''/'' parts"
    "\<forall>q\<in>set parts. q \<noteq> [] \<and> q \<noteq> ''.'' \<and> q \<noteq> ''..'' \<and> CHR ''/'' \<notin> set q \<and> CHR 0x5C \<notin> set q"
    by (rule normalize_repo_relative_path_Inr)
  have "set q \<subseteq> insert (CHR ''/'') (set input)" if "q \<in> set parts" for q
  proof -
    have "set q \<subseteq> set (replace_backslashes input)"
      using that split_on_parts unfolding f by auto
    then show ?thesis by (auto simp: replace_backslashes_def)
  qed
  then show ?thesis using set_join_with [of "''/''" parts] unfolding p(2) by auto
qed

lemma starts_with_single: "starts_with s [c] \<longleftrightarrow> (\<exists>r. s = c # r)"
  by (cases s) (auto simp: starts_with_def)

lemma hd_join_with:
  "ps \<noteq> [] \<Longrightarrow> hd ps \<noteq> [] \<Longrightarrow> join_with sep ps \<noteq> [] \<and> hd (join_with sep ps) = hd (hd ps)"
  by (induction sep ps rule: join_with.induct) auto

lemma normalized_path_components:
  assumes "normalize_repo_relative_path input = Inr p"
  shows "\<forall>q\<in>set (split_on (CHR ''/'') p). q \<noteq> [] \<and> q \<noteq> ''.'' \<and> q \<noteq> ''..''"
    and "CHR 0x5C \<notin> set p" and "p \<noteq> []" and "\<not> starts_with p ''/''"
proof -
  from assms obtain parts where
    "parts = filter (\<lambda>q. q \<noteq> [] \<and> q \<noteq> ''.'') (split_on (CHR ''/'') (replace_backslashes input))"
    and parts: "parts \<noteq> []" "p = join_with ''/'' parts"
    "\<forall>q\<in>set parts. q \<noteq> [] \<and> q \<noteq> ''.'' \<and> q \<noteq> ''..'' \<and> CHR ''/'' \<notin> set q \<and> CHR 0x5C \<notin> set q"
    by (rule normalize_repo_relative_path_Inr)
  have "split_on (CHR ''/'') p = parts"
    unfolding parts(2) using parts(1,3) by (intro split_on_join_with) blast+
  then show "\<forall>q\<in>set (split_on (CHR ''/'') p). q \<noteq> [] \<and> q \<noteq> ''.'' \<and> q \<noteq> ''..''" using parts by simp
  show "CHR 0x5C \<notin> set p" using parts set_join_with [of "''/''" parts] by auto
  have h: "hd parts \<in> set parts" "hd parts \<noteq> []" using parts by auto
  then have p0: "p \<noteq> []" "hd p = hd (hd parts)" using hd_join_with parts by auto
  show "p \<noteq> []" by (fact p0)
  from h parts(3) have "hd (hd parts) \<noteq> CHR ''/''" by (metis hd_in_set)
  then show "\<not> starts_with p ''/''" using p0 by (auto simp: starts_with_single)
qed

text \<open>Normalisation is idempotent except where it uncovers a drive prefix.\<close>

lemma normalize_again:
  assumes "normalize_repo_relative_path input = Inr p"
  shows "normalize_repo_relative_path p =
    (if looks_like_windows_absolute p then Inl (invalid_repo_path p) else Inr p)"
proof -
  note n = normalized_path_components [OF assms]
  have c: "collect_path_parts (split_on (CHR ''/'') p) = Some (split_on (CHR ''/'') p)"
    using n(1) by (rule collect_path_parts_id)
  from assms obtain parts where
    "parts = filter (\<lambda>q. q \<noteq> [] \<and> q \<noteq> ''.'') (split_on (CHR ''/'') (replace_backslashes input))"
    and parts: "parts \<noteq> []" "p = join_with ''/'' parts"
    "\<forall>q\<in>set parts. q \<noteq> [] \<and> q \<noteq> ''.'' \<and> q \<noteq> ''..'' \<and> CHR ''/'' \<notin> set q \<and> CHR 0x5C \<notin> set q"
    by (rule normalize_repo_relative_path_Inr)
  have "split_on (CHR ''/'') (join_with ''/'' parts) = parts"
    using parts(1,3) by (intro split_on_join_with) blast+
  with parts(2) have j: "join_with ''/'' (split_on (CHR ''/'') p) = p" by simp
  have ss: "\<not> starts_with p ''//''" using n(3,4) by (cases p) (auto simp: starts_with_def)
  show ?thesis
    using n c j ss
    by (simp add: normalize_repo_relative_path_def replace_backslashes_id Let_def)
qed

subsection \<open>White space and identifiers\<close>

definition clean_token :: "string \<Rightarrow> bool" where
  "clean_token t \<longleftrightarrow> t \<noteq> [] \<and> (\<forall>c\<in>set t. \<not> is_ws c)"

lemma split_whitespace_acc_clean:
  "\<forall>c\<in>set acc. \<not> is_ws c \<Longrightarrow> t \<in> set (split_whitespace_acc acc s) \<Longrightarrow> clean_token t"
proof (induction acc s rule: split_whitespace_acc.induct)
  case (1 acc)
  then show ?case by (auto simp: clean_token_def split: if_splits)
next
  case (2 acc c cs)
  show ?case
  proof (cases "is_ws c")
    case True
    then have "t = acc \<and> acc \<noteq> [] \<or> t \<in> set (split_whitespace_acc [] cs)"
      using 2(4) by (auto split: if_splits)
    then show ?thesis using 2(1) 2(3) True by (auto simp: clean_token_def)
  next
    case False
    then show ?thesis using 2(2) 2(3) 2(4) by auto
  qed
qed

lemma split_whitespace_clean: "t \<in> set (split_whitespace s) \<Longrightarrow> clean_token t"
  unfolding split_whitespace_def by (rule split_whitespace_acc_clean [of "[]"]) auto

lemma join_with_snoc:
  "ps \<noteq> [] \<Longrightarrow> join_with sep (ps @ [q]) = join_with sep ps @ sep @ q"
  by (induction sep ps rule: join_with.induct) auto

lemma normalize_whitespace_join: "normalize_whitespace s = join_with '' '' (split_whitespace s)"
proof -
  have "foldl (\<lambda>normalized token. (if normalized \<noteq> [] then normalized @ '' '' else normalized) @ token)
      [] ts = join_with '' '' ts" if "\<forall>t\<in>set ts. t \<noteq> []" for ts
    using that
  proof (induction ts rule: rev_induct)
    case Nil
    then show ?case by simp
  next
    case (snoc t ts)
    have "join_with '' '' ts \<noteq> []" if "ts \<noteq> []"
      using that snoc.prems hd_join_with [of ts "'' ''"] by auto
    with snoc show ?case by (cases "ts = []") (auto simp: join_with_snoc)
  qed
  then show ?thesis
    using split_whitespace_clean by (simp add: normalize_whitespace_def clean_token_def)
qed

lemma split_whitespace_acc_token:
  "\<forall>c\<in>set t. \<not> is_ws c \<Longrightarrow> split_whitespace_acc acc (t @ s) = split_whitespace_acc (acc @ t) s"
  by (induction t arbitrary: acc) auto

lemma split_whitespace_join:
  assumes "\<forall>t\<in>set ts. clean_token t"
  shows "split_whitespace (join_with '' '' ts) = ts"
  using assms unfolding split_whitespace_def
proof (induction "'' ''" ts rule: join_with.induct)
  case 1
  then show ?case by simp
next
  case (2 x)
  then show ?case
    using split_whitespace_acc_token [of x "[]" "[]"] by (simp add: clean_token_def)
next
  case (3 x y ys)
  then show ?case
    by (simp add: clean_token_def split_whitespace_acc_token is_ws_def)
qed

lemma normalize_whitespace_idem: "normalize_whitespace (normalize_whitespace s) = normalize_whitespace s"
  using split_whitespace_clean
  by (simp add: normalize_whitespace_join split_whitespace_join)

lemma normalize_whitespace_id:
  "\<forall>c\<in>set s. \<not> is_ws c \<Longrightarrow> normalize_whitespace s = s"
  using split_whitespace_join [of "[s]"]
  by (cases "s = []") (auto simp: normalize_whitespace_join clean_token_def split_whitespace_def)

lemma identifier_char_not_ws: "identifier_char c \<Longrightarrow> \<not> is_ws c"
  by (auto simp: identifier_char_def is_ws_def is_ascii_alphanumeric_def is_ascii_alphabetic_def
      is_digit_def)

lemma normalize_identifier_token_chars: "\<forall>c\<in>set (normalize_identifier_token s). identifier_char c"
  by (auto simp: normalize_identifier_token_def Let_def identifier_char_def)

lemma normalize_identifier_token_not_dashes:
  "normalize_identifier_token s \<noteq> [] \<Longrightarrow>
   \<not> list_all (\<lambda>ch. ch = CHR ''-'') (normalize_identifier_token s)"
  by (simp add: normalize_identifier_token_def Let_def split: if_splits)

lemma normalize_identifier_token_id:
  assumes "s \<noteq> []" "\<forall>c\<in>set s. identifier_char c" "\<not> list_all (\<lambda>ch. ch = CHR ''-'') s"
  shows "normalize_identifier_token s = s"
proof -
  have n: "normalize_whitespace s = s"
    using assms(2) identifier_char_not_ws by (auto intro: normalize_whitespace_id)
  have m: "map (\<lambda>ch. if identifier_char ch then ch else CHR ''-'') s = s"
    using assms(2) by (intro map_idI) auto
  show ?thesis using assms(1,3) by (simp add: normalize_identifier_token_def n m Let_def)
qed

lemma normalize_identifier_token_idem:
  "normalize_identifier_token (normalize_identifier_token s) = normalize_identifier_token s"
proof (cases "normalize_identifier_token s = []")
  case True
  then show ?thesis
    by (simp add: normalize_identifier_token_def normalize_whitespace_def split_whitespace_def)
next
  case False
  then show ?thesis
    by (intro normalize_identifier_token_id normalize_identifier_token_chars
        normalize_identifier_token_not_dashes)
qed

lemma identifier_char_hex:
  "identifier_char (CHR ''-'')" "\<forall>c\<in>set ''current''. identifier_char c"
  by (simp_all add: identifier_char_def is_ascii_alphanumeric_def is_ascii_alphabetic_def)

lemma branch_storage_key_cases:
  obtains (default) "normalize_identifier_token v = []" "branch_storage_key h v = ''current''"
  | (same) "normalize_identifier_token v = v" "v \<noteq> []" "branch_storage_key h v = v"
  | (hashed) "normalize_identifier_token v \<noteq> v" "normalize_identifier_token v \<noteq> []"
      "branch_storage_key h v = normalize_identifier_token v @ ''-'' @ take 12 (h v)"
  unfolding branch_storage_key_def Let_def by (smt (verit, best))

lemma branch_storage_key_chars:
  assumes "\<forall>c\<in>set (h v). identifier_char c"
  shows "branch_storage_key h v \<noteq> []" "\<forall>c\<in>set (branch_storage_key h v). identifier_char c"
  using normalize_identifier_token_chars [of v] identifier_char_hex assms
  by (cases h v rule: branch_storage_key_cases; auto dest: in_set_takeD)+

text \<open>The keys of two branch names coincide only when the names do, or a digest is involved.\<close>

lemma branch_storage_key_same:
  assumes "branch_storage_key h a = branch_storage_key h b"
    "normalize_identifier_token a = a" "normalize_identifier_token b = b" "a \<noteq> []" "b \<noteq> []"
  shows "a = b"
  using assms by (simp add: branch_storage_key_def)

end
