(* ===== verification/Event_Delta.thy ===== *)
theory Event_Delta
  imports Event_Reduce Paths
begin

text \<open>
  From a command and a new state to the next event
  (\<^verbatim>\<open>event_from_command_authoritative_delta\<close> and the functions it calls in
  \<^verbatim>\<open>src/src/execution/event_log.rs\<close>): which fields changed, which entries of a record map
  changed, and which typed event records them.

  The main lemma says that the delta loses nothing in its scope: applying the produced event to
  the current state makes every field of the event's payload agree with the new state, and leaves
  the other fields as they were.
\<close>

subsection \<open>Changed fields\<close>

definition changed_record_map_entries :: "json option \<Rightarrow> json option \<Rightarrow> json" where
  "changed_record_map_entries before after =
     (let before_entries = Option.bind before as_object;
          after_entries = Option.bind after as_object;
          changed1 =
            (case after_entries of
               None \<Rightarrow> []
             | Some es \<Rightarrow>
                 fold (\<lambda>(key, after_value) changed.
                   if Option.bind before_entries (\<lambda>b. obj_get b key) \<noteq> Some after_value
                   then obj_insert key after_value changed else changed) es []);
          changed2 =
            (case before_entries of
               None \<Rightarrow> changed1
             | Some bs \<Rightarrow>
                 fold (\<lambda>key changed.
                   if is_none_or after_entries (\<lambda>es. obj_get es key = None)
                   then obj_insert key JNull changed else changed) (obj_keys bs) changed1)
      in JObject changed2)"

definition changed_authoritative_field_value :: "json \<Rightarrow> json \<Rightarrow> string \<Rightarrow> json option" where
  "changed_authoritative_field_value before after field =
     (let before_value = json_get before field;
          after_value = json_get after field
      in if before_value = after_value then None
         else if record_map_delta_field field
         then Some (changed_record_map_entries before_value after_value)
         else Some (case after_value of None \<Rightarrow> JNull | Some v \<Rightarrow> v))"

definition collect_authoritative_fields :: "json \<Rightarrow> string list \<Rightarrow> fact_builder" where
  "collect_authoritative_fields state flds =
     builder_from_iter
       (List.map_filter (\<lambda>field. map_option (Pair field) (json_get state field))
         (filter authoritative_event_field_allowed flds))"

definition collect_changed_authoritative_fields :: "json \<Rightarrow> json \<Rightarrow> string list \<Rightarrow> fact_builder" where
  "collect_changed_authoritative_fields before after flds =
     builder_from_iter
       (List.map_filter (\<lambda>field. map_option (Pair field) (changed_authoritative_field_value before after field))
         (filter authoritative_event_field_allowed flds))"

definition event_fields_changed :: "json \<Rightarrow> json \<Rightarrow> string list \<Rightarrow> bool" where
  "event_fields_changed cur state flds \<longleftrightarrow>
     list_ex (\<lambda>field. changed_authoritative_field_value cur state field \<noteq> None) flds"

definition repair_follow_up_record_from_state ::
  "event_codec \<Rightarrow> json \<Rightarrow> RepairFollowUpRecord option" where
  "repair_follow_up_record_from_state cd state =
     Option.bind (json_get state ''review_state_repair_follow_up_record'') (follow_up_decode cd)"

definition repair_follow_up_targets_branch_closure :: "event_codec \<Rightarrow> json \<Rightarrow> bool" where
  "repair_follow_up_targets_branch_closure cd state \<longleftrightarrow>
     is_some_and (repair_follow_up_record_from_state cd state)
       (\<lambda>r. rfu_target_scope r = BranchClosureScope)"

definition dispatch_scope_from_state :: "json \<Rightarrow> string option" where
  "dispatch_scope_from_state state =
     (if json_string state ''current_final_review_dispatch_id'' \<noteq> None then Some ''final_review''
      else if json_string state ''current_task_review_dispatch_id'' \<noteq> None then Some ''task''
      else None)"

definition current_dispatch_id_from_state :: "json \<Rightarrow> string option" where
  "current_dispatch_id_from_state state =
     opt_or (json_string state ''current_task_review_dispatch_id'')
       (json_string state ''current_final_review_dispatch_id'')"

definition dispatch_state_changed :: "json \<Rightarrow> json \<Rightarrow> bool" where
  "dispatch_state_changed cur state = event_fields_changed cur state DISPATCH_PRIMARY_EVENT_FIELDS"

definition branch_closure_repair_follow_up_changed :: "event_codec \<Rightarrow> json \<Rightarrow> json \<Rightarrow> bool" where
  "branch_closure_repair_follow_up_changed cd cur state \<longleftrightarrow>
     event_fields_changed cur state BRANCH_CLOSURE_REPAIR_EVENT_FIELDS \<and>
     (repair_follow_up_targets_branch_closure cd cur \<or>
      repair_follow_up_targets_branch_closure cd state)"

definition branch_closure_state_changed :: "event_codec \<Rightarrow> json \<Rightarrow> json \<Rightarrow> bool" where
  "branch_closure_state_changed cd cur state \<longleftrightarrow>
     event_fields_changed cur state BRANCH_CLOSURE_PRIMARY_EVENT_FIELDS \<or>
     branch_closure_repair_follow_up_changed cd cur state"

definition release_readiness_state_changed :: "json \<Rightarrow> json \<Rightarrow> bool" where
  "release_readiness_state_changed cur state =
     event_fields_changed cur state RELEASE_READINESS_PRIMARY_EVENT_FIELDS"

definition final_review_state_changed :: "json \<Rightarrow> json \<Rightarrow> bool" where
  "final_review_state_changed cur state =
     event_fields_changed cur state FINAL_REVIEW_PRIMARY_EVENT_FIELDS"

definition qa_state_changed :: "json \<Rightarrow> json \<Rightarrow> bool" where
  "qa_state_changed cur state = event_fields_changed cur state QA_PRIMARY_EVENT_FIELDS"

fun list_max :: "nat list \<Rightarrow> nat option" where
  "list_max [] = None"
| "list_max (x # xs) = Some (foldl max x xs)"

definition newest_current_task_from_state :: "json \<Rightarrow> nat option" where
  "newest_current_task_from_state state =
     (case Option.bind (json_get state ''current_task_closure_records'') as_object of
        None \<Rightarrow> None
      | Some records \<Rightarrow>
          list_max (List.map_filter
            (\<lambda>entry. Option.bind (Option.bind (json_get entry ''task'') as_u64) u32_try_from)
            (obj_values records)))"

definition newest_current_task_closure_id_from_state :: "json \<Rightarrow> string option" where
  "newest_current_task_closure_id_from_state state =
     (case Option.bind (json_get state ''current_task_closure_records'') as_object of
        None \<Rightarrow> None
      | Some records \<Rightarrow>
          (let ids = List.map_filter
                 (\<lambda>entry. trim_nonempty (Option.bind (json_get entry ''closure_record_id'') as_str))
                 (obj_values records)
           in if ids = [] then None else Some (last ids)))"

subsection \<open>The event of a command\<close>

text \<open>\<^verbatim>\<open>facts: Box::new(collect_changed_authoritative_fields(current_state, state, FIELDS).into())\<close>:
  the changed fields of the scope, taken over by the payload struct.\<close>

definition delta_facts :: "string list \<Rightarrow> string list \<Rightarrow> json \<Rightarrow> json \<Rightarrow> facts" where
  "delta_facts struct scope cur state =
     facts_from_builder struct (collect_changed_authoritative_fields cur state scope)"

definition open_step_part ::
  "string \<Rightarrow> bool \<Rightarrow> json \<Rightarrow> json \<Rightarrow> nat option \<Rightarrow> nat option" where
  "open_step_part part command_is_complete cur state hint =
     opt_or hint
      (opt_or (json_u32_from_path state [''current_open_step_state'', part])
        (if command_is_complete
         then json_u32_from_path cur [''current_open_step_state'', part] else None))"

text \<open>The first part of the function: the public commands that return at once.\<close>

definition event_from_public_command ::
  "string \<Rightarrow> json \<Rightarrow> json \<Rightarrow> nat option \<Rightarrow> nat option \<Rightarrow> ExecutionEvent option" where
  "event_from_public_command cmd cur state task step =
     (case from_public_mutation_token cmd of
        Some BeginCommand \<Rightarrow>
          Some (Begin task step (delta_facts StepEventFacts_fields STEP_EVENT_FIELDS cur state))
      | Some CompleteCommand \<Rightarrow>
          Some (Complete task step (delta_facts StepEventFacts_fields STEP_EVENT_FIELDS cur state))
      | Some ReopenCommand \<Rightarrow>
          Some (Reopen task step (delta_facts StepEventFacts_fields STEP_EVENT_FIELDS cur state))
      | Some TransferCommand \<Rightarrow>
          Some (Transfer (json_string state ''current_transfer_scope'')
            (json_string state ''current_transfer_to'')
            (delta_facts TransferEventFacts_fields TRANSFER_EVENT_FIELDS cur state))
      | _ \<Rightarrow> None)"

text \<open>The second part: the match on the remaining command names, its guarded arms in order.\<close>

definition event_from_internal_command ::
  "event_codec \<Rightarrow> string \<Rightarrow> json \<Rightarrow> json \<Rightarrow> nat option \<Rightarrow> nat option \<Rightarrow> ExecutionEvent result" where
  "event_from_internal_command cd cmd cur state task step =
     (let dispatch = DispatchRecorded (dispatch_scope_from_state state)
            (current_dispatch_id_from_state state)
            (delta_facts DispatchEventFacts_fields DISPATCH_EVENT_FIELDS cur state);
          branch_closure = BranchClosureRecorded (json_string state ''current_branch_closure_id'')
            (delta_facts BranchClosureEventFacts_fields BRANCH_CLOSURE_EVENT_FIELDS cur state);
          release_readiness =
            ReleaseReadinessRecorded (json_string state ''current_release_readiness_record_id'')
            (delta_facts ReleaseReadinessEventFacts_fields RELEASE_READINESS_EVENT_FIELDS cur state);
          final_review = FinalReviewRecorded (json_string state ''current_final_review_record_id'')
            (json_string state ''current_final_review_dispatch_id'')
            (delta_facts FinalReviewEventFacts_fields FINAL_REVIEW_EVENT_FIELDS cur state);
          qa = QaRecorded (json_string state ''current_qa_record_id'')
            (delta_facts QaEventFacts_fields QA_EVENT_FIELDS cur state);
          repair_facts = delta_facts RepairEventFacts_fields REPAIR_EVENT_FIELDS cur state;
          strategy_facts = delta_facts StrategyEventFacts_fields STRATEGY_EVENT_FIELDS cur state;
          strategy_kind = json_string state ''strategy_checkpoint_kind'';
          strategy_fingerprint = json_string state ''last_strategy_checkpoint_fingerprint'';
          run_facts = delta_facts RunMetadataEventFacts_fields RUN_METADATA_FIELDS cur state
      in
      if cmd = ''note'' then
        Inr (Note task step (json_string_from_path state [''current_open_step_state'', ''note_state''])
          (delta_facts StepEventFacts_fields STEP_EVENT_FIELDS cur state))
      else if cmd = ''record_review_dispatch'' then Inr dispatch
      else if cmd = ''close_current_task'' \<and> dispatch_state_changed cur state then Inr dispatch
      else if cmd = ''close_current_task'' then
        Inr (TaskClosureRecorded (newest_current_task_from_state state)
          (newest_current_task_closure_id_from_state state)
          (delta_facts TaskClosureEventFacts_fields TASK_CLOSURE_EVENT_FIELDS cur state))
      else if cmd = ''record_branch_closure'' then Inr branch_closure
      else if cmd = FOLLOW_UP_ADVANCE_LATE_STAGE \<and> branch_closure_state_changed cd cur state
      then Inr branch_closure
      else if cmd = ''record_release_readiness'' then Inr release_readiness
      else if cmd = FOLLOW_UP_ADVANCE_LATE_STAGE \<and> release_readiness_state_changed cur state
      then Inr release_readiness
      else if cmd = ''record_final_review'' then Inr final_review
      else if cmd = FOLLOW_UP_ADVANCE_LATE_STAGE \<and> final_review_state_changed cur state
      then Inr final_review
      else if cmd = ''record_qa'' then Inr qa
      else if cmd = FOLLOW_UP_ADVANCE_LATE_STAGE \<and> qa_state_changed cur state then Inr qa
      else if cmd = FOLLOW_UP_ADVANCE_LATE_STAGE \<and> dispatch_state_changed cur state
      then Inr dispatch
      else if cmd = FOLLOW_UP_REPAIR_REVIEW_STATE then
        Inr (case repair_follow_up_record_from_state cd state of
               Some r \<Rightarrow> RepairFollowUpSet (Some r) repair_facts
             | None \<Rightarrow> RepairFollowUpCleared repair_facts)
      else if cmd = ''gate_review'' \<or> cmd = FOLLOW_UP_ADVANCE_LATE_STAGE then
        (if strategy_fingerprint \<noteq> None \<or> strategy_kind \<noteq> None
         then Inr (StrategyCheckpointRecorded strategy_kind strategy_fingerprint strategy_facts)
         else Inr (StrategyCheckpointCleared strategy_facts))
      else if cmd = ''authoritative_state_persist'' then Inr (PreflightBootstrapRecorded run_facts)
      else if cmd = ''worktree_lease_index_update'' then Inr (WorktreeLeaseIndexUpdated run_facts)
      else if cmd = ''preflight_bootstrap'' then Inr (PreflightBootstrapRecorded run_facts)
      else if cmd = ''record_contract'' then Inr (ContractRecorded run_facts)
      else if cmd = ''record_evaluation'' then Inr (EvaluationRecorded run_facts)
      else if cmd = FOLLOW_UP_RECORD_HANDOFF then
        Inr (HandoffRecorded (delta_facts HandoffEventFacts_fields HANDOFF_FIELDS cur state))
      else
        Inl (json_failure PartialAuthoritativeMutation
          (''Event-log append for command `'' @ cmd @
           ''` is blocked until it is mapped to an explicit typed execution event.'')))"

definition event_from_command_authoritative_delta ::
  "event_codec \<Rightarrow> string \<Rightarrow> json \<Rightarrow> json \<Rightarrow> (nat \<times> nat) option \<Rightarrow> ExecutionEvent result" where
  "event_from_command_authoritative_delta cd cmd cur state step_hint =
     (let command_is_complete = (from_public_mutation_token (trim cmd) = Some CompleteCommand);
          task = open_step_part ''task'' command_is_complete cur state (map_option fst step_hint);
          step = open_step_part ''step'' command_is_complete cur state (map_option snd step_hint)
      in case event_from_public_command (trim cmd) cur state task step of
           Some e \<Rightarrow> Inr e
         | None \<Rightarrow> event_from_internal_command cd (trim cmd) cur state task step)"

subsection \<open>The shape of a delta event\<close>

lemma public_command_shape:
  "event_from_public_command cmd cur state task step = Some e \<Longrightarrow>
   event_facts e = Some (delta_facts (event_struct_fields e) (event_scope_fields e) cur state)"
  by (auto simp: event_from_public_command_def split: option.splits PublicCommandKind.splits)

lemma internal_command_shape:
  "event_from_internal_command cd cmd cur state task step = Inr e \<Longrightarrow>
   event_facts e = Some (delta_facts (event_struct_fields e) (event_scope_fields e) cur state)"
  unfolding event_from_internal_command_def Let_def
  by (simp only: split: if_split_asm option.split_asm) 
     (drule sum.inject(2) [THEN iffD1]; hypsubst; simp | erule sum.distinct(1) [THEN notE])+

lemma delta_event_shape:
  "event_from_command_authoritative_delta cd cmd cur state hint = Inr e \<Longrightarrow>
   event_facts e = Some (delta_facts (event_struct_fields e) (event_scope_fields e) cur state)"
  by (auto simp: event_from_command_authoritative_delta_def Let_def split: option.splits
      intro: public_command_shape internal_command_shape)

lemma delta_event_typed:
  "event_from_command_authoritative_delta cd cmd cur state hint = Inr e \<Longrightarrow> event_typed e"
  by (drule delta_event_shape) (simp add: event_typed_def delta_facts_def facts_typed_from_builder)

subsection \<open>Which commands have an event\<close>

lemma ex_if_Inr: "(\<exists>e. (if b then Inr x else y) = Inr e) \<longleftrightarrow> b \<or> (\<exists>e. y = Inr e)"
  by auto

lemma if_Inr_Inl: "(if b then Inr x else y) = Inl err \<longleftrightarrow> \<not> b \<and> y = Inl err"
  by auto

lemma public_command_iff:
  "event_from_public_command cmd cur state task step \<noteq> None \<longleftrightarrow>
   cmd = ''begin'' \<or> cmd = ''complete'' \<or> cmd = ''reopen'' \<or> cmd = ''transfer''"
proof -
  have "event_from_public_command cmd cur state task step \<noteq> None \<longleftrightarrow>
    (\<exists>k\<in>{BeginCommand, CompleteCommand, ReopenCommand, TransferCommand}.
       from_public_mutation_token cmd = Some k)"
    by (auto simp: event_from_public_command_def split: option.splits PublicCommandKind.splits)
  then show ?thesis by (auto simp: from_public_mutation_token_iff)
qed

lemma internal_command_iff:
  "(\<exists>e. event_from_internal_command cd cmd cur state task step = Inr e) \<longleftrightarrow>
   cmd = ''note'' \<or> cmd = ''record_review_dispatch'' \<or> cmd = ''close_current_task'' \<or>
   cmd = ''record_branch_closure'' \<or> cmd = ''record_release_readiness'' \<or>
   cmd = ''record_final_review'' \<or> cmd = ''record_qa'' \<or> cmd = ''advance_late_stage'' \<or>
   cmd = ''repair_review_state'' \<or> cmd = ''gate_review'' \<or> cmd = ''authoritative_state_persist'' \<or>
   cmd = ''worktree_lease_index_update'' \<or> cmd = ''preflight_bootstrap'' \<or>
   cmd = ''record_contract'' \<or> cmd = ''record_evaluation'' \<or> cmd = ''record_handoff''"
proof -
  have s: "(\<exists>e. (if b then if c then Inr x else Inr x' else y) = Inr e) \<longleftrightarrow> b \<or> (\<exists>e. y = Inr e)"
    for b c x x' and y :: "ExecutionEvent result" by auto
  show ?thesis
    unfolding event_from_internal_command_def Let_def FOLLOW_UP_ADVANCE_LATE_STAGE_def
      FOLLOW_UP_REPAIR_REVIEW_STATE_def FOLLOW_UP_RECORD_HANDOFF_def
    by (simp only: ex_if_Inr s sum.distinct ex_simps simp_thms) argo
qed

lemma internal_command_error:
  "event_from_internal_command cd cmd cur state task step = Inl err \<Longrightarrow>
   error_class err = ''PartialAuthoritativeMutation''"
proof -
  have s: "(if b then if c then Inr x else Inr x' else y) = Inl err \<longleftrightarrow> \<not> b \<and> y = Inl err"
    for b c x x' and y :: "ExecutionEvent result" by auto
  show "event_from_internal_command cd cmd cur state task step = Inl err \<Longrightarrow> ?thesis"
    unfolding event_from_internal_command_def Let_def
    by (simp only: if_Inr_Inl s sum.inject)
       (elim conjE; hypsubst; simp only: error_class_json_failure failure_class_as_str.simps)
qed

subsection \<open>What the delta carries\<close>

lemma builder_fold_fun:
  "fold (\<lambda>kv b. snd (set_field_value b (fst kv) (snd kv)))
     (List.map_filter (\<lambda>f. map_option (Pair f) (g f)) flds) b0 f =
   (if f \<in> set AuthoritativeFactBuilder_fields \<and> f \<in> set flds then opt_or (g f) (b0 f) else b0 f)"
proof (induction flds arbitrary: b0)
  case Nil
  then show ?case by simp
next
  case (Cons a flds)
  then show ?case
    by (cases "g a") (auto simp: set_field_value_def opt_or_def split: option.splits)
qed

lemma collect_changed_get:
  "collect_changed_authoritative_fields cur state flds f =
   (if f \<in> set AuthoritativeFactBuilder_fields \<and> f \<in> set flds
    then changed_authoritative_field_value cur state f else None)"
  using builder_fields_authoritative
  by (auto simp: collect_changed_authoritative_fields_def builder_from_iter_def builder_fold_fun
      authoritative_event_field_allowed_def)

lemma collect_authoritative_get:
  "collect_authoritative_fields state flds f =
   (if f \<in> set AuthoritativeFactBuilder_fields \<and> f \<in> set flds then json_get state f else None)"
  using builder_fields_authoritative
  by (auto simp: collect_authoritative_fields_def builder_from_iter_def builder_fold_fun
      authoritative_event_field_allowed_def)

lemma delta_facts_get:
  "facts_get (delta_facts (event_struct_fields e) (event_scope_fields e) cur state) f =
   (if f \<in> set (event_struct_fields e) then changed_authoritative_field_value cur state f else None)"
  using event_struct_fields_in_builder [of e] event_struct_fields_in_scope [of e]
  by (auto simp: facts_get_def delta_facts_def map_of_facts_from_builder collect_changed_get)

text \<open>The delta of a record map, key by key.\<close>

definition changed_entry :: "json option \<Rightarrow> json option \<Rightarrow> json option" where
  "changed_entry b a =
     (case a of Some v \<Rightarrow> if b \<noteq> Some v then Some v else None
      | None \<Rightarrow> if b \<noteq> None then Some JNull else None)"

definition object_entries :: "json option \<Rightarrow> json_map" where
  "object_entries v = (case Option.bind v as_object of None \<Rightarrow> [] | Some es \<Rightarrow> es)"

lemma fold_pairs_collect:
  assumes "distinct (map fst es)"
  shows "fold (\<lambda>(k, v) m. if P k v then obj_insert k v m else m) es m0 =
    fold (\<lambda>k m. case opt_filter (P k) (map_of es k) of None \<Rightarrow> m | Some v \<Rightarrow> obj_insert k v m) (map fst es) m0"
proof -
  have "fold (\<lambda>(k, v) m. if P k v then obj_insert k v m else m) es m0 =
    fold (\<lambda>e. (\<lambda>k m. case opt_filter (P k) (map_of es k) of None \<Rightarrow> m | Some v \<Rightarrow> obj_insert k v m) (fst e)) es m0"
    by (rule fold_cong) (use assms in \<open>auto simp: fun_eq_iff\<close>)
  then show ?thesis by (simp add: fold_map comp_def)
qed

lemma changed_record_map_entries_get:
  assumes "obj_sorted (object_entries before)" "obj_sorted (object_entries after)"
  shows "\<exists>ch. changed_record_map_entries before after = JObject ch \<and> obj_sorted ch \<and>
    (\<forall>k. obj_get ch k = changed_entry (obj_get (object_entries before) k) (obj_get (object_entries after) k))"
proof -
  let ?B = "object_entries before" and ?A = "object_entries after"
  let ?g1 = "\<lambda>k. opt_filter (\<lambda>v. obj_get ?B k \<noteq> Some v) (map_of ?A k)"
  let ?g2 = "\<lambda>k. then_some (obj_get ?A k = None) JNull"
  let ?ins = "\<lambda>g k m. case g k of None \<Rightarrow> m | Some v \<Rightarrow> obj_insert k v m"
  let ?c1 = "fold (?ins ?g1) (map fst ?A) []"
  have b: "Option.bind (Option.bind before as_object) (\<lambda>b. obj_get b k) = obj_get ?B k" for k
    by (cases "Option.bind before as_object") (simp_all add: object_entries_def obj_get_def)
  have n: "is_none_or (Option.bind after as_object) (\<lambda>es. obj_get es k = None) \<longleftrightarrow> obj_get ?A k = None" for k
    by (cases "Option.bind after as_object") (simp_all add: object_entries_def obj_get_def)
  have c1: "(case Option.bind after as_object of None \<Rightarrow> [] | Some es \<Rightarrow>
      fold (\<lambda>(key, v) changed. if obj_get ?B key \<noteq> Some v then obj_insert key v changed else changed) es []) = ?c1"
    using fold_pairs_collect [OF obj_sorted_distinct [OF assms(2)], of "\<lambda>k v. obj_get ?B k \<noteq> Some v" "[]"]
    by (simp add: object_entries_def split: option.splits)
  have i: "(\<lambda>key changed. if obj_get ?A key = None then obj_insert key JNull changed else changed) = ?ins ?g2"
    by (auto simp: fun_eq_iff then_some_def)
  have c2: "changed_record_map_entries before after = JObject (fold (?ins ?g2) (map fst ?B) ?c1)"
    unfolding changed_record_map_entries_def Let_def b n c1 i
    by (simp add: object_entries_def obj_keys_def split: option.splits)
  have s1: "obj_sorted ?c1" "obj_get ?c1 k = (if k \<in> set (map fst ?A) then ?g1 k else None)" for k
    using objm.fold_collect [OF objm.inv_emp, of ?g1 "map fst ?A" k] by (simp_all add: objm.get_emp)
  have s2: "obj_sorted (fold (?ins ?g2) (map fst ?B) ?c1)"
    "obj_get (fold (?ins ?g2) (map fst ?B) ?c1) k =
       (if k \<in> set (map fst ?B) then opt_or (?g2 k) (obj_get ?c1 k) else obj_get ?c1 k)" for k
    using objm.fold_collect [OF s1(1), of ?g2 "map fst ?B" k] by simp_all
  have m: "k \<in> set (map fst es) \<longleftrightarrow> obj_get es k \<noteq> None" for k and es :: json_map
    by (simp add: obj_get_def map_of_eq_None_iff)
  have "obj_get (fold (?ins ?g2) (map fst ?B) ?c1) k = changed_entry (obj_get ?B k) (obj_get ?A k)" for k
    unfolding s2(2) s1(2) m
    by (cases "obj_get ?A k"; cases "obj_get ?B k") (auto simp: changed_entry_def obj_get_def)
  with c2 s2(1) show ?thesis by blast
qed

lemma object_entries_sorted: "json_wf s \<Longrightarrow> obj_sorted (object_entries (json_get s f))"
  using entries_at_sorted [of s f] by (simp add: object_entries_def entries_at_def)

lemma object_entries_at: "object_entries (json_get s f) = entries_at s f"
  by (simp add: object_entries_def entries_at_def)

lemma old_entries_at: "(case json_get t f of None \<Rightarrow> [] | Some w \<Rightarrow> normalize_object w) = entries_at t f"
  by (cases "json_get t f"; cases "the (json_get t f)") (auto simp: entries_at_def)

text \<open>The update a delta performs on one field turns its old value into the new one.\<close>

lemma changed_field_update:
  assumes "json_wf cur" "json_wf state"
    "json_get t f = (case changed_authoritative_field_value cur state f of
        None \<Rightarrow> json_get cur f | Some v \<Rightarrow> field_update f v (json_get cur f))"
  shows "same_field t state f"
proof (cases "json_get cur f = json_get state f")
  case True
  then show ?thesis
    using assms(3) by (intro same_field_get) (simp add: changed_authoritative_field_value_def)
next
  case False
  show ?thesis
  proof (cases "record_map_delta_field f")
    case r: True
    obtain ch where ch: "changed_record_map_entries (json_get cur f) (json_get state f) = JObject ch"
      "obj_sorted ch"
      "\<And>k. obj_get ch k = changed_entry (obj_get (entries_at cur f) k) (obj_get (entries_at state f) k)"
      using changed_record_map_entries_get [OF object_entries_sorted [OF assms(1), of f]
          object_entries_sorted [OF assms(2), of f]]
      unfolding object_entries_at by blast
    have "json_get t f = Some (JObject (delta_entries ch (entries_at cur f)))"
      using assms(3) False r
      by (simp add: changed_authoritative_field_value_def ch(1) field_update_def old_entries_at)
    then have e: "entries_at t f = delta_entries ch (entries_at cur f)" by (simp add: entries_at_def)
    have "record_entry t f k = record_entry state f k" for k
      unfolding record_entry_def e delta_entries_get [OF entries_at_sorted [OF assms(1)] ch(2)] ch(3)
      by (auto simp: changed_entry_def split: option.splits)
    with r show ?thesis by (simp add: same_field_def)
  next
    case n: False
    then have "state_field t f = state_field state f"
      using assms(3) False
      by (auto simp: state_field_def changed_authoritative_field_value_def field_update_def split: option.splits)
    with n show ?thesis by (simp add: same_field_def)
  qed
qed

lemma delta_event_same:
  assumes "event_from_command_authoritative_delta cd cmd cur state hint = Inr e"
    "json_wf cur" "json_wf state" "f \<in> set (event_struct_fields e)"
  shows "same_field (event_target cur e) state f"
proof (rule changed_field_update [OF assms(2,3)])
  note s = delta_event_shape [OF assms(1)]
  show "json_get (event_target cur e) f = (case changed_authoritative_field_value cur state f of
      None \<Rightarrow> json_get cur f | Some v \<Rightarrow> field_update f v (json_get cur f))"
    using event_target_get [OF s struct_field_not_completed [OF assms(4)], of cur] assms(4)
    by (simp add: facts_target_get [OF assms(2)] delta_facts_get)
qed

lemma entries_at_wf: "json_wf s \<Longrightarrow> json_wf (JObject (entries_at s f))"
  using entry_object_wf [OF normalize_object_json_wf [of s], of f]
  by (simp only: entries_at_JObject [symmetric] entries_at_normalize)

lemma changed_value_wf:
  assumes "json_wf cur" "json_wf state" "changed_authoritative_field_value cur state f = Some v"
  shows "json_wf v"
proof (cases "record_map_delta_field f")
  case True
  obtain ch where ch: "changed_record_map_entries (json_get cur f) (json_get state f) = JObject ch"
    "obj_sorted ch"
    "\<And>k. obj_get ch k = changed_entry (obj_get (entries_at cur f) k) (obj_get (entries_at state f) k)"
    using changed_record_map_entries_get [OF object_entries_sorted [OF assms(1), of f]
        object_entries_sorted [OF assms(2), of f]]
    unfolding object_entries_at by blast
  have v: "v = JObject ch"
    using assms(3) True
    by (simp add: changed_authoritative_field_value_def ch(1) Let_def split: if_splits)
  have w: "json_wf (JObject (entries_at state f))"
    using assms(2) by (rule entries_at_wf)
  show ?thesis unfolding v
  proof (rule json_wf_object [OF ch(2)])
    fix k u
    assume "obj_get ch k = Some u"
    then have "u = JNull \<or> obj_get (entries_at state f) k = Some u"
      by (auto simp: ch(3) changed_entry_def split: option.splits if_splits)
    then show "json_wf u" using w obj_get_wf by auto
  qed
next
  case False
  then show ?thesis
    using assms(3) json_wf_get [OF assms(2), of f]
    by (auto simp: changed_authoritative_field_value_def Let_def split: if_splits option.splits)
qed

lemma facts_from_builder_mem: "kv \<in> set (facts_from_builder flds b) \<Longrightarrow> b (fst kv) = Some (snd kv)"
  by (auto simp: facts_from_builder_def split: option.splits)

lemma delta_event_wf:
  assumes "event_from_command_authoritative_delta cd cmd cur state hint = Inr e"
    "json_wf cur" "json_wf state"
  shows "event_wf e"
proof -
  have "facts_wf (delta_facts struct scope cur state)" for struct scope
    unfolding facts_wf_def
  proof
    fix kv
    assume "kv \<in> set (delta_facts struct scope cur state)"
    then have "collect_changed_authoritative_fields cur state scope (fst kv) = Some (snd kv)"
      unfolding delta_facts_def by (rule facts_from_builder_mem)
    then show "json_wf (snd kv)"
      using changed_value_wf [OF assms(2,3)] by (auto simp: collect_changed_get split: if_splits)
  qed
  then show ?thesis
    using delta_event_typed [OF assms(1)] delta_event_shape [OF assms(1)] by (simp add: event_wf_def)
qed

text \<open>On a reduced state the plain fields are read without the \<^verbatim>\<open>null\<close> filter.\<close>

lemma reduced_plain_field: "reduced_inv s \<Longrightarrow> state_field s f = json_get s f"
  by (cases "json_get s f") (auto simp: state_field_def reduced_inv_def)

subsection \<open>The branch of a state path\<close>

fun scan_state_path :: "string \<Rightarrow> string \<Rightarrow> state_path \<Rightarrow> string \<times> string" where
  "scan_state_path repo_slug safe_branch [] = (repo_slug, safe_branch)"
| "scan_state_path repo_slug safe_branch [component] = (repo_slug, safe_branch)"
| "scan_state_path repo_slug safe_branch (component # n # rest) =
     (if component = ''projects'' then scan_state_path n safe_branch rest
      else if component = ''branches'' then scan_state_path repo_slug n rest
      else scan_state_path repo_slug safe_branch (n # rest))"

definition branch_context_from_state_path :: "state_path \<Rightarrow> json \<Rightarrow> BranchContext" where
  "branch_context_from_state_path state_path state_payload =
     (let slug0 = (case json_string state_payload ''repo_slug'' of None \<Rightarrow> ''unknown-repo'' | Some s \<Rightarrow> s);
          (repo_slug, safe_branch) = scan_state_path slug0 ''unknown-branch'' state_path;
          branch_name =
            (case json_string state_payload ''branch_name'' of
               Some b \<Rightarrow> b
             | None \<Rightarrow>
                 (let normalized = normalize_identifier_token safe_branch in
                  if normalized = [] then safe_branch else normalized))
      in \<lparr>bc_repo_slug = repo_slug, bc_branch_name = branch_name, bc_safe_branch = safe_branch\<rparr>)"

lemma scan_state_path_prefix:
  "\<forall>c\<in>set d. c \<noteq> ''projects'' \<and> c \<noteq> ''branches'' \<Longrightarrow> p \<noteq> [] \<Longrightarrow>
   scan_state_path slug br (d @ p) = scan_state_path slug br p"
proof (induction d)
  case Nil
  then show ?case by simp
next
  case (Cons c d)
  then obtain x xs where "d @ p = x # xs" by (cases "d @ p") auto
  with Cons show ?case by simp
qed

lemma branch_context_of_harness_path:
  assumes "\<forall>c\<in>set d. c \<noteq> ''projects'' \<and> c \<noteq> ''branches''"
  shows "bc_repo_slug (branch_context_from_state_path (harness_state_path h d slug br) s) = slug"
    "bc_safe_branch (branch_context_from_state_path (harness_state_path h d slug br) s) =
     branch_storage_key h br"
  using scan_state_path_prefix [OF assms]
  by (simp_all add: branch_context_from_state_path_def harness_state_path_def harness_branch_root_def
      Let_def split_beta)

end
