(* ===== verification/Str_Ops.thy ===== *)
theory Str_Ops
  imports FF_Prelude
begin

text \<open>The string operations of the Rust standard library that the parsers use, beyond those of
  \<^verbatim>\<open>FF_Prelude\<close>.  A pattern that is a string is never empty in the code.\<close>

subsection \<open>Searching\<close>

fun find_map :: "('a \<Rightarrow> 'b option) \<Rightarrow> 'a list \<Rightarrow> 'b option" where
  "find_map f [] = None"
| "find_map f (x # xs) = (case f x of None \<Rightarrow> find_map f xs | Some y \<Rightarrow> Some y)"

definition str_contains :: "string \<Rightarrow> string \<Rightarrow> bool" where
  "str_contains s pat \<longleftrightarrow> list_ex (\<lambda>i. take (length pat) (drop i s) = pat) [0..<Suc (length s)]"

definition ends_with :: "string \<Rightarrow> string \<Rightarrow> bool" where
  "ends_with s p \<longleftrightarrow> starts_with (rev s) (rev p)"

definition strip_suffix :: "string \<Rightarrow> string \<Rightarrow> string option" where
  "strip_suffix s p = map_option rev (strip_prefix (rev s) (rev p))"

subsection \<open>Splitting\<close>

abbreviation newline :: char where
  "newline \<equiv> CHR 0x0A"

text \<open>\<^verbatim>\<open>str::lines\<close>: a line ends at a line feed, with a carriage return before it dropped; text
  after the last line feed is a line when it is not empty.\<close>

definition strip_cr :: "string \<Rightarrow> string" where
  "strip_cr s = (if s \<noteq> [] \<and> last s = CHR 0x0D then butlast s else s)"

definition str_lines :: "string \<Rightarrow> string list" where
  "str_lines s =
     (let ls = split_on (CHR 0x0A) s
      in map strip_cr (butlast ls) @ (if last ls = [] then [] else [last ls]))"

text \<open>\<^verbatim>\<open>str::split_once\<close> and \<^verbatim>\<open>str::split\<close> with a string as the separator.\<close>

fun split_once_str :: "string \<Rightarrow> string \<Rightarrow> (string \<times> string) option" where
  "split_once_str pat [] = (if pat = [] then Some ([], []) else None)"
| "split_once_str pat (c # cs) =
     (if starts_with (c # cs) pat then Some ([], drop (length pat) (c # cs))
      else map_option (\<lambda>(a, b). (c # a, b)) (split_once_str pat cs))"

lemma split_once_str_Some: "split_once_str pat s = Some (a, b) \<Longrightarrow> s = a @ pat @ b"
proof (induction pat s arbitrary: a rule: split_once_str.induct)
  case (1 pat)
  then show ?case by (auto split: if_splits)
next
  case (2 pat c cs)
  show ?case
  proof (cases "starts_with (c # cs) pat")
    case True
    with 2(2) have "a = []" "b = drop (length pat) (c # cs)" by auto
    then show ?thesis using True by (metis append_Nil append_take_drop_id starts_with_def)
  next
    case False
    with 2 show ?thesis by auto
  qed
qed

function split_str :: "string \<Rightarrow> string \<Rightarrow> string list" where
  "split_str pat s =
     (if pat = [] then [s]
      else case split_once_str pat s of None \<Rightarrow> [s] | Some (a, b) \<Rightarrow> a # split_str pat b)"
  by auto
termination split_str
  by (relation "measure (\<lambda>(pat, s). length s)") (auto dest: split_once_str_Some)

declare split_str.simps [simp del]

text \<open>\<^verbatim>\<open>str::split\<close> with a predicate on characters.\<close>

fun split_where :: "(char \<Rightarrow> bool) \<Rightarrow> string \<Rightarrow> string list" where
  "split_where P [] = [[]]"
| "split_where P (c # cs) =
     (if P c then [] # split_where P cs
      else (case split_where P cs of [] \<Rightarrow> [[c]] | y # ys \<Rightarrow> (c # y) # ys))"

subsection \<open>Trimming\<close>

definition trim_end_where :: "(char \<Rightarrow> bool) \<Rightarrow> string \<Rightarrow> string" where
  "trim_end_where P s = rev (dropWhile P (rev s))"

definition trim_matches :: "(char \<Rightarrow> bool) \<Rightarrow> string \<Rightarrow> string" where
  "trim_matches P s = trim_end_where P (dropWhile P s)"

function trim_start_matches :: "string \<Rightarrow> string \<Rightarrow> string" where
  "trim_start_matches pat s =
     (if pat \<noteq> [] \<and> starts_with s pat then trim_start_matches pat (drop (length pat) s) else s)"
  by auto
termination trim_start_matches
proof (relation "measure (\<lambda>(pat, s). length s)")
  fix pat s :: string
  assume "pat \<noteq> [] \<and> starts_with s pat"
  then have "length pat \<noteq> 0" "length pat \<le> length s"
    by (auto simp: starts_with_def) (metis length_take min.cobounded1)
  then show "((pat, drop (length pat) s), (pat, s)) \<in> measure (\<lambda>(pat, s). length s)" by (simp only: in_measure) (auto intro!: diff_less)
qed simp

declare trim_start_matches.simps [simp del]

definition trim_end_matches :: "string \<Rightarrow> string \<Rightarrow> string" where
  "trim_end_matches pat s = rev (trim_start_matches (rev pat) (rev s))"

subsection \<open>Letter case and printing\<close>

definition ascii_lower :: "char \<Rightarrow> char" where
  "ascii_lower c =
     (if 65 \<le> (of_char c :: nat) \<and> (of_char c :: nat) \<le> 90 then char_of ((of_char c :: nat) + 32) else c)"

definition to_ascii_lowercase :: "string \<Rightarrow> string" where
  "to_ascii_lowercase s = map ascii_lower s"

definition eq_ignore_ascii_case :: "string \<Rightarrow> string \<Rightarrow> bool" where
  "eq_ignore_ascii_case a b \<longleftrightarrow> to_ascii_lowercase a = to_ascii_lowercase b"

text \<open>The debug form of a list of numbers.\<close>

definition show_nat_list :: "nat list \<Rightarrow> string" where
  "show_nat_list ns = ''['' @ join_with '', '' (map show_nat ns) @ '']''"

subsection \<open>Reading numbers in binary\<close>

text \<open>The same reader on binary numbers, which is what evaluation uses.\<close>

definition int_digits_val :: "string \<Rightarrow> int" where
  "int_digits_val s = foldl (\<lambda>a c. 10 * a + int (digit_val c)) 0 s"

definition parse_u32_binary :: "string \<Rightarrow> nat option" where
  "parse_u32_binary s =
     (let ds = (case s of c # cs \<Rightarrow> if c = CHR ''+'' then cs else s | [] \<Rightarrow> [])
      in if ds = [] \<or> \<not> list_all is_digit ds then None
         else if int_digits_val ds \<le> 4294967295 then Some (nat (int_digits_val ds)) else None)"

definition parse_u64_binary :: "string \<Rightarrow> nat option" where
  "parse_u64_binary s =
     (let ds = (case s of c # cs \<Rightarrow> if c = CHR ''+'' then cs else s | [] \<Rightarrow> [])
      in if ds = [] \<or> \<not> list_all is_digit ds then None
         else if int_digits_val ds \<le> 18446744073709551615 then Some (nat (int_digits_val ds)) else None)"

lemma int_digits_val: "int_digits_val s = int (digits_val s)"
proof -
  have "foldl (\<lambda>a c. 10 * a + int (digit_val c)) (int n) s = int (foldl (\<lambda>a c. 10 * a + digit_val c) n s)" for n
  proof (induction s arbitrary: n)
    case (Cons c s)
    from Cons.IH [of "10 * n + digit_val c"] show ?case by simp
  qed simp
  from this [of 0] show ?thesis by (simp add: int_digits_val_def digits_val_def)
qed

lemma parse_u32_binary [code_unfold]: "parse_uint u32_max = parse_u32_binary"
  by (rule ext) (simp add: parse_uint_def parse_u32_binary_def Let_def int_digits_val u32_max_def)

lemma parse_u64_binary [code_unfold]: "parse_uint u64_max = parse_u64_binary"
  by (rule ext) (simp add: parse_uint_def parse_u64_binary_def Let_def int_digits_val u64_max_def)

subsection \<open>Searching by recursion\<close>

lemma str_contains_code [code]:
  "str_contains [] pat \<longleftrightarrow> pat = []"
  "str_contains (c # cs) pat \<longleftrightarrow> (if starts_with (c # cs) pat then True else str_contains cs pat)"
proof -
  show "str_contains [] pat \<longleftrightarrow> pat = []" by (auto simp: str_contains_def)
  have "(\<exists>i\<le>length (c # cs). take (length pat) (drop i (c # cs)) = pat) \<longleftrightarrow>
      take (length pat) (c # cs) = pat \<or> (\<exists>i\<le>length cs. take (length pat) (drop i cs) = pat)"
  proof
    assume "\<exists>i\<le>length (c # cs). take (length pat) (drop i (c # cs)) = pat"
    then obtain i where "i \<le> Suc (length cs)" "take (length pat) (drop i (c # cs)) = pat" by auto
    then show "take (length pat) (c # cs) = pat \<or> (\<exists>i\<le>length cs. take (length pat) (drop i cs) = pat)"
      by (cases i) auto
  next
    assume "take (length pat) (c # cs) = pat \<or> (\<exists>i\<le>length cs. take (length pat) (drop i cs) = pat)"
    then show "\<exists>i\<le>length (c # cs). take (length pat) (drop i (c # cs)) = pat"
    proof
      assume "\<exists>i\<le>length cs. take (length pat) (drop i cs) = pat"
      then obtain i where "i \<le> length cs" "take (length pat) (drop i cs) = pat" by auto
      then show ?thesis by (intro exI [of _ "Suc i"]) simp
    qed (intro exI [of _ 0], simp)
  qed
  then show "str_contains (c # cs) pat \<longleftrightarrow> (if starts_with (c # cs) pat then True else str_contains cs pat)"
    by (simp only: str_contains_def starts_with_def list_ex_iff set_upt atLeast0LessThan lessThan_Suc_atMost atMost_iff Bex_def)
      simp
qed

subsection \<open>The debug format\<close>

text \<open>The \<^verbatim>\<open>{:?}\<close> form of strings, options and lists.  Characters outside ASCII are printed as they are.\<close>

definition debug_hex_digit :: "nat \<Rightarrow> char" where
  "debug_hex_digit n = (if n < 10 then char_of (48 + n) else char_of (87 + n))"

definition debug_char :: "char \<Rightarrow> string" where
  "debug_char c =
     (let n = of_char c :: nat in
      if n = 0 then [CHR 0x5C, CHR ''0'']
      else if n = 9 then [CHR 0x5C, CHR ''t'']
      else if n = 10 then [CHR 0x5C, CHR ''n'']
      else if n = 13 then [CHR 0x5C, CHR ''r'']
      else if n = 34 \<or> n = 92 then [CHR 0x5C, c]
      else if n < 32 \<or> n = 127 then
        [CHR 0x5C] @ ''u{'' @ (if n < 16 then [] else [debug_hex_digit (n div 16)]) @
        [debug_hex_digit (n mod 16)] @ ''}''
      else [c])"

definition debug_str :: "string \<Rightarrow> string" where
  "debug_str s = [CHR 0x22] @ concat (map debug_char s) @ [CHR 0x22]"

definition debug_option :: "('a \<Rightarrow> string) \<Rightarrow> 'a option \<Rightarrow> string" where
  "debug_option show_item x = (case x of None \<Rightarrow> ''None'' | Some y \<Rightarrow> ''Some('' @ show_item y @ '')'')"

definition debug_list :: "('a \<Rightarrow> string) \<Rightarrow> 'a list \<Rightarrow> string" where
  "debug_list show_item xs = ''['' @ join_with '', '' (map show_item xs) @ '']''"

fun show_bool :: "bool \<Rightarrow> string" where
  "show_bool True = ''true''"
| "show_bool False = ''false''"

end
