(* ===== verification/Event_Store.thy ===== *)
theory Event_Store
  imports Event_Delta Str_Ops
begin

text \<open>
  The log on disk: reading \<^verbatim>\<open>events.jsonl\<close>, appending a line under the lock file, and the
  whole append operation \<^verbatim>\<open>append_typed_state_event_for_state_path_with_step_hint\<close>
  (\<^verbatim>\<open>src/src/execution/event_log.rs\<close>).

  A directory entry is an \<open>fs_entry\<close>; the record \<open>log_dir\<close> holds the entries of the branch
  directory the operations touch.  Failures of the operating system are an argument, the record
  \<open>io_faults\<close>: each field is the error text of the call that fails, and a failing write says how
  many bytes reached the file before it failed.  A failure to remove the lock file is ignored by the code, so
  \<open>fault_lock_release\<close> is only whether it happens.
\<close>

subsection \<open>Files\<close>

datatype fs_entry =
    Absent
  | InspectFails string
  | SymlinkEntry
  | NonRegular
  | Regular "string + string"

record log_dir =
  ld_dir :: string
  ld_path :: string
  ld_events :: fs_entry
  ld_lock_path :: string
  ld_lock :: fs_entry

record io_faults =
  fault_lock_dir :: "string option"
  fault_lock_open :: "string option"
  fault_events_dir :: "string option"
  fault_open :: "string option"
  fault_write :: "(nat \<times> string) option"
  fault_newline :: "string option"
  fault_lock_release :: bool

definition no_faults :: io_faults where
  "no_faults =
     \<lparr>fault_lock_dir = None, fault_lock_open = None, fault_events_dir = None, fault_open = None,
      fault_write = None, fault_newline = None, fault_lock_release = False\<rparr>"

fun ensure_regular_file_if_present :: "string \<Rightarrow> string \<Rightarrow> fs_entry \<Rightarrow> bool result" where
  "ensure_regular_file_if_present path label Absent = Inr False"
| "ensure_regular_file_if_present path label (InspectFails err) =
     Inl (json_failure MalformedExecutionState
       (''Could not inspect '' @ label @ '' '' @ path @ '': '' @ err))"
| "ensure_regular_file_if_present path label SymlinkEntry =
     Inl (json_failure MalformedExecutionState
       (label @ '' path must not be a symlink in '' @ path @ ''.''))"
| "ensure_regular_file_if_present path label NonRegular =
     Inl (json_failure MalformedExecutionState
       (label @ '' must be a regular file in '' @ path @ ''.''))"
| "ensure_regular_file_if_present path label (Regular _) = Inr True"

fun parse_log_lines ::
  "event_codec \<Rightarrow> string \<Rightarrow> nat \<Rightarrow> string list \<Rightarrow> ExecutionEventEnvelope list result" where
  "parse_log_lines cd path n [] = Inr []"
| "parse_log_lines cd path n (line # rest) =
     (let trimmed = trim line in
      if trimmed = [] then parse_log_lines cd path (n + 1) rest
      else (case envelope_parse cd trimmed of
              Inl err \<Rightarrow> Inl (json_failure MalformedExecutionState
                (''Event log is malformed in '' @ path @ '' at line '' @ show_nat n @ '': '' @ err))
            | Inr e \<Rightarrow>
                res_bind (parse_log_lines cd path (n + 1) rest) (\<lambda>es. Inr (e # es))))"

definition load_event_log ::
  "event_codec \<Rightarrow> string \<Rightarrow> fs_entry \<Rightarrow> ExecutionEventEnvelope list result" where
  "load_event_log cd path entry =
     res_bind (ensure_regular_file_if_present path ''Authoritative event log'' entry)
       (\<lambda>present.
          if \<not> present then Inr []
          else (case entry of
                  Regular (Inr source) \<Rightarrow> parse_log_lines cd path 1 (str_lines source)
                | Regular (Inl err) \<Rightarrow>
                    Inl (json_failure MalformedExecutionState
                      (''Could not read event log '' @ path @ '': '' @ err))
                | _ \<Rightarrow> Inr []))"

definition file_text :: "fs_entry \<Rightarrow> string" where
  "file_text entry = (case entry of Regular (Inr s) \<Rightarrow> s | _ \<Rightarrow> [])"

text \<open>\<^verbatim>\<open>append_event_line\<close>: the result and the file it leaves behind.\<close>

definition append_event_line ::
  "event_codec \<Rightarrow> io_faults \<Rightarrow> string \<Rightarrow> string \<Rightarrow> fs_entry \<Rightarrow> ExecutionEventEnvelope \<Rightarrow>
   unit result \<times> fs_entry" where
  "append_event_line cd io dir path entry event =
     (case fault_events_dir io of
        Some err \<Rightarrow> (Inl (json_failure PartialAuthoritativeMutation
            (''Could not prepare event-log dir '' @ dir @ '': '' @ err)), entry)
      | None \<Rightarrow>
     (case envelope_json cd event of
        Inl err \<Rightarrow> (Inl (json_failure PartialAuthoritativeMutation
            (''Could not serialize event-log envelope for '' @ path @ '': '' @ err)), entry)
      | Inr serialized \<Rightarrow>
     (case fault_open io of
        Some err \<Rightarrow> (Inl (json_failure PartialAuthoritativeMutation
            (''Could not open event log '' @ path @ '': '' @ err)), entry)
      | None \<Rightarrow>
     (case fault_write io of
        Some (n, err) \<Rightarrow> (Inl (json_failure PartialAuthoritativeMutation
            (''Could not write event log '' @ path @ '': '' @ err)),
            Regular (Inr (file_text entry @ take n serialized)))
      | None \<Rightarrow>
     (case fault_newline io of
        Some err \<Rightarrow> (Inl (json_failure PartialAuthoritativeMutation
            (''Could not finalize event log '' @ path @ '': '' @ err)),
            Regular (Inr (file_text entry @ serialized)))
      | None \<Rightarrow> (Inr (), Regular (Inr (file_text entry @ serialized @ [CHR 0x0A]))))))))"

fun serialize_event_log ::
  "event_codec \<Rightarrow> string \<Rightarrow> ExecutionEventEnvelope list \<Rightarrow> string result" where
  "serialize_event_log cd path [] = Inr []"
| "serialize_event_log cd path (e # es) =
     (case envelope_json cd e of
        Inl err \<Rightarrow> Inl (json_failure PartialAuthoritativeMutation
            (''Could not serialize event-log envelope for '' @ path @ '': '' @ err))
      | Inr line \<Rightarrow> res_bind (serialize_event_log cd path es) (\<lambda>r. Inr (line @ [CHR 0x0A] @ r)))"

text \<open>\<^verbatim>\<open>write_event_log_atomic\<close> with the outcome of the atomic file replacement as an argument:
  on a fault the old file stays.\<close>

definition write_event_log_atomic ::
  "event_codec \<Rightarrow> string option \<Rightarrow> string \<Rightarrow> fs_entry \<Rightarrow> ExecutionEventEnvelope list \<Rightarrow>
   unit result \<times> fs_entry" where
  "write_event_log_atomic cd fault path entry events =
     (case serialize_event_log cd path events of
        Inl e \<Rightarrow> (Inl e, entry)
      | Inr serialized \<Rightarrow>
          (case fault of
             Some err \<Rightarrow> (Inl (json_failure PartialAuthoritativeMutation
               (''Could not atomically publish event log '' @ path @ '': '' @ err)), entry)
           | None \<Rightarrow> (Inr (), Regular (Inr serialized))))"

subsection \<open>The lock\<close>

text \<open>\<^verbatim>\<open>create_new\<close> succeeds only when nothing has the name.  On success the lock file exists
  until the guard is dropped.\<close>

definition acquire_event_log_lock :: "io_faults \<Rightarrow> log_dir \<Rightarrow> unit result \<times> log_dir" where
  "acquire_event_log_lock io d =
     (case fault_lock_dir io of
        Some err \<Rightarrow> (Inl (json_failure PartialAuthoritativeMutation
            (''Could not prepare event-log lock dir '' @ ld_dir d @ '': '' @ err)), d)
      | None \<Rightarrow>
          if ld_lock d \<noteq> Absent then
            (Inl (json_failure ConcurrentWriterConflict
              (''Another runtime writer holds event-log authority via lock '' @ ld_lock_path d @ ''.'')), d)
          else (case fault_lock_open io of
                  Some err \<Rightarrow> (Inl (json_failure PartialAuthoritativeMutation
                    (''Could not acquire event-log lock '' @ ld_lock_path d @ '': '' @ err)), d)
                | None \<Rightarrow> (Inr (), d\<lparr>ld_lock := Regular (Inr ''pid'')\<rparr>)))"

text \<open>The drop of \<^verbatim>\<open>EventLogLockGuard\<close> ignores a failing \<^verbatim>\<open>remove_file\<close>: the lock file then stays.\<close>

definition release_event_log_lock :: "io_faults \<Rightarrow> log_dir \<Rightarrow> log_dir" where
  "release_event_log_lock io d = (if fault_lock_release io then d else d\<lparr>ld_lock := Absent\<rparr>)"

text \<open>The lock after an operation that took it if it was free: as it was, or the operation's own lock file, which
  could not be removed.\<close>

definition lock_as_before :: "io_faults \<Rightarrow> log_dir \<Rightarrow> fs_entry \<Rightarrow> bool" where
  "lock_as_before io d lock \<longleftrightarrow>
     lock = ld_lock d \<or> ld_lock d = Absent \<and> fault_lock_release io \<and> lock = Regular (Inr ''pid'')"

subsection \<open>Appending a typed event\<close>

definition append_metadata :: "state_path \<Rightarrow> string \<Rightarrow> json \<Rightarrow> EventEnvelopeMetadata" where
  "append_metadata state_path cmd state =
     \<lparr>md_command = cmd,
      md_plan_path = json_string state ''source_plan_path'',
      md_plan_revision = json_u32 state ''source_plan_revision'',
      md_execution_run_id =
        opt_or (json_string_from_path state [''run_identity'', ''execution_run_id''])
          (json_string state ''execution_run_id''),
      md_branch_context = branch_context_from_state_path state_path state\<rparr>"

text \<open>The part of the operation between the validated log and the envelope to write.\<close>

definition next_typed_envelope ::
  "event_codec \<Rightarrow> string \<Rightarrow> state_path \<Rightarrow> string \<Rightarrow> json \<Rightarrow> (nat \<times> nat) option \<Rightarrow>
   ExecutionEventEnvelope list \<Rightarrow> ExecutionEventEnvelope result" where
  "next_typed_envelope cd now state_path cmd state step_hint events =
     res_bind (event_from_command_authoritative_delta cd cmd (current_state events) state step_hint)
       (next_event_envelope cd now events (append_metadata state_path cmd state))"

definition append_typed_state_event_locked ::
  "event_codec \<Rightarrow> io_faults \<Rightarrow> string \<Rightarrow> state_path \<Rightarrow> string \<Rightarrow> json \<Rightarrow> (nat \<times> nat) option \<Rightarrow>
   log_dir \<Rightarrow> unit result \<times> log_dir" where
  "append_typed_state_event_locked cd io now state_path cmd state step_hint d =
     (case res_bind (load_event_log cd (ld_path d) (ld_events d))
             (\<lambda>events. res_bind (validate_event_log cd events)
                (\<lambda>_. res_bind (next_typed_envelope cd now state_path cmd state step_hint events)
                   (\<lambda>e. Inr (events, e)))) of
        Inl err \<Rightarrow> (Inl err, d)
      | Inr (events, e) \<Rightarrow>
          (case append_event_line cd io (ld_dir d) (ld_path d) (ld_events d) e of
             (Inl err, entry) \<Rightarrow> (Inl err, d\<lparr>ld_events := entry\<rparr>)
           | (Inr _, entry) \<Rightarrow> (validate_event_log cd (events @ [e]), d\<lparr>ld_events := entry\<rparr>)))"

definition append_typed_state_event ::
  "event_codec \<Rightarrow> io_faults \<Rightarrow> string \<Rightarrow> state_path \<Rightarrow> string \<Rightarrow> json \<Rightarrow> (nat \<times> nat) option \<Rightarrow>
   log_dir \<Rightarrow> unit result \<times> log_dir" where
  "append_typed_state_event cd io now state_path cmd state step_hint d =
     (case acquire_event_log_lock io d of
        (Inl err, d1) \<Rightarrow> (Inl err, d1)
      | (Inr _, d1) \<Rightarrow>
          (let (r, d2) = append_typed_state_event_locked cd io now state_path cmd state step_hint d1
           in (r, release_event_log_lock io d2)))"

text \<open>\<^verbatim>\<open>load_reduced_authoritative_state_for_state_path\<close> once the migration check has passed.\<close>

definition load_reduced_authoritative_state ::
  "event_codec \<Rightarrow> log_dir \<Rightarrow> json option result" where
  "load_reduced_authoritative_state cd d =
     res_bind (load_event_log cd (ld_path d) (ld_events d))
       (\<lambda>events. res_bind (validate_event_log cd events) (\<lambda>_. Inr (reduce_events_to_state events)))"

definition event_log_contains_only_migration_import :: "ExecutionEventEnvelope list \<Rightarrow> bool" where
  "event_log_contains_only_migration_import events \<longleftrightarrow>
     events \<noteq> [] \<and>
     (case payload (hd events) of MigrationImported _ \<Rightarrow> True | _ \<Rightarrow> False) \<and>
     list_all (\<lambda>e. starts_with (command e) ''migrate_legacy_authoritative_state'') events"

subsection \<open>Lines\<close>


text \<open>A log text is complete when its last line is terminated.\<close>

definition complete_text :: "string \<Rightarrow> bool" where
  "complete_text s \<longleftrightarrow> s = [] \<or> last s = newline"

definition line_ok :: "event_codec \<Rightarrow> ExecutionEventEnvelope \<Rightarrow> string \<Rightarrow> bool" where
  "line_ok cd e line \<longleftrightarrow>
     envelope_json cd e = Inr line \<and> envelope_parse cd line = Inr e \<and>
     line \<noteq> [] \<and> newline \<notin> set line \<and> \<not> is_ws (hd line) \<and> \<not> is_ws (last line)"

lemma str_lines_complete: "str_lines (s @ [newline]) = map strip_cr (split_on newline s)"
  using split_on_append [of newline s "[]"] by (simp add: str_lines_def)

lemma str_lines_append_text:
  assumes "complete_text s" "newline \<notin> set l"
  shows "str_lines (s @ l) = str_lines s @ (if l = [] then [] else [l])"
proof (cases "s = []")
  case True
  then show ?thesis using assms(2) by (simp add: str_lines_def split_on_no_sep)
next
  case False
  then obtain r where s: "s = r @ [newline]"
    using assms(1) by (metis append_butlast_last_id complete_text_def)
  have "split_on newline (s @ l) = split_on newline r @ [l]"
    using split_on_append [of newline r l] assms(2) by (simp add: s split_on_no_sep)
  then show ?thesis by (simp add: s str_lines_complete) (simp add: str_lines_def)
qed

lemma str_lines_append_line:
  assumes "complete_text s" "newline \<notin> set l" "strip_cr l = l"
  shows "str_lines (s @ l @ [newline]) = str_lines s @ [l]"
proof (cases "s = []")
  case True
  then show ?thesis
    using assms(2,3) str_lines_complete [of l]
    by (simp add: split_on_no_sep) (simp add: str_lines_def)
next
  case False
  then obtain r where s: "s = r @ [newline]"
    using assms(1) by (metis append_butlast_last_id complete_text_def)
  have "split_on newline (s @ l) = split_on newline r @ [l]"
    using split_on_append [of newline r l] assms(2) by (simp add: s split_on_no_sep)
  then show ?thesis
    using assms(3) str_lines_complete [of "s @ l"] by (simp add: s str_lines_complete)
qed

lemma parse_log_lines_append:
  "parse_log_lines cd path n (ls @ ms) =
   res_bind (parse_log_lines cd path n ls)
     (\<lambda>es. res_bind (parse_log_lines cd path (n + length ls) ms) (\<lambda>fs. Inr (es @ fs)))"
proof (induction ls arbitrary: n)
  case Nil
  then show ?case by (simp add: res_bind_def split: sum.splits)
next
  case (Cons l ls)
  then show ?case by (auto simp: Let_def res_bind_def split: sum.splits)
qed

lemma line_ok_trim: "line_ok cd e l \<Longrightarrow> trim l = l"
  by (auto simp: line_ok_def intro: trim_id)

lemma line_ok_strip_cr: "line_ok cd e l \<Longrightarrow> strip_cr l = l"
  by (auto simp: line_ok_def strip_cr_def is_ws_def)

lemma parse_log_line: "line_ok cd e l \<Longrightarrow> parse_log_lines cd path n [l] = Inr [e]"
  using line_ok_trim [of cd e l] by (simp add: line_ok_def Let_def)

text \<open>Reading the file after one more line was written to a complete log.\<close>

lemma load_text: "load_event_log cd path (Regular (Inr s)) = parse_log_lines cd path 1 (str_lines s)"
  by (simp add: load_event_log_def)

lemma load_appended:
  assumes "load_event_log cd path entry = Inr es" "complete_text (file_text entry)" "line_ok cd e l"
  shows "load_event_log cd path (Regular (Inr (file_text entry @ l @ [newline]))) = Inr (es @ [e])"
proof -
  have p: "parse_log_lines cd path 1 (str_lines (file_text entry)) = Inr es"
    using assms(1) by (cases entry) (auto simp: load_event_log_def file_text_def str_lines_def split: sum.splits)
  have "newline \<notin> set l" using assms(3) by (simp add: line_ok_def)
  from str_lines_append_line [OF assms(2) this line_ok_strip_cr [OF assms(3)]] show ?thesis
    using parse_log_line [OF assms(3)]
    by (simp only: load_text parse_log_lines_append p res_bind_simps)
qed

lemma complete_text_appended: "complete_text (s @ l @ [newline])"
  by (simp add: complete_text_def)

text \<open>A written log reads back.\<close>

lemma load_serialized:
  assumes "serialize_event_log cd path es = Inr s" "\<forall>e\<in>set es. \<exists>l. line_ok cd e l"
  shows "load_event_log cd path (Regular (Inr s)) = Inr es"
proof -
  have "parse_log_lines cd path n (str_lines s) = Inr es \<and> complete_text s"
    if "serialize_event_log cd path es = Inr s" "\<forall>e\<in>set es. \<exists>l. line_ok cd e l" for n
    using that
  proof (induction es arbitrary: s n)
    case Nil
    then show ?case by (simp add: str_lines_def complete_text_def)
  next
    case (Cons e es)
    then obtain l where l: "line_ok cd e l" by auto
    then have j: "envelope_json cd e = Inr l" by (simp add: line_ok_def)
    with Cons.prems obtain r where r: "serialize_event_log cd path es = Inr r" "s = l @ newline # r"
      by (auto simp: res_bind_Inr)
    with Cons have ih: "parse_log_lines cd path (n + 1) (str_lines r) = Inr es" "complete_text r" by auto
    have "split_on newline s = l # split_on newline r"
      using r(2) l by (simp add: split_on_append_sep line_ok_def)
    then have "str_lines s = l # str_lines r"
      using line_ok_strip_cr [OF l] by (simp add: str_lines_def Let_def)
    then show ?case
      using ih l line_ok_trim [OF l] r(2) by (auto simp: line_ok_def Let_def complete_text_def)
  qed
  with assms show ?thesis by (simp add: load_text)
qed

subsection \<open>The append operation\<close>

lemma next_typed_envelope_Inr:
  "next_typed_envelope cd now sp cmd state hint es = Inr e \<longleftrightarrow>
   (\<exists>ev. event_from_command_authoritative_delta cd cmd (current_state es) state hint = Inr ev \<and>
      next_event_envelope cd now es (append_metadata sp cmd state) ev = Inr e)"
  by (auto simp: next_typed_envelope_def res_bind_Inr)

lemma next_typed_envelope_payload:
  assumes "next_typed_envelope cd now sp cmd state hint es = Inr e"
  shows "event_from_command_authoritative_delta cd cmd (current_state es) state hint = Inr (payload e)"
  using assms next_event_envelope_Inr(1) by (auto simp: next_typed_envelope_Inr)

lemma next_typed_envelope_valid:
  assumes "validate_event_log cd es = Inr ()" "next_typed_envelope cd now sp cmd state hint es = Inr e"
  shows "validate_event_log cd (es @ [e]) = Inr ()"
  using assms next_event_envelope_valid event_typed_in_scope [OF delta_event_typed]
  by (auto simp: next_typed_envelope_Inr)

text \<open>What the operation computes once the log has been read and validated.\<close>

lemma append_locked_eq:
  assumes "load_event_log cd (ld_path d) (ld_events d) = Inr es" "validate_event_log cd es = Inr ()"
    "next_typed_envelope cd now sp cmd state hint es = Inr e"
  shows "append_typed_state_event_locked cd io now sp cmd state hint d =
    (let (r, entry) = append_event_line cd io (ld_dir d) (ld_path d) (ld_events d) e
     in (r, d\<lparr>ld_events := entry\<rparr>))"
  using next_typed_envelope_valid [OF assms(2,3)]
  by (auto simp: append_typed_state_event_locked_def assms split: prod.splits sum.splits)

lemma append_ok:
  assumes "ld_lock d = Absent" "load_event_log cd (ld_path d) (ld_events d) = Inr es"
    "validate_event_log cd es = Inr ()" "next_typed_envelope cd now sp cmd state hint es = Inr e"
    "envelope_json cd e = Inr l"
  shows "append_typed_state_event cd no_faults now sp cmd state hint d =
    (Inr (), d\<lparr>ld_events := Regular (Inr (file_text (ld_events d) @ l @ [newline]))\<rparr>)"
  using append_locked_eq [of cd "d\<lparr>ld_lock := Regular (Inr ''pid'')\<rparr>" es now sp cmd state hint e no_faults] assms
  by (cases d) (simp add: append_typed_state_event_def acquire_event_log_lock_def release_event_log_lock_def
      append_event_line_def no_faults_def)

text \<open>Whatever fails, the old text of the log is a prefix of the new text, and the lock is as before unless it
  could not be removed.\<close>

lemma append_event_line_prefix:
  "\<exists>s. file_text (snd (append_event_line cd io dir path entry e)) = file_text entry @ s"
proof -
  have x: "file_text (Regular (Inr s)) = s" for s by (simp add: file_text_def)
  show ?thesis unfolding append_event_line_def by (auto simp: x split: option.split sum.split)
qed

lemma append_locked_frame:
  obtains entry s where
    "snd (append_typed_state_event_locked cd io now sp cmd state hint d) = d\<lparr>ld_events := entry\<rparr>"
    "file_text entry = file_text (ld_events d) @ s"
proof (cases "res_bind (load_event_log cd (ld_path d) (ld_events d))
             (\<lambda>events. res_bind (validate_event_log cd events)
                (\<lambda>_. res_bind (next_typed_envelope cd now sp cmd state hint events)
                   (\<lambda>e. Inr (events, e))))")
  case (Inl err)
  then show thesis
    by (intro that [of "ld_events d" "[]"]) (simp_all add: append_typed_state_event_locked_def)
next
  case (Inr x)
  obtain es e where x: "x = (es, e)" by (cases x)
  let ?a = "append_event_line cd io (ld_dir d) (ld_path d) (ld_events d) e"
  have "snd (append_typed_state_event_locked cd io now sp cmd state hint d) = d\<lparr>ld_events := snd ?a\<rparr>"
    unfolding append_typed_state_event_locked_def Inr x by (auto split: prod.splits sum.splits)
  moreover obtain s where "file_text (snd ?a) = file_text (ld_events d) @ s"
    using append_event_line_prefix by blast
  ultimately show thesis by (rule that)
qed

lemma append_frame:
  obtains entry s lock where
    "snd (append_typed_state_event cd io now sp cmd state hint d) = d\<lparr>ld_events := entry, ld_lock := lock\<rparr>"
    "file_text entry = file_text (ld_events d) @ s" "lock_as_before io d lock"
proof (cases "acquire_event_log_lock io d")
  case (Pair r d1)
  show thesis
  proof (cases r)
    case (Inl err)
    then have "d1 = d"
      using Pair by (auto simp: acquire_event_log_lock_def split: option.splits if_splits)
    then show thesis
      using Pair Inl
      by (intro that [where entry = "ld_events d" and lock = "ld_lock d" and s = "[]"]) (simp_all add: append_typed_state_event_def lock_as_before_def)
  next
    case (Inr u)
    then have l: "ld_lock d = Absent" "d1 = d\<lparr>ld_lock := Regular (Inr ''pid'')\<rparr>"
      using Pair by (auto simp: acquire_event_log_lock_def split: option.splits if_splits)
    obtain entry s where e:
      "snd (append_typed_state_event_locked cd io now sp cmd state hint d1) = d1\<lparr>ld_events := entry\<rparr>"
      "file_text entry = file_text (ld_events d1) @ s"
      by (rule append_locked_frame)
    have "snd (append_typed_state_event cd io now sp cmd state hint d) =
        release_event_log_lock io (snd (append_typed_state_event_locked cd io now sp cmd state hint d1))"
      using Pair Inr by (simp add: append_typed_state_event_def Let_def split_beta)
    then have "snd (append_typed_state_event cd io now sp cmd state hint d) =
        d\<lparr>ld_events := entry, ld_lock := (if fault_lock_release io then Regular (Inr ''pid'') else Absent)\<rparr>"
      using e(1) l by (cases d) (simp add: release_event_log_lock_def)
    moreover have "lock_as_before io d (if fault_lock_release io then Regular (Inr ''pid'') else Absent)"
      using l(1) by (simp add: lock_as_before_def)
    ultimately show thesis using e(2) l(2) that by simp
  qed
qed

text \<open>A log whose last line has no terminator still reads back.\<close>

lemma load_unterminated:
  assumes "load_event_log cd path entry = Inr es" "complete_text (file_text entry)" "line_ok cd e l"
  shows "load_event_log cd path (Regular (Inr (file_text entry @ l))) = Inr (es @ [e])"
proof -
  have p: "parse_log_lines cd path 1 (str_lines (file_text entry)) = Inr es"
    using assms(1) by (cases entry) (auto simp: load_event_log_def file_text_def str_lines_def split: sum.splits)
  have l: "newline \<notin> set l" "l \<noteq> []" using assms(3) by (simp_all add: line_ok_def)
  from str_lines_append_text [OF assms(2) l(1)] l(2)
  have "str_lines (file_text entry @ l) = str_lines (file_text entry) @ [l]" by simp
  then show ?thesis
    using parse_log_line [OF assms(3)]
    by (simp only: load_text parse_log_lines_append p res_bind_simps)
qed

lemma append_unterminated:
  assumes "ld_lock d = Absent" "load_event_log cd (ld_path d) (ld_events d) = Inr es"
    "validate_event_log cd es = Inr ()" "next_typed_envelope cd now sp cmd state hint es = Inr e"
    "envelope_json cd e = Inr l"
  shows "append_typed_state_event cd (no_faults\<lparr>fault_newline := Some err\<rparr>) now sp cmd state hint d =
    (Inl (json_failure PartialAuthoritativeMutation
       (''Could not finalize event log '' @ ld_path d @ '': '' @ err)),
     d\<lparr>ld_events := Regular (Inr (file_text (ld_events d) @ l))\<rparr>)"
  using append_locked_eq [of cd "d\<lparr>ld_lock := Regular (Inr ''pid'')\<rparr>" es now sp cmd state hint e
      "no_faults\<lparr>fault_newline := Some err\<rparr>"] assms
  by (cases d) (simp add: append_typed_state_event_def acquire_event_log_lock_def release_event_log_lock_def
      append_event_line_def no_faults_def)

text \<open>What is left after a failed terminator and one more append: the two lines are one.\<close>

lemma load_joined_lines:
  assumes "load_event_log cd path entry = Inr es" "complete_text (file_text entry)"
    "newline \<notin> set l" "newline \<notin> set m" "trim (l @ m) = l @ m" "l @ m \<noteq> []" "strip_cr (l @ m) = l @ m"
    "envelope_parse cd (l @ m) = Inl err"
  shows "\<exists>msg. load_event_log cd path (Regular (Inr (file_text entry @ l @ m @ [newline]))) =
    Inl (json_failure MalformedExecutionState msg)"
proof -
  have p: "parse_log_lines cd path 1 (str_lines (file_text entry)) = Inr es"
    using assms(1) by (cases entry) (auto simp: load_event_log_def file_text_def str_lines_def split: sum.splits)
  have "newline \<notin> set (l @ m)" using assms(3,4) by simp
  from str_lines_append_line [OF assms(2) this assms(7)]
  have s: "str_lines (file_text entry @ l @ m @ [newline]) = str_lines (file_text entry) @ [l @ m]" by simp
  have "parse_log_lines cd path k [l @ m] = Inl (json_failure MalformedExecutionState
      (''Event log is malformed in '' @ path @ '' at line '' @ show_nat k @ '': '' @ err))" for k
    using assms(5,6,8) by (simp add: Let_def)
  then show ?thesis
    by (simp only: load_text s parse_log_lines_append p res_bind_simps) blast
qed

end
