(* ===== verification/Event_Sample.thy ===== *)
theory Event_Sample
  imports Event_Store
begin

text \<open>
  A concrete run used to instantiate the theorems about the event log: the first append to an
  empty branch directory, recording a handoff, with a codec that serves exactly this run.
\<close>

definition sample_state :: json where
  "sample_state = JObject [(''harness_phase'', JString ''handoff_required'')]"

definition sample_envelope :: ExecutionEventEnvelope where
  "sample_envelope =
     \<lparr>schema_version = 1, event_id = ''evt-1-0123456789ab'', sequence = 1, timestamp = ''t0'',
      command = ''record_handoff'', plan_path = None, plan_revision = None,
      execution_run_id = None,
      branch_context = \<lparr>bc_repo_slug = ''repo'', bc_branch_name = ''main'', bc_safe_branch = ''main''\<rparr>,
      previous_event_hash = None, event_hash = ''0123456789abcdef'',
      payload = HandoffRecorded [(''harness_phase'', JString ''handoff_required'')]\<rparr>"

definition sample_codec :: event_codec where
  "sample_codec =
     \<lparr>hash_shape_json = (\<lambda>_. Inr ''shape''), sha256_hex = (\<lambda>_. ''0123456789abcdef''),
      envelope_json = (\<lambda>_. Inr ''{}''),
      envelope_parse =
        (\<lambda>line. if line = ''{}'' then Inr sample_envelope else Inl ''trailing characters''),
      follow_up_decode = (\<lambda>_. None)\<rparr>"

definition sample_path :: state_path where
  "sample_path = [''projects'', ''repo'', ''branches'', ''main'', ''execution-harness'', ''state.json'']"

definition sample_dir :: log_dir where
  "sample_dir = \<lparr>ld_dir = ''d'', ld_path = ''d/events.jsonl'', ld_events = Absent,
     ld_lock_path = ''d/events.lock'', ld_lock = Absent\<rparr>"

definition sample_migration :: ExecutionEvent where
  "sample_migration = MigrationImported ''state.legacy.json''"

lemma trim_handoff: "trim ''record_handoff'' = ''record_handoff''"
  by (rule trim_id) (simp_all add: is_ws_def)

lemma handoff_not_public: "from_public_mutation_token ''record_handoff'' = None"
  by (simp add: from_public_mutation_token_def PUBLIC_MUTATION_COMMAND_KINDS_def
      matches_public_mutation_token_def)

lemma normalize_main: "normalize_identifier_token ''main'' = ''main''"
  by code_simp

lemma show_one: "show_nat (Suc 0) = ''1''"
  by code_simp

lemma sample_delta:
  "delta_facts HandoffEventFacts_fields HANDOFF_FIELDS JNull sample_state =
   [(''harness_phase'', JString ''handoff_required'')]"
  unfolding delta_facts_def facts_from_builder_def HandoffEventFacts_fields_def collect_changed_get
  by (simp add: sample_state_def changed_authoritative_field_value_def obj_get_def
      HANDOFF_FIELDS_def record_map_delta_field_def RECORD_MAP_DELTA_FIELDS_def
      AuthoritativeFactBuilder_fields_def)

lemma sample_event:
  "event_from_command_authoritative_delta sample_codec ''record_handoff'' JNull sample_state None =
   Inr (HandoffRecorded [(''harness_phase'', JString ''handoff_required'')])"
  by (simp add: event_from_command_authoritative_delta_def trim_handoff handoff_not_public
      event_from_public_command_def event_from_internal_command_def Let_def sample_delta)

lemma current_state_Nil: "current_state [] = JNull"
  by (simp add: current_state_def reduce_events_to_state_def)

lemma sample_next:
  "next_typed_envelope sample_codec ''t0'' sample_path ''record_handoff'' sample_state None [] =
   Inr sample_envelope"
  by (simp add: next_typed_envelope_def current_state_Nil sample_event)
     (simp add: next_event_envelope_def Let_def last_event_def compute_event_hash_def
      sample_codec_def sample_envelope_def EVENT_LOG_SCHEMA_VERSION_def append_metadata_def
      sample_path_def branch_context_from_state_path_def json_string_def json_u32_def
      json_string_from_path_def sample_state_def obj_get_def show_one normalize_main)

lemma sample_line: "line_ok sample_codec sample_envelope ''{}''"
  by (simp add: line_ok_def sample_codec_def is_ws_def)

lemma sample_load_empty: "load_event_log cd p (ld_events sample_dir) = Inr []"
  by (simp add: load_event_log_def sample_dir_def)

lemma sample_dir_text: "file_text (ld_events sample_dir) = []" "ld_lock sample_dir = Absent"
  by (simp_all add: sample_dir_def file_text_def)

lemma sample_state_wf: "json_wf sample_state"
  by (simp add: sample_state_def obj_sorted_def)

lemma validate_Nil: "validate_event_log cd [] = Inr ()"
  by (simp add: validate_event_log_def)

lemma sample_valid: "validate_event_log sample_codec [sample_envelope] = Inr ()"
  using next_typed_envelope_valid [OF validate_Nil sample_next] by simp

lemma sample_wf: "event_wf (payload sample_envelope)"
  using delta_event_wf [OF sample_event] sample_state_wf by (simp add: sample_envelope_def)

lemma sample_note: "\<exists>e. event_from_command_authoritative_delta sample_codec ''note'' cur state None = Inr e"
proof -
  have "trim ''note'' = ''note''" by (rule trim_id) (simp_all add: is_ws_def)
  then show ?thesis
    using internal_command_iff [of sample_codec "''note''" cur state]
    by (auto simp: event_from_command_authoritative_delta_def Let_def split: option.splits)
qed

lemma sample_envelope_total: "\<exists>e. next_event_envelope sample_codec now es md ev = Inr e"
  by (rule next_event_envelope_total) (simp add: sample_codec_def)

end
