(* ===== verification/Harness_Phase.thy ===== *)
theory Harness_Phase
  imports Runtime_Tokens
begin

text \<open>
  The harness phase enumeration with its printing and parsing (\<^verbatim>\<open>HarnessPhase\<close> of
  \<^verbatim>\<open>src/src/execution/harness.rs\<close>) and the late-stage precedence table that turns the three
  late-stage gates into the next phase (\<^verbatim>\<open>late_stage_precedence.rs\<close>).
\<close>

datatype HarnessPhase =
    ImplementationHandoff
  | ExecutionPreflight
  | ContractDrafting
  | ContractPendingApproval
  | ContractApproved
  | Executing
  | Evaluating
  | Repairing
  | PivotRequired
  | HandoffRequired
  | FinalReviewPending
  | QaPending
  | DocumentReleasePending
  | ReadyForBranchCompletion

definition HarnessPhase_ALL :: "HarnessPhase list" where
  "HarnessPhase_ALL =
    [ImplementationHandoff,
     ExecutionPreflight,
     ContractDrafting,
     ContractPendingApproval,
     ContractApproved,
     Executing,
     Evaluating,
     Repairing,
     PivotRequired,
     HandoffRequired,
     FinalReviewPending,
     QaPending,
     DocumentReleasePending,
     ReadyForBranchCompletion]"

fun harness_phase_as_str :: "HarnessPhase \<Rightarrow> string" where
  "harness_phase_as_str ImplementationHandoff = PHASE_IMPLEMENTATION_HANDOFF"
| "harness_phase_as_str ExecutionPreflight = PHASE_EXECUTION_PREFLIGHT"
| "harness_phase_as_str ContractDrafting = ''contract_drafting''"
| "harness_phase_as_str ContractPendingApproval = ''contract_pending_approval''"
| "harness_phase_as_str ContractApproved = ''contract_approved''"
| "harness_phase_as_str Executing = PHASE_EXECUTING"
| "harness_phase_as_str Evaluating = ''evaluating''"
| "harness_phase_as_str Repairing = ''repairing''"
| "harness_phase_as_str PivotRequired = PHASE_PIVOT_REQUIRED"
| "harness_phase_as_str HandoffRequired = PHASE_HANDOFF_REQUIRED"
| "harness_phase_as_str FinalReviewPending = PHASE_FINAL_REVIEW_PENDING"
| "harness_phase_as_str QaPending = PHASE_QA_PENDING"
| "harness_phase_as_str DocumentReleasePending = PHASE_DOCUMENT_RELEASE_PENDING"
| "harness_phase_as_str ReadyForBranchCompletion = PHASE_READY_FOR_BRANCH_COMPLETION"

datatype ParseHarnessPhaseError = ParseHarnessPhaseError (invalid_value: string)

definition harness_phase_from_str :: "string \<Rightarrow> ParseHarnessPhaseError + HarnessPhase" where
  "harness_phase_from_str value =
     (if value = PHASE_IMPLEMENTATION_HANDOFF then Inr ImplementationHandoff
      else if value = PHASE_EXECUTION_PREFLIGHT then Inr ExecutionPreflight
      else if value = ''contract_drafting'' then Inr ContractDrafting
      else if value = ''contract_pending_approval'' then Inr ContractPendingApproval
      else if value = ''contract_approved'' then Inr ContractApproved
      else if value = PHASE_EXECUTING then Inr Executing
      else if value = ''evaluating'' then Inr Evaluating
      else if value = ''repairing'' then Inr Repairing
      else if value = PHASE_PIVOT_REQUIRED then Inr PivotRequired
      else if value = PHASE_HANDOFF_REQUIRED then Inr HandoffRequired
      else if value = PHASE_FINAL_REVIEW_PENDING then Inr FinalReviewPending
      else if value = PHASE_QA_PENDING then Inr QaPending
      else if value = PHASE_DOCUMENT_RELEASE_PENDING then Inr DocumentReleasePending
      else if value = PHASE_READY_FOR_BRANCH_COMPLETION then Inr ReadyForBranchCompletion
      else Inl (ParseHarnessPhaseError value))"

definition harness_phase_parse :: "string \<Rightarrow> HarnessPhase option" where
  "harness_phase_parse value =
     (case harness_phase_from_str value of Inl _ \<Rightarrow> None | Inr p \<Rightarrow> Some p)"

definition is_public_phase :: "string \<Rightarrow> bool" where
  "is_public_phase value \<longleftrightarrow> list_ex (\<lambda>p. harness_phase_as_str p = value) HarnessPhase_ALL"

fun is_late_stage :: "HarnessPhase \<Rightarrow> bool" where
  "is_late_stage FinalReviewPending = True"
| "is_late_stage QaPending = True"
| "is_late_stage DocumentReleasePending = True"
| "is_late_stage ReadyForBranchCompletion = True"
| "is_late_stage _ = False"

lemma HarnessPhase_ALL_complete: "p \<in> set HarnessPhase_ALL"
  by (cases p) (simp_all add: HarnessPhase_ALL_def)

lemma harness_phase_from_str_as_str [simp]:
  "harness_phase_from_str (harness_phase_as_str p) = Inr p"
  by (cases p) (simp_all add: harness_phase_from_str_def)

lemma harness_phase_from_str_Inr:
  "harness_phase_from_str value = Inr p \<Longrightarrow> harness_phase_as_str p = value"
  by (simp add: harness_phase_from_str_def split: if_splits)

subsection \<open>Late-stage precedence\<close>

datatype GateState = Ready | Blocked

definition gate_from_blocked :: "bool \<Rightarrow> GateState" where
  "gate_from_blocked blocked = (if blocked then Blocked else Ready)"

record LateStageSignals =
  release :: GateState
  review :: GateState
  qa :: GateState

record LateStageDecision =
  ls_phase :: string
  ls_reason_family :: string

record LateStageRow =
  row_release :: GateState
  row_review :: GateState
  row_qa :: GateState
  row_phase :: string
  row_reason_family :: string

definition PRECEDENCE_ROWS :: "LateStageRow list" where
  "PRECEDENCE_ROWS =
    [\<lparr>row_release = Blocked, row_review = Blocked, row_qa = Blocked,
      row_phase = PHASE_DOCUMENT_RELEASE_PENDING, row_reason_family = ''release_readiness''\<rparr>,
     \<lparr>row_release = Blocked, row_review = Blocked, row_qa = Ready,
      row_phase = PHASE_DOCUMENT_RELEASE_PENDING, row_reason_family = ''release_readiness''\<rparr>,
     \<lparr>row_release = Blocked, row_review = Ready, row_qa = Blocked,
      row_phase = PHASE_DOCUMENT_RELEASE_PENDING, row_reason_family = ''release_readiness''\<rparr>,
     \<lparr>row_release = Blocked, row_review = Ready, row_qa = Ready,
      row_phase = PHASE_DOCUMENT_RELEASE_PENDING, row_reason_family = ''release_readiness''\<rparr>,
     \<lparr>row_release = Ready, row_review = Blocked, row_qa = Blocked,
      row_phase = PHASE_FINAL_REVIEW_PENDING, row_reason_family = ''final_review_freshness''\<rparr>,
     \<lparr>row_release = Ready, row_review = Blocked, row_qa = Ready,
      row_phase = PHASE_FINAL_REVIEW_PENDING, row_reason_family = ''final_review_freshness''\<rparr>,
     \<lparr>row_release = Ready, row_review = Ready, row_qa = Blocked,
      row_phase = PHASE_QA_PENDING, row_reason_family = ''qa_freshness''\<rparr>,
     \<lparr>row_release = Ready, row_review = Ready, row_qa = Ready,
      row_phase = PHASE_READY_FOR_BRANCH_COMPLETION, row_reason_family = ''all_fresh''\<rparr>]"

definition late_stage_resolve :: "LateStageSignals \<Rightarrow> LateStageDecision" where
  "late_stage_resolve signals =
     (case find (\<lambda>row. row_release row = release signals \<and> row_review row = review signals
                    \<and> row_qa row = qa signals) PRECEDENCE_ROWS of
        Some row \<Rightarrow> \<lparr>ls_phase = row_phase row, ls_reason_family = row_reason_family row\<rparr>
      | None \<Rightarrow> \<lparr>ls_phase = PHASE_FINAL_REVIEW_PENDING,
                 ls_reason_family = ''fallback_fail_closed''\<rparr>)"

text \<open>The order the table implements: the first blocked gate of release, review, QA decides.\<close>

definition late_stage_spec :: "GateState \<Rightarrow> GateState \<Rightarrow> GateState \<Rightarrow> HarnessPhase \<times> string" where
  "late_stage_spec rel rvw q =
     (if rel = Blocked then (DocumentReleasePending, ''release_readiness'')
      else if rvw = Blocked then (FinalReviewPending, ''final_review_freshness'')
      else if q = Blocked then (QaPending, ''qa_freshness'')
      else (ReadyForBranchCompletion, ''all_fresh''))"

lemma late_stage_resolve_cases:
  "late_stage_resolve \<lparr>release = rel, review = rvw, qa = q\<rparr> =
     \<lparr>ls_phase = harness_phase_as_str (fst (late_stage_spec rel rvw q)),
      ls_reason_family = snd (late_stage_spec rel rvw q)\<rparr>"
  by (cases rel; cases rvw; cases q)
     (simp_all add: late_stage_resolve_def PRECEDENCE_ROWS_def late_stage_spec_def)

lemma late_stage_spec_late: "is_late_stage (fst (late_stage_spec rel rvw q))"
  by (simp add: late_stage_spec_def)

end
