(* ===== verification/Repo_Safety.thy ===== *)
theory Repo_Safety
  imports Paths "HOL-Library.Sublist"
begin

text \<open>
  Repository safety (\<^verbatim>\<open>src/src/repo_safety/mod.rs\<close>, its arguments in
  \<^verbatim>\<open>src/src/cli/repo_safety.rs\<close> and the instruction parser in
  \<^verbatim>\<open>src/src/instructions/mod.rs\<close>): whether a write on a protected branch is allowed.

  Parameters gathered in \<open>safety_env\<close>: the hexadecimal SHA-256 digest, the user name, and the
  canonical form of a directory name that the file system gives.  The approvals on disk are an
  \<open>approval_store\<close>: for each file what \<^verbatim>\<open>read_to_string\<close> and \<^verbatim>\<open>serde_json\<close> make of it, and
  the names of the directories under the approvals root.
\<close>

subsection \<open>Arguments\<close>

datatype RepoSafetyIntentArg = ReadIntent | WriteIntent

fun intent_as_str :: "RepoSafetyIntentArg \<Rightarrow> string" where
  "intent_as_str ReadIntent = ''read''"
| "intent_as_str WriteIntent = ''write''"

datatype RepoSafetyWriteTargetArg =
    SpecArtifactWrite
  | PlanArtifactWrite
  | ApprovalHeaderWrite
  | ExecutionTaskSlice
  | ReleaseDocWrite
  | RepoFileWrite
  | GitCommit
  | GitMerge
  | GitPush
  | GitWorktreeCleanup
  | BranchFinish

fun write_target_as_str :: "RepoSafetyWriteTargetArg \<Rightarrow> string" where
  "write_target_as_str SpecArtifactWrite = ''spec-artifact-write''"
| "write_target_as_str PlanArtifactWrite = ''plan-artifact-write''"
| "write_target_as_str ApprovalHeaderWrite = ''approval-header-write''"
| "write_target_as_str ExecutionTaskSlice = ''execution-task-slice''"
| "write_target_as_str ReleaseDocWrite = ''release-doc-write''"
| "write_target_as_str RepoFileWrite = ''repo-file-write''"
| "write_target_as_str GitCommit = ''git-commit''"
| "write_target_as_str GitMerge = ''git-merge''"
| "write_target_as_str GitPush = ''git-push''"
| "write_target_as_str GitWorktreeCleanup = ''git-worktree-cleanup''"
| "write_target_as_str BranchFinish = ''branch-finish''"

record RepoSafetyCheckArgs =
  ca_intent :: RepoSafetyIntentArg
  ca_stage :: string
  ca_task_id :: "string option"
  ca_paths :: "string list"
  ca_write_targets :: "RepoSafetyWriteTargetArg list"

record RepoSafetyApproveArgs =
  aa_stage :: string
  aa_task_id :: "string option"
  aa_reason :: string
  aa_paths :: "string list"
  aa_write_targets :: "RepoSafetyWriteTargetArg list"

subsection \<open>Data\<close>

definition DEFAULT_PROTECTED_BRANCHES :: "string list" where
  "DEFAULT_PROTECTED_BRANCHES = [''main'', ''master'', ''dev'', ''develop'']"

definition WRITE_TARGET_ALLOWLIST :: "string list" where
  "WRITE_TARGET_ALLOWLIST =
    [''spec-artifact-write'', ''plan-artifact-write'', ''approval-header-write'',
     ''execution-task-slice'', ''release-doc-write'', ''repo-file-write'', ''git-commit'',
     ''git-merge'', ''git-push'', ''git-worktree-cleanup'', ''branch-finish'']"

definition MAX_REASON_LENGTH :: nat where
  "MAX_REASON_LENGTH = 240"

record RepoSafetyResult =
  sr_outcome :: string
  sr_intent :: string
  sr_branch :: string
  sr_protected :: bool
  sr_protected_by :: string
  sr_task_id :: string
  sr_approval_fingerprint :: string
  sr_approval_path :: state_path
  sr_failure_class :: string
  sr_reason :: string
  sr_suggested_next_skill :: string

record ApprovalRecord =
  ar_repo_root :: string
  ar_branch :: string
  ar_stage :: string
  ar_task_id :: string
  ar_paths :: "string list"
  ar_write_targets :: "string list"
  ar_approval_fingerprint :: string
  ar_approval_reason :: string
  ar_protected_by :: string
  ar_approved_at :: string

record Scope =
  sc_stage :: string
  sc_task_id :: string
  sc_paths :: "string list"
  sc_write_targets :: "string list"
  sc_approval_fingerprint :: string
  sc_canonical_approval_path :: state_path

record RepoSafetyRuntime =
  rs_repo_root :: string
  rs_branch_name :: string
  rs_repo_slug :: string
  rs_safe_branch :: string
  rs_state_dir :: state_path
  rs_protected :: bool
  rs_protected_by :: string

record safety_env =
  se_sha256 :: "string \<Rightarrow> string"
  se_user :: string
  se_canonicalize :: "string \<Rightarrow> string"

datatype approval_file = NotAFile | ReadFails string | Malformed | Approval ApprovalRecord

record approval_store =
  as_files :: "state_path \<rightharpoonup> approval_file"
  as_slug_dirs :: "string list option"

subsection \<open>Scopes\<close>

text \<open>A \<^verbatim>\<open>BTreeSet\<close> listed in order.\<close>

definition btree_set :: "string list \<Rightarrow> string list" where
  "btree_set xs = sort (remdups xs)"

definition normalize_paths :: "string list \<Rightarrow> DiagnosticError + string list" where
  "normalize_paths raw_paths =
     res_bind
       (collect_results
         (\<lambda>path. case normalize_repo_relative_path path of
             Inl _ \<Rightarrow> Inl \<lparr>de_failure_class = InvalidCommandInput,
               de_message = ''Paths must be normalized repo-relative paths inside the repo root.''\<rparr>
           | Inr p \<Rightarrow> Inr p) raw_paths)
       (\<lambda>ps. Inr (btree_set ps))"

definition normalize_write_targets :: "string list \<Rightarrow> DiagnosticError + string list" where
  "normalize_write_targets raw_write_targets =
     res_bind
       (collect_results
         (\<lambda>target. if target \<in> set WRITE_TARGET_ALLOWLIST then Inr target
           else Inl \<lparr>de_failure_class = InvalidWriteTarget,
             de_message = ''Unsupported write target: '' @ target\<rparr>) raw_write_targets)
       (\<lambda>ts. Inr (btree_set ts))"

definition derive_task_id ::
  "safety_env \<Rightarrow> string \<Rightarrow> string option \<Rightarrow> string list \<Rightarrow> string list \<Rightarrow> DiagnosticError + string" where
  "derive_task_id env stage raw_task_id paths write_targets =
     (case raw_task_id of
        Some raw \<Rightarrow>
          (let normalized_task_id = normalize_identifier_token raw in
           if normalized_task_id = []
           then Inl \<lparr>de_failure_class = InvalidCommandInput,
             de_message = ''Task id may not be blank after normalization.''\<rparr>
           else Inr normalized_task_id)
      | None \<Rightarrow>
          (let normalized_stage = normalize_identifier_token stage in
           if normalized_stage = []
           then Inl \<lparr>de_failure_class = InvalidCommandInput,
             de_message = ''Stage may not be blank after normalization.''\<rparr>
           else
             let hashed = stage @ concat (map (\<lambda>p. CHR 0x0A # p) paths) @
                   [CHR 0x0A] @ ''--targets--'' @ [CHR 0x0A] @
                   concat (map (\<lambda>t. t @ [CHR 0x0A]) write_targets);
                 scope_hash = take 16 (se_sha256 env hashed)
             in Inr (normalized_stage @ ''-'' @ scope_hash)))"

text \<open>The text that \<^verbatim>\<open>compute_fingerprint_for_repo_root\<close> feeds to the hasher.\<close>

definition fingerprint_text ::
  "string \<Rightarrow> string \<Rightarrow> string \<Rightarrow> string \<Rightarrow> string list \<Rightarrow> string list \<Rightarrow> string" where
  "fingerprint_text repo_root branch_name stage task_id paths write_targets =
     repo_root @ [CHR 0x0A] @ branch_name @ [CHR 0x0A] @ stage @ [CHR 0x0A] @ task_id @ [CHR 0x0A] @
     ''--paths--'' @ [CHR 0x0A] @ join_with [CHR 0x0A] paths @
     [CHR 0x0A] @ ''--targets--'' @ [CHR 0x0A] @ join_with [CHR 0x0A] write_targets"

definition compute_fingerprint_for_repo_root ::
  "safety_env \<Rightarrow> string \<Rightarrow> string \<Rightarrow> string \<Rightarrow> string \<Rightarrow> string list \<Rightarrow> string list \<Rightarrow> string" where
  "compute_fingerprint_for_repo_root env repo_root branch_name stage task_id paths write_targets =
     se_sha256 env (fingerprint_text repo_root branch_name stage task_id paths write_targets)"

definition prepare_scope ::
  "safety_env \<Rightarrow> RepoSafetyRuntime \<Rightarrow> string \<Rightarrow> string option \<Rightarrow> string list \<Rightarrow> string list \<Rightarrow>
   DiagnosticError + Scope" where
  "prepare_scope env rt stage raw_task_id raw_paths raw_write_targets =
     (if stage = [] then Inl \<lparr>de_failure_class = InvalidCommandInput,
        de_message = ''Repo safety requires --stage.''\<rparr>
      else
        res_bind (normalize_paths raw_paths) (\<lambda>paths.
        res_bind (normalize_write_targets raw_write_targets) (\<lambda>write_targets.
        res_bind (derive_task_id env stage raw_task_id paths write_targets) (\<lambda>task_id.
          let task_hash = take 16 (se_sha256 env (stage @ [CHR 0x0A] @ task_id)) in
          Inr \<lparr>sc_stage = stage, sc_task_id = task_id, sc_paths = paths,
               sc_write_targets = write_targets,
               sc_approval_fingerprint =
                 compute_fingerprint_for_repo_root env (rs_repo_root rt) (rs_branch_name rt) stage
                   task_id paths write_targets,
               sc_canonical_approval_path =
                 rs_state_dir rt @ [''repo-safety'', ''approvals'', rs_repo_slug rt,
                   se_user env @ ''-'' @ rs_safe_branch rt, task_hash @ ''.json'']\<rparr>))))"

subsection \<open>Approvals\<close>

definition stored_repo_root_matches_current :: "safety_env \<Rightarrow> string \<Rightarrow> string \<Rightarrow> bool" where
  "stored_repo_root_matches_current env stored_repo_root current_repo_root \<longleftrightarrow>
     stored_repo_root \<noteq> [] \<and>
     (let current = se_canonicalize env current_repo_root in
      stored_repo_root = current \<or>
      (starts_with stored_repo_root ''/'' \<and> se_canonicalize env stored_repo_root = current))"

definition record_matches_scope ::
  "safety_env \<Rightarrow> ApprovalRecord \<Rightarrow> string \<Rightarrow> string \<Rightarrow> Scope \<Rightarrow> bool" where
  "record_matches_scope env r repo_root branch_name scope \<longleftrightarrow>
     stored_repo_root_matches_current env (ar_repo_root r) repo_root \<and>
     ar_branch r = branch_name \<and> ar_stage r = sc_stage scope \<and> ar_task_id r = sc_task_id scope"

definition record_fingerprint_matches_scope ::
  "safety_env \<Rightarrow> ApprovalRecord \<Rightarrow> string \<Rightarrow> Scope \<Rightarrow> bool" where
  "record_fingerprint_matches_scope env r branch_name scope \<longleftrightarrow>
     ar_approval_fingerprint r = sc_approval_fingerprint scope \<or>
     ar_approval_fingerprint r =
       compute_fingerprint_for_repo_root env (ar_repo_root r) branch_name (sc_stage scope)
         (sc_task_id scope) (sc_paths scope) (sc_write_targets scope)"

definition read_approval_record ::
  "approval_store \<Rightarrow> state_path \<Rightarrow> DiagnosticError + ApprovalRecord option" where
  "read_approval_record st path =
     (case as_files st path of
        None \<Rightarrow> Inr None
      | Some NotAFile \<Rightarrow> Inr None
      | Some (ReadFails err) \<Rightarrow>
          Inl \<lparr>de_failure_class = InstructionParseFailed,
            de_message = ''Could not read approval record '' @ join_with ''/'' path @ '': '' @ err\<rparr>
      | Some Malformed \<Rightarrow> Inr None
      | Some (Approval r) \<Rightarrow> Inr (Some r))"

fun scan_legacy_dirs ::
  "safety_env \<Rightarrow> RepoSafetyRuntime \<Rightarrow> approval_store \<Rightarrow> Scope \<Rightarrow> string list \<Rightarrow>
   DiagnosticError + ApprovalRecord option" where
  "scan_legacy_dirs env rt st scope [] = Inr None"
| "scan_legacy_dirs env rt st scope (slug # rest) =
     res_bind
       (read_approval_record st
         (rs_state_dir rt @ [''repo-safety'', ''approvals'', slug,
            se_user env @ ''-'' @ rs_safe_branch rt, last (sc_canonical_approval_path scope)]))
       (\<lambda>found. case found of
          None \<Rightarrow> scan_legacy_dirs env rt st scope rest
        | Some r \<Rightarrow>
            if record_matches_scope env r (rs_repo_root rt) (rs_branch_name rt) scope \<and>
               record_fingerprint_matches_scope env r (rs_branch_name rt) scope
            then Inr (Some r) else scan_legacy_dirs env rt st scope rest)"

definition read_legacy_approval ::
  "safety_env \<Rightarrow> RepoSafetyRuntime \<Rightarrow> approval_store \<Rightarrow> Scope \<Rightarrow> DiagnosticError + ApprovalRecord option" where
  "read_legacy_approval env rt st scope =
     (case as_slug_dirs st of
        None \<Rightarrow> Inr None
      | Some slugs \<Rightarrow>
          scan_legacy_dirs env rt st scope (sort (filter (\<lambda>s. s \<noteq> rs_repo_slug rt) slugs)))"

definition read_approval ::
  "safety_env \<Rightarrow> RepoSafetyRuntime \<Rightarrow> approval_store \<Rightarrow> Scope \<Rightarrow> DiagnosticError + ApprovalRecord option" where
  "read_approval env rt st scope =
     res_bind (read_approval_record st (sc_canonical_approval_path scope)) (\<lambda>found.
       case found of
         Some r \<Rightarrow> Inr (Some r)
       | None \<Rightarrow> read_legacy_approval env rt st scope)"

definition safety_result ::
  "RepoSafetyRuntime \<Rightarrow> string \<Rightarrow> string \<Rightarrow> Scope \<Rightarrow> string \<Rightarrow> string \<Rightarrow> string \<Rightarrow> RepoSafetyResult" where
  "safety_result rt outcome intent scope failure_class reason suggested_next_skill =
     \<lparr>sr_outcome = outcome, sr_intent = intent, sr_branch = rs_branch_name rt,
      sr_protected = rs_protected rt, sr_protected_by = rs_protected_by rt,
      sr_task_id = sc_task_id scope, sr_approval_fingerprint = sc_approval_fingerprint scope,
      sr_approval_path = sc_canonical_approval_path scope, sr_failure_class = failure_class,
      sr_reason = reason, sr_suggested_next_skill = suggested_next_skill\<rparr>"

definition repo_safety_check ::
  "safety_env \<Rightarrow> RepoSafetyRuntime \<Rightarrow> approval_store \<Rightarrow> RepoSafetyCheckArgs \<Rightarrow>
   DiagnosticError + RepoSafetyResult" where
  "repo_safety_check env rt st args =
     (let intent = intent_as_str (ca_intent args) in
      res_bind
        (prepare_scope env rt (ca_stage args) (ca_task_id args) (ca_paths args)
          (map write_target_as_str (ca_write_targets args)))
        (\<lambda>scope.
          if intent = ''read'' then Inr (safety_result rt ''allowed'' intent scope [] ''read_allowed'' [])
          else if \<not> rs_protected rt
          then Inr (safety_result rt ''allowed'' intent scope [] ''branch_not_protected'' [])
          else
            res_bind (read_approval env rt st scope) (\<lambda>found.
              case found of
                None \<Rightarrow>
                  Inr (safety_result rt ''blocked'' intent scope ''ProtectedBranchDetected''
                    ''protected_branch_requires_approval'' ''featureforge:using-git-worktrees'')
              | Some r \<Rightarrow>
                  if \<not> record_matches_scope env r (rs_repo_root rt) (rs_branch_name rt) scope
                  then Inr (safety_result rt ''blocked'' intent scope ''ApprovalScopeMismatch''
                    ''approval_scope_mismatch'' ''featureforge:using-git-worktrees'')
                  else if \<not> record_fingerprint_matches_scope env r (rs_branch_name rt) scope
                  then Inr (safety_result rt ''blocked'' intent scope ''ApprovalFingerprintMismatch''
                    ''approval_fingerprint_mismatch'' ''featureforge:using-git-worktrees'')
                  else Inr (safety_result rt ''allowed'' intent scope [] ''approval_matched'' []))))"

definition normalize_reason :: "string \<Rightarrow> DiagnosticError + string" where
  "normalize_reason raw_reason =
     (let normalized = normalize_whitespace raw_reason in
      if normalized = [] \<or> length normalized > MAX_REASON_LENGTH
      then Inl \<lparr>de_failure_class = InvalidCommandInput,
        de_message = ''Approval reasons may not be blank after whitespace normalization and must stay within the length limit.''\<rparr>
      else Inr normalized)"

text \<open>\<^verbatim>\<open>write_approval_record\<close>: the file appears as a whole or, on a fault of the file system (its
  error message is the argument), not at all.\<close>

definition write_approval_record ::
  "string option \<Rightarrow> state_path \<Rightarrow> ApprovalRecord \<Rightarrow> approval_store \<Rightarrow> (DiagnosticError + unit) \<times> approval_store" where
  "write_approval_record fault path r st =
     (case fault of
        Some msg \<Rightarrow> (Inl \<lparr>de_failure_class = ApprovalWriteFailed, de_message = msg\<rparr>, st)
      | None \<Rightarrow> (Inr (), st\<lparr>as_files := (as_files st)(path \<mapsto> Approval r)\<rparr>))"

definition repo_safety_approve ::
  "safety_env \<Rightarrow> RepoSafetyRuntime \<Rightarrow> string option \<Rightarrow> RepoSafetyApproveArgs \<Rightarrow> approval_store \<Rightarrow>
   (DiagnosticError + RepoSafetyResult) \<times> approval_store" where
  "repo_safety_approve env rt fault args st =
     (case prepare_scope env rt (aa_stage args) (aa_task_id args) (aa_paths args)
             (map write_target_as_str (aa_write_targets args)) of
        Inl err \<Rightarrow> (Inl err, st)
      | Inr scope \<Rightarrow>
          (case normalize_reason (aa_reason args) of
             Inl err \<Rightarrow> (Inl err, st)
           | Inr approval_reason \<Rightarrow>
               (let r = \<lparr>ar_repo_root = rs_repo_root rt, ar_branch = rs_branch_name rt,
                      ar_stage = sc_stage scope, ar_task_id = sc_task_id scope,
                      ar_paths = sc_paths scope, ar_write_targets = sc_write_targets scope,
                      ar_approval_fingerprint = sc_approval_fingerprint scope,
                      ar_approval_reason = approval_reason, ar_protected_by = rs_protected_by rt,
                      ar_approved_at = ''1970-01-01T00:00:00Z''\<rparr>
                in case write_approval_record fault (sc_canonical_approval_path scope) r st of
                     (Inl err, st') \<Rightarrow> (Inl err, st')
                   | (Inr _, st') \<Rightarrow>
                       (Inr (safety_result rt ''allowed'' ''write'' scope [] ''approval_recorded'' []), st'))))"

subsection \<open>Protected branches\<close>

definition parse_failure :: "string \<Rightarrow> DiagnosticError" where
  "parse_failure m = \<lparr>de_failure_class = InstructionParseFailed, de_message = m\<rparr>"

definition parse_protected_entry :: "string \<Rightarrow> DiagnosticError + string" where
  "parse_protected_entry raw =
     (let raw_branch_name = normalize_whitespace raw in
      if raw_branch_name = [] then Inl (parse_failure ''Protected-branch instruction entries may not be blank.'')
      else let normalized_branch_name = normalize_identifier_token raw_branch_name in
        if normalized_branch_name = []
        then Inl (parse_failure ''Protected-branch instruction entries may not be blank after normalization.'')
        else if raw_branch_name \<noteq> normalized_branch_name
        then Inl (parse_failure ''Protected-branch instruction entries must already use normalized exact branch names.'')
        else Inr normalized_branch_name)"

text \<open>The lines of one instruction file; the file itself is given by its lines.\<close>

fun parse_protected_lines :: "string list \<Rightarrow> DiagnosticError + string list" where
  "parse_protected_lines [] = Inr []"
| "parse_protected_lines (line # rest) =
     (case strip_prefix (trim_start line) ''FeatureForge protected branches:'' of
        None \<Rightarrow> parse_protected_lines rest
      | Some raw_list \<Rightarrow>
          res_bind (collect_results parse_protected_entry (split_on (CHR '','') raw_list))
            (\<lambda>bs. res_bind (parse_protected_lines rest) (\<lambda>cs. Inr (bs @ cs))))"

text \<open>An instruction file is its path with its lines, or the error of reading it.\<close>

fun parse_protected_branches ::
  "(string \<times> (string + string list)) list \<Rightarrow> DiagnosticError + string list" where
  "parse_protected_branches [] = Inr []"
| "parse_protected_branches ((path, Inl err) # rest) =
     Inl (parse_failure (''Could not read instruction file '' @ path @ '': '' @ err))"
| "parse_protected_branches ((path, Inr ls) # rest) =
     res_bind (parse_protected_lines ls)
       (\<lambda>bs. res_bind (parse_protected_branches rest) (\<lambda>cs. Inr (bs @ cs)))"

definition branch_protection ::
  "(DiagnosticError + (string \<times> (string + string list)) list) \<Rightarrow> string \<Rightarrow> DiagnosticError + bool \<times> string" where
  "branch_protection instruction_files normalized_branch =
     (if normalized_branch \<in> set DEFAULT_PROTECTED_BRANCHES then Inr (True, ''default'')
      else
        res_bind instruction_files (\<lambda>files.
        res_bind (parse_protected_branches files) (\<lambda>protected_branches.
          if list_ex (\<lambda>b. b = normalized_branch) protected_branches
          then Inr (True, ''instructions'') else Inr (False, ''default''))))"

subsection \<open>Scopes are canonical\<close>

lemma collect_results_mem:
  "collect_results f xs = Inr ys \<Longrightarrow> y \<in> set ys \<Longrightarrow> \<exists>x\<in>set xs. f x = Inr y"
  by (induction xs arbitrary: ys) (auto simp: res_bind_Inr)

lemma btree_set_set [simp]: "set (btree_set xs) = set xs"
  by (simp add: btree_set_def)

lemma btree_set_sorted: "sorted (btree_set xs) \<and> distinct (btree_set xs)"
  by (simp add: btree_set_def)

lemma btree_set_cong: "set xs = set ys \<Longrightarrow> btree_set xs = btree_set ys"
  using btree_set_sorted by (metis btree_set_set sorted_distinct_set_unique)

lemma collect_results_projr: "collect_results f zs = Inr us \<Longrightarrow> us = map (projr \<circ> f) zs"
  by (induction zs arbitrary: us) (auto simp: res_bind_Inr)

lemma collect_results_total:
  "collect_results f zs = Inr (map (projr \<circ> f) zs) \<longleftrightarrow> (\<forall>x\<in>set zs. \<exists>y. f x = Inr y)"
  by (induction zs) (auto simp: res_bind_Inr)

lemma collect_btree_set_cong:
  assumes "set xs = set xs'" "res_bind (collect_results f xs) (\<lambda>ys. Inr (btree_set ys)) = Inr zs"
  shows "res_bind (collect_results f xs') (\<lambda>ys. Inr (btree_set ys)) = Inr zs"
proof -
  from assms(2) obtain ys where ys: "collect_results f xs = Inr ys" "zs = btree_set ys"
    by (auto simp: res_bind_Inr)
  note m = collect_results_projr [OF ys(1)]
  from ys(1) m have "\<forall>x\<in>set xs. \<exists>y. f x = Inr y" by (simp add: collect_results_total)
  then have "collect_results f xs' = Inr (map (projr \<circ> f) xs')"
    using assms(1) by (simp add: collect_results_total)
  moreover have "btree_set (map (projr \<circ> f) xs') = zs"
    unfolding ys(2) m using assms(1) by (intro btree_set_cong) simp
  ultimately show ?thesis by simp
qed

lemma normalize_paths_mem:
  assumes "normalize_paths raw = Inr ps" "p \<in> set ps"
  shows "\<exists>x\<in>set raw. normalize_repo_relative_path x = Inr p"
  using assms by (auto simp: normalize_paths_def res_bind_Inr dest!: collect_results_mem split: sum.splits)

lemma normalize_write_targets_mem:
  assumes "normalize_write_targets raw = Inr ts" "t \<in> set ts"
  shows "t \<in> set WRITE_TARGET_ALLOWLIST"
  using assms by (auto simp: normalize_write_targets_def res_bind_Inr dest!: collect_results_mem split: if_splits)

lemma prepare_scope_Inr:
  assumes "prepare_scope env rt stage tid raw_paths raw_targets = Inr sc"
  shows "normalize_paths raw_paths = Inr (sc_paths sc)"
    "normalize_write_targets raw_targets = Inr (sc_write_targets sc)"
    "sc_stage sc = stage"
    "sc_approval_fingerprint sc = se_sha256 env (fingerprint_text (rs_repo_root rt) (rs_branch_name rt)
       (sc_stage sc) (sc_task_id sc) (sc_paths sc) (sc_write_targets sc))"
    "sc_canonical_approval_path sc = rs_state_dir rt @ [''repo-safety'', ''approvals'', rs_repo_slug rt,
       se_user env @ ''-'' @ rs_safe_branch rt,
       take 16 (se_sha256 env (sc_stage sc @ [CHR 0x0A] @ sc_task_id sc)) @ ''.json'']"
  using assms
  by (auto simp: prepare_scope_def res_bind_Inr Let_def compute_fingerprint_for_repo_root_def split: if_splits)

lemma allowlist_lines:
  "t \<in> set WRITE_TARGET_ALLOWLIST \<Longrightarrow> t \<noteq> [] \<and> CHR 0x0A \<notin> set t \<and> t \<noteq> ''--targets--''"
  by (auto simp: WRITE_TARGET_ALLOWLIST_def)

lemma last_separator_unique:
  assumes "xs @ s # ys = xs' @ s # ys'" "s \<notin> set ys" "s \<notin> set ys'"
  shows "xs = xs' \<and> ys = ys'"
proof -
  have t: "takeWhile (\<lambda>x. x \<noteq> s) (rev (as @ s # bs)) = rev bs" if "s \<notin> set bs" for as bs
    using that by (auto intro!: takeWhile_eq_all_conv [THEN iffD2] simp: takeWhile_append2 takeWhile_append)
  have "rev ys = rev ys'" using t [OF assms(2), of xs] t [OF assms(3), of xs'] assms(1) by simp
  with assms(1) show ?thesis by simp
qed

lemma padded_inject:
  "[] \<notin> set as \<Longrightarrow> [] \<notin> set bs \<Longrightarrow>
   (if as = [] then [[]] else as) = (if bs = [] then [[]] else bs) \<Longrightarrow> as = bs"
  by (auto split: if_splits)

text \<open>With paths free of line feeds, the hashed text determines the paths and the write targets.\<close>

lemma fingerprint_text_inject:
  assumes "fingerprint_text root br stage tid ps ts = fingerprint_text root br stage tid ps' ts'"
    and ps: "\<forall>p\<in>set ps. p \<noteq> [] \<and> CHR 0x0A \<notin> set p" "\<forall>p\<in>set ps'. p \<noteq> [] \<and> CHR 0x0A \<notin> set p"
    and ts: "set ts \<subseteq> set WRITE_TARGET_ALLOWLIST" "set ts' \<subseteq> set WRITE_TARGET_ALLOWLIST"
  shows "ps = ps' \<and> ts = ts'"
proof -
  let ?n = "CHR 0x0A"
  let ?pad = "\<lambda>xs. if xs = [] then [[]] else xs"
  let ?tail = "\<lambda>ps ts. join_with [?n] ps @ ?n # ''--targets--'' @ ?n # join_with [?n] ts"
  have lines: "split_on ?n (?tail qs us) = ?pad qs @ ''--targets--'' # ?pad us"
    if "\<forall>q\<in>set qs. ?n \<notin> set q" "\<forall>u\<in>set us. ?n \<notin> set u" for qs us
    using split_on_join [OF that(1)] split_on_join [OF that(2)]
    by (simp add: split_on_append split_on_append_sep)
  have tl: "\<forall>u\<in>set ts. ?n \<notin> set u" "\<forall>u\<in>set ts'. ?n \<notin> set u"
    "''--targets--'' \<notin> set ts" "''--targets--'' \<notin> set ts'" "[] \<notin> set ts" "[] \<notin> set ts'"
    using ts allowlist_lines by blast+
  have "?tail ps ts = ?tail ps' ts'" using assms(1) by (simp add: fingerprint_text_def)
  then have "?pad ps @ ''--targets--'' # ?pad ts = ?pad ps' @ ''--targets--'' # ?pad ts'"
    using lines [of ps ts] lines [of ps' ts'] ps tl by metis
  then have "?pad ps = ?pad ps' \<and> ?pad ts = ?pad ts'"
    by (rule last_separator_unique) (use tl in \<open>simp_all split: if_split\<close>)
  then show ?thesis using padded_inject [of ps ps'] padded_inject [of ts ts'] ps tl by blast
qed

subsection \<open>What is allowed\<close>

lemma read_approval_found:
  assumes "read_approval env rt st sc = Inr (Some r)"
  shows "\<exists>path. as_files st path = Some (Approval r)"
proof -
  have rec: "read_approval_record st p = Inr (Some r) \<Longrightarrow> as_files st p = Some (Approval r)" for p
    by (auto simp: read_approval_record_def split: option.splits approval_file.splits)
  have "scan_legacy_dirs env rt st sc slugs = Inr (Some r) \<Longrightarrow> \<exists>path. as_files st path = Some (Approval r)" for slugs
    by (induction slugs) (auto simp: res_bind_Inr dest: rec split: option.splits if_splits)
  then show ?thesis
    using assms rec by (auto simp: read_approval_def read_legacy_approval_def res_bind_Inr split: option.splits)
qed

lemma check_allowed_write:
  assumes "repo_safety_check env rt st args = Inr out" "sr_outcome out = ''allowed''"
    "ca_intent args = WriteIntent" "rs_protected rt"
  obtains sc r where
    "prepare_scope env rt (ca_stage args) (ca_task_id args) (ca_paths args)
       (map write_target_as_str (ca_write_targets args)) = Inr sc"
    "\<exists>path. as_files st path = Some (Approval r)"
    "record_matches_scope env r (rs_repo_root rt) (rs_branch_name rt) sc"
    "record_fingerprint_matches_scope env r (rs_branch_name rt) sc"
proof -
  from assms obtain sc where sc: "prepare_scope env rt (ca_stage args) (ca_task_id args) (ca_paths args)
       (map write_target_as_str (ca_write_targets args)) = Inr sc"
    by (auto simp: repo_safety_check_def Let_def res_bind_Inr)
  with assms obtain found where f: "read_approval env rt st sc = Inr found"
    by (auto simp: repo_safety_check_def Let_def res_bind_Inr)
  show thesis
  proof (cases found)
    case None
    with assms sc f show ?thesis by (auto simp: repo_safety_check_def safety_result_def)
  next
    case (Some r)
    with assms sc f have "record_matches_scope env r (rs_repo_root rt) (rs_branch_name rt) sc"
      "record_fingerprint_matches_scope env r (rs_branch_name rt) sc"
      by (auto simp: repo_safety_check_def safety_result_def Let_def split: if_splits)
    with sc f Some show ?thesis by (intro that) (auto intro: read_approval_found)
  qed
qed

text \<open>A concrete repository, used to instantiate the theorems.\<close>

definition sample_safety_env :: safety_env where
  "sample_safety_env =
     \<lparr>se_sha256 = (\<lambda>_. ''0123456789abcdef''), se_user = ''dev'', se_canonicalize = (\<lambda>p. p)\<rparr>"

definition sample_safety_runtime :: RepoSafetyRuntime where
  "sample_safety_runtime =
     \<lparr>rs_repo_root = ''/r'', rs_branch_name = ''main'', rs_repo_slug = ''o-r'', rs_safe_branch = ''main'',
      rs_state_dir = [''s''], rs_protected = True, rs_protected_by = ''default''\<rparr>"

definition sample_check :: RepoSafetyCheckArgs where
  "sample_check =
     \<lparr>ca_intent = WriteIntent, ca_stage = ''exec'', ca_task_id = Some ''T1'', ca_paths = [''a''],
      ca_write_targets = [GitCommit]\<rparr>"

definition sample_approve :: RepoSafetyApproveArgs where
  "sample_approve =
     \<lparr>aa_stage = ''exec'', aa_task_id = Some ''T1'', aa_reason = ''ok'', aa_paths = [''a''],
      aa_write_targets = [GitCommit]\<rparr>"

definition sample_scope :: Scope where
  "sample_scope =
     \<lparr>sc_stage = ''exec'', sc_task_id = ''T1'', sc_paths = [''a''], sc_write_targets = [''git-commit''],
      sc_approval_fingerprint = ''0123456789abcdef'',
      sc_canonical_approval_path =
        [''s'', ''repo-safety'', ''approvals'', ''o-r'', ''dev-main'', ''0123456789abcdef.json'']\<rparr>"

lemma sample_paths: "normalize_paths [''a''] = Inr [''a'']"
proof -
  have "normalize_repo_relative_path ''a'' = Inr ''a''" by code_simp
  then show ?thesis by (simp add: normalize_paths_def btree_set_def)
qed

lemma sample_targets: "normalize_write_targets [''git-commit''] = Inr [''git-commit'']"
  by (simp add: normalize_write_targets_def btree_set_def WRITE_TARGET_ALLOWLIST_def)

lemma sample_prepare:
  "prepare_scope sample_safety_env sample_safety_runtime ''exec'' (Some ''T1'') [''a'']
     (map write_target_as_str [GitCommit]) = Inr sample_scope"
proof -
  have "normalize_identifier_token ''T1'' = ''T1''" by code_simp
  then show ?thesis
    by (simp add: prepare_scope_def sample_paths sample_targets derive_task_id_def
        compute_fingerprint_for_repo_root_def sample_safety_env_def sample_safety_runtime_def sample_scope_def)
qed

lemma sample_reason: "normalize_reason ''ok'' = Inr ''ok''"
proof -
  have "normalize_whitespace ''ok'' = ''ok''" by code_simp
  then show ?thesis by (simp add: normalize_reason_def MAX_REASON_LENGTH_def)
qed

subsection \<open>Properties\<close>

text \<open>C23: a write on a protected branch is allowed only by a stored approval for the same branch, stage
  and task, recorded for this repository, whose fingerprint is the digest of the paths and write
  targets being checked.\<close>

theorem protected_write_needs_approval:
  assumes "repo_safety_check env rt st args = Inr out" and "sr_outcome out = ''allowed''"
    and "ca_intent args = WriteIntent" and "rs_protected rt"
  shows "\<exists>sc r path.
    prepare_scope env rt (ca_stage args) (ca_task_id args) (ca_paths args)
      (map write_target_as_str (ca_write_targets args)) = Inr sc \<and>
    as_files st path = Some (Approval r) \<and>
    ar_branch r = rs_branch_name rt \<and> ar_stage r = ca_stage args \<and> ar_task_id r = sc_task_id sc \<and>
    stored_repo_root_matches_current env (ar_repo_root r) (rs_repo_root rt) \<and>
    (\<exists>root\<in>{rs_repo_root rt, ar_repo_root r}. ar_approval_fingerprint r =
       se_sha256 env (fingerprint_text root (rs_branch_name rt) (ca_stage args) (sc_task_id sc)
         (sc_paths sc) (sc_write_targets sc)))"
proof -
  obtain sc r where *:
    "prepare_scope env rt (ca_stage args) (ca_task_id args) (ca_paths args)
       (map write_target_as_str (ca_write_targets args)) = Inr sc"
    "\<exists>path. as_files st path = Some (Approval r)"
    "record_matches_scope env r (rs_repo_root rt) (rs_branch_name rt) sc"
    "record_fingerprint_matches_scope env r (rs_branch_name rt) sc"
    by (rule check_allowed_write [OF assms])
  note s = prepare_scope_Inr [OF *(1)]
  from * s show ?thesis
    by (auto simp: record_matches_scope_def record_fingerprint_matches_scope_def
        compute_fingerprint_for_repo_root_def)
qed

definition sample_approval :: ApprovalRecord where
  "sample_approval =
     \<lparr>ar_repo_root = ''/r'', ar_branch = ''main'', ar_stage = ''exec'', ar_task_id = ''T1'',
      ar_paths = [''a''], ar_write_targets = [''git-commit''],
      ar_approval_fingerprint = ''0123456789abcdef'', ar_approval_reason = ''ok'',
      ar_protected_by = ''default'', ar_approved_at = ''1970-01-01T00:00:00Z''\<rparr>"

definition sample_store :: approval_store where
  "sample_store =
     \<lparr>as_files = [sc_canonical_approval_path sample_scope \<mapsto> Approval sample_approval],
      as_slug_dirs = None\<rparr>"

lemma sample_matches:
  "record_matches_scope sample_safety_env sample_approval ''/r'' ''main'' sample_scope"
  "record_fingerprint_matches_scope sample_safety_env sample_approval ''main'' sample_scope"
  by (simp_all add: record_matches_scope_def record_fingerprint_matches_scope_def
      stored_repo_root_matches_current_def sample_approval_def sample_scope_def sample_safety_env_def)

lemma sample_check_allowed:
  "repo_safety_check sample_safety_env sample_safety_runtime sample_store sample_check =
   Inr (safety_result sample_safety_runtime ''allowed'' ''write'' sample_scope [] ''approval_matched'' [])"
proof -
  have "read_approval sample_safety_env sample_safety_runtime sample_store sample_scope = Inr (Some sample_approval)"
    by (simp add: read_approval_def read_approval_record_def sample_store_def)
  then show ?thesis
    using sample_prepare sample_matches
    by (simp add: repo_safety_check_def sample_check_def sample_safety_runtime_def)
qed

theorem protected_write_needs_approval_witness:
  "\<exists>r path. as_files sample_store path = Some (Approval r) \<and> ar_branch r = ''main''"
proof -
  have "sr_outcome (safety_result sample_safety_runtime ''allowed'' ''write'' sample_scope []
      ''approval_matched'' []) = ''allowed''" by (simp add: safety_result_def)
  from protected_write_needs_approval [OF sample_check_allowed this]
  show ?thesis by (auto simp: sample_check_def sample_safety_runtime_def)
qed

text \<open>C24: an approval takes effect: after it has been recorded, a check of the same stage, task, paths
  and targets is allowed, for reading and for writing, provided the repository root is stored
  in canonical form.\<close>

theorem approve_then_check:
  assumes "repo_safety_approve env rt None a st = (Inr res, st')"
    and "rs_repo_root rt \<noteq> []" and "se_canonicalize env (rs_repo_root rt) = rs_repo_root rt"
  shows "\<exists>out. repo_safety_check env rt st'
      \<lparr>ca_intent = i, ca_stage = aa_stage a, ca_task_id = aa_task_id a, ca_paths = aa_paths a,
       ca_write_targets = aa_write_targets a\<rparr> = Inr out \<and> sr_outcome out = ''allowed''"
proof -
  from assms(1) obtain sc reason where
    sc: "prepare_scope env rt (aa_stage a) (aa_task_id a) (aa_paths a)
       (map write_target_as_str (aa_write_targets a)) = Inr sc"
    and st': "st' = st\<lparr>as_files := (as_files st)(sc_canonical_approval_path sc \<mapsto> Approval
       \<lparr>ar_repo_root = rs_repo_root rt, ar_branch = rs_branch_name rt, ar_stage = sc_stage sc,
        ar_task_id = sc_task_id sc, ar_paths = sc_paths sc, ar_write_targets = sc_write_targets sc,
        ar_approval_fingerprint = sc_approval_fingerprint sc, ar_approval_reason = reason,
        ar_protected_by = rs_protected_by rt, ar_approved_at = ''1970-01-01T00:00:00Z''\<rparr>)\<rparr>"
    by (auto simp: repo_safety_approve_def write_approval_record_def Let_def split: sum.splits)
  show ?thesis
    by (cases i)
       (use assms(2,3) in \<open>simp_all add: repo_safety_check_def sc st' read_approval_def
          read_approval_record_def record_matches_scope_def record_fingerprint_matches_scope_def
          stored_repo_root_matches_current_def safety_result_def Let_def\<close>)
qed

theorem approve_then_check_witness:
  "\<exists>st' out. repo_safety_check sample_safety_env sample_safety_runtime st' sample_check = Inr out \<and>
     sr_outcome out = ''allowed''"
proof -
  let ?st = "\<lparr>as_files = Map.empty, as_slug_dirs = None\<rparr>"
  obtain res st' where "repo_safety_approve sample_safety_env sample_safety_runtime None sample_approve ?st = (Inr res, st')"
    using sample_prepare sample_reason
    by (simp add: repo_safety_approve_def write_approval_record_def sample_approve_def)
  from approve_then_check [OF this, of WriteIntent] show ?thesis
    by (auto simp: sample_safety_runtime_def sample_safety_env_def sample_approve_def sample_check_def)
qed

text \<open>An approval is confined to what was approved.  If the only approval ever recorded is the one
  of this scope, then a later write that is allowed on the protected branch has exactly the approved
  stage, task, paths and write targets, provided no path has a line feed and the digest does
  not collide on the two scopes.\<close>

theorem approval_is_confined:
  assumes "prepare_scope env rt (aa_stage a) (aa_task_id a) (aa_paths a)
      (map write_target_as_str (aa_write_targets a)) = Inr sa"
    and "repo_safety_approve env rt None a st = (Inr res, st')" and "as_files st = Map.empty"
    and "repo_safety_check env rt st' c = Inr out" and "sr_outcome out = ''allowed''"
    and "ca_intent c = WriteIntent" and "rs_protected rt"
    and "prepare_scope env rt (ca_stage c) (ca_task_id c) (ca_paths c)
      (map write_target_as_str (ca_write_targets c)) = Inr sc"
    and "\<forall>p\<in>set (aa_paths a) \<union> set (ca_paths c). CHR 0x0A \<notin> set p"
    and "inj_on (se_sha256 env)
      ((\<lambda>s. fingerprint_text (rs_repo_root rt) (rs_branch_name rt) (sc_stage s) (sc_task_id s)
          (sc_paths s) (sc_write_targets s)) ` {sa, sc})"
  shows "sc_stage sc = sc_stage sa \<and> sc_task_id sc = sc_task_id sa \<and> sc_paths sc = sc_paths sa \<and>
    sc_write_targets sc = sc_write_targets sa"
proof -
  obtain sc' r where *:
    "prepare_scope env rt (ca_stage c) (ca_task_id c) (ca_paths c)
       (map write_target_as_str (ca_write_targets c)) = Inr sc'"
    "\<exists>path. as_files st' path = Some (Approval r)"
    "record_matches_scope env r (rs_repo_root rt) (rs_branch_name rt) sc'"
    "record_fingerprint_matches_scope env r (rs_branch_name rt) sc'"
    by (rule check_allowed_write [OF assms(4-7)])
  have [simp]: "sc' = sc" using *(1) assms(8) by simp
  have r: "ar_repo_root r = rs_repo_root rt" "ar_stage r = sc_stage sa" "ar_task_id r = sc_task_id sa"
    "ar_approval_fingerprint r = sc_approval_fingerprint sa"
    using *(2) assms(1-3)
    by (auto simp: repo_safety_approve_def write_approval_record_def Let_def split: sum.splits if_splits)
  note sa = prepare_scope_Inr [OF assms(1)] and sc = prepare_scope_Inr [OF assms(8)]
  have st: "sc_stage sc = sc_stage sa" "sc_task_id sc = sc_task_id sa"
    using *(3) r by (simp_all add: record_matches_scope_def)
  let ?t = "\<lambda>s. fingerprint_text (rs_repo_root rt) (rs_branch_name rt) (sc_stage s) (sc_task_id s)
      (sc_paths s) (sc_write_targets s)"
  have "se_sha256 env (?t sa) = se_sha256 env (?t sc)"
    using *(4) r sa(4) sc(4) by (auto simp: record_fingerprint_matches_scope_def compute_fingerprint_for_repo_root_def)
  then have "?t sa = ?t sc" by (rule inj_onD [OF assms(10)]) simp_all
  then have t: "fingerprint_text (rs_repo_root rt) (rs_branch_name rt) (sc_stage sc) (sc_task_id sc)
      (sc_paths sc) (sc_write_targets sc) =
    fingerprint_text (rs_repo_root rt) (rs_branch_name rt) (sc_stage sc) (sc_task_id sc)
      (sc_paths sa) (sc_write_targets sa)" by (simp only: st)
  have lf: "p \<noteq> [] \<and> CHR 0x0A \<notin> set p" if x: "x \<in> set (aa_paths a) \<union> set (ca_paths c)"
    "normalize_repo_relative_path x = Inr p" for x p
    using normalized_path_components(3) [OF x(2)] normalized_path_chars [OF x(2)] assms(9) x(1) by auto
  have "sc_paths sc = sc_paths sa \<and> sc_write_targets sc = sc_write_targets sa"
  proof (rule fingerprint_text_inject [OF t])
    show "\<forall>p\<in>set (sc_paths sc). p \<noteq> [] \<and> CHR 0x0A \<notin> set p"
      using normalize_paths_mem [OF sc(1)] lf by blast
    show "\<forall>p\<in>set (sc_paths sa). p \<noteq> [] \<and> CHR 0x0A \<notin> set p"
      using normalize_paths_mem [OF sa(1)] lf by blast
  qed (use normalize_write_targets_mem [OF sc(2)] normalize_write_targets_mem [OF sa(2)] in blast)+
  with st show ?thesis by blast
qed

theorem approval_is_confined_witness:
  "sc_paths sample_scope = sc_paths sample_scope \<and>
   (\<exists>st' out. repo_safety_check sample_safety_env sample_safety_runtime st' sample_check = Inr out \<and>
      sr_outcome out = ''allowed'')"
proof -
  let ?st = "\<lparr>as_files = Map.empty, as_slug_dirs = None\<rparr>"
  let ?st' = "\<lparr>as_files = [sc_canonical_approval_path sample_scope \<mapsto> Approval sample_approval], as_slug_dirs = None\<rparr>"
  let ?out = "safety_result sample_safety_runtime ''allowed'' ''write'' sample_scope [] ''approval_matched'' []"
  have a: "repo_safety_approve sample_safety_env sample_safety_runtime None sample_approve ?st =
     (Inr (safety_result sample_safety_runtime ''allowed'' ''write'' sample_scope [] ''approval_recorded'' []), ?st')"
    using sample_prepare sample_reason
    by (simp add: repo_safety_approve_def write_approval_record_def sample_approve_def sample_approval_def)
       (simp add: sample_scope_def sample_safety_runtime_def)
  have c: "repo_safety_check sample_safety_env sample_safety_runtime ?st' sample_check = Inr ?out"
    using sample_check_allowed by (simp add: sample_store_def)
  have "sc_stage sample_scope = sc_stage sample_scope \<and> sc_task_id sample_scope = sc_task_id sample_scope \<and>
    sc_paths sample_scope = sc_paths sample_scope \<and> sc_write_targets sample_scope = sc_write_targets sample_scope"
    by (rule approval_is_confined [OF _ a _ c])
       (use sample_prepare in \<open>simp_all add: sample_approve_def sample_check_def safety_result_def
          sample_safety_runtime_def\<close>)
  moreover have "sr_outcome ?out = ''allowed''" by (simp add: safety_result_def)
  ultimately show ?thesis using c by blast
qed

text \<open>The fingerprint does not separate path lists when a path has a line feed: the single path
  \<^verbatim>\<open>a<LF>b\<close> and the two paths \<^verbatim>\<open>a\<close> and \<^verbatim>\<open>b\<close> are both accepted and get the same
  fingerprint.\<close>

theorem line_feed_paths_share_fingerprint:
  "normalize_repo_relative_path (''a'' @ [CHR 0x0A] @ ''b'') = Inr (''a'' @ [CHR 0x0A] @ ''b'') \<and>
   compute_fingerprint_for_repo_root env root br stage tid [''a'' @ [CHR 0x0A] @ ''b''] ts =
   compute_fingerprint_for_repo_root env root br stage tid [''a'', ''b''] ts"
proof
  show "normalize_repo_relative_path (''a'' @ [CHR 0x0A] @ ''b'') = Inr (''a'' @ [CHR 0x0A] @ ''b'')"
    by code_simp
qed (simp add: compute_fingerprint_for_repo_root_def fingerprint_text_def)

text \<open>A scope does not depend on the order or repetition of the paths and targets, as long as all
  of them are acceptable.\<close>

theorem scope_ignores_order:
  assumes "set ps = set ps'" and "set ts = set ts'"
    and "prepare_scope env rt stage tid ps ts = Inr sc"
  shows "prepare_scope env rt stage tid ps' ts' = Inr sc"
proof -
  note s = prepare_scope_Inr [OF assms(3)]
  have "normalize_paths ps' = Inr (sc_paths sc)"
    using s(1) unfolding normalize_paths_def by (rule collect_btree_set_cong [OF assms(1)])
  moreover have "normalize_write_targets ts' = Inr (sc_write_targets sc)"
    using s(2) unfolding normalize_write_targets_def by (rule collect_btree_set_cong [OF assms(2)])
  ultimately have "prepare_scope env rt stage tid ps' ts' = prepare_scope env rt stage tid ps ts"
    unfolding prepare_scope_def using s(1,2) by (simp only:)
  with assms(3) show ?thesis by simp
qed

theorem scope_ignores_order_witness:
  "prepare_scope sample_safety_env sample_safety_runtime ''exec'' (Some ''T1'') [''a'', ''a'']
     (map write_target_as_str [GitCommit]) = Inr sample_scope"
  by (rule scope_ignores_order [OF _ refl sample_prepare]) simp

text \<open>Branch protection.  The four default branches are protected whatever the instructions say;
  any other branch is protected exactly when some instruction line lists it.\<close>

theorem branch_protection_sources:
  "(branch \<in> {''main'', ''master'', ''dev'', ''develop''} \<longrightarrow> branch_protection files branch = Inr (True, ''default'')) \<and>
   (branch \<notin> {''main'', ''master'', ''dev'', ''develop''} \<longrightarrow>
      files = Inr fs \<longrightarrow> parse_protected_branches fs = Inr bs \<longrightarrow>
      branch_protection files branch = Inr (if branch \<in> set bs then (True, ''instructions'') else (False, ''default'')))"
  unfolding branch_protection_def DEFAULT_PROTECTED_BRANCHES_def list.set
  by (intro conjI impI) (simp_all only: if_True if_False res_bind_simps list_ex_iff, auto)

theorem branch_protection_sources_witness:
  "branch_protection (Inl (parse_failure ''x'')) ''main'' = Inr (True, ''default'') \<and>
   branch_protection (Inr []) ''topic'' = Inr (False, ''default'')"
proof
  show "branch_protection (Inl (parse_failure ''x'')) ''main'' = Inr (True, ''default'')"
    using branch_protection_sources [of "''main''" "Inl (parse_failure ''x'')"] by blast
  show "branch_protection (Inr []) ''topic'' = Inr (False, ''default'')"
    using branch_protection_sources [of "''topic''" "Inr []" "[]" "[]"] by simp
qed

end
