(* ===== verification/Event_Migration.thy ===== *)
theory Event_Migration
  imports Event_Store "HOL-Library.Product_Lexorder" "HOL-Library.Option_ord"
begin

text \<open>
  Migration of a legacy state file into the event log
  (\<^verbatim>\<open>migration_replay_events_from_legacy_state\<close>, the parity and coverage checks, and
  \<^verbatim>\<open>ensure_event_log_migrated_from_legacy_state_path\<close> of
  \<^verbatim>\<open>src/src/execution/event_log.rs\<close>).

  The code numbers the pushed events with an ordinal and sorts by sequence, then ordinal; here the
  pushed events are a list of pairs of sequence and event, and the sort by sequence is stable, which
  is the same order.

  The theorems about these definitions are in \<open>Migration_Correct\<close>.
\<close>

subsection \<open>Facts taken from the legacy state\<close>

definition migration_step_state_fields :: "json \<Rightarrow> fact_builder" where
  "migration_step_state_fields state = collect_authoritative_fields state STEP_EVENT_FIELDS"

definition migration_run_metadata_state_fields :: "json \<Rightarrow> fact_builder" where
  "migration_run_metadata_state_fields state = collect_authoritative_fields state RUN_METADATA_FIELDS"

definition migration_handoff_state_fields :: "json \<Rightarrow> fact_builder" where
  "migration_handoff_state_fields state = collect_authoritative_fields state HANDOFF_FIELDS"

definition migration_strategy_state_fields :: "json \<Rightarrow> fact_builder" where
  "migration_strategy_state_fields state = collect_authoritative_fields state STRATEGY_EVENT_FIELDS"

definition migration_branch_closure_current_fields :: "json \<Rightarrow> fact_builder" where
  "migration_branch_closure_current_fields state =
     collect_authoritative_fields state
     [''current_branch_closure_id'', ''current_branch_closure_reviewed_state_id'',
     ''current_branch_closure_contract_identity'', ''harness_phase'']"

definition migration_release_readiness_current_fields :: "json \<Rightarrow> fact_builder" where
  "migration_release_readiness_current_fields state =
     collect_authoritative_fields state
     [''current_release_readiness_record_id'', ''current_release_readiness_result'',
     ''current_release_readiness_summary_hash'', ''release_docs_state'',
     ''last_release_docs_artifact_fingerprint'', ''harness_phase'']"

definition migration_final_review_current_fields :: "json \<Rightarrow> fact_builder" where
  "migration_final_review_current_fields state =
     collect_authoritative_fields state
     [''current_final_review_branch_closure_id'', ''current_final_review_dispatch_id'',
     ''current_final_review_reviewer_source'', ''current_final_review_reviewer_id'',
     ''current_final_review_result'', ''current_final_review_summary_hash'',
     ''current_final_review_record_id'', ''final_review_state'',
     ''last_final_review_artifact_fingerprint'', ''harness_phase'']"

definition migration_qa_current_fields :: "json \<Rightarrow> fact_builder" where
  "migration_qa_current_fields state =
     collect_authoritative_fields state
     [''current_qa_branch_closure_id'', ''current_qa_result'', ''current_qa_summary_hash'',
     ''current_qa_record_id'', ''browser_qa_state'',
     ''last_browser_qa_artifact_fingerprint'', ''harness_phase'']"

definition migration_dispatch_state_fields :: "json \<Rightarrow> fact_builder" where
  "migration_dispatch_state_fields state =
     collect_authoritative_fields state
     [''current_task_review_dispatch_id'', ''current_final_review_dispatch_id'',
     ''task_closure_negative_result_records'', ''task_closure_negative_result_history'',
     ''strategy_review_dispatch_lineage'', ''strategy_review_dispatch_lineage_history'',
     ''final_review_dispatch_lineage'', ''final_review_dispatch_lineage_history'',
     ''harness_phase'']"

definition migration_repair_state_fields :: "json \<Rightarrow> fact_builder" where
  "migration_repair_state_fields state =
     collect_authoritative_fields state
     [''review_state_repair_follow_up_record'', ''review_state_repair_follow_up'',
     ''review_state_repair_follow_up_task'', ''review_state_repair_follow_up_step'',
     ''review_state_repair_follow_up_closure_record_id'',
     ''explicit_reopen_repair_targets'', ''harness_phase'', ''current_open_step_state'',
     ''current_task_closure_records'', ''task_closure_record_history'',
     ''task_closure_negative_result_records'', ''task_closure_negative_result_history'',
     ''superseded_task_closure_ids'', ''current_branch_closure_id'',
     ''current_branch_closure_reviewed_state_id'',
     ''current_branch_closure_contract_identity'', ''branch_closure_records'',
     ''superseded_branch_closure_ids'', ''release_readiness_record_history'',
     ''current_release_readiness_record_id'', ''current_release_readiness_result'',
     ''current_release_readiness_summary_hash'', ''release_docs_state'',
     ''last_release_docs_artifact_fingerprint'', ''final_review_record_history'',
     ''current_final_review_branch_closure_id'', ''current_final_review_dispatch_id'',
     ''current_final_review_reviewer_source'', ''current_final_review_reviewer_id'',
     ''current_final_review_result'', ''current_final_review_summary_hash'',
     ''current_final_review_record_id'', ''final_review_state'',
     ''last_final_review_artifact_fingerprint'', ''browser_qa_record_history'',
     ''current_qa_branch_closure_id'', ''current_qa_result'', ''current_qa_summary_hash'',
     ''current_qa_record_id'', ''browser_qa_state'',
     ''last_browser_qa_artifact_fingerprint'']"

definition single_record_delta :: "string \<Rightarrow> json \<Rightarrow> json" where
  "single_record_delta entry_key entry = JObject (obj_insert entry_key entry [])"

definition set_field :: "string \<Rightarrow> json \<Rightarrow> fact_builder \<Rightarrow> fact_builder" where
  "set_field field v b = snd (set_field_value b field v)"

definition copy_present_fields :: "json \<Rightarrow> fact_builder \<Rightarrow> string list \<Rightarrow> fact_builder" where
  "copy_present_fields state b flds =
     fold (\<lambda>field b. case json_get state field of None \<Rightarrow> b | Some v \<Rightarrow> set_field field v b) flds b"

definition migration_record_entry_fields :: "string \<Rightarrow> string \<Rightarrow> json \<Rightarrow> fact_builder" where
  "migration_record_entry_fields field entry_key entry =
     set_field field (single_record_delta entry_key entry) Map.empty"

text \<open>\<^verbatim>\<open>entry_id.zip(json_string(state, field)).is_some_and(|(a, b)| a == b)\<close>\<close>

definition entry_is_current :: "json \<Rightarrow> string \<Rightarrow> string option \<Rightarrow> bool" where
  "entry_is_current state field entry_id \<longleftrightarrow>
     entry_id \<noteq> None \<and> json_string state field = entry_id"

definition migration_branch_closure_entry_fields :: "json \<Rightarrow> string \<Rightarrow> json \<Rightarrow> string option \<Rightarrow> fact_builder" where
  "migration_branch_closure_entry_fields state entry_key entry rid =
     (let b = migration_record_entry_fields ''branch_closure_records'' entry_key entry in
      if entry_is_current state ''current_branch_closure_id'' rid
      then copy_present_fields state b
     [''current_branch_closure_id'', ''current_branch_closure_reviewed_state_id'',
     ''current_branch_closure_contract_identity'']
      else b)"

definition migration_release_readiness_entry_fields :: "json \<Rightarrow> string \<Rightarrow> json \<Rightarrow> string option \<Rightarrow> fact_builder" where
  "migration_release_readiness_entry_fields state entry_key entry rid =
     (let b = migration_record_entry_fields ''release_readiness_record_history'' entry_key entry in
      if entry_is_current state ''current_release_readiness_record_id'' rid
      then copy_present_fields state b
     [''current_release_readiness_record_id'', ''current_release_readiness_result'',
     ''current_release_readiness_summary_hash'', ''release_docs_state'',
     ''last_release_docs_artifact_fingerprint'']
      else b)"

definition migration_final_review_entry_fields :: "json \<Rightarrow> string \<Rightarrow> json \<Rightarrow> string option \<Rightarrow> fact_builder" where
  "migration_final_review_entry_fields state entry_key entry rid =
     (let b = migration_record_entry_fields ''final_review_record_history'' entry_key entry in
      if entry_is_current state ''current_final_review_record_id'' rid
      then copy_present_fields state b
     [''current_final_review_branch_closure_id'', ''current_final_review_dispatch_id'',
     ''current_final_review_reviewer_source'', ''current_final_review_reviewer_id'',
     ''current_final_review_result'', ''current_final_review_summary_hash'',
     ''current_final_review_record_id'', ''final_review_state'',
     ''last_final_review_artifact_fingerprint'']
      else b)"

definition migration_qa_entry_fields :: "json \<Rightarrow> string \<Rightarrow> json \<Rightarrow> string option \<Rightarrow> fact_builder" where
  "migration_qa_entry_fields state entry_key entry rid =
     (let b = migration_record_entry_fields ''browser_qa_record_history'' entry_key entry in
      if entry_is_current state ''current_qa_record_id'' rid
      then copy_present_fields state b
     [''current_qa_branch_closure_id'', ''current_qa_result'', ''current_qa_summary_hash'',
     ''current_qa_record_id'', ''browser_qa_state'',
     ''last_browser_qa_artifact_fingerprint'']
      else b)"

subsection \<open>Completed steps of the legacy state\<close>

definition legacy_completed_step_from_key :: "string \<Rightarrow> (nat \<times> nat) option" where
  "legacy_completed_step_from_key key =
     (case split_once (CHR ''.'') key of
        None \<Rightarrow> None
      | Some (task, step) \<Rightarrow>
          (case parse_u32 (trim task) of
             None \<Rightarrow> None
           | Some t \<Rightarrow> map_option (Pair t) (parse_u32 (trim step))))"

definition legacy_completed_step_from_entry :: "string \<Rightarrow> json \<Rightarrow> (nat \<times> nat) option" where
  "legacy_completed_step_from_entry key entry =
     opt_or
       (case json_u32 entry ''task'' of
          None \<Rightarrow> None
        | Some t \<Rightarrow> map_option (Pair t) (json_u32 entry ''step''))
       (legacy_completed_step_from_key key)"

definition legacy_completed_step_events :: "json \<Rightarrow> (nat \<times> nat) list" where
  "legacy_completed_step_events state =
     (case Option.bind (json_get state ''event_completed_steps'') as_object of
        None \<Rightarrow> []
      | Some completed_steps \<Rightarrow>
          sort (remdups (List.map_filter (\<lambda>(key, entry). legacy_completed_step_from_entry key entry)
            completed_steps)))"

subsection \<open>Replayed events\<close>

type_synonym ordered_events = "(nat \<times> ExecutionEvent) list"

definition record_id_from_migration_entry :: "string \<Rightarrow> json \<Rightarrow> string option" where
  "record_id_from_migration_entry entry_key entry =
     opt_or
       (trim_nonempty
         (Option.bind
           (opt_or (json_get entry ''record_id'')
             (opt_or (json_get entry ''closure_record_id'') (json_get entry ''branch_closure_id'')))
           as_str))
       (trim_nonempty (Some entry_key))"

definition entry_record_sequence :: "json \<Rightarrow> nat" where
  "entry_record_sequence entry =
     (case Option.bind (json_get entry ''record_sequence'') as_u64 of None \<Rightarrow> 0 | Some n \<Rightarrow> n)"

definition entry_record_status :: "string option \<Rightarrow> json \<Rightarrow> string option" where
  "entry_record_status default_record_status entry =
     opt_or (trim_nonempty (Option.bind (json_get entry ''record_status'') as_str)) default_record_status"

definition promotes_historical_current :: "string \<Rightarrow> string \<Rightarrow> string option \<Rightarrow> bool" where
  "promotes_historical_current field record_family record_status \<longleftrightarrow>
     field = ''task_closure_record_history'' \<and> record_family = ''task_closure_record'' \<and>
     record_status = Some ''current''"

definition collect_history_replay_events ::
  "json \<Rightarrow> string \<Rightarrow> string \<Rightarrow> string option \<Rightarrow> (string \<Rightarrow> json \<Rightarrow> ExecutionEvent) \<Rightarrow> ordered_events" where
  "collect_history_replay_events state field record_family default_record_status make_event =
     concat (map (\<lambda>(entry_key, entry).
       (let seq = entry_record_sequence entry;
            status = entry_record_status default_record_status entry
        in (seq, make_event entry_key entry) #
           (if promotes_historical_current field record_family status then []
            else [(seq, RecordStatusTransition record_family
                     (record_id_from_migration_entry entry_key entry) status (Some seq))])))
       (entries_at state field))"

definition entry_str :: "json \<Rightarrow> string \<Rightarrow> string option" where
  "entry_str entry key = trim_nonempty (Option.bind (json_get entry key) as_str)"

definition task_closure_event :: "string \<Rightarrow> string \<Rightarrow> json \<Rightarrow> ExecutionEvent" where
  "task_closure_event field entry_key entry =
     TaskClosureRecorded (json_u32 entry ''task'')
       (trim_nonempty
         (Option.bind (opt_or (json_get entry ''closure_record_id'') (json_get entry ''record_id'')) as_str))
       (facts_from_builder TaskClosureEventFacts_fields
         (migration_record_entry_fields field entry_key entry))"

definition branch_closure_event :: "json \<Rightarrow> string \<Rightarrow> json \<Rightarrow> ExecutionEvent" where
  "branch_closure_event state entry_key entry =
     (let rid = entry_str entry ''branch_closure_id'' in
      BranchClosureRecorded rid
        (facts_from_builder BranchClosureEventFacts_fields
          (migration_branch_closure_entry_fields state entry_key entry rid)))"

definition release_readiness_event :: "json \<Rightarrow> string \<Rightarrow> json \<Rightarrow> ExecutionEvent" where
  "release_readiness_event state entry_key entry =
     (let rid = entry_str entry ''record_id'' in
      ReleaseReadinessRecorded rid
        (facts_from_builder ReleaseReadinessEventFacts_fields
          (migration_release_readiness_entry_fields state entry_key entry rid)))"

definition final_review_event :: "json \<Rightarrow> string \<Rightarrow> json \<Rightarrow> ExecutionEvent" where
  "final_review_event state entry_key entry =
     (let rid = entry_str entry ''record_id'' in
      FinalReviewRecorded rid (entry_str entry ''dispatch_id'')
        (facts_from_builder FinalReviewEventFacts_fields
          (migration_final_review_entry_fields state entry_key entry rid)))"

definition qa_event :: "json \<Rightarrow> string \<Rightarrow> json \<Rightarrow> ExecutionEvent" where
  "qa_event state entry_key entry =
     (let rid = entry_str entry ''record_id'' in
      QaRecorded rid
        (facts_from_builder QaEventFacts_fields (migration_qa_entry_fields state entry_key entry rid)))"

definition record_history_empty :: "json \<Rightarrow> string \<Rightarrow> bool" where
  "record_history_empty state field \<longleftrightarrow>
     is_none_or (Option.bind (json_get state field) as_object) (\<lambda>es. es = [])"

definition legacy_current_scalar_fields_present :: "json \<Rightarrow> string list \<Rightarrow> bool" where
  "legacy_current_scalar_fields_present state flds \<longleftrightarrow>
     list_ex (\<lambda>field. is_some_and (json_get state field) (\<lambda>v. \<not> is_null v)) flds"

definition scalar_current_not_replayed_from_history :: "json \<Rightarrow> string \<Rightarrow> string \<Rightarrow> bool" where
  "scalar_current_not_replayed_from_history state history_field current_id_field =
     (case json_string state current_id_field of
        None \<Rightarrow> True
      | Some current_id \<Rightarrow>
          (case Option.bind (json_get state history_field) as_object of
             None \<Rightarrow> True
           | Some history \<Rightarrow>
               \<not> list_ex (\<lambda>(entry_key, entry).
                   record_entry_matches_id entry_key entry current_id \<and>
                   is_some_and (map_option trim (Option.bind (json_get entry ''record_status'') as_str))
                     (\<lambda>status. status = ''current'')) history))"

text \<open>The bootstrap and the open step.\<close>

definition replay_bootstrap_and_open_step :: "json \<Rightarrow> ordered_events" where
  "replay_bootstrap_and_open_step state =
     (let open_step_task = json_u32_from_path state [''current_open_step_state'', ''task''];
          open_step_step = json_u32_from_path state [''current_open_step_state'', ''step''];
          note_state = json_string_from_path state [''current_open_step_state'', ''note_state''];
          fs = facts_from_builder StepEventFacts_fields (migration_step_state_fields state)
      in (0, PreflightBootstrapRecorded
           (facts_from_builder RunMetadataEventFacts_fields (migration_run_metadata_state_fields state))) #
         (if open_step_task \<noteq> None \<or> open_step_step \<noteq> None then
            [(0, if note_state = Some ''Active'' then Begin open_step_task open_step_step fs
                 else if note_state = Some ''Completed'' then Complete open_step_task open_step_step fs
                 else if note_state = Some ''Interrupted'' then Reopen open_step_task open_step_step fs
                 else Note open_step_task open_step_step note_state fs)]
          else []))"

definition replay_completed_steps :: "json \<Rightarrow> ordered_events" where
  "replay_completed_steps state =
     (let open_step_task = json_u32_from_path state [''current_open_step_state'', ''task''];
          open_step_step = json_u32_from_path state [''current_open_step_state'', ''step''];
          note_state = json_string_from_path state [''current_open_step_state'', ''note_state'']
      in map (\<lambda>(task, step). (0, Complete (Some task) (Some step) []))
           (filter (\<lambda>(task, step). \<not> (Some task = open_step_task \<and> Some step = open_step_step \<and>
                note_state = Some ''Completed'')) (legacy_completed_step_events state)))"

definition replay_closures :: "json \<Rightarrow> ordered_events" where
  "replay_closures state =
     collect_history_replay_events state ''current_task_closure_records'' ''task_closure_record''
       (Some ''current'') (task_closure_event ''current_task_closure_records'') @
     collect_history_replay_events state ''task_closure_record_history'' ''task_closure_record''
       None (task_closure_event ''task_closure_record_history'') @
     collect_history_replay_events state ''branch_closure_records'' ''branch_closure_record''
       None (branch_closure_event state) @
     (if record_history_empty state ''branch_closure_records'' \<and>
         json_string state ''current_branch_closure_id'' \<noteq> None
      then [(0, BranchClosureRecorded (json_string state ''current_branch_closure_id'')
              (facts_from_builder BranchClosureEventFacts_fields
                (migration_branch_closure_current_fields state)))]
      else [])"

definition replay_release_readiness :: "json \<Rightarrow> ordered_events" where
  "replay_release_readiness state =
     collect_history_replay_events state ''release_readiness_record_history''
       ''release_readiness_record'' None (release_readiness_event state) @
     (if legacy_current_scalar_fields_present state
           [''current_release_readiness_record_id'', ''current_release_readiness_result'',
            ''current_release_readiness_summary_hash''] \<and>
         scalar_current_not_replayed_from_history state ''release_readiness_record_history''
           ''current_release_readiness_record_id''
      then [(0, ReleaseReadinessRecorded (json_string state ''current_release_readiness_record_id'')
              (facts_from_builder ReleaseReadinessEventFacts_fields
                (migration_release_readiness_current_fields state)))]
      else [])"

definition replay_final_review :: "json \<Rightarrow> ordered_events" where
  "replay_final_review state =
     collect_history_replay_events state ''final_review_record_history'' ''final_review_record''
       None (final_review_event state) @
     (if legacy_current_scalar_fields_present state
           [''current_final_review_branch_closure_id'', ''current_final_review_dispatch_id'',
            ''current_final_review_reviewer_source'', ''current_final_review_reviewer_id'',
            ''current_final_review_result'', ''current_final_review_summary_hash'',
            ''current_final_review_record_id''] \<and>
         scalar_current_not_replayed_from_history state ''final_review_record_history''
           ''current_final_review_record_id''
      then [(0, FinalReviewRecorded (json_string state ''current_final_review_record_id'')
              (json_string state ''current_final_review_dispatch_id'')
              (facts_from_builder FinalReviewEventFacts_fields
                (migration_final_review_current_fields state)))]
      else [])"

definition replay_qa :: "json \<Rightarrow> ordered_events" where
  "replay_qa state =
     collect_history_replay_events state ''browser_qa_record_history'' ''browser_qa_record''
       None (qa_event state) @
     (if legacy_current_scalar_fields_present state
           [''current_qa_branch_closure_id'', ''current_qa_result'', ''current_qa_summary_hash'',
            ''current_qa_record_id''] \<and>
         scalar_current_not_replayed_from_history state ''browser_qa_record_history''
           ''current_qa_record_id''
      then [(0, QaRecorded (json_string state ''current_qa_record_id'')
              (facts_from_builder QaEventFacts_fields (migration_qa_current_fields state)))]
      else [])"

definition replay_dispatch_and_handoff :: "json \<Rightarrow> ordered_events" where
  "replay_dispatch_and_handoff state =
     (let fs = facts_from_builder DispatchEventFacts_fields (migration_dispatch_state_fields state)
      in (case json_string state ''current_task_review_dispatch_id'' of
            None \<Rightarrow> []
          | Some dispatch_id \<Rightarrow> [(0, DispatchRecorded (Some ''task'') (Some dispatch_id) fs)]) @
         (case json_string state ''current_final_review_dispatch_id'' of
            None \<Rightarrow> []
          | Some dispatch_id \<Rightarrow> [(0, DispatchRecorded (Some ''final_review'') (Some dispatch_id) fs)]) @
         [(0, DispatchRecorded None None fs)] @
         (if json_string state ''last_handoff_path'' \<noteq> None \<or>
             json_string state ''last_handoff_fingerprint'' \<noteq> None \<or>
             json_get state FIELD_HANDOFF_REQUIRED \<noteq> None
          then [(0, HandoffRecorded
                  (facts_from_builder HandoffEventFacts_fields (migration_handoff_state_fields state)))]
          else []))"

definition replay_repair_and_strategy :: "event_codec \<Rightarrow> json \<Rightarrow> ordered_events" where
  "replay_repair_and_strategy cd state =
     (let repair = facts_from_builder RepairEventFacts_fields (migration_repair_state_fields state);
          strategy = facts_from_builder StrategyEventFacts_fields (migration_strategy_state_fields state);
          strategy_kind = json_string state ''strategy_checkpoint_kind'';
          strategy_fingerprint = json_string state ''last_strategy_checkpoint_fingerprint''
      in [(0, case repair_follow_up_record_from_state cd state of
                Some r \<Rightarrow> RepairFollowUpSet (Some r) repair
              | None \<Rightarrow> RepairFollowUpCleared repair),
          (0, if strategy_kind \<noteq> None \<or> strategy_fingerprint \<noteq> None
              then StrategyCheckpointRecorded strategy_kind strategy_fingerprint strategy
              else StrategyCheckpointCleared strategy)])"

definition migration_pushed_events :: "event_codec \<Rightarrow> json \<Rightarrow> ordered_events" where
  "migration_pushed_events cd state =
     replay_bootstrap_and_open_step state @ replay_completed_steps state @ replay_closures state @
     replay_release_readiness state @ replay_final_review state @ replay_qa state @
     replay_dispatch_and_handoff state @ replay_repair_and_strategy cd state"

definition migration_replay_events_from_legacy_state :: "event_codec \<Rightarrow> json \<Rightarrow> ExecutionEvent list" where
  "migration_replay_events_from_legacy_state cd state =
     map snd (sort_key fst (migration_pushed_events cd state))"

subsection \<open>Parity and coverage\<close>

definition migration_parity_keys :: "string list" where
  "migration_parity_keys =
    [''current_task_closure_records'', ''task_closure_record_history'',
     ''task_closure_negative_result_records'', ''event_completed_steps'',
     ''execution_evidence_attempts'', ''current_branch_closure_id'',
     ''current_branch_closure_reviewed_state_id'',
     ''current_branch_closure_contract_identity'', ''branch_closure_records'',
     ''superseded_branch_closure_ids'', ''current_release_readiness_record_id'',
     ''current_release_readiness_result'', ''release_readiness_record_history'',
     ''current_final_review_record_id'', ''current_final_review_result'',
     ''current_final_review_branch_closure_id'', ''final_review_record_history'',
     ''current_qa_record_id'', ''current_qa_result'', ''current_qa_branch_closure_id'',
     ''browser_qa_record_history'', ''current_task_review_dispatch_id'',
     ''current_final_review_dispatch_id'', ''strategy_review_dispatch_lineage'',
     ''strategy_review_dispatch_lineage_history'', ''final_review_dispatch_lineage'',
     ''final_review_dispatch_lineage_history'', ''review_state_repair_follow_up_record'',
     ''review_state_repair_follow_up'', ''explicit_reopen_repair_targets'',
     ''strategy_checkpoints'', ''strategy_state'', ''strategy_checkpoint_kind'',
     ''last_strategy_checkpoint_fingerprint'', ''strategy_reset_required'',
     ''strategy_cycle_break_task'', ''strategy_cycle_break_step'',
     ''strategy_cycle_break_checkpoint_fingerprint'',
     ''finish_review_gate_pass_branch_closure_id'', ''harness_phase'']"

definition migration_projection_default_value :: "string \<Rightarrow> json" where
  "migration_projection_default_value field =
     (if field \<in> {''current_task_closure_records'', ''task_closure_record_history'',
          ''task_closure_negative_result_records'', ''task_closure_negative_result_history'',
          ''event_completed_steps'', ''branch_closure_records'', ''release_readiness_record_history'',
          ''final_review_record_history'', ''browser_qa_record_history'',
          ''strategy_review_dispatch_lineage'', ''strategy_review_dispatch_lineage_history'',
          ''final_review_dispatch_lineage'', ''final_review_dispatch_lineage_history''}
      then JObject []
      else if field \<in> {''superseded_task_closure_ids'', ''superseded_branch_closure_ids'',
          ''strategy_checkpoints'', ''execution_evidence_attempts''}
      then JArray []
      else if field = FIELD_HANDOFF_REQUIRED \<or> field = ''strategy_reset_required'' then JBool False
      else JNull)"

definition normalize_event_completed_steps_projection :: "json \<Rightarrow> json" where
  "normalize_event_completed_steps_projection v =
     (case as_object v of
        None \<Rightarrow> JObject []
      | Some entries \<Rightarrow>
          JObject (fold (\<lambda>(key, entry) m.
            case legacy_completed_step_from_entry key entry of
              None \<Rightarrow> m
            | Some (task, step) \<Rightarrow> obj_insert (step_key task step) (completed_step_entry task step) m)
            entries []))"

definition parity_value :: "json \<Rightarrow> string \<Rightarrow> json" where
  "parity_value state key =
     (let v = (case opt_filter (\<lambda>v. \<not> is_null v) (json_get state key) of
                 None \<Rightarrow> migration_projection_default_value key
               | Some v \<Rightarrow> v)
      in if key = ''event_completed_steps'' then normalize_event_completed_steps_projection v else v)"

definition migration_parity_projection :: "json \<Rightarrow> json" where
  "migration_parity_projection state =
     JObject (fold (\<lambda>key m. obj_insert key (parity_value state key) m) migration_parity_keys [])"

type_synonym status_expectation = "string \<times> string option \<times> string option \<times> nat option"

definition collect_expected_record_status_transitions ::
  "json \<Rightarrow> string \<Rightarrow> string \<Rightarrow> string option \<Rightarrow> status_expectation list" where
  "collect_expected_record_status_transitions state field record_family default_record_status =
     List.map_filter (\<lambda>(entry_key, entry).
       (let status = entry_record_status default_record_status entry in
        if promotes_historical_current field record_family status then None
        else Some (record_family, record_id_from_migration_entry entry_key entry, status,
                   Some (entry_record_sequence entry))))
       (entries_at state field)"

definition expected_record_status_transitions_from_legacy :: "json \<Rightarrow> status_expectation list" where
  "expected_record_status_transitions_from_legacy state =
     collect_expected_record_status_transitions state ''current_task_closure_records''
       ''task_closure_record'' (Some ''current'') @
     collect_expected_record_status_transitions state ''task_closure_record_history''
       ''task_closure_record'' None @
     collect_expected_record_status_transitions state ''branch_closure_records''
       ''branch_closure_record'' None @
     collect_expected_record_status_transitions state ''release_readiness_record_history''
       ''release_readiness_record'' None @
     collect_expected_record_status_transitions state ''final_review_record_history''
       ''final_review_record'' None @
     collect_expected_record_status_transitions state ''browser_qa_record_history''
       ''browser_qa_record'' None"

definition observed_record_status_transitions :: "ExecutionEvent list \<Rightarrow> status_expectation list" where
  "observed_record_status_transitions events =
     List.map_filter (\<lambda>e. case e of
        RecordStatusTransition fam rid status seq \<Rightarrow> Some (fam, rid, status, seq) | _ \<Rightarrow> None) events"

definition expected_current_task_closure_replay :: "json \<Rightarrow> (nat option \<times> string option) list" where
  "expected_current_task_closure_replay state =
     map (\<lambda>(entry_key, entry).
       (json_u32 entry ''task'',
        opt_or
          (trim_nonempty
            (Option.bind (opt_or (json_get entry ''closure_record_id'') (json_get entry ''record_id'')) as_str))
          (trim_nonempty (Some entry_key))))
       (entries_at state ''current_task_closure_records'')"

definition observed_task_closure_replay :: "ExecutionEvent list \<Rightarrow> (nat option \<times> string option) list" where
  "observed_task_closure_replay events =
     List.map_filter (\<lambda>e. case e of
        TaskClosureRecorded task rid _ \<Rightarrow> Some (task, rid) | _ \<Rightarrow> None) events"

definition expected_completed_step_replay :: "json \<Rightarrow> (nat \<times> nat) list" where
  "expected_completed_step_replay state = legacy_completed_step_events state"

definition observed_completed_step_replay :: "ExecutionEvent list \<Rightarrow> (nat \<times> nat) list" where
  "observed_completed_step_replay events =
     List.map_filter (\<lambda>e. case e of
        Complete (Some task) (Some step) _ \<Rightarrow> Some (task, step) | _ \<Rightarrow> None) events"

text \<open>\<^verbatim>\<open>BTreeSet::difference\<close> collected into a vector: sorted, without duplicates.\<close>

definition btree_difference :: "'a::linorder list \<Rightarrow> 'a list \<Rightarrow> 'a list" where
  "btree_difference xs ys = sort (remdups (filter (\<lambda>x. x \<notin> set ys) xs))"

lemma btree_difference_Nil: "btree_difference xs ys = [] \<longleftrightarrow> set xs \<subseteq> set ys"
proof -
  have "btree_difference xs ys = [] \<longleftrightarrow> set (btree_difference xs ys) = {}" by (simp only: set_empty)
  then show ?thesis by (auto simp: btree_difference_def)
qed

text \<open>The \<^verbatim>\<open>{:?}\<close> form of the missing items.\<close>

definition debug_status_expectation :: "status_expectation \<Rightarrow> string" where
  "debug_status_expectation x =
     (let (record_family, record_id, record_status, record_sequence) = x in
      ''RecordStatusTransitionExpectation { record_family: '' @ debug_str record_family @
      '', record_id: '' @ debug_option debug_str record_id @
      '', record_status: '' @ debug_option debug_str record_status @
      '', record_sequence: '' @ debug_option show_nat record_sequence @ '' }'')"

definition debug_task_closure_expectation :: "nat option \<times> string option \<Rightarrow> string" where
  "debug_task_closure_expectation x =
     ''TaskClosureReplayExpectation { task: '' @ debug_option show_nat (fst x) @
     '', closure_record_id: '' @ debug_option debug_str (snd x) @ '' }''"

definition debug_completed_step_expectation :: "nat \<times> nat \<Rightarrow> string" where
  "debug_completed_step_expectation x =
     ''CompletedStepReplayExpectation { task: '' @ show_nat (fst x) @ '', step: '' @ show_nat (snd x) @ '' }''"

definition BLOCKED_RUNTIME_BUG_STOP_REPORT_GUIDANCE :: string where
  "BLOCKED_RUNTIME_BUG_STOP_REPORT_GUIDANCE =
     ''Stop and report this diagnostic; do not invent runtime mutations or reconstruct artifacts manually.''"

definition coverage_failure :: "string \<Rightarrow> string \<Rightarrow> JsonFailure" where
  "coverage_failure what missing =
     json_failure BlockedRuntimeBug
       (''blocked_runtime_bug: event-log migration replay omitted '' @ what @ '': '' @ missing @ ''. '' @
        BLOCKED_RUNTIME_BUG_STOP_REPORT_GUIDANCE)"

definition validate_migration_replay_coverage :: "json \<Rightarrow> ExecutionEventEnvelope list \<Rightarrow> unit result" where
  "validate_migration_replay_coverage legacy_state migrated_events =
     (let migrated = map payload migrated_events;
          missing_transitions =
            btree_difference (expected_record_status_transitions_from_legacy legacy_state)
              (observed_record_status_transitions migrated);
          missing_task_closure_replay =
            btree_difference (expected_current_task_closure_replay legacy_state)
              (observed_task_closure_replay migrated);
          missing_completed_step_replay =
            btree_difference (expected_completed_step_replay legacy_state)
              (observed_completed_step_replay migrated)
      in if missing_transitions \<noteq> []
         then Inl (coverage_failure ''expected record-status transitions''
           (debug_list debug_status_expectation missing_transitions))
         else if missing_task_closure_replay \<noteq> []
         then Inl (coverage_failure ''current task-closure events''
           (debug_list debug_task_closure_expectation missing_task_closure_replay))
         else if missing_completed_step_replay \<noteq> []
         then Inl (coverage_failure ''completed-step events''
           (debug_list debug_completed_step_expectation missing_completed_step_replay))
         else Inr ())"

text \<open>What \<^verbatim>\<open>serde_json\<close> does with a plain value: reading it and its \<^verbatim>\<open>Display\<close>.\<close>

record value_codec =
  value_parse :: "string \<Rightarrow> string + json"
  value_display :: "json \<Rightarrow> string"

definition validate_migration_parity ::
  "value_codec \<Rightarrow> json \<Rightarrow> ExecutionEventEnvelope list \<Rightarrow> unit result" where
  "validate_migration_parity vc legacy_state migrated_events =
     (case reduce_events_to_state migrated_events of
        None \<Rightarrow> Inl (json_failure BlockedRuntimeBug
          (''blocked_runtime_bug: event-log migration parity failed because reduced state is empty. '' @
           BLOCKED_RUNTIME_BUG_STOP_REPORT_GUIDANCE))
      | Some reduced_state \<Rightarrow>
          (let legacy_projection = migration_parity_projection legacy_state;
               reduced_projection = migration_parity_projection reduced_state
           in if legacy_projection \<noteq> reduced_projection
              then Inl (json_failure BlockedRuntimeBug
                (''blocked_runtime_bug: event-log migration parity mismatch for authoritative closure/dispatch/checkpoint fields. '' @
                 BLOCKED_RUNTIME_BUG_STOP_REPORT_GUIDANCE @ [newline] @ ''legacy='' @
                 value_display vc legacy_projection @ [newline] @ ''reduced='' @
                 value_display vc reduced_projection))
              else validate_migration_replay_coverage legacy_state migrated_events))"

subsection \<open>The migration\<close>

text \<open>Staging: the import event, then the replayed events, each in its own envelope.  The clock
  gives the time of the envelope at each position.\<close>

fun stage_events ::
  "event_codec \<Rightarrow> (nat \<Rightarrow> string) \<Rightarrow> EventEnvelopeMetadata \<Rightarrow> ExecutionEventEnvelope list \<Rightarrow>
   ExecutionEvent list \<Rightarrow> ExecutionEventEnvelope list result" where
  "stage_events cd clock md staged [] = Inr staged"
| "stage_events cd clock md staged (p # ps) =
     res_bind (next_event_envelope cd (clock (length staged)) staged md p)
       (\<lambda>e. stage_events cd clock md (staged @ [e]) ps)"

definition stage_migration ::
  "event_codec \<Rightarrow> (nat \<Rightarrow> string) \<Rightarrow> EventEnvelopeMetadata \<Rightarrow> string \<Rightarrow> json \<Rightarrow>
   ExecutionEventEnvelope list result" where
  "stage_migration cd clock md backup_path state =
     res_bind
       (next_event_envelope cd (clock 0) []
         (md\<lparr>md_command := ''migrate_legacy_authoritative_state''\<rparr>) (MigrationImported backup_path))
       (\<lambda>e. stage_events cd clock (md\<lparr>md_command := ''migrate_legacy_authoritative_state_replay''\<rparr>) [e]
              (migration_replay_events_from_legacy_state cd state))"

text \<open>The branch directory of a migration and the failures of the operating system.  A state file
  that disappears between the inspection and the read is \<open>mf_state_vanished\<close>; \<open>mf_unreadable_len\<close>
  is the length of an event file whose text cannot be read.\<close>

record migration_dir =
  mg_log :: log_dir
  mg_state_path :: string
  mg_state :: fs_entry
  mg_backup_path :: string
  mg_backup :: fs_entry

record migration_faults =
  mf_io :: io_faults
  mf_events_metadata :: "string option"
  mf_unreadable_len :: nat
  mf_state_vanished :: bool
  mf_backup :: "string option"
  mf_publish :: "string option"

text \<open>The thread-local payloads of migrations in flight.\<close>

type_synonym in_flight_payloads = "state_path \<Rightarrow> json option"

definition in_flight_migration_payload :: "in_flight_payloads \<Rightarrow> state_path \<Rightarrow> json option" where
  "in_flight_migration_payload payloads state_path = payloads state_path"

record InFlightMigrationGuard =
  guard_state_path :: state_path
  previous_payload :: "json option"

definition enter_in_flight_migration ::
  "in_flight_payloads \<Rightarrow> state_path \<Rightarrow> json \<Rightarrow> InFlightMigrationGuard \<times> in_flight_payloads" where
  "enter_in_flight_migration payloads state_path v =
     (\<lparr>guard_state_path = state_path, previous_payload = payloads state_path\<rparr>,
      payloads(state_path := Some v))"

definition drop_in_flight_guard ::
  "InFlightMigrationGuard \<Rightarrow> in_flight_payloads \<Rightarrow> in_flight_payloads" where
  "drop_in_flight_guard g payloads =
     (case previous_payload g of
        Some v \<Rightarrow> payloads(guard_state_path g := Some v)
      | None \<Rightarrow> payloads(guard_state_path g := None))"

definition with_in_flight_migration_payload_for_state_path ::
  "in_flight_payloads \<Rightarrow> state_path \<Rightarrow> json \<Rightarrow> (in_flight_payloads \<Rightarrow> 'a \<times> in_flight_payloads) \<Rightarrow>
   'a \<times> in_flight_payloads" where
  "with_in_flight_migration_payload_for_state_path payloads state_path v work =
     (let (g, payloads1) = enter_in_flight_migration payloads state_path v;
          (r, payloads2) = work payloads1
      in (r, drop_in_flight_guard g payloads2))"

definition events_file_len :: "migration_faults \<Rightarrow> fs_entry \<Rightarrow> nat" where
  "events_file_len mf entry =
     (case entry of Regular (Inr s) \<Rightarrow> length s | _ \<Rightarrow> mf_unreadable_len mf)"

text \<open>The checks before anything is written: \<open>Inr None\<close> means there is nothing to migrate.\<close>

definition legacy_state_to_migrate ::
  "value_codec \<Rightarrow> migration_faults \<Rightarrow> migration_dir \<Rightarrow> (string \<times> json) option result" where
  "legacy_state_to_migrate vc mf d =
     (let events_path = ld_path (mg_log d); events = ld_events (mg_log d) in
      res_bind (ensure_regular_file_if_present events_path ''Authoritative event log'' events)
        (\<lambda>events_exists.
           if events_exists \<and> mf_events_metadata mf \<noteq> None
           then Inl (json_failure MalformedExecutionState
             (''Could not inspect authoritative event log '' @ events_path @ '': '' @
              the (mf_events_metadata mf)))
           else if events_exists \<and> events_file_len mf events > 0 then Inr None
           else res_bind
             (ensure_regular_file_if_present (mg_state_path d) ''Authoritative harness state'' (mg_state d))
             (\<lambda>legacy_state_exists.
                if events_exists \<and> \<not> legacy_state_exists
                then Inl (json_failure MalformedExecutionState
                  (''Event log '' @ events_path @ '' is empty and no legacy authoritative state exists at '' @
                   mg_state_path d @ ''.''))
                else if \<not> legacy_state_exists \<or> mf_state_vanished mf then Inr None
                else (case mg_state d of
                   Regular (Inl err) \<Rightarrow> Inl (json_failure MalformedExecutionState
                     (''Could not inspect authoritative harness state '' @ mg_state_path d @ '': '' @ err))
                 | Regular (Inr state_source) \<Rightarrow>
                     (case value_parse vc state_source of
                        Inl err \<Rightarrow> Inl (json_failure MalformedExecutionState
                          (''Authoritative harness state is malformed in '' @ mg_state_path d @ '': '' @ err))
                      | Inr state_payload \<Rightarrow>
                          if \<not> is_object state_payload
                          then Inl (json_failure MalformedExecutionState
                            (''Authoritative harness state must be a JSON object in '' @ mg_state_path d @ ''.''))
                          else Inr (Some (state_source, state_payload)))
                 | _ \<Rightarrow> Inr None))))"

definition migration_metadata ::
  "state_path \<Rightarrow> BranchContext option \<Rightarrow> string option \<Rightarrow> json \<Rightarrow> EventEnvelopeMetadata" where
  "migration_metadata state_path fallback_branch_context inferred_plan state =
     \<lparr>md_command = ''migrate_legacy_authoritative_state'',
      md_plan_path = opt_or (json_string state ''source_plan_path'') inferred_plan,
      md_plan_revision = json_u32 state ''source_plan_revision'',
      md_execution_run_id =
        opt_or (json_string_from_path state [''run_identity'', ''execution_run_id''])
          (json_string state ''execution_run_id''),
      md_branch_context =
        (case fallback_branch_context of
           Some b \<Rightarrow> b
         | None \<Rightarrow> branch_context_from_state_path state_path state)\<rparr>"

text \<open>Publishing the staged log under the lock, unless another process has migrated meanwhile.\<close>

definition publish_staged_events ::
  "event_codec \<Rightarrow> migration_faults \<Rightarrow> ExecutionEventEnvelope list \<Rightarrow> log_dir \<Rightarrow> unit result \<times> log_dir" where
  "publish_staged_events cd mf staged_events d =
     (case acquire_event_log_lock (mf_io mf) d of
        (Inl err, d1) \<Rightarrow> (Inl err, d1)
      | (Inr _, d1) \<Rightarrow>
          (case load_event_log cd (ld_path d1) (ld_events d1) of
             Inl err \<Rightarrow> (Inl err, release_event_log_lock (mf_io mf) d1)
           | Inr events \<Rightarrow>
               if events \<noteq> [] then (validate_event_log cd events, release_event_log_lock (mf_io mf) d1)
               else (let (r, entry) = write_event_log_atomic cd (mf_publish mf) (ld_path d1) (ld_events d1)
                                        staged_events
                     in (r, release_event_log_lock (mf_io mf) (d1\<lparr>ld_events := entry\<rparr>)))))"

text \<open>The whole migration of one branch directory.  The argument \<open>inferred_plan\<close> is the plan that
  \<^verbatim>\<open>infer_unique_engineering_approved_plan_path\<close> finds for the runtime, if there is a runtime.  The
  in-flight entry made during the migration is dropped on return, so the payload map is the same
  before and after.\<close>

definition ensure_event_log_migrated_from_legacy_state_path ::
  "event_codec \<Rightarrow> value_codec \<Rightarrow> migration_faults \<Rightarrow> (nat \<Rightarrow> string) \<Rightarrow> in_flight_payloads \<Rightarrow>
   state_path \<Rightarrow> BranchContext option \<Rightarrow> string option \<Rightarrow> migration_dir \<Rightarrow> unit result \<times> migration_dir" where
  "ensure_event_log_migrated_from_legacy_state_path cd vc mf clock payloads state_path
     fallback_branch_context inferred_plan d =
     (if in_flight_migration_payload payloads state_path \<noteq> None then (Inr (), d)
      else
     (case legacy_state_to_migrate vc mf d of
        Inl err \<Rightarrow> (Inl err, d)
      | Inr None \<Rightarrow> (Inr (), d)
      | Inr (Some (state_source, state)) \<Rightarrow>
     (case mf_backup mf of
        Some err \<Rightarrow> (Inl (json_failure PartialAuthoritativeMutation
          (''Could not write legacy authoritative backup '' @ mg_backup_path d @ '': '' @ err)), d)
      | None \<Rightarrow>
     (let d1 = d\<lparr>mg_backup := Regular (Inr state_source)\<rparr>;
          md = migration_metadata state_path fallback_branch_context inferred_plan state
      in case res_bind (stage_migration cd clock md (mg_backup_path d) state)
           (\<lambda>staged. res_bind (validate_event_log cd staged)
              (\<lambda>_. res_bind (validate_migration_parity vc state staged) (\<lambda>_. Inr staged))) of
           Inl err \<Rightarrow> (Inl err, d1)
         | Inr staged \<Rightarrow>
             (let (r, l) = publish_staged_events cd mf staged (mg_log d1)
              in (r, d1\<lparr>mg_log := l\<rparr>))))))"

text \<open>\<^verbatim>\<open>load_reduced_authoritative_state_for_state_path\<close>: the in-flight payload, or the state reduced
  from the log after the migration.\<close>

definition load_reduced_authoritative_state_for_state_path ::
  "event_codec \<Rightarrow> value_codec \<Rightarrow> migration_faults \<Rightarrow> (nat \<Rightarrow> string) \<Rightarrow> in_flight_payloads \<Rightarrow>
   state_path \<Rightarrow> migration_dir \<Rightarrow> json option result \<times> migration_dir" where
  "load_reduced_authoritative_state_for_state_path cd vc mf clock payloads state_path d =
     (case in_flight_migration_payload payloads state_path of
        Some v \<Rightarrow> (Inr (Some v), d)
      | None \<Rightarrow>
          (case ensure_event_log_migrated_from_legacy_state_path cd vc mf clock payloads state_path None None d of
             (Inl err, d1) \<Rightarrow> (Inl err, d1)
           | (Inr _, d1) \<Rightarrow> (load_reduced_authoritative_state cd (mg_log d1), d1)))"

end
