(* ===== verification/Migration_Correct.thy ===== *)
theory Migration_Correct
  imports Event_Migration
begin

text \<open>
  What the migration of a legacy state file guarantees: the replayed events are typed, so the staged
  log always validates; which legacy entries the coverage check accepts; how the operation leaves
  the branch directory under any failure of the operating system; and the round trip of a migrated
  state through the log on disk.
\<close>

subsection \<open>Replayed events are typed\<close>

lemma collect_history_events:
  "snd ` set (collect_history_replay_events state field fam dflt mk) =
   (\<lambda>(k, e). mk k e) ` set (entries_at state field) \<union>
   (\<lambda>(k, e). RecordStatusTransition fam (record_id_from_migration_entry k e)
      (entry_record_status dflt e) (Some (entry_record_sequence e))) `
     {(k, e) \<in> set (entries_at state field).
        \<not> promotes_historical_current field fam (entry_record_status dflt e)}"
  unfolding collect_history_replay_events_def Let_def
  by (force simp: image_iff)

lemma event_typed_builder [simp]:
  "event_typed (TaskClosureRecorded t r (facts_from_builder TaskClosureEventFacts_fields b))"
  "event_typed (BranchClosureRecorded r (facts_from_builder BranchClosureEventFacts_fields b))"
  "event_typed (ReleaseReadinessRecorded r (facts_from_builder ReleaseReadinessEventFacts_fields b))"
  "event_typed (FinalReviewRecorded r s (facts_from_builder FinalReviewEventFacts_fields b))"
  "event_typed (QaRecorded r (facts_from_builder QaEventFacts_fields b))"
  "event_typed (PreflightBootstrapRecorded (facts_from_builder RunMetadataEventFacts_fields b))"
  "event_typed (Begin t1 s1 (facts_from_builder StepEventFacts_fields b))"
  "event_typed (Note t1 s1 n (facts_from_builder StepEventFacts_fields b))"
  "event_typed (Complete t1 s1 (facts_from_builder StepEventFacts_fields b))"
  "event_typed (Reopen t1 s1 (facts_from_builder StepEventFacts_fields b))"
  "event_typed (DispatchRecorded r s (facts_from_builder DispatchEventFacts_fields b))"
  "event_typed (HandoffRecorded (facts_from_builder HandoffEventFacts_fields b))"
  "event_typed (RepairFollowUpSet q (facts_from_builder RepairEventFacts_fields b))"
  "event_typed (RepairFollowUpCleared (facts_from_builder RepairEventFacts_fields b))"
  "event_typed (StrategyCheckpointRecorded r s (facts_from_builder StrategyEventFacts_fields b))"
  "event_typed (StrategyCheckpointCleared (facts_from_builder StrategyEventFacts_fields b))"
  by (simp_all add: event_typed_def facts_typed_from_builder)

lemma event_typed_no_facts [simp]:
  "event_typed (RecordStatusTransition fam rid st sq)" "event_typed (MigrationImported b)"
  "event_typed (Complete t s [])"
  by (simp_all add: event_typed_def facts_typed_def)

lemma collect_history_typed:
  assumes "\<And>k e. event_typed (mk k e)"
    "x \<in> set (collect_history_replay_events state field fam dflt mk)"
  shows "event_typed (snd x)"
proof -
  have "snd x \<in> snd ` set (collect_history_replay_events state field fam dflt mk)"
    using assms(2) by (rule imageI)
  then show ?thesis using assms(1) by (auto simp: collect_history_events)
qed

lemma entry_event_typed:
  "event_typed (task_closure_event f k e)" "event_typed (branch_closure_event state k e)"
  "event_typed (release_readiness_event state k e)" "event_typed (final_review_event state k e)"
  "event_typed (qa_event state k e)"
  by (simp_all add: task_closure_event_def branch_closure_event_def release_readiness_event_def
      final_review_event_def qa_event_def Let_def)

lemma replay_pieces_typed:
  "x \<in> set (replay_bootstrap_and_open_step state) \<Longrightarrow> event_typed (snd x)"
  "x \<in> set (replay_completed_steps state) \<Longrightarrow> event_typed (snd x)"
  "x \<in> set (replay_closures state) \<Longrightarrow> event_typed (snd x)"
  "x \<in> set (replay_release_readiness state) \<Longrightarrow> event_typed (snd x)"
  "x \<in> set (replay_final_review state) \<Longrightarrow> event_typed (snd x)"
  "x \<in> set (replay_qa state) \<Longrightarrow> event_typed (snd x)"
  "x \<in> set (replay_dispatch_and_handoff state) \<Longrightarrow> event_typed (snd x)"
  "x \<in> set (replay_repair_and_strategy cd state) \<Longrightarrow> event_typed (snd x)"
  by (auto simp: replay_bootstrap_and_open_step_def replay_completed_steps_def replay_closures_def
      replay_release_readiness_def replay_final_review_def replay_qa_def
      replay_dispatch_and_handoff_def replay_repair_and_strategy_def Let_def
      intro: collect_history_typed entry_event_typed split: if_splits option.splits)

lemma set_migration_replay:
  "set (migration_replay_events_from_legacy_state cd state) = snd ` set (migration_pushed_events cd state)"
  by (simp add: migration_replay_events_from_legacy_state_def)

lemma migration_replay_typed:
  "e \<in> set (migration_replay_events_from_legacy_state cd state) \<Longrightarrow> event_typed e"
  by (auto simp: set_migration_replay migration_pushed_events_def dest: replay_pieces_typed)

subsection \<open>The staged log\<close>

lemma stage_events_Inr:
  assumes "stage_events cd clock md staged ps = Inr es" "validate_event_log cd staged = Inr ()"
    "\<forall>p\<in>set ps. event_typed p"
  shows "validate_event_log cd es = Inr () \<and> map payload es = map payload staged @ ps \<and>
    (\<exists>fs. es = staged @ fs \<and> (\<forall>f\<in>set fs. command f = md_command md))"
  using assms
proof (induction ps arbitrary: staged)
  case Nil
  then show ?case by simp
next
  case (Cons p ps)
  then obtain e where e: "next_event_envelope cd (clock (length staged)) staged md p = Inr e"
    "stage_events cd clock md (staged @ [e]) ps = Inr es"
    by (auto simp: res_bind_Inr)
  have "validate_event_log cd (staged @ [e]) = Inr ()"
    using next_event_envelope_valid [OF Cons.prems(2) e(1)] Cons.prems(3)
    by (simp add: event_typed_in_scope)
  from Cons.IH [OF e(2) this] Cons.prems(3) next_event_envelope_Inr(1,6) [OF e(1)]
  show ?case by auto
qed

lemma stage_migration_Inr:
  assumes "stage_migration cd clock md backup state = Inr es"
  shows "validate_event_log cd es = Inr ()"
    "map payload es = MigrationImported backup # migration_replay_events_from_legacy_state cd state"
    "event_log_contains_only_migration_import es"
proof -
  let ?md = "md\<lparr>md_command := ''migrate_legacy_authoritative_state''\<rparr>"
  obtain e where e: "next_event_envelope cd (clock 0) [] ?md (MigrationImported backup) = Inr e"
    "stage_events cd clock (md\<lparr>md_command := ''migrate_legacy_authoritative_state_replay''\<rparr>) [e]
       (migration_replay_events_from_legacy_state cd state) = Inr es"
    using assms by (auto simp: stage_migration_def res_bind_Inr)
  have "validate_event_log cd [] = Inr ()" by (simp add: validate_event_log_def)
  from next_event_envelope_valid [OF this e(1)] have v: "validate_event_log cd [e] = Inr ()"
    by (simp add: event_typed_in_scope)
  note n = next_event_envelope_Inr(1,6) [OF e(1)]
  have "\<forall>p\<in>set (migration_replay_events_from_legacy_state cd state). event_typed p"
    by (blast dest: migration_replay_typed)
  note s = stage_events_Inr [OF e(2) v this]
  from s show "validate_event_log cd es = Inr ()" by blast
  from s n show "map payload es = MigrationImported backup # migration_replay_events_from_legacy_state cd state"
    by simp
  from s obtain fs where "es = e # fs"
    "\<forall>f\<in>set fs. command f = ''migrate_legacy_authoritative_state_replay''" by auto
  with n show "event_log_contains_only_migration_import es"
    by (simp add: event_log_contains_only_migration_import_def list_all_iff starts_with_def)
qed

subsection \<open>Coverage\<close>

lemma map_filter_set: "set (List.map_filter f xs) = {y. \<exists>x\<in>set xs. f x = Some y}"
  by (auto simp: List.map_filter_def image_iff) force

lemma expected_transitions_field:
  "set (collect_expected_record_status_transitions state field fam dflt) =
   (\<lambda>(k, e). (fam, record_id_from_migration_entry k e, entry_record_status dflt e,
      Some (entry_record_sequence e))) `
     {(k, e) \<in> set (entries_at state field).
        \<not> promotes_historical_current field fam (entry_record_status dflt e)}"
  unfolding collect_expected_record_status_transitions_def map_filter_set Let_def
  by (force split: if_splits)

lemma observed_transitions:
  "(fam, rid, st, sq) \<in> set (observed_record_status_transitions evs) \<longleftrightarrow>
   RecordStatusTransition fam rid st sq \<in> set evs"
proof -
  have "(case x of RecordStatusTransition a b c d \<Rightarrow> Some (a, b, c, d) | _ \<Rightarrow> None) = Some (fam, rid, st, sq) \<longleftrightarrow>
      x = RecordStatusTransition fam rid st sq" for x
    by (cases x) simp_all
  then show ?thesis unfolding observed_record_status_transitions_def map_filter_set by simp
qed

lemma observed_closures:
  "(t, rid) \<in> set (observed_task_closure_replay evs) \<longleftrightarrow> (\<exists>fs. TaskClosureRecorded t rid fs \<in> set evs)"
proof -
  have "(case x of TaskClosureRecorded a b _ \<Rightarrow> Some (a, b) | _ \<Rightarrow> None) = Some (t, rid) \<longleftrightarrow>
      (\<exists>fs. x = TaskClosureRecorded t rid fs)" for x
    by (cases x) simp_all
  then show ?thesis unfolding observed_task_closure_replay_def map_filter_set by auto
qed

lemma observed_steps:
  "(t, s) \<in> set (observed_completed_step_replay evs) \<longleftrightarrow> (\<exists>fs. Complete (Some t) (Some s) fs \<in> set evs)"
proof -
  have "(case x of Complete (Some a) (Some b) _ \<Rightarrow> Some (a, b) | _ \<Rightarrow> None) = Some (t, s) \<longleftrightarrow>
      (\<exists>fs. x = Complete (Some t) (Some s) fs)" for x
    by (cases x) (auto split: option.splits)
  then show ?thesis unfolding observed_completed_step_replay_def map_filter_set by auto
qed

lemma history_transitions_covered:
  assumes "set (collect_history_replay_events state field fam dflt mk) \<subseteq> set evs"
  shows "set (collect_expected_record_status_transitions state field fam dflt) \<subseteq>
    set (observed_record_status_transitions (map snd evs))"
proof
  fix x
  assume "x \<in> set (collect_expected_record_status_transitions state field fam dflt)"
  then obtain k e where x: "x = (fam, record_id_from_migration_entry k e, entry_record_status dflt e,
      Some (entry_record_sequence e))" "(k, e) \<in> set (entries_at state field)"
    "\<not> promotes_historical_current field fam (entry_record_status dflt e)"
    unfolding expected_transitions_field by auto
  have "RecordStatusTransition fam (record_id_from_migration_entry k e) (entry_record_status dflt e)
      (Some (entry_record_sequence e)) \<in> snd ` set (collect_history_replay_events state field fam dflt mk)"
    unfolding collect_history_events using x by force
  with assms show "x \<in> set (observed_record_status_transitions (map snd evs))"
    unfolding x(1) observed_transitions by auto
qed

lemmas migration_pieces = migration_pushed_events_def replay_closures_def
  replay_release_readiness_def replay_final_review_def replay_qa_def

lemma history_pushed:
  "set (collect_history_replay_events state ''current_task_closure_records'' ''task_closure_record''
     (Some ''current'') (task_closure_event ''current_task_closure_records'')) \<subseteq>
   set (migration_pushed_events cd state)"
  "set (collect_history_replay_events state ''task_closure_record_history'' ''task_closure_record''
     None (task_closure_event ''task_closure_record_history'')) \<subseteq> set (migration_pushed_events cd state)"
  "set (collect_history_replay_events state ''branch_closure_records'' ''branch_closure_record''
     None (branch_closure_event state)) \<subseteq> set (migration_pushed_events cd state)"
  "set (collect_history_replay_events state ''release_readiness_record_history''
     ''release_readiness_record'' None (release_readiness_event state)) \<subseteq>
   set (migration_pushed_events cd state)"
  "set (collect_history_replay_events state ''final_review_record_history'' ''final_review_record''
     None (final_review_event state)) \<subseteq> set (migration_pushed_events cd state)"
  "set (collect_history_replay_events state ''browser_qa_record_history'' ''browser_qa_record''
     None (qa_event state)) \<subseteq> set (migration_pushed_events cd state)"
  by (rule subsetI, simp only: migration_pieces set_append Un_iff simp_thms)+

lemma migration_transitions_covered:
  "set (expected_record_status_transitions_from_legacy state) \<subseteq>
   set (observed_record_status_transitions (migration_replay_events_from_legacy_state cd state))"
proof -
  note c = history_pushed [where cd = cd and state = state, THEN history_transitions_covered]
  have "set (expected_record_status_transitions_from_legacy state) \<subseteq>
      set (observed_record_status_transitions (map snd (migration_pushed_events cd state)))"
    unfolding expected_record_status_transitions_from_legacy_def set_append Un_subset_iff
    by (intro conjI c)
  then show ?thesis
    by (simp add: observed_record_status_transitions_def map_filter_set set_migration_replay)
qed

text \<open>Completed steps: a step left out of the replay because it is the open step was replayed with
  it.\<close>

lemma open_step_replayed:
  assumes "json_u32_from_path state [''current_open_step_state'', ''task''] = Some t"
    "json_u32_from_path state [''current_open_step_state'', ''step''] = Some s"
    "json_string_from_path state [''current_open_step_state'', ''note_state''] = Some ''Completed''"
  shows "(0, Complete (Some t) (Some s)
      (facts_from_builder StepEventFacts_fields (migration_step_state_fields state))) \<in>
    set (replay_bootstrap_and_open_step state)"
  by (simp add: replay_bootstrap_and_open_step_def Let_def assms)

lemma completed_step_replayed:
  assumes "(t, s) \<in> set (legacy_completed_step_events state)"
    "\<not> (json_u32_from_path state [''current_open_step_state'', ''task''] = Some t \<and>
        json_u32_from_path state [''current_open_step_state'', ''step''] = Some s \<and>
        json_string_from_path state [''current_open_step_state'', ''note_state''] = Some ''Completed'')"
  shows "(0, Complete (Some t) (Some s) []) \<in> set (replay_completed_steps state)"
proof -
  let ?skip = "\<lambda>(task, step). Some task = json_u32_from_path state [''current_open_step_state'', ''task''] \<and>
      Some step = json_u32_from_path state [''current_open_step_state'', ''step''] \<and>
      json_string_from_path state [''current_open_step_state'', ''note_state''] = Some ''Completed''"
  have "\<not> ?skip (t, s)" using assms(2) unfolding prod.case by argo
  with assms(1) have "(t, s) \<in> set (filter (\<lambda>p. \<not> ?skip p) (legacy_completed_step_events state))"
    unfolding set_filter mem_Collect_eq by (rule conjI)
  from imageI [OF this, of "\<lambda>(task, step). (0 :: nat, Complete (Some task) (Some step) [])"] show ?thesis
    unfolding replay_completed_steps_def Let_def set_map prod.case split_def by simp
qed

lemma migration_steps_covered:
  "set (expected_completed_step_replay state) \<subseteq>
   set (observed_completed_step_replay (migration_replay_events_from_legacy_state cd state))"
proof
  fix x
  assume x: "x \<in> set (expected_completed_step_replay state)"
  obtain t s where ts: "x = (t, s)" by (cases x)
  obtain n fs where "(n, Complete (Some t) (Some s) fs) \<in> set (migration_pushed_events cd state)"
    using open_step_replayed [of state t s] completed_step_replayed [of t s state] x
    unfolding ts expected_completed_step_replay_def migration_pushed_events_def set_append Un_iff by metis
  from imageI [OF this, of snd]
  show "x \<in> set (observed_completed_step_replay (migration_replay_events_from_legacy_state cd state))"
    unfolding ts observed_steps set_migration_replay snd_conv by blast
qed

text \<open>Task closures: the replayed event of an entry carries the identifier the entry names; the
  check expects the entry's key when the entry names none.\<close>

definition usable_closure_id :: "json \<Rightarrow> string option" where
  "usable_closure_id entry =
     trim_nonempty
       (Option.bind (opt_or (json_get entry ''closure_record_id'') (json_get entry ''record_id'')) as_str)"

definition closure_entries :: "json \<Rightarrow> (string \<times> json) set" where
  "closure_entries state =
     set (entries_at state ''current_task_closure_records'') \<union>
     set (entries_at state ''task_closure_record_history'')"

definition closure_entry_covered :: "json \<Rightarrow> string \<times> json \<Rightarrow> bool" where
  "closure_entry_covered state ke \<longleftrightarrow>
     usable_closure_id (snd ke) \<noteq> None \<or> trim_nonempty (Some (fst ke)) = None \<or>
     (\<exists>other\<in>closure_entries state.
        json_u32 (snd other) ''task'' = json_u32 (snd ke) ''task'' \<and>
        usable_closure_id (snd other) = trim_nonempty (Some (fst ke)))"

lemma collect_history_no_closure:
  assumes "\<And>k e. mk k e \<noteq> TaskClosureRecorded t r f"
    "x \<in> set (collect_history_replay_events state field fam dflt mk)"
  shows "snd x \<noteq> TaskClosureRecorded t r f"
proof -
  have "snd x \<in> snd ` set (collect_history_replay_events state field fam dflt mk)"
    using assms(2) by (rule imageI)
  then show ?thesis using assms(1) unfolding collect_history_events by fastforce
qed

lemma entry_event_no_closure:
  "branch_closure_event state k e \<noteq> TaskClosureRecorded t r f"
  "release_readiness_event state k e \<noteq> TaskClosureRecorded t r f"
  "final_review_event state k e \<noteq> TaskClosureRecorded t r f"
  "qa_event state k e \<noteq> TaskClosureRecorded t r f"
  by (simp_all add: branch_closure_event_def release_readiness_event_def final_review_event_def
      qa_event_def Let_def)

lemmas no_closure_in_history = entry_event_no_closure [THEN collect_history_no_closure]

lemma replay_pieces_no_closure:
  "x \<in> set (replay_bootstrap_and_open_step state) \<Longrightarrow> snd x \<noteq> TaskClosureRecorded t r f"
  "x \<in> set (replay_completed_steps state) \<Longrightarrow> snd x \<noteq> TaskClosureRecorded t r f"
  "x \<in> set (replay_release_readiness state) \<Longrightarrow> snd x \<noteq> TaskClosureRecorded t r f"
  "x \<in> set (replay_final_review state) \<Longrightarrow> snd x \<noteq> TaskClosureRecorded t r f"
  "x \<in> set (replay_qa state) \<Longrightarrow> snd x \<noteq> TaskClosureRecorded t r f"
  "x \<in> set (replay_dispatch_and_handoff state) \<Longrightarrow> snd x \<noteq> TaskClosureRecorded t r f"
  "x \<in> set (replay_repair_and_strategy cd state) \<Longrightarrow> snd x \<noteq> TaskClosureRecorded t r f"
  by (auto simp: replay_bootstrap_and_open_step_def replay_completed_steps_def
      replay_release_readiness_def replay_final_review_def replay_qa_def
      replay_dispatch_and_handoff_def replay_repair_and_strategy_def Let_def
      dest: no_closure_in_history split: if_splits option.splits)

lemma history_closure_events:
  "(\<exists>f. TaskClosureRecorded t r f \<in>
      snd ` set (collect_history_replay_events state field fam dflt (task_closure_event field))) \<longleftrightarrow>
   (\<exists>ke\<in>set (entries_at state field). json_u32 (snd ke) ''task'' = t \<and> usable_closure_id (snd ke) = r)"
  unfolding collect_history_events
  by (force simp: task_closure_event_def usable_closure_id_def image_iff)

lemma no_closure_image:
  "(\<And>x. x \<in> A \<Longrightarrow> snd x \<noteq> TaskClosureRecorded t r f) \<Longrightarrow> TaskClosureRecorded t r f \<notin> snd ` A"
  by (metis imageE)

lemmas no_closure_pieces = replay_pieces_no_closure [THEN no_closure_image]

lemma replay_closure_events:
  "(\<exists>f. TaskClosureRecorded t r f \<in> snd ` set (replay_closures state)) \<longleftrightarrow>
   (\<exists>ke\<in>closure_entries state. json_u32 (snd ke) ''task'' = t \<and> usable_closure_id (snd ke) = r)"
proof -
  note branch = no_closure_in_history(1) [where state = state and field = "''branch_closure_records''"
      and fam = "''branch_closure_record''" and dflt = None, THEN no_closure_image]
  have scalar: "TaskClosureRecorded t r f \<notin> snd ` set (if c then [(0, BranchClosureRecorded b fs)] else [])"
    for f c b fs by (cases c) simp_all
  show ?thesis
    unfolding closure_entries_def bex_Un
      history_closure_events [of t r state "''current_task_closure_records''" "''task_closure_record''"
        "Some ''current''", symmetric]
      history_closure_events [of t r state "''task_closure_record_history''" "''task_closure_record''" None, symmetric]
    by (simp only: replay_closures_def set_append image_Un Un_iff branch scalar simp_thms ex_disj_distrib)
qed

lemma migration_closure_events:
  "(t, r) \<in> set (observed_task_closure_replay (migration_replay_events_from_legacy_state cd state)) \<longleftrightarrow>
   (\<exists>ke\<in>closure_entries state. json_u32 (snd ke) ''task'' = t \<and> usable_closure_id (snd ke) = r)"
  unfolding observed_closures set_migration_replay replay_closure_events [symmetric]
  by (simp only: migration_pushed_events_def set_append image_Un Un_iff no_closure_pieces simp_thms)

lemma expected_closures:
  "set (expected_current_task_closure_replay state) =
   (\<lambda>(k, e). (json_u32 e ''task'', opt_or (usable_closure_id e) (trim_nonempty (Some k)))) `
     set (entries_at state ''current_task_closure_records'')"
  by (auto simp: expected_current_task_closure_replay_def usable_closure_id_def)

lemma migration_closures_covered:
  "set (expected_current_task_closure_replay state) \<subseteq>
   set (observed_task_closure_replay (migration_replay_events_from_legacy_state cd state)) \<longleftrightarrow>
   (\<forall>ke\<in>set (entries_at state ''current_task_closure_records''). closure_entry_covered state ke)"
proof -
  have "(json_u32 e ''task'', opt_or (usable_closure_id e) (trim_nonempty (Some k))) \<in>
      set (observed_task_closure_replay (migration_replay_events_from_legacy_state cd state)) \<longleftrightarrow>
      closure_entry_covered state (k, e)"
    if "(k, e) \<in> set (entries_at state ''current_task_closure_records'')" for k e
  proof -
    have "(k, e) \<in> closure_entries state" using that unfolding closure_entries_def by (rule UnI1)
    then show ?thesis
      unfolding migration_closure_events closure_entry_covered_def fst_conv snd_conv
      by (cases "usable_closure_id e"; cases "trim_nonempty (Some k)")
         (simp_all only: opt_or_simps simp_thms, (metis option.distinct(1) snd_conv)+)
  qed
  then show ?thesis unfolding expected_closures image_subset_iff by fast
qed

subsection \<open>The migration operation\<close>

lemma publish_frame:
  assumes "publish_staged_events cd mf staged d = (r, d')"
  shows "lock_as_before (mf_io mf) d (ld_lock d') \<and>
    (d' = d\<lparr>ld_lock := ld_lock d'\<rparr> \<or>
     (r = Inr () \<and> ld_lock d = Absent \<and> load_event_log cd (ld_path d) (ld_events d) = Inr [] \<and>
      (\<exists>content. serialize_event_log cd (ld_path d) staged = Inr content \<and>
         d' = d\<lparr>ld_events := Regular (Inr content), ld_lock := ld_lock d'\<rparr>)))"
proof (cases "acquire_event_log_lock (mf_io mf) d")
  case (Pair q d1)
  show ?thesis
  proof (cases q)
    case (Inl err)
    then show ?thesis
      using assms Pair
      by (auto simp: publish_staged_events_def acquire_event_log_lock_def lock_as_before_def split: option.splits if_splits)
  next
    case (Inr u)
    then have l: "ld_lock d = Absent" "d1 = d\<lparr>ld_lock := Regular (Inr ''pid'')\<rparr>"
      using Pair by (auto simp: acquire_event_log_lock_def split: option.splits if_splits)
    let ?lock = "if fault_lock_release (mf_io mf) then Regular (Inr ''pid'') else ld_lock d"
    have rel: "release_event_log_lock (mf_io mf) d1 = d\<lparr>ld_lock := ?lock\<rparr>"
      "release_event_log_lock (mf_io mf) (d1\<lparr>ld_events := entry\<rparr>) = d\<lparr>ld_events := entry, ld_lock := ?lock\<rparr>" for entry
      using l by (cases d; simp add: release_event_log_lock_def)+
    have lock: "lock_as_before (mf_io mf) d ?lock"
      using l(1) by (simp add: lock_as_before_def)
    have path: "ld_path d1 = ld_path d" "ld_events d1 = ld_events d"
      by (simp_all add: l(2))
    consider (kept) "d' = d\<lparr>ld_lock := ?lock\<rparr>"
      | (written) content where "r = Inr ()" "load_event_log cd (ld_path d) (ld_events d) = Inr []"
        "serialize_event_log cd (ld_path d) staged = Inr content"
        "d' = d\<lparr>ld_events := Regular (Inr content), ld_lock := ?lock\<rparr>"
    proof (cases "load_event_log cd (ld_path d) (ld_events d) = Inr []")
      case False
      then have "d' = release_event_log_lock (mf_io mf) d1"
        using assms by (auto simp: publish_staged_events_def Pair Inr path split: sum.splits if_splits)
      then show thesis
        using rel(1) that(1) by simp
    next
      case True
      obtain q entry where w: "write_event_log_atomic cd (mf_publish mf) (ld_path d) (ld_events d) staged = (q, entry)"
        by fastforce
      then have d': "r = q" "d' = d\<lparr>ld_events := entry, ld_lock := ?lock\<rparr>"
        using assms True rel(2) by (simp_all add: publish_staged_events_def Pair Inr path)
      from w consider "entry = ld_events d" | content where "q = Inr ()" "entry = Regular (Inr content)"
        "serialize_event_log cd (ld_path d) staged = Inr content"
        by (auto simp: write_event_log_atomic_def split: sum.splits option.splits)
      then show thesis
      proof cases
        case 1
        then have "d' = d\<lparr>ld_lock := ?lock\<rparr>"
          using d'(2) by (cases d) simp
        then show thesis by (rule that(1))
      qed (use d' True that(2) in simp)
    qed
    then show ?thesis
      using lock l(1) by cases auto
  qed
qed

lemma publish_ok:
  assumes "ld_lock d = Absent" "mf_io mf = no_faults" "mf_publish mf = None"
    "load_event_log cd (ld_path d) (ld_events d) = Inr []"
    "serialize_event_log cd (ld_path d) staged = Inr content"
  shows "publish_staged_events cd mf staged d = (Inr (), d\<lparr>ld_events := Regular (Inr content)\<rparr>)"
  using assms by (cases d) (simp add: publish_staged_events_def acquire_event_log_lock_def no_faults_def
      release_event_log_lock_def write_event_log_atomic_def)

lemma legacy_state_to_migrate_Some:
  assumes "legacy_state_to_migrate vc mf d = Inr (Some (src, state))"
  shows "mg_state d = Regular (Inr src)" "value_parse vc src = Inr state" "is_object state"
    "ld_events (mg_log d) = Absent \<or>
     (\<exists>x. ld_events (mg_log d) = Regular x \<and> events_file_len mf (Regular x) = 0)"
  using assms
  by (auto simp: legacy_state_to_migrate_def Let_def res_bind_Inr split: if_splits fs_entry.splits sum.splits)
     (cases "ld_events (mg_log d)"; auto)+

lemma empty_log_text:
  assumes "legacy_state_to_migrate vc mf d = Inr (Some (src, state))"
    "load_event_log cd p (ld_events (mg_log d)) = Inr es"
  shows "ld_events (mg_log d) = Absent \<or> ld_events (mg_log d) = Regular (Inr [])"
  using legacy_state_to_migrate_Some(4) [OF assms(1)]
proof (elim disjE exE conjE)
  fix x
  assume x: "ld_events (mg_log d) = Regular x" "events_file_len mf (Regular x) = 0"
  with assms(2) show ?thesis
    by (cases x) (simp_all add: events_file_len_def load_event_log_def)
qed simp

text \<open>The three ways the operation can leave the directory.\<close>

lemma ensure_migrated_cases:
  assumes "ensure_event_log_migrated_from_legacy_state_path cd vc mf clock payloads sp fb plan d = (r, d')"
  obtains (same) "d' = d"
  | (backup) src state lock where "legacy_state_to_migrate vc mf d = Inr (Some (src, state))"
      "lock_as_before (mf_io mf) (mg_log d) lock"
      "d' = d\<lparr>mg_backup := Regular (Inr src), mg_log := (mg_log d)\<lparr>ld_lock := lock\<rparr>\<rparr>"
  | (migrated) src state staged content lock where "legacy_state_to_migrate vc mf d = Inr (Some (src, state))"
      "stage_migration cd clock (migration_metadata sp fb plan state) (mg_backup_path d) state = Inr staged"
      "validate_migration_parity vc state staged = Inr ()" "r = Inr ()" "ld_lock (mg_log d) = Absent"
      "load_event_log cd (ld_path (mg_log d)) (ld_events (mg_log d)) = Inr []"
      "serialize_event_log cd (ld_path (mg_log d)) staged = Inr content"
      "lock_as_before (mf_io mf) (mg_log d) lock"
      "d' = d\<lparr>mg_backup := Regular (Inr src),
        mg_log := (mg_log d)\<lparr>ld_events := Regular (Inr content), ld_lock := lock\<rparr>\<rparr>"
proof (cases "in_flight_migration_payload payloads sp = None \<and>
    (\<exists>src state. legacy_state_to_migrate vc mf d = Inr (Some (src, state))) \<and> mf_backup mf = None")
  case False
  then have "d' = d"
    using assms by (auto simp: ensure_event_log_migrated_from_legacy_state_path_def
        split: if_splits sum.splits option.splits)
  then show thesis by (rule same)
next
  case True
  then obtain src state where t: "in_flight_migration_payload payloads sp = None"
    "legacy_state_to_migrate vc mf d = Inr (Some (src, state))" "mf_backup mf = None" by blast
  let ?staging = "res_bind (stage_migration cd clock (migration_metadata sp fb plan state) (mg_backup_path d) state)
      (\<lambda>staged. res_bind (validate_event_log cd staged)
        (\<lambda>_. res_bind (validate_migration_parity vc state staged) (\<lambda>_. Inr staged)))"
  show thesis
  proof (cases ?staging)
    case (Inl err)
    then have "d' = d\<lparr>mg_backup := Regular (Inr src)\<rparr>"
      using assms by (simp add: ensure_event_log_migrated_from_legacy_state_path_def t)
    then have "d' = d\<lparr>mg_backup := Regular (Inr src), mg_log := (mg_log d)\<lparr>ld_lock := ld_lock (mg_log d)\<rparr>\<rparr>"
      by (cases d) simp
    then show thesis by (rule backup [OF t(2), rotated]) (simp add: lock_as_before_def)
  next
    case (Inr staged)
    then have s: "stage_migration cd clock (migration_metadata sp fb plan state) (mg_backup_path d) state = Inr staged"
      "validate_migration_parity vc state staged = Inr ()" by (auto simp: res_bind_Inr)
    obtain q l where q: "publish_staged_events cd mf staged (mg_log d) = (q, l)" by fastforce
    then have d': "r = q" "d' = d\<lparr>mg_backup := Regular (Inr src), mg_log := l\<rparr>"
      using assms Inr by (simp_all add: ensure_event_log_migrated_from_legacy_state_path_def t)
    note lock = publish_frame [OF q, THEN conjunct1]
    from publish_frame [OF q, THEN conjunct2] show thesis
    proof (elim disjE conjE exE)
      assume "l = (mg_log d)\<lparr>ld_lock := ld_lock l\<rparr>"
      with d' have "d' = d\<lparr>mg_backup := Regular (Inr src), mg_log := (mg_log d)\<lparr>ld_lock := ld_lock l\<rparr>\<rparr>" by simp
      with t(2) lock show thesis by (rule backup)
    next
      fix content
      assume "q = Inr ()" "ld_lock (mg_log d) = Absent"
        "load_event_log cd (ld_path (mg_log d)) (ld_events (mg_log d)) = Inr []"
        "serialize_event_log cd (ld_path (mg_log d)) staged = Inr content"
        "l = (mg_log d)\<lparr>ld_events := Regular (Inr content), ld_lock := ld_lock l\<rparr>"
      with t s d' lock show thesis by (intro migrated [of src state staged content "ld_lock l"]) simp_all
    qed
  qed
qed

lemma ensure_migrated_ok:
  assumes "in_flight_migration_payload payloads sp = None"
    "legacy_state_to_migrate vc mf d = Inr (Some (src, state))"
    "mf_io mf = no_faults" "mf_backup mf = None" "mf_publish mf = None" "ld_lock (mg_log d) = Absent"
    "load_event_log cd (ld_path (mg_log d)) (ld_events (mg_log d)) = Inr []"
    "stage_migration cd clock (migration_metadata sp fb plan state) (mg_backup_path d) state = Inr staged"
    "validate_migration_parity vc state staged = Inr ()"
    "serialize_event_log cd (ld_path (mg_log d)) staged = Inr content"
  shows "ensure_event_log_migrated_from_legacy_state_path cd vc mf clock payloads sp fb plan d =
    (Inr (), d\<lparr>mg_backup := Regular (Inr src), mg_log := (mg_log d)\<lparr>ld_events := Regular (Inr content)\<rparr>\<rparr>)"
  using publish_ok [of "mg_log d" mf cd staged content] stage_migration_Inr(1) [OF assms(8)]
  by (simp add: ensure_event_log_migrated_from_legacy_state_path_def assms)

lemma serialize_total:
  "\<forall>e\<in>set es. \<exists>l. line_ok cd e l \<Longrightarrow> \<exists>content. serialize_event_log cd p es = Inr content \<and> (es \<noteq> [] \<longrightarrow> content \<noteq> [])"
  by (induction es) (fastforce simp: line_ok_def)+

lemma parity_Inr:
  assumes "validate_migration_parity vc state es = Inr ()"
  shows "\<exists>reduced. reduce_events_to_state es = Some reduced \<and>
    migration_parity_projection reduced = migration_parity_projection state"
  using assms by (auto simp: validate_migration_parity_def Let_def split: option.splits if_splits)

lemma migrated_again:
  assumes "content \<noteq> []" "mf_events_metadata mf = None" "ld_events (mg_log d) = Regular (Inr content)"
  shows "ensure_event_log_migrated_from_legacy_state_path cd vc mf clock payloads sp fb plan d = (Inr (), d)"
  using assms by (simp add: ensure_event_log_migrated_from_legacy_state_path_def
      legacy_state_to_migrate_def events_file_len_def Let_def)

subsection \<open>A concrete migration\<close>

abbreviation phase_fact :: "(string \<times> json) list" where
  "phase_fact \<equiv> [(''harness_phase'', JString ''executing'')]"

definition sample_legacy :: json where
  "sample_legacy = JObject phase_fact"

lemma sample_get: "json_get sample_legacy f = (if f = ''harness_phase'' then Some (JString ''executing'') else None)"
  by (simp add: sample_legacy_def obj_get_def)

lemma hp_builder: "''harness_phase'' \<in> set AuthoritativeFactBuilder_fields"
  by (simp add: AuthoritativeFactBuilder_fields_def)

lemma sample_fact_list:
  assumes "''harness_phase'' \<in> set scope"
  shows "facts_from_builder flds (collect_authoritative_fields sample_legacy scope) =
    map (\<lambda>f. (f, JString ''executing'')) (filter (\<lambda>f. f = ''harness_phase'') flds)"
  using assms hp_builder
  by (induction flds) (auto simp: facts_from_builder_def collect_authoritative_get sample_get)

lemma sample_facts:
  "facts_from_builder RunMetadataEventFacts_fields (migration_run_metadata_state_fields sample_legacy) = phase_fact"
  "facts_from_builder DispatchEventFacts_fields (migration_dispatch_state_fields sample_legacy) = phase_fact"
  "facts_from_builder RepairEventFacts_fields (migration_repair_state_fields sample_legacy) = phase_fact"
  "facts_from_builder StrategyEventFacts_fields (migration_strategy_state_fields sample_legacy) = phase_fact"
  unfolding migration_run_metadata_state_fields_def migration_dispatch_state_fields_def
    migration_repair_state_fields_def migration_strategy_state_fields_def
  by (subst sample_fact_list; simp add: RUN_METADATA_FIELDS_def STRATEGY_EVENT_FIELDS_def
      RunMetadataEventFacts_fields_def DispatchEventFacts_fields_def RepairEventFacts_fields_def
      StrategyEventFacts_fields_def)+

lemma sample_entries: "entries_at sample_legacy f = []" 
  by (simp add: entries_at_def sample_get)

lemma sample_string: "f \<noteq> ''harness_phase'' \<Longrightarrow> json_string sample_legacy f = None"
  by (simp add: json_string_def sample_get)

lemma sample_no_scalars: "''harness_phase'' \<notin> set flds \<Longrightarrow> \<not> legacy_current_scalar_fields_present sample_legacy flds"
  by (auto simp: legacy_current_scalar_fields_present_def list_ex_iff sample_get is_some_and_def)

lemma sample_replay:
  "migration_replay_events_from_legacy_state cd sample_legacy =
    [PreflightBootstrapRecorded phase_fact, DispatchRecorded None None phase_fact,
     RepairFollowUpCleared phase_fact, StrategyCheckpointCleared phase_fact]"
proof -
  have "replay_bootstrap_and_open_step sample_legacy = [(0, PreflightBootstrapRecorded phase_fact)]"
    by (simp add: replay_bootstrap_and_open_step_def sample_facts json_u32_from_path_def sample_get Let_def)
  moreover have "replay_completed_steps sample_legacy = []"
    by (simp add: replay_completed_steps_def legacy_completed_step_events_def sample_get Let_def)
  moreover have "replay_closures sample_legacy = []"
    by (simp add: replay_closures_def collect_history_replay_events_def sample_entries sample_string)
  moreover have "replay_release_readiness sample_legacy = []" "replay_final_review sample_legacy = []"
      "replay_qa sample_legacy = []"
    by (simp_all add: replay_release_readiness_def replay_final_review_def replay_qa_def
       collect_history_replay_events_def sample_entries sample_no_scalars)
  moreover have "replay_dispatch_and_handoff sample_legacy = [(0, DispatchRecorded None None phase_fact)]"
    by (simp add: replay_dispatch_and_handoff_def sample_facts sample_string sample_get Let_def FIELD_HANDOFF_REQUIRED_def)
  moreover have "replay_repair_and_strategy cd sample_legacy =
      [(0, RepairFollowUpCleared phase_fact), (0, StrategyCheckpointCleared phase_fact)]"
    by (simp add: replay_repair_and_strategy_def sample_facts sample_string sample_get Let_def
        repair_follow_up_record_from_state_def)
  ultimately show ?thesis
    by (simp add: migration_replay_events_from_legacy_state_def migration_pushed_events_def)
qed


definition sample_branch :: BranchContext where
  "sample_branch = \<lparr>bc_repo_slug = ''repo'', bc_branch_name = ''main'', bc_safe_branch = ''main''\<rparr>"

definition sample_env :: "nat \<Rightarrow> string \<Rightarrow> ExecutionEvent \<Rightarrow> ExecutionEventEnvelope" where
  "sample_env n cmd ev =
     \<lparr>schema_version = 1, event_id = ''evt-'' @ show_nat n @ ''-0123456789ab'', sequence = n,
      timestamp = ''t0'', command = cmd, plan_path = None, plan_revision = None,
      execution_run_id = None, branch_context = sample_branch,
      previous_event_hash = (if n = 1 then None else Some ''0123456789abcdef''),
      event_hash = ''0123456789abcdef'', payload = ev\<rparr>"

definition sample_staged :: "ExecutionEventEnvelope list" where
  "sample_staged =
     [sample_env 1 ''migrate_legacy_authoritative_state'' (MigrationImported ''d/state.legacy.json''),
      sample_env 2 ''migrate_legacy_authoritative_state_replay'' (PreflightBootstrapRecorded phase_fact),
      sample_env 3 ''migrate_legacy_authoritative_state_replay'' (DispatchRecorded None None phase_fact),
      sample_env 4 ''migrate_legacy_authoritative_state_replay'' (RepairFollowUpCleared phase_fact),
      sample_env 5 ''migrate_legacy_authoritative_state_replay'' (StrategyCheckpointCleared phase_fact)]"

definition sample_migration_codec :: event_codec where
  "sample_migration_codec =
     \<lparr>hash_shape_json = (\<lambda>_. Inr ''shape''), sha256_hex = (\<lambda>_. ''0123456789abcdef''),
      envelope_json = (\<lambda>e. Inr (show_nat (sequence e))),
      envelope_parse =
        (\<lambda>line. case find (\<lambda>e. show_nat (sequence e) = line) sample_staged of
           None \<Rightarrow> Inl ''unread'' | Some e \<Rightarrow> Inr e),
      follow_up_decode = (\<lambda>_. None)\<rparr>"

definition sample_value_codec :: value_codec where
  "sample_value_codec = \<lparr>value_parse = (\<lambda>_. Inr sample_legacy), value_display = (\<lambda>_. [])\<rparr>"

definition sample_migration_dir :: migration_dir where
  "sample_migration_dir =
     \<lparr>mg_log = \<lparr>ld_dir = ''d'', ld_path = ''d/events.jsonl'', ld_events = Absent,
        ld_lock_path = ''d/events.lock'', ld_lock = Absent\<rparr>,
      mg_state_path = ''d/state.json'', mg_state = Regular (Inr ''{}''),
      mg_backup_path = ''d/state.legacy.json'', mg_backup = Absent\<rparr>"

definition sample_migration_faults :: migration_faults where
  "sample_migration_faults =
     \<lparr>mf_io = no_faults, mf_events_metadata = None, mf_unreadable_len = 0, mf_state_vanished = False,
      mf_backup = None, mf_publish = None\<rparr>"

lemma show_small: "show_nat 1 = ''1''" "show_nat 2 = ''2''" "show_nat 3 = ''3''" "show_nat 4 = ''4''"
  "show_nat 5 = ''5''"
  by code_simp+

lemma sample_metadata:
  "migration_metadata [] (Some sample_branch) None sample_legacy =
   \<lparr>md_command = ''migrate_legacy_authoritative_state'', md_plan_path = None, md_plan_revision = None,
    md_execution_run_id = None, md_branch_context = sample_branch\<rparr>"
  by (simp add: migration_metadata_def sample_string json_u32_def json_string_from_path_def sample_get)

lemma sample_next_env:
  assumes "prior \<noteq> []" "sequence (last prior) = n" "event_hash (last prior) = ''0123456789abcdef''" "0 < n" "n < 100"
  shows "next_event_envelope sample_migration_codec ''t0'' prior
    \<lparr>md_command = cmd, md_plan_path = None, md_plan_revision = None,
     md_execution_run_id = None, md_branch_context = sample_branch\<rparr> ev = Inr (sample_env (n + 1) cmd ev)"
  using assms
  by (simp add: next_event_envelope_def last_event_def Let_def compute_event_hash_def sample_migration_codec_def
      sample_env_def saturating_add_u64_def u64_max_def EVENT_LOG_SCHEMA_VERSION_def)

lemma sample_first_env:
  "next_event_envelope sample_migration_codec ''t0'' []
    \<lparr>md_command = cmd, md_plan_path = None, md_plan_revision = None,
     md_execution_run_id = None, md_branch_context = sample_branch\<rparr> ev = Inr (sample_env 1 cmd ev)"
  by (simp add: next_event_envelope_def last_event_def Let_def compute_event_hash_def sample_migration_codec_def
      sample_env_def EVENT_LOG_SCHEMA_VERSION_def)

lemma sample_env_simps: "sequence (sample_env n c e) = n" "event_hash (sample_env n c e) = ''0123456789abcdef''"
  "payload (sample_env n c e) = e"
  by (simp_all add: sample_env_def)

lemma sample_stage:
  "stage_migration sample_migration_codec (\<lambda>_. ''t0'')
     (migration_metadata [] (Some sample_branch) None sample_legacy) ''d/state.legacy.json'' sample_legacy =
   Inr sample_staged"
  by (simp add: stage_migration_def sample_metadata sample_first_env sample_replay sample_next_env
      sample_env_simps sample_staged_def eval_nat_numeral)

lemma sample_lines: "\<forall>e\<in>set sample_staged. \<exists>l. line_ok sample_migration_codec e l"
proof -
  have "line_ok sample_migration_codec e (show_nat (sequence e))" if "e \<in> set sample_staged" for e
    using that by (auto simp: sample_staged_def sample_migration_codec_def line_ok_def sample_env_simps
        show_small show_small(1)[simplified] is_ws_def)
  then show ?thesis by blast
qed

lemma sample_reduce: "reduce_events_to_state sample_staged = Some sample_legacy"
  by (simp add: sample_legacy_def sample_staged_def sample_env_def sample_branch_def) code_simp

lemma sample_parity: "validate_migration_parity vc sample_legacy sample_staged = Inr ()"
  by (simp add: validate_migration_parity_def sample_reduce validate_migration_replay_coverage_def Let_def
      expected_record_status_transitions_from_legacy_def collect_expected_record_status_transitions_def
      expected_current_task_closure_replay_def expected_completed_step_replay_def sample_entries
      legacy_completed_step_events_def sample_get btree_difference_Nil)

lemma sample_to_migrate:
  "legacy_state_to_migrate sample_value_codec sample_migration_faults sample_migration_dir =
   Inr (Some (''{}'', sample_legacy))"
  by (simp add: legacy_state_to_migrate_def sample_value_codec_def sample_migration_faults_def
      sample_migration_dir_def sample_legacy_def)

definition sample_unnamed :: json where
  "sample_unnamed =
     JObject [(''current_task_closure_records'', JObject [(''task-1'', JObject [(''task'', JInt 1)])])]"

lemma sample_unnamed_not_covered:
  "\<not> closure_entry_covered sample_unnamed (''task-1'', JObject [(''task'', JInt 1)])"
  by (simp add: closure_entry_covered_def closure_entries_def sample_unnamed_def usable_closure_id_def
      entries_at_def obj_get_def trim_nonempty_def) code_simp

lemma sample_unnamed_entry:
  "(''task-1'', JObject [(''task'', JInt 1)]) \<in> set (entries_at sample_unnamed ''current_task_closure_records'')"
  by (simp add: sample_unnamed_def entries_at_def obj_get_def)

lemma stage_events_total:
  assumes "\<And>shape. \<exists>s. hash_shape_json cd shape = Inr s"
  shows "\<exists>es. stage_events cd clock md staged ps = Inr es"
proof (induction ps arbitrary: staged)
  case (Cons p ps)
  obtain e where "next_event_envelope cd (clock (length staged)) staged md p = Inr e"
    using next_event_envelope_total [OF assms] by blast
  with Cons show ?case by simp
qed simp

lemma stage_migration_total:
  assumes "\<And>shape. \<exists>s. hash_shape_json cd shape = Inr s"
  shows "\<exists>es. stage_migration cd clock md backup state = Inr es"
proof -
  obtain e where "next_event_envelope cd (clock 0) []
      (md\<lparr>md_command := ''migrate_legacy_authoritative_state''\<rparr>) (MigrationImported backup) = Inr e"
    using next_event_envelope_total [OF assms] by blast
  then show ?thesis using stage_events_total [OF assms] by (simp add: stage_migration_def)
qed

lemma coverage_iff:
  assumes "stage_migration cd clock md backup state = Inr staged"
  shows "validate_migration_replay_coverage state staged =
    (if \<forall>ke\<in>set (entries_at state ''current_task_closure_records''). closure_entry_covered state ke
     then Inr ()
     else Inl (coverage_failure ''current task-closure events''
       (debug_list debug_task_closure_expectation
         (btree_difference (expected_current_task_closure_replay state)
           (observed_task_closure_replay (migration_replay_events_from_legacy_state cd state))))))"
proof -
  let ?r = "migration_replay_events_from_legacy_state cd state"
  have m: "map payload staged = MigrationImported backup # ?r" by (rule stage_migration_Inr(2) [OF assms])
  have o: "observed_record_status_transitions (MigrationImported backup # ?r) = observed_record_status_transitions ?r"
    "observed_task_closure_replay (MigrationImported backup # ?r) = observed_task_closure_replay ?r"
    "observed_completed_step_replay (MigrationImported backup # ?r) = observed_completed_step_replay ?r"
    by (simp_all add: observed_record_status_transitions_def observed_task_closure_replay_def
        observed_completed_step_replay_def List.map_filter_simps)
  show ?thesis
    unfolding validate_migration_replay_coverage_def Let_def m o btree_difference_Nil
    using migration_transitions_covered [of state cd] migration_steps_covered [of state cd]
      migration_closures_covered [of state cd] by (simp only: simp_thms if_True if_False) simp
qed

lemma uncovered_staging_fails:
  assumes "ke \<in> set (entries_at state ''current_task_closure_records'')" "\<not> closure_entry_covered state ke"
    "stage_migration cd clock md backup state = Inr staged"
  shows "validate_migration_parity vc state staged \<noteq> Inr ()"
proof -
  have "validate_migration_replay_coverage state staged \<noteq> Inr ()"
    unfolding coverage_iff [OF assms(3)] using assms(1,2) by auto
  then show ?thesis
    by (auto simp: validate_migration_parity_def Let_def split: option.splits if_splits)
qed

subsection \<open>Properties\<close>

text \<open>C29. Migrating a branch directory that has a legacy state and no events, when nothing fails,
  the parity check passes and the written lines read back: the migration returns success, keeps the
  legacy text as the backup and leaves a log that loads to a state with the same parity projection
  as the legacy state; migrating again changes nothing.\<close>

theorem migration_round_trip:
  assumes "in_flight_migration_payload payloads sp = None"
    and "legacy_state_to_migrate vc mf d = Inr (Some (src, state))"
    and "mf_io mf = no_faults" "mf_events_metadata mf = None" "mf_backup mf = None" "mf_publish mf = None"
    and "ld_lock (mg_log d) = Absent"
    and "load_event_log cd (ld_path (mg_log d)) (ld_events (mg_log d)) = Inr []"
    and "stage_migration cd clock (migration_metadata sp fb plan state) (mg_backup_path d) state = Inr staged"
    and "validate_migration_parity vc state staged = Inr ()"
    and "\<forall>e\<in>set staged. \<exists>l. line_ok cd e l"
  shows "\<exists>d' reduced.
    ensure_event_log_migrated_from_legacy_state_path cd vc mf clock payloads sp fb plan d = (Inr (), d') \<and>
    mg_backup d' = mg_state d \<and> mg_state d' = mg_state d \<and> ld_lock (mg_log d') = Absent \<and>
    load_event_log cd (ld_path (mg_log d')) (ld_events (mg_log d')) = Inr staged \<and>
    load_reduced_authoritative_state cd (mg_log d') = Inr (Some reduced) \<and>
    migration_parity_projection reduced = migration_parity_projection state \<and>
    ensure_event_log_migrated_from_legacy_state_path cd vc mf clock payloads sp fb plan d' = (Inr (), d')"
proof -
  obtain content where c: "serialize_event_log cd (ld_path (mg_log d)) staged = Inr content"
    "staged \<noteq> [] \<longrightarrow> content \<noteq> []"
    using serialize_total [OF assms(11)] by blast
  have ne: "content \<noteq> []" using stage_migration_Inr(3) [OF assms(9)] c(2)
    by (simp add: event_log_contains_only_migration_import_def)
  let ?d = "d\<lparr>mg_backup := Regular (Inr src), mg_log := (mg_log d)\<lparr>ld_events := Regular (Inr content)\<rparr>\<rparr>"
  have e: "ensure_event_log_migrated_from_legacy_state_path cd vc mf clock payloads sp fb plan d = (Inr (), ?d)"
    by (rule ensure_migrated_ok) (fact assms c)+
  have l: "load_event_log cd (ld_path (mg_log d)) (Regular (Inr content)) = Inr staged"
    by (rule load_serialized [OF c(1) assms(11)])
  obtain reduced where r: "reduce_events_to_state staged = Some reduced"
    "migration_parity_projection reduced = migration_parity_projection state"
    using parity_Inr [OF assms(10)] by blast
  have "load_reduced_authoritative_state cd (mg_log ?d) = Inr (Some reduced)"
    using l r(1) stage_migration_Inr(1) [OF assms(9)] by (simp add: load_reduced_authoritative_state_def)
  moreover have "ensure_event_log_migrated_from_legacy_state_path cd vc mf clock payloads sp fb plan ?d = (Inr (), ?d)"
    by (rule migrated_again [OF ne assms(4)]) simp
  ultimately show ?thesis
    using e l r(2) assms(7) legacy_state_to_migrate_Some(1) [OF assms(2)] by (intro exI [of _ ?d] exI [of _ reduced]) simp
qed

theorem migration_round_trip_witness:
  "\<exists>d' reduced.
    ensure_event_log_migrated_from_legacy_state_path sample_migration_codec sample_value_codec
      sample_migration_faults (\<lambda>_. ''t0'') (\<lambda>_. None) [] (Some sample_branch) None sample_migration_dir = (Inr (), d') \<and>
    load_reduced_authoritative_state sample_migration_codec (mg_log d') = Inr (Some reduced) \<and>
    migration_parity_projection reduced = migration_parity_projection sample_legacy"
proof -
  have d: "mg_backup_path sample_migration_dir = ''d/state.legacy.json''"
    "ld_lock (mg_log sample_migration_dir) = Absent" "ld_events (mg_log sample_migration_dir) = Absent"
    by (simp_all add: sample_migration_dir_def)
  have f: "mf_io sample_migration_faults = no_faults" "mf_events_metadata sample_migration_faults = None"
    "mf_backup sample_migration_faults = None" "mf_publish sample_migration_faults = None"
    by (simp_all add: sample_migration_faults_def)
  have "load_event_log sample_migration_codec (ld_path (mg_log sample_migration_dir))
      (ld_events (mg_log sample_migration_dir)) = Inr []"
    by (simp add: d load_event_log_def)
  from migration_round_trip [of "\<lambda>_. None" "[]", OF _ sample_to_migrate f d(2) this
      sample_stage [folded d(1)] sample_parity sample_lines]
  show ?thesis by (auto simp: in_flight_migration_payload_def)
qed

text \<open>C30. Whatever the operating system does, the migration never touches the legacy state file; the
  lock is as before, or it was free and the migration's own lock file could not be removed; and it
  changes the event log only by returning success on a log that was absent or
  empty; what it writes is then the complete serialisation of a staged log that validates, passed the
  parity check and begins with the import event, and the backup holds the legacy text.\<close>

theorem migration_never_overwrites:
  "case ensure_event_log_migrated_from_legacy_state_path cd vc mf clock payloads sp fb plan d of (r, d') \<Rightarrow>
     mg_state d' = mg_state d \<and> lock_as_before (mf_io mf) (mg_log d) (ld_lock (mg_log d')) \<and>
     (ld_events (mg_log d') = ld_events (mg_log d) \<or>
      (r = Inr () \<and> ld_events (mg_log d) \<in> {Absent, Regular (Inr [])} \<and> mg_backup d' = mg_state d \<and>
       (\<exists>src state staged content.
          mg_state d = Regular (Inr src) \<and> value_parse vc src = Inr state \<and>
          ld_events (mg_log d') = Regular (Inr content) \<and>
          serialize_event_log cd (ld_path (mg_log d)) staged = Inr content \<and>
          validate_event_log cd staged = Inr () \<and> event_log_contains_only_migration_import staged \<and>
          validate_migration_parity vc state staged = Inr ())))"
proof (cases "ensure_event_log_migrated_from_legacy_state_path cd vc mf clock payloads sp fb plan d")
  case (Pair r d')
  then show ?thesis
  proof (cases rule: ensure_migrated_cases)
    case (migrated src state staged content)
    then show ?thesis
      using Pair empty_log_text [OF migrated(1,6)] legacy_state_to_migrate_Some(1,2) [OF migrated(1)]
        stage_migration_Inr(1,3) [OF migrated(2)] by auto
  qed (simp_all add: Pair lock_as_before_def)
qed

text \<open>On the staged events the coverage check can fail in one way only: status transitions and
  completed steps are always covered, and a current task closure is covered exactly when its entry
  names its identifier, has a blank key, or some other closure entry of the task has its key as
  identifier.\<close>

theorem migration_coverage:
  assumes "stage_migration cd clock md backup state = Inr staged"
  shows "(validate_migration_replay_coverage state staged = Inr () \<longleftrightarrow>
      (\<forall>ke\<in>set (entries_at state ''current_task_closure_records''). closure_entry_covered state ke)) \<and>
    (\<forall>err. validate_migration_replay_coverage state staged = Inl err \<longrightarrow>
      error_class err = failure_class_as_str BlockedRuntimeBug)"
  unfolding coverage_iff [OF assms] by (auto simp: coverage_failure_def json_failure_def)

theorem migration_coverage_witness:
  "\<exists>staged. stage_migration sample_migration_codec (\<lambda>_. ''t0'')
      (migration_metadata [] None None sample_unnamed) ''b'' sample_unnamed = Inr staged \<and>
    validate_migration_replay_coverage sample_unnamed staged \<noteq> Inr ()"
proof -
  obtain staged where s: "stage_migration sample_migration_codec (\<lambda>_. ''t0'')
      (migration_metadata [] None None sample_unnamed) ''b'' sample_unnamed = Inr staged"
    using stage_migration_total [of sample_migration_codec] by (fastforce simp: sample_migration_codec_def)
  have "validate_migration_replay_coverage sample_unnamed staged \<noteq> Inr ()"
    using migration_coverage [OF s] sample_unnamed_not_covered sample_unnamed_entry by blast
  with s show ?thesis by blast
qed

text \<open>A legacy state with a current task closure whose entry names no identifier, whose key is not
  blank and whose key no closure entry of the task names cannot be migrated: the operation returns an
  error and leaves the log as it was, although the entry would be a valid expectation of the check
  under its key.\<close>

theorem unnamed_closure_blocks_migration:
  assumes "in_flight_migration_payload payloads sp = None"
    and "legacy_state_to_migrate vc mf d = Inr (Some (src, state))"
    and "ke \<in> set (entries_at state ''current_task_closure_records'')"
    and "\<not> closure_entry_covered state ke"
  shows "\<exists>err d'. ensure_event_log_migrated_from_legacy_state_path cd vc mf clock payloads sp fb plan d = (Inl err, d') \<and>
    mg_log d' = mg_log d"
proof -
  let ?staging = "res_bind (stage_migration cd clock (migration_metadata sp fb plan state) (mg_backup_path d) state)
      (\<lambda>staged. res_bind (validate_event_log cd staged)
        (\<lambda>_. res_bind (validate_migration_parity vc state staged) (\<lambda>_. Inr staged)))"
  have "?staging \<noteq> Inr staged" for staged
    using uncovered_staging_fails [OF assms(3,4)] by (auto simp: res_bind_Inr)
  then obtain err where "?staging = Inl err" by (cases ?staging) auto
  then show ?thesis
    by (cases "mf_backup mf")
       (simp_all add: ensure_event_log_migrated_from_legacy_state_path_def assms(1,2))
qed

definition sample_unnamed_codec :: value_codec where
  "sample_unnamed_codec = \<lparr>value_parse = (\<lambda>_. Inr sample_unnamed), value_display = (\<lambda>_. [])\<rparr>"

theorem unnamed_closure_blocks_migration_witness:
  "\<exists>err d'. ensure_event_log_migrated_from_legacy_state_path sample_migration_codec sample_unnamed_codec
      sample_migration_faults (\<lambda>_. ''t0'') (\<lambda>_. None) [] None None sample_migration_dir = (Inl err, d')"
proof -
  have "legacy_state_to_migrate sample_unnamed_codec sample_migration_faults sample_migration_dir =
      Inr (Some (''{}'', sample_unnamed))"
    by (simp add: legacy_state_to_migrate_def sample_unnamed_codec_def sample_migration_faults_def
        sample_migration_dir_def sample_unnamed_def)
  moreover have "in_flight_migration_payload (\<lambda>_. None) [] = None"
    by (simp add: in_flight_migration_payload_def)
  ultimately show ?thesis
    using unnamed_closure_blocks_migration [OF _ _ sample_unnamed_entry sample_unnamed_not_covered] by blast
qed

end
