(* ===== verification/Plan_Discovery.thy ===== *)
theory Plan_Discovery
  imports Paths Str_Ops "HOL-Library.Multiset"
begin

text \<open>
  Finding the approved plan of a repository when the state names none
  (\<^verbatim>\<open>src/src/execution/approved_plan_discovery.rs\<close>).

  The tree below \<^verbatim>\<open>docs/featureforge/plans\<close> is a value: a directory whose listing fails is
  \<open>None\<close>, an entry whose metadata cannot be read is \<open>NoMetadata\<close>, and an entry that is neither a
  directory nor a regular file is \<open>OtherEntry\<close>.  Entries the listing itself fails on are dropped by
  the code and do not appear.  Names are text.

  The walk keeps a stack of directories and stops at the second candidate; the theorem says what it
  computes without the stack.
\<close>

datatype dir_entry =
    DirEntry string "dir_entry list option"
  | FileEntry string "string option"
  | OtherEntry string
  | NoMetadata string

definition join_path :: "string \<Rightarrow> string \<Rightarrow> string" where
  "join_path p name = p @ ''/'' @ name"

text \<open>\<^verbatim>\<open>Path::extension\<close> of a file name: what follows the last dot, unless that dot is the first
  character.\<close>

definition path_extension :: "string \<Rightarrow> string option" where
  "path_extension name =
     (let parts = split_on (CHR ''.'') name in
      if name = ''..'' \<or> length parts < 2 \<or> (length parts = 2 \<and> hd parts = []) then None
      else Some (last parts))"

definition approved_plan_source :: "string \<Rightarrow> bool" where
  "approved_plan_source source \<longleftrightarrow> str_contains source ''**Workflow State:** Engineering Approved''"

definition approved_plan_file :: "string \<Rightarrow> string option \<Rightarrow> bool" where
  "approved_plan_file name source \<longleftrightarrow>
     path_extension name = Some ''md'' \<and> (case source of None \<Rightarrow> False | Some s \<Rightarrow> approved_plan_source s)"

type_synonym plan_stack = "(string \<times> dir_entry list option) list"

text \<open>The inner loop over the entries of one directory; \<open>None\<close> is the early return at the second
  candidate.\<close>

fun scan_plan_entries ::
  "string \<Rightarrow> dir_entry list \<Rightarrow> plan_stack \<Rightarrow> string list \<Rightarrow> (plan_stack \<times> string list) option" where
  "scan_plan_entries p [] st cs = Some (st, cs)"
| "scan_plan_entries p (DirEntry name sub # es) st cs =
     scan_plan_entries p es ((join_path p name, sub) # st) cs"
| "scan_plan_entries p (FileEntry name source # es) st cs =
     (if \<not> approved_plan_file name source then scan_plan_entries p es st cs
      else (let cs' = cs @ [replace_backslashes (join_path p name)] in
            if 1 < length cs' then None else scan_plan_entries p es st cs'))"
| "scan_plan_entries p (OtherEntry name # es) st cs = scan_plan_entries p es st cs"
| "scan_plan_entries p (NoMetadata name # es) st cs = scan_plan_entries p es st cs"

definition stack_weight :: "plan_stack \<Rightarrow> nat" where
  "stack_weight st = sum_list (map (\<lambda>d. size_option (size_list size) (snd d)) st)"

lemma scan_weight:
  "scan_plan_entries p es st cs = Some (st', cs') \<Longrightarrow> stack_weight st' \<le> stack_weight st + size_list size es"
  by (induction p es st cs rule: scan_plan_entries.induct)
     (auto simp: stack_weight_def Let_def split: if_splits)

function walk_plan_dirs :: "plan_stack \<Rightarrow> string list \<Rightarrow> string option" where
  "walk_plan_dirs [] cs = (if cs = [] then None else Some (last cs))"
| "walk_plan_dirs ((p, None) # st) cs = None"
| "walk_plan_dirs ((p, Some es) # st) cs =
     (case scan_plan_entries p es st cs of None \<Rightarrow> None | Some (st', cs') \<Rightarrow> walk_plan_dirs st' cs')"
  by pat_completeness auto
termination
  by (relation "measure (\<lambda>(st, cs). stack_weight st)")
     (auto dest!: scan_weight simp: stack_weight_def)

definition infer_unique_engineering_approved_plan_path :: "dir_entry list option \<Rightarrow> string option" where
  "infer_unique_engineering_approved_plan_path plans_dir =
     walk_plan_dirs [(''docs/featureforge/plans'', plans_dir)] []"

subsection \<open>What the walk computes\<close>

fun entry_readable :: "dir_entry \<Rightarrow> bool" where
  "entry_readable (DirEntry name None) = False"
| "entry_readable (DirEntry name (Some es)) = (\<forall>e\<in>set es. entry_readable e)"
| "entry_readable (FileEntry name source) = True"
| "entry_readable (OtherEntry name) = True"
| "entry_readable (NoMetadata name) = True"

fun entry_plans :: "string \<Rightarrow> dir_entry \<Rightarrow> string list" where
  "entry_plans p (DirEntry name None) = []"
| "entry_plans p (DirEntry name (Some es)) = concat (map (entry_plans (join_path p name)) es)"
| "entry_plans p (FileEntry name source) =
     (if approved_plan_file name source then [replace_backslashes (join_path p name)] else [])"
| "entry_plans p (OtherEntry name) = []"
| "entry_plans p (NoMetadata name) = []"

definition dir_readable :: "dir_entry list option \<Rightarrow> bool" where
  "dir_readable d = (case d of None \<Rightarrow> False | Some es \<Rightarrow> (\<forall>e\<in>set es. entry_readable e))"

definition dir_plans :: "string \<Rightarrow> dir_entry list option \<Rightarrow> string list" where
  "dir_plans p d = (case d of None \<Rightarrow> [] | Some es \<Rightarrow> concat (map (entry_plans p) es))"

definition stack_readable :: "plan_stack \<Rightarrow> bool" where
  "stack_readable st \<longleftrightarrow> (\<forall>d\<in>set st. dir_readable (snd d))"

definition stack_plans :: "plan_stack \<Rightarrow> string list" where
  "stack_plans st = concat (map (\<lambda>d. dir_plans (fst d) (snd d)) st)"

lemma entry_dir: "entry_readable (DirEntry name sub) = dir_readable sub"
  "entry_plans p (DirEntry name sub) = dir_plans (join_path p name) sub"
  by (cases sub; simp add: dir_readable_def dir_plans_def)+

lemma scan_result:
  assumes "length cs \<le> 1"
  shows "case scan_plan_entries p es st cs of
      None \<Rightarrow> 1 < length (cs @ concat (map (entry_plans p) es))
    | Some (st', cs') \<Rightarrow> length cs' \<le> 1 \<and>
        mset (cs' @ stack_plans st') = mset (cs @ concat (map (entry_plans p) es) @ stack_plans st) \<and>
        (stack_readable st' \<longleftrightarrow> stack_readable st \<and> (\<forall>e\<in>set es. entry_readable e))"
  using assms
proof (induction p es st cs rule: scan_plan_entries.induct)
  case (2 p name sub es st cs)
  then show ?case
    by (auto simp: entry_dir stack_plans_def stack_readable_def ac_simps split: option.splits)
next
  case (3 p name source es st cs)
  then show ?case
    by (cases "approved_plan_file name source"; cases "cs = []")
       (auto simp: Let_def ac_simps split: option.splits)
qed (auto split: option.splits)

lemma walk_result:
  "length cs \<le> 1 \<Longrightarrow>
   walk_plan_dirs st cs = Some q \<longleftrightarrow> stack_readable st \<and> mset (cs @ stack_plans st) = {#q#}"
proof (induction st cs rule: walk_plan_dirs.induct)
  case (1 cs)
  then show ?case by (cases cs) (auto simp: stack_readable_def stack_plans_def)
next
  case (2 p st cs)
  then show ?case by (simp add: stack_readable_def dir_readable_def)
next
  case (3 p es st cs)
  note r = scan_result [OF 3(2), of p es st]
  have st: "stack_readable ((p, Some es) # st) \<longleftrightarrow> stack_readable st \<and> (\<forall>e\<in>set es. entry_readable e)"
    "stack_plans ((p, Some es) # st) = concat (map (entry_plans p) es) @ stack_plans st"
    by (auto simp: stack_readable_def stack_plans_def dir_readable_def dir_plans_def)
  show ?case
  proof (cases "scan_plan_entries p es st cs")
    case None
    then have "1 < size (mset (cs @ stack_plans ((p, Some es) # st)))"
      using r by (simp add: st)
    then have "mset (cs @ stack_plans ((p, Some es) # st)) \<noteq> {#q#}" by (metis less_irrefl size_single)
    then show ?thesis using None by simp
  next
    case (Some x)
    obtain st' cs' where x: "x = (st', cs')" by (cases x)
    from 3(1) [OF Some x [symmetric]] r show ?thesis unfolding st by (simp add: Some x)
  qed
qed

lemma mset_singleton_list: "mset xs = {#q#} \<longleftrightarrow> xs = [q]"
  by (metis mset_single_iff)

text \<open>The plan of a repository is inferred exactly when every directory below the plans
  directory can be listed and exactly one regular markdown file there says it is engineering approved;
  the result is that file, whatever the order of the listing.\<close>

theorem unique_plan_inferred:
  "infer_unique_engineering_approved_plan_path plans_dir = Some q \<longleftrightarrow>
   dir_readable plans_dir \<and> dir_plans ''docs/featureforge/plans'' plans_dir = [q]"
  unfolding infer_unique_engineering_approved_plan_path_def
  by (subst walk_result) (simp_all add: stack_readable_def stack_plans_def mset_singleton_list)

end
