(* ===== verification/Closure_Graph.thy ===== *)
theory Closure_Graph
  imports Json_Value Runtime_Tokens Paths "HOL-Library.Product_Lexorder"
begin

text \<open>
  The graph of closure records (\<^verbatim>\<open>src/src/execution/closure_graph.rs\<close>): which task closure, branch
  closure and late-stage milestone is current, which are superseded and which are stale.

  The graph is built from a snapshot of the histories in the authoritative state, a JSON object per
  history, and from signals about late-stage staleness.  A \<^verbatim>\<open>BTreeMap\<close> is an association list with
  increasing keys (\<open>Json_Value\<close>), so iteration is in key order as in the code.

  The invariant \<open>graph_wf\<close> ties every evaluation to its key, kind, scope and task; the theorems say
  which evaluations the current indexes point at.
\<close>

datatype ClosureScope = TaskScope | BranchScope | MilestoneScope

datatype ClosureKind = TaskClosure | BranchClosure | ReleaseReadiness | FinalReview | BrowserQa

datatype ClosureFreshness = Current | Superseded | StaleUnreviewed | Historical

record ClosureIdentity =
  ci_record_id :: string
  ci_kind :: ClosureKind
  ci_scope :: ClosureScope
  ci_task_number :: "nat option"
  ci_plan_path :: string
  ci_plan_fingerprint :: string
  ci_repo_head_sha :: "string option"
  ci_tracked_tree_fingerprint :: "string option"
  ci_authoritative_sequence :: nat

record ClosureDependencyBinding =
  depends_on_record_ids :: "string list"
  source_artifact_fingerprints :: "string list"

record ClosureEvaluation =
  identity :: ClosureIdentity
  freshness :: ClosureFreshness
  supersedes :: "string option"
  stale_reason_codes :: "string list"
  dependency_binding :: ClosureDependencyBinding

record ClosureGraphSignals =
  sg_current_branch_closure_id :: "string option"
  sg_overlay_current_branch_closure_id :: "string option"
  sg_finish_review_gate_pass_branch_closure_id :: "string option"
  sg_current_release_readiness_branch_closure_id :: "string option"
  sg_current_final_review_branch_closure_id :: "string option"
  sg_current_qa_branch_closure_id :: "string option"
  sg_late_stage_stale_unreviewed :: bool
  sg_missing_current_closure_stale_provenance :: bool
  sg_stale_reason_codes :: "string list"

record ClosureHistorySnapshot =
  sn_task_closure_record_history :: json_map
  sn_branch_closure_records :: json_map
  sn_release_readiness_record_history :: json_map
  sn_final_review_record_history :: json_map
  sn_browser_qa_record_history :: json_map
  sn_current_branch_closure_id :: "string option"
  sn_current_release_readiness_record_id :: "string option"
  sn_current_final_review_record_id :: "string option"
  sn_current_qa_record_id :: "string option"
  sn_superseded_task_closure_ids :: "string list"
  sn_superseded_branch_closure_ids :: "string list"

type_synonym evaluations = "(string \<times> ClosureEvaluation) list"

record AuthoritativeClosureGraph =
  g_evaluations :: evaluations
  g_superseded_by :: "(string \<times> string) list"
  g_stale_projection_only_record_ids :: "string list"
  g_bound_branch :: "string option"
  g_bound_release_readiness :: "string option"
  g_bound_final_review :: "string option"
  g_bound_browser_qa :: "string option"
  g_current_task_record_ids :: "(nat \<times> string) list"
  g_current_branch_record_id :: "string option"
  g_current_release_readiness_record_id :: "string option"
  g_current_final_review_record_id :: "string option"
  g_current_browser_qa_record_id :: "string option"

definition graph_default :: AuthoritativeClosureGraph where
  "graph_default =
     \<lparr>g_evaluations = [], g_superseded_by = [], g_stale_projection_only_record_ids = [],
      g_bound_branch = None, g_bound_release_readiness = None, g_bound_final_review = None,
      g_bound_browser_qa = None, g_current_task_record_ids = [], g_current_branch_record_id = None,
      g_current_release_readiness_record_id = None, g_current_final_review_record_id = None,
      g_current_browser_qa_record_id = None\<rparr>"

subsection \<open>Reading a record\<close>

definition value_string :: "json \<Rightarrow> string \<Rightarrow> string option" where
  "value_string payload key = trim_nonempty (Option.bind (json_get payload key) as_str)"

definition value_u64 :: "json \<Rightarrow> string \<Rightarrow> nat option" where
  "value_u64 payload key = Option.bind (json_get payload key) as_u64"

definition value_u32 :: "json \<Rightarrow> string \<Rightarrow> nat option" where
  "value_u32 payload key =
     opt_filter (\<lambda>v. v > 0) (Option.bind (value_u64 payload key) u32_try_from)"

definition value_string_array :: "json \<Rightarrow> string \<Rightarrow> string list" where
  "value_string_array payload key =
     (case Option.bind (json_get payload key) as_array of
        None \<Rightarrow> []
      | Some entries \<Rightarrow> filter (\<lambda>v. v \<noteq> []) (map trim (List.map_filter as_str entries)))"

definition closure_freshness_from_status :: "string \<Rightarrow> ClosureFreshness option" where
  "closure_freshness_from_status status =
     (if status = ''current'' then Some Current
      else if status = ''superseded'' then Some Superseded
      else if status = REVIEW_STATE_STALE_UNREVIEWED then Some StaleUnreviewed
      else if status = ''historical'' then Some Historical
      else None)"

definition value_closure_freshness :: "json \<Rightarrow> ClosureFreshness option" where
  "value_closure_freshness payload =
     Option.bind (opt_or (value_string payload ''closure_status'') (value_string payload ''record_status''))
       closure_freshness_from_status"

definition stale_reason_codes_for_freshness :: "ClosureFreshness \<Rightarrow> string list" where
  "stale_reason_codes_for_freshness f =
     (if f = StaleUnreviewed then [''record_status_stale_unreviewed''] else [])"

definition append_unique :: "string list \<Rightarrow> string \<Rightarrow> string list" where
  "append_unique values v = (if v \<in> set values then values else values @ [v])"

text \<open>The part of the identity all five kinds of record share.\<close>

definition closure_identity ::
  "ClosureKind \<Rightarrow> ClosureScope \<Rightarrow> nat option \<Rightarrow> string \<Rightarrow> json \<Rightarrow> ClosureIdentity" where
  "closure_identity kind scope task_number record_id payload =
     \<lparr>ci_record_id = record_id, ci_kind = kind, ci_scope = scope, ci_task_number = task_number,
      ci_plan_path = unwrap_or [] (value_string payload ''source_plan_path''),
      ci_plan_fingerprint =
        unwrap_or [] (map_option show_nat (value_u32 payload ''source_plan_revision'')),
      ci_repo_head_sha = None,
      ci_tracked_tree_fingerprint = value_string payload ''reviewed_state_id'',
      ci_authoritative_sequence = unwrap_or 0 (value_u64 payload ''record_sequence'')\<rparr>"

definition closure_evaluation ::
  "ClosureIdentity \<Rightarrow> ClosureDependencyBinding \<Rightarrow> json \<Rightarrow> ClosureEvaluation" where
  "closure_evaluation ident binding payload =
     (let f = unwrap_or Current (value_closure_freshness payload) in
      \<lparr>identity = ident, freshness = f, supersedes = None,
       stale_reason_codes = stale_reason_codes_for_freshness f, dependency_binding = binding\<rparr>)"

subsection \<open>Building the graph\<close>

definition upsert_evaluation ::
  "ClosureEvaluation \<Rightarrow> AuthoritativeClosureGraph \<Rightarrow> AuthoritativeClosureGraph" where
  "upsert_evaluation e g =
     (let record_id = ci_record_id (identity e);
          keep_existing = is_some_and (obj_get (g_evaluations g) record_id)
            (\<lambda>existing. ci_authoritative_sequence (identity existing) > ci_authoritative_sequence (identity e))
      in if keep_existing then g
         else g\<lparr>g_evaluations := obj_insert record_id e (g_evaluations g)\<rparr>)"

definition ingest_task_closure ::
  "string \<times> json \<Rightarrow> AuthoritativeClosureGraph \<Rightarrow> AuthoritativeClosureGraph" where
  "ingest_task_closure kv g =
     (let (history_key, payload) = kv in
      case value_u32 payload ''task'' of
        None \<Rightarrow> g
      | Some task_number \<Rightarrow>
          (let record_id = unwrap_or history_key
                 (opt_or (value_string payload ''closure_record_id'') (value_string payload ''record_id''))
           in if trim record_id = [] then g
              else upsert_evaluation
                (closure_evaluation
                  (closure_identity TaskClosure TaskScope (Some task_number) record_id payload)
                  \<lparr>depends_on_record_ids = [],
                   source_artifact_fingerprints =
                     value_string_array payload ''effective_reviewed_surface_paths''\<rparr>
                  payload) g))"

definition ingest_task_closure_history ::
  "json_map \<Rightarrow> AuthoritativeClosureGraph \<Rightarrow> AuthoritativeClosureGraph" where
  "ingest_task_closure_history history g = fold ingest_task_closure history g"

definition ingest_branch_closure ::
  "string \<times> json \<Rightarrow> AuthoritativeClosureGraph \<Rightarrow> AuthoritativeClosureGraph" where
  "ingest_branch_closure kv g =
     (let (history_key, payload) = kv;
          record_id = unwrap_or history_key (value_string payload ''branch_closure_id'')
      in if trim record_id = [] then g
         else
           (let explicit_superseded = value_string_array payload ''superseded_branch_closure_ids'';
                e = closure_evaluation
                  (closure_identity BranchClosure BranchScope None record_id payload)
                  \<lparr>depends_on_record_ids = value_string_array payload ''source_task_closure_ids'',
                   source_artifact_fingerprints =
                     option_list (opt_filter (\<lambda>s. trim s \<noteq> [])
                       (value_string payload ''effective_reviewed_branch_surface''))\<rparr>
                  payload;
                e1 = (case explicit_superseded of [] \<Rightarrow> e | s # _ \<Rightarrow> e\<lparr>supersedes := Some s\<rparr>);
                g1 = g\<lparr>g_superseded_by :=
                  fold (\<lambda>s m. obj_insert s record_id m) explicit_superseded (g_superseded_by g)\<rparr>
            in upsert_evaluation e1 g1))"

text \<open>\<^verbatim>\<open>get_mut\<close> followed by a change of the evaluation found.\<close>

definition modify_evaluation ::
  "string \<Rightarrow> (ClosureEvaluation \<Rightarrow> ClosureEvaluation) \<Rightarrow> AuthoritativeClosureGraph \<Rightarrow>
   AuthoritativeClosureGraph" where
  "modify_evaluation record_id f g =
     (case obj_get (g_evaluations g) record_id of
        None \<Rightarrow> g
      | Some e \<Rightarrow> g\<lparr>g_evaluations := obj_insert record_id (f e) (g_evaluations g)\<rparr>)"

definition ingest_branch_closure_history ::
  "json_map \<Rightarrow> string list \<Rightarrow> AuthoritativeClosureGraph \<Rightarrow> AuthoritativeClosureGraph" where
  "ingest_branch_closure_history records superseded_branch_closure_ids g =
     fold (\<lambda>s. modify_evaluation s
        (\<lambda>e. if freshness e = Current then e\<lparr>freshness := Superseded\<rparr> else e))
       superseded_branch_closure_ids (fold ingest_branch_closure records g)"

definition ingest_release_readiness ::
  "string \<times> json \<Rightarrow> AuthoritativeClosureGraph \<Rightarrow> AuthoritativeClosureGraph" where
  "ingest_release_readiness kv g =
     (let (history_key, payload) = kv;
          record_id = unwrap_or history_key (value_string payload ''record_id'')
      in if trim record_id = [] then g
         else upsert_evaluation
           (closure_evaluation
             (closure_identity ReleaseReadiness MilestoneScope None record_id payload)
             \<lparr>depends_on_record_ids = option_list (value_string payload ''branch_closure_id''),
              source_artifact_fingerprints =
                option_list (value_string payload ''release_docs_fingerprint'')\<rparr>
             payload) g)"

definition ingest_release_readiness_history ::
  "json_map \<Rightarrow> AuthoritativeClosureGraph \<Rightarrow> AuthoritativeClosureGraph" where
  "ingest_release_readiness_history history g = fold ingest_release_readiness history g"

definition append_optional_unique :: "string list \<Rightarrow> string option \<Rightarrow> string list" where
  "append_optional_unique values v = (case v of None \<Rightarrow> values | Some x \<Rightarrow> append_unique values x)"

definition ingest_final_review ::
  "string \<times> json \<Rightarrow> AuthoritativeClosureGraph \<Rightarrow> AuthoritativeClosureGraph" where
  "ingest_final_review kv g =
     (let (history_key, payload) = kv;
          record_id = unwrap_or history_key (value_string payload ''record_id'')
      in if trim record_id = [] then g
         else upsert_evaluation
           (closure_evaluation
             (closure_identity FinalReview MilestoneScope None record_id payload)
             \<lparr>depends_on_record_ids =
                append_optional_unique (option_list (value_string payload ''branch_closure_id''))
                  (value_string payload ''release_readiness_record_id''),
              source_artifact_fingerprints =
                option_list (value_string payload ''final_review_fingerprint'')\<rparr>
             payload) g)"

definition ingest_final_review_history ::
  "json_map \<Rightarrow> AuthoritativeClosureGraph \<Rightarrow> AuthoritativeClosureGraph" where
  "ingest_final_review_history history g = fold ingest_final_review history g"

definition ingest_browser_qa ::
  "string \<times> json \<Rightarrow> AuthoritativeClosureGraph \<Rightarrow> AuthoritativeClosureGraph" where
  "ingest_browser_qa kv g =
     (let (history_key, payload) = kv;
          record_id = unwrap_or history_key (value_string payload ''record_id'')
      in if trim record_id = [] then g
         else upsert_evaluation
           (closure_evaluation
             (closure_identity BrowserQa MilestoneScope None record_id payload)
             \<lparr>depends_on_record_ids =
                append_optional_unique (option_list (value_string payload ''branch_closure_id''))
                  (value_string payload ''final_review_record_id''),
              source_artifact_fingerprints =
                option_list (value_string payload ''browser_qa_fingerprint'') @
                option_list (value_string payload ''source_test_plan_fingerprint'')\<rparr>
             payload) g)"

definition ingest_browser_qa_history ::
  "json_map \<Rightarrow> AuthoritativeClosureGraph \<Rightarrow> AuthoritativeClosureGraph" where
  "ingest_browser_qa_history history g = fold ingest_browser_qa history g"

definition mark_superseded_task :: "ClosureEvaluation \<Rightarrow> ClosureEvaluation" where
  "mark_superseded_task e =
     (if freshness e \<in> {Current, StaleUnreviewed, Historical} then e\<lparr>freshness := Superseded\<rparr> else e)"

definition apply_superseded_task_ids ::
  "string list \<Rightarrow> AuthoritativeClosureGraph \<Rightarrow> AuthoritativeClosureGraph" where
  "apply_superseded_task_ids superseded_task_closure_ids g =
     fold (\<lambda>s. modify_evaluation s mark_superseded_task) superseded_task_closure_ids g"

definition FILES_PROVEN_DRIFTED :: string where
  "FILES_PROVEN_DRIFTED = ''files_proven_drifted''"

definition files_proven_drifted_reason_code :: "string \<Rightarrow> bool" where
  "files_proven_drifted_reason_code reason_code \<longleftrightarrow> reason_code = FILES_PROVEN_DRIFTED"

definition reason_code_indicates_late_stage_control_plane_stale :: "string \<Rightarrow> bool" where
  "reason_code_indicates_late_stage_control_plane_stale reason_code \<longleftrightarrow>
     reason_code = ''review_artifact_worktree_dirty'' \<or>
     reason_code = ''post_review_repo_write_detected'' \<or>
     files_proven_drifted_reason_code reason_code"

definition reason_code_indicates_stale_unreviewed :: "string \<Rightarrow> bool" where
  "reason_code_indicates_stale_unreviewed reason_code \<longleftrightarrow>
     reason_code_indicates_late_stage_control_plane_stale reason_code \<or>
     reason_code = TASK_BOUNDARY_REASON_PRIOR_TASK_CURRENT_CLOSURE_STALE"

definition late_stage_candidate_closure_ids_from_signals :: "ClosureGraphSignals \<Rightarrow> string list" where
  "late_stage_candidate_closure_ids_from_signals signals =
     sort (remdups (filter (\<lambda>c. c \<noteq> []) (map trim
       (concat (map option_list
         [sg_current_branch_closure_id signals,
          sg_overlay_current_branch_closure_id signals,
          sg_finish_review_gate_pass_branch_closure_id signals,
          sg_current_release_readiness_branch_closure_id signals,
          sg_current_final_review_branch_closure_id signals,
          sg_current_qa_branch_closure_id signals])))))"

definition mark_late_stage_stale :: "string list \<Rightarrow> ClosureEvaluation \<Rightarrow> ClosureEvaluation" where
  "mark_late_stage_stale reason_codes e =
     e\<lparr>freshness := (if freshness e \<in> {Current, Superseded} then StaleUnreviewed else freshness e),
       stale_reason_codes := foldl append_unique (stale_reason_codes e) reason_codes\<rparr>"

definition late_stage_stale_active :: "ClosureGraphSignals \<Rightarrow> bool" where
  "late_stage_stale_active signals \<longleftrightarrow>
     (sg_late_stage_stale_unreviewed signals \<or> sg_missing_current_closure_stale_provenance signals) \<and>
     sg_stale_reason_codes signals \<noteq> [] \<and>
     list_ex reason_code_indicates_stale_unreviewed (sg_stale_reason_codes signals)"

text \<open>The body of the loop over the stale targets.\<close>

definition late_stage_step ::
  "ClosureGraphSignals \<Rightarrow> string \<Rightarrow> AuthoritativeClosureGraph \<Rightarrow> AuthoritativeClosureGraph" where
  "late_stage_step signals record_id g =
     (case obj_get (g_evaluations g) record_id of
        Some e \<Rightarrow> modify_evaluation record_id (mark_late_stage_stale (sg_stale_reason_codes signals)) g
      | None \<Rightarrow> g\<lparr>g_stale_projection_only_record_ids :=
          append_unique (g_stale_projection_only_record_ids g) record_id\<rparr>)"

definition apply_late_stage_stale_projection ::
  "ClosureGraphSignals \<Rightarrow> AuthoritativeClosureGraph \<Rightarrow> AuthoritativeClosureGraph" where
  "apply_late_stage_stale_projection signals g =
     (if \<not> late_stage_stale_active signals then g
      else fold (late_stage_step signals) (late_stage_candidate_closure_ids_from_signals signals) g)"

subsection \<open>Surfaces\<close>

definition NO_REPO_FILES_MARKER :: string where
  "NO_REPO_FILES_MARKER = ''__featureforge__/no-repo-files''"

text \<open>The loop that strips leading \<^verbatim>\<open>./\<close>.\<close>

fun strip_dot_slash :: "string \<Rightarrow> string" where
  "strip_dot_slash (a # b # rest) =
     (if a = CHR ''.'' \<and> b = CHR ''/'' then strip_dot_slash rest else a # b # rest)"
| "strip_dot_slash path = path"

definition normalized_task_surface_paths :: "string list \<Rightarrow> string list" where
  "normalized_task_surface_paths paths =
     sort (remdups (filter (\<lambda>p. p \<noteq> [] \<and> p \<noteq> NO_REPO_FILES_MARKER)
       (map (\<lambda>p. strip_dot_slash (replace_backslashes (trim p))) paths)))"

definition path_covers :: "string \<Rightarrow> string \<Rightarrow> bool" where
  "path_covers canonical_path candidate_path \<longleftrightarrow>
     canonical_path = candidate_path \<or>
     is_some_and (strip_prefix candidate_path canonical_path) (\<lambda>suffix. starts_with suffix ''/'')"

definition task_closure_surface_is_same_or_broader :: "ClosureEvaluation \<Rightarrow> ClosureEvaluation \<Rightarrow> bool" where
  "task_closure_surface_is_same_or_broader current older \<longleftrightarrow>
     (let current_surface =
            normalized_task_surface_paths (source_artifact_fingerprints (dependency_binding current));
          older_surface =
            normalized_task_surface_paths (source_artifact_fingerprints (dependency_binding older))
      in if older_surface = [] then True
         else if current_surface = [] then False
         else list_all (\<lambda>p. list_ex (\<lambda>c. path_covers c p) current_surface) older_surface)"

definition task_closure_has_same_plan_scope :: "ClosureEvaluation \<Rightarrow> ClosureEvaluation \<Rightarrow> bool" where
  "task_closure_has_same_plan_scope older current \<longleftrightarrow>
     ci_plan_path (identity older) = ci_plan_path (identity current) \<and>
     ci_plan_fingerprint (identity older) = ci_plan_fingerprint (identity current)"

subsection \<open>The current indexes\<close>

definition bound_current_record_id ::
  "AuthoritativeClosureGraph \<Rightarrow> string option \<Rightarrow> ClosureKind \<Rightarrow> string option" where
  "bound_current_record_id g bound kind =
     (case map_option trim bound of
        None \<Rightarrow> None
      | Some record_id \<Rightarrow>
          if record_id = [] then None
          else (case obj_get (g_evaluations g) record_id of
                  None \<Rightarrow> None
                | Some e \<Rightarrow>
                    if ci_kind (identity e) \<noteq> kind \<or> freshness e \<noteq> Current then None
                    else Some record_id))"

definition bound_current_milestone_record_id ::
  "AuthoritativeClosureGraph \<Rightarrow> string option \<Rightarrow> ClosureKind \<Rightarrow> string option \<Rightarrow> string option \<Rightarrow>
   string option" where
  "bound_current_milestone_record_id g bound kind branch_closure_id required_dependency_id =
     (case (map_option trim bound, map_option trim branch_closure_id) of
        (Some record_id, Some branch) \<Rightarrow>
          if record_id = [] \<or> branch = [] then None
          else (case obj_get (g_evaluations g) record_id of
                  None \<Rightarrow> None
                | Some e \<Rightarrow>
                    (let deps = depends_on_record_ids (dependency_binding e) in
                     if ci_kind (identity e) \<noteq> kind \<or> freshness e \<noteq> Current then None
                     else if (case deps of [] \<Rightarrow> True | d # _ \<Rightarrow> d \<noteq> branch) then None
                     else if is_some_and required_dependency_id (\<lambda>r. r \<notin> set deps) then None
                     else Some record_id))
      | _ \<Rightarrow> None)"

definition current_task_step ::
  "ClosureEvaluation \<Rightarrow> (nat \<times> nat \<times> string) list \<Rightarrow> (nat \<times> nat \<times> string) list" where
  "current_task_step e current =
     (case ci_task_number (identity e) of
        None \<Rightarrow> current
      | Some task_number \<Rightarrow>
          (let seq = ci_authoritative_sequence (identity e);
               entry = unwrap_or (seq, ci_record_id (identity e)) (obj_get current task_number)
           in obj_insert task_number
                (if fst entry \<le> seq then (seq, ci_record_id (identity e)) else entry) current))"

definition current_task_index :: "evaluations \<Rightarrow> (nat \<times> nat \<times> string) list" where
  "current_task_index evs =
     fold current_task_step
       (filter (\<lambda>e. ci_kind (identity e) = TaskClosure \<and> freshness e = Current) (obj_values evs)) []"

definition task_supersession_edge ::
  "AuthoritativeClosureGraph \<Rightarrow> ClosureEvaluation \<Rightarrow> (string \<times> string) option" where
  "task_supersession_edge g e =
     (case ci_task_number (identity e) of
        None \<Rightarrow> None
      | Some task_number \<Rightarrow>
     (case obj_get (g_current_task_record_ids g) task_number of
        None \<Rightarrow> None
      | Some current_record_id \<Rightarrow>
          if current_record_id = ci_record_id (identity e) then None
          else if freshness e = StaleUnreviewed then
            (case obj_get (g_evaluations g) current_record_id of
               None \<Rightarrow> None
             | Some cur \<Rightarrow>
                 if ci_authoritative_sequence (identity cur) \<le> ci_authoritative_sequence (identity e) \<or>
                    \<not> task_closure_has_same_plan_scope e cur \<or>
                    \<not> task_closure_surface_is_same_or_broader cur e
                 then None
                 else Some (ci_record_id (identity e), current_record_id))
          else Some (ci_record_id (identity e), current_record_id)))"

definition task_supersession_edges :: "AuthoritativeClosureGraph \<Rightarrow> (string \<times> string) list" where
  "task_supersession_edges g =
     List.map_filter (task_supersession_edge g)
       (filter (\<lambda>e. ci_kind (identity e) = TaskClosure \<and>
           freshness e \<in> {Superseded, Historical, StaleUnreviewed}) (obj_values (g_evaluations g)))"

definition insert_supersedes ::
  "ClosureEvaluation \<Rightarrow> (string \<times> string) list \<Rightarrow> (string \<times> string) list" where
  "insert_supersedes e m =
     (if freshness e \<noteq> Current then m
      else case supersedes e of None \<Rightarrow> m | Some s \<Rightarrow> obj_insert s (ci_record_id (identity e)) m)"

definition refresh_current_indexes :: "AuthoritativeClosureGraph \<Rightarrow> AuthoritativeClosureGraph" where
  "refresh_current_indexes g =
     (let tasks = map (\<lambda>(task, _, record_id). (task, record_id)) (current_task_index (g_evaluations g));
          branch = bound_current_record_id g (g_bound_branch g) BranchClosure;
          release = bound_current_milestone_record_id g (g_bound_release_readiness g) ReleaseReadiness
            branch None;
          final = Option.bind release (\<lambda>r.
            bound_current_milestone_record_id g (g_bound_final_review g) FinalReview branch (Some r));
          qa = Option.bind final (\<lambda>f.
            bound_current_milestone_record_id g (g_bound_browser_qa g) BrowserQa branch (Some f));
          g1 = g\<lparr>g_current_task_record_ids := tasks, g_current_branch_record_id := branch,
                 g_current_release_readiness_record_id := release,
                 g_current_final_review_record_id := final, g_current_browser_qa_record_id := qa\<rparr>;
          superseded1 = fold (\<lambda>(s, c) m. if obj_get m s = None then obj_insert s c m else m)
            (task_supersession_edges g1) (g_superseded_by g1);
          superseded2 = fold insert_supersedes (obj_values (g_evaluations g1)) superseded1
      in g1\<lparr>g_superseded_by := superseded2\<rparr>)"

definition ingest_snapshot :: "ClosureHistorySnapshot \<Rightarrow> AuthoritativeClosureGraph" where
  "ingest_snapshot snapshot =
     (ingest_browser_qa_history (sn_browser_qa_record_history snapshot)
       (ingest_final_review_history (sn_final_review_record_history snapshot)
         (ingest_release_readiness_history (sn_release_readiness_record_history snapshot)
           (ingest_branch_closure_history (sn_branch_closure_records snapshot)
              (sn_superseded_branch_closure_ids snapshot)
             (ingest_task_closure_history (sn_task_closure_record_history snapshot) graph_default)))))
     \<lparr>g_bound_branch := sn_current_branch_closure_id snapshot,
      g_bound_release_readiness := sn_current_release_readiness_record_id snapshot,
      g_bound_final_review := sn_current_final_review_record_id snapshot,
      g_bound_browser_qa := sn_current_qa_record_id snapshot\<rparr>"

definition graph_from_snapshot ::
  "ClosureHistorySnapshot \<Rightarrow> ClosureGraphSignals \<Rightarrow> AuthoritativeClosureGraph" where
  "graph_from_snapshot snapshot signals =
     refresh_current_indexes
       (apply_late_stage_stale_projection signals
         (apply_superseded_task_ids (sn_superseded_task_closure_ids snapshot)
           (ingest_snapshot snapshot)))"

subsection \<open>Queries\<close>

definition current_task_closure :: "AuthoritativeClosureGraph \<Rightarrow> nat \<Rightarrow> ClosureEvaluation option" where
  "current_task_closure g task =
     Option.bind (obj_get (g_current_task_record_ids g) task) (obj_get (g_evaluations g))"

definition current_branch_closure :: "AuthoritativeClosureGraph \<Rightarrow> ClosureEvaluation option" where
  "current_branch_closure g = Option.bind (g_current_branch_record_id g) (obj_get (g_evaluations g))"

definition superseded_record_ids :: "AuthoritativeClosureGraph \<Rightarrow> string list" where
  "superseded_record_ids g = map fst (filter (\<lambda>(_, e). freshness e = Superseded) (g_evaluations g))"

definition stale_unreviewed_evaluations :: "AuthoritativeClosureGraph \<Rightarrow> ClosureEvaluation list" where
  "stale_unreviewed_evaluations g =
     map snd (filter (\<lambda>(record_id, e). freshness e = StaleUnreviewed \<and>
       obj_get (g_superseded_by g) record_id = None) (g_evaluations g))"

definition stale_projection_only_record_ids :: "AuthoritativeClosureGraph \<Rightarrow> string list" where
  "stale_projection_only_record_ids g =
     filter (\<lambda>r. obj_get (g_superseded_by g) r = None) (g_stale_projection_only_record_ids g)"

definition earliest_unresolved_stale_task_number :: "AuthoritativeClosureGraph \<Rightarrow> nat option" where
  "earliest_unresolved_stale_task_number g =
     (let tasks = List.map_filter (\<lambda>(record_id, e). ci_task_number (identity e))
        (filter (\<lambda>(record_id, e). ci_kind (identity e) = TaskClosure \<and> freshness e = StaleUnreviewed \<and>
           obj_get (g_superseded_by g) record_id = None) (g_evaluations g))
      in if tasks = [] then None else Some (Min (set tasks)))"

subsection \<open>Well-formed graphs\<close>

definition evaluation_wf :: "string \<Rightarrow> ClosureEvaluation \<Rightarrow> bool" where
  "evaluation_wf k e \<longleftrightarrow>
     ci_record_id (identity e) = k \<and> trim k \<noteq> [] \<and>
     ci_scope (identity e) =
       (case ci_kind (identity e) of TaskClosure \<Rightarrow> TaskScope | BranchClosure \<Rightarrow> BranchScope | _ \<Rightarrow> MilestoneScope) \<and>
     (if ci_kind (identity e) = TaskClosure
      then \<exists>n. ci_task_number (identity e) = Some n \<and> 0 < n \<and> n \<le> u32_max
      else ci_task_number (identity e) = None)"

definition graph_wf :: "AuthoritativeClosureGraph \<Rightarrow> bool" where
  "graph_wf g \<longleftrightarrow> obj_sorted (g_evaluations g) \<and>
     (\<forall>k e. obj_get (g_evaluations g) k = Some e \<longrightarrow> evaluation_wf k e)"

text \<open>What every step of the construction promises: it keeps the graph well formed.  The locale
  proves once that so does any sequence of such steps.\<close>

locale graph_step =
  fixes step :: "'a \<Rightarrow> AuthoritativeClosureGraph \<Rightarrow> AuthoritativeClosureGraph"
  assumes step_wf: "graph_wf g \<Longrightarrow> graph_wf (step x g)"
begin

lemma steps_wf: "graph_wf g \<Longrightarrow> graph_wf (fold step xs g)"
  by (induction xs arbitrary: g) (auto simp: step_wf)

end

lemma value_u32_bounds: "value_u32 v k = Some n \<Longrightarrow> 0 < n \<and> n \<le> u32_max"
  by (auto simp: value_u32_def bind_eq_Some_conv)

lemma upsert_wf: "graph_wf g \<Longrightarrow> evaluation_wf (ci_record_id (identity e)) e \<Longrightarrow> graph_wf (upsert_evaluation e g)"
  by (auto simp: upsert_evaluation_def graph_wf_def Let_def obj_sorted_insert obj_get_insert split: if_splits)

lemma modify_wf:
  assumes "graph_wf g" "\<And>k e. evaluation_wf k e \<Longrightarrow> evaluation_wf k (f e)"
  shows "graph_wf (modify_evaluation r f g)"
  using assms by (auto simp: modify_evaluation_def graph_wf_def obj_sorted_insert obj_get_insert
      split: option.splits if_splits)

lemma closure_evaluation_wf:
  "trim r \<noteq> [] \<Longrightarrow> 0 < n \<Longrightarrow> n \<le> u32_max \<Longrightarrow>
   evaluation_wf r (closure_evaluation (closure_identity TaskClosure TaskScope (Some n) r p) b q)"
  "trim r \<noteq> [] \<Longrightarrow> evaluation_wf r (closure_evaluation (closure_identity BranchClosure BranchScope None r p) b q)"
  "trim r \<noteq> [] \<Longrightarrow> kind \<in> {ReleaseReadiness, FinalReview, BrowserQa} \<Longrightarrow>
   evaluation_wf r (closure_evaluation (closure_identity kind MilestoneScope None r p) b q)"
  by (auto simp: evaluation_wf_def closure_evaluation_def closure_identity_def Let_def)

lemma closure_evaluation_id [simp]:
  "ci_record_id (identity (closure_evaluation (closure_identity kind scope t r p) b q)) = r"
  by (simp add: closure_evaluation_def closure_identity_def Let_def)

lemma evaluation_wf_update [simp]:
  "evaluation_wf k (e\<lparr>supersedes := s\<rparr>) = evaluation_wf k e"
  "evaluation_wf k (e\<lparr>freshness := f\<rparr>) = evaluation_wf k e"
  "evaluation_wf k (e\<lparr>freshness := f, stale_reason_codes := c\<rparr>) = evaluation_wf k e"
  by (simp_all add: evaluation_wf_def)

interpretation task_step: graph_step ingest_task_closure
  by unfold_locales
     (auto simp: ingest_task_closure_def Let_def split: prod.splits option.splits
       intro!: upsert_wf closure_evaluation_wf(1) dest: value_u32_bounds)

interpretation branch_step: graph_step ingest_branch_closure
proof unfold_locales
  fix g kv
  assume g: "graph_wf g"
  then have "graph_wf (g\<lparr>g_superseded_by := m\<rparr>)" for m by (simp add: graph_wf_def)
  with g show "graph_wf (ingest_branch_closure kv g)"
    by (auto simp: ingest_branch_closure_def Let_def split: prod.splits list.splits
        intro!: upsert_wf closure_evaluation_wf(2))
qed

interpretation release_step: graph_step ingest_release_readiness
  by unfold_locales
     (auto simp: ingest_release_readiness_def Let_def split: prod.splits intro!: upsert_wf closure_evaluation_wf(3))

interpretation review_step: graph_step ingest_final_review
  by unfold_locales
     (auto simp: ingest_final_review_def Let_def split: prod.splits intro!: upsert_wf closure_evaluation_wf(3))

interpretation qa_step: graph_step ingest_browser_qa
  by unfold_locales
     (auto simp: ingest_browser_qa_def Let_def split: prod.splits intro!: upsert_wf closure_evaluation_wf(3))

lemma wf_bounds [simp]:
  "graph_wf (g\<lparr>g_bound_branch := a, g_bound_release_readiness := b, g_bound_final_review := c,
     g_bound_browser_qa := d\<rparr>) = graph_wf g"
  "graph_wf (g\<lparr>g_stale_projection_only_record_ids := r\<rparr>) = graph_wf g"
  by (simp_all add: graph_wf_def)

interpretation supersede_branch_step:
  graph_step "\<lambda>s. modify_evaluation s (\<lambda>e. if freshness e = Current then e\<lparr>freshness := Superseded\<rparr> else e)"
  by unfold_locales (rule modify_wf, auto)

interpretation supersede_task_step:
  graph_step "\<lambda>s. modify_evaluation s mark_superseded_task"
  by unfold_locales (rule modify_wf, auto simp: mark_superseded_task_def)

interpretation late_step: graph_step "late_stage_step signals" for signals
  by unfold_locales
     (auto simp: late_stage_step_def mark_late_stage_stale_def intro!: modify_wf split: option.splits)

lemma graph_default_wf: "graph_wf graph_default"
  by (simp add: graph_wf_def graph_default_def obj_sorted_def obj_get_def)

lemma ingest_snapshot_wf: "graph_wf (ingest_snapshot sn)"
  unfolding ingest_snapshot_def ingest_browser_qa_history_def ingest_final_review_history_def
    ingest_release_readiness_history_def ingest_branch_closure_history_def ingest_task_closure_history_def
    wf_bounds
  by (intro qa_step.steps_wf review_step.steps_wf release_step.steps_wf supersede_branch_step.steps_wf
      branch_step.steps_wf task_step.steps_wf graph_default_wf)

definition evaluated_graph :: "ClosureHistorySnapshot \<Rightarrow> ClosureGraphSignals \<Rightarrow> AuthoritativeClosureGraph" where
  "evaluated_graph sn sg =
     apply_late_stage_stale_projection sg
       (apply_superseded_task_ids (sn_superseded_task_closure_ids sn) (ingest_snapshot sn))"

lemma evaluated_graph_wf: "graph_wf (evaluated_graph sn sg)"
  unfolding evaluated_graph_def apply_late_stage_stale_projection_def apply_superseded_task_ids_def
  by (auto intro!: late_step.steps_wf supersede_task_step.steps_wf ingest_snapshot_wf simp del: insert_iff)

lemma refresh_evaluations [simp]: "g_evaluations (refresh_current_indexes g) = g_evaluations g"
  by (simp add: refresh_current_indexes_def Let_def)

lemma graph_from_snapshot_eq: "graph_from_snapshot sn sg = refresh_current_indexes (evaluated_graph sn sg)"
  by (simp add: graph_from_snapshot_def evaluated_graph_def)

lemma graph_from_snapshot_wf: "graph_wf (graph_from_snapshot sn sg)"
  using evaluated_graph_wf [of sn sg] by (simp add: graph_from_snapshot_eq graph_wf_def)

subsection \<open>The newest current task closure\<close>

lemma obj_values_mem: "obj_sorted m \<Longrightarrow> v \<in> set (obj_values m) \<longleftrightarrow> (\<exists>k. obj_get m k = Some v)"
  using map_of_is_SomeI [OF obj_sorted_distinct, of m _ v] map_of_SomeD [of m _ v]
  by (force simp: obj_values_def obj_get_def)

text \<open>Newest among a set of evaluations of a task: largest sequence, ties broken by record id.\<close>

definition newest :: "ClosureEvaluation set \<Rightarrow> nat \<Rightarrow> ClosureEvaluation \<Rightarrow> bool" where
  "newest E t e \<longleftrightarrow>
     e \<in> E \<and> ci_task_number (identity e) = Some t \<and>
     (\<forall>e'\<in>E. ci_task_number (identity e') = Some t \<longrightarrow>
        (ci_authoritative_sequence (identity e'), ci_record_id (identity e')) \<le>
        (ci_authoritative_sequence (identity e), ci_record_id (identity e)))"

definition index_entry :: "ClosureEvaluation \<Rightarrow> nat \<times> string" where
  "index_entry e = (ci_authoritative_sequence (identity e), ci_record_id (identity e))"

lemma current_task_step_get:
  "obj_get (current_task_step a m) t =
   (if ci_task_number (identity a) = Some t
    then (case obj_get m t of
            None \<Rightarrow> Some (index_entry a)
          | Some x \<Rightarrow> if fst x \<le> ci_authoritative_sequence (identity a) then Some (index_entry a) else Some x)
    else obj_get m t)"
  by (auto simp: current_task_step_def Let_def obj_get_insert unwrap_or_def index_entry_def split: option.splits)

lemma current_task_step_sorted: "obj_sorted m \<Longrightarrow> obj_sorted (current_task_step a m)"
  by (auto simp: current_task_step_def Let_def obj_sorted_insert split: option.splits)

lemma current_task_fold:
  assumes "sorted_wrt (<) (map (\<lambda>e. ci_record_id (identity e)) es)"
  shows "obj_sorted (fold current_task_step es []) \<and>
    (case obj_get (fold current_task_step es []) t of
       None \<Rightarrow> \<forall>e\<in>set es. ci_task_number (identity e) \<noteq> Some t
     | Some x \<Rightarrow> \<exists>e. newest (set es) t e \<and> x = index_entry e)"
  using assms
proof (induction es rule: rev_induct)
  case Nil
  then show ?case by (simp add: obj_sorted_def obj_get_def)
next
  case (snoc a es)
  let ?m = "fold current_task_step es []"
  have below: "ci_record_id (identity e) < ci_record_id (identity a)" if "e \<in> set es" for e
    using snoc.prems that by (auto simp: sorted_wrt_append)
  from snoc have ih: "obj_sorted ?m" "case obj_get ?m t of
       None \<Rightarrow> \<forall>e\<in>set es. ci_task_number (identity e) \<noteq> Some t
     | Some x \<Rightarrow> \<exists>e. newest (set es) t e \<and> x = index_entry e"
    by (auto simp: sorted_wrt_append)
  have srt: "obj_sorted (fold current_task_step (es @ [a]) [])"
    using current_task_step_sorted [OF ih(1)] by simp
  show ?case
  proof (cases "ci_task_number (identity a) = Some t")
    case False
    have "newest (set (es @ [a])) t e \<longleftrightarrow> newest (set es) t e" for e
      using False by (auto simp: newest_def)
    with ih(2) False srt show ?thesis by (auto simp: current_task_step_get split: option.splits)
  next
    case True
    show ?thesis
    proof (cases "obj_get ?m t")
      case None
      with ih have "newest (set (es @ [a])) t a" using True by (auto simp: newest_def)
      with True None srt show ?thesis by (auto simp: current_task_step_get)
    next
      case (Some x)
      with ih obtain e where e: "newest (set es) t e" "x = index_entry e" by auto
      have "if fst x \<le> ci_authoritative_sequence (identity a)
        then newest (set (es @ [a])) t a else newest (set (es @ [a])) t e"
        using e True below by (fastforce simp: newest_def index_entry_def less_eq_prod_def)
      with True Some srt e(2) show ?thesis by (auto simp: current_task_step_get split: if_splits)
    qed
  qed
qed

definition current_task_evaluations :: "AuthoritativeClosureGraph \<Rightarrow> ClosureEvaluation set" where
  "current_task_evaluations g =
     {e. (\<exists>k. obj_get (g_evaluations g) k = Some e) \<and> ci_kind (identity e) = TaskClosure \<and> freshness e = Current}"

lemma wf_record_ids:
  assumes "graph_wf g"
  shows "map (\<lambda>e. ci_record_id (identity e)) (obj_values (g_evaluations g)) = map fst (g_evaluations g)"
proof -
  have "ci_record_id (identity (snd ke)) = fst ke" if "ke \<in> set (g_evaluations g)" for ke
    using assms that map_of_is_SomeI [OF obj_sorted_distinct, of "g_evaluations g" "fst ke" "snd ke"]
    by (auto simp: graph_wf_def evaluation_wf_def obj_get_def)
  then show ?thesis by (simp add: obj_values_def)
qed

lemma wf_same_id:
  assumes "graph_wf g" "obj_get (g_evaluations g) k = Some e" "obj_get (g_evaluations g) k' = Some e'"
    "ci_record_id (identity e) = ci_record_id (identity e')"
  shows "e = e'"
  using assms by (auto simp: graph_wf_def evaluation_wf_def)

lemma current_task_index_get:
  assumes "graph_wf g"
  shows "case obj_get (current_task_index (g_evaluations g)) t of
      None \<Rightarrow> \<forall>e\<in>current_task_evaluations g. ci_task_number (identity e) \<noteq> Some t
    | Some x \<Rightarrow> \<exists>e. newest (current_task_evaluations g) t e \<and> x = index_entry e"
proof -
  let ?es = "filter (\<lambda>e. ci_kind (identity e) = TaskClosure \<and> freshness e = Current) (obj_values (g_evaluations g))"
  have "sorted_wrt (<) (map (\<lambda>e. ci_record_id (identity e)) (obj_values (g_evaluations g)))"
    unfolding wf_record_ids [OF assms] using assms by (simp add: graph_wf_def obj_sorted_def)
  then have srt: "sorted_wrt (<) (map (\<lambda>e. ci_record_id (identity e)) ?es)"
    by (simp add: sorted_wrt_map sorted_wrt_filter)
  have eq: "set ?es = current_task_evaluations g"
    using assms by (auto simp: current_task_evaluations_def obj_values_mem graph_wf_def)
  show ?thesis
    using current_task_fold [OF srt, of t] unfolding eq current_task_index_def by (rule conjunct2)
qed

lemma newest_unique:
  assumes "graph_wf g" "newest (current_task_evaluations g) t e" "newest (current_task_evaluations g) t e'"
  shows "e = e'"
proof -
  have "(ci_authoritative_sequence (identity e), ci_record_id (identity e)) =
      (ci_authoritative_sequence (identity e'), ci_record_id (identity e'))"
    using assms(2,3) unfolding newest_def by (intro antisym) blast+
  moreover obtain k k' where "obj_get (g_evaluations g) k = Some e" "obj_get (g_evaluations g) k' = Some e'"
    using assms(2,3) by (auto simp: newest_def current_task_evaluations_def)
  ultimately show ?thesis using wf_same_id [OF assms(1)] by auto
qed

lemma obj_get_map_index:
  "obj_get (map (\<lambda>(t, _, r). (t, r)) m) t = map_option snd (obj_get m t)"
  by (induction m) (auto simp: obj_get_def)

lemma refresh_task_ids:
  "g_current_task_record_ids (refresh_current_indexes g) =
   map (\<lambda>(t, _, r). (t, r)) (current_task_index (g_evaluations g))"
  by (simp add: refresh_current_indexes_def Let_def)

lemma current_task_closure_newest:
  assumes "graph_wf g"
  shows "current_task_closure (refresh_current_indexes g) t = Some e \<longleftrightarrow>
    newest (current_task_evaluations g) t e"
proof -
  have own: "obj_get (g_evaluations g) (snd (index_entry e)) = Some e"
    if "newest (current_task_evaluations g) t e" for e
    using that assms by (auto simp: newest_def current_task_evaluations_def index_entry_def graph_wf_def
        evaluation_wf_def)
  show ?thesis
  proof (cases "obj_get (current_task_index (g_evaluations g)) t")
    case None
    then have "\<forall>e\<in>current_task_evaluations g. ci_task_number (identity e) \<noteq> Some t"
      using current_task_index_get [OF assms, of t] by simp
    then show ?thesis
      using None by (auto simp: current_task_closure_def refresh_task_ids obj_get_map_index newest_def)
  next
    case (Some x)
    then obtain f where f: "newest (current_task_evaluations g) t f" "x = index_entry f"
      using current_task_index_get [OF assms, of t] by auto
    have "current_task_closure (refresh_current_indexes g) t = Some f"
      using own [OF f(1)] by (simp add: current_task_closure_def refresh_task_ids obj_get_map_index Some f(2))
    with f newest_unique [OF assms] show ?thesis by auto
  qed
qed

subsection \<open>Currentness of branch and milestones\<close>

lemma bound_current_Some:
  assumes "bound_current_record_id g b kind = Some r"
  obtains e where "obj_get (g_evaluations g) r = Some e" "ci_kind (identity e) = kind" "freshness e = Current"
  using assms by (auto simp: bound_current_record_id_def split: option.splits if_splits)

lemma bound_milestone_Some:
  assumes "bound_current_milestone_record_id g b kind branch dep = Some r"
  obtains e br where "obj_get (g_evaluations g) r = Some e" "ci_kind (identity e) = kind" "freshness e = Current"
    "branch = Some br" "depends_on_record_ids (dependency_binding e) \<noteq> []"
    "hd (depends_on_record_ids (dependency_binding e)) = trim br"
    "\<forall>d. dep = Some d \<longrightarrow> d \<in> set (depends_on_record_ids (dependency_binding e))"
  using assms
  by (auto simp: bound_current_milestone_record_id_def Let_def is_some_and_def
      split: option.splits if_splits list.splits)

lemma refresh_fields:
  "g_current_branch_record_id (refresh_current_indexes g) =
     bound_current_record_id g (g_bound_branch g) BranchClosure"
  "g_current_release_readiness_record_id (refresh_current_indexes g) =
     bound_current_milestone_record_id g (g_bound_release_readiness g) ReleaseReadiness
       (g_current_branch_record_id (refresh_current_indexes g)) None"
  "g_current_final_review_record_id (refresh_current_indexes g) =
     Option.bind (g_current_release_readiness_record_id (refresh_current_indexes g)) (\<lambda>r.
       bound_current_milestone_record_id g (g_bound_final_review g) FinalReview
         (g_current_branch_record_id (refresh_current_indexes g)) (Some r))"
  "g_current_browser_qa_record_id (refresh_current_indexes g) =
     Option.bind (g_current_final_review_record_id (refresh_current_indexes g)) (\<lambda>f.
       bound_current_milestone_record_id g (g_bound_browser_qa g) BrowserQa
         (g_current_branch_record_id (refresh_current_indexes g)) (Some f))"
  by (simp_all add: refresh_current_indexes_def Let_def)

definition holds_current :: "AuthoritativeClosureGraph \<Rightarrow> ClosureKind \<Rightarrow> string option \<Rightarrow> bool" where
  "holds_current g kind r \<longleftrightarrow>
     (\<forall>k. r = Some k \<longrightarrow> (\<exists>e. obj_get (g_evaluations g) k = Some e \<and> ci_kind (identity e) = kind \<and>
        freshness e = Current))"

lemma refresh_holds_current:
  "holds_current (refresh_current_indexes g) BranchClosure (g_current_branch_record_id (refresh_current_indexes g))"
  "holds_current (refresh_current_indexes g) ReleaseReadiness
     (g_current_release_readiness_record_id (refresh_current_indexes g))"
  "holds_current (refresh_current_indexes g) FinalReview
     (g_current_final_review_record_id (refresh_current_indexes g))"
  "holds_current (refresh_current_indexes g) BrowserQa
     (g_current_browser_qa_record_id (refresh_current_indexes g))"
  unfolding holds_current_def refresh_fields refresh_evaluations
  by (auto simp: bind_eq_Some_conv elim!: bound_current_Some bound_milestone_Some)

text \<open>A record that is not current stays so through the later stages.\<close>

definition not_current :: "AuthoritativeClosureGraph \<Rightarrow> string \<Rightarrow> bool" where
  "not_current g r \<longleftrightarrow> (\<forall>e. obj_get (g_evaluations g) r = Some e \<longrightarrow> freshness e \<noteq> Current)"

lemma modify_get:
  "obj_get (g_evaluations (modify_evaluation s f g)) r =
   (if r = s then map_option f (obj_get (g_evaluations g) s) else obj_get (g_evaluations g) r)"
  by (auto simp: modify_evaluation_def obj_get_insert split: option.splits)

lemma superseded_not_current:
  assumes "r \<in> set ids \<or> not_current g r"
  shows "not_current (apply_superseded_task_ids ids g) r"
  using assms unfolding apply_superseded_task_ids_def
proof (induction ids arbitrary: g)
  case (Cons s ids)
  have "freshness (mark_superseded_task e) \<noteq> Current" for e
    by (cases "freshness e") (simp_all add: mark_superseded_task_def)
  then have "r \<in> set ids \<or> not_current (modify_evaluation s mark_superseded_task g) r"
    using Cons.prems by (auto simp: not_current_def modify_get)
  from Cons.IH [OF this] show ?case by simp
qed simp

lemma late_step_not_current:
  "r = s \<or> not_current g r \<Longrightarrow> not_current (late_stage_step signals s g) r"
  by (auto simp: not_current_def late_stage_step_def modify_get mark_late_stage_stale_def split: option.splits)

lemma late_steps_not_current:
  "r \<in> set ids \<or> not_current g r \<Longrightarrow> not_current (fold (late_stage_step signals) ids g) r"
proof (induction ids arbitrary: g)
  case (Cons s ids)
  have "r \<in> set ids \<or> not_current (late_stage_step signals s g) r"
    using Cons.prems late_step_not_current by auto
  from Cons.IH [OF this] show ?case by simp
qed simp

lemma evaluated_not_current:
  assumes "r \<in> set (sn_superseded_task_closure_ids sn) \<or>
    (late_stage_stale_active sg \<and> r \<in> set (late_stage_candidate_closure_ids_from_signals sg))"
  shows "not_current (evaluated_graph sn sg) r"
  using assms superseded_not_current late_steps_not_current
  unfolding evaluated_graph_def apply_late_stage_stale_projection_def by auto

lemma bound_current_trimmed: "bound_current_record_id g b kind = Some r \<Longrightarrow> trim r = r"
  by (auto simp: bound_current_record_id_def split: option.splits if_splits)

lemma task_index_current:
  assumes "graph_wf g" "obj_get (g_current_task_record_ids (refresh_current_indexes g)) t = Some r"
  shows "\<exists>e. obj_get (g_evaluations g) r = Some e \<and> freshness e = Current"
proof -
  from assms(2) obtain x where x: "obj_get (current_task_index (g_evaluations g)) t = Some x" "r = snd x"
    by (auto simp: refresh_task_ids obj_get_map_index)
  then obtain e where "newest (current_task_evaluations g) t e" "x = index_entry e"
    using current_task_index_get [OF assms(1), of t] by auto
  with x(2) assms(1) show ?thesis
    by (auto simp: newest_def current_task_evaluations_def index_entry_def graph_wf_def evaluation_wf_def)
qed

subsection \<open>Properties\<close>

definition sample_snapshot :: ClosureHistorySnapshot where
  "sample_snapshot =
     \<lparr>sn_task_closure_record_history = [],
      sn_branch_closure_records = [(''b1'', JObject [])],
      sn_release_readiness_record_history = [(''r1'', JObject [(''branch_closure_id'', JString ''b1'')])],
      sn_final_review_record_history =
        [(''f1'', JObject [(''branch_closure_id'', JString ''b1''),
           (''release_readiness_record_id'', JString ''r1'')])],
      sn_browser_qa_record_history =
        [(''q1'', JObject [(''branch_closure_id'', JString ''b1''),
           (''final_review_record_id'', JString ''f1'')])],
      sn_current_branch_closure_id = Some ''b1'',
      sn_current_release_readiness_record_id = Some ''r1'',
      sn_current_final_review_record_id = Some ''f1'', sn_current_qa_record_id = Some ''q1'',
      sn_superseded_task_closure_ids = [], sn_superseded_branch_closure_ids = []\<rparr>"

definition sample_superseded :: ClosureHistorySnapshot where
  "sample_superseded = sample_snapshot
     \<lparr>sn_task_closure_record_history :=
        [(''t1'', JObject [(''record_sequence'', JInt 2), (''task'', JInt 1)])],
      sn_superseded_task_closure_ids := [''t1'']\<rparr>"

definition sample_signals :: ClosureGraphSignals where
  "sample_signals =
     \<lparr>sg_current_branch_closure_id = None, sg_overlay_current_branch_closure_id = None,
      sg_finish_review_gate_pass_branch_closure_id = None,
      sg_current_release_readiness_branch_closure_id = None,
      sg_current_final_review_branch_closure_id = None, sg_current_qa_branch_closure_id = None,
      sg_late_stage_stale_unreviewed = False, sg_missing_current_closure_stale_provenance = False,
      sg_stale_reason_codes = []\<rparr>"

text \<open>C34: The current closure of a task is exactly the newest task closure of that task that is
  still current: largest record sequence, and the greatest record id among equals.\<close>

theorem current_task_closure_is_newest:
  "current_task_closure (graph_from_snapshot sn sg) t = Some e \<longleftrightarrow>
   newest (current_task_evaluations (graph_from_snapshot sn sg)) t e"
proof -
  have "current_task_evaluations (refresh_current_indexes g) = current_task_evaluations g" for g
    by (simp add: current_task_evaluations_def)
  then show ?thesis
    using current_task_closure_newest [OF evaluated_graph_wf] by (simp add: graph_from_snapshot_eq)
qed

text \<open>C35: The late-stage milestones are current only as a chain: a current browser QA rests on the
  current final review, which rests on the current release readiness, and all three name the current
  branch closure as their first dependency; each of the four records is present and current.\<close>

theorem current_milestones_form_a_chain:
  assumes "g_current_browser_qa_record_id (graph_from_snapshot sn sg) = Some q"
  shows "\<exists>f r b eq ef er eb.
    g_current_final_review_record_id (graph_from_snapshot sn sg) = Some f \<and>
    g_current_release_readiness_record_id (graph_from_snapshot sn sg) = Some r \<and>
    g_current_branch_record_id (graph_from_snapshot sn sg) = Some b \<and>
    map (obj_get (g_evaluations (graph_from_snapshot sn sg))) [q, f, r, b] = [Some eq, Some ef, Some er, Some eb] \<and>
    map freshness [eq, ef, er, eb] = [Current, Current, Current, Current] \<and>
    map (\<lambda>e. ci_kind (identity e)) [eq, ef, er, eb] = [BrowserQa, FinalReview, ReleaseReadiness, BranchClosure] \<and>
    map (\<lambda>e. hd (depends_on_record_ids (dependency_binding e))) [eq, ef, er] = [b, b, b] \<and>
    f \<in> set (depends_on_record_ids (dependency_binding eq)) \<and>
    r \<in> set (depends_on_record_ids (dependency_binding ef))"
proof -
  let ?g = "evaluated_graph sn sg"
  let ?b = "g_current_branch_record_id (refresh_current_indexes ?g)"
  from assms obtain f r where fr:
    "bound_current_milestone_record_id ?g (g_bound_browser_qa ?g) BrowserQa ?b (Some f) = Some q"
    "g_current_final_review_record_id (refresh_current_indexes ?g) = Some f"
    "bound_current_milestone_record_id ?g (g_bound_final_review ?g) FinalReview ?b (Some r) = Some f"
    "g_current_release_readiness_record_id (refresh_current_indexes ?g) = Some r"
    unfolding graph_from_snapshot_eq refresh_fields(3,4) by (auto simp: bind_eq_Some_conv)
  from fr(4) have "bound_current_milestone_record_id ?g (g_bound_release_readiness ?g) ReleaseReadiness ?b None = Some r"
    unfolding refresh_fields(2) .
  then obtain er b where er: "obj_get (g_evaluations ?g) r = Some er" "ci_kind (identity er) = ReleaseReadiness"
    "freshness er = Current" "?b = Some b" "hd (depends_on_record_ids (dependency_binding er)) = trim b"
    by (elim bound_milestone_Some)
  from er(4) have bb: "bound_current_record_id ?g (g_bound_branch ?g) BranchClosure = Some b"
    unfolding refresh_fields(1) .
  then obtain eb where eb: "obj_get (g_evaluations ?g) b = Some eb" "ci_kind (identity eb) = BranchClosure"
    "freshness eb = Current" by (elim bound_current_Some)
  from fr(3) er(4) obtain ef where ef: "obj_get (g_evaluations ?g) f = Some ef" "ci_kind (identity ef) = FinalReview"
    "freshness ef = Current" "hd (depends_on_record_ids (dependency_binding ef)) = trim b"
    "r \<in> set (depends_on_record_ids (dependency_binding ef))" by (elim bound_milestone_Some) auto
  from fr(1) er(4) obtain eq where eq: "obj_get (g_evaluations ?g) q = Some eq" "ci_kind (identity eq) = BrowserQa"
    "freshness eq = Current" "hd (depends_on_record_ids (dependency_binding eq)) = trim b"
    "f \<in> set (depends_on_record_ids (dependency_binding eq))" by (elim bound_milestone_Some) auto
  show ?thesis
    using fr(2,4) er eb ef eq bound_current_trimmed [OF bb]
    unfolding graph_from_snapshot_eq refresh_evaluations
    by (intro exI [of _ f] exI [of _ r] exI [of _ b] exI [of _ eq] exI [of _ ef] exI [of _ er] exI [of _ eb]) simp
qed

theorem current_milestones_form_a_chain_witness:
  "\<exists>f r. g_current_browser_qa_record_id (graph_from_snapshot sample_snapshot sample_signals) = Some ''q1'' \<and>
    g_current_final_review_record_id (graph_from_snapshot sample_snapshot sample_signals) = Some f \<and>
    g_current_release_readiness_record_id (graph_from_snapshot sample_snapshot sample_signals) = Some r"
proof -
  have "g_current_browser_qa_record_id (graph_from_snapshot sample_snapshot sample_signals) = Some ''q1''"
    by code_simp
  from current_milestones_form_a_chain [OF this] this show ?thesis by blast
qed

text \<open>A task closure listed as superseded, and while late-stage staleness is signalled every
  closure the signals name, is current in none of the indexes, whatever its record says.\<close>

theorem superseded_or_stale_never_current:
  assumes "r \<in> set (sn_superseded_task_closure_ids sn) \<or>
    (late_stage_stale_active sg \<and> r \<in> set (late_stage_candidate_closure_ids_from_signals sg))"
  shows "obj_get (g_current_task_record_ids (graph_from_snapshot sn sg)) t \<noteq> Some r \<and>
    Some r \<notin> {g_current_branch_record_id (graph_from_snapshot sn sg),
      g_current_release_readiness_record_id (graph_from_snapshot sn sg),
      g_current_final_review_record_id (graph_from_snapshot sn sg),
      g_current_browser_qa_record_id (graph_from_snapshot sn sg)}"
proof -
  have n: "not_current (evaluated_graph sn sg) r" by (rule evaluated_not_current [OF assms])
  have "\<not> holds_current (refresh_current_indexes (evaluated_graph sn sg)) kind (Some r)" for kind
    using n by (auto simp: holds_current_def not_current_def)
  then have "Some r \<notin> {g_current_branch_record_id (graph_from_snapshot sn sg),
      g_current_release_readiness_record_id (graph_from_snapshot sn sg),
      g_current_final_review_record_id (graph_from_snapshot sn sg),
      g_current_browser_qa_record_id (graph_from_snapshot sn sg)}"
    using refresh_holds_current [of "evaluated_graph sn sg"] unfolding graph_from_snapshot_eq by auto
  moreover have "obj_get (g_current_task_record_ids (graph_from_snapshot sn sg)) t \<noteq> Some r"
    using task_index_current [OF evaluated_graph_wf, of sn sg t r] n
    by (auto simp: not_current_def graph_from_snapshot_eq)
  ultimately show ?thesis by blast
qed

theorem superseded_or_stale_never_current_witness:
  "''t1'' \<in> set (sn_superseded_task_closure_ids sample_superseded) \<and>
   obj_get (g_current_task_record_ids (graph_from_snapshot sample_superseded sample_signals)) 1 \<noteq> Some ''t1''"
  using superseded_or_stale_never_current [of "''t1''" sample_superseded sample_signals 1]
  by (simp add: sample_superseded_def)

end
