(* ===== verification/Late_Stage_Surface.thy ===== *)
theory Late_Stage_Surface
  imports Closure_Graph
begin

text \<open>
  The late-stage surface of a branch closure (\<^verbatim>\<open>src/src/execution/current_truth.rs\<close>, the functions
  on late-stage surface entries) and the provenance of a branch closure
  (\<^verbatim>\<open>src/src/execution/branch_closure_provenance.rs\<close>).  A surface is a list of repository paths,
  written as one text with the prefix \<^verbatim>\<open>late_stage_surface_only:\<close>; what is rendered from accepted
  entries parses back to the same set of entries.
\<close>

definition BRANCH_CLOSURE_PROVENANCE_TASK_CLOSURE_LINEAGE :: string where
  "BRANCH_CLOSURE_PROVENANCE_TASK_CLOSURE_LINEAGE = ''task_closure_lineage''"

definition BRANCH_CLOSURE_PROVENANCE_LATE_STAGE_SURFACE_EXEMPTION :: string where
  "BRANCH_CLOSURE_PROVENANCE_LATE_STAGE_SURFACE_EXEMPTION =
     ''task_closure_lineage_plus_late_stage_surface_exemption''"

definition branch_closure_provenance_is_late_stage_surface_exemption :: "string \<Rightarrow> bool" where
  "branch_closure_provenance_is_late_stage_surface_exemption provenance_basis \<longleftrightarrow>
     provenance_basis = BRANCH_CLOSURE_PROVENANCE_LATE_STAGE_SURFACE_EXEMPTION"

definition branch_closure_has_empty_lineage_late_stage_surface_exemption ::
  "string \<Rightarrow> string list \<Rightarrow> bool" where
  "branch_closure_has_empty_lineage_late_stage_surface_exemption provenance_basis source_task_closure_ids \<longleftrightarrow>
     branch_closure_provenance_is_late_stage_surface_exemption provenance_basis \<and>
     source_task_closure_ids = []"

definition late_stage_entry_unsupported :: "string \<Rightarrow> bool" where
  "late_stage_entry_unsupported normalized \<longleftrightarrow>
     normalized = [] \<or> starts_with normalized ''/'' \<or>
     (length normalized \<ge> 3 \<and> normalized ! 1 = CHR '':'' \<and> is_ascii_alphabetic (normalized ! 0) \<and>
        normalized ! 2 = CHR ''/'') \<or>
     ''..'' \<in> set (split_on (CHR ''/'') normalized) \<or>
     list_ex (\<lambda>c. c \<in> set ''*?[]{}'') normalized"

definition normalize_late_stage_surface_entry :: "string \<Rightarrow> string result" where
  "normalize_late_stage_surface_entry entry =
     (let normalized = strip_dot_slash (replace_backslashes (trim entry)) in
      if late_stage_entry_unsupported normalized
      then Inl (json_failure InvalidCommandInput
             (''late_stage_surface_invalid: unsupported Late-Stage Surface entry `'' @ entry @ ''`.''))
      else Inr normalized)"

definition render_late_stage_surface_only_branch_surface :: "string list \<Rightarrow> string" where
  "render_late_stage_surface_only_branch_surface surface_entries =
     ''late_stage_surface_only:'' @ join_with '','' (remdups_adj (sort surface_entries))"

definition parse_late_stage_surface_only_branch_surface :: "string \<Rightarrow> string list option" where
  "parse_late_stage_surface_only_branch_surface value =
     Option.bind (strip_prefix value ''late_stage_surface_only:'')
       (\<lambda>raw_entries.
          case collect_results normalize_late_stage_surface_entry
                 (filter (\<lambda>e. e \<noteq> []) (map trim (split_on (CHR '','') raw_entries))) of
            Inl _ \<Rightarrow> None
          | Inr normalized \<Rightarrow> Some (remdups_adj (sort normalized)))"

definition path_matches_late_stage_surface :: "string \<Rightarrow> string list \<Rightarrow> bool" where
  "path_matches_late_stage_surface path surface_entries \<longleftrightarrow>
     list_ex (\<lambda>entry.
       if entry \<noteq> [] \<and> last entry = CHR ''/''
       then path = butlast entry \<or> starts_with path (butlast entry @ ''/'')
       else path = entry) surface_entries"

definition well_formed_late_stage_surface_only_branch_surface :: "string \<Rightarrow> bool" where
  "well_formed_late_stage_surface_only_branch_surface value \<longleftrightarrow>
     is_some_and (parse_late_stage_surface_only_branch_surface value) (\<lambda>entries. entries \<noteq> [])"

subsection \<open>Round trip\<close>

lemma collect_results_fixed:
  "\<forall>x\<in>set xs. f x = Inr x \<Longrightarrow> collect_results f xs = Inr xs"
  by (induction xs) auto

lemma remdups_adj_idem: "remdups_adj (remdups_adj xs) = remdups_adj xs"
  using distinct_adj_remdups_adj [of xs] by (simp add: distinct_adj_altdef)

text \<open>An accepted entry with no comma in it and no white space at its ends.\<close>

definition plain_surface_entry :: "string \<Rightarrow> bool" where
  "plain_surface_entry e \<longleftrightarrow>
     normalize_late_stage_surface_entry e = Inr e \<and> CHR '','' \<notin> set e \<and> trim e = e"

lemma plain_surface_entry_nonempty: "plain_surface_entry e \<Longrightarrow> e \<noteq> []"
  by (auto simp: plain_surface_entry_def normalize_late_stage_surface_entry_def Let_def
      replace_backslashes_def late_stage_entry_unsupported_def split: if_splits)

lemma parse_render_surface:
  assumes "\<forall>e\<in>set entries. plain_surface_entry e"
  shows "parse_late_stage_surface_only_branch_surface
           (render_late_stage_surface_only_branch_surface entries) =
         Some (remdups_adj (sort entries))"
proof -
  let ?es = "remdups_adj (sort entries)"
  have es: "\<forall>e\<in>set ?es. plain_surface_entry e" using assms by simp
  have split: "split_on (CHR '','') (join_with '','' ?es) = (if ?es = [] then [[]] else ?es)"
    using es split_on_join_with [of ?es "CHR '',''"] by (auto simp: plain_surface_entry_def)
  have "map trim ?es = ?es" using es by (intro map_idI) (auto simp: plain_surface_entry_def)
  moreover have "filter (\<lambda>e. e \<noteq> []) ?es = ?es"
    using es plain_surface_entry_nonempty by (auto simp: filter_id_conv)
  ultimately have f: "filter (\<lambda>e. e \<noteq> []) (map trim (split_on (CHR '','') (join_with '','' ?es))) = ?es"
    by (simp add: split)
  have "collect_results normalize_late_stage_surface_entry ?es = Inr ?es"
    using es by (intro collect_results_fixed) (simp add: plain_surface_entry_def)
  moreover have "sort ?es = ?es" by (simp add: sorted_sort_id)
  moreover have "remdups_adj ?es = ?es" by (rule remdups_adj_idem)
  ultimately show ?thesis
    by (simp add: parse_late_stage_surface_only_branch_surface_def
        render_late_stage_surface_only_branch_surface_def strip_prefix_append f
        del: append.simps append_Cons append_Nil)
qed

lemma rendered_surface_well_formed:
  "entries \<noteq> [] \<Longrightarrow> \<forall>e\<in>set entries. plain_surface_entry e \<Longrightarrow>
   well_formed_late_stage_surface_only_branch_surface
     (render_late_stage_surface_only_branch_surface entries)"
  by (simp add: well_formed_late_stage_surface_only_branch_surface_def parse_render_surface)
     (metis set_empty2 set_sort)

end
