(* ===== verification/Task_Scope_Key.thy ===== *)
theory Task_Scope_Key
  imports FF_Prelude
begin

text \<open>
  Keys of task-scoped maps (\<^verbatim>\<open>src/src/execution/task_scope_key.rs\<close>): \<^verbatim>\<open>task-<u32>\<close>, and the
  record identifiers that start the same way.
\<close>

definition TASK_SCOPE_KEY_PREFIX :: string where
  "TASK_SCOPE_KEY_PREFIX = ''task-''"

definition task_scope_key_task_number :: "string \<Rightarrow> nat option" where
  "task_scope_key_task_number scope_key =
     Option.bind (strip_prefix scope_key TASK_SCOPE_KEY_PREFIX)
       (\<lambda>raw. if raw = [] \<or> \<not> list_all is_digit raw then None else parse_u32 raw)"

definition task_scope_key_for_task :: "nat \<Rightarrow> string" where
  "task_scope_key_for_task task = TASK_SCOPE_KEY_PREFIX @ show_nat task"

definition task_prefixed_record_id_task_number :: "string \<Rightarrow> nat option" where
  "task_prefixed_record_id_task_number record_id =
     Option.bind (strip_prefix record_id TASK_SCOPE_KEY_PREFIX)
       (\<lambda>raw. let digits = takeWhile is_digit raw in if digits = [] then None else parse_u32 digits)"

lemma task_scope_key_inject [simp]:
  "task_scope_key_for_task a = task_scope_key_for_task b \<longleftrightarrow> a = b"
  by (simp add: task_scope_key_for_task_def)

lemma task_scope_key_round_trip [simp]:
  "task_scope_key_task_number (task_scope_key_for_task task) = (if task \<le> u32_max then Some task else None)"
  by (simp add: task_scope_key_task_number_def task_scope_key_for_task_def show_nat_digits
      parse_uint_show_nat)

lemma task_scope_key_bound: "task_scope_key_task_number k = Some n \<Longrightarrow> n \<le> u32_max"
  by (auto simp: task_scope_key_task_number_def bind_eq_Some_conv split: if_splits
      dest: parse_uint_bound)

text \<open>An exact key is also a record identifier of the same task, with or without a suffix that does
  not start with a digit.\<close>

lemma scope_key_is_record_id:
  assumes "task_scope_key_task_number k = Some n" and "s = [] \<or> \<not> is_digit (hd s)"
  shows "task_prefixed_record_id_task_number (k @ s) = Some n"
proof -
  obtain raw where raw: "k = TASK_SCOPE_KEY_PREFIX @ raw" "raw \<noteq> []" "list_all is_digit raw"
      "parse_u32 raw = Some n"
    using assms(1) by (auto simp: task_scope_key_task_number_def bind_eq_Some_conv strip_prefix_Some
        split: if_splits)
  have "takeWhile is_digit s = []"
    using assms(2) by (cases s) auto
  then have "takeWhile is_digit (raw @ s) = raw"
    using raw(3) by (simp add: takeWhile_append2 list_all_iff)
  then show ?thesis
    using raw by (simp add: task_prefixed_record_id_task_number_def)
qed

end
