(* ===== verification/Transition_State.thy ===== *)
theory Transition_State
  imports Late_Stage_Surface Task_Scope_Key Follow_Up Diagnostics "HOL-Library.Monad_Syntax"
begin

text \<open>
  The authoritative state of a branch as the runtime works on it between loading and persisting
  (\<^verbatim>\<open>AuthoritativeTransitionState\<close> of \<^verbatim>\<open>src/src/execution/transitions.rs\<close>): the record, the type
  of its mutating operations, the access to the maps inside the payload, and the readers.

  A mutating operation is a function from the state to a result and the state it leaves
  behind, also when it fails: the code mutates through \<^verbatim>\<open>&mut self\<close>, so what an operation wrote
  before an error stays.  The digest, the clock and the texts of \<^verbatim>\<open>serde_json\<close> errors are the
  record \<open>transition_env\<close>; \<open>ts_ticks\<close> counts how often the clock has been read.  Of an
  active contract the model keeps what these operations read.  A key \<^verbatim>\<open>format!("task-{task}")\<close>
  is written \<open>task_scope_key_for_task\<close>, which is the same text.
\<close>

record transition_env =
  env_sha256 :: "string \<Rightarrow> string"
  env_clock :: "nat \<Rightarrow> string"
  env_serde_error :: "json \<Rightarrow> string"

record ActiveContractState =
  ac_reset_policy :: string
  ac_covered_steps :: "string list"

record AuthoritativeTransitionState =
  ts_path :: string
  ts_payload :: json
  ts_phase :: "string option"
  ts_active_contract :: "ActiveContractState option"
  ts_dirty :: bool
  ts_ticks :: nat

subsection \<open>Operations\<close>

type_synonym 'a mutation = "AuthoritativeTransitionState \<Rightarrow> 'a result \<times> AuthoritativeTransitionState"

definition op_return :: "'a \<Rightarrow> 'a mutation" where
  "op_return x = (\<lambda>s. (Inr x, s))"

definition op_fail :: "JsonFailure \<Rightarrow> 'a mutation" where
  "op_fail e = (\<lambda>s. (Inl e, s))"

definition op_bind :: "'a mutation \<Rightarrow> ('a \<Rightarrow> 'b mutation) \<Rightarrow> 'b mutation" where
  "op_bind m f = (\<lambda>s. case m s of (Inl e, s') \<Rightarrow> (Inl e, s') | (Inr x, s') \<Rightarrow> f x s')"

definition op_gets :: "(AuthoritativeTransitionState \<Rightarrow> 'a) \<Rightarrow> 'a mutation" where
  "op_gets g = (\<lambda>s. (Inr (g s), s))"

definition op_lift :: "'a result \<Rightarrow> 'a mutation" where
  "op_lift r = (\<lambda>s. (r, s))"

definition op_when :: "bool \<Rightarrow> unit mutation \<Rightarrow> unit mutation" where
  "op_when b m = (if b then m else op_return ())"

definition op_then :: "unit mutation \<Rightarrow> 'a mutation \<Rightarrow> 'a mutation" where
  "op_then m n = op_bind m (\<lambda>_. n)"

fun op_seq :: "unit mutation list \<Rightarrow> unit mutation" where
  "op_seq [] = op_return ()"
| "op_seq (m # ms) = op_then m (op_seq ms)"

definition op_ignore :: "'a mutation \<Rightarrow> unit mutation" where
  "op_ignore m = op_bind m (\<lambda>_. op_return ())"

text \<open>\<^verbatim>\<open>ok_or_else\<close>.\<close>

definition op_require :: "JsonFailure \<Rightarrow> 'a option \<Rightarrow> 'a mutation" where
  "op_require e a = (case a of None \<Rightarrow> op_fail e | Some x \<Rightarrow> op_return x)"

definition mark_dirty :: "unit mutation" where
  "mark_dirty = (\<lambda>s. (Inr (), s\<lparr>ts_dirty := True\<rparr>))"

definition set_phase :: "string \<Rightarrow> unit mutation" where
  "set_phase p = (\<lambda>s. (Inr (), s\<lparr>ts_phase := Some p\<rparr>))"

definition timestamp_now :: "transition_env \<Rightarrow> string mutation" where
  "timestamp_now env = (\<lambda>s. (Inr (env_clock env (ts_ticks s)), s\<lparr>ts_ticks := Suc (ts_ticks s)\<rparr>))"

definition root_object_mut :: "(json_map \<Rightarrow> 'a \<times> json_map) \<Rightarrow> 'a mutation" where
  "root_object_mut f = (\<lambda>s. case as_object (ts_payload s) of
       Some root \<Rightarrow> (case f root of (x, root') \<Rightarrow> (Inr x, s\<lparr>ts_payload := JObject root'\<rparr>))
     | None \<Rightarrow> (Inl (json_failure MalformedExecutionState
         (''Authoritative harness state is malformed in '' @ ts_path s @ '': expected a JSON object root.'')), s))"

definition root_insert :: "string \<Rightarrow> json \<Rightarrow> unit mutation" where
  "root_insert field v = root_object_mut (\<lambda>root. ((), obj_insert field v root))"

definition root_insert_all :: "(string \<times> json) list \<Rightarrow> unit mutation" where
  "root_insert_all kvs = op_seq (map (\<lambda>kv. root_insert (fst kv) (snd kv)) kvs)"

text \<open>A field of the root that holds an object: created empty when it is absent, an error when it
  holds something else.  Every \<^verbatim>\<open>*_mut\<close> accessor has this body.\<close>

definition object_field_mut :: "string \<Rightarrow> (json_map \<Rightarrow> 'a \<times> json_map) \<Rightarrow> 'a mutation" where
  "object_field_mut field f =
     op_bind (root_object_mut (\<lambda>root.
        case obj_get root field of
          Some (JObject es) \<Rightarrow> (case f es of (x, es') \<Rightarrow> (Some x, obj_insert field (JObject es') root))
        | None \<Rightarrow> (case f [] of (x, es') \<Rightarrow> (Some x, obj_insert field (JObject es') root))
        | Some _ \<Rightarrow> (None, root)))
       (op_require (json_failure MalformedExecutionState
          (''Authoritative harness '' @ field @ '' must be a JSON object.'')))"

definition dispatch_credit_counts_mut :: "(json_map \<Rightarrow> 'a \<times> json_map) \<Rightarrow> 'a mutation" where
  "dispatch_credit_counts_mut = object_field_mut ''strategy_review_dispatch_credits''"

definition dispatch_lineage_records_mut :: "(json_map \<Rightarrow> 'a \<times> json_map) \<Rightarrow> 'a mutation" where
  "dispatch_lineage_records_mut = object_field_mut ''strategy_review_dispatch_lineage''"

definition current_task_closure_records_mut :: "(json_map \<Rightarrow> 'a \<times> json_map) \<Rightarrow> 'a mutation" where
  "current_task_closure_records_mut = object_field_mut ''current_task_closure_records''"

definition task_closure_record_history_mut :: "(json_map \<Rightarrow> 'a \<times> json_map) \<Rightarrow> 'a mutation" where
  "task_closure_record_history_mut = object_field_mut ''task_closure_record_history''"

definition task_closure_negative_result_records_mut ::
  "(json_map \<Rightarrow> 'a \<times> json_map) \<Rightarrow> 'a mutation" where
  "task_closure_negative_result_records_mut = object_field_mut ''task_closure_negative_result_records''"

definition task_closure_negative_result_history_mut ::
  "(json_map \<Rightarrow> 'a \<times> json_map) \<Rightarrow> 'a mutation" where
  "task_closure_negative_result_history_mut = object_field_mut ''task_closure_negative_result_history''"

definition branch_closure_records_mut :: "(json_map \<Rightarrow> 'a \<times> json_map) \<Rightarrow> 'a mutation" where
  "branch_closure_records_mut = object_field_mut ''branch_closure_records''"

definition release_readiness_record_history_mut :: "(json_map \<Rightarrow> 'a \<times> json_map) \<Rightarrow> 'a mutation" where
  "release_readiness_record_history_mut = object_field_mut ''release_readiness_record_history''"

definition final_review_record_history_mut :: "(json_map \<Rightarrow> 'a \<times> json_map) \<Rightarrow> 'a mutation" where
  "final_review_record_history_mut = object_field_mut ''final_review_record_history''"

definition browser_qa_record_history_mut :: "(json_map \<Rightarrow> 'a \<times> json_map) \<Rightarrow> 'a mutation" where
  "browser_qa_record_history_mut = object_field_mut ''browser_qa_record_history''"

definition dispatch_lineage_history_mut :: "(json_map \<Rightarrow> 'a \<times> json_map) \<Rightarrow> 'a mutation" where
  "dispatch_lineage_history_mut = object_field_mut ''strategy_review_dispatch_lineage_history''"

definition final_review_dispatch_lineage_history_mut ::
  "(json_map \<Rightarrow> 'a \<times> json_map) \<Rightarrow> 'a mutation" where
  "final_review_dispatch_lineage_history_mut = object_field_mut ''final_review_dispatch_lineage_history''"

definition insert_root_field_if_changed :: "string \<Rightarrow> json \<Rightarrow> bool mutation" where
  "insert_root_field_if_changed field v =
     op_bind (root_object_mut (\<lambda>root. (obj_get root field, root))) (\<lambda>old.
       if old = Some v then op_return False
       else op_then (root_insert field v) (op_then mark_dirty (op_return True)))"

definition insert_nullable_root_field_if_changed :: "string \<Rightarrow> json \<Rightarrow> bool mutation" where
  "insert_nullable_root_field_if_changed field v =
     op_bind (root_object_mut (\<lambda>root. (obj_get root field, root))) (\<lambda>old.
       if is_null v \<and> old = None then op_return False
       else if old = Some v then op_return False
       else op_then (root_insert field v) (op_then mark_dirty (op_return True)))"

end
