(* ===== verification/Transition_Readers.thy ===== *)
theory Transition_Readers
  imports Transition_State
begin

text \<open>
  Readers of the authoritative transition state (\<^verbatim>\<open>src/src/execution/transitions.rs\<close>): the typed
  records decoded from the payload, the current closures and milestones, the repair follow-up and
  the open step.  A reader takes the payload of the state.

  Values decoded with a derived \<^verbatim>\<open>Deserialize\<close> follow \<^verbatim>\<open>serde_json::from_value\<close>: a struct is read
  from an object by field name or from an array by position, a missing optional field and an
  explicit null are both absent, and a number must be an integer in the range of its type.
\<close>

subsection \<open>Values\<close>

definition json_string_allow_empty :: "json \<Rightarrow> string \<Rightarrow> string option" where
  "json_string_allow_empty payload key = map_option trim (Option.bind (json_get payload key) as_str)"

definition json_u64 :: "json \<Rightarrow> string \<Rightarrow> nat" where
  "json_u64 payload key = unwrap_or 0 (Option.bind (json_get payload key) as_u64)"

definition json_bool :: "json \<Rightarrow> string \<Rightarrow> bool" where
  "json_bool payload key = unwrap_or False (Option.bind (json_get payload key) as_bool)"

definition json_string_array :: "json \<Rightarrow> string \<Rightarrow> string list" where
  "json_string_array payload key =
     (case Option.bind (json_get payload key) as_array of
        None \<Rightarrow> []
      | Some values \<Rightarrow> filter (\<lambda>v. v \<noteq> []) (map trim (List.map_filter as_str values)))"

fun strict_strings :: "json list \<Rightarrow> string list option" where
  "strict_strings [] = Some []"
| "strict_strings (v # vs) =
     Option.bind (trim_nonempty (as_str v)) (\<lambda>s. map_option (Cons s) (strict_strings vs))"

definition json_string_array_strict :: "json \<Rightarrow> string \<Rightarrow> string list option" where
  "json_string_array_strict payload key =
     Option.bind (Option.bind (json_get payload key) as_array) strict_strings"

text \<open>Collecting pairs into a \<^verbatim>\<open>BTreeMap\<close>: a later pair replaces an earlier one.\<close>

definition collect_btree :: "('k::linorder \<times> 'v) list \<Rightarrow> ('k \<times> 'v) list" where
  "collect_btree kvs = fold (\<lambda>kv. obj_insert (fst kv) (snd kv)) kvs []"

subsection \<open>Derived deserialization\<close>

definition serde_struct :: "string list \<Rightarrow> json \<Rightarrow> (string \<Rightarrow> json option) option" where
  "serde_struct names v =
     (case v of
        JObject es \<Rightarrow> Some (obj_get es)
      | JArray xs \<Rightarrow> if length xs \<le> length names then Some (map_of (zip names xs)) else None
      | _ \<Rightarrow> None)"

fun serde_uint :: "nat \<Rightarrow> json \<Rightarrow> nat option" where
  "serde_uint bound (JInt i) = (if 0 \<le> i \<and> i \<le> int bound then Some (nat i) else None)"
| "serde_uint bound _ = None"

definition serde_required :: "(json \<Rightarrow> 'a option) \<Rightarrow> json option \<Rightarrow> 'a option" where
  "serde_required d v = Option.bind v d"

definition serde_optional :: "(json \<Rightarrow> 'a option) \<Rightarrow> json option \<Rightarrow> 'a option option" where
  "serde_optional d v =
     (case v of None \<Rightarrow> Some None | Some w \<Rightarrow> if w = JNull then Some None else map_option Some (d w))"

definition serde_default :: "'a \<Rightarrow> (json \<Rightarrow> 'a option) \<Rightarrow> json option \<Rightarrow> 'a option" where
  "serde_default a d v = (case v of None \<Rightarrow> Some a | Some w \<Rightarrow> d w)"

text \<open>A unit variant is its name, or an object with that one key and null.\<close>

definition serde_unit_variant :: "(string \<times> 'a) list \<Rightarrow> json \<Rightarrow> 'a option" where
  "serde_unit_variant names v =
     (case v of
        JString s \<Rightarrow> map_of names s
      | JObject [(s, JNull)] \<Rightarrow> map_of names s
      | _ \<Rightarrow> None)"

subsection \<open>Records\<close>

record CurrentTaskClosureRecord =
  ctc_task :: nat
  ctc_dispatch_id :: string
  ctc_closure_record_id :: string
  ctc_source_plan_path :: "string option"
  ctc_source_plan_revision :: "nat option"
  ctc_execution_run_id :: "string option"
  ctc_reviewed_state_id :: string
  ctc_semantic_reviewed_state_id :: "string option"
  ctc_contract_identity :: string
  ctc_effective_reviewed_surface_paths :: "string list"
  ctc_review_result :: string
  ctc_review_summary_hash :: string
  ctc_verification_result :: string
  ctc_verification_summary_hash :: string
  ctc_closure_status :: "string option"

record RawCurrentTaskClosureStateEntry =
  rce_scope_key :: string
  rce_task :: "nat option"
  rce_closure_record_id :: "string option"
  rce_record :: "CurrentTaskClosureRecord option"

record BranchClosureRecord =
  brc_source_plan_path :: string
  brc_source_plan_revision :: nat
  brc_repo_slug :: string
  brc_branch_name :: string
  brc_base_branch :: string
  brc_reviewed_state_id :: string
  brc_semantic_reviewed_state_id :: "string option"
  brc_contract_identity :: string
  brc_effective_reviewed_branch_surface :: string
  brc_source_task_closure_ids :: "string list"
  brc_provenance_basis :: string
  brc_branch_closure_fingerprint :: "string option"

datatype BranchClosureStatusRead = ReadCurrent | ReadCurrentOrHistorical

fun status_read_allows :: "BranchClosureStatusRead \<Rightarrow> string \<Rightarrow> bool" where
  "status_read_allows ReadCurrent closure_status = (closure_status = ''current'')"
| "status_read_allows ReadCurrentOrHistorical closure_status =
     (closure_status = ''current'' \<or> closure_status = ''historical'')"

record CurrentBranchClosureIdentity =
  bci_branch_closure_id :: string
  bci_reviewed_state_id :: string
  bci_semantic_reviewed_state_id :: "string option"
  bci_contract_identity :: string

record TaskClosureNegativeResult =
  neg_dispatch_id :: string
  neg_reviewed_state_id :: string
  neg_semantic_reviewed_state_id :: "string option"
  neg_contract_identity :: string
  neg_review_result :: string
  neg_review_summary_hash :: string
  neg_verification_result :: string
  neg_verification_summary_hash :: "string option"

record OpenStepStateRecord =
  os_task :: nat
  os_step :: nat
  os_note_state :: string
  os_note_summary :: string
  os_execution_mode :: "string option"
  os_repo_root :: "string option"
  os_source_plan_path :: string
  os_source_plan_revision :: nat
  os_authoritative_sequence :: nat

record CurrentReleaseReadinessRecord =
  crr_record_status :: string
  crr_branch_closure_id :: string
  crr_source_plan_path :: string
  crr_source_plan_revision :: nat
  crr_repo_slug :: string
  crr_branch_name :: string
  crr_base_branch :: string
  crr_reviewed_state_id :: string
  crr_semantic_reviewed_state_id :: "string option"
  crr_result :: string
  crr_release_docs_fingerprint :: "string option"
  crr_summary :: string
  crr_summary_hash :: string
  crr_generated_by_identity :: string

record CurrentFinalReviewRecord =
  cfr_record_status :: string
  cfr_branch_closure_id :: string
  cfr_release_readiness_record_id :: "string option"
  cfr_dispatch_id :: string
  cfr_reviewer_source :: string
  cfr_reviewer_id :: string
  cfr_result :: string
  cfr_final_review_fingerprint :: "string option"
  cfr_deviations_required :: "bool option"
  cfr_browser_qa_required :: "bool option"
  cfr_source_plan_path :: string
  cfr_source_plan_revision :: nat
  cfr_repo_slug :: string
  cfr_branch_name :: string
  cfr_base_branch :: string
  cfr_reviewed_state_id :: string
  cfr_semantic_reviewed_state_id :: "string option"
  cfr_summary :: string
  cfr_summary_hash :: string

record CurrentBrowserQaRecord =
  cqa_record_status :: string
  cqa_branch_closure_id :: string
  cqa_final_review_record_id :: "string option"
  cqa_source_plan_path :: string
  cqa_source_plan_revision :: nat
  cqa_repo_slug :: string
  cqa_branch_name :: string
  cqa_base_branch :: string
  cqa_reviewed_state_id :: string
  cqa_semantic_reviewed_state_id :: "string option"
  cqa_result :: string
  cqa_browser_qa_fingerprint :: "string option"
  cqa_source_test_plan_fingerprint :: "string option"
  cqa_summary :: string
  cqa_summary_hash :: string
  cqa_generated_by_identity :: string

record ExplicitReopenRepairTarget =
  ert_task :: nat
  ert_step :: nat
  ert_target_record_id :: "string option"
  ert_created_sequence :: "nat option"
  ert_expires_on_plan_fingerprint_change :: bool

datatype PersistedReviewStateFieldClass =
    AuthoritativeAppendOnlyHistory
  | AuthoritativeMutableControlState
  | DerivedCache
  | ProjectionSummary
  | Obsolete

definition classify_review_state_field :: "string \<Rightarrow> PersistedReviewStateFieldClass option" where
  "classify_review_state_field field =
     (if field \<in> {''task_closure_record_history'', ''branch_closure_records'',
          ''release_readiness_record_history'', ''final_review_record_history'',
          ''browser_qa_record_history''}
      then Some AuthoritativeAppendOnlyHistory
      else if field \<in> {''current_open_step_state'', ''explicit_reopen_repair_targets''}
      then Some AuthoritativeMutableControlState
      else if field \<in> {''current_task_closure_records'', ''task_closure_negative_result_records'',
          ''current_branch_closure_id'', ''current_branch_closure_reviewed_state_id'',
          ''current_branch_closure_contract_identity'', ''current_release_readiness_record_id'',
          ''current_release_readiness_result'', ''current_release_readiness_summary_hash'',
          ''current_final_review_record_id'', ''current_final_review_branch_closure_id'',
          ''current_final_review_dispatch_id'', ''current_final_review_reviewer_source'',
          ''current_final_review_reviewer_id'', ''current_final_review_result'',
          ''current_final_review_summary_hash'', ''current_qa_record_id'',
          ''current_qa_branch_closure_id'', ''current_qa_result'', ''current_qa_summary_hash'',
          ''review_state_repair_follow_up_record'', ''review_state_repair_follow_up'',
          ''review_state_repair_follow_up_task'', ''review_state_repair_follow_up_step'',
          ''review_state_repair_follow_up_closure_record_id''}
      then Some DerivedCache
      else if field \<in> {''release_docs_state'', ''final_review_state'', ''browser_qa_state'',
          ''last_release_docs_artifact_fingerprint'', ''last_final_review_artifact_fingerprint'',
          ''last_browser_qa_artifact_fingerprint''}
      then Some ProjectionSummary
      else if field \<in> {''current_release_readiness_state'', ''current_final_review_state'',
          ''current_qa_state''}
      then Some Obsolete
      else None)"

subsection \<open>Records decoded from payloads\<close>

definition current_task_closure_record_from_payload ::
  "nat \<Rightarrow> json_map \<Rightarrow> CurrentTaskClosureRecord option" where
  "current_task_closure_record_from_payload task payload = (let p = JObject payload in do {
     dispatch_id \<leftarrow> json_string p ''dispatch_id'';
     closure_record_id \<leftarrow> json_string p ''closure_record_id'';
     reviewed_state_id \<leftarrow> json_string p ''reviewed_state_id'';
     contract_identity \<leftarrow> json_string p ''contract_identity'';
     surface_paths \<leftarrow> json_string_array_strict p ''effective_reviewed_surface_paths'';
     review_result \<leftarrow> json_string p ''review_result'';
     review_summary_hash \<leftarrow> json_string p ''review_summary_hash'';
     verification_result \<leftarrow> json_string p ''verification_result'';
     verification_summary_hash \<leftarrow> json_string p ''verification_summary_hash'';
     Some \<lparr>ctc_task = task, ctc_dispatch_id = dispatch_id, ctc_closure_record_id = closure_record_id,
       ctc_source_plan_path = json_string p ''source_plan_path'',
       ctc_source_plan_revision = json_u32 p ''source_plan_revision'',
       ctc_execution_run_id = json_string p ''execution_run_id'',
       ctc_reviewed_state_id = reviewed_state_id,
       ctc_semantic_reviewed_state_id = json_string p ''semantic_reviewed_state_id'',
       ctc_contract_identity = contract_identity,
       ctc_effective_reviewed_surface_paths = surface_paths, ctc_review_result = review_result,
       ctc_review_summary_hash = review_summary_hash, ctc_verification_result = verification_result,
       ctc_verification_summary_hash = verification_summary_hash,
       ctc_closure_status = json_string p ''closure_status''\<rparr>})"

definition task_closure_negative_result_from_payload ::
  "json_map \<Rightarrow> TaskClosureNegativeResult option" where
  "task_closure_negative_result_from_payload payload = (let p = JObject payload in do {
     dispatch_id \<leftarrow> json_string p ''dispatch_id'';
     reviewed_state_id \<leftarrow> json_string p ''reviewed_state_id'';
     contract_identity \<leftarrow> json_string p ''contract_identity'';
     review_result \<leftarrow> json_string p ''review_result'';
     review_summary_hash \<leftarrow> json_string p ''review_summary_hash'';
     verification_result \<leftarrow> json_string p ''verification_result'';
     Some \<lparr>neg_dispatch_id = dispatch_id, neg_reviewed_state_id = reviewed_state_id,
       neg_semantic_reviewed_state_id = json_string p ''semantic_reviewed_state_id'',
       neg_contract_identity = contract_identity, neg_review_result = review_result,
       neg_review_summary_hash = review_summary_hash, neg_verification_result = verification_result,
       neg_verification_summary_hash = json_string p ''verification_summary_hash''\<rparr>})"

definition release_readiness_record_from_payload :: "json \<Rightarrow> CurrentReleaseReadinessRecord option" where
  "release_readiness_record_from_payload p = do {
     record_status \<leftarrow> json_string p ''record_status'';
     branch_closure_id \<leftarrow> json_string p ''branch_closure_id'';
     source_plan_path \<leftarrow> json_string p ''source_plan_path'';
     source_plan_revision \<leftarrow> json_u32 p ''source_plan_revision'';
     repo_slug \<leftarrow> json_string p ''repo_slug'';
     branch_name \<leftarrow> json_string p ''branch_name'';
     base_branch \<leftarrow> json_string p ''base_branch'';
     reviewed_state_id \<leftarrow> json_string p ''reviewed_state_id'';
     result \<leftarrow> json_string p ''result'';
     summary \<leftarrow> json_string p ''summary'';
     summary_hash \<leftarrow> json_string p ''summary_hash'';
     generated_by_identity \<leftarrow> json_string p ''generated_by_identity'';
     Some \<lparr>crr_record_status = record_status, crr_branch_closure_id = branch_closure_id,
       crr_source_plan_path = source_plan_path, crr_source_plan_revision = source_plan_revision,
       crr_repo_slug = repo_slug, crr_branch_name = branch_name, crr_base_branch = base_branch,
       crr_reviewed_state_id = reviewed_state_id,
       crr_semantic_reviewed_state_id = json_string p ''semantic_reviewed_state_id'',
       crr_result = result,
       crr_release_docs_fingerprint = json_string p ''release_docs_fingerprint'',
       crr_summary = summary, crr_summary_hash = summary_hash,
       crr_generated_by_identity = generated_by_identity\<rparr>}"

subsection \<open>Histories\<close>

definition record_payload_by_id :: "json \<Rightarrow> string \<Rightarrow> string \<Rightarrow> json option" where
  "record_payload_by_id p history_key record_id =
     (let record_id = trim record_id in
      if record_id = [] then None
      else do { history \<leftarrow> Option.bind (json_get p history_key) as_object; obj_get history record_id })"

definition current_record_entry :: "json \<Rightarrow> string \<Rightarrow> string \<Rightarrow> (string \<times> json) option" where
  "current_record_entry p current_id_key history_key = do {
     history \<leftarrow> Option.bind (json_get p history_key) as_object;
     case Option.bind (json_string p current_id_key)
            (\<lambda>record_id. Option.bind (obj_get history record_id)
               (\<lambda>payload. if json_string payload ''record_status'' = Some ''current''
                  then Some (record_id, payload) else None)) of
       Some found \<Rightarrow> Some found
     | None \<Rightarrow>
         if current_id_key \<in> {''current_release_readiness_record_id'',
              ''current_final_review_record_id'', ''current_qa_record_id''}
         then None
         else (case filter (\<lambda>e. json_string (snd e) ''record_status'' = Some ''current'') history of
                 [current_record] \<Rightarrow> Some current_record
               | _ \<Rightarrow> None)}"

definition release_readiness_record_by_id :: "json \<Rightarrow> string \<Rightarrow> CurrentReleaseReadinessRecord option" where
  "release_readiness_record_by_id p record_id =
     Option.bind (record_payload_by_id p ''release_readiness_record_history'' record_id)
       release_readiness_record_from_payload"

definition current_release_readiness_record :: "json \<Rightarrow> CurrentReleaseReadinessRecord option" where
  "current_release_readiness_record p = do {
     (record_id, _) \<leftarrow> current_record_entry p ''current_release_readiness_record_id''
        ''release_readiness_record_history'';
     release_readiness_record_by_id p record_id}"

definition final_review_record_by_id :: "json \<Rightarrow> string \<Rightarrow> CurrentFinalReviewRecord option" where
  "final_review_record_by_id state record_id = do {
     p \<leftarrow> record_payload_by_id state ''final_review_record_history'' record_id;
     record_status \<leftarrow> json_string p ''record_status'';
     branch_closure_id \<leftarrow> json_string p ''branch_closure_id'';
     dispatch_id \<leftarrow> json_string p ''dispatch_id'';
     reviewer_source \<leftarrow> json_string p ''reviewer_source'';
     reviewer_id \<leftarrow> json_string p ''reviewer_id'';
     result \<leftarrow> json_string p ''result'';
     source_plan_path \<leftarrow> json_string p ''source_plan_path'';
     source_plan_revision \<leftarrow> json_u32 p ''source_plan_revision'';
     repo_slug \<leftarrow> json_string p ''repo_slug'';
     branch_name \<leftarrow> json_string p ''branch_name'';
     base_branch \<leftarrow> json_string p ''base_branch'';
     reviewed_state_id \<leftarrow> json_string p ''reviewed_state_id'';
     summary \<leftarrow> json_string p ''summary'';
     summary_hash \<leftarrow> json_string p ''summary_hash'';
     Some \<lparr>cfr_record_status = record_status, cfr_branch_closure_id = branch_closure_id,
       cfr_release_readiness_record_id = json_string p ''release_readiness_record_id'',
       cfr_dispatch_id = dispatch_id, cfr_reviewer_source = reviewer_source,
       cfr_reviewer_id = reviewer_id, cfr_result = result,
       cfr_final_review_fingerprint = json_string p ''final_review_fingerprint'',
       cfr_deviations_required = Option.bind (json_get p ''deviations_required'') as_bool,
       cfr_browser_qa_required = Option.bind (json_get p ''browser_qa_required'') as_bool,
       cfr_source_plan_path = source_plan_path, cfr_source_plan_revision = source_plan_revision,
       cfr_repo_slug = repo_slug, cfr_branch_name = branch_name, cfr_base_branch = base_branch,
       cfr_reviewed_state_id = reviewed_state_id,
       cfr_semantic_reviewed_state_id = json_string p ''semantic_reviewed_state_id'',
       cfr_summary = summary, cfr_summary_hash = summary_hash\<rparr>}"

definition current_final_review_record :: "json \<Rightarrow> CurrentFinalReviewRecord option" where
  "current_final_review_record p = do {
     (record_id, _) \<leftarrow> current_record_entry p ''current_final_review_record_id''
        ''final_review_record_history'';
     final_review_record_by_id p record_id}"

definition browser_qa_record_by_id :: "json \<Rightarrow> string \<Rightarrow> CurrentBrowserQaRecord option" where
  "browser_qa_record_by_id state record_id = do {
     p \<leftarrow> record_payload_by_id state ''browser_qa_record_history'' record_id;
     record_status \<leftarrow> json_string p ''record_status'';
     branch_closure_id \<leftarrow> json_string p ''branch_closure_id'';
     source_plan_path \<leftarrow> json_string p ''source_plan_path'';
     source_plan_revision \<leftarrow> json_u32 p ''source_plan_revision'';
     repo_slug \<leftarrow> json_string p ''repo_slug'';
     branch_name \<leftarrow> json_string p ''branch_name'';
     base_branch \<leftarrow> json_string_allow_empty p ''base_branch'';
     reviewed_state_id \<leftarrow> json_string p ''reviewed_state_id'';
     result \<leftarrow> json_string p ''result'';
     summary \<leftarrow> json_string p ''summary'';
     summary_hash \<leftarrow> json_string p ''summary_hash'';
     generated_by_identity \<leftarrow> json_string p ''generated_by_identity'';
     Some \<lparr>cqa_record_status = record_status, cqa_branch_closure_id = branch_closure_id,
       cqa_final_review_record_id = json_string p ''final_review_record_id'',
       cqa_source_plan_path = source_plan_path, cqa_source_plan_revision = source_plan_revision,
       cqa_repo_slug = repo_slug, cqa_branch_name = branch_name, cqa_base_branch = base_branch,
       cqa_reviewed_state_id = reviewed_state_id,
       cqa_semantic_reviewed_state_id = json_string p ''semantic_reviewed_state_id'',
       cqa_result = result,
       cqa_browser_qa_fingerprint = json_string p ''browser_qa_fingerprint'',
       cqa_source_test_plan_fingerprint = json_string p ''source_test_plan_fingerprint'',
       cqa_summary = summary, cqa_summary_hash = summary_hash,
       cqa_generated_by_identity = generated_by_identity\<rparr>}"

definition current_browser_qa_record :: "json \<Rightarrow> CurrentBrowserQaRecord option" where
  "current_browser_qa_record p = do {
     (record_id, _) \<leftarrow> current_record_entry p ''current_qa_record_id'' ''browser_qa_record_history'';
     browser_qa_record_by_id p record_id}"

subsection \<open>Task closures\<close>

abbreviation current_task_closure_map :: "json \<Rightarrow> json_map option" where
  "current_task_closure_map p \<equiv> Option.bind (json_get p ''current_task_closure_records'') as_object"

abbreviation task_closure_history_map :: "json \<Rightarrow> json_map option" where
  "task_closure_history_map p \<equiv> Option.bind (json_get p ''task_closure_record_history'') as_object"

definition raw_current_task_closure_result :: "json \<Rightarrow> nat \<Rightarrow> CurrentTaskClosureRecord option" where
  "raw_current_task_closure_result p task = do {
     records \<leftarrow> current_task_closure_map p;
     payload \<leftarrow> obj_get records (task_scope_key_for_task task);
     payload \<leftarrow> as_object payload;
     current_task_closure_record_from_payload task payload}"

definition raw_current_task_closure_state_entry ::
  "json \<Rightarrow> nat \<Rightarrow> RawCurrentTaskClosureStateEntry option" where
  "raw_current_task_closure_state_entry p task = do {
     records \<leftarrow> current_task_closure_map p;
     payload \<leftarrow> obj_get records (task_scope_key_for_task task);
     Some \<lparr>rce_scope_key = task_scope_key_for_task task, rce_task = Some task,
       rce_closure_record_id = json_string payload ''closure_record_id'',
       rce_record = Option.bind (as_object payload) (current_task_closure_record_from_payload task)\<rparr>}"

definition raw_current_task_closure_state_entries :: "json \<Rightarrow> RawCurrentTaskClosureStateEntry list" where
  "raw_current_task_closure_state_entries p =
     (case current_task_closure_map p of
        None \<Rightarrow> []
      | Some records \<Rightarrow>
          map (\<lambda>(scope_key, payload).
             let task = task_scope_key_task_number scope_key in
             \<lparr>rce_scope_key = scope_key, rce_task = task,
              rce_closure_record_id = json_string payload ''closure_record_id'',
              rce_record = Option.bind task (\<lambda>task. Option.bind (as_object payload)
                 (current_task_closure_record_from_payload task))\<rparr>) records)"

definition raw_current_task_closure_results :: "json \<Rightarrow> (nat \<times> CurrentTaskClosureRecord) list" where
  "raw_current_task_closure_results p =
     (case current_task_closure_map p of
        None \<Rightarrow> []
      | Some records \<Rightarrow> collect_btree (List.map_filter (\<lambda>key.
          map_option (\<lambda>record. (ctc_task record, record))
            (Option.bind (task_scope_key_task_number key) (raw_current_task_closure_result p)))
          (obj_keys records)))"

definition history_task_closure :: "json \<Rightarrow> CurrentTaskClosureRecord option" where
  "history_task_closure v = do {
     payload \<leftarrow> as_object v;
     task \<leftarrow> json_u32 (JObject payload) ''task'';
     current_task_closure_record_from_payload task payload}"

definition current_task_closure_results_from_history :: "json \<Rightarrow> (nat \<times> CurrentTaskClosureRecord) list" where
  "current_task_closure_results_from_history p =
     (case task_closure_history_map p of
        None \<Rightarrow> []
      | Some history \<Rightarrow> collect_btree (List.map_filter (\<lambda>v.
          if json_string v ''record_status'' \<noteq> Some ''current'' then None
          else map_option (\<lambda>record. (ctc_task record, record)) (history_task_closure v))
          (obj_values history)))"

definition current_task_closure_result :: "json \<Rightarrow> nat \<Rightarrow> CurrentTaskClosureRecord option" where
  "current_task_closure_result p task =
     opt_or (obj_get (current_task_closure_results_from_history p) task)
       (raw_current_task_closure_result p task)"

definition current_task_closure_results :: "json \<Rightarrow> (nat \<times> CurrentTaskClosureRecord) list" where
  "current_task_closure_results p =
     fold (\<lambda>kv. obj_insert (fst kv) (snd kv)) (current_task_closure_results_from_history p)
       (raw_current_task_closure_results p)"

definition task_closure_history_records :: "json \<Rightarrow> CurrentTaskClosureRecord list" where
  "task_closure_history_records p =
     (case task_closure_history_map p of
        None \<Rightarrow> []
      | Some history \<Rightarrow> List.map_filter history_task_closure (obj_values history))"

definition task_closure_history_contains_task :: "json \<Rightarrow> nat \<Rightarrow> bool" where
  "task_closure_history_contains_task p task \<longleftrightarrow>
     is_some_and (task_closure_history_map p)
       (\<lambda>history. list_ex (\<lambda>v. is_object v \<and> Option.bind (json_get v ''task'') as_u64 = Some task)
          (obj_values history))"

definition blank_or_absent :: "json \<Rightarrow> string \<Rightarrow> bool" where
  "blank_or_absent v key \<longleftrightarrow>
     \<not> is_some_and (Option.bind (json_get v key) as_str) (\<lambda>s. trim s \<noteq> [])"

definition task_closure_history_lineage_present :: "json \<Rightarrow> nat \<Rightarrow> string option \<Rightarrow> bool" where
  "task_closure_history_lineage_present p task record_id \<longleftrightarrow>
     is_some_and (task_closure_history_map p) (\<lambda>history. list_ex (\<lambda>(history_key, v).
        is_object v \<and> Option.bind (json_get v ''task'') as_u64 = Some task \<and>
        (case record_id of
           None \<Rightarrow> True
         | Some record_id \<Rightarrow>
             unwrap_or history_key (trim_nonempty (Option.bind
               (opt_or (json_get v ''closure_record_id'') (json_get v ''record_id'')) as_str)) = record_id) \<and>
        \<not> blank_or_absent v ''dispatch_id'' \<and> \<not> blank_or_absent v ''execution_run_id'') history)"

definition current_task_closure_overlay_needs_restore :: "json \<Rightarrow> bool" where
  "current_task_closure_overlay_needs_restore p \<longleftrightarrow>
     (let recoverable = current_task_closure_results_from_history p in
      recoverable \<noteq> [] \<and> raw_current_task_closure_results p \<noteq> recoverable)"

subsection \<open>Branch closures\<close>

definition branch_closure_surface_ok :: "string \<Rightarrow> string list \<Rightarrow> string \<Rightarrow> bool" where
  "branch_closure_surface_ok provenance_basis source_task_closure_ids surface \<longleftrightarrow>
     (if provenance_basis = BRANCH_CLOSURE_PROVENANCE_TASK_CLOSURE_LINEAGE
      then source_task_closure_ids \<noteq> [] \<and> surface = ''repo_tracked_content''
      else if branch_closure_provenance_is_late_stage_surface_exemption provenance_basis
      then (if source_task_closure_ids = []
            then well_formed_late_stage_surface_only_branch_surface surface
            else surface = ''repo_tracked_content'')
      else False)"

definition branch_closure_record_with_status ::
  "json \<Rightarrow> string \<Rightarrow> BranchClosureStatusRead \<Rightarrow> BranchClosureRecord option" where
  "branch_closure_record_with_status state branch_closure_id status_read = do {
     records \<leftarrow> Option.bind (json_get state ''branch_closure_records'') as_object;
     p \<leftarrow> obj_get records branch_closure_id;
     p \<leftarrow> opt_filter is_object (Some p);
     recorded_id \<leftarrow> json_string p ''branch_closure_id'';
     _ \<leftarrow> then_some (trim recorded_id = branch_closure_id) ();
     closure_status \<leftarrow> json_string p ''closure_status'';
     _ \<leftarrow> then_some (status_read_allows status_read (trim closure_status)) ();
     source_plan_path \<leftarrow> json_string p ''source_plan_path'';
     source_plan_revision \<leftarrow> json_u32 p ''source_plan_revision'';
     repo_slug \<leftarrow> json_string p ''repo_slug'';
     branch_name \<leftarrow> json_string p ''branch_name'';
     base_branch \<leftarrow> json_string p ''base_branch'';
     surface \<leftarrow> json_string p ''effective_reviewed_branch_surface'';
     provenance_basis \<leftarrow> json_string p ''provenance_basis'';
     source_task_closure_ids \<leftarrow> json_string_array_strict p ''source_task_closure_ids'';
     _ \<leftarrow> json_string_array_strict p ''superseded_branch_closure_ids'';
     _ \<leftarrow> then_some (branch_closure_surface_ok provenance_basis source_task_closure_ids surface) ();
     reviewed_state_id \<leftarrow> json_string p ''reviewed_state_id'';
     contract_identity \<leftarrow> json_string p ''contract_identity'';
     Some \<lparr>brc_source_plan_path = source_plan_path, brc_source_plan_revision = source_plan_revision,
       brc_repo_slug = repo_slug, brc_branch_name = branch_name, brc_base_branch = base_branch,
       brc_reviewed_state_id = reviewed_state_id,
       brc_semantic_reviewed_state_id = json_string p ''semantic_reviewed_state_id'',
       brc_contract_identity = contract_identity, brc_effective_reviewed_branch_surface = surface,
       brc_source_task_closure_ids = source_task_closure_ids,
       brc_provenance_basis = provenance_basis,
       brc_branch_closure_fingerprint = json_string p ''branch_closure_fingerprint''\<rparr>}"

definition branch_closure_record :: "json \<Rightarrow> string \<Rightarrow> BranchClosureRecord option" where
  "branch_closure_record p branch_closure_id =
     branch_closure_record_with_status p branch_closure_id ReadCurrent"

definition branch_closure_record_for_repair_follow_up :: "json \<Rightarrow> string \<Rightarrow> BranchClosureRecord option" where
  "branch_closure_record_for_repair_follow_up p branch_closure_id =
     branch_closure_record_with_status p branch_closure_id ReadCurrentOrHistorical"

definition branch_closure_identity ::
  "string \<Rightarrow> BranchClosureRecord \<Rightarrow> CurrentBranchClosureIdentity" where
  "branch_closure_identity branch_closure_id record =
     \<lparr>bci_branch_closure_id = branch_closure_id, bci_reviewed_state_id = brc_reviewed_state_id record,
      bci_semantic_reviewed_state_id = brc_semantic_reviewed_state_id record,
      bci_contract_identity = brc_contract_identity record\<rparr>"

definition bound_current_branch_closure_identity :: "json \<Rightarrow> CurrentBranchClosureIdentity option" where
  "bound_current_branch_closure_identity p = do {
     branch_closure_id \<leftarrow> json_string p ''current_branch_closure_id'';
     record \<leftarrow> branch_closure_record p branch_closure_id;
     Some (branch_closure_identity branch_closure_id record)}"

definition recoverable_current_branch_closure_identity :: "json \<Rightarrow> CurrentBranchClosureIdentity option" where
  "recoverable_current_branch_closure_identity p =
     (case bound_current_branch_closure_identity p of
        Some bound \<Rightarrow> Some bound
      | None \<Rightarrow> do {
          records \<leftarrow> Option.bind (json_get p ''branch_closure_records'') as_object;
          case List.map_filter (\<lambda>branch_closure_id. map_option (branch_closure_identity branch_closure_id)
                 (branch_closure_record p branch_closure_id)) (obj_keys records) of
            [current] \<Rightarrow> Some current
          | _ \<Rightarrow> None})"

definition late_stage_record_matches_current_branch_identity ::
  "CurrentBranchClosureIdentity \<Rightarrow> string \<Rightarrow> string option \<Rightarrow> bool" where
  "late_stage_record_matches_current_branch_identity current_identity record_reviewed_state_id
       record_semantic_reviewed_state_id =
     (case (bci_semantic_reviewed_state_id current_identity, record_semantic_reviewed_state_id) of
        (Some current_semantic, Some record_semantic) \<Rightarrow> current_semantic = record_semantic
      | (Some _, None) \<Rightarrow> False
      | (None, Some _) \<Rightarrow> False
      | (None, None) \<Rightarrow> True)"

subsection \<open>Negative results\<close>

definition raw_task_closure_negative_result :: "json \<Rightarrow> nat \<Rightarrow> TaskClosureNegativeResult option" where
  "raw_task_closure_negative_result p task = do {
     records \<leftarrow> Option.bind (json_get p ''task_closure_negative_result_records'') as_object;
     payload \<leftarrow> obj_get records (task_scope_key_for_task task);
     payload \<leftarrow> as_object payload;
     task_closure_negative_result_from_payload payload}"

definition task_closure_negative_results_from_history :: "json \<Rightarrow> (nat \<times> TaskClosureNegativeResult) list" where
  "task_closure_negative_results_from_history p =
     (case Option.bind (json_get p ''task_closure_negative_result_history'') as_object of
        None \<Rightarrow> []
      | Some history \<Rightarrow> collect_btree (List.map_filter (\<lambda>v.
          if json_string v ''record_status'' \<noteq> Some ''current'' then None
          else do { payload \<leftarrow> as_object v;
                    task \<leftarrow> json_u32 v ''task'';
                    record \<leftarrow> task_closure_negative_result_from_payload payload;
                    Some (task, record)}) (obj_values history)))"

definition task_closure_negative_result :: "json \<Rightarrow> nat \<Rightarrow> TaskClosureNegativeResult option" where
  "task_closure_negative_result p task =
     opt_or (obj_get (task_closure_negative_results_from_history p) task)
       (raw_task_closure_negative_result p task)"

definition task_closure_negative_result_overlay_needs_restore :: "json \<Rightarrow> bool" where
  "task_closure_negative_result_overlay_needs_restore p \<longleftrightarrow>
     (let recoverable = task_closure_negative_results_from_history p;
          raw = (case Option.bind (json_get p ''task_closure_negative_result_records'') as_object of
                   None \<Rightarrow> []
                 | Some records \<Rightarrow> collect_btree (List.map_filter (\<lambda>key. do {
                     task \<leftarrow> task_scope_key_task_number key;
                     record \<leftarrow> raw_task_closure_negative_result p task;
                     Some (task, record)}) (obj_keys records)))
      in recoverable \<noteq> [] \<and> raw \<noteq> recoverable)"

subsection \<open>Repair follow-up\<close>

definition repair_kind_names :: "(string \<times> RepairFollowUpKind) list" where
  "repair_kind_names =
     [(''record_branch_closure'', RFU_RecordBranchClosure), (''advance_late_stage'', RFU_AdvanceLateStage),
      (''record_final_review'', RFU_RecordFinalReview), (''record_qa'', RFU_RecordQa),
      (''close_task'', RFU_CloseTask), (''repair_review_state'', RFU_RepairReviewState),
      (''execution_reentry'', RFU_ExecutionReentry), (''request_external_review'', RFU_RequestExternalReview),
      (''wait_for_external_review_result'', RFU_WaitForExternalReviewResult),
      (''run_verification'', RFU_RunVerification), (''resolve_release_blocker'', RFU_ResolveReleaseBlocker),
      (''record_handoff'', RFU_RecordHandoff), (''gate_review'', RFU_GateReview),
      (''gate_finish'', RFU_GateFinish)]"

definition repair_scope_names :: "(string \<times> RepairTargetScope) list" where
  "repair_scope_names =
     [(''task_closure'', TaskClosureScope), (''branch_closure'', BranchClosureScope),
      (''release_readiness'', ReleaseReadinessScope), (''final_review'', FinalReviewScope),
      (''qa'', QaScope), (''execution_step'', ExecutionStepScope)]"

definition name_of :: "(string \<times> 'a) list \<Rightarrow> 'a \<Rightarrow> string" where
  "name_of names x = unwrap_or [] (map_of (map prod.swap names) x)"

definition repair_follow_up_record_from_value :: "json \<Rightarrow> RepairFollowUpRecord option" where
  "repair_follow_up_record_from_value v = do {
     f \<leftarrow> serde_struct [''kind'', ''target_scope'', ''target_task'', ''target_step'', ''target_record_id'',
        ''semantic_workspace_state_id'', ''source_route_decision_hash'', ''created_sequence'',
        ''created_at'', ''expires_on_plan_fingerprint_change''] v;
     kind \<leftarrow> serde_required (serde_unit_variant repair_kind_names) (f ''kind'');
     target_scope \<leftarrow> serde_required (serde_unit_variant repair_scope_names) (f ''target_scope'');
     target_task \<leftarrow> serde_optional (serde_uint u32_max) (f ''target_task'');
     target_step \<leftarrow> serde_optional (serde_uint u32_max) (f ''target_step'');
     target_record_id \<leftarrow> serde_optional as_str (f ''target_record_id'');
     semantic_workspace_state_id \<leftarrow> serde_optional as_str (f ''semantic_workspace_state_id'');
     source_route_decision_hash \<leftarrow> serde_optional as_str (f ''source_route_decision_hash'');
     created_sequence \<leftarrow> serde_required (serde_uint u64_max) (f ''created_sequence'');
     created_at \<leftarrow> serde_optional as_str (f ''created_at'');
     expires \<leftarrow> serde_required as_bool (f ''expires_on_plan_fingerprint_change'');
     Some \<lparr>rfu_kind = kind, rfu_target_scope = target_scope, rfu_target_task = target_task,
       rfu_target_step = target_step, rfu_target_record_id = target_record_id,
       rfu_semantic_workspace_state_id = semantic_workspace_state_id,
       rfu_source_route_decision_hash = source_route_decision_hash,
       rfu_created_sequence = created_sequence, rfu_created_at = created_at,
       rfu_expires_on_plan_fingerprint_change = expires\<rparr>}"

text \<open>\<^verbatim>\<open>skip_serializing_if = "Option::is_none"\<close>.\<close>

definition serde_skip_none :: "string \<Rightarrow> ('a \<Rightarrow> json) \<Rightarrow> 'a option \<Rightarrow> (string \<times> json) list" where
  "serde_skip_none key f a = (case a of None \<Rightarrow> [] | Some x \<Rightarrow> [(key, f x)])"

definition repair_follow_up_record_to_value :: "RepairFollowUpRecord \<Rightarrow> json" where
  "repair_follow_up_record_to_value r = json_object (
     [(''kind'', JString (name_of repair_kind_names (rfu_kind r))),
      (''target_scope'', JString (name_of repair_scope_names (rfu_target_scope r)))] @
     serde_skip_none ''target_task'' json_nat (rfu_target_task r) @
     serde_skip_none ''target_step'' json_nat (rfu_target_step r) @
     serde_skip_none ''target_record_id'' JString (rfu_target_record_id r) @
     serde_skip_none ''semantic_workspace_state_id'' JString (rfu_semantic_workspace_state_id r) @
     serde_skip_none ''source_route_decision_hash'' JString (rfu_source_route_decision_hash r) @
     [(''created_sequence'', json_nat (rfu_created_sequence r))] @
     serde_skip_none ''created_at'' JString (rfu_created_at r) @
     [(''expires_on_plan_fingerprint_change'', JBool (rfu_expires_on_plan_fingerprint_change r))])"

definition review_state_repair_follow_up :: "json \<Rightarrow> string option" where
  "review_state_repair_follow_up p = json_string p ''review_state_repair_follow_up''"

definition review_state_repair_follow_up_record :: "json \<Rightarrow> RepairFollowUpRecord option" where
  "review_state_repair_follow_up_record p =
     Option.bind (json_get p ''review_state_repair_follow_up_record'') repair_follow_up_record_from_value"

definition review_state_repair_follow_up_task :: "json \<Rightarrow> nat option" where
  "review_state_repair_follow_up_task p = json_u32 p ''review_state_repair_follow_up_task''"

definition review_state_repair_follow_up_step :: "json \<Rightarrow> nat option" where
  "review_state_repair_follow_up_step p = json_u32 p ''review_state_repair_follow_up_step''"

definition review_state_repair_follow_up_closure_record_id :: "json \<Rightarrow> string option" where
  "review_state_repair_follow_up_closure_record_id p =
     json_string p ''review_state_repair_follow_up_closure_record_id''"

definition explicit_reopen_repair_target_from_value :: "json \<Rightarrow> ExplicitReopenRepairTarget option" where
  "explicit_reopen_repair_target_from_value v = do {
     f \<leftarrow> serde_struct [''target_task'', ''target_step'', ''target_record_id'', ''created_sequence'',
        ''expires_on_plan_fingerprint_change''] v;
     task \<leftarrow> serde_required (serde_uint u32_max) (f ''target_task'');
     step \<leftarrow> serde_required (serde_uint u32_max) (f ''target_step'');
     target_record_id \<leftarrow> serde_optional as_str (f ''target_record_id'');
     created_sequence \<leftarrow> serde_optional (serde_uint u64_max) (f ''created_sequence'');
     expires \<leftarrow> serde_default False as_bool (f ''expires_on_plan_fingerprint_change'');
     Some \<lparr>ert_task = task, ert_step = step, ert_target_record_id = target_record_id,
       ert_created_sequence = created_sequence, ert_expires_on_plan_fingerprint_change = expires\<rparr>}"

definition explicit_reopen_repair_targets :: "json \<Rightarrow> ExplicitReopenRepairTarget list" where
  "explicit_reopen_repair_targets p =
     filter (\<lambda>target. ert_task target > 0 \<and> ert_step target > 0)
       (List.map_filter explicit_reopen_repair_target_from_value
          (unwrap_or [] (Option.bind (json_get p ''explicit_reopen_repair_targets'') as_array)))"

definition latest_authoritative_sequence :: "json \<Rightarrow> nat" where
  "latest_authoritative_sequence p =
     max (json_u64 p ''latest_authoritative_sequence'') (json_u64 p ''authoritative_sequence'')"

subsection \<open>The open step\<close>

definition malformed_open_step :: "string \<Rightarrow> string \<Rightarrow> JsonFailure" where
  "malformed_open_step state_path what =
     json_failure MalformedExecutionState
       (''Authoritative harness current_open_step_state is malformed in '' @ state_path @ '': '' @ what)"

definition normalize_open_step_state_record ::
  "OpenStepStateRecord \<Rightarrow> string \<Rightarrow> OpenStepStateRecord result" where
  "normalize_open_step_state_record record state_path =
     (let note_state = trim (os_note_state record);
          note_summary = join_with '' '' (split_whitespace (os_note_summary record)) in
      if os_task record = 0 \<or> os_step record = 0
      then Inl (malformed_open_step state_path ''task and step must be positive integers.'')
      else if note_state \<notin> {''Active'', ''Blocked'', ''Interrupted''}
      then Inl (malformed_open_step state_path ''note_state must be Active, Blocked, or Interrupted.'')
      else if note_summary = []
      then Inl (malformed_open_step state_path ''note_summary may not be blank.'')
      else if length note_summary > 120
      then Inl (malformed_open_step state_path ''note_summary may not exceed 120 characters.'')
      else if trim (os_source_plan_path record) = []
      then Inl (malformed_open_step state_path ''source_plan_path may not be blank.'')
      else Inr (record\<lparr>os_note_state := note_state, os_note_summary := note_summary\<rparr>))"

definition open_step_from_value :: "json \<Rightarrow> OpenStepStateRecord option" where
  "open_step_from_value v = do {
     f \<leftarrow> serde_struct [''task'', ''step'', ''note_state'', ''note_summary'', ''execution_mode'', ''repo_root'',
        ''source_plan_path'', ''source_plan_revision'', ''authoritative_sequence''] v;
     task \<leftarrow> serde_required (serde_uint u32_max) (f ''task'');
     step \<leftarrow> serde_required (serde_uint u32_max) (f ''step'');
     note_state \<leftarrow> serde_required as_str (f ''note_state'');
     note_summary \<leftarrow> serde_required as_str (f ''note_summary'');
     execution_mode \<leftarrow> serde_optional as_str (f ''execution_mode'');
     repo_root \<leftarrow> serde_optional as_str (f ''repo_root'');
     source_plan_path \<leftarrow> serde_required as_str (f ''source_plan_path'');
     source_plan_revision \<leftarrow> serde_required (serde_uint u32_max) (f ''source_plan_revision'');
     authoritative_sequence \<leftarrow> serde_required (serde_uint u64_max) (f ''authoritative_sequence'');
     Some \<lparr>os_task = task, os_step = step, os_note_state = note_state, os_note_summary = note_summary,
       os_execution_mode = execution_mode, os_repo_root = repo_root,
       os_source_plan_path = source_plan_path, os_source_plan_revision = source_plan_revision,
       os_authoritative_sequence = authoritative_sequence\<rparr>}"

definition open_step_to_value :: "OpenStepStateRecord \<Rightarrow> json" where
  "open_step_to_value r = json_object
     [(''task'', json_nat (os_task r)), (''step'', json_nat (os_step r)),
      (''note_state'', JString (os_note_state r)), (''note_summary'', JString (os_note_summary r)),
      (''execution_mode'', json_opt JString (os_execution_mode r)),
      (''repo_root'', json_opt JString (os_repo_root r)),
      (''source_plan_path'', JString (os_source_plan_path r)),
      (''source_plan_revision'', json_nat (os_source_plan_revision r)),
      (''authoritative_sequence'', json_nat (os_authoritative_sequence r))]"

definition current_open_step_state_checked ::
  "transition_env \<Rightarrow> AuthoritativeTransitionState \<Rightarrow> OpenStepStateRecord option result" where
  "current_open_step_state_checked env s =
     (case json_get (ts_payload s) ''current_open_step_state'' of
        None \<Rightarrow> Inr None
      | Some payload \<Rightarrow>
          if is_null payload then Inr None
          else (case open_step_from_value payload of
                  None \<Rightarrow> Inl (malformed_open_step (ts_path s) (env_serde_error env payload))
                | Some record \<Rightarrow>
                    res_bind (normalize_open_step_state_record record (ts_path s)) (\<lambda>r. Inr (Some r))))"

subsection \<open>Single fields\<close>

definition projection_summary_state_value :: "json \<Rightarrow> string \<Rightarrow> string option" where
  "projection_summary_state_value p field = json_string p field"

definition projection_summary_string_value :: "json \<Rightarrow> string \<Rightarrow> string option" where
  "projection_summary_string_value p field = json_string p field"

definition current_qa_branch_closure_id :: "json \<Rightarrow> string option" where
  "current_qa_branch_closure_id p = json_string p ''current_qa_branch_closure_id''"

definition current_qa_result :: "json \<Rightarrow> string option" where
  "current_qa_result p = json_string p ''current_qa_result''"

definition current_qa_summary_hash :: "json \<Rightarrow> string option" where
  "current_qa_summary_hash p = json_string p ''current_qa_summary_hash''"

definition current_qa_record_id :: "json \<Rightarrow> string option" where
  "current_qa_record_id p = json_string p ''current_qa_record_id''"

definition current_release_readiness_record_id :: "json \<Rightarrow> string option" where
  "current_release_readiness_record_id p = json_string p ''current_release_readiness_record_id''"

definition current_final_review_branch_closure_id :: "json \<Rightarrow> string option" where
  "current_final_review_branch_closure_id p = json_string p ''current_final_review_branch_closure_id''"

definition current_final_review_dispatch_id :: "json \<Rightarrow> string option" where
  "current_final_review_dispatch_id p = json_string p ''current_final_review_dispatch_id''"

definition current_final_review_reviewer_source :: "json \<Rightarrow> string option" where
  "current_final_review_reviewer_source p = json_string p ''current_final_review_reviewer_source''"

definition current_final_review_reviewer_id :: "json \<Rightarrow> string option" where
  "current_final_review_reviewer_id p = json_string p ''current_final_review_reviewer_id''"

definition current_final_review_result :: "json \<Rightarrow> string option" where
  "current_final_review_result p = json_string p ''current_final_review_result''"

definition current_final_review_summary_hash :: "json \<Rightarrow> string option" where
  "current_final_review_summary_hash p = json_string p ''current_final_review_summary_hash''"

definition current_final_review_record_id :: "json \<Rightarrow> string option" where
  "current_final_review_record_id p = json_string p ''current_final_review_record_id''"

definition current_branch_closure_overlay_id :: "json \<Rightarrow> string option" where
  "current_branch_closure_overlay_id p = json_string p ''current_branch_closure_id''"

definition current_branch_closure_overlay_reviewed_state_id :: "json \<Rightarrow> string option" where
  "current_branch_closure_overlay_reviewed_state_id p = json_string p ''current_branch_closure_reviewed_state_id''"

definition current_branch_closure_overlay_contract_identity :: "json \<Rightarrow> string option" where
  "current_branch_closure_overlay_contract_identity p = json_string p ''current_branch_closure_contract_identity''"

definition finish_review_gate_pass_branch_closure_id :: "json \<Rightarrow> string option" where
  "finish_review_gate_pass_branch_closure_id p = json_string p ''finish_review_gate_pass_branch_closure_id''"

definition harness_phase_opt :: "json \<Rightarrow> string option" where
  "harness_phase_opt p = json_string p ''harness_phase''"

definition chunk_id_opt :: "json \<Rightarrow> string option" where
  "chunk_id_opt p = json_string p ''chunk_id''"

definition last_strategy_checkpoint_fingerprint :: "json \<Rightarrow> string option" where
  "last_strategy_checkpoint_fingerprint p = json_string p ''last_strategy_checkpoint_fingerprint''"

definition strategy_state :: "json \<Rightarrow> string option" where
  "strategy_state p = json_string p ''strategy_state''"

definition strategy_checkpoint_kind :: "json \<Rightarrow> string option" where
  "strategy_checkpoint_kind p = json_string p ''strategy_checkpoint_kind''"

definition current_final_review_dispatch_lineage_branch_closure_id :: "json \<Rightarrow> string option" where
  "current_final_review_dispatch_lineage_branch_closure_id p =
     Option.bind (json_get p ''final_review_dispatch_lineage'') (\<lambda>r. json_string r ''branch_closure_id'')"

definition current_final_review_dispatch_lineage_dispatch_id :: "json \<Rightarrow> string option" where
  "current_final_review_dispatch_lineage_dispatch_id p =
     Option.bind (json_get p ''final_review_dispatch_lineage'') (\<lambda>r. json_string r ''dispatch_id'')"

definition strategy_cycle_break_task :: "json \<Rightarrow> nat option" where
  "strategy_cycle_break_task p = json_u32 p ''strategy_cycle_break_task''"

definition superseded_task_closure_ids :: "json \<Rightarrow> string list" where
  "superseded_task_closure_ids p = json_string_array p ''superseded_task_closure_ids''"

definition superseded_branch_closure_ids :: "json \<Rightarrow> string list" where
  "superseded_branch_closure_ids p = json_string_array p ''superseded_branch_closure_ids''"

definition execution_run_id_opt :: "json \<Rightarrow> string option" where
  "execution_run_id_opt p =
     opt_or (Option.bind (json_get p ''run_identity'') (\<lambda>r. json_string r ''execution_run_id''))
       (json_string p ''execution_run_id'')"

record StepEvidenceProvenance =
  sep_source_contract_path :: "string option"
  sep_source_contract_fingerprint :: "string option"
  sep_source_evaluation_report_fingerprint :: "string option"
  sep_evaluator_verdict :: "string option"
  sep_failing_criterion_ids :: "string list"
  sep_source_handoff_fingerprint :: "string option"
  sep_repo_state_baseline_head_sha :: "string option"
  sep_repo_state_baseline_worktree_fingerprint :: "string option"

definition evidence_provenance :: "json \<Rightarrow> StepEvidenceProvenance" where
  "evidence_provenance p =
     \<lparr>sep_source_contract_path = json_string p ''active_contract_path'',
      sep_source_contract_fingerprint = json_string p ''active_contract_fingerprint'',
      sep_source_evaluation_report_fingerprint = json_string p ''last_evaluation_report_fingerprint'',
      sep_evaluator_verdict = json_string p ''last_evaluation_verdict'',
      sep_failing_criterion_ids = json_string_array p ''open_failed_criteria'',
      sep_source_handoff_fingerprint = json_string p ''last_handoff_fingerprint'',
      sep_repo_state_baseline_head_sha = json_string p ''repo_state_baseline_head_sha'',
      sep_repo_state_baseline_worktree_fingerprint =
        json_string p ''repo_state_baseline_worktree_fingerprint''\<rparr>"

definition non_empty_object_field :: "json \<Rightarrow> string \<Rightarrow> bool" where
  "non_empty_object_field p key \<longleftrightarrow>
     is_some_and (Option.bind (json_get p key) as_object) (\<lambda>entries. entries \<noteq> [])"

definition has_authoritative_execution_progress :: "json \<Rightarrow> bool" where
  "has_authoritative_execution_progress p \<longleftrightarrow>
     is_some_and (json_get p ''current_open_step_state'') (\<lambda>v. \<not> is_null v) \<or>
     list_ex (non_empty_object_field p)
       [''current_task_closure_records'', ''task_closure_record_history'',
        ''task_closure_negative_result_records'', ''strategy_review_dispatch_lineage'',
        ''strategy_review_dispatch_lineage_history'', ''branch_closure_records'',
        ''release_readiness_record_history'', ''final_review_record_history'',
        ''browser_qa_record_history''] \<or>
     list_ex (\<lambda>key. json_string p key \<noteq> None)
       [''current_task_review_dispatch_id'', ''current_branch_closure_id'',
        ''current_release_readiness_record_id'', ''current_final_review_record_id'',
        ''current_final_review_dispatch_id'', ''current_qa_record_id'']"

subsection \<open>The closure graph of a state\<close>

definition snapshot_map :: "json \<Rightarrow> string \<Rightarrow> json_map" where
  "snapshot_map payload key = unwrap_or [] (Option.bind (json_get payload key) as_object)"

definition closure_history_snapshot :: "json \<Rightarrow> ClosureHistorySnapshot" where
  "closure_history_snapshot p =
     \<lparr>sn_task_closure_record_history = snapshot_map p ''task_closure_record_history'',
      sn_branch_closure_records = snapshot_map p ''branch_closure_records'',
      sn_release_readiness_record_history = snapshot_map p ''release_readiness_record_history'',
      sn_final_review_record_history = snapshot_map p ''final_review_record_history'',
      sn_browser_qa_record_history = snapshot_map p ''browser_qa_record_history'',
      sn_current_branch_closure_id = json_string p ''current_branch_closure_id'',
      sn_current_release_readiness_record_id = current_release_readiness_record_id p,
      sn_current_final_review_record_id = current_final_review_record_id p,
      sn_current_qa_record_id = current_qa_record_id p,
      sn_superseded_task_closure_ids = superseded_task_closure_ids p,
      sn_superseded_branch_closure_ids = superseded_branch_closure_ids p\<rparr>"

definition snapshot_default :: ClosureHistorySnapshot where
  "snapshot_default =
     \<lparr>sn_task_closure_record_history = [], sn_branch_closure_records = [],
      sn_release_readiness_record_history = [], sn_final_review_record_history = [],
      sn_browser_qa_record_history = [], sn_current_branch_closure_id = None,
      sn_current_release_readiness_record_id = None, sn_current_final_review_record_id = None,
      sn_current_qa_record_id = None, sn_superseded_task_closure_ids = [],
      sn_superseded_branch_closure_ids = []\<rparr>"

definition graph_from_state ::
  "AuthoritativeTransitionState option \<Rightarrow> ClosureGraphSignals \<Rightarrow> AuthoritativeClosureGraph" where
  "graph_from_state authoritative_state signals =
     graph_from_snapshot
       (unwrap_or snapshot_default
          (map_option (\<lambda>s. closure_history_snapshot (ts_payload s)) authoritative_state))
       signals"

definition signals_from_authoritative_state ::
  "AuthoritativeTransitionState option \<Rightarrow> string option \<Rightarrow> bool \<Rightarrow> bool \<Rightarrow> string list \<Rightarrow>
   ClosureGraphSignals" where
  "signals_from_authoritative_state authoritative_state overlay_current_branch_closure_id
       late_stage_stale_unreviewed missing_current_closure_stale_provenance reason_codes =
     (let p = map_option ts_payload authoritative_state in
      \<lparr>sg_current_branch_closure_id =
         map_option bci_branch_closure_id (Option.bind p bound_current_branch_closure_identity),
       sg_overlay_current_branch_closure_id = trim_nonempty overlay_current_branch_closure_id,
       sg_finish_review_gate_pass_branch_closure_id =
         Option.bind p finish_review_gate_pass_branch_closure_id,
       sg_current_release_readiness_branch_closure_id =
         map_option crr_branch_closure_id (Option.bind p current_release_readiness_record),
       sg_current_final_review_branch_closure_id =
         opt_or (map_option cfr_branch_closure_id (Option.bind p current_final_review_record))
           (Option.bind p current_final_review_branch_closure_id),
       sg_current_qa_branch_closure_id =
         opt_or (map_option cqa_branch_closure_id (Option.bind p current_browser_qa_record))
           (Option.bind p current_qa_branch_closure_id),
       sg_late_stage_stale_unreviewed = late_stage_stale_unreviewed,
       sg_missing_current_closure_stale_provenance = missing_current_closure_stale_provenance,
       sg_stale_reason_codes = reason_codes\<rparr>)"

end
