(* ===== verification/Transition_Strategy.thy ===== *)
theory Transition_Strategy
  imports Transition_Readers
begin

text \<open>
  Strategy checkpoints of the authoritative transition state
  (\<^verbatim>\<open>src/src/execution/transitions.rs\<close>): review cycle counters, dispatch credits, dispatch lineage
  and the checkpoint records, with the helpers on record histories that all recorders share.

  Of the execution context the operations read the plan path, its revision and task numbers; the
  task completion lineage, the latest attempted step, the tracked tree and the
  semantic workspace tree are computed from evidence and from git elsewhere, and are fields of the
  record \<open>ExecutionContext\<close>.
\<close>

subsection \<open>Record histories\<close>

definition record_matches_id :: "string \<Rightarrow> string \<Rightarrow> json \<Rightarrow> bool" where
  "record_matches_id record_id entry_key record \<longleftrightarrow>
     entry_key = record_id \<or>
     is_some_and (map_option trim (Option.bind
         (opt_or (json_get record ''record_id'')
            (opt_or (json_get record ''closure_record_id'') (json_get record ''branch_closure_id''))) as_str))
       (\<lambda>candidate. candidate = record_id)"

definition set_record_status :: "string \<Rightarrow> json \<Rightarrow> json" where
  "set_record_status status record =
     (case record of
        JObject es \<Rightarrow> JObject (obj_insert ''record_status'' (JString status)
          (if obj_get es ''closure_status'' \<noteq> None
           then obj_insert ''closure_status'' (JString status) es else es))
      | _ \<Rightarrow> record)"

definition mark_record_status :: "string \<Rightarrow> string \<Rightarrow> json_map \<Rightarrow> json_map" where
  "mark_record_status record_id status records =
     map (\<lambda>(entry_key, record).
       (entry_key, if record_matches_id record_id entry_key record
                   then set_record_status status record else record)) records"

definition record_sequence_from_dispatch_record :: "json \<Rightarrow> nat option" where
  "record_sequence_from_dispatch_record record =
     opt_filter (\<lambda>n. n > 0) (Option.bind (json_get record ''record_sequence'') as_u64)"

definition next_dispatch_record_sequence :: "json_map \<Rightarrow> nat" where
  "next_dispatch_record_sequence records =
     saturating_add_u64
       (fold max (List.map_filter record_sequence_from_dispatch_record (obj_values records)) 0) 1"

definition deterministic_record_id :: "transition_env \<Rightarrow> string \<Rightarrow> string list \<Rightarrow> string" where
  "deterministic_record_id env prefix parts =
     prefix @ ''-'' @ take 16 (env_sha256 env (prefix @ concat (map (Cons (CHR 0x0A)) parts)))"

definition occurrence_id :: "string \<Rightarrow> nat \<Rightarrow> string" where
  "occurrence_id base n = base @ ''-'' @ show_nat n"

lemma occurrence_id_inject [simp]: "occurrence_id b m = occurrence_id b n \<longleftrightarrow> m = n"
  by (simp add: occurrence_id_def)

function next_free_occurrence :: "json_map \<Rightarrow> string \<Rightarrow> nat \<Rightarrow> string" where
  "next_free_occurrence records base occurrence =
     (if obj_get records (occurrence_id base occurrence) = None then occurrence_id base occurrence
      else next_free_occurrence records base (occurrence + 1))"
  by auto

text \<open>Each round of the loop passes one more key of the map.\<close>

definition taken_occurrences :: "json_map \<Rightarrow> string \<Rightarrow> nat \<Rightarrow> nat set" where
  "taken_occurrences records base n = {m. n \<le> m \<and> obj_get records (occurrence_id base m) \<noteq> None}"

lemma taken_occurrences_subset:
  "occurrence_id base ` taken_occurrences records base n \<subseteq> set (obj_keys records)"
  by (auto simp: taken_occurrences_def obj_get_def obj_keys_def dest!: map_of_SomeD
      intro: rev_image_eqI)

lemma taken_occurrences_finite: "finite (taken_occurrences records base n)"
  by (rule finite_imageD [OF finite_subset [OF taken_occurrences_subset]])
     (auto intro: inj_onI)

lemma taken_occurrences_Suc:
  assumes "obj_get records (occurrence_id base n) \<noteq> None"
  shows "card (taken_occurrences records base (Suc n)) < card (taken_occurrences records base n)"
proof (rule psubset_card_mono [OF taken_occurrences_finite])
  have "n \<in> taken_occurrences records base n" using assms by (simp add: taken_occurrences_def)
  moreover have "n \<notin> taken_occurrences records base (Suc n)" by (simp add: taken_occurrences_def)
  moreover have "taken_occurrences records base (Suc n) \<subseteq> taken_occurrences records base n"
    by (auto simp: taken_occurrences_def)
  ultimately show "taken_occurrences records base (Suc n) \<subset> taken_occurrences records base n" by blast
qed

termination next_free_occurrence
  by (relation "measure (\<lambda>(records, base, n). card (taken_occurrences records base n))")
     (simp_all add: taken_occurrences_Suc)

declare next_free_occurrence.simps [simp del]

definition next_available_history_record_id ::
  "json_map option \<Rightarrow> string \<Rightarrow> string option \<Rightarrow> string" where
  "next_available_history_record_id records base_record_id active_record_id =
     (case records of
        None \<Rightarrow> base_record_id
      | Some records \<Rightarrow>
          if obj_get records base_record_id = None \<or> active_record_id = Some base_record_id
          then base_record_id
          else next_free_occurrence records base_record_id 2)"

definition array_field_mut :: "string \<Rightarrow> JsonFailure \<Rightarrow> (json list \<Rightarrow> json list) \<Rightarrow> unit mutation" where
  "array_field_mut field failure f =
     op_bind (root_object_mut (\<lambda>root.
        case obj_get root field of
          Some (JArray xs) \<Rightarrow> (Some (), obj_insert field (JArray (f xs)) root)
        | None \<Rightarrow> (Some (), obj_insert field (JArray (f [])) root)
        | Some _ \<Rightarrow> (None, root)))
       (op_require failure)"

definition push_unique_string :: "string \<Rightarrow> json list \<Rightarrow> json list" where
  "push_unique_string value items =
     (let trimmed = trim value in
      if trimmed = [] \<or> list_ex (\<lambda>item. as_str item = Some trimmed) items then items
      else items @ [JString trimmed])"

definition append_unique_string_array :: "string \<Rightarrow> string list \<Rightarrow> unit mutation" where
  "append_unique_string_array key values =
     array_field_mut key
       (json_failure ExecutionStateNotReady (''Authoritative harness '' @ key @ '' must be a JSON array.''))
       (fold push_unique_string values)"

definition append_superseded_task_closure_ids :: "string list \<Rightarrow> unit mutation" where
  "append_superseded_task_closure_ids closure_ids =
     op_then (append_unique_string_array ''superseded_task_closure_ids'' closure_ids) mark_dirty"

definition append_superseded_branch_closure_ids :: "string list \<Rightarrow> unit mutation" where
  "append_superseded_branch_closure_ids closure_ids =
     op_then (append_unique_string_array ''superseded_branch_closure_ids'' closure_ids) mark_dirty"

subsection \<open>Negative task closure results\<close>

record TaskClosureNegativeResultRecord =
  tnr_task :: nat
  tnr_dispatch_id :: string
  tnr_reviewed_state_id :: string
  tnr_semantic_reviewed_state_id :: "string option"
  tnr_contract_identity :: string
  tnr_review_result :: string
  tnr_review_summary_hash :: string
  tnr_verification_result :: string
  tnr_verification_summary_hash :: string

definition negative_record_id :: "nat \<Rightarrow> string \<Rightarrow> string" where
  "negative_record_id task dispatch_id = task_scope_key_for_task task @ '':'' @ dispatch_id"

definition history_next_sequence :: "json \<Rightarrow> string \<Rightarrow> nat" where
  "history_next_sequence p history_key =
     (case Option.bind (json_get p history_key) as_object of
        None \<Rightarrow> 1 | Some history \<Rightarrow> length history + 1)"

definition negative_result_payload :: "TaskClosureNegativeResultRecord \<Rightarrow> nat \<Rightarrow> json" where
  "negative_result_payload r record_sequence = json_object (
     [(''task'', json_nat (tnr_task r)),
      (''record_id'', JString (negative_record_id (tnr_task r) (tnr_dispatch_id r))),
      (''record_sequence'', json_nat record_sequence),
      (''record_status'', JString ''current''),
      (''dispatch_id'', JString (tnr_dispatch_id r)),
      (''closure_record_id'', JNull),
      (''reviewed_state_id'', JString (tnr_reviewed_state_id r)),
      (''contract_identity'', JString (tnr_contract_identity r)),
      (''review_result'', JString (tnr_review_result r)),
      (''review_summary_hash'', JString (tnr_review_summary_hash r)),
      (''verification_result'', JString (tnr_verification_result r)),
      (''verification_summary_hash'', JString (tnr_verification_summary_hash r))] @
     serde_skip_none ''semantic_reviewed_state_id'' JString (tnr_semantic_reviewed_state_id r))"

definition record_task_closure_negative_result :: "TaskClosureNegativeResultRecord \<Rightarrow> unit mutation" where
  "record_task_closure_negative_result record =
     op_bind (op_gets (\<lambda>s. history_next_sequence (ts_payload s) ''task_closure_negative_result_history''))
       (\<lambda>record_sequence. let payload = negative_result_payload record record_sequence in
        op_seq
          [task_closure_negative_result_records_mut
             (\<lambda>records. ((), obj_insert (task_scope_key_for_task (tnr_task record)) payload records)),
           task_closure_negative_result_history_mut
             (\<lambda>history. ((), obj_insert (negative_record_id (tnr_task record) (tnr_dispatch_id record))
                payload history)),
           mark_dirty])"

definition remove_key :: "string \<Rightarrow> json_map \<Rightarrow> bool \<times> json_map" where
  "remove_key k es = (obj_get es k \<noteq> None, obj_remove k es)"

definition clear_task_closure_negative_result :: "nat \<Rightarrow> unit mutation" where
  "clear_task_closure_negative_result task =
     op_bind (op_gets (\<lambda>s. task_closure_negative_result (ts_payload s) task)) (\<lambda>negative_result.
     op_bind (task_closure_negative_result_records_mut (remove_key (task_scope_key_for_task task))) (\<lambda>removed.
     op_then
       (case negative_result of
          None \<Rightarrow> op_return ()
        | Some n \<Rightarrow> task_closure_negative_result_history_mut
            (\<lambda>history. ((), mark_record_status (negative_record_id task (neg_dispatch_id n)) ''historical'' history)))
       (op_when (removed \<or> negative_result \<noteq> None) mark_dirty)))"

subsection \<open>Cycle counters and dispatch credits\<close>

definition strategy_cycle_counts_mut :: "(json_map \<Rightarrow> 'a \<times> json_map) \<Rightarrow> 'a mutation" where
  "strategy_cycle_counts_mut = object_field_mut ''strategy_cycle_counts''"

definition cycle_count_in :: "json_map \<Rightarrow> nat \<Rightarrow> nat" where
  "cycle_count_in counts task =
     unwrap_or 0 (Option.bind (obj_get counts (task_scope_key_for_task task)) as_u64)"

definition increment_task_cycle_count :: "nat \<Rightarrow> nat mutation" where
  "increment_task_cycle_count task =
     op_bind (strategy_cycle_counts_mut (\<lambda>counts.
        let next = saturating_add_u64 (cycle_count_in counts task) 1
        in (next, obj_insert (task_scope_key_for_task task) (json_nat next) counts)))
       (\<lambda>next. op_then mark_dirty (op_return next))"

definition current_task_cycle_count :: "nat \<Rightarrow> nat mutation" where
  "current_task_cycle_count task = strategy_cycle_counts_mut (\<lambda>counts. (cycle_count_in counts task, counts))"

definition set_task_cycle_count :: "nat \<Rightarrow> nat \<Rightarrow> unit mutation" where
  "set_task_cycle_count task value =
     op_then (strategy_cycle_counts_mut
        (\<lambda>counts. ((), obj_insert (task_scope_key_for_task task) (json_nat value) counts)))
       mark_dirty"

definition clear_task_cycle_count :: "nat \<Rightarrow> unit mutation" where
  "clear_task_cycle_count task = set_task_cycle_count task 0"

definition increment_task_dispatch_credit :: "nat \<Rightarrow> nat mutation" where
  "increment_task_dispatch_credit task =
     op_then (dispatch_credit_counts_mut (\<lambda>credits. ((), obj_insert (task_scope_key_for_task task) (json_nat 1) credits)))
       (op_then mark_dirty (op_return 1))"

definition consume_credit :: "string \<Rightarrow> bool mutation" where
  "consume_credit key =
     op_bind (dispatch_credit_counts_mut (remove_key key))
       (\<lambda>present. if present then op_then mark_dirty (op_return True) else op_return False)"

definition consume_task_dispatch_credit :: "nat \<Rightarrow> bool mutation" where
  "consume_task_dispatch_credit task = consume_credit (task_scope_key_for_task task)"

definition increment_unbound_dispatch_credit :: "nat mutation" where
  "increment_unbound_dispatch_credit =
     op_then (dispatch_credit_counts_mut (\<lambda>credits. ((), obj_insert ''unbound'' (json_nat 1) credits)))
       (op_then mark_dirty (op_return 1))"

definition consume_unbound_dispatch_credit :: "bool mutation" where
  "consume_unbound_dispatch_credit = consume_credit ''unbound''"

definition clear_dispatch_credits :: "unit mutation" where
  "clear_dispatch_credits =
     op_bind (dispatch_credit_counts_mut (\<lambda>credits. (credits = [], [])))
       (\<lambda>was_empty. if was_empty then op_return () else mark_dirty)"

definition clear_task_dispatch_credits :: "nat list mutation" where
  "clear_task_dispatch_credits =
     op_bind (dispatch_credit_counts_mut (\<lambda>credits.
        (List.map_filter task_scope_key_task_number (obj_keys credits),
         filter (\<lambda>e. task_scope_key_task_number (fst e) = None) credits)))
       (\<lambda>tasks. if tasks = [] then op_return [] else op_then mark_dirty (op_return tasks))"

subsection \<open>Strategy checkpoints\<close>

record ExecutionContext =
  ctx_plan_rel :: string
  ctx_plan_revision :: nat
  ctx_task_numbers :: "nat list"
  ctx_task_completion_lineage :: "nat \<Rightarrow> string option"
  ctx_latest_attempted_step :: "nat \<Rightarrow> nat option"
  ctx_tracked_tree_sha :: "string result"
  ctx_semantic_workspace_tree_id :: "string result"
  ctx_evidence_attempts :: "string + json"

datatype StrategyCheckpointCycleState = CycleReady | CycleBreak "(nat \<times> nat option) option"

fun is_cycle_break :: "StrategyCheckpointCycleState \<Rightarrow> bool" where
  "is_cycle_break CycleReady = False"
| "is_cycle_break (CycleBreak _) = True"

fun cycle_break_binding :: "StrategyCheckpointCycleState \<Rightarrow> nat option \<times> nat option" where
  "cycle_break_binding CycleReady = (None, None)"
| "cycle_break_binding (CycleBreak None) = (None, None)"
| "cycle_break_binding (CycleBreak (Some (task, step))) = (Some task, step)"

definition selected_topology_from_execution_mode :: "string \<Rightarrow> string" where
  "selected_topology_from_execution_mode execution_mode =
     (if trim execution_mode = ''featureforge:subagent-driven-development''
      then ''worktree-backed-parallel'' else ''conservative-fallback'')"

definition lane_decomposition :: "ExecutionContext \<Rightarrow> string list" where
  "lane_decomposition context = map task_scope_key_for_task (ctx_task_numbers context)"

definition lane_owner_map :: "ExecutionContext \<Rightarrow> string list" where
  "lane_owner_map context = map (\<lambda>lane. lane @ ''=runtime'') (lane_decomposition context)"

definition worktree_plan :: "string \<Rightarrow> string" where
  "worktree_plan topology =
     (if topology = ''worktree-backed-parallel'' then ''worktree-backed-isolated-lanes''
      else ''single-worktree-serialized'')"

definition subagent_dispatch_plan :: "string \<Rightarrow> string" where
  "subagent_dispatch_plan topology =
     (if topology = ''worktree-backed-parallel'' then ''parallel-lane-owned-subagents''
      else ''serial-single-lane-subagent'')"

definition acceptance_requirements :: "string list" where
  "acceptance_requirements = [''preflight_accepted'', ''approved_plan_revision_bound'']"

definition review_requirements :: "string list" where
  "review_requirements = [''dedicated_final_review'', FOLLOW_UP_GATE_FINISH]"

definition strategy_checkpoint_text ::
  "ExecutionContext \<Rightarrow> string option \<Rightarrow> string \<Rightarrow> string \<Rightarrow> string list \<Rightarrow> string \<Rightarrow> string" where
  "strategy_checkpoint_text context run_id checkpoint_kind topology triggers rationale =
     concat (map (\<lambda>line. line @ [CHR 0x0A])
       [''plan='' @ ctx_plan_rel context,
        ''plan_revision='' @ show_nat (ctx_plan_revision context),
        ''run='' @ unwrap_or ''<none>'' run_id,
        ''checkpoint_kind='' @ checkpoint_kind,
        ''selected_topology='' @ topology,
        ''triggers='' @ (if triggers = [] then ''none'' else join_with ''|'' triggers),
        ''lane_decomposition='' @ join_with '','' (lane_decomposition context),
        ''lane_owner_map='' @ join_with '','' (lane_owner_map context),
        ''worktree_plan='' @ worktree_plan topology,
        ''subagent_dispatch_plan='' @ subagent_dispatch_plan topology,
        ''acceptance='' @ join_with '','' acceptance_requirements,
        ''review='' @ join_with '','' review_requirements,
        ''rationale='' @ trim rationale])"

definition strategy_checkpoint_value ::
  "ExecutionContext \<Rightarrow> string option \<Rightarrow> string \<Rightarrow> string \<Rightarrow> string list \<Rightarrow> string \<Rightarrow> string \<Rightarrow> string \<Rightarrow> json" where
  "strategy_checkpoint_value context run_id checkpoint_kind topology triggers rationale generated_at fingerprint =
     json_object
       [(''source_plan_path'', JString (ctx_plan_rel context)),
        (''source_plan_revision'', json_nat (ctx_plan_revision context)),
        (''execution_run_id'', json_opt JString run_id),
        (''trigger_fingerprints'', json_strings triggers),
        (''checkpoint_kind'', JString checkpoint_kind),
        (''selected_topology'', JString topology),
        (''lane_decomposition'', json_strings (lane_decomposition context)),
        (''lane_owner_map'', json_strings (lane_owner_map context)),
        (''worktree_plan'', JString (worktree_plan topology)),
        (''subagent_dispatch_plan'', JString (subagent_dispatch_plan topology)),
        (''acceptance_requirements'', json_strings acceptance_requirements),
        (''review_requirements'', json_strings review_requirements),
        (''rationale'', JString (trim rationale)),
        (''generated_at'', JString generated_at),
        (''fingerprint'', JString fingerprint)]"

definition record_strategy_checkpoint ::
  "transition_env \<Rightarrow> ExecutionContext \<Rightarrow> string \<Rightarrow> string \<Rightarrow> string list \<Rightarrow> string \<Rightarrow>
   StrategyCheckpointCycleState \<Rightarrow> string mutation" where
  "record_strategy_checkpoint env context checkpoint_kind execution_mode triggers rationale cycle_state =
     op_bind (op_gets (\<lambda>s. execution_run_id_opt (ts_payload s))) (\<lambda>run_id.
     op_bind (timestamp_now env) (\<lambda>generated_at.
     let topology = selected_topology_from_execution_mode execution_mode;
         fingerprint = env_sha256 env
           (strategy_checkpoint_text context run_id checkpoint_kind topology triggers rationale);
         checkpoint = strategy_checkpoint_value context run_id checkpoint_kind topology triggers rationale
           generated_at fingerprint;
         (break_task, break_step) = cycle_break_binding cycle_state
     in op_then (op_seq
         [array_field_mut ''strategy_checkpoints''
            (json_failure MalformedExecutionState
              ''Authoritative harness strategy_checkpoints must be a JSON array.'')
            (\<lambda>checkpoints. checkpoints @ [checkpoint]),
          root_insert_all
            [(''strategy_state'', JString (if is_cycle_break cycle_state then ''cycle_breaking'' else ''ready'')),
             (''strategy_checkpoint_kind'', JString checkpoint_kind),
             (''last_strategy_checkpoint_fingerprint'', JString fingerprint),
             (''strategy_reset_required'', JBool False),
             (''strategy_cycle_break_task'', json_opt json_nat break_task),
             (''strategy_cycle_break_step'', json_opt json_nat break_step),
             (''strategy_cycle_break_checkpoint_fingerprint'',
                if is_cycle_break cycle_state then JString fingerprint else JNull)],
          mark_dirty])
       (op_return fingerprint)))"

definition ensure_initial_dispatch_strategy_checkpoint ::
  "transition_env \<Rightarrow> ExecutionContext \<Rightarrow> string \<Rightarrow> unit mutation" where
  "ensure_initial_dispatch_strategy_checkpoint env context execution_mode =
     op_bind (op_gets (\<lambda>s. last_strategy_checkpoint_fingerprint (ts_payload s) \<noteq> None)) (\<lambda>has_checkpoint.
     if has_checkpoint then op_return ()
     else op_ignore (record_strategy_checkpoint env context ''initial_dispatch'' execution_mode []
       ''Runtime recorded the initial dispatch strategy checkpoint before repo-writing execution.''
       CycleReady))"

definition churn_rationale :: string where
  "churn_rationale =
     ''Runtime detected churn after three reviewable dispatch/remediation cycles for the same task and auto-entered cycle-break strategy.''"

definition step_trigger :: "nat \<Rightarrow> nat \<Rightarrow> nat \<Rightarrow> string \<Rightarrow> string" where
  "step_trigger task step cycle suffix =
     ''task-'' @ show_nat task @ '':step-'' @ show_nat step @ '':cycle-'' @ show_nat cycle @ suffix"

definition cycle_break_checkpoint ::
  "transition_env \<Rightarrow> ExecutionContext \<Rightarrow> string \<Rightarrow> nat \<Rightarrow> nat \<Rightarrow> string \<Rightarrow> string \<Rightarrow> unit mutation" where
  "cycle_break_checkpoint env context execution_mode task step trigger rationale =
     op_then (op_ignore (record_strategy_checkpoint env context ''cycle_break'' execution_mode [trigger]
         rationale (CycleBreak (Some (task, Some step)))))
       (set_task_cycle_count task 0)"

definition remediation_checkpoint ::
  "transition_env \<Rightarrow> ExecutionContext \<Rightarrow> string \<Rightarrow> string \<Rightarrow> string \<Rightarrow> unit mutation" where
  "remediation_checkpoint env context execution_mode trigger rationale =
     op_ignore (record_strategy_checkpoint env context ''review_remediation'' execution_mode [trigger]
       rationale CycleReady)"

definition cycle_breaking_state :: "json \<Rightarrow> bool" where
  "cycle_breaking_state p \<longleftrightarrow>
     Option.bind (json_get p ''strategy_checkpoint_kind'') as_str = Some ''cycle_break'' \<or>
     Option.bind (json_get p ''strategy_state'') as_str = Some ''cycle_breaking''"

definition record_reopen_strategy_checkpoint ::
  "transition_env \<Rightarrow> ExecutionContext \<Rightarrow> string \<Rightarrow> nat \<Rightarrow> nat \<Rightarrow> string \<Rightarrow> unit mutation" where
  "record_reopen_strategy_checkpoint env context execution_mode task step reason =
     op_then (ensure_initial_dispatch_strategy_checkpoint env context execution_mode)
    (op_bind (consume_task_dispatch_credit task) (\<lambda>had_credit.
     if had_credit then
       op_bind (current_task_cycle_count task) (\<lambda>cycle_count.
       op_bind (op_gets (\<lambda>s. cycle_breaking_state (ts_payload s))) (\<lambda>cycle_breaking.
       let trigger = step_trigger task step (if cycle_count = 0 then 1 else cycle_count)
             '':reopen-after-review-dispatch''
       in if cycle_breaking \<or> cycle_count \<ge> 3
          then cycle_break_checkpoint env context execution_mode task step trigger
             ''Runtime preserved cycle-break strategy while reopening remediation after a bound review dispatch.''
          else remediation_checkpoint env context execution_mode trigger reason))
     else
       op_then (op_ignore clear_task_dispatch_credits)
      (op_bind consume_unbound_dispatch_credit (\<lambda>bound_unbound_dispatch.
       op_bind (increment_task_cycle_count task) (\<lambda>cycle_count.
       let trigger = step_trigger task step cycle_count
             (if bound_unbound_dispatch then '':bound-from-unbound-review-dispatch'' else [])
       in if cycle_count \<ge> 3
          then cycle_break_checkpoint env context execution_mode task step trigger churn_rationale
          else remediation_checkpoint env context execution_mode trigger reason)))))"

end
