(* ===== verification/Transition_Lineage.thy ===== *)
theory Transition_Lineage
  imports Transition_Strategy
begin

text \<open>
  Review dispatch lineage of the authoritative transition state
  (\<^verbatim>\<open>src/src/execution/transitions.rs\<close>): the current dispatch per task and for the final
  review, the archive of earlier dispatches, and the checkpoint a review dispatch records.
\<close>

definition lineage_record_sequence :: "json \<Rightarrow> string \<Rightarrow> json_map \<Rightarrow> nat" where
  "lineage_record_sequence payload record_id history =
     unwrap_or (next_dispatch_record_sequence history)
       (opt_or (Option.bind (obj_get history record_id) record_sequence_from_dispatch_record)
          (opt_filter (\<lambda>n. n > 0) (Some (json_u64 payload ''record_sequence''))))"

text \<open>The archived copy of a dispatch record.\<close>

definition archived_dispatch ::
  "json_map \<Rightarrow> string \<Rightarrow> nat \<Rightarrow> string \<Rightarrow> string \<Rightarrow> string \<Rightarrow> string \<Rightarrow> json" where
  "archived_dispatch current_payload record_id record_sequence status recorded_at scope_type scope_key =
     (let es = fold (\<lambda>kv. obj_insert (fst kv) (snd kv))
           [(''record_id'', JString record_id), (''record_sequence'', json_nat record_sequence),
            (''record_status'', JString status), (''status'', JString status),
            (''status_updated_at'', JString recorded_at)] current_payload;
          es = (if json_string (JObject es) ''recorded_at'' = None
                then obj_insert ''recorded_at'' (JString recorded_at) es else es);
          es = (if obj_get es ''dispatch_provenance'' = None
                then obj_insert ''dispatch_provenance''
                  (json_object [(''scope_type'', JString scope_type), (''scope_key'', JString scope_key)]) es
                else es)
      in JObject es)"

definition archive_task_dispatch_lineage_record ::
  "transition_env \<Rightarrow> nat \<Rightarrow> string \<Rightarrow> string option mutation" where
  "archive_task_dispatch_lineage_record env task status =
     (let lineage_key = task_scope_key_for_task task in
     op_bind (op_gets (\<lambda>s. do {
        records \<leftarrow> Option.bind (json_get (ts_payload s) ''strategy_review_dispatch_lineage'') as_object;
        Option.bind (obj_get records lineage_key) as_object})) (\<lambda>found.
     case found of
       None \<Rightarrow> op_return None
     | Some current_payload \<Rightarrow>
        (let payload = JObject current_payload in
         case opt_or (json_string payload ''record_id'')
                (map_option (\<lambda>dispatch_id. deterministic_record_id env ''task-review-dispatch''
                    [lineage_key, dispatch_id]) (json_string payload ''dispatch_id'')) of
           None \<Rightarrow> op_return None
         | Some record_id \<Rightarrow>
             op_bind (timestamp_now env) (\<lambda>recorded_at.
             op_bind (dispatch_lineage_history_mut
                (\<lambda>history. (lineage_record_sequence payload record_id history, history))) (\<lambda>record_sequence.
             op_then (dispatch_lineage_history_mut (\<lambda>history. ((), obj_insert record_id
                (archived_dispatch current_payload record_id record_sequence status recorded_at
                   ''task'' lineage_key) history)))
            (op_then mark_dirty (op_return (Some record_id))))))))"

definition archive_final_review_dispatch_lineage_record ::
  "transition_env \<Rightarrow> string \<Rightarrow> string option mutation" where
  "archive_final_review_dispatch_lineage_record env status =
     op_bind (op_gets (\<lambda>s. Option.bind (json_get (ts_payload s) ''final_review_dispatch_lineage'') as_object))
       (\<lambda>found. case found of
       None \<Rightarrow> op_return None
     | Some current_payload \<Rightarrow>
        (let payload = JObject current_payload;
             branch_closure_id = json_string payload ''branch_closure_id'' in
         case opt_or (json_string payload ''record_id'')
                (map_option (\<lambda>dispatch_id. deterministic_record_id env ''final-review-dispatch''
                    [unwrap_or ''none'' branch_closure_id, dispatch_id]) (json_string payload ''dispatch_id'')) of
           None \<Rightarrow> op_return None
         | Some record_id \<Rightarrow>
             op_bind (timestamp_now env) (\<lambda>recorded_at.
             op_bind (final_review_dispatch_lineage_history_mut
                (\<lambda>history. (lineage_record_sequence payload record_id history, history))) (\<lambda>record_sequence.
             op_then (final_review_dispatch_lineage_history_mut (\<lambda>history. ((), obj_insert record_id
                (archived_dispatch current_payload record_id record_sequence status recorded_at
                   ''final_review'' (unwrap_or ''unknown'' branch_closure_id)) history)))
            (op_then mark_dirty (op_return (Some record_id)))))))"

record TaskDispatchLineageUpsertInput =
  up_task :: nat
  up_execution_run_id :: string
  up_source_step :: nat
  up_strategy_checkpoint_fingerprint :: string
  up_task_completion_lineage_fingerprint :: string
  up_reviewed_state_id :: string
  up_semantic_reviewed_state_id :: "string option"

definition task_dispatch_payload ::
  "TaskDispatchLineageUpsertInput \<Rightarrow> string \<Rightarrow> nat \<Rightarrow> string \<Rightarrow> json" where
  "task_dispatch_payload i record_id record_sequence now = json_object
     [(''record_id'', JString record_id), (''record_sequence'', json_nat record_sequence),
      (''record_status'', JString ''current''), (''status'', JString ''current''),
      (''recorded_at'', JString now), (''status_updated_at'', JString now),
      (''execution_run_id'', JString (up_execution_run_id i)),
      (''dispatch_id'', JString (up_strategy_checkpoint_fingerprint i)),
      (''reviewed_state_id'', JString (up_reviewed_state_id i)),
      (''semantic_reviewed_state_id'', json_opt JString (up_semantic_reviewed_state_id i)),
      (''source_task'', json_nat (up_task i)), (''source_step'', json_nat (up_source_step i)),
      (''strategy_checkpoint_fingerprint'', JString (up_strategy_checkpoint_fingerprint i)),
      (''task_completion_lineage_fingerprint'', JString (up_task_completion_lineage_fingerprint i)),
      (''dispatch_provenance'', json_object
         [(''scope_type'', JString ''task''), (''scope_key'', JString (task_scope_key_for_task (up_task i))),
          (''source_task'', json_nat (up_task i)), (''source_step'', json_nat (up_source_step i)),
          (''strategy_checkpoint_fingerprint'', JString (up_strategy_checkpoint_fingerprint i))])]"

definition upsert_task_dispatch_lineage ::
  "transition_env \<Rightarrow> TaskDispatchLineageUpsertInput \<Rightarrow> unit mutation" where
  "upsert_task_dispatch_lineage env i =
     (let lineage_key = task_scope_key_for_task (up_task i);
          record_id = deterministic_record_id env ''task-review-dispatch''
            [lineage_key, up_strategy_checkpoint_fingerprint i] in
     op_then (clear_task_closure_negative_result (up_task i))
    (op_then (op_ignore (archive_task_dispatch_lineage_record env (up_task i) ''historical''))
    (op_bind (timestamp_now env) (\<lambda>now.
     op_bind (dispatch_lineage_history_mut (\<lambda>history.
        (unwrap_or (next_dispatch_record_sequence history)
           (Option.bind (obj_get history record_id) record_sequence_from_dispatch_record), history)))
       (\<lambda>record_sequence. let payload = task_dispatch_payload i record_id record_sequence now in
        op_seq
          [dispatch_lineage_history_mut (\<lambda>history. ((), obj_insert record_id payload history)),
           dispatch_lineage_records_mut (\<lambda>records. ((), obj_insert lineage_key payload records)),
           mark_dirty])))))"

definition final_review_dispatch_payload ::
  "string \<Rightarrow> string \<Rightarrow> string \<Rightarrow> string \<Rightarrow> nat \<Rightarrow> string \<Rightarrow> json" where
  "final_review_dispatch_payload run_id branch_closure_id checkpoint record_id record_sequence now = json_object
     [(''record_id'', JString record_id), (''record_sequence'', json_nat record_sequence),
      (''record_status'', JString ''current''), (''status'', JString ''current''),
      (''recorded_at'', JString now), (''status_updated_at'', JString now),
      (''execution_run_id'', JString run_id), (''dispatch_id'', JString checkpoint),
      (''branch_closure_id'', JString branch_closure_id),
      (''dispatch_provenance'', json_object
         [(''scope_type'', JString ''final_review''), (''scope_key'', JString branch_closure_id),
          (''strategy_checkpoint_fingerprint'', JString checkpoint)])]"

definition upsert_final_review_dispatch_lineage ::
  "transition_env \<Rightarrow> string \<Rightarrow> string \<Rightarrow> string \<Rightarrow> unit mutation" where
  "upsert_final_review_dispatch_lineage env run_id branch_closure_id checkpoint =
     (let record_id = deterministic_record_id env ''final-review-dispatch'' [branch_closure_id, checkpoint] in
     op_then (op_ignore (archive_final_review_dispatch_lineage_record env ''historical''))
    (op_bind (timestamp_now env) (\<lambda>now.
     op_bind (final_review_dispatch_lineage_history_mut (\<lambda>history.
        (unwrap_or (next_dispatch_record_sequence history)
           (Option.bind (obj_get history record_id) record_sequence_from_dispatch_record), history)))
       (\<lambda>record_sequence.
        let payload = final_review_dispatch_payload run_id branch_closure_id checkpoint record_id record_sequence now in
        op_seq
          [final_review_dispatch_lineage_history_mut (\<lambda>history. ((), obj_insert record_id payload history)),
           root_insert_all
             [(''final_review_dispatch_lineage'', payload),
              (''current_final_review_dispatch_id'', JString checkpoint)],
           mark_dirty]))))"

definition upsert_current_task_dispatch ::
  "transition_env \<Rightarrow> nat \<Rightarrow> nat \<Rightarrow> string \<Rightarrow> string \<Rightarrow> string \<Rightarrow> string \<Rightarrow> string \<Rightarrow> unit mutation" where
  "upsert_current_task_dispatch env task step run_id checkpoint lineage tree semantic_tree =
     upsert_task_dispatch_lineage env
       \<lparr>up_task = task, up_execution_run_id = run_id, up_source_step = step,
        up_strategy_checkpoint_fingerprint = checkpoint,
        up_task_completion_lineage_fingerprint = lineage,
        up_reviewed_state_id = ''git_tree:'' @ tree,
        up_semantic_reviewed_state_id = Some semantic_tree\<rparr>"

definition ensure_task_review_dispatch_lineage ::
  "transition_env \<Rightarrow> ExecutionContext \<Rightarrow> nat \<Rightarrow> unit mutation" where
  "ensure_task_review_dispatch_lineage env context task =
     op_bind (op_gets (\<lambda>s. last_strategy_checkpoint_fingerprint (ts_payload s))) (\<lambda>checkpoint.
     case (checkpoint, ctx_task_completion_lineage context task, ctx_latest_attempted_step context task) of
       (Some checkpoint, Some lineage, Some source_step) \<Rightarrow>
         op_bind (op_lift (ctx_tracked_tree_sha context)) (\<lambda>tree.
         op_bind (op_lift (ctx_semantic_workspace_tree_id context)) (\<lambda>semantic_tree.
         op_bind (op_gets (\<lambda>s. execution_run_id_opt (ts_payload s))) (\<lambda>run_id.
         case run_id of
           None \<Rightarrow> op_return ()
         | Some run_id \<Rightarrow>
             upsert_current_task_dispatch env task source_step run_id checkpoint lineage tree
               semantic_tree)))
     | _ \<Rightarrow> op_return ())"

definition refresh_task_review_dispatch_lineage ::
  "transition_env \<Rightarrow> ExecutionContext \<Rightarrow> nat \<Rightarrow> unit mutation" where
  "refresh_task_review_dispatch_lineage env context task =
     op_bind (op_gets (\<lambda>s. is_some_and
        (Option.bind (json_get (ts_payload s) ''strategy_review_dispatch_lineage'') as_object)
        (\<lambda>lineage. obj_get lineage (task_scope_key_for_task task) \<noteq> None)))
       (\<lambda>has_existing_lineage.
          if \<not> has_existing_lineage then op_return ()
          else ensure_task_review_dispatch_lineage env context task)"

definition clear_task_review_dispatch_lineage_with_record_status ::
  "transition_env \<Rightarrow> nat \<Rightarrow> string \<Rightarrow> bool mutation" where
  "clear_task_review_dispatch_lineage_with_record_status env task record_status =
     (let lineage_key = task_scope_key_for_task task in
     op_then (op_ignore (archive_task_dispatch_lineage_record env task record_status))
    (op_bind (dispatch_lineage_records_mut (remove_key lineage_key)) (\<lambda>removed_lineage.
     op_bind (dispatch_credit_counts_mut (remove_key lineage_key)) (\<lambda>removed_credit.
     op_then (op_when (removed_lineage \<or> removed_credit) mark_dirty)
       (op_return (removed_lineage \<or> removed_credit))))))"

definition clear_task_review_dispatch_lineage :: "transition_env \<Rightarrow> nat \<Rightarrow> bool mutation" where
  "clear_task_review_dispatch_lineage env task =
     clear_task_review_dispatch_lineage_with_record_status env task REVIEW_STATE_STALE_UNREVIEWED"

definition clear_task_review_dispatch_lineage_for_structural_repair ::
  "transition_env \<Rightarrow> nat \<Rightarrow> bool mutation" where
  "clear_task_review_dispatch_lineage_for_structural_repair env task =
     clear_task_review_dispatch_lineage_with_record_status env task ''historical''"

text \<open>The checkpoint of a review dispatch, and then the lineage record of the dispatch.\<close>

definition dispatch_lineage_of_checkpoint ::
  "transition_env \<Rightarrow> ExecutionContext \<Rightarrow> (nat \<times> nat) option \<Rightarrow> string \<Rightarrow> string \<Rightarrow> unit mutation" where
  "dispatch_lineage_of_checkpoint env context cycle_target checkpoint run_id =
     (case cycle_target of
        Some (task, step) \<Rightarrow>
          (case ctx_task_completion_lineage context task of
             None \<Rightarrow> op_return ()
           | Some lineage \<Rightarrow>
               op_bind (op_lift (ctx_tracked_tree_sha context)) (\<lambda>tree.
               op_bind (op_lift (ctx_semantic_workspace_tree_id context)) (\<lambda>semantic_tree.
               upsert_current_task_dispatch env task step run_id checkpoint lineage tree
                 semantic_tree)))
      | None \<Rightarrow>
          op_bind (op_gets (\<lambda>s. map_option bci_branch_closure_id
              (recoverable_current_branch_closure_identity (ts_payload s)))) (\<lambda>branch_closure_id.
          op_bind (op_require (json_failure ExecutionStateNotReady
              ''final-review runtime state update requires a current branch closure.'') branch_closure_id)
            (\<lambda>branch_closure_id.
               upsert_final_review_dispatch_lineage env run_id branch_closure_id checkpoint)))"

definition review_dispatch_checkpoint ::
  "transition_env \<Rightarrow> ExecutionContext \<Rightarrow> string \<Rightarrow> (nat \<times> nat) option \<Rightarrow> unit mutation" where
  "review_dispatch_checkpoint env context execution_mode cycle_target =
     (case cycle_target of
        Some (task, step) \<Rightarrow>
          op_bind (increment_task_cycle_count task) (\<lambda>cycle_count.
          op_then (op_ignore (increment_task_dispatch_credit task))
            (let trigger = step_trigger task step cycle_count '':review-dispatch'' in
             if cycle_count \<ge> 3
             then cycle_break_checkpoint env context execution_mode task step trigger churn_rationale
             else remediation_checkpoint env context execution_mode trigger
               (''Runtime recorded reviewer dispatch cycle tracking for task '' @ show_nat task @
                '' step '' @ show_nat step @ ''.'')))
      | None \<Rightarrow>
          op_bind increment_unbound_dispatch_credit (\<lambda>pending.
          remediation_checkpoint env context execution_mode
            (''task-unbound:step-unbound:pending-review-dispatch-'' @ show_nat pending)
            ''Runtime recorded reviewer dispatch cycle tracking for completed-plan review pending reopen task binding.''))"

definition record_review_dispatch_strategy_checkpoint ::
  "transition_env \<Rightarrow> ExecutionContext \<Rightarrow> string \<Rightarrow> (nat \<times> nat) option \<Rightarrow> unit mutation" where
  "record_review_dispatch_strategy_checkpoint env context execution_mode cycle_target =
     op_then (ensure_initial_dispatch_strategy_checkpoint env context execution_mode)
    (op_then clear_dispatch_credits
    (op_then (review_dispatch_checkpoint env context execution_mode cycle_target)
    (op_bind (op_gets (\<lambda>s. (last_strategy_checkpoint_fingerprint (ts_payload s), execution_run_id_opt (ts_payload s))))
       (\<lambda>found. case found of
          (Some checkpoint, Some run_id) \<Rightarrow>
            dispatch_lineage_of_checkpoint env context cycle_target checkpoint run_id
        | _ \<Rightarrow> op_return ()))))"

definition clear_cycle_break_binding_and_strategy :: "bool mutation" where
  "clear_cycle_break_binding_and_strategy =
     op_bind (op_gets (\<lambda>s. let p = ts_payload s in
        strategy_state p \<noteq> None \<or> strategy_checkpoint_kind p \<noteq> None \<or> strategy_cycle_break_task p \<noteq> None \<or>
        Option.bind (json_get p ''strategy_cycle_break_step'') as_u64 \<noteq> None \<or>
        json_string p ''strategy_cycle_break_checkpoint_fingerprint'' \<noteq> None)) (\<lambda>has_cycle_break_state.
     if \<not> has_cycle_break_state then op_return False
     else op_then (root_insert_all
         [(''strategy_state'', JNull), (''strategy_checkpoint_kind'', JNull),
          (''strategy_cycle_break_task'', JNull), (''strategy_cycle_break_step'', JNull),
          (''strategy_cycle_break_checkpoint_fingerprint'', JNull)])
       (op_then mark_dirty (op_return True)))"

end
