(* ===== verification/Transition_Records.thy ===== *)
theory Transition_Records
  imports Transition_Lineage
begin

text \<open>
  The recorders of the authoritative transition state (\<^verbatim>\<open>src/src/execution/transitions.rs\<close>): branch
  closures, release readiness, final review, browser QA and task closures, the repair follow-up, the
  open step, and the repair operations that clear or restore the current bindings.
\<close>

subsection \<open>Phase, handoff and provenance\<close>

datatype NoteState = NoteActive | NoteBlocked | NoteInterrupted

definition apply_note_reset_policy :: "NoteState \<Rightarrow> unit mutation" where
  "apply_note_reset_policy note_state =
     op_bind (op_gets (\<lambda>s. (ts_active_contract s, ts_payload s))) (\<lambda>(contract, p).
     if note_state = NoteActive then op_return ()
     else (case contract of
       None \<Rightarrow> op_return ()
     | Some c \<Rightarrow>
         if trim (ac_reset_policy c) \<notin> {''adaptive'', ''chunk-boundary''} then op_return ()
         else (let pivot_threshold = json_u64 p ''current_chunk_pivot_threshold'';
                   retry_count = json_u64 p ''current_chunk_retry_count'';
                   next_phase = (if pivot_threshold > 0 \<and> retry_count \<ge> pivot_threshold
                     then PHASE_PIVOT_REQUIRED else PHASE_HANDOFF_REQUIRED)
               in op_seq
                 [root_insert_all
                    [(''harness_phase'', JString next_phase), (''handoff_required'', JBool True),
                     (''aggregate_evaluation_state'', JString ''blocked'')],
                  set_phase next_phase, mark_dirty])))"

definition stale_reopen_provenance :: "unit mutation" where
  "stale_reopen_provenance = op_seq
     [root_insert_all (map (\<lambda>field. (field, JNull))
        [''last_evaluation_report_path'', ''last_evaluation_report_fingerprint'',
         ''last_evaluation_evaluator_kind'', ''last_evaluation_verdict'', ''last_handoff_path'',
         ''last_handoff_fingerprint'', ''last_pivot_path'', ''last_pivot_fingerprint'',
         ''last_final_review_artifact_fingerprint'', ''last_browser_qa_artifact_fingerprint'',
         ''last_release_docs_artifact_fingerprint'']),
      root_insert_all
        [(''final_review_state'', JString ''stale''), (''browser_qa_state'', JString ''stale''),
         (''release_docs_state'', JString ''stale'')],
      mark_dirty]"

definition record_runtime_handoff_checkpoint :: "string \<Rightarrow> string \<Rightarrow> unit mutation" where
  "record_runtime_handoff_checkpoint record_path record_fingerprint = op_seq
     [root_insert_all
        [(''harness_phase'', JString PHASE_EXECUTING), (''handoff_required'', JBool False),
         (''last_handoff_path'', JString record_path),
         (''last_handoff_fingerprint'', JString record_fingerprint)],
      set_phase PHASE_EXECUTING, mark_dirty]"

definition set_harness_phase_executing :: "unit mutation" where
  "set_harness_phase_executing = op_seq
     [root_insert ''harness_phase'' (JString PHASE_EXECUTING), set_phase PHASE_EXECUTING, mark_dirty]"

definition set_execution_projection_fingerprints :: "string \<Rightarrow> string \<Rightarrow> unit mutation" where
  "set_execution_projection_fingerprints plan_fingerprint evidence_fingerprint = op_seq
     [root_insert_all
        [(''execution_plan_projection_fingerprint'', JString plan_fingerprint),
         (''execution_evidence_projection_fingerprint'', JString evidence_fingerprint)],
      mark_dirty]"

definition record_execution_evidence_attempts :: "ExecutionContext \<Rightarrow> unit mutation" where
  "record_execution_evidence_attempts context =
     (case ctx_evidence_attempts context of
        Inl err \<Rightarrow> op_fail (json_failure MalformedExecutionState
          (''Could not serialize authoritative execution evidence attempts: '' @ err))
      | Inr attempts \<Rightarrow> op_seq [root_insert ''execution_evidence_attempts'' attempts, mark_dirty])"

subsection \<open>Branch closures\<close>

record BranchClosureResultRecord =
  bcr_branch_closure_id :: string
  bcr_source_plan_path :: string
  bcr_source_plan_revision :: nat
  bcr_repo_slug :: string
  bcr_branch_name :: string
  bcr_base_branch :: string
  bcr_reviewed_state_id :: string
  bcr_semantic_reviewed_state_id :: "string option"
  bcr_contract_identity :: string
  bcr_effective_reviewed_branch_surface :: string
  bcr_source_task_closure_ids :: "string list"
  bcr_provenance_basis :: string
  bcr_closure_status :: string
  bcr_superseded_branch_closure_ids :: "string list"
  bcr_branch_closure_fingerprint :: "string option"

definition branch_closure_payload :: "BranchClosureResultRecord \<Rightarrow> nat \<Rightarrow> json" where
  "branch_closure_payload r record_sequence = json_object (
     [(''branch_closure_id'', JString (bcr_branch_closure_id r)),
      (''source_plan_path'', JString (bcr_source_plan_path r)),
      (''source_plan_revision'', json_nat (bcr_source_plan_revision r)),
      (''repo_slug'', JString (bcr_repo_slug r)), (''branch_name'', JString (bcr_branch_name r)),
      (''base_branch'', JString (bcr_base_branch r)),
      (''reviewed_state_id'', JString (bcr_reviewed_state_id r)),
      (''contract_identity'', JString (bcr_contract_identity r)),
      (''effective_reviewed_branch_surface'', JString (bcr_effective_reviewed_branch_surface r)),
      (''source_task_closure_ids'', json_strings (bcr_source_task_closure_ids r)),
      (''provenance_basis'', JString (bcr_provenance_basis r)),
      (''closure_status'', JString (bcr_closure_status r)),
      (''superseded_branch_closure_ids'', json_strings (bcr_superseded_branch_closure_ids r)),
      (''record_sequence'', json_nat record_sequence)] @
     serde_skip_none ''semantic_reviewed_state_id'' JString (bcr_semantic_reviewed_state_id r) @
     serde_skip_none ''branch_closure_fingerprint'' JString (bcr_branch_closure_fingerprint r))"

definition record_branch_closure :: "BranchClosureResultRecord \<Rightarrow> unit mutation" where
  "record_branch_closure record = op_seq
     [branch_closure_records_mut (\<lambda>records. ((), obj_insert (bcr_branch_closure_id record)
        (branch_closure_payload record (length records + 1)) records)),
      root_insert ''harness_phase'' (JString PHASE_DOCUMENT_RELEASE_PENDING),
      mark_dirty]"

definition next_available_branch_closure_record_id :: "json \<Rightarrow> string \<Rightarrow> string" where
  "next_available_branch_closure_record_id p base_record_id =
     next_available_history_record_id
       (Option.bind (json_get p ''branch_closure_records'') as_object) base_record_id None"

definition late_stage_cleared_fields :: "(string \<times> json) list" where
  "late_stage_cleared_fields = map (\<lambda>field. (field, JNull))
     [''current_release_readiness_result'', ''current_release_readiness_summary_hash'',
      ''current_release_readiness_record_id'', ''release_docs_state'',
      ''last_release_docs_artifact_fingerprint'', ''current_final_review_branch_closure_id'',
      ''current_final_review_dispatch_id'', ''current_final_review_reviewer_source'',
      ''current_final_review_reviewer_id'', ''current_final_review_result'',
      ''current_final_review_summary_hash'', ''current_final_review_record_id'',
      ''final_review_state'', ''last_final_review_artifact_fingerprint'', ''browser_qa_state'',
      ''last_browser_qa_artifact_fingerprint'', ''current_qa_branch_closure_id'',
      ''current_qa_result'', ''current_qa_summary_hash'', ''current_qa_record_id'',
      ''final_review_dispatch_lineage'', ''finish_review_gate_pass_branch_closure_id'']"

definition mark_if_some ::
  "((json_map \<Rightarrow> unit \<times> json_map) \<Rightarrow> unit mutation) \<Rightarrow> string option \<Rightarrow> string \<Rightarrow> unit mutation" where
  "mark_if_some records_mut record_id status =
     (case record_id of
        None \<Rightarrow> op_return ()
      | Some record_id \<Rightarrow> records_mut (\<lambda>records. ((), mark_record_status record_id status records)))"

definition set_current_branch_closure_id ::
  "transition_env \<Rightarrow> string \<Rightarrow> string \<Rightarrow> string \<Rightarrow> unit mutation" where
  "set_current_branch_closure_id env branch_closure_id reviewed_state_id contract_identity =
     op_bind (op_gets ts_payload) (\<lambda>p.
     let previous_branch = json_string p ''current_branch_closure_id'';
         changed = is_some_and previous_branch (\<lambda>v. v \<noteq> branch_closure_id)
     in op_seq
       [op_when changed (op_ignore
          (archive_final_review_dispatch_lineage_record env REVIEW_STATE_STALE_UNREVIEWED)),
        root_insert_all
          [(''current_branch_closure_id'', JString branch_closure_id),
           (''current_branch_closure_reviewed_state_id'', JString reviewed_state_id),
           (''current_branch_closure_contract_identity'', JString contract_identity)],
        root_insert_all late_stage_cleared_fields,
        root_insert ''review_state_repair_follow_up'' JNull,
        mark_dirty,
        op_when changed (mark_if_some branch_closure_records_mut previous_branch ''superseded''),
        mark_if_some release_readiness_record_history_mut
          (json_string p ''current_release_readiness_record_id'') ''historical'',
        mark_if_some final_review_record_history_mut
          (json_string p ''current_final_review_record_id'') ''historical'',
        mark_if_some browser_qa_record_history_mut (json_string p ''current_qa_record_id'') ''historical''])"

definition restore_current_branch_closure_overlay_fields ::
  "string \<Rightarrow> string \<Rightarrow> string \<Rightarrow> unit mutation" where
  "restore_current_branch_closure_overlay_fields branch_closure_id reviewed_state_id contract_identity = op_seq
     [op_ignore (insert_root_field_if_changed ''current_branch_closure_id'' (JString branch_closure_id)),
      op_ignore (insert_root_field_if_changed ''current_branch_closure_reviewed_state_id''
        (JString reviewed_state_id)),
      op_ignore (insert_root_field_if_changed ''current_branch_closure_contract_identity''
        (JString contract_identity))]"

definition clear_current_branch_closure_for_structural_repair :: "transition_env \<Rightarrow> bool mutation" where
  "clear_current_branch_closure_for_structural_repair env =
     op_bind (op_gets ts_payload) (\<lambda>p.
     let previous_branch = json_string p ''current_branch_closure_id'';
         previous_release = json_string p ''current_release_readiness_record_id'';
         previous_review = json_string p ''current_final_review_record_id'';
         previous_qa = json_string p ''current_qa_record_id''
     in if previous_branch = None \<and> previous_release = None \<and> previous_review = None \<and>
           previous_qa = None \<and>
           Option.bind (json_get p ''final_review_dispatch_lineage'') as_object = None \<and>
           json_string p ''finish_review_gate_pass_branch_closure_id'' = None
        then op_return False
        else op_then (op_seq
          [op_ignore (archive_final_review_dispatch_lineage_record env ''historical''),
           root_insert_all
             [(''current_branch_closure_id'', JNull),
              (''current_branch_closure_reviewed_state_id'', JNull),
              (''current_branch_closure_contract_identity'', JNull)],
           root_insert_all late_stage_cleared_fields,
           mark_dirty,
           mark_if_some branch_closure_records_mut previous_branch ''historical'',
           mark_if_some release_readiness_record_history_mut previous_release ''historical'',
           mark_if_some final_review_record_history_mut previous_review ''historical'',
           mark_if_some browser_qa_record_history_mut previous_qa ''historical''])
         (op_return True))"

definition record_finish_review_gate_pass_checkpoint :: "string \<Rightarrow> unit mutation" where
  "record_finish_review_gate_pass_checkpoint branch_closure_id = op_seq
     [root_insert ''finish_review_gate_pass_branch_closure_id'' (JString branch_closure_id), mark_dirty]"

definition record_finish_review_gate_pass_checkpoint_if_current :: "string \<Rightarrow> bool mutation" where
  "record_finish_review_gate_pass_checkpoint_if_current branch_closure_id =
     op_bind (op_gets (\<lambda>s. map_option bci_branch_closure_id
        (recoverable_current_branch_closure_identity (ts_payload s)))) (\<lambda>current.
     if current \<noteq> Some branch_closure_id then op_return False
     else op_then (record_finish_review_gate_pass_checkpoint branch_closure_id) (op_return True))"

subsection \<open>Late-stage milestones\<close>

record ReleaseReadinessResultRecord =
  rrr_branch_closure_id :: string
  rrr_source_plan_path :: string
  rrr_source_plan_revision :: nat
  rrr_repo_slug :: string
  rrr_branch_name :: string
  rrr_base_branch :: string
  rrr_reviewed_state_id :: string
  rrr_semantic_reviewed_state_id :: "string option"
  rrr_result :: string
  rrr_release_docs_fingerprint :: "string option"
  rrr_summary :: string
  rrr_summary_hash :: string
  rrr_generated_by_identity :: string

definition release_readiness_payload :: "ReleaseReadinessResultRecord \<Rightarrow> string \<Rightarrow> nat \<Rightarrow> json" where
  "release_readiness_payload r record_id record_sequence = json_object
     [(''record_id'', JString record_id), (''record_sequence'', json_nat record_sequence),
      (''record_status'', JString ''current''),
      (''branch_closure_id'', JString (rrr_branch_closure_id r)),
      (''source_plan_path'', JString (rrr_source_plan_path r)),
      (''source_plan_revision'', json_nat (rrr_source_plan_revision r)),
      (''repo_slug'', JString (rrr_repo_slug r)), (''branch_name'', JString (rrr_branch_name r)),
      (''base_branch'', JString (rrr_base_branch r)),
      (''reviewed_state_id'', JString (rrr_reviewed_state_id r)),
      (''semantic_reviewed_state_id'', json_opt JString (rrr_semantic_reviewed_state_id r)),
      (''result'', JString (rrr_result r)),
      (''release_docs_fingerprint'', json_opt JString (rrr_release_docs_fingerprint r)),
      (''summary'', JString (rrr_summary r)), (''summary_hash'', JString (rrr_summary_hash r)),
      (''generated_by_identity'', JString (rrr_generated_by_identity r))]"

text \<open>A new entry of a history, after the previously current entry has been made historical.\<close>

definition supersede_and_insert ::
  "string option \<Rightarrow> string \<Rightarrow> (nat \<Rightarrow> json) \<Rightarrow> json_map \<Rightarrow> json_map" where
  "supersede_and_insert previous_record_id record_id payload history =
     obj_insert record_id (payload (length history + 1))
       (case previous_record_id of
          Some previous \<Rightarrow> if previous \<noteq> record_id then mark_record_status previous ''historical'' history
                           else history
        | None \<Rightarrow> history)"

definition release_readiness_base_id :: "transition_env \<Rightarrow> ReleaseReadinessResultRecord \<Rightarrow> string" where
  "release_readiness_base_id env r = deterministic_record_id env ''release-readiness''
     [rrr_branch_closure_id r, rrr_reviewed_state_id r, rrr_source_plan_path r,
      show_nat (rrr_source_plan_revision r), rrr_repo_slug r, rrr_branch_name r, rrr_base_branch r,
      rrr_result r, rrr_summary_hash r, rrr_generated_by_identity r,
      unwrap_or ''none'' (rrr_release_docs_fingerprint r)]"

definition record_release_readiness_result ::
  "transition_env \<Rightarrow> ReleaseReadinessResultRecord \<Rightarrow> unit mutation" where
  "record_release_readiness_result env record =
     op_bind (op_gets ts_payload) (\<lambda>p.
     let previous = json_string p ''current_release_readiness_record_id'' in
     op_bind (release_readiness_record_history_mut (\<lambda>history.
        let record_id = next_available_history_record_id (Some history)
              (release_readiness_base_id env record) previous
        in (record_id, supersede_and_insert previous record_id
              (release_readiness_payload record record_id) history))) (\<lambda>record_id.
     let changed = is_none_or previous (\<lambda>v. v \<noteq> record_id) in op_seq
       [op_when changed (op_ignore
          (archive_final_review_dispatch_lineage_record env REVIEW_STATE_STALE_UNREVIEWED)),
        root_insert_all
          [(''current_release_readiness_result'', JString (rrr_result record)),
           (''current_release_readiness_summary_hash'', JString (rrr_summary_hash record)),
           (''current_release_readiness_record_id'', JString record_id),
           (''release_docs_state'', JString ''fresh''),
           (''harness_phase'', JString (if rrr_result record = ''ready'' then PHASE_FINAL_REVIEW_PENDING
              else PHASE_DOCUMENT_RELEASE_PENDING)),
           (''last_release_docs_artifact_fingerprint'',
              json_opt JString (rrr_release_docs_fingerprint record))],
        op_when changed (root_insert_all (map (\<lambda>field. (field, JNull))
          [''current_final_review_branch_closure_id'', ''current_final_review_dispatch_id'',
           ''current_final_review_reviewer_source'', ''current_final_review_reviewer_id'',
           ''current_final_review_result'', ''current_final_review_summary_hash'',
           ''current_final_review_record_id'', ''final_review_state'',
           ''last_final_review_artifact_fingerprint'', ''browser_qa_state'',
           ''last_browser_qa_artifact_fingerprint'', ''current_qa_branch_closure_id'',
           ''current_qa_result'', ''current_qa_summary_hash'', ''current_qa_record_id'',
           ''final_review_dispatch_lineage''])),
        mark_dirty,
        op_when changed (op_seq
          [mark_if_some final_review_record_history_mut
             (json_string p ''current_final_review_record_id'') ''historical'',
           mark_if_some browser_qa_record_history_mut (json_string p ''current_qa_record_id'')
             ''historical''])]))"

record FinalReviewMilestoneRecord =
  fmr_branch_closure_id :: string
  fmr_release_readiness_record_id :: string
  fmr_dispatch_id :: string
  fmr_reviewer_source :: string
  fmr_reviewer_id :: string
  fmr_result :: string
  fmr_final_review_fingerprint :: "string option"
  fmr_deviations_required :: "bool option"
  fmr_browser_qa_required :: "bool option"
  fmr_source_plan_path :: string
  fmr_source_plan_revision :: nat
  fmr_repo_slug :: string
  fmr_branch_name :: string
  fmr_base_branch :: string
  fmr_reviewed_state_id :: string
  fmr_semantic_reviewed_state_id :: "string option"
  fmr_summary :: string
  fmr_summary_hash :: string

definition show_bool_option :: "bool option \<Rightarrow> string" where
  "show_bool_option b = (case b of None \<Rightarrow> ''none'' | Some v \<Rightarrow> if v then ''true'' else ''false'')"

definition final_review_record_id :: "transition_env \<Rightarrow> FinalReviewMilestoneRecord \<Rightarrow> string" where
  "final_review_record_id env r = deterministic_record_id env ''final-review''
     [fmr_branch_closure_id r, fmr_release_readiness_record_id r, fmr_dispatch_id r,
      fmr_reviewer_source r, fmr_reviewer_id r, fmr_result r, fmr_summary_hash r,
      unwrap_or ''none'' (fmr_final_review_fingerprint r), show_bool_option (fmr_deviations_required r),
      show_bool_option (fmr_browser_qa_required r), fmr_source_plan_path r,
      show_nat (fmr_source_plan_revision r), fmr_repo_slug r, fmr_branch_name r, fmr_base_branch r,
      fmr_reviewed_state_id r]"

definition final_review_payload :: "FinalReviewMilestoneRecord \<Rightarrow> string \<Rightarrow> nat \<Rightarrow> json" where
  "final_review_payload r record_id record_sequence = json_object
     [(''record_id'', JString record_id), (''record_sequence'', json_nat record_sequence),
      (''record_status'', JString ''current''),
      (''branch_closure_id'', JString (fmr_branch_closure_id r)),
      (''release_readiness_record_id'', JString (fmr_release_readiness_record_id r)),
      (''source_plan_path'', JString (fmr_source_plan_path r)),
      (''source_plan_revision'', json_nat (fmr_source_plan_revision r)),
      (''repo_slug'', JString (fmr_repo_slug r)), (''branch_name'', JString (fmr_branch_name r)),
      (''base_branch'', JString (fmr_base_branch r)),
      (''reviewed_state_id'', JString (fmr_reviewed_state_id r)),
      (''semantic_reviewed_state_id'', json_opt JString (fmr_semantic_reviewed_state_id r)),
      (''dispatch_id'', JString (fmr_dispatch_id r)),
      (''reviewer_source'', JString (fmr_reviewer_source r)),
      (''reviewer_id'', JString (fmr_reviewer_id r)), (''result'', JString (fmr_result r)),
      (''final_review_fingerprint'', json_opt JString (fmr_final_review_fingerprint r)),
      (''deviations_required'', json_opt JBool (fmr_deviations_required r)),
      (''browser_qa_required'', json_opt JBool (fmr_browser_qa_required r)),
      (''summary'', JString (fmr_summary r)), (''summary_hash'', JString (fmr_summary_hash r))]"

definition record_final_review_result ::
  "transition_env \<Rightarrow> FinalReviewMilestoneRecord \<Rightarrow> unit mutation" where
  "record_final_review_result env record =
     op_bind (op_gets ts_payload) (\<lambda>p.
     let previous = json_string p ''current_final_review_record_id'';
         record_id = final_review_record_id env record;
         changed = is_none_or previous (\<lambda>v. v \<noteq> record_id)
     in op_seq
       [final_review_record_history_mut (\<lambda>history. ((), supersede_and_insert previous record_id
          (final_review_payload record record_id) history)),
        root_insert_all
          [(''current_final_review_branch_closure_id'', JString (fmr_branch_closure_id record)),
           (''current_final_review_dispatch_id'', JString (fmr_dispatch_id record)),
           (''current_final_review_reviewer_source'', JString (fmr_reviewer_source record)),
           (''current_final_review_reviewer_id'', JString (fmr_reviewer_id record)),
           (''current_final_review_result'', JString (fmr_result record)),
           (''current_final_review_summary_hash'', JString (fmr_summary_hash record)),
           (''current_final_review_record_id'', JString record_id),
           (''final_review_state'', JString ''fresh'')],
        op_when (fmr_result record = ''pass'') (root_insert ''harness_phase''
          (JString (if fmr_browser_qa_required record = Some True then PHASE_QA_PENDING
             else PHASE_READY_FOR_BRANCH_COMPLETION))),
        root_insert ''last_final_review_artifact_fingerprint''
          (json_opt JString (fmr_final_review_fingerprint record)),
        op_when (fmr_browser_qa_required record = Some False) (root_insert_all
          [(''browser_qa_state'', JString ''not_required''),
           (''last_browser_qa_artifact_fingerprint'', JNull)]),
        op_when changed (op_then (root_insert_all
            [(''current_qa_branch_closure_id'', JNull), (''current_qa_result'', JNull),
             (''current_qa_summary_hash'', JNull), (''current_qa_record_id'', JNull),
             (''last_browser_qa_artifact_fingerprint'', JNull)])
          (op_when (fmr_browser_qa_required record \<noteq> Some False)
             (root_insert ''browser_qa_state'' JNull))),
        mark_dirty,
        op_when changed (mark_if_some browser_qa_record_history_mut
          (json_string p ''current_qa_record_id'') ''historical'')])"

record BrowserQaResultRecord =
  bqr_branch_closure_id :: string
  bqr_final_review_record_id :: string
  bqr_source_plan_path :: string
  bqr_source_plan_revision :: nat
  bqr_repo_slug :: string
  bqr_branch_name :: string
  bqr_base_branch :: string
  bqr_reviewed_state_id :: string
  bqr_semantic_reviewed_state_id :: "string option"
  bqr_result :: string
  bqr_browser_qa_fingerprint :: "string option"
  bqr_source_test_plan_fingerprint :: "string option"
  bqr_summary :: string
  bqr_summary_hash :: string
  bqr_generated_by_identity :: string

definition browser_qa_record_id :: "transition_env \<Rightarrow> BrowserQaResultRecord \<Rightarrow> string" where
  "browser_qa_record_id env r = deterministic_record_id env ''browser-qa''
     [bqr_branch_closure_id r, bqr_final_review_record_id r, bqr_source_plan_path r,
      show_nat (bqr_source_plan_revision r), bqr_repo_slug r, bqr_branch_name r, bqr_base_branch r,
      bqr_reviewed_state_id r, bqr_result r, bqr_summary_hash r, bqr_generated_by_identity r,
      unwrap_or ''none'' (bqr_source_test_plan_fingerprint r),
      unwrap_or ''none'' (bqr_browser_qa_fingerprint r)]"

definition browser_qa_payload :: "BrowserQaResultRecord \<Rightarrow> string \<Rightarrow> nat \<Rightarrow> json" where
  "browser_qa_payload r record_id record_sequence = json_object
     [(''record_id'', JString record_id), (''record_sequence'', json_nat record_sequence),
      (''record_status'', JString ''current''),
      (''branch_closure_id'', JString (bqr_branch_closure_id r)),
      (''final_review_record_id'', JString (bqr_final_review_record_id r)),
      (''source_plan_path'', JString (bqr_source_plan_path r)),
      (''source_plan_revision'', json_nat (bqr_source_plan_revision r)),
      (''repo_slug'', JString (bqr_repo_slug r)), (''branch_name'', JString (bqr_branch_name r)),
      (''base_branch'', JString (bqr_base_branch r)),
      (''reviewed_state_id'', JString (bqr_reviewed_state_id r)),
      (''semantic_reviewed_state_id'', json_opt JString (bqr_semantic_reviewed_state_id r)),
      (''result'', JString (bqr_result r)),
      (''browser_qa_fingerprint'', json_opt JString (bqr_browser_qa_fingerprint r)),
      (''source_test_plan_fingerprint'', json_opt JString (bqr_source_test_plan_fingerprint r)),
      (''summary'', JString (bqr_summary r)), (''summary_hash'', JString (bqr_summary_hash r)),
      (''generated_by_identity'', JString (bqr_generated_by_identity r))]"

definition record_browser_qa_result :: "transition_env \<Rightarrow> BrowserQaResultRecord \<Rightarrow> unit mutation" where
  "record_browser_qa_result env record =
     op_bind (op_gets ts_payload) (\<lambda>p.
     let previous = json_string p ''current_qa_record_id'';
         record_id = browser_qa_record_id env record
     in op_seq
       [browser_qa_record_history_mut (\<lambda>history. ((), supersede_and_insert previous record_id
          (browser_qa_payload record record_id) history)),
        root_insert_all
          [(''current_qa_branch_closure_id'', JString (bqr_branch_closure_id record)),
           (''current_qa_result'', JString (bqr_result record)),
           (''current_qa_summary_hash'', JString (bqr_summary_hash record)),
           (''current_qa_record_id'', JString record_id),
           (''browser_qa_state'', JString ''fresh'')],
        op_when (bqr_result record = ''pass'')
          (root_insert ''harness_phase'' (JString PHASE_READY_FOR_BRANCH_COMPLETION)),
        root_insert ''last_browser_qa_artifact_fingerprint''
          (json_opt JString (bqr_browser_qa_fingerprint record)),
        mark_dirty])"

end
