(* ===== verification/Transition_Repair.thy ===== *)
theory Transition_Repair
  imports Transition_Records
begin

text \<open>
  Task closures and repair of the authoritative transition state
  (\<^verbatim>\<open>src/src/execution/transitions.rs\<close>): recording, removing and restoring task closures, the
  repair follow-up, the restoration of the late-stage overlay fields from the histories, the
  hydration of missing projection summary fields when a state is loaded, and the open step.
\<close>

subsection \<open>Task closures\<close>

record TaskClosureResultRecord =
  tcr_task :: nat
  tcr_dispatch_id :: string
  tcr_closure_record_id :: string
  tcr_execution_run_id :: "string option"
  tcr_reviewed_state_id :: string
  tcr_semantic_reviewed_state_id :: "string option"
  tcr_contract_identity :: string
  tcr_effective_reviewed_surface_paths :: "string list"
  tcr_review_result :: string
  tcr_review_summary_hash :: string
  tcr_verification_result :: string
  tcr_verification_summary_hash :: string

definition run_identity_string :: "json \<Rightarrow> string \<Rightarrow> string option" where
  "run_identity_string p key = Option.bind (json_get p ''run_identity'') (\<lambda>r. json_string r key)"

definition task_closure_payload :: "json \<Rightarrow> TaskClosureResultRecord \<Rightarrow> json" where
  "task_closure_payload p r = json_object (
     [(''task'', json_nat (tcr_task r)), (''record_id'', JString (tcr_closure_record_id r)),
      (''record_sequence'', json_nat (history_next_sequence p ''task_closure_record_history'')),
      (''record_status'', JString ''current''), (''closure_status'', JString ''current''),
      (''source_plan_path'', json_opt JString (run_identity_string p ''source_plan_path'')),
      (''source_plan_revision'', json_opt json_nat
         (Option.bind (json_get p ''run_identity'') (\<lambda>r. json_u32 r ''source_plan_revision''))),
      (''execution_run_id'', json_opt JString
         (opt_or (trim_nonempty (tcr_execution_run_id r)) (run_identity_string p ''execution_run_id''))),
      (''dispatch_id'', JString (tcr_dispatch_id r)),
      (''closure_record_id'', JString (tcr_closure_record_id r)),
      (''reviewed_state_id'', JString (tcr_reviewed_state_id r)),
      (''contract_identity'', JString (tcr_contract_identity r)),
      (''effective_reviewed_surface_paths'', json_strings (tcr_effective_reviewed_surface_paths r)),
      (''review_result'', JString (tcr_review_result r)),
      (''review_summary_hash'', JString (tcr_review_summary_hash r)),
      (''verification_result'', JString (tcr_verification_result r)),
      (''verification_summary_hash'', JString (tcr_verification_summary_hash r))] @
     serde_skip_none ''semantic_reviewed_state_id'' JString (tcr_semantic_reviewed_state_id r))"

definition record_task_closure_result :: "TaskClosureResultRecord \<Rightarrow> unit mutation" where
  "record_task_closure_result record =
     op_bind (op_gets (\<lambda>s. task_closure_payload (ts_payload s) record)) (\<lambda>payload. op_seq
       [current_task_closure_records_mut
          (\<lambda>records. ((), obj_insert (task_scope_key_for_task (tcr_task record)) payload records)),
        task_closure_record_history_mut
          (\<lambda>history. ((), obj_insert (tcr_closure_record_id record) payload history)),
        mark_dirty])"

text \<open>Removing keys and marking the removed closures in the history.\<close>

definition remove_keys :: "string list \<Rightarrow> json_map \<Rightarrow> bool \<times> json_map" where
  "remove_keys ks es = (list_ex (\<lambda>k. obj_get es k \<noteq> None) ks, fold obj_remove ks es)"

definition remove_task_closures :: "string list \<Rightarrow> string list \<Rightarrow> string \<Rightarrow> unit mutation" where
  "remove_task_closures ks removed_closure_ids record_status =
     op_bind (current_task_closure_records_mut (remove_keys ks)) (\<lambda>removed_any.
     op_then
       (op_when (removed_closure_ids \<noteq> []) (task_closure_record_history_mut (\<lambda>history.
          ((), fold (\<lambda>closure_record_id. mark_record_status closure_record_id record_status)
             removed_closure_ids history))))
       (op_when (removed_any \<or> removed_closure_ids \<noteq> []) mark_dirty))"

definition remove_current_task_closure_results_with_record_status ::
  "nat list \<Rightarrow> string \<Rightarrow> unit mutation" where
  "remove_current_task_closure_results_with_record_status tasks record_status =
     op_bind (op_gets (\<lambda>s. List.map_filter (\<lambda>task.
        opt_or (Option.bind (raw_current_task_closure_state_entry (ts_payload s) task) rce_closure_record_id)
          (map_option ctc_closure_record_id (current_task_closure_result (ts_payload s) task))) tasks))
       (\<lambda>removed_closure_ids.
          remove_task_closures (map task_scope_key_for_task tasks) removed_closure_ids record_status)"

definition remove_current_task_closure_results_with_record_status_by_scope_keys ::
  "string list \<Rightarrow> string \<Rightarrow> unit mutation" where
  "remove_current_task_closure_results_with_record_status_by_scope_keys scope_keys record_status =
     (if scope_keys = [] then op_return ()
      else op_bind (op_gets (\<lambda>s. List.map_filter (\<lambda>scope_key.
             Option.bind (Option.bind (current_task_closure_map (ts_payload s))
               (\<lambda>records. obj_get records scope_key))
               (\<lambda>payload. json_string payload ''closure_record_id'')) scope_keys))
           (\<lambda>removed_closure_ids. remove_task_closures scope_keys removed_closure_ids record_status))"

definition remove_current_task_closure_results :: "nat list \<Rightarrow> unit mutation" where
  "remove_current_task_closure_results tasks =
     remove_current_task_closure_results_with_record_status tasks ''superseded''"

definition clear_current_task_closure_results_for_execution_reentry :: "nat list \<Rightarrow> unit mutation" where
  "clear_current_task_closure_results_for_execution_reentry tasks =
     remove_current_task_closure_results_with_record_status tasks REVIEW_STATE_STALE_UNREVIEWED"

definition clear_current_task_closure_results_for_structural_repair :: "nat list \<Rightarrow> unit mutation" where
  "clear_current_task_closure_results_for_structural_repair tasks =
     remove_current_task_closure_results_with_record_status tasks ''historical''"

definition clear_current_task_closure_results_for_structural_repair_scope_keys ::
  "string list \<Rightarrow> unit mutation" where
  "clear_current_task_closure_results_for_structural_repair_scope_keys scope_keys =
     remove_current_task_closure_results_with_record_status_by_scope_keys scope_keys ''historical''"

definition restored_task_closure_payload :: "CurrentTaskClosureRecord \<Rightarrow> json" where
  "restored_task_closure_payload r = json_object
     [(''task'', json_nat (ctc_task r)), (''record_id'', JString (ctc_closure_record_id r)),
      (''record_status'', JString ''current''),
      (''closure_status'', JString (unwrap_or ''current'' (ctc_closure_status r))),
      (''source_plan_path'', json_opt JString (ctc_source_plan_path r)),
      (''source_plan_revision'', json_opt json_nat (ctc_source_plan_revision r)),
      (''execution_run_id'', json_opt JString (ctc_execution_run_id r)),
      (''dispatch_id'', JString (ctc_dispatch_id r)),
      (''closure_record_id'', JString (ctc_closure_record_id r)),
      (''reviewed_state_id'', JString (ctc_reviewed_state_id r)),
      (''semantic_reviewed_state_id'', json_opt JString (ctc_semantic_reviewed_state_id r)),
      (''contract_identity'', JString (ctc_contract_identity r)),
      (''effective_reviewed_surface_paths'', json_strings (ctc_effective_reviewed_surface_paths r)),
      (''review_result'', JString (ctc_review_result r)),
      (''review_summary_hash'', JString (ctc_review_summary_hash r)),
      (''verification_result'', JString (ctc_verification_result r)),
      (''verification_summary_hash'', JString (ctc_verification_summary_hash r))]"

definition restored_task_closures :: "json \<Rightarrow> json_map" where
  "restored_task_closures p =
     fold (\<lambda>record. obj_insert (task_scope_key_for_task (ctc_task record))
         (restored_task_closure_payload record))
       (obj_values (current_task_closure_results_from_history p))
       (collect_btree (filter (\<lambda>e. task_scope_key_task_number (fst e) = None)
          (unwrap_or [] (current_task_closure_map p))))"

definition restore_current_task_closure_records_from_history :: "bool mutation" where
  "restore_current_task_closure_records_from_history =
     op_bind (op_gets ts_payload) (\<lambda>p.
     if current_task_closure_results_from_history p = [] \<or> \<not> current_task_closure_overlay_needs_restore p
     then op_return False
     else op_then (root_insert ''current_task_closure_records'' (JObject (restored_task_closures p)))
       (op_then mark_dirty (op_return True)))"

definition restored_negative_payload :: "nat \<Rightarrow> TaskClosureNegativeResult \<Rightarrow> json" where
  "restored_negative_payload task r = json_object
     [(''task'', json_nat task), (''record_status'', JString ''current''),
      (''dispatch_id'', JString (neg_dispatch_id r)), (''closure_record_id'', JNull),
      (''reviewed_state_id'', JString (neg_reviewed_state_id r)),
      (''contract_identity'', JString (neg_contract_identity r)),
      (''review_result'', JString (neg_review_result r)),
      (''review_summary_hash'', JString (neg_review_summary_hash r)),
      (''verification_result'', JString (neg_verification_result r)),
      (''verification_summary_hash'', json_opt JString (neg_verification_summary_hash r))]"

definition restore_task_closure_negative_result_records_from_history :: "bool mutation" where
  "restore_task_closure_negative_result_records_from_history =
     op_bind (op_gets ts_payload) (\<lambda>p.
     let recoverable = task_closure_negative_results_from_history p in
     if recoverable = [] \<or> \<not> task_closure_negative_result_overlay_needs_restore p
     then op_return False
     else op_then (root_insert ''task_closure_negative_result_records''
         (JObject (fold (\<lambda>(task, record). obj_insert (task_scope_key_for_task task)
            (restored_negative_payload task record)) recoverable [])))
       (op_then mark_dirty (op_return True)))"

subsection \<open>Repair follow-up\<close>

definition set_review_state_repair_follow_up :: "string option \<Rightarrow> unit mutation" where
  "set_review_state_repair_follow_up follow_up =
     op_then (op_ignore (insert_nullable_root_field_if_changed ''review_state_repair_follow_up''
        (json_opt JString follow_up)))
      (op_when (follow_up = None) (op_seq (map (\<lambda>field.
          op_ignore (insert_nullable_root_field_if_changed field JNull))
        [''review_state_repair_follow_up_record'', ''review_state_repair_follow_up_task'',
         ''review_state_repair_follow_up_step'', ''review_state_repair_follow_up_closure_record_id''])))"

definition set_review_state_repair_follow_up_record :: "RepairFollowUpRecord option \<Rightarrow> unit mutation" where
  "set_review_state_repair_follow_up_record record = op_seq
     (map (\<lambda>(field, v). op_ignore (insert_nullable_root_field_if_changed field v))
       [(''review_state_repair_follow_up'', JNull),
        (''review_state_repair_follow_up_record'', json_opt repair_follow_up_record_to_value record),
        (''review_state_repair_follow_up_task'', json_opt json_nat (Option.bind record rfu_target_task)),
        (''review_state_repair_follow_up_step'', json_opt json_nat (Option.bind record rfu_target_step)),
        (''review_state_repair_follow_up_closure_record_id'',
           json_opt JString (Option.bind record rfu_target_record_id))])"

definition clear_review_state_repair_follow_up :: "bool mutation" where
  "clear_review_state_repair_follow_up =
     op_bind (op_gets (\<lambda>s. let p = ts_payload s in
        review_state_repair_follow_up p \<noteq> None \<or> review_state_repair_follow_up_record p \<noteq> None \<or>
        review_state_repair_follow_up_task p \<noteq> None \<or> review_state_repair_follow_up_step p \<noteq> None \<or>
        review_state_repair_follow_up_closure_record_id p \<noteq> None)) (\<lambda>has_repair_follow_up_state.
     if \<not> has_repair_follow_up_state then op_return False
     else op_then (root_insert_all
         [(''review_state_repair_follow_up'', JNull), (''review_state_repair_follow_up_record'', JNull),
          (''review_state_repair_follow_up_task'', JNull), (''review_state_repair_follow_up_step'', JNull),
          (''review_state_repair_follow_up_closure_record_id'', JNull)])
       (op_then mark_dirty (op_return True)))"

definition set_current_release_readiness_record_id_cache :: "string option \<Rightarrow> unit mutation" where
  "set_current_release_readiness_record_id_cache record_id = op_seq
     [root_insert ''current_release_readiness_record_id'' (json_opt JString record_id), mark_dirty]"

definition set_current_final_review_record_id_cache :: "string option \<Rightarrow> unit mutation" where
  "set_current_final_review_record_id_cache record_id = op_seq
     [root_insert ''current_final_review_record_id'' (json_opt JString record_id), mark_dirty]"

definition set_current_qa_record_id_cache :: "string option \<Rightarrow> unit mutation" where
  "set_current_qa_record_id_cache record_id = op_seq
     [root_insert ''current_qa_record_id'' (json_opt JString record_id), mark_dirty]"

subsection \<open>Late-stage overlay fields\<close>

definition record_field :: "string \<Rightarrow> json \<Rightarrow> string \<Rightarrow> string result" where
  "record_field label payload key =
     (case json_string payload key of
        Some v \<Rightarrow> Inr v
      | None \<Rightarrow> Inl (json_failure MalformedExecutionState
          (''Current '' @ label @ '' record is missing '' @ key @ ''.'')))"

text \<open>The checks the three restore operations start with: the current record of the history, when it
  belongs to the current branch closure.\<close>

definition current_milestone_of_branch ::
  "string \<Rightarrow> string \<Rightarrow> string \<Rightarrow> json \<Rightarrow> (string \<times> json \<times> string) option result" where
  "current_milestone_of_branch label current_id_key history_key p =
     (case current_record_entry p current_id_key history_key of
        None \<Rightarrow> Inr None
      | Some (record_id, payload) \<Rightarrow>
          res_bind (record_field label payload ''branch_closure_id'') (\<lambda>branch_closure_id.
          res_bind (record_field label payload ''reviewed_state_id'') (\<lambda>reviewed_state_id.
          case recoverable_current_branch_closure_identity p of
            None \<Rightarrow> Inr None
          | Some current_identity \<Rightarrow>
              if bci_branch_closure_id current_identity \<noteq> branch_closure_id \<or>
                 \<not> late_stage_record_matches_current_branch_identity current_identity reviewed_state_id
                     (json_string payload ''semantic_reviewed_state_id'')
              then Inr None
              else if is_some_and (json_string p ''current_branch_closure_id'') (\<lambda>c. c \<noteq> branch_closure_id)
              then Inr None
              else Inr (Some (record_id, payload, branch_closure_id)))))"

definition restore_current_release_readiness_overlay_fields :: "bool mutation" where
  "restore_current_release_readiness_overlay_fields =
     op_bind (op_gets ts_payload) (\<lambda>p.
     op_bind (op_lift (current_milestone_of_branch ''release-readiness'' ''current_release_readiness_record_id''
        ''release_readiness_record_history'' p)) (\<lambda>found.
     case found of
       None \<Rightarrow> op_return False
     | Some (record_id, payload, branch_closure_id) \<Rightarrow>
         op_bind (op_lift (record_field ''release-readiness'' payload ''result'')) (\<lambda>result.
         op_bind (op_lift (record_field ''release-readiness'' payload ''summary_hash'')) (\<lambda>summary_hash.
         op_then (root_insert_all
           [(''current_release_readiness_result'', JString result),
            (''current_release_readiness_summary_hash'', JString summary_hash),
            (''current_release_readiness_record_id'', JString record_id),
            (''release_docs_state'', JString ''fresh''),
            (''last_release_docs_artifact_fingerprint'',
               json_opt JString (json_string payload ''release_docs_fingerprint''))])
          (op_then mark_dirty (op_return True))))))"

definition restore_current_final_review_overlay_fields :: "bool mutation" where
  "restore_current_final_review_overlay_fields =
     op_bind (op_gets ts_payload) (\<lambda>p.
     op_bind (op_lift (current_milestone_of_branch ''final-review'' ''current_final_review_record_id''
        ''final_review_record_history'' p)) (\<lambda>found.
     case found of
       None \<Rightarrow> op_return False
     | Some (record_id, payload, branch_closure_id) \<Rightarrow>
        if current_release_readiness_record_id p = None \<or>
           json_string payload ''release_readiness_record_id'' \<noteq> current_release_readiness_record_id p
        then op_return False
        else
         op_bind (op_lift (record_field ''final-review'' payload ''dispatch_id'')) (\<lambda>dispatch_id.
         op_bind (op_lift (record_field ''final-review'' payload ''reviewer_source'')) (\<lambda>reviewer_source.
         op_bind (op_lift (record_field ''final-review'' payload ''reviewer_id'')) (\<lambda>reviewer_id.
         op_bind (op_lift (record_field ''final-review'' payload ''result'')) (\<lambda>result.
         op_bind (op_lift (record_field ''final-review'' payload ''summary_hash'')) (\<lambda>summary_hash.
         op_then (op_seq
           [root_insert_all
             [(''current_final_review_branch_closure_id'', JString branch_closure_id),
              (''current_final_review_dispatch_id'', JString dispatch_id),
              (''current_final_review_reviewer_source'', JString reviewer_source),
              (''current_final_review_reviewer_id'', JString reviewer_id),
              (''current_final_review_result'', JString result),
              (''current_final_review_summary_hash'', JString summary_hash),
              (''current_final_review_record_id'', JString record_id),
              (''final_review_state'', JString ''fresh''),
              (''last_final_review_artifact_fingerprint'',
                 json_opt JString (json_string payload ''final_review_fingerprint''))],
            op_when (Option.bind (json_get payload ''browser_qa_required'') as_bool = Some False)
              (root_insert_all [(''browser_qa_state'', JString ''not_required''),
                 (''last_browser_qa_artifact_fingerprint'', JNull)]),
            mark_dirty])
          (op_return True))))))))"

definition restore_current_browser_qa_overlay_fields :: "bool mutation" where
  "restore_current_browser_qa_overlay_fields =
     op_bind (op_gets ts_payload) (\<lambda>p.
     op_bind (op_lift (current_milestone_of_branch ''browser QA'' ''current_qa_record_id''
        ''browser_qa_record_history'' p)) (\<lambda>found.
     case found of
       None \<Rightarrow> op_return False
     | Some (record_id, payload, branch_closure_id) \<Rightarrow>
        if current_final_review_record_id p = None \<or>
           json_string payload ''final_review_record_id'' \<noteq> current_final_review_record_id p
        then op_return False
        else
         op_bind (op_lift (record_field ''browser QA'' payload ''result'')) (\<lambda>result.
         op_bind (op_lift (record_field ''browser QA'' payload ''summary_hash'')) (\<lambda>summary_hash.
         op_then (root_insert_all
           [(''current_qa_branch_closure_id'', JString branch_closure_id),
            (''current_qa_result'', JString result),
            (''current_qa_summary_hash'', JString summary_hash),
            (''current_qa_record_id'', JString record_id),
            (''browser_qa_state'', JString ''fresh''),
            (''last_browser_qa_artifact_fingerprint'',
               json_opt JString (json_string payload ''browser_qa_fingerprint''))])
          (op_then mark_dirty (op_return True))))))"

subsection \<open>Loading\<close>

definition insert_if_missing :: "(string \<times> json) list \<Rightarrow> json \<Rightarrow> unit mutation" where
  "insert_if_missing kvs p =
     op_seq (map (\<lambda>(field, v).
       op_when (json_string p field = None) (op_then (root_insert field v) mark_dirty)) kvs)"

definition restore_when :: "bool \<Rightarrow> string \<Rightarrow> bool mutation \<Rightarrow> unit mutation" where
  "restore_when was_missing field restore =
     op_bind (op_gets (\<lambda>s. projection_summary_state_value (ts_payload s) field = Some ''fresh'')) (\<lambda>fresh.
       op_when (was_missing \<or> fresh) (op_ignore restore))"

definition hydrate_missing_review_projection_summary_fields :: "unit mutation" where
  "hydrate_missing_review_projection_summary_fields =
     op_bind (op_gets ts_payload) (\<lambda>p.
     let default_state = JString (if bound_current_branch_closure_identity p \<noteq> None
           then ''missing'' else ''not_required'')
     in op_seq
       [insert_if_missing
          [(''release_docs_state'', default_state), (''final_review_state'', default_state),
           (''browser_qa_state'', default_state)] p,
        insert_if_missing
          [(''last_release_docs_artifact_fingerprint'', JNull),
           (''last_final_review_artifact_fingerprint'', JNull),
           (''last_browser_qa_artifact_fingerprint'', JNull)] p,
        restore_when (projection_summary_state_value p ''release_docs_state'' = None) ''release_docs_state''
          restore_current_release_readiness_overlay_fields,
        restore_when (projection_summary_state_value p ''final_review_state'' = None) ''final_review_state''
          restore_current_final_review_overlay_fields,
        restore_when (projection_summary_state_value p ''browser_qa_state'' = None) ''browser_qa_state''
          restore_current_browser_qa_overlay_fields])"

definition strip_top_level_null_fields :: "json \<Rightarrow> json" where
  "strip_top_level_null_fields payload =
     (case payload of JObject es \<Rightarrow> JObject (filter (\<lambda>e. \<not> is_null (snd e)) es) | _ \<Rightarrow> payload)"

record GateAuthorityState =
  ga_harness_phase :: "string option"
  ga_latest_authoritative_sequence :: "nat option"
  ga_authoritative_sequence :: "nat option"
  ga_active_contract_path :: "string option"
  ga_active_contract_fingerprint :: "string option"
  ga_required_evaluator_kinds :: "string list"
  ga_handoff_required :: bool
  ga_open_failed_criteria :: "string list"

fun serde_strings :: "json \<Rightarrow> string list option" where
  "serde_strings (JArray xs) = those (map as_str xs)"
| "serde_strings _ = None"

definition gate_authority_state_from_value :: "json \<Rightarrow> GateAuthorityState option" where
  "gate_authority_state_from_value v = do {
     f \<leftarrow> serde_struct [''harness_phase'', ''latest_authoritative_sequence'', ''authoritative_sequence'',
        ''active_contract_path'', ''active_contract_fingerprint'', ''required_evaluator_kinds'',
        ''handoff_required'', ''open_failed_criteria''] v;
     harness_phase \<leftarrow> serde_optional as_str (f ''harness_phase'');
     latest_sequence \<leftarrow> serde_optional (serde_uint u64_max) (f ''latest_authoritative_sequence'');
     sequence \<leftarrow> serde_optional (serde_uint u64_max) (f ''authoritative_sequence'');
     contract_path \<leftarrow> serde_optional as_str (f ''active_contract_path'');
     contract_fingerprint \<leftarrow> serde_optional as_str (f ''active_contract_fingerprint'');
     evaluator_kinds \<leftarrow> serde_default [] serde_strings (f ''required_evaluator_kinds'');
     handoff_required \<leftarrow> serde_default False as_bool (f ''handoff_required'');
     failed_criteria \<leftarrow> serde_default [] serde_strings (f ''open_failed_criteria'');
     Some \<lparr>ga_harness_phase = harness_phase, ga_latest_authoritative_sequence = latest_sequence,
       ga_authoritative_sequence = sequence, ga_active_contract_path = contract_path,
       ga_active_contract_fingerprint = contract_fingerprint,
       ga_required_evaluator_kinds = evaluator_kinds, ga_handoff_required = handoff_required,
       ga_open_failed_criteria = failed_criteria\<rparr>}"

definition has_active_contract_pointer :: "GateAuthorityState \<Rightarrow> bool" where
  "has_active_contract_pointer state \<longleftrightarrow>
     is_some_and (ga_active_contract_path state) (\<lambda>v. trim v \<noteq> []) \<or>
     is_some_and (ga_active_contract_fingerprint state) (\<lambda>v. trim v \<noteq> [])"

definition from_reduced_event_payload ::
  "transition_env \<Rightarrow> string \<Rightarrow> json \<Rightarrow> AuthoritativeTransitionState result" where
  "from_reduced_event_payload env state_path payload =
     (case gate_authority_state_from_value (strip_top_level_null_fields payload) of
        None \<Rightarrow> Inl (json_failure MalformedExecutionState
          (''Authoritative reduced state is malformed for '' @ state_path @ '': '' @
           env_serde_error env (strip_top_level_null_fields payload)))
      | Some gate_state \<Rightarrow>
          (case hydrate_missing_review_projection_summary_fields
                  \<lparr>ts_path = state_path, ts_payload = payload, ts_phase = ga_harness_phase gate_state,
                   ts_active_contract = None, ts_dirty = False, ts_ticks = 0\<rparr> of
             (Inl e, _) \<Rightarrow> Inl e
           | (Inr _, s) \<Rightarrow> Inr (s\<lparr>ts_dirty := False\<rparr>)))"

definition hydrate_missing_review_projection_summary_payload :: "string \<Rightarrow> json \<Rightarrow> json result" where
  "hydrate_missing_review_projection_summary_payload state_path payload =
     (case hydrate_missing_review_projection_summary_fields
             \<lparr>ts_path = state_path, ts_payload = payload, ts_phase = None,
              ts_active_contract = None, ts_dirty = False, ts_ticks = 0\<rparr> of
        (Inl e, _) \<Rightarrow> Inl e
      | (Inr _, s) \<Rightarrow> Inr (ts_payload s))"

subsection \<open>The open step\<close>

definition record_open_step_state :: "OpenStepStateRecord \<Rightarrow> unit mutation" where
  "record_open_step_state record =
     op_bind (op_gets ts_path) (\<lambda>path.
     op_bind (op_lift (normalize_open_step_state_record record path)) (\<lambda>record.
     op_seq [root_insert ''current_open_step_state'' (open_step_to_value record), mark_dirty]))"

definition clear_open_step_state :: "unit mutation" where
  "clear_open_step_state =
     op_bind (root_object_mut (\<lambda>root. (obj_get root ''current_open_step_state'' \<noteq> None, root))) (\<lambda>present.
       op_when present (op_then (root_insert ''current_open_step_state'' JNull) mark_dirty))"

end
