(* ===== verification/Transition_Invariant.thy ===== *)
theory Transition_Invariant
  imports Transition_Repair
begin

text \<open>
  What every operation of the authoritative transition state keeps.  The interface is the locale
  \<open>mutation_relation\<close>: a reflexive and transitive relation between the states before and after, and
  from it the rules that carry it through sequencing, branching and reading.  It is interpreted
  twice: on \<open>framed\<close>, which holds whatever the outcome, and on \<open>clean\<close>, which holds when the
  operation succeeds.
\<close>

named_theorems framed_intros "operations that keep the state well formed"
named_theorems dirty_intros "operations that leave the state marked dirty"
named_theorems clean_intros "operations that mark every change of the content"

subsection \<open>The interface\<close>

locale mutation_relation =
  fixes R :: "AuthoritativeTransitionState \<Rightarrow> AuthoritativeTransitionState \<Rightarrow> bool"
  assumes refl: "R s s"
    and trans: "R s t \<Longrightarrow> R t u \<Longrightarrow> R s u"
begin

definition keeps :: "'a mutation \<Rightarrow> bool" where
  "keeps m \<longleftrightarrow> (\<forall>s. R s (snd (m s)))"

definition succeeds :: "'a mutation \<Rightarrow> bool" where
  "succeeds m \<longleftrightarrow> (\<forall>s x t. m s = (Inr x, t) \<longrightarrow> R s t)"

lemma keepsD: "keeps m \<Longrightarrow> R s (snd (m s))"
  by (simp add: keeps_def)

lemma succeedsD: "succeeds m \<Longrightarrow> m s = (Inr x, t) \<Longrightarrow> R s t"
  by (auto simp: succeeds_def)

lemma keeps_succeeds: "keeps m \<Longrightarrow> succeeds m"
  unfolding keeps_def succeeds_def by (metis snd_conv)

lemma keeps_pure: "keeps (op_return x)" "keeps (op_fail e)" "keeps (op_gets g)" "keeps (op_lift r)"
  by (simp_all add: keeps_def op_return_def op_fail_def op_gets_def op_lift_def refl)

lemma keeps_require: "keeps (op_require e a)"
  by (cases a) (simp_all add: op_require_def keeps_pure)

lemma keeps_bind: "keeps m \<Longrightarrow> (\<And>x. keeps (f x)) \<Longrightarrow> keeps (op_bind m f)"
  unfolding keeps_def op_bind_def
  by (auto split: prod.splits sum.splits intro: trans) (metis snd_conv trans)+

lemma keeps_then: "keeps m \<Longrightarrow> keeps n \<Longrightarrow> keeps (op_then m n)"
  by (simp add: op_then_def keeps_bind)

lemma keeps_ignore: "keeps m \<Longrightarrow> keeps (op_ignore m)"
  by (simp add: op_ignore_def keeps_bind keeps_pure)

lemma keeps_when: "(b \<Longrightarrow> keeps m) \<Longrightarrow> keeps (op_when b m)"
  by (simp add: op_when_def keeps_pure)

lemma keeps_seq: "(\<And>m. m \<in> set ms \<Longrightarrow> keeps m) \<Longrightarrow> keeps (op_seq ms)"
  by (induction ms) (simp_all add: keeps_pure keeps_then)

lemma succeeds_pure: "succeeds (op_return x)" "succeeds (op_fail e)" "succeeds (op_gets g)" "succeeds (op_lift r)"
  by (simp_all add: keeps_pure keeps_succeeds)

lemma succeeds_bind: "succeeds m \<Longrightarrow> (\<And>x. succeeds (f x)) \<Longrightarrow> succeeds (op_bind m f)"
  unfolding succeeds_def op_bind_def
  by (auto split: prod.splits sum.splits) (metis trans)

lemma succeeds_gets: "(\<And>s. succeeds (f (g s))) \<Longrightarrow> succeeds (op_bind (op_gets g) f)"
  unfolding succeeds_def op_bind_def op_gets_def by auto

lemma succeeds_then: "succeeds m \<Longrightarrow> succeeds n \<Longrightarrow> succeeds (op_then m n)"
  by (simp add: op_then_def succeeds_bind)

lemma succeeds_ignore: "succeeds m \<Longrightarrow> succeeds (op_ignore m)"
  by (simp add: op_ignore_def succeeds_bind succeeds_pure)

lemma succeeds_when: "(b \<Longrightarrow> succeeds m) \<Longrightarrow> succeeds (op_when b m)"
  by (simp add: op_when_def succeeds_pure)

lemma succeeds_seq: "(\<And>m. m \<in> set ms \<Longrightarrow> succeeds m) \<Longrightarrow> succeeds (op_seq ms)"
  by (induction ms) (simp_all add: succeeds_pure succeeds_then)

end

subsection \<open>Well-formed states\<close>

definition state_wf :: "AuthoritativeTransitionState \<Rightarrow> bool" where
  "state_wf s \<longleftrightarrow> is_object (ts_payload s) \<and> json_wf (ts_payload s)"

definition framed :: "AuthoritativeTransitionState \<Rightarrow> AuthoritativeTransitionState \<Rightarrow> bool" where
  "framed s t \<longleftrightarrow>
     (state_wf s \<longrightarrow> state_wf t \<and> ts_path t = ts_path s \<and> ts_active_contract t = ts_active_contract s \<and>
        (ts_dirty s \<longrightarrow> ts_dirty t))"

interpretation fr: mutation_relation framed
  by unfold_locales (auto simp: framed_def)

lemma state_wfI: "ts_payload s = JObject es \<Longrightarrow> json_wf (JObject es) \<Longrightarrow> state_wf s"
  by (simp add: state_wf_def)

lemma state_wfE: "state_wf s \<Longrightarrow> (\<And>es. ts_payload s = JObject es \<Longrightarrow> json_wf (JObject es) \<Longrightarrow> P) \<Longrightarrow> P"
  by (auto simp: state_wf_def is_object_conv)

text \<open>A continuation of a read may rely on the state read from.\<close>

lemma framed_gets: "(\<And>s. state_wf s \<Longrightarrow> fr.keeps (f (g s))) \<Longrightarrow> fr.keeps (op_bind (op_gets g) f)"
  unfolding fr.keeps_def op_bind_def op_gets_def framed_def by auto

lemma framed_mark_dirty: "fr.keeps mark_dirty"
  by (simp add: fr.keeps_def mark_dirty_def framed_def state_wf_def)

lemma framed_set_phase: "fr.keeps (set_phase p)"
  by (simp add: fr.keeps_def set_phase_def framed_def state_wf_def)

lemma framed_timestamp: "fr.keeps (timestamp_now env)"
  by (simp add: fr.keeps_def timestamp_now_def framed_def state_wf_def)

lemma framed_root_object_mut:
  assumes "\<And>root. json_wf (JObject root) \<Longrightarrow> json_wf (JObject (snd (f root)))"
  shows "fr.keeps (root_object_mut f)"
  unfolding fr.keeps_def framed_def
proof (intro allI impI)
  fix s assume "state_wf s"
  then obtain root where r: "ts_payload s = JObject root" "json_wf (JObject root)" by (rule state_wfE)
  obtain x root' where f: "f root = (x, root')" by (cases "f root")
  from assms [OF r(2)] f have "json_wf (JObject root')" by simp
  then show "state_wf (snd (root_object_mut f s)) \<and> ts_path (snd (root_object_mut f s)) = ts_path s \<and>
      ts_active_contract (snd (root_object_mut f s)) = ts_active_contract s \<and>
      (ts_dirty s \<longrightarrow> ts_dirty (snd (root_object_mut f s)))"
    by (simp add: root_object_mut_def r(1) f state_wf_def del: json_wf.simps)
qed

lemma framed_root_insert: "json_wf v \<Longrightarrow> fr.keeps (root_insert k v)"
  unfolding root_insert_def by (rule framed_root_object_mut) (simp add: json_wf_insert del: json_wf.simps)

lemma framed_root_insert_all: "list_all (\<lambda>kv. json_wf (snd kv)) kvs \<Longrightarrow> fr.keeps (root_insert_all kvs)"
  unfolding root_insert_all_def by (rule fr.keeps_seq) (auto simp: list_all_iff intro: framed_root_insert)

lemma framed_object_field_mut:
  assumes "\<And>es. json_wf (JObject es) \<Longrightarrow> json_wf (JObject (snd (f es)))"
  shows "fr.keeps (object_field_mut field f)"
  unfolding object_field_mut_def
proof (intro fr.keeps_bind framed_root_object_mut fr.keeps_require)
  fix root assume wf: "json_wf (JObject root)"
  have ins: "json_wf (JObject (obj_insert field (JObject (snd (f es))) root))" if "json_wf (JObject es)" for es
    by (rule json_wf_insert [OF wf assms [OF that]])
  have e: "json_wf (JObject [])" by (simp add: obj_sorted_def)
  show "json_wf (JObject (snd (case obj_get root field of
          Some (JObject es) \<Rightarrow> (case f es of (x, es') \<Rightarrow> (Some x, obj_insert field (JObject es') root))
        | None \<Rightarrow> (case f [] of (x, es') \<Rightarrow> (Some x, obj_insert field (JObject es') root))
        | Some _ \<Rightarrow> (None, root))))"
  proof (cases "obj_get root field")
    case None
    then show ?thesis using ins [OF e] by (simp add: case_prod_beta del: json_wf.simps)
  next
    case (Some v)
    have v: "json_wf v" by (rule obj_get_wf [OF _ Some]) (use wf in simp)
    show ?thesis
    proof (cases v)
      case (JObject es)
      with v have "json_wf (JObject es)" by simp
      from ins [OF this] show ?thesis
        by (simp add: Some JObject case_prod_beta del: json_wf.simps)
    qed (use wf in \<open>simp_all add: Some del: json_wf.simps\<close>)
  qed
qed

lemma framed_array_field_mut:
  assumes "\<And>xs. list_all json_wf xs \<Longrightarrow> list_all json_wf (f xs)"
  shows "fr.keeps (array_field_mut field e f)"
  unfolding array_field_mut_def
proof (intro fr.keeps_bind framed_root_object_mut fr.keeps_require)
  fix root assume wf: "json_wf (JObject root)"
  have ins: "json_wf (JObject (obj_insert field (JArray (f xs)) root))" if "list_all json_wf xs" for xs
    by (rule json_wf_insert [OF wf]) (use assms [OF that] in \<open>simp add: list_all_iff\<close>)
  show "json_wf (JObject (snd (case obj_get root field of
          Some (JArray xs) \<Rightarrow> (Some (), obj_insert field (JArray (f xs)) root)
        | None \<Rightarrow> (Some (), obj_insert field (JArray (f [])) root)
        | Some _ \<Rightarrow> (None, root))))"
  proof (cases "obj_get root field")
    case None
    then show ?thesis using ins [of "[]"] by (simp del: json_wf.simps)
  next
    case (Some v)
    have v: "json_wf v" by (rule obj_get_wf [OF _ Some]) (use wf in simp)
    show ?thesis
    proof (cases v)
      case (JArray xs)
      with v have "list_all json_wf xs" by (simp add: list_all_iff)
      from ins [OF this] show ?thesis by (simp add: Some JArray del: json_wf.simps)
    qed (use wf in \<open>simp_all add: Some del: json_wf.simps\<close>)
  qed
qed

lemma framed_if: "(b \<Longrightarrow> fr.keeps m) \<Longrightarrow> (\<not> b \<Longrightarrow> fr.keeps n) \<Longrightarrow> fr.keeps (if b then m else n)"
  by simp

lemma framed_option:
  "(a = None \<Longrightarrow> fr.keeps m) \<Longrightarrow> (\<And>x. a = Some x \<Longrightarrow> fr.keeps (f x)) \<Longrightarrow>
   fr.keeps (case a of None \<Rightarrow> m | Some x \<Rightarrow> f x)"
  by (cases a) auto

lemma framed_prod: "(\<And>x y. p = (x, y) \<Longrightarrow> fr.keeps (f x y)) \<Longrightarrow> fr.keeps (case p of (x, y) \<Rightarrow> f x y)"
  by (cases p) auto

lemma framed_Let: "fr.keeps (f x) \<Longrightarrow> fr.keeps (Let x f)"
  by simp

lemmas framed_rules =
  framed_gets fr.keeps_pure fr.keeps_require framed_mark_dirty framed_set_phase framed_timestamp
  framed_root_insert framed_root_insert_all framed_if framed_option framed_prod framed_Let
  fr.keeps_when fr.keeps_ignore fr.keeps_then fr.keeps_bind

subsection \<open>Well-formed values\<close>

lemma wf_empty: "json_wf (JObject [])"
  by (simp add: obj_sorted_def)

lemma wf_lookup: "json_wf (JObject es) \<Longrightarrow> obj_get es k = Some w \<Longrightarrow> json_wf w"
  by (rule json_wf_get [of "JObject es" k]) simp_all

lemma wf_set_record_status: "json_wf v \<Longrightarrow> json_wf (set_record_status st v)"
  by (cases v) (auto simp: set_record_status_def simp del: json_wf.simps(2) intro!: json_wf_insert)

lemma keys_mark_record_status [simp]: "map fst (mark_record_status i st es) = map fst es"
  by (induction es) (auto simp: mark_record_status_def)

lemma obj_get_mark_record_status:
  "obj_get (mark_record_status i st es) k =
   map_option (\<lambda>v. if record_matches_id i k v then set_record_status st v else v) (obj_get es k)"
  by (induction es) (auto simp: mark_record_status_def obj_get_def)

lemma wf_mark_record_status: "json_wf (JObject es) \<Longrightarrow> json_wf (JObject (mark_record_status i st es))"
proof (rule json_wf_object)
  assume wf: "json_wf (JObject es)"
  then show "obj_sorted (mark_record_status i st es)" by (simp add: obj_sorted_def)
  fix k w assume "obj_get (mark_record_status i st es) k = Some w"
  then obtain v where "obj_get es k = Some v"
      "w = (if record_matches_id i k v then set_record_status st v else v)"
    by (auto simp: obj_get_mark_record_status)
  with wf show "json_wf w" by (auto intro: wf_set_record_status obj_get_wf)
qed

lemma wf_fold_mark: "json_wf (JObject es) \<Longrightarrow> json_wf (JObject (fold (\<lambda>i. mark_record_status i st) is es))"
  by (induction "is" arbitrary: es) (simp_all del: json_wf.simps add: wf_mark_record_status)

lemma wf_fold_remove: "json_wf (JObject es) \<Longrightarrow> json_wf (JObject (fold obj_remove ks es))"
  by (induction ks arbitrary: es) (simp_all del: json_wf.simps add: json_wf_remove)

lemma wf_filter: "json_wf (JObject es) \<Longrightarrow> json_wf (JObject (filter P es))"
  by (auto simp: obj_sorted_def sorted_wrt_map sorted_wrt_filter)

lemma wf_fold_insert_by:
  "(\<And>x. x \<in> set xs \<Longrightarrow> json_wf (g x)) \<Longrightarrow> json_wf (JObject es) \<Longrightarrow>
   json_wf (JObject (fold (\<lambda>x. obj_insert (k x) (g x)) xs es))"
  by (induction xs arbitrary: es) (simp_all del: json_wf.simps add: json_wf_insert)

lemma wf_collect_btree: "(\<forall>e\<in>set es. json_wf (snd e)) \<Longrightarrow> json_wf (JObject (collect_btree es))"
  unfolding collect_btree_def
  by (rule json_wf_fold_insert) (simp_all add: list_all_iff obj_sorted_def)

lemma wf_supersede_and_insert:
  "json_wf (JObject es) \<Longrightarrow> (\<And>n. json_wf (f n)) \<Longrightarrow> json_wf (JObject (supersede_and_insert pr i f es))"
  unfolding supersede_and_insert_def
  by (intro json_wf_insert) (simp_all add: wf_mark_record_status del: json_wf.simps split: option.splits)

lemma list_all_skip_none: "list_all (\<lambda>kv. json_wf (snd kv)) (serde_skip_none k f a) \<longleftrightarrow> (\<forall>x. a = Some x \<longrightarrow> json_wf (f x))"
  by (auto simp: serde_skip_none_def split: option.splits)

lemma wf_payloads [simp]:
  "json_wf (negative_result_payload r n)"
  "json_wf (branch_closure_payload br n)"
  "json_wf (release_readiness_payload rr i n)"
  "json_wf (final_review_payload fr i n)"
  "json_wf (browser_qa_payload qr i n)"
  "json_wf (task_closure_payload p tr)"
  "json_wf (restored_task_closure_payload cr)"
  "json_wf (restored_negative_payload n nr)"
  "json_wf (task_dispatch_payload ti i n now)"
  "json_wf (final_review_dispatch_payload a b c d n now)"
  "json_wf (strategy_checkpoint_value ctx ao b c ds e g h)"
  "json_wf (open_step_to_value os)"
  "json_wf (repair_follow_up_record_to_value rf)"
  unfolding negative_result_payload_def branch_closure_payload_def release_readiness_payload_def
    final_review_payload_def browser_qa_payload_def task_closure_payload_def
    restored_task_closure_payload_def restored_negative_payload_def task_dispatch_payload_def
    final_review_dispatch_payload_def strategy_checkpoint_value_def open_step_to_value_def
    repair_follow_up_record_to_value_def
  by (rule json_wf_json_object, simp add: list_all_skip_none json_wf_json_object)+

lemma wf_archived_dispatch: "json_wf (JObject es) \<Longrightarrow> json_wf (archived_dispatch es i n st at ty k)"
  unfolding archived_dispatch_def Let_def
  by (simp add: json_wf_insert json_wf_fold_insert json_wf_json_object del: json_wf.simps(2))

lemma wf_push_unique: "list_all json_wf xs \<Longrightarrow> list_all json_wf (fold push_unique_string vs xs)"
  by (induction vs arbitrary: xs) (simp_all add: push_unique_string_def Let_def)

lemma json_wf_read: "json_wf v \<Longrightarrow> Option.bind (json_get v k) as_object = Some es \<Longrightarrow> json_wf (JObject es)"
  by (auto simp: bind_eq_Some_conv simp del: json_wf.simps dest: json_wf_get)

lemma snd_remove_key [simp]: "snd (remove_key k es) = obj_remove k es"
  by (simp add: remove_key_def)

lemma snd_remove_keys [simp]: "snd (remove_keys ks es) = fold obj_remove ks es"
  by (simp add: remove_keys_def)

lemmas wf_values = json_wf_insert json_wf_remove wf_mark_record_status wf_fold_mark wf_fold_remove
  wf_filter wf_supersede_and_insert wf_archived_dispatch

lemmas accessor_defs = dispatch_credit_counts_mut_def dispatch_lineage_records_mut_def
  current_task_closure_records_mut_def task_closure_record_history_mut_def
  task_closure_negative_result_records_mut_def task_closure_negative_result_history_mut_def
  branch_closure_records_mut_def release_readiness_record_history_mut_def
  final_review_record_history_mut_def browser_qa_record_history_mut_def
  dispatch_lineage_history_mut_def final_review_dispatch_lineage_history_mut_def
  strategy_cycle_counts_mut_def

subsection \<open>Every operation keeps the frame\<close>

lemmas framed_all = framed_rules framed_object_field_mut

lemma framed_mark_if_some [framed_intros]:
  "(\<And>f. (\<And>es. json_wf (JObject es) \<Longrightarrow> json_wf (JObject (snd (f es)))) \<Longrightarrow> fr.keeps (acc f)) \<Longrightarrow>
   fr.keeps (mark_if_some acc i st)"
  by (cases i) (simp_all add: mark_if_some_def fr.keeps_pure wf_mark_record_status del: json_wf.simps)

lemma framed_insert_if_changed [framed_intros]:
  "json_wf v \<Longrightarrow> fr.keeps (insert_root_field_if_changed k v)"
  "json_wf v \<Longrightarrow> fr.keeps (insert_nullable_root_field_if_changed k v)"
  unfolding insert_root_field_if_changed_def insert_nullable_root_field_if_changed_def
  by (intro framed_rules framed_root_object_mut; simp del: json_wf.simps)+

lemma framed_append_unique [framed_intros]: "fr.keeps (append_unique_string_array k vs)"
  unfolding append_unique_string_array_def by (intro framed_array_field_mut wf_push_unique)

lemma framed_cycle_counts [framed_intros]:
  "fr.keeps (increment_task_cycle_count t)" "fr.keeps (current_task_cycle_count t)"
  "fr.keeps (set_task_cycle_count t n)" "fr.keeps (clear_task_cycle_count t)"
  unfolding increment_task_cycle_count_def current_task_cycle_count_def set_task_cycle_count_def
    clear_task_cycle_count_def accessor_defs
  by (intro framed_all; simp add: Let_def wf_values del: json_wf.simps)+

lemma framed_credits [framed_intros]:
  "fr.keeps (increment_task_dispatch_credit t)" "fr.keeps (consume_task_dispatch_credit t)"
  "fr.keeps increment_unbound_dispatch_credit" "fr.keeps consume_unbound_dispatch_credit"
  "fr.keeps clear_dispatch_credits" "fr.keeps clear_task_dispatch_credits"
  unfolding increment_task_dispatch_credit_def consume_task_dispatch_credit_def
    increment_unbound_dispatch_credit_def consume_unbound_dispatch_credit_def consume_credit_def
    clear_dispatch_credits_def clear_task_dispatch_credits_def accessor_defs
  by (intro framed_all; simp add: wf_values wf_empty del: json_wf.simps)+

lemma framed_record_strategy_checkpoint [framed_intros]:
  "fr.keeps (record_strategy_checkpoint env ctx k m ts r c)"
  unfolding record_strategy_checkpoint_def Let_def op_seq.simps
  by (intro framed_rules framed_array_field_mut) simp_all

lemma framed_checkpoints [framed_intros]:
  "fr.keeps (ensure_initial_dispatch_strategy_checkpoint env ctx m)"
  "fr.keeps (cycle_break_checkpoint env ctx m t st tr r)"
  "fr.keeps (remediation_checkpoint env ctx m tr r)"
  "fr.keeps (record_reopen_strategy_checkpoint env ctx m t st r)"
  unfolding record_reopen_strategy_checkpoint_def ensure_initial_dispatch_strategy_checkpoint_def
    cycle_break_checkpoint_def remediation_checkpoint_def
  by (intro framed_intros framed_rules)+

lemma framed_negative_results [framed_intros]:
  "fr.keeps (record_task_closure_negative_result r)" "fr.keeps (clear_task_closure_negative_result t)"
  unfolding record_task_closure_negative_result_def clear_task_closure_negative_result_def op_seq.simps accessor_defs
  by (intro framed_all; simp add: wf_values del: json_wf.simps)+

lemma framed_archive [framed_intros]:
  "fr.keeps (archive_task_dispatch_lineage_record env t st)"
  "fr.keeps (archive_final_review_dispatch_lineage_record env st)"
  unfolding archive_task_dispatch_lineage_record_def archive_final_review_dispatch_lineage_record_def accessor_defs
  by (intro framed_all; auto simp: state_wf_def bind_eq_Some_conv simp del: json_wf.simps(2)
      intro!: json_wf_insert wf_archived_dispatch dest: json_wf_get wf_lookup)+

lemma framed_upsert [framed_intros]:
  "fr.keeps (upsert_task_dispatch_lineage env i)"
  "fr.keeps (upsert_final_review_dispatch_lineage env a b c)"
  unfolding upsert_task_dispatch_lineage_def upsert_final_review_dispatch_lineage_def op_seq.simps accessor_defs
  by (intro framed_intros framed_all; simp add: wf_values del: json_wf.simps(2))+

lemma framed_lineage [framed_intros]:
  "fr.keeps (ensure_task_review_dispatch_lineage env ctx t)"
  "fr.keeps (refresh_task_review_dispatch_lineage env ctx t)"
  "fr.keeps (clear_task_review_dispatch_lineage_with_record_status env t st)"
  "fr.keeps (dispatch_lineage_of_checkpoint env ctx ct c r)"
  "fr.keeps (review_dispatch_checkpoint env ctx m ct)"
  "fr.keeps (record_review_dispatch_strategy_checkpoint env ctx m ct)"
  "fr.keeps clear_cycle_break_binding_and_strategy"
  unfolding record_review_dispatch_strategy_checkpoint_def refresh_task_review_dispatch_lineage_def
    ensure_task_review_dispatch_lineage_def clear_task_review_dispatch_lineage_with_record_status_def
    dispatch_lineage_of_checkpoint_def review_dispatch_checkpoint_def upsert_current_task_dispatch_def
    clear_cycle_break_binding_and_strategy_def accessor_defs
  by (intro framed_intros framed_all; simp add: wf_values del: json_wf.simps(2))+

lemma framed_phase [framed_intros]:
  "fr.keeps (apply_note_reset_policy n)" "fr.keeps stale_reopen_provenance"
  "fr.keeps (record_runtime_handoff_checkpoint a b)" "fr.keeps set_harness_phase_executing"
  "fr.keeps (set_execution_projection_fingerprints a b)"
  unfolding apply_note_reset_policy_def stale_reopen_provenance_def record_runtime_handoff_checkpoint_def
    set_harness_phase_executing_def set_execution_projection_fingerprints_def op_seq.simps
  by (intro framed_intros framed_all; simp)+

definition evidence_wf :: "ExecutionContext \<Rightarrow> bool" where
  "evidence_wf ctx \<longleftrightarrow> (case ctx_evidence_attempts ctx of Inl _ \<Rightarrow> True | Inr v \<Rightarrow> json_wf v)"

lemma framed_evidence [framed_intros]:
  "evidence_wf ctx \<Longrightarrow> fr.keeps (record_execution_evidence_attempts ctx)"
  unfolding record_execution_evidence_attempts_def op_seq.simps evidence_wf_def
  by (cases "ctx_evidence_attempts ctx") (auto intro!: framed_rules)

lemma framed_branch [framed_intros]:
  "fr.keeps (record_branch_closure r)" "fr.keeps (set_current_branch_closure_id env a b c)"
  "fr.keeps (restore_current_branch_closure_overlay_fields a b c)"
  "fr.keeps (clear_current_branch_closure_for_structural_repair env)"
  "fr.keeps (record_finish_review_gate_pass_checkpoint a)"
  "fr.keeps (record_finish_review_gate_pass_checkpoint_if_current a)"
  unfolding record_branch_closure_def set_current_branch_closure_id_def
    restore_current_branch_closure_overlay_fields_def clear_current_branch_closure_for_structural_repair_def
    record_finish_review_gate_pass_checkpoint_def record_finish_review_gate_pass_checkpoint_if_current_def
    op_seq.simps accessor_defs
  by (intro framed_intros framed_all; simp add: wf_values late_stage_cleared_fields_def del: json_wf.simps(2))+

lemma framed_milestones [framed_intros]:
  "fr.keeps (record_release_readiness_result env rr)" "fr.keeps (record_final_review_result env fr)"
  "fr.keeps (record_browser_qa_result env qr)"
  unfolding record_release_readiness_result_def record_final_review_result_def record_browser_qa_result_def
    op_seq.simps accessor_defs
  by (intro framed_intros framed_all; simp add: Let_def wf_values del: json_wf.simps(2))+

lemma framed_task_closures [framed_intros]:
  "fr.keeps (record_task_closure_result r)" "fr.keeps (remove_task_closures ks is st)"
  "fr.keeps (remove_current_task_closure_results_with_record_status ts st)"
  "fr.keeps (remove_current_task_closure_results_with_record_status_by_scope_keys ks st)"
  unfolding record_task_closure_result_def remove_current_task_closure_results_with_record_status_def
    remove_current_task_closure_results_with_record_status_by_scope_keys_def remove_task_closures_def
    op_seq.simps accessor_defs
  by (intro framed_intros framed_all; simp add: wf_values del: json_wf.simps(2))+

lemma framed_follow_up [framed_intros]:
  "fr.keeps (set_review_state_repair_follow_up a)" "fr.keeps (set_review_state_repair_follow_up_record r)"
  "fr.keeps clear_review_state_repair_follow_up"
  "fr.keeps (set_current_release_readiness_record_id_cache i)"
  "fr.keeps (set_current_final_review_record_id_cache i)" "fr.keeps (set_current_qa_record_id_cache i)"
  unfolding set_review_state_repair_follow_up_def set_review_state_repair_follow_up_record_def
    clear_review_state_repair_follow_up_def set_current_release_readiness_record_id_cache_def
    set_current_final_review_record_id_cache_def set_current_qa_record_id_cache_def
    op_seq.simps list.map prod.case
  by (intro framed_intros framed_all; simp)+

lemma framed_overlays [framed_intros]:
  "fr.keeps restore_current_release_readiness_overlay_fields"
  "fr.keeps restore_current_final_review_overlay_fields"
  "fr.keeps restore_current_browser_qa_overlay_fields"
  unfolding restore_current_release_readiness_overlay_fields_def
    restore_current_final_review_overlay_fields_def restore_current_browser_qa_overlay_fields_def op_seq.simps
  by (intro framed_intros framed_all; simp)+

lemma framed_insert_if_missing [framed_intros]:
  "list_all (\<lambda>kv. json_wf (snd kv)) kvs \<Longrightarrow> fr.keeps (insert_if_missing kvs p)"
  unfolding insert_if_missing_def
  by (rule fr.keeps_seq) (auto simp: list_all_iff intro!: framed_rules)

lemma framed_restore_when [framed_intros]: "fr.keeps m \<Longrightarrow> fr.keeps (restore_when b k m)"
  unfolding restore_when_def by (intro framed_rules)

lemma framed_hydrate [framed_intros]: "fr.keeps hydrate_missing_review_projection_summary_fields"
  unfolding hydrate_missing_review_projection_summary_fields_def op_seq.simps
  by (intro framed_intros framed_rules) simp_all

lemma wf_restored_task_closures:
  assumes "json_wf p"
  shows "json_wf (JObject (restored_task_closures p))"
proof -
  have "\<forall>e\<in>set (unwrap_or [] (current_task_closure_map p)). json_wf (snd e)"
  proof (cases "current_task_closure_map p")
    case (Some es)
    from json_wf_read [OF assms Some] show ?thesis by (simp add: Some unwrap_or_def)
  qed (simp add: unwrap_or_def)
  then have "json_wf (JObject (collect_btree (filter (\<lambda>e. task_scope_key_task_number (fst e) = None)
      (unwrap_or [] (current_task_closure_map p)))))"
    by (intro wf_collect_btree) simp
  then show ?thesis
    unfolding restored_task_closures_def by (intro wf_fold_insert_by wf_payloads)
qed

lemma framed_restore_from_history [framed_intros]:
  "fr.keeps restore_current_task_closure_records_from_history"
  "fr.keeps restore_task_closure_negative_result_records_from_history"
  unfolding restore_current_task_closure_records_from_history_def
    restore_task_closure_negative_result_records_from_history_def case_prod_beta
  by (intro framed_intros framed_all wf_restored_task_closures wf_fold_insert_by wf_empty;
      simp add: state_wf_def del: json_wf.simps(2))+

lemma framed_open_step [framed_intros]:
  "fr.keeps (record_open_step_state r)" "fr.keeps clear_open_step_state"
  "fr.keeps (append_superseded_task_closure_ids is)" "fr.keeps (append_superseded_branch_closure_ids is)"
  unfolding record_open_step_state_def clear_open_step_state_def append_superseded_task_closure_ids_def
    append_superseded_branch_closure_ids_def op_seq.simps
  by (intro framed_intros framed_all framed_root_object_mut; simp)+

subsection \<open>Changes are marked\<close>

text \<open>Two payloads with the same content: the second may have further fields that hold the empty
  object, which an accessor creates when it finds nothing.\<close>

definition same_content :: "json \<Rightarrow> json \<Rightarrow> bool" where
  "same_content p q \<longleftrightarrow>
     (\<forall>k. json_get q k = json_get p k \<or> json_get p k = None \<and> json_get q k = Some (JObject []))"

definition clean :: "AuthoritativeTransitionState \<Rightarrow> AuthoritativeTransitionState \<Rightarrow> bool" where
  "clean s t \<longleftrightarrow>
     (state_wf s \<longrightarrow> state_wf t \<and> (ts_dirty s \<longrightarrow> ts_dirty t) \<and>
        (ts_dirty t \<or> same_content (ts_payload s) (ts_payload t)))"

lemma same_content_refl: "same_content p p"
  by (simp add: same_content_def)

lemma same_content_trans: "same_content p q \<Longrightarrow> same_content q r \<Longrightarrow> same_content p r"
  unfolding same_content_def by (metis option.distinct(1))

interpretation cl: mutation_relation clean
  by unfold_locales (auto simp: clean_def intro: same_content_refl dest: same_content_trans)

definition ends_dirty :: "'a mutation \<Rightarrow> bool" where
  "ends_dirty m \<longleftrightarrow> (\<forall>s x t. state_wf s \<longrightarrow> m s = (Inr x, t) \<longrightarrow> state_wf t \<and> ts_dirty t)"

lemma op_bind_Inr:
  "op_bind m f s = (Inr y, t) \<longleftrightarrow> (\<exists>x u. m s = (Inr x, u) \<and> f x u = (Inr y, t))"
  by (auto simp: op_bind_def split: prod.splits sum.splits)

lemma clean_of_dirty: "ends_dirty m \<Longrightarrow> cl.succeeds m"
  unfolding ends_dirty_def cl.succeeds_def clean_def by blast

lemma dirty_mark: "ends_dirty mark_dirty"
  by (auto simp: ends_dirty_def mark_dirty_def state_wf_def)

lemma dirty_pure: "ends_dirty (op_fail e)"
  by (simp_all add: ends_dirty_def op_fail_def)

lemma dirty_bind: "fr.keeps m \<Longrightarrow> (\<And>x. ends_dirty (f x)) \<Longrightarrow> ends_dirty (op_bind m f)"
  unfolding ends_dirty_def op_bind_Inr fr.keeps_def framed_def by (metis snd_conv)

lemma dirty_bind_first: "ends_dirty m \<Longrightarrow> (\<And>x. fr.keeps (f x)) \<Longrightarrow> ends_dirty (op_bind m f)"
proof (unfold ends_dirty_def, intro allI impI)
  fix s y t
  assume m: "\<forall>s x t. state_wf s \<longrightarrow> m s = (Inr x, t) \<longrightarrow> state_wf t \<and> ts_dirty t"
    and f: "\<And>x. fr.keeps (f x)" and s: "state_wf s" and b: "op_bind m f s = (Inr y, t)"
  from b obtain x u where u: "m s = (Inr x, u)" "f x u = (Inr y, t)" by (auto simp: op_bind_Inr)
  with m s have "state_wf u" "ts_dirty u" by blast+
  with fr.keepsD [OF f, of u x] u(2) show "state_wf t \<and> ts_dirty t" by (simp add: framed_def)
qed

lemma dirty_gets: "(\<And>s. ends_dirty (f (g s))) \<Longrightarrow> ends_dirty (op_bind (op_gets g) f)"
  by (auto simp: ends_dirty_def op_bind_def op_gets_def)

lemma dirty_then: "fr.keeps m \<Longrightarrow> ends_dirty n \<Longrightarrow> ends_dirty (op_then m n)"
  by (simp add: op_then_def dirty_bind)

lemma dirty_then_first: "ends_dirty m \<Longrightarrow> fr.keeps n \<Longrightarrow> ends_dirty (op_then m n)"
  by (simp add: op_then_def dirty_bind_first)

lemmas dirty_mark_then = dirty_then_first [OF dirty_mark]

lemma dirty_ignore: "ends_dirty m \<Longrightarrow> ends_dirty (op_ignore m)"
  by (simp add: op_ignore_def dirty_bind_first fr.keeps_pure)

lemma dirty_if: "(b \<Longrightarrow> ends_dirty m) \<Longrightarrow> (\<not> b \<Longrightarrow> ends_dirty n) \<Longrightarrow> ends_dirty (if b then m else n)"
  by simp

lemma dirty_option:
  "(a = None \<Longrightarrow> ends_dirty m) \<Longrightarrow> (\<And>x. a = Some x \<Longrightarrow> ends_dirty (f x)) \<Longrightarrow>
   ends_dirty (case a of None \<Rightarrow> m | Some x \<Rightarrow> f x)"
  by (cases a) auto

lemma dirty_prod: "(\<And>x y. p = (x, y) \<Longrightarrow> ends_dirty (f x y)) \<Longrightarrow> ends_dirty (case p of (x, y) \<Rightarrow> f x y)"
  by (cases p) auto

lemma dirty_Let: "ends_dirty (f x) \<Longrightarrow> ends_dirty (Let x f)"
  by simp

lemmas dirty_rules = dirty_mark dirty_pure dirty_gets dirty_mark_then dirty_if dirty_option dirty_prod
  dirty_Let dirty_ignore dirty_then dirty_bind

lemma clean_if: "(b \<Longrightarrow> cl.succeeds m) \<Longrightarrow> (\<not> b \<Longrightarrow> cl.succeeds n) \<Longrightarrow> cl.succeeds (if b then m else n)"
  by simp

lemma clean_option:
  "(a = None \<Longrightarrow> cl.succeeds m) \<Longrightarrow> (\<And>x. a = Some x \<Longrightarrow> cl.succeeds (f x)) \<Longrightarrow>
   cl.succeeds (case a of None \<Rightarrow> m | Some x \<Rightarrow> f x)"
  by (cases a) auto

lemma clean_prod: "(\<And>x y. p = (x, y) \<Longrightarrow> cl.succeeds (f x y)) \<Longrightarrow> cl.succeeds (case p of (x, y) \<Rightarrow> f x y)"
  by (cases p) auto

lemma clean_Let: "cl.succeeds (f x) \<Longrightarrow> cl.succeeds (Let x f)"
  by simp

lemma clean_timestamp: "cl.succeeds (timestamp_now env)"
  by (auto simp: cl.succeeds_def timestamp_now_def clean_def state_wf_def same_content_refl)

text \<open>A write to an object field is clean when it changes nothing, or when what follows marks the
  state.\<close>

lemma object_field_mut_Inr:
  assumes "object_field_mut field f s = (Inr x, t)" "state_wf s"
  obtains root es where "ts_payload s = JObject root" "obj_get root field = Some (JObject es) \<or> obj_get root field = None \<and> es = []"
    "x = fst (f es)" "t = s\<lparr>ts_payload := JObject (obj_insert field (JObject (snd (f es))) root)\<rparr>"
proof -
  obtain root where r: "ts_payload s = JObject root" using assms(2) by (rule state_wfE)
  show ?thesis
  proof (cases "obj_get root field")
    case None
    with assms(1) r show ?thesis
      by (intro that [of root "[]"]) (auto simp: object_field_mut_def op_bind_def root_object_mut_def op_require_def
          op_return_def op_fail_def split: prod.splits)
  next
    case (Some v)
    with assms(1) r obtain es where "v = JObject es"
      by (cases v) (auto simp: object_field_mut_def op_bind_def root_object_mut_def op_require_def
          op_return_def op_fail_def split: prod.splits)
    with assms(1) r Some show ?thesis
      by (intro that [of root es]) (auto simp: object_field_mut_def op_bind_def root_object_mut_def op_require_def
          op_return_def op_fail_def split: prod.splits)
  qed
qed

lemma same_content_field:
  assumes "obj_get root field = Some (JObject es) \<or> obj_get root field = None \<and> es = []"
  shows "same_content (JObject root) (JObject (obj_insert field (JObject es) root))"
  using assms by (auto simp: same_content_def obj_get_insert)

lemma clean_field:
  assumes wf: "\<And>es. json_wf (JObject es) \<Longrightarrow> json_wf (JObject (snd (f es)))"
    and change: "\<And>es. snd (f es) = es \<or> ends_dirty (g (fst (f es)))"
    and g: "\<And>x. cl.succeeds (g x)"
  shows "cl.succeeds (op_bind (object_field_mut field f) g)"
proof (unfold cl.succeeds_def, intro allI impI)
  fix s y t assume b: "op_bind (object_field_mut field f) g s = (Inr y, t)"
  show "clean s t"
  proof (cases "state_wf s")
    case True
    from b obtain x u where u: "object_field_mut field f s = (Inr x, u)" "g x u = (Inr y, t)"
      by (auto simp: op_bind_Inr)
    have "fr.keeps (object_field_mut field f)" by (rule framed_object_field_mut [OF wf])
    from fr.keepsD [OF this, of s] u(1) have fu: "framed s u" by simp
    then have wu: "state_wf u" using True by (simp add: framed_def)
    obtain root es where e: "ts_payload s = JObject root"
      "obj_get root field = Some (JObject es) \<or> obj_get root field = None \<and> es = []"
      "x = fst (f es)" "u = s\<lparr>ts_payload := JObject (obj_insert field (JObject (snd (f es))) root)\<rparr>"
      using object_field_mut_Inr [OF u(1) True] .
    from change [of es] show ?thesis
    proof
      assume "snd (f es) = es"
      then have "same_content (ts_payload s) (ts_payload u)"
        using same_content_field [OF e(2)] by (simp add: e(1,4))
      then have "clean s u" using fu True by (simp add: clean_def framed_def)
      then show ?thesis using cl.succeedsD [OF g u(2)] by (rule cl.trans)
    next
      assume "ends_dirty (g (fst (f es)))"
      with u(2) wu e(3) have "state_wf t" "ts_dirty t" unfolding ends_dirty_def by blast+
      then show ?thesis by (simp add: clean_def)
    qed
  qed (simp add: clean_def)
qed

lemma clean_field_read: "(\<And>es. snd (f es) = es) \<Longrightarrow> cl.succeeds (object_field_mut field f)"
proof -
  assume f: "\<And>es. snd (f es) = es"
  have "cl.succeeds (op_bind (object_field_mut field f) op_return)"
    by (rule clean_field) (simp_all add: f cl.succeeds_pure)
  then show ?thesis by (simp add: cl.succeeds_def op_bind_Inr op_return_def)
qed

lemma unchanged_keys:
  "obj_get es k = None \<Longrightarrow> obj_remove k es = es"
  "\<not> list_ex (\<lambda>k. obj_get es k \<noteq> None) ks \<Longrightarrow> fold obj_remove ks es = es"
proof -
  show one: "obj_get es k = None \<Longrightarrow> obj_remove k es = es" for k
    by (auto simp: obj_get_def obj_remove_def map_of_eq_None_iff filter_id_conv intro: rev_image_eqI)
  show "\<not> list_ex (\<lambda>k. obj_get es k \<noteq> None) ks \<Longrightarrow> fold obj_remove ks es = es"
    by (induction ks) (auto simp: one)
qed

lemmas clean_rules = cl.succeeds_pure cl.succeeds_gets clean_if clean_option clean_prod clean_Let
  clean_timestamp cl.succeeds_when cl.succeeds_ignore

lemmas frame = framed_intros framed_all

subsection \<open>Every operation marks its changes\<close>

lemma dirty_phase [dirty_intros]:
  "ends_dirty stale_reopen_provenance" "ends_dirty (record_runtime_handoff_checkpoint a b)"
  "ends_dirty set_harness_phase_executing" "ends_dirty (set_execution_projection_fingerprints a b)"
  unfolding stale_reopen_provenance_def record_runtime_handoff_checkpoint_def
    set_harness_phase_executing_def set_execution_projection_fingerprints_def op_seq.simps
  by (intro dirty_rules frame; simp)+

lemma dirty_counts [dirty_intros]:
  "ends_dirty (increment_task_cycle_count t)" "ends_dirty (set_task_cycle_count t n)"
  "ends_dirty (increment_task_dispatch_credit t)" "ends_dirty increment_unbound_dispatch_credit"
  unfolding increment_task_cycle_count_def set_task_cycle_count_def increment_task_dispatch_credit_def
    increment_unbound_dispatch_credit_def accessor_defs
  by (intro dirty_rules frame; simp add: Let_def wf_values del: json_wf.simps(2))+

lemma dirty_record_strategy_checkpoint [dirty_intros]:
  "ends_dirty (record_strategy_checkpoint env ctx k m ts r c)"
  unfolding record_strategy_checkpoint_def Let_def op_seq.simps
  by (intro dirty_rules dirty_then_first frame framed_array_field_mut; simp)

lemma dirty_checkpoints [dirty_intros]:
  "ends_dirty (cycle_break_checkpoint env ctx m t st tr r)"
  "ends_dirty (remediation_checkpoint env ctx m tr r)"
  "ends_dirty (record_reopen_strategy_checkpoint env ctx m t st r)"
  "ends_dirty (review_dispatch_checkpoint env ctx m ct)"
  unfolding record_reopen_strategy_checkpoint_def review_dispatch_checkpoint_def
    cycle_break_checkpoint_def remediation_checkpoint_def
  by (intro dirty_intros dirty_rules frame)+

lemma dirty_review_dispatch [dirty_intros]:
  "ends_dirty (record_review_dispatch_strategy_checkpoint env ctx m ct)"
  unfolding record_review_dispatch_strategy_checkpoint_def
  by (rule dirty_then, intro frame, rule dirty_then, intro frame, rule dirty_then_first)
     (intro dirty_intros frame)+

lemma dirty_upserts [dirty_intros]:
  "ends_dirty (record_task_closure_negative_result r)"
  "ends_dirty (upsert_task_dispatch_lineage env i)"
  "ends_dirty (upsert_final_review_dispatch_lineage env a b c)"
  "ends_dirty (record_task_closure_result tr)" "ends_dirty (record_branch_closure br)"
  "ends_dirty (record_finish_review_gate_pass_checkpoint a)"
  unfolding record_task_closure_negative_result_def upsert_task_dispatch_lineage_def
    upsert_final_review_dispatch_lineage_def record_task_closure_result_def record_branch_closure_def
    record_finish_review_gate_pass_checkpoint_def op_seq.simps accessor_defs
  by (intro dirty_rules frame; simp add: wf_values del: json_wf.simps(2))+

lemma dirty_milestones [dirty_intros]:
  "ends_dirty (set_current_branch_closure_id env a b c)"
  "ends_dirty (record_release_readiness_result env rr)" "ends_dirty (record_final_review_result env fmr)"
  "ends_dirty (record_browser_qa_result env qr)"
  unfolding set_current_branch_closure_id_def record_release_readiness_result_def record_final_review_result_def
    record_browser_qa_result_def op_seq.simps accessor_defs
  by (intro dirty_rules frame; simp add: Let_def wf_values late_stage_cleared_fields_def del: json_wf.simps(2))+

lemma dirty_setters [dirty_intros]:
  "ends_dirty (set_current_release_readiness_record_id_cache i)"
  "ends_dirty (set_current_final_review_record_id_cache i)" "ends_dirty (set_current_qa_record_id_cache i)"
  "ends_dirty (record_open_step_state r)"
  "ends_dirty (append_superseded_task_closure_ids is)" "ends_dirty (append_superseded_branch_closure_ids is)"
  unfolding set_current_release_readiness_record_id_cache_def set_current_final_review_record_id_cache_def
    set_current_qa_record_id_cache_def record_open_step_state_def append_superseded_task_closure_ids_def
    append_superseded_branch_closure_ids_def op_seq.simps
  by (intro dirty_rules frame; simp)+

lemma dirty_evidence [dirty_intros]:
  "evidence_wf ctx \<Longrightarrow> ends_dirty (record_execution_evidence_attempts ctx)"
  unfolding record_execution_evidence_attempts_def op_seq.simps evidence_wf_def
  by (cases "ctx_evidence_attempts ctx") (auto intro!: dirty_rules frame)

lemma clean_insert_if_changed [clean_intros]:
  "json_wf v \<Longrightarrow> cl.succeeds (insert_root_field_if_changed k v)"
  "json_wf v \<Longrightarrow> cl.succeeds (insert_nullable_root_field_if_changed k v)"
proof -
  have read: "cl.succeeds (root_object_mut (\<lambda>root. (obj_get root k, root)))"
    by (auto simp: cl.succeeds_def root_object_mut_def clean_def state_wf_def same_content_refl
        split: option.splits)
  have upd: "ends_dirty (op_then (root_insert k v) (op_then mark_dirty (op_return x)))" if "json_wf v" for x :: bool
    using that by (intro dirty_rules frame)
  show "cl.succeeds (insert_root_field_if_changed k v)" "cl.succeeds (insert_nullable_root_field_if_changed k v)"
    if "json_wf v"
    unfolding insert_root_field_if_changed_def insert_nullable_root_field_if_changed_def
    using that by (intro cl.succeeds_bind read clean_rules clean_of_dirty upd; simp)+
qed

lemma clean_phase [clean_intros]:
  "cl.succeeds (apply_note_reset_policy n)"
  "cl.succeeds (ensure_initial_dispatch_strategy_checkpoint env ctx m)"
  unfolding apply_note_reset_policy_def ensure_initial_dispatch_strategy_checkpoint_def op_seq.simps
  by (intro clean_rules; intro clean_of_dirty dirty_intros dirty_rules frame; simp)+

lemma clean_clear_negative [clean_intros]: "cl.succeeds (clear_task_closure_negative_result t)"
  unfolding clear_task_closure_negative_result_def accessor_defs
proof (intro cl.succeeds_gets clean_field)
  let ?f = "\<lambda>n removed. op_then (case n of None \<Rightarrow> op_return () | Some n \<Rightarrow>
      object_field_mut ''task_closure_negative_result_history''
        (\<lambda>history. ((), mark_record_status (negative_record_id t (neg_dispatch_id n)) ''historical'' history)))
      (op_when (removed \<or> n \<noteq> None) mark_dirty)"
  fix s es x
  show "json_wf (JObject es) \<Longrightarrow> json_wf (JObject (snd (remove_key (task_scope_key_for_task t) es)))" for es
    by (simp add: wf_values del: json_wf.simps)
  let ?n = "task_closure_negative_result (ts_payload s) t"
  have d: "ends_dirty (?f ?n True)"
    by (intro dirty_then frame; simp add: op_when_def wf_values dirty_mark del: json_wf.simps)
  show "snd (remove_key (task_scope_key_for_task t) es) = es \<or>
      ends_dirty (?f ?n (fst (remove_key (task_scope_key_for_task t) es)))"
    using d by (cases "obj_get es (task_scope_key_for_task t)") (simp_all add: remove_key_def unchanged_keys)
  show "cl.succeeds (?f ?n x)"
  proof (cases ?n)
    case None
    then show ?thesis
      by (simp add: op_then_def) (intro cl.succeeds_bind clean_rules clean_of_dirty dirty_mark)
  next
    case (Some v)
    have "ends_dirty (?f ?n x)"
      by (intro dirty_then frame; simp add: op_when_def wf_values dirty_mark Some del: json_wf.simps)
    then show ?thesis by (rule clean_of_dirty)
  qed
qed

lemma clean_archive [clean_intros]:
  "cl.succeeds (archive_task_dispatch_lineage_record env t st)"
  "cl.succeeds (archive_final_review_dispatch_lineage_record env st)"
proof -
  have d: "ends_dirty (op_bind (timestamp_now env) (\<lambda>at. op_bind (object_field_mut h (\<lambda>es. (sq es, es))) (\<lambda>n.
      op_then (object_field_mut h (\<lambda>es. ((), obj_insert i (archived_dispatch c i n st at ty k) es)))
        (op_then mark_dirty (op_return (Some i))))))"
    if "json_wf (JObject c)" for h sq i c ty k
    using that by (intro dirty_rules frame) (simp_all add: wf_values del: json_wf.simps(2))
  have wf: "cl.succeeds (op_bind (op_gets g) f)" if "\<And>s. state_wf s \<Longrightarrow> cl.succeeds (f (g s))"
    for g :: "AuthoritativeTransitionState \<Rightarrow> json_map option" and f :: "json_map option \<Rightarrow> string option mutation"
    using that unfolding cl.succeeds_def op_bind_Inr by (auto simp: op_gets_def clean_def)
  show "cl.succeeds (archive_task_dispatch_lineage_record env t st)"
    unfolding archive_task_dispatch_lineage_record_def accessor_defs
    by (rule clean_Let, rule wf, intro clean_option clean_rules; rule clean_of_dirty [OF d])
       (auto simp: state_wf_def bind_eq_Some_conv simp del: json_wf.simps(2) dest: json_wf_get wf_lookup)
  show "cl.succeeds (archive_final_review_dispatch_lineage_record env st)"
    unfolding archive_final_review_dispatch_lineage_record_def accessor_defs
    by (rule wf, intro clean_option clean_rules; rule clean_of_dirty [OF d])
       (auto simp: state_wf_def bind_eq_Some_conv simp del: json_wf.simps(2) dest: json_wf_get wf_lookup)
qed

lemma clean_clear_lineage [clean_intros]:
  "cl.succeeds (clear_task_review_dispatch_lineage_with_record_status env t st)"
proof -
  let ?k = "task_scope_key_for_task t"
  let ?finish = "\<lambda>a b. op_then (op_when (a \<or> b) mark_dirty) (op_return (a \<or> b))"
  have e: "ends_dirty (?finish a b)" if "a \<or> b" for a b
    using that by (simp add: op_when_def dirty_mark_then fr.keeps_pure)
  have c: "cl.succeeds (?finish a b)" for a b
    by (simp add: op_then_def) (intro cl.succeeds_bind clean_rules clean_of_dirty dirty_mark)
  have rm: "snd (remove_key ?k es) = es \<or> fst (remove_key ?k es)" for es
    by (cases "obj_get es ?k") (simp_all add: remove_key_def unchanged_keys)
  have inner: "cl.succeeds (op_bind (object_field_mut h (remove_key ?k)) (?finish a))" for h a
    using rm by (intro clean_field) (auto simp: wf_values c intro!: e simp del: json_wf.simps)
  have dirty_inner: "ends_dirty (op_bind (object_field_mut h (remove_key ?k)) (?finish True))" for h
    by (intro dirty_bind frame e; simp add: wf_values del: json_wf.simps)
  have outer: "cl.succeeds (op_bind (object_field_mut h1 (remove_key ?k))
      (\<lambda>a. op_bind (object_field_mut h2 (remove_key ?k)) (?finish a)))" for h1 h2
  proof (rule clean_field)
    show "json_wf (JObject es) \<Longrightarrow> json_wf (JObject (snd (remove_key ?k es)))" for es
      by (simp add: wf_values del: json_wf.simps)
    show "snd (remove_key ?k es) = es \<or> ends_dirty (op_bind (object_field_mut h2 (remove_key ?k))
        (?finish (fst (remove_key ?k es))))" for es
      using rm [of es] dirty_inner [of h2] by (cases "fst (remove_key ?k es)") (simp_all only: simp_thms)
    show "cl.succeeds (op_bind (object_field_mut h2 (remove_key ?k)) (?finish x))" for x
      by (rule inner)
  qed
  show ?thesis
    unfolding clear_task_review_dispatch_lineage_with_record_status_def accessor_defs Let_def
    by (rule cl.succeeds_then, intro clean_rules clean_intros, rule outer)
qed

lemma clean_lineage [clean_intros]:
  "cl.succeeds (ensure_task_review_dispatch_lineage env ctx t)"
  "cl.succeeds (refresh_task_review_dispatch_lineage env ctx t)"
  "cl.succeeds clear_cycle_break_binding_and_strategy"
  unfolding refresh_task_review_dispatch_lineage_def ensure_task_review_dispatch_lineage_def
    upsert_current_task_dispatch_def clear_cycle_break_binding_and_strategy_def
  by (intro clean_rules cl.succeeds_bind; intro clean_of_dirty dirty_intros dirty_rules frame; simp)+

lemma clean_overlays [clean_intros]:
  "cl.succeeds restore_current_release_readiness_overlay_fields"
  "cl.succeeds restore_current_final_review_overlay_fields"
  "cl.succeeds restore_current_browser_qa_overlay_fields"
  unfolding restore_current_release_readiness_overlay_fields_def
    restore_current_final_review_overlay_fields_def restore_current_browser_qa_overlay_fields_def op_seq.simps
  by (intro clean_rules cl.succeeds_bind; intro clean_of_dirty dirty_rules dirty_then_first frame; simp)+

lemma clean_remove_task_closures [clean_intros]: "cl.succeeds (remove_task_closures ks is st)"
  unfolding remove_task_closures_def accessor_defs
proof (rule clean_field)
  let ?f = "\<lambda>removed. op_then (op_when (is \<noteq> []) (object_field_mut ''task_closure_record_history'' (\<lambda>history.
        ((), fold (\<lambda>i. mark_record_status i st) is history)))) (op_when (removed \<or> is \<noteq> []) mark_dirty)"
  show "json_wf (JObject es) \<Longrightarrow> json_wf (JObject (snd (remove_keys ks es)))" for es
    by (simp add: wf_values del: json_wf.simps)
  have d: "ends_dirty (?f r)" if "r \<or> is \<noteq> []" for r
    using that by (intro dirty_then frame) (simp_all add: wf_values op_when_def dirty_mark del: json_wf.simps)
  show "snd (remove_keys ks es) = es \<or> ends_dirty (?f (fst (remove_keys ks es)))" for es
  proof (cases "fst (remove_keys ks es)")
    case True
    then show ?thesis using d [of True] by (simp only: simp_thms)
  next
    case False
    then show ?thesis by (simp add: remove_keys_def unchanged_keys(2))
  qed
  show "cl.succeeds (?f r)" for r
  proof (cases "r \<or> is \<noteq> []")
    case True
    then show ?thesis by (intro clean_of_dirty d)
  next
    case False
    then show ?thesis by (simp add: op_when_def op_then_def cl.succeeds_bind cl.succeeds_pure)
  qed
qed

lemma clean_task_closures [clean_intros]:
  "cl.succeeds (remove_current_task_closure_results_with_record_status ts st)"
  "cl.succeeds (remove_current_task_closure_results_with_record_status_by_scope_keys ks st)"
  "cl.succeeds restore_current_task_closure_records_from_history"
  "cl.succeeds restore_task_closure_negative_result_records_from_history"
proof -
  have wf: "cl.succeeds (op_bind (op_gets ts_payload) f)" if "\<And>p. json_wf p \<Longrightarrow> cl.succeeds (f p)"
    for f :: "json \<Rightarrow> bool mutation"
    using that unfolding cl.succeeds_def op_bind_Inr by (auto simp: op_gets_def clean_def state_wf_def)
  show "cl.succeeds (remove_current_task_closure_results_with_record_status ts st)"
    "cl.succeeds (remove_current_task_closure_results_with_record_status_by_scope_keys ks st)"
    unfolding remove_current_task_closure_results_with_record_status_def
      remove_current_task_closure_results_with_record_status_by_scope_keys_def
    by (intro clean_rules clean_intros)+
  show "cl.succeeds restore_current_task_closure_records_from_history"
    "cl.succeeds restore_task_closure_negative_result_records_from_history"
    unfolding restore_current_task_closure_records_from_history_def
      restore_task_closure_negative_result_records_from_history_def case_prod_beta
    by (rule wf, intro clean_rules; intro clean_of_dirty dirty_rules frame wf_restored_task_closures
        wf_fold_insert_by wf_empty wf_payloads; assumption)+
qed

lemma clean_follow_up [clean_intros]:
  "cl.succeeds (set_review_state_repair_follow_up a)" "cl.succeeds (set_review_state_repair_follow_up_record r)"
  "cl.succeeds clear_review_state_repair_follow_up" "cl.succeeds clear_open_step_state"
  "cl.succeeds (restore_current_branch_closure_overlay_fields b c d)"
  "cl.succeeds (record_finish_review_gate_pass_checkpoint_if_current b)"
  "cl.succeeds (clear_current_branch_closure_for_structural_repair env)"
proof -
  have seq: "cl.succeeds (op_seq (map (\<lambda>(k, v). op_ignore (insert_nullable_root_field_if_changed k v)) kvs))"
    if "\<forall>kv\<in>set kvs. json_wf (snd kv)" for kvs
    using that by (intro cl.succeeds_seq) (auto intro!: cl.succeeds_ignore clean_intros)
  show "cl.succeeds (set_review_state_repair_follow_up_record r)"
    unfolding set_review_state_repair_follow_up_record_def by (rule seq) simp
  show "cl.succeeds (set_review_state_repair_follow_up a)"
    unfolding set_review_state_repair_follow_up_def
    by (intro cl.succeeds_then clean_rules clean_intros cl.succeeds_seq) (auto intro!: cl.succeeds_ignore clean_intros)
  show "cl.succeeds clear_review_state_repair_follow_up"
    unfolding clear_review_state_repair_follow_up_def
    by (intro clean_rules; intro clean_of_dirty dirty_rules frame; simp)
  have present: "cl.succeeds (root_object_mut (\<lambda>root. (obj_get root k \<noteq> None, root)))" for k
    by (auto simp: cl.succeeds_def root_object_mut_def clean_def state_wf_def same_content_refl
        split: option.splits)
  show "cl.succeeds clear_open_step_state"
    unfolding clear_open_step_state_def
    by (rule cl.succeeds_bind [OF present], intro clean_rules clean_of_dirty dirty_rules frame) simp
  show "cl.succeeds (restore_current_branch_closure_overlay_fields b c d)"
    unfolding restore_current_branch_closure_overlay_fields_def
    by (intro cl.succeeds_seq) (auto intro!: cl.succeeds_ignore clean_intros)
  show "cl.succeeds (record_finish_review_gate_pass_checkpoint_if_current b)"
    unfolding record_finish_review_gate_pass_checkpoint_if_current_def
    by (intro clean_rules; rule clean_of_dirty, rule dirty_then_first; intro dirty_intros frame)
  show "cl.succeeds (clear_current_branch_closure_for_structural_repair env)"
    unfolding clear_current_branch_closure_for_structural_repair_def op_seq.simps accessor_defs
    by (intro clean_rules; rule clean_of_dirty; rule dirty_then_first; intro dirty_rules frame;
        simp add: wf_values late_stage_cleared_fields_def del: json_wf.simps(2))
qed

subsection \<open>Sequences of operations\<close>

text \<open>The public operations of the state, as values, and a command that runs some of them.\<close>

datatype transition_operation =
    OpApplyNoteResetPolicy NoteState
  | OpStaleReopenProvenance
  | OpRecordRuntimeHandoffCheckpoint string string
  | OpSetHarnessPhaseExecuting
  | OpEnsureInitialDispatchStrategyCheckpoint string
  | OpRecordReopenStrategyCheckpoint string nat nat string
  | OpRecordReviewDispatchStrategyCheckpoint string "(nat \<times> nat) option"
  | OpClearTaskCycleCount nat
  | OpRefreshTaskReviewDispatchLineage nat
  | OpEnsureTaskReviewDispatchLineage nat
  | OpClearTaskReviewDispatchLineage nat
  | OpClearTaskReviewDispatchLineageForStructuralRepair nat
  | OpSetCurrentBranchClosureId string string string
  | OpRestoreCurrentBranchClosureOverlayFields string string string
  | OpClearCurrentBranchClosureForStructuralRepair
  | OpSetReviewStateRepairFollowUp "string option"
  | OpSetReviewStateRepairFollowUpRecord "RepairFollowUpRecord option"
  | OpClearReviewStateRepairFollowUp
  | OpSetExecutionProjectionFingerprints string string
  | OpRecordExecutionEvidenceAttempts
  | OpSetCurrentReleaseReadinessRecordIdCache "string option"
  | OpSetCurrentFinalReviewRecordIdCache "string option"
  | OpSetCurrentQaRecordIdCache "string option"
  | OpRestoreReleaseReadinessOverlay
  | OpRestoreFinalReviewOverlay
  | OpRestoreBrowserQaOverlay
  | OpRecordFinishReviewGatePass string
  | OpRecordFinishReviewGatePassIfCurrent string
  | OpRecordBranchClosure BranchClosureResultRecord
  | OpRecordReleaseReadinessResult ReleaseReadinessResultRecord
  | OpRecordFinalReviewResult FinalReviewMilestoneRecord
  | OpRecordBrowserQaResult BrowserQaResultRecord
  | OpRecordTaskClosureResult TaskClosureResultRecord
  | OpRemoveCurrentTaskClosureResults "nat list"
  | OpClearTaskClosuresForExecutionReentry "nat list"
  | OpClearTaskClosuresForStructuralRepair "nat list"
  | OpClearTaskClosuresForStructuralRepairScopeKeys "string list"
  | OpRecordTaskClosureNegativeResult TaskClosureNegativeResultRecord
  | OpClearTaskClosureNegativeResult nat
  | OpRestoreTaskClosuresFromHistory
  | OpRestoreNegativeResultsFromHistory
  | OpAppendSupersededTaskClosureIds "string list"
  | OpAppendSupersededBranchClosureIds "string list"
  | OpRecordOpenStepState OpenStepStateRecord
  | OpClearOpenStepState
  | OpClearCycleBreakBindingAndStrategy

fun run_operation :: "transition_env \<Rightarrow> ExecutionContext \<Rightarrow> transition_operation \<Rightarrow> unit mutation" where
  "run_operation env ctx (OpApplyNoteResetPolicy a) =
     apply_note_reset_policy a"
| "run_operation env ctx OpStaleReopenProvenance =
     stale_reopen_provenance"
| "run_operation env ctx (OpRecordRuntimeHandoffCheckpoint a b) =
     record_runtime_handoff_checkpoint a b"
| "run_operation env ctx OpSetHarnessPhaseExecuting =
     set_harness_phase_executing"
| "run_operation env ctx (OpEnsureInitialDispatchStrategyCheckpoint a) =
     ensure_initial_dispatch_strategy_checkpoint env ctx a"
| "run_operation env ctx (OpRecordReopenStrategyCheckpoint a b c d) =
     record_reopen_strategy_checkpoint env ctx a b c d"
| "run_operation env ctx (OpRecordReviewDispatchStrategyCheckpoint a b) =
     record_review_dispatch_strategy_checkpoint env ctx a b"
| "run_operation env ctx (OpClearTaskCycleCount a) =
     clear_task_cycle_count a"
| "run_operation env ctx (OpRefreshTaskReviewDispatchLineage a) =
     refresh_task_review_dispatch_lineage env ctx a"
| "run_operation env ctx (OpEnsureTaskReviewDispatchLineage a) =
     ensure_task_review_dispatch_lineage env ctx a"
| "run_operation env ctx (OpClearTaskReviewDispatchLineage a) =
     op_ignore (clear_task_review_dispatch_lineage env a)"
| "run_operation env ctx (OpClearTaskReviewDispatchLineageForStructuralRepair a) =
     op_ignore (clear_task_review_dispatch_lineage_for_structural_repair env a)"
| "run_operation env ctx (OpSetCurrentBranchClosureId a b c) =
     set_current_branch_closure_id env a b c"
| "run_operation env ctx (OpRestoreCurrentBranchClosureOverlayFields a b c) =
     restore_current_branch_closure_overlay_fields a b c"
| "run_operation env ctx OpClearCurrentBranchClosureForStructuralRepair =
     op_ignore (clear_current_branch_closure_for_structural_repair env)"
| "run_operation env ctx (OpSetReviewStateRepairFollowUp a) =
     set_review_state_repair_follow_up a"
| "run_operation env ctx (OpSetReviewStateRepairFollowUpRecord a) =
     set_review_state_repair_follow_up_record a"
| "run_operation env ctx OpClearReviewStateRepairFollowUp =
     op_ignore clear_review_state_repair_follow_up"
| "run_operation env ctx (OpSetExecutionProjectionFingerprints a b) =
     set_execution_projection_fingerprints a b"
| "run_operation env ctx OpRecordExecutionEvidenceAttempts =
     record_execution_evidence_attempts ctx"
| "run_operation env ctx (OpSetCurrentReleaseReadinessRecordIdCache a) =
     set_current_release_readiness_record_id_cache a"
| "run_operation env ctx (OpSetCurrentFinalReviewRecordIdCache a) =
     set_current_final_review_record_id_cache a"
| "run_operation env ctx (OpSetCurrentQaRecordIdCache a) =
     set_current_qa_record_id_cache a"
| "run_operation env ctx OpRestoreReleaseReadinessOverlay =
     op_ignore restore_current_release_readiness_overlay_fields"
| "run_operation env ctx OpRestoreFinalReviewOverlay =
     op_ignore restore_current_final_review_overlay_fields"
| "run_operation env ctx OpRestoreBrowserQaOverlay =
     op_ignore restore_current_browser_qa_overlay_fields"
| "run_operation env ctx (OpRecordFinishReviewGatePass a) =
     record_finish_review_gate_pass_checkpoint a"
| "run_operation env ctx (OpRecordFinishReviewGatePassIfCurrent a) =
     op_ignore (record_finish_review_gate_pass_checkpoint_if_current a)"
| "run_operation env ctx (OpRecordBranchClosure a) =
     record_branch_closure a"
| "run_operation env ctx (OpRecordReleaseReadinessResult a) =
     record_release_readiness_result env a"
| "run_operation env ctx (OpRecordFinalReviewResult a) =
     record_final_review_result env a"
| "run_operation env ctx (OpRecordBrowserQaResult a) =
     record_browser_qa_result env a"
| "run_operation env ctx (OpRecordTaskClosureResult a) =
     record_task_closure_result a"
| "run_operation env ctx (OpRemoveCurrentTaskClosureResults a) =
     remove_current_task_closure_results a"
| "run_operation env ctx (OpClearTaskClosuresForExecutionReentry a) =
     clear_current_task_closure_results_for_execution_reentry a"
| "run_operation env ctx (OpClearTaskClosuresForStructuralRepair a) =
     clear_current_task_closure_results_for_structural_repair a"
| "run_operation env ctx (OpClearTaskClosuresForStructuralRepairScopeKeys a) =
     clear_current_task_closure_results_for_structural_repair_scope_keys a"
| "run_operation env ctx (OpRecordTaskClosureNegativeResult a) =
     record_task_closure_negative_result a"
| "run_operation env ctx (OpClearTaskClosureNegativeResult a) =
     clear_task_closure_negative_result a"
| "run_operation env ctx OpRestoreTaskClosuresFromHistory =
     op_ignore restore_current_task_closure_records_from_history"
| "run_operation env ctx OpRestoreNegativeResultsFromHistory =
     op_ignore restore_task_closure_negative_result_records_from_history"
| "run_operation env ctx (OpAppendSupersededTaskClosureIds a) =
     append_superseded_task_closure_ids a"
| "run_operation env ctx (OpAppendSupersededBranchClosureIds a) =
     append_superseded_branch_closure_ids a"
| "run_operation env ctx (OpRecordOpenStepState a) =
     record_open_step_state a"
| "run_operation env ctx OpClearOpenStepState =
     clear_open_step_state"
| "run_operation env ctx OpClearCycleBreakBindingAndStrategy =
     op_ignore clear_cycle_break_binding_and_strategy"

definition run_operations ::
  "transition_env \<Rightarrow> ExecutionContext \<Rightarrow> transition_operation list \<Rightarrow> unit mutation" where
  "run_operations env ctx ops = op_seq (map (run_operation env ctx) ops)"

lemma framed_run_operation: "evidence_wf ctx \<Longrightarrow> fr.keeps (run_operation env ctx op)"
  by (cases op) (auto simp: clear_task_review_dispatch_lineage_def
      clear_task_review_dispatch_lineage_for_structural_repair_def remove_current_task_closure_results_def
      clear_current_task_closure_results_for_execution_reentry_def
      clear_current_task_closure_results_for_structural_repair_def
      clear_current_task_closure_results_for_structural_repair_scope_keys_def
      intro!: fr.keeps_ignore framed_intros)

lemma clean_run_operation: "evidence_wf ctx \<Longrightarrow> cl.succeeds (run_operation env ctx op)"
  by (cases op) (auto simp: clear_task_review_dispatch_lineage_def
      clear_task_review_dispatch_lineage_for_structural_repair_def remove_current_task_closure_results_def
      clear_current_task_closure_results_for_execution_reentry_def
      clear_current_task_closure_results_for_structural_repair_def
      clear_current_task_closure_results_for_structural_repair_scope_keys_def clear_task_cycle_count_def
      intro!: cl.succeeds_ignore clean_intros intro: clean_of_dirty dirty_intros)

lemma framed_run_operations: "evidence_wf ctx \<Longrightarrow> fr.keeps (run_operations env ctx ops)"
  unfolding run_operations_def by (rule fr.keeps_seq) (auto intro: framed_run_operation)

lemma clean_run_operations: "evidence_wf ctx \<Longrightarrow> cl.succeeds (run_operations env ctx ops)"
  unfolding run_operations_def by (rule cl.succeeds_seq) (auto intro: clean_run_operation)

text \<open>A loaded state is well formed and clean.\<close>

lemma hydrate_needs_object:
  assumes "hydrate_missing_review_projection_summary_fields s = (Inr x, t)"
  shows "is_object (ts_payload s)"
proof (rule ccontr)
  assume "\<not> is_object (ts_payload s)"
  then have none: "as_object (ts_payload s) = None" "json_get (ts_payload s) k = None" for k
    by (cases "ts_payload s"; simp)+
  define v where "v = JString (if bound_current_branch_closure_identity (ts_payload s) \<noteq> None
      then ''missing'' else ''not_required'')"
  obtain e u where "insert_if_missing [(''release_docs_state'', v), (''final_review_state'', v),
      (''browser_qa_state'', v)] (ts_payload s) s = (Inl e, u)"
    by (simp add: insert_if_missing_def json_string_def none op_when_def op_then_def op_bind_def
        root_insert_def root_object_mut_def)
  then have "hydrate_missing_review_projection_summary_fields s = (Inl e, u)"
    by (simp add: hydrate_missing_review_projection_summary_fields_def op_bind_def op_gets_def Let_def
        op_then_def v_def)
  with assms show False by simp
qed

lemma loaded_state_wf:
  assumes "from_reduced_event_payload env path p = Inr s" "json_wf p"
  shows "state_wf s \<and> \<not> ts_dirty s \<and> ts_path s = path"
proof -
  from assms(1) obtain g where g: "gate_authority_state_from_value (strip_top_level_null_fields p) = Some g"
    by (auto simp: from_reduced_event_payload_def split: option.splits)
  let ?s0 = "\<lparr>ts_path = path, ts_payload = p, ts_phase = ga_harness_phase g,
         ts_active_contract = None, ts_dirty = False, ts_ticks = 0\<rparr>"
  obtain r t where h: "hydrate_missing_review_projection_summary_fields ?s0 = (r, t)" by fastforce
  with assms(1) g have "r = Inr ()" "s = t\<lparr>ts_dirty := False\<rparr>"
    by (auto simp: from_reduced_event_payload_def split: sum.splits)
  with h have t: "hydrate_missing_review_projection_summary_fields ?s0 = (Inr (), t)" "s = t\<lparr>ts_dirty := False\<rparr>"
    by simp_all
  have "is_object p" using hydrate_needs_object [OF t(1)] by simp
  with assms(2) fr.keepsD [OF framed_hydrate, of ?s0] t(1)
  have "state_wf t" "ts_path t = path" by (auto simp: framed_def state_wf_def)
  with t(2) show ?thesis by (simp add: state_wf_def)
qed

end
