(* ===== verification/Transition_Persist.thy ===== *)
theory Transition_Persist
  imports Transition_Repair Event_Store
begin

text \<open>
  Persisting the authoritative transition state and the guards of step commands
  (\<^verbatim>\<open>src/src/execution/transitions.rs\<close>, the functions on \<^verbatim>\<open>persist_if_dirty\<close> and
  \<^verbatim>\<open>enforce_*\<close>; \<^verbatim>\<open>parse_contract_task_step_scope\<close> of \<^verbatim>\<open>src/src/contracts/harness.rs\<close>).

  Persisting appends one typed event to the log of the branch (\<open>Event_Store\<close>).  The test fail
  point, an environment variable of the process, is an argument.  The in-memory payload cache that
  persisting invalidates holds a copy of what the log reduces to and is not part of the model.
\<close>

datatype StepCommand = StepBegin | StepNote | StepComplete | StepReopen | StepTransfer

fun step_command_as_str :: "StepCommand \<Rightarrow> string" where
  "step_command_as_str StepBegin = ''begin''"
| "step_command_as_str StepNote = ''note''"
| "step_command_as_str StepComplete = ''complete''"
| "step_command_as_str StepReopen = ''reopen''"
| "step_command_as_str StepTransfer = ''transfer''"

definition enforce_authoritative_phase ::
  "AuthoritativeTransitionState option \<Rightarrow> StepCommand \<Rightarrow> unit result" where
  "enforce_authoritative_phase authority cmd =
     (case authority of
        None \<Rightarrow> Inr ()
      | Some s \<Rightarrow>
          if json_bool (ts_payload s) ''strategy_reset_required''
          then Inl (json_failure BlockedOnPlanPivot
                 (step_command_as_str cmd @ '' is blocked while runtime strategy reset is required.''))
          else if trim_nonempty (ts_phase s) = Some PHASE_HANDOFF_REQUIRED
          then Inl (json_failure IllegalHarnessPhase
                 (step_command_as_str cmd @
                  '' is blocked while the authoritative harness phase is handoff_required.''))
          else if trim_nonempty (ts_phase s) = Some PHASE_PIVOT_REQUIRED
          then Inl (json_failure BlockedOnPlanPivot
                 (step_command_as_str cmd @
                  '' is blocked while the authoritative harness phase is pivot_required.''))
          else Inr ())"

definition parse_contract_task_step_scope :: "string \<Rightarrow> (nat \<times> nat) option" where
  "parse_contract_task_step_scope value =
     (case split_whitespace value of
        [kw_task, task, kw_step, step] \<Rightarrow>
          if kw_task = ''Task'' \<and> kw_step = ''Step''
          then Option.bind (parse_u32 task) (\<lambda>t. map_option (\<lambda>st. (t, st)) (parse_u32 step))
          else None
      | _ \<Rightarrow> None)"

fun parse_contract_scope :: "string list \<Rightarrow> (nat \<times> nat) list result" where
  "parse_contract_scope [] = Inr []"
| "parse_contract_scope (step # steps) =
     (case parse_contract_task_step_scope step of
        None \<Rightarrow> Inl (json_failure ContractMismatch
          ''Execution contract covered_steps entries must use `Task <n> Step <m>` scope format.'')
      | Some step_ref \<Rightarrow> res_bind (parse_contract_scope steps) (\<lambda>parsed. Inr (step_ref # parsed)))"

definition enforce_active_contract_scope ::
  "AuthoritativeTransitionState option \<Rightarrow> StepCommand \<Rightarrow> nat \<Rightarrow> nat \<Rightarrow> unit result" where
  "enforce_active_contract_scope authority cmd task step =
     (case Option.bind authority ts_active_contract of
        None \<Rightarrow> Inr ()
      | Some active_contract \<Rightarrow>
          res_bind (parse_contract_scope (ac_covered_steps active_contract)) (\<lambda>covered_steps.
            if (task, step) \<in> set covered_steps then Inr ()
            else Inl (json_failure ContractMismatch
              (step_command_as_str cmd @ '' target Task '' @ show_nat task @ '' Step '' @ show_nat step @
               '' is outside the active authoritative contract scope.''))))"

subsection \<open>Persisting\<close>

record AuthoritativePersistOutcome =
  authoritative_event_committed :: bool
  projection_refresh_failure :: "JsonFailure option"

definition injected_failpoint :: "string \<Rightarrow> JsonFailure" where
  "injected_failpoint name =
     json_failure PartialAuthoritativeMutation (''Injected plan execution failpoint: '' @ name)"

definition maybe_trigger_authoritative_state_failpoint ::
  "string option \<Rightarrow> string option \<Rightarrow> unit result" where
  "maybe_trigger_authoritative_state_failpoint env_failpoint failpoint =
     (case failpoint of
        None \<Rightarrow> Inr ()
      | Some name \<Rightarrow> if env_failpoint = Some name then Inl (injected_failpoint name) else Inr ())"

definition injected_projection_refresh_failure_after_event_append ::
  "string option \<Rightarrow> string option \<Rightarrow> JsonFailure option" where
  "injected_projection_refresh_failure_after_event_append env_failpoint failpoint =
     Option.bind failpoint (\<lambda>name. let staged = name @ '':after_event_append'' in
       if env_failpoint = Some staged then Some (injected_failpoint staged) else None)"

definition persist_if_dirty_with_failpoint_command_outcome_and_step_hint ::
  "event_codec \<Rightarrow> io_faults \<Rightarrow> string \<Rightarrow> state_path \<Rightarrow> string option \<Rightarrow>
   AuthoritativeTransitionState \<Rightarrow> string option \<Rightarrow> string \<Rightarrow> (nat \<times> nat) option \<Rightarrow> log_dir \<Rightarrow>
   AuthoritativePersistOutcome result \<times> log_dir" where
  "persist_if_dirty_with_failpoint_command_outcome_and_step_hint cd io now sp env_failpoint s failpoint cmd
       step_hint d =
     (if \<not> ts_dirty s \<and> step_hint = None
      then (Inr \<lparr>authoritative_event_committed = False, projection_refresh_failure = None\<rparr>, d)
      else (case maybe_trigger_authoritative_state_failpoint env_failpoint failpoint of
        Inl e \<Rightarrow> (Inl e, d)
      | Inr _ \<Rightarrow>
          (case append_typed_state_event cd io now sp cmd (ts_payload s) step_hint d of
             (Inl e, d') \<Rightarrow> (Inl e, d')
           | (Inr _, d') \<Rightarrow>
               (Inr \<lparr>authoritative_event_committed = True,
                  projection_refresh_failure =
                    injected_projection_refresh_failure_after_event_append env_failpoint failpoint\<rparr>, d'))))"

definition persist_if_dirty_with_failpoint_and_command ::
  "event_codec \<Rightarrow> io_faults \<Rightarrow> string \<Rightarrow> state_path \<Rightarrow> string option \<Rightarrow>
   AuthoritativeTransitionState \<Rightarrow> string option \<Rightarrow> string \<Rightarrow> log_dir \<Rightarrow> unit result \<times> log_dir" where
  "persist_if_dirty_with_failpoint_and_command cd io now sp env_failpoint s failpoint cmd d =
     (case persist_if_dirty_with_failpoint_command_outcome_and_step_hint cd io now sp env_failpoint s
             failpoint cmd None d of
        (Inl e, d') \<Rightarrow> (Inl e, d')
      | (Inr outcome, d') \<Rightarrow>
          (case projection_refresh_failure outcome of
             Some e \<Rightarrow> if \<not> authoritative_event_committed outcome then (Inl e, d') else (Inr (), d')
           | None \<Rightarrow> (Inr (), d')))"

end
