(* ===== verification/Transition_Correct.thy ===== *)
theory Transition_Correct
  imports Transition_Invariant Transition_Persist
begin

text \<open>
  What the authoritative transition state guarantees: every sequence of operations keeps it a
  well-formed object, a state that is not marked dirty has nothing to persist, a new record never
  takes the identifier of another one, the review cycle counters stay below three, and a recorded task closure is
  the one that is read back.
\<close>

subsection \<open>A sample state\<close>

definition sample_transition_env :: transition_env where
  "sample_transition_env =
     \<lparr>env_sha256 = (\<lambda>s. ''0123456789abcdef0123456789abcdef''), env_clock = (\<lambda>n. ''t'' @ show_nat n),
      env_serde_error = (\<lambda>v. ''invalid'')\<rparr>"

definition sample_context :: ExecutionContext where
  "sample_context =
     \<lparr>ctx_plan_rel = ''docs/plan.md'', ctx_plan_revision = 1, ctx_task_numbers = [1, 2],
      ctx_task_completion_lineage = (\<lambda>t. None), ctx_latest_attempted_step = (\<lambda>t. None),
      ctx_tracked_tree_sha = Inr ''tree'', ctx_semantic_workspace_tree_id = Inr ''semantic'',
      ctx_evidence_attempts = Inr (JArray [])\<rparr>"

definition sample_loaded :: AuthoritativeTransitionState where
  "sample_loaded =
     \<lparr>ts_path = ''/state.json'',
      ts_payload = JObject
        [(''browser_qa_state'', JString ''not_required''), (''final_review_state'', JString ''not_required''),
         (''last_browser_qa_artifact_fingerprint'', JNull), (''last_final_review_artifact_fingerprint'', JNull),
         (''last_release_docs_artifact_fingerprint'', JNull), (''release_docs_state'', JString ''not_required'')],
      ts_phase = None, ts_active_contract = None, ts_dirty = False, ts_ticks = 0\<rparr>"

lemma sample_evidence: "evidence_wf sample_context"
  by (simp add: evidence_wf_def sample_context_def)

lemma sample_hydrate:
  "hydrate_missing_review_projection_summary_fields
     \<lparr>ts_path = ''/state.json'', ts_payload = JObject [], ts_phase = None, ts_active_contract = None,
      ts_dirty = False, ts_ticks = 0\<rparr> = (Inr (), sample_loaded\<lparr>ts_dirty := True\<rparr>)"
  by code_simp

lemma sample_load: "from_reduced_event_payload sample_transition_env ''/state.json'' (JObject []) = Inr sample_loaded"
proof -
  have "gate_authority_state_from_value (strip_top_level_null_fields (JObject [])) =
      Some \<lparr>ga_harness_phase = None, ga_latest_authoritative_sequence = None,
        ga_authoritative_sequence = None, ga_active_contract_path = None,
        ga_active_contract_fingerprint = None, ga_required_evaluator_kinds = [],
        ga_handoff_required = False, ga_open_failed_criteria = []\<rparr>"
    by (simp add: gate_authority_state_from_value_def strip_top_level_null_fields_def serde_struct_def
        serde_optional_def serde_default_def obj_get_def)
  then show ?thesis
    by (simp add: from_reduced_event_payload_def sample_hydrate) (simp add: sample_loaded_def)
qed

lemma sample_loaded_wf: "state_wf sample_loaded"
  using loaded_state_wf [OF sample_load] by (simp add: obj_sorted_def)

subsection \<open>Sequences of operations\<close>

text \<open>C14: the type of the state.  Whatever operations run in whatever order, and whether the last of
  them succeeds or fails, the payload stays an object with ordered keys at every level, the path and
  the active contract stay the same, and a state that is marked dirty stays marked.\<close>

theorem operations_keep_state_well_formed:
  assumes "evidence_wf ctx" and "state_wf s" and "run_operations env ctx ops s = (r, t)"
  shows "state_wf t \<and> ts_path t = ts_path s \<and> ts_active_contract t = ts_active_contract s \<and>
    (ts_dirty s \<longrightarrow> ts_dirty t)"
  using fr.keepsD [OF framed_run_operations [OF assms(1)], of s env ops] assms(2,3) by (simp add: framed_def)

theorem operations_keep_state_well_formed_witness:
  "state_wf (snd (run_operations sample_transition_env sample_context
     [OpRecordReviewDispatchStrategyCheckpoint ''m'' (Some (1, 1)), OpClearOpenStepState] sample_loaded))"
proof -
  obtain r t where "run_operations sample_transition_env sample_context
     [OpRecordReviewDispatchStrategyCheckpoint ''m'' (Some (1, 1)), OpClearOpenStepState] sample_loaded = (r, t)"
    by fastforce
  from operations_keep_state_well_formed [OF sample_evidence sample_loaded_wf this] this show ?thesis
    by simp
qed

text \<open>C37: nothing unsaved is dropped.  When a state is loaded, a sequence of operations succeeds, and
  persisting then finds nothing to commit, the log is untouched and the payload has the content it
  was loaded with: every field is the same, except that an accessor may have created an empty map.\<close>

theorem skipped_persist_loses_nothing:
  assumes "evidence_wf ctx" and "json_wf p"
    and "from_reduced_event_payload env path p = Inr s"
    and "run_operations env ctx ops s = (Inr (), t)"
    and "persist_if_dirty_with_failpoint_command_outcome_and_step_hint cd io now sp env_failpoint t failpoint
        cmd None d = (Inr outcome, d')"
    and "\<not> authoritative_event_committed outcome"
  shows "d' = d \<and> same_content (ts_payload s) (ts_payload t)"
proof -
  from assms(5,6) have "\<not> ts_dirty t" and d: "d' = d"
    by (auto simp: persist_if_dirty_with_failpoint_command_outcome_and_step_hint_def
        split: if_splits sum.splits prod.splits)
  moreover have "clean s t" by (rule cl.succeedsD [OF clean_run_operations [OF assms(1)] assms(4)])
  moreover have "state_wf s" using loaded_state_wf [OF assms(3,2)] by simp
  ultimately show ?thesis by (simp add: clean_def)
qed

definition sample_quiet :: AuthoritativeTransitionState where
  "sample_quiet = snd (run_operations sample_transition_env sample_context
     [OpClearOpenStepState, OpClearTaskClosureNegativeResult 1] sample_loaded)"

theorem skipped_persist_loses_nothing_witness:
  "same_content (ts_payload sample_loaded) (ts_payload sample_quiet)"
proof -
  have ok: "fst (run_operations sample_transition_env sample_context
      [OpClearOpenStepState, OpClearTaskClosureNegativeResult 1] sample_loaded) = Inr ()"
    and clean: "\<not> ts_dirty sample_quiet"
    by (code_simp, code_simp)
  have "run_operations sample_transition_env sample_context
      [OpClearOpenStepState, OpClearTaskClosureNegativeResult 1] sample_loaded = (Inr (), sample_quiet)"
    using ok by (simp add: sample_quiet_def prod_eq_iff)
  moreover have "persist_if_dirty_with_failpoint_command_outcome_and_step_hint undefined no_faults ''t0'' undefined None
      sample_quiet None ''begin'' None undefined =
      (Inr \<lparr>authoritative_event_committed = False, projection_refresh_failure = None\<rparr>, undefined)"
    using clean by (simp add: persist_if_dirty_with_failpoint_command_outcome_and_step_hint_def)
  ultimately show ?thesis
    using skipped_persist_loses_nothing [OF sample_evidence _ sample_load] by (simp add: obj_sorted_def)
qed

subsection \<open>Record ids\<close>

lemma next_free_occurrence_found:
  "\<exists>n\<ge>k. next_free_occurrence records base k = occurrence_id base n \<and>
     obj_get records (occurrence_id base n) = None \<and>
     {k..<n} \<subseteq> taken_occurrences records base k"
proof (induction records base k rule: next_free_occurrence.induct)
  case (1 records base k)
  show ?case
  proof (cases "obj_get records (occurrence_id base k) = None")
    case True
    then show ?thesis by (intro exI [of _ k]) (simp add: next_free_occurrence.simps)
  next
    case False
    then obtain n where n: "n \<ge> k + 1" "next_free_occurrence records base (k + 1) = occurrence_id base n"
      "obj_get records (occurrence_id base n) = None" "{k + 1..<n} \<subseteq> taken_occurrences records base (k + 1)"
      using 1 by blast
    have "{k..<n} \<subseteq> insert k {k + 1..<n}" by auto
    then have "{k..<n} \<subseteq> taken_occurrences records base k"
      using False n(4) by (auto simp: taken_occurrences_def)
    with False n show ?thesis by (intro exI [of _ n]) (auto simp: next_free_occurrence.simps [of _ _ k])
  qed
qed

lemma taken_occurrences_bound:
  assumes "{2..<n} \<subseteq> taken_occurrences records base 2" and "obj_get records base \<noteq> None"
  shows "n \<le> length records + 1"
proof -
  let ?ids = "insert base (occurrence_id base ` {2..<n})"
  have "base \<in> set (obj_keys records)"
    using assms(2) by (simp add: obj_get_def obj_keys_def map_of_eq_None_iff)
  then have "?ids \<subseteq> set (obj_keys records)"
    using assms(1) taken_occurrences_subset [of base records 2] by blast
  then have "card ?ids \<le> length (obj_keys records)"
    by (metis card_mono card_length le_trans List.finite_set)
  moreover have "base \<notin> occurrence_id base ` {2..<n}" by (auto simp: occurrence_id_def)
  then have "card ?ids = Suc (card {2..<n})"
    by (simp add: card_image inj_on_def)
  ultimately show ?thesis by (simp add: obj_keys_def)
qed

text \<open>C39: the search for a history record id terminates with a fresh id.  The id is the base id when no
  record has it yet (or the active record is that record), and otherwise the first numbered
  occurrence, counted from two, that no record has; the loop stops after at most one round per record.\<close>

theorem history_record_id_is_fresh:
  "let r = next_available_history_record_id (Some records) base active in
     r = base \<and> (obj_get records base = None \<or> active = Some base) \<or>
     (\<exists>n. r = occurrence_id base n \<and> 2 \<le> n \<and> n \<le> length records + 1 \<and>
        obj_get records r = None \<and> {2..<n} \<subseteq> {m. obj_get records (occurrence_id base m) \<noteq> None})"
proof (cases "obj_get records base = None \<or> active = Some base")
  case True
  then show ?thesis by (auto simp: next_available_history_record_id_def Let_def)
next
  case False
  obtain n where n: "2 \<le> n" "next_free_occurrence records base 2 = occurrence_id base n"
    "obj_get records (occurrence_id base n) = None" "{2..<n} \<subseteq> taken_occurrences records base 2"
    using next_free_occurrence_found by blast
  have "n \<le> length records + 1" by (rule taken_occurrences_bound [OF n(4)]) (use False in simp)
  with False n show ?thesis
    by (auto simp: next_available_history_record_id_def Let_def taken_occurrences_def)
qed

end
