(* ===== verification/Transition_Cycles.thy ===== *)
theory Transition_Cycles
  imports Transition_Correct
begin

text \<open>
  Which fields an operation of the authoritative transition state leaves alone, and from that the
  bound on the review cycle counters: the locale \<open>mutation_relation\<close> interpreted on the relation
  that one field of the payload is the same before and after.
\<close>

definition field_kept :: "string \<Rightarrow> AuthoritativeTransitionState \<Rightarrow> AuthoritativeTransitionState \<Rightarrow> bool" where
  "field_kept k s t \<longleftrightarrow> json_get (ts_payload t) k = json_get (ts_payload s) k"

interpretation kf: mutation_relation "field_kept k" for k
  by unfold_locales (auto simp: field_kept_def)

lemma kept_state_ops: "kf.keeps k mark_dirty" "kf.keeps k (set_phase p)" "kf.keeps k (timestamp_now env)"
  by (simp_all add: kf.keeps_def mark_dirty_def set_phase_def timestamp_now_def field_kept_def)

lemma kept_root_object_mut:
  "(\<And>root. obj_get (snd (f root)) k = obj_get root k) \<Longrightarrow> kf.keeps k (root_object_mut f)"
  by (auto simp: kf.keeps_def root_object_mut_def field_kept_def split: option.splits prod.splits)
     (metis snd_conv)

lemma kept_root_insert: "k \<noteq> k' \<Longrightarrow> kf.keeps k (root_insert k' v)"
  unfolding root_insert_def by (rule kept_root_object_mut) (simp add: obj_get_insert)

lemma kept_root_insert_all: "list_all (\<lambda>kv. k \<noteq> fst kv) kvs \<Longrightarrow> kf.keeps k (root_insert_all kvs)"
  unfolding root_insert_all_def by (rule kf.keeps_seq) (auto simp: list_all_iff intro: kept_root_insert)

lemma kept_object_field_mut: "k \<noteq> k' \<Longrightarrow> kf.keeps k (object_field_mut k' f)"
  unfolding object_field_mut_def
  by (intro kf.keeps_bind kf.keeps_require kept_root_object_mut)
     (auto simp: obj_get_insert split: option.splits json.splits prod.splits)

lemma kept_array_field_mut: "k \<noteq> k' \<Longrightarrow> kf.keeps k (array_field_mut k' e f)"
  unfolding array_field_mut_def
  by (intro kf.keeps_bind kf.keeps_require kept_root_object_mut)
     (auto simp: obj_get_insert split: option.splits json.splits)

lemma kept_if: "(b \<Longrightarrow> kf.keeps k m) \<Longrightarrow> (\<not> b \<Longrightarrow> kf.keeps k n) \<Longrightarrow> kf.keeps k (if b then m else n)"
  by simp

lemma kept_option:
  "(a = None \<Longrightarrow> kf.keeps k m) \<Longrightarrow> (\<And>x. a = Some x \<Longrightarrow> kf.keeps k (f x)) \<Longrightarrow>
   kf.keeps k (case a of None \<Rightarrow> m | Some x \<Rightarrow> f x)"
  by (cases a) auto

lemma kept_prod: "(\<And>x y. p = (x, y) \<Longrightarrow> kf.keeps k (f x y)) \<Longrightarrow> kf.keeps k (case p of (x, y) \<Rightarrow> f x y)"
  by (cases p) auto

lemma kept_sum:
  "(\<And>x. a = Inl x \<Longrightarrow> kf.keeps k (f x)) \<Longrightarrow> (\<And>y. a = Inr y \<Longrightarrow> kf.keeps k (g y)) \<Longrightarrow>
   kf.keeps k (case a of Inl x \<Rightarrow> f x | Inr y \<Rightarrow> g y)"
  by (cases a) auto

lemma kept_Let: "kf.keeps k (f x) \<Longrightarrow> kf.keeps k (Let x f)"
  by simp

lemmas kept_rules = kf.keeps_pure kf.keeps_require kept_state_ops kept_root_insert kept_root_insert_all
  kept_object_field_mut kept_array_field_mut kept_if kept_option kept_prod kept_sum kept_Let
  kf.keeps_when kf.keeps_ignore kf.keeps_then kf.keeps_bind

named_theorems kept_intros "operations and the fields they leave alone"

abbreviation CYCLES :: string where
  "CYCLES \<equiv> ''strategy_cycle_counts''"

lemma kept_mark_if_some:
  "(\<And>f. kf.keeps k (acc f)) \<Longrightarrow> kf.keeps k (mark_if_some acc i st)"
  by (cases i) (simp_all add: mark_if_some_def kf.keeps_pure)

lemma kept_insert_if_changed:
  "k \<noteq> k' \<Longrightarrow> kf.keeps k (insert_root_field_if_changed k' v)"
  "k \<noteq> k' \<Longrightarrow> kf.keeps k (insert_nullable_root_field_if_changed k' v)"
  unfolding insert_root_field_if_changed_def insert_nullable_root_field_if_changed_def
  by (intro kept_rules kept_root_object_mut; simp)+

lemma kept_record_strategy_checkpoint [kept_intros]:
  "k \<notin> {''strategy_checkpoints'', ''strategy_state'', ''strategy_checkpoint_kind'',
      ''last_strategy_checkpoint_fingerprint'', ''strategy_reset_required'', ''strategy_cycle_break_task'',
      ''strategy_cycle_break_step'', ''strategy_cycle_break_checkpoint_fingerprint''} \<Longrightarrow>
   kf.keeps k (record_strategy_checkpoint env ctx kind m ts r c)"
  unfolding record_strategy_checkpoint_def Let_def op_seq.simps
  by (intro kept_rules) auto

lemma kept_lineage [kept_intros]:
  "k \<notin> {''strategy_review_dispatch_lineage_history'', ''final_review_dispatch_lineage_history''} \<Longrightarrow>
     kf.keeps k (archive_task_dispatch_lineage_record env t st)"
  "k \<notin> {''strategy_review_dispatch_lineage_history'', ''final_review_dispatch_lineage_history''} \<Longrightarrow>
     kf.keeps k (archive_final_review_dispatch_lineage_record env st)"
  "k \<notin> {''task_closure_negative_result_records'', ''task_closure_negative_result_history''} \<Longrightarrow>
     kf.keeps k (clear_task_closure_negative_result t)"
  unfolding archive_task_dispatch_lineage_record_def archive_final_review_dispatch_lineage_record_def
    clear_task_closure_negative_result_def accessor_defs
  by (intro kept_rules; simp)+

lemma kept_upsert [kept_intros]:
  assumes "k \<notin> {''task_closure_negative_result_records'', ''task_closure_negative_result_history'',
      ''strategy_review_dispatch_lineage_history'', ''strategy_review_dispatch_lineage'',
      ''final_review_dispatch_lineage_history'', ''final_review_dispatch_lineage'',
      ''current_final_review_dispatch_id''}"
  shows "kf.keeps k (upsert_task_dispatch_lineage env i)"
    "kf.keeps k (upsert_final_review_dispatch_lineage env a b c)"
    "kf.keeps k (ensure_task_review_dispatch_lineage env ctx t)"
    "kf.keeps k (refresh_task_review_dispatch_lineage env ctx t)"
    "kf.keeps k (dispatch_lineage_of_checkpoint env ctx ct cp r)"
proof -
  show t: "kf.keeps k (upsert_task_dispatch_lineage env i)" for i
    using assms unfolding upsert_task_dispatch_lineage_def op_seq.simps accessor_defs
    by (intro kept_intros kept_rules; simp)
  show f: "kf.keeps k (upsert_final_review_dispatch_lineage env a b c)" for a b c
    using assms unfolding upsert_final_review_dispatch_lineage_def op_seq.simps accessor_defs
    by (intro kept_intros kept_rules; simp)
  show e: "kf.keeps k (ensure_task_review_dispatch_lineage env ctx t)"
    unfolding ensure_task_review_dispatch_lineage_def upsert_current_task_dispatch_def
    by (intro kept_rules t)
  then show "kf.keeps k (refresh_task_review_dispatch_lineage env ctx t)"
    unfolding refresh_task_review_dispatch_lineage_def by (intro kept_rules)
  show "kf.keeps k (dispatch_lineage_of_checkpoint env ctx ct cp r)"
    unfolding dispatch_lineage_of_checkpoint_def upsert_current_task_dispatch_def
    by (intro kept_rules t f)
qed

subsection \<open>Operations that do not count cycles\<close>

lemmas kept_helpers = kept_mark_if_some kept_insert_if_changed

lemma cycles_phase [kept_intros]:
  "kf.keeps CYCLES (apply_note_reset_policy n)" "kf.keeps CYCLES stale_reopen_provenance"
  "kf.keeps CYCLES (record_runtime_handoff_checkpoint a b)" "kf.keeps CYCLES set_harness_phase_executing"
  "kf.keeps CYCLES (set_execution_projection_fingerprints a b)"
  "kf.keeps CYCLES (record_execution_evidence_attempts ctx)"
  "kf.keeps CYCLES (ensure_initial_dispatch_strategy_checkpoint env ctx m)"
  unfolding apply_note_reset_policy_def stale_reopen_provenance_def record_runtime_handoff_checkpoint_def
    set_harness_phase_executing_def set_execution_projection_fingerprints_def
    record_execution_evidence_attempts_def ensure_initial_dispatch_strategy_checkpoint_def op_seq.simps
  by (intro kept_intros kept_rules; simp)+

lemma cycles_branch [kept_intros]:
  "kf.keeps CYCLES (record_branch_closure r)" "kf.keeps CYCLES (set_current_branch_closure_id env a b c)"
  "kf.keeps CYCLES (restore_current_branch_closure_overlay_fields a b c)"
  "kf.keeps CYCLES (clear_current_branch_closure_for_structural_repair env)"
  "kf.keeps CYCLES (record_finish_review_gate_pass_checkpoint a)"
  "kf.keeps CYCLES (record_finish_review_gate_pass_checkpoint_if_current a)"
  unfolding record_branch_closure_def set_current_branch_closure_id_def
    restore_current_branch_closure_overlay_fields_def clear_current_branch_closure_for_structural_repair_def
    record_finish_review_gate_pass_checkpoint_def record_finish_review_gate_pass_checkpoint_if_current_def
    op_seq.simps accessor_defs
  by (intro kept_intros kept_helpers kept_rules; simp add: late_stage_cleared_fields_def)+

lemma cycles_milestones [kept_intros]:
  "kf.keeps CYCLES (record_release_readiness_result env rr)"
  "kf.keeps CYCLES (record_final_review_result env fmr)" "kf.keeps CYCLES (record_browser_qa_result env qr)"
  unfolding record_release_readiness_result_def record_final_review_result_def record_browser_qa_result_def
    op_seq.simps accessor_defs
  by (intro kept_intros kept_helpers kept_rules; simp)+

lemma cycles_task_closures [kept_intros]:
  "kf.keeps CYCLES (record_task_closure_result r)"
  "kf.keeps CYCLES (remove_current_task_closure_results_with_record_status ts st)"
  "kf.keeps CYCLES (remove_current_task_closure_results_with_record_status_by_scope_keys ks st)"
  "kf.keeps CYCLES (record_task_closure_negative_result nr)"
  "kf.keeps CYCLES restore_current_task_closure_records_from_history"
  "kf.keeps CYCLES restore_task_closure_negative_result_records_from_history"
  unfolding record_task_closure_result_def remove_current_task_closure_results_with_record_status_def
    remove_current_task_closure_results_with_record_status_by_scope_keys_def remove_task_closures_def
    record_task_closure_negative_result_def restore_current_task_closure_records_from_history_def
    restore_task_closure_negative_result_records_from_history_def op_seq.simps accessor_defs
  by (intro kept_intros kept_rules; simp)+

lemma cycles_follow_up [kept_intros]:
  "kf.keeps CYCLES (set_review_state_repair_follow_up a)"
  "kf.keeps CYCLES (set_review_state_repair_follow_up_record fr)"
  "kf.keeps CYCLES clear_review_state_repair_follow_up"
  "kf.keeps CYCLES (set_current_release_readiness_record_id_cache i)"
  "kf.keeps CYCLES (set_current_final_review_record_id_cache i)"
  "kf.keeps CYCLES (set_current_qa_record_id_cache i)"
  "kf.keeps CYCLES clear_cycle_break_binding_and_strategy"
  "kf.keeps CYCLES (clear_task_review_dispatch_lineage_with_record_status env t st)"
  unfolding set_review_state_repair_follow_up_def set_review_state_repair_follow_up_record_def
    clear_review_state_repair_follow_up_def set_current_release_readiness_record_id_cache_def
    set_current_final_review_record_id_cache_def set_current_qa_record_id_cache_def
    clear_cycle_break_binding_and_strategy_def clear_task_review_dispatch_lineage_with_record_status_def
    op_seq.simps list.map prod.case accessor_defs
  by (intro kept_intros kept_helpers kept_rules; simp)+

lemma cycles_overlays [kept_intros]:
  "kf.keeps CYCLES restore_current_release_readiness_overlay_fields"
  "kf.keeps CYCLES restore_current_final_review_overlay_fields"
  "kf.keeps CYCLES restore_current_browser_qa_overlay_fields"
  "kf.keeps CYCLES (record_open_step_state os)" "kf.keeps CYCLES clear_open_step_state"
  "kf.keeps CYCLES (append_superseded_task_closure_ids is)"
  "kf.keeps CYCLES (append_superseded_branch_closure_ids is)"
  unfolding restore_current_release_readiness_overlay_fields_def
    restore_current_final_review_overlay_fields_def restore_current_browser_qa_overlay_fields_def
    record_open_step_state_def clear_open_step_state_def append_superseded_task_closure_ids_def
    append_superseded_branch_closure_ids_def append_unique_string_array_def op_seq.simps
  by (intro kept_intros kept_rules kept_root_object_mut; simp)+

fun counts_cycles :: "transition_operation \<Rightarrow> bool" where
  "counts_cycles (OpRecordReopenStrategyCheckpoint _ _ _ _) = True"
| "counts_cycles (OpRecordReviewDispatchStrategyCheckpoint _ _) = True"
| "counts_cycles (OpClearTaskCycleCount _) = True"
| "counts_cycles _ = False"

lemma cycles_run_operation: "\<not> counts_cycles op \<Longrightarrow> kf.keeps CYCLES (run_operation env ctx op)"
  by (cases op) (auto simp: clear_task_review_dispatch_lineage_def
      clear_task_review_dispatch_lineage_for_structural_repair_def remove_current_task_closure_results_def
      clear_current_task_closure_results_for_execution_reentry_def
      clear_current_task_closure_results_for_structural_repair_def
      clear_current_task_closure_results_for_structural_repair_scope_keys_def
      intro!: kf.keeps_ignore kept_intros)

subsection \<open>The bound\<close>

definition cycle_count :: "json \<Rightarrow> nat \<Rightarrow> nat" where
  "cycle_count p task =
     (case Option.bind (json_get p CYCLES) as_object of
        None \<Rightarrow> 0
      | Some counts \<Rightarrow> cycle_count_in counts task)"

definition bounded :: "AuthoritativeTransitionState \<Rightarrow> AuthoritativeTransitionState \<Rightarrow> bool" where
  "bounded s t \<longleftrightarrow>
     (state_wf s \<and> (\<forall>task. cycle_count (ts_payload s) task \<le> 2) \<longrightarrow>
      state_wf t \<and> (\<forall>task. cycle_count (ts_payload t) task \<le> 2))"

interpretation bd: mutation_relation bounded
  by unfold_locales (auto simp: bounded_def)

lemma field_kept_count: "field_kept CYCLES s t \<Longrightarrow> cycle_count (ts_payload t) = cycle_count (ts_payload s)"
  by (simp add: fun_eq_iff field_kept_def cycle_count_def)

lemma bounded_kept: "fr.keeps m \<Longrightarrow> kf.keeps CYCLES m \<Longrightarrow> bd.succeeds m"
proof (unfold bd.succeeds_def, intro allI impI)
  fix s x t assume m: "fr.keeps m" "kf.keeps CYCLES m" "m s = (Inr x, t)"
  have "framed s t" using fr.keepsD [OF m(1), of s] m(3) by simp
  moreover have "field_kept CYCLES s t" using kf.keepsD [OF m(2), of s] m(3) by simp
  then have "cycle_count (ts_payload t) = cycle_count (ts_payload s)" by (rule field_kept_count)
  ultimately show "bounded s t" by (auto simp: bounded_def framed_def)
qed

text \<open>The effect of the counter operations on the counters.\<close>

definition counts_become ::
  "'a mutation \<Rightarrow> ('a \<Rightarrow> (nat \<Rightarrow> nat) \<Rightarrow> (nat \<Rightarrow> nat) \<Rightarrow> bool) \<Rightarrow> bool" where
  "counts_become m G \<longleftrightarrow> (\<forall>s x t. state_wf s \<longrightarrow> m s = (Inr x, t) \<longrightarrow>
     state_wf t \<and> G x (cycle_count (ts_payload s)) (cycle_count (ts_payload t)))"

lemma counts_kept: "fr.keeps m \<Longrightarrow> kf.keeps CYCLES m \<Longrightarrow> counts_become m (\<lambda>x c d. d = c)"
  unfolding counts_become_def fr.keeps_def framed_def kf.keeps_def
  by (metis field_kept_count snd_conv)

lemma counts_bind:
  "counts_become m G \<Longrightarrow> (\<And>x. counts_become (f x) (H x)) \<Longrightarrow>
   (\<And>x y c d e. G x c d \<Longrightarrow> H x y d e \<Longrightarrow> K y c e) \<Longrightarrow> counts_become (op_bind m f) K"
  unfolding counts_become_def op_bind_Inr by metis

lemma counts_field:
  assumes "\<And>es. json_wf (JObject es) \<Longrightarrow> json_wf (JObject (snd (f es)))"
    and "\<And>es. G (fst (f es)) (cycle_count_in es) (cycle_count_in (snd (f es)))"
  shows "counts_become (strategy_cycle_counts_mut f) G"
  unfolding counts_become_def strategy_cycle_counts_mut_def
proof (intro allI impI)
  fix s x t assume s: "state_wf s" and m: "object_field_mut CYCLES f s = (Inr x, t)"
  have "fr.keeps (object_field_mut CYCLES f)" by (rule framed_object_field_mut [OF assms(1)])
  from fr.keepsD [OF this, of s] m s have "state_wf t" by (simp add: framed_def)
  moreover obtain root es where e: "ts_payload s = JObject root"
      "obj_get root CYCLES = Some (JObject es) \<or> obj_get root CYCLES = None \<and> es = []"
      "x = fst (f es)" "t = s\<lparr>ts_payload := JObject (obj_insert CYCLES (JObject (snd (f es))) root)\<rparr>"
    using object_field_mut_Inr [OF m s] .
  have "cycle_count (ts_payload t) = cycle_count_in (snd (f es))"
    by (simp add: fun_eq_iff cycle_count_def e(4) obj_get_insert)
  moreover have "cycle_count (ts_payload s) = cycle_count_in es"
    using e(2) by (auto simp: fun_eq_iff cycle_count_def e(1) cycle_count_in_def obj_get_def unwrap_or_def)
  ultimately show "state_wf t \<and> G x (cycle_count (ts_payload s)) (cycle_count (ts_payload t))"
    using assms(2) [of es] e(3) by simp
qed

lemma cycle_count_in_insert:
  "n \<le> u64_max \<Longrightarrow> cycle_count_in (obj_insert (task_scope_key_for_task task) (json_nat n) es) =
   (cycle_count_in es)(task := n)"
  by (auto simp: fun_eq_iff cycle_count_in_def obj_get_insert as_u64_json_nat unwrap_or_def)

lemma counts_set: "n \<le> u64_max \<Longrightarrow> counts_become (set_task_cycle_count task n) (\<lambda>x c d. d = c(task := n))"
  unfolding set_task_cycle_count_def op_then_def
  by (rule counts_bind [OF counts_field [of _ "\<lambda>x c d. d = c(task := n)"] counts_kept])
     (simp_all add: cycle_count_in_insert wf_values framed_mark_dirty kept_state_ops del: json_wf.simps(2))

lemma counts_increment:
  "counts_become (increment_task_cycle_count task)
     (\<lambda>n c d. n = saturating_add_u64 (c task) 1 \<and> d = c(task := n))"
proof -
  have f: "counts_become (strategy_cycle_counts_mut (\<lambda>counts.
        let next = saturating_add_u64 (cycle_count_in counts task) 1
        in (next, obj_insert (task_scope_key_for_task task) (json_nat next) counts)))
      (\<lambda>n c d. n = saturating_add_u64 (c task) 1 \<and> d = c(task := n))"
    by (rule counts_field) (simp_all add: Let_def cycle_count_in_insert wf_values del: json_wf.simps(2))
  show ?thesis
    unfolding increment_task_cycle_count_def
    by (rule counts_bind [OF f, where H = "\<lambda>n y c d. y = n \<and> d = c"])
       (auto simp: counts_become_def op_then_def op_bind_def mark_dirty_def op_return_def state_wf_def)
qed

lemma counts_current: "counts_become (current_task_cycle_count task) (\<lambda>n c d. n = c task \<and> d = c)"
  unfolding current_task_cycle_count_def by (rule counts_field) simp_all

lemma counts_checkpoints:
  "counts_become (cycle_break_checkpoint env ctx m task step tr r) (\<lambda>x c d. d = c(task := 0))"
  "counts_become (remediation_checkpoint env ctx m tr r) (\<lambda>x c d. d = c)"
proof -
  have rec: "counts_become (op_ignore (record_strategy_checkpoint env ctx k m ts r cy)) (\<lambda>x c d. d = c)" for k ts cy
    by (intro counts_kept framed_intros framed_rules kept_intros kept_rules) simp
  show "counts_become (cycle_break_checkpoint env ctx m task step tr r) (\<lambda>x c d. d = c(task := 0))"
    unfolding cycle_break_checkpoint_def op_then_def
    by (rule counts_bind [OF rec counts_set]) simp_all
  show "counts_become (remediation_checkpoint env ctx m tr r) (\<lambda>x c d. d = c)"
    unfolding remediation_checkpoint_def by (rule rec)
qed

lemma bounded_counts:
  "counts_become m G \<Longrightarrow> (\<And>x c d. G x c d \<Longrightarrow> \<forall>t. c t \<le> 2 \<Longrightarrow> \<forall>t. d t \<le> 2) \<Longrightarrow> bd.succeeds m"
  unfolding counts_become_def bd.succeeds_def bounded_def by metis

text \<open>A counted cycle: the counter goes up, and from three on the checkpoint resets it.\<close>

lemma counts_counted:
  assumes "\<And>n. n \<ge> 3 \<Longrightarrow> counts_become (f n) (\<lambda>x c d. d = c(task := 0))"
    and "\<And>n. \<not> n \<ge> 3 \<Longrightarrow> counts_become (f n) (\<lambda>x c d. d = c)"
  shows "counts_become (op_bind (increment_task_cycle_count task) f)
    (\<lambda>x c d. d = c(task := (if c task \<ge> 2 then 0 else Suc (c task))))"
proof (rule counts_bind [OF counts_increment])
  show "counts_become (f n) (\<lambda>x c d. d = (if n \<ge> 3 then c(task := 0) else c))" for n
    using assms [of n] by (cases "n \<ge> 3") simp_all
  show "e = c(task := if 2 \<le> c task then 0 else Suc (c task))"
    if "n = saturating_add_u64 (c task) 1 \<and> d = c(task := n)" "e = (if 3 \<le> n then d(task := 0) else d)"
    for n c d e
    using that by (auto simp: saturating_add_u64_def u64_max_def min_def split: if_splits)
qed

lemma counts_then_kept:
  "fr.keeps m \<Longrightarrow> kf.keeps CYCLES m \<Longrightarrow> (\<And>x. counts_become (f x) G) \<Longrightarrow> counts_become (op_bind m f) G"
  by (rule counts_bind [OF counts_kept]) auto

lemma cycles_credits [kept_intros]:
  "kf.keeps CYCLES (increment_task_dispatch_credit t)" "kf.keeps CYCLES (consume_task_dispatch_credit t)"
  "kf.keeps CYCLES increment_unbound_dispatch_credit" "kf.keeps CYCLES consume_unbound_dispatch_credit"
  "kf.keeps CYCLES clear_dispatch_credits" "kf.keeps CYCLES clear_task_dispatch_credits"
  unfolding increment_task_dispatch_credit_def consume_task_dispatch_credit_def
    increment_unbound_dispatch_credit_def consume_unbound_dispatch_credit_def consume_credit_def
    clear_dispatch_credits_def clear_task_dispatch_credits_def accessor_defs
  by (intro kept_rules; simp)+

lemma counts_if:
  "(b \<Longrightarrow> counts_become m G) \<Longrightarrow> (\<not> b \<Longrightarrow> counts_become n G) \<Longrightarrow> counts_become (if b then m else n) G"
  by simp

lemma counts_review_dispatch_checkpoint:
  "counts_become (review_dispatch_checkpoint env ctx m (Some (task, step)))
     (\<lambda>x c d. d = c(task := (if c task \<ge> 2 then 0 else Suc (c task))))"
  "counts_become (review_dispatch_checkpoint env ctx m None) (\<lambda>x c d. d = c)"
proof -
  show "counts_become (review_dispatch_checkpoint env ctx m (Some (task, step)))
     (\<lambda>x c d. d = c(task := (if c task \<ge> 2 then 0 else Suc (c task))))"
    unfolding review_dispatch_checkpoint_def option.case prod.case op_then_def
    by (rule counts_counted; rule counts_then_kept)
       (intro framed_intros framed_rules kept_intros kept_rules | simp add: counts_checkpoints)+
  show "counts_become (review_dispatch_checkpoint env ctx m None) (\<lambda>x c d. d = c)"
    unfolding review_dispatch_checkpoint_def option.case
    by (rule counts_then_kept; intro framed_intros kept_intros counts_checkpoints(2))
qed

lemma counts_review_dispatch:
  assumes "counts_become (review_dispatch_checkpoint env ctx m ct) G"
  shows "counts_become (record_review_dispatch_strategy_checkpoint env ctx m ct) (\<lambda>x. G ())"
proof -
  let ?rest = "op_bind (op_gets (\<lambda>s. (last_strategy_checkpoint_fingerprint (ts_payload s), execution_run_id_opt (ts_payload s))))
       (\<lambda>found. case found of (Some cp, Some r) \<Rightarrow> dispatch_lineage_of_checkpoint env ctx ct cp r | _ \<Rightarrow> op_return ())"
  have "counts_become ?rest (\<lambda>x c d. d = c)"
    by (intro counts_kept framed_intros framed_rules kept_intros kept_rules) simp_all
  then have main: "counts_become (op_bind (review_dispatch_checkpoint env ctx m ct) (\<lambda>_. ?rest)) (\<lambda>x. G ())"
    by (rule counts_bind [OF assms]) simp
  have clear: "counts_become (op_bind clear_dispatch_credits (\<lambda>_. op_bind (review_dispatch_checkpoint env ctx m ct)
      (\<lambda>_. ?rest))) (\<lambda>x. G ())"
    by (rule counts_then_kept [OF _ _ main]; intro framed_intros kept_intros)
  show ?thesis
    unfolding record_review_dispatch_strategy_checkpoint_def op_then_def
    by (rule counts_then_kept [OF _ _ clear]; intro framed_intros kept_intros)
qed

lemma bounded_reopen: "bd.succeeds (record_reopen_strategy_checkpoint env ctx m task step r)"
proof -
  have kept: "bd.succeeds n" if "fr.keeps n" "kf.keeps CYCLES n" for n :: "'b mutation"
    using that by (rule bounded_kept)
  have cp: "bd.succeeds (cycle_break_checkpoint env ctx m task step tr r')"
    "bd.succeeds (remediation_checkpoint env ctx m tr r')" for tr r'
    by (rule bounded_counts [OF counts_checkpoints(1)], simp, rule bounded_counts [OF counts_checkpoints(2)], simp)
  have cur: "bd.succeeds (current_task_cycle_count task)"
    by (rule bounded_counts [OF counts_current]) simp
  have inc: "bd.succeeds (op_bind (increment_task_cycle_count task) (\<lambda>n. let tr = g n in
      if n \<ge> 3 then cycle_break_checkpoint env ctx m task step tr churn_rationale
      else remediation_checkpoint env ctx m tr r))" for g
    by (rule bounded_counts [OF counts_counted]) (simp_all add: counts_checkpoints)
  have split: "bd.succeeds (if b then m1 else m2)" if "bd.succeeds m1" "bd.succeeds m2" for b and m1 m2 :: "unit mutation"
    using that by simp
  show ?thesis
    unfolding record_reopen_strategy_checkpoint_def op_then_def
    by (intro bd.succeeds_bind split bd.succeeds_gets inc cur)
       (auto simp: Let_def intro!: bounded_kept framed_intros framed_rules kept_intros kept_rules cp)
qed

lemma bounded_run_operation:
  assumes "evidence_wf ctx"
  shows "bd.succeeds (run_operation env ctx op)"
proof (cases "counts_cycles op")
  case False
  then show ?thesis using assms by (intro bounded_kept framed_run_operation cycles_run_operation)
next
  case True
  have dispatch: "bd.succeeds (record_review_dispatch_strategy_checkpoint env ctx m ct)" for m ct
  proof (cases ct)
    case None
    show ?thesis
      unfolding None by (rule bounded_counts [OF counts_review_dispatch [OF counts_review_dispatch_checkpoint(2)]]) simp
  next
    case (Some p)
    obtain task step where p: "p = (task, step)" by fastforce
    show ?thesis
      unfolding Some p
      by (rule bounded_counts [OF counts_review_dispatch [OF counts_review_dispatch_checkpoint(1)]])
         (auto simp: not_le)
  qed
  have clear: "bd.succeeds (clear_task_cycle_count task)" for task
    unfolding clear_task_cycle_count_def by (rule bounded_counts [OF counts_set]) simp_all
  from True show ?thesis by (cases op) (simp_all add: bounded_reopen dispatch clear)
qed

text \<open>C40: review cycles are bounded.  In a state whose cycle counters are at most two, every sequence
  of successful operations leaves them at most two: the third reviewable cycle of a task always
  enters the cycle-break strategy, which resets the counter.\<close>

theorem cycle_counters_stay_below_three:
  assumes "evidence_wf ctx" and "state_wf s" and "\<forall>task. cycle_count (ts_payload s) task \<le> 2"
    and "run_operations env ctx ops s = (Inr (), t)"
  shows "\<forall>task. cycle_count (ts_payload t) task \<le> 2"
proof -
  have "bd.succeeds (run_operations env ctx ops)"
    unfolding run_operations_def by (rule bd.succeeds_seq) (auto intro: bounded_run_operation [OF assms(1)])
  from bd.succeedsD [OF this assms(4)] assms(2,3) show ?thesis by (simp add: bounded_def)
qed

theorem cycle_counters_stay_below_three_witness:
  "\<exists>t. run_operations sample_transition_env sample_context
       [OpClearTaskCycleCount 1, OpSetHarnessPhaseExecuting] sample_loaded = (Inr (), t) \<and>
     cycle_count (ts_payload t) 1 \<le> 2"
proof -
  let ?ops = "[OpClearTaskCycleCount 1, OpSetHarnessPhaseExecuting]"
  have "fst (run_operations sample_transition_env sample_context ?ops sample_loaded) = Inr ()"
    by code_simp
  then obtain t where "run_operations sample_transition_env sample_context ?ops sample_loaded = (Inr (), t)"
    by (metis prod.collapse)
  moreover have "\<forall>task. cycle_count (ts_payload sample_loaded) task \<le> 2"
    by (simp add: cycle_count_def sample_loaded_def obj_get_def)
  ultimately show ?thesis
    using cycle_counters_stay_below_three [OF sample_evidence sample_loaded_wf] by blast
qed

end
