(* ===== verification/Transition_Dispatch.thy ===== *)
theory Transition_Dispatch
  imports Transition_Cycles
begin

text \<open>What a review dispatch does to the strategy of a task (\<^verbatim>\<open>record_review_dispatch_strategy_checkpoint\<close>
  of \<^verbatim>\<open>src/execution/transitions.rs\<close>): the effect of the checkpoint writes on the
  \<^verbatim>\<open>strategy_state\<close> field, and the cycle break at the third counted dispatch.\<close>

lemma root_insert_Inr: "root_insert k v s = (Inr x, t) \<Longrightarrow> json_get (ts_payload t) k' =
    (if k' = k then Some v else json_get (ts_payload s) k')"
  by (auto simp: root_insert_def root_object_mut_def obj_get_insert split: option.splits)

lemma root_insert_all_Inr:
  "root_insert_all kvs s = (Inr x, t) \<Longrightarrow> json_get (ts_payload t) k =
   (case map_of (rev kvs) k of None \<Rightarrow> json_get (ts_payload s) k | Some v \<Rightarrow> Some v)"
proof (induction kvs arbitrary: s)
  case Nil
  then show ?case by (simp add: root_insert_all_def op_return_def)
next
  case (Cons kv kvs)
  then obtain u where u: "root_insert (fst kv) (snd kv) s = (Inr (), u)" "root_insert_all kvs u = (Inr x, t)"
    by (auto simp: root_insert_all_def op_then_def op_bind_Inr)
  show ?case
    using Cons.IH [OF u(2)] root_insert_Inr [OF u(1), of k] by (auto simp: map_add_def split: option.splits)
qed

lemma op_then_Inr:
  assumes "op_then m f s = (Inr x, t)"
  obtains a u where "m s = (Inr a, u)" "f u = (Inr x, t)"
  using assms unfolding op_then_def op_bind_Inr by blast

text \<open>The strategy state that a checkpoint records, and that what follows it leaves alone.\<close>

definition strategy_becomes :: "'a mutation \<Rightarrow> string \<Rightarrow> bool" where
  "strategy_becomes m v \<longleftrightarrow> (\<forall>s x t. m s = (Inr x, t) \<longrightarrow>
     json_get (ts_payload t) ''strategy_state'' = Some (JString v))"

lemma strategy_becomesD:
  "strategy_becomes m v \<Longrightarrow> m s = (Inr x, t) \<Longrightarrow> json_get (ts_payload t) ''strategy_state'' = Some (JString v)"
  by (simp add: strategy_becomes_def)

lemma strategy_bind: "(\<And>x. strategy_becomes (f x) v) \<Longrightarrow> strategy_becomes (op_bind m f) v"
  unfolding strategy_becomes_def op_bind_Inr by blast

lemma strategy_bind_kept:
  "strategy_becomes m v \<Longrightarrow> (\<And>x. kf.keeps ''strategy_state'' (f x)) \<Longrightarrow> strategy_becomes (op_bind m f) v"
  unfolding strategy_becomes_def op_bind_Inr kf.keeps_def field_kept_def by (metis snd_conv)

lemma strategy_record:
  "strategy_becomes (record_strategy_checkpoint env ctx k m ts r cy)
     (if is_cycle_break cy then ''cycle_breaking'' else ''ready'')"
proof -
  have ins: "strategy_becomes (root_insert_all ((''strategy_state'', JString v) # kvs)) v"
    if "list_all (\<lambda>kv. fst kv \<noteq> ''strategy_state'') kvs" for v kvs
  proof -
    have "map_of (rev kvs) ''strategy_state'' = None"
      using that by (auto simp: map_of_eq_None_iff list_all_iff)
    then show ?thesis
      unfolding strategy_becomes_def using root_insert_all_Inr [of "(''strategy_state'', JString v) # kvs"]
      by (auto simp: map_add_def)
  qed
  show ?thesis
    unfolding record_strategy_checkpoint_def Let_def op_seq.simps op_then_def case_prod_beta
    by (intro strategy_bind strategy_bind_kept ins kept_rules) simp_all
qed

lemma strategy_checkpoints:
  "strategy_becomes (cycle_break_checkpoint env ctx m task step tr r) ''cycle_breaking''"
  "strategy_becomes (remediation_checkpoint env ctx m tr r) ''ready''"
proof -
  have rec: "strategy_becomes (op_ignore (record_strategy_checkpoint env ctx k m ts r cy))
     (if is_cycle_break cy then ''cycle_breaking'' else ''ready'')" for k ts cy
    unfolding op_ignore_def by (intro strategy_bind_kept strategy_record kept_rules)
  show "strategy_becomes (cycle_break_checkpoint env ctx m task step tr r) ''cycle_breaking''"
    unfolding cycle_break_checkpoint_def op_then_def set_task_cycle_count_def strategy_cycle_counts_mut_def
    using rec [of "''cycle_break''" "[tr]" "CycleBreak (Some (task, Some step))"]
    by (intro strategy_bind_kept kept_rules) simp_all
  show "strategy_becomes (remediation_checkpoint env ctx m tr r) ''ready''"
    unfolding remediation_checkpoint_def using rec [of "''review_remediation''" "[tr]" CycleReady] by simp
qed

lemma strategy_review_dispatch_checkpoint:
  assumes "state_wf s" and "review_dispatch_checkpoint env ctx m (Some (task, step)) s = (Inr x, t)"
  shows "json_get (ts_payload t) ''strategy_state'' =
    Some (JString (if cycle_count (ts_payload s) task \<ge> 2 then ''cycle_breaking'' else ''ready''))"
proof -
  obtain n u where n: "increment_task_cycle_count task s = (Inr n, u)"
    and rest: "op_bind (op_ignore (increment_task_dispatch_credit task)) (\<lambda>_.
       let tr = step_trigger task step n '':review-dispatch'' in
       if n \<ge> 3 then cycle_break_checkpoint env ctx m task step tr churn_rationale
       else remediation_checkpoint env ctx m tr
         (''Runtime recorded reviewer dispatch cycle tracking for task '' @ show_nat task @
          '' step '' @ show_nat step @ ''.'')) u = (Inr x, t)"
    using assms(2) unfolding review_dispatch_checkpoint_def option.case prod.case op_then_def
      op_bind_Inr [of "increment_task_cycle_count task"] by (elim exE conjE)
  have "n = saturating_add_u64 (cycle_count (ts_payload s) task) 1"
    using counts_increment [of task] assms(1) n unfolding counts_become_def by blast
  then have ge: "n \<ge> 3 \<longleftrightarrow> cycle_count (ts_payload s) task \<ge> 2"
    by (auto simp: saturating_add_u64_def u64_max_def min_def)
  have "strategy_becomes (op_bind (op_ignore (increment_task_dispatch_credit task)) (\<lambda>_.
       let tr = step_trigger task step n '':review-dispatch'' in
       if n \<ge> 3 then cycle_break_checkpoint env ctx m task step tr churn_rationale
       else remediation_checkpoint env ctx m tr
         (''Runtime recorded reviewer dispatch cycle tracking for task '' @ show_nat task @
          '' step '' @ show_nat step @ ''.''))) (if n \<ge> 3 then ''cycle_breaking'' else ''ready'')"
    by (rule strategy_bind) (simp add: Let_def strategy_checkpoints)
  from strategy_becomesD [OF this rest] show ?thesis unfolding ge .
qed

text \<open>C22: the third review dispatch of a task breaks the cycle.  A successful dispatch for a task
  counts its cycle and leaves the strategy ready; when two cycles were already counted it resets the
  counter and puts the strategy into the cycle-breaking state.  The counters of other tasks stay.\<close>

theorem third_dispatch_breaks_cycle:
  assumes "state_wf s"
    and "record_review_dispatch_strategy_checkpoint env ctx mode (Some (task, step)) s = (Inr (), t)"
  shows "cycle_count (ts_payload t) =
      (cycle_count (ts_payload s))(task := (if cycle_count (ts_payload s) task \<ge> 2 then 0
         else Suc (cycle_count (ts_payload s) task))) \<and>
    json_get (ts_payload t) ''strategy_state'' =
      Some (JString (if cycle_count (ts_payload s) task \<ge> 2 then ''cycle_breaking'' else ''ready''))"
proof -
  have counts: "counts_become (record_review_dispatch_strategy_checkpoint env ctx mode (Some (task, step)))
      (\<lambda>x c d. d = c(task := (if c task \<ge> 2 then 0 else Suc (c task))))"
    by (rule counts_review_dispatch [OF counts_review_dispatch_checkpoint(1)])

  let ?rest = "op_bind (op_gets (\<lambda>s. (last_strategy_checkpoint_fingerprint (ts_payload s), execution_run_id_opt (ts_payload s))))
       (\<lambda>found. case found of (Some cp, Some r) \<Rightarrow> dispatch_lineage_of_checkpoint env ctx (Some (task, step)) cp r
          | _ \<Rightarrow> op_return ())"
  obtain a u w v y z where pre: "ensure_initial_dispatch_strategy_checkpoint env ctx mode s = (Inr a, u)"
    and clear: "clear_dispatch_credits u = (Inr w, v)"
    and cp: "review_dispatch_checkpoint env ctx mode (Some (task, step)) v = (Inr y, z)"
    and lin: "?rest z = (Inr (), t)"
    using assms(2) unfolding record_review_dispatch_strategy_checkpoint_def by (elim op_then_Inr)
  have "counts_become (ensure_initial_dispatch_strategy_checkpoint env ctx mode) (\<lambda>x c d. d = c)"
    "counts_become clear_dispatch_credits (\<lambda>x c d. d = c)"
    by (intro counts_kept framed_intros kept_intros)+
  then have v: "state_wf v" "cycle_count (ts_payload v) = cycle_count (ts_payload s)"
    using assms(1) pre clear unfolding counts_become_def by metis+
  have "kf.keeps ''strategy_state'' ?rest"
    by (intro kept_intros kept_rules) simp_all
  from kf.keepsD [OF this, of z] lin
  have "json_get (ts_payload t) ''strategy_state'' = json_get (ts_payload z) ''strategy_state''"
    by (simp add: field_kept_def)
  with strategy_review_dispatch_checkpoint [OF v(1) cp] v(2) counts assms show ?thesis
    unfolding counts_become_def by metis
qed

definition sample_two_cycles :: AuthoritativeTransitionState where
  "sample_two_cycles = sample_loaded\<lparr>ts_payload := JObject
     [(''strategy_cycle_counts'', JObject [(task_scope_key_for_task 1, JInt 2)])]\<rparr>"

theorem third_dispatch_breaks_cycle_witness:
  "\<exists>t. record_review_dispatch_strategy_checkpoint sample_transition_env sample_context ''m'' (Some (1, 1)) sample_two_cycles =
      (Inr (), t) \<and> cycle_count (ts_payload t) 1 = 0 \<and>
    json_get (ts_payload t) ''strategy_state'' = Some (JString ''cycle_breaking'')"
proof -
  have "fst (record_review_dispatch_strategy_checkpoint sample_transition_env sample_context ''m'' (Some (1, 1))
      sample_two_cycles) = Inr ()" by code_simp
  then obtain t where t: "record_review_dispatch_strategy_checkpoint sample_transition_env sample_context ''m'' (Some (1, 1))
      sample_two_cycles = (Inr (), t)" by (metis prod.collapse)
  moreover have "cycle_count (ts_payload sample_two_cycles) 1 = 2" by code_simp
  moreover have "state_wf sample_two_cycles"
    by (simp add: sample_two_cycles_def state_wf_def obj_sorted_def)
  ultimately show ?thesis using third_dispatch_breaks_cycle [OF _ t] by simp
qed

end
