(* ===== verification/Transition_Closures.thy ===== *)
theory Transition_Closures
  imports Transition_Correct
begin

text \<open>Recorded task closures read back (\<^verbatim>\<open>record_task_closure_result\<close> and
  \<^verbatim>\<open>current_task_closure_result\<close> of \<^verbatim>\<open>src/execution/transitions.rs\<close>): the payload that the recorder
  writes decodes to the record it was built from, both from the map of current closures and from
  the closure history, which the reader prefers.\<close>

subsection \<open>Decoding what was written\<close>

definition plain_text :: "string \<Rightarrow> bool" where
  "plain_text s \<longleftrightarrow> s \<noteq> [] \<and> trim s = s"

lemma trim_nonempty_plain: "plain_text s \<Longrightarrow> trim_nonempty (Some s) = Some s"
  by (simp add: plain_text_def trim_nonempty_def)

lemma json_string_at:
  "json_get v k = Some (JString s) \<Longrightarrow> plain_text s \<Longrightarrow> json_string v k = Some s"
  by (simp add: json_string_def trim_nonempty_plain)

lemma json_string_opt:
  assumes "json_get v k = Some (json_opt JString a)" and "\<And>s. a = Some s \<Longrightarrow> plain_text s"
  shows "json_string v k = a"
  using assms by (cases a) (simp_all add: json_string_def trim_nonempty_plain)

lemma json_u32_at: "json_get v k = Some (json_nat n) \<Longrightarrow> n \<le> u32_max \<Longrightarrow> json_u32 v k = Some n"
  by (simp add: json_u32_def as_u64_json_nat u32_max_def u64_max_def)

lemma json_u32_opt:
  assumes "json_get v k = Some (json_opt json_nat a)" and "\<And>n. a = Some n \<Longrightarrow> n \<le> u32_max"
  shows "json_u32 v k = a"
  using assms by (cases a) (simp add: json_u32_def, simp add: json_u32_at)

lemma strict_strings_json:
  "list_all plain_text xs \<Longrightarrow> strict_strings (map JString xs) = Some xs"
  by (induction xs) (simp_all add: trim_nonempty_plain)

lemma json_string_array_at:
  "json_get v k = Some (json_strings xs) \<Longrightarrow> list_all plain_text xs \<Longrightarrow> json_string_array_strict v k = Some xs"
  by (simp add: json_string_array_strict_def json_strings_def strict_strings_json)

lemma run_identity_plain: "run_identity_string p k = Some s \<Longrightarrow> plain_text s"
  by (auto simp: run_identity_string_def json_string_def plain_text_def bind_eq_Some_conv
      dest: trim_nonempty_Some)

definition closure_texts :: "TaskClosureResultRecord \<Rightarrow> string list" where
  "closure_texts r =
     [tcr_dispatch_id r, tcr_closure_record_id r, tcr_reviewed_state_id r, tcr_contract_identity r,
      tcr_review_result r, tcr_review_summary_hash r, tcr_verification_result r,
      tcr_verification_summary_hash r] @
     option_list (tcr_semantic_reviewed_state_id r) @ tcr_effective_reviewed_surface_paths r"

text \<open>The record that the recorded closure stands for: the fields of the request, and the plan and run
  identity that the state carries.\<close>

definition recorded_task_closure :: "json \<Rightarrow> TaskClosureResultRecord \<Rightarrow> CurrentTaskClosureRecord" where
  "recorded_task_closure p r =
     \<lparr>ctc_task = tcr_task r, ctc_dispatch_id = tcr_dispatch_id r,
      ctc_closure_record_id = tcr_closure_record_id r,
      ctc_source_plan_path = run_identity_string p ''source_plan_path'',
      ctc_source_plan_revision =
        Option.bind (json_get p ''run_identity'') (\<lambda>r. json_u32 r ''source_plan_revision''),
      ctc_execution_run_id =
        opt_or (trim_nonempty (tcr_execution_run_id r)) (run_identity_string p ''execution_run_id''),
      ctc_reviewed_state_id = tcr_reviewed_state_id r,
      ctc_semantic_reviewed_state_id = tcr_semantic_reviewed_state_id r,
      ctc_contract_identity = tcr_contract_identity r,
      ctc_effective_reviewed_surface_paths = tcr_effective_reviewed_surface_paths r,
      ctc_review_result = tcr_review_result r, ctc_review_summary_hash = tcr_review_summary_hash r,
      ctc_verification_result = tcr_verification_result r,
      ctc_verification_summary_hash = tcr_verification_summary_hash r,
      ctc_closure_status = Some ''current''\<rparr>"

lemma task_closure_payload_get:
  assumes "task_closure_payload p r = JObject es"
  shows "obj_get es k =
    (if k = ''semantic_reviewed_state_id'' then map_option JString (tcr_semantic_reviewed_state_id r)
     else json_get (task_closure_payload p (r\<lparr>tcr_semantic_reviewed_state_id := None\<rparr>)) k)"
proof -
  have "obj_get es k = json_get (task_closure_payload p r) k" by (simp add: assms)
  then show ?thesis
    unfolding task_closure_payload_def json_get_object
    by (cases "tcr_semantic_reviewed_state_id r") (auto simp: serde_skip_none_def)
qed

lemma task_closure_payload_decodes:
  assumes "list_all plain_text (closure_texts r)" and "task_closure_payload p r = JObject es"
  shows "current_task_closure_record_from_payload (tcr_task r) es = Some (recorded_task_closure p r)"
proof -
  note get = task_closure_payload_get [OF assms(2)]
  have fields: "list_all plain_text [tcr_dispatch_id r, tcr_closure_record_id r, tcr_reviewed_state_id r,
      tcr_contract_identity r, tcr_review_result r, tcr_review_summary_hash r, tcr_verification_result r,
      tcr_verification_summary_hash r]" "list_all plain_text (option_list (tcr_semantic_reviewed_state_id r))"
      "list_all plain_text (tcr_effective_reviewed_surface_paths r)"
    using assms(1) by (simp_all add: closure_texts_def)
  let ?p = "JObject es"
  have texts: "json_string ?p ''dispatch_id'' = Some (tcr_dispatch_id r)"
    "json_string ?p ''closure_record_id'' = Some (tcr_closure_record_id r)"
    "json_string ?p ''reviewed_state_id'' = Some (tcr_reviewed_state_id r)"
    "json_string ?p ''contract_identity'' = Some (tcr_contract_identity r)"
    "json_string ?p ''review_result'' = Some (tcr_review_result r)"
    "json_string ?p ''review_summary_hash'' = Some (tcr_review_summary_hash r)"
    "json_string ?p ''verification_result'' = Some (tcr_verification_result r)"
    "json_string ?p ''verification_summary_hash'' = Some (tcr_verification_summary_hash r)"
    using fields(1)
    by (auto intro!: json_string_at simp: get task_closure_payload_def json_get_object serde_skip_none_def)
  have status: "json_string ?p ''closure_status'' = Some ''current''"
    by (rule json_string_at) (simp_all add: get task_closure_payload_def json_get_object serde_skip_none_def,
      code_simp)
  have paths: "json_string_array_strict ?p ''effective_reviewed_surface_paths'' =
      Some (tcr_effective_reviewed_surface_paths r)"
    using fields(3)
    by (auto intro!: json_string_array_at simp: get task_closure_payload_def json_get_object serde_skip_none_def)
  have sem: "json_string ?p ''semantic_reviewed_state_id'' = tcr_semantic_reviewed_state_id r"
    using fields(2) by (cases "tcr_semantic_reviewed_state_id r")
      (simp_all add: json_string_def get trim_nonempty_plain option_list_def)
  have run: "json_string ?p ''source_plan_path'' = run_identity_string p ''source_plan_path''"
    "json_string ?p ''execution_run_id'' =
       opt_or (trim_nonempty (tcr_execution_run_id r)) (run_identity_string p ''execution_run_id'')"
    by (rule json_string_opt; auto simp: get task_closure_payload_def json_get_object serde_skip_none_def
        opt_or_def plain_text_def dest: trim_nonempty_Some run_identity_plain split: option.splits)+
  have rev: "json_u32 ?p ''source_plan_revision'' =
      Option.bind (json_get p ''run_identity'') (\<lambda>r. json_u32 r ''source_plan_revision'')"
    by (rule json_u32_opt) (auto simp: get task_closure_payload_def json_get_object serde_skip_none_def
        bind_eq_Some_conv dest: json_u32_le)
  show ?thesis
    unfolding current_task_closure_record_from_payload_def Let_def texts status paths sem run rev
    by (simp add: recorded_task_closure_def)
qed

subsection \<open>The recorded maps\<close>

lemma record_task_closure_result_effect:
  assumes "state_wf s" and "record_task_closure_result r s = (Inr (), t)"
  obtains current history where
    "current_task_closure_map (ts_payload t) =
       Some (obj_insert (task_scope_key_for_task (tcr_task r)) (task_closure_payload (ts_payload s) r) current)"
    "task_closure_history_map (ts_payload t) =
       Some (obj_insert (tcr_closure_record_id r) (task_closure_payload (ts_payload s) r) history)"
    "task_closure_history_map (ts_payload s) = Some history \<or> history = []" "obj_sorted history"
proof -
  let ?pay = "task_closure_payload (ts_payload s) r"
  obtain u v where u: "current_task_closure_records_mut
        (\<lambda>records. ((), obj_insert (task_scope_key_for_task (tcr_task r)) ?pay records)) s = (Inr (), u)"
    and v: "task_closure_record_history_mut
        (\<lambda>history. ((), obj_insert (tcr_closure_record_id r) ?pay history)) u = (Inr (), v)"
    and t: "mark_dirty v = (Inr (), t)"
    using assms(2) unfolding record_task_closure_result_def op_seq.simps op_then_def
    by (auto simp: op_bind_Inr op_gets_def op_return_def)
  obtain root es where e: "ts_payload s = JObject root"
      "u = s\<lparr>ts_payload := JObject (obj_insert ''current_task_closure_records''
         (JObject (obj_insert (task_scope_key_for_task (tcr_task r)) ?pay es)) root)\<rparr>"
    using object_field_mut_Inr [OF u [unfolded current_task_closure_records_mut_def] assms(1)]
    by (metis snd_conv)
  have "fr.keeps (object_field_mut ''current_task_closure_records''
      (\<lambda>records. ((), obj_insert (task_scope_key_for_task (tcr_task r)) ?pay records)))"
    by (rule framed_object_field_mut) (simp add: wf_values wf_payloads del: json_wf.simps(2))
  from fr.keepsD [OF this, of s] u assms(1) have "state_wf u"
    by (simp add: framed_def current_task_closure_records_mut_def)
  obtain root' es' where e': "ts_payload u = JObject root'"
      "obj_get root' ''task_closure_record_history'' = Some (JObject es') \<or>
        obj_get root' ''task_closure_record_history'' = None \<and> es' = []"
      "v = u\<lparr>ts_payload := JObject (obj_insert ''task_closure_record_history''
         (JObject (obj_insert (tcr_closure_record_id r) ?pay es')) root')\<rparr>"
    using object_field_mut_Inr [OF v [unfolded task_closure_record_history_mut_def] \<open>state_wf u\<close>]
    by (metis snd_conv)
  have "json_wf (JObject root')" using \<open>state_wf u\<close> e'(1) by (simp add: state_wf_def)
  then have "json_wf (JObject es')" if "obj_get root' ''task_closure_record_history'' = Some (JObject es')"
    using that by (rule wf_lookup)
  with e'(2) have "obj_sorted es'" by (auto simp: obj_sorted_def)
  show ?thesis
  proof (rule that [of es es'])
    show "current_task_closure_map (ts_payload t) =
       Some (obj_insert (task_scope_key_for_task (tcr_task r)) ?pay es)"
      using t e(2) e'(1,3) by (auto simp: mark_dirty_def obj_get_insert)
    show "task_closure_history_map (ts_payload t) = Some (obj_insert (tcr_closure_record_id r) ?pay es')"
      using t e(2) e'(1,3) by (auto simp: mark_dirty_def obj_get_insert)
    show "task_closure_history_map (ts_payload s) = Some es' \<or> es' = []"
      using e e'(1,2) by (auto simp: obj_get_insert)
  qed fact
qed

definition other_current_closure :: "json \<Rightarrow> nat \<Rightarrow> string \<Rightarrow> bool" where
  "other_current_closure p task closure_record_id \<longleftrightarrow>
     is_some_and (task_closure_history_map p) (list_ex (\<lambda>(key, v).
        key \<noteq> closure_record_id \<and> json_string v ''record_status'' = Some ''current'' \<and>
        json_u32 v ''task'' = Some task))"

lemma obj_get_collect_btree:
  assumes "(k, v) \<in> set kvs" and "\<And>w. (k, w) \<in> set kvs \<Longrightarrow> w = v"
  shows "obj_get (collect_btree kvs) k = Some v"
proof -
  have "k \<in> fst ` set (rev kvs)" using assms(1) by force
  then obtain w where "map_of (rev kvs) k = Some w" by (metis map_of_eq_None_iff not_Some_eq)
  moreover from this have "w = v" using assms(2) by (metis map_of_SomeD set_rev)
  ultimately show ?thesis by (simp add: collect_btree_def fold_obj_insert_get)
qed

lemma mem_map_filter: "y \<in> set (List.map_filter f xs) \<longleftrightarrow> (\<exists>x\<in>set xs. f x = Some y)"
  by (induction xs) (auto simp: List.map_filter_simps split: option.splits)

lemma history_reads_back:
  assumes "obj_sorted history" and "history_task_closure pay = Some c"
    and "json_string pay ''record_status'' = Some ''current''"
    and "task_closure_history_map p = Some (obj_insert closure_id pay history)"
    and "\<not> list_ex (\<lambda>(key, v). key \<noteq> closure_id \<and> json_string v ''record_status'' = Some ''current'' \<and>
        json_u32 v ''task'' = Some (ctc_task c)) history"
  shows "current_task_closure_result p (ctc_task c) = Some c"
proof -
  let ?entry = "\<lambda>v. if json_string v ''record_status'' \<noteq> Some ''current'' then None
      else map_option (\<lambda>record. (ctc_task record, record)) (history_task_closure v)"
  let ?vals = "obj_values (obj_insert closure_id pay history)"
  have sorted: "obj_sorted (obj_insert closure_id pay history)" using assms(1) by (rule obj_sorted_insert)
  have own: "pay \<in> set ?vals" by (auto simp: obj_values_mem [OF sorted] obj_get_insert)
  have "obj_get (collect_btree (List.map_filter ?entry ?vals)) (ctc_task c) = Some c"
  proof (rule obj_get_collect_btree)
    show "(ctc_task c, c) \<in> set (List.map_filter ?entry ?vals)"
      using own assms(2,3) by (force simp: mem_map_filter)
    fix w assume "(ctc_task c, w) \<in> set (List.map_filter ?entry ?vals)"
    then obtain v where v: "v \<in> set ?vals" "json_string v ''record_status'' = Some ''current''"
      "history_task_closure v = Some w" "ctc_task w = ctc_task c"
      by (auto simp: mem_map_filter split: if_splits)
    then obtain key where key: "obj_get (obj_insert closure_id pay history) key = Some v"
      by (auto simp: obj_values_mem [OF sorted])
    have "json_u32 v ''task'' = Some (ctc_task w)"
      using v(3) by (cases v) (auto simp: history_task_closure_def current_task_closure_record_from_payload_def
          Let_def bind_eq_Some_conv)
    moreover have "key = closure_id \<or> (key, v) \<in> set history"
      using key unfolding obj_get_insert by (auto simp: obj_get_def split: if_splits dest: map_of_SomeD)
    ultimately have "key = closure_id" using v(2,4) assms(5) by (auto simp: list_ex_iff)
    with key have "v = pay" by (simp add: obj_get_insert)
    with v(3) assms(2) show "w = c" by simp
  qed
  then show ?thesis
    by (simp add: current_task_closure_result_def current_task_closure_results_from_history_def assms(4) opt_or_def)
qed

text \<open>C38: a recorded task closure reads back.  After a successful record of a closure whose texts are
  trimmed and whose task number fits, the raw entry of the task decodes to that closure; and when the history
  has no other current closure of the task, so does the reader that prefers the history.\<close>

theorem recorded_task_closure_reads_back:
  assumes "state_wf s" and "record_task_closure_result r s = (Inr (), t)"
    and "list_all plain_text (closure_texts r)" and "tcr_task r \<le> u32_max"
  shows "raw_current_task_closure_result (ts_payload t) (tcr_task r) =
      Some (recorded_task_closure (ts_payload s) r) \<and>
    (other_current_closure (ts_payload s) (tcr_task r) (tcr_closure_record_id r) \<or>
     current_task_closure_result (ts_payload t) (tcr_task r) = Some (recorded_task_closure (ts_payload s) r))"
proof -
  obtain current history where e:
    "current_task_closure_map (ts_payload t) =
       Some (obj_insert (task_scope_key_for_task (tcr_task r)) (task_closure_payload (ts_payload s) r) current)"
    "task_closure_history_map (ts_payload t) =
       Some (obj_insert (tcr_closure_record_id r) (task_closure_payload (ts_payload s) r) history)"
    "task_closure_history_map (ts_payload s) = Some history \<or> history = []" "obj_sorted history"
    by (rule record_task_closure_result_effect [OF assms(1,2)])
  obtain es where es: "task_closure_payload (ts_payload s) r = JObject es"
    unfolding task_closure_payload_def json_object_def by blast
  note decode = task_closure_payload_decodes [OF assms(3) es]
  have raw: "raw_current_task_closure_result (ts_payload t) (tcr_task r) =
      Some (recorded_task_closure (ts_payload s) r)"
    by (simp add: raw_current_task_closure_result_def e(1) obj_get_insert es decode)
  have "json_u32 (JObject es) ''task'' = Some (tcr_task r)"
    by (rule json_u32_at [OF _ assms(4)])
       (simp add: task_closure_payload_get [OF es] task_closure_payload_def json_get_object serde_skip_none_def)
  then have hist: "history_task_closure (JObject es) = Some (recorded_task_closure (ts_payload s) r)"
    by (simp add: history_task_closure_def decode)
  have "json_string (JObject es) ''record_status'' = Some ''current''"
    by (rule json_string_at)
       (simp_all add: task_closure_payload_get [OF es] task_closure_payload_def json_get_object
          serde_skip_none_def, code_simp)
  moreover have "\<not> list_ex (\<lambda>(key, v). key \<noteq> tcr_closure_record_id r \<and>
      json_string v ''record_status'' = Some ''current'' \<and> json_u32 v ''task'' = Some (tcr_task r)) history"
    if "\<not> other_current_closure (ts_payload s) (tcr_task r) (tcr_closure_record_id r)"
    using e(3) that by (auto simp: other_current_closure_def is_some_and_def)
  moreover have "ctc_task (recorded_task_closure (ts_payload s) r) = tcr_task r"
    by (simp add: recorded_task_closure_def)
  ultimately show ?thesis
    using raw history_reads_back [OF e(4) hist _ e(2) [unfolded es]] by auto
qed


definition sample_closure_result :: TaskClosureResultRecord where
  "sample_closure_result =
     \<lparr>tcr_task = 1, tcr_dispatch_id = ''d1'', tcr_closure_record_id = ''c1'', tcr_execution_run_id = None,
      tcr_reviewed_state_id = ''tree'', tcr_semantic_reviewed_state_id = Some ''semantic'',
      tcr_contract_identity = ''contract'', tcr_effective_reviewed_surface_paths = [''src/lib.rs''],
      tcr_review_result = ''pass'', tcr_review_summary_hash = ''h1'', tcr_verification_result = ''pass'',
      tcr_verification_summary_hash = ''h2''\<rparr>"

theorem recorded_task_closure_reads_back_witness:
  "current_task_closure_result (ts_payload (snd (record_task_closure_result sample_closure_result sample_loaded))) 1 =
     Some (recorded_task_closure (ts_payload sample_loaded) sample_closure_result)"
proof -
  have "fst (record_task_closure_result sample_closure_result sample_loaded) = Inr ()" by code_simp
  then have "record_task_closure_result sample_closure_result sample_loaded =
      (Inr (), snd (record_task_closure_result sample_closure_result sample_loaded))"
    by (metis prod.collapse)
  from recorded_task_closure_reads_back [OF sample_loaded_wf this]
  have "list_all plain_text (closure_texts sample_closure_result) \<Longrightarrow>
    tcr_task sample_closure_result \<le> u32_max \<Longrightarrow>
    other_current_closure (ts_payload sample_loaded) (tcr_task sample_closure_result)
       (tcr_closure_record_id sample_closure_result) \<or>
     current_task_closure_result (ts_payload (snd (record_task_closure_result sample_closure_result sample_loaded)))
       (tcr_task sample_closure_result) =
     Some (recorded_task_closure (ts_payload sample_loaded) sample_closure_result)"
    by blast
  moreover have "list_all plain_text (closure_texts sample_closure_result)" by code_simp
  moreover have "\<not> other_current_closure (ts_payload sample_loaded) (tcr_task sample_closure_result)
       (tcr_closure_record_id sample_closure_result)" by code_simp
  moreover have "tcr_task sample_closure_result = 1" by (simp add: sample_closure_result_def)
  ultimately show ?thesis by (simp add: u32_max_def)
qed

end
