(* ===== verification/Write_Authority.thy ===== *)
theory Write_Authority
  imports Event_Store
begin

text \<open>The write-authority lock of \<^verbatim>\<open>src/execution/transitions.rs\<close> (\<^verbatim>\<open>claim_step_write_authority\<close>,
  \<^verbatim>\<open>remove_stale_write_authority_lock\<close>, \<^verbatim>\<open>Drop for StepWriteAuthorityGuard\<close>) and
  \<^verbatim>\<open>src/execution/leases.rs\<close> (\<^verbatim>\<open>preflight_write_authority_state\<close>,
  \<^verbatim>\<open>process_is_running_from_probe_result\<close>).  Many processes run the claim at the same time, so it is a
  state machine: a control point per process, one atomic file system or process operation per step,
  and one lock entry that all processes share.  The operating system's own errors are an argument of
  each step, so every error path of the loop is a branch.  The pid line is written in one step.\<close>

subsection \<open>The lock file\<close>

datatype lock_entry = LockSymlink | LockOther | LockFile (lock_inode: nat) (lock_source: string)

definition holder_pid :: "string \<Rightarrow> nat option" where
  "holder_pid source = find_map (\<lambda>line.
     Option.bind (strip_prefix (trim line) ''pid='') (\<lambda>v. parse_u32 (trim v))) (str_lines source)"

definition write_authority_lock_path :: "string \<Rightarrow> string" where
  "write_authority_lock_path branch_root = branch_root @ ''/write-authority.lock''"

definition pid_line :: "nat \<Rightarrow> string" where
  "pid_line pid = ''pid='' @ show_nat pid @ [newline]"

definition process_is_running_from_probe_result :: "nat \<Rightarrow> bool option \<Rightarrow> bool" where
  "process_is_running_from_probe_result pid probe_result = (if pid = 0 then False else unwrap_or False probe_result)"

text \<open>On Unix the probe is \<^verbatim>\<open>kill -0\<close>; when the command cannot be run the process counts as running.  The
  argument \<^term>\<open>alive\<close> is what the command answers.  It is liveness for processes of one user, which is
  what the worlds below describe; for a live process of another user the command is refused, and the
  code takes the process for dead.\<close>

definition process_is_running :: "string option \<Rightarrow> (nat \<Rightarrow> bool) \<Rightarrow> nat \<Rightarrow> bool" where
  "process_is_running fault alive pid =
     process_is_running_from_probe_result pid (Some (case fault of None \<Rightarrow> alive pid | Some _ \<Rightarrow> True))"

subsection \<open>Claiming\<close>

datatype claim_point =
    Idle
  | AtOpen
  | AtInspect
  | AtRead
  | AtProbe nat
  | AtRemove
  | is_AtInit: AtInit nat
  | Holds
  | is_Failed: Failed JsonFailure

record authority_world =
  aw_lock :: "lock_entry option"
  aw_next_inode :: nat
  aw_alive :: "nat \<Rightarrow> bool"
  aw_at :: "nat \<Rightarrow> claim_point"

definition goto :: "nat \<Rightarrow> claim_point \<Rightarrow> authority_world \<Rightarrow> authority_world" where
  "goto p c w = w\<lparr>aw_at := (aw_at w)(p := c)\<rparr>"

definition writer_conflict :: JsonFailure where
  "writer_conflict = json_failure ConcurrentWriterConflict
     ''Another runtime writer currently holds authoritative mutation authority.''"

definition inspect_conflict :: "string \<Rightarrow> string \<Rightarrow> JsonFailure" where
  "inspect_conflict path err = json_failure ConcurrentWriterConflict
     (''Another runtime writer currently holds authoritative mutation authority, and the lock '' @ path @
      '' could not be inspected: '' @ err)"

definition partial_mutation :: "string \<Rightarrow> JsonFailure" where
  "partial_mutation = json_failure PartialAuthoritativeMutation"

definition not_found :: string where
  "not_found = ''No such file or directory (os error 2)''"

text \<open>\<^verbatim>\<open>create_dir_all\<close> of the lock's directory, before the loop.\<close>

definition begin_claim :: "string \<Rightarrow> string option \<Rightarrow> nat \<Rightarrow> authority_world \<Rightarrow> authority_world" where
  "begin_claim dir fault p w =
     (case fault of
        Some e \<Rightarrow> goto p (Failed (partial_mutation
          (''Could not prepare write-authority directory '' @ dir @ '': '' @ e))) w
      | None \<Rightarrow> goto p AtOpen w)"

definition remove_stale_write_authority_lock ::
  "string \<Rightarrow> string option \<Rightarrow> nat \<Rightarrow> authority_world \<Rightarrow> authority_world" where
  "remove_stale_write_authority_lock path fault p w =
     (case fault of
        None \<Rightarrow> goto p AtOpen (w\<lparr>aw_lock := None\<rparr>)
      | Some e \<Rightarrow> goto p (Failed (json_failure ConcurrentWriterConflict
          (''A stale write-authority lock was found at '' @ path @ '', but it could not be removed: '' @ e))) w)"

text \<open>A removal whose result the code ignores: \<^term>\<open>removed\<close> says whether it succeeded.\<close>

definition best_effort_remove :: "bool \<Rightarrow> authority_world \<Rightarrow> authority_world" where
  "best_effort_remove removed w = (if removed then w\<lparr>aw_lock := None\<rparr> else w)"

text \<open>One round of the loop, one operation at a time.  A fault is an error of the operation other than
  those the code tells apart (\<^verbatim>\<open>AlreadyExists\<close> and \<^verbatim>\<open>NotFound\<close>), which come from the lock entry itself.\<close>

definition claim_step :: "string \<Rightarrow> string option \<Rightarrow> bool \<Rightarrow> nat \<Rightarrow> authority_world \<Rightarrow> authority_world" where
  "claim_step path fault removed p w =
     (case aw_at w p of
        AtOpen \<Rightarrow>
          (case fault of
             Some e \<Rightarrow> goto p (Failed (partial_mutation
               (''Could not acquire write-authority lock '' @ path @ '': '' @ e))) w
           | None \<Rightarrow>
               if aw_lock w = None
               then goto p (AtInit (aw_next_inode w))
                 (w\<lparr>aw_lock := Some (LockFile (aw_next_inode w) []), aw_next_inode := Suc (aw_next_inode w)\<rparr>)
               else goto p AtInspect w)
      | AtInspect \<Rightarrow>
          (case fault of
             Some e \<Rightarrow> goto p (Failed (inspect_conflict path e)) w
           | None \<Rightarrow>
               (case aw_lock w of
                  None \<Rightarrow> goto p AtOpen w
                | Some LockSymlink \<Rightarrow> goto p (Failed (partial_mutation
                    (''Write-authority lock path must not be a symlink in '' @ path @ ''.''))) w
                | Some LockOther \<Rightarrow> goto p (Failed (partial_mutation
                    (''Write-authority lock must be a regular file in '' @ path @ ''.''))) w
                | Some (LockFile _ _) \<Rightarrow> goto p AtRead w))
      | AtRead \<Rightarrow>
          (case fault of
             Some e \<Rightarrow> goto p (Failed (inspect_conflict path e)) w
           | None \<Rightarrow>
               (case aw_lock w of
                  Some (LockFile _ source) \<Rightarrow>
                    (case holder_pid source of
                       None \<Rightarrow> goto p (Failed writer_conflict) w
                     | Some holder \<Rightarrow> goto p (AtProbe holder) w)
                | _ \<Rightarrow> goto p (Failed (inspect_conflict path not_found)) w))
      | AtProbe holder \<Rightarrow>
          if process_is_running fault (aw_alive w) holder then goto p (Failed writer_conflict) w
          else goto p AtRemove w
      | AtRemove \<Rightarrow> remove_stale_write_authority_lock path fault p w
      | AtInit inode \<Rightarrow>
          (case fault of
             Some e \<Rightarrow> goto p (Failed (partial_mutation
               (''Could not initialize write-authority lock '' @ path @ '': '' @ e)))
               (best_effort_remove removed w)
           | None \<Rightarrow> goto p Holds
               (case aw_lock w of
                  Some (LockFile i source) \<Rightarrow>
                    if i = inode then w\<lparr>aw_lock := Some (LockFile i (source @ pid_line p))\<rparr> else w
                | _ \<Rightarrow> w))
      | _ \<Rightarrow> w)"

text \<open>Dropping the guard removes whatever file is at the path.\<close>

definition drop_guard :: "bool \<Rightarrow> nat \<Rightarrow> authority_world \<Rightarrow> authority_world" where
  "drop_guard removed p w = goto p Idle (best_effort_remove removed w)"

definition process_exits :: "nat \<Rightarrow> authority_world \<Rightarrow> authority_world" where
  "process_exits p w = goto p Idle (w\<lparr>aw_alive := (aw_alive w)(p := False)\<rparr>)"

subsection \<open>The preflight check\<close>

datatype PreflightWriteAuthorityState = Clear | Conflict

definition preflight_failure :: "string \<Rightarrow> JsonFailure" where
  "preflight_failure = json_failure ExecutionStateNotReady"

text \<open>The check with the lock entry as it finds it, the probe, and the errors of its three file
  operations: its answer and the entry it leaves.\<close>

definition preflight_write_authority_state ::
  "string \<Rightarrow> string option \<Rightarrow> string option \<Rightarrow> string option \<Rightarrow> (nat \<Rightarrow> bool) \<Rightarrow> lock_entry option \<Rightarrow>
   PreflightWriteAuthorityState result \<times> lock_entry option" where
  "preflight_write_authority_state path stat_fault read_fault remove_fault running entry =
     (case entry of
        None \<Rightarrow> (Inr Clear, None)
      | Some e \<Rightarrow>
          (case stat_fault of
             Some err \<Rightarrow> (Inl (preflight_failure
               (''Could not inspect write-authority lock '' @ path @ '': '' @ err)), entry)
           | None \<Rightarrow>
               (case e of
                  LockSymlink \<Rightarrow> (Inl (preflight_failure
                    (''Write-authority lock path must not be a symlink in '' @ path @ ''.'')), entry)
                | LockOther \<Rightarrow> (Inl (preflight_failure
                    (''Write-authority lock must be a regular file in '' @ path @ ''.'')), entry)
                | LockFile _ source \<Rightarrow>
                    (case read_fault of
                       Some err \<Rightarrow> (Inl (preflight_failure
                         (''Could not read write-authority lock '' @ path @ '': '' @ err)), entry)
                     | None \<Rightarrow>
                         (case holder_pid source of
                            None \<Rightarrow> (Inr Conflict, entry)
                          | Some holder \<Rightarrow>
                              if running holder then (Inr Conflict, entry)
                              else (case remove_fault of
                                      None \<Rightarrow> (Inr Clear, None)
                                    | Some err \<Rightarrow> (Inl (preflight_failure
                                        (''Could not reclaim stale write-authority lock '' @ path @ '': '' @ err)),
                                        entry)))))))"

subsection \<open>Interleavings\<close>

datatype authority_action =
    BeginClaim "string option" nat
  | ClaimStep "string option" bool nat
  | DropGuard bool nat
  | is_ProcessExits: ProcessExits nat

fun action_enabled :: "authority_world \<Rightarrow> authority_action \<Rightarrow> bool" where
  "action_enabled w (BeginClaim _ p) \<longleftrightarrow> aw_alive w p \<and> (aw_at w p = Idle \<or> is_Failed (aw_at w p))"
| "action_enabled w (ClaimStep _ _ p) \<longleftrightarrow> aw_alive w p"
| "action_enabled w (DropGuard _ p) \<longleftrightarrow> aw_alive w p \<and> aw_at w p = Holds"
| "action_enabled w (ProcessExits p) \<longleftrightarrow> aw_alive w p"

fun run_action :: "string \<Rightarrow> authority_action \<Rightarrow> authority_world \<Rightarrow> authority_world" where
  "run_action root (BeginClaim fault p) w = begin_claim root fault p w"
| "run_action root (ClaimStep fault removed p) w = claim_step (write_authority_lock_path root) fault removed p w"
| "run_action root (DropGuard removed p) w = drop_guard removed p w"
| "run_action root (ProcessExits p) w = process_exits p w"

text \<open>The worlds that the processes reach from a world by interleaved actions of a given kind.\<close>

inductive authority_reach ::
  "string \<Rightarrow> (authority_action \<Rightarrow> bool) \<Rightarrow> authority_world \<Rightarrow> authority_world \<Rightarrow> bool"
  for root allowed w0 where
  start: "authority_reach root allowed w0 w0"
| action: "authority_reach root allowed w0 w \<Longrightarrow> allowed a \<Longrightarrow> action_enabled w a \<Longrightarrow>
    authority_reach root allowed w0 (run_action root a w)"

definition owns :: "authority_world \<Rightarrow> nat \<Rightarrow> bool" where
  "owns w p \<longleftrightarrow> aw_at w p = Holds \<or> is_AtInit (aw_at w p)"

definition nobody_claims :: "authority_world \<Rightarrow> bool" where
  "nobody_claims w \<longleftrightarrow> aw_lock w = None \<and> aw_at w = (\<lambda>p. Idle)"

definition pids_valid :: "authority_world \<Rightarrow> bool" where
  "pids_valid w \<longleftrightarrow> (\<forall>p. aw_alive w p \<longrightarrow> 0 < p \<and> p \<le> u32_max)"

subsection \<open>Lemmas on the steps\<close>

lemma goto_simps [simp]:
  "aw_lock (goto p c w) = aw_lock w" "aw_next_inode (goto p c w) = aw_next_inode w"
  "aw_alive (goto p c w) = aw_alive w" "aw_at (goto p c w) = (aw_at w)(p := c)"
  by (simp_all add: goto_def)

lemma best_effort_remove_simps [simp]:
  "aw_at (best_effort_remove b w) = aw_at w" "aw_alive (best_effort_remove b w) = aw_alive w"
  "aw_lock (best_effort_remove b w) = (if b then None else aw_lock w)"
  by (simp_all add: best_effort_remove_def)

lemma holder_pid_Nil [simp]: "holder_pid [] = None"
  by (simp add: holder_pid_def str_lines_def)

lemma holder_pid_pid_line:
  assumes "p \<le> u32_max"
  shows "holder_pid (pid_line p) = Some p"
proof -
  let ?l = "''pid='' @ show_nat p"
  have ws: "\<forall>c \<in> set (show_nat p). \<not> is_ws c"
    using show_nat_digits [of p] digits_not_ws by (auto simp: list_all_iff)
  have "\<not> is_ws (last (show_nat p))" by (rule bspec [OF ws]) simp
  then have last: "\<not> is_ws (last ?l)" by (simp add: last_append)
  have seps: "is_ws newline" "is_ws (CHR 0x0D)" by (simp_all add: is_ws_def)
  have "trim ?l = ?l"
    by (rule trim_id [OF _ _ last]) (simp_all add: is_ws_def)
  moreover have "newline \<notin> set ?l" using ws seps(1) by auto
  moreover have "last ?l \<noteq> CHR 0x0D" using last seps(2) by metis
  ultimately have l: "newline \<notin> set ?l" "last ?l \<noteq> CHR 0x0D" "trim ?l = ?l" by blast+
  then have "str_lines (pid_line p) = [?l]"
    unfolding pid_line_def using str_lines_complete [of ?l] by (simp add: strip_cr_def split_on_no_sep)
  with l(3) assms show ?thesis
    by (simp add: holder_pid_def strip_prefix_def starts_with_def parse_uint_show_nat)
qed

subsection \<open>Exclusion\<close>

text \<open>What holds as long as no process that ever claimed has exited: the lock names a live process or is
  still empty, it is the file of the process that owns it, and no process is about to remove it.\<close>

definition lock_names_live :: "authority_world \<Rightarrow> bool" where
  "lock_names_live w \<longleftrightarrow>
     (\<forall>e. aw_lock w = Some e \<longrightarrow>
        (\<exists>i c. e = LockFile i c \<and> (c = [] \<or> (\<exists>p. aw_alive w p \<and> c = pid_line p))))"

definition authority_inv :: "authority_world \<Rightarrow> bool" where
  "authority_inv w \<longleftrightarrow> pids_valid w \<and> lock_names_live w \<and>
     (\<forall>p q. owns w p \<longrightarrow> owns w q \<longrightarrow> p = q) \<and>
     (\<forall>p. aw_at w p = Holds \<longrightarrow> (\<exists>i. aw_lock w = Some (LockFile i (pid_line p)))) \<and>
     (\<forall>p i. aw_at w p = AtInit i \<longrightarrow> aw_lock w = Some (LockFile i [])) \<and>
     (\<forall>p h. aw_at w p = AtProbe h \<longrightarrow> aw_alive w h) \<and> (\<forall>p. aw_at w p \<noteq> AtRemove)"

lemma authority_inv_goto:
  assumes "authority_inv w" and "\<not> is_AtInit c" "c \<noteq> Holds" "c \<noteq> AtRemove"
    and "\<And>h. c = AtProbe h \<Longrightarrow> aw_alive w h"
  shows "authority_inv (goto p c w)"
  using assms unfolding authority_inv_def pids_valid_def lock_names_live_def owns_def by auto


lemma authority_inv_create:
  assumes "authority_inv w" and "aw_lock w = None"
  shows "authority_inv (goto p (AtInit n) (w\<lparr>aw_lock := Some (LockFile n []), aw_next_inode := m\<rparr>))"
proof -
  have "\<not> owns w q" for q
    using assms unfolding authority_inv_def owns_def is_AtInit_def by (metis option.distinct(1))
  then have free: "aw_at w q \<noteq> Holds" "\<not> is_AtInit (aw_at w q)" for q by (auto simp: owns_def)
  then show ?thesis
    using assms(1) unfolding authority_inv_def pids_valid_def lock_names_live_def owns_def
    by (auto simp: is_AtInit_def)
qed

lemma authority_inv_sole_owner:
  assumes inv: "authority_inv w" and own: "owns w p"
    and c: "c \<noteq> AtRemove" "\<And>h. c \<noteq> AtProbe h" "\<not> is_AtInit c"
    and held: "c = Holds \<Longrightarrow> \<exists>i. l = Some (LockFile i (pid_line p)) \<and> aw_alive w p"
    and live: "lock_names_live (w\<lparr>aw_lock := l\<rparr>)"
  shows "authority_inv (goto p c (w\<lparr>aw_lock := l\<rparr>))"
proof -
  let ?w = "goto p c (w\<lparr>aw_lock := l\<rparr>)"
  have others: "\<not> owns w q" if "q \<noteq> p" for q using inv own that by (auto simp: authority_inv_def)
  then have sole: "owns ?w q \<Longrightarrow> q = p" for q by (cases "q = p") (simp_all add: owns_def)
  have "pids_valid ?w" using inv by (simp add: authority_inv_def pids_valid_def)
  moreover have "lock_names_live ?w" using live by (simp add: lock_names_live_def)
  moreover have "\<exists>i. aw_lock ?w = Some (LockFile i (pid_line q))" if "aw_at ?w q = Holds" for q
  proof -
    have "q = p" by (rule sole) (unfold owns_def, rule disjI1 [OF that])
    moreover from this that have "c = Holds" by simp
    from held [OF this] have "\<exists>i. l = Some (LockFile i (pid_line p))" by blast
    ultimately show ?thesis by simp
  qed
  moreover have "aw_at ?w q \<noteq> AtInit i" for q i
    using others [of q] c(3) by (cases "q = p") (auto simp: owns_def)
  moreover have "aw_alive ?w h" if "aw_at ?w q = AtProbe h" for q h
    using that c(2) inv by (cases "q = p") (auto simp: authority_inv_def)
  moreover have "aw_at ?w q \<noteq> AtRemove" for q
    using c(1) inv by (cases "q = p") (auto simp: authority_inv_def)
  ultimately show ?thesis unfolding authority_inv_def using sole by blast
qed

lemma authority_inv_init:
  assumes "authority_inv w" and "aw_at w p = AtInit i" and "aw_alive w p"
  shows "authority_inv (goto p Holds (w\<lparr>aw_lock := Some (LockFile i (pid_line p))\<rparr>))"
  by (rule authority_inv_sole_owner [OF assms(1)])
     (use assms in \<open>auto simp: owns_def lock_names_live_def\<close>)

lemma authority_inv_leave:
  assumes "authority_inv w" and "owns w p" and "c = Idle \<or> is_Failed c"
  shows "authority_inv (goto p c (best_effort_remove b w))"
proof -
  have "lock_names_live w" using assms(1) by (simp add: authority_inv_def)
  then have "authority_inv (goto p c (w\<lparr>aw_lock := (if b then None else aw_lock w)\<rparr>))"
    using assms(3) by (intro authority_inv_sole_owner [OF assms(1,2)]) (auto simp: lock_names_live_def)
  then show ?thesis by (cases b) (simp_all add: best_effort_remove_def)
qed

lemma authority_inv_probe:
  assumes "authority_inv w" and "aw_at w p = AtProbe h"
  shows "process_is_running fault (aw_alive w) h"
  using assms by (auto simp: authority_inv_def pids_valid_def process_is_running_def
      process_is_running_from_probe_result_def unwrap_or_def split: option.splits)

lemma authority_inv_holder:
  assumes "authority_inv w" and "aw_lock w = Some (LockFile i c)" and "holder_pid c = Some h"
  shows "aw_alive w h"
proof -
  have "c \<noteq> []" using assms(3) by auto
  then obtain q where "aw_alive w q" "c = pid_line q"
    using assms(1,2) by (auto simp: authority_inv_def lock_names_live_def)
  moreover from this have "q \<le> u32_max" using assms(1) by (simp add: authority_inv_def pids_valid_def)
  ultimately show ?thesis using assms(3) by (simp add: holder_pid_pid_line)
qed

lemma authority_inv_claim_step:
  assumes inv: "authority_inv w" and alive: "aw_alive w p"
  shows "authority_inv (claim_step path fault removed p w)"
proof (cases "aw_at w p")
  case AtOpen
  then show ?thesis
    by (auto simp: claim_step_def intro!: authority_inv_goto authority_inv_create inv split: option.splits)
next
  case AtInspect
  then show ?thesis
    by (auto simp: claim_step_def intro!: authority_inv_goto inv split: option.splits lock_entry.splits)
next
  case AtRead
  then show ?thesis
    by (auto simp: claim_step_def intro!: authority_inv_goto inv split: option.splits lock_entry.splits
        dest: authority_inv_holder [OF inv])
next
  case (AtProbe h)
  then show ?thesis
    by (simp add: claim_step_def authority_inv_probe [OF inv AtProbe], intro authority_inv_goto inv) simp_all
next
  case AtRemove
  then show ?thesis using inv by (simp add: authority_inv_def)
next
  case (AtInit i)
  then have lock: "aw_lock w = Some (LockFile i [])" and own: "owns w p"
    using inv by (simp_all add: authority_inv_def owns_def)
  show ?thesis
    using authority_inv_init [OF inv AtInit alive] authority_inv_leave [OF inv own]
    by (auto simp: claim_step_def AtInit lock split: option.splits)
qed (use inv in \<open>simp_all add: claim_step_def\<close>)

lemma authority_inv_action:
  assumes inv: "authority_inv w" and en: "action_enabled w a" and "\<not> is_ProcessExits a"
  shows "authority_inv (run_action root a w)"
proof (cases a)
  case (BeginClaim fault p)
  then show ?thesis
    by (auto simp: begin_claim_def intro!: authority_inv_goto inv split: option.splits)
next
  case (ClaimStep fault removed p)
  then show ?thesis using en by (simp add: authority_inv_claim_step [OF inv])
next
  case (DropGuard removed p)
  then show ?thesis using en by (simp add: drop_guard_def authority_inv_leave [OF inv] owns_def)
qed (use assms(3) in simp)

text \<open>C17: write authority is exclusive.  From a world where nobody claims and no lock file exists, however
  the claims, steps, failures and releases of any number of processes interleave, as long as none of
  the processes exits at most one process holds the authority, and the lock file then names it.\<close>

theorem write_authority_is_exclusive:
  assumes "nobody_claims w0" and "pids_valid w0"
    and "authority_reach root (\<lambda>a. \<not> is_ProcessExits a) w0 w"
    and "aw_at w p = Holds"
  shows "(aw_at w q = Holds \<longrightarrow> q = p) \<and> (\<exists>i. aw_lock w = Some (LockFile i (pid_line p)))"
proof -
  have "authority_inv w0"
    using assms(1,2) by (simp add: authority_inv_def nobody_claims_def lock_names_live_def owns_def)
  with assms(3) have "authority_inv w"
    by (induction rule: authority_reach.induct) (auto intro: authority_inv_action)
  with assms(4) show ?thesis by (auto simp: authority_inv_def owns_def)
qed

subsection \<open>Concrete interleavings\<close>

text \<open>Runs of explicit actions, each of which must be enabled.\<close>

fun run_actions :: "string \<Rightarrow> authority_action list \<Rightarrow> authority_world \<Rightarrow> authority_world option" where
  "run_actions root [] w = Some w"
| "run_actions root (a # as) w =
     (if action_enabled w a then run_actions root as (run_action root a w) else None)"

lemma run_actions_reach:
  "run_actions root as w = Some w' \<Longrightarrow> list_all allowed as \<Longrightarrow> authority_reach root allowed w0 w \<Longrightarrow>
   authority_reach root allowed w0 w'"
  by (induction as arbitrary: w) (auto intro: authority_reach.action split: if_splits)

definition sample_world :: authority_world where
  "sample_world = \<lparr>aw_lock = None, aw_next_inode = 0, aw_alive = (\<lambda>p. p = 1 \<or> p = 2 \<or> p = 3), aw_at = (\<lambda>p. Idle)\<rparr>"

lemma sample_world_valid: "nobody_claims sample_world" "pids_valid sample_world"
  by (auto simp: nobody_claims_def pids_valid_def sample_world_def u32_max_def)

abbreviation claims :: "nat \<Rightarrow> authority_action list" where
  "claims p \<equiv> [BeginClaim None p, ClaimStep None True p, ClaimStep None True p]"

lemma holder_pid_small: "p \<le> 9 \<Longrightarrow> holder_pid (pid_line p) = Some p"
  by (simp add: holder_pid_pid_line u32_max_def)

lemmas schedule_simps = begin_claim_def claim_step_def drop_guard_def process_exits_def goto_def
  best_effort_remove_def remove_stale_write_authority_lock_def process_is_running_def
  process_is_running_from_probe_result_def unwrap_or_def

lemmas trace_simps = sample_world_def schedule_simps holder_pid_small

theorem write_authority_is_exclusive_witness:
  "\<exists>w. run_actions ''/b'' (claims 1 @ [BeginClaim None 2, ClaimStep None True 2]) sample_world = Some w \<and>
     aw_at w 1 = Holds \<and> aw_at w 2 \<noteq> Holds \<and> (\<exists>i. aw_lock w = Some (LockFile i (pid_line 1)))"
proof -
  let ?as = "claims 1 @ [BeginClaim None 2, ClaimStep None True 2]"
  obtain w where w: "run_actions ''/b'' ?as sample_world = Some w" "aw_at w 1 = Holds"
    by (simp add: trace_simps)
  have "authority_reach ''/b'' (\<lambda>a. \<not> is_ProcessExits a) sample_world w"
    by (rule run_actions_reach [OF w(1)]) (auto intro: authority_reach.start)
  from write_authority_is_exclusive [OF sample_world_valid this w(2), of 2] w show ?thesis by auto
qed

text \<open>C20: the removal of a stale lock is not atomic with the check that it is stale.  Take three live
  processes, none of them claiming, and no lock.  Let one of them claim; let a second one read its
  pid; let the first release the lock in the regular way and exit; let the second one probe the pid,
  now of a dead process; let a third one claim; and let the second one go on, removing the lock of
  the third as stale.  No operation fails, and the second and the third hold the write authority at the
  same time.\<close>

theorem stale_lock_removal_admits_two_writers:
  assumes "aw_alive w p" "aw_alive w q" "aw_alive w r" "p \<noteq> q" "p \<noteq> r" "q \<noteq> r"
    and "pids_valid w" "nobody_claims w"
  shows "\<exists>v w'.
    run_actions root (claims p @ [BeginClaim None q, ClaimStep None True q, ClaimStep None True q,
      ClaimStep None True q, DropGuard True p, ProcessExits p, ClaimStep None True q]) w = Some v \<and>
    aw_lock v = None \<and>
    run_actions root (claims r @ [ClaimStep None True q, ClaimStep None True q, ClaimStep None True q]) v = Some w' \<and>
    aw_alive w' q \<and> aw_at w' q = Holds \<and> aw_alive w' r \<and> aw_at w' r = Holds"
proof -
  have "0 < p" "p \<le> u32_max" using assms(1) assms(7) by (auto simp: pids_valid_def)
  then have "holder_pid (pid_line p) = Some p" by (simp add: holder_pid_pid_line)
  with assms \<open>0 < p\<close> show ?thesis by (simp add: schedule_simps nobody_claims_def)
qed

theorem stale_lock_removal_admits_two_writers_witness:
  "\<exists>v w'.
    run_actions ''/b'' (claims 1 @ [BeginClaim None 2, ClaimStep None True 2, ClaimStep None True 2,
      ClaimStep None True 2, DropGuard True 1, ProcessExits 1, ClaimStep None True 2]) sample_world = Some v \<and>
    aw_lock v = None \<and>
    run_actions ''/b'' (claims 3 @ [ClaimStep None True 2, ClaimStep None True 2, ClaimStep None True 2]) v = Some w' \<and>
    aw_alive w' 2 \<and> aw_at w' 2 = Holds \<and> aw_alive w' 3 \<and> aw_at w' 3 = Holds"
  by (rule stale_lock_removal_admits_two_writers [OF _ _ _ _ _ _ sample_world_valid(2) sample_world_valid(1)])
     (simp_all add: sample_world_def)

subsection \<open>A claim that runs alone\<close>

text \<open>What a claim comes to when no other process acts and no operation fails, as one decision on the
  lock entry it finds.\<close>

definition claim_outcome :: "string \<Rightarrow> (nat \<Rightarrow> bool) \<Rightarrow> lock_entry option \<Rightarrow> claim_point" where
  "claim_outcome path alive entry =
     (case entry of
        None \<Rightarrow> Holds
      | Some LockSymlink \<Rightarrow>
          Failed (partial_mutation (''Write-authority lock path must not be a symlink in '' @ path @ ''.''))
      | Some LockOther \<Rightarrow>
          Failed (partial_mutation (''Write-authority lock must be a regular file in '' @ path @ ''.''))
      | Some (LockFile _ source) \<Rightarrow>
          (case holder_pid source of
             None \<Rightarrow> Failed writer_conflict
           | Some h \<Rightarrow> if h \<noteq> 0 \<and> alive h then Failed writer_conflict else Holds))"

text \<open>Single steps of a lone claim, in the order of the loop.\<close>

lemma lone_steps:
  "aw_at w p = AtOpen \<Longrightarrow> aw_lock w = None \<Longrightarrow>
     claim_step path None b p w = goto p (AtInit (aw_next_inode w))
       (w\<lparr>aw_lock := Some (LockFile (aw_next_inode w) []), aw_next_inode := Suc (aw_next_inode w)\<rparr>)"
  "aw_at w p = AtOpen \<Longrightarrow> aw_lock w = Some e \<Longrightarrow> claim_step path None b p w = goto p AtInspect w"
  "aw_at w p = AtInspect \<Longrightarrow> aw_lock w = Some LockSymlink \<Longrightarrow> claim_step path None b p w =
     goto p (Failed (partial_mutation (''Write-authority lock path must not be a symlink in '' @ path @ ''.''))) w"
  "aw_at w p = AtInspect \<Longrightarrow> aw_lock w = Some LockOther \<Longrightarrow> claim_step path None b p w =
     goto p (Failed (partial_mutation (''Write-authority lock must be a regular file in '' @ path @ ''.''))) w"
  "aw_at w p = AtInspect \<Longrightarrow> aw_lock w = Some (LockFile i s) \<Longrightarrow> claim_step path None b p w = goto p AtRead w"
  "aw_at w p = AtRead \<Longrightarrow> aw_lock w = Some (LockFile i s) \<Longrightarrow> claim_step path None b p w =
     goto p (case holder_pid s of None \<Rightarrow> Failed writer_conflict | Some h \<Rightarrow> AtProbe h) w"
  "aw_at w p = AtProbe h \<Longrightarrow> claim_step path None b p w =
     goto p (if h \<noteq> 0 \<and> aw_alive w h then Failed writer_conflict else AtRemove) w"
  "aw_at w p = AtRemove \<Longrightarrow> claim_step path None b p w = goto p AtOpen (w\<lparr>aw_lock := None\<rparr>)"
  "aw_at w p = AtInit i \<Longrightarrow> aw_lock w = Some (LockFile i s) \<Longrightarrow> claim_step path None b p w =
     goto p Holds (w\<lparr>aw_lock := Some (LockFile i (s @ pid_line p))\<rparr>)"
  "aw_at w p = Holds \<Longrightarrow> claim_step path None b p w = w"
  "aw_at w p = Failed f \<Longrightarrow> claim_step path None b p w = w"
  by (simp_all add: claim_step_def process_is_running_def process_is_running_from_probe_result_def
      remove_stale_write_authority_lock_def unwrap_or_def split: option.splits)

lemma seven_steps: "(f ^^ 7) w = f (f (f (f (f (f (f w))))))"
  by (simp add: eval_nat_numeral)

text \<open>C19: a claim that runs alone ends.  Within seven operations it holds the authority or has failed,
  as the decision on the lock entry says: a missing lock and a lock whose recorded holder is not
  running are claimed, and the lock file then names the claiming process; a lock that names a running
  process or no process, a symbolic link and a directory are refused with their error.\<close>

theorem lone_claim_decides:
  assumes "aw_at w p = AtOpen"
  shows "aw_at ((claim_step path None True p ^^ 7) w) p = claim_outcome path (aw_alive w) (aw_lock w) \<and>
    (claim_outcome path (aw_alive w) (aw_lock w) = Holds \<longrightarrow>
       (\<exists>i. aw_lock ((claim_step path None True p ^^ 7) w) = Some (LockFile i (pid_line p))))"
proof (cases "aw_lock w")
  case None
  then show ?thesis using assms by (simp add: seven_steps lone_steps claim_outcome_def)
next
  case (Some e)
  show ?thesis
  proof (cases e)
    case (LockFile i s)
    show ?thesis
    proof (cases "holder_pid s")
      case None
      then show ?thesis using assms Some LockFile by (simp add: seven_steps lone_steps claim_outcome_def)
    next
      case h: (Some h)
      then show ?thesis
        using assms Some LockFile
        by (cases "h \<noteq> 0 \<and> aw_alive w h") (auto simp: seven_steps lone_steps claim_outcome_def)
    qed
  qed (use assms Some in \<open>simp_all add: seven_steps lone_steps claim_outcome_def\<close>)
qed

theorem lone_claim_decides_witness:
  "aw_at ((claim_step ''/b/l'' None True 2 ^^ 7)
      (sample_world\<lparr>aw_lock := Some (LockFile 0 (pid_line 9)), aw_at := (\<lambda>p. AtOpen)\<rparr>)) 2 = Holds"
proof -
  let ?w = "sample_world\<lparr>aw_lock := Some (LockFile 0 (pid_line 9)), aw_at := (\<lambda>p. AtOpen)\<rparr>"
  have "claim_outcome ''/b/l'' (aw_alive ?w) (aw_lock ?w) = Holds"
    by (simp add: claim_outcome_def holder_pid_small sample_world_def)
  with lone_claim_decides [of ?w 2 "''/b/l''"] show ?thesis by simp
qed

text \<open>The preflight check answers as the claim would: it clears exactly the entries that a lone claim
  takes, and leaves no entry behind when it clears.\<close>

lemma preflight_agrees_with_claim:
  "fst (preflight_write_authority_state path None None None (process_is_running None alive) entry) = Inr Clear \<longleftrightarrow>
     claim_outcome path alive entry = Holds"
  "fst (preflight_write_authority_state path None None None (process_is_running None alive) entry) = Inr Clear \<Longrightarrow>
     snd (preflight_write_authority_state path None None None (process_is_running None alive) entry) = None"
  by (auto simp: preflight_write_authority_state_def claim_outcome_def process_is_running_def
      process_is_running_from_probe_result_def unwrap_or_def split: option.splits lock_entry.splits if_splits)

end
