(* ===== verification/Task_Contract.thy ===== *)
theory Task_Contract
  imports Str_Ops Paths Json_Value "HOL-Library.Product_Lexorder"
begin

text \<open>The contract of a plan task (\<^verbatim>\<open>src/contracts/task_contract.rs\<close>): splitting a plan into task blocks,
  parsing the fields and steps of a block, the structure of its body, and the checks that make a
  task self-contained and its obligations reviewable.\<close>

subsection \<open>Word lists\<close>

definition AMBIGUOUS_PHRASES :: "string list" where
  "AMBIGUOUS_PHRASES =
     [''if needed'', ''as needed'', ''as appropriate'', ''appropriately'', ''if helpful'', ''if useful'',
      ''where possible'', ''handle edge cases'', ''support similar behavior'', ''clean up related code'',
      ''or equivalent'', ''use a reasonable default'', ''consider adding'', ''is robust'', ''are robust'', ''etc.'']"

definition TASK_FIELD_ORDER :: "string list" where
  "TASK_FIELD_ORDER = [''Spec Coverage'', ''Goal'', ''Context'', ''Constraints'', ''Done when'', ''Files'']"

definition GENERIC_DONE_WHEN_SUBJECTS :: "string list" where
  "GENERIC_DONE_WHEN_SUBJECTS =
     [''code'', ''the code'', ''change'', ''the change'', ''changes'', ''the changes'', ''feature'', ''the feature'',
      ''implementation'', ''the implementation'', ''solution'', ''the solution'', ''task'', ''the task'']"

definition GENERIC_DONE_WHEN_STATES :: "string list" where
  "GENERIC_DONE_WHEN_STATES =
     [''complete'', ''correct'', ''done'', ''finished'', ''ready'', ''robust'', ''working'']"

definition GENERIC_DONE_WHEN_QUALIFIERS :: "string list" where
  "GENERIC_DONE_WHEN_QUALIFIERS =
     ['' as expected'', '' as intended'', '' correctly'', '' properly'', '' for merge'', '' for review'',
      '' to merge'', '' to release'', '' to review'', '' to ship'']"

definition HEDGED_DONE_WHEN_VERBS :: "string list" where
  "HEDGED_DONE_WHEN_VERBS = [''handle'', ''handles'', ''support'', ''supports'']"

definition TERMINAL_CONDITION_MARKERS :: "string list" where
  "TERMINAL_CONDITION_MARKERS =
     ['' by '', '' if '', '' once '', '' only when '', '' unless '', '' when '', '' whenever '']"

definition SPEC_CONTEXT_TRIGGER_PHRASES :: "string list" where
  "SPEC_CONTEXT_TRIGGER_PHRASES =
     [''approved artifact'', ''approved statement'', ''approved wording'', ''canonical'', ''exact approved'',
      ''exact spec'', ''hard-fail reuse'', ''packet-backed'', ''requirement wording'', ''reuse boundary'',
      ''shared helper'', ''single authoritative'', ''spec choice'', ''spec language'', ''spec wording'']"

subsection \<open>Types\<close>

record ContractDiagnostic =
  cd_code :: string
  cd_message :: string

record TaskContractFields =
  tcf_goal :: string
  tcf_context :: "string list"
  tcf_constraints :: "string list"
  tcf_done_when :: "string list"

record TaskContractParseError =
  tce_error_class :: string
  tce_message :: string

record CanonicalTaskBlock =
  ctb_number :: nat
  ctb_source :: string

record TaskStepLine =
  tsl_number :: nat
  tsl_text :: string

record TaskContractValidation =
  task_contract_valid :: bool
  task_goal_valid :: bool
  task_context_sufficient :: bool
  task_constraints_valid :: bool
  task_done_when_deterministic :: bool
  task_self_contained :: bool
  tcv_diagnostics :: "ContractDiagnostic list"

definition validation_valid :: TaskContractValidation where
  "validation_valid =
     \<lparr>task_contract_valid = True, task_goal_valid = True, task_context_sufficient = True,
      task_constraints_valid = True, task_done_when_deterministic = True, task_self_contained = True,
      tcv_diagnostics = []\<rparr>"

definition validation_push :: "string \<Rightarrow> string \<Rightarrow> TaskContractValidation \<Rightarrow> TaskContractValidation" where
  "validation_push code msg v =
     v\<lparr>task_contract_valid := False,
       tcv_diagnostics := tcv_diagnostics v @ [\<lparr>cd_code = code, cd_message = msg\<rparr>]\<rparr>"

type_synonym 'a parsed = "TaskContractParseError + 'a"

subsection \<open>Headings and steps\<close>

definition task_structure_error :: "string \<Rightarrow> TaskContractParseError" where
  "task_structure_error msg = \<lparr>tce_error_class = ''MalformedTaskStructure'', tce_message = msg\<rparr>"

definition quoted :: "string \<Rightarrow> string" where
  "quoted s = [CHR 0x27] @ s @ [CHR 0x27]"

definition malformed_task_heading :: TaskContractParseError where
  "malformed_task_heading =
     task_structure_error (''Task headings must use canonical '' @ quoted ''## Task N:'' @ '' form.'')"

definition parse_canonical_task_heading_number :: "string \<Rightarrow> nat parsed" where
  "parse_canonical_task_heading_number line =
     (case strip_prefix line ''## Task '' of
        None \<Rightarrow> Inl malformed_task_heading
      | Some heading \<Rightarrow>
          (case split_once_str '': '' heading of
             None \<Rightarrow> Inl malformed_task_heading
           | Some (number, _) \<Rightarrow>
               (case parse_u32 number of None \<Rightarrow> Inl malformed_task_heading | Some n \<Rightarrow> Inr n)))"

text \<open>The lines of a block up to the next heading, which are part of it, and the lines after it.\<close>

fun take_block :: "string list \<Rightarrow> (string list \<times> string list) parsed" where
  "take_block [] = Inr ([], [])"
| "take_block (line # lines) =
     (if starts_with line ''## '' then Inr ([], line # lines)
      else if starts_with line ''### Task '' then Inl malformed_task_heading
      else res_bind (take_block lines) (\<lambda>(block, rest). Inr (line # block, rest)))"

lemma take_block_length: "take_block lines = Inr (block, rest) \<Longrightarrow> length rest \<le> length lines"
  by (induction lines arbitrary: block) (auto simp: res_bind_Inr split: if_splits intro: le_SucI)

function split_task_lines :: "nat list \<Rightarrow> string list \<Rightarrow> CanonicalTaskBlock list parsed" where
  "split_task_lines seen [] = Inr []"
| "split_task_lines seen (line # lines) =
     (if starts_with line ''### Task '' then Inl malformed_task_heading
      else if \<not> starts_with line ''## Task '' then split_task_lines seen lines
      else case parse_canonical_task_heading_number line of
        Inl e \<Rightarrow> Inl e
      | Inr number \<Rightarrow>
          if number \<in> set seen
          then Inl (task_structure_error ''Task numbers must be unique within the plan.'')
          else case take_block lines of
            Inl e \<Rightarrow> Inl e
          | Inr (block, rest) \<Rightarrow>
              res_bind (split_task_lines (number # seen) rest) (\<lambda>tasks. Inr
                (\<lparr>ctb_number = number, ctb_source = join_with [newline] (line # block)\<rparr> # tasks)))"
  by pat_completeness auto
termination split_task_lines
  by (relation "measure (\<lambda>(seen, lines). length lines)") (auto dest: take_block_length)

definition split_canonical_task_blocks :: "string \<Rightarrow> CanonicalTaskBlock list parsed" where
  "split_canonical_task_blocks source = split_task_lines [] (str_lines source)"

definition parse_task_step_projection_line :: "string \<Rightarrow> (bool \<times> TaskStepLine) option parsed" where
  "parse_task_step_projection_line line =
     (let trimmed = trim_start line;
          malformed = Inl (task_structure_error (''Malformed step entry: '' @ trimmed)) in
      case strip_prefix trimmed ''- ['' of
        None \<Rightarrow> Inr None
      | Some [] \<Rightarrow> Inr None
      | Some (mark # rest) \<Rightarrow>
          if mark \<noteq> CHR ''x'' \<and> mark \<noteq> CHR '' '' then Inr None
          else case strip_prefix rest ''] **Step '' of
            None \<Rightarrow> Inr None
          | Some rest \<Rightarrow>
              (case split_once_str '': '' rest of
                 None \<Rightarrow> malformed
               | Some (number, txt_) \<Rightarrow>
                   (case parse_u32 number of
                      None \<Rightarrow> malformed
                    | Some n \<Rightarrow> Inr (Some (mark = CHR ''x'',
                        \<lparr>tsl_number = n, tsl_text = trim_end_matches ''**'' (trim_end txt_)\<rparr>)))))"

definition parse_task_step_line :: "string \<Rightarrow> TaskStepLine option parsed" where
  "parse_task_step_line line = res_bind (parse_task_step_projection_line line) (\<lambda>s. Inr (map_option snd s))"

subsection \<open>Execution note projections\<close>

definition is_runtime_execution_note_projection_start :: "string \<Rightarrow> bool" where
  "is_runtime_execution_note_projection_start line \<longleftrightarrow>
     (let line = trim_start line in
      starts_with line ''**Execution Note:** Active - '' \<or>
      starts_with line ''**Execution Note:** Blocked - '' \<or>
      starts_with line ''**Execution Note:** Interrupted - '')"

definition line_indent :: "string \<Rightarrow> nat" where
  "line_indent line = length line - length (trim_start line)"

definition note_block_start :: "string \<Rightarrow> nat option" where
  "note_block_start line =
     (if is_runtime_execution_note_projection_start line then Some (line_indent line) else None)"

definition is_runtime_execution_note_projection_boundary :: "string \<Rightarrow> bool" where
  "is_runtime_execution_note_projection_boundary line \<longleftrightarrow>
     list_ex (starts_with (trim_start line))
       [''## '', ''**Spec Coverage:**'', ''**Goal:**'', ''**Context:**'', ''**Constraints:**'', ''**Done when:**'',
        ''**Files:**''] \<or>
     (case parse_task_step_projection_line line of Inr (Some _) \<Rightarrow> True | _ \<Rightarrow> False)"

definition note_block_continues :: "nat \<Rightarrow> string \<Rightarrow> bool" where
  "note_block_continues note_indent line \<longleftrightarrow>
     (if trim line = [] \<or> is_runtime_execution_note_projection_start line then True
      else if is_runtime_execution_note_projection_boundary line then False
      else note_indent < line_indent line)"

subsection \<open>Fields\<close>

definition field_prefix :: "string \<Rightarrow> string" where
  "field_prefix field = ''**'' @ field @ '':** ''"

definition field_marker :: "string \<Rightarrow> string" where
  "field_marker field = ''**'' @ field @ '':**''"

definition is_legacy_task_field :: "string \<Rightarrow> bool" where
  "is_legacy_task_field line \<longleftrightarrow>
     list_ex (starts_with (trim_start line)) [''**Task Outcome:**'', ''**Plan Constraints:**'', ''**Open Questions:**'']"

definition task_field_positions :: "string list \<Rightarrow> string \<Rightarrow> nat list" where
  "task_field_positions lines field =
     map fst (filter (\<lambda>(_, line). line = field_marker field \<or> starts_with line (field_prefix field))
       (zip [0..<length lines] lines))"

fun field_order_from :: "nat \<Rightarrow> string list \<Rightarrow> (string \<times> nat) option \<Rightarrow> string list \<Rightarrow> unit parsed" where
  "field_order_from task_number lines previous [] = Inr ()"
| "field_order_from task_number lines previous (field # fs) =
     (case task_field_positions lines field of
        [] \<Rightarrow> field_order_from task_number lines previous fs
      | [position] \<Rightarrow>
          (case previous of
             Some (previous_field, previous_position) \<Rightarrow>
               if position \<le> previous_position
               then Inl \<lparr>tce_error_class = ''TaskFieldOrder'',
                 tce_message = ''Task '' @ show_nat task_number @ '' field `'' @ field @
                   ''` must appear after `'' @ previous_field @ ''`.''\<rparr>
               else field_order_from task_number lines (Some (field, position)) fs
           | None \<Rightarrow> field_order_from task_number lines (Some (field, position)) fs)
      | _ \<Rightarrow> Inl \<lparr>tce_error_class = ''DuplicateTaskField'',
          tce_message = ''Task '' @ show_nat task_number @ '' contains duplicate `'' @ field @ ''` fields.''\<rparr>)"

definition enforce_task_field_order :: "nat \<Rightarrow> string list \<Rightarrow> unit parsed" where
  "enforce_task_field_order task_number lines = field_order_from task_number lines None TASK_FIELD_ORDER"

definition missing_field :: "nat \<Rightarrow> string \<Rightarrow> string \<Rightarrow> TaskContractParseError" where
  "missing_field task_number field cls =
     \<lparr>tce_error_class = cls,
      tce_message = ''Task '' @ show_nat task_number @ '' is missing '' @ field @ ''.''\<rparr>"

definition task_scalar_field :: "nat \<Rightarrow> string list \<Rightarrow> string \<Rightarrow> string \<Rightarrow> string parsed" where
  "task_scalar_field task_number lines field cls =
     (case find_map (\<lambda>line. strip_prefix line (field_prefix field)) lines of
        None \<Rightarrow> Inl (missing_field task_number field cls)
      | Some v \<Rightarrow> Inr v)"

fun bullets_until_field :: "nat \<Rightarrow> string \<Rightarrow> string list \<Rightarrow> string list parsed" where
  "bullets_until_field task_number field [] = Inr []"
| "bullets_until_field task_number field (line # lines) =
     (if line = field_marker field then bullets_until_field task_number field lines
      else if starts_with line ''**'' then Inr []
      else let trimmed = trim line in
        if trimmed = [] then bullets_until_field task_number field lines
        else case strip_prefix trimmed ''- '' of
          Some v \<Rightarrow> res_bind (bullets_until_field task_number field lines) (\<lambda>vs. Inr (v # vs))
        | None \<Rightarrow> Inl \<lparr>tce_error_class = ''MalformedTaskContractField'',
            tce_message = ''Task '' @ show_nat task_number @ '' `'' @ field @ ''` entries must be bullets; found `'' @
              trimmed @ ''`.''\<rparr>)"

definition parse_bullets_after_field :: "nat \<Rightarrow> string list \<Rightarrow> string \<Rightarrow> string list parsed" where
  "parse_bullets_after_field task_number lines field =
     (case dropWhile (\<lambda>line. line \<noteq> field_marker field) lines of
        [] \<Rightarrow> Inr []
      | _ # rest \<Rightarrow> bullets_until_field task_number field rest)"

definition parse_required_bullet_field :: "nat \<Rightarrow> string list \<Rightarrow> string \<Rightarrow> string \<Rightarrow> string list parsed" where
  "parse_required_bullet_field task_number lines field cls =
     (if field_marker field \<notin> set lines then Inl (missing_field task_number field cls)
      else parse_bullets_after_field task_number lines field)"

subsection \<open>The structure of a task body\<close>

datatype TaskBodySection = SectionNone | SectionContext | SectionConstraints | SectionDoneWhen | SectionFiles | SectionSteps

record body_state =
  bs_section :: TaskBodySection
  bs_files_seen :: bool
  bs_saw_step :: bool
  bs_fenced :: bool
  bs_note :: "nat option"
  bs_step_numbers :: "nat list"

definition unparsed_task_body_line :: "nat \<Rightarrow> string \<Rightarrow> TaskContractParseError" where
  "unparsed_task_body_line task_number line =
     task_structure_error (''Task '' @ show_nat task_number @ '' contains unparsed task body line `'' @ line @ ''`.'')"

definition is_task_body_comment_marker :: "string \<Rightarrow> bool" where
  "is_task_body_comment_marker line \<longleftrightarrow> starts_with line ''<!--'' \<and> ends_with line ''-->''"

definition is_scalar_task_field_line :: "string \<Rightarrow> bool" where
  "is_scalar_task_field_line line \<longleftrightarrow>
     line = ''**Spec Coverage:**'' \<or> starts_with line ''**Spec Coverage:** '' \<or>
     line = ''**Goal:**'' \<or> starts_with line ''**Goal:** ''"

definition body_field_line :: "nat \<Rightarrow> string \<Rightarrow> body_state \<Rightarrow> body_state parsed" where
  "body_field_line task_number trimmed st =
     (if is_scalar_task_field_line trimmed then Inr (st\<lparr>bs_section := SectionNone\<rparr>)
      else if trimmed = ''**Context:**'' then Inr (st\<lparr>bs_section := SectionContext\<rparr>)
      else if trimmed = ''**Constraints:**'' then Inr (st\<lparr>bs_section := SectionConstraints\<rparr>)
      else if trimmed = ''**Done when:**'' then Inr (st\<lparr>bs_section := SectionDoneWhen\<rparr>)
      else if trimmed = ''**Files:**'' then Inr (st\<lparr>bs_section := SectionFiles, bs_files_seen := True\<rparr>)
      else if bs_section st \<in> {SectionContext, SectionConstraints, SectionDoneWhen} \<and> starts_with trimmed ''- ''
      then Inr st
      else if bs_section st = SectionFiles then Inr st
      else Inl (unparsed_task_body_line task_number trimmed))"

definition body_step_line :: "nat \<Rightarrow> nat \<Rightarrow> body_state \<Rightarrow> body_state parsed" where
  "body_step_line task_number step st =
     (if \<not> bs_files_seen st
      then Inl (task_structure_error (''Task '' @ show_nat task_number @ '' steps must appear after a Files block.''))
      else if step \<in> set (bs_step_numbers st)
      then Inl (task_structure_error
             (''Task '' @ show_nat task_number @ '' has duplicate Step '' @ show_nat step @ ''.''))
      else Inr (st\<lparr>bs_step_numbers := step # bs_step_numbers st, bs_saw_step := True, bs_section := SectionSteps\<rparr>))"

definition body_line :: "nat \<Rightarrow> string \<Rightarrow> body_state \<Rightarrow> body_state parsed" where
  "body_line task_number line st =
     (let trimmed = trim line in
      if trimmed = [] then Inr st
      else if is_some_and (bs_note st) (\<lambda>indent. note_block_continues indent line) then Inr st
      else let st = st\<lparr>bs_note := None\<rparr> in
      if bs_fenced st then Inr (if starts_with trimmed ''```'' then st\<lparr>bs_fenced := False\<rparr> else st)
      else if bs_saw_step st \<and> starts_with trimmed ''```'' then Inr (st\<lparr>bs_fenced := True\<rparr>)
      else if is_task_body_comment_marker trimmed then Inr st
      else if bs_saw_step st \<and> note_block_start line \<noteq> None then Inr (st\<lparr>bs_note := note_block_start line\<rparr>)
      else case parse_task_step_line trimmed of
        Inl e \<Rightarrow> Inl e
      | Inr (Some step) \<Rightarrow> body_step_line task_number (tsl_number step) st
      | Inr None \<Rightarrow>
          if bs_saw_step st then Inl (unparsed_task_body_line task_number trimmed)
          else body_field_line task_number trimmed st)"

fun body_lines :: "nat \<Rightarrow> string list \<Rightarrow> body_state \<Rightarrow> body_state parsed" where
  "body_lines task_number [] st = Inr st"
| "body_lines task_number (line # lines) st =
     res_bind (body_line task_number line st) (body_lines task_number lines)"

definition body_start :: body_state where
  "body_start = \<lparr>bs_section = SectionNone, bs_files_seen = False, bs_saw_step = False, bs_fenced = False,
     bs_note = None, bs_step_numbers = []\<rparr>"

definition validate_task_body_structure :: "nat \<Rightarrow> string list \<Rightarrow> unit parsed" where
  "validate_task_body_structure task_number lines =
     res_bind (body_lines task_number lines body_start) (\<lambda>st.
       if bs_fenced st
       then Inl (task_structure_error
              (''Task '' @ show_nat task_number @ '' has an unterminated step detail fence.''))
       else Inr ())"

definition parse_task_contract_fields :: "nat \<Rightarrow> string list \<Rightarrow> TaskContractFields parsed" where
  "parse_task_contract_fields task_number lines =
     (if list_ex is_legacy_task_field lines
      then Inl \<lparr>tce_error_class = ''LegacyTaskField'',
        tce_message = ''Task '' @ show_nat task_number @
          '' uses legacy approved-task fields; use Goal, Context, Constraints, and Done when.''\<rparr>
      else res_bind (enforce_task_field_order task_number lines) (\<lambda>_.
           res_bind (task_scalar_field task_number lines ''Goal'' ''TaskMissingGoal'') (\<lambda>goal.
           res_bind (parse_required_bullet_field task_number lines ''Context'' ''TaskMissingContext'') (\<lambda>context_lines.
           res_bind (parse_required_bullet_field task_number lines ''Constraints'' ''TaskMissingConstraints'') (\<lambda>constraints.
           res_bind (parse_required_bullet_field task_number lines ''Done when'' ''TaskMissingDoneWhen'') (\<lambda>done_when.
           res_bind (validate_task_body_structure task_number lines) (\<lambda>_. Inr
             \<lparr>tcf_goal = goal, tcf_context = context_lines, tcf_constraints = constraints,
              tcf_done_when = done_when\<rparr>)))))))"

subsection \<open>Known steps\<close>

record known_state =
  ks_files_seen :: bool
  ks_saw_step :: bool
  ks_fenced :: bool
  ks_steps :: "((nat \<times> nat) \<times> string) list"

definition known_step_line :: "nat \<Rightarrow> string \<Rightarrow> known_state \<Rightarrow> known_state" where
  "known_step_line task_number line st =
     (let trimmed = trim line in
      if ks_fenced st then (if starts_with trimmed ''```'' then st\<lparr>ks_fenced := False\<rparr> else st)
      else if ks_saw_step st \<and> starts_with trimmed ''```'' then st\<lparr>ks_fenced := True\<rparr>
      else if trimmed = ''**Files:**'' then st\<lparr>ks_files_seen := True\<rparr>
      else if ks_files_seen st
      then (case parse_task_step_projection_line line of
              Inr (Some (_, step)) \<Rightarrow> st\<lparr>ks_steps :=
                  obj_insert (task_number, tsl_number step) (tsl_text step) (ks_steps st), ks_saw_step := True\<rparr>
            | _ \<Rightarrow> st)
      else st)"

definition collect_known_task_steps ::
  "nat \<Rightarrow> string list \<Rightarrow> ((nat \<times> nat) \<times> string) list \<Rightarrow> ((nat \<times> nat) \<times> string) list" where
  "collect_known_task_steps task_number lines known_steps =
     ks_steps (fold (known_step_line task_number) lines
       \<lparr>ks_files_seen = False, ks_saw_step = False, ks_fenced = False, ks_steps = known_steps\<rparr>)"

definition known_block_steps ::
  "CanonicalTaskBlock \<Rightarrow> ((nat \<times> nat) \<times> string) list \<Rightarrow> ((nat \<times> nat) \<times> string) list" where
  "known_block_steps block known_steps =
     (let lines = str_lines (ctb_source block) in
      if length lines < 2 \<or> isl (parse_task_contract_fields (ctb_number block) (drop 1 lines)) then known_steps
      else collect_known_task_steps (ctb_number block) (drop 1 lines) known_steps)"

definition known_runtime_step_projection_lines :: "string \<Rightarrow> ((nat \<times> nat) \<times> string) list" where
  "known_runtime_step_projection_lines plan_source =
     (case split_canonical_task_blocks plan_source of
        Inl _ \<Rightarrow> []
      | Inr blocks \<Rightarrow> fold known_block_steps blocks [])"

subsection \<open>Wording\<close>

definition detect_ambiguous_task_wording :: "string \<Rightarrow> string option" where
  "detect_ambiguous_task_wording lower_text = find (str_contains lower_text) AMBIGUOUS_PHRASES"

definition detect_ambiguous_field_wording :: "string list \<Rightarrow> string option" where
  "detect_ambiguous_field_wording lines =
     find_map (\<lambda>line. detect_ambiguous_task_wording (to_ascii_lowercase line)) lines"

definition claim_punctuation :: "char \<Rightarrow> bool" where
  "claim_punctuation c \<longleftrightarrow> c \<in> set ''.!:;''"

definition strip_hedged_done_when_verb :: "string \<Rightarrow> string option" where
  "strip_hedged_done_when_verb s =
     find_map (\<lambda>verb. Option.bind (strip_prefix s verb) (\<lambda>rest. strip_prefix rest '' '')) HEDGED_DONE_WHEN_VERBS"

definition names_terminal_condition :: "string \<Rightarrow> bool" where
  "names_terminal_condition s \<longleftrightarrow> list_ex (str_contains s) TERMINAL_CONDITION_MARKERS"

definition is_underspecified_hedged_done_when_claim :: "string \<Rightarrow> bool" where
  "is_underspecified_hedged_done_when_claim lower_text \<longleftrightarrow>
     (let claim = trim_end_where claim_punctuation lower_text in
      case strip_hedged_done_when_verb claim of
        Some rest \<Rightarrow> \<not> names_terminal_condition rest
      | None \<Rightarrow> list_ex (\<lambda>subject. is_some_and
            (Option.bind (strip_prefix claim subject) (\<lambda>rest. strip_hedged_done_when_verb (trim_start rest)))
            (\<lambda>rest. \<not> names_terminal_condition rest)) GENERIC_DONE_WHEN_SUBJECTS)"

definition generic_with_qualifier :: "string \<Rightarrow> string \<Rightarrow> bool" where
  "generic_with_qualifier s generic_prefix \<longleftrightarrow>
     is_some_and (strip_prefix s generic_prefix) (\<lambda>suffix. suffix \<in> set GENERIC_DONE_WHEN_QUALIFIERS)"

definition generic_done_when_state :: "string \<Rightarrow> bool" where
  "generic_done_when_state state \<longleftrightarrow>
     list_ex (\<lambda>generic. state = generic \<or> generic_with_qualifier state generic) GENERIC_DONE_WHEN_STATES"

definition generic_done_when_predicate :: "string \<Rightarrow> bool" where
  "generic_done_when_predicate predicate \<longleftrightarrow>
     predicate \<in> {''work'', ''works''} \<or> generic_with_qualifier predicate ''work'' \<or>
     generic_with_qualifier predicate ''works''"

definition generic_subject_claim :: "string \<Rightarrow> string \<Rightarrow> bool" where
  "generic_subject_claim claim subject \<longleftrightarrow>
     is_some_and (strip_prefix claim subject) (\<lambda>rest.
       generic_done_when_predicate (trim_start rest) \<or> rest \<in> {'' pass'', '' passes''} \<or>
       is_some_and (case strip_prefix rest '' is '' of None \<Rightarrow> strip_prefix rest '' are '' | Some r \<Rightarrow> Some r)
         generic_done_when_state)"

definition is_generic_done_when_claim :: "string \<Rightarrow> bool" where
  "is_generic_done_when_claim lower_text \<longleftrightarrow>
     (let claim = trim_end_where claim_punctuation lower_text in
      claim \<in> {''complete'', ''completed'', ''done'', ''finished''} \<or> generic_done_when_predicate claim \<or>
      list_ex (generic_subject_claim claim) GENERIC_DONE_WHEN_SUBJECTS)"

text \<open>A character ends a sentence when it is a terminator and white space or nothing follows it.\<close>

fun sentence_terminator_count :: "string \<Rightarrow> nat" where
  "sentence_terminator_count [] = 0"
| "sentence_terminator_count (c # cs) =
     (if c \<in> set ''.!?'' \<and> (case cs of [] \<Rightarrow> True | d # _ \<Rightarrow> is_ws d) then 1 else 0) + sentence_terminator_count cs"

subsection \<open>References to the specification\<close>

definition is_constraining_spec_id :: "string \<Rightarrow> bool" where
  "is_constraining_spec_id spec_id \<longleftrightarrow> starts_with spec_id ''DEC-'' \<or> starts_with spec_id ''NONGOAL-''"

definition task_contract_mentions_spec_sensitive_semantics :: "TaskContractFields \<Rightarrow> bool" where
  "task_contract_mentions_spec_sensitive_semantics fs =
     (let s = tcf_goal fs @ concat (map (\<lambda>v. newline # v) (tcf_constraints fs @ tcf_done_when fs));
          lower_text = to_ascii_lowercase (normalize_whitespace s)
      in list_ex (str_contains lower_text) SPEC_CONTEXT_TRIGGER_PHRASES)"

definition spec_id_char :: "char \<Rightarrow> bool" where
  "spec_id_char c \<longleftrightarrow> is_ascii_alphanumeric c \<or> c = CHR ''-''"

definition references_spec_id :: "string \<Rightarrow> string \<Rightarrow> bool" where
  "references_spec_id line expected_id \<longleftrightarrow>
     expected_id \<in> set (split_where (\<lambda>c. \<not> spec_id_char c) (normalize_whitespace line))"

definition context_references_spec_id :: "string list \<Rightarrow> string \<Rightarrow> bool" where
  "context_references_spec_id context_lines expected_id \<longleftrightarrow>
     list_ex (\<lambda>line. references_spec_id line expected_id) context_lines"

definition requires_explicit_spec_context :: "string list \<Rightarrow> TaskContractFields \<Rightarrow> bool" where
  "requires_explicit_spec_context spec_coverage fs \<longleftrightarrow>
     list_ex is_constraining_spec_id spec_coverage \<or> task_contract_mentions_spec_sensitive_semantics fs"

definition context_references_required_spec_ids :: "string list \<Rightarrow> TaskContractFields \<Rightarrow> bool" where
  "context_references_required_spec_ids spec_coverage fs \<longleftrightarrow>
     list_all (context_references_spec_id (tcf_context fs)) (filter is_constraining_spec_id spec_coverage) \<and>
     (\<not> task_contract_mentions_spec_sensitive_semantics fs \<or>
      list_ex (context_references_spec_id (tcf_context fs)) spec_coverage)"

definition is_filler_context :: "string \<Rightarrow> bool" where
  "is_filler_context line \<longleftrightarrow>
     to_ascii_lowercase (normalize_whitespace line) \<in>
       {'''', ''n/a'', ''none'', ''tbd'', ''implementation detail'', ''context''}"

subsection \<open>Validation of a task\<close>

text \<open>Each check of \<^verbatim>\<open>validate_task_contract\<close> pushes a diagnostic, after clearing the flag of its
  field and the one that says the task is self-contained.\<close>

definition task_phrase :: "nat \<Rightarrow> string \<Rightarrow> string" where
  "task_phrase task_number s = ''Task '' @ show_nat task_number @ s"

definition reject_goal :: "string \<Rightarrow> string \<Rightarrow> TaskContractValidation \<Rightarrow> TaskContractValidation" where
  "reject_goal code msg v = validation_push code msg (v\<lparr>task_goal_valid := False, task_self_contained := False\<rparr>)"

definition reject_context :: "string \<Rightarrow> string \<Rightarrow> TaskContractValidation \<Rightarrow> TaskContractValidation" where
  "reject_context code msg v =
     validation_push code msg (v\<lparr>task_context_sufficient := False, task_self_contained := False\<rparr>)"

definition reject_constraints :: "string \<Rightarrow> string \<Rightarrow> TaskContractValidation \<Rightarrow> TaskContractValidation" where
  "reject_constraints code msg v =
     validation_push code msg (v\<lparr>task_constraints_valid := False, task_self_contained := False\<rparr>)"

definition reject_done_when :: "string \<Rightarrow> string \<Rightarrow> TaskContractValidation \<Rightarrow> TaskContractValidation" where
  "reject_done_when code msg v =
     validation_push code msg (v\<lparr>task_done_when_deterministic := False, task_self_contained := False\<rparr>)"

definition validate_goal ::
  "nat \<Rightarrow> string \<Rightarrow> TaskContractFields \<Rightarrow> TaskContractValidation \<Rightarrow> TaskContractValidation" where
  "validate_goal task_number title fs v =
     (let goal = normalize_whitespace (tcf_goal fs);
          v = (if goal = [] then reject_goal ''task_missing_goal'' (task_phrase task_number '' is missing Goal.'') v
               else
                 let v = (if eq_ignore_ascii_case goal (normalize_whitespace title)
                          then reject_goal ''task_not_self_contained''
                                 (task_phrase task_number '' Goal must describe a concrete outcome beyond the title.'') v
                          else v)
                 in if 1 < sentence_terminator_count goal
                    then reject_goal ''task_goal_not_atomic''
                           (task_phrase task_number '' Goal must be exactly one sentence.'') v
                    else v)
      in case detect_ambiguous_task_wording (to_ascii_lowercase (tcf_goal fs)) of
           Some phrase \<Rightarrow> reject_goal ''ambiguous_task_wording''
             (task_phrase task_number ('' Goal uses ambiguous wording ('' @ quoted phrase @ '').'')) v
         | None \<Rightarrow> v)"

definition validate_context ::
  "nat \<Rightarrow> string list \<Rightarrow> TaskContractFields \<Rightarrow> TaskContractValidation \<Rightarrow> TaskContractValidation" where
  "validate_context task_number spec_coverage fs v =
     (let v = (if tcf_context fs = []
               then reject_context ''task_missing_context'' (task_phrase task_number '' is missing Context.'') v
               else if list_ex is_filler_context (tcf_context fs)
               then reject_context ''task_not_self_contained''
                      (task_phrase task_number '' Context contains filler instead of implementation context.'') v
               else v);
          v = (if requires_explicit_spec_context spec_coverage fs \<and>
                  \<not> context_references_required_spec_ids spec_coverage fs
               then reject_context ''missing_spec_context'' (task_phrase task_number
                      '' Context must cite the decision, non-goal, or spec detail that constrains this task.'') v
               else v)
      in case detect_ambiguous_field_wording (tcf_context fs) of
           Some phrase \<Rightarrow> reject_context ''ambiguous_task_wording''
             (task_phrase task_number ('' Context uses ambiguous wording ('' @ quoted phrase @ '').'')) v
         | None \<Rightarrow> v)"

definition validate_constraints ::
  "nat \<Rightarrow> TaskContractFields \<Rightarrow> TaskContractValidation \<Rightarrow> TaskContractValidation" where
  "validate_constraints task_number fs v =
     (let v = (if tcf_constraints fs = []
               then reject_constraints ''task_missing_constraints''
                      (task_phrase task_number '' is missing Constraints.'') v
               else v)
      in case detect_ambiguous_field_wording (tcf_constraints fs) of
           Some phrase \<Rightarrow> reject_constraints ''ambiguous_task_wording''
             (task_phrase task_number ('' Constraints use ambiguous wording ('' @ quoted phrase @ '').'')) v
         | None \<Rightarrow> v)"

abbreviation nondeterministic_done_when ::
  "nat \<Rightarrow> string \<Rightarrow> TaskContractValidation \<Rightarrow> TaskContractValidation" where
  "nondeterministic_done_when task_number msg \<equiv>
     reject_done_when ''task_nondeterministic_done_when'' (task_phrase task_number msg)"

definition validate_done_when_bullet ::
  "nat \<Rightarrow> string \<Rightarrow> TaskContractValidation \<Rightarrow> TaskContractValidation" where
  "validate_done_when_bullet task_number bullet v =
     (let normalized = normalize_whitespace bullet in
      if normalized = []
      then reject_done_when ''task_empty_done_when''
             (task_phrase task_number '' contains an empty Done when obligation.'') v
      else
        let lower = to_ascii_lowercase normalized;
            ambiguous_phrase = detect_ambiguous_task_wording lower;
            v = (case ambiguous_phrase of
                   Some phrase \<Rightarrow> nondeterministic_done_when task_number
                     ('' Done when obligation uses ambiguous wording ('' @ quoted phrase @ '').'') v
                 | None \<Rightarrow> v);
            v = (if ambiguous_phrase = None \<and> is_generic_done_when_claim lower
                 then nondeterministic_done_when task_number
                        '' Done when obligation is too generic to review deterministically.'' v
                 else v);
            v = (if ambiguous_phrase = None \<and> is_underspecified_hedged_done_when_claim lower
                 then nondeterministic_done_when task_number
                        '' Done when obligation uses hedged wording without an exact condition.'' v
                 else v)
        in if lower = ''tests pass'' \<or> lower = ''all tests pass''
           then nondeterministic_done_when task_number
                  '' Done when must name the relevant test surface when tests are the evidence.'' v
           else v)"

definition validate_done_when ::
  "nat \<Rightarrow> TaskContractFields \<Rightarrow> TaskContractValidation \<Rightarrow> TaskContractValidation" where
  "validate_done_when task_number fs v =
     (let v = (if tcf_done_when fs = []
               then validation_push ''task_empty_done_when''
                      (task_phrase task_number '' Done when must contain at least one obligation.'')
                      (reject_done_when ''task_missing_done_when''
                        (task_phrase task_number '' is missing Done when.'') v)
               else v)
      in fold (validate_done_when_bullet task_number) (tcf_done_when fs) v)"

definition validate_task_contract ::
  "nat \<Rightarrow> string \<Rightarrow> string list \<Rightarrow> TaskContractFields \<Rightarrow> TaskContractValidation" where
  "validate_task_contract task_number title spec_coverage fs =
     validate_done_when task_number fs
       (validate_constraints task_number fs
         (validate_context task_number spec_coverage fs
           (validate_goal task_number title fs validation_valid)))"

subsection \<open>Duplicate intents\<close>

definition normalized_task_intent :: "TaskContractFields \<Rightarrow> string" where
  "normalized_task_intent fs = to_ascii_lowercase (normalize_whitespace (tcf_goal fs))"

type_synonym TaskIntentSource = "nat \<times> string"

definition add_task_intent :: "TaskIntentSource \<Rightarrow> (string \<times> nat list) list \<Rightarrow> (string \<times> nat list) list" where
  "add_task_intent task by_intent =
     (case task of (number, goal) \<Rightarrow>
        let intent = to_ascii_lowercase (normalize_whitespace goal) in
        if intent = [] then by_intent
        else obj_insert intent ((case obj_get by_intent intent of None \<Rightarrow> [] | Some ns \<Rightarrow> ns) @ [number]) by_intent)"

definition detect_duplicate_task_intents :: "TaskIntentSource list \<Rightarrow> nat list list" where
  "detect_duplicate_task_intents tasks =
     filter (\<lambda>ns. 1 < length ns) (map snd (fold add_task_intent tasks []))"

end
