(* ===== verification/Plan_Contract.thy ===== *)
theory Plan_Contract
  imports Task_Contract
begin

text \<open>Specification and plan documents (\<^verbatim>\<open>src/contracts/headers.rs\<close>, \<^verbatim>\<open>src/contracts/spec.rs\<close> and the
  parsers of \<^verbatim>\<open>src/contracts/plan.rs\<close>).  The path of a document relative to its repository, which the
  code finds by looking for a marker directory above the file, is an argument.\<close>

subsection \<open>Types\<close>

record Requirement =
  req_id :: string
  req_kind :: string
  req_text :: string

record SpecDocument =
  sd_path :: string
  sd_workflow_state :: string
  sd_spec_revision :: nat
  sd_last_reviewed_by :: string
  sd_requirements :: "Requirement list"
  sd_source :: string

record PlanStep =
  ps_number :: nat
  ps_text :: string

record TaskFileEntry =
  tfe_action :: string
  tfe_path :: string

record PlanTask =
  pt_number :: nat
  pt_title :: string
  pt_spec_coverage :: "string list"
  pt_goal :: string
  pt_context :: "string list"
  pt_constraints :: "string list"
  pt_done_when :: "string list"
  pt_files :: "TaskFileEntry list"
  pt_steps :: "PlanStep list"

record PlanDocument =
  pd_path :: string
  pd_workflow_state :: string
  pd_plan_revision :: nat
  pd_execution_mode :: string
  pd_source_spec_path :: string
  pd_source_spec_revision :: nat
  pd_last_reviewed_by :: string
  pd_qa_requirement :: "string option"
  pd_coverage_matrix :: "(string \<times> nat list) list"
  pd_tasks :: "PlanTask list"
  pd_source :: string

definition PLAN_QA_REQUIREMENT_VALUES :: "string list" where
  "PLAN_QA_REQUIREMENT_VALUES = [''required'', ''not-required'']"

definition PLAN_WORKFLOW_STATE_DRAFT :: string where
  "PLAN_WORKFLOW_STATE_DRAFT = ''Draft''"

definition PLAN_WORKFLOW_STATE_ENGINEERING_APPROVED :: string where
  "PLAN_WORKFLOW_STATE_ENGINEERING_APPROVED = ''Engineering Approved''"

definition PLAN_REVIEWER_WRITING_PLANS :: string where
  "PLAN_REVIEWER_WRITING_PLANS = ''writing-plans''"

definition PLAN_REVIEWER_PLAN_ENG_REVIEW :: string where
  "PLAN_REVIEWER_PLAN_ENG_REVIEW = ''plan-eng-review''"

type_synonym 'a checked = "DiagnosticError + 'a"

definition instruction_parse_failed :: "string \<Rightarrow> DiagnosticError" where
  "instruction_parse_failed msg = \<lparr>de_failure_class = InstructionParseFailed, de_message = msg\<rparr>"

definition contract_error :: "TaskContractParseError \<Rightarrow> DiagnosticError" where
  "contract_error e = instruction_parse_failed (tce_message e)"

fun map_error :: "('e \<Rightarrow> 'f) \<Rightarrow> 'e + 'a \<Rightarrow> 'f + 'a" where
  "map_error f (Inl e) = Inl (f e)"
| "map_error f (Inr x) = Inr x"

definition ok_or :: "'e \<Rightarrow> 'a option \<Rightarrow> 'e + 'a" where
  "ok_or e a = (case a of None \<Rightarrow> Inl e | Some x \<Rightarrow> Inr x)"

subsection \<open>Headers\<close>

definition parse_required_header :: "string \<Rightarrow> string \<Rightarrow> string option" where
  "parse_required_header source header =
     find_map (\<lambda>line. strip_prefix line (field_prefix header)) (str_lines source)"

subsection \<open>Specifications\<close>

definition spec_missing_header :: "string \<Rightarrow> DiagnosticError" where
  "spec_missing_header header = instruction_parse_failed (''Missing or malformed '' @ header @ '' header.'')"

definition spec_required_header :: "string \<Rightarrow> string \<Rightarrow> string checked" where
  "spec_required_header source header =
     ok_or (spec_missing_header header) (parse_required_header source header)"

definition parse_requirement_line :: "string \<Rightarrow> Requirement option" where
  "parse_requirement_line line =
     Option.bind (strip_prefix line ''- ['') (\<lambda>rest.
     Option.bind (split_once_str '']['' rest) (\<lambda>(rid, rest).
     Option.bind (split_once_str ''] '' rest) (\<lambda>(kind, s).
       Some \<lparr>req_id = rid, req_kind = kind, req_text = s\<rparr>)))"

fun requirement_lines :: "bool \<Rightarrow> bool \<Rightarrow> string list \<Rightarrow> Requirement list checked" where
  "requirement_lines in_fence in_index [] = Inr []"
| "requirement_lines in_fence in_index (line # lines) =
     (if starts_with (trim_start line) ''```'' then requirement_lines (\<not> in_fence) in_index lines
      else if in_fence then requirement_lines in_fence in_index lines
      else if line = ''## Requirement Index'' then requirement_lines in_fence True lines
      else if in_index \<and> starts_with line ''## '' then Inr []
      else if \<not> in_index then requirement_lines in_fence in_index lines
      else let trimmed = trim line in
        if trimmed = [] then requirement_lines in_fence in_index lines
        else case parse_requirement_line trimmed of
          Some requirement \<Rightarrow>
            res_bind (requirement_lines in_fence in_index lines) (\<lambda>rs. Inr (requirement # rs))
        | None \<Rightarrow> Inl (instruction_parse_failed (''Malformed requirement index entry: '' @ trimmed)))"

definition parse_requirement_index :: "string \<Rightarrow> Requirement list checked" where
  "parse_requirement_index source =
     res_bind (requirement_lines False False (str_lines source)) (\<lambda>requirements.
       if requirements = [] then Inl (instruction_parse_failed ''Missing requirement index.'')
       else Inr requirements)"

definition parse_spec_source :: "string \<Rightarrow> string \<Rightarrow> SpecDocument checked" where
  "parse_spec_source path source =
     res_bind (spec_required_header source ''Workflow State'') (\<lambda>workflow_state.
     res_bind (spec_required_header source ''Spec Revision'') (\<lambda>revision.
     res_bind (ok_or (spec_missing_header ''Spec Revision'') (parse_u32 revision)) (\<lambda>spec_revision.
     res_bind (spec_required_header source ''Last Reviewed By'') (\<lambda>last_reviewed_by.
     res_bind (parse_requirement_index source) (\<lambda>requirements. Inr
       \<lparr>sd_path = path, sd_workflow_state = workflow_state, sd_spec_revision = spec_revision,
        sd_last_reviewed_by = last_reviewed_by, sd_requirements = requirements, sd_source = source\<rparr>)))))"

subsection \<open>Headers of a plan\<close>

definition malformed_header :: "string \<Rightarrow> DiagnosticError" where
  "malformed_header header = instruction_parse_failed (header @ '' header is missing or malformed.'')"

definition missing_header :: "string \<Rightarrow> DiagnosticError" where
  "missing_header header = instruction_parse_failed (''Missing or malformed '' @ header @ ''.'')"

definition plan_required_header :: "string \<Rightarrow> string \<Rightarrow> string checked" where
  "plan_required_header source header = ok_or (missing_header header) (parse_required_header source header)"

definition plan_last_reviewer_is_valid_for_state :: "string \<Rightarrow> string \<Rightarrow> bool" where
  "plan_last_reviewer_is_valid_for_state workflow_state last_reviewed_by \<longleftrightarrow>
     workflow_state = PLAN_WORKFLOW_STATE_DRAFT \<and>
       last_reviewed_by \<in> {PLAN_REVIEWER_WRITING_PLANS, PLAN_REVIEWER_PLAN_ENG_REVIEW} \<or>
     workflow_state = PLAN_WORKFLOW_STATE_ENGINEERING_APPROVED \<and>
       last_reviewed_by = PLAN_REVIEWER_PLAN_ENG_REVIEW"

definition plan_fidelity_review_applicable_workflow_state :: "string \<Rightarrow> bool" where
  "plan_fidelity_review_applicable_workflow_state workflow_state \<longleftrightarrow>
     workflow_state \<in> {PLAN_WORKFLOW_STATE_DRAFT, PLAN_WORKFLOW_STATE_ENGINEERING_APPROVED}"

definition plan_fidelity_review_applicable :: "PlanDocument \<Rightarrow> bool" where
  "plan_fidelity_review_applicable plan = plan_fidelity_review_applicable_workflow_state (pd_workflow_state plan)"

definition validate_plan_workflow_state :: "string \<Rightarrow> unit checked" where
  "validate_plan_workflow_state workflow_state =
     (if workflow_state \<in> {PLAN_WORKFLOW_STATE_DRAFT, PLAN_WORKFLOW_STATE_ENGINEERING_APPROVED} then Inr ()
      else Inl (malformed_header ''Workflow State''))"

definition validate_plan_execution_mode :: "string \<Rightarrow> unit checked" where
  "validate_plan_execution_mode execution_mode =
     (if execution_mode \<in> {''none'', ''featureforge:executing-plans'', ''featureforge:subagent-driven-development''}
      then Inr () else Inl (malformed_header ''Execution Mode''))"

definition validate_plan_last_reviewer_for_state :: "string \<Rightarrow> string \<Rightarrow> unit checked" where
  "validate_plan_last_reviewer_for_state workflow_state last_reviewed_by =
     (if plan_last_reviewer_is_valid_for_state workflow_state last_reviewed_by then Inr ()
      else Inl (malformed_header ''Last Reviewed By''))"

definition normalize_plan_qa_requirement :: "string \<Rightarrow> string option" where
  "normalize_plan_qa_requirement v =
     (let normalized = to_ascii_lowercase (trim v) in find (\<lambda>allowed. normalized = allowed) PLAN_QA_REQUIREMENT_VALUES)"

subsection \<open>The coverage matrix\<close>

definition parse_coverage_task :: "string \<Rightarrow> nat checked" where
  "parse_coverage_task task =
     ok_or (instruction_parse_failed (''Malformed coverage task number: '' @ task)) (parse_u32 task)"

fun coverage_lines :: "bool \<Rightarrow> (string \<times> nat list) list \<Rightarrow> string list \<Rightarrow> (string \<times> nat list) list checked" where
  "coverage_lines in_matrix coverage [] = Inr coverage"
| "coverage_lines in_matrix coverage (line # lines) =
     (if line = ''## Requirement Coverage Matrix'' then coverage_lines True coverage lines
      else if in_matrix \<and> starts_with line ''## '' then Inr coverage
      else if \<not> in_matrix then coverage_lines in_matrix coverage lines
      else let trimmed = trim line in
        if trimmed = [] then coverage_lines in_matrix coverage lines
        else case strip_prefix trimmed ''- '' of
          None \<Rightarrow> coverage_lines in_matrix coverage lines
        | Some rest \<Rightarrow>
            (case split_once_str '' -> '' rest of
               None \<Rightarrow> Inl (instruction_parse_failed (''Malformed coverage matrix entry: '' @ trimmed))
             | Some (requirement_id, task_list) \<Rightarrow>
                 (case collect_results parse_coverage_task
                         (split_str '', Task '' (trim_start_matches ''Task '' task_list)) of
                    Inl e \<Rightarrow> Inl e
                  | Inr tasks \<Rightarrow> coverage_lines in_matrix (obj_insert requirement_id tasks coverage) lines)))"

definition parse_coverage_matrix :: "string \<Rightarrow> (string \<times> nat list) list checked" where
  "parse_coverage_matrix source = coverage_lines False [] (str_lines source)"

subsection \<open>Tasks\<close>

definition plan_scalar_field :: "string list \<Rightarrow> string \<Rightarrow> string checked" where
  "plan_scalar_field lines field =
     ok_or (missing_header field) (find_map (\<lambda>line. strip_prefix line (field_prefix field)) lines)"

definition parse_csv_field :: "string list \<Rightarrow> string \<Rightarrow> string list checked" where
  "parse_csv_field lines field =
     res_bind (plan_scalar_field lines field) (\<lambda>s. Inr (filter (\<lambda>v. v \<noteq> []) (split_str '', '' s)))"

definition is_plan_step_prefix :: "string \<Rightarrow> bool" where
  "is_plan_step_prefix line \<longleftrightarrow>
     (case strip_prefix line ''- ['' of
        None \<Rightarrow> False
      | Some [] \<Rightarrow> False
      | Some (mark # rest) \<Rightarrow> (mark = CHR ''x'' \<or> mark = CHR '' '') \<and> starts_with rest ''] **Step '')"

abbreviation backtick :: char where
  "backtick \<equiv> CHR 0x60"

definition parse_file_entry :: "string \<Rightarrow> TaskFileEntry checked" where
  "parse_file_entry trimmed =
     (let malformed = instruction_parse_failed (''Malformed files block entry: '' @ trimmed) in
      res_bind (ok_or malformed (strip_prefix trimmed ''- '')) (\<lambda>rest.
      res_bind (ok_or malformed (split_once_str '': '' rest)) (\<lambda>(action, path).
        if action \<notin> {''Create'', ''Modify'', ''Delete'', ''Test''} then Inl malformed
        else if \<not> (starts_with path [backtick] \<and> ends_with path [backtick]) then Inl malformed
        else res_bind (map_error (\<lambda>_. malformed)
               (normalize_repo_relative_file_reference (trim_matches (\<lambda>c. c = backtick) path))) (\<lambda>normalized.
             Inr \<lparr>tfe_action = action, tfe_path = normalized\<rparr>))))"

fun file_entry_lines :: "bool \<Rightarrow> string list \<Rightarrow> TaskFileEntry list checked" where
  "file_entry_lines collecting [] = Inr []"
| "file_entry_lines collecting (line # lines) =
     (if line = ''**Files:**'' then file_entry_lines True lines
      else if collecting \<and> is_plan_step_prefix (trim line) then Inr []
      else if \<not> collecting then file_entry_lines collecting lines
      else let trimmed = trim line in
        if trimmed = [] then file_entry_lines collecting lines
        else res_bind (parse_file_entry trimmed) (\<lambda>entry.
             res_bind (file_entry_lines collecting lines) (\<lambda>entries. Inr (entry # entries))))"

text \<open>An empty result covers the case that no files block was seen, since entries are read in one only.\<close>

definition parse_file_entries :: "string list \<Rightarrow> TaskFileEntry list checked" where
  "parse_file_entries lines =
     res_bind (file_entry_lines False lines) (\<lambda>entries.
       if entries = [] then Inl (instruction_parse_failed ''Task is missing a parseable Files block.'')
       else Inr entries)"

definition parse_plan_step_line :: "string \<Rightarrow> (nat \<times> string) option checked" where
  "parse_plan_step_line line =
     map_error contract_error
       (res_bind (parse_task_step_line line) (\<lambda>s. Inr (map_option (\<lambda>step. (tsl_number step, tsl_text step)) s)))"

fun parse_steps :: "string list \<Rightarrow> PlanStep list checked" where
  "parse_steps [] = Inr []"
| "parse_steps (line # lines) =
     (case parse_plan_step_line (trim line) of
        Inl e \<Rightarrow> Inl e
      | Inr None \<Rightarrow> parse_steps lines
      | Inr (Some (number, s)) \<Rightarrow>
          res_bind (parse_steps lines) (\<lambda>steps. Inr (\<lparr>ps_number = number, ps_text = s\<rparr> # steps)))"

definition parse_task_chunk :: "string \<Rightarrow> PlanTask checked" where
  "parse_task_chunk chunk =
     (case str_lines chunk of
        [] \<Rightarrow> Inl (missing_header ''Task heading'')
      | heading # block \<Rightarrow>
          res_bind (ok_or (missing_header ''Task heading'') (strip_prefix heading ''## Task '')) (\<lambda>heading.
          res_bind (ok_or (missing_header ''Task heading'') (split_once_str '': '' heading)) (\<lambda>(number, title).
          res_bind (parse_csv_field block ''Spec Coverage'') (\<lambda>spec_coverage.
          res_bind (ok_or (missing_header ''Task number'') (parse_u32 number)) (\<lambda>task_number.
          res_bind (map_error contract_error (parse_task_contract_fields task_number block)) (\<lambda>contract_fields.
          res_bind (parse_file_entries block) (\<lambda>entries.
          res_bind (parse_steps block) (\<lambda>steps. Inr
            \<lparr>pt_number = task_number, pt_title = title, pt_spec_coverage = spec_coverage,
             pt_goal = tcf_goal contract_fields, pt_context = tcf_context contract_fields,
             pt_constraints = tcf_constraints contract_fields, pt_done_when = tcf_done_when contract_fields,
             pt_files = entries, pt_steps = steps\<rparr>))))))))"

definition parse_tasks :: "string \<Rightarrow> PlanTask list checked" where
  "parse_tasks source =
     res_bind (map_error contract_error (split_canonical_task_blocks source))
       (collect_results (\<lambda>task. parse_task_chunk (ctb_source task)))"

definition parse_plan_source :: "string \<Rightarrow> string \<Rightarrow> PlanDocument checked" where
  "parse_plan_source path source =
     res_bind (plan_required_header source ''Workflow State'') (\<lambda>workflow_state.
     res_bind (validate_plan_workflow_state workflow_state) (\<lambda>_.
     res_bind (plan_required_header source ''Plan Revision'') (\<lambda>revision.
     res_bind (ok_or (missing_header ''Plan Revision'') (parse_u32 revision)) (\<lambda>plan_revision.
     res_bind (plan_required_header source ''Execution Mode'') (\<lambda>execution_mode.
     res_bind (validate_plan_execution_mode execution_mode) (\<lambda>_.
     res_bind (plan_required_header source ''Source Spec'') (\<lambda>spec_path.
     res_bind (map_error (\<lambda>_. missing_header ''Source Spec'')
       (normalize_repo_relative_path (trim_matches (\<lambda>c. c = backtick) spec_path))) (\<lambda>source_spec_path.
     res_bind (plan_required_header source ''Source Spec Revision'') (\<lambda>spec_revision.
     res_bind (ok_or (missing_header ''Source Spec Revision'') (parse_u32 spec_revision)) (\<lambda>source_spec_revision.
     res_bind (plan_required_header source ''Last Reviewed By'') (\<lambda>last_reviewed_by.
     res_bind (validate_plan_last_reviewer_for_state workflow_state last_reviewed_by) (\<lambda>_.
     res_bind (parse_coverage_matrix source) (\<lambda>coverage_matrix.
     res_bind (parse_tasks source) (\<lambda>tasks. Inr
       \<lparr>pd_path = path, pd_workflow_state = workflow_state, pd_plan_revision = plan_revision,
        pd_execution_mode = execution_mode, pd_source_spec_path = source_spec_path,
        pd_source_spec_revision = source_spec_revision, pd_last_reviewed_by = last_reviewed_by,
        pd_qa_requirement = Option.bind (parse_required_header source ''QA Requirement'') normalize_plan_qa_requirement,
        pd_coverage_matrix = coverage_matrix, pd_tasks = tasks, pd_source = source\<rparr>))))))))))))))"

end
