(* ===== verification/Plan_Correct.thy ===== *)
theory Plan_Correct
  imports Plan_Contract
begin

text \<open>What a parsed plan guarantees: its header values, the numbers of its tasks and steps, and the files
  its tasks name.\<close>

subsection \<open>Results\<close>

lemma ok_or_Inr [simp]: "ok_or e a = Inr x \<longleftrightarrow> a = Some x"
  by (simp add: ok_or_def split: option.splits)

lemma map_error_Inr [simp]: "map_error f r = Inr x \<longleftrightarrow> r = Inr x"
  by (cases r) simp_all

lemma collect_results_Inr:
  "collect_results f xs = Inr ys \<Longrightarrow> list_all2 (\<lambda>x y. f x = Inr y) xs ys"
  by (induction xs arbitrary: ys) (auto simp: res_bind_Inr)

subsection \<open>Task numbers\<close>

lemma split_task_lines_Cons:
  assumes "split_task_lines seen (line # lines) = Inr tasks"
  obtains (skip) "split_task_lines seen lines = Inr tasks"
  | (task) number block rest ts where "parse_canonical_task_heading_number line = Inr number" "number \<notin> set seen"
      "take_block lines = Inr (block, rest)" "split_task_lines (number # seen) rest = Inr ts"
      "tasks = \<lparr>ctb_number = number, ctb_source = join_with [newline] (line # block)\<rparr> # ts"
  using assms unfolding split_task_lines.simps
  by (simp add: res_bind_Inr split: if_splits sum.splits prod.splits) blast+

lemma split_task_lines_numbers:
  assumes "split_task_lines seen lines = Inr tasks"
  shows "distinct (map ctb_number tasks) \<and> set (map ctb_number tasks) \<inter> set seen = {}"
  using assms
proof (induction "length lines" arbitrary: lines seen tasks rule: less_induct)
  case less
  show ?case
  proof (cases lines)
    case (Cons line rest_lines)
    from less.prems(1) [unfolded Cons] show ?thesis
    proof (cases rule: split_task_lines_Cons)
      case skip
      from less.hyps [OF _ this] Cons show ?thesis by simp
    next
      case (task number block rest ts)
      from task(3) have "length rest < length lines" using Cons take_block_length by fastforce
      from less.hyps [OF this task(4)] task(2,5) show ?thesis by auto
    qed
  qed (use less.prems in simp)
qed

text \<open>A block starts with its heading, which carries its number.\<close>

definition headed :: "string list \<Rightarrow> CanonicalTaskBlock \<Rightarrow> bool" where
  "headed lines block \<longleftrightarrow>
     (\<exists>line rest. line \<in> set lines \<and> ctb_source block = join_with [newline] (line # rest) \<and>
       parse_canonical_task_heading_number line = Inr (ctb_number block))"

lemma headed_mono: "headed lines block \<Longrightarrow> set lines \<subseteq> set lines' \<Longrightarrow> headed lines' block"
  by (auto simp: headed_def)

lemma take_block_rest: "take_block lines = Inr (block, rest) \<Longrightarrow> set rest \<subseteq> set lines"
  by (induction lines arbitrary: block) (auto simp: res_bind_Inr split: if_splits)

lemma split_task_lines_headed:
  assumes "split_task_lines seen lines = Inr tasks" "block \<in> set tasks"
  shows "headed lines block"
  using assms
proof (induction "length lines" arbitrary: lines seen tasks rule: less_induct)
  case less
  show ?case
  proof (cases lines)
    case (Cons line rest_lines)
    from less.prems(1) [unfolded Cons] show ?thesis
    proof (cases rule: split_task_lines_Cons)
      case skip
      from less.hyps [OF _ this less.prems(2)] Cons have "headed rest_lines block" by simp
      then show ?thesis using Cons by (auto intro: headed_mono)
    next
      case (task number blk rest ts)
      from task(3) have rest: "length rest < length lines" "set rest \<subseteq> set lines"
        using Cons take_block_length take_block_rest by fastforce+
      have "headed lines \<lparr>ctb_number = number, ctb_source = join_with [newline] (line # blk)\<rparr>"
        unfolding headed_def using task(1) Cons by (intro exI [of _ line] exI [of _ blk]) simp
      then show ?thesis using less.hyps [OF rest(1) task(4)] less.prems(2) task(5) rest(2) headed_mono by auto
    qed
  qed (use less.prems in simp)
qed

lemma str_lines_no_newline: "line \<in> set (str_lines s) \<Longrightarrow> newline \<notin> set line"
proof -
  assume "line \<in> set (str_lines s)"
  then obtain p where p: "p \<in> set (split_on newline s)" "set line \<subseteq> set p"
    by (fastforce simp: str_lines_def Let_def strip_cr_def dest: in_set_butlastD split: if_splits intro: last_in_set)
  then show ?thesis using split_on_parts [OF p(1)] by blast
qed

lemma str_lines_join_head:
  assumes "newline \<notin> set line" "line \<noteq> []"
  obtains ls where "str_lines (join_with [newline] (line # rest)) = (if rest = [] then line else strip_cr line) # ls"
proof (cases rest)
  case Nil
  with assms that [of "[]"] show thesis by (simp add: str_lines_def split_on_no_sep)
next
  case (Cons r rs)
  then have "split_on newline (join_with [newline] (line # rest)) = line # split_on newline (join_with [newline] rest)"
    using split_on_append_sep [OF assms(1)] by (simp add: join_with.simps)
  with Cons that show thesis by (simp add: str_lines_def)
qed

lemma starts_with_later: "starts_with ((u @ pat) @ b) pat \<longleftrightarrow> starts_with ((u @ pat) @ c) pat"
proof -
  have "take (length pat) ((u @ pat) @ t) = take (length pat) (u @ pat)" for t by (simp del: append_assoc)
  then show ?thesis by (simp only: starts_with_def)
qed

lemma split_once_str_replace:
  "split_once_str pat s = Some (a, b) \<Longrightarrow> pat \<noteq> [] \<Longrightarrow> split_once_str pat (a @ pat @ c) = Some (a, c)"
proof (induction pat s arbitrary: a rule: split_once_str.induct)
  case (2 pat x xs)
  show ?case
  proof (cases "starts_with (x # xs) pat")
    case True
    with 2(2,3) show ?thesis by (cases pat) (auto simp: starts_with_def)
  next
    case False
    with 2(2) obtain a' where a: "a = x # a'" "split_once_str pat xs = Some (a', b)" by auto
    from 2(1) [OF False a(2) 2(3)] have "split_once_str pat (a' @ pat @ c) = Some (a', c)" .
    moreover have "xs = a' @ pat @ b" using split_once_str_Some [OF a(2)] .
    with False have "\<not> starts_with (x # a' @ pat @ c) pat"
      using starts_with_later [of "x # a'" pat b c] by simp
    ultimately show ?thesis using a by simp
  qed
qed simp

lemma heading_number_Inr:
  assumes "parse_canonical_task_heading_number line = Inr n"
  obtains num title where "line = ''## Task '' @ num @ '': '' @ title"
    "\<And>t. split_once_str '': '' (num @ '': '' @ t) = Some (num, t)" "parse_u32 num = Some n"
proof -
  from assms obtain heading num title where h: "strip_prefix line ''## Task '' = Some heading"
    "split_once_str '': '' heading = Some (num, title)" "parse_u32 num = Some n"
    by (auto simp: parse_canonical_task_heading_number_def split: option.splits)
  show thesis
    by (rule that [of num title])
      (use h split_once_str_replace [OF h(2)] in \<open>simp_all add: h(1) [unfolded strip_prefix_Some] split_once_str_Some [OF h(2)]\<close>)
qed

lemma parse_task_chunk_number:
  assumes "headed lines block" "\<forall>line\<in>set lines. newline \<notin> set line" "parse_task_chunk (ctb_source block) = Inr task"
  shows "pt_number task = ctb_number block"
proof -
  from assms(1) obtain line rest where src: "ctb_source block = join_with [newline] (line # rest)" "line \<in> set lines"
    and n: "parse_canonical_task_heading_number line = Inr (ctb_number block)"
    unfolding headed_def by blast
  obtain num title where line: "line = ''## Task '' @ num @ '': '' @ title"
    "\<And>t. split_once_str '': '' (num @ '': '' @ t) = Some (num, t)" "parse_u32 num = Some (ctb_number block)"
    using heading_number_Inr [OF n] by blast
  define title' where "title' = (if rest = [] then title else strip_cr title)"
  have "(if rest = [] then line else strip_cr line) = ''## Task '' @ num @ '': '' @ title'"
    by (auto simp: line(1) title'_def strip_cr_def butlast_append)
  moreover have "newline \<notin> set line" "line \<noteq> []" using assms(2) src(2) line(1) by blast+
  then obtain ls where "str_lines (ctb_source block) = (if rest = [] then line else strip_cr line) # ls"
    unfolding src(1) by (rule str_lines_join_head)
  ultimately have "str_lines (ctb_source block) = (''## Task '' @ num @ '': '' @ title') # ls" by simp
  moreover have "strip_prefix (''## Task '' @ num @ '': '' @ title') ''## Task '' = Some (num @ '': '' @ title')"
    by (simp add: strip_prefix_def starts_with_def)
  ultimately show ?thesis using assms(3) line(2) [of title'] line(3)
    by (auto simp: parse_task_chunk_def res_bind_Inr)
qed

subsection \<open>Files\<close>

definition safe_reference :: "string \<Rightarrow> bool" where
  "safe_reference p \<longleftrightarrow>
     p \<noteq> [] \<and> \<not> starts_with p ''/'' \<and> CHR 0x5C \<notin> set p \<and>
     (\<forall>q\<in>set (split_on (CHR ''/'') p). q \<noteq> [] \<and> q \<noteq> ''.'' \<and> q \<noteq> ''..'')"

definition valid_file_entry :: "TaskFileEntry \<Rightarrow> bool" where
  "valid_file_entry f \<longleftrightarrow>
     tfe_action f \<in> {''Create'', ''Modify'', ''Delete'', ''Test''} \<and> safe_reference (tfe_path f)"

lemma normalized_path_safe_reference: "normalize_repo_relative_path s = Inr p \<Longrightarrow> safe_reference p"
  using normalized_path_components [of s p] unfolding safe_reference_def by blast

lemma parse_file_entry_valid: "parse_file_entry s = Inr f \<Longrightarrow> valid_file_entry f"
  by (auto simp: parse_file_entry_def Let_def res_bind_Inr valid_file_entry_def
      normalize_repo_relative_file_reference_def split: if_splits intro: normalized_path_safe_reference)

lemma file_entry_lines_valid: "file_entry_lines collecting lines = Inr fs \<Longrightarrow> \<forall>f\<in>set fs. valid_file_entry f"
  by (induction lines arbitrary: collecting fs)
    (auto simp: res_bind_Inr Let_def split: if_splits dest: parse_file_entry_valid)

definition well_formed_task :: "PlanTask \<Rightarrow> bool" where
  "well_formed_task t \<longleftrightarrow>
     pt_number t \<le> u32_max \<and> pt_files t \<noteq> [] \<and> (\<forall>f\<in>set (pt_files t). valid_file_entry f)"

lemma parse_task_chunk_well_formed: "parse_task_chunk chunk = Inr t \<Longrightarrow> well_formed_task t"
  using parse_uint_bound file_entry_lines_valid
  by (fastforce simp: parse_task_chunk_def parse_file_entries_def res_bind_Inr well_formed_task_def
      split: list.splits if_splits)

lemma parse_tasks_well_formed:
  assumes "parse_tasks source = Inr tasks"
  shows "distinct (map pt_number tasks) \<and> (\<forall>t\<in>set tasks. well_formed_task t)"
proof -
  from assms obtain blocks where b: "split_task_lines [] (str_lines source) = Inr blocks"
    "list_all2 (\<lambda>b t. parse_task_chunk (ctb_source b) = Inr t) blocks tasks"
    by (auto simp: parse_tasks_def res_bind_Inr split_canonical_task_blocks_def dest: collect_results_Inr)
  have "list_all2 (\<lambda>b t. pt_number t = ctb_number b) blocks tasks"
  proof (rule list.rel_mono_strong [OF b(2)])
    fix block t
    assume "block \<in> set blocks" "parse_task_chunk (ctb_source block) = Inr t"
    then show "pt_number t = ctb_number block"
      using split_task_lines_headed [OF b(1)] str_lines_no_newline parse_task_chunk_number by blast
  qed
  then have "map pt_number tasks = map ctb_number blocks"
    by (induction rule: list_all2_induct) simp_all
  moreover have "\<forall>t\<in>set tasks. well_formed_task t"
    using b(2) parse_task_chunk_well_formed by (fastforce simp: list_all2_iff in_set_conv_nth set_zip)
  ultimately show ?thesis using split_task_lines_numbers [OF b(1)] by simp
qed

text \<open>C28: a plan that parses is well formed: its workflow state, its execution mode and its reviewer are among
  the values that belong together, its source specification is a path inside the repository, its task
  numbers are distinct and fit thirty-two bits, and every task names at least one file, each by one of
  the four actions and by a path inside the repository.\<close>

theorem parsed_plan_is_well_formed:
  assumes "parse_plan_source path source = Inr plan"
  shows "plan_last_reviewer_is_valid_for_state (pd_workflow_state plan) (pd_last_reviewed_by plan) \<and>
    pd_execution_mode plan \<in> {''none'', ''featureforge:executing-plans'', ''featureforge:subagent-driven-development''} \<and>
    pd_plan_revision plan \<le> u32_max \<and> pd_source_spec_revision plan \<le> u32_max \<and>
    safe_reference (pd_source_spec_path plan) \<and>
    distinct (map pt_number (pd_tasks plan)) \<and> (\<forall>t\<in>set (pd_tasks plan). well_formed_task t)"
proof -
  from assms obtain revision revision' spec_path where
    "validate_plan_last_reviewer_for_state (pd_workflow_state plan) (pd_last_reviewed_by plan) = Inr ()"
    "validate_plan_execution_mode (pd_execution_mode plan) = Inr ()"
    "parse_u32 revision = Some (pd_plan_revision plan)" "parse_u32 revision' = Some (pd_source_spec_revision plan)"
    "normalize_repo_relative_path spec_path = Inr (pd_source_spec_path plan)"
    "parse_tasks source = Inr (pd_tasks plan)"
    unfolding parse_plan_source_def by (auto simp: res_bind_Inr)
  then show ?thesis
    using normalized_path_safe_reference [of spec_path] parse_uint_bound parse_tasks_well_formed [of source]
    by (auto simp: validate_plan_last_reviewer_for_state_def validate_plan_execution_mode_def split: if_splits)
qed

subsection \<open>Steps\<close>

lemma trim_start_split: "\<exists>w. trim_start line = trim line @ w"
proof -
  have "takeWhile is_ws (rev (trim_start line)) @ dropWhile is_ws (rev (trim_start line)) = rev (trim_start line)" by simp
  then have "trim_start line = rev (dropWhile is_ws (rev (trim_start line))) @ rev (takeWhile is_ws (rev (trim_start line)))"
    by (metis rev_append rev_rev_ident)
  then show ?thesis by (auto simp: trim_def trim_end_def)
qed

lemma trim_start_trim [simp]: "trim_start (trim s) = trim s"
proof (cases "trim s")
  case (Cons c cs)
  then have "\<not> is_ws c" using trim_ends(1) [of s] by simp
  with Cons show ?thesis by (simp add: trim_start_def)
qed (simp add: trim_start_def)

lemma split_once_str_longer:
  assumes "split_once_str pat s = Some (a, b)" "pat \<noteq> []"
  shows "split_once_str pat (s @ w) = Some (a, b @ w)"
  using split_once_str_replace [OF assms, of "b @ w"] split_once_str_Some [OF assms(1)] by simp

lemma step_line_shape:
  assumes "parse_task_step_projection_line line = Inr (Some r)"
  obtains mark rest number label where "trim_start line = ''- ['' @ mark # ''] **Step '' @ rest"
    "mark = CHR ''x'' \<or> mark = CHR '' ''" "split_once_str '': '' rest = Some (number, label)" "parse_u32 number \<noteq> None"
  using assms
  by (auto simp: parse_task_step_projection_line_def Let_def strip_prefix_Some split: option.splits list.splits if_splits)

lemma step_line_untrimmed:
  assumes "parse_task_step_projection_line (trim line) = Inr (Some r)"
  shows "\<exists>r'. parse_task_step_projection_line line = Inr (Some r')"
proof -
  obtain w where w: "trim_start line = trim line @ w" using trim_start_split by blast
  obtain mark rest number label where s: "trim_start (trim line) = ''- ['' @ mark # ''] **Step '' @ rest"
    "mark = CHR ''x'' \<or> mark = CHR '' ''" "split_once_str '': '' rest = Some (number, label)" "parse_u32 number \<noteq> None"
    by (rule step_line_shape [OF assms])
  have "trim_start (trim line) = trim line" by (simp add: trim_start_trim)
  with s w have "trim_start line = ''- ['' @ mark # ''] **Step '' @ (rest @ w)" by simp
  moreover have "split_once_str '': '' (rest @ w) = Some (number, label @ w)"
    by (rule split_once_str_longer [OF s(3)]) simp
  moreover have "strip_prefix (''- ['' @ mark # ''] **Step '' @ (rest @ w)) ''- ['' = Some (mark # ''] **Step '' @ (rest @ w))"
    "strip_prefix (''] **Step '' @ (rest @ w)) ''] **Step '' = Some (rest @ w)" by (simp_all only: strip_prefix_append)
  ultimately show ?thesis using s(2,4)
    by (auto simp only: parse_task_step_projection_line_def Let_def option.case list.case prod.case split: option.splits if_splits)
qed

text \<open>A step line is no blank line, no note and no comment, so the body check looks at its number.\<close>

lemma step_line_is_plain:
  assumes "parse_task_step_projection_line (trim line) = Inr (Some r)"
  shows "trim line \<noteq> []" "\<not> is_runtime_execution_note_projection_start line" "\<not> is_task_body_comment_marker (trim line)"
    "\<not> note_block_continues indent line \<or> \<not> is_runtime_execution_note_projection_boundary line"
    "is_runtime_execution_note_projection_boundary line"
proof -
  obtain mark rest where s: "trim line = ''- ['' @ mark # ''] **Step '' @ rest"
    by (rule step_line_shape [OF assms, unfolded trim_start_trim])
  obtain w where w: "trim_start line = trim line @ w" using trim_start_split by blast
  show "trim line \<noteq> []" using s by simp
  show "\<not> is_runtime_execution_note_projection_start line"
    using s w by (simp add: is_runtime_execution_note_projection_start_def starts_with_def)
  show "\<not> is_task_body_comment_marker (trim line)"
    using s by (simp add: is_task_body_comment_marker_def starts_with_def)
  show b: "is_runtime_execution_note_projection_boundary line"
    using step_line_untrimmed [OF assms] by (auto simp: is_runtime_execution_note_projection_boundary_def)
  show "\<not> note_block_continues indent line \<or> \<not> is_runtime_execution_note_projection_boundary line"
    using s w b \<open>\<not> is_runtime_execution_note_projection_start line\<close> by (simp add: note_block_continues_def)
qed

lemma body_line_step:
  assumes "body_line n line st = Inr st1" "\<not> bs_fenced st" "\<not> starts_with (trim line) ''```''"
    and "parse_task_step_line (trim line) = Inr r"
  shows "\<not> bs_fenced st1 \<and>
    (case r of None \<Rightarrow> bs_step_numbers st1 = bs_step_numbers st
     | Some step \<Rightarrow> tsl_number step \<notin> set (bs_step_numbers st) \<and> bs_step_numbers st1 = tsl_number step # bs_step_numbers st)"
proof (cases r)
  case None
  with assms show ?thesis
    by (auto simp: body_line_def body_field_line_def Let_def split: if_splits)
next
  case (Some step)
  with assms(4) obtain c where "parse_task_step_projection_line (trim line) = Inr (Some c)"
    by (auto simp: parse_task_step_line_def res_bind_Inr)
  note plain = step_line_is_plain [OF this]
  have "\<not> is_some_and (bs_note st) (\<lambda>indent. note_block_continues indent line)"
    using plain(4,5) by (cases "bs_note st") auto
  with assms Some plain(1,2,3) show ?thesis
    by (auto simp: body_line_def body_step_line_def Let_def note_block_start_def split: if_splits)
qed

lemma body_lines_steps:
  assumes "body_lines n lines st = Inr st'" "\<not> bs_fenced st" "\<forall>line\<in>set lines. \<not> starts_with (trim line) ''```''"
    and "parse_steps lines = Inr steps"
  shows "distinct (map ps_number steps) \<and> set (map ps_number steps) \<inter> set (bs_step_numbers st) = {}"
  using assms
proof (induction lines arbitrary: st steps)
  case (Cons line lines)
  from Cons.prems(1) obtain st1 where st1: "body_line n line st = Inr st1" "body_lines n lines st1 = Inr st'"
    by (auto simp: res_bind_Inr)
  from Cons.prems(4) obtain r where r: "parse_task_step_line (trim line) = Inr r"
    by (auto simp: parse_plan_step_line_def res_bind_Inr split: sum.splits)
  note here = body_line_step [OF st1(1) Cons.prems(2) _ r]
  show ?case
  proof (cases r)
    case None
    with Cons.prems(4) r have "parse_steps lines = Inr steps" by (simp add: parse_plan_step_line_def)
    with Cons.IH [OF st1(2)] here Cons.prems(3) None show ?thesis by auto
  next
    case (Some step)
    with Cons.prems(4) r obtain ss where "parse_steps lines = Inr ss"
      "steps = \<lparr>ps_number = tsl_number step, ps_text = tsl_text step\<rparr> # ss"
      by (auto simp: parse_plan_step_line_def res_bind_Inr)
    with Cons.IH [OF st1(2)] here Cons.prems(3) Some show ?thesis by auto
  qed
qed simp

text \<open>In a task without fenced step details the steps have distinct numbers.\<close>

theorem unfenced_steps_are_distinct:
  assumes "parse_task_chunk chunk = Inr t" "\<forall>line\<in>set (str_lines chunk). \<not> starts_with (trim line) ''```''"
  shows "distinct (map ps_number (pt_steps t))"
proof -
  from assms(1) obtain heading block n fs where "str_lines chunk = heading # block"
    "parse_task_contract_fields n block = Inr fs" "parse_steps block = Inr (pt_steps t)"
    by (auto simp: parse_task_chunk_def res_bind_Inr split: list.splits)
  moreover from this(2) obtain st where "body_lines n block body_start = Inr st"
    by (auto simp: parse_task_contract_fields_def validate_task_body_structure_def res_bind_Inr split: if_splits)
  ultimately show ?thesis using body_lines_steps [of n block body_start st "pt_steps t"] assms(2)
    by (auto simp: body_start_def)
qed

subsection \<open>Sample plans\<close>

definition sample_task_lines :: "string list" where
  "sample_task_lines =
     [''## Task 1: Read the log'', ''**Spec Coverage:** REQ-001'', ''**Goal:** The log is read.'', ''**Context:**'',
      ''- REQ-001 asks for it.'', ''**Constraints:**'', ''- No write.'', ''**Done when:**'', ''- The reader returns entries.'',
      ''**Files:**'', ''- Modify: `src/log.rs:12`'', ''- [ ] **Step 1: Open the file**'']"

definition sample_plan_source :: string where
  "sample_plan_source = join_with [newline]
     ([''**Workflow State:** Draft'', ''**Plan Revision:** 1'', ''**Execution Mode:** none'',
       ''**Source Spec:** `docs/spec.md`'', ''**Source Spec Revision:** 2'', ''**Last Reviewed By:** writing-plans'',
       ''## Requirement Coverage Matrix'', ''- REQ-001 -> Task 1''] @ sample_task_lines)"

definition sample_plan :: PlanDocument where
  "sample_plan =
     \<lparr>pd_path = ''docs/plan.md'', pd_workflow_state = ''Draft'', pd_plan_revision = 1, pd_execution_mode = ''none'',
      pd_source_spec_path = ''docs/spec.md'', pd_source_spec_revision = 2, pd_last_reviewed_by = ''writing-plans'',
      pd_qa_requirement = None, pd_coverage_matrix = [(''REQ-001'', [1])],
      pd_tasks = [\<lparr>pt_number = 1, pt_title = ''Read the log'', pt_spec_coverage = [''REQ-001''],
        pt_goal = ''The log is read.'', pt_context = [''REQ-001 asks for it.''], pt_constraints = [''No write.''],
        pt_done_when = [''The reader returns entries.''],
        pt_files = [\<lparr>tfe_action = ''Modify'', tfe_path = ''src/log.rs''\<rparr>],
        pt_steps = [\<lparr>ps_number = 1, ps_text = ''Open the file''\<rparr>]\<rparr>],
      pd_source = sample_plan_source\<rparr>"

lemma sample_plan_parses: "parse_plan_source ''docs/plan.md'' sample_plan_source = Inr sample_plan"
  by code_simp

theorem parsed_plan_is_well_formed_witness:
  "parse_plan_source ''docs/plan.md'' sample_plan_source = Inr sample_plan \<and>
   distinct (map pt_number (pd_tasks sample_plan)) \<and> (\<exists>t. t \<in> set (pd_tasks sample_plan) \<and> well_formed_task t)"
proof -
  have "hd (pd_tasks sample_plan) \<in> set (pd_tasks sample_plan)" by (simp add: sample_plan_def)
  with parsed_plan_is_well_formed [OF sample_plan_parses] sample_plan_parses show ?thesis by blast
qed

definition fenced_task_source :: string where
  "fenced_task_source = join_with [newline]
     (sample_task_lines @ [''```md'', ''- [ ] **Step 1: An example in the details**'', ''```''])"

text \<open>The body check skips fenced step details, the step reader does not.  An example: the fenced details of this
  task quote a step line; the task is accepted, and the quoted line becomes a second step with the same number,
  while the reader of known steps, which skips fences too, keeps one.\<close>

lemma fenced_step_becomes_a_step:
  "\<exists>t. parse_tasks fenced_task_source = Inr [t] \<and> map ps_number (pt_steps t) = [1, 1] \<and>
     map ps_text (pt_steps t) = [''Open the file'', ''An example in the details''] \<and>
     known_runtime_step_projection_lines fenced_task_source = [((1, 1), ''Open the file'')]"
proof -
  have "parse_tasks fenced_task_source = Inr [(hd (pd_tasks sample_plan))\<lparr>pt_steps :=
      [\<lparr>ps_number = 1, ps_text = ''Open the file''\<rparr>, \<lparr>ps_number = 1, ps_text = ''An example in the details''\<rparr>]\<rparr>]"
    by code_simp
  moreover have "known_runtime_step_projection_lines fenced_task_source = [((1, 1), ''Open the file'')]" by code_simp
  ultimately show ?thesis by simp
qed

text \<open>A file reference loses a trailing number: two numbered files are one reference.\<close>

lemma numbered_files_share_reference:
  "parse_file_entry ''- Modify: `deploy/stage-1`'' = Inr \<lparr>tfe_action = ''Modify'', tfe_path = ''deploy/stage''\<rparr> \<and>
   parse_file_entry ''- Modify: `deploy/stage-2`'' = Inr \<lparr>tfe_action = ''Modify'', tfe_path = ''deploy/stage''\<rparr>"
  by code_simp

end
