(* ===== verification/Plan_Topology.thy ===== *)
theory Plan_Topology
  imports Plan_Contract
begin

text \<open>The execution topology of a plan (\<^verbatim>\<open>src/contracts/plan.rs\<close>): the directives of its execution
  strategy, the dependency diagram it draws, and the analysis that compares the two and looks for
  tasks that write the same file in no order.

  An ordered set is its strictly increasing list, and an ordered map its association list in
  increasing order of the keys.\<close>

subsection \<open>Ordered sets\<close>

definition bset_insert :: "'a::linorder \<Rightarrow> 'a list \<Rightarrow> 'a list" where
  "bset_insert x xs = insort_insert x xs"

definition bset_extend :: "'a::linorder list \<Rightarrow> 'a list \<Rightarrow> 'a list" where
  "bset_extend xs s = fold bset_insert xs s"

definition bset_of :: "'a::linorder list \<Rightarrow> 'a list" where
  "bset_of xs = bset_extend xs []"

text \<open>\<^verbatim>\<open>sort_unstable\<close> followed by \<^verbatim>\<open>dedup\<close>.\<close>

definition sort_dedup :: "'a::linorder list \<Rightarrow> 'a list" where
  "sort_dedup xs = remdups_adj (sort xs)"

definition adjacent_pairs :: "'a list \<Rightarrow> ('a \<times> 'a) list" where
  "adjacent_pairs xs = zip xs (tl xs)"

definition entry_or_empty :: "('k::linorder \<times> 'a list) list \<Rightarrow> 'k \<Rightarrow> 'a list" where
  "entry_or_empty m k = (case obj_get m k of None \<Rightarrow> [] | Some xs \<Rightarrow> xs)"

subsection \<open>Diagnostics\<close>

type_synonym diagnostic_log = "ContractDiagnostic list \<times> string list"

definition push_diagnostic :: "string \<Rightarrow> string \<Rightarrow> diagnostic_log \<Rightarrow> diagnostic_log" where
  "push_diagnostic code msg log =
     (fst log @ [\<lparr>cd_code = code, cd_message = msg\<rparr>], snd log @ [code])"

subsection \<open>Directives\<close>

datatype ExecutionDirectiveKind = Serial | Parallel | Last

record ExecutionDirective =
  xd_kind :: ExecutionDirectiveKind
  xd_tasks :: "nat list"
  xd_dependencies :: "nat list"
  xd_reason :: string
  xd_ownership_tasks :: "nat list"
  xd_declared_worktrees :: "nat option"

fun section_lines :: "string \<Rightarrow> bool \<Rightarrow> string list \<Rightarrow> string list" where
  "section_lines target in_section [] = []"
| "section_lines target in_section (line # lines) =
     (if \<not> in_section then section_lines target (line = target) lines
      else if starts_with line ''## '' then []
      else line # section_lines target in_section lines)"

definition markdown_section :: "string \<Rightarrow> string \<Rightarrow> string option" where
  "markdown_section source heading =
     (let content = trim (join_with [newline] (section_lines (''## '' @ heading) False (str_lines source)))
      in if content = [] then None else Some content)"

definition push_number :: "string \<Rightarrow> nat list" where
  "push_number current = (case parse_u32 current of None \<Rightarrow> [] | Some n \<Rightarrow> [n])"

fun extract_numbers_from :: "string \<Rightarrow> string \<Rightarrow> nat list" where
  "extract_numbers_from current [] = (if current = [] then [] else push_number current)"
| "extract_numbers_from current (ch # chs) =
     (if is_digit ch then extract_numbers_from (current @ [ch]) chs
      else (if current = [] then [] else push_number current) @ extract_numbers_from [] chs)"

definition extract_numbers :: "string \<Rightarrow> nat list" where
  "extract_numbers v = extract_numbers_from [] v"

abbreviation trim_dots :: "string \<Rightarrow> string" where
  "trim_dots \<equiv> trim_end_where (\<lambda>c. c = CHR ''.'')"

definition split_head_and_reason :: "string \<Rightarrow> string \<times> string" where
  "split_head_and_reason body =
     (case split_once_str ''. '' body of
        Some (head, reason) \<Rightarrow> (trim_dots head, trim_dots (trim reason))
      | None \<Rightarrow> (trim_dots body, []))"

definition parse_execute_directive :: "string \<Rightarrow> ExecutionDirective option" where
  "parse_execute_directive line =
     (let body = trim_end (trim_start_matches ''- Execute '' line) in
      if str_contains body '' serially''
      then let (head, reason) = split_head_and_reason body;
               (tasks_part, dependencies_part) =
                 (case split_once_str '' after '' head of Some (tasks, deps) \<Rightarrow> (tasks, deps) | None \<Rightarrow> (head, []));
               tasks = extract_numbers tasks_part
           in if tasks = [] then None
              else Some \<lparr>xd_kind = Serial, xd_tasks = tasks, xd_dependencies = extract_numbers dependencies_part,
                xd_reason = reason, xd_ownership_tasks = [], xd_declared_worktrees = None\<rparr>
      else if str_contains body '' last''
      then let normalized = trim_dots body;
               tasks = extract_numbers normalized;
               reason = (case split_once_str '' last'' normalized of
                   Some (_, rest) \<Rightarrow> trim (dropWhile (\<lambda>c. c = CHR ''.'') (trim rest)) | None \<Rightarrow> [])
           in if length tasks \<noteq> 1 then None
              else Some \<lparr>xd_kind = Last, xd_tasks = tasks, xd_dependencies = [], xd_reason = reason,
                xd_ownership_tasks = [], xd_declared_worktrees = None\<rparr>
      else None)"

definition parse_ownership_task :: "string \<Rightarrow> nat option" where
  "parse_ownership_task line =
     Option.bind (strip_prefix line ''- Task '') (\<lambda>rest.
     Option.bind (split_once_str '' owns '' rest) (\<lambda>(number, _). parse_u32 number))"

definition count_words :: "(string \<times> nat) list" where
  "count_words =
     [(''one'', 1), (''two'', 2), (''three'', 3), (''four'', 4), (''five'', 5), (''six'', 6), (''seven'', 7),
      (''eight'', 8), (''nine'', 9), (''ten'', 10)]"

definition parse_count_token :: "string \<Rightarrow> nat option" where
  "parse_count_token token =
     (case map_of count_words (to_ascii_lowercase token) of
        Some n \<Rightarrow> Some n
      | None \<Rightarrow> parse_uint u64_max token)"

fun worktree_count_token :: "string list \<Rightarrow> nat option" where
  "worktree_count_token [] = None"
| "worktree_count_token (token # tokens) =
     (case parse_count_token token of
        None \<Rightarrow> worktree_count_token tokens
      | Some count \<Rightarrow>
          if list_ex (\<lambda>candidate. candidate = ''worktree'' \<or> candidate = ''worktrees'') (take 2 tokens)
          then Some count else worktree_count_token tokens)"

definition parse_declared_worktree_count :: "string \<Rightarrow> nat \<Rightarrow> nat option" where
  "parse_declared_worktree_count workspace_part task_count =
     (let normalized = to_ascii_lowercase workspace_part in
      if str_contains normalized ''per task'' \<and>
         (str_contains normalized ''worktree'' \<or> str_contains normalized ''worktrees'')
      then Some task_count
      else worktree_count_token
             (filter (\<lambda>token. token \<noteq> [])
               (map (trim_matches (\<lambda>c. \<not> is_ascii_alphanumeric c)) (split_whitespace workspace_part))))"

text \<open>The ownership bullets below a parallel directive, and the lines after them.\<close>

fun ownership_lines :: "nat list \<Rightarrow> string list \<Rightarrow> nat list \<times> string list" where
  "ownership_lines owned [] = (owned, [])"
| "ownership_lines owned (nested # lines) =
     (if trim nested = [] then ownership_lines owned lines
      else if starts_with nested ''  - Task ''
      then ownership_lines
             (case parse_ownership_task (trim nested) of Some task \<Rightarrow> bset_insert task owned | None \<Rightarrow> owned) lines
      else (owned, nested # lines))"

definition parse_parallel_directive :: "string \<Rightarrow> string list \<Rightarrow> (ExecutionDirective \<times> string list) option" where
  "parse_parallel_directive line nested =
     (let body = trim_end_where (\<lambda>c. c = CHR '':'') (trim_start_matches ''- After '' (trim_end line)) in
      Option.bind (split_once_str '', '' body) (\<lambda>(dependency_part, rest).
      Option.bind (split_once_str '' and run '' rest) (\<lambda>(workspace_part, run_part).
      Option.bind (split_once_str '' in parallel'' run_part) (\<lambda>(task_part, _).
        let tasks = extract_numbers task_part in
        if tasks = [] then None
        else let (owned, rest) = ownership_lines [] nested in
          Some (\<lparr>xd_kind = Parallel, xd_tasks = tasks, xd_dependencies = extract_numbers dependency_part,
                 xd_reason = [], xd_ownership_tasks = owned,
                 xd_declared_worktrees = parse_declared_worktree_count workspace_part (length tasks)\<rparr>, rest)))))"

lemma ownership_lines_length: "length (snd (ownership_lines owned lines)) \<le> length lines"
  by (induction owned lines rule: ownership_lines.induct) auto

lemma parse_parallel_directive_length:
  "parse_parallel_directive line nested = Some (d, rest) \<Longrightarrow> length rest \<le> length nested"
  using ownership_lines_length [of "[]" nested]
  by (auto simp: parse_parallel_directive_def Let_def bind_eq_Some_conv split: prod.splits if_splits)

definition malformed_strategy :: "string \<Rightarrow> diagnostic_log \<Rightarrow> diagnostic_log" where
  "malformed_strategy what =
     push_diagnostic ''malformed_execution_strategy''
       (''Execution Strategy contains an unparseable '' @ what @ '' directive.'')"

function directive_lines :: "string list \<Rightarrow> diagnostic_log \<Rightarrow> ExecutionDirective list \<times> diagnostic_log" where
  "directive_lines [] log = ([], log)"
| "directive_lines (line # lines) log =
     (let trimmed = trim_end line in
      if \<not> starts_with trimmed ''- '' then directive_lines lines log
      else if starts_with trimmed ''- Execute ''
      then (case parse_execute_directive trimmed of
              Some d \<Rightarrow> apfst ((#) d) (directive_lines lines log)
            | None \<Rightarrow> directive_lines lines (malformed_strategy ''Execute'' log))
      else if starts_with trimmed ''- After ''
      then (case parse_parallel_directive line lines of
              Some (d, rest) \<Rightarrow> apfst ((#) d) (directive_lines rest log)
            | None \<Rightarrow> directive_lines lines (malformed_strategy ''parallel'' log))
      else directive_lines lines log)"
  by pat_completeness auto
termination directive_lines
  by (relation "measure (\<lambda>(lines, log). length lines)") (auto dest: parse_parallel_directive_length)

definition parse_execution_strategy_directives ::
  "string \<Rightarrow> diagnostic_log \<Rightarrow> ExecutionDirective list \<times> diagnostic_log" where
  "parse_execution_strategy_directives sec log = directive_lines (str_lines sec) log"

subsection \<open>The dependency diagram\<close>

fun fenced_lines :: "bool \<Rightarrow> string list \<Rightarrow> string list" where
  "fenced_lines in_fence [] = []"
| "fenced_lines in_fence (line # lines) =
     (if starts_with (trim_start line) ''```'' then (if in_fence then [] else fenced_lines True lines)
      else if in_fence then line # fenced_lines in_fence lines
      else fenced_lines in_fence lines)"

definition extract_fenced_text :: "string \<Rightarrow> string option" where
  "extract_fenced_text sec =
     (let lines = fenced_lines False (str_lines sec)
      in if lines = [] then None else Some (join_with [newline] lines))"

record DiagramNode =
  dn_task :: nat
  dn_row :: nat
  dn_start :: nat
  dn_end :: nat

text \<open>The nodes of a row from a column on.\<close>

function row_nodes :: "nat \<Rightarrow> nat \<Rightarrow> string \<Rightarrow> DiagramNode list" where
  "row_nodes row index chars =
     (if length chars < 5 then []
      else let digits = takeWhile is_digit (drop 5 chars) in
        if starts_with chars ''Task '' \<and> digits \<noteq> []
        then (case parse_u32 digits of
                Some task \<Rightarrow> [\<lparr>dn_task = task, dn_row = row, dn_start = index, dn_end = index + 5 + length digits - 1\<rparr>]
              | None \<Rightarrow> []) @
             row_nodes row (index + 5 + length digits) (drop (5 + length digits) chars)
        else row_nodes row (index + 1) (drop 1 chars))"
  by auto
termination row_nodes
  by (relation "measure (\<lambda>(row, index, chars). length chars)") auto

declare row_nodes.simps [simp del]

definition diagram_nodes :: "string list \<Rightarrow> DiagramNode list" where
  "diagram_nodes lines = concat (map (\<lambda>(row, line). row_nodes row 0 line) (zip [0..<length lines] lines))"

definition is_dependency_connector :: "char \<Rightarrow> bool" where
  "is_dependency_connector ch \<longleftrightarrow> ch \<in> {CHR ''|'', CHR ''-'', CHR ''+'', CHR ''v'', CHR ''>''}"

type_synonym cell = "nat \<times> nat"

text \<open>A cell of the grid; the rows are padded to one width, so a cell that the code reads exists.\<close>

definition grid_at :: "string list \<Rightarrow> nat \<Rightarrow> nat \<Rightarrow> char option" where
  "grid_at grid row col =
     (if row < length grid \<and> col < length (grid ! row) then Some (grid ! row ! col) else None)"

definition connector_at :: "string list \<Rightarrow> nat \<Rightarrow> nat \<Rightarrow> bool" where
  "connector_at grid row col = is_some_and (grid_at grid row col) is_dependency_connector"

fun first_right :: "nat \<Rightarrow> nat \<Rightarrow> string \<Rightarrow> cell list" where
  "first_right row col [] = []"
| "first_right row col (ch # chs) =
     (if ch = CHR '' '' then first_right row (Suc col) chs
      else if is_dependency_connector ch then [(row, col)] else [])"

definition row_connectors :: "string list \<Rightarrow> DiagramNode \<Rightarrow> nat \<Rightarrow> cell list" where
  "row_connectors grid node row =
     map (Pair row) (filter (connector_at grid row) [dn_start node..<dn_end node + 1])"

fun first_below :: "string list \<Rightarrow> DiagramNode \<Rightarrow> cell list \<Rightarrow> nat list \<Rightarrow> cell list" where
  "first_below grid node starts [] = starts"
| "first_below grid node starts (row # rows) =
     (let starts = starts @ row_connectors grid node row
      in if starts \<noteq> [] then starts else first_below grid node starts rows)"

definition dependency_starts :: "DiagramNode \<Rightarrow> string list \<Rightarrow> cell list" where
  "dependency_starts node grid =
     (let right = (if dn_row node < length grid
                   then first_right (dn_row node) (dn_end node + 1) (drop (dn_end node + 1) (grid ! dn_row node))
                   else []);
          max_row = min (dn_row node + 4) (length grid - 1)
      in sort_dedup (first_below grid node right [dn_row node + 1..<max_row + 1]))"

definition dependency_neighbors :: "nat \<Rightarrow> nat \<Rightarrow> char \<Rightarrow> string list \<Rightarrow> cell list" where
  "dependency_neighbors row col ch grid =
     (let last_col = length (grid ! row) - 1;
          down = (if row + 1 < length grid \<and> connector_at grid (row + 1) col then [(row + 1, col)] else []);
          left = (if 0 < col \<and> connector_at grid row (col - 1) then [(row, col - 1)] else []);
          right = (if col < last_col \<and> connector_at grid row (col + 1) then [(row, col + 1)] else [])
      in if ch = CHR ''|'' then down
         else if ch = CHR ''-'' then left @ right
         else if ch = CHR ''+'' then down @ left @ right
         else if ch = CHR ''v'' then down
         else if ch = CHR ''>'' then right
         else [])"

definition touches :: "nat \<Rightarrow> nat \<Rightarrow> DiagramNode \<Rightarrow> bool" where
  "touches row col target \<longleftrightarrow>
     row + 1 = dn_row target \<and> dn_start target \<le> col \<and> col \<le> dn_end target \<or>
     row = dn_row target \<and> dn_start target \<le> col + 2 \<and> col \<le> dn_start target"

definition touched_tasks :: "nat \<Rightarrow> DiagramNode list \<Rightarrow> nat \<Rightarrow> nat \<Rightarrow> nat list" where
  "touched_tasks source nodes row col =
     map dn_task (filter (\<lambda>target. dn_task target \<noteq> source \<and> touches row col target) nodes)"

definition grid_cells :: "string list \<Rightarrow> cell set" where
  "grid_cells grid = {(row, col). row < length grid \<and> col < length (grid ! row)}"

lemma finite_grid_cells [simp]: "finite (grid_cells grid)"
proof -
  have "grid_cells grid = (SIGMA row : {..<length grid}. {..<length (grid ! row)})"
    by (auto simp: grid_cells_def)
  then show ?thesis by simp
qed

text \<open>The worklist of cells: the last cell pushed is taken first.\<close>

function follow_cells ::
  "nat \<Rightarrow> string list \<Rightarrow> DiagramNode list \<Rightarrow> cell list \<Rightarrow> cell set \<Rightarrow> (nat \<times> nat) list \<Rightarrow> (nat \<times> nat) list" where
  "follow_cells source grid nodes [] seen edges = edges"
| "follow_cells source grid nodes ((row, col) # queue) seen edges =
     (if (row, col) \<in> seen then follow_cells source grid nodes queue seen edges
      else let seen = insert (row, col) seen in
        case grid_at grid row col of
          None \<Rightarrow> follow_cells source grid nodes queue seen edges
        | Some ch \<Rightarrow>
            if \<not> is_dependency_connector ch then follow_cells source grid nodes queue seen edges
            else follow_cells source grid nodes (rev (dependency_neighbors row col ch grid) @ queue) seen
                   (bset_extend (map (Pair source) (touched_tasks source nodes row col)) edges))"
  by pat_completeness auto

lemma grid_at_cells: "grid_at grid row col = Some ch \<Longrightarrow> (row, col) \<in> grid_cells grid"
  by (auto simp: grid_at_def grid_cells_def split: if_splits)

lemma fresh_cell_card:
  assumes "(row, col) \<in> grid_cells grid" "(row, col) \<notin> seen"
  shows "card (grid_cells grid - insert (row, col) seen) < card (grid_cells grid - seen)"
  using assms by (intro psubset_card_mono) auto

termination follow_cells
proof (relation "measures [\<lambda>(source, grid, nodes, queue, seen, edges). card (grid_cells grid - seen),
    \<lambda>(source, grid, nodes, queue, seen, edges). length queue]", goal_cases)
  case (3 source grid nodes row col queue seen edges)
  have "card (grid_cells grid - insert (row, col) seen) \<le> card (grid_cells grid - seen)"
    by (intro card_mono) auto
  with 3 show ?case by auto
next
  case (4 source grid nodes row col queue seen edges)
  have "card (grid_cells grid - insert (row, col) seen) \<le> card (grid_cells grid - seen)"
    by (intro card_mono) auto
  with 4 show ?case by auto
next
  case (5 source grid nodes row col queue seen edges)
  then show ?case by (auto dest: grid_at_cells intro: fresh_cell_card)
qed auto

definition follow_dependency_edges ::
  "DiagramNode \<Rightarrow> cell \<Rightarrow> string list \<Rightarrow> DiagramNode list \<Rightarrow> (nat \<times> nat) list \<Rightarrow> (nat \<times> nat) list" where
  "follow_dependency_edges source start grid nodes edges =
     follow_cells (dn_task source) grid nodes [start] {} edges"

definition pad_row :: "nat \<Rightarrow> string \<Rightarrow> string" where
  "pad_row width line = take width line @ replicate (width - length line) (CHR '' '')"

definition node_edges :: "string list \<Rightarrow> DiagramNode list \<Rightarrow> DiagramNode \<Rightarrow> (nat \<times> nat) list \<Rightarrow> (nat \<times> nat) list" where
  "node_edges grid nodes node edges =
     fold (\<lambda>start. follow_dependency_edges node start grid nodes) (dependency_starts node grid) edges"

definition parse_dependency_diagram_edges :: "string \<Rightarrow> (nat \<times> nat) list option" where
  "parse_dependency_diagram_edges sec =
     (let diagram = (case extract_fenced_text sec of Some s \<Rightarrow> s | None \<Rightarrow> sec);
          lines = str_lines diagram;
          width = foldr max (map length lines) 0;
          grid = map (pad_row width) lines;
          nodes = diagram_nodes lines
      in if width = 0 then None
         else if nodes = [] then None
         else Some (fold (node_edges grid nodes) nodes []))"

subsection \<open>Transitive dependencies\<close>

type_synonym dep_map = "(nat \<times> nat list) list"

definition all_dependencies :: "dep_map \<Rightarrow> nat set" where
  "all_dependencies direct = (\<Union>ds \<in> snd ` set direct. set ds)"

lemma finite_all_dependencies [simp]: "finite (all_dependencies direct)"
  by (simp add: all_dependencies_def)

lemma entry_all_dependencies: "set (entry_or_empty direct task) \<subseteq> all_dependencies direct"
proof (cases "obj_get direct task")
  case (Some ds)
  then have "(task, ds) \<in> set direct" by (simp add: obj_get_def map_of_SomeD)
  with Some show ?thesis by (force simp: entry_or_empty_def all_dependencies_def)
qed (simp add: entry_or_empty_def)

text \<open>\<^verbatim>\<open>collect_dependencies\<close> is one function and its loop: the dependencies of a task still to visit, and
  the set of tasks seen, which the calls share.\<close>

function collect_dependency_list :: "dep_map \<Rightarrow> nat list \<Rightarrow> nat set \<Rightarrow> nat list \<times> nat set" where
  "collect_dependency_list direct [] seen = ([], seen)"
| "collect_dependency_list direct (dependency # ds) seen =
     (if dependency \<in> seen then collect_dependency_list direct ds seen
      else let (inner, seen1) = collect_dependency_list direct (entry_or_empty direct dependency) (insert dependency seen);
               (rest, seen2) = collect_dependency_list direct ds seen1
           in (bset_insert dependency (bset_extend inner rest), seen2))"
  by pat_completeness auto

lemma collect_dependency_list_seen:
  "collect_dependency_list_dom (direct, ds, seen) \<Longrightarrow> seen \<subseteq> snd (collect_dependency_list direct ds seen)"
proof (induction direct ds seen rule: collect_dependency_list.pinduct)
  case (2 direct dependency ds seen)
  show ?case
  proof (cases "dependency \<in> seen")
    case True
    with 2 show ?thesis by (simp add: collect_dependency_list.psimps)
  next
    case False
    obtain inner seen1 where i:
      "collect_dependency_list direct (entry_or_empty direct dependency) (insert dependency seen) = (inner, seen1)"
      by fastforce
    from 2(3) [OF False] i have "insert dependency seen \<subseteq> seen1" by simp
    moreover from 2(4) [OF False i [symmetric]] have "seen1 \<subseteq> snd (collect_dependency_list direct ds seen1)" by simp
    ultimately show ?thesis using 2(1) False i
      by (auto simp: collect_dependency_list.psimps split: prod.splits)
  qed
qed (simp add: collect_dependency_list.psimps)

lemma fresh_dependency_card:
  assumes "dependency \<notin> seen"
  shows "card (all_dependencies direct \<union> set (entry_or_empty direct dependency) - insert dependency seen)
       < card (all_dependencies direct \<union> set (dependency # ds) - seen)"
  using assms entry_all_dependencies [of direct dependency] by (intro psubset_card_mono) auto

lemma later_dependency_card:
  assumes "seen \<subseteq> seen'"
  shows "card (all_dependencies direct \<union> set ds - seen') \<le> card (all_dependencies direct \<union> set (d # ds) - seen)"
  using assms by (intro card_mono) auto

termination collect_dependency_list
proof (relation "measures [\<lambda>(direct, ds, seen). card (all_dependencies direct \<union> set ds - seen), \<lambda>(direct, ds, seen). length ds]",
    goal_cases)
  case (2 direct dependency ds seen)
  show ?case using later_dependency_card [of seen seen direct ds dependency] by auto
next
  case (3 direct dependency ds seen)
  then show ?case using fresh_dependency_card [of dependency seen direct ds] by simp
next
  case (4 direct dependency ds seen p inner seen1)
  from 4(4) [THEN collect_dependency_list_seen] 4(2,3) have "seen \<subseteq> seen1"
    by (metis insert_subset snd_conv)
  then show ?case using later_dependency_card [of seen seen1 direct ds dependency] by auto
qed simp

definition collect_dependencies :: "nat \<Rightarrow> dep_map \<Rightarrow> nat list" where
  "collect_dependencies task direct = fst (collect_dependency_list direct (entry_or_empty direct task) {})"

definition transitive_dependencies :: "dep_map \<Rightarrow> dep_map" where
  "transitive_dependencies direct = map (\<lambda>(task, _). (task, collect_dependencies task direct)) direct"

subsection \<open>Overlapping write scopes\<close>

type_synonym task_scopes = "(nat \<times> string list) list"

record OverlappingWriteScope =
  ows_path :: string
  ows_tasks :: "nat list"

definition index_scope :: "nat \<Rightarrow> string \<Rightarrow> (string \<times> nat list) list \<Rightarrow> (string \<times> nat list) list" where
  "index_scope task scope index = obj_insert scope (entry_or_empty index scope @ [task]) index"

definition overlaps_of_index :: "(string \<times> nat list) list \<Rightarrow> OverlappingWriteScope list" where
  "overlaps_of_index index =
     concat (map (\<lambda>(path, tasks).
       let tasks = sort_dedup tasks
       in if 1 < length tasks then [\<lparr>ows_path = path, ows_tasks = tasks\<rparr>] else []) index)"

definition overlapping_scopes :: "task_scopes \<Rightarrow> OverlappingWriteScope list" where
  "overlapping_scopes scopes =
     overlaps_of_index (fold (\<lambda>(task, paths) index. fold (index_scope task) paths index) scopes [])"

definition detect_overlapping_write_scopes :: "PlanTask list \<Rightarrow> OverlappingWriteScope list" where
  "detect_overlapping_write_scopes tasks =
     overlaps_of_index
       (fold (\<lambda>task index.
          fold (\<lambda>file index. if tfe_action file = ''Test'' then index else index_scope (pt_number task) (tfe_path file) index)
            (pt_files task) index) tasks [])"

definition tasks_share_write_scope :: "(nat \<times> string list) list \<Rightarrow> nat \<Rightarrow> nat \<Rightarrow> bool" where
  "tasks_share_write_scope index left right \<longleftrightarrow>
     (case (obj_get index left, obj_get index right) of
        (Some left_scopes, Some right_scopes) \<Rightarrow> list_ex (\<lambda>scope. scope \<in> set right_scopes) left_scopes
      | _ \<Rightarrow> False)"

definition reason_names_reintegration_seam :: "string \<Rightarrow> bool" where
  "reason_names_reintegration_seam reason \<longleftrightarrow>
     list_ex (str_contains (to_ascii_lowercase reason))
       [''reintegration'', ''integration seam'', ''merge-back'', ''merge back'', ''shared glue'', ''integration risk'',
        ''cannot be isolated'']"

subsection \<open>The analysis\<close>

record ParallelWorktreeRequirement =
  pwr_tasks :: "nat list"
  pwr_declared_worktrees :: nat
  pwr_required_worktrees :: nat

record topology_state =
  ts_log :: diagnostic_log
  ts_serial_hazards_resolved :: bool
  ts_parallel_lane_ownership_valid :: bool
  ts_parallel_workspace_isolation_valid :: bool
  ts_groups :: "nat list list"
  ts_requirements :: "ParallelWorktreeRequirement list"
  ts_assignment :: "(nat \<times> ExecutionDirectiveKind) list"
  ts_dependencies :: dep_map
  ts_edges :: "(nat \<times> nat) list"

abbreviation topo_push :: "string \<Rightarrow> string \<Rightarrow> topology_state \<Rightarrow> topology_state" where
  "topo_push code msg st \<equiv> st\<lparr>ts_log := push_diagnostic code msg (ts_log st)\<rparr>"

definition add_dependencies :: "nat list \<Rightarrow> nat \<Rightarrow> topology_state \<Rightarrow> topology_state" where
  "add_dependencies ds task st =
     st\<lparr>ts_dependencies := obj_insert task (bset_extend ds (entry_or_empty (ts_dependencies st) task)) (ts_dependencies st),
        ts_edges := bset_extend (map (\<lambda>d. (d, task)) ds) (ts_edges st)\<rparr>"

definition assign_task :: "nat list \<Rightarrow> ExecutionDirectiveKind \<Rightarrow> nat \<Rightarrow> topology_state \<Rightarrow> topology_state" where
  "assign_task task_numbers kind task st =
     (if task \<notin> set task_numbers
      then topo_push ''execution_topology_unknown_task''
             (''Execution Strategy references Task '' @ show_nat task @ '' but the task does not exist in the plan.'') st
      else let assigned = obj_get (ts_assignment st) task;
               st = st\<lparr>ts_assignment := obj_insert task kind (ts_assignment st)\<rparr>
           in if assigned \<noteq> None
              then topo_push ''execution_topology_duplicate_task''
                     (''Execution Strategy assigns Task '' @ show_nat task @ '' more than once.'') st
              else st)"

definition require_reason :: "ExecutionDirective \<Rightarrow> nat \<Rightarrow> topology_state \<Rightarrow> topology_state" where
  "require_reason d first st =
     (if trim (xd_reason d) = []
      then topo_push ''serial_execution_needs_reason''
             (''Serialized work for Task '' @ show_nat first @ '' must include an explicit reason.'')
             (st\<lparr>ts_serial_hazards_resolved := False\<rparr>)
      else st)"

definition head_or_zero :: "nat list \<Rightarrow> nat" where
  "head_or_zero ts = (case ts of [] \<Rightarrow> 0 | t # _ \<Rightarrow> t)"

definition apply_serial :: "ExecutionDirective \<Rightarrow> nat list \<Rightarrow> topology_state \<Rightarrow> topology_state" where
  "apply_serial d sorted_tasks st =
     (let st = require_reason d (head_or_zero sorted_tasks) st;
          st = (case sorted_tasks of [] \<Rightarrow> st | first # _ \<Rightarrow> add_dependencies (xd_dependencies d) first st)
      in fold (\<lambda>(a, b). add_dependencies [a] b) (adjacent_pairs sorted_tasks) st)"

definition apply_parallel :: "ExecutionDirective \<Rightarrow> nat list \<Rightarrow> topology_state \<Rightarrow> topology_state" where
  "apply_parallel d sorted_tasks st =
     (let required = length sorted_tasks;
          declared = (case xd_declared_worktrees d of None \<Rightarrow> 0 | Some n \<Rightarrow> n);
          st = (if xd_declared_worktrees d \<noteq> Some required
                then topo_push ''parallel_workspace_isolation_mismatch''
                       (''Parallel execution groups must declare one isolated worktree per task; Tasks '' @
                        show_nat_list sorted_tasks @ '' declare '' @ show_nat declared @
                        '' worktree(s) but require '' @ show_nat required @ ''.'')
                       (st\<lparr>ts_parallel_workspace_isolation_valid := False\<rparr>)
                else st);
          st = (if xd_ownership_tasks d \<noteq> sorted_tasks
                then topo_push ''parallel_lane_missing_ownership''
                       ''Parallel execution groups must declare a lane-ownership bullet for every task in the group.''
                       (st\<lparr>ts_parallel_lane_ownership_valid := False\<rparr>)
                else st);
          st = st\<lparr>ts_groups := ts_groups st @ [sorted_tasks],
                  ts_requirements := ts_requirements st @
                    [\<lparr>pwr_tasks = sorted_tasks, pwr_declared_worktrees = declared, pwr_required_worktrees = required\<rparr>]\<rparr>
      in fold (add_dependencies (xd_dependencies d)) sorted_tasks st)"

definition apply_last :: "nat list \<Rightarrow> ExecutionDirective \<Rightarrow> nat list \<Rightarrow> topology_state \<Rightarrow> topology_state" where
  "apply_last task_numbers d sorted_tasks st =
     (let st = require_reason d (head_or_zero sorted_tasks) st in
      case sorted_tasks of
        [] \<Rightarrow> st
      | task # _ \<Rightarrow>
          if task \<noteq> (if task_numbers = [] then task else last task_numbers)
          then topo_push ''last_execution_not_final_task''
                 (''`Execute Task '' @ show_nat task @ '' last` is only valid for the numerically final task in the plan.'')
                 (st\<lparr>ts_serial_hazards_resolved := False\<rparr>)
          else st)"

definition apply_directive :: "nat list \<Rightarrow> ExecutionDirective \<Rightarrow> topology_state \<Rightarrow> topology_state" where
  "apply_directive task_numbers d st =
     (let sorted_tasks = sort_dedup (xd_tasks d);
          st = fold (assign_task task_numbers (xd_kind d)) sorted_tasks st
      in case xd_kind d of
           Serial \<Rightarrow> apply_serial d sorted_tasks st
         | Parallel \<Rightarrow> apply_parallel d sorted_tasks st
         | Last \<Rightarrow> apply_last task_numbers d sorted_tasks st)"

definition require_assignment :: "nat \<Rightarrow> topology_state \<Rightarrow> topology_state" where
  "require_assignment task st =
     (if obj_get (ts_assignment st) task = None
      then topo_push ''execution_topology_missing_task_coverage''
             (''Execution Strategy does not assign Task '' @ show_nat task @
              '' to a serial or parallel execution directive.'') st
      else st)"

text \<open>A task that runs last depends on every sink among the other tasks.\<close>

definition sink_tasks :: "nat list \<Rightarrow> nat \<Rightarrow> (nat \<times> nat) list \<Rightarrow> nat list" where
  "sink_tasks task_numbers task edges =
     (let prior_tasks = bset_of (filter (\<lambda>candidate. candidate \<noteq> task) task_numbers)
      in filter (\<lambda>t. \<not> list_ex (\<lambda>(from, to). from = t \<and> to \<in> set prior_tasks) edges) prior_tasks)"

definition order_last :: "nat list \<Rightarrow> ExecutionDirective \<Rightarrow> topology_state \<Rightarrow> topology_state" where
  "order_last task_numbers d st =
     (if xd_kind d \<noteq> Last then st
      else case xd_tasks d of
        [] \<Rightarrow> st
      | task # _ \<Rightarrow>
          fold (\<lambda>dependency. add_dependencies [dependency] task) (sink_tasks task_numbers task (ts_edges st)) st)"

definition serial_justified :: "(nat \<times> string list) list \<Rightarrow> ExecutionDirective \<Rightarrow> topology_state \<Rightarrow> bool" where
  "serial_justified index d st =
     (let sorted_tasks = sort_dedup (xd_tasks d);
          seam_justified = (reason_names_reintegration_seam (xd_reason d) \<and>
            list_ex (\<lambda>dependency. obj_get (ts_assignment st) dependency = Some Parallel) (xd_dependencies d))
      in if 1 < length sorted_tasks
         then list_all (\<lambda>(a, b). tasks_share_write_scope index a b) (adjacent_pairs sorted_tasks) \<or> seam_justified
         else case sorted_tasks of
           [] \<Rightarrow> False
         | task # _ \<Rightarrow> xd_dependencies d \<noteq> [] \<or> list_ex (\<lambda>(dependency, _). dependency = task) (ts_edges st))"

definition check_serial :: "(nat \<times> string list) list \<Rightarrow> ExecutionDirective \<Rightarrow> topology_state \<Rightarrow> topology_state" where
  "check_serial index d st =
     (if xd_kind d = Serial \<and> \<not> serial_justified index d st
      then topo_push ''serial_execution_unproven''
             (''Serialized work for Task '' @ show_nat (head_or_zero (sort_dedup (xd_tasks d))) @
              '' must prove a real hazard through dependency edges or overlapping write scope; prose-only serialization is not allowed.'')
             (st\<lparr>ts_serial_hazards_resolved := False\<rparr>)
      else st)"

definition check_diagram :: "string option \<Rightarrow> topology_state \<Rightarrow> topology_state" where
  "check_diagram diagram st =
     (case diagram of
        None \<Rightarrow> st
      | Some diagram \<Rightarrow>
          (case parse_dependency_diagram_edges diagram of
             Some edges \<Rightarrow>
               if edges \<noteq> ts_edges st
               then topo_push ''dependency_diagram_mismatch''
                      ''Dependency Diagram does not express the dependency edges claimed by Execution Strategy.'' st
               else st
           | None \<Rightarrow> topo_push ''malformed_dependency_diagram''
               ''Dependency Diagram must be parseable and machine-checkable.'' st))"

definition ordered_pair :: "dep_map \<Rightarrow> nat \<Rightarrow> nat \<Rightarrow> bool" where
  "ordered_pair closure left right \<longleftrightarrow>
     is_some_and (obj_get closure left) (\<lambda>deps. right \<in> set deps) \<or>
     is_some_and (obj_get closure right) (\<lambda>deps. left \<in> set deps)"

fun unordered_conflict :: "dep_map \<Rightarrow> nat list \<Rightarrow> bool" where
  "unordered_conflict closure [] = False"
| "unordered_conflict closure (left # rest) =
     (list_ex (\<lambda>right. \<not> ordered_pair closure left right) rest \<or> unordered_conflict closure rest)"

definition check_overlap :: "dep_map \<Rightarrow> OverlappingWriteScope \<Rightarrow> topology_state \<Rightarrow> topology_state" where
  "check_overlap closure overlap st =
     (if unordered_conflict closure (ows_tasks overlap)
      then topo_push ''parallel_hotspot_conflict''
             (''Execution Strategy leaves hotspot path '' @ ows_path overlap @ '' unordered across tasks '' @
              show_nat_list (ows_tasks overlap) @ ''.'') st
      else st)"

record ExecutionTopologyAnalysis =
  eta_execution_strategy_present :: bool
  eta_dependency_diagram_present :: bool
  eta_execution_topology_valid :: bool
  eta_serial_hazards_resolved :: bool
  eta_parallel_lane_ownership_valid :: bool
  eta_parallel_workspace_isolation_valid :: bool
  eta_parallel_worktree_groups :: "nat list list"
  eta_parallel_worktree_requirements :: "ParallelWorktreeRequirement list"
  eta_reason_codes :: "string list"
  eta_diagnostics :: "ContractDiagnostic list"

definition initial_topology :: "nat list \<Rightarrow> diagnostic_log \<Rightarrow> topology_state" where
  "initial_topology task_numbers log =
     \<lparr>ts_log = log, ts_serial_hazards_resolved = True, ts_parallel_lane_ownership_valid = True,
      ts_parallel_workspace_isolation_valid = True, ts_groups = [], ts_requirements = [], ts_assignment = [],
      ts_dependencies = fold (\<lambda>task. obj_insert task []) task_numbers [], ts_edges = []\<rparr>"

definition section_log :: "string option \<Rightarrow> string option \<Rightarrow> diagnostic_log" where
  "section_log strategy diagram =
     (let log = (if strategy = None
                 then push_diagnostic ''missing_execution_strategy''
                        ''Plans must include a canonical Execution Strategy section.'' ([], [])
                 else ([], []))
      in if diagram = None
         then push_diagnostic ''missing_dependency_diagram''
                ''Plans must include a canonical Dependency Diagram section.'' log
         else log)"

definition strategy_directives :: "string option \<Rightarrow> diagnostic_log \<Rightarrow> ExecutionDirective list \<times> diagnostic_log" where
  "strategy_directives strategy log =
     (case strategy of None \<Rightarrow> ([], log) | Some sec \<Rightarrow> parse_execution_strategy_directives sec log)"

definition run_directives :: "nat list \<Rightarrow> ExecutionDirective list \<Rightarrow> topology_state \<Rightarrow> topology_state" where
  "run_directives task_numbers directives st =
     fold (order_last task_numbers) directives
       (fold require_assignment task_numbers
         (fold (apply_directive task_numbers) directives st))"

definition topology_of :: "string \<Rightarrow> task_scopes \<Rightarrow> topology_state" where
  "topology_of source scopes =
     (let task_numbers = map fst scopes;
          strategy = markdown_section source ''Execution Strategy'';
          diagram = markdown_section source ''Dependency Diagram'';
          index = fold (\<lambda>(task, paths). obj_insert task (bset_of paths)) scopes [];
          (directives, log) = strategy_directives strategy (section_log strategy diagram);
          st = run_directives task_numbers directives (initial_topology task_numbers log);
          st = fold (check_serial index) directives st
      in fold (check_overlap (transitive_dependencies (ts_dependencies st))) (overlapping_scopes scopes)
           (check_diagram diagram st))"

definition analyze_execution_topology :: "string \<Rightarrow> task_scopes \<Rightarrow> ExecutionTopologyAnalysis" where
  "analyze_execution_topology source scopes =
     (let st = topology_of source scopes in
      \<lparr>eta_execution_strategy_present = (markdown_section source ''Execution Strategy'' \<noteq> None),
       eta_dependency_diagram_present = (markdown_section source ''Dependency Diagram'' \<noteq> None),
       eta_execution_topology_valid = (fst (ts_log st) = []),
       eta_serial_hazards_resolved = ts_serial_hazards_resolved st,
       eta_parallel_lane_ownership_valid = ts_parallel_lane_ownership_valid st,
       eta_parallel_workspace_isolation_valid = ts_parallel_workspace_isolation_valid st,
       eta_parallel_worktree_groups = ts_groups st,
       eta_parallel_worktree_requirements = ts_requirements st,
       eta_reason_codes = snd (ts_log st),
       eta_diagnostics = fst (ts_log st)\<rparr>)"

end
