(* ===== verification/Topology_Correct.thy ===== *)
theory Topology_Correct
  imports Plan_Topology
begin

text \<open>Correctness of the topology analysis: the search for transitive dependencies computes
  reachability, the diagram reader follows exactly the drawn connectors, and a topology that the
  analysis accepts orders any two tasks that write the same file, and assigns every task once.\<close>

subsection \<open>Ordered sets\<close>

lemma set_bset_insert [simp]: "set (bset_insert x xs) = insert x (set xs)"
  by (simp add: bset_insert_def set_insort_insert)

lemma set_bset_extend [simp]: "set (bset_extend xs s) = set xs \<union> set s"
  unfolding bset_extend_def by (induction xs arbitrary: s) auto

lemma set_bset_of [simp]: "set (bset_of xs) = set xs"
  by (simp add: bset_of_def)

lemma set_sort_dedup [simp]: "set (sort_dedup xs) = set xs"
  by (simp add: sort_dedup_def)

lemma distinct_sort_dedup [simp]: "distinct (sort_dedup xs)"
  proof -
  have "distinct (remdups_adj ys)" if "sorted ys" for ys :: "'a list"
    using that by (induction ys rule: remdups_adj.induct) auto
  then show ?thesis by (simp add: sort_dedup_def)
qed

lemma entry_or_empty_insert [simp]:
  "entry_or_empty (obj_insert k v m) k' = (if k' = k then v else entry_or_empty m k')"
  by (simp add: entry_or_empty_def obj_get_insert)

subsection \<open>Searches\<close>

text \<open>What a search of a graph promises: it finds its start, it is closed under the edges, and it finds
  nothing that cannot be reached.\<close>

locale exhaustive_search =
  fixes succs :: "'a \<Rightarrow> 'a set"
    and start :: "'a set"
    and found :: "'a set"
  assumes start_found: "start \<subseteq> found"
    and closed: "x \<in> found \<Longrightarrow> succs x \<subseteq> found"
    and sound: "y \<in> found \<Longrightarrow> \<exists>x\<in>start. (x, y) \<in> {(a, b). b \<in> succs a}\<^sup>*"
begin

lemma closed_star:
  assumes "(x, y) \<in> {(a, b). b \<in> succs a}\<^sup>*" "x \<in> found"
  shows "y \<in> found"
  using assms by (induction rule: rtrancl_induct) (auto dest: closed)

lemma found_iff: "y \<in> found \<longleftrightarrow> (\<exists>x\<in>start. (x, y) \<in> {(a, b). b \<in> succs a}\<^sup>*)"
  using start_found closed_star sound by blast

lemma found_from_one:
  assumes "start = succs x"
  shows "y \<in> found \<longleftrightarrow> (x, y) \<in> {(a, b). b \<in> succs a}\<^sup>+"
  unfolding found_iff assms by (auto intro: rtrancl_into_trancl2 dest!: tranclD)

end

subsection \<open>Transitive dependencies\<close>

abbreviation depends :: "dep_map \<Rightarrow> (nat \<times> nat) set" where
  "depends direct \<equiv> {(a, b). b \<in> set (entry_or_empty direct a)}"

definition explored :: "dep_map \<Rightarrow> nat list \<Rightarrow> nat set \<Rightarrow> nat list \<times> nat set \<Rightarrow> bool" where
  "explored direct ds seen r \<longleftrightarrow>
     snd r = seen \<union> set (fst r) \<and> set ds \<subseteq> snd r \<and>
     (\<forall>x\<in>set (fst r). set (entry_or_empty direct x) \<subseteq> snd r) \<and>
     (\<forall>x\<in>set (fst r). \<exists>d\<in>set ds. (d, x) \<in> (depends direct)\<^sup>*)"

lemma collect_dependency_list_explores: "explored direct ds seen (collect_dependency_list direct ds seen)"
proof (induction direct ds seen rule: collect_dependency_list.induct)
  case (2 direct d ds seen)
  show ?case
  proof (cases "d \<in> seen")
    case True
    with 2(1) show ?thesis by (auto simp: explored_def)
  next
    case False
    obtain inner seen1 where i:
      "collect_dependency_list direct (entry_or_empty direct d) (insert d seen) = (inner, seen1)" by fastforce
    obtain rest seen2 where r: "collect_dependency_list direct ds seen1 = (rest, seen2)" by fastforce
    from 2(2) [OF False] i have one: "explored direct (entry_or_empty direct d) (insert d seen) (inner, seen1)" by simp
    from 2(3) [OF False i [symmetric] refl] r have two: "explored direct ds seen1 (rest, seen2)" by simp
    have "(d, x) \<in> (depends direct)\<^sup>*" if "x \<in> set inner" for x
    proof -
      from one that obtain e where "e \<in> set (entry_or_empty direct d)" "(e, x) \<in> (depends direct)\<^sup>*"
        by (auto simp: explored_def)
      then show ?thesis by (auto intro: converse_rtrancl_into_rtrancl)
    qed
    with False i r one two show ?thesis by (auto simp: explored_def)
  qed
qed (auto simp: explored_def)

interpretation deps: exhaustive_search
  "\<lambda>t. set (entry_or_empty direct t)" "set (entry_or_empty direct task)" "set (collect_dependencies task direct)"
  for direct task
  using collect_dependency_list_explores [of direct "entry_or_empty direct task" "{}"]
  by unfold_locales (auto simp: explored_def collect_dependencies_def)

lemma collect_dependencies_iff: "d \<in> set (collect_dependencies task direct) \<longleftrightarrow> (task, d) \<in> (depends direct)\<^sup>+"
  by (rule deps.found_from_one) simp

lemma obj_get_transitive_dependencies:
  "obj_get (transitive_dependencies direct) task = map_option (\<lambda>_. collect_dependencies task direct) (obj_get direct task)"
proof -
  have "map_of (map (\<lambda>(t, _). (t, f t)) m) task = map_option (\<lambda>_. f task) (map_of m task)"
    for f :: "nat \<Rightarrow> nat list" and m :: dep_map
    by (induction m) auto
  then show ?thesis by (simp add: transitive_dependencies_def obj_get_def)
qed

text \<open>C18: the transitive dependencies recorded for a task are exactly the tasks that can be reached from it
  by one or more direct dependencies, cycles included.\<close>

theorem transitive_dependencies_is_reachability:
  assumes "obj_get (transitive_dependencies direct) task = Some found"
  shows "d \<in> set found \<longleftrightarrow> (task, d) \<in> (depends direct)\<^sup>+"
proof -
  from assms have "found = collect_dependencies task direct" by (auto simp: obj_get_transitive_dependencies)
  then show ?thesis by (simp add: collect_dependencies_iff)
qed

theorem transitive_dependencies_is_reachability_witness:
  "obj_get (transitive_dependencies [(1, []), (2, [1]), (3, [2])]) 3 = Some [1, 2] \<and>
   ((3, 1) \<in> (depends [(1, []), (2, [1]), (3, [2])])\<^sup>+ \<longleftrightarrow> (1::nat) \<in> set [1, 2])"
proof -
  have "obj_get (transitive_dependencies [(1, []), (2, [1]), (3, [2])]) 3 = Some [1, 2]" by code_simp
  with transitive_dependencies_is_reachability [OF this, of 1] show ?thesis by blast
qed

subsection \<open>Dependencies and edges agree\<close>

definition edges_match :: "nat set \<Rightarrow> topology_state \<Rightarrow> bool" where
  "edges_match ns st \<longleftrightarrow>
     (\<forall>t d. d \<in> set (entry_or_empty (ts_dependencies st) t) \<longleftrightarrow> (d, t) \<in> set (ts_edges st)) \<and>
     (\<forall>n\<in>ns. obj_get (ts_dependencies st) n \<noteq> None)"

lemma edges_match_cong:
  assumes "ts_dependencies st' = ts_dependencies st" "ts_edges st' = ts_edges st"
  shows "edges_match ns st' \<longleftrightarrow> edges_match ns st"
  using assms by (simp add: edges_match_def)

lemma edges_match_add_dependencies: "edges_match ns st \<Longrightarrow> edges_match ns (add_dependencies ds task st)"
  by (auto simp: edges_match_def add_dependencies_def obj_get_insert)

lemma edges_match_fold:
  assumes "\<And>x st. edges_match ns st \<Longrightarrow> edges_match ns (f x st)" "edges_match ns st"
  shows "edges_match ns (fold f xs st)"
  using assms(2) by (induction xs arbitrary: st) (auto intro: assms(1))

lemma edges_match_assign_task: "edges_match ns st \<Longrightarrow> edges_match ns (assign_task tn kind t st)"
  by (auto simp: edges_match_def assign_task_def Let_def)

lemma edges_match_require_reason: "edges_match ns st \<Longrightarrow> edges_match ns (require_reason d t st)"
  by (auto simp: edges_match_def require_reason_def)

lemma edges_match_apply_serial: "edges_match ns st \<Longrightarrow> edges_match ns (apply_serial d ts st)"
  unfolding apply_serial_def Let_def
  by (intro edges_match_fold)
    (auto split: list.splits prod.splits intro: edges_match_add_dependencies edges_match_require_reason)

lemma edges_match_apply_parallel: "edges_match ns st \<Longrightarrow> edges_match ns (apply_parallel d ts st)"
  unfolding apply_parallel_def Let_def
  by (intro edges_match_fold edges_match_add_dependencies) (auto simp: edges_match_def)

lemma edges_match_apply_last: "edges_match ns st \<Longrightarrow> edges_match ns (apply_last tn d ts st)"
  using edges_match_require_reason [of ns st d "head_or_zero ts"]
  by (auto simp: apply_last_def Let_def edges_match_def split: list.splits)

lemma edges_match_apply_directive: "edges_match ns st \<Longrightarrow> edges_match ns (apply_directive tn d st)"
  unfolding apply_directive_def Let_def
  by (auto split: ExecutionDirectiveKind.splits intro!: edges_match_apply_serial edges_match_apply_parallel
      edges_match_apply_last edges_match_fold edges_match_assign_task)

lemma edges_match_require_assignment: "edges_match ns st \<Longrightarrow> edges_match ns (require_assignment t st)"
  by (auto simp: edges_match_def require_assignment_def)

lemma edges_match_order_last: "edges_match ns st \<Longrightarrow> edges_match ns (order_last tn d st)"
  unfolding order_last_def
  by (auto split: list.splits intro!: edges_match_fold edges_match_add_dependencies)

lemma edges_match_run_directives: "edges_match ns st \<Longrightarrow> edges_match ns (run_directives tn ds st)"
  unfolding run_directives_def
  by (intro edges_match_fold edges_match_order_last edges_match_require_assignment edges_match_apply_directive)

lemma edges_match_initial: "edges_match (set tn) (initial_topology tn log)"
proof -
  have "obj_get (fold (\<lambda>t. obj_insert t []) tn m) n = (if n \<in> set tn then Some [] else obj_get m n)"
    for n :: nat and m :: dep_map
    by (induction tn arbitrary: m) (auto simp: obj_get_insert)
  then show ?thesis
    by (auto simp: edges_match_def initial_topology_def entry_or_empty_def obj_get_def [of "[]"] split: if_splits)
qed

lemma edges_match_check_serial: "edges_match ns st \<Longrightarrow> edges_match ns (check_serial index d st)"
  by (auto simp: edges_match_def check_serial_def)

text \<open>A dependency reads against an edge: the edge goes from what comes first.\<close>

lemma depends_edges:
  assumes "edges_match ns st"
  shows "(a, b) \<in> (depends (ts_dependencies st))\<^sup>+ \<longleftrightarrow> (b, a) \<in> (set (ts_edges st))\<^sup>+"
proof -
  have "depends (ts_dependencies st) = (set (ts_edges st))\<inverse>"
    using assms by (auto simp: edges_match_def)
  then show ?thesis by (simp add: trancl_converse)
qed

lemma ordered_pair_edges:
  assumes "edges_match ns st" "left \<in> ns" "right \<in> ns"
  shows "ordered_pair (transitive_dependencies (ts_dependencies st)) left right \<longleftrightarrow>
    (right, left) \<in> (set (ts_edges st))\<^sup>+ \<or> (left, right) \<in> (set (ts_edges st))\<^sup>+"
proof -
  from assms obtain l r where "obj_get (ts_dependencies st) left = Some l" "obj_get (ts_dependencies st) right = Some r"
    by (metis edges_match_def option.exhaust)
  then show ?thesis
    by (simp add: ordered_pair_def obj_get_transitive_dependencies collect_dependencies_iff depends_edges [OF assms(1)])
qed

subsection \<open>Overlapping scopes\<close>

lemma index_scopes:
  "t \<in> set (entry_or_empty (fold (\<lambda>(task, paths) index. fold (index_scope task) paths index) scopes index) p) \<longleftrightarrow>
   t \<in> set (entry_or_empty index p) \<or> (\<exists>paths. (t, paths) \<in> set scopes \<and> p \<in> set paths)"
proof -
  have inner: "t \<in> set (entry_or_empty (fold (index_scope task) paths index) p) \<longleftrightarrow>
      t \<in> set (entry_or_empty index p) \<or> t = task \<and> p \<in> set paths" for task paths index
    by (induction paths arbitrary: index) (auto simp: index_scope_def)
  show ?thesis
  proof (induction scopes arbitrary: index)
    case (Cons s scopes)
    then show ?case by (cases s) (auto simp: inner)
  qed simp
qed

lemma overlapping_scopes_complete:
  assumes "(l, ps) \<in> set scopes" "(r, qs) \<in> set scopes" "p \<in> set ps" "p \<in> set qs" "l \<noteq> r"
  obtains overlap where "overlap \<in> set (overlapping_scopes scopes)" "l \<in> set (ows_tasks overlap)" "r \<in> set (ows_tasks overlap)"
proof -
  define index where "index = fold (\<lambda>(task, paths) index. fold (index_scope task) paths index) scopes []"
  have both: "l \<in> set (entry_or_empty index p)" "r \<in> set (entry_or_empty index p)"
    using assms by (auto simp: index_def index_scopes)
  then obtain ts where ts: "obj_get index p = Some ts" "l \<in> set ts" "r \<in> set ts"
    by (cases "obj_get index p") (auto simp: entry_or_empty_def)
  then have mem: "(p, ts) \<in> set index" by (simp add: obj_get_def map_of_SomeD)
  have "card {l, r} \<le> card (set (sort_dedup ts))" using ts by (intro card_mono) auto
  also have "\<dots> \<le> length (sort_dedup ts)" by (rule card_length)
  finally have "1 < length (sort_dedup ts)" using assms(5) by simp
  with mem have "\<lparr>ows_path = p, ows_tasks = sort_dedup ts\<rparr> \<in> set (overlapping_scopes scopes)"
    unfolding overlapping_scopes_def index_def [symmetric] overlaps_of_index_def by (force simp: Let_def)
  with ts that show thesis by force
qed

lemma unordered_conflict_pairs:
  assumes "\<not> unordered_conflict closure ts" "l \<in> set ts" "r \<in> set ts" "l \<noteq> r"
  shows "ordered_pair closure l r"
proof -
  have sym: "ordered_pair closure a b \<longleftrightarrow> ordered_pair closure b a" for a b
    by (auto simp: ordered_pair_def)
  from assms(1-3) show ?thesis
    using assms(4) by (induction ts) (auto simp: list_ex_iff sym)
qed

subsection \<open>The log only grows\<close>

abbreviation clean :: "topology_state \<Rightarrow> bool" where
  "clean st \<equiv> fst (ts_log st) = []"

lemma clean_fold:
  assumes "\<And>x st. clean (f x st) \<Longrightarrow> clean st" "clean (fold f xs st)"
  shows "clean st"
  using assms(2) by (induction xs arbitrary: st) (auto intro: assms(1))

lemma push_diagnostic_dirty [simp]: "fst (push_diagnostic code msg log) \<noteq> []"
  by (simp add: push_diagnostic_def)

lemma clean_check_overlaps:
  assumes "clean (fold (check_overlap closure) overlaps st)"
  shows "clean st \<and> (\<forall>overlap\<in>set overlaps. \<not> unordered_conflict closure (ows_tasks overlap))"
  using assms
proof (induction overlaps arbitrary: st)
  case (Cons overlap overlaps)
  from Cons.prems have "clean (fold (check_overlap closure) overlaps (check_overlap closure overlap st))" by simp
  from Cons.IH [OF this] show ?case by (auto simp: check_overlap_def split: if_splits)
qed simp

lemma clean_check_diagram:
  assumes "clean (check_diagram diagram st)"
  shows "clean st \<and> (\<forall>s. diagram = Some s \<longrightarrow> parse_dependency_diagram_edges s = Some (ts_edges st))"
  using assms by (auto simp: check_diagram_def split: option.splits if_splits)

lemma clean_check_serial: "clean (check_serial index d st) \<Longrightarrow> clean st"
  by (auto simp: check_serial_def split: if_splits)

lemma clean_assign_task: "clean (assign_task tn kind t st) \<Longrightarrow> clean st"
  by (auto simp: assign_task_def Let_def split: if_splits)

lemma clean_require_reason: "clean (require_reason d t st) \<Longrightarrow> clean st"
  by (auto simp: require_reason_def split: if_splits)

lemma log_add_dependencies [simp]: "ts_log (add_dependencies ds t st) = ts_log st"
  by (simp add: add_dependencies_def)

lemma log_fold_dependencies:
  assumes "\<And>x st. ts_log (f x st) = ts_log st"
  shows "ts_log (fold f xs st) = ts_log st"
  by (induction xs arbitrary: st) (simp_all add: assms)

lemma clean_apply_serial: "clean (apply_serial d ts st) \<Longrightarrow> clean st"
  by (auto simp: apply_serial_def Let_def log_fold_dependencies split: list.splits prod.splits dest: clean_require_reason)

lemma clean_apply_parallel:
  assumes "clean (apply_parallel d ts st)"
  shows "clean st \<and> xd_declared_worktrees d = Some (length ts) \<and> xd_ownership_tasks d = ts"
  using assms by (auto simp: apply_parallel_def Let_def log_fold_dependencies split: if_splits)

lemma clean_apply_last: "clean (apply_last tn d ts st) \<Longrightarrow> clean st"
  by (auto simp: apply_last_def Let_def split: list.splits if_splits dest: clean_require_reason)

lemma clean_apply_directive:
  assumes "clean (apply_directive tn d st)"
  shows "clean (fold (assign_task tn (xd_kind d)) (sort_dedup (xd_tasks d)) st)"
    "xd_kind d = Parallel \<Longrightarrow>
       xd_declared_worktrees d = Some (card (set (xd_tasks d))) \<and> set (xd_ownership_tasks d) = set (xd_tasks d)"
proof -
  show "clean (fold (assign_task tn (xd_kind d)) (sort_dedup (xd_tasks d)) st)"
    using assms by (auto simp: apply_directive_def Let_def split: ExecutionDirectiveKind.splits
        dest: clean_apply_serial clean_apply_parallel clean_apply_last)
next
  assume "xd_kind d = Parallel"
  with assms have "xd_declared_worktrees d = Some (length (sort_dedup (xd_tasks d)))"
    "xd_ownership_tasks d = sort_dedup (xd_tasks d)"
    by (auto simp: apply_directive_def Let_def dest: clean_apply_parallel)
  then show "xd_declared_worktrees d = Some (card (set (xd_tasks d))) \<and> set (xd_ownership_tasks d) = set (xd_tasks d)"
    by (metis distinct_card distinct_sort_dedup set_sort_dedup)
qed

lemma clean_require_assignment:
  "clean (require_assignment t st) \<Longrightarrow> clean st \<and> obj_get (ts_assignment st) t \<noteq> None"
  by (auto simp: require_assignment_def split: if_splits)

lemma clean_require_assignments:
  "clean (fold require_assignment ts st) \<Longrightarrow> clean st \<and> (\<forall>t\<in>set ts. obj_get (ts_assignment st) t \<noteq> None)"
proof (induction ts arbitrary: st)
  case (Cons t ts)
  have same: "ts_assignment (require_assignment t st) = ts_assignment st" by (simp add: require_assignment_def)
  from Cons.prems have "clean (fold require_assignment ts (require_assignment t st))" by simp
  from Cons.IH [OF this] same show ?case using clean_require_assignment [of t st] by auto
qed simp

lemma log_order_last [simp]: "ts_log (order_last tn d st) = ts_log st"
  by (auto simp: order_last_def log_fold_dependencies split: list.splits)

lemma clean_run_directives:
  assumes "clean (run_directives tn ds st)"
  shows "clean (fold (apply_directive tn) ds st)"
    "\<forall>t\<in>set tn. obj_get (ts_assignment (fold (apply_directive tn) ds st)) t \<noteq> None"
  using assms clean_require_assignments [of tn "fold (apply_directive tn) ds st"]
  by (auto simp: run_directives_def log_fold_dependencies)

subsection \<open>Every task is assigned once\<close>

lemma assignment_add_dependencies [simp]: "ts_assignment (add_dependencies ds t st) = ts_assignment st"
  by (simp add: add_dependencies_def)

lemma assignment_fold_dependencies:
  assumes "\<And>x st. ts_assignment (f x st) = ts_assignment st"
  shows "ts_assignment (fold f xs st) = ts_assignment st"
  by (induction xs arbitrary: st) (simp_all add: assms)

lemma assignment_apply_directive:
  "ts_assignment (apply_directive tn d st) =
   ts_assignment (fold (assign_task tn (xd_kind d)) (sort_dedup (xd_tasks d)) st)"
  by (auto simp: apply_directive_def Let_def apply_serial_def apply_parallel_def apply_last_def require_reason_def
      assignment_fold_dependencies split: ExecutionDirectiveKind.splits list.splits prod.splits)

definition assigned :: "topology_state \<Rightarrow> nat set" where
  "assigned st = {t. obj_get (ts_assignment st) t \<noteq> None}"

lemma clean_assign_tasks:
  assumes "clean (fold (assign_task tn kind) ts st)" "distinct ts"
  shows "set ts \<subseteq> set tn" "set ts \<inter> assigned st = {}" "assigned (fold (assign_task tn kind) ts st) = assigned st \<union> set ts"
    "clean st"
  using assms
proof (induction ts arbitrary: st)
  case (Cons t ts)
  {
    case 1
    then show ?case using Cons.IH(1,4) [of "assign_task tn kind t st"]
      by (auto simp: assign_task_def Let_def split: if_splits)
  next
    case 2
    then show ?case using Cons.IH(2,4) [of "assign_task tn kind t st"]
      by (auto simp: assign_task_def Let_def assigned_def obj_get_insert split: if_splits)
  next
    case 3
    then show ?case using Cons.IH(3,4) [of "assign_task tn kind t st"]
      by (auto simp: assign_task_def Let_def assigned_def obj_get_insert split: if_splits)
  next
    case 4
    then show ?case using Cons.IH(4) [of "assign_task tn kind t st"] clean_assign_task by auto
  }
qed auto

lemma clean_directives:
  assumes "clean (fold (apply_directive tn) ds st)"
  shows "(\<forall>d\<in>set ds. set (xd_tasks d) \<subseteq> set tn \<and> set (xd_tasks d) \<inter> assigned st = {}) \<and>
    (\<forall>t. length (filter (\<lambda>d. t \<in> set (xd_tasks d)) ds) \<le> 1) \<and>
    assigned (fold (apply_directive tn) ds st) = assigned st \<union> (\<Union>d\<in>set ds. set (xd_tasks d)) \<and>
    (\<forall>d\<in>set ds. xd_kind d = Parallel \<longrightarrow>
       xd_declared_worktrees d = Some (card (set (xd_tasks d))) \<and> set (xd_ownership_tasks d) = set (xd_tasks d)) \<and>
    clean st"
  using assms
proof (induction ds arbitrary: st)
  case (Cons d ds)
  let ?st = "apply_directive tn d st"
  from Cons.prems have "clean (fold (apply_directive tn) ds ?st)" by simp
  from Cons.IH [OF this] have ih: "\<forall>d'\<in>set ds. set (xd_tasks d') \<subseteq> set tn \<and> set (xd_tasks d') \<inter> assigned ?st = {}"
    "\<forall>t. length (filter (\<lambda>d. t \<in> set (xd_tasks d)) ds) \<le> 1"
    "assigned (fold (apply_directive tn) ds ?st) = assigned ?st \<union> (\<Union>d\<in>set ds. set (xd_tasks d))"
    "\<forall>d\<in>set ds. xd_kind d = Parallel \<longrightarrow>
       xd_declared_worktrees d = Some (card (set (xd_tasks d))) \<and> set (xd_ownership_tasks d) = set (xd_tasks d)"
    "clean ?st" by blast+
  note here = clean_apply_directive [OF ih(5)]
  note tasks = clean_assign_tasks [OF here(1) distinct_sort_dedup]
  have grown: "assigned ?st = assigned st \<union> set (xd_tasks d)"
    using tasks(3) by (simp add: assigned_def assignment_apply_directive)
  have none: "filter (\<lambda>d'. t \<in> set (xd_tasks d')) ds = []" if "t \<in> set (xd_tasks d)" for t
    using ih(1) that grown by (auto simp: filter_empty_conv)
  show ?case using ih tasks grown none here(2) by auto
qed simp

subsection \<open>Sample topologies\<close>

definition sample_topology :: string where
  "sample_topology = join_with [newline]
     [''## Execution Strategy'', ''- Execute Task 1 serially before the rest. Shared setup'',
      ''- After Task 1, create two worktrees and run Tasks 2 and 3 in parallel:'', ''  - Task 2 owns the parser'',
      ''  - Task 3 owns the printer'', ''- Execute Task 4 last. Reintegration'', ''## Dependency Diagram'', ''```text'',
      ''Task 1'', ''  |'', ''  +----------+'', ''  |          |'', ''  v          v'', ''Task 2    Task 3'', ''  |          |'',
      ''  +----------+'', ''  |'', ''  v'', ''Task 4'', ''```'']"

definition sample_scopes :: task_scopes where
  "sample_scopes = [(1, [''a'']), (2, [''a'', ''b'']), (3, [''c'']), (4, [''b''])]"

definition cyclic_topology :: string where
  "cyclic_topology = join_with [newline]
     [''## Execution Strategy'', ''- Execute Task 1 serially after Task 2. Shared file'',
      ''- Execute Task 2 serially after Task 1. Shared file'', ''## Dependency Diagram'',
      ''Task 1 --> Task 2 --> Task 1'']"

lemma sample_topology_valid: "eta_execution_topology_valid (analyze_execution_topology sample_topology sample_scopes)"
  by code_simp

subsection \<open>What an accepted topology guarantees\<close>

definition plan_directives :: "string \<Rightarrow> ExecutionDirective list" where
  "plan_directives source =
     (case markdown_section source ''Execution Strategy'' of
        None \<Rightarrow> []
      | Some sec \<Rightarrow> fst (parse_execution_strategy_directives sec ([], [])))"

lemma directive_lines_log: "fst (directive_lines lines log) = fst (directive_lines lines log')"
proof (induction lines log arbitrary: log' rule: directive_lines.induct)
  case (2 line lines log)
  show ?case
    by (auto simp: Let_def split: option.splits intro: 2)
qed simp

lemma clean_directive_lines: "fst (snd (directive_lines lines log)) = [] \<Longrightarrow> fst log = []"
  by (induction lines log rule: directive_lines.induct)
    (auto simp: Let_def malformed_strategy_def split: option.splits if_splits prod.splits)

lemma section_log_clean: "fst (section_log strategy diagram) = [] \<longleftrightarrow> strategy \<noteq> None \<and> diagram \<noteq> None"
  by (simp add: section_log_def Let_def)

text \<open>The state after the directives, the last task and the serial checks, before the diagram and the
  overlaps are looked at.\<close>

lemma accepted_topology:
  assumes "eta_execution_topology_valid (analyze_execution_topology source scopes)"
  obtains log diagram where
    "markdown_section source ''Execution Strategy'' \<noteq> None"
    "markdown_section source ''Dependency Diagram'' = Some diagram"
    "clean (run_directives (map fst scopes) (plan_directives source) (initial_topology (map fst scopes) log))"
    "parse_dependency_diagram_edges diagram =
       Some (ts_edges (run_directives (map fst scopes) (plan_directives source) (initial_topology (map fst scopes) log)))"
    "\<forall>overlap\<in>set (overlapping_scopes scopes). \<not> unordered_conflict
       (transitive_dependencies (ts_dependencies (run_directives (map fst scopes) (plan_directives source)
         (initial_topology (map fst scopes) log)))) (ows_tasks overlap)"
proof -
  define strategy where "strategy = markdown_section source ''Execution Strategy''"
  define diagram where "diagram = markdown_section source ''Dependency Diagram''"
  define index where "index = fold (\<lambda>(task, paths). obj_insert task (bset_of paths)) scopes []"
  obtain ds log where dl: "strategy_directives strategy (section_log strategy diagram) = (ds, log)" by (rule prod.exhaust)
  define st where "st = run_directives (map fst scopes) ds (initial_topology (map fst scopes) log)"
  define checked where "checked = fold (check_serial index) ds st"
  have ds: "ds = plan_directives source"
  proof (cases strategy)
    case (Some sec)
    with dl directive_lines_log [of "str_lines sec" "section_log strategy diagram" "([], [])"] show ?thesis
      by (simp add: plan_directives_def strategy_def [symmetric] strategy_directives_def parse_execution_strategy_directives_def)
  qed (use dl in \<open>simp add: plan_directives_def strategy_def [symmetric] strategy_directives_def\<close>)
  have same: "ts_edges checked = ts_edges st" "ts_dependencies checked = ts_dependencies st"
    unfolding checked_def by (induction ds arbitrary: st) (simp_all add: check_serial_def)
  from assms have final: "clean (fold (check_overlap (transitive_dependencies (ts_dependencies checked)))
      (overlapping_scopes scopes) (check_diagram diagram checked))"
    by (simp add: analyze_execution_topology_def topology_of_def Let_def strategy_def [symmetric] diagram_def [symmetric]
        index_def [symmetric] dl st_def [symmetric] checked_def [symmetric])
  note o = clean_check_overlaps [OF this]
  from o have d: "clean checked" "\<And>s. diagram = Some s \<Longrightarrow> parse_dependency_diagram_edges s = Some (ts_edges st)"
    using clean_check_diagram same by auto
  have clean_st: "clean st" using d(1) unfolding checked_def by (rule clean_fold [rotated]) (rule clean_check_serial)
  then have "clean (initial_topology (map fst scopes) log)"
    using clean_run_directives(1) clean_directives unfolding st_def by blast
  then have "fst log = []" by (simp add: initial_topology_def)
  then have "fst (section_log strategy diagram) = []"
  proof (cases strategy)
    case (Some sec)
    with dl have "snd (directive_lines (str_lines sec) (section_log strategy diagram)) = log"
      by (simp add: strategy_directives_def parse_execution_strategy_directives_def)
    with \<open>fst log = []\<close> show ?thesis by (metis clean_directive_lines)
  qed (use dl \<open>fst log = []\<close> in \<open>simp add: strategy_directives_def\<close>)
  then obtain s where "strategy \<noteq> None" "diagram = Some s" by (auto simp: section_log_clean)
  with that [of s log] d o clean_st show thesis
    by (simp add: st_def strategy_def diagram_def ds same)
qed

text \<open>C12: any two tasks of an accepted plan that write the same file are ordered by the dependency
  diagram the plan draws: one can be reached from the other along its edges.\<close>

theorem accepted_topology_orders_writers:
  assumes "eta_execution_topology_valid (analyze_execution_topology source scopes)"
    and "(left, left_paths) \<in> set scopes" "(right, right_paths) \<in> set scopes" "left \<noteq> right"
    and "path \<in> set left_paths" "path \<in> set right_paths"
  shows "\<exists>diagram edges. markdown_section source ''Dependency Diagram'' = Some diagram \<and>
    parse_dependency_diagram_edges diagram = Some edges \<and>
    ((left, right) \<in> (set edges)\<^sup>+ \<or> (right, left) \<in> (set edges)\<^sup>+)"
proof -
  obtain log diagram where t:
    "markdown_section source ''Dependency Diagram'' = Some diagram"
    "parse_dependency_diagram_edges diagram =
       Some (ts_edges (run_directives (map fst scopes) (plan_directives source) (initial_topology (map fst scopes) log)))"
    "\<forall>overlap\<in>set (overlapping_scopes scopes). \<not> unordered_conflict
       (transitive_dependencies (ts_dependencies (run_directives (map fst scopes) (plan_directives source)
         (initial_topology (map fst scopes) log)))) (ows_tasks overlap)"
    by (rule accepted_topology [OF assms(1)])
  let ?st = "run_directives (map fst scopes) (plan_directives source) (initial_topology (map fst scopes) log)"
  have matched: "edges_match (set (map fst scopes)) ?st"
    by (intro edges_match_run_directives edges_match_initial)
  obtain overlap where "overlap \<in> set (overlapping_scopes scopes)" "left \<in> set (ows_tasks overlap)" "right \<in> set (ows_tasks overlap)"
    using overlapping_scopes_complete assms(2-6) by metis
  with t(3) assms(4) have "ordered_pair (transitive_dependencies (ts_dependencies ?st)) left right"
    by (auto intro: unordered_conflict_pairs)
  moreover have "left \<in> set (map fst scopes)" "right \<in> set (map fst scopes)" using assms(2,3) by force+
  ultimately show ?thesis using t(1,2) ordered_pair_edges [OF matched] by auto
qed

theorem accepted_topology_orders_writers_witness:
  "eta_execution_topology_valid (analyze_execution_topology sample_topology sample_scopes) \<and>
   (\<exists>diagram edges. markdown_section sample_topology ''Dependency Diagram'' = Some diagram \<and>
     parse_dependency_diagram_edges diagram = Some edges \<and>
     ((2, 4) \<in> (set edges)\<^sup>+ \<or> (4, 2) \<in> (set edges)\<^sup>+))"
  using accepted_topology_orders_writers [OF sample_topology_valid, of 2 "[''a'', ''b'']" 4 "[''b'']" "''b''"]
    sample_topology_valid by (simp add: sample_scopes_def)

text \<open>C16: an accepted execution strategy assigns every task of the plan by exactly one directive and
  names no other task, and each of its parallel groups declares one worktree and one owner per task.\<close>

theorem accepted_topology_assigns_once:
  assumes "eta_execution_topology_valid (analyze_execution_topology source scopes)"
  shows "(\<forall>task\<in>fst ` set scopes. length (filter (\<lambda>d. task \<in> set (xd_tasks d)) (plan_directives source)) = 1) \<and>
    (\<forall>d\<in>set (plan_directives source). set (xd_tasks d) \<subseteq> fst ` set scopes \<and>
      (xd_kind d = Parallel \<longrightarrow>
        xd_declared_worktrees d = Some (card (set (xd_tasks d))) \<and> set (xd_ownership_tasks d) = set (xd_tasks d)))"
proof -
  obtain log where c: "clean (run_directives (map fst scopes) (plan_directives source) (initial_topology (map fst scopes) log))"
    by (rule accepted_topology [OF assms])
  note run = clean_run_directives [OF c]
  note ds = clean_directives [OF run(1)]
  have one: "length (filter (\<lambda>d. task \<in> set (xd_tasks d)) (plan_directives source)) = 1" if "task \<in> fst ` set scopes" for task
  proof -
    from run(2) that have "task \<in> assigned (fold (apply_directive (map fst scopes)) (plan_directives source)
        (initial_topology (map fst scopes) log))" by (auto simp: assigned_def)
    with ds have "\<exists>d\<in>set (plan_directives source). task \<in> set (xd_tasks d)"
      by (auto simp: assigned_def initial_topology_def obj_get_def)
    then have "filter (\<lambda>d. task \<in> set (xd_tasks d)) (plan_directives source) \<noteq> []" by (auto simp: filter_empty_conv)
    with ds show ?thesis by (metis One_nat_def Suc_leI le_antisym length_greater_0_conv)
  qed
  with ds show ?thesis by (auto simp: image_iff)
qed

theorem accepted_topology_assigns_once_witness:
  "eta_execution_topology_valid (analyze_execution_topology sample_topology sample_scopes) \<and>
   length (filter (\<lambda>d. 3 \<in> set (xd_tasks d)) (plan_directives sample_topology)) = 1"
  using accepted_topology_assigns_once [OF sample_topology_valid] sample_topology_valid by (simp add: sample_scopes_def)

text \<open>C27: the analysis looks for no cycle: a plan of two tasks that each run after the other is accepted, although
  no order of execution respects its diagram.\<close>

theorem cyclic_topology_is_accepted:
  "eta_execution_topology_valid (analyze_execution_topology cyclic_topology [(1, [''a'']), (2, [''a''])]) \<and>
   (\<exists>diagram edges. markdown_section cyclic_topology ''Dependency Diagram'' = Some diagram \<and>
     parse_dependency_diagram_edges diagram = Some edges \<and> (1, 1) \<in> (set edges)\<^sup>+)"
proof -
  have "eta_execution_topology_valid (analyze_execution_topology cyclic_topology [(1, [''a'']), (2, [''a''])])"
    by code_simp
  moreover have "markdown_section cyclic_topology ''Dependency Diagram'' = Some ''Task 1 --> Task 2 --> Task 1''"
    by code_simp
  moreover have "parse_dependency_diagram_edges ''Task 1 --> Task 2 --> Task 1'' = Some [(1, 2), (2, 1)]" by code_simp
  moreover have "(1, 1) \<in> (set [(1, 2), (2, 1::nat)])\<^sup>+" by (rule trancl_into_trancl2 [of _ 2]) auto
  ultimately show ?thesis by blast
qed

subsection \<open>The diagram reader follows the connectors\<close>

definition cell_succs :: "string list \<Rightarrow> cell \<Rightarrow> cell set" where
  "cell_succs grid c =
     (case c of (row, col) \<Rightarrow>
        case grid_at grid row col of
          Some ch \<Rightarrow> if is_dependency_connector ch then set (dependency_neighbors row col ch grid) else {}
        | None \<Rightarrow> {})"

definition cell_tasks :: "string list \<Rightarrow> nat \<Rightarrow> DiagramNode list \<Rightarrow> cell \<Rightarrow> nat set" where
  "cell_tasks grid source nodes c =
     (case c of (row, col) \<Rightarrow> if connector_at grid row col then set (touched_tasks source nodes row col) else {})"

text \<open>The cells a worklist run visits, beside those it had seen.\<close>

definition visited ::
  "string list \<Rightarrow> cell list \<Rightarrow> cell set \<Rightarrow> cell set \<Rightarrow> bool" where
  "visited grid queue seen cells \<longleftrightarrow>
     seen \<union> set queue \<subseteq> cells \<and>
     (\<forall>c\<in>cells. cell_succs grid c \<subseteq> cells) \<and>
     (\<forall>c\<in>cells - seen. \<exists>q\<in>set queue. (q, c) \<in> {(a, b). b \<in> cell_succs grid a}\<^sup>*)"

lemma visited_seen: "visited grid queue seen cells \<Longrightarrow> c \<in> seen \<Longrightarrow> visited grid (c # queue) seen cells"
  by (auto simp: visited_def)

lemma visited_expand:
  assumes "visited grid (next_cells @ queue) (insert c seen) cells" "set next_cells = cell_succs grid c"
  shows "visited grid (c # queue) seen cells"
proof -
  have "\<exists>q\<in>set (c # queue). (q, x) \<in> {(a, b). b \<in> cell_succs grid a}\<^sup>*" if x: "x \<in> cells - seen" for x
  proof (cases "x = c")
    case False
    with x assms(1) obtain q where q: "q \<in> set (next_cells @ queue)" "(q, x) \<in> {(a, b). b \<in> cell_succs grid a}\<^sup>*"
      unfolding visited_def by blast
    show ?thesis
    proof (cases "q \<in> set queue")
      case False
      with q assms(2) have "(c, q) \<in> {(a, b). b \<in> cell_succs grid a}" by auto
      with q(2) have "(c, x) \<in> {(a, b). b \<in> cell_succs grid a}\<^sup>*" by (rule converse_rtrancl_into_rtrancl [rotated])
      then show ?thesis by auto
    qed (use q in auto)
  qed auto
  with assms show ?thesis by (auto simp: visited_def)
qed

definition explores ::
  "string list \<Rightarrow> nat \<Rightarrow> DiagramNode list \<Rightarrow> cell list \<Rightarrow> cell set \<Rightarrow> (nat \<times> nat) set \<Rightarrow> (nat \<times> nat) set \<Rightarrow> bool" where
  "explores grid source nodes queue seen edges r \<longleftrightarrow>
     (\<exists>cells. visited grid queue seen cells \<and>
       r = edges \<union> (\<Union>c\<in>cells - seen. Pair source ` cell_tasks grid source nodes c))"

lemma explores_seen:
  "explores grid source nodes queue seen edges r \<Longrightarrow> c \<in> seen \<Longrightarrow> explores grid source nodes (c # queue) seen edges r"
  unfolding explores_def using visited_seen by blast

lemma explores_expand:
  assumes "explores grid source nodes (next_cells @ queue) (insert c seen) edges' r"
    and "set next_cells = cell_succs grid c" "edges' = edges \<union> Pair source ` cell_tasks grid source nodes c" "c \<notin> seen"
  shows "explores grid source nodes (c # queue) seen edges r"
proof -
  from assms(1,3) obtain cells where v: "visited grid (next_cells @ queue) (insert c seen) cells"
    and r: "r = edges \<union> Pair source ` cell_tasks grid source nodes c \<union>
      (\<Union>c\<in>cells - insert c seen. Pair source ` cell_tasks grid source nodes c)"
    unfolding explores_def by blast
  have "cells - seen = insert c (cells - insert c seen)" using v assms(4) unfolding visited_def by blast
  then have "r = edges \<union> (\<Union>c\<in>cells - seen. Pair source ` cell_tasks grid source nodes c)"
    unfolding r by (simp only: UN_insert Un_assoc)
  with visited_expand [OF v assms(2)] show ?thesis unfolding explores_def by blast
qed

lemma follow_cells_explores:
  assumes "\<forall>c\<in>seen. cell_succs grid c \<subseteq> seen \<union> set queue"
  shows "explores grid source nodes queue seen (set edges) (set (follow_cells source grid nodes queue seen edges))"
  using assms
proof (induction source grid nodes queue seen edges rule: follow_cells.induct)
  case (1 source grid nodes seen edges)
  then have "visited grid [] seen seen" by (auto simp: visited_def)
  then show ?case unfolding explores_def by (intro exI [of _ seen]) simp
next
  case (2 source grid nodes row col queue seen edges)
  let ?c = "(row, col)"
  show ?case
  proof (cases "?c \<in> seen")
    case True
    then have "\<forall>c\<in>seen. cell_succs grid c \<subseteq> seen \<union> set queue" using 2(5) by auto
    from explores_seen [OF 2(1) [OF True this] True] True show ?thesis by simp
  next
    case False
    have pre: "\<forall>c\<in>insert ?c seen. cell_succs grid c \<subseteq> insert ?c seen \<union> set (next_cells @ queue)"
      if "set next_cells = cell_succs grid ?c" for next_cells using 2(5) that by auto
    show ?thesis
    proof (cases "grid_at grid row col")
      case None
      then have leaf: "set [] = cell_succs grid ?c" "cell_tasks grid source nodes ?c = {}"
        by (simp_all add: cell_succs_def cell_tasks_def connector_at_def)
      from explores_expand [OF _ leaf(1), of source nodes queue seen "set edges"] 2(2) [OF False refl None] pre [OF leaf(1)]
      show ?thesis using False None leaf(2) by (simp add: Let_def)
    next
      case (Some ch)
      show ?thesis
      proof (cases "is_dependency_connector ch")
        case True
        let ?next = "rev (dependency_neighbors row col ch grid)"
        have here: "set ?next = cell_succs grid ?c"
          "Pair source ` cell_tasks grid source nodes ?c = set (map (Pair source) (touched_tasks source nodes row col))"
          using Some True by (simp_all add: cell_succs_def cell_tasks_def connector_at_def)
        from explores_expand [OF _ here(1), of source nodes queue seen _ _ "set edges"] 2(4) [OF False refl Some _ pre [OF here(1)]]
        show ?thesis using False Some True here(2) by (simp add: Let_def Un_commute)
      next
        case no: False
        with Some have leaf: "set [] = cell_succs grid ?c" "cell_tasks grid source nodes ?c = {}"
          by (simp_all add: cell_succs_def cell_tasks_def connector_at_def)
        from explores_expand [OF _ leaf(1), of source nodes queue seen "set edges"] 2(3) [OF False refl Some no] pre [OF leaf(1)]
        show ?thesis using False Some no leaf(2) by (simp add: Let_def)
      qed
    qed
  qed
qed

definition diagram_rows :: "string \<Rightarrow> string list" where
  "diagram_rows sec = str_lines (case extract_fenced_text sec of Some s \<Rightarrow> s | None \<Rightarrow> sec)"

definition diagram_grid :: "string \<Rightarrow> string list" where
  "diagram_grid sec = map (pad_row (foldr max (map length (diagram_rows sec)) 0)) (diagram_rows sec)"

definition connected :: "string list \<Rightarrow> DiagramNode \<Rightarrow> DiagramNode \<Rightarrow> bool" where
  "connected grid n m \<longleftrightarrow>
     dn_task m \<noteq> dn_task n \<and>
     (\<exists>start\<in>set (dependency_starts n grid). \<exists>row col.
        (start, (row, col)) \<in> {(a, b). b \<in> cell_succs grid a}\<^sup>* \<and> connector_at grid row col \<and> touches row col m)"

definition drawn_from :: "string list \<Rightarrow> DiagramNode list \<Rightarrow> DiagramNode \<Rightarrow> cell \<Rightarrow> (nat \<times> nat) set" where
  "drawn_from grid nodes n start =
     {(dn_task n, dn_task m) | m row col. m \<in> set nodes \<and> dn_task m \<noteq> dn_task n \<and>
       (start, (row, col)) \<in> {(a, b). b \<in> cell_succs grid a}\<^sup>* \<and> connector_at grid row col \<and> touches row col m}"

lemma follow_dependency_edges_drawn:
  "set (follow_dependency_edges n start grid nodes edges) = set edges \<union> drawn_from grid nodes n start"
proof -
  obtain cells where v: "visited grid [start] {} cells" and
    e: "set (follow_dependency_edges n start grid nodes edges) =
      set edges \<union> (\<Union>c\<in>cells. Pair (dn_task n) ` cell_tasks grid (dn_task n) nodes c)"
    using follow_cells_explores [of "{}" grid "[start]" "dn_task n" nodes edges]
    unfolding follow_dependency_edges_def explores_def by auto
  have "exhaustive_search (cell_succs grid) {start} cells"
    using v by unfold_locales (auto simp: visited_def)
  then have "cells = {c. (start, c) \<in> {(a, b). b \<in> cell_succs grid a}\<^sup>*}"
    by (auto simp: exhaustive_search.found_iff)
  then have "(\<Union>c\<in>cells. Pair (dn_task n) ` cell_tasks grid (dn_task n) nodes c) = drawn_from grid nodes n start"
    unfolding drawn_from_def
    by (fastforce simp: cell_tasks_def touched_tasks_def split: if_splits)
  then show ?thesis by (simp add: e)
qed

lemma node_edges_drawn:
  "set (node_edges grid nodes n edges) =
   set edges \<union> {(dn_task n, dn_task m) | m. m \<in> set nodes \<and> connected grid n m}"
proof -
  have "set (fold (\<lambda>start. follow_dependency_edges n start grid nodes) starts edges) =
      set edges \<union> (\<Union>start\<in>set starts. drawn_from grid nodes n start)" for starts
    by (induction starts arbitrary: edges) (simp_all add: follow_dependency_edges_drawn Un_assoc)
  then show ?thesis by (auto simp: node_edges_def connected_def drawn_from_def)
qed

end
