(* ===== verification/Plan_Fidelity.thy ===== *)
theory Plan_Fidelity
  imports Topology_Correct Plan_Discovery
begin

text \<open>The plan-fidelity review (\<^verbatim>\<open>src/contracts/plan.rs\<close>, and the artifact parser of
  \<^verbatim>\<open>src/execution/topology.rs\<close>): which review artifacts count for a plan and its specification, and when
  they let an approved plan go to implementation.

  The digest \<^verbatim>\<open>sha256_hex\<close> is the argument \<open>sha\<close>.  The directory of review artifacts is a value: its listing,
  or \<open>None\<close> when it cannot be listed, whether the default artifact is a regular file, and what
  reading each name gives, the text or what the failure names.\<close>

subsection \<open>Types and constants\<close>

definition PLAN_FIDELITY_REVIEW_STAGE :: string where
  "PLAN_FIDELITY_REVIEW_STAGE = ''featureforge:plan-fidelity-review''"

definition PLAN_FIDELITY_REQUIRED_SURFACES :: "string list" where
  "PLAN_FIDELITY_REQUIRED_SURFACES =
     [''requirement_index'', ''execution_topology'', ''task_contract'', ''task_determinism'', ''spec_reference_fidelity'']"

definition PLAN_FIDELITY_DISTINCT_STAGES :: "string list" where
  "PLAN_FIDELITY_DISTINCT_STAGES = [''featureforge:writing-plans'', ''featureforge:plan-eng-review'']"

definition PLAN_FIDELITY_REVIEWER_SOURCE_OPTIONS :: "string list" where
  "PLAN_FIDELITY_REVIEWER_SOURCE_OPTIONS = [''fresh-context-subagent'']"

definition PLAN_FIDELITY_REVIEW_VERDICT_OPTIONS :: "string list" where
  "PLAN_FIDELITY_REVIEW_VERDICT_OPTIONS = [''pass'', ''fail'']"

record PlanFidelityReviewArtifactTemplate =
  tpl_artifact_path :: string
  tpl_content :: string
  tpl_review_stage :: string
  tpl_review_verdict_options :: "string list"
  tpl_reviewed_plan_path :: string
  tpl_reviewed_plan_revision :: nat
  tpl_reviewed_plan_fingerprint :: string
  tpl_reviewed_spec_path :: string
  tpl_reviewed_spec_revision :: nat
  tpl_reviewed_spec_fingerprint :: string
  tpl_reviewer_source_options :: "string list"
  tpl_reviewer_id_placeholder :: string
  tpl_required_distinct_from_stages :: "string list"
  tpl_required_verified_surfaces :: "string list"
  tpl_required_requirement_ids :: "string list"
  tpl_summary_placeholder :: string

record PlanFidelityReviewReport =
  fr_state :: string
  fr_review_artifact_path :: string
  fr_reviewer_stage :: string
  fr_provenance_source :: string
  fr_verified_requirement_index :: bool
  fr_verified_execution_topology :: bool
  fr_verified_task_contract :: bool
  fr_verified_task_determinism :: bool
  fr_verified_spec_reference_fidelity :: bool
  fr_reason_codes :: "string list"
  fr_diagnostics :: "ContractDiagnostic list"
  fr_required_artifact_template :: "PlanFidelityReviewArtifactTemplate option"

record PlanFidelityReviewArtifact =
  fa_path :: string
  fa_review_stage :: string
  fa_review_verdict :: string
  fa_reviewed_plan_path :: string
  fa_reviewed_plan_revision :: nat
  fa_reviewed_plan_fingerprint :: string
  fa_reviewed_spec_path :: string
  fa_reviewed_spec_revision :: nat
  fa_reviewed_spec_fingerprint :: string
  fa_reviewer_source :: string
  fa_reviewer_id :: string
  fa_distinct_from_stages :: "string list"
  fa_verified_surfaces :: "string list"
  fa_verified_requirement_ids :: "string list"

definition report_unverified ::
  "string \<Rightarrow> string \<Rightarrow> string \<Rightarrow> string \<Rightarrow> string list \<Rightarrow> ContractDiagnostic list \<Rightarrow> PlanFidelityReviewReport" where
  "report_unverified state artifact_path stage provenance codes diagnostics =
     \<lparr>fr_state = state, fr_review_artifact_path = artifact_path, fr_reviewer_stage = stage,
      fr_provenance_source = provenance, fr_verified_requirement_index = False,
      fr_verified_execution_topology = False, fr_verified_task_contract = False,
      fr_verified_task_determinism = False, fr_verified_spec_reference_fidelity = False,
      fr_reason_codes = codes, fr_diagnostics = diagnostics, fr_required_artifact_template = None\<rparr>"

definition report_not_applicable :: PlanFidelityReviewReport where
  "report_not_applicable = report_unverified ''not_applicable'' [] [] [] [] []"

definition verified_surfaces_are_complete :: "PlanFidelityReviewReport \<Rightarrow> bool" where
  "verified_surfaces_are_complete r \<longleftrightarrow>
     fr_verified_requirement_index r \<and> fr_verified_execution_topology r \<and> fr_verified_task_contract r \<and>
     fr_verified_task_determinism r \<and> fr_verified_spec_reference_fidelity r"

definition without_required_artifact_template :: "PlanFidelityReviewReport \<Rightarrow> PlanFidelityReviewReport" where
  "without_required_artifact_template r = r\<lparr>fr_required_artifact_template := None\<rparr>"

subsection \<open>What the gate allows\<close>

definition plan_fidelity_allows_implementation :: "PlanFidelityReviewReport \<Rightarrow> bool" where
  "plan_fidelity_allows_implementation gate \<longleftrightarrow>
     fr_state gate = ''pass'' \<and> fr_reason_codes gate = [] \<and> verified_surfaces_are_complete gate"

definition engineering_approval_fidelity_primary_reason_code :: "PlanFidelityReviewReport \<Rightarrow> string" where
  "engineering_approval_fidelity_primary_reason_code gate =
     (let codes = set (fr_reason_codes gate) in
      if fr_state gate = ''missing'' \<or> ''missing_plan_fidelity_review_artifact'' \<in> codes
      then ''engineering_approval_missing_plan_fidelity_review''
      else if fr_state gate = ''stale'' \<or> ''stale_plan_fidelity_review_artifact'' \<in> codes
      then ''engineering_approval_stale_plan_fidelity_review''
      else if ''plan_fidelity_review_artifact_invalid'' \<in> codes \<or> ''ambiguous_plan_fidelity_review_artifact'' \<in> codes
      then ''engineering_approval_invalid_plan_fidelity_review''
      else if ''plan_fidelity_review_missing_required_surface'' \<in> codes \<or> \<not> verified_surfaces_are_complete gate
      then ''engineering_approval_incomplete_plan_fidelity_surfaces''
      else if fr_state gate = ''fail'' \<or> ''plan_fidelity_review_artifact_not_pass'' \<in> codes
      then ''engineering_approval_failed_plan_fidelity_review''
      else ''engineering_approval_invalid_plan_fidelity_review'')"

definition push_unique :: "string \<Rightarrow> string list \<Rightarrow> string list" where
  "push_unique code codes = (if code \<in> set codes then codes else codes @ [code])"

definition engineering_approval_fidelity_reason_codes :: "PlanFidelityReviewReport \<Rightarrow> string list" where
  "engineering_approval_fidelity_reason_codes gate =
     fold push_unique (fr_reason_codes gate) [engineering_approval_fidelity_primary_reason_code gate]"

definition is_engineering_approval_fidelity_reason_code :: "string \<Rightarrow> bool" where
  "is_engineering_approval_fidelity_reason_code code \<longleftrightarrow>
     code \<in> {''engineering_approval_missing_plan_fidelity_review'', ''engineering_approval_stale_plan_fidelity_review'',
       ''engineering_approval_incomplete_plan_fidelity_surfaces'', ''engineering_approval_failed_plan_fidelity_review'',
       ''engineering_approval_invalid_plan_fidelity_review''}"

definition engineering_approval_fidelity_message :: "string \<Rightarrow> string" where
  "engineering_approval_fidelity_message code =
     ''Engineering Approved plan cannot route to implementation '' @
     (if code = ''engineering_approval_missing_plan_fidelity_review''
      then ''until a current pass plan-fidelity review artifact exists.''
      else if code = ''engineering_approval_stale_plan_fidelity_review''
      then ''because the plan-fidelity review artifact is stale.''
      else if code = ''engineering_approval_incomplete_plan_fidelity_surfaces''
      then ''because the plan-fidelity review artifact does not verify the exact required surfaces.''
      else if code = ''engineering_approval_failed_plan_fidelity_review''
      then ''because the plan-fidelity review did not pass.''
      else ''because the plan-fidelity review artifact is invalid.'')"

definition plan_fidelity_verification_incomplete_report :: "string \<Rightarrow> PlanFidelityReviewReport" where
  "plan_fidelity_verification_incomplete_report msg =
     report_unverified ''invalid'' [] [] [] [''plan_fidelity_verification_incomplete'']
       [\<lparr>cd_code = ''plan_fidelity_verification_incomplete'', cd_message = msg\<rparr>]"

definition logged_report :: "string \<Rightarrow> string \<Rightarrow> string \<Rightarrow> string \<Rightarrow> PlanFidelityReviewReport" where
  "logged_report state artifact_path code msg =
     (let log = push_diagnostic code msg ([], []) in report_unverified state artifact_path [] [] (snd log) (fst log))"

definition missing_plan_fidelity_review :: PlanFidelityReviewReport where
  "missing_plan_fidelity_review =
     logged_report ''missing'' [] ''missing_plan_fidelity_review_artifact''
       ''Plan-fidelity review artifact is missing for the current plan.''"

definition stale_plan_fidelity_review :: "string \<Rightarrow> PlanFidelityReviewReport" where
  "stale_plan_fidelity_review artifact_path =
     logged_report ''stale'' artifact_path ''stale_plan_fidelity_review_artifact''
       ''Plan-fidelity review artifact does not match the current approved spec and plan revision.''"

definition invalid_plan_fidelity_review :: "string \<Rightarrow> string \<Rightarrow> string \<Rightarrow> PlanFidelityReviewReport" where
  "invalid_plan_fidelity_review artifact_path code msg = logged_report ''invalid'' artifact_path code msg"

subsection \<open>The artifact\<close>

definition artifact_header :: "string \<Rightarrow> string \<Rightarrow> string checked" where
  "artifact_header source header =
     ok_or (instruction_parse_failed (''Missing or malformed '' @ header @ '' header.''))
       (find_map (\<lambda>line. strip_prefix line (field_prefix header)) (str_lines source))"

definition comma_list :: "string \<Rightarrow> string list" where
  "comma_list s = filter (\<lambda>v. v \<noteq> []) (map trim (split_on (CHR '','') s))"

definition artifact_repo_path :: "string \<Rightarrow> string \<Rightarrow> string checked" where
  "artifact_repo_path source header =
     res_bind (artifact_header source header) (\<lambda>v.
       map_error (\<lambda>_. instruction_parse_failed
           (''Plan-fidelity review artifact must keep '' @ header @ '' repo-relative.''))
         (normalize_repo_relative_path (trim_matches (\<lambda>c. c = backtick) v)))"

definition artifact_revision :: "string \<Rightarrow> string \<Rightarrow> nat checked" where
  "artifact_revision source header =
     res_bind (artifact_header source header) (\<lambda>v.
       ok_or (instruction_parse_failed (''Plan-fidelity review artifact is missing a numeric '' @ header @ ''.''))
         (parse_u32 v))"

definition parse_plan_fidelity_review_artifact :: "string \<Rightarrow> string + string \<Rightarrow> PlanFidelityReviewArtifact checked" where
  "parse_plan_fidelity_review_artifact artifact_path contents =
     (case contents of
        Inl reason \<Rightarrow> Inl (instruction_parse_failed (''Could not read plan-fidelity review artifact '' @ reason))
      | Inr source \<Rightarrow>
          if \<not> str_contains source ''## Plan Fidelity Review Summary''
          then Inl (instruction_parse_failed
            ''Plan-fidelity review artifact is missing the `## Plan Fidelity Review Summary` block.'')
          else
            res_bind (artifact_repo_path source ''Reviewed Plan'') (\<lambda>plan_path.
            res_bind (artifact_revision source ''Reviewed Plan Revision'') (\<lambda>plan_revision.
            res_bind (artifact_header source ''Reviewed Plan Fingerprint'') (\<lambda>plan_fingerprint.
            res_bind (artifact_repo_path source ''Reviewed Spec'') (\<lambda>spec_path.
            res_bind (artifact_revision source ''Reviewed Spec Revision'') (\<lambda>spec_revision.
            res_bind (artifact_header source ''Reviewed Spec Fingerprint'') (\<lambda>spec_fingerprint.
            res_bind (artifact_header source ''Distinct From Stages'') (\<lambda>stages.
            res_bind (artifact_header source ''Verified Surfaces'') (\<lambda>surfaces.
            res_bind (artifact_header source ''Verified Requirement IDs'') (\<lambda>ids.
            res_bind (artifact_header source ''Review Stage'') (\<lambda>review_stage.
            res_bind (artifact_header source ''Review Verdict'') (\<lambda>review_verdict.
            res_bind (artifact_header source ''Reviewer Source'') (\<lambda>reviewer_source.
            res_bind (artifact_header source ''Reviewer ID'') (\<lambda>reviewer_id. Inr
              \<lparr>fa_path = artifact_path, fa_review_stage = review_stage, fa_review_verdict = review_verdict,
               fa_reviewed_plan_path = plan_path, fa_reviewed_plan_revision = plan_revision,
               fa_reviewed_plan_fingerprint = plan_fingerprint, fa_reviewed_spec_path = spec_path,
               fa_reviewed_spec_revision = spec_revision, fa_reviewed_spec_fingerprint = spec_fingerprint,
               fa_reviewer_source = reviewer_source, fa_reviewer_id = reviewer_id,
               fa_distinct_from_stages = comma_list stages, fa_verified_surfaces = comma_list surfaces,
               fa_verified_requirement_ids = comma_list ids\<rparr>))))))))))))))"

subsection \<open>The fingerprints of a plan\<close>

definition split_inclusive :: "string \<Rightarrow> string list" where
  "split_inclusive s =
     (let parts = split_on newline s
      in map (\<lambda>p. p @ [newline]) (butlast parts) @ (if last parts = [] then [] else [last parts]))"

definition line_parts :: "string \<Rightarrow> string \<times> string" where
  "line_parts segment =
     (case strip_suffix segment [newline] of
        None \<Rightarrow> (segment, [])
      | Some without_lf \<Rightarrow>
          (case strip_suffix without_lf [CHR 0x0D] of
             Some without_crlf \<Rightarrow> (without_crlf, [CHR 0x0D, newline])
           | None \<Rightarrow> (without_lf, [newline])))"

text \<open>The first line that is the current header is replaced.\<close>

fun replace_header :: "string \<Rightarrow> string \<Rightarrow> string list \<Rightarrow> string" where
  "replace_header current normalized [] = []"
| "replace_header current normalized (segment # segments) =
     (let (body, line_ending) = line_parts segment in
      if body = current then normalized @ line_ending @ concat segments
      else segment @ replace_header current normalized segments)"

definition plan_source_with_workflow_state :: "PlanDocument \<Rightarrow> string \<Rightarrow> string" where
  "plan_source_with_workflow_state plan workflow_state =
     replace_header (field_prefix ''Workflow State'' @ pd_workflow_state plan)
       (field_prefix ''Workflow State'' @ workflow_state) (split_inclusive (pd_source plan))"

definition plan_fidelity_reviewed_plan_source :: "PlanDocument \<Rightarrow> string" where
  "plan_fidelity_reviewed_plan_source plan =
     (if pd_last_reviewed_by plan = ''plan-eng-review''
      then plan_source_with_workflow_state plan ''Engineering Approved''
      else pd_source plan)"

definition plan_fidelity_reviewed_plan_fingerprint :: "(string \<Rightarrow> string) \<Rightarrow> PlanDocument \<Rightarrow> string" where
  "plan_fidelity_reviewed_plan_fingerprint sha plan = sha (plan_fidelity_reviewed_plan_source plan)"

definition plan_fidelity_accepted_plan_fingerprints :: "(string \<Rightarrow> string) \<Rightarrow> PlanDocument \<Rightarrow> string list" where
  "plan_fidelity_accepted_plan_fingerprints sha plan =
     (let fingerprints = bset_insert (sha (pd_source plan)) []
      in if pd_last_reviewed_by plan = ''plan-eng-review''
         then bset_insert (sha (plan_source_with_workflow_state plan ''Engineering Approved''))
                (bset_insert (sha (plan_source_with_workflow_state plan ''Draft'')) fingerprints)
         else fingerprints)"

definition artifact_binds ::
  "(string \<Rightarrow> string) \<Rightarrow> SpecDocument \<Rightarrow> PlanDocument \<Rightarrow> PlanFidelityReviewArtifact \<Rightarrow> bool" where
  "artifact_binds sha spec plan artifact \<longleftrightarrow>
     fa_reviewed_plan_path artifact = pd_path plan \<and>
     fa_reviewed_plan_revision artifact = pd_plan_revision plan \<and>
     fa_reviewed_plan_fingerprint artifact \<in> set (plan_fidelity_accepted_plan_fingerprints sha plan) \<and>
     fa_reviewed_spec_path artifact = sd_path spec \<and>
     fa_reviewed_spec_revision artifact = sd_spec_revision spec \<and>
     fa_reviewed_spec_fingerprint artifact = sha (sd_source spec)"

subsection \<open>Evaluating an artifact\<close>

definition push_if :: "bool \<Rightarrow> string \<Rightarrow> string \<Rightarrow> diagnostic_log \<Rightarrow> diagnostic_log" where
  "push_if b code msg log = (if b then push_diagnostic code msg log else log)"

definition artifact_log :: "PlanFidelityReviewArtifact \<Rightarrow> SpecDocument \<Rightarrow> diagnostic_log" where
  "artifact_log artifact spec =
     (push_if (fa_review_verdict artifact \<noteq> ''pass'') ''plan_fidelity_review_artifact_not_pass''
        ''Plan-fidelity review artifact is not in pass state.''
     \<circ> push_if (set (fa_verified_requirement_ids artifact) \<noteq> set (map req_id (sd_requirements spec)))
        ''plan_fidelity_review_requirement_ids_mismatch''
        ''Plan-fidelity review artifact must enumerate the exact Requirement Index ids it verified.''
     \<circ> push_if (set (fa_verified_surfaces artifact) \<noteq> set PLAN_FIDELITY_REQUIRED_SURFACES)
        ''plan_fidelity_review_missing_required_surface''
        ''Plan-fidelity review artifact must use the exact required verified-surface set.''
     \<circ> push_if (\<not> set PLAN_FIDELITY_DISTINCT_STAGES \<subseteq> set (fa_distinct_from_stages artifact))
        ''plan_fidelity_reviewer_provenance_invalid''
        ''Plan-fidelity review artifact must declare distinction from writing-plans and plan-eng-review.''
     \<circ> push_if (fa_review_stage artifact \<noteq> PLAN_FIDELITY_REVIEW_STAGE \<or>
          fa_reviewer_source artifact \<notin> set PLAN_FIDELITY_REVIEWER_SOURCE_OPTIONS \<or> trim (fa_reviewer_id artifact) = [])
        ''plan_fidelity_reviewer_provenance_invalid''
        ''Plan-fidelity review artifact reviewer provenance is malformed or not independent.''
     \<circ> push_if (sd_workflow_state spec \<noteq> ''CEO Approved'' \<or> sd_last_reviewed_by spec \<noteq> ''plan-ceo-review'')
        ''plan_fidelity_source_spec_not_ceo_approved''
        ''Plan-fidelity review requires a workflow-valid CEO-approved source spec reviewed by plan-ceo-review.'')
     ([], [])"

definition evaluate_parsed_plan_fidelity_review_artifact ::
  "(string \<Rightarrow> string) \<Rightarrow> PlanFidelityReviewArtifact \<Rightarrow> PlanDocument \<Rightarrow> SpecDocument \<Rightarrow> PlanFidelityReviewReport" where
  "evaluate_parsed_plan_fidelity_review_artifact sha artifact plan spec =
     (if \<not> artifact_binds sha spec plan artifact then stale_plan_fidelity_review (fa_path artifact)
      else
        let (diagnostics, codes) = artifact_log artifact spec;
            surfaces = set (fa_verified_surfaces artifact);
            state = (if codes = [] then ''pass''
                     else if fa_review_verdict artifact \<noteq> ''pass'' \<and> codes = [''plan_fidelity_review_artifact_not_pass'']
                     then ''fail'' else ''invalid'')
        in \<lparr>fr_state = state, fr_review_artifact_path = fa_path artifact, fr_reviewer_stage = fa_review_stage artifact,
            fr_provenance_source = fa_reviewer_source artifact,
            fr_verified_requirement_index = (''requirement_index'' \<in> surfaces \<and>
              set (fa_verified_requirement_ids artifact) = set (map req_id (sd_requirements spec))),
            fr_verified_execution_topology = (''execution_topology'' \<in> surfaces),
            fr_verified_task_contract = (''task_contract'' \<in> surfaces),
            fr_verified_task_determinism = (''task_determinism'' \<in> surfaces),
            fr_verified_spec_reference_fidelity = (''spec_reference_fidelity'' \<in> surfaces),
            fr_reason_codes = codes, fr_diagnostics = diagnostics, fr_required_artifact_template = None\<rparr>)"

subsection \<open>The template of a missing artifact\<close>

text \<open>\<^verbatim>\<open>Path::file_stem\<close> of the plan path.\<close>

definition file_stem :: "string \<Rightarrow> string option" where
  "file_stem path =
     (let comps = filter (\<lambda>q. q \<noteq> [] \<and> q \<noteq> ''.'') (split_on (CHR ''/'') path) in
      if comps = [] \<or> last comps = ''..'' then None
      else let parts = split_on (CHR ''.'') (last comps) in
        if length parts < 2 \<or> (length parts = 2 \<and> hd parts = []) then Some (last comps)
        else Some (join_with ''.'' (butlast parts)))"

definition plan_fidelity_plan_stem :: "string \<Rightarrow> string" where
  "plan_fidelity_plan_stem plan_path = (case file_stem plan_path of None \<Rightarrow> ''plan'' | Some stem \<Rightarrow> stem)"

definition review_dir_prefix :: string where
  "review_dir_prefix = ''.featureforge/reviews/''"

definition default_plan_fidelity_review_artifact_path :: "PlanDocument \<Rightarrow> string" where
  "default_plan_fidelity_review_artifact_path plan =
     review_dir_prefix @ plan_fidelity_plan_stem (pd_path plan) @ ''-plan-fidelity.md''"

definition template_lines :: "(string \<Rightarrow> string) \<Rightarrow> SpecDocument \<Rightarrow> PlanDocument \<Rightarrow> string list" where
  "template_lines sha spec plan =
     [''## Plan Fidelity Review Summary'', '''',
      ''**Review Stage:** '' @ PLAN_FIDELITY_REVIEW_STAGE,
      ''**Review Verdict:** <review-verdict-pass-or-fail>'',
      ''**Reviewed Plan:** `'' @ pd_path plan @ ''`'',
      ''**Reviewed Plan Revision:** '' @ show_nat (pd_plan_revision plan),
      ''**Reviewed Plan Fingerprint:** '' @ plan_fidelity_reviewed_plan_fingerprint sha plan,
      ''**Reviewed Spec:** `'' @ sd_path spec @ ''`'',
      ''**Reviewed Spec Revision:** '' @ show_nat (sd_spec_revision spec),
      ''**Reviewed Spec Fingerprint:** '' @ sha (sd_source spec),
      ''**Reviewer Source:** fresh-context-subagent'',
      ''**Reviewer ID:** <reviewer-id>'',
      ''**Distinct From Stages:** '' @ join_with '', '' PLAN_FIDELITY_DISTINCT_STAGES,
      ''**Verified Surfaces:** '' @ join_with '', '' PLAN_FIDELITY_REQUIRED_SURFACES,
      ''**Verified Requirement IDs:** '' @ join_with '', '' (map req_id (sd_requirements spec)), '''',
      ''## Findings Summary'', '''', ''<review-summary>'']"

definition build_plan_fidelity_review_artifact_template ::
  "(string \<Rightarrow> string) \<Rightarrow> SpecDocument \<Rightarrow> PlanDocument \<Rightarrow> string \<Rightarrow> PlanFidelityReviewArtifactTemplate" where
  "build_plan_fidelity_review_artifact_template sha spec plan artifact_path =
     \<lparr>tpl_artifact_path = artifact_path,
      tpl_content = concat (map (\<lambda>line. line @ [newline]) (template_lines sha spec plan)),
      tpl_review_stage = PLAN_FIDELITY_REVIEW_STAGE,
      tpl_review_verdict_options = PLAN_FIDELITY_REVIEW_VERDICT_OPTIONS,
      tpl_reviewed_plan_path = pd_path plan, tpl_reviewed_plan_revision = pd_plan_revision plan,
      tpl_reviewed_plan_fingerprint = plan_fidelity_reviewed_plan_fingerprint sha plan,
      tpl_reviewed_spec_path = sd_path spec, tpl_reviewed_spec_revision = sd_spec_revision spec,
      tpl_reviewed_spec_fingerprint = sha (sd_source spec),
      tpl_reviewer_source_options = PLAN_FIDELITY_REVIEWER_SOURCE_OPTIONS,
      tpl_reviewer_id_placeholder = ''<reviewer-id>'',
      tpl_required_distinct_from_stages = PLAN_FIDELITY_DISTINCT_STAGES,
      tpl_required_verified_surfaces = PLAN_FIDELITY_REQUIRED_SURFACES,
      tpl_required_requirement_ids = map req_id (sd_requirements spec),
      tpl_summary_placeholder = ''<review-summary>''\<rparr>"

definition plan_fidelity_report_requires_artifact_template :: "PlanFidelityReviewReport \<Rightarrow> bool" where
  "plan_fidelity_report_requires_artifact_template r \<longleftrightarrow>
     fr_state r \<in> {''missing'', ''stale'', ''invalid'', ''fail''}"

definition attach_required_plan_fidelity_artifact_template ::
  "(string \<Rightarrow> string) \<Rightarrow> PlanFidelityReviewReport \<Rightarrow> SpecDocument \<Rightarrow> PlanDocument \<Rightarrow> PlanFidelityReviewReport" where
  "attach_required_plan_fidelity_artifact_template sha r spec plan =
     (if \<not> plan_fidelity_report_requires_artifact_template r then r
      else r\<lparr>fr_required_artifact_template := Some (build_plan_fidelity_review_artifact_template sha spec plan
             (if trim (fr_review_artifact_path r) = [] then default_plan_fidelity_review_artifact_path plan
              else fr_review_artifact_path r))\<rparr>)"

subsection \<open>Evaluating the review of a plan\<close>

record review_dir =
  rd_listing :: "string list option"
  rd_default_is_file :: bool
  rd_read :: "string \<Rightarrow> string + string"

definition plan_fidelity_review_artifact_candidates :: "review_dir \<Rightarrow> PlanDocument \<Rightarrow> string list" where
  "plan_fidelity_review_artifact_candidates dir plan =
     (let default = plan_fidelity_plan_stem (pd_path plan) @ ''-plan-fidelity.md'';
          found = (if rd_default_is_file dir then [default] else []);
          listed = (case rd_listing dir of None \<Rightarrow> [] | Some names \<Rightarrow>
            filter (\<lambda>name. path_extension name = Some ''md'' \<and> str_contains name ''plan-fidelity'') names)
      in sort (fold (\<lambda>name acc. if name \<in> set acc then acc else acc @ [name]) listed found))"

record review_scan =
  rs_stale :: "PlanFidelityReviewReport option"
  rs_invalid :: "PlanFidelityReviewReport option"
  rs_current :: "PlanFidelityReviewReport list"

definition get_or_insert :: "'a \<Rightarrow> 'a option \<Rightarrow> 'a option" where
  "get_or_insert x a = (case a of None \<Rightarrow> Some x | Some y \<Rightarrow> Some y)"

definition scan_candidate ::
  "(string \<Rightarrow> string) \<Rightarrow> SpecDocument \<Rightarrow> PlanDocument \<Rightarrow> review_dir \<Rightarrow> string \<Rightarrow> review_scan \<Rightarrow> review_scan" where
  "scan_candidate sha spec plan dir name scan =
     (let artifact_path = review_dir_prefix @ name in
      case parse_plan_fidelity_review_artifact artifact_path (rd_read dir name) of
        Inl e \<Rightarrow> scan\<lparr>rs_invalid := get_or_insert
            (invalid_plan_fidelity_review artifact_path ''plan_fidelity_review_artifact_invalid''
              (''Plan-fidelity review artifact is invalid: '' @ de_message e)) (rs_invalid scan)\<rparr>
      | Inr artifact \<Rightarrow>
          let report = evaluate_parsed_plan_fidelity_review_artifact sha artifact plan spec in
          if fr_state report \<in> {''pass'', ''fail'', ''invalid''}
          then (if artifact_binds sha spec plan artifact then scan\<lparr>rs_current := rs_current scan @ [report]\<rparr>
                else if rs_stale scan = None
                then scan\<lparr>rs_stale := Some (stale_plan_fidelity_review (fa_path artifact))\<rparr>
                else scan)
          else if fr_state report = ''stale'' then scan\<lparr>rs_stale := get_or_insert report (rs_stale scan)\<rparr>
          else scan\<lparr>rs_invalid := get_or_insert report (rs_invalid scan)\<rparr>)"

definition evaluate_plan_fidelity_review ::
  "(string \<Rightarrow> string) \<Rightarrow> SpecDocument \<Rightarrow> PlanDocument \<Rightarrow> review_dir \<Rightarrow> PlanFidelityReviewReport" where
  "evaluate_plan_fidelity_review sha spec plan dir =
     (let candidates = plan_fidelity_review_artifact_candidates dir plan;
          attach = (\<lambda>r. attach_required_plan_fidelity_artifact_template sha r spec plan)
      in if candidates = [] then attach missing_plan_fidelity_review
         else
           let scan = fold (scan_candidate sha spec plan dir) candidates \<lparr>rs_stale = None, rs_invalid = None, rs_current = []\<rparr>;
               current = rs_current scan
           in if 1 < length current \<and> 1 < length (bset_of (map fr_state current))
              then attach (invalid_plan_fidelity_review [] ''ambiguous_plan_fidelity_review_artifact''
                     ''Multiple current plan-fidelity review artifacts bind to this plan fingerprint with conflicting verdicts.'')
              else case current of
                report # _ \<Rightarrow> attach report
              | [] \<Rightarrow> attach (case rs_stale scan of
                  Some r \<Rightarrow> r
                | None \<Rightarrow> (case rs_invalid scan of Some r \<Rightarrow> r | None \<Rightarrow> missing_plan_fidelity_review)))"

subsection \<open>When a review counts\<close>

definition approves :: "(string \<Rightarrow> string) \<Rightarrow> SpecDocument \<Rightarrow> PlanDocument \<Rightarrow> PlanFidelityReviewArtifact \<Rightarrow> bool" where
  "approves sha spec plan artifact \<longleftrightarrow>
     fa_reviewed_plan_path artifact = pd_path plan \<and> fa_reviewed_plan_revision artifact = pd_plan_revision plan \<and>
     fa_reviewed_plan_fingerprint artifact \<in> set (plan_fidelity_accepted_plan_fingerprints sha plan) \<and>
     fa_reviewed_spec_path artifact = sd_path spec \<and> fa_reviewed_spec_revision artifact = sd_spec_revision spec \<and>
     fa_reviewed_spec_fingerprint artifact = sha (sd_source spec) \<and> fa_review_verdict artifact = ''pass'' \<and>
     fa_review_stage artifact = PLAN_FIDELITY_REVIEW_STAGE \<and>
     fa_reviewer_source artifact = ''fresh-context-subagent'' \<and> trim (fa_reviewer_id artifact) \<noteq> [] \<and>
     set PLAN_FIDELITY_DISTINCT_STAGES \<subseteq> set (fa_distinct_from_stages artifact) \<and>
     set (fa_verified_surfaces artifact) = set PLAN_FIDELITY_REQUIRED_SURFACES \<and>
     set (fa_verified_requirement_ids artifact) = set (map req_id (sd_requirements spec)) \<and>
     sd_workflow_state spec = ''CEO Approved'' \<and> sd_last_reviewed_by spec = ''plan-ceo-review''"

lemma push_if_empty: "snd (push_if b code msg log) = [] \<longleftrightarrow> \<not> b \<and> snd log = []"
  by (simp add: push_if_def push_diagnostic_def)

lemma artifact_log_empty:
  assumes "artifact_binds sha spec plan artifact"
  shows "snd (artifact_log artifact spec) = [] \<longleftrightarrow> approves sha spec plan artifact"
  using assms
  by (auto simp: artifact_log_def push_if_empty approves_def artifact_binds_def PLAN_FIDELITY_REVIEWER_SOURCE_OPTIONS_def)

lemma evaluate_bound_state:
  assumes "artifact_binds sha spec plan artifact"
  shows "fr_state (evaluate_parsed_plan_fidelity_review_artifact sha artifact plan spec) =
    (if approves sha spec plan artifact then ''pass''
     else if fa_review_verdict artifact \<noteq> ''pass'' \<and>
       snd (artifact_log artifact spec) = [''plan_fidelity_review_artifact_not_pass''] then ''fail'' else ''invalid'')"
  using assms artifact_log_empty [OF assms]
  by (auto simp: evaluate_parsed_plan_fidelity_review_artifact_def Let_def split: prod.splits)

lemma evaluate_unbound:
  "\<not> artifact_binds sha spec plan artifact \<Longrightarrow>
   evaluate_parsed_plan_fidelity_review_artifact sha artifact plan spec = stale_plan_fidelity_review (fa_path artifact)"
  by (simp add: evaluate_parsed_plan_fidelity_review_artifact_def)

lemma report_states [simp]:
  "fr_state missing_plan_fidelity_review = ''missing''" "fr_state (stale_plan_fidelity_review p) = ''stale''"
  "fr_state (invalid_plan_fidelity_review p code msg) = ''invalid''"
  by (simp_all add: missing_plan_fidelity_review_def stale_plan_fidelity_review_def invalid_plan_fidelity_review_def
      logged_report_def report_unverified_def Let_def)

definition candidate_artifact :: "review_dir \<Rightarrow> string \<Rightarrow> PlanFidelityReviewArtifact option" where
  "candidate_artifact dir name =
     (case parse_plan_fidelity_review_artifact (review_dir_prefix @ name) (rd_read dir name) of
        Inl _ \<Rightarrow> None | Inr artifact \<Rightarrow> Some artifact)"

definition current_artifacts ::
  "(string \<Rightarrow> string) \<Rightarrow> SpecDocument \<Rightarrow> PlanDocument \<Rightarrow> review_dir \<Rightarrow> string list \<Rightarrow> PlanFidelityReviewArtifact list" where
  "current_artifacts sha spec plan dir names =
     filter (artifact_binds sha spec plan) (List.map_filter (candidate_artifact dir) names)"

definition dormant :: "review_scan \<Rightarrow> bool" where
  "dormant scan \<longleftrightarrow>
     (\<forall>r. rs_stale scan = Some r \<longrightarrow> fr_state r = ''stale'') \<and> (\<forall>r. rs_invalid scan = Some r \<longrightarrow> fr_state r = ''invalid'')"

lemma scan_candidate_current:
  "rs_current (scan_candidate sha spec plan dir name scan) = rs_current scan @
     map (\<lambda>a. evaluate_parsed_plan_fidelity_review_artifact sha a plan spec) (current_artifacts sha spec plan dir [name])"
  "dormant scan \<Longrightarrow> dormant (scan_candidate sha spec plan dir name scan)"
proof -
  show "rs_current (scan_candidate sha spec plan dir name scan) = rs_current scan @
     map (\<lambda>a. evaluate_parsed_plan_fidelity_review_artifact sha a plan spec) (current_artifacts sha spec plan dir [name])"
    by (auto simp: scan_candidate_def current_artifacts_def candidate_artifact_def Let_def map_filter_simps
        evaluate_bound_state evaluate_unbound split: sum.splits)
  assume "dormant scan"
  then show "dormant (scan_candidate sha spec plan dir name scan)"
    by (auto simp: scan_candidate_def Let_def dormant_def get_or_insert_def evaluate_bound_state evaluate_unbound
        split: sum.splits option.splits if_splits)
qed

lemma scan_candidates_current:
  "rs_current (fold (scan_candidate sha spec plan dir) names scan) = rs_current scan @
     map (\<lambda>a. evaluate_parsed_plan_fidelity_review_artifact sha a plan spec) (current_artifacts sha spec plan dir names)"
  "dormant scan \<Longrightarrow> dormant (fold (scan_candidate sha spec plan dir) names scan)"
proof (induction names arbitrary: scan)
  case (Cons name names)
  {
    case 1
    then show ?case using Cons.IH(1) [of "scan_candidate sha spec plan dir name scan"]
      by (simp add: scan_candidate_current current_artifacts_def List.map_filter_def)
  next
    case 2
    then show ?case using Cons.IH(2) scan_candidate_current(2) by simp
  }
qed (simp_all add: current_artifacts_def map_filter_simps)

lemma attach_keeps:
  "fr_state (attach_required_plan_fidelity_artifact_template sha r spec plan) = fr_state r"
  "fr_reason_codes (attach_required_plan_fidelity_artifact_template sha r spec plan) = fr_reason_codes r"
  "verified_surfaces_are_complete (attach_required_plan_fidelity_artifact_template sha r spec plan) =
     verified_surfaces_are_complete r"
  by (simp_all add: attach_required_plan_fidelity_artifact_template_def verified_surfaces_are_complete_def)

lemma one_state:
  assumes "\<not> (1 < length rs \<and> 1 < length (bset_of (map fr_state rs)))" "r \<in> set rs" "r' \<in> set rs"
  shows "fr_state r = fr_state r'"
proof (rule ccontr)
  assume d: "fr_state r \<noteq> fr_state r'"
  have "card {fr_state r, fr_state r'} \<le> card (set (bset_of (map fr_state rs)))"
    using assms(2,3) by (intro card_mono) (auto simp: set_bset_of)
  also have "\<dots> \<le> length (bset_of (map fr_state rs))" by (rule card_length)
  finally have "1 < length (bset_of (map fr_state rs))" using d by simp
  moreover have "card {r, r'} \<le> card (set rs)" using assms(2,3) by (intro card_mono) auto
  then have "1 < length rs" using d card_length [of rs] by (cases "r = r'") auto
  ultimately show False using assms(1) by simp
qed

text \<open>C15: an approved plan goes to implementation only when some review artifact approves exactly this plan and
  this specification, by path, revision and fingerprint, with the required surfaces and requirement
  ids, and no other artifact that is bound to them says anything else.\<close>

theorem implementation_needs_a_bound_review:
  assumes "plan_fidelity_allows_implementation (evaluate_plan_fidelity_review sha spec plan dir)"
  shows "current_artifacts sha spec plan dir (plan_fidelity_review_artifact_candidates dir plan) \<noteq> [] \<and>
    (\<forall>artifact\<in>set (current_artifacts sha spec plan dir (plan_fidelity_review_artifact_candidates dir plan)).
       approves sha spec plan artifact)"
proof -
  let ?names = "plan_fidelity_review_artifact_candidates dir plan"
  let ?arts = "current_artifacts sha spec plan dir ?names"
  let ?eval = "\<lambda>a. evaluate_parsed_plan_fidelity_review_artifact sha a plan spec"
  define scan where "scan = fold (scan_candidate sha spec plan dir) ?names \<lparr>rs_stale = None, rs_invalid = None, rs_current = []\<rparr>"
  have current: "rs_current scan = map ?eval ?arts"
    unfolding scan_def by (simp add: scan_candidates_current)
  have dormant: "dormant scan" unfolding scan_def by (rule scan_candidates_current(2)) (simp add: dormant_def)
  from assms have pass: "fr_state (evaluate_plan_fidelity_review sha spec plan dir) = ''pass''"
    by (simp add: plan_fidelity_allows_implementation_def)
  then have names: "?names \<noteq> []" by (auto simp: evaluate_plan_fidelity_review_def Let_def attach_keeps)
  with pass have clear: "\<not> (1 < length (rs_current scan) \<and> 1 < length (bset_of (map fr_state (rs_current scan))))"
    by (auto simp: evaluate_plan_fidelity_review_def Let_def attach_keeps scan_def [symmetric] split: if_splits)
  have first: "rs_current scan \<noteq> [] \<and> fr_state (hd (rs_current scan)) = ''pass''"
  proof (cases "rs_current scan")
    case Nil
    with pass names dormant show ?thesis
      by (cases "rs_stale scan"; cases "rs_invalid scan")
        (simp_all add: evaluate_plan_fidelity_review_def Let_def attach_keeps scan_def [symmetric] dormant_def)
  next
    case (Cons r rs)
    with pass names clear show ?thesis
      by (auto simp: evaluate_plan_fidelity_review_def Let_def attach_keeps scan_def [symmetric] split: if_splits)
  qed
  have "approves sha spec plan a" if a: "a \<in> set ?arts" for a
  proof -
    have "?eval a \<in> set (rs_current scan)" using a by (simp add: current)
    moreover have "hd (rs_current scan) \<in> set (rs_current scan)" using first by (intro hd_in_set) blast
    ultimately have "fr_state (?eval a) = fr_state (hd (rs_current scan))" by (rule one_state [OF clear])
    moreover have "artifact_binds sha spec plan a" using a by (simp add: current_artifacts_def)
    ultimately show ?thesis using first by (simp add: evaluate_bound_state split: if_splits)
  qed
  with first current show ?thesis by auto
qed

subsection \<open>The template reads back\<close>

definition single_line :: "string \<Rightarrow> bool" where
  "single_line s \<longleftrightarrow> newline \<notin> set s \<and> CHR 0x0D \<notin> set s"

lemma single_line_append [simp]: "single_line (s @ t) \<longleftrightarrow> single_line s \<and> single_line t"
  by (auto simp: single_line_def)

lemma single_line_join: "\<forall>s\<in>set ss. single_line s \<Longrightarrow> single_line (join_with '', '' ss)"
  by (induction "'', ''" ss rule: join_with.induct) (auto simp: single_line_def)

lemma single_line_show_nat: "single_line (show_nat n)"
  using show_nat_digits [of n] by (auto simp: single_line_def list_all_iff is_digit_def)

lemma strip_cr_single_line: "single_line s \<Longrightarrow> strip_cr s = s"
  by (metis last_in_set single_line_def strip_cr_def)

lemma str_lines_terminated:
  assumes "\<forall>l\<in>set ls. single_line l"
  shows "str_lines (concat (map (\<lambda>l. l @ [newline]) ls)) = ls"
proof -
  have "split_on newline (concat (map (\<lambda>l. l @ [newline]) ls)) = ls @ [[]]"
    using assms by (induction ls) (simp_all add: split_on_append_sep single_line_def)
  then show ?thesis using assms by (simp add: str_lines_def strip_cr_single_line map_idI)
qed

lemma strip_prefix_code:
  "strip_prefix s [] = Some s" "strip_prefix [] (d # ds) = None"
  "strip_prefix (c # cs) (d # ds) = (if c = d then strip_prefix cs ds else None)"
  by (simp_all add: strip_prefix_def starts_with_def)

lemma str_contains_prefix: "str_contains (pat @ s) pat"
  by (auto simp: str_contains_def list_ex_iff intro!: bexI [of _ 0])

lemma trim_space: "trim (CHR '' '' # s) = trim s"
  by (simp add: trim_def trim_start_def is_ws_def)

definition list_item :: "string \<Rightarrow> bool" where
  "list_item s \<longleftrightarrow> s \<noteq> [] \<and> trim s = s \<and> CHR '','' \<notin> set s"

lemma comma_list_join:
  assumes "\<forall>s\<in>set ss. list_item s"
  shows "comma_list (join_with '', '' ss) = ss"
proof -
  have "map trim (split_on (CHR '','') (CHR '' '' # s)) = map trim (split_on (CHR '','') s)" for s
    by (cases "split_on (CHR '','') s") (simp_all add: trim_space)
  then have "filter (\<lambda>v. v \<noteq> []) (map trim (split_on (CHR '','') (join_with '', '' ss))) = ss"
    using assms
    by (induction "'', ''" ss rule: join_with.induct) (simp_all add: list_item_def split_on_no_sep split_on_append_sep)
  then show ?thesis by (simp add: comma_list_def)
qed

lemma trim_backticks:
  assumes "p \<noteq> []" "backtick \<notin> set p"
  shows "trim_matches (\<lambda>c. c = backtick) (backtick # p @ [backtick]) = p"
proof -
  have "dropWhile (\<lambda>c. c = backtick) (p @ [backtick]) = p @ [backtick]"
    using assms by (cases p) auto
  moreover have "dropWhile (\<lambda>c. c = backtick) (rev p) = rev p"
    using assms by (metis dropWhile_eq_self_iff hd_rev last_in_set)
  ultimately show ?thesis by (simp add: trim_matches_def trim_end_where_def)
qed

text \<open>A document whose identity can be written on a line: a path in normal form without a backtick, and a
  revision that fits.\<close>

definition printable_path :: "string \<Rightarrow> bool" where
  "printable_path p \<longleftrightarrow> normalize_repo_relative_path p = Inr p \<and> backtick \<notin> set p \<and> single_line p"

text \<open>The template with a verdict filled in.\<close>

definition filled_lines :: "(string \<Rightarrow> string) \<Rightarrow> SpecDocument \<Rightarrow> PlanDocument \<Rightarrow> string \<Rightarrow> string list" where
  "filled_lines sha spec plan verdict = (template_lines sha spec plan)[3 := ''**Review Verdict:** '' @ verdict]"

definition filled_template :: "(string \<Rightarrow> string) \<Rightarrow> SpecDocument \<Rightarrow> PlanDocument \<Rightarrow> string \<Rightarrow> string" where
  "filled_template sha spec plan verdict = concat (map (\<lambda>line. line @ [newline]) (filled_lines sha spec plan verdict))"

lemma template_content_filled:
  "tpl_content (build_plan_fidelity_review_artifact_template sha spec plan p) =
   filled_template sha spec plan ''<review-verdict-pass-or-fail>''"
  by (simp add: build_plan_fidelity_review_artifact_template_def filled_template_def filled_lines_def template_lines_def
      numeral_3_eq_3)

definition template_artifact ::
  "(string \<Rightarrow> string) \<Rightarrow> SpecDocument \<Rightarrow> PlanDocument \<Rightarrow> string \<Rightarrow> string \<Rightarrow> PlanFidelityReviewArtifact" where
  "template_artifact sha spec plan verdict artifact_path =
     \<lparr>fa_path = artifact_path, fa_review_stage = PLAN_FIDELITY_REVIEW_STAGE,
      fa_review_verdict = verdict, fa_reviewed_plan_path = pd_path plan,
      fa_reviewed_plan_revision = pd_plan_revision plan,
      fa_reviewed_plan_fingerprint = plan_fidelity_reviewed_plan_fingerprint sha plan,
      fa_reviewed_spec_path = sd_path spec, fa_reviewed_spec_revision = sd_spec_revision spec,
      fa_reviewed_spec_fingerprint = sha (sd_source spec), fa_reviewer_source = ''fresh-context-subagent'',
      fa_reviewer_id = ''<reviewer-id>'', fa_distinct_from_stages = PLAN_FIDELITY_DISTINCT_STAGES,
      fa_verified_surfaces = PLAN_FIDELITY_REQUIRED_SURFACES,
      fa_verified_requirement_ids = map req_id (sd_requirements spec)\<rparr>"

lemma filled_lines_single:
  assumes "printable_path (pd_path plan)" "printable_path (sd_path spec)" "\<forall>s. single_line (sha s)"
    and "\<forall>r\<in>set (sd_requirements spec). single_line (req_id r)" "single_line verdict"
  shows "\<forall>l\<in>set (filled_lines sha spec plan verdict). single_line l"
proof -
  have "single_line (join_with '', '' (map req_id (sd_requirements spec)))"
    using assms(4) by (intro single_line_join) auto
  moreover have "single_line (join_with '', '' PLAN_FIDELITY_DISTINCT_STAGES)" "single_line PLAN_FIDELITY_REVIEW_STAGE"
    "single_line (join_with '', '' PLAN_FIDELITY_REQUIRED_SURFACES)"
    by (simp_all add: PLAN_FIDELITY_DISTINCT_STAGES_def PLAN_FIDELITY_REQUIRED_SURFACES_def PLAN_FIDELITY_REVIEW_STAGE_def
        single_line_def)
  ultimately show ?thesis using assms(1,2,3,5)
    by (simp add: filled_lines_def numeral_3_eq_3 template_lines_def printable_path_def single_line_show_nat plan_fidelity_reviewed_plan_fingerprint_def)
      (simp add: single_line_def single_line_show_nat [unfolded single_line_def])
qed

lemma fixed_lists:
  "comma_list (join_with '', '' PLAN_FIDELITY_DISTINCT_STAGES) = PLAN_FIDELITY_DISTINCT_STAGES"
  "comma_list (join_with '', '' PLAN_FIDELITY_REQUIRED_SURFACES) = PLAN_FIDELITY_REQUIRED_SURFACES"
  by code_simp+

lemma template_headers:
  assumes "\<forall>l\<in>set (filled_lines sha spec plan verdict). single_line l"
    and "content = filled_template sha spec plan verdict"
  shows "artifact_header content ''Reviewed Plan'' = Inr (backtick # pd_path plan @ [backtick])"
    "artifact_header content ''Reviewed Plan Revision'' = Inr (show_nat (pd_plan_revision plan))"
    "artifact_header content ''Reviewed Plan Fingerprint'' = Inr (plan_fidelity_reviewed_plan_fingerprint sha plan)"
    "artifact_header content ''Reviewed Spec'' = Inr (backtick # sd_path spec @ [backtick])"
    "artifact_header content ''Reviewed Spec Revision'' = Inr (show_nat (sd_spec_revision spec))"
    "artifact_header content ''Reviewed Spec Fingerprint'' = Inr (sha (sd_source spec))"
    "artifact_header content ''Distinct From Stages'' = Inr (join_with '', '' PLAN_FIDELITY_DISTINCT_STAGES)"
    "artifact_header content ''Verified Surfaces'' = Inr (join_with '', '' PLAN_FIDELITY_REQUIRED_SURFACES)"
    "artifact_header content ''Verified Requirement IDs'' = Inr (join_with '', '' (map req_id (sd_requirements spec)))"
    "artifact_header content ''Review Stage'' = Inr PLAN_FIDELITY_REVIEW_STAGE"
    "artifact_header content ''Review Verdict'' = Inr verdict"
    "artifact_header content ''Reviewer Source'' = Inr ''fresh-context-subagent''"
    "artifact_header content ''Reviewer ID'' = Inr ''<reviewer-id>''"
proof -
  have lines: "str_lines content = filled_lines sha spec plan verdict"
    unfolding assms(2) filled_template_def by (rule str_lines_terminated [OF assms(1)])
  note find_header = artifact_header_def lines filled_lines_def numeral_3_eq_3 template_lines_def field_prefix_def strip_prefix_code ok_or_def
  show "artifact_header content ''Reviewed Plan'' = Inr (backtick # pd_path plan @ [backtick])" by (simp add: find_header)
  show "artifact_header content ''Reviewed Plan Revision'' = Inr (show_nat (pd_plan_revision plan))" by (simp add: find_header)
  show "artifact_header content ''Reviewed Plan Fingerprint'' = Inr (plan_fidelity_reviewed_plan_fingerprint sha plan)" by (simp add: find_header)
  show "artifact_header content ''Reviewed Spec'' = Inr (backtick # sd_path spec @ [backtick])" by (simp add: find_header)
  show "artifact_header content ''Reviewed Spec Revision'' = Inr (show_nat (sd_spec_revision spec))" by (simp add: find_header)
  show "artifact_header content ''Reviewed Spec Fingerprint'' = Inr (sha (sd_source spec))" by (simp add: find_header)
  show "artifact_header content ''Distinct From Stages'' = Inr (join_with '', '' PLAN_FIDELITY_DISTINCT_STAGES)" by (simp add: find_header)
  show "artifact_header content ''Verified Surfaces'' = Inr (join_with '', '' PLAN_FIDELITY_REQUIRED_SURFACES)" by (simp add: find_header)
  show "artifact_header content ''Verified Requirement IDs'' = Inr (join_with '', '' (map req_id (sd_requirements spec)))" by (simp add: find_header)
  show "artifact_header content ''Review Stage'' = Inr PLAN_FIDELITY_REVIEW_STAGE" by (simp add: find_header)
  show "artifact_header content ''Review Verdict'' = Inr verdict" by (simp add: find_header)
  show "artifact_header content ''Reviewer Source'' = Inr ''fresh-context-subagent''" by (simp add: find_header)
  show "artifact_header content ''Reviewer ID'' = Inr ''<reviewer-id>''" by (simp add: find_header)
qed

lemma filled_template_summary: "str_contains (filled_template sha spec plan verdict) ''## Plan Fidelity Review Summary''"
proof -
  have "filled_template sha spec plan verdict = ''## Plan Fidelity Review Summary'' @ [newline] @
      concat (map (\<lambda>l. l @ [newline]) (tl (filled_lines sha spec plan verdict)))"
    by (simp add: filled_template_def filled_lines_def template_lines_def numeral_3_eq_3)
  then show ?thesis by (simp only: str_contains_prefix)
qed

lemma filled_template_parses:
  assumes "printable_path (pd_path plan)" "printable_path (sd_path spec)"
    and "pd_plan_revision plan \<le> u32_max" "sd_spec_revision spec \<le> u32_max" "\<forall>s. single_line (sha s)"
    and "\<forall>r\<in>set (sd_requirements spec). single_line (req_id r) \<and> list_item (req_id r)" "single_line verdict"
  shows "parse_plan_fidelity_review_artifact q (Inr (filled_template sha spec plan verdict)) =
    Inr (template_artifact sha spec plan verdict q)"
proof -
  let ?content = "filled_template sha spec plan verdict"
  have single: "\<forall>l\<in>set (filled_lines sha spec plan verdict). single_line l"
    using assms by (intro filled_lines_single) auto
  note headers = template_headers [OF single refl]
  have path: "artifact_repo_path ?content ''Reviewed Plan'' = Inr (pd_path plan)"
    "artifact_repo_path ?content ''Reviewed Spec'' = Inr (sd_path spec)"
    using assms(1,2) normalized_path_components(3)
    by (auto simp: artifact_repo_path_def headers trim_backticks printable_path_def)
  have ids: "comma_list (join_with '', '' (map req_id (sd_requirements spec))) = map req_id (sd_requirements spec)"
    using assms(6) by (intro comma_list_join) auto
  show ?thesis using assms(3,4)
    by (simp add: parse_plan_fidelity_review_artifact_def filled_template_summary path headers artifact_revision_def ok_or_def
        parse_uint_show_nat fixed_lists ids template_artifact_def)
qed

lemma template_binds: "artifact_binds sha spec plan (template_artifact sha spec plan verdict q)"
  by (auto simp: artifact_binds_def template_artifact_def plan_fidelity_accepted_plan_fingerprints_def Let_def
      plan_fidelity_reviewed_plan_fingerprint_def plan_fidelity_reviewed_plan_source_def)

lemma template_artifact_log:
  assumes "sd_workflow_state spec = ''CEO Approved''" "sd_last_reviewed_by spec = ''plan-ceo-review''"
  shows "snd (artifact_log (template_artifact sha spec plan verdict q) spec) =
    (if verdict = ''pass'' then [] else [''plan_fidelity_review_artifact_not_pass''])"
proof -
  have "trim ''<reviewer-id>'' \<noteq> []" by code_simp
  then show ?thesis using assms
    by (simp add: artifact_log_def template_artifact_def push_if_def push_diagnostic_def PLAN_FIDELITY_REVIEWER_SOURCE_OPTIONS_def)
qed

text \<open>The template handed out for a missing or rejected review lacks the verdict only: as printed it names a
  placeholder, and with a verdict filled in it reads back as an artifact that is bound to this plan and
  this specification, that approves exactly when the verdict is \<^verbatim>\<open>pass\<close>, and that counts as a failed
  review, not an invalid one, otherwise.\<close>

theorem template_lacks_only_the_verdict:
  assumes "printable_path (pd_path plan)" "printable_path (sd_path spec)"
    and "pd_plan_revision plan \<le> u32_max" "sd_spec_revision spec \<le> u32_max" "\<forall>s. single_line (sha s)"
    and "\<forall>r\<in>set (sd_requirements spec). single_line (req_id r) \<and> list_item (req_id r)" "single_line verdict"
    and "sd_workflow_state spec = ''CEO Approved''" "sd_last_reviewed_by spec = ''plan-ceo-review''"
  shows "tpl_content (build_plan_fidelity_review_artifact_template sha spec plan p) =
      filled_template sha spec plan ''<review-verdict-pass-or-fail>'' \<and>
    (\<exists>artifact. parse_plan_fidelity_review_artifact q (Inr (filled_template sha spec plan verdict)) = Inr artifact \<and>
      (approves sha spec plan artifact \<longleftrightarrow> verdict = ''pass'') \<and>
      fr_state (evaluate_parsed_plan_fidelity_review_artifact sha artifact plan spec) =
        (if verdict = ''pass'' then ''pass'' else ''fail''))"
proof -
  let ?a = "template_artifact sha spec plan verdict q"
  have "approves sha spec plan ?a \<longleftrightarrow> verdict = ''pass''"
    by (simp add: artifact_log_empty [OF template_binds, symmetric] template_artifact_log [OF assms(8,9)])
  moreover from this have "fr_state (evaluate_parsed_plan_fidelity_review_artifact sha ?a plan spec) =
      (if verdict = ''pass'' then ''pass'' else ''fail'')"
    by (simp add: evaluate_bound_state [OF template_binds] template_artifact_log [OF assms(8,9)])
      (simp add: template_artifact_def)
  ultimately show ?thesis using template_content_filled filled_template_parses [OF assms(1-7)] by blast
qed

lemma approves_allows:
  assumes "approves sha spec plan artifact"
  shows "plan_fidelity_allows_implementation (evaluate_parsed_plan_fidelity_review_artifact sha artifact plan spec)"
proof -
  from assms have b: "artifact_binds sha spec plan artifact" by (simp add: approves_def artifact_binds_def)
  with assms have "snd (artifact_log artifact spec) = []" by (simp add: artifact_log_empty)
  then obtain ds where log: "artifact_log artifact spec = (ds, [])" by (cases "artifact_log artifact spec") simp
  from assms have surfaces: "set (fa_verified_surfaces artifact) = set PLAN_FIDELITY_REQUIRED_SURFACES"
    and ids: "set (fa_verified_requirement_ids artifact) = set (map req_id (sd_requirements spec))"
    by (simp_all add: approves_def)
  show ?thesis
    unfolding plan_fidelity_allows_implementation_def evaluate_parsed_plan_fidelity_review_artifact_def Let_def
      verified_surfaces_are_complete_def log surfaces ids
    by (simp add: b PLAN_FIDELITY_REQUIRED_SURFACES_def)
qed

subsection \<open>Samples\<close>

definition sample_spec :: SpecDocument where
  "sample_spec =
     \<lparr>sd_path = ''docs/spec.md'', sd_workflow_state = ''CEO Approved'', sd_spec_revision = 2,
      sd_last_reviewed_by = ''plan-ceo-review'',
      sd_requirements = [\<lparr>req_id = ''REQ-001'', req_kind = ''behavior'', req_text = ''The log is read.''\<rparr>],
      sd_source = ''spec''\<rparr>"

definition sample_reviewed_plan :: PlanDocument where
  "sample_reviewed_plan =
     \<lparr>pd_path = ''docs/plan.md'', pd_workflow_state = ''Draft'', pd_plan_revision = 1, pd_execution_mode = ''none'',
      pd_source_spec_path = ''docs/spec.md'', pd_source_spec_revision = 2, pd_last_reviewed_by = ''writing-plans'',
      pd_qa_requirement = None, pd_coverage_matrix = [(''REQ-001'', [1])], pd_tasks = [], pd_source = ''plan''\<rparr>"

definition sample_digest :: "string \<Rightarrow> string" where
  "sample_digest s = show_nat (length s)"

definition sample_review_dir :: review_dir where
  "sample_review_dir =
     \<lparr>rd_listing = Some [''notes.txt'', ''plan-plan-fidelity.md''], rd_default_is_file = True,
      rd_read = (\<lambda>name. if name = ''plan-plan-fidelity.md''
        then Inr (filled_template sample_digest sample_spec sample_reviewed_plan ''pass'') else Inl name)\<rparr>"

lemma sample_review_printable:
  "printable_path (pd_path sample_reviewed_plan)" "printable_path (sd_path sample_spec)"
  "pd_plan_revision sample_reviewed_plan \<le> u32_max" "sd_spec_revision sample_spec \<le> u32_max"
  "\<forall>s. single_line (sample_digest s)"
  "\<forall>r\<in>set (sd_requirements sample_spec). single_line (req_id r) \<and> list_item (req_id r)"
  "single_line ''pass''" "sd_workflow_state sample_spec = ''CEO Approved''" "sd_last_reviewed_by sample_spec = ''plan-ceo-review''"
proof -
  show "printable_path (pd_path sample_reviewed_plan)" "printable_path (sd_path sample_spec)" by code_simp+
  show "pd_plan_revision sample_reviewed_plan \<le> u32_max" "sd_spec_revision sample_spec \<le> u32_max"
    by (simp_all add: sample_reviewed_plan_def sample_spec_def u32_max_def)
  show "\<forall>s. single_line (sample_digest s)" by (simp add: sample_digest_def single_line_show_nat)
  show "\<forall>r\<in>set (sd_requirements sample_spec). single_line (req_id r) \<and> list_item (req_id r)" by code_simp
qed (simp_all add: sample_spec_def single_line_def)

lemma sample_review_candidates:
  "plan_fidelity_review_artifact_candidates sample_review_dir sample_reviewed_plan = [''plan-plan-fidelity.md'']"
  by code_simp

lemma sample_review_approves:
  "approves sample_digest sample_spec sample_reviewed_plan
     (template_artifact sample_digest sample_spec sample_reviewed_plan ''pass'' q)"
  by (simp add: artifact_log_empty [OF template_binds, symmetric] template_artifact_log [OF sample_review_printable(8,9)])

lemma sample_review_passes:
  "plan_fidelity_allows_implementation
     (evaluate_plan_fidelity_review sample_digest sample_spec sample_reviewed_plan sample_review_dir)"
proof -
  note approved = sample_review_approves [of "review_dir_prefix @ ''plan-plan-fidelity.md''"]
  have "parse_plan_fidelity_review_artifact (review_dir_prefix @ ''plan-plan-fidelity.md'')
      (rd_read sample_review_dir ''plan-plan-fidelity.md'') =
    Inr (template_artifact sample_digest sample_spec sample_reviewed_plan ''pass'' (review_dir_prefix @ ''plan-plan-fidelity.md''))"
    using filled_template_parses [OF sample_review_printable(1-7)] by (simp add: sample_review_dir_def)
  moreover have "fr_state (evaluate_parsed_plan_fidelity_review_artifact sample_digest
      (template_artifact sample_digest sample_spec sample_reviewed_plan ''pass'' (review_dir_prefix @ ''plan-plan-fidelity.md''))
      sample_reviewed_plan sample_spec) = ''pass''"
    using approved by (simp add: evaluate_bound_state [OF template_binds])
  ultimately show ?thesis using approves_allows [OF approved]
    by (simp add: evaluate_plan_fidelity_review_def sample_review_candidates scan_candidate_def template_binds Let_def
        plan_fidelity_allows_implementation_def attach_keeps)
qed

theorem implementation_needs_a_bound_review_witness:
  "plan_fidelity_allows_implementation
     (evaluate_plan_fidelity_review sample_digest sample_spec sample_reviewed_plan sample_review_dir) \<and>
   (\<exists>artifact. artifact \<in> set (current_artifacts sample_digest sample_spec sample_reviewed_plan sample_review_dir
       (plan_fidelity_review_artifact_candidates sample_review_dir sample_reviewed_plan)) \<and>
     approves sample_digest sample_spec sample_reviewed_plan artifact)"
  using implementation_needs_a_bound_review [OF sample_review_passes] sample_review_passes
  by (metis list.set_sel(1))

theorem template_lacks_only_the_verdict_witness:
  "\<exists>artifact. parse_plan_fidelity_review_artifact ''a.md''
      (Inr (filled_template sample_digest sample_spec sample_reviewed_plan ''pass'')) = Inr artifact \<and>
    approves sample_digest sample_spec sample_reviewed_plan artifact"
  using template_lacks_only_the_verdict [OF sample_review_printable] by blast

end
