(* ===== verification/Plan_Analysis.thy ===== *)
theory Plan_Analysis
  imports Plan_Fidelity
begin

text \<open>The report on a plan (\<^verbatim>\<open>analyze_documents\<close> and \<^verbatim>\<open>analyze_plan\<close> of \<^verbatim>\<open>src/contracts/plan.rs\<close>) and the
  execution topology chosen from it (\<^verbatim>\<open>src/execution/topology.rs\<close>).\<close>

subsection \<open>The report\<close>

record AnalyzePlanReport =
  ar_contract_state :: string
  ar_spec_path :: string
  ar_spec_revision :: nat
  ar_spec_fingerprint :: string
  ar_plan_path :: string
  ar_plan_revision :: nat
  ar_plan_fingerprint :: string
  ar_task_count :: nat
  ar_packet_buildable_tasks :: nat
  ar_coverage_complete :: bool
  ar_task_contract_valid :: bool
  ar_task_goal_valid :: bool
  ar_task_context_sufficient :: bool
  ar_task_constraints_valid :: bool
  ar_task_done_when_deterministic :: bool
  ar_tasks_self_contained :: bool
  ar_task_structure_valid :: bool
  ar_files_blocks_valid :: bool
  ar_execution_strategy_present :: bool
  ar_dependency_diagram_present :: bool
  ar_execution_topology_valid :: bool
  ar_serial_hazards_resolved :: bool
  ar_parallel_lane_ownership_valid :: bool
  ar_parallel_workspace_isolation_valid :: bool
  ar_parallel_worktree_groups :: "nat list list"
  ar_parallel_worktree_requirements :: "ParallelWorktreeRequirement list"
  ar_reason_codes :: "string list"
  ar_overlapping_write_scopes :: "OverlappingWriteScope list"
  ar_plan_fidelity_review :: PlanFidelityReviewReport
  ar_diagnostics :: "ContractDiagnostic list"

definition task_fields :: "PlanTask \<Rightarrow> TaskContractFields" where
  "task_fields t =
     \<lparr>tcf_goal = pt_goal t, tcf_context = pt_context t, tcf_constraints = pt_constraints t, tcf_done_when = pt_done_when t\<rparr>"

definition task_validation :: "PlanTask \<Rightarrow> TaskContractValidation" where
  "task_validation t = validate_task_contract (pt_number t) (pt_title t) (pt_spec_coverage t) (task_fields t)"

definition push_contract_diagnostic :: "ContractDiagnostic \<Rightarrow> diagnostic_log \<Rightarrow> diagnostic_log" where
  "push_contract_diagnostic d = push_diagnostic (cd_code d) (cd_message d)"

definition linkage_current :: "SpecDocument \<Rightarrow> PlanDocument \<Rightarrow> bool" where
  "linkage_current spec plan \<longleftrightarrow>
     pd_source_spec_path plan = sd_path spec \<and> pd_source_spec_revision plan = sd_spec_revision spec"

definition coverage_complete :: "SpecDocument \<Rightarrow> PlanDocument \<Rightarrow> bool" where
  "coverage_complete spec plan \<longleftrightarrow>
     list_all (\<lambda>rid. obj_get (pd_coverage_matrix plan) rid \<noteq> None) (bset_of (map req_id (sd_requirements spec)))"

definition intent_sources :: "PlanDocument \<Rightarrow> TaskIntentSource list" where
  "intent_sources plan = map (\<lambda>t. (pt_number t, pt_goal t)) (pd_tasks plan)"

definition push_duplicate_intent :: "nat list \<Rightarrow> diagnostic_log \<Rightarrow> diagnostic_log" where
  "push_duplicate_intent tasks =
     push_diagnostic ''duplicate_task_intent''
       (''Tasks '' @ show_nat_list tasks @
        '' have duplicate or overlapping task intent that should be split or clarified.'')"

definition plan_scopes :: "PlanDocument \<Rightarrow> task_scopes" where
  "plan_scopes plan =
     map (\<lambda>t. (pt_number t, map tfe_path (filter (\<lambda>f. tfe_action f \<noteq> ''Test'') (pt_files t)))) (pd_tasks plan)"

definition contract_log :: "SpecDocument \<Rightarrow> PlanDocument \<Rightarrow> diagnostic_log" where
  "contract_log spec plan =
     (let log = push_if (\<not> linkage_current spec plan) ''stale_spec_plan_linkage''
            ''Plan source spec linkage does not match the current approved spec.'' ([], []);
          log = push_if (\<not> coverage_complete spec plan) ''missing_requirement_coverage''
            ''Every indexed requirement must appear in the coverage matrix.'' log;
          log = fold (\<lambda>t. fold push_contract_diagnostic (tcv_diagnostics (task_validation t))) (pd_tasks plan) log
      in fold push_duplicate_intent (detect_duplicate_task_intents (intent_sources plan)) log)"

definition push_new :: "'a \<Rightarrow> 'a list \<Rightarrow> 'a list" where
  "push_new x xs = (if x \<in> set xs then xs else xs @ [x])"

definition analyze_documents :: "(string \<Rightarrow> string) \<Rightarrow> SpecDocument \<Rightarrow> PlanDocument \<Rightarrow> AnalyzePlanReport" where
  "analyze_documents sha spec plan =
     (let (diagnostics, codes) = contract_log spec plan;
          validations = map task_validation (pd_tasks plan);
          no_duplicates = (detect_duplicate_task_intents (intent_sources plan) = []);
          topology = analyze_execution_topology (pd_source plan) (plan_scopes plan);
          codes = fold push_new (eta_reason_codes topology) codes;
          diagnostics = fold push_new (eta_diagnostics topology) diagnostics
      in \<lparr>ar_contract_state = (if diagnostics = [] then ''valid'' else ''invalid''),
          ar_spec_path = sd_path spec, ar_spec_revision = sd_spec_revision spec,
          ar_spec_fingerprint = sha (sd_source spec), ar_plan_path = pd_path plan,
          ar_plan_revision = pd_plan_revision plan, ar_plan_fingerprint = sha (pd_source plan),
          ar_task_count = length (pd_tasks plan),
          ar_packet_buildable_tasks = length (filter (\<lambda>t. pt_files t \<noteq> []) (pd_tasks plan)),
          ar_coverage_complete = coverage_complete spec plan,
          ar_task_contract_valid = (list_all task_contract_valid validations \<and> no_duplicates),
          ar_task_goal_valid = list_all task_goal_valid validations,
          ar_task_context_sufficient = list_all task_context_sufficient validations,
          ar_task_constraints_valid = list_all task_constraints_valid validations,
          ar_task_done_when_deterministic = list_all task_done_when_deterministic validations,
          ar_tasks_self_contained = (list_all task_self_contained validations \<and> no_duplicates),
          ar_task_structure_valid = True,
          ar_files_blocks_valid = list_all (\<lambda>t. pt_files t \<noteq> []) (pd_tasks plan),
          ar_execution_strategy_present = eta_execution_strategy_present topology,
          ar_dependency_diagram_present = eta_dependency_diagram_present topology,
          ar_execution_topology_valid = eta_execution_topology_valid topology,
          ar_serial_hazards_resolved = eta_serial_hazards_resolved topology,
          ar_parallel_lane_ownership_valid = eta_parallel_lane_ownership_valid topology,
          ar_parallel_workspace_isolation_valid = eta_parallel_workspace_isolation_valid topology,
          ar_parallel_worktree_groups = eta_parallel_worktree_groups topology,
          ar_parallel_worktree_requirements = eta_parallel_worktree_requirements topology,
          ar_reason_codes = codes,
          ar_overlapping_write_scopes = detect_overlapping_write_scopes (pd_tasks plan),
          ar_plan_fidelity_review = report_not_applicable,
          ar_diagnostics = diagnostics\<rparr>)"

text \<open>\<^verbatim>\<open>analyze_plan\<close>, from the two sources and the paths of the documents in their repository.\<close>

definition analyze_plan ::
  "(string \<Rightarrow> string) \<Rightarrow> string \<Rightarrow> string \<Rightarrow> string \<Rightarrow> string \<Rightarrow> review_dir \<Rightarrow> AnalyzePlanReport checked" where
  "analyze_plan sha spec_path spec_source plan_path plan_source dir =
     res_bind (parse_spec_source spec_path spec_source) (\<lambda>spec.
     res_bind (parse_plan_source plan_path plan_source) (\<lambda>plan.
       let report = analyze_documents sha spec plan in
       Inr (if plan_fidelity_review_applicable plan
            then report\<lparr>ar_plan_fidelity_review := evaluate_plan_fidelity_review sha spec plan dir\<rparr>
            else report)))"

subsection \<open>Choosing a topology\<close>

datatype ExecutionTopologyArg = WorktreeBackedParallel | ConservativeFallback

record LearnedTopologyGuidance =
  ltg_approved_plan_revision :: nat
  ltg_execution_context_key :: string
  ltg_primary_reason_class :: string

record TopologySelectionContext =
  tsc_execution_context_key :: string
  tsc_tasks_independent :: bool
  tsc_isolated_agents_available :: string
  tsc_session_intent :: string
  tsc_workspace_prepared :: string
  tsc_current_parallel_path_ready :: bool
  tsc_learned_guidance :: "LearnedTopologyGuidance option"

record RecommendDecisionFlags =
  rdf_tasks_independent :: string
  rdf_isolated_agents_available :: string
  rdf_session_intent :: string
  rdf_workspace_prepared :: string
  rdf_same_session_viable :: string

record ExecutionTopologyRecommendation =
  etr_selected_topology :: ExecutionTopologyArg
  etr_recommended_skill :: string
  etr_reason :: string
  etr_decision_flags :: RecommendDecisionFlags
  etr_reason_codes :: "string list"
  etr_learned_downgrade_reused :: bool

fun paths_fresh :: "string list \<Rightarrow> string list \<Rightarrow> bool" where
  "paths_fresh seen [] = True"
| "paths_fresh seen (p # ps) = (if p \<in> set seen then False else paths_fresh (bset_insert p seen) ps)"

definition tasks_are_independent :: "PlanDocument \<Rightarrow> bool" where
  "tasks_are_independent plan \<longleftrightarrow>
     (if length (pd_tasks plan) \<le> 1 then False
      else paths_fresh [] (concat (map (\<lambda>t. map tfe_path (pt_files t)) (pd_tasks plan))))"

definition plan_supports_worktree_parallel :: "AnalyzePlanReport \<Rightarrow> bool" where
  "plan_supports_worktree_parallel r \<longleftrightarrow>
     ar_execution_topology_valid r \<and> ar_parallel_lane_ownership_valid r \<and>
     ar_parallel_workspace_isolation_valid r \<and> ar_parallel_worktree_groups r \<noteq> []"

definition normalize_isolated_agents_available :: "string \<Rightarrow> string" where
  "normalize_isolated_agents_available v =
     (if trim v \<in> {''available'', ''yes''} then ''yes''
      else if trim v \<in> {''unavailable'', ''no''} then ''no'' else ''unknown'')"

definition recommended_skill_for_session :: "TopologySelectionContext \<Rightarrow> string" where
  "recommended_skill_for_session c =
     (if tsc_session_intent c = ''separate'' then ''featureforge:executing-plans''
      else ''featureforge:subagent-driven-development'')"

definition current_parallel_blocker_reason_class :: "AnalyzePlanReport \<Rightarrow> TopologySelectionContext \<Rightarrow> string option" where
  "current_parallel_blocker_reason_class r c =
     (if \<not> plan_supports_worktree_parallel r then Some ''dependency_mismatch''
      else if normalize_isolated_agents_available (tsc_isolated_agents_available c) \<noteq> ''yes'' then Some ''policy_safety_block''
      else if tsc_workspace_prepared c \<noteq> ''yes'' then Some ''workspace_unavailable''
      else None)"

definition learned_guidance_matches :: "AnalyzePlanReport \<Rightarrow> TopologySelectionContext \<Rightarrow> bool" where
  "learned_guidance_matches r c \<longleftrightarrow>
     is_some_and (tsc_learned_guidance c) (\<lambda>g.
       ltg_approved_plan_revision g = ar_plan_revision r \<and>
       \<not> (trim (ltg_execution_context_key g) = [] \<or> trim (tsc_execution_context_key c) = []) \<and>
       ltg_execution_context_key g = tsc_execution_context_key c)"

definition learned_guidance_stale_reuse_matches ::
  "AnalyzePlanReport \<Rightarrow> TopologySelectionContext \<Rightarrow> string option \<Rightarrow> bool" where
  "learned_guidance_stale_reuse_matches r c blocker \<longleftrightarrow>
     is_some_and blocker (\<lambda>reason_class. is_some_and (tsc_learned_guidance c) (\<lambda>g.
       ltg_approved_plan_revision g = ar_plan_revision r \<and>
       \<not> (trim (ltg_execution_context_key g) = [] \<or> trim (tsc_execution_context_key c) = []) \<and>
       ltg_execution_context_key g = tsc_execution_context_key c \<and> trim (ltg_primary_reason_class g) = reason_class))"

definition worktree_parallel_available :: "AnalyzePlanReport \<Rightarrow> TopologySelectionContext \<Rightarrow> bool" where
  "worktree_parallel_available r c \<longleftrightarrow>
     plan_supports_worktree_parallel r \<and> tsc_tasks_independent c \<and>
     normalize_isolated_agents_available (tsc_isolated_agents_available c) = ''yes'' \<and> tsc_workspace_prepared c = ''yes''"

definition recommend_topology :: "AnalyzePlanReport \<Rightarrow> TopologySelectionContext \<Rightarrow> ExecutionTopologyRecommendation" where
  "recommend_topology r c =
     (let same_session_viable =
            (if tsc_session_intent c = ''stay'' \<and> tsc_workspace_prepared c = ''yes'' then ''yes''
             else if tsc_session_intent c = ''separate'' \<or> tsc_workspace_prepared c = ''no'' then ''no''
             else ''unknown'');
          available = worktree_parallel_available r c;
          blocker = current_parallel_blocker_reason_class r c;
          downgrade_reused = (learned_guidance_stale_reuse_matches r c blocker \<and> \<not> tsc_current_parallel_path_ready c);
          restored = (learned_guidance_matches r c \<and> tsc_current_parallel_path_ready c \<and> available);
          (topology, skill, reason, codes) =
            (if restored
             then (WorktreeBackedParallel, recommended_skill_for_session c,
               ''Runtime restored the worktree-backed parallel topology because the current run is ready again.'',
               [''matching_downgrade_history_superseded''])
             else if available \<and> \<not> downgrade_reused
             then (WorktreeBackedParallel, recommended_skill_for_session c,
               ''Runtime selected the worktree-backed parallel topology for the current approved plan.'',
               [''worktree_backed_parallel_ready''])
             else if downgrade_reused
             then (ConservativeFallback, ''featureforge:executing-plans'',
               ''Runtime reused matching downgrade history and stayed conservative for this run.'',
               [''matching_downgrade_history_reused''])
             else (ConservativeFallback, ''featureforge:executing-plans'',
               ''Runtime fell back conservatively because the current run does not satisfy worktree-backed parallel readiness.'',
               (case blocker of
                  Some reason_class \<Rightarrow> [''conservative_fallback_'' @ reason_class]
                | None \<Rightarrow> [''conservative_fallback_runtime_unavailable''])))
      in \<lparr>etr_selected_topology = topology, etr_recommended_skill = skill, etr_reason = reason,
          etr_decision_flags =
            \<lparr>rdf_tasks_independent = (if tsc_tasks_independent c then ''yes'' else ''no''),
             rdf_isolated_agents_available = normalize_isolated_agents_available (tsc_isolated_agents_available c),
             rdf_session_intent = tsc_session_intent c, rdf_workspace_prepared = tsc_workspace_prepared c,
             rdf_same_session_viable = same_session_viable\<rparr>,
          etr_reason_codes = codes, etr_learned_downgrade_reused = downgrade_reused\<rparr>)"

subsection \<open>Duplicate intents\<close>

definition goal_intent :: "string \<Rightarrow> string" where
  "goal_intent goal = to_ascii_lowercase (normalize_whitespace goal)"

definition tasks_of_intent :: "TaskIntentSource list \<Rightarrow> string \<Rightarrow> nat list" where
  "tasks_of_intent tasks intent = map fst (filter (\<lambda>(_, goal). goal_intent goal = intent) tasks)"

lemma add_task_intents:
  "entry_or_empty (fold add_task_intent tasks m) intent =
     entry_or_empty m intent @ (if intent = [] then [] else tasks_of_intent tasks intent)"
  "obj_sorted m \<Longrightarrow> obj_sorted (fold add_task_intent tasks m)"
proof (induction tasks arbitrary: m)
  case (Cons task tasks)
  have here: "entry_or_empty (add_task_intent task m) intent = entry_or_empty m intent @
      (if intent = [] then [] else tasks_of_intent [task] intent)" for m
    by (cases task) (auto simp: add_task_intent_def Let_def tasks_of_intent_def goal_intent_def entry_or_empty_def obj_get_insert)
  have sorted: "obj_sorted m \<Longrightarrow> obj_sorted (add_task_intent task m)" for m
    by (cases task) (simp add: add_task_intent_def Let_def obj_sorted_insert)
  {
    case 1
    show ?case using Cons.IH(1) [of "add_task_intent task m"] here [of m] by (auto simp: tasks_of_intent_def)
  next
    case 2
    then show ?case using Cons.IH(2) sorted by simp
  }
qed (simp_all add: tasks_of_intent_def)

lemma distinct_intents:
  "distinct xs \<longleftrightarrow> (\<forall>x. length (filter (\<lambda>y. y = x) xs) \<le> 1)" for xs :: "string list"
proof (induction xs)
  case (Cons a xs)
  show ?case
  proof (cases "a \<in> set xs")
    case True
    then have "0 < length (filter (\<lambda>y. y = a) xs)" by (auto simp: filter_empty_conv)
    then have "\<not> length (filter (\<lambda>y. y = a) (a # xs)) \<le> 1" by simp
    with True show ?thesis by (metis distinct.simps(2))
  next
    case False
    then have "filter (\<lambda>y. y = a) xs = []" by (auto simp: filter_empty_conv)
    then have "length (filter (\<lambda>y. y = x) (a # xs)) \<le> 1 \<longleftrightarrow> length (filter (\<lambda>y. y = x) xs) \<le> 1" for x by auto
    with Cons.IH False show ?thesis by (metis distinct.simps(2))
  qed
qed simp

lemma no_duplicate_intents:
  "detect_duplicate_task_intents tasks = [] \<longleftrightarrow>
   distinct (filter (\<lambda>intent. intent \<noteq> []) (map (goal_intent \<circ> snd) tasks))"
proof -
  let ?m = "fold add_task_intent tasks []"
  have sorted: "obj_sorted ?m" by (rule add_task_intents(2)) (simp add: obj_sorted_def)
  have entry: "entry_or_empty ?m intent = (if intent = [] then [] else tasks_of_intent tasks intent)" for intent
    using add_task_intents(1) [of tasks "[]" intent] by (simp add: entry_or_empty_def obj_get_def)
  have "detect_duplicate_task_intents tasks = [] \<longleftrightarrow> (\<forall>kv\<in>set ?m. length (snd kv) \<le> 1)"
    by (auto simp: detect_duplicate_task_intents_def filter_empty_conv)
  also have "\<dots> \<longleftrightarrow> (\<forall>intent. length (entry_or_empty ?m intent) \<le> 1)"
  proof
    assume short: "\<forall>kv\<in>set ?m. length (snd kv) \<le> 1"
    show "\<forall>intent. length (entry_or_empty ?m intent) \<le> 1"
    proof
      fix intent
      show "length (entry_or_empty ?m intent) \<le> 1"
        using short by (cases "obj_get ?m intent") (fastforce simp: entry_or_empty_def obj_get_def dest!: map_of_SomeD)+
    qed
  next
    assume short: "\<forall>intent. length (entry_or_empty ?m intent) \<le> 1"
    show "\<forall>kv\<in>set ?m. length (snd kv) \<le> 1"
    proof
      fix kv assume "kv \<in> set ?m"
      then have "obj_get ?m (fst kv) = Some (snd kv)"
        using obj_sorted_distinct [OF sorted] by (simp add: obj_get_def map_of_eq_Some_iff)
      then show "length (snd kv) \<le> 1" using short [rule_format, of "fst kv"] by (simp add: entry_or_empty_def)
    qed
  qed
  also have "\<dots> \<longleftrightarrow> (\<forall>intent. length (filter (\<lambda>y. y = intent)
      (filter (\<lambda>intent. intent \<noteq> []) (map (goal_intent \<circ> snd) tasks))) \<le> 1)"
  proof -
    have "length (entry_or_empty ?m intent) = length (filter (\<lambda>y. y = intent)
        (filter (\<lambda>intent. intent \<noteq> []) (map (goal_intent \<circ> snd) tasks)))" for intent
      by (simp add: entry tasks_of_intent_def) (induction tasks; auto)
    then show ?thesis by simp
  qed
  finally show ?thesis by (simp only: distinct_intents)
qed

subsection \<open>Task validation\<close>

text \<open>A validation is valid exactly when it has no diagnostic.\<close>

definition consistent :: "TaskContractValidation \<Rightarrow> bool" where
  "consistent v \<longleftrightarrow> (task_contract_valid v \<longleftrightarrow> tcv_diagnostics v = [])"

lemma consistent_push [simp]: "consistent (validation_push code msg v)"
  by (simp add: consistent_def validation_push_def)

lemma consistent_reject [simp]:
  "consistent (reject_goal code msg v)" "consistent (reject_context code msg v)"
  "consistent (reject_constraints code msg v)" "consistent (reject_done_when code msg v)"
  by (simp_all add: reject_goal_def reject_context_def reject_constraints_def reject_done_when_def)

lemma consistent_validate:
  assumes "consistent v"
  shows "consistent (validate_goal n title fs v)" "consistent (validate_context n cov fs v)"
    "consistent (validate_constraints n fs v)" "consistent (validate_done_when_bullet n bullet v)"
  using assms
  by (simp_all add: validate_goal_def validate_context_def validate_constraints_def validate_done_when_bullet_def Let_def
      split: option.splits)

lemma consistent_validate_done_when: "consistent v \<Longrightarrow> consistent (validate_done_when n fs v)"
proof -
  have "consistent v \<Longrightarrow> consistent (fold (validate_done_when_bullet n) bullets v)" for bullets v
    by (induction bullets arbitrary: v) (simp_all add: consistent_validate)
  then show "consistent v \<Longrightarrow> consistent (validate_done_when n fs v)" by (simp add: validate_done_when_def Let_def)
qed

lemma validation_diagnostics: "tcv_diagnostics (task_validation t) = [] \<longleftrightarrow> task_contract_valid (task_validation t)"
proof -
  have "consistent (task_validation t)"
    unfolding task_validation_def validate_task_contract_def
    by (intro consistent_validate_done_when consistent_validate) (simp add: consistent_def validation_valid_def)
  then show ?thesis by (simp add: consistent_def)
qed

subsection \<open>What a valid report means\<close>

lemma push_if_clean: "fst (push_if b code msg log) = [] \<longleftrightarrow> \<not> b \<and> fst log = []"
  by (simp add: push_if_def push_diagnostic_def)

lemma fold_push_clean:
  assumes "\<And>x log. fst (f x log) = [] \<longleftrightarrow> P x \<and> fst log = []"
  shows "fst (fold f xs log) = [] \<longleftrightarrow> (\<forall>x\<in>set xs. P x) \<and> fst log = []"
  by (induction xs arbitrary: log) (auto simp: assms)

lemma push_contract_diagnostics_clean:
  "fst (fold push_contract_diagnostic ds log) = [] \<longleftrightarrow> ds = [] \<and> fst log = []"
  by (induction ds arbitrary: log) (simp_all add: push_contract_diagnostic_def push_diagnostic_def)

lemma push_duplicate_intents_clean:
  "fst (fold push_duplicate_intent ds log) = [] \<longleftrightarrow> ds = [] \<and> fst log = []"
  by (induction ds arbitrary: log) (simp_all add: push_duplicate_intent_def push_diagnostic_def)

lemma fold_push_new: "set (fold push_new xs ys) = set xs \<union> set ys"
  by (induction xs arbitrary: ys) (auto simp: push_new_def)

lemma contract_log_clean:
  "fst (contract_log spec plan) = [] \<longleftrightarrow>
   linkage_current spec plan \<and> coverage_complete spec plan \<and>
   (\<forall>t\<in>set (pd_tasks plan). task_contract_valid (task_validation t)) \<and>
   detect_duplicate_task_intents (intent_sources plan) = []"
proof -
  have "fst (fold (\<lambda>t. fold push_contract_diagnostic (tcv_diagnostics (task_validation t))) ts log) = [] \<longleftrightarrow>
      (\<forall>t\<in>set ts. task_contract_valid (task_validation t)) \<and> fst log = []" for ts log
    by (rule fold_push_clean) (simp add: push_contract_diagnostics_clean validation_diagnostics)
  then show ?thesis
    by (auto simp: contract_log_def Let_def push_duplicate_intents_clean push_if_clean)
qed

text \<open>C8: the report calls a plan valid exactly when the plan names the current specification, its coverage matrix
  lists every requirement, every task passes the contract checks, no two tasks have the same non-empty
  goal up to white space and letter case, and the execution topology is accepted.\<close>

theorem valid_report_means:
  "ar_contract_state (analyze_documents sha spec plan) = ''valid'' \<longleftrightarrow>
     linkage_current spec plan \<and>
     (\<forall>r\<in>set (sd_requirements spec). obj_get (pd_coverage_matrix plan) (req_id r) \<noteq> None) \<and>
     (\<forall>t\<in>set (pd_tasks plan). task_contract_valid (task_validation t)) \<and>
     distinct (filter (\<lambda>intent. intent \<noteq> []) (map (goal_intent \<circ> pt_goal) (pd_tasks plan))) \<and>
     eta_execution_topology_valid (analyze_execution_topology (pd_source plan) (plan_scopes plan))"
proof -
  let ?topology = "analyze_execution_topology (pd_source plan) (plan_scopes plan)"
  obtain ds codes where log: "contract_log spec plan = (ds, codes)" by (rule prod.exhaust)
  have "ar_contract_state (analyze_documents sha spec plan) = ''valid'' \<longleftrightarrow>
      set (fold push_new (eta_diagnostics ?topology) ds) = {}"
    by (simp add: analyze_documents_def Let_def log)
  also have "\<dots> \<longleftrightarrow> eta_diagnostics ?topology = [] \<and> fst (contract_log spec plan) = []"
    by (simp add: fold_push_new log)
  also have "eta_diagnostics ?topology = [] \<longleftrightarrow> eta_execution_topology_valid ?topology"
    by (simp add: analyze_execution_topology_def Let_def)
  finally show ?thesis
    by (auto simp: contract_log_clean no_duplicate_intents intent_sources_def coverage_complete_def list_all_iff comp_def)
qed

subsection \<open>Parallel execution\<close>

lemma paths_fresh_distinct: "paths_fresh seen ps \<longleftrightarrow> distinct ps \<and> set ps \<inter> set seen = {}"
  by (induction ps arbitrary: seen) auto

lemma distinct_concat_map_disjoint:
  assumes "distinct (concat (map f ts))" "t \<in> set ts" "u \<in> set ts" "t \<noteq> u"
  shows "set (f t) \<inter> set (f u) = {}"
  using assms by (induction ts) auto

lemma recommend_topology_selected:
  "etr_selected_topology (recommend_topology r c) = WorktreeBackedParallel \<Longrightarrow> worktree_parallel_available r c"
  by (auto simp: recommend_topology_def Let_def split: if_splits)

definition topology_supports_parallel :: "ExecutionTopologyAnalysis \<Rightarrow> bool" where
  "topology_supports_parallel a \<longleftrightarrow>
     eta_execution_topology_valid a \<and> eta_parallel_lane_ownership_valid a \<and> eta_parallel_workspace_isolation_valid a \<and>
     eta_parallel_worktree_groups a \<noteq> []"

lemma plan_supports_parallel_iff:
  "plan_supports_worktree_parallel (analyze_documents sha spec plan) \<longleftrightarrow>
   topology_supports_parallel (analyze_execution_topology (pd_source plan) (plan_scopes plan))"
  by (simp add: plan_supports_worktree_parallel_def analyze_documents_def topology_supports_parallel_def Let_def split: prod.splits)

text \<open>C13: the parallel topology is recommended for the report on a plan only when no file is named by two tasks, the
  execution topology is accepted and has a parallel group, and isolated agents and a prepared workspace
  are available.\<close>

theorem parallel_runs_touch_disjoint_files:
  assumes "etr_selected_topology (recommend_topology (analyze_documents sha spec plan) c) = WorktreeBackedParallel"
    and "tsc_tasks_independent c = tasks_are_independent plan"
    and "t \<in> set (pd_tasks plan)" "u \<in> set (pd_tasks plan)" "t \<noteq> u"
  shows "set (map tfe_path (pt_files t)) \<inter> set (map tfe_path (pt_files u)) = {} \<and>
    eta_execution_topology_valid (analyze_execution_topology (pd_source plan) (plan_scopes plan)) \<and>
    eta_parallel_worktree_groups (analyze_execution_topology (pd_source plan) (plan_scopes plan)) \<noteq> [] \<and>
    normalize_isolated_agents_available (tsc_isolated_agents_available c) = ''yes'' \<and> tsc_workspace_prepared c = ''yes''"
proof -
  from recommend_topology_selected [OF assms(1)] have available: "worktree_parallel_available (analyze_documents sha spec plan) c" .
  with assms(2) have "tasks_are_independent plan" by (simp add: worktree_parallel_available_def)
  then have "distinct (concat (map (\<lambda>t. map tfe_path (pt_files t)) (pd_tasks plan)))"
    by (simp add: tasks_are_independent_def paths_fresh_distinct split: if_splits)
  from distinct_concat_map_disjoint [OF this assms(3-5)] available show ?thesis
    by (simp add: worktree_parallel_available_def plan_supports_parallel_iff topology_supports_parallel_def)
qed

definition sample_parallel_task :: "nat \<Rightarrow> string \<Rightarrow> PlanTask" where
  "sample_parallel_task n path =
     \<lparr>pt_number = n, pt_title = ''T'', pt_spec_coverage = [], pt_goal = ''Add '' @ path,
      pt_context = [''A log.''], pt_constraints = [''UTF-8.''],
      pt_done_when = [''See '' @ path], pt_files = [\<lparr>tfe_action = ''Modify'', tfe_path = path\<rparr>], pt_steps = []\<rparr>"

definition sample_parallel_plan :: PlanDocument where
  "sample_parallel_plan = sample_reviewed_plan
     \<lparr>pd_tasks := [sample_parallel_task 1 ''a'', sample_parallel_task 2 ''b'', sample_parallel_task 3 ''c'', sample_parallel_task 4 ''d''],
      pd_source := sample_topology\<rparr>"

definition sample_selection :: TopologySelectionContext where
  "sample_selection =
     \<lparr>tsc_execution_context_key = ''k'', tsc_tasks_independent = True, tsc_isolated_agents_available = ''yes'',
      tsc_session_intent = ''stay'', tsc_workspace_prepared = ''yes'', tsc_current_parallel_path_ready = False,
      tsc_learned_guidance = None\<rparr>"

lemma trim_sample_yes: "trim ''yes'' = ''yes''"
  by code_simp

lemma sample_parallel_topology:
  "topology_supports_parallel (analyze_execution_topology (pd_source sample_parallel_plan) (plan_scopes sample_parallel_plan))"
proof -
  have "topology_supports_parallel (analyze_execution_topology sample_topology
      [(1, [''a'']), (2, [''b'']), (3, [''c'']), (4, [''d''])])" by code_simp
  then show ?thesis by (simp add: sample_parallel_plan_def sample_parallel_task_def plan_scopes_def)
qed

lemma sample_parallel_task_valid:
  "task_contract_valid (task_validation (sample_parallel_task 1 ''a''))"
  "task_contract_valid (task_validation (sample_parallel_task 2 ''b''))"
  "task_contract_valid (task_validation (sample_parallel_task 3 ''c''))"
  "task_contract_valid (task_validation (sample_parallel_task 4 ''d''))"
  by code_simp+

theorem valid_report_means_witness:
  "ar_contract_state (analyze_documents sample_digest sample_spec sample_parallel_plan) = ''valid''"
proof -
  have "linkage_current sample_spec sample_parallel_plan"
    "distinct (filter (\<lambda>intent. intent \<noteq> []) (map (goal_intent \<circ> pt_goal) (pd_tasks sample_parallel_plan)))"
    by code_simp+
  moreover have "\<forall>r\<in>set (sd_requirements sample_spec). obj_get (pd_coverage_matrix sample_parallel_plan) (req_id r) \<noteq> None"
    by code_simp
  moreover have "\<forall>t\<in>set (pd_tasks sample_parallel_plan). task_contract_valid (task_validation t)"
    by (simp add: sample_parallel_plan_def sample_parallel_task_valid [simplified])
  ultimately show ?thesis
    using sample_parallel_topology by (simp add: valid_report_means topology_supports_parallel_def)
qed

theorem parallel_runs_touch_disjoint_files_witness:
  "etr_selected_topology (recommend_topology (analyze_documents sample_digest sample_spec sample_parallel_plan) sample_selection) =
     WorktreeBackedParallel \<and>
   set (map tfe_path (pt_files (sample_parallel_task 2 ''b''))) \<inter> set (map tfe_path (pt_files (sample_parallel_task 3 ''c''))) = {}"
proof -
  have selected: "etr_selected_topology (recommend_topology (analyze_documents sample_digest sample_spec sample_parallel_plan)
      sample_selection) = WorktreeBackedParallel"
    using sample_parallel_topology
    by (simp add: recommend_topology_def Let_def worktree_parallel_available_def plan_supports_parallel_iff
        sample_selection_def normalize_isolated_agents_available_def trim_sample_yes
        current_parallel_blocker_reason_class_def learned_guidance_stale_reuse_matches_def learned_guidance_matches_def)
  have "tsc_tasks_independent sample_selection = tasks_are_independent sample_parallel_plan" by code_simp
  from parallel_runs_touch_disjoint_files [OF selected this, of "sample_parallel_task 2 ''b''" "sample_parallel_task 3 ''c''"] selected
  show ?thesis by (simp add: sample_parallel_plan_def sample_parallel_task_def)
qed

end
