(* ===== verification/Diagram_Correct.thy ===== *)
theory Diagram_Correct
  imports Topology_Correct
begin

text \<open>What a dependency diagram draws, said without the reader: which characters connect to which
  neighbours, where a line leaves a task and where it enters one, and where a task is written.
  The edges the reader computes are exactly the ones drawn.\<close>

subsection \<open>What is drawn\<close>

text \<open>The character at a place of the text; the lines may differ in length.\<close>

definition drawn :: "string list \<Rightarrow> cell \<Rightarrow> char option" where
  "drawn rows place =
     (case place of (row, col) \<Rightarrow>
        if row < length rows \<and> col < length (rows ! row) then Some (rows ! row ! col) else None)"

definition line_char :: "string list \<Rightarrow> cell \<Rightarrow> bool" where
  "line_char rows place \<longleftrightarrow>
     drawn rows place \<in> {Some (CHR ''|''), Some (CHR ''-''), Some (CHR ''+''), Some (CHR ''v''), Some (CHR ''>'')}"

definition blank :: "string list \<Rightarrow> cell \<Rightarrow> bool" where
  "blank rows place \<longleftrightarrow> drawn rows place = None \<or> drawn rows place = Some (CHR '' '')"

text \<open>A line goes on downwards from \<^verbatim>\<open>|\<close>, \<^verbatim>\<open>+\<close> and \<^verbatim>\<open>v\<close>, to the right from \<^verbatim>\<open>-\<close>, \<^verbatim>\<open>+\<close> and \<^verbatim>\<open>>\<close>, to the left
  from \<^verbatim>\<open>-\<close> and \<^verbatim>\<open>+\<close>, and never upwards.\<close>

inductive leads :: "string list \<Rightarrow> cell \<Rightarrow> cell \<Rightarrow> bool" for rows :: "string list" where
  down: "drawn rows (row, col) \<in> {Some (CHR ''|''), Some (CHR ''+''), Some (CHR ''v'')} \<Longrightarrow>
    line_char rows (Suc row, col) \<Longrightarrow> leads rows (row, col) (Suc row, col)"
| right: "drawn rows (row, col) \<in> {Some (CHR ''-''), Some (CHR ''+''), Some (CHR ''>'')} \<Longrightarrow>
    line_char rows (row, Suc col) \<Longrightarrow> leads rows (row, col) (row, Suc col)"
| left: "drawn rows (row, Suc col) \<in> {Some (CHR ''-''), Some (CHR ''+'')} \<Longrightarrow>
    line_char rows (row, col) \<Longrightarrow> leads rows (row, Suc col) (row, col)"

text \<open>A task is written where the word and its number stand; the number is the whole run of digits.\<close>

definition task_written :: "string list \<Rightarrow> DiagramNode \<Rightarrow> bool" where
  "task_written rows n \<longleftrightarrow>
     (\<exists>ds rest. dn_row n < length rows \<and> dn_start n \<le> length (rows ! dn_row n) \<and>
        drop (dn_start n) (rows ! dn_row n) = ''Task '' @ ds @ rest \<and>
        ds \<noteq> [] \<and> list_all is_digit ds \<and> (rest = [] \<or> \<not> is_digit (hd rest)) \<and>
        parse_u32 ds = Some (dn_task n) \<and> dn_end n = dn_start n + 4 + length ds)"

text \<open>A line leaves a task on its right, after blanks only, or below it: from the row right below, or, when
  nothing leaves it before, from the first of the next three rows with a line character under it.\<close>

definition beside :: "string list \<Rightarrow> DiagramNode \<Rightarrow> cell \<Rightarrow> bool" where
  "beside rows n place \<longleftrightarrow>
     (\<exists>col > dn_end n. place = (dn_row n, col) \<and> line_char rows place \<and>
        (\<forall>c. dn_end n < c \<and> c < col \<longrightarrow> blank rows (dn_row n, c)))"

definition beneath :: "string list \<Rightarrow> DiagramNode \<Rightarrow> nat \<Rightarrow> cell \<Rightarrow> bool" where
  "beneath rows n k place \<longleftrightarrow>
     (\<exists>col. place = (dn_row n + k, col) \<and> dn_start n \<le> col \<and> col \<le> dn_end n \<and> line_char rows place)"

definition leaves :: "string list \<Rightarrow> DiagramNode \<Rightarrow> cell \<Rightarrow> bool" where
  "leaves rows n place \<longleftrightarrow>
     beside rows n place \<or>
     (\<exists>k. 1 \<le> k \<and> k \<le> 4 \<and> beneath rows n k place \<and>
        (k = 1 \<or> \<not> (\<exists>p. beside rows n p) \<and> (\<forall>j. 1 \<le> j \<and> j < k \<longrightarrow> \<not> (\<exists>p. beneath rows n j p))))"

text \<open>A line enters a task from the row above it, or from the two places on its left.\<close>

definition enters :: "cell \<Rightarrow> DiagramNode \<Rightarrow> bool" where
  "enters place m \<longleftrightarrow>
     (case place of (row, col) \<Rightarrow>
        Suc row = dn_row m \<and> dn_start m \<le> col \<and> col \<le> dn_end m \<or>
        row = dn_row m \<and> (Suc col = dn_start m \<or> Suc (Suc col) = dn_start m))"

text \<open>One task is joined to another.\<close>

definition joins :: "string list \<Rightarrow> DiagramNode \<Rightarrow> DiagramNode \<Rightarrow> bool" where
  "joins rows n m \<longleftrightarrow>
     dn_task n \<noteq> dn_task m \<and> (\<exists>a b. leaves rows n a \<and> (leads rows)\<^sup>*\<^sup>* a b \<and> enters b m)"

subsection \<open>The padded grid\<close>

lemma grid_length [simp]: "length (diagram_grid sec) = length (diagram_rows sec)"
  by (simp add: diagram_grid_def)

lemma grid_row:
  assumes "row < length (diagram_rows sec)"
  obtains w where "diagram_grid sec ! row = pad_row w (diagram_rows sec ! row)" "length (diagram_rows sec ! row) \<le> w"
proof -
  have "x \<in> set xs \<Longrightarrow> length x \<le> foldr max (map length xs) 0" for x and xs :: "string list"
    by (induction xs) auto
  from this [OF nth_mem [OF assms]] show thesis
    by (rule that [rotated]) (simp add: diagram_grid_def assms)
qed

lemma pad_row_at: "length line \<le> w \<Longrightarrow> col < w \<Longrightarrow>
    pad_row w line ! col = (if col < length line then line ! col else CHR '' '')"
  by (simp add: pad_row_def nth_append)

lemma pad_row_length: "length line \<le> w \<Longrightarrow> length (pad_row w line) = w"
  by (simp add: pad_row_def)

lemma drawn_grid_at:
  assumes "drawn (diagram_rows sec) (row, col) = Some ch"
  shows "grid_at (diagram_grid sec) row col = Some ch"
proof -
  have r: "row < length (diagram_rows sec)" "col < length (diagram_rows sec ! row)"
    "ch = diagram_rows sec ! row ! col"
    using assms by (simp_all add: drawn_def split: if_splits)
  obtain w where w: "diagram_grid sec ! row = pad_row w (diagram_rows sec ! row)" "length (diagram_rows sec ! row) \<le> w"
    using grid_row [OF r(1)] .
  then show ?thesis
    using r by (simp add: grid_at_def w(1) pad_row_at pad_row_length)
qed

lemma grid_at_drawn:
  assumes "grid_at (diagram_grid sec) row col = Some ch"
  shows "drawn (diagram_rows sec) (row, col) = Some ch \<or>
    drawn (diagram_rows sec) (row, col) = None \<and> ch = CHR '' ''"
proof -
  have r: "row < length (diagram_rows sec)" "col < length (diagram_grid sec ! row)"
    "ch = diagram_grid sec ! row ! col"
    using assms by (simp_all add: grid_at_def split: if_splits)
  obtain w where w: "diagram_grid sec ! row = pad_row w (diagram_rows sec ! row)" "length (diagram_rows sec ! row) \<le> w"
    using grid_row [OF r(1)] .
  then show ?thesis
    using r by (simp add: drawn_def pad_row_at pad_row_length)
qed

lemma line_char_iff: "line_char rows place \<longleftrightarrow> is_some_and (drawn rows place) is_dependency_connector"
  by (cases "drawn rows place") (simp_all add: line_char_def is_dependency_connector_def)

lemma blank_no_connector [simp]: "\<not> is_dependency_connector (CHR '' '')"
  by (simp add: is_dependency_connector_def)

lemma grid_at_none: "grid_at (diagram_grid sec) row col = None \<Longrightarrow> drawn (diagram_rows sec) (row, col) = None"
  using drawn_grid_at [of sec row col] by (cases "drawn (diagram_rows sec) (row, col)") simp_all

lemma connector_drawn: "connector_at (diagram_grid sec) row col \<longleftrightarrow> line_char (diagram_rows sec) (row, col)"
proof (cases "grid_at (diagram_grid sec) row col")
  case None
  with grid_at_none [OF this] show ?thesis by (simp add: connector_at_def line_char_iff)
next
  case (Some ch)
  from grid_at_drawn [OF this] show ?thesis
    by (elim disjE conjE) (simp_all add: connector_at_def line_char_iff Some)
qed

lemma neighbor_bound: "connector_at grid row (Suc col) \<Longrightarrow> col < length (grid ! row) - 1"
  by (auto simp: connector_at_def grid_at_def split: if_splits)

text \<open>The steps of a line are the neighbours the reader takes, for each character.\<close>

lemma leads_from:
  "leads rows (row, col) b \<longleftrightarrow>
     (drawn rows (row, col) \<in> {Some (CHR ''|''), Some (CHR ''+''), Some (CHR ''v'')} \<and>
        b = (Suc row, col) \<and> line_char rows b) \<or>
     (drawn rows (row, col) \<in> {Some (CHR ''-''), Some (CHR ''+''), Some (CHR ''>'')} \<and>
        b = (row, Suc col) \<and> line_char rows b) \<or>
     (drawn rows (row, col) \<in> {Some (CHR ''-''), Some (CHR ''+'')} \<and>
        0 < col \<and> b = (row, col - 1) \<and> line_char rows b)"
  (is "_ \<longleftrightarrow> ?down \<or> ?right \<or> ?left")
proof
  show "?down \<or> ?right \<or> ?left" if "leads rows (row, col) b"
    using that by cases simp_all
  have "leads rows (row, col) b" if ?left
    using that leads.left [of rows row "col - 1"] by (cases col) auto
  then show "leads rows (row, col) b" if "?down \<or> ?right \<or> ?left"
    using that by (elim disjE conjE) (simp_all only: leads.down leads.right simp_thms)
qed

lemma cell_succs_from:
  assumes "grid_at (diagram_grid sec) row col = Some ch"
  shows "b \<in> cell_succs (diagram_grid sec) (row, col) \<longleftrightarrow>
     (ch \<in> {CHR ''|'', CHR ''+'', CHR ''v''} \<and> b = (Suc row, col) \<and> line_char (diagram_rows sec) b) \<or>
     (ch \<in> {CHR ''-'', CHR ''+'', CHR ''>''} \<and> b = (row, Suc col) \<and> line_char (diagram_rows sec) b) \<or>
     (ch \<in> {CHR ''-'', CHR ''+''} \<and> 0 < col \<and> b = (row, col - 1) \<and> line_char (diagram_rows sec) b)"
proof -
  have down: "Suc row < length (diagram_grid sec)" if "line_char (diagram_rows sec) (Suc row, col)"
    using that unfolding connector_drawn [symmetric] by (simp add: connector_at_def grid_at_def split: if_splits)
  have right: "col < length (diagram_grid sec ! row) - Suc 0" if "line_char (diagram_rows sec) (row, Suc col)"
    using that neighbor_bound [of "diagram_grid sec" row col] by (simp add: connector_drawn)
  consider "ch = CHR ''|''" | "ch = CHR ''-''" | "ch = CHR ''+''" | "ch = CHR ''v''" | "ch = CHR ''>''"
    | "\<not> is_dependency_connector ch"
    by (auto simp: is_dependency_connector_def)
  then show ?thesis
    using down right
    by cases (auto simp: cell_succs_def assms dependency_neighbors_def connector_drawn is_dependency_connector_def)
qed

lemma leads_cell_succs: "leads (diagram_rows sec) a b \<longleftrightarrow> b \<in> cell_succs (diagram_grid sec) a"
proof -
  obtain row col where a: "a = (row, col)" by (cases a)
  show ?thesis
  proof (cases "grid_at (diagram_grid sec) row col")
    case None
    with grid_at_none [OF this] show ?thesis by (simp add: a cell_succs_def leads_from)
  next
    case (Some ch)
    from grid_at_drawn [OF this] show ?thesis
      by (elim disjE conjE) (simp_all add: a leads_from cell_succs_from [OF Some])
  qed
qed

subsection \<open>Where lines leave a task\<close>

lemma set_first_right:
  "set (first_right row col chs) =
     {(row, col + i) | i. i < length chs \<and> is_dependency_connector (chs ! i) \<and> (\<forall>j<i. chs ! j = CHR '' '')}"
proof (induction chs arbitrary: col)
  case (Cons ch chs)
  have split: "(\<exists>i. P i \<and> i < Suc m) \<longleftrightarrow> P 0 \<or> (\<exists>i. P (Suc i) \<and> i < m)" for P m
    by (metis Suc_less_eq not0_implies_Suc zero_less_Suc)
  have eq: "{(row, col + i) | i. i < length (ch # chs) \<and> is_dependency_connector ((ch # chs) ! i) \<and>
        (\<forall>j<i. (ch # chs) ! j = CHR '' '')} =
      (if is_dependency_connector ch then {(row, col)} else {}) \<union>
      (if ch = CHR '' '' then {(row, Suc col + i) | i. i < length chs \<and> is_dependency_connector (chs ! i) \<and>
        (\<forall>j<i. chs ! j = CHR '' '')} else {})"
    (is "?l = ?r")
  proof (intro set_eqI)
    fix p
    have "p \<in> ?l \<longleftrightarrow> (\<exists>i. (p = (row, col + i) \<and> is_dependency_connector ((ch # chs) ! i) \<and>
        (\<forall>j<i. (ch # chs) ! j = CHR '' '')) \<and> i < Suc (length chs))"
      by auto
    also have "\<dots> \<longleftrightarrow> p \<in> ?r"
      unfolding split by (auto simp: All_less_Suc2)
    finally show "p \<in> ?l \<longleftrightarrow> p \<in> ?r" .
  qed
  show ?case unfolding eq by (cases "ch = CHR '' ''") (simp_all add: Cons.IH)
qed simp

lemma blank_drawn:
  "blank (diagram_rows sec) (row, col) \<longleftrightarrow>
     grid_at (diagram_grid sec) row col = None \<or> grid_at (diagram_grid sec) row col = Some (CHR '' '')"
proof (cases "grid_at (diagram_grid sec) row col")
  case None
  with grid_at_none [OF this] show ?thesis by (simp add: blank_def)
next
  case (Some ch)
  from grid_at_drawn [OF this] show ?thesis by (elim disjE conjE) (simp_all add: blank_def Some)
qed

lemma beside_starts:
  assumes "dn_row n < length (diagram_rows sec)"
  shows "set (first_right (dn_row n) (dn_end n + 1) (drop (dn_end n + 1) (diagram_grid sec ! dn_row n))) =
    {p. beside (diagram_rows sec) n p}"
proof -
  let ?r = "dn_row n" and ?c = "dn_end n + 1" and ?g = "diagram_grid sec"
  have at: "grid_at ?g ?r (?c + i) = (if i < length (drop ?c (?g ! ?r)) then Some (drop ?c (?g ! ?r) ! i) else None)" for i
    using assms by (auto simp: grid_at_def add.commute)
  have "beside (diagram_rows sec) n p \<longleftrightarrow> (\<exists>i. p = (?r, ?c + i) \<and> connector_at ?g ?r (?c + i) \<and>
      (\<forall>j<i. blank (diagram_rows sec) (?r, ?c + j)))" for p
    unfolding beside_def connector_drawn
  proof (intro iffI; elim exE conjE)
    fix col assume "dn_end n < col" "p = (?r, col)" "line_char (diagram_rows sec) p"
      "\<forall>c. dn_end n < c \<and> c < col \<longrightarrow> blank (diagram_rows sec) (?r, c)"
    then show "\<exists>i. p = (?r, ?c + i) \<and> line_char (diagram_rows sec) (?r, ?c + i) \<and>
        (\<forall>j<i. blank (diagram_rows sec) (?r, ?c + j))"
      by (intro exI [of _ "col - ?c"]) auto
  next
    fix i assume *: "p = (?r, ?c + i)" "line_char (diagram_rows sec) (?r, ?c + i)"
      "\<forall>j<i. blank (diagram_rows sec) (?r, ?c + j)"
    have "blank (diagram_rows sec) (?r, c)" if "dn_end n < c" "c < ?c + i" for c
      using *(3) [rule_format, of "c - ?c"] that by auto
    with * show "\<exists>col>dn_end n. p = (?r, col) \<and> line_char (diagram_rows sec) p \<and>
        (\<forall>c. dn_end n < c \<and> c < col \<longrightarrow> blank (diagram_rows sec) (?r, c))"
      by (intro exI [of _ "?c + i"]) auto
  qed
  then show ?thesis
    unfolding set_first_right blank_drawn connector_at_def at
    by (auto 0 4)
qed

lemma beneath_starts:
  "set (row_connectors (diagram_grid sec) n (dn_row n + k)) = {p. beneath (diagram_rows sec) n k p}"
  by (auto simp: row_connectors_def beneath_def connector_drawn)

lemma set_first_below:
  "set (first_below grid node starts [a..<b]) =
     set starts \<union> {p. \<exists>r\<ge>a. r < b \<and> p \<in> set (row_connectors grid node r) \<and>
       (r = a \<or> starts = [] \<and> (\<forall>j. a \<le> j \<and> j < r \<longrightarrow> row_connectors grid node j = []))}"
proof (induction "b - a" arbitrary: a starts)
  case (Suc d)
  then have ab: "a < b" "[a..<b] = a # [Suc a..<b]" by (simp_all add: upt_conv_Cons)
  show ?case
  proof (cases "starts @ row_connectors grid node a = []")
    case True
    have all: "(\<forall>j. a \<le> j \<and> j < r \<longrightarrow> row_connectors grid node j = []) \<longleftrightarrow>
        (\<forall>j. Suc a \<le> j \<and> j < r \<longrightarrow> row_connectors grid node j = [])" for r
      using True by (metis Suc_le_eq append_is_Nil_conv order.order_iff_strict)
    have "set (first_below grid node starts [a..<b]) = set (first_below grid node [] [Suc a..<b])"
      using True by (simp add: ab(2))
    also have "\<dots> = {p. \<exists>r\<ge>Suc a. r < b \<and> p \<in> set (row_connectors grid node r) \<and>
       (r = Suc a \<or> (\<forall>j. Suc a \<le> j \<and> j < r \<longrightarrow> row_connectors grid node j = []))}"
      using Suc by simp
    also have "\<dots> = {p. \<exists>r\<ge>Suc a. r < b \<and> p \<in> set (row_connectors grid node r) \<and>
       (\<forall>j. a \<le> j \<and> j < r \<longrightarrow> row_connectors grid node j = [])}"
      using all by (intro Collect_cong ex_cong1) auto
    also have "\<dots> = {p. \<exists>r\<ge>a. r < b \<and> p \<in> set (row_connectors grid node r) \<and>
       (r = a \<or> (\<forall>j. a \<le> j \<and> j < r \<longrightarrow> row_connectors grid node j = []))}"
      using True by (intro Collect_cong ex_cong1) (auto simp: Suc_le_eq order.order_iff_strict)
    finally show ?thesis using True by simp
  next
    case False
    then have "set (first_below grid node starts [a..<b]) = set starts \<union> set (row_connectors grid node a)"
      by (simp add: ab(2) Let_def)
    with False ab(1) show ?thesis by (auto dest: le_neq_implies_less)
  qed
qed auto

lemma ex_row_shift: "(\<exists>r\<ge>a + m. P r) \<longleftrightarrow> (\<exists>k\<ge>m. P (a + k))" for a m :: nat
proof
  assume "\<exists>r\<ge>a + m. P r"
  then obtain r where "a + m \<le> r" "P r" by blast
  then show "\<exists>k\<ge>m. P (a + k)" by (intro exI [of _ "r - a"]) simp
next
  assume "\<exists>k\<ge>m. P (a + k)"
  then obtain k where "m \<le> k" "P (a + k)" by blast
  then show "\<exists>r\<ge>a + m. P r" by (intro exI [of _ "a + k"]) simp
qed

lemma all_rows_shift:
  "(\<forall>j. a + m \<le> j \<and> j < a + k \<longrightarrow> P j) \<longleftrightarrow> (\<forall>j. m \<le> j \<and> j < k \<longrightarrow> P (a + j))" for a m k :: nat
proof (intro iffI allI impI)
  fix j assume all: "\<forall>j. m \<le> j \<and> j < k \<longrightarrow> P (a + j)" and j: "a + m \<le> j \<and> j < a + k"
  have "P (a + (j - a))" using all j by (elim allE [of _ "j - a"]) auto
  with j show "P j" by simp
qed auto

lemma leaves_starts:
  assumes "dn_row n < length (diagram_rows sec)"
  shows "p \<in> set (dependency_starts n (diagram_grid sec)) \<longleftrightarrow> leaves (diagram_rows sec) n p"
proof -
  let ?R = "diagram_rows sec" and ?g = "diagram_grid sec" and ?r = "dn_row n"
  let ?right = "first_right ?r (dn_end n + 1) (drop (dn_end n + 1) (?g ! ?r))"
  have right: "set ?right = {p. beside ?R n p}" by (rule beside_starts [OF assms])
  then have none: "?right = [] \<longleftrightarrow> \<not> (\<exists>p. beside ?R n p)" by (metis empty_set mem_Collect_eq set_empty2 equals0I empty_iff)
  have u: "row_connectors ?g n (?r + k) = [] \<longleftrightarrow> \<not> (\<exists>p. beneath ?R n k p)" for k
    using beneath_starts [of sec n k] by (metis Collect_empty_eq set_empty)
  have inside: "?r + k < length ?R" if "beneath ?R n k p" for k p
    using that by (auto simp: beneath_def line_char_def drawn_def split: if_splits)
  have "p \<in> set (dependency_starts n ?g) \<longleftrightarrow> beside ?R n p \<or>
      (\<exists>r\<ge>?r + 1. r < min (?r + 4) (length ?R - 1) + 1 \<and> p \<in> set (row_connectors ?g n r) \<and>
       (r = ?r + 1 \<or> ?right = [] \<and> (\<forall>j. ?r + 1 \<le> j \<and> j < r \<longrightarrow> row_connectors ?g n j = [])))"
    by (simp only: dependency_starts_def Let_def set_sort_dedup set_first_below right grid_length assms if_True
        Un_iff mem_Collect_eq)
  also have "\<dots> \<longleftrightarrow> beside ?R n p \<or>
      (\<exists>k\<ge>1. ?r + k < min (?r + 4) (length ?R - 1) + 1 \<and> beneath ?R n k p \<and>
       (k = 1 \<or> ?right = [] \<and> (\<forall>j. 1 \<le> j \<and> j < k \<longrightarrow> row_connectors ?g n (?r + j) = [])))"
    (is "_ \<or> (\<exists>r\<ge>_. ?P r) \<longleftrightarrow> _ \<or> (\<exists>k\<ge>1. ?Q k)")
  proof -
    have "?P (?r + k) \<longleftrightarrow> ?Q k" for k
      unfolding all_rows_shift beneath_starts by simp
    then show ?thesis unfolding ex_row_shift by simp
  qed
  also have "(\<exists>k\<ge>1. ?r + k < min (?r + 4) (length ?R - 1) + 1 \<and> beneath ?R n k p \<and>
       (k = 1 \<or> ?right = [] \<and> (\<forall>j. 1 \<le> j \<and> j < k \<longrightarrow> row_connectors ?g n (?r + j) = []))) \<longleftrightarrow>
     (\<exists>k\<ge>1. k \<le> 4 \<and> beneath ?R n k p \<and>
       (k = 1 \<or> ?right = [] \<and> (\<forall>j. 1 \<le> j \<and> j < k \<longrightarrow> row_connectors ?g n (?r + j) = [])))"
  proof -
    have "?r + k < min (?r + 4) (length ?R - 1) + 1 \<and> beneath ?R n k p \<longleftrightarrow> k \<le> 4 \<and> beneath ?R n k p" for k
      using inside [of k p] by auto
    then show ?thesis unfolding conj_assoc [symmetric] by metis
  qed
  also have "beside ?R n p \<or> \<dots> \<longleftrightarrow> leaves ?R n p"
    unfolding leaves_def none u by simp
  finally show ?thesis .
qed

subsection \<open>Where tasks are written\<close>

text \<open>A task at the start of a text that begins at a given column.\<close>

definition task_at :: "nat \<Rightarrow> nat \<Rightarrow> string \<Rightarrow> DiagramNode \<Rightarrow> bool" where
  "task_at row col chars n \<longleftrightarrow>
     (\<exists>ds rest. chars = ''Task '' @ ds @ rest \<and> ds \<noteq> [] \<and> list_all is_digit ds \<and>
        (rest = [] \<or> \<not> is_digit (hd rest)) \<and> parse_u32 ds = Some (dn_task n) \<and>
        dn_row n = row \<and> dn_start n = col \<and> dn_end n = col + 4 + length ds)"

lemma digits_of:
  "list_all is_digit ds \<Longrightarrow> rest = [] \<or> \<not> is_digit (hd rest) \<Longrightarrow> takeWhile is_digit (ds @ rest) = ds"
  by (cases rest) (auto simp: list_all_iff takeWhile_append2)

lemma task_at_iff:
  "task_at row col chars n \<longleftrightarrow>
     (let ds = takeWhile is_digit (drop 5 chars)
      in starts_with chars ''Task '' \<and> ds \<noteq> [] \<and> parse_u32 ds = Some (dn_task n) \<and>
         dn_row n = row \<and> dn_start n = col \<and> dn_end n = col + 4 + length ds)"
  (is "_ \<longleftrightarrow> ?r")
proof
  assume "task_at row col chars n"
  then obtain ds rest where *: "chars = ''Task '' @ ds @ rest" "ds \<noteq> []" "parse_u32 ds = Some (dn_task n)"
      "dn_row n = row" "dn_start n = col" "dn_end n = col + 4 + length ds" "takeWhile is_digit (ds @ rest) = ds"
    using digits_of unfolding task_at_def by metis
  have "drop 5 chars = ds @ rest" by (simp add: *(1))
  with * show ?r by (simp add: Let_def starts_with_def)
next
  assume r: ?r
  let ?ds = "takeWhile is_digit (drop 5 chars)" and ?rest = "dropWhile is_digit (drop 5 chars)"
  have "chars = take 5 chars @ ?ds @ ?rest" by simp
  moreover have "take 5 chars = ''Task ''" using r by (simp add: Let_def starts_with_def eval_nat_numeral)
  ultimately have "chars = ''Task '' @ ?ds @ ?rest" by metis
  moreover have "list_all is_digit ?ds" by (auto simp: list_all_iff dest: set_takeWhileD)
  moreover have "?rest = [] \<or> \<not> is_digit (hd ?rest)" using hd_dropWhile by blast
  ultimately show "task_at row col chars n"
    using r unfolding task_at_def Let_def by blast
qed

definition tasks_from :: "nat \<Rightarrow> nat \<Rightarrow> string \<Rightarrow> DiagramNode set" where
  "tasks_from row col chars = {n. \<exists>i\<le>length chars. task_at row (col + i) (drop i chars) n}"

lemma task_at_T: "task_at row col chars n \<Longrightarrow> chars \<noteq> [] \<and> hd chars = CHR ''T''"
  by (auto simp: task_at_def)

lemma tasks_from_skip:
  assumes "k \<le> length chars" "\<forall>i. 0 < i \<and> i < k \<longrightarrow> chars ! i \<noteq> CHR ''T''" "0 < k"
  shows "tasks_from row col chars = {n. task_at row col chars n} \<union> tasks_from row (col + k) (drop k chars)"
proof (intro set_eqI iffI)
  fix n assume "n \<in> tasks_from row col chars"
  then obtain i where i: "i \<le> length chars" "task_at row (col + i) (drop i chars) n" by (auto simp: tasks_from_def)
  consider "i = 0" | "0 < i" "i < k" | "k \<le> i" by linarith
  then show "n \<in> {n. task_at row col chars n} \<union> tasks_from row (col + k) (drop k chars)"
  proof cases
    case 2
    with task_at_T [OF i(2)] i(1) assms(2) show ?thesis by (auto simp: hd_drop_conv_nth)
  next
    case 3
    with i show ?thesis by (auto simp: tasks_from_def intro!: exI [of _ "i - k"])
  qed (use i in simp)
next
  fix n assume "n \<in> {n. task_at row col chars n} \<union> tasks_from row (col + k) (drop k chars)"
  then show "n \<in> tasks_from row col chars"
  proof
    assume "n \<in> tasks_from row (col + k) (drop k chars)"
    then obtain i where "i \<le> length chars - k" "task_at row (col + (k + i)) (drop (k + i) chars) n"
      by (auto simp: tasks_from_def add_ac)
    then show ?thesis using assms(1) unfolding tasks_from_def by (intro CollectI exI [of _ "k + i"]) simp
  qed (auto simp: tasks_from_def intro!: exI [of _ 0])
qed

lemma task_text_T:
  assumes "starts_with chars ''Task ''" "0 < i" "i < 5 + length (takeWhile is_digit (drop 5 chars))"
  shows "chars ! i \<noteq> CHR ''T''"
proof (cases "i < 5")
  case True
  have "take 5 chars = ''Task ''" using assms(1) by (simp add: starts_with_def eval_nat_numeral)
  then have "chars ! i = ''Task '' ! i" using True by (metis nth_take)
  with True assms(2) show ?thesis by (auto simp: less_Suc_eq numeral_eq_Suc)
next
  case False
  let ?ds = "takeWhile is_digit (drop 5 chars)"
  have "i - 5 < length ?ds" using assms(3) False by linarith
  then have "is_digit (?ds ! (i - 5))" "?ds ! (i - 5) = drop 5 chars ! (i - 5)"
    using nth_mem set_takeWhileD takeWhile_nth by metis+
  moreover have "5 \<le> length chars"
    using \<open>i - 5 < length ?ds\<close> length_takeWhile_le [of is_digit "drop 5 chars"] by simp
  ultimately have "is_digit (chars ! i)" using False by simp
  then show ?thesis by (auto simp: is_digit_def)
qed

lemma set_row_nodes: "set (row_nodes row col chars) = tasks_from row col chars"
proof (induction row col chars rule: row_nodes.induct)
  case (1 row col chars)
  let ?ds = "takeWhile is_digit (drop 5 chars)"
  consider "length chars < 5" | "5 \<le> length chars" "starts_with chars ''Task ''" "?ds \<noteq> []"
    | "5 \<le> length chars" "\<not> (starts_with chars ''Task '' \<and> ?ds \<noteq> [])"
    by linarith
  then show ?case
  proof cases
    case 1
    then have "tasks_from row col chars = {}" by (auto simp: tasks_from_def task_at_def dest!: arg_cong [of _ _ length])
    then show ?thesis using 1 by (simp add: row_nodes.simps [of row col])
  next
    case 2
    have len: "5 + length ?ds \<le> length chars"
      using 2(1) length_takeWhile_le [of is_digit "drop 5 chars"] by simp
    have "set (row_nodes row col chars) = {n. task_at row col chars n} \<union>
        set (row_nodes row (col + 5 + length ?ds) (drop (5 + length ?ds) chars))"
      using 2 by (subst row_nodes.simps) (auto simp: task_at_iff Let_def split: option.splits)
    also have "set (row_nodes row (col + 5 + length ?ds) (drop (5 + length ?ds) chars)) =
        tasks_from row (col + (5 + length ?ds)) (drop (5 + length ?ds) chars)"
      using 1(1) [OF _ refl] 2 by (simp add: add.assoc)
    finally show ?thesis
      using tasks_from_skip [of "5 + length ?ds" chars row col] task_text_T [OF 2(2)] len by simp
  next
    case 3
    have "\<not> task_at row col chars n" for n using 3 by (auto simp: task_at_iff Let_def)
    then have "tasks_from row col chars = tasks_from row (col + 1) (drop 1 chars)"
      using tasks_from_skip [of 1 chars row col] 3(1) by simp
    moreover have "row_nodes row col chars = row_nodes row (col + 1) (drop 1 chars)"
      using 3 by (subst row_nodes.simps) (auto simp: Let_def)
    ultimately show ?thesis using 1(2) [OF _ refl] 3 by (simp add: Let_def)
  qed
qed

lemma diagram_nodes_written: "n \<in> set (diagram_nodes rows) \<longleftrightarrow> task_written rows n"
proof -
  have "n \<in> set (diagram_nodes rows) \<longleftrightarrow> (\<exists>row<length rows. n \<in> tasks_from row 0 (rows ! row))"
    by (simp add: diagram_nodes_def set_row_nodes set_zip) (auto, force)
  also have "\<dots> \<longleftrightarrow> task_written rows n"
    unfolding tasks_from_def task_at_def task_written_def by auto
  finally show ?thesis .
qed

subsection \<open>The edges\<close>

lemma leads_line_char: "leads rows a b \<Longrightarrow> line_char rows b"
  by (cases rule: leads.cases) auto

lemma leaves_line_char: "leaves rows n p \<Longrightarrow> line_char rows p"
  by (auto simp: leaves_def beside_def beneath_def)

lemma enters_touches:
  assumes "task_written rows m" "line_char rows (row, col)"
  shows "enters (row, col) m \<longleftrightarrow> touches row col m"
proof -
  have "\<not> (row = dn_row m \<and> col = dn_start m)"
  proof
    assume *: "row = dn_row m \<and> col = dn_start m"
    obtain rest where "row < length rows" "drop col (rows ! row) = CHR ''T'' # rest"
      using assms(1) * by (auto simp: task_written_def)
    then have "drawn rows (row, col) = Some (CHR ''T'')"
      by (cases "col < length (rows ! row)") (simp_all add: drawn_def Cons_nth_drop_Suc [symmetric])
    with assms(2) show False by (simp add: line_char_def)
  qed
  then show ?thesis by (auto simp: enters_def touches_def)
qed

lemma connected_joins:
  assumes "task_written (diagram_rows sec) n" "task_written (diagram_rows sec) m"
  shows "connected (diagram_grid sec) n m \<longleftrightarrow> joins (diagram_rows sec) n m"
proof -
  let ?R = "diagram_rows sec" and ?g = "diagram_grid sec"
  have n: "dn_row n < length ?R" using assms(1) by (auto simp: task_written_def)
  have steps: "(a, b) \<in> {(a, b). b \<in> cell_succs ?g a}\<^sup>* \<longleftrightarrow> (leads ?R)\<^sup>*\<^sup>* a b" for a b
    by (simp add: rtranclp_rtrancl_eq leads_cell_succs)
  have line: "line_char ?R b" if "(leads ?R)\<^sup>*\<^sup>* a b" "leaves ?R n a" for a b
    using that by (induction rule: rtranclp_induct) (auto intro: leads_line_char leaves_line_char)
  have "connected ?g n m \<longleftrightarrow> dn_task m \<noteq> dn_task n \<and>
      (\<exists>a row col. leaves ?R n a \<and> (leads ?R)\<^sup>*\<^sup>* a (row, col) \<and> line_char ?R (row, col) \<and> touches row col m)"
    unfolding connected_def Bex_def leaves_starts [OF n] steps connector_drawn by blast
  also have "\<dots> \<longleftrightarrow> dn_task m \<noteq> dn_task n \<and> (\<exists>a b. leaves ?R n a \<and> (leads ?R)\<^sup>*\<^sup>* a b \<and> enters b m)"
    using line enters_touches [OF assms(2)] by (metis surj_pair)
  finally show ?thesis by (auto simp: joins_def)
qed

text \<open>C21: the edges read from a dependency diagram are exactly those it draws: from one task that is written
  in it to another one that a line reaches.  A line leaves a task on its right or below it, goes on through
  line characters in the directions each of them allows, and enters a task from above or from the left.
  No edges are read exactly when no task is written.\<close>

theorem diagram_edges_are_drawn:
  "case parse_dependency_diagram_edges sec of
     None \<Rightarrow> \<not> (\<exists>n. task_written (diagram_rows sec) n)
   | Some edges \<Rightarrow> (\<exists>n. task_written (diagram_rows sec) n) \<and>
       set edges = {(dn_task n, dn_task m) | n m. task_written (diagram_rows sec) n \<and>
         task_written (diagram_rows sec) m \<and> joins (diagram_rows sec) n m}"
proof -
  let ?R = "diagram_rows sec" and ?g = "diagram_grid sec"
  have nodes: "set (diagram_nodes ?R) = {n. task_written ?R n}" by (auto simp: diagram_nodes_written)
  have all: "set (fold (node_edges ?g (diagram_nodes ?R)) ns es) =
      set es \<union> {(dn_task n, dn_task m) | n m. n \<in> set ns \<and> m \<in> set (diagram_nodes ?R) \<and> connected ?g n m}" for ns es
    by (induction ns arbitrary: es) (auto simp: node_edges_drawn)
  have empty: "diagram_nodes ?R = []" if "foldr max (map length ?R) 0 = 0"
  proof -
    have "foldr max (map length xs) 0 = 0 \<Longrightarrow> \<forall>x\<in>set xs. x = []" for xs :: "string list"
      by (induction xs) auto
    from this [OF that] have "\<forall>r<length ?R. ?R ! r = []" by simp
    then have "\<not> task_written ?R n" for n by (auto simp: task_written_def)
    with nodes show ?thesis by auto
  qed
  have "parse_dependency_diagram_edges sec =
      (if diagram_nodes ?R = [] then None else Some (fold (node_edges ?g (diagram_nodes ?R)) (diagram_nodes ?R) []))"
    using empty by (simp add: parse_dependency_diagram_edges_def Let_def diagram_grid_def diagram_rows_def)
  moreover have "diagram_nodes ?R = [] \<longleftrightarrow> \<not> (\<exists>n. task_written ?R n)"
    using nodes by (metis Collect_empty_eq set_empty)
  ultimately show ?thesis
    using connected_joins by (auto simp: all diagram_nodes_written)
qed

end
