(* ===== verification/Public_Command.thy ===== *)
theory Public_Command
  imports Command_Kind Follow_Up Str_Ops Diagnostics
begin

text \<open>
  The public commands a route may recommend: the command type and its argument vectors, displays,
  required inputs and mutation requests (\<^verbatim>\<open>PublicCommand\<close> of \<^verbatim>\<open>execution/command_eligibility.rs\<close>), the modes of
  the late-stage command (\<^verbatim>\<open>command_eligibility/late_stage.rs\<close>), the requests
  (\<^verbatim>\<open>command_eligibility/mutation_request.rs\<close>), the input templates and their materialisation
  (\<^verbatim>\<open>execution/public_command_types.rs\<close>) and the reader of execution targets
  (\<^verbatim>\<open>command_eligibility/execution_target.rs\<close>).

  \<^verbatim>\<open>panic!\<close> and \<^verbatim>\<open>expect\<close> are the left side of a sum; that they are never reached is a lemma.  The parser of
  display commands is compiled for tests only and is not modelled.
\<close>

subsection \<open>Late-stage modes and commands\<close>

datatype PublicAdvanceLateStageMode =
    ModeBasic
  | ModeReleaseReadiness
  | ModeFinalReviewDispatch
  | ModeQa
  | ModeFinalReview
  | ModeFinishReview
  | ModeFinishCompletion

datatype PublicCommand =
    PublicWorkflowOperator string bool bool
  | PublicStatus string
  | PublicRepairReviewState string
  | PublicBegin string nat nat "string option" "string option"
  | PublicComplete string nat nat "string option" "string option"
  | PublicReopen string nat nat "string option" "string option" "string option"
  | PublicTransferRepairStep string nat nat "string option"
  | PublicTransferHandoff string string
  | PublicCloseCurrentTask string "nat option" bool
  | PublicAdvanceLateStage string PublicAdvanceLateStageMode
  | PublicMaterializeProjections string "string option"

fun command_kind :: "PublicCommand \<Rightarrow> PublicCommandKind" where
  "command_kind (PublicWorkflowOperator _ _ _) = WorkflowOperator"
| "command_kind (PublicStatus _) = Status"
| "command_kind (PublicRepairReviewState _) = RepairReviewStateCommand"
| "command_kind (PublicBegin _ _ _ _ _) = BeginCommand"
| "command_kind (PublicComplete _ _ _ _ _) = CompleteCommand"
| "command_kind (PublicReopen _ _ _ _ _ _) = ReopenCommand"
| "command_kind (PublicTransferRepairStep _ _ _ _) = TransferCommand"
| "command_kind (PublicTransferHandoff _ _) = TransferCommand"
| "command_kind (PublicCloseCurrentTask _ _ _) = CloseCurrentTaskCommand"
| "command_kind (PublicAdvanceLateStage _ _) = AdvanceLateStageCommand"
| "command_kind (PublicMaterializeProjections _ _) = MaterializeProjectionsStateDirOnly"

definition command_kind_name :: "PublicCommand \<Rightarrow> string" where
  "command_kind_name c = command_kind_as_str (command_kind c)"

fun expect_execution_fingerprint :: "PublicCommand \<Rightarrow> string option" where
  "expect_execution_fingerprint (PublicBegin _ _ _ _ fp) = fp"
| "expect_execution_fingerprint (PublicComplete _ _ _ _ fp) = fp"
| "expect_execution_fingerprint (PublicReopen _ _ _ _ _ fp) = fp"
| "expect_execution_fingerprint (PublicTransferRepairStep _ _ _ fp) = fp"
| "expect_execution_fingerprint _ = None"

fun task_closure_result_inputs_required :: "PublicCommand \<Rightarrow> bool" where
  "task_closure_result_inputs_required (PublicCloseCurrentTask _ _ required) = required"
| "task_closure_result_inputs_required _ = False"

fun close_current_task_number :: "PublicCommand \<Rightarrow> nat option" where
  "close_current_task_number (PublicCloseCurrentTask _ task _) = task"
| "close_current_task_number _ = None"

subsection \<open>Template tokens\<close>

definition is_known_template_token :: "string \<Rightarrow> bool" where
  "is_known_template_token v \<longleftrightarrow> v \<in> set
     [''<approved-plan-path>'', ''<claim>'', ''<summary>'', ''<owner>'', ''<reason>'', ''<path>'', ''<source>'', ''<id>'',
      ''pass|fail'', ''pass|fail|not-run'', ''ready|blocked'', ''task|branch'', ''[when verification ran]'']"

definition public_argv_part_is_template_token :: "string \<Rightarrow> bool" where
  "public_argv_part_is_template_token part \<longleftrightarrow>
     is_known_template_token (trim part) \<or>
     is_some_and (split_once CHR ''='' (trim part)) (\<lambda>(_, v). is_known_template_token (trim v))"

definition concrete_optional_value :: "string option \<Rightarrow> string option" where
  "concrete_optional_value v =
     opt_filter (\<lambda>s. \<not> public_argv_part_is_template_token s) (opt_filter (\<lambda>s. s \<noteq> []) (map_option trim v))"

fun matches_optional_verification_phrase :: "string list \<Rightarrow> bool" where
  "matches_optional_verification_phrase [first, second, third] \<longleftrightarrow>
     (first = ''[when'' \<or> first = ''when'') \<and> second = ''verification'' \<and> (third = ''ran]'' \<or> third = ''ran'')"
| "matches_optional_verification_phrase _ \<longleftrightarrow> False"

fun windows3_any :: "('a list \<Rightarrow> bool) \<Rightarrow> 'a list \<Rightarrow> bool" where
  "windows3_any p (x # y # z # xs) \<longleftrightarrow> p [x, y, z] \<or> windows3_any p (y # z # xs)"
| "windows3_any p _ \<longleftrightarrow> False"

definition public_argv_has_template_tokens :: "string list \<Rightarrow> bool" where
  "public_argv_has_template_tokens argv \<longleftrightarrow>
     list_ex public_argv_part_is_template_token argv \<or> windows3_any matches_optional_verification_phrase argv"

subsection \<open>Argument vectors and displays\<close>

definition push_optional_flag :: "string \<Rightarrow> string option \<Rightarrow> string list" where
  "push_optional_flag flag v = (case v of None \<Rightarrow> [] | Some s \<Rightarrow> [flag, s])"

definition push_execution_task_step_args :: "string \<Rightarrow> string \<Rightarrow> nat \<Rightarrow> nat \<Rightarrow> string list" where
  "push_execution_task_step_args command plan task step =
     [''plan'', ''execution'', command, ''--plan'', plan, ''--task'', show_nat task, ''--step'', show_nat step]"

fun to_base_argv_tail :: "PublicCommand \<Rightarrow> string list" where
  "to_base_argv_tail (PublicWorkflowOperator plan ready json) =
     [''workflow'', ''operator'', ''--plan'', plan] @ (if ready then [''--external-review-result-ready''] else []) @
     (if json then [''--json''] else [])"
| "to_base_argv_tail (PublicStatus plan) = [''plan'', ''execution'', ''status'', ''--plan'', plan]"
| "to_base_argv_tail (PublicRepairReviewState plan) = [''plan'', ''execution'', ''repair-review-state'', ''--plan'', plan]"
| "to_base_argv_tail (PublicBegin plan task step execution_mode fp) =
     push_execution_task_step_args ''begin'' plan task step @ push_optional_flag ''--execution-mode'' execution_mode @
     push_optional_flag ''--expect-execution-fingerprint'' fp"
| "to_base_argv_tail (PublicComplete plan task step source fp) =
     push_execution_task_step_args ''complete'' plan task step @ push_optional_flag ''--source'' source @
     push_optional_flag ''--expect-execution-fingerprint'' fp"
| "to_base_argv_tail (PublicReopen plan task step source reason fp) =
     push_execution_task_step_args ''reopen'' plan task step @ push_optional_flag ''--source'' source @
     push_optional_flag ''--reason'' reason @ push_optional_flag ''--expect-execution-fingerprint'' fp"
| "to_base_argv_tail (PublicTransferRepairStep plan task step fp) =
     [''plan'', ''execution'', ''transfer'', ''--plan'', plan, ''--repair-task'', show_nat task, ''--repair-step'', show_nat step] @
     push_optional_flag ''--expect-execution-fingerprint'' fp"
| "to_base_argv_tail (PublicTransferHandoff plan scope) =
     [''plan'', ''execution'', ''transfer'', ''--plan'', plan, ''--scope'', scope]"
| "to_base_argv_tail (PublicCloseCurrentTask plan task _) =
     [''plan'', ''execution'', ''close-current-task'', ''--plan'', plan] @ push_optional_flag ''--task'' (map_option show_nat task)"
| "to_base_argv_tail (PublicAdvanceLateStage plan _) = [''plan'', ''execution'', ''advance-late-stage'', ''--plan'', plan]"
| "to_base_argv_tail (PublicMaterializeProjections plan scope) =
     [''plan'', ''execution'', ''materialize-projections'', ''--plan'', plan] @ push_optional_flag ''--scope'' scope"

definition to_base_argv :: "PublicCommand \<Rightarrow> string list" where
  "to_base_argv c = ''featureforge'' # to_base_argv_tail c"

text \<open>The scope of a handoff is left out of the template when it is still to be chosen.\<close>

definition drain_scope :: "string \<Rightarrow> string list \<Rightarrow> string list" where
  "drain_scope scope argv =
     (let i = length (takeWhile (\<lambda>arg. arg \<noteq> ''--scope'') argv) in
      if Suc i < length argv \<and> argv ! Suc i = scope then take i argv @ drop (i + 2) argv else argv)"

definition to_template_base_argv :: "PublicCommand \<Rightarrow> string list" where
  "to_template_base_argv c =
     (case c of
        PublicTransferHandoff _ scope \<Rightarrow>
          if concrete_optional_value (Some scope) = None then drain_scope scope (to_base_argv c) else to_base_argv c
      | _ \<Rightarrow> to_base_argv c)"

definition optional_flag :: "string \<Rightarrow> string option \<Rightarrow> string" where
  "optional_flag prefix v = (case v of None \<Rightarrow> [] | Some s \<Rightarrow> prefix @ s)"

fun late_stage_display_suffix :: "PublicAdvanceLateStageMode \<Rightarrow> string" where
  "late_stage_display_suffix ModeBasic = []"
| "late_stage_display_suffix ModeReleaseReadiness = ''; requires release-readiness result and summary file inputs''"
| "late_stage_display_suffix ModeFinalReviewDispatch = ''; final-review dispatch checkpoint ready''"
| "late_stage_display_suffix ModeQa = ''; requires QA result and summary file inputs''"
| "late_stage_display_suffix ModeFinalReview = ''; requires final-review reviewer, result, and summary file inputs''"
| "late_stage_display_suffix ModeFinishReview = ''; finish-review checkpoint ready''"
| "late_stage_display_suffix ModeFinishCompletion = ''; validates finish completion''"

definition execution_display :: "string \<Rightarrow> string \<Rightarrow> nat \<Rightarrow> nat \<Rightarrow> string" where
  "execution_display command plan task step =
     ''featureforge plan execution '' @ command @ '' --plan '' @ plan @ '' --task '' @ show_nat task @ '' --step '' @ show_nat step"

fun to_display_command :: "PublicCommand \<Rightarrow> string" where
  "to_display_command (PublicWorkflowOperator plan ready json) =
     ''featureforge workflow operator --plan '' @ plan @ (if ready then '' --external-review-result-ready'' else []) @
     (if json then '' --json'' else [])"
| "to_display_command (PublicStatus plan) = ''featureforge plan execution status --plan '' @ plan"
| "to_display_command (PublicRepairReviewState plan) = ''featureforge plan execution repair-review-state --plan '' @ plan"
| "to_display_command (PublicBegin plan task step execution_mode fp) =
     execution_display ''begin'' plan task step @ optional_flag '' --execution-mode '' execution_mode @
     optional_flag '' --expect-execution-fingerprint '' fp"
| "to_display_command (PublicComplete plan task step source fp) =
     execution_display ''complete'' plan task step @ optional_flag '' --source '' source @
     optional_flag '' --expect-execution-fingerprint '' fp @ ''; requires claim and verification inputs''"
| "to_display_command (PublicReopen plan task step source reason fp) =
     execution_display ''reopen'' plan task step @ optional_flag '' --source '' source @
     (case concrete_optional_value reason of None \<Rightarrow> ''; requires reason input'' | Some r \<Rightarrow> '' --reason '' @ r) @
     optional_flag '' --expect-execution-fingerprint '' fp"
| "to_display_command (PublicTransferRepairStep plan task step fp) =
     ''featureforge plan execution transfer --plan '' @ plan @ '' --repair-task '' @ show_nat task @ '' --repair-step '' @ show_nat step @
     optional_flag '' --expect-execution-fingerprint '' fp @ ''; requires source and reason inputs''"
| "to_display_command (PublicTransferHandoff plan scope) =
     ''featureforge plan execution transfer --plan '' @ plan @ '' --scope '' @ scope @ ''; requires owner and reason inputs''"
| "to_display_command (PublicCloseCurrentTask plan task required) =
     ''featureforge plan execution close-current-task --plan '' @ plan @ optional_flag '' --task '' (map_option show_nat task) @
     (if required then ''; requires review and verification inputs'' else [])"
| "to_display_command (PublicAdvanceLateStage plan mode) =
     ''featureforge plan execution advance-late-stage --plan '' @ plan @ late_stage_display_suffix mode"
| "to_display_command (PublicMaterializeProjections plan scope) =
     ''featureforge plan execution materialize-projections --plan '' @ plan @ optional_flag '' --scope '' scope"

subsection \<open>Required inputs and templates\<close>

datatype PublicCommandInputKind = InputText | InputEnum | InputPath

record PublicCommandInputRequirement =
  ir_name :: string
  ir_kind :: PublicCommandInputKind
  ir_values :: "string list"
  ir_must_exist :: bool
  ir_required_when :: "string option"

datatype PublicCommandInputBindingKind = BindFlag | BindVirtual

record PublicCommandInputBinding =
  ib_kind :: PublicCommandInputBindingKind
  ib_flag :: "string option"

record PublicCommandTemplateInput =
  ti_name :: string
  ti_kind :: PublicCommandInputKind
  ti_binding :: PublicCommandInputBinding
  ti_values :: "string list"
  ti_must_exist :: bool
  ti_required_when :: "string option"
  ti_shell_escape_by_caller :: bool

record PublicCommandTemplate =
  ct_command_kind :: string
  ct_base_argv :: "string list"
  ct_required_input_names :: "string list"
  ct_input_bindings :: "PublicCommandTemplateInput list"

definition input_text :: "string \<Rightarrow> PublicCommandInputRequirement" where
  "input_text name = \<lparr>ir_name = name, ir_kind = InputText, ir_values = [], ir_must_exist = False, ir_required_when = None\<rparr>"

definition input_text_when :: "string \<Rightarrow> string \<Rightarrow> PublicCommandInputRequirement" where
  "input_text_when name required_when = (input_text name)\<lparr>ir_required_when := Some required_when\<rparr>"

definition input_enum :: "string \<Rightarrow> string list \<Rightarrow> PublicCommandInputRequirement" where
  "input_enum name vs = \<lparr>ir_name = name, ir_kind = InputEnum, ir_values = vs, ir_must_exist = False, ir_required_when = None\<rparr>"

definition input_execution_source :: "string \<Rightarrow> PublicCommandInputRequirement" where
  "input_execution_source name = input_enum name [''featureforge:executing-plans'', ''featureforge:subagent-driven-development'']"

definition input_existing_path :: "string \<Rightarrow> PublicCommandInputRequirement" where
  "input_existing_path name =
     \<lparr>ir_name = name, ir_kind = InputPath, ir_values = [], ir_must_exist = True, ir_required_when = None\<rparr>"

definition input_existing_path_when :: "string \<Rightarrow> string \<Rightarrow> PublicCommandInputRequirement" where
  "input_existing_path_when name required_when = (input_existing_path name)\<lparr>ir_required_when := Some required_when\<rparr>"

definition close_current_task_result_inputs :: "PublicCommandInputRequirement list" where
  "close_current_task_result_inputs =
     [input_enum ''review_result'' [''pass'', ''fail''], input_existing_path ''review_summary_file'',
      input_enum ''verification_result'' [''pass'', ''fail'', ''not-run''],
      input_existing_path_when ''verification_summary_file'' ''verification_result!=not-run'']"

definition missing_source_input :: "string option \<Rightarrow> PublicCommandInputRequirement list" where
  "missing_source_input v = (if concrete_optional_value v = None then [input_execution_source ''source''] else [])"

definition missing_text_input :: "string \<Rightarrow> string option \<Rightarrow> PublicCommandInputRequirement list" where
  "missing_text_input name v = (if concrete_optional_value v = None then [input_text name] else [])"

fun late_stage_inputs :: "PublicAdvanceLateStageMode \<Rightarrow> PublicCommandInputRequirement list" where
  "late_stage_inputs ModeReleaseReadiness =
     [input_enum ''result'' [''ready'', ''blocked''], input_existing_path ''summary_file'']"
| "late_stage_inputs ModeQa = [input_enum ''result'' [''pass'', ''fail''], input_existing_path ''summary_file'']"
| "late_stage_inputs ModeFinalReview =
     [input_enum ''reviewer_source'' [''fresh-context-subagent'', ''cross-model'', ''human-independent-reviewer''],
      input_text ''reviewer_id'', input_enum ''result'' [''pass'', ''fail''], input_existing_path ''summary_file'']"
| "late_stage_inputs _ = []"

definition verification_inputs :: "PublicCommandInputRequirement list" where
  "verification_inputs =
     [input_enum ''verification_mode'' [''manual_summary'', ''command_result''],
      input_text_when ''manual_verify_summary'' ''verification_mode=manual_summary'',
      input_text_when ''verify_command'' ''verification_mode=command_result'',
      input_text_when ''verify_result'' ''verification_mode=command_result'']"

fun required_inputs :: "PublicCommand \<Rightarrow> PublicCommandInputRequirement list" where
  "required_inputs (PublicBegin _ _ _ _ fp) = missing_text_input ''expect_execution_fingerprint'' fp"
| "required_inputs (PublicComplete _ _ _ source fp) =
     missing_source_input source @ [input_text ''claim''] @ verification_inputs @
     missing_text_input ''expect_execution_fingerprint'' fp"
| "required_inputs (PublicReopen _ _ _ source reason fp) =
     missing_source_input source @ missing_text_input ''reason'' reason @
     missing_text_input ''expect_execution_fingerprint'' fp"
| "required_inputs (PublicTransferRepairStep _ _ _ fp) =
     [input_execution_source ''source'', input_text ''reason''] @ missing_text_input ''expect_execution_fingerprint'' fp"
| "required_inputs (PublicTransferHandoff _ scope) =
     (if concrete_optional_value (Some scope) = None then [input_enum ''scope'' [''task'', ''branch'']] else []) @
     [input_text ''owner'', input_text ''reason'']"
| "required_inputs (PublicCloseCurrentTask _ task required) =
     (if task = None then [input_text ''task''] else if required then close_current_task_result_inputs else [])"
| "required_inputs (PublicAdvanceLateStage _ mode) = late_stage_inputs mode"
| "required_inputs _ = []"

definition flag_binding :: "string \<Rightarrow> PublicCommandInputBinding" where
  "flag_binding flag = \<lparr>ib_kind = BindFlag, ib_flag = Some flag\<rparr>"

definition input_flags :: "(string \<times> string) list" where
  "input_flags =
     [(''task'', ''--task''), (''source'', ''--source''), (''reason'', ''--reason''),
      (''expect_execution_fingerprint'', ''--expect-execution-fingerprint''), (''claim'', ''--claim''),
      (''manual_verify_summary'', ''--manual-verify-summary''), (''verify_command'', ''--verify-command''),
      (''verify_result'', ''--verify-result''), (''scope'', ''--scope''), (''owner'', ''--to''),
      (''review_result'', ''--review-result''), (''review_summary_file'', ''--review-summary-file''),
      (''verification_result'', ''--verification-result''), (''verification_summary_file'', ''--verification-summary-file''),
      (''result'', ''--result''), (''summary_file'', ''--summary-file''), (''reviewer_source'', ''--reviewer-source''),
      (''reviewer_id'', ''--reviewer-id'')]"

definition public_command_input_binding :: "string \<Rightarrow> PublicCommandInputBinding option" where
  "public_command_input_binding name =
     (if name = ''verification_mode'' then Some \<lparr>ib_kind = BindVirtual, ib_flag = None\<rparr>
      else map_option flag_binding (map_of input_flags name))"

type_synonym 'a panicking = "string + 'a"

definition public_command_template_input ::
  "PublicCommandInputRequirement \<Rightarrow> PublicCommandTemplateInput panicking" where
  "public_command_template_input input =
     (case public_command_input_binding (ir_name input) of
        None \<Rightarrow> Inl (''public command input `'' @ ir_name input @ ''` must have explicit CLI binding metadata'')
      | Some binding \<Rightarrow>
          Inr \<lparr>ti_name = ir_name input, ti_kind = ir_kind input, ti_binding = binding, ti_values = ir_values input,
            ti_must_exist = ir_must_exist input, ti_required_when = ir_required_when input, ti_shell_escape_by_caller = False\<rparr>)"

definition to_input_template :: "PublicCommand \<Rightarrow> PublicCommandTemplate option panicking" where
  "to_input_template c =
     (let inputs = required_inputs c in
      if inputs = [] then Inr None
      else res_bind (collect_results public_command_template_input inputs) (\<lambda>bindings.
        Inr (Some \<lparr>ct_command_kind = command_kind_name c, ct_base_argv = to_template_base_argv c,
          ct_required_input_names = map ir_name inputs, ct_input_bindings = bindings\<rparr>)))"

definition to_invocation :: "PublicCommand \<Rightarrow> string list option" where
  "to_invocation c =
     (if required_inputs c \<noteq> [] then None
      else if public_argv_has_template_tokens (to_base_argv c) then None else Some (to_base_argv c))"

definition to_argv :: "PublicCommand \<Rightarrow> string list panicking" where
  "to_argv c =
     (case to_invocation c of
        None \<Rightarrow> Inl ''public command argv requested for a command with missing inputs'' | Some argv \<Rightarrow> Inr argv)"

definition workflow_operator_json_display_command :: "bool \<Rightarrow> string" where
  "workflow_operator_json_display_command ready =
     (if ready then ''featureforge workflow operator --plan <approved-plan-path> --external-review-result-ready --json''
      else ''featureforge workflow operator --plan <approved-plan-path> --json'')"

definition recommended_public_command_argv :: "PublicCommand option \<Rightarrow> string list option" where
  "recommended_public_command_argv command = Option.bind command to_invocation"

definition recommended_public_command_display :: "PublicCommand option \<Rightarrow> string option" where
  "recommended_public_command_display command =
     Option.bind command (\<lambda>c. map_option (\<lambda>_.
       case c of PublicWorkflowOperator _ ready True \<Rightarrow> workflow_operator_json_display_command ready
       | _ \<Rightarrow> to_display_command c) (to_invocation c))"

definition required_inputs_for_public_command :: "PublicCommand option \<Rightarrow> PublicCommandInputRequirement list" where
  "required_inputs_for_public_command command = (case command of None \<Rightarrow> [] | Some c \<Rightarrow> required_inputs c)"

definition recommended_public_command_template :: "PublicCommand option \<Rightarrow> PublicCommandTemplate option panicking" where
  "recommended_public_command_template command = (case command of None \<Rightarrow> Inr None | Some c \<Rightarrow> to_input_template c)"

subsection \<open>Materialising a template\<close>

text \<open>A \<^verbatim>\<open>BTreeMap\<close>, as the list of its entries in key order.\<close>

type_synonym PublicCommandInputValues = "(string \<times> string) list"

datatype PublicCommandTemplateBindingError =
    MissingInput string
  | UnknownInput string
  | EmptyInput string
  | InvalidEnumValue string string "string list"
  | MissingInputMetadata string
  | MissingFlagBinding string
  | InvalidRequiredWhen string string

fun binding_error_display :: "PublicCommandTemplateBindingError \<Rightarrow> string" where
  "binding_error_display (MissingInput name) = ''missing required input `'' @ name @ ''`''"
| "binding_error_display (UnknownInput name) = ''unknown input `'' @ name @ ''`''"
| "binding_error_display (EmptyInput name) = ''input `'' @ name @ ''` must not be empty''"
| "binding_error_display (InvalidEnumValue name v allowed) =
     ''input `'' @ name @ ''` value `'' @ v @ ''` is not one of: '' @ join_with '', '' allowed"
| "binding_error_display (MissingInputMetadata name) = ''template is missing metadata for input `'' @ name @ ''`''"
| "binding_error_display (MissingFlagBinding name) = ''template input `'' @ name @ ''` is missing its CLI flag binding''"
| "binding_error_display (InvalidRequiredWhen name required_when) =
     ''template input `'' @ name @ ''` has unsupported required_when expression `'' @ required_when @ ''`''"

type_synonym 'a binding = "PublicCommandTemplateBindingError + 'a"

definition validate_template_metadata :: "PublicCommandTemplate \<Rightarrow> PublicCommandInputValues \<Rightarrow> unit binding" where
  "validate_template_metadata template inputs =
     (let metadata_names = map ti_name (ct_input_bindings template) in
      case find (\<lambda>n. n \<notin> set metadata_names) (ct_required_input_names template) of
        Some n \<Rightarrow> Inl (MissingInputMetadata n)
      | None \<Rightarrow>
          (case find (\<lambda>n. n \<notin> set metadata_names) (map fst inputs) of
             Some n \<Rightarrow> Inl (UnknownInput n)
           | None \<Rightarrow> Inr ()))"

definition required_bound_controller_value :: "PublicCommandInputValues \<Rightarrow> string \<Rightarrow> string binding" where
  "required_bound_controller_value inputs controller =
     (case map_of inputs (trim controller) of None \<Rightarrow> Inl (MissingInput (trim controller)) | Some v \<Rightarrow> Inr v)"

definition input_requirement_is_active :: "PublicCommandTemplateInput \<Rightarrow> PublicCommandInputValues \<Rightarrow> bool binding" where
  "input_requirement_is_active input inputs =
     (case ti_required_when input of
        None \<Rightarrow> Inr True
      | Some required_when \<Rightarrow>
          (case split_once_str ''!='' required_when of
             Some (controller, expected) \<Rightarrow>
               res_bind (required_bound_controller_value inputs controller) (\<lambda>actual. Inr (trim actual \<noteq> trim expected))
           | None \<Rightarrow>
               (case split_once CHR ''='' required_when of
                  Some (controller, expected) \<Rightarrow>
                    res_bind (required_bound_controller_value inputs controller) (\<lambda>actual. Inr (trim actual = trim expected))
                | None \<Rightarrow> Inl (InvalidRequiredWhen (ti_name input) required_when))))"

definition required_bound_input_value :: "PublicCommandTemplateInput \<Rightarrow> PublicCommandInputValues \<Rightarrow> string binding" where
  "required_bound_input_value input inputs =
     (case map_of inputs (ti_name input) of
        None \<Rightarrow> Inl (MissingInput (ti_name input))
      | Some v \<Rightarrow> if trim v = [] then Inl (EmptyInput (ti_name input)) else Inr v)"

definition validate_bound_input_value :: "PublicCommandTemplateInput \<Rightarrow> string \<Rightarrow> unit binding" where
  "validate_bound_input_value input v =
     (if ti_kind input = InputEnum \<and> trim v \<notin> set (ti_values input)
      then Inl (InvalidEnumValue (ti_name input) (trim v) (ti_values input)) else Inr ())"

definition bound_args :: "PublicCommandInputValues \<Rightarrow> PublicCommandTemplateInput \<Rightarrow> string list binding" where
  "bound_args inputs input =
     res_bind (input_requirement_is_active input inputs) (\<lambda>active.
       if \<not> active then Inr []
       else res_bind (required_bound_input_value input inputs) (\<lambda>v.
         res_bind (validate_bound_input_value input v) (\<lambda>_.
           case ib_kind (ti_binding input) of
             BindVirtual \<Rightarrow> Inr []
           | BindFlag \<Rightarrow>
               (case ib_flag (ti_binding input) of
                  None \<Rightarrow> Inl (MissingFlagBinding (ti_name input))
                | Some flag \<Rightarrow> Inr [flag, trim v]))))"

definition materialize_public_command_argv ::
  "PublicCommandTemplate \<Rightarrow> PublicCommandInputValues \<Rightarrow> string list binding" where
  "materialize_public_command_argv template inputs =
     res_bind (validate_template_metadata template inputs) (\<lambda>_.
       res_bind (collect_results (bound_args inputs) (ct_input_bindings template)) (\<lambda>args.
         Inr (ct_base_argv template @ concat args)))"

subsection \<open>Mutation requests\<close>

datatype PublicTransferMode = TransferRepairStepMode | TransferWorkflowHandoff

record PublicMutationRequest =
  mr_kind :: PublicCommandKind
  mr_task :: "nat option"
  mr_step :: "nat option"
  mr_expect_execution_fingerprint :: "string option"
  mr_transfer_mode :: "PublicTransferMode option"
  mr_transfer_scope :: "string option"
  mr_advance_late_stage_mode :: "PublicAdvanceLateStageMode option"

definition from_public_mutation_parts ::
  "PublicCommandKind \<Rightarrow> nat option \<Rightarrow> nat option \<Rightarrow> string option \<Rightarrow> PublicTransferMode option \<Rightarrow>
   string option \<Rightarrow> PublicAdvanceLateStageMode option \<Rightarrow> PublicMutationRequest" where
  "from_public_mutation_parts k task step fp transfer_mode transfer_scope late_stage_mode =
     \<lparr>mr_kind = k, mr_task = task, mr_step = step, mr_expect_execution_fingerprint = fp,
      mr_transfer_mode = transfer_mode, mr_transfer_scope = transfer_scope, mr_advance_late_stage_mode = late_stage_mode\<rparr>"

definition request_repair_review_state :: PublicMutationRequest where
  "request_repair_review_state = from_public_mutation_parts RepairReviewStateCommand None None None None None None"

definition request_begin :: "nat \<Rightarrow> nat \<Rightarrow> string option \<Rightarrow> PublicMutationRequest" where
  "request_begin task step fp = from_public_mutation_parts BeginCommand (Some task) (Some step) fp None None None"

definition request_complete :: "nat \<Rightarrow> nat \<Rightarrow> string option \<Rightarrow> PublicMutationRequest" where
  "request_complete task step fp = from_public_mutation_parts CompleteCommand (Some task) (Some step) fp None None None"

definition request_reopen :: "nat \<Rightarrow> nat \<Rightarrow> string option \<Rightarrow> PublicMutationRequest" where
  "request_reopen task step fp = from_public_mutation_parts ReopenCommand (Some task) (Some step) fp None None None"

definition request_transfer_repair_step :: "nat \<Rightarrow> nat \<Rightarrow> string option \<Rightarrow> PublicMutationRequest" where
  "request_transfer_repair_step task step fp =
     from_public_mutation_parts TransferCommand (Some task) (Some step) fp (Some TransferRepairStepMode) None None"

definition request_transfer_handoff :: "string option \<Rightarrow> PublicMutationRequest" where
  "request_transfer_handoff scope =
     from_public_mutation_parts TransferCommand None None None (Some TransferWorkflowHandoff) scope None"

definition request_close_current_task :: "nat option \<Rightarrow> PublicMutationRequest" where
  "request_close_current_task task = from_public_mutation_parts CloseCurrentTaskCommand task None None None None None"

definition request_advance_late_stage :: "PublicAdvanceLateStageMode \<Rightarrow> PublicMutationRequest" where
  "request_advance_late_stage mode =
     from_public_mutation_parts AdvanceLateStageCommand None None None None None (Some mode)"

definition public_command_name :: "PublicMutationRequest \<Rightarrow> string option" where
  "public_command_name request = public_mutation_name (mr_kind request)"

definition command_name_for_diagnostics :: "PublicMutationRequest \<Rightarrow> string" where
  "command_name_for_diagnostics request = unwrap_or (command_kind_as_str (mr_kind request)) (public_command_name request)"

definition execution_command_kind :: "PublicMutationRequest \<Rightarrow> string option" where
  "execution_command_kind request = execution_mutation_name (mr_kind request)"

lemmas request_defs =
  request_repair_review_state_def request_begin_def request_complete_def request_reopen_def
  request_transfer_repair_step_def request_transfer_handoff_def request_close_current_task_def
  request_advance_late_stage_def from_public_mutation_parts_def

fun to_mutation_request :: "PublicCommand \<Rightarrow> PublicMutationRequest option" where
  "to_mutation_request (PublicRepairReviewState _) = Some request_repair_review_state"
| "to_mutation_request (PublicBegin _ task step _ fp) = Some (request_begin task step fp)"
| "to_mutation_request (PublicComplete _ task step _ fp) = Some (request_complete task step fp)"
| "to_mutation_request (PublicReopen _ task step _ _ fp) = Some (request_reopen task step fp)"
| "to_mutation_request (PublicTransferRepairStep _ task step fp) = Some (request_transfer_repair_step task step fp)"
| "to_mutation_request (PublicTransferHandoff _ scope) = Some (request_transfer_handoff (concrete_optional_value (Some scope)))"
| "to_mutation_request (PublicCloseCurrentTask _ task _) = Some (request_close_current_task task)"
| "to_mutation_request (PublicAdvanceLateStage _ mode) = Some (request_advance_late_stage mode)"
| "to_mutation_request _ = None"

subsection \<open>Late-stage routes\<close>

definition public_advance_late_stage_mode_for_phase_detail :: "string \<Rightarrow> PublicAdvanceLateStageMode option" where
  "public_advance_late_stage_mode_for_phase_detail phase_detail =
     (if phase_detail = DETAIL_BRANCH_CLOSURE_RECORDING_REQUIRED_FOR_RELEASE_READINESS then Some ModeBasic
      else if phase_detail = DETAIL_RELEASE_READINESS_RECORDING_READY \<or>
        phase_detail = DETAIL_RELEASE_BLOCKER_RESOLUTION_REQUIRED then Some ModeReleaseReadiness
      else if phase_detail = DETAIL_FINAL_REVIEW_DISPATCH_REQUIRED then Some ModeFinalReviewDispatch
      else if phase_detail = DETAIL_FINAL_REVIEW_RECORDING_READY then Some ModeFinalReview
      else if phase_detail = DETAIL_QA_RECORDING_REQUIRED then Some ModeQa
      else if phase_detail = DETAIL_FINISH_REVIEW_GATE_READY then Some ModeFinishReview
      else if phase_detail = DETAIL_FINISH_COMPLETION_GATE_READY then Some ModeFinishCompletion
      else None)"

fun public_advance_late_stage_mode_from_command :: "PublicCommand \<Rightarrow> PublicAdvanceLateStageMode option" where
  "public_advance_late_stage_mode_from_command (PublicAdvanceLateStage _ mode) = Some mode"
| "public_advance_late_stage_mode_from_command _ = None"

definition public_advance_late_stage_mode_for_invocation ::
  "string \<Rightarrow> PublicCommand option \<Rightarrow> string option \<Rightarrow> bool \<Rightarrow> PublicAdvanceLateStageMode" where
  "public_advance_late_stage_mode_for_invocation phase_detail command res final_review_inputs_present =
     (let routed_mode = opt_or (Option.bind command public_advance_late_stage_mode_from_command)
            (public_advance_late_stage_mode_for_phase_detail phase_detail) in
      if final_review_inputs_present
      then (if routed_mode = Some ModeFinalReviewDispatch then ModeFinalReviewDispatch else ModeFinalReview)
      else if res = Some ''ready'' \<or> res = Some ''blocked'' then ModeReleaseReadiness
      else if res = Some ''pass'' \<or> res = Some ''fail''
      then unwrap_or ModeQa (opt_filter (\<lambda>m. m = ModeFinalReview \<or> m = ModeQa) routed_mode)
      else unwrap_or ModeBasic routed_mode)"

definition public_advance_late_stage_mode_for_routed_public_command ::
  "string \<Rightarrow> PublicCommand option \<Rightarrow> PublicAdvanceLateStageMode option" where
  "public_advance_late_stage_mode_for_routed_public_command phase_detail command =
     (case Option.bind command public_advance_late_stage_mode_from_command of
        None \<Rightarrow> None
      | Some command_mode \<Rightarrow>
          (case public_advance_late_stage_mode_for_phase_detail phase_detail of
             Some m \<Rightarrow> if m \<noteq> command_mode then None else Some command_mode
           | None \<Rightarrow> Some command_mode))"

definition public_advance_late_stage_request_mode_matches_routed_public_command ::
  "string \<Rightarrow> PublicCommand option \<Rightarrow> PublicAdvanceLateStageMode option \<Rightarrow> bool" where
  "public_advance_late_stage_request_mode_matches_routed_public_command phase_detail command request_mode \<longleftrightarrow>
     is_some_and request_mode (\<lambda>m.
       public_advance_late_stage_mode_for_routed_public_command phase_detail command = Some m)"

definition routed_public_command_matches_mode :: "string \<Rightarrow> PublicCommand option \<Rightarrow> PublicAdvanceLateStageMode \<Rightarrow> bool" where
  "routed_public_command_matches_mode phase_detail command mode \<longleftrightarrow>
     public_advance_late_stage_mode_for_routed_public_command phase_detail command = Some mode"

definition routed_public_command_is_branch_closure :: "string \<Rightarrow> PublicCommand option \<Rightarrow> bool" where
  "routed_public_command_is_branch_closure phase_detail command \<longleftrightarrow>
     routed_public_command_matches_mode phase_detail command ModeBasic"

definition routed_public_command_is_release_readiness :: "string \<Rightarrow> PublicCommand option \<Rightarrow> bool" where
  "routed_public_command_is_release_readiness phase_detail command \<longleftrightarrow>
     routed_public_command_matches_mode phase_detail command ModeReleaseReadiness"

definition routed_public_command_is_final_review_dispatch :: "string \<Rightarrow> PublicCommand option \<Rightarrow> bool" where
  "routed_public_command_is_final_review_dispatch phase_detail command \<longleftrightarrow>
     routed_public_command_matches_mode phase_detail command ModeFinalReviewDispatch"

definition routed_public_command_is_qa :: "string \<Rightarrow> PublicCommand option \<Rightarrow> bool" where
  "routed_public_command_is_qa phase_detail command \<longleftrightarrow> routed_public_command_matches_mode phase_detail command ModeQa"

definition routed_public_command_is_final_review :: "string \<Rightarrow> PublicCommand option \<Rightarrow> bool" where
  "routed_public_command_is_final_review phase_detail command \<longleftrightarrow>
     routed_public_command_matches_mode phase_detail command ModeFinalReview"

definition routed_public_command_accepts_final_review_inputs :: "string \<Rightarrow> PublicCommand option \<Rightarrow> bool" where
  "routed_public_command_accepts_final_review_inputs phase_detail command \<longleftrightarrow>
     routed_public_command_is_final_review_dispatch phase_detail command \<or>
     routed_public_command_is_final_review phase_detail command"

definition routed_public_command_is_finish_review :: "string \<Rightarrow> PublicCommand option \<Rightarrow> bool" where
  "routed_public_command_is_finish_review phase_detail command \<longleftrightarrow>
     routed_public_command_matches_mode phase_detail command ModeFinishReview"

definition routed_public_command_is_finish_completion :: "string \<Rightarrow> PublicCommand option \<Rightarrow> bool" where
  "routed_public_command_is_finish_completion phase_detail command \<longleftrightarrow>
     routed_public_command_matches_mode phase_detail command ModeFinishCompletion"

definition public_advance_late_stage_command_for_phase_detail :: "string \<Rightarrow> string \<Rightarrow> PublicCommand option" where
  "public_advance_late_stage_command_for_phase_detail plan_path phase_detail =
     map_option (PublicAdvanceLateStage plan_path) (public_advance_late_stage_mode_for_phase_detail phase_detail)"

definition public_advance_late_stage_mode_for_record_type :: "string \<Rightarrow> PublicAdvanceLateStageMode option" where
  "public_advance_late_stage_mode_for_record_type record_type =
     (if record_type = ''branch_closure'' then Some ModeBasic
      else if record_type = ''release_readiness'' then Some ModeReleaseReadiness else None)"

definition public_advance_late_stage_command_for_follow_up ::
  "string \<Rightarrow> string \<Rightarrow> string option \<Rightarrow> PublicCommand option" where
  "public_advance_late_stage_command_for_follow_up plan_path phase_detail record_type =
     map_option (PublicAdvanceLateStage plan_path)
       (opt_or (public_advance_late_stage_mode_for_phase_detail phase_detail)
          (Option.bind record_type public_advance_late_stage_mode_for_record_type))"

definition public_advance_late_stage_final_review_mutation_request :: PublicMutationRequest where
  "public_advance_late_stage_final_review_mutation_request = request_advance_late_stage ModeFinalReview"

fun public_advance_late_stage_mode_name :: "PublicAdvanceLateStageMode \<Rightarrow> string" where
  "public_advance_late_stage_mode_name ModeBasic = ''branch_closure''"
| "public_advance_late_stage_mode_name ModeReleaseReadiness = ''release_readiness''"
| "public_advance_late_stage_mode_name ModeFinalReviewDispatch = ''final_review_dispatch''"
| "public_advance_late_stage_mode_name ModeQa = ''qa''"
| "public_advance_late_stage_mode_name ModeFinalReview = ''final_review''"
| "public_advance_late_stage_mode_name ModeFinishReview = ''finish_review''"
| "public_advance_late_stage_mode_name ModeFinishCompletion = ''finish_completion''"

subsection \<open>Execution targets read from an argument vector\<close>

definition BASE_OWNED_EXECUTION_ROUTE_FLAGS :: "string list" where
  "BASE_OWNED_EXECUTION_ROUTE_FLAGS = [''--plan'', ''--task'', ''--step'']"

record PublicExecutionCommandTarget =
  et_kind :: PublicCommandKind
  et_task :: nat
  et_step :: nat

definition value_is_template_placeholder :: "string \<Rightarrow> bool" where
  "value_is_template_placeholder v \<longleftrightarrow>
     v = [] \<or> v \<in> set [''pass|fail'', ''pass|fail|not-run'', ''ready|blocked'', ''task|branch''] \<or>
     (starts_with v ''<'' \<and> ends_with v ''>'') \<or> str_contains v ''[when verification ran]''"

definition value_is_concrete :: "string \<Rightarrow> bool" where
  "value_is_concrete v \<longleftrightarrow> \<not> value_is_template_placeholder (trim v)"

fun flag_value :: "string list \<Rightarrow> string \<Rightarrow> string option" where
  "flag_value (candidate # v # args) flag =
     (if candidate = flag \<and> \<not> starts_with v ''--'' then Some v else flag_value (v # args) flag)"
| "flag_value _ flag = None"

definition concrete_flag_value :: "string list \<Rightarrow> string \<Rightarrow> string option" where
  "concrete_flag_value args flag = opt_filter value_is_concrete (flag_value args flag)"

fun execution_mutation_name_from_public_argv_prefix :: "string list \<Rightarrow> string option" where
  "execution_mutation_name_from_public_argv_prefix (program # plan # execution # command # _) =
     (if program = ''featureforge'' \<and> plan = ''plan'' \<and> execution = ''execution'' then Some command else None)"
| "execution_mutation_name_from_public_argv_prefix _ = None"

definition execution_mutation_name_from_public_argv :: "string list \<Rightarrow> string option" where
  "execution_mutation_name_from_public_argv argv =
     opt_filter (\<lambda>name. from_execution_mutation_name name \<noteq> None) (execution_mutation_name_from_public_argv_prefix argv)"

definition require_exactly_one_complete_verification_mode :: "string list \<Rightarrow> bool" where
  "require_exactly_one_complete_verification_mode args \<longleftrightarrow>
     (let manual = concrete_flag_value args ''--manual-verify-summary'' \<noteq> None;
          command = concrete_flag_value args ''--verify-command'' \<noteq> None;
          res = concrete_flag_value args ''--verify-result'' \<noteq> None
      in manual \<and> \<not> command \<and> \<not> res \<or> \<not> manual \<and> command \<and> res)"

definition require_executable_execution_args :: "PublicCommandKind \<Rightarrow> string list \<Rightarrow> bool" where
  "require_executable_execution_args k args \<longleftrightarrow>
     (let given = (\<lambda>flag. concrete_flag_value args flag \<noteq> None) in
      case k of
        BeginCommand \<Rightarrow> given ''--expect-execution-fingerprint''
      | CompleteCommand \<Rightarrow> given ''--source'' \<and> given ''--claim'' \<and> given ''--expect-execution-fingerprint'' \<and>
          require_exactly_one_complete_verification_mode args
      | ReopenCommand \<Rightarrow> given ''--source'' \<and> given ''--reason'' \<and> given ''--expect-execution-fingerprint''
      | _ \<Rightarrow> False)"

definition execution_target_from_public_argv_with_shape :: "string list \<Rightarrow> bool \<Rightarrow> PublicExecutionCommandTarget option" where
  "execution_target_from_public_argv_with_shape argv require_executable_args =
     Option.bind (execution_mutation_name_from_public_argv_prefix argv) (\<lambda>name.
     Option.bind (from_execution_mutation_name name) (\<lambda>k.
       let args = drop 4 argv in
       if concrete_flag_value args ''--plan'' = None then None
       else if require_executable_args \<and> \<not> require_executable_execution_args k args then None
       else Option.bind (Option.bind (concrete_flag_value args ''--task'') (parse_uint u32_max)) (\<lambda>task.
            Option.bind (Option.bind (concrete_flag_value args ''--step'') (parse_uint u32_max)) (\<lambda>step.
              Some \<lparr>et_kind = k, et_task = task, et_step = step\<rparr>))))"

definition execution_target_from_public_argv :: "string list \<Rightarrow> PublicExecutionCommandTarget option" where
  "execution_target_from_public_argv argv = execution_target_from_public_argv_with_shape argv True"

definition execution_target_from_public_template_base_argv :: "string list \<Rightarrow> PublicExecutionCommandTarget option" where
  "execution_target_from_public_template_base_argv argv = execution_target_from_public_argv_with_shape argv False"

definition input_binding_has_materializable_shape :: "PublicCommandTemplateInput \<Rightarrow> bool" where
  "input_binding_has_materializable_shape input \<longleftrightarrow>
     (case ib_kind (ti_binding input) of
        BindFlag \<Rightarrow> is_some_and (ib_flag (ti_binding input)) (\<lambda>flag. starts_with flag ''--'' \<and> 2 < length flag)
      | BindVirtual \<Rightarrow> ib_flag (ti_binding input) = None)"

definition input_binding_overrides_base_execution_route_target :: "PublicCommandTemplateInput \<Rightarrow> bool" where
  "input_binding_overrides_base_execution_route_target input \<longleftrightarrow>
     ib_kind (ti_binding input) = BindFlag \<and>
     is_some_and (ib_flag (ti_binding input)) (\<lambda>flag. flag \<in> set BASE_OWNED_EXECUTION_ROUTE_FLAGS)"

definition template_input_names_match_bindings :: "PublicCommandTemplate \<Rightarrow> bool" where
  "template_input_names_match_bindings template \<longleftrightarrow>
     (let names = ct_required_input_names template; bindings = map ti_name (ct_input_bindings template) in
      card (set names) = length names \<and> card (set bindings) = length bindings \<and> set names = set bindings)"

definition template_bindings_are_materializable :: "PublicCommandTemplate \<Rightarrow> bool" where
  "template_bindings_are_materializable template \<longleftrightarrow>
     ct_required_input_names template \<noteq> [] \<and> template_input_names_match_bindings template \<and>
     (\<forall>n\<in>set (ct_required_input_names template). \<exists>input\<in>set (ct_input_bindings template). ti_name input = n) \<and>
     (\<forall>input\<in>set (ct_input_bindings template).
        trim (ti_name input) \<noteq> [] \<and> input_binding_has_materializable_shape input \<and>
        \<not> input_binding_overrides_base_execution_route_target input)"

definition template_supplies_required_flag :: "PublicCommandTemplate \<Rightarrow> string \<Rightarrow> bool" where
  "template_supplies_required_flag template flag \<longleftrightarrow>
     concrete_flag_value (ct_base_argv template) flag \<noteq> None \<or>
     (\<exists>input\<in>set (ct_input_bindings template).
        ib_kind (ti_binding input) = BindFlag \<and> ib_flag (ti_binding input) = Some flag \<and> ti_required_when input = None)"

definition base_argv_contains_flag :: "string list \<Rightarrow> string \<Rightarrow> bool" where
  "base_argv_contains_flag argv flag \<longleftrightarrow>
     list_ex (\<lambda>arg. arg = flag \<or> is_some_and (strip_prefix arg flag) (\<lambda>suffix. starts_with suffix ''='')) argv"

definition verification_flags_present_in_base_argv :: "PublicCommandTemplate \<Rightarrow> bool" where
  "verification_flags_present_in_base_argv template \<longleftrightarrow>
     list_ex (base_argv_contains_flag (ct_base_argv template)) [''--manual-verify-summary'', ''--verify-command'', ''--verify-result'']"

definition template_has_virtual_verification_mode :: "PublicCommandTemplate \<Rightarrow> bool" where
  "template_has_virtual_verification_mode template \<longleftrightarrow>
     (\<exists>input\<in>set (ct_input_bindings template). ti_name input = ''verification_mode'' \<and>
        ib_kind (ti_binding input) = BindVirtual \<and> ib_flag (ti_binding input) = None \<and> ti_required_when input = None)"

definition template_has_conditional_flag :: "PublicCommandTemplate \<Rightarrow> string \<Rightarrow> string \<Rightarrow> bool" where
  "template_has_conditional_flag template flag required_when \<longleftrightarrow>
     (\<exists>input\<in>set (ct_input_bindings template). ib_kind (ti_binding input) = BindFlag \<and>
        ib_flag (ti_binding input) = Some flag \<and> ti_required_when input = Some required_when)"

definition template_verification_flag_bindings_are_expected :: "PublicCommandTemplate \<Rightarrow> bool" where
  "template_verification_flag_bindings_are_expected template \<longleftrightarrow>
     (\<forall>input\<in>set (ct_input_bindings template).
        case ib_flag (ti_binding input) of
          None \<Rightarrow> True
        | Some flag \<Rightarrow>
            if flag = ''--manual-verify-summary'' then ti_required_when input = Some ''verification_mode=manual_summary''
            else if flag = ''--verify-command'' \<or> flag = ''--verify-result''
            then ti_required_when input = Some ''verification_mode=command_result'' else True)"

definition complete_template_verification_mode_is_bindable :: "PublicCommandTemplate \<Rightarrow> bool" where
  "complete_template_verification_mode_is_bindable template \<longleftrightarrow>
     \<not> verification_flags_present_in_base_argv template \<and> template_has_virtual_verification_mode template \<and>
     template_has_conditional_flag template ''--manual-verify-summary'' ''verification_mode=manual_summary'' \<and>
     template_has_conditional_flag template ''--verify-command'' ''verification_mode=command_result'' \<and>
     template_has_conditional_flag template ''--verify-result'' ''verification_mode=command_result'' \<and>
     template_verification_flag_bindings_are_expected template"

definition template_execution_args_are_bindable :: "PublicCommandTemplate \<Rightarrow> PublicCommandKind \<Rightarrow> bool" where
  "template_execution_args_are_bindable template k \<longleftrightarrow>
     (case k of
        BeginCommand \<Rightarrow> template_supplies_required_flag template ''--expect-execution-fingerprint''
      | CompleteCommand \<Rightarrow> template_supplies_required_flag template ''--source'' \<and>
          template_supplies_required_flag template ''--claim'' \<and>
          template_supplies_required_flag template ''--expect-execution-fingerprint'' \<and>
          complete_template_verification_mode_is_bindable template
      | ReopenCommand \<Rightarrow> template_supplies_required_flag template ''--source'' \<and>
          template_supplies_required_flag template ''--reason'' \<and>
          template_supplies_required_flag template ''--expect-execution-fingerprint''
      | _ \<Rightarrow> False)"

definition execution_template_inputs_are_bindable :: "PublicCommandTemplate \<Rightarrow> PublicCommandKind \<Rightarrow> bool" where
  "execution_template_inputs_are_bindable template k \<longleftrightarrow>
     template_bindings_are_materializable template \<and> template_execution_args_are_bindable template k"

end
