(* ===== verification/Execution_Status.thy ===== *)
theory Execution_Status
  imports Public_Command Harness_Phase Task_Scope_Key
begin

text \<open>
  The execution status a route is projected into (\<^verbatim>\<open>PlanExecutionStatus\<close> of \<^verbatim>\<open>execution/status.rs\<close>) with the
  records it carries, the public state kinds (\<^verbatim>\<open>route_plan/state_kind.rs\<close>), the diagnostic for a stale review
  state without a target (\<^verbatim>\<open>reentry_reconcile.rs\<close>), the selection of a current task closure
  (\<^verbatim>\<open>current_task_closure_selection.rs\<close>) and the task-boundary decision (\<^verbatim>\<open>closure_diagnostics.rs\<close>).

  The record holds the fields the modelled operations read or write; the others of the struct (evaluator,
  chunk, retry, artifact and projection-path fields) are copied by no modelled operation.  Task and step
  numbers are naturals; they come from \<^verbatim>\<open>u32\<close> fields and no arithmetic is done on them.
\<close>

subsection \<open>The records of a status\<close>

record NextPublicAction =
  na_display_only :: bool
  na_command :: string
  na_args_template :: "string option"

record Blocker =
  bl_category :: string
  bl_scope_type :: string
  bl_scope_key :: string
  bl_record_id :: "string option"
  bl_next_public_action :: "NextPublicAction option"
  bl_details :: string

record StatusBlockingRecord =
  br_code :: string
  br_scope_type :: string
  br_scope_key :: string
  br_record_type :: string
  br_record_id :: "string option"
  br_review_state_status :: string
  br_required_follow_up :: "string option"
  br_message :: string

record PublicReviewStateTaskClosure =
  tc_task :: nat
  tc_closure_record_id :: string
  tc_reviewed_state_id :: string
  tc_contract_identity :: string
  tc_effective_reviewed_surface_paths :: "string list"

record PublicRecordingContext =
  rx_task_number :: "nat option"
  rx_dispatch_id :: "string option"
  rx_branch_closure_id :: "string option"

record PublicExecutionCommandContext =
  cx_command_kind :: string
  cx_task_number :: "nat option"
  cx_step_id :: "nat option"

record PublicRepairTarget =
  rt_command_kind :: string
  rt_task :: "nat option"
  rt_step :: "nat option"
  rt_reason_code :: string
  rt_source_record_id :: "string option"
  rt_expires_when_fingerprint_changes :: bool

datatype DownstreamFreshnessState = FreshnessNotRequired | FreshnessMissing | FreshnessFresh | FreshnessStale

text \<open>The status is built up in three layers, so that the facts about its fields stay small.\<close>

record StatusIdentity =
  st_execution_run_id :: "string option"
  st_current_final_review_result :: "string option"
  st_current_qa_result :: "string option"
  st_latest_authoritative_sequence :: nat
  st_final_review_state :: DownstreamFreshnessState
  st_browser_qa_state :: DownstreamFreshnessState
  st_release_docs_state :: DownstreamFreshnessState
  st_semantic_workspace_tree_id :: string
  st_current_branch_reviewed_state_id :: "string option"
  st_current_branch_closure_id :: "string option"
  st_current_branch_meaningful_drift :: bool
  st_current_task_closures :: "PublicReviewStateTaskClosure list"
  st_stale_unreviewed_closures :: "string list"
  st_current_release_readiness_state :: "string option"
  st_current_final_review_branch_closure_id :: "string option"
  st_current_qa_branch_closure_id :: "string option"
  st_finish_review_gate_pass_branch_closure_id :: "string option"
  st_write_authority_state :: string
  st_repo_state_drift_state :: string
  st_handoff_required :: bool
  st_execution_mode :: string
  st_execution_fingerprint :: string
  st_execution_started :: string
  st_active_task :: "nat option"
  st_active_step :: "nat option"
  st_resume_task :: "nat option"
  st_resume_step :: "nat option"

record StatusRoute = StatusIdentity +
  st_phase :: "string option"
  st_harness_phase :: HarnessPhase
  st_phase_detail :: string
  st_review_state_status :: string
  st_recording_context :: "PublicRecordingContext option"
  st_execution_command_context :: "PublicExecutionCommandContext option"
  st_execution_reentry_target_source :: "string option"
  st_public_repair_targets :: "PublicRepairTarget list"
  st_blocking_records :: "StatusBlockingRecord list"
  st_blocking_scope :: "string option"
  st_external_wait_state :: "string option"
  st_blocking_reason_codes :: "string list"
  st_projection_diagnostics :: "string list"
  st_state_kind :: string
  st_blocking_task :: "nat option"
  st_blocking_step :: "nat option"
  st_reason_codes :: "string list"

record PlanExecutionStatus = StatusRoute +
  st_next_public_action :: "NextPublicAction option"
  st_blockers :: "Blocker list"
  st_next_action :: string
  st_recommended_public_command :: "PublicCommand option"
  st_recommended_public_command_argv :: "string list option"
  st_recommended_public_command_template :: "PublicCommandTemplate option"
  st_required_inputs :: "PublicCommandInputRequirement list"
  st_recommended_command :: "string option"

subsection \<open>State kinds\<close>

definition EXTERNAL_WAITING_FOR_EXTERNAL_REVIEW_RESULT :: string where [simp, ff_tokens]:
  "EXTERNAL_WAITING_FOR_EXTERNAL_REVIEW_RESULT = ''waiting_for_external_review_result''"

definition STATE_KIND_ACTIONABLE_PUBLIC_COMMAND :: string where [simp, ff_tokens]:
  "STATE_KIND_ACTIONABLE_PUBLIC_COMMAND = ''actionable_public_command''"

definition STATE_KIND_WAITING_EXTERNAL_INPUT :: string where [simp, ff_tokens]:
  "STATE_KIND_WAITING_EXTERNAL_INPUT = ''waiting_external_input''"

definition STATE_KIND_TERMINAL :: string where [simp, ff_tokens]:
  "STATE_KIND_TERMINAL = ''terminal''"

definition STATE_KIND_BLOCKED_RUNTIME_BUG :: string where [simp, ff_tokens]:
  "STATE_KIND_BLOCKED_RUNTIME_BUG = DETAIL_BLOCKED_RUNTIME_BUG"

definition STATE_KIND_PLANNING_REENTRY_REQUIRED :: string where [simp, ff_tokens]:
  "STATE_KIND_PLANNING_REENTRY_REQUIRED = DETAIL_PLANNING_REENTRY_REQUIRED"

definition STATE_KIND_RUNTIME_RECONCILE_REQUIRED :: string where [simp, ff_tokens]:
  "STATE_KIND_RUNTIME_RECONCILE_REQUIRED = DETAIL_RUNTIME_RECONCILE_REQUIRED"

definition PUBLIC_STATE_KIND_VALUES :: "string list" where
  "PUBLIC_STATE_KIND_VALUES =
     [STATE_KIND_ACTIONABLE_PUBLIC_COMMAND, STATE_KIND_WAITING_EXTERNAL_INPUT, STATE_KIND_TERMINAL,
      STATE_KIND_BLOCKED_RUNTIME_BUG, STATE_KIND_PLANNING_REENTRY_REQUIRED, STATE_KIND_RUNTIME_RECONCILE_REQUIRED]"

definition state_kind_command_marker :: "PublicCommand option \<Rightarrow> string option" where
  "state_kind_command_marker command = map_option (\<lambda>_. ''public_command'') command"

definition external_wait_state_is_external_wait :: "string option \<Rightarrow> bool" where
  "external_wait_state_is_external_wait external_wait_state \<longleftrightarrow>
     is_some_and (map_option trim external_wait_state) (\<lambda>state. state = EXTERNAL_WAITING_FOR_EXTERNAL_REVIEW_RESULT)"

definition classify_state_kind :: "string option \<Rightarrow> bool \<Rightarrow> string \<Rightarrow> string option \<Rightarrow> string" where
  "classify_state_kind external_wait_state terminal_phase phase_detail recommended_command =
     (if external_wait_state_is_external_wait external_wait_state then STATE_KIND_WAITING_EXTERNAL_INPUT
      else if terminal_phase \<and> phase_detail = DETAIL_FINISH_COMPLETION_GATE_READY \<and> recommended_command = None
      then STATE_KIND_TERMINAL
      else if phase_detail = DETAIL_BLOCKED_RUNTIME_BUG \<and> recommended_command = None then STATE_KIND_BLOCKED_RUNTIME_BUG
      else if phase_detail = DETAIL_PLANNING_REENTRY_REQUIRED \<and> recommended_command = None
      then STATE_KIND_PLANNING_REENTRY_REQUIRED
      else if phase_detail = DETAIL_RUNTIME_RECONCILE_REQUIRED \<and> recommended_command = None
      then STATE_KIND_RUNTIME_RECONCILE_REQUIRED
      else if recommended_command = None \<and> phase_detail \<notin> set RECOMMENDED_COMMAND_OMITTED_PHASE_DETAILS
      then STATE_KIND_BLOCKED_RUNTIME_BUG
      else STATE_KIND_ACTIONABLE_PUBLIC_COMMAND)"

definition derive_state_kind :: "string option \<Rightarrow> string \<Rightarrow> string \<Rightarrow> PublicCommand option \<Rightarrow> string" where
  "derive_state_kind external_wait_state phase phase_detail command =
     classify_state_kind external_wait_state (phase = PHASE_READY_FOR_BRANCH_COMPLETION) phase_detail
       (state_kind_command_marker command)"

definition derive_state_kind_from_seed :: "string option \<Rightarrow> HarnessPhase \<Rightarrow> string \<Rightarrow> string option \<Rightarrow> string" where
  "derive_state_kind_from_seed external_wait_state harness_phase phase_detail recommended_command =
     classify_state_kind external_wait_state (harness_phase = ReadyForBranchCompletion) phase_detail recommended_command"

definition normalize_state_kind :: "string \<Rightarrow> string" where
  "normalize_state_kind state_kind = trim state_kind"

definition state_kind_is_actionable_public_command :: "string \<Rightarrow> bool" where
  "state_kind_is_actionable_public_command state_kind \<longleftrightarrow>
     normalize_state_kind state_kind = STATE_KIND_ACTIONABLE_PUBLIC_COMMAND"

definition state_kind_is_external_wait :: "string \<Rightarrow> bool" where
  "state_kind_is_external_wait state_kind \<longleftrightarrow> normalize_state_kind state_kind = STATE_KIND_WAITING_EXTERNAL_INPUT"

definition state_kind_is_terminal :: "string \<Rightarrow> bool" where
  "state_kind_is_terminal state_kind \<longleftrightarrow> normalize_state_kind state_kind = STATE_KIND_TERMINAL"

definition state_kind_is_blocked_runtime_bug :: "string \<Rightarrow> bool" where
  "state_kind_is_blocked_runtime_bug state_kind \<longleftrightarrow> normalize_state_kind state_kind = STATE_KIND_BLOCKED_RUNTIME_BUG"

definition state_kind_is_planning_reentry_required :: "string \<Rightarrow> bool" where
  "state_kind_is_planning_reentry_required state_kind \<longleftrightarrow>
     normalize_state_kind state_kind = STATE_KIND_PLANNING_REENTRY_REQUIRED"

definition state_kind_is_runtime_diagnostic :: "string \<Rightarrow> bool" where
  "state_kind_is_runtime_diagnostic state_kind \<longleftrightarrow>
     (let k = normalize_state_kind state_kind in
      k \<noteq> [] \<and> \<not> state_kind_is_actionable_public_command k \<and> \<not> state_kind_is_external_wait k \<and>
      \<not> state_kind_is_terminal k \<and> \<not> state_kind_is_planning_reentry_required k)"

definition state_kind_is_runtime_reconcile_required :: "string \<Rightarrow> bool" where
  "state_kind_is_runtime_reconcile_required state_kind \<longleftrightarrow>
     normalize_state_kind state_kind = STATE_KIND_RUNTIME_RECONCILE_REQUIRED"

definition state_kind_or_phase_is_runtime_diagnostic :: "string \<Rightarrow> string \<Rightarrow> bool" where
  "state_kind_or_phase_is_runtime_diagnostic state_kind phase_detail \<longleftrightarrow>
     state_kind_is_runtime_diagnostic state_kind \<or>
     phase_detail = DETAIL_BLOCKED_RUNTIME_BUG \<or> phase_detail = DETAIL_RUNTIME_RECONCILE_REQUIRED"

definition state_kind_blocks_local_mutation :: "string \<Rightarrow> bool" where
  "state_kind_blocks_local_mutation state_kind \<longleftrightarrow>
     state_kind_is_external_wait state_kind \<or> state_kind_is_terminal state_kind \<or>
     state_kind_is_planning_reentry_required state_kind \<or> state_kind_is_runtime_diagnostic state_kind"

lemmas state_kind_defs =
  state_kind_is_actionable_public_command_def state_kind_is_external_wait_def state_kind_is_terminal_def
  state_kind_is_blocked_runtime_bug_def state_kind_is_planning_reentry_required_def
  state_kind_is_runtime_diagnostic_def state_kind_is_runtime_reconcile_required_def normalize_state_kind_def

lemma trim_state_kind_tokens [simp]:
  "trim ''actionable_public_command'' = ''actionable_public_command''"
  "trim ''waiting_external_input'' = ''waiting_external_input''"
  "trim ''terminal'' = ''terminal''"
  "trim ''blocked_runtime_bug'' = ''blocked_runtime_bug''"
  "trim ''planning_reentry_required'' = ''planning_reentry_required''"
  "trim ''runtime_reconcile_required'' = ''runtime_reconcile_required''"
  by (simp_all add: trim_def trim_start_def trim_end_def is_ws_def)

text \<open>The classification yields a public state kind, and the only kind it yields that lets a local mutation
  through is the actionable one.\<close>

lemma classify_state_kind_public: "classify_state_kind w t d c \<in> set PUBLIC_STATE_KIND_VALUES"
  by (simp add: classify_state_kind_def PUBLIC_STATE_KIND_VALUES_def)

lemma public_state_kind_blocks_iff:
  assumes "k \<in> set PUBLIC_STATE_KIND_VALUES"
  shows "state_kind_blocks_local_mutation k \<longleftrightarrow> k \<noteq> STATE_KIND_ACTIONABLE_PUBLIC_COMMAND"
  using assms by (auto simp: PUBLIC_STATE_KIND_VALUES_def state_kind_blocks_local_mutation_def state_kind_defs)

lemma classify_state_kind_actionable_iff:
  "classify_state_kind w t d c = STATE_KIND_ACTIONABLE_PUBLIC_COMMAND \<longleftrightarrow>
     \<not> external_wait_state_is_external_wait w \<and>
     (c \<noteq> None \<or> d \<in> set RECOMMENDED_COMMAND_OMITTED_PHASE_DETAILS -
        {DETAIL_BLOCKED_RUNTIME_BUG, DETAIL_PLANNING_REENTRY_REQUIRED, DETAIL_RUNTIME_RECONCILE_REQUIRED})"
  by (auto simp: classify_state_kind_def RECOMMENDED_COMMAND_OMITTED_PHASE_DETAILS_def)

lemma bug_and_reconcile_block:
  "state_kind_is_blocked_runtime_bug k \<Longrightarrow> state_kind_blocks_local_mutation k"
  "state_kind_is_runtime_reconcile_required k \<Longrightarrow> state_kind_blocks_local_mutation k"
  by (auto simp: state_kind_blocks_local_mutation_def state_kind_defs)

subsection \<open>Next actions\<close>

definition NEXT_ACTION_RUNTIME_DIAGNOSTIC_REQUIRED :: string where [simp, ff_tokens]:
  "NEXT_ACTION_RUNTIME_DIAGNOSTIC_REQUIRED = ''runtime diagnostic required''"

definition NEXT_ACTION_REPAIR_REVIEW_STATE :: string where [simp, ff_tokens]:
  "NEXT_ACTION_REPAIR_REVIEW_STATE = ''repair review state''"

definition NEXT_ACTION_CONTINUE_EXECUTION :: string where [simp, ff_tokens]:
  "NEXT_ACTION_CONTINUE_EXECUTION = ''continue execution''"

definition NEXT_ACTION_EXECUTION_REENTRY_REQUIRED :: string where [simp, ff_tokens]:
  "NEXT_ACTION_EXECUTION_REENTRY_REQUIRED = ''execution reentry required''"

definition NEXT_ACTION_CLOSE_CURRENT_TASK :: string where [simp, ff_tokens]:
  "NEXT_ACTION_CLOSE_CURRENT_TASK = ''close current task''"

definition NEXT_ACTION_RUN_VERIFICATION :: string where [simp, ff_tokens]:
  "NEXT_ACTION_RUN_VERIFICATION = ''run verification''"

definition NEXT_ACTION_WAIT_FOR_EXTERNAL_REVIEW_RESULT :: string where [simp, ff_tokens]:
  "NEXT_ACTION_WAIT_FOR_EXTERNAL_REVIEW_RESULT = ''wait for external review result''"

definition NEXT_ACTION_RESOLVE_RELEASE_BLOCKER :: string where [simp, ff_tokens]:
  "NEXT_ACTION_RESOLVE_RELEASE_BLOCKER = ''resolve release blocker''"

definition NEXT_ACTION_ADVANCE_LATE_STAGE :: string where [simp, ff_tokens]:
  "NEXT_ACTION_ADVANCE_LATE_STAGE = ''advance late stage''"

definition NEXT_ACTION_REQUEST_FINAL_REVIEW :: string where [simp, ff_tokens]:
  "NEXT_ACTION_REQUEST_FINAL_REVIEW = ''request final review''"

definition NEXT_ACTION_REFRESH_TEST_PLAN :: string where [simp, ff_tokens]:
  "NEXT_ACTION_REFRESH_TEST_PLAN = ''refresh test plan''"

definition NEXT_ACTION_RUN_QA :: string where [simp, ff_tokens]:
  "NEXT_ACTION_RUN_QA = ''run QA''"

definition NEXT_ACTION_FINISH_BRANCH :: string where [simp, ff_tokens]:
  "NEXT_ACTION_FINISH_BRANCH = ''finish branch''"

definition NEXT_ACTION_PLANNING_REENTRY :: string where [simp, ff_tokens]:
  "NEXT_ACTION_PLANNING_REENTRY = ''pivot / return to planning''"

definition NEXT_ACTION_HANDOFF :: string where [simp, ff_tokens]:
  "NEXT_ACTION_HANDOFF = ''hand off''"

definition PUBLIC_NEXT_ACTION_VALUES :: "string list" where
  "PUBLIC_NEXT_ACTION_VALUES =
     [NEXT_ACTION_ADVANCE_LATE_STAGE, NEXT_ACTION_FINISH_BRANCH, NEXT_ACTION_CLOSE_CURRENT_TASK,
      NEXT_ACTION_CONTINUE_EXECUTION, NEXT_ACTION_RUNTIME_DIAGNOSTIC_REQUIRED, NEXT_ACTION_REQUEST_FINAL_REVIEW,
      NEXT_ACTION_EXECUTION_REENTRY_REQUIRED, NEXT_ACTION_HANDOFF, NEXT_ACTION_PLANNING_REENTRY,
      NEXT_ACTION_REFRESH_TEST_PLAN, NEXT_ACTION_REPAIR_REVIEW_STATE, NEXT_ACTION_RESOLVE_RELEASE_BLOCKER,
      NEXT_ACTION_RUN_QA, NEXT_ACTION_RUN_VERIFICATION, NEXT_ACTION_WAIT_FOR_EXTERNAL_REVIEW_RESULT]"

definition runtime_route_is_diagnostic :: "string \<Rightarrow> string \<Rightarrow> bool" where
  "runtime_route_is_diagnostic state_kind phase_detail \<longleftrightarrow>
     state_kind_or_phase_is_runtime_diagnostic state_kind phase_detail"

definition diagnostic_next_action_for_route :: "string \<Rightarrow> string \<Rightarrow> bool \<Rightarrow> bool \<Rightarrow> string option" where
  "diagnostic_next_action_for_route state_kind phase_detail has_public_invocation has_required_inputs =
     (if runtime_route_is_diagnostic state_kind phase_detail \<and> \<not> has_public_invocation \<and> \<not> has_required_inputs
      then Some NEXT_ACTION_RUNTIME_DIAGNOSTIC_REQUIRED else None)"

subsection \<open>The selection of a current task closure\<close>

record CurrentTaskClosureRouteTarget =
  crt_task :: nat
  crt_scope_key :: string
  crt_closure_record_id :: "string option"

definition route_target_from_task :: "nat \<Rightarrow> CurrentTaskClosureRouteTarget" where
  "route_target_from_task task =
     \<lparr>crt_task = task, crt_scope_key = task_scope_key_for_task task, crt_closure_record_id = None\<rparr>"

definition route_target_from_closure :: "PublicReviewStateTaskClosure \<Rightarrow> CurrentTaskClosureRouteTarget" where
  "route_target_from_closure closure =
     \<lparr>crt_task = tc_task closure, crt_scope_key = task_scope_key_for_task (tc_task closure),
      crt_closure_record_id = Some (tc_closure_record_id closure)\<rparr>"

text \<open>\<^verbatim>\<open>Iterator::min_by_key\<close>: the first of the least elements.\<close>

fun min_by :: "('a \<Rightarrow> 'a \<Rightarrow> bool) \<Rightarrow> 'a list \<Rightarrow> 'a option" where
  "min_by lt [] = None"
| "min_by lt (x # xs) = Some (case min_by lt xs of None \<Rightarrow> x | Some y \<Rightarrow> if lt y x then y else x)"

definition current_task_closure_route_target :: "PlanExecutionStatus \<Rightarrow> CurrentTaskClosureRouteTarget option" where
  "current_task_closure_route_target status =
     map_option route_target_from_closure
       (min_by (\<lambda>a b. tc_task a < tc_task b \<or> tc_task a = tc_task b \<and> tc_closure_record_id a < tc_closure_record_id b)
          (st_current_task_closures status))"

definition current_task_closure_route_target_for_task ::
  "PlanExecutionStatus \<Rightarrow> nat \<Rightarrow> CurrentTaskClosureRouteTarget" where
  "current_task_closure_route_target_for_task status task =
     unwrap_or (route_target_from_task task)
       (map_option route_target_from_closure
          (min_by (\<lambda>a b. tc_closure_record_id a < tc_closure_record_id b)
             (filter (\<lambda>closure. tc_task closure = task) (st_current_task_closures status))))"

definition preferred_current_task_closure_route_target ::
  "PlanExecutionStatus \<Rightarrow> nat option \<Rightarrow> CurrentTaskClosureRouteTarget option" where
  "preferred_current_task_closure_route_target status preferred_task =
     opt_or (map_option (current_task_closure_route_target_for_task status) preferred_task)
       (current_task_closure_route_target status)"

subsection \<open>A stale review state without a target\<close>

definition TARGETLESS_STALE_RECONCILE_REASON_CODE :: string where [simp, ff_tokens]:
  "TARGETLESS_STALE_RECONCILE_REASON_CODE = ''stale_unreviewed_target_missing''"

definition TARGETLESS_STALE_MISSING_AUTHORITY_CODE :: string where [simp, ff_tokens]:
  "TARGETLESS_STALE_MISSING_AUTHORITY_CODE = ''missing_authoritative_stale_target''"

definition TARGETLESS_STALE_RECONCILE_PHASE_DETAIL :: string where [simp, ff_tokens]:
  "TARGETLESS_STALE_RECONCILE_PHASE_DETAIL = DETAIL_RUNTIME_RECONCILE_REQUIRED"

definition TARGETLESS_STALE_RECONCILE_DETAIL :: string where
  "TARGETLESS_STALE_RECONCILE_DETAIL =
     ''Review state is stale_unreviewed but no authoritative stale task, branch, or milestone target is bound.''"

definition REASON_NEGATIVE_RESULT_REQUIRES_EXECUTION_REENTRY :: string where [simp, ff_tokens]:
  "REASON_NEGATIVE_RESULT_REQUIRES_EXECUTION_REENTRY = ''negative_result_requires_execution_reentry''"

datatype TargetlessStaleAuthority = TargetlessStaleAuthority (has_authoritative_stale_target: bool)

definition task_closure_baseline_repair_candidate_reason_present :: "PlanExecutionStatus \<Rightarrow> bool" where
  "task_closure_baseline_repair_candidate_reason_present status \<longleftrightarrow>
     list_ex (\<lambda>code. code = TASK_BOUNDARY_REASON_TASK_CLOSURE_BASELINE_REPAIR_CANDIDATE)
       (st_reason_codes status @ st_blocking_reason_codes status)"

definition status_has_concrete_public_stale_target :: "PlanExecutionStatus \<Rightarrow> bool" where
  "status_has_concrete_public_stale_target status \<longleftrightarrow>
     st_blocking_task status \<noteq> None \<or> task_closure_baseline_repair_candidate_reason_present status"

definition missing_reentry_target_requires_reconcile :: "PlanExecutionStatus \<Rightarrow> string \<Rightarrow> bool" where
  "missing_reentry_target_requires_reconcile status review_state_status \<longleftrightarrow>
     review_state_status = REVIEW_STATE_STALE_UNREVIEWED \<or>
     st_review_state_status status = REVIEW_STATE_STALE_UNREVIEWED \<or>
     st_phase_detail status = DETAIL_EXECUTION_REENTRY_REQUIRED"

definition status_needs_marker :: "string \<Rightarrow> string list \<Rightarrow> bool \<Rightarrow> bool \<Rightarrow> bool" where
  "status_needs_marker review_state_status stale_unreviewed_closures concrete_target authoritative_target \<longleftrightarrow>
     review_state_status = REVIEW_STATE_STALE_UNREVIEWED \<and> stale_unreviewed_closures = [] \<and>
     \<not> concrete_target \<and> \<not> authoritative_target"

definition status_needs_marker_with_authority :: "PlanExecutionStatus \<Rightarrow> bool \<Rightarrow> bool" where
  "status_needs_marker_with_authority status authoritative_target \<longleftrightarrow>
     \<not> list_ex (\<lambda>code. code = REASON_NEGATIVE_RESULT_REQUIRES_EXECUTION_REENTRY) (st_reason_codes status) \<and>
     status_needs_marker (st_review_state_status status) (st_stale_unreviewed_closures status)
       (status_has_concrete_public_stale_target status) authoritative_target"

definition status_needs_marker_for_authority :: "PlanExecutionStatus \<Rightarrow> TargetlessStaleAuthority \<Rightarrow> bool" where
  "status_needs_marker_for_authority status authority \<longleftrightarrow>
     status_needs_marker_with_authority status (has_authoritative_stale_target authority)"

definition targetless_from_reason_code :: "string \<Rightarrow> bool" where
  "targetless_from_reason_code reason_code \<longleftrightarrow> reason_code = TARGETLESS_STALE_RECONCILE_REASON_CODE"

definition from_phase_and_reason_codes :: "string \<Rightarrow> string list \<Rightarrow> bool" where
  "from_phase_and_reason_codes phase_detail reason_codes \<longleftrightarrow>
     phase_detail = TARGETLESS_STALE_RECONCILE_PHASE_DETAIL \<and>
     list_ex (\<lambda>code. code = TARGETLESS_STALE_RECONCILE_REASON_CODE) reason_codes"

definition status_has_diagnostic :: "PlanExecutionStatus \<Rightarrow> bool" where
  "status_has_diagnostic status \<longleftrightarrow>
     st_phase_detail status = TARGETLESS_STALE_RECONCILE_PHASE_DETAIL \<and>
     st_review_state_status status = REVIEW_STATE_STALE_UNREVIEWED \<and>
     st_stale_unreviewed_closures status = [] \<and> \<not> status_has_concrete_public_stale_target status \<and>
     TARGETLESS_STALE_RECONCILE_REASON_CODE \<in> set (st_reason_codes status) \<and>
     TARGETLESS_STALE_MISSING_AUTHORITY_CODE \<in> set (st_blocking_reason_codes status)"

definition push_reason_once :: "string list \<Rightarrow> string \<Rightarrow> string list" where
  "push_reason_once reason_codes reason_code =
     (if \<not> list_ex (\<lambda>existing. existing = reason_code) reason_codes then reason_codes @ [reason_code] else reason_codes)"

definition ensure_reason_codes :: "string list \<Rightarrow> string list" where
  "ensure_reason_codes reason_codes =
     push_reason_once (push_reason_once reason_codes TARGETLESS_STALE_RECONCILE_REASON_CODE)
       TARGETLESS_STALE_MISSING_AUTHORITY_CODE"

definition ensure_status_diagnostic :: "PlanExecutionStatus \<Rightarrow> PlanExecutionStatus" where
  "ensure_status_diagnostic status =
     status\<lparr>st_reason_codes := push_reason_once (st_reason_codes status) TARGETLESS_STALE_RECONCILE_REASON_CODE,
       st_blocking_reason_codes := ensure_reason_codes (st_blocking_reason_codes status)\<rparr>"

definition clear_status_diagnostic :: "PlanExecutionStatus \<Rightarrow> PlanExecutionStatus" where
  "clear_status_diagnostic status =
     status\<lparr>st_reason_codes := filter (\<lambda>code. code \<noteq> TARGETLESS_STALE_RECONCILE_REASON_CODE) (st_reason_codes status),
       st_blocking_reason_codes := filter (\<lambda>code. code \<noteq> TARGETLESS_STALE_RECONCILE_REASON_CODE \<and>
          code \<noteq> TARGETLESS_STALE_MISSING_AUTHORITY_CODE) (st_blocking_reason_codes status)\<rparr>"

definition status_blocking_record :: "PlanExecutionStatus \<Rightarrow> StatusBlockingRecord option" where
  "status_blocking_record status =
     (if \<not> status_has_diagnostic status then None
      else Some \<lparr>br_code = TARGETLESS_STALE_RECONCILE_REASON_CODE, br_scope_type = ''runtime'',
        br_scope_key = ''targetless_stale_unreviewed'', br_record_type = ''review_state'', br_record_id = None,
        br_review_state_status = st_review_state_status status, br_required_follow_up = None,
        br_message = TARGETLESS_STALE_RECONCILE_DETAIL\<rparr>)"

lemma set_push_reason_once [simp]: "set (push_reason_once cs c) = insert c (set cs)"
  by (auto simp: push_reason_once_def list_ex_iff)

lemma push_reason_once_mem [simp]: "c \<in> set cs \<Longrightarrow> push_reason_once cs c = cs"
  by (auto simp: push_reason_once_def list_ex_iff)

lemma distinct_push_reason_once [simp]: "distinct (push_reason_once cs c) \<longleftrightarrow> distinct cs"
  by (auto simp: push_reason_once_def list_ex_iff)

lemma set_ensure_reason_codes [simp]:
  "set (ensure_reason_codes cs) =
     insert TARGETLESS_STALE_MISSING_AUTHORITY_CODE (insert TARGETLESS_STALE_RECONCILE_REASON_CODE (set cs))"
  by (simp add: ensure_reason_codes_def)

subsection \<open>The task-boundary decision\<close>

datatype PublicTaskBoundaryState =
    BoundaryClean
  | CurrentClosureMissing
  | CurrentClosureStale
  | NegativeReviewCurrent
  | CycleBreakActive
  | OverlayRestoreRequired
  | TaskClosureRecordingReady
  | ExecutionReentryRequired

record PublicTaskBoundaryDecision =
  tb_task :: "nat option"
  tb_state :: PublicTaskBoundaryState
  tb_public_reason_codes :: "string list"
  tb_diagnostic_reason_codes :: "string list"

text \<open>Appending what is not there yet, in order: the loop \<^verbatim>\<open>if !xs.contains(x) { xs.push(x) }\<close>.\<close>

definition merge_reason_codes :: "string list \<Rightarrow> string list \<Rightarrow> string list" where
  "merge_reason_codes primary secondary = foldl push_reason_once primary secondary"

definition reason_codes_matching :: "(string \<Rightarrow> bool) \<Rightarrow> string list \<Rightarrow> string list" where
  "reason_codes_matching predicate reason_codes = merge_reason_codes [] (filter predicate reason_codes)"

definition task_boundary_projection_diagnostic_reason_codes :: "PlanExecutionStatus \<Rightarrow> string list" where
  "task_boundary_projection_diagnostic_reason_codes status =
     merge_reason_codes
       (reason_codes_matching task_boundary_projection_diagnostic_reason_code (st_reason_codes status))
       (filter task_boundary_projection_diagnostic_reason_code (st_projection_diagnostics status))"

definition public_task_boundary_decision :: "PlanExecutionStatus \<Rightarrow> PublicTaskBoundaryDecision" where
  "public_task_boundary_decision status =
     (let task_scope = st_blocking_step status = None \<and>
            (st_blocking_task status \<noteq> None \<or> st_phase_detail status = DETAIL_TASK_CLOSURE_RECORDING_READY \<or>
             list_ex (\<lambda>code. public_task_boundary_reason_code code \<or>
               task_boundary_projection_diagnostic_reason_code code) (st_reason_codes status));
          public_codes = reason_codes_matching public_task_boundary_reason_code (st_reason_codes status);
          includes = (\<lambda>p. list_ex p public_codes)
      in if \<not> task_scope
         then \<lparr>tb_task = None, tb_state = BoundaryClean, tb_public_reason_codes = [], tb_diagnostic_reason_codes = []\<rparr>
         else \<lparr>tb_task = st_blocking_task status,
           tb_state =
             (if includes task_boundary_cycle_break_reason_code then CycleBreakActive
              else if includes task_boundary_overlay_restore_reason_code then OverlayRestoreRequired
              else if includes task_boundary_negative_review_reason_code then NegativeReviewCurrent
              else if includes task_boundary_current_closure_structural_reason_code then ExecutionReentryRequired
              else if includes task_boundary_current_closure_stale_reason_code then CurrentClosureStale
              else if includes task_boundary_current_closure_missing_reason_code then CurrentClosureMissing
              else if st_phase_detail status = DETAIL_TASK_CLOSURE_RECORDING_READY \<or>
                includes task_boundary_closure_recording_ready_reason_code then TaskClosureRecordingReady
              else BoundaryClean),
           tb_public_reason_codes = public_codes,
           tb_diagnostic_reason_codes = task_boundary_projection_diagnostic_reason_codes status\<rparr>)"

definition push_projection_diagnostic_once :: "PlanExecutionStatus \<Rightarrow> string \<Rightarrow> PlanExecutionStatus" where
  "push_projection_diagnostic_once status reason_code =
     status\<lparr>st_projection_diagnostics := push_reason_once (st_projection_diagnostics status) reason_code\<rparr>"

definition apply_task_boundary_projection_diagnostics :: "PlanExecutionStatus \<Rightarrow> PlanExecutionStatus" where
  "apply_task_boundary_projection_diagnostics status =
     foldl push_projection_diagnostic_once
       (status\<lparr>st_reason_codes := filter (\<lambda>c. \<not> task_boundary_projection_diagnostic_reason_code c) (st_reason_codes status),
          st_projection_diagnostics :=
            filter (\<lambda>c. \<not> task_boundary_projection_diagnostic_reason_code c) (st_projection_diagnostics status)\<rparr>)
       (task_boundary_projection_diagnostic_reason_codes status)"

definition merge_status_projection_diagnostics :: "string list \<Rightarrow> PlanExecutionStatus \<Rightarrow> string list" where
  "merge_status_projection_diagnostics diagnostic_reason_codes status =
     merge_reason_codes diagnostic_reason_codes (st_projection_diagnostics status)"

definition merge_task_boundary_projection_diagnostics :: "string list \<Rightarrow> PlanExecutionStatus \<Rightarrow> string list" where
  "merge_task_boundary_projection_diagnostics diagnostic_reason_codes status =
     merge_reason_codes diagnostic_reason_codes (task_boundary_projection_diagnostic_reason_codes status)"

definition task_closure_recording_blocking_reason_code :: "string \<Rightarrow> bool" where
  "task_closure_recording_blocking_reason_code c \<longleftrightarrow>
     task_boundary_negative_review_reason_code c \<or> task_boundary_current_closure_stale_reason_code c"

definition task_closure_recording_reason_code :: "string \<Rightarrow> bool" where
  "task_closure_recording_reason_code c \<longleftrightarrow> task_closure_recording_blocking_reason_code c"

definition task_closure_recording_status_reason_codes :: "string list \<Rightarrow> string list" where
  "task_closure_recording_status_reason_codes blocking_reason_codes =
     merge_reason_codes [] (filter task_closure_recording_reason_code blocking_reason_codes)"

definition task_closure_dispatch_lineage_reason_code :: "string \<Rightarrow> bool" where
  "task_closure_dispatch_lineage_reason_code c \<longleftrightarrow>
     c = TASK_BOUNDARY_DIAGNOSTIC_REASON_PRIOR_TASK_REVIEW_DISPATCH_MISSING \<or>
     c = TASK_BOUNDARY_DIAGNOSTIC_REASON_PRIOR_TASK_REVIEW_DISPATCH_STALE"

text \<open>The dispatch lineage record of one task, as the overlay holds it.\<close>

record DispatchLineage =
  dl_dispatch_id :: "string option"
  dl_reviewed_state_id :: "string option"
  dl_semantic_reviewed_state_id :: "string option"
  dl_source_task :: "nat option"
  dl_task_completion_lineage_fingerprint :: "string option"

definition task_closure_recording_diagnostic_reason_codes ::
  "nat \<Rightarrow> string option \<Rightarrow> string option \<Rightarrow> (string \<rightharpoonup> DispatchLineage) option \<Rightarrow> string list" where
  "task_closure_recording_diagnostic_reason_codes task dispatch current_state overlay =
     (let lineage = Option.bind overlay (\<lambda>m. m (''task-'' @ show_nat task));
          lineage_dispatch = trim_nonempty (Option.bind lineage dl_dispatch_id);
          lineage_state = trim_nonempty (Option.bind lineage dl_semantic_reviewed_state_id);
          dispatch_id = trim_nonempty dispatch;
          state = trim_nonempty current_state;
          state_matches = (state \<noteq> None \<and> lineage_state \<noteq> None \<and> state = lineage_state);
          first =
            (case (dispatch_id, lineage_dispatch) of
               (None, None) \<Rightarrow> push_reason_once [] TASK_BOUNDARY_DIAGNOSTIC_REASON_PRIOR_TASK_REVIEW_DISPATCH_MISSING
             | (Some d, Some l) \<Rightarrow>
                 if d \<noteq> l then push_reason_once [] TASK_BOUNDARY_DIAGNOSTIC_REASON_PRIOR_TASK_REVIEW_DISPATCH_STALE else []
             | _ \<Rightarrow> push_reason_once [] TASK_BOUNDARY_DIAGNOSTIC_REASON_PRIOR_TASK_REVIEW_DISPATCH_STALE)
      in if dispatch_id \<noteq> None \<and> \<not> state_matches
         then push_reason_once first TASK_BOUNDARY_DIAGNOSTIC_REASON_PRIOR_TASK_REVIEW_DISPATCH_STALE else first)"

end
