(* ===== verification/Public_Command_Correct.thy ===== *)
theory Public_Command_Correct
  imports Public_Command
begin

text \<open>
  A step command names the same step in every form it takes: as an invocation, and as the argument vector
  materialised from its template with the caller's inputs, the reader of
  \<^verbatim>\<open>command_eligibility/execution_target.rs\<close> finds the command, the task and the step.
\<close>

subsection \<open>Flags in an argument vector\<close>

definition flat :: "(string \<times> string) list \<Rightarrow> string list" where
  "flat ps = concat (map (\<lambda>(f, v). [f, v]) ps)"

lemma flat_simps [simp]: "flat [] = []" "flat ((f, v) # ps) = f # v # flat ps" "flat (ps @ qs) = flat ps @ flat qs"
  by (simp_all add: flat_def)

text \<open>A value that can stand behind a flag: it is not read as a flag and is no placeholder.\<close>

definition plain_value :: "string \<Rightarrow> bool" where
  "plain_value v \<longleftrightarrow> value_is_concrete v \<and> \<not> starts_with v ''--''"

definition plain_option :: "string option \<Rightarrow> bool" where
  "plain_option v \<longleftrightarrow> (case v of None \<Rightarrow> True | Some s \<Rightarrow> plain_value s)"

lemma plain_option_simps [simp]: "plain_option None" "plain_option (Some s) \<longleftrightarrow> plain_value s"
  by (simp_all add: plain_option_def)

definition flag_pairs :: "(string \<times> string) list \<Rightarrow> bool" where
  "flag_pairs ps \<longleftrightarrow> list_all (\<lambda>(f, v). starts_with f ''--'' \<and> plain_value v) ps"

lemma flag_pairs_simps [simp]:
  "flag_pairs []" "flag_pairs ((f, v) # ps) \<longleftrightarrow> starts_with f ''--'' \<and> plain_value v \<and> flag_pairs ps"
  "flag_pairs (ps @ qs) \<longleftrightarrow> flag_pairs ps \<and> flag_pairs qs"
  by (simp_all add: flag_pairs_def)

lemma flag_value_flat:
  "flag_pairs ps \<Longrightarrow> starts_with flag ''--'' \<Longrightarrow> flag_value (flat ps) flag = map_of ps flag"
proof (induction ps)
  case Nil
  show ?case by simp
next
  case (Cons p ps)
  obtain f v where p: "p = (f, v)" by fastforce
  have plain: "\<not> starts_with v ''--''" "v \<noteq> flag" "flag_pairs ps"
    using Cons.prems by (auto simp: p plain_value_def)
  have "flag_value (v # flat ps) flag = flag_value (flat ps) flag"
    using plain(2) by (cases ps) auto
  then show ?case
    using Cons plain by (simp add: p)
qed

lemma map_of_pairs_plain: "flag_pairs ps \<Longrightarrow> map_of ps flag = Some v \<Longrightarrow> plain_value v"
  by (auto simp: flag_pairs_def list_all_iff dest: map_of_SomeD)

lemma concrete_flag_value_flat:
  assumes "flag_pairs ps" "starts_with flag ''--''"
  shows "concrete_flag_value (flat ps) flag = map_of ps flag"
proof (cases "map_of ps flag")
  case None
  then show ?thesis by (simp add: concrete_flag_value_def flag_value_flat [OF assms])
next
  case (Some v)
  then show ?thesis
    using map_of_pairs_plain [OF assms(1)] by (simp add: concrete_flag_value_def flag_value_flat [OF assms] plain_value_def)
qed

lemma show_nat_head: "\<exists>c cs. show_nat n = c # cs \<and> is_digit c \<and> is_digit (last (c # cs))"
proof -
  have "show_nat n \<noteq> []" "list_all is_digit (show_nat n)"
    by (simp_all add: show_nat_digits)
  then show ?thesis
    by (cases "show_nat n") (auto simp: list_all_iff)
qed

lemma digit_not_special: "is_digit c \<Longrightarrow> c \<noteq> CHR ''-'' \<and> c \<noteq> CHR ''<'' \<and> c \<noteq> CHR ''p'' \<and> c \<noteq> CHR ''r'' \<and> c \<noteq> CHR ''t''"
  by (auto simp: is_digit_def)

lemma str_contains_mem: "str_contains s pat \<Longrightarrow> set pat \<subseteq> set s"
  unfolding str_contains_def list_ex_iff by (metis in_set_dropD in_set_takeD subsetI)

lemma plain_show_nat [simp]: "plain_value (show_nat n)"
proof -
  obtain c cs where s: "show_nat n = c # cs" "is_digit c" using show_nat_head by blast
  have "CHR ''['' \<notin> set (show_nat n)"
    using show_nat_digits [of n] by (auto simp: list_all_iff is_digit_def)
  then have no_phrase: "\<not> str_contains (c # cs) ''[when verification ran]''"
    using str_contains_mem [of "show_nat n" "''[when verification ran]''"] unfolding s(1) by auto
  have "trim (c # cs) = c # cs"
    using trim_show_nat [of n] unfolding s(1) .
  then show ?thesis
    unfolding s(1) plain_value_def value_is_concrete_def value_is_template_placeholder_def
    using digit_not_special [OF s(2)] no_phrase by (simp add: starts_with_def)
qed

subsection \<open>Templates\<close>

definition plain_inputs :: "PublicCommandInputValues \<Rightarrow> bool" where
  "plain_inputs inputs \<longleftrightarrow> list_all (\<lambda>(n, v). plain_value (trim v)) inputs"

lemma plain_input: "plain_inputs inputs \<Longrightarrow> map_of inputs n = Some v \<Longrightarrow> plain_value (trim v)"
  by (auto simp: plain_inputs_def list_all_iff dest: map_of_SomeD)

lemma input_binding_table:
  "public_command_input_binding ''verification_mode'' = Some \<lparr>ib_kind = BindVirtual, ib_flag = None\<rparr>"
  "public_command_input_binding ''owner'' = Some (flag_binding ''--to'')"
  "public_command_input_binding ''task'' = Some (flag_binding ''--task'')"
  "public_command_input_binding ''source'' = Some (flag_binding ''--source'')"
  "public_command_input_binding ''reason'' = Some (flag_binding ''--reason'')"
  "public_command_input_binding ''expect_execution_fingerprint'' = Some (flag_binding ''--expect-execution-fingerprint'')"
  "public_command_input_binding ''claim'' = Some (flag_binding ''--claim'')"
  "public_command_input_binding ''manual_verify_summary'' = Some (flag_binding ''--manual-verify-summary'')"
  "public_command_input_binding ''verify_command'' = Some (flag_binding ''--verify-command'')"
  "public_command_input_binding ''verify_result'' = Some (flag_binding ''--verify-result'')"
  "public_command_input_binding ''scope'' = Some (flag_binding ''--scope'')"
  "public_command_input_binding ''review_result'' = Some (flag_binding ''--review-result'')"
  "public_command_input_binding ''review_summary_file'' = Some (flag_binding ''--review-summary-file'')"
  "public_command_input_binding ''verification_result'' = Some (flag_binding ''--verification-result'')"
  "public_command_input_binding ''verification_summary_file'' = Some (flag_binding ''--verification-summary-file'')"
  "public_command_input_binding ''result'' = Some (flag_binding ''--result'')"
  "public_command_input_binding ''summary_file'' = Some (flag_binding ''--summary-file'')"
  "public_command_input_binding ''reviewer_source'' = Some (flag_binding ''--reviewer-source'')"
  "public_command_input_binding ''reviewer_id'' = Some (flag_binding ''--reviewer-id'')"
  by (simp_all add: public_command_input_binding_def input_flags_def)

text \<open>Every input a command can require has its binding, so a template is always built.\<close>

lemmas input_defs =
  missing_source_input_def missing_text_input_def verification_inputs_def close_current_task_result_inputs_def
  input_text_def input_text_when_def input_enum_def input_execution_source_def input_existing_path_def
  input_existing_path_when_def

definition all_bound :: "PublicCommandInputRequirement list \<Rightarrow> bool" where
  "all_bound inputs \<longleftrightarrow> list_all (\<lambda>i. public_command_input_binding (ir_name i) \<noteq> None) inputs"

lemma all_bound_simps [simp]:
  "all_bound []" "all_bound (xs @ ys) \<longleftrightarrow> all_bound xs \<and> all_bound ys"
  "all_bound (i # xs) \<longleftrightarrow> public_command_input_binding (ir_name i) \<noteq> None \<and> all_bound xs"
  by (simp_all add: all_bound_def)

lemma late_stage_inputs_bound: "all_bound (late_stage_inputs mode)"
  by (cases mode) (simp_all add: input_defs input_binding_table)

lemma required_inputs_bound: "all_bound (required_inputs c)"
  by (cases c) (simp_all add: input_defs input_binding_table late_stage_inputs_bound)

lemma input_template_never_panics: "\<exists>t. to_input_template c = Inr t"
proof -
  have "all_bound inputs \<Longrightarrow> \<exists>bindings. collect_results public_command_template_input inputs = Inr bindings" for inputs
    by (induction inputs) (auto simp: public_command_template_input_def)
  then obtain bindings where "collect_results public_command_template_input (required_inputs c) = Inr bindings"
    using required_inputs_bound by blast
  then show ?thesis
    by (simp add: to_input_template_def Let_def)
qed

subsection \<open>The flags a materialised template passes\<close>

lemma collect_results_rel: "collect_results f xs = Inr ys \<longleftrightarrow> list_all2 (\<lambda>x y. f x = Inr y) xs ys"
  by (induction xs arbitrary: ys) (auto simp: list_all2_Cons1 res_bind_Inr split: sum.splits)

text \<open>The flag a template input passes on, if its condition holds.\<close>

definition active_flag :: "PublicCommandInputValues \<Rightarrow> PublicCommandTemplateInput \<Rightarrow> string \<Rightarrow> bool" where
  "active_flag inputs b f \<longleftrightarrow>
     input_requirement_is_active b inputs = Inr True \<and> ib_kind (ti_binding b) = BindFlag \<and> ib_flag (ti_binding b) = Some f"

definition dashed :: "PublicCommandTemplateInput \<Rightarrow> bool" where
  "dashed b \<longleftrightarrow> is_none_or (ib_flag (ti_binding b)) (\<lambda>f. starts_with f ''--'')"

lemma bound_args_pairs:
  assumes "bound_args inputs b = Inr args" "plain_inputs inputs" "dashed b"
  obtains qs where "args = flat qs" "flag_pairs qs" "fst ` set qs = Collect (active_flag inputs b)"
proof -
  obtain active where a: "input_requirement_is_active b inputs = Inr active"
    using assms(1) by (auto simp: bound_args_def res_bind_Inr)
  show thesis
  proof (cases "active \<and> ib_kind (ti_binding b) = BindFlag")
    case False
    then have "args = []"
      using assms(1) a by (cases "ib_kind (ti_binding b)") (auto simp: bound_args_def res_bind_Inr split: if_splits)
    then show thesis
      using False a that [of "[]"] by (auto simp: active_flag_def)
  next
    case True
    then obtain v flag where v: "args = [flag, trim v]" "ib_flag (ti_binding b) = Some flag"
        "required_bound_input_value b inputs = Inr v"
      using assms(1) a by (auto simp: bound_args_def res_bind_Inr split: option.splits)
    then have "map_of inputs (ti_name b) = Some v"
      by (auto simp: required_bound_input_value_def split: option.splits if_splits)
    then have "plain_value (trim v)" using plain_input [OF assms(2)] by blast
    moreover have "starts_with flag ''--''" using assms(3) v(2) by (simp add: dashed_def)
    moreover have "Collect (active_flag inputs b) = {flag}"
      using v(2) True a by (auto simp: active_flag_def)
    ultimately show thesis
      using that [of "[(flag, trim v)]"] v(1) by simp
  qed
qed

lemma bound_args_list_pairs:
  assumes "collect_results (bound_args inputs) bs = Inr argss" "plain_inputs inputs" "list_all dashed bs"
  shows "\<exists>qs. concat argss = flat qs \<and> flag_pairs qs \<and> fst ` set qs = {f. \<exists>b\<in>set bs. active_flag inputs b f}"
proof -
  have "list_all2 (\<lambda>b args. bound_args inputs b = Inr args) bs argss \<Longrightarrow> list_all dashed bs \<Longrightarrow> ?thesis"
  proof (induction rule: list_all2_induct)
    case Nil
    show ?case by (intro exI [of _ "[]"]) simp
  next
    case (Cons b bs args argss)
    then obtain qs where qs: "concat argss = flat qs" "flag_pairs qs"
        "fst ` set qs = {f. \<exists>b\<in>set bs. active_flag inputs b f}" by auto
    from Cons(1) assms(2) Cons(4) obtain ps where ps: "args = flat ps" "flag_pairs ps"
        "fst ` set ps = Collect (active_flag inputs b)"
      by (auto elim: bound_args_pairs)
    show ?case
      by (intro exI [of _ "ps @ qs"]) (use ps qs in \<open>auto simp: image_Un\<close>)
  qed
  then show ?thesis
    using assms(1,3) by (simp add: collect_results_rel)
qed

text \<open>The template input made of a requirement.\<close>

definition template_input :: "PublicCommandInputRequirement \<Rightarrow> PublicCommandTemplateInput" where
  "template_input i =
     \<lparr>ti_name = ir_name i, ti_kind = ir_kind i, ti_binding = the (public_command_input_binding (ir_name i)),
      ti_values = ir_values i, ti_must_exist = ir_must_exist i, ti_required_when = ir_required_when i,
      ti_shell_escape_by_caller = False\<rparr>"

lemma template_bindings:
  "all_bound inputs \<Longrightarrow> collect_results public_command_template_input inputs = Inr (map template_input inputs)"
  by (induction inputs) (auto simp: public_command_template_input_def template_input_def)

lemma to_input_template_eq:
  "to_input_template c =
     (if required_inputs c = [] then Inr None
      else Inr (Some \<lparr>ct_command_kind = command_kind_name c, ct_base_argv = to_template_base_argv c,
        ct_required_input_names = map ir_name (required_inputs c),
        ct_input_bindings = map template_input (required_inputs c)\<rparr>))"
  by (simp add: to_input_template_def template_bindings required_inputs_bound Let_def)

lemma template_input_dashed: "public_command_input_binding (ir_name i) \<noteq> None \<Longrightarrow> dashed (template_input i)"
  by (auto simp: template_input_def dashed_def public_command_input_binding_def input_flags_def flag_binding_def
      starts_with_def split: if_splits)

text \<open>What the caller runs: the invocation, or the template with the inputs filled in.\<close>

definition runnable :: "PublicCommand \<Rightarrow> PublicCommandInputValues \<Rightarrow> string list \<Rightarrow> bool" where
  "runnable c inputs argv \<longleftrightarrow>
     to_invocation c = Some argv \<or>
     (\<exists>t. to_input_template c = Inr (Some t) \<and> materialize_public_command_argv t inputs = Inr argv)"

lemma runnable_argv:
  assumes "runnable c inputs argv" "plain_inputs inputs" "to_template_base_argv c = to_base_argv c"
  obtains qs where "argv = to_base_argv c @ flat qs" "flag_pairs qs"
    "fst ` set qs = {f. \<exists>i\<in>set (required_inputs c). active_flag inputs (template_input i) f}"
    "\<forall>i\<in>set (required_inputs c). \<exists>args. bound_args inputs (template_input i) = Inr args"
proof (cases "required_inputs c = []")
  case True
  then have "argv = to_base_argv c"
    using assms(1) by (auto simp: runnable_def to_input_template_eq to_invocation_def split: if_splits)
  then show thesis using True that [of "[]"] by simp
next
  case False
  let ?bs = "map template_input (required_inputs c)"
  obtain argss where argss: "collect_results (bound_args inputs) ?bs = Inr argss" "argv = to_base_argv c @ concat argss"
    using assms(1,3) False
    by (auto simp: runnable_def to_input_template_eq to_invocation_def materialize_public_command_argv_def res_bind_Inr)
  have "list_all dashed ?bs"
    using required_inputs_bound [of c] by (auto simp: all_bound_def list_all_iff intro!: template_input_dashed)
  then obtain qs where "concat argss = flat qs" "flag_pairs qs" "fst ` set qs = {f. \<exists>b\<in>set ?bs. active_flag inputs b f}"
    using bound_args_list_pairs [OF argss(1) assms(2)] by blast
  moreover have "\<forall>i\<in>set (required_inputs c). \<exists>args. bound_args inputs (template_input i) = Inr args"
    using argss(1) by (fastforce simp: collect_results_rel list_all2_map1 list_all2_conv_all_nth in_set_conv_nth)
  ultimately show thesis using that argss(2) by simp
qed

subsection \<open>Reading the step back\<close>

lemma map_of_flag: "flag \<in> fst ` set ps \<Longrightarrow> \<exists>v. map_of ps flag = Some v"
  by (metis map_of_eq_None_iff not_None_eq)

lemma target_of_flat:
  assumes "from_execution_mutation_name name = Some k" "flag_pairs ps"
    and "map_of ps ''--plan'' = Some plan" "map_of ps ''--task'' = Some (show_nat task)"
    and "map_of ps ''--step'' = Some (show_nat step)" "task \<le> u32_max" "step \<le> u32_max"
    and "require_executable_execution_args k (flat ps)"
  shows "execution_target_from_public_argv ([''featureforge'', ''plan'', ''execution'', name] @ flat ps) =
    Some \<lparr>et_kind = k, et_task = task, et_step = step\<rparr>"
  using assms
  by (simp add: execution_target_from_public_argv_def execution_target_from_public_argv_with_shape_def Let_def
      concrete_flag_value_flat starts_with_def parse_uint_show_nat)

definition opt_pair :: "string \<Rightarrow> string option \<Rightarrow> (string \<times> string) list" where
  "opt_pair flag v = (case v of None \<Rightarrow> [] | Some s \<Rightarrow> [(flag, s)])"

lemma push_optional_flag_flat: "push_optional_flag flag v = flat (opt_pair flag v)"
  by (simp add: push_optional_flag_def opt_pair_def split: option.split)

lemma opt_pair_simps [simp]:
  "opt_pair flag None = []" "opt_pair flag (Some s) = [(flag, s)]"
  by (simp_all add: opt_pair_def)

lemma flag_pairs_opt: "starts_with flag ''--'' \<Longrightarrow> flag_pairs (opt_pair flag v) \<longleftrightarrow> plain_option v"
  by (cases v) simp_all

definition step_pairs :: "string \<Rightarrow> nat \<Rightarrow> nat \<Rightarrow> (string \<times> string) list" where
  "step_pairs plan task step = [(''--plan'', plan), (''--task'', show_nat task), (''--step'', show_nat step)]"

fun command_values :: "PublicCommand \<Rightarrow> string option list" where
  "command_values (PublicBegin plan _ _ execution_mode fp) = [Some plan, execution_mode, fp]"
| "command_values (PublicComplete plan _ _ source fp) = [Some plan, source, fp]"
| "command_values (PublicReopen plan _ _ source reason fp) = [Some plan, source, reason, fp]"
| "command_values _ = []"

fun command_pairs :: "PublicCommand \<Rightarrow> (string \<times> string) list" where
  "command_pairs (PublicBegin plan task step execution_mode fp) =
     step_pairs plan task step @ opt_pair ''--execution-mode'' execution_mode @ opt_pair ''--expect-execution-fingerprint'' fp"
| "command_pairs (PublicComplete plan task step source fp) =
     step_pairs plan task step @ opt_pair ''--source'' source @ opt_pair ''--expect-execution-fingerprint'' fp"
| "command_pairs (PublicReopen plan task step source reason fp) =
     step_pairs plan task step @ opt_pair ''--source'' source @ opt_pair ''--reason'' reason @
     opt_pair ''--expect-execution-fingerprint'' fp"
| "command_pairs _ = []"

lemma step_command_argv:
  assumes "is_execution_mutation (command_kind c)"
  shows "to_base_argv c = [''featureforge'', ''plan'', ''execution'', the (public_mutation_name (command_kind c))] @ flat (command_pairs c)"
    and "to_template_base_argv c = to_base_argv c"
  using assms
  by (cases c; simp add: to_base_argv_def to_template_base_argv_def push_execution_task_step_args_def
      push_optional_flag_flat step_pairs_def)+

lemma command_pairs_plain:
  "list_all plain_option (command_values c) \<Longrightarrow> flag_pairs (command_pairs c)"
  by (cases c) (simp_all add: step_pairs_def flag_pairs_opt starts_with_def)

lemma command_pairs_target:
  assumes "is_execution_mutation (command_kind c)" "to_mutation_request c = Some r"
  shows "\<exists>plan. map_of (command_pairs c @ qs) ''--plan'' = Some plan"
    and "map_of (command_pairs c @ qs) ''--task'' = map_option show_nat (mr_task r)"
    and "map_of (command_pairs c @ qs) ''--step'' = map_option show_nat (mr_step r)"
  using assms by (cases c; force simp: step_pairs_def request_defs)+

text \<open>The option a command leaves open, or fills with a placeholder, is an input; otherwise the command passes it.\<close>

lemma option_or_input:
  assumes "concrete_optional_value v = None \<Longrightarrow> flag \<in> F"
  shows "flag \<in> fst ` set (opt_pair flag v) \<union> F"
  using assms by (cases v) (simp_all add: concrete_optional_value_def)

lemma active_text:
  "public_command_input_binding n = Some (flag_binding f) \<Longrightarrow>
     active_flag inputs (template_input (input_text n)) g \<longleftrightarrow> g = f"
  by (auto simp: active_flag_def template_input_def input_text_def input_requirement_is_active_def flag_binding_def)

lemma active_source: "active_flag inputs (template_input (input_execution_source ''source'')) g \<longleftrightarrow> g = ''--source''"
  by (auto simp: active_flag_def template_input_def input_execution_source_def input_enum_def
      input_requirement_is_active_def flag_binding_def input_binding_table)

lemma mode_conditions:
  "split_once_str ''!='' ''verification_mode=manual_summary'' = None"
  "split_once_str ''!='' ''verification_mode=command_result'' = None"
  "split_once CHR ''='' ''verification_mode=manual_summary'' = Some (''verification_mode'', ''manual_summary'')"
  "split_once CHR ''='' ''verification_mode=command_result'' = Some (''verification_mode'', ''command_result'')"
  "trim ''verification_mode'' = ''verification_mode''" "trim ''manual_summary'' = ''manual_summary''"
  "trim ''command_result'' = ''command_result''"
  by code_simp+

lemma active_mode: "\<not> active_flag inputs (template_input (input_enum ''verification_mode'' vs)) g"
  by (simp add: active_flag_def template_input_def input_enum_def input_binding_table)

definition mode_choice :: "string \<Rightarrow> string \<Rightarrow> bool" where
  "mode_choice chosen condition \<longleftrightarrow>
     chosen = ''manual_summary'' \<and> condition = ''verification_mode=manual_summary'' \<or>
     chosen = ''command_result'' \<and> condition = ''verification_mode=command_result''"

lemma condition_active:
  assumes "ti_required_when b = Some w" "split_once_str ''!='' w = None" "split_once CHR ''='' w = Some (k, e)"
    and "map_of inputs (trim k) = Some m"
  shows "input_requirement_is_active b inputs = Inr (trim m = trim e)"
  using assms by (simp add: input_requirement_is_active_def required_bound_controller_value_def)

lemma active_when:
  assumes "public_command_input_binding n = Some (flag_binding f)" "map_of inputs ''verification_mode'' = Some mode"
    and "mode_choice chosen condition"
  shows "active_flag inputs (template_input (input_text_when n condition)) g \<longleftrightarrow> g = f \<and> trim mode = chosen"
proof -
  let ?b = "template_input (input_text_when n condition)"
  have cond: "ti_required_when ?b = Some condition" "ti_binding ?b = flag_binding f"
    using assms(1) by (simp_all add: template_input_def input_text_when_def input_text_def)
  have "input_requirement_is_active ?b inputs = Inr (trim mode = chosen)"
    using assms(3) condition_active [OF cond(1), where k = "''verification_mode''" and e = chosen and inputs = inputs and m = mode]
    unfolding mode_choice_def mode_conditions(5) by (elim disjE conjE) (simp_all only: mode_conditions assms(2) simp_thms)
  then show ?thesis
    using cond(2) by (auto simp: active_flag_def flag_binding_def)
qed

lemma active_verification:
  assumes "map_of inputs ''verification_mode'' = Some mode"
  shows "(\<exists>i\<in>set verification_inputs. active_flag inputs (template_input i) g) \<longleftrightarrow>
    g = ''--manual-verify-summary'' \<and> trim mode = ''manual_summary'' \<or>
    (g = ''--verify-command'' \<or> g = ''--verify-result'') \<and> trim mode = ''command_result''"
proof -
  have choice: "mode_choice ''manual_summary'' ''verification_mode=manual_summary''"
      "mode_choice ''command_result'' ''verification_mode=command_result''"
    by (simp_all add: mode_choice_def)
  show ?thesis
    unfolding verification_inputs_def list.set bex_simps
    by (simp only: bex_simps active_mode simp_thms active_when [OF input_binding_table(8) assms choice(1)]
        active_when [OF input_binding_table(9) assms choice(2)] active_when [OF input_binding_table(10) assms choice(2)]) blast
qed

lemma bound_mode:
  assumes "bound_args inputs (template_input (input_enum ''verification_mode'' [''manual_summary'', ''command_result''])) = Inr args"
  obtains mode where "map_of inputs ''verification_mode'' = Some mode"
    "trim mode = ''manual_summary'' \<or> trim mode = ''command_result''"
  using assms
  by (auto simp: bound_args_def template_input_def input_enum_def input_requirement_is_active_def input_binding_table
      res_bind_Inr required_bound_input_value_def validate_bound_input_value_def split: option.splits if_splits)

definition given :: "(string \<times> string) list \<Rightarrow> string \<Rightarrow> bool" where
  "given ps flag \<longleftrightarrow> flag \<in> fst ` set ps"

lemma given_iff:
  "flag_pairs ps \<Longrightarrow> starts_with flag ''--'' \<Longrightarrow> (\<exists>v. concrete_flag_value (flat ps) flag = Some v) \<longleftrightarrow> given ps flag"
  by (simp add: concrete_flag_value_flat given_def) (metis map_of_eq_None_iff not_None_eq)

lemma given_append [simp]: "given (ps @ qs) flag \<longleftrightarrow> given ps flag \<or> given qs flag"
  by (simp add: given_def image_Un)

lemma given_opt_pair: "given (opt_pair f v) flag \<longleftrightarrow> v \<noteq> None \<and> flag = f"
  by (cases v) (auto simp: given_def)

lemma given_step_pairs: "given (step_pairs plan task step) flag \<longleftrightarrow> flag \<in> {''--plan'', ''--task'', ''--step''}"
  by (auto simp: given_def step_pairs_def)

lemma open_option: "concrete_optional_value v = None \<or> v \<noteq> None"
  by (cases v) (simp_all add: concrete_optional_value_def)

text \<open>Every option the reader insists on is passed by the command or by its inputs.\<close>

lemma step_arguments_complete:
  assumes "is_execution_mutation (command_kind c)" "list_all plain_option (command_values c)"
    and "flag_pairs qs" "\<And>f. given qs f \<longleftrightarrow> (\<exists>i\<in>set (required_inputs c). active_flag inputs (template_input i) f)"
    and "\<forall>i\<in>set (required_inputs c). \<exists>args. bound_args inputs (template_input i) = Inr args"
  shows "require_executable_execution_args (command_kind c) (flat (command_pairs c @ qs))"
proof -
  define ps where "ps = command_pairs c @ qs"
  have plain: "flag_pairs ps" using command_pairs_plain [OF assms(2)] assms(3) by (simp add: ps_def)
  note has = given_iff [OF plain]
  have by_text: "\<And>n f. input_text n \<in> set (required_inputs c) \<Longrightarrow> public_command_input_binding n = Some (flag_binding f) \<Longrightarrow> given qs f"
    using assms(4) active_text by blast
  have source: "input_execution_source ''source'' \<in> set (required_inputs c) \<Longrightarrow> given qs ''--source''"
    using assms(4) active_source by blast
  have "require_executable_execution_args (command_kind c) (flat ps)"
  proof (cases c)
    case (PublicBegin plan task step mode fp)
    have "given ps ''--expect-execution-fingerprint''"
      using open_option [of fp] by_text [of "''expect_execution_fingerprint''", OF _ input_binding_table(6)]
      by (auto simp: PublicBegin ps_def given_opt_pair missing_text_input_def)
    then show ?thesis
      using has [of "''--expect-execution-fingerprint''"]
      by (simp add: PublicBegin [THEN arg_cong, of command_kind] require_executable_execution_args_def starts_with_def)
  next
    case (PublicReopen plan task step src reason fp)
    have "given ps ''--expect-execution-fingerprint''" "given ps ''--reason''" "given ps ''--source''"
      using open_option [of fp] by_text [of "''expect_execution_fingerprint''", OF _ input_binding_table(6)]
        open_option [of reason] by_text [of "''reason''", OF _ input_binding_table(5)] open_option [of src] source
      by (auto simp: PublicReopen ps_def given_opt_pair missing_text_input_def missing_source_input_def)
    then show ?thesis
      using has [of "''--expect-execution-fingerprint''"] has [of "''--reason''"] has [of "''--source''"]
      by (simp add: PublicReopen [THEN arg_cong, of command_kind] require_executable_execution_args_def starts_with_def)
  next
    case (PublicComplete plan task step src fp)
    have "given ps ''--expect-execution-fingerprint''" "given ps ''--claim''" "given ps ''--source''"
      using open_option [of fp] by_text [of "''expect_execution_fingerprint''", OF _ input_binding_table(6)]
        by_text [of "''claim''", OF _ input_binding_table(7)] open_option [of src] source
      by (auto simp: PublicComplete ps_def given_opt_pair missing_text_input_def missing_source_input_def)
    moreover obtain mode where mode: "map_of inputs ''verification_mode'' = Some mode"
        "trim mode = ''manual_summary'' \<or> trim mode = ''command_result''"
      using assms(5) bound_mode by (auto simp: PublicComplete verification_inputs_def)
    have verification: "(\<exists>i\<in>set verification_inputs. active_flag inputs (template_input i) g) \<longleftrightarrow>
        g = ''--manual-verify-summary'' \<and> trim mode = ''manual_summary'' \<or>
        (g = ''--verify-command'' \<or> g = ''--verify-result'') \<and> trim mode = ''command_result''" for g
      by (rule active_verification [OF mode(1)])
    have "given ps g \<longleftrightarrow> (\<exists>i\<in>set verification_inputs. active_flag inputs (template_input i) g)"
      if "g \<notin> {''--plan'', ''--task'', ''--step'', ''--source'', ''--claim'', ''--expect-execution-fingerprint''}" for g
      using that assms(4) [of g]
      by (simp add: PublicComplete ps_def given_opt_pair given_step_pairs missing_text_input_def missing_source_input_def
          active_text [OF input_binding_table(6)] active_text [OF input_binding_table(7)] active_source bex_Un)
    then have "given ps ''--manual-verify-summary'' \<longleftrightarrow> trim mode = ''manual_summary''"
      "given ps ''--verify-command'' \<longleftrightarrow> trim mode = ''command_result''"
      "given ps ''--verify-result'' \<longleftrightarrow> trim mode = ''command_result''"
      by (simp_all add: verification)
    ultimately show ?thesis
      using mode(2) has [of "''--expect-execution-fingerprint''"] has [of "''--claim''"] has [of "''--source''"]
        has [of "''--manual-verify-summary''"] has [of "''--verify-command''"] has [of "''--verify-result''"]
      by (auto simp: PublicComplete [THEN arg_cong, of command_kind] require_executable_execution_args_def starts_with_def
          require_exactly_one_complete_verification_mode_def Let_def)
  qed (use assms(1) in simp_all)
  then show ?thesis by (simp only: ps_def)
qed

lemma runnable_target:
  assumes "to_mutation_request c = Some r" "is_execution_mutation (mr_kind r)"
    and "mr_task r = Some task" "mr_step r = Some step" "task \<le> u32_max" "step \<le> u32_max"
    and "list_all plain_option (command_values c)" "plain_inputs inputs"
    and "runnable c inputs argv"
  shows "execution_target_from_public_argv argv = Some \<lparr>et_kind = mr_kind r, et_task = task, et_step = step\<rparr>"
proof -
  have kind: "command_kind c = mr_kind r"
    using assms(1) by (cases c) (auto simp: request_defs)
  then have c: "is_execution_mutation (command_kind c)" using assms(2) by simp
  obtain qs where qs: "argv = to_base_argv c @ flat qs" "flag_pairs qs"
      "fst ` set qs = {f. \<exists>i\<in>set (required_inputs c). active_flag inputs (template_input i) f}"
      "\<forall>i\<in>set (required_inputs c). \<exists>args. bound_args inputs (template_input i) = Inr args"
    using assms(9) assms(8) step_command_argv(2) [OF c] by (rule runnable_argv)
  let ?name = "the (public_mutation_name (command_kind c))"
  have "from_execution_mutation_name ?name = Some (command_kind c)"
    using c by (cases c) (simp_all add: from_execution_mutation_name_def)
  moreover have "flag_pairs (command_pairs c @ qs)"
    using command_pairs_plain [OF assms(7)] qs(2) by simp
  moreover have "require_executable_execution_args (command_kind c) (flat (command_pairs c @ qs))"
    using c assms(7) qs by (intro step_arguments_complete) (auto simp: given_def)
  ultimately have "execution_target_from_public_argv
      ([''featureforge'', ''plan'', ''execution'', ?name] @ flat (command_pairs c @ qs)) =
      Some \<lparr>et_kind = command_kind c, et_task = task, et_step = step\<rparr>"
    using command_pairs_target [OF c assms(1), of qs] assms(3-6) by (elim exE) (rule target_of_flat, simp_all)
  then show ?thesis
    using step_command_argv(1) [OF c] by (simp add: qs(1) kind)
qed

text \<open>C9: a step command (begin, complete, reopen) names its step in every form the caller can run.  The argument
  vector of its invocation, or the one materialised from its template with the caller's inputs, is read back as
  the same command with the same task and step, provided the values of the command and of the inputs are no
  placeholders and do not start like a flag.  Building the template never panics.\<close>

lemma runnable_command_names_its_step:
  assumes "to_mutation_request c = Some r" "is_execution_mutation (mr_kind r)"
    and "mr_task r = Some task" "mr_step r = Some step" "task \<le> u32_max" "step \<le> u32_max"
    and "list_all plain_option (command_values c)" "plain_inputs inputs"
    and "to_invocation c = Some argv \<or>
      (\<exists>t. to_input_template c = Inr (Some t) \<and> materialize_public_command_argv t inputs = Inr argv)"
  shows "(\<exists>t. to_input_template c = Inr t) \<and>
    execution_target_from_public_argv argv = Some \<lparr>et_kind = mr_kind r, et_task = task, et_step = step\<rparr>"
  using input_template_never_panics runnable_target [OF assms(1-8)] assms(9) by (simp add: runnable_def)

text \<open>A completion whose claim and manual summary are given.\<close>

definition sample_completion :: PublicCommand where
  "sample_completion = PublicComplete ''plan.md'' 2 1 (Some ''featureforge:executing-plans'') (Some ''fp'')"

definition sample_inputs :: PublicCommandInputValues where
  "sample_inputs = [(''claim'', ''done''), (''manual_verify_summary'', ''ok''), (''verification_mode'', ''manual_summary'')]"

definition sample_argv :: "string list" where
  "sample_argv =
     [''featureforge'', ''plan'', ''execution'', ''complete'', ''--plan'', ''plan.md'', ''--task'', ''2'', ''--step'', ''1'',
      ''--source'', ''featureforge:executing-plans'', ''--expect-execution-fingerprint'', ''fp'', ''--claim'', ''done'',
      ''--manual-verify-summary'', ''ok'']"

lemma runnable_command_names_its_step_witness:
  "execution_target_from_public_argv sample_argv = Some \<lparr>et_kind = CompleteCommand, et_task = 2, et_step = 1\<rparr>"
proof -
  have plain: "list_all plain_option (command_values sample_completion)" "plain_inputs sample_inputs"
    by code_simp+
  have "materialize_public_command_argv (the (projr (to_input_template sample_completion))) sample_inputs = Inr sample_argv"
      "to_input_template sample_completion = Inr (Some (the (projr (to_input_template sample_completion))))"
    by code_simp+
  then have "\<exists>t. to_input_template sample_completion = Inr (Some t) \<and>
      materialize_public_command_argv t sample_inputs = Inr sample_argv"
    by blast
  moreover have "to_mutation_request sample_completion = Some (request_complete 2 1 (Some ''fp''))"
    by (simp add: sample_completion_def)
  ultimately show ?thesis
    using runnable_command_names_its_step [of sample_completion "request_complete 2 1 (Some ''fp'')" 2 1 sample_inputs sample_argv] plain
    by (simp add: request_defs u32_max_def)
qed

end
