(* ===== verification/Exact_Route.thy ===== *)
theory Exact_Route
  imports Execution_Status Public_Command_Correct
begin

text \<open>
  The last check before a step command may run, \<^verbatim>\<open>status_assembly/exact_route.rs\<close> and its two helper modules:
  a status that exposes a step command must do so consistently.  Its execution command context, the argument vector,
  the template and the typed command it recommends must all name the same command, task and step.
\<close>

subsection \<open>The check\<close>

definition missing_finalized_execution_route_projection_failure :: "string \<Rightarrow> JsonFailure" where
  "missing_finalized_execution_route_projection_failure field =
     json_failure MalformedExecutionState
       (''Finalized public execution route projection is missing required field `'' @ field @
        ''`; re-query workflow/operator JSON and use its typed public route fields instead of recomputing route candidates.'')"

definition inconsistent_finalized_execution_route_projection_failure :: "string \<Rightarrow> JsonFailure" where
  "inconsistent_finalized_execution_route_projection_failure field =
     json_failure MalformedExecutionState
       (''Finalized public execution route projection has inconsistent execution_command_context and `'' @ field @
        ''` fields; re-query workflow/operator JSON and use its typed public route fields instead of recomputing route candidates.'')"

definition required_context_field :: "string \<Rightarrow> 'a option \<Rightarrow> JsonFailure + 'a" where
  "required_context_field field v =
     (case v of None \<Rightarrow> Inl (missing_finalized_execution_route_projection_failure field) | Some x \<Rightarrow> Inr x)"

definition execution_command_context_target ::
  "PublicExecutionCommandContext \<Rightarrow> JsonFailure + PublicExecutionCommandTarget" where
  "execution_command_context_target ctx =
     res_bind (required_context_field ''execution_command_context.command_kind''
       (from_execution_mutation_name (cx_command_kind ctx))) (\<lambda>kind.
     res_bind (required_context_field ''execution_command_context.task_number'' (cx_task_number ctx)) (\<lambda>task.
     res_bind (required_context_field ''execution_command_context.step_id'' (cx_step_id ctx)) (\<lambda>step.
       Inr \<lparr>et_kind = kind, et_task = task, et_step = step\<rparr>)))"

definition require_public_argv_matches_execution_context ::
  "string list \<Rightarrow> PublicExecutionCommandTarget \<Rightarrow> JsonFailure + unit" where
  "require_public_argv_matches_execution_context argv expected_target =
     (case execution_target_from_public_argv argv of
        None \<Rightarrow> Inl (inconsistent_finalized_execution_route_projection_failure ''recommended_public_command_argv'')
      | Some actual_target \<Rightarrow>
          if actual_target \<noteq> expected_target
          then Inl (inconsistent_finalized_execution_route_projection_failure ''recommended_public_command_argv'')
          else Inr ())"

definition require_public_template_matches_execution_context ::
  "PublicCommandTemplate \<Rightarrow> PublicExecutionCommandTarget \<Rightarrow> JsonFailure + unit" where
  "require_public_template_matches_execution_context template expected_target =
     (let inconsistent = (\<lambda>field. Inl (inconsistent_finalized_execution_route_projection_failure
            (''recommended_public_command_template.'' @ field))) in
      case from_execution_mutation_name (ct_command_kind template) of
        None \<Rightarrow> inconsistent ''command_kind''
      | Some kind \<Rightarrow>
          if kind \<noteq> et_kind expected_target then inconsistent ''command_kind''
          else case execution_target_from_public_template_base_argv (ct_base_argv template) of
            None \<Rightarrow> inconsistent ''base_argv''
          | Some actual_target \<Rightarrow>
              if actual_target \<noteq> expected_target then inconsistent ''base_argv''
              else if \<not> execution_template_inputs_are_bindable template (et_kind expected_target)
              then inconsistent ''input_bindings'' else Inr ())"

definition public_command_is_execution_mutation :: "PublicCommand \<Rightarrow> bool" where
  "public_command_is_execution_mutation command \<longleftrightarrow> is_execution_mutation (command_kind command)"

definition recommended_command_matches_execution_context ::
  "PublicCommand \<Rightarrow> PublicExecutionCommandContext \<Rightarrow> bool" where
  "recommended_command_matches_execution_context command ctx \<longleftrightarrow>
     is_some_and (to_mutation_request command) (\<lambda>request.
       matches_public_mutation_token (mr_kind request) (cx_command_kind ctx) \<and>
       mr_task request = cx_task_number ctx \<and> mr_step request = cx_step_id ctx)"

definition finalized_public_execution_command_route_present :: "PlanExecutionStatus \<Rightarrow> bool" where
  "finalized_public_execution_command_route_present status \<longleftrightarrow>
     st_execution_command_context status \<noteq> None \<or>
     is_some_and (st_recommended_public_command status) public_command_is_execution_mutation \<or>
     is_some_and (st_recommended_public_command_argv status)
       (\<lambda>argv. execution_mutation_name_from_public_argv argv \<noteq> None) \<or>
     is_some_and (st_recommended_public_command_template status)
       (\<lambda>template. from_execution_mutation_name (ct_command_kind template) \<noteq> None)"

definition check_present :: "('a \<Rightarrow> JsonFailure + unit) \<Rightarrow> 'a option \<Rightarrow> JsonFailure + unit" where
  "check_present check v = (case v of None \<Rightarrow> Inr () | Some x \<Rightarrow> check x)"

definition require_finalized_public_execution_route_fields :: "PlanExecutionStatus \<Rightarrow> JsonFailure + unit" where
  "require_finalized_public_execution_route_fields status =
     res_bind (required_context_field ''execution_command_context'' (st_execution_command_context status)) (\<lambda>ctx.
     res_bind (execution_command_context_target ctx) (\<lambda>expected_target.
       if st_recommended_public_command_argv status = None \<and> st_recommended_public_command_template status = None
       then Inl (missing_finalized_execution_route_projection_failure
         ''recommended_public_command_argv or recommended_public_command_template'')
       else
         res_bind (check_present (\<lambda>argv. require_public_argv_matches_execution_context argv expected_target)
           (st_recommended_public_command_argv status)) (\<lambda>_.
         res_bind (check_present (\<lambda>template. require_public_template_matches_execution_context template expected_target)
           (st_recommended_public_command_template status)) (\<lambda>_.
         if is_some_and (st_recommended_public_command status)
           (\<lambda>command. \<not> recommended_command_matches_execution_context command ctx)
         then Inl (inconsistent_finalized_execution_route_projection_failure ''recommended_public_command'')
         else Inr ()))))"

definition require_public_execution_command_route_target :: "PlanExecutionStatus \<Rightarrow> JsonFailure + unit" where
  "require_public_execution_command_route_target status =
     (if finalized_public_execution_command_route_present status
      then require_finalized_public_execution_route_fields status else Inr ())"

subsection \<open>The route of a recommended step command passes the check\<close>

lemma template_base_target:
  assumes "from_execution_mutation_name name = Some k" "flag_pairs ps"
    and "map_of ps ''--plan'' = Some plan" "map_of ps ''--task'' = Some (show_nat task)"
    and "map_of ps ''--step'' = Some (show_nat step)" "task \<le> u32_max" "step \<le> u32_max"
  shows "execution_target_from_public_template_base_argv ([''featureforge'', ''plan'', ''execution'', name] @ flat ps) =
    Some \<lparr>et_kind = k, et_task = task, et_step = step\<rparr>"
  using assms
  by (simp add: execution_target_from_public_template_base_argv_def execution_target_from_public_argv_with_shape_def Let_def
      concrete_flag_value_flat starts_with_def parse_uint_show_nat)

lemma flag_value_skip: "w \<noteq> flag \<Longrightarrow> flag_value (w # xs) flag = flag_value xs flag"
  by (cases xs) simp_all

lemma base_flag_value:
  assumes "flag_pairs ps" "starts_with flag ''--''" "list_all (\<lambda>w. \<not> starts_with w ''--'') ws"
  shows "concrete_flag_value (ws @ flat ps) flag = map_of ps flag"
proof -
  have "flag_value (ws @ flat ps) flag = flag_value (flat ps) flag"
    using assms(2,3) by (induction ws) (auto simp del: flag_value.simps intro!: flag_value_skip [THEN trans])
  then show ?thesis
    using concrete_flag_value_flat [OF assms(1,2)] by (simp add: concrete_flag_value_def)
qed

lemma starts_with_iff: "starts_with s p \<longleftrightarrow> (\<exists>r. s = p @ r)"
  unfolding starts_with_def by (metis append_eq_conv_conj append_take_drop_id)

lemma starts_with_trans: "starts_with s p \<Longrightarrow> starts_with p q \<Longrightarrow> starts_with s q"
  by (auto simp: starts_with_iff)

lemma contained_flag: "base_argv_contains_flag argv flag \<Longrightarrow> \<exists>w\<in>set argv. starts_with w flag"
  unfolding base_argv_contains_flag_def list_ex_iff
proof (elim bexE, rule bexI)
  fix w assume "w = flag \<or> is_some_and (strip_prefix w flag) (\<lambda>suffix. starts_with suffix ''='')"
  then show "starts_with w flag"
    by (cases "starts_with w flag") (auto simp: strip_prefix_def starts_with_def)
qed

lemma base_lacks_flag:
  assumes "flag_pairs ps" "starts_with flag ''--''" "list_all (\<lambda>w. \<not> starts_with w ''--'') ws"
    and "list_all (\<lambda>(f, v). \<not> starts_with f flag) ps"
  shows "\<not> base_argv_contains_flag (ws @ flat ps) flag"
proof -
  have "\<not> starts_with w ''--'' \<Longrightarrow> \<not> starts_with w flag" for w
    using assms(2) starts_with_trans by blast
  then have "list_all (\<lambda>w. \<not> starts_with w flag) (ws @ flat ps)"
    using assms by (induction ps) (auto simp: flag_pairs_def plain_value_def list_all_iff flat_def)
  then show ?thesis
    using contained_flag [of "ws @ flat ps" flag] by (auto simp: list_all_iff)
qed

text \<open>A flag the template needs is in its base, or an unconditional input passes it on.\<close>

lemma text_input_supplies:
  assumes "input_text n \<in> set (required_inputs c)" "public_command_input_binding n = Some (flag_binding flag)"
    and "to_input_template c = Inr (Some t)"
  shows "template_supplies_required_flag t flag"
proof -
  have "template_input (input_text n) \<in> set (ct_input_bindings t)"
    using assms(1,3) by (auto simp: to_input_template_eq split: if_splits)
  moreover have "ti_binding (template_input (input_text n)) = flag_binding flag"
      "ti_required_when (template_input (input_text n)) = None"
    using assms(2) by (simp_all add: template_input_def input_text_def)
  ultimately show ?thesis
    unfolding template_supplies_required_flag_def flag_binding_def
    by (intro disjI2 bexI [of _ "template_input (input_text n)"]) simp_all
qed

lemma source_input_supplies:
  assumes "input_execution_source ''source'' \<in> set (required_inputs c)" "to_input_template c = Inr (Some t)"
  shows "template_supplies_required_flag t ''--source''"
proof -
  have "template_input (input_execution_source ''source'') \<in> set (ct_input_bindings t)"
    using assms by (auto simp: to_input_template_eq split: if_splits)
  moreover have "ti_binding (template_input (input_execution_source ''source'')) = flag_binding ''--source''"
      "ti_required_when (template_input (input_execution_source ''source'')) = None"
    by (simp_all add: template_input_def input_execution_source_def input_enum_def input_binding_table)
  ultimately show ?thesis
    unfolding template_supplies_required_flag_def flag_binding_def
    by (intro disjI2 bexI [of _ "template_input (input_execution_source ''source'')"]) simp_all
qed

lemma step_template_base:
  assumes "is_execution_mutation (command_kind c)" "to_input_template c = Inr (Some t)"
  shows "ct_base_argv t = [''featureforge'', ''plan'', ''execution'', the (public_mutation_name (command_kind c))] @ flat (command_pairs c)"
  using assms step_command_argv [OF assms(1)] by (auto simp: to_input_template_eq split: if_splits)

lemma base_words: "list_all (\<lambda>w. \<not> starts_with w ''--'') [''featureforge'', ''plan'', ''execution'', the (public_mutation_name (command_kind c))]"
  if "is_execution_mutation (command_kind c)"
  using that by (cases c) (simp_all add: starts_with_def)

lemma base_supplies:
  assumes "is_execution_mutation (command_kind c)" "list_all plain_option (command_values c)"
    and "to_input_template c = Inr (Some t)" "given (command_pairs c) flag" "starts_with flag ''--''"
  shows "template_supplies_required_flag t flag"
proof -
  have "concrete_flag_value (ct_base_argv t) flag = map_of (command_pairs c) flag"
    unfolding step_template_base [OF assms(1,3)]
    by (rule base_flag_value [OF command_pairs_plain [OF assms(2)] assms(5) base_words [OF assms(1)]])
  then show ?thesis
    using assms(4) by (auto simp: template_supplies_required_flag_def given_def map_of_eq_None_iff)
qed

lemma complete_template_verification:
  assumes "list_all plain_option (command_values (PublicComplete plan task step src fp))"
    and "to_input_template (PublicComplete plan task step src fp) = Inr (Some t)"
  shows "complete_template_verification_mode_is_bindable t"
proof -
  let ?c = "PublicComplete plan task step src fp"
  have c: "is_execution_mutation (command_kind ?c)" by simp
  have lacks: "\<not> base_argv_contains_flag (ct_base_argv t) flag"
    if "flag \<in> {''--manual-verify-summary'', ''--verify-command'', ''--verify-result''}" for flag
    unfolding step_template_base [OF c assms(2)]
    by (rule base_lacks_flag [OF command_pairs_plain [OF assms(1)] _ base_words [OF c]])
      (use that in \<open>cases src; cases fp; auto simp: step_pairs_def starts_with_def\<close>)+
  have inputs: "ct_input_bindings t = map template_input (required_inputs ?c)"
    using assms(2) by (auto simp: to_input_template_eq)
  have mode: "input_enum ''verification_mode'' [''manual_summary'', ''command_result''] \<in> set (required_inputs ?c)"
    "input_text_when ''manual_verify_summary'' ''verification_mode=manual_summary'' \<in> set (required_inputs ?c)"
    "input_text_when ''verify_command'' ''verification_mode=command_result'' \<in> set (required_inputs ?c)"
    "input_text_when ''verify_result'' ''verification_mode=command_result'' \<in> set (required_inputs ?c)"
    by (simp_all add: verification_inputs_def)
  have conditional: "input_text_when n w \<in> set (required_inputs ?c) \<Longrightarrow>
      public_command_input_binding n = Some (flag_binding flag) \<Longrightarrow> template_has_conditional_flag t flag w" for n w flag
    unfolding template_has_conditional_flag_def inputs set_map bex_simps
    by (erule bexI [rotated]) (simp add: template_input_def input_text_when_def input_text_def flag_binding_def)
  have "template_has_virtual_verification_mode t"
    unfolding template_has_virtual_verification_mode_def inputs set_map bex_simps
    by (rule bexI [OF _ mode(1)]) (simp add: template_input_def input_enum_def input_binding_table)
  moreover have "template_has_conditional_flag t ''--manual-verify-summary'' ''verification_mode=manual_summary''"
      "template_has_conditional_flag t ''--verify-command'' ''verification_mode=command_result''"
      "template_has_conditional_flag t ''--verify-result'' ''verification_mode=command_result''"
    using conditional [OF mode(2)] conditional [OF mode(3)] conditional [OF mode(4)] input_binding_table(8-10)
    by blast+
  moreover have "template_verification_flag_bindings_are_expected t"
    unfolding template_verification_flag_bindings_are_expected_def inputs set_map ball_simps
  proof (intro ballI)
    fix i assume "i \<in> set (required_inputs ?c)"
    then have "i \<in> set (input_execution_source ''source'' # input_text ''claim'' #
        input_text ''expect_execution_fingerprint'' # verification_inputs)"
      by (auto simp: missing_source_input_def missing_text_input_def split: if_splits)
    then show "case ib_flag (ti_binding (template_input i)) of None \<Rightarrow> True
        | Some flag \<Rightarrow>
            if flag = ''--manual-verify-summary'' then ti_required_when (template_input i) = Some ''verification_mode=manual_summary''
            else if flag = ''--verify-command'' \<or> flag = ''--verify-result''
            then ti_required_when (template_input i) = Some ''verification_mode=command_result'' else True"
      unfolding verification_inputs_def list.set insert_iff empty_iff
      by (elim disjE; simp add: template_input_def input_defs input_binding_table flag_binding_def)
  qed
  ultimately show ?thesis
    using lacks by (simp add: complete_template_verification_mode_is_bindable_def verification_flags_present_in_base_argv_def)
qed

lemma step_template_complete:
  assumes "is_execution_mutation (command_kind c)" "list_all plain_option (command_values c)"
    and "to_input_template c = Inr (Some t)"
  shows "template_execution_args_are_bindable t (command_kind c)"
proof -
  note by_text = text_input_supplies [OF _ _ assms(3)]
  note by_base = base_supplies [OF assms]
  have supplied: "template_supplies_required_flag t f"
    if "v = None \<Longrightarrow> input_text n \<in> set (required_inputs c)" "public_command_input_binding n = Some (flag_binding f)"
      "v \<noteq> None \<Longrightarrow> given (command_pairs c) f" "starts_with f ''--''" for v :: "string option" and n f
    using that by_text by_base by (cases v) auto
  show ?thesis
  proof (cases c)
    case (PublicBegin plan task step mode fp)
    have "template_supplies_required_flag t ''--expect-execution-fingerprint''"
      by (rule supplied [of fp, OF _ input_binding_table(6)])
        (auto simp: PublicBegin given_opt_pair missing_text_input_def concrete_optional_value_def starts_with_def)
    then show ?thesis by (simp add: PublicBegin template_execution_args_are_bindable_def)
  next
    case (PublicReopen plan task step src reason fp)
    have "template_supplies_required_flag t ''--expect-execution-fingerprint''"
      by (rule supplied [of fp, OF _ input_binding_table(6)])
        (auto simp: PublicReopen given_opt_pair missing_text_input_def concrete_optional_value_def starts_with_def)
    moreover have "template_supplies_required_flag t ''--reason''"
      by (rule supplied [of reason, OF _ input_binding_table(5)])
        (auto simp: PublicReopen given_opt_pair missing_text_input_def concrete_optional_value_def starts_with_def)
    moreover have "template_supplies_required_flag t ''--source''"
      using source_input_supplies [OF _ assms(3)] by_base [of "''--source''"]
      by (cases "src = None") (auto simp: PublicReopen given_opt_pair missing_source_input_def concrete_optional_value_def starts_with_def)
    ultimately show ?thesis by (simp add: PublicReopen template_execution_args_are_bindable_def)
  next
    case (PublicComplete plan task step src fp)
    have "template_supplies_required_flag t ''--expect-execution-fingerprint''"
      by (rule supplied [of fp, OF _ input_binding_table(6)])
        (auto simp: PublicComplete given_opt_pair missing_text_input_def concrete_optional_value_def starts_with_def)
    moreover have "template_supplies_required_flag t ''--claim''"
      by (rule by_text [OF _ input_binding_table(7)]) (simp add: PublicComplete)
    moreover have "template_supplies_required_flag t ''--source''"
      using source_input_supplies [OF _ assms(3)] by_base [of "''--source''"]
      by (cases "src = None") (auto simp: PublicComplete given_opt_pair missing_source_input_def concrete_optional_value_def starts_with_def)
    moreover have "complete_template_verification_mode_is_bindable t"
      using complete_template_verification assms(2,3) by (simp only: PublicComplete)
    ultimately show ?thesis by (simp add: PublicComplete template_execution_args_are_bindable_def)
  qed (use assms(1) in simp_all)
qed

lemma input_names:
  "map ir_name (missing_source_input v) = (if concrete_optional_value v = None then [''source''] else [])"
  "map ir_name (missing_text_input n v) = (if concrete_optional_value v = None then [n] else [])"
  "map ir_name verification_inputs = [''verification_mode'', ''manual_verify_summary'', ''verify_command'', ''verify_result'']"
  "ir_name (input_text n) = n"
  by (simp_all add: missing_source_input_def missing_text_input_def verification_inputs_def input_defs)

text \<open>Distinct inputs, each with its binding, none of which is one of the flags that carry the step.\<close>

lemma step_inputs_distinct:
  assumes "is_execution_mutation (command_kind c)"
  shows "distinct (map ir_name (required_inputs c))"
  using assms
  by (cases c) (simp_all add: input_names del: set_map split del: if_split, auto split: if_splits)

lemma trimmed_input_names:
  "trim ''source'' = ''source''" "trim ''claim'' = ''claim''" "trim ''manual_verify_summary'' = ''manual_verify_summary''"
  "trim ''verify_command'' = ''verify_command''" "trim ''verify_result'' = ''verify_result''" "trim ''reason'' = ''reason''"
  "trim ''expect_execution_fingerprint'' = ''expect_execution_fingerprint''"
  by code_simp+

lemmas trimmed_names = trimmed_input_names mode_conditions(5)

lemma step_input_binding:
  assumes "is_execution_mutation (command_kind c)" "i \<in> set (required_inputs c)"
  shows "trim (ir_name i) \<noteq> [] \<and> input_binding_has_materializable_shape (template_input i) \<and>
    \<not> input_binding_overrides_base_execution_route_target (template_input i)"
proof -
  have "ir_name i \<in> {''source'', ''claim'', ''verification_mode'', ''manual_verify_summary'', ''verify_command'',
      ''verify_result'', ''expect_execution_fingerprint'', ''reason''}"
    using assms by (cases c) (auto simp: missing_source_input_def missing_text_input_def verification_inputs_def input_defs
        split: if_splits)
  then show ?thesis
    unfolding insert_iff empty_iff
    by (elim disjE; simp add: template_input_def input_binding_table flag_binding_def BASE_OWNED_EXECUTION_ROUTE_FLAGS_def
        input_binding_has_materializable_shape_def input_binding_overrides_base_execution_route_target_def starts_with_def
        trimmed_names)
qed

lemma step_template_materializable:
  assumes "is_execution_mutation (command_kind c)" "to_input_template c = Inr (Some t)"
  shows "template_bindings_are_materializable t"
proof -
  have t: "ct_required_input_names t = map ir_name (required_inputs c)"
      "ct_input_bindings t = map template_input (required_inputs c)" "required_inputs c \<noteq> []"
    using assms(2) by (auto simp: to_input_template_eq split: if_splits)
  have names: "ti_name (template_input i) = ir_name i" for i
    by (simp add: template_input_def)
  have "map ti_name (ct_input_bindings t) = map ir_name (required_inputs c)"
    by (simp add: t(2) names)
  then have "template_input_names_match_bindings t"
    using step_inputs_distinct [OF assms(1)]
    unfolding template_input_names_match_bindings_def Let_def t(1) by (simp only: distinct_card simp_thms)
  then show ?thesis
    using t step_input_binding [OF assms(1)] by (auto simp: template_bindings_are_materializable_def names)
qed

lemma step_template_matches:
  assumes "to_mutation_request c = Some r" "is_execution_mutation (mr_kind r)"
    and "mr_task r = Some task" "mr_step r = Some step" "task \<le> u32_max" "step \<le> u32_max"
    and "list_all plain_option (command_values c)" "to_input_template c = Inr (Some t)"
  shows "require_public_template_matches_execution_context t target = Inr () \<longleftrightarrow>
    target = \<lparr>et_kind = mr_kind r, et_task = task, et_step = step\<rparr>"
proof -
  have kind: "command_kind c = mr_kind r"
    using assms(1) by (cases c) (auto simp: request_defs)
  then have c: "is_execution_mutation (command_kind c)" using assms(2) by simp
  let ?name = "the (public_mutation_name (command_kind c))"
  have name: "from_execution_mutation_name ?name = Some (command_kind c)" "command_kind_name c = ?name"
    using c by (cases c; simp add: from_execution_mutation_name_def command_kind_name_def)+
  have "execution_target_from_public_template_base_argv (ct_base_argv t) =
      Some \<lparr>et_kind = command_kind c, et_task = task, et_step = step\<rparr>"
    unfolding step_template_base [OF c assms(8)]
  proof (rule template_base_target [OF name(1) command_pairs_plain [OF assms(7)] _ _ _ assms(5,6)])
    note pairs = command_pairs_target [OF c assms(1), of "[]", unfolded append_Nil2 assms(3,4) option.map]
    show "map_of (command_pairs c) ''--plan'' = Some (SOME plan. map_of (command_pairs c) ''--plan'' = Some plan)"
      using pairs(1) by (rule someI_ex)
    show "map_of (command_pairs c) ''--task'' = Some (show_nat task)" "map_of (command_pairs c) ''--step'' = Some (show_nat step)"
      by (rule pairs(2,3))+
  qed
  moreover have "ct_command_kind t = ?name"
    using assms(8) name(2) by (auto simp: to_input_template_eq split: if_splits)
  moreover have "execution_template_inputs_are_bindable t (command_kind c)"
    using step_template_materializable [OF c assms(8)] step_template_complete [OF c assms(7,8)]
    by (simp add: execution_template_inputs_are_bindable_def)
  ultimately show ?thesis
    unfolding kind [symmetric] by (auto simp: require_public_template_matches_execution_context_def name Let_def)
qed

subsection \<open>The whole check\<close>

lemma required_context_field_Inr [simp]: "required_context_field field v = Inr x \<longleftrightarrow> v = Some x"
  by (auto simp: required_context_field_def split: option.splits)

lemma execution_command_context_target_Inr:
  "execution_command_context_target ctx = Inr target \<longleftrightarrow>
     from_execution_mutation_name (cx_command_kind ctx) = Some (et_kind target) \<and>
     cx_task_number ctx = Some (et_task target) \<and> cx_step_id ctx = Some (et_step target)"
  by (auto simp: execution_command_context_target_def res_bind_Inr)

lemma require_public_argv_Inr:
  "require_public_argv_matches_execution_context argv target = Inr () \<longleftrightarrow> execution_target_from_public_argv argv = Some target"
  by (auto simp: require_public_argv_matches_execution_context_def split: option.splits)

lemma check_present_Inr: "check_present check v = Inr () \<longleftrightarrow> (\<forall>x. v = Some x \<longrightarrow> check x = Inr ())"
  by (auto simp: check_present_def split: option.splits)

lemma require_finalized_Inr:
  "require_finalized_public_execution_route_fields s = Inr () \<longleftrightarrow>
     (\<exists>ctx target. st_execution_command_context s = Some ctx \<and> execution_command_context_target ctx = Inr target \<and>
        (st_recommended_public_command_argv s \<noteq> None \<or> st_recommended_public_command_template s \<noteq> None) \<and>
        (\<forall>argv. st_recommended_public_command_argv s = Some argv \<longrightarrow>
           require_public_argv_matches_execution_context argv target = Inr ()) \<and>
        (\<forall>t. st_recommended_public_command_template s = Some t \<longrightarrow>
           require_public_template_matches_execution_context t target = Inr ()) \<and>
        (\<forall>c. st_recommended_public_command s = Some c \<longrightarrow> recommended_command_matches_execution_context c ctx))"
  unfolding require_finalized_public_execution_route_fields_def
  by (cases "st_recommended_public_command s") (auto simp: res_bind_Inr check_present_Inr split: if_splits)

lemma execution_name_matches:
  "from_execution_mutation_name name = Some k \<Longrightarrow> matches_public_mutation_token k name"
  by (auto simp: from_execution_mutation_name_iff matches_public_mutation_token_def execution_mutation_name_def split: if_splits)

text \<open>C7: the surfaces of a step command agree with each other, so the last check only compares them with the
  execution command context.  When a status recommends a begin, complete or reopen command whose own values are no
  placeholders and no flags, with the argument vector and the template the code makes of it, the check passes
  exactly when the context names the same command, task and step.\<close>

theorem exact_route_compares_the_context:
  assumes "to_mutation_request c = Some r" "is_execution_mutation (mr_kind r)"
    and "mr_task r = Some task" "mr_step r = Some step" "task \<le> u32_max" "step \<le> u32_max"
    and "list_all plain_option (command_values c)"
    and "st_recommended_public_command s = Some c"
    and "st_recommended_public_command_argv s = recommended_public_command_argv (Some c)"
    and "recommended_public_command_template (Some c) = Inr (st_recommended_public_command_template s)"
    and "recommended_public_command_argv (Some c) \<noteq> None \<or> required_inputs c \<noteq> []"
  shows "require_public_execution_command_route_target s = Inr () \<longleftrightarrow>
    (\<exists>ctx. st_execution_command_context s = Some ctx \<and> cx_task_number ctx = Some task \<and> cx_step_id ctx = Some step \<and>
       from_execution_mutation_name (cx_command_kind ctx) = Some (mr_kind r))"
proof -
  let ?target = "\<lparr>et_kind = mr_kind r, et_task = task, et_step = step\<rparr>"
  have "public_command_is_execution_mutation c"
    using assms(1,2) by (cases c) (auto simp: public_command_is_execution_mutation_def request_defs)
  then have present: "finalized_public_execution_command_route_present s"
    using assms(8) by (simp add: finalized_public_execution_command_route_present_def)
  have argv: "execution_target_from_public_argv argv = Some ?target"
    if "st_recommended_public_command_argv s = Some argv" for argv
    using that assms(9) runnable_target [OF assms(1-7), of "[]" argv]
    by (simp add: recommended_public_command_argv_def runnable_def plain_inputs_def)
  have template: "require_public_template_matches_execution_context t target = Inr () \<longleftrightarrow> target = ?target"
    if "st_recommended_public_command_template s = Some t" for t target
    using that assms(10) by (intro step_template_matches [OF assms(1-7)]) (simp add: recommended_public_command_template_def)
  have surface: "st_recommended_public_command_argv s \<noteq> None \<or> st_recommended_public_command_template s \<noteq> None"
    using assms(9-11) by (auto simp: recommended_public_command_template_def to_input_template_eq split: if_splits)
  have "require_finalized_public_execution_route_fields s = Inr () \<longleftrightarrow>
      (\<exists>ctx. st_execution_command_context s = Some ctx \<and> execution_command_context_target ctx = Inr ?target)"
  proof
    assume "require_finalized_public_execution_route_fields s = Inr ()"
    then obtain ctx target where ctx: "st_execution_command_context s = Some ctx"
        "execution_command_context_target ctx = Inr target"
      and match: "\<And>argv. st_recommended_public_command_argv s = Some argv \<Longrightarrow> execution_target_from_public_argv argv = Some target"
        "\<And>t. st_recommended_public_command_template s = Some t \<Longrightarrow>
           require_public_template_matches_execution_context t target = Inr ()"
      unfolding require_finalized_Inr require_public_argv_Inr by blast
    have "target = ?target"
      using surface argv template match by (metis not_Some_eq option.inject)
    then show "\<exists>ctx. st_execution_command_context s = Some ctx \<and> execution_command_context_target ctx = Inr ?target"
      using ctx by blast
  next
    assume "\<exists>ctx. st_execution_command_context s = Some ctx \<and> execution_command_context_target ctx = Inr ?target"
    then obtain ctx where ctx: "st_execution_command_context s = Some ctx" "execution_command_context_target ctx = Inr ?target"
      by blast
    then have "recommended_command_matches_execution_context c ctx"
      using assms(1,3,4) by (simp add: recommended_command_matches_execution_context_def execution_command_context_target_Inr
          execution_name_matches)
    then show "require_finalized_public_execution_route_fields s = Inr ()"
      unfolding require_finalized_Inr require_public_argv_Inr using ctx surface argv template assms(8) by force
  qed
  then show ?thesis
    by (auto simp: require_public_execution_command_route_target_def present execution_command_context_target_Inr)
qed

text \<open>A begin command whose fingerprint is bound, on a status whose context names the same step.\<close>

definition sample_begin :: PublicCommand where
  "sample_begin = PublicBegin ''plan.md'' 2 1 None (Some ''fp'')"

definition begin_status :: PlanExecutionStatus where
  "begin_status =
     \<lparr>st_execution_run_id = None, st_current_final_review_result = None, st_current_qa_result = None,
      st_latest_authoritative_sequence = 1, st_final_review_state = FreshnessNotRequired,
      st_browser_qa_state = FreshnessNotRequired, st_release_docs_state = FreshnessNotRequired,
      st_semantic_workspace_tree_id = [], st_current_branch_reviewed_state_id = None, st_current_branch_closure_id = None,
      st_current_branch_meaningful_drift = False, st_current_task_closures = [], st_stale_unreviewed_closures = [],
      st_current_release_readiness_state = None, st_current_final_review_branch_closure_id = None,
      st_current_qa_branch_closure_id = None, st_finish_review_gate_pass_branch_closure_id = None,
      st_write_authority_state = [], st_repo_state_drift_state = [], st_handoff_required = False,
      st_execution_mode = ''featureforge:executing-plans'', st_execution_fingerprint = ''fp'', st_execution_started = ''yes'',
      st_active_task = None, st_active_step = None, st_resume_task = None, st_resume_step = None,
      st_phase = None, st_harness_phase = Executing, st_phase_detail = [], st_review_state_status = ''clean'',
      st_recording_context = None,
      st_execution_command_context = Some \<lparr>cx_command_kind = ''begin'', cx_task_number = Some 2, cx_step_id = Some 1\<rparr>,
      st_execution_reentry_target_source = None, st_public_repair_targets = [], st_blocking_records = [],
      st_blocking_scope = None, st_external_wait_state = None, st_blocking_reason_codes = [],
      st_projection_diagnostics = [], st_state_kind = [], st_blocking_task = None, st_blocking_step = None,
      st_reason_codes = [], st_next_public_action = None, st_blockers = [], st_next_action = [],
      st_recommended_public_command = Some sample_begin,
      st_recommended_public_command_argv = recommended_public_command_argv (Some sample_begin),
      st_recommended_public_command_template = None, st_required_inputs = [], st_recommended_command = None\<rparr>"

theorem exact_route_compares_the_context_witness:
  "require_public_execution_command_route_target begin_status = Inr ()"
proof -
  have plain: "list_all plain_option (command_values sample_begin)" by code_simp
  have argv: "recommended_public_command_argv (Some sample_begin) \<noteq> None" by code_simp
  have template: "recommended_public_command_template (Some sample_begin) = Inr None" by code_simp
  have "to_mutation_request sample_begin = Some (request_begin 2 1 (Some ''fp''))"
    by (simp add: sample_begin_def)
  then show ?thesis
    using exact_route_compares_the_context [of sample_begin "request_begin 2 1 (Some ''fp'')" 2 1 begin_status] plain argv template
    by (simp add: begin_status_def request_defs u32_max_def from_execution_mutation_name_def)
qed

end
