(* ===== verification/Gate_State.thy ===== *)
theory Gate_State
  imports Public_Command Diagnostics
begin

text \<open>
  Gate results (\<^verbatim>\<open>src/src/execution/status.rs\<close>): a gate starts open, every failed check records its failure
  class, reason code and diagnostic, and \<^verbatim>\<open>finish\<close> turns the collected state into the result callers see.
  \<^verbatim>\<open>GateState\<close> and \<^verbatim>\<open>GateResult\<close> have the same fields, so one record models both.
\<close>

record GateDiagnostic =
  gd_code :: string
  gd_severity :: string
  gd_message :: string
  gd_remediation :: string

record GateResult =
  gr_allowed :: bool
  gr_action :: string
  gr_failure_class :: string
  gr_reason_codes :: "string list"
  gr_warning_codes :: "string list"
  gr_diagnostics :: "GateDiagnostic list"
  gr_code :: "string option"
  gr_workspace_state_id :: "string option"
  gr_current_branch_reviewed_state_id :: "string option"
  gr_current_branch_closure_id :: "string option"
  gr_finish_review_gate_pass_branch_closure_id :: "string option"
  gr_recommended_command :: "string option"
  gr_recommended_public_command_template :: "PublicCommandTemplate option"
  gr_required_inputs :: "PublicCommandInputRequirement list"
  gr_rederive_via_workflow_operator :: "bool option"

type_synonym RuntimeGateState = GateResult

definition gate_state_default :: RuntimeGateState where
  "gate_state_default =
     \<lparr>gr_allowed = True, gr_action = ''passed'', gr_failure_class = [], gr_reason_codes = [], gr_warning_codes = [],
      gr_diagnostics = [], gr_code = None, gr_workspace_state_id = None, gr_current_branch_reviewed_state_id = None,
      gr_current_branch_closure_id = None, gr_finish_review_gate_pass_branch_closure_id = None,
      gr_recommended_command = None, gr_recommended_public_command_template = None, gr_required_inputs = [],
      gr_rederive_via_workflow_operator = None\<rparr>"

definition gate_from_result :: "GateResult \<Rightarrow> RuntimeGateState" where
  "gate_from_result result = result"

definition gate_fail :: "FailureClass \<Rightarrow> string \<Rightarrow> string \<Rightarrow> string \<Rightarrow> RuntimeGateState \<Rightarrow> RuntimeGateState" where
  "gate_fail failure_class code msg remediation gate =
     (let closed = gate\<lparr>gr_allowed := False,
            gr_failure_class := (if gr_failure_class gate = [] then failure_class_as_str failure_class else gr_failure_class gate)\<rparr>
      in if code \<in> set (gr_reason_codes gate) then closed
         else closed\<lparr>gr_reason_codes := gr_reason_codes gate @ [code],
                gr_diagnostics := gr_diagnostics gate @
                  [\<lparr>gd_code = code, gd_severity = ''error'', gd_message = msg, gd_remediation = remediation\<rparr>]\<rparr>)"

definition gate_warn :: "string \<Rightarrow> RuntimeGateState \<Rightarrow> RuntimeGateState" where
  "gate_warn code gate =
     (if code \<in> set (gr_warning_codes gate) then gate
      else gate\<lparr>gr_warning_codes := gr_warning_codes gate @ [code]\<rparr>)"

definition gate_state_finish :: "RuntimeGateState \<Rightarrow> GateResult" where
  "gate_state_finish gate =
     (let allowed = (gr_failure_class gate = [] \<or> gr_allowed gate)
      in gate\<lparr>gr_allowed := allowed, gr_action := (if allowed then ''passed'' else ''blocked'')\<rparr>)"

subsection \<open>What a gate reports\<close>

text \<open>The states a gate reaches from the open one by failing and warning.\<close>

inductive gate_reached :: "RuntimeGateState \<Rightarrow> bool" where
  opened: "gate_reached gate_state_default"
| failed: "gate_reached gate \<Longrightarrow> gate_reached (gate_fail failure_class code msg remediation gate)"
| warned: "gate_reached gate \<Longrightarrow> gate_reached (gate_warn code gate)"

lemma failure_class_text: "failure_class_as_str c \<noteq> []"
  by (cases c) simp_all

definition gate_wf :: "RuntimeGateState \<Rightarrow> bool" where
  "gate_wf gate \<longleftrightarrow>
     (gr_allowed gate \<longleftrightarrow> gr_failure_class gate = []) \<and> (gr_allowed gate \<longleftrightarrow> gr_reason_codes gate = []) \<and>
     distinct (gr_reason_codes gate) \<and> distinct (gr_warning_codes gate) \<and>
     map gd_code (gr_diagnostics gate) = gr_reason_codes gate"

lemma gate_reached_wf: "gate_reached gate \<Longrightarrow> gate_wf gate"
proof (induction rule: gate_reached.induct)
  case opened
  show ?case by (simp add: gate_wf_def gate_state_default_def)
next
  case (failed gate failure_class code msg remediation)
  then show ?case
    by (auto simp: gate_wf_def gate_fail_def Let_def failure_class_text)
next
  case (warned gate code)
  then show ?case by (auto simp: gate_wf_def gate_warn_def)
qed

text \<open>A finished gate is blocked exactly when some check failed, and then it names a failure class and lists every
  reason once, each with its diagnostic.\<close>

lemma finished_gate:
  assumes "gate_reached gate"
  shows "gr_allowed (gate_state_finish gate) \<longleftrightarrow> gr_reason_codes gate = []"
    and "gr_action (gate_state_finish gate) = (if gr_reason_codes gate = [] then ''passed'' else ''blocked'')"
    and "gate_state_finish (gate_from_result (gate_state_finish gate)) = gate_state_finish gate"
  using gate_reached_wf [OF assms] by (auto simp: gate_wf_def gate_state_finish_def gate_from_result_def Let_def)

end
