(* ===== verification/Stale_Targets.thy ===== *)
theory Stale_Targets
  imports Gate_State Execution_Status Transition_Readers "HOL-Library.Option_ord" "HOL-Library.Product_Lexorder"
begin

text \<open>
  Stale targets: what has to be reviewed again, and where execution re-enters
  (\<^verbatim>\<open>src/src/execution/stale_target_projection.rs\<close>, \<^verbatim>\<open>stale_target_selection.rs\<close> and
  \<^verbatim>\<open>resume_stale_precedence.rs\<close>).  What the code reads from the work tree or from the plan's evidence is an
  argument, collected in the record \<open>StaleObservations\<close>.
\<close>

subsection \<open>Targets\<close>

datatype StaleTargetScope = StaleTask | StaleBranch | StaleMilestone

datatype StaleTargetSource =
    FromClosureGraph | FromGateReview | FromGateFinish | FromPreflight | FromNegativeResult | FromBaselineBridge
  | FromProjectionOnly

record AuthoritativeStaleTarget =
  tg_scope :: StaleTargetScope
  tg_task :: "nat option"
  tg_step :: "nat option"
  tg_record_id :: "string option"
  tg_source :: StaleTargetSource
  tg_reason_code :: string
  tg_task_closure_bridge_allowed :: bool

definition CLOSURE_GRAPH_STALE_TARGET_SOURCE_TOKEN :: string where [simp, ff_tokens]:
  "CLOSURE_GRAPH_STALE_TARGET_SOURCE_TOKEN = ''closure_graph_stale_target''"

definition FALLBACK_STALE_TARGET_REASON_CODE :: string where [simp, ff_tokens]:
  "FALLBACK_STALE_TARGET_REASON_CODE = CLOSURE_GRAPH_STALE_TARGET_SOURCE_TOKEN"

definition source_can_drive_public_repair :: "StaleTargetSource \<Rightarrow> bool" where
  "source_can_drive_public_repair source \<longleftrightarrow> source \<noteq> FromProjectionOnly"

fun stale_source_as_str :: "StaleTargetSource \<Rightarrow> string" where
  "stale_source_as_str FromClosureGraph = ''closure_graph''"
| "stale_source_as_str FromGateReview = ''gate_review''"
| "stale_source_as_str FromGateFinish = ''gate_finish''"
| "stale_source_as_str FromPreflight = ''preflight''"
| "stale_source_as_str FromNegativeResult = ''negative_result''"
| "stale_source_as_str FromBaselineBridge = ''baseline_bridge''"
| "stale_source_as_str FromProjectionOnly = ''projection_only''"

definition execution_reentry_source_token :: "StaleTargetSource \<Rightarrow> string" where
  "execution_reentry_source_token source =
     (if source = FromClosureGraph then CLOSURE_GRAPH_STALE_TARGET_SOURCE_TOKEN else stale_source_as_str source)"

definition can_drive_public_repair :: "AuthoritativeStaleTarget \<Rightarrow> bool" where
  "can_drive_public_repair target \<longleftrightarrow> source_can_drive_public_repair (tg_source target)"

definition is_current_task_closure_for_status :: "AuthoritativeStaleTarget \<Rightarrow> PlanExecutionStatus \<Rightarrow> bool" where
  "is_current_task_closure_for_status target status \<longleftrightarrow>
     tg_scope target = StaleTask \<and>
     is_some_and (tg_record_id target) (\<lambda>record_id.
       list_ex (\<lambda>closure. tc_closure_record_id closure = record_id) (st_current_task_closures status))"

definition is_open_execution_step_for_status :: "AuthoritativeStaleTarget \<Rightarrow> PlanExecutionStatus \<Rightarrow> bool" where
  "is_open_execution_step_for_status target status \<longleftrightarrow>
     (case tg_task target of
        None \<Rightarrow> False
      | Some task \<Rightarrow>
          (let open_step =
             (if st_resume_task status = Some task then Some (st_resume_step status)
              else if st_active_task status = Some task then Some (st_active_step status) else None)
           in case open_step of
                None \<Rightarrow> False
              | Some step \<Rightarrow> is_none_or (tg_step target) (\<lambda>target_step. step = Some target_step)))"

definition is_bound_stale_target :: "AuthoritativeStaleTarget \<Rightarrow> PlanExecutionStatus \<Rightarrow> bool" where
  "is_bound_stale_target target status \<longleftrightarrow>
     can_drive_public_repair target \<and>
     (tg_scope target = StaleTask \<longrightarrow>
        tg_task target \<noteq> None \<and> \<not> is_current_task_closure_for_status target status \<and>
        \<not> is_open_execution_step_for_status target status)"

definition is_actionable_task_reentry_target :: "AuthoritativeStaleTarget \<Rightarrow> PlanExecutionStatus \<Rightarrow> bool" where
  "is_actionable_task_reentry_target target status \<longleftrightarrow>
     tg_scope target = StaleTask \<and> can_drive_public_repair target \<and> tg_source target \<noteq> FromBaselineBridge \<and>
     tg_task target \<noteq> None \<and> is_bound_stale_target target status"

definition stale_closure_record_target :: "AuthoritativeStaleTarget \<Rightarrow> bool" where
  "stale_closure_record_target target \<longleftrightarrow>
     can_drive_public_repair target \<and> tg_source target \<noteq> FromBaselineBridge \<and> tg_source target \<noteq> FromNegativeResult"

subsection \<open>Selection\<close>

definition select_earliest_task_stale_target :: "AuthoritativeStaleTarget list \<Rightarrow> AuthoritativeStaleTarget option" where
  "select_earliest_task_stale_target stale_targets =
     min_by (\<lambda>l r. (tg_task l, tg_record_id l, tg_reason_code l) < (tg_task r, tg_record_id r, tg_reason_code r))
       (filter (\<lambda>target. tg_scope target = StaleTask \<and> tg_task target \<noteq> None) stale_targets)"

definition stale_reentry_source_record_id :: "AuthoritativeStaleTarget \<Rightarrow> string option" where
  "stale_reentry_source_record_id target = opt_or (tg_record_id target) (Some (stale_source_as_str (tg_source target)))"

definition select_actionable_stale_reentry_target ::
  "PlanExecutionStatus \<Rightarrow> AuthoritativeStaleTarget list \<Rightarrow> AuthoritativeStaleTarget option" where
  "select_actionable_stale_reentry_target status stale_targets =
     min_by (\<lambda>l r. (tg_task l, tg_step l, stale_reentry_source_record_id l, tg_reason_code l) <
         (tg_task r, tg_step r, stale_reentry_source_record_id r, tg_reason_code r))
       (filter (\<lambda>target. is_actionable_task_reentry_target target status) stale_targets)"

datatype StaleBoundaryCandidateSource = BoundaryAuthoritativeStaleTarget | BoundaryTaskClosureBaselineBridge

record StaleBoundaryCandidate =
  sb_task :: nat
  sb_source :: StaleBoundaryCandidateSource

definition from_authoritative_stale_target :: "nat \<Rightarrow> StaleTargetSource \<Rightarrow> StaleBoundaryCandidate" where
  "from_authoritative_stale_target task source =
     \<lparr>sb_task = task,
      sb_source = (if source = FromBaselineBridge then BoundaryTaskClosureBaselineBridge else BoundaryAuthoritativeStaleTarget)\<rparr>"

definition task_closure_baseline_bridge :: "nat \<Rightarrow> StaleBoundaryCandidate" where
  "task_closure_baseline_bridge task = \<lparr>sb_task = task, sb_source = BoundaryTaskClosureBaselineBridge\<rparr>"

definition select_earliest_stale_boundary_candidate ::
  "StaleBoundaryCandidate option \<Rightarrow> nat option \<Rightarrow> StaleBoundaryCandidate option" where
  "select_earliest_stale_boundary_candidate authoritative_stale_candidate baseline_reentry_task =
     (case (authoritative_stale_candidate, baseline_reentry_task) of
        (Some authoritative, Some baseline_task) \<Rightarrow>
          if baseline_task < sb_task authoritative then Some (task_closure_baseline_bridge baseline_task)
          else Some authoritative
      | (Some authoritative, None) \<Rightarrow> Some authoritative
      | (None, Some baseline_task) \<Rightarrow> Some (task_closure_baseline_bridge baseline_task)
      | (None, None) \<Rightarrow> None)"

definition iter_min :: "nat list \<Rightarrow> nat option" where
  "iter_min xs = (if xs = [] then None else Some (Min (set xs)))"

definition iter_max :: "nat list \<Rightarrow> nat option" where
  "iter_max xs = (if xs = [] then None else Some (Max (set xs)))"

definition select_first_task_number :: "nat list \<Rightarrow> nat option" where
  "select_first_task_number candidates = iter_min candidates"

definition select_first_task_number_from_scope_keys :: "string list \<Rightarrow> nat option" where
  "select_first_task_number_from_scope_keys scope_keys = iter_min (List.map_filter task_scope_key_task_number scope_keys)"

definition select_repair_plan_stale_target_task :: "nat list \<Rightarrow> nat option \<Rightarrow> nat option \<Rightarrow> nat option" where
  "select_repair_plan_stale_target_task stale_tasks closure_graph_stale_target branch_stale_source_task =
     opt_or (opt_or (select_first_task_number stale_tasks) closure_graph_stale_target) branch_stale_source_task"

definition select_route_projected_stale_boundary_task :: "PlanExecutionStatus \<Rightarrow> nat option" where
  "select_route_projected_stale_boundary_task status =
     (if st_execution_reentry_target_source status = Some CLOSURE_GRAPH_STALE_TARGET_SOURCE_TOKEN \<or>
         st_review_state_status status = REVIEW_STATE_STALE_UNREVIEWED \<and>
         st_phase_detail status = DETAIL_EXECUTION_REENTRY_REQUIRED
      then opt_or (opt_or (st_blocking_task status) (st_resume_task status)) (st_active_task status)
      else iter_min (List.map_filter rt_task
        (filter (\<lambda>target. matches_public_mutation_token ReopenCommand (rt_command_kind target)) (st_public_repair_targets status))))"

definition projected_earliest_stale_task_candidate_from_status :: "PlanExecutionStatus \<Rightarrow> nat option" where
  "projected_earliest_stale_task_candidate_from_status status =
     iter_min
       (List.map_filter (\<lambda>record. task_scope_key_task_number (br_scope_key record))
          (filter (\<lambda>record. br_scope_type record = ''task'') (st_blocking_records status)) @
        (if st_review_state_status status = REVIEW_STATE_STALE_UNREVIEWED \<and> st_blocking_scope status = Some ''task''
         then option_list (st_blocking_task status) else []) @
        List.map_filter task_prefixed_record_id_task_number (st_stale_unreviewed_closures status) @
        List.map_filter rt_task (st_public_repair_targets status))"

definition select_branch_stale_source_task :: "AuthoritativeTransitionState \<Rightarrow> string list \<Rightarrow> nat option" where
  "select_branch_stale_source_task authoritative_state stale_branch_closure_ids =
     (let p = ts_payload authoritative_state;
          closure_tasks_by_id = fold (\<lambda>record m. m(ctc_closure_record_id record \<mapsto> ctc_task record))
            (map snd (current_task_closure_results p) @ task_closure_history_records p) Map.empty;
          source_ids = concat (map brc_source_task_closure_ids
            (List.map_filter (branch_closure_record p) stale_branch_closure_ids))
      in find_map closure_tasks_by_id source_ids)"

subsection \<open>The snapshot of gates and stale targets\<close>

text \<open>\<^verbatim>\<open>StaleTargetProjection\<close> and, with the gate results, \<^verbatim>\<open>RuntimeGateSnapshot\<close>.\<close>

record StaleTargetProjection =
  sp_stale_reason_codes :: "string list"
  sp_stale_targets :: "AuthoritativeStaleTarget list"
  sp_branch_closure_tracked_drift :: bool
  sp_late_stage_stale_unreviewed :: bool
  sp_missing_current_closure_stale_provenance :: bool

record RuntimeGateSnapshot = StaleTargetProjection +
  rg_preflight :: "GateResult option"
  rg_gate_review :: "GateResult option"
  rg_gate_finish :: "GateResult option"

definition authoritative_stale_binding_present ::
  "AuthoritativeStaleTarget list \<Rightarrow> PlanExecutionStatus \<Rightarrow> bool \<Rightarrow> bool \<Rightarrow> bool" where
  "authoritative_stale_binding_present stale_targets status tracked_drift stale_provenance \<longleftrightarrow>
     list_ex (\<lambda>target. is_bound_stale_target target status) stale_targets \<or> tracked_drift \<or> stale_provenance"

definition authoritative_stale_target_present :: "AuthoritativeStaleTarget list \<Rightarrow> bool \<Rightarrow> bool \<Rightarrow> bool" where
  "authoritative_stale_target_present stale_targets tracked_drift stale_provenance \<longleftrightarrow>
     list_ex can_drive_public_repair stale_targets \<or> tracked_drift \<or> stale_provenance"

definition has_authoritative_stale_binding :: "'a StaleTargetProjection_scheme \<Rightarrow> PlanExecutionStatus \<Rightarrow> bool" where
  "has_authoritative_stale_binding p status \<longleftrightarrow>
     authoritative_stale_binding_present (sp_stale_targets p) status (sp_branch_closure_tracked_drift p)
       (sp_missing_current_closure_stale_provenance p)"

definition snapshot_has_authoritative_stale_target :: "'a StaleTargetProjection_scheme \<Rightarrow> bool" where
  "snapshot_has_authoritative_stale_target p \<longleftrightarrow>
     authoritative_stale_target_present (sp_stale_targets p) (sp_branch_closure_tracked_drift p)
       (sp_missing_current_closure_stale_provenance p)"

definition earliest_task_stale_target_details :: "'a StaleTargetProjection_scheme \<Rightarrow> AuthoritativeStaleTarget option" where
  "earliest_task_stale_target_details p = select_earliest_task_stale_target (sp_stale_targets p)"

definition earliest_task_stale_target :: "'a StaleTargetProjection_scheme \<Rightarrow> nat option" where
  "earliest_task_stale_target p = Option.bind (earliest_task_stale_target_details p) tg_task"

text \<open>\<^verbatim>\<open>sort\<close> followed by \<^verbatim>\<open>dedup\<close>: each value once, in order.\<close>

definition stale_record_ids :: "'a StaleTargetProjection_scheme \<Rightarrow> string list" where
  "stale_record_ids p =
     sort (remdups (List.map_filter tg_record_id (filter stale_closure_record_target (sp_stale_targets p))))"

definition task_stale_record_ids :: "'a StaleTargetProjection_scheme \<Rightarrow> string list" where
  "task_stale_record_ids p =
     sort (remdups (List.map_filter tg_record_id
       (filter (\<lambda>target. tg_scope target = StaleTask \<and> stale_closure_record_target target) (sp_stale_targets p))))"

definition task_stale_tasks :: "'a StaleTargetProjection_scheme \<Rightarrow> nat list" where
  "task_stale_tasks p =
     sort (remdups (List.map_filter tg_task (filter (\<lambda>target. tg_scope target = StaleTask) (sp_stale_targets p))))"

text \<open>May the task closure of a task be recorded before the stale target is reviewed again?  A stale target of an
  earlier task forbids it, one of the same task decides by its own mark.\<close>

definition stale_task_closure_bridge_allows_task_parts :: "(nat \<times> bool) option \<Rightarrow> nat \<Rightarrow> bool" where
  "stale_task_closure_bridge_allows_task_parts stale_target task_number =
     (case stale_target of
        None \<Rightarrow> True
      | Some (stale_task, bridge_allowed) \<Rightarrow>
          if stale_task < task_number then False else stale_task > task_number \<or> bridge_allowed)"

definition stale_task_closure_bridge_allows_task :: "(nat option \<times> bool) option \<Rightarrow> nat \<Rightarrow> bool" where
  "stale_task_closure_bridge_allows_task stale_target task_number =
     (case stale_target of
        None \<Rightarrow> True
      | Some (task, bridge_allowed) \<Rightarrow>
          stale_task_closure_bridge_allows_task_parts (map_option (\<lambda>t. (t, bridge_allowed)) task) task_number)"

definition authoritative_stale_target_allows_task_closure_bridge :: "AuthoritativeStaleTarget option \<Rightarrow> nat \<Rightarrow> bool" where
  "authoritative_stale_target_allows_task_closure_bridge target task_number =
     stale_task_closure_bridge_allows_task (map_option (\<lambda>t. (tg_task t, tg_task_closure_bridge_allowed t)) target) task_number"

subsection \<open>Projecting the targets\<close>

definition closure_baseline_candidate_task :: "(nat \<times> bool) list \<Rightarrow> nat list \<Rightarrow> nat option" where
  "closure_baseline_candidate_task steps task_numbers =
     (case List.find (\<lambda>(_, checked). \<not> checked) steps of
        Some (next_unchecked_task, _) \<Rightarrow> iter_max (filter (\<lambda>n. n < next_unchecked_task) task_numbers)
      | None \<Rightarrow> iter_max task_numbers)"

fun stale_target_scope_from_closure_scope :: "ClosureScope \<Rightarrow> StaleTargetScope" where
  "stale_target_scope_from_closure_scope TaskScope = StaleTask"
| "stale_target_scope_from_closure_scope BranchScope = StaleBranch"
| "stale_target_scope_from_closure_scope MilestoneScope = StaleMilestone"

definition closure_graph_stale_target_allows_task_closure_bridge ::
  "AuthoritativeTransitionState option \<Rightarrow> nat option \<Rightarrow> string \<Rightarrow> string \<Rightarrow> bool" where
  "closure_graph_stale_target_allows_task_closure_bridge authoritative_state task record_id reason_code \<longleftrightarrow>
     reason_code \<noteq> TASK_BOUNDARY_REASON_PRIOR_TASK_CURRENT_CLOSURE_STALE \<and>
     is_some_and task (\<lambda>t. is_some_and authoritative_state (\<lambda>state.
       task_closure_history_lineage_present (ts_payload state) t (Some record_id)))"

definition stale_target_from_evaluation ::
  "AuthoritativeTransitionState option \<Rightarrow> ClosureEvaluation \<Rightarrow> string \<Rightarrow> AuthoritativeStaleTarget" where
  "stale_target_from_evaluation authoritative_state evaluation reason_code =
     (let ident = identity evaluation in
      \<lparr>tg_scope = stale_target_scope_from_closure_scope (ci_scope ident), tg_task = ci_task_number ident, tg_step = None,
       tg_record_id = Some (ci_record_id ident), tg_source = FromClosureGraph, tg_reason_code = reason_code,
       tg_task_closure_bridge_allowed =
         closure_graph_stale_target_allows_task_closure_bridge authoritative_state (ci_task_number ident)
           (ci_record_id ident) reason_code\<rparr>)"

definition stale_targets_from_closure_graph ::
  "AuthoritativeClosureGraph \<Rightarrow> AuthoritativeTransitionState option \<Rightarrow> AuthoritativeStaleTarget list" where
  "stale_targets_from_closure_graph closure_graph authoritative_state =
     concat (map (\<lambda>evaluation.
         map (stale_target_from_evaluation authoritative_state evaluation)
           (if stale_reason_codes evaluation = [] then [FALLBACK_STALE_TARGET_REASON_CODE] else stale_reason_codes evaluation))
       (stale_unreviewed_evaluations closure_graph)) @
     map (\<lambda>record_id.
         \<lparr>tg_scope = StaleMilestone, tg_task = None, tg_step = None, tg_record_id = Some record_id,
          tg_source = FromProjectionOnly, tg_reason_code = ''projection_only_stale_target'',
          tg_task_closure_bridge_allowed = False\<rparr>)
       (stale_projection_only_record_ids closure_graph)"

text \<open>What the projection asks of the work tree, the plan and the closures it finds there: whether the current
  branch closure drifted from the tracked files, whether late-stage provenance is stale, the current task closures
  whose reviewed state changed, the assessment for recording the branch closure again, and, for the baseline bridge,
  whether the closure of a task is ready to be recorded.\<close>

record StaleObservations =
  ob_branch_closure_tracked_drift :: "JsonFailure + bool"
  ob_stale_provenance :: "JsonFailure + bool"
  ob_stale_current_task_closures :: "JsonFailure + CurrentTaskClosureRecord list"
  ob_branch_rerecording_assessment :: "JsonFailure + unit"
  ob_baseline_bridge_ready :: "nat \<Rightarrow> nat option \<Rightarrow> JsonFailure + bool"
  ob_steps :: "(nat \<times> bool) list"
  ob_task_numbers :: "nat list"

definition append_current_task_stale_target ::
  "CurrentTaskClosureRecord \<Rightarrow> AuthoritativeStaleTarget list \<Rightarrow> AuthoritativeStaleTarget list" where
  "append_current_task_stale_target record stale_targets =
     (if list_ex (\<lambda>target. tg_scope target = StaleTask \<and> tg_task target = Some (ctc_task record) \<and>
           tg_record_id target = Some (ctc_closure_record_id record)) stale_targets
      then stale_targets
      else stale_targets @
        [\<lparr>tg_scope = StaleTask, tg_task = Some (ctc_task record), tg_step = None,
          tg_record_id = Some (ctc_closure_record_id record), tg_source = FromClosureGraph,
          tg_reason_code = TASK_BOUNDARY_REASON_PRIOR_TASK_CURRENT_CLOSURE_STALE, tg_task_closure_bridge_allowed = False\<rparr>])"

definition append_current_task_stale_targets ::
  "StaleObservations \<Rightarrow> AuthoritativeTransitionState option \<Rightarrow> AuthoritativeStaleTarget list \<Rightarrow>
   JsonFailure + AuthoritativeStaleTarget list" where
  "append_current_task_stale_targets ob event_authority_state stale_targets =
     res_bind (case event_authority_state of None \<Rightarrow> Inr [] | Some _ \<Rightarrow> ob_stale_current_task_closures ob)
       (\<lambda>records. Inr (fold append_current_task_stale_target records stale_targets))"

definition task_stale_target_reason_code :: "PlanExecutionStatus \<Rightarrow> string option" where
  "task_stale_target_reason_code status =
     List.find (\<lambda>candidate. candidate \<in> set (st_reason_codes status))
       [TASK_BOUNDARY_REASON_PRIOR_TASK_CURRENT_CLOSURE_STALE, TASK_BOUNDARY_REASON_PRIOR_TASK_CURRENT_CLOSURE_MISSING,
        TASK_BOUNDARY_REASON_TASK_CYCLE_BREAK_ACTIVE, REVIEW_STATE_STALE_UNREVIEWED]"

definition baseline_stale_target :: "nat \<Rightarrow> PlanExecutionStatus \<Rightarrow> AuthoritativeStaleTarget" where
  "baseline_stale_target task status =
     \<lparr>tg_scope = StaleTask, tg_task = Some task, tg_step = None, tg_record_id = None, tg_source = FromBaselineBridge,
      tg_reason_code = unwrap_or FALLBACK_STALE_TARGET_REASON_CODE (task_stale_target_reason_code status),
      tg_task_closure_bridge_allowed = True\<rparr>"

definition append_task_closure_baseline_stale_target ::
  "StaleObservations \<Rightarrow> PlanExecutionStatus \<Rightarrow> bool \<Rightarrow> AuthoritativeStaleTarget list \<Rightarrow>
   JsonFailure + AuthoritativeStaleTarget list" where
  "append_task_closure_baseline_stale_target ob status assessed stale_targets =
     (if st_handoff_required status \<or> PHASE_HANDOFF_REQUIRED \<in> set (st_reason_codes status) then Inr stale_targets
      else if \<not> list_ex (\<lambda>c. c = TASK_BOUNDARY_REASON_PRIOR_TASK_CURRENT_CLOSURE_MISSING \<or>
          c = TASK_BOUNDARY_REASON_PRIOR_TASK_CURRENT_CLOSURE_STALE \<or> c = TASK_BOUNDARY_REASON_TASK_CYCLE_BREAK_ACTIVE \<or>
          c = REVIEW_STATE_STALE_UNREVIEWED) (st_reason_codes status) then Inr stale_targets
      else case opt_or (opt_or (opt_or (st_blocking_task status) (st_resume_task status)) (st_active_task status))
          (closure_baseline_candidate_task (ob_steps ob) (ob_task_numbers ob)) of
        None \<Rightarrow> Inr stale_targets
      | Some task \<Rightarrow>
          if \<not> list_ex (\<lambda>c. c = TASK_BOUNDARY_REASON_PRIOR_TASK_CURRENT_CLOSURE_MISSING \<or>
              c = TASK_BOUNDARY_REASON_TASK_CLOSURE_BASELINE_REPAIR_CANDIDATE) (st_reason_codes status) then Inr stale_targets
          else if list_ex (\<lambda>closure. tc_task closure = task) (st_current_task_closures status) then Inr stale_targets
          else if \<not> assessed then Inr stale_targets
          else res_bind (ob_baseline_bridge_ready ob task
              (Option.bind (select_earliest_task_stale_target stale_targets) tg_task)) (\<lambda>ready.
            if \<not> ready then Inr stale_targets
            else if list_ex (\<lambda>target. tg_scope target = StaleTask \<and> tg_task target = Some task) stale_targets
            then Inr stale_targets
            else Inr (stale_targets @ [baseline_stale_target task status])))"

definition gate_target_scope :: "StaleTargetSource \<Rightarrow> GateResult \<Rightarrow> StaleTargetScope" where
  "gate_target_scope source gate =
     (if source = FromPreflight then StaleTask
      else if gr_current_branch_closure_id gate \<noteq> None \<or> gr_finish_review_gate_pass_branch_closure_id gate \<noteq> None
      then StaleBranch else StaleMilestone)"

definition append_gate_stale_targets ::
  "GateResult option \<Rightarrow> StaleTargetSource \<Rightarrow> AuthoritativeStaleTarget list \<Rightarrow> AuthoritativeStaleTarget list" where
  "append_gate_stale_targets gate_result source stale_targets =
     (case gate_result of
        None \<Rightarrow> stale_targets
      | Some gate \<Rightarrow> stale_targets @
          map (\<lambda>reason_code.
              \<lparr>tg_scope = gate_target_scope source gate, tg_task = None, tg_step = None,
               tg_record_id = opt_or (gr_current_branch_closure_id gate) (gr_finish_review_gate_pass_branch_closure_id gate),
               tg_source = source, tg_reason_code = reason_code, tg_task_closure_bridge_allowed = False\<rparr>)
            (filter reason_code_indicates_stale_unreviewed (gr_reason_codes gate)))"

definition current_task_negative_result_task ::
  "PlanExecutionStatus \<Rightarrow> (string \<rightharpoonup> DispatchLineage) option \<Rightarrow> AuthoritativeTransitionState option \<Rightarrow> nat option" where
  "current_task_negative_result_task status overlay authoritative_state =
     (if st_blocking_step status \<noteq> None then None
      else Option.bind (st_blocking_task status) (\<lambda>task.
        Option.bind authoritative_state (\<lambda>state.
        Option.bind (task_closure_negative_result (ts_payload state) task) (\<lambda>negative_result.
        Option.bind overlay (\<lambda>lineages.
        Option.bind (lineages (''task-'' @ show_nat task)) (\<lambda>lineage.
        Option.bind (dl_dispatch_id lineage) (\<lambda>raw_dispatch.
        Option.bind (opt_or (dl_semantic_reviewed_state_id lineage) (dl_reviewed_state_id lineage)) (\<lambda>raw_state.
          let lineage_dispatch_id = trim raw_dispatch; lineage_reviewed_state_id = trim raw_state in
          if lineage_dispatch_id = [] \<or> lineage_reviewed_state_id = [] then None
          else if neg_dispatch_id negative_result = lineage_dispatch_id \<and>
            unwrap_or (neg_reviewed_state_id negative_result) (neg_semantic_reviewed_state_id negative_result) =
              lineage_reviewed_state_id
          then Some task else None))))))))"

definition append_negative_result_stale_target ::
  "PlanExecutionStatus \<Rightarrow> (string \<rightharpoonup> DispatchLineage) option \<Rightarrow> AuthoritativeTransitionState option \<Rightarrow>
   AuthoritativeStaleTarget list \<Rightarrow> AuthoritativeStaleTarget list" where
  "append_negative_result_stale_target status overlay event_authority_state stale_targets =
     (case current_task_negative_result_task status overlay event_authority_state of
        None \<Rightarrow> stale_targets
      | Some task \<Rightarrow> stale_targets @
          [\<lparr>tg_scope = StaleTask, tg_task = Some task, tg_step = None, tg_record_id = Some (''task-'' @ show_nat task),
            tg_source = FromNegativeResult, tg_reason_code = REASON_NEGATIVE_RESULT_REQUIRES_EXECUTION_REENTRY,
            tg_task_closure_bridge_allowed = \<not> list_ex (\<lambda>target. tg_scope target = StaleTask \<and>
              tg_task target = Some task \<and> \<not> tg_task_closure_bridge_allowed target) stale_targets\<rparr>])"

definition remove_current_task_closure_stale_targets ::
  "PlanExecutionStatus \<Rightarrow> AuthoritativeStaleTarget list \<Rightarrow> AuthoritativeStaleTarget list" where
  "remove_current_task_closure_stale_targets status stale_targets =
     filter (\<lambda>target. \<not> is_current_task_closure_for_status target status) stale_targets"

definition stale_reason_codes_from_snapshot ::
  "GateResult option \<Rightarrow> GateResult option \<Rightarrow> GateResult option \<Rightarrow> string list" where
  "stale_reason_codes_from_snapshot preflight gate_review gate_finish =
     fold (\<lambda>c codes. if reason_code_indicates_stale_unreviewed c \<and> c \<notin> set codes then codes @ [c] else codes)
       (concat (map gr_reason_codes (option_list preflight @ option_list gate_review @ option_list gate_finish))) []"

definition REASON_CODE_STALE_PROVENANCE :: string where [simp, ff_tokens]:
  "REASON_CODE_STALE_PROVENANCE = ''stale_provenance''"

definition stale_reason_codes_for_late_stage_projection :: "PlanExecutionStatus \<Rightarrow> string list \<Rightarrow> string list" where
  "stale_reason_codes_for_late_stage_projection status gate_reason_codes =
     fold (\<lambda>c codes. if (reason_code_indicates_stale_unreviewed c \<or> c = REASON_CODE_STALE_PROVENANCE) \<and> c \<notin> set codes
         then codes @ [c] else codes)
       (gate_reason_codes @ st_reason_codes status) []"

definition push_files_proven_drifted_reason_code_once :: "string list \<Rightarrow> string list" where
  "push_files_proven_drifted_reason_code_once reason_codes =
     (if list_ex files_proven_drifted_reason_code reason_codes then reason_codes else reason_codes @ [FILES_PROVEN_DRIFTED])"

definition project_authoritative_stale_targets ::
  "StaleObservations \<Rightarrow> AuthoritativeTransitionState option \<Rightarrow> (string \<rightharpoonup> DispatchLineage) option \<Rightarrow> string option \<Rightarrow>
   PlanExecutionStatus \<Rightarrow> GateResult option \<Rightarrow> GateResult option \<Rightarrow> GateResult option \<Rightarrow>
   JsonFailure + StaleTargetProjection" where
  "project_authoritative_stale_targets ob event_authority_state overlay overlay_current_branch_closure_id status
       preflight gate_review gate_finish =
     (let gate_codes = stale_reason_codes_for_late_stage_projection status
            (stale_reason_codes_from_snapshot preflight gate_review gate_finish) in
      res_bind (ob_branch_closure_tracked_drift ob) (\<lambda>tracked_drift.
      let reason_codes = (if tracked_drift then push_files_proven_drifted_reason_code_once gate_codes else gate_codes) in
      res_bind (if st_review_state_status status = REVIEW_STATE_MISSING_CURRENT_CLOSURE then ob_stale_provenance ob else Inr False)
        (\<lambda>stale_provenance.
      let late_stage_stale = (st_review_state_status status = REVIEW_STATE_STALE_UNREVIEWED \<or> tracked_drift);
          closure_graph = graph_from_state event_authority_state
            (signals_from_authoritative_state event_authority_state overlay_current_branch_closure_id late_stage_stale
               stale_provenance reason_codes) in
      res_bind (append_current_task_stale_targets ob event_authority_state
        (stale_targets_from_closure_graph closure_graph event_authority_state)) (\<lambda>targets.
      res_bind (if event_authority_state = None then Inr False
          else res_bind (ob_branch_rerecording_assessment ob) (\<lambda>_. Inr True)) (\<lambda>assessed.
      res_bind (append_task_closure_baseline_stale_target ob status assessed targets) (\<lambda>with_baseline.
        Inr \<lparr>sp_stale_reason_codes = reason_codes,
          sp_stale_targets = remove_current_task_closure_stale_targets status
            (append_negative_result_stale_target status overlay event_authority_state
              (append_gate_stale_targets gate_finish FromGateFinish
                (append_gate_stale_targets gate_review FromGateReview
                  (append_gate_stale_targets preflight FromPreflight with_baseline)))),
          sp_branch_closure_tracked_drift = tracked_drift, sp_late_stage_stale_unreviewed = late_stage_stale,
          sp_missing_current_closure_stale_provenance = stale_provenance\<rparr>))))))"

definition targetless_stale_authority_for_gate_snapshot :: "'a StaleTargetProjection_scheme \<Rightarrow> TargetlessStaleAuthority" where
  "targetless_stale_authority_for_gate_snapshot gate_snapshot =
     TargetlessStaleAuthority (snapshot_has_authoritative_stale_target gate_snapshot)"

definition project_stale_unreviewed_closures ::
  "PlanExecutionStatus \<Rightarrow> 'a StaleTargetProjection_scheme \<Rightarrow> PlanExecutionStatus" where
  "project_stale_unreviewed_closures status gate_snapshot =
     (let record_ids =
            (if st_review_state_status status = REVIEW_STATE_STALE_UNREVIEWED \<or>
                st_review_state_status status = REVIEW_STATE_MISSING_CURRENT_CLOSURE
             then stale_record_ids gate_snapshot else task_stale_record_ids gate_snapshot);
          projected = status\<lparr>st_stale_unreviewed_closures := sort (remdups record_ids)\<rparr>;
          has_target = has_authoritative_stale_target (targetless_stale_authority_for_gate_snapshot gate_snapshot)
      in if status_needs_marker_with_authority projected has_target
         then ensure_status_diagnostic projected else clear_status_diagnostic projected)"

record ReviewStateStaleClosureProjection =
  rp_late_stage_stale_projection_active :: bool
  rp_stale_unreviewed_closures :: "string list"

definition project_review_state_stale_unreviewed_closures ::
  "PlanExecutionStatus \<Rightarrow> 'a StaleTargetProjection_scheme \<Rightarrow> bool \<Rightarrow> bool \<Rightarrow> bool \<Rightarrow> ReviewStateStaleClosureProjection" where
  "project_review_state_stale_unreviewed_closures status gate_snapshot task_scope_stale_unreviewed
       task_scope_structural_reason_present branch_scope_structural_reason_present =
     (let reports_stale = (st_stale_unreviewed_closures status \<noteq> []);
          active = (sp_late_stage_stale_unreviewed gate_snapshot \<or> sp_missing_current_closure_stale_provenance gate_snapshot \<or>
            sp_branch_closure_tracked_drift gate_snapshot \<and>
            (st_review_state_status status \<noteq> REVIEW_STATE_MISSING_CURRENT_CLOSURE \<or> reports_stale));
          task_ids = task_stale_record_ids gate_snapshot
      in \<lparr>rp_late_stage_stale_projection_active = active,
          rp_stale_unreviewed_closures =
            (if task_scope_structural_reason_present then task_ids
             else if active then st_stale_unreviewed_closures status
             else if branch_scope_structural_reason_present then []
             else if task_scope_stale_unreviewed then task_ids else [])\<rparr>)"

subsection \<open>Resuming a step and stale targets: which goes first\<close>

datatype ResumePreemptionReason =
  EarlierStaleBoundary | TaskClosureBaselineBridgeReason | ExecutionReentryBlocker | TaskCycleBreak

record ResumeStepBinding =
  rb_task :: nat
  rb_step :: nat

record StalePreemptionTarget =
  pt_task :: nat
  pt_step :: "nat option"

record ResumeStalePrecedenceInputs =
  pi_status :: PlanExecutionStatus
  pi_review_state_status :: string
  pi_open_step_task :: "nat option"
  pi_authoritative_stale_boundary :: "StaleBoundaryCandidate option"
  pi_baseline_stale_boundary_task :: "nat option"
  pi_exact_resume_stale_task_target :: "nat option"
  pi_stale_preemption_target :: "StalePreemptionTarget option"
  pi_legal_resume_begin_route :: bool
  pi_targetless_stale_has_concrete_public_target :: bool

record ResumeStalePrecedence =
  rs_earliest_stale_boundary :: "StaleBoundaryCandidate option"
  rs_earliest_stale_task :: "nat option"
  rs_exact_resume_stale_task :: "nat option"
  rs_resume_preempted_by :: "ResumePreemptionReason option"
  rs_stale_preempted_by_resume :: "ResumeStepBinding option"
  rs_open_step_preempted_by_earlier_stale :: bool
  rs_open_step_not_after_earliest_stale_boundary :: bool
  rs_open_step_precedes_earliest_stale_boundary :: bool
  rs_stale_resume_begin_route_candidate :: bool
  rs_targetless_stale_reconcile_required :: bool

definition REASON_LATE_STAGE_SURFACE_NOT_DECLARED :: string where [simp, ff_tokens]:
  "REASON_LATE_STAGE_SURFACE_NOT_DECLARED = ''late_stage_surface_not_declared''"

definition late_stage_surface_not_declared_reason_code :: "string \<Rightarrow> bool" where
  "late_stage_surface_not_declared_reason_code reason_code \<longleftrightarrow> reason_code = REASON_LATE_STAGE_SURFACE_NOT_DECLARED"

definition stale_review_state_blocking_record_code :: "string \<Rightarrow> bool" where
  "stale_review_state_blocking_record_code code \<longleftrightarrow>
     code = REVIEW_STATE_STALE_UNREVIEWED \<or> late_stage_surface_not_declared_reason_code code"

definition stale_review_state_blocking_record_task_numbers :: "PlanExecutionStatus \<Rightarrow> nat list" where
  "stale_review_state_blocking_record_task_numbers status =
     List.map_filter (\<lambda>record. task_scope_key_task_number (br_scope_key record))
       (filter (\<lambda>record. br_scope_type record = ''task'' \<and> br_record_type record = ''review_state'' \<and>
          br_required_follow_up record = Some FOLLOW_UP_REPAIR_REVIEW_STATE \<and>
          stale_review_state_blocking_record_code (br_code record)) (st_blocking_records status))"

definition exact_resume_stale_task :: "PlanExecutionStatus \<Rightarrow> nat option \<Rightarrow> nat option" where
  "exact_resume_stale_task status target =
     Option.bind (st_resume_task status) (\<lambda>resume_task.
     Option.bind (st_resume_step status) (\<lambda>_.
       opt_or (List.find (\<lambda>task. task = resume_task) (stale_review_state_blocking_record_task_numbers status))
         (if target = Some resume_task then Some resume_task else None)))"

definition projected_earliest_stale_task_from_status :: "PlanExecutionStatus \<Rightarrow> nat option" where
  "projected_earliest_stale_task_from_status status = projected_earliest_stale_task_candidate_from_status status"

definition resume_status_preemption_reason ::
  "PlanExecutionStatus \<Rightarrow> nat option \<Rightarrow> bool \<Rightarrow> ResumePreemptionReason option" where
  "resume_status_preemption_reason status cycle_break_task baseline_bridge_preempts_resume =
     Option.bind (st_resume_task status) (\<lambda>resume_task.
       if is_some_and (projected_earliest_stale_task_from_status status) (\<lambda>earliest. earliest < resume_task)
       then Some EarlierStaleBoundary
       else if baseline_bridge_preempts_resume then Some TaskClosureBaselineBridgeReason
       else if st_phase_detail status = DETAIL_EXECUTION_REENTRY_REQUIRED \<and>
         is_some_and (st_blocking_task status) (\<lambda>t. t \<noteq> resume_task \<and> t < resume_task)
       then Some ExecutionReentryBlocker
       else if TASK_BOUNDARY_REASON_TASK_CYCLE_BREAK_ACTIVE \<in> set (st_reason_codes status) \<and>
         is_some_and cycle_break_task (\<lambda>t. t \<noteq> resume_task \<and> t < resume_task)
       then Some TaskCycleBreak
       else None)"

definition resume_step_preempts_later_stale_target ::
  "PlanExecutionStatus \<Rightarrow> StalePreemptionTarget option \<Rightarrow> ResumeStepBinding option" where
  "resume_step_preempts_later_stale_target status stale_target =
     Option.bind (st_resume_task status) (\<lambda>resume_task.
     Option.bind (st_resume_step status) (\<lambda>resume_step.
     Option.bind (opt_or (map_option pt_task stale_target) (st_blocking_task status)) (\<lambda>target_task.
       let target_step = Option.bind stale_target pt_step in
       if resume_task < target_task \<or>
          resume_task = target_task \<and> is_some_and target_step (\<lambda>stale_step. resume_step < stale_step)
       then Some \<lparr>rb_task = resume_task, rb_step = resume_step\<rparr> else None)))"

definition resume_precedence_from_inputs :: "ResumeStalePrecedenceInputs \<Rightarrow> ResumeStalePrecedence" where
  "resume_precedence_from_inputs inputs =
     (let status = pi_status inputs;
          earliest_boundary = select_earliest_stale_boundary_candidate (pi_authoritative_stale_boundary inputs)
            (pi_baseline_stale_boundary_task inputs);
          earliest = map_option sb_task earliest_boundary;
          exact = exact_resume_stale_task status (pi_exact_resume_stale_task_target inputs);
          open_task = pi_open_step_task inputs
      in \<lparr>rs_earliest_stale_boundary = earliest_boundary,
          rs_earliest_stale_task = earliest,
          rs_exact_resume_stale_task = exact,
          rs_resume_preempted_by = None,
          rs_stale_preempted_by_resume =
            (if pi_legal_resume_begin_route inputs
             then resume_step_preempts_later_stale_target status (pi_stale_preemption_target inputs) else None),
          rs_open_step_preempted_by_earlier_stale =
            is_some_and open_task (\<lambda>task. is_some_and earliest (\<lambda>e. e < task)),
          rs_open_step_not_after_earliest_stale_boundary =
            is_none_or earliest (\<lambda>e. is_some_and open_task (\<lambda>task. task \<le> e)),
          rs_open_step_precedes_earliest_stale_boundary =
            is_some_and earliest (\<lambda>e. is_some_and open_task (\<lambda>task. task < e)),
          rs_stale_resume_begin_route_candidate =
            (pi_legal_resume_begin_route inputs \<and> exact \<noteq> None \<and>
             pi_review_state_status inputs = REVIEW_STATE_STALE_UNREVIEWED \<and>
             st_active_task status = None \<and> st_active_step status = None \<and>
             st_resume_task status \<noteq> None \<and> st_resume_step status \<noteq> None \<and> exact = st_resume_task status),
          rs_targetless_stale_reconcile_required =
            (TARGETLESS_STALE_RECONCILE_REASON_CODE \<in> set (st_reason_codes status) \<and>
             \<not> pi_targetless_stale_has_concrete_public_target inputs)\<rparr>)"

definition resume_precedence_for_status_suppression ::
  "PlanExecutionStatus \<Rightarrow> nat option \<Rightarrow> bool \<Rightarrow> ResumeStalePrecedence" where
  "resume_precedence_for_status_suppression status cycle_break_task baseline_bridge_preempts_resume =
     (let earliest = projected_earliest_stale_task_from_status status
      in \<lparr>rs_earliest_stale_boundary = None, rs_earliest_stale_task = earliest,
          rs_exact_resume_stale_task = exact_resume_stale_task status earliest,
          rs_resume_preempted_by =
            resume_status_preemption_reason status cycle_break_task baseline_bridge_preempts_resume,
          rs_stale_preempted_by_resume = None, rs_open_step_preempted_by_earlier_stale = False,
          rs_open_step_not_after_earliest_stale_boundary = True, rs_open_step_precedes_earliest_stale_boundary = False,
          rs_stale_resume_begin_route_candidate = False, rs_targetless_stale_reconcile_required = False\<rparr>)"

definition resume_preempted_by_stale :: "ResumeStalePrecedence \<Rightarrow> bool" where
  "resume_preempted_by_stale precedence \<longleftrightarrow> rs_resume_preempted_by precedence \<noteq> None"

subsection \<open>Which closures are reported as stale\<close>

text \<open>The scope and identifier of the closures a list of targets reports.\<close>

definition stale_ids :: "AuthoritativeStaleTarget list \<Rightarrow> (StaleTargetScope \<times> string) set" where
  "stale_ids targets =
     {(tg_scope t, i) |t i. t \<in> set targets \<and> stale_closure_record_target t \<and> tg_record_id t = Some i}"

lemma stale_ids_append [simp]: "stale_ids (xs @ ys) = stale_ids xs \<union> stale_ids ys"
  by (auto simp: stale_ids_def)

lemma stale_ids_Nil [simp]: "stale_ids [] = {}"
  by (simp add: stale_ids_def)

lemma stale_ids_mem: "(scope, i) \<in> stale_ids targets \<longleftrightarrow>
    (\<exists>t\<in>set targets. stale_closure_record_target t \<and> tg_scope t = scope \<and> tg_record_id t = Some i)"
  by (auto simp: stale_ids_def)

lemma set_map_filter: "set (List.map_filter f xs) = {y. \<exists>x\<in>set xs. f x = Some y}"
  by (force simp: List.map_filter_def)

lemma set_stale_record_ids: "set (stale_record_ids p) = snd ` stale_ids (sp_stale_targets p)"
  by (force simp: stale_record_ids_def stale_ids_def set_map_filter)

lemma set_task_stale_record_ids: "set (task_stale_record_ids p) = {i. (StaleTask, i) \<in> stale_ids (sp_stale_targets p)}"
  by (force simp: task_stale_record_ids_def stale_ids_def set_map_filter)

lemma graph_source_target [simp]: "stale_closure_record_target (stale_target_from_evaluation st e code)"
  by (simp add: stale_closure_record_target_def can_drive_public_repair_def source_can_drive_public_repair_def
      stale_target_from_evaluation_def Let_def)

lemma stale_ids_map_const:
  assumes "\<And>x. x \<in> set xs \<Longrightarrow> stale_closure_record_target (f x)"
    and "\<And>x. x \<in> set xs \<Longrightarrow> tg_scope (f x) = scope" "\<And>x. x \<in> set xs \<Longrightarrow> tg_record_id (f x) = Some i" "xs \<noteq> []"
  shows "stale_ids (map f xs) = {(scope, i)}"
proof -
  obtain x where "x \<in> set xs" using assms(4) by (cases xs) auto
  then show ?thesis using assms(1-3) by (force simp: stale_ids_def)
qed

lemma stale_ids_closure_graph:
  "stale_ids (stale_targets_from_closure_graph g st) =
     (\<lambda>e. (stale_target_scope_from_closure_scope (ci_scope (identity e)), ci_record_id (identity e))) ` set (stale_unreviewed_evaluations g)"
proof -
  have evaluation: "stale_ids (map (stale_target_from_evaluation st e)
      (if stale_reason_codes e = [] then [FALLBACK_STALE_TARGET_REASON_CODE] else stale_reason_codes e)) =
      {(stale_target_scope_from_closure_scope (ci_scope (identity e)), ci_record_id (identity e))}" for e
    by (rule stale_ids_map_const) (rule graph_source_target, simp_all add: stale_target_from_evaluation_def Let_def)
  have concat: "stale_ids (concat (map f es)) = (\<Union>e\<in>set es. stale_ids (f e))" for f :: "ClosureEvaluation \<Rightarrow> _" and es
    by (induction es) auto
  have milestone: "stale_ids (map (\<lambda>record_id.
         \<lparr>tg_scope = StaleMilestone, tg_task = None, tg_step = None, tg_record_id = Some record_id,
          tg_source = FromProjectionOnly, tg_reason_code = ''projection_only_stale_target'',
          tg_task_closure_bridge_allowed = False\<rparr>) ids) = {}" for ids
    by (auto simp: stale_ids_def stale_closure_record_target_def can_drive_public_repair_def source_can_drive_public_repair_def)
  show ?thesis
    unfolding stale_targets_from_closure_graph_def stale_ids_append concat milestone
    by (auto simp only: evaluation)
qed

lemma stale_ids_current_records:
  assumes "\<And>t. t \<in> set ts \<Longrightarrow> tg_scope t = StaleTask \<Longrightarrow> stale_closure_record_target t"
  shows "stale_ids (fold append_current_task_stale_target records ts) =
      stale_ids ts \<union> (\<lambda>r. (StaleTask, ctc_closure_record_id r)) ` set records"
    (is "?ids ts records")
  using assms
proof (induction records arbitrary: ts)
  case Nil
  show ?case by simp
next
  case (Cons r records)
  let ?new = "\<lparr>tg_scope = StaleTask, tg_task = Some (ctc_task r), tg_step = None,
      tg_record_id = Some (ctc_closure_record_id r), tg_source = FromClosureGraph,
      tg_reason_code = TASK_BOUNDARY_REASON_PRIOR_TASK_CURRENT_CLOSURE_STALE, tg_task_closure_bridge_allowed = False\<rparr>"
  have new: "stale_closure_record_target ?new"
    by (simp add: stale_closure_record_target_def can_drive_public_repair_def source_can_drive_public_repair_def)
  then have "stale_ids [?new] = {(StaleTask, ctc_closure_record_id r)}"
    by (auto simp: stale_ids_def)
  then have "stale_ids (append_current_task_stale_target r ts) = stale_ids ts \<union> {(StaleTask, ctc_closure_record_id r)}"
    using Cons.prems by (auto simp: append_current_task_stale_target_def list_ex_iff stale_ids_mem)
  moreover have "t \<in> set (append_current_task_stale_target r ts) \<Longrightarrow> tg_scope t = StaleTask \<Longrightarrow> stale_closure_record_target t" for t
    using Cons.prems new by (auto simp: append_current_task_stale_target_def split: if_splits)
  ultimately show ?case
    using Cons.IH [of "append_current_task_stale_target r ts"] by auto
qed

lemma stale_ids_baseline:
  assumes "append_task_closure_baseline_stale_target ob status assessed ts = Inr ts'"
  shows "stale_ids ts' = stale_ids ts"
proof -
  have "stale_ids [baseline_stale_target task status] = {}" for task
    by (simp add: stale_ids_def baseline_stale_target_def stale_closure_record_target_def)
  then show ?thesis
    using assms by (auto simp: append_task_closure_baseline_stale_target_def res_bind_Inr split: if_splits option.splits)
qed

text \<open>The closure a gate reports as stale, if one of its reasons says so.\<close>

definition gate_stale_ids :: "GateResult option \<Rightarrow> StaleTargetSource \<Rightarrow> (StaleTargetScope \<times> string) set" where
  "gate_stale_ids gate_result source =
     {(gate_target_scope source gate, i) |gate i. gate_result = Some gate \<and>
        list_ex reason_code_indicates_stale_unreviewed (gr_reason_codes gate) \<and>
        opt_or (gr_current_branch_closure_id gate) (gr_finish_review_gate_pass_branch_closure_id gate) = Some i}"

lemma stale_ids_gate:
  assumes "source \<in> {FromPreflight, FromGateReview, FromGateFinish}"
  shows "stale_ids (append_gate_stale_targets gate source ts) = stale_ids ts \<union> gate_stale_ids gate source"
proof (cases gate)
  case None
  then show ?thesis by (simp add: append_gate_stale_targets_def gate_stale_ids_def)
next
  case (Some g)
  let ?id = "opt_or (gr_current_branch_closure_id g) (gr_finish_review_gate_pass_branch_closure_id g)"
  let ?codes = "filter reason_code_indicates_stale_unreviewed (gr_reason_codes g)"
  let ?target = "\<lambda>code. \<lparr>tg_scope = gate_target_scope source g, tg_task = None, tg_step = None, tg_record_id = ?id,
      tg_source = source, tg_reason_code = code, tg_task_closure_bridge_allowed = False\<rparr>"
  have drives: "stale_closure_record_target (?target code)" for code
    using assms by (auto simp: stale_closure_record_target_def can_drive_public_repair_def source_can_drive_public_repair_def)
  have "stale_ids (map ?target ?codes) = gate_stale_ids gate source"
  proof (cases "?codes = [] \<or> ?id = None")
    case True
    then have "stale_ids (map ?target ?codes) = {}"
      by (cases ?id) (auto simp: stale_ids_def)
    then show ?thesis
      using True by (auto simp: Some gate_stale_ids_def list_ex_iff filter_empty_conv)
  next
    case False
    then obtain i where i: "?id = Some i" by (meson not_Some_eq)
    have "stale_ids (map ?target ?codes) = {(gate_target_scope source g, i)}"
      using False drives by (intro stale_ids_map_const) (simp_all add: i)
    then show ?thesis
      using False i by (auto simp: Some gate_stale_ids_def list_ex_iff filter_empty_conv)
  qed
  then show ?thesis by (simp add: Some append_gate_stale_targets_def)
qed

lemma stale_ids_negative:
  "stale_ids (append_negative_result_stale_target status overlay st ts) = stale_ids ts"
  by (auto simp: append_negative_result_stale_target_def stale_ids_def stale_closure_record_target_def split: option.splits)

text \<open>The identifiers of the task closures a status lists as current.\<close>

definition current_closure_ids :: "PlanExecutionStatus \<Rightarrow> string set" where
  "current_closure_ids status = tc_closure_record_id ` set (st_current_task_closures status)"

lemma stale_ids_remove:
  "stale_ids (remove_current_task_closure_stale_targets status ts) =
     stale_ids ts - {StaleTask} \<times> current_closure_ids status"
proof -
  have "tg_record_id t = Some i \<Longrightarrow>
      is_current_task_closure_for_status t status \<longleftrightarrow> tg_scope t = StaleTask \<and> i \<in> current_closure_ids status" for t i
    by (auto simp: is_current_task_closure_for_status_def current_closure_ids_def list_ex_iff)
  then show ?thesis
    by (auto simp: stale_ids_def remove_current_task_closure_stale_targets_def)
qed

text \<open>Everything that can make a closure stale: an evaluation of the closure graph that is stale and not superseded,
  a current task closure whose reviewed state changed, and the closure a gate names with a stale reason.\<close>

definition stale_sources ::
  "AuthoritativeClosureGraph \<Rightarrow> CurrentTaskClosureRecord list \<Rightarrow> GateResult option \<Rightarrow> GateResult option \<Rightarrow> GateResult option \<Rightarrow>
   (StaleTargetScope \<times> string) set" where
  "stale_sources graph records preflight gate_review gate_finish =
     (\<lambda>e. (stale_target_scope_from_closure_scope (ci_scope (identity e)), ci_record_id (identity e))) `
       set (stale_unreviewed_evaluations graph) \<union>
     (\<lambda>r. (StaleTask, ctc_closure_record_id r)) ` set records \<union>
     gate_stale_ids preflight FromPreflight \<union> gate_stale_ids gate_review FromGateReview \<union>
     gate_stale_ids gate_finish FromGateFinish"

lemma projected_stale_ids:
  assumes "project_authoritative_stale_targets ob st overlay overlay_id status preflight gate_review gate_finish = Inr p"
    and "(case st of None \<Rightarrow> Inr [] | Some _ \<Rightarrow> ob_stale_current_task_closures ob) = Inr records"
  shows "stale_ids (sp_stale_targets p) =
    stale_sources (graph_from_state st (signals_from_authoritative_state st overlay_id (sp_late_stage_stale_unreviewed p)
        (sp_missing_current_closure_stale_provenance p) (sp_stale_reason_codes p))) records preflight gate_review gate_finish
      - {StaleTask} \<times> current_closure_ids status"
proof -
  have graph_task: "t \<in> set (stale_targets_from_closure_graph g st) \<Longrightarrow> tg_scope t = StaleTask \<Longrightarrow> stale_closure_record_target t" for t g
    by (auto simp: stale_targets_from_closure_graph_def)
  have "stale_ids (fold append_current_task_stale_target records (stale_targets_from_closure_graph g st)) =
      (\<lambda>e. (stale_target_scope_from_closure_scope (ci_scope (identity e)), ci_record_id (identity e))) `
        set (stale_unreviewed_evaluations g) \<union> (\<lambda>r. (StaleTask, ctc_closure_record_id r)) ` set records" for g
    using stale_ids_current_records [OF graph_task] by (simp add: stale_ids_closure_graph)
  then show ?thesis
    using assms
    by (auto simp: project_authoritative_stale_targets_def append_current_task_stale_targets_def res_bind_Inr Let_def
        stale_ids_remove stale_ids_negative stale_ids_gate stale_ids_baseline stale_sources_def)
qed

lemma projected_closures_field:
  "st_stale_unreviewed_closures (project_stale_unreviewed_closures s p) =
     (if st_review_state_status s = REVIEW_STATE_STALE_UNREVIEWED \<or> st_review_state_status s = REVIEW_STATE_MISSING_CURRENT_CLOSURE
      then stale_record_ids p else task_stale_record_ids p)"
proof -
  have "sort (remdups (sort (remdups xs))) = sort (remdups xs)" for xs :: "string list"
    by (simp add: sorted_sort_id distinct_remdups_id)
  then show ?thesis
    by (simp add: project_stale_unreviewed_closures_def ensure_status_diagnostic_def clear_status_diagnostic_def Let_def
        stale_record_ids_def task_stale_record_ids_def)
qed

text \<open>C31: which closures a status reports as stale.  The sources are what the closure graph, the changed
  current task closures and the review and finish gates name, each with its scope (task, branch or milestone); a
  task closure the status lists as current is removed from the sources of task scope, and from no other.  After
  the projection, a status whose review state is stale or lacks its current closure reports exactly the closures
  of these sources, in any scope; a status with any other review state reports exactly those of task scope, so a
  branch or milestone closure that a gate names is then not reported.  The order of the sources and the
  duplicates between them make no difference.\<close>

theorem reported_stale_closures_have_a_source:
  assumes "project_authoritative_stale_targets ob st overlay overlay_id status preflight gate_review gate_finish = Inr p"
    and "(case st of None \<Rightarrow> Inr [] | Some _ \<Rightarrow> ob_stale_current_task_closures ob) = Inr records"
    and "st_current_task_closures s = st_current_task_closures status"
  shows "let graph = graph_from_state st (signals_from_authoritative_state st overlay_id (sp_late_stage_stale_unreviewed p)
           (sp_missing_current_closure_stale_provenance p) (sp_stale_reason_codes p));
         sources = stale_sources graph records preflight gate_review gate_finish - {StaleTask} \<times> current_closure_ids s
    in set (st_stale_unreviewed_closures (project_stale_unreviewed_closures s p)) =
         (if st_review_state_status s = REVIEW_STATE_STALE_UNREVIEWED \<or> st_review_state_status s = REVIEW_STATE_MISSING_CURRENT_CLOSURE
          then snd ` sources else {i. (StaleTask, i) \<in> sources})"
proof -
  have "current_closure_ids s = current_closure_ids status"
    using assms(3) by (simp add: current_closure_ids_def)
  then show ?thesis
    using projected_stale_ids [OF assms(1,2)]
    by (simp add: projected_closures_field set_stale_record_ids set_task_stale_record_ids Let_def)
qed

text \<open>A finish gate that found the branch closure \<^verbatim>\<open>b1\<close> drifted.\<close>

definition quiet_observations :: StaleObservations where
  "quiet_observations =
     \<lparr>ob_branch_closure_tracked_drift = Inr False, ob_stale_provenance = Inr False, ob_stale_current_task_closures = Inr [],
      ob_branch_rerecording_assessment = Inr (), ob_baseline_bridge_ready = (\<lambda>_ _. Inr False), ob_steps = [], ob_task_numbers = []\<rparr>"

definition drifted_gate :: GateResult where
  "drifted_gate =
     gate_state_finish (gate_fail ReviewArtifactNotFresh FILES_PROVEN_DRIFTED ''drift'' ''review again''
       (gate_state_default\<lparr>gr_current_branch_closure_id := Some ''b1''\<rparr>))"

definition stale_status :: PlanExecutionStatus where
  "stale_status =
     \<lparr>st_execution_run_id = None, st_current_final_review_result = None, st_current_qa_result = None,
      st_latest_authoritative_sequence = 1, st_final_review_state = FreshnessNotRequired,
      st_browser_qa_state = FreshnessNotRequired, st_release_docs_state = FreshnessNotRequired,
      st_semantic_workspace_tree_id = [], st_current_branch_reviewed_state_id = None, st_current_branch_closure_id = None,
      st_current_branch_meaningful_drift = False, st_current_task_closures = [], st_stale_unreviewed_closures = [],
      st_current_release_readiness_state = None, st_current_final_review_branch_closure_id = None,
      st_current_qa_branch_closure_id = None, st_finish_review_gate_pass_branch_closure_id = None,
      st_write_authority_state = [], st_repo_state_drift_state = [], st_handoff_required = False,
      st_execution_mode = [], st_execution_fingerprint = ''fp'', st_execution_started = ''yes'',
      st_active_task = None, st_active_step = None, st_resume_task = None, st_resume_step = None,
      st_phase = None, st_harness_phase = Executing, st_phase_detail = [],
      st_review_state_status = REVIEW_STATE_STALE_UNREVIEWED, st_recording_context = None,
      st_execution_command_context = None, st_execution_reentry_target_source = None, st_public_repair_targets = [],
      st_blocking_records = [], st_blocking_scope = None, st_external_wait_state = None, st_blocking_reason_codes = [],
      st_projection_diagnostics = [], st_state_kind = [], st_blocking_task = None, st_blocking_step = None,
      st_reason_codes = [], st_next_public_action = None, st_blockers = [], st_next_action = [],
      st_recommended_public_command = None, st_recommended_public_command_argv = None,
      st_recommended_public_command_template = None, st_required_inputs = [], st_recommended_command = None\<rparr>"

theorem reported_stale_closures_have_a_source_witness:
  "\<exists>p. project_authoritative_stale_targets quiet_observations None None None stale_status None None (Some drifted_gate) = Inr p \<and>
     ''b1'' \<in> set (st_stale_unreviewed_closures (project_stale_unreviewed_closures stale_status p))"
proof -
  have "\<exists>p. project_authoritative_stale_targets quiet_observations None None None stale_status None None (Some drifted_gate) = Inr p"
    by (simp add: project_authoritative_stale_targets_def quiet_observations_def append_current_task_stale_targets_def
        append_task_closure_baseline_stale_target_def stale_status_def Let_def)
  then obtain p where p: "project_authoritative_stale_targets quiet_observations None None None stale_status None None (Some drifted_gate) = Inr p"
    by blast
  have "(StaleBranch, ''b1'') \<in> gate_stale_ids (Some drifted_gate) FromGateFinish"
    by (simp add: gate_stale_ids_def drifted_gate_def gate_state_finish_def gate_fail_def gate_state_default_def Let_def
        gate_target_scope_def reason_code_indicates_stale_unreviewed_def reason_code_indicates_late_stage_control_plane_stale_def
        files_proven_drifted_reason_code_def)
  then have "(StaleBranch, ''b1'') \<in> stale_sources g [] None None (Some drifted_gate) - {StaleTask} \<times> current_closure_ids stale_status" for g
    by (simp add: stale_sources_def)
  then have "''b1'' \<in> snd ` (stale_sources g [] None None (Some drifted_gate) - {StaleTask} \<times> current_closure_ids stale_status)" for g
    by force
  then show ?thesis
    using reported_stale_closures_have_a_source [OF p, of "[]" stale_status] p by (auto simp: Let_def stale_status_def)
qed

subsection \<open>Earliest boundaries\<close>

lemma iter_min_least: "iter_min xs = Some n \<longleftrightarrow> n \<in> set xs \<and> (\<forall>m\<in>set xs. n \<le> m)"
  by (auto simp: iter_min_def intro!: Min_eqI)

text \<open>The earliest boundary is the least of the two candidates; the one of the targets wins a tie.\<close>

lemma earliest_boundary_is_least:
  "map_option sb_task (select_earliest_stale_boundary_candidate authoritative baseline) =
     iter_min (option_list (map_option sb_task authoritative) @ option_list baseline)"
  by (auto simp: select_earliest_stale_boundary_candidate_def task_closure_baseline_bridge_def iter_min_def min_def option_list_def
      split: option.splits)

text \<open>Apart from the baseline bridge, a resumable step is only pushed aside by an earlier task.\<close>

lemma preempting_task_is_earlier:
  assumes "resume_status_preemption_reason s cycle_break_task False = Some reason"
  shows "\<exists>resume_task task. st_resume_task s = Some resume_task \<and> task < resume_task \<and>
    (projected_earliest_stale_task_from_status s = Some task \<or> st_blocking_task s = Some task \<or> cycle_break_task = Some task)"
  using assms by (auto simp: resume_status_preemption_reason_def bind_eq_Some_conv is_some_and_def split: if_splits option.splits)

text \<open>The open step is after, at or before the earliest boundary, and the flags say which.\<close>

lemma open_step_and_boundary:
  assumes "rs_earliest_stale_task (resume_precedence_from_inputs inputs) = Some e" "pi_open_step_task inputs = Some t"
  shows "rs_open_step_preempted_by_earlier_stale (resume_precedence_from_inputs inputs) \<longleftrightarrow> e < t"
    and "rs_open_step_not_after_earliest_stale_boundary (resume_precedence_from_inputs inputs) \<longleftrightarrow> t \<le> e"
    and "rs_open_step_precedes_earliest_stale_boundary (resume_precedence_from_inputs inputs) \<longleftrightarrow> t < e"
  using assms by (auto simp: resume_precedence_from_inputs_def Let_def)

end
