(* ===== verification/Command_Eligibility.thy ===== *)
theory Command_Eligibility
  imports Execution_Status
begin

text \<open>
  The oracle that says whether a public mutation may run on a status (\<^verbatim>\<open>decide_public_mutation\<close> of
  \<^verbatim>\<open>execution/command_eligibility.rs\<close>), the failure a refused mutation returns, and the tokens of the hidden
  command lane.

  The lemmas describe the oracle from outside: what authorises an allowed request, that every rejection has
  a reason code of a fixed list, and which statuses allow nothing at all.
\<close>

subsection \<open>Hidden commands\<close>

definition HIDDEN_COMMAND_OR_FLAG_TOKENS :: "string list" where
  "HIDDEN_COMMAND_OR_FLAG_TOKENS =
     [''erpbeq-cvibg'', ''erpbeq-erivrj-qvfcngpu'', ''erpbeq-oenapu-pybfher'', ''erpbeq-eryrnfr-ernqvarff'',
      ''erpbeq-svany-erivrj'', ''erpbeq-dn'', ''tngr-erivrj'', ''tngr-svavfu'', ''erohvyq-rivqrapr'',
      ''erpbapvyr-erivrj-fgngr'', ''cyna rkrphgvba vagreany'', ''cyna rkrphgvba cersyvtug'',
      ''cyna rkrphgvba erpbzzraq'', ''jbexsybj erpbzzraq'', ''jbexsybj cersyvtug'', ''--qvfcngpu-vq'',
      ''--oenapu-pybfher-vq'']"

definition rot13_byte :: "char \<Rightarrow> char" where
  "rot13_byte c =
     (let b = of_char c :: nat in
      if 97 \<le> b \<and> b \<le> 109 \<or> 65 \<le> b \<and> b \<le> 77 then char_of (b + 13)
      else if 110 \<le> b \<and> b \<le> 122 \<or> 78 \<le> b \<and> b \<le> 90 then char_of (b - 13) else c)"

definition decode_rot13_ascii :: "string \<Rightarrow> string" where
  "decode_rot13_ascii encoded = map rot13_byte encoded"

definition hidden_command_or_flag_tokens :: "string list" where
  "hidden_command_or_flag_tokens = map decode_rot13_ascii HIDDEN_COMMAND_OR_FLAG_TOKENS"

definition hidden_command_tokens :: "string list" where
  "hidden_command_tokens = hidden_command_or_flag_tokens"

definition command_invokes_hidden_lane :: "string \<Rightarrow> bool" where
  "command_invokes_hidden_lane command \<longleftrightarrow> list_ex (str_contains command) hidden_command_tokens"

subsection \<open>Decisions\<close>

datatype MutationEligibilitySource = ExactRoute | ExplicitRepairTarget

record MutationEligibilityDecision =
  md_allowed :: bool
  md_source :: "MutationEligibilitySource option"
  md_reason_code :: string
  md_detail :: string

definition decision_allow :: "MutationEligibilitySource \<Rightarrow> string \<Rightarrow> string \<Rightarrow> MutationEligibilityDecision" where
  "decision_allow source reason_code detail =
     \<lparr>md_allowed = True, md_source = Some source, md_reason_code = reason_code, md_detail = detail\<rparr>"

definition decision_reject :: "string \<Rightarrow> string \<Rightarrow> MutationEligibilityDecision" where
  "decision_reject reason_code detail =
     \<lparr>md_allowed = False, md_source = None, md_reason_code = reason_code, md_detail = detail\<rparr>"

lemma decision_allow_simps [simp]:
  "md_allowed (decision_allow s c d)" "md_source (decision_allow s c d) = Some s"
  "md_reason_code (decision_allow s c d) = c" "md_detail (decision_allow s c d) = d"
  by (simp_all add: decision_allow_def)

lemma decision_reject_simps [simp]:
  "\<not> md_allowed (decision_reject c d)" "md_source (decision_reject c d) = None"
  "md_reason_code (decision_reject c d) = c" "md_detail (decision_reject c d) = d"
  by (simp_all add: decision_reject_def)

fun debug_command_kind :: "PublicCommandKind \<Rightarrow> string" where
  "debug_command_kind WorkflowOperator = ''WorkflowOperator''"
| "debug_command_kind Status = ''Status''"
| "debug_command_kind RepairReviewStateCommand = ''RepairReviewState''"
| "debug_command_kind CloseCurrentTaskCommand = ''CloseCurrentTask''"
| "debug_command_kind AdvanceLateStageCommand = ''AdvanceLateStage''"
| "debug_command_kind BeginCommand = ''Begin''"
| "debug_command_kind CompleteCommand = ''Complete''"
| "debug_command_kind ReopenCommand = ''Reopen''"
| "debug_command_kind TransferCommand = ''Transfer''"
| "debug_command_kind MaterializeProjectionsStateDirOnly = ''MaterializeProjectionsStateDirOnly''"

definition status_waits_for_external_review_result :: "PlanExecutionStatus \<Rightarrow> bool" where
  "status_waits_for_external_review_result status \<longleftrightarrow> external_wait_state_is_external_wait (st_external_wait_state status)"

definition external_wait_exact_route_exception :: "PlanExecutionStatus \<Rightarrow> PublicMutationRequest \<Rightarrow> bool" where
  "external_wait_exact_route_exception status request \<longleftrightarrow>
     state_kind_is_external_wait (st_state_kind status) \<and>
     st_phase_detail status = DETAIL_FINAL_REVIEW_DISPATCH_REQUIRED \<and> mr_kind request = AdvanceLateStageCommand"

definition runtime_reconcile_route_is_diagnostic_only :: "PlanExecutionStatus \<Rightarrow> bool" where
  "runtime_reconcile_route_is_diagnostic_only status \<longleftrightarrow>
     st_phase_detail status = DETAIL_RUNTIME_RECONCILE_REQUIRED \<and> st_recommended_public_command status = None \<and>
     st_recommended_public_command_argv status = None \<and> st_recommended_public_command_template status = None \<and>
     st_next_public_action status = None \<and> st_public_repair_targets status = []"

definition runtime_reconcile_repair_route_exception :: "PlanExecutionStatus \<Rightarrow> PublicMutationRequest \<Rightarrow> bool" where
  "runtime_reconcile_repair_route_exception status request \<longleftrightarrow>
     mr_kind request = RepairReviewStateCommand \<and> st_phase_detail status = DETAIL_RUNTIME_RECONCILE_REQUIRED \<and>
     state_kind_is_runtime_reconcile_required (st_state_kind status) \<and>
     \<not> runtime_reconcile_route_is_diagnostic_only status"

definition state_kind_blocks_all_public_mutation :: "PlanExecutionStatus \<Rightarrow> PublicMutationRequest \<Rightarrow> bool" where
  "state_kind_blocks_all_public_mutation status request \<longleftrightarrow>
     state_kind_blocks_local_mutation (st_state_kind status) \<and> \<not> runtime_reconcile_repair_route_exception status request"

definition status_blocks_non_exact_public_mutation :: "PlanExecutionStatus \<Rightarrow> bool" where
  "status_blocks_non_exact_public_mutation status \<longleftrightarrow>
     st_phase_detail status = DETAIL_RUNTIME_RECONCILE_REQUIRED \<or> state_kind_blocks_local_mutation (st_state_kind status)"

fun fingerprint_pair_matches :: "string option \<Rightarrow> string option \<Rightarrow> bool" where
  "fingerprint_pair_matches _ None \<longleftrightarrow> True"
| "fingerprint_pair_matches (Some route) (Some requested) \<longleftrightarrow> route = requested"
| "fingerprint_pair_matches None (Some _) \<longleftrightarrow> False"

definition public_mutation_fingerprint_matches :: "PublicMutationRequest \<Rightarrow> PublicMutationRequest \<Rightarrow> bool" where
  "public_mutation_fingerprint_matches route_request request \<longleftrightarrow>
     fingerprint_pair_matches (mr_expect_execution_fingerprint route_request) (mr_expect_execution_fingerprint request)"

definition public_transfer_scope_matches :: "PublicMutationRequest \<Rightarrow> PublicMutationRequest \<Rightarrow> bool" where
  "public_transfer_scope_matches route_request request \<longleftrightarrow>
     (if mr_transfer_mode route_request = Some TransferWorkflowHandoff \<and> mr_transfer_scope route_request = None
      then is_some_and (mr_transfer_scope request) (\<lambda>scope. scope = ''task'' \<or> scope = ''branch'')
      else mr_transfer_scope route_request = mr_transfer_scope request)"

definition public_mutation_requests_match :: "PublicMutationRequest \<Rightarrow> PublicMutationRequest \<Rightarrow> bool" where
  "public_mutation_requests_match route_request request \<longleftrightarrow>
     (if mr_kind route_request \<noteq> mr_kind request then False
      else if mr_kind request = TransferCommand
      then mr_transfer_mode route_request = mr_transfer_mode request \<and>
           public_transfer_scope_matches route_request request \<and> mr_task route_request = mr_task request \<and>
           mr_step route_request = mr_step request \<and> public_mutation_fingerprint_matches route_request request
      else if mr_kind request = AdvanceLateStageCommand \<and>
        mr_advance_late_stage_mode route_request \<noteq> mr_advance_late_stage_mode request then False
      else mr_task route_request = mr_task request \<and> mr_step route_request = mr_step request \<and>
           public_mutation_fingerprint_matches route_request request)"

definition route_exposes_public_mutation_request :: "PlanExecutionStatus \<Rightarrow> PublicMutationRequest \<Rightarrow> bool" where
  "route_exposes_public_mutation_request status request \<longleftrightarrow>
     (case Option.bind (st_recommended_public_command status) to_mutation_request of
        None \<Rightarrow> False
      | Some route_request \<Rightarrow>
          if mr_kind route_request = AdvanceLateStageCommand \<and>
            \<not> public_advance_late_stage_request_mode_matches_routed_public_command (st_phase_detail status)
                (st_recommended_public_command status) (mr_advance_late_stage_mode route_request)
          then False else public_mutation_requests_match route_request request)"

definition public_repair_target_matches_request ::
  "string \<Rightarrow> nat option \<Rightarrow> nat option \<Rightarrow> PublicMutationRequest \<Rightarrow> bool" where
  "public_repair_target_matches_request token task step request \<longleftrightarrow>
     (if mr_kind request = AdvanceLateStageCommand then False
      else matches_public_mutation_token (mr_kind request) token \<and> task = mr_task request \<and>
        step = mr_step request \<and>
        (mr_kind request \<noteq> TransferCommand \<or> mr_transfer_mode request = Some TransferRepairStepMode))"

definition request_fingerprint_matches_status :: "PlanExecutionStatus \<Rightarrow> PublicMutationRequest \<Rightarrow> bool" where
  "request_fingerprint_matches_status status request \<longleftrightarrow>
     is_none_or (mr_expect_execution_fingerprint request) (\<lambda>fp. fp = st_execution_fingerprint status)"

text \<open>The two comparisons the oracle makes on the status itself, named for its lemmas.\<close>

definition context_authorizes :: "PlanExecutionStatus \<Rightarrow> PublicMutationRequest \<Rightarrow> bool" where
  "context_authorizes status request \<longleftrightarrow>
     is_some_and (execution_command_kind request) (\<lambda>token.
       is_some_and (st_execution_command_context status) (\<lambda>ctx.
         cx_command_kind ctx = token \<and> cx_task_number ctx = mr_task request \<and>
         cx_step_id ctx = mr_step request)) \<and>
     request_fingerprint_matches_status status request"

definition repair_target_authorizes :: "PlanExecutionStatus \<Rightarrow> PublicMutationRequest \<Rightarrow> bool" where
  "repair_target_authorizes status request \<longleftrightarrow>
     request_fingerprint_matches_status status request \<and>
     list_ex (\<lambda>target. public_repair_target_matches_request (rt_command_kind target) (rt_task target) (rt_step target) request)
       (st_public_repair_targets status)"

definition decide_public_mutation :: "PlanExecutionStatus \<Rightarrow> PublicMutationRequest \<Rightarrow> MutationEligibilityDecision" where
  "decide_public_mutation status request =
     (case public_command_name request of
        None \<Rightarrow> decision_reject ''mutation_hidden_or_unsupported_command''
          (command_name_for_diagnostics request @ '' is not a supported public command token for '' @
           debug_command_kind (mr_kind request) @ ''.'')
      | Some command_name \<Rightarrow>
     if state_kind_is_blocked_runtime_bug (st_state_kind status)
     then decision_reject ''mutation_blocked_runtime_bug''
       (command_name @ '' cannot mutate while public runtime status is blocked_runtime_bug.'')
     else if st_phase_detail status = DETAIL_RUNTIME_RECONCILE_REQUIRED \<and> mr_kind request \<noteq> RepairReviewStateCommand
     then decision_reject ''mutation_runtime_reconcile_required''
       (command_name @ '' cannot mutate while public runtime status requires reconcile.'')
     else if st_phase_detail status = DETAIL_RUNTIME_RECONCILE_REQUIRED \<and> runtime_reconcile_route_is_diagnostic_only status
     then decision_reject ''mutation_runtime_reconcile_diagnostic_only''
       ''repair-review-state cannot mutate while runtime_reconcile_required is diagnostic-only and no public repair target is bound.''
     else let exact_public_route_exposed =
            (execution_command_kind request = None \<and> route_exposes_public_mutation_request status request) in
     if exact_public_route_exposed \<and> external_wait_exact_route_exception status request
     then decision_allow ExactRoute ''mutation_exact_route_authorized''
       (command_name @ '' is authorized by the exact public route.'')
     else if status_waits_for_external_review_result status
     then decision_reject ''mutation_waiting_external_input''
       (command_name @ '' cannot mutate while public runtime status is waiting for external input.'')
     else if state_kind_blocks_all_public_mutation status request
     then decision_reject ''mutation_state_kind_blocks_local_mutation''
       (command_name @ '' cannot mutate while public runtime status is state_kind='' @ st_state_kind status @
        ''; stale exact routes and repair targets are ignored until status/operator exposes a current typed public route.'')
     else if exact_public_route_exposed
     then decision_allow ExactRoute ''mutation_exact_route_authorized''
       (command_name @ '' is authorized by the exact public route.'')
     else if context_authorizes status request
     then decision_allow ExactRoute ''mutation_exact_route_authorized''
       (command_name @ '' is authorized by the exact public execution route.'')
     else if repair_target_authorizes status request
     then decision_allow ExplicitRepairTarget ''mutation_explicit_repair_target_authorized''
       (command_name @ '' is authorized by an explicit public repair target.'')
     else if status_blocks_non_exact_public_mutation status
     then decision_reject ''mutation_blocked_until_exact_public_route''
       (command_name @ '' is blocked while the runtime is in phase_detail='' @ st_phase_detail status @ '' state_kind='' @
        st_state_kind status @ ''; only the exact public route or an explicit repair target may mutate.'')
     else decision_reject ''mutation_not_route_authorized''
       (command_name @ '' is not the exact public route and no explicit repair target is bound.''))"

subsection \<open>The failure of a refused mutation\<close>

definition EXECUTE_RECOMMENDED_PUBLIC_ARGV_GUIDANCE :: string where
  "EXECUTE_RECOMMENDED_PUBLIC_ARGV_GUIDANCE =
     ''query workflow operator JSON with `workflow operator --plan <approved-plan-path> --json` and execute recommended_public_command_argv''"

definition WORKFLOW_OPERATOR_TEMPLATE_JSON_QUERY :: string where
  "WORKFLOW_OPERATOR_TEMPLATE_JSON_QUERY =
     ''query workflow operator JSON with `workflow operator --plan <approved-plan-path> --input NAME=VALUE --json` so Rust materializes recommended_public_command_argv''"

definition OPERATOR_ROUTE_AUTHORITY_REFERENCE :: string where
  "OPERATOR_ROUTE_AUTHORITY_REFERENCE = ''follow the shared route law in references/operator-route-authority.md''"

definition kind_summary :: "PublicCommand \<Rightarrow> string" where
  "kind_summary command = ''command_kind='' @ command_kind_name command"

fun public_command_diagnostic_summary :: "PublicCommand \<Rightarrow> string" where
  "public_command_diagnostic_summary (PublicWorkflowOperator plan ready json) =
     kind_summary (PublicWorkflowOperator plan ready json) @ '',external_review_result_ready='' @ show_bool ready @
     '',json='' @ show_bool json"
| "public_command_diagnostic_summary (PublicStatus plan) = kind_summary (PublicStatus plan)"
| "public_command_diagnostic_summary (PublicRepairReviewState plan) = kind_summary (PublicRepairReviewState plan)"
| "public_command_diagnostic_summary (PublicBegin plan task step mode fp) =
     kind_summary (PublicBegin plan task step mode fp) @ '',task='' @ show_nat task @ '',step='' @ show_nat step"
| "public_command_diagnostic_summary (PublicComplete plan task step source fp) =
     kind_summary (PublicComplete plan task step source fp) @ '',task='' @ show_nat task @ '',step='' @ show_nat step"
| "public_command_diagnostic_summary (PublicReopen plan task step source reason fp) =
     kind_summary (PublicReopen plan task step source reason fp) @ '',task='' @ show_nat task @ '',step='' @ show_nat step"
| "public_command_diagnostic_summary (PublicTransferRepairStep plan task step fp) =
     kind_summary (PublicTransferRepairStep plan task step fp) @ '',task='' @ show_nat task @ '',step='' @ show_nat step"
| "public_command_diagnostic_summary (PublicTransferHandoff plan scope) =
     kind_summary (PublicTransferHandoff plan scope) @ '',scope='' @ scope"
| "public_command_diagnostic_summary (PublicCloseCurrentTask plan task required) =
     kind_summary (PublicCloseCurrentTask plan task required) @ '',task='' @
     (case task of None \<Rightarrow> ''none'' | Some t \<Rightarrow> show_nat t) @ '',result_inputs_required='' @ show_bool required"
| "public_command_diagnostic_summary (PublicAdvanceLateStage plan mode) =
     kind_summary (PublicAdvanceLateStage plan mode) @ '',mode='' @ public_advance_late_stage_mode_name mode"
| "public_command_diagnostic_summary (PublicMaterializeProjections plan scope) =
     kind_summary (PublicMaterializeProjections plan scope) @ '',scope='' @ unwrap_or ''none'' scope"

definition public_mutation_failure_route_summary :: "PlanExecutionStatus \<Rightarrow> string" where
  "public_mutation_failure_route_summary status =
     unwrap_or ''command_kind=none'' (map_option public_command_diagnostic_summary (st_recommended_public_command status))"

definition public_mutation_failure_route_field :: "PlanExecutionStatus \<Rightarrow> string" where
  "public_mutation_failure_route_field status =
     (if st_recommended_public_command_argv status \<noteq> None then ''recommended_public_command_argv''
      else if st_recommended_public_command_template status \<noteq> None then ''recommended_public_command_template.input_bindings''
      else ''none'')"

definition public_mutation_failure_route_guidance :: "PlanExecutionStatus \<Rightarrow> string" where
  "public_mutation_failure_route_guidance status =
     (if state_kind_or_phase_is_runtime_diagnostic (st_state_kind status) (st_phase_detail status) \<or>
        st_next_action status = NEXT_ACTION_RUNTIME_DIAGNOSTIC_REQUIRED
      then ''stop on runtime diagnostic; do not retry mutation''
      else if st_recommended_public_command_argv status \<noteq> None then EXECUTE_RECOMMENDED_PUBLIC_ARGV_GUIDANCE
      else if st_recommended_public_command_template status \<noteq> None then WORKFLOW_OPERATOR_TEMPLATE_JSON_QUERY
      else OPERATOR_ROUTE_AUTHORITY_REFERENCE)"

definition joined_or_none :: "string list \<Rightarrow> string" where
  "joined_or_none parts = (if parts = [] then ''none'' else join_with '','' parts)"

definition repair_target_summary :: "PublicRepairTarget \<Rightarrow> string" where
  "repair_target_summary target =
     rt_command_kind target @ '':'' @ debug_option show_nat (rt_task target) @ '':'' @
     debug_option show_nat (rt_step target) @ '':'' @ rt_reason_code target"

definition blocking_record_summary :: "StatusBlockingRecord \<Rightarrow> string" where
  "blocking_record_summary r =
     br_record_type r @ '':'' @ debug_option debug_str (br_required_follow_up r) @ '':'' @ br_review_state_status r"

definition refused_mutation_message ::
  "PlanExecutionStatus \<Rightarrow> PublicMutationRequest \<Rightarrow> MutationEligibilityDecision \<Rightarrow> string" where
  "refused_mutation_message status request decision =
     command_name_for_diagnostics request @ '' failed closed: requested task '' @
     (case mr_task request of None \<Rightarrow> ''none'' | Some n \<Rightarrow> show_nat n) @ '' step '' @
     (case mr_step request of None \<Rightarrow> ''none'' | Some n \<Rightarrow> show_nat n) @
     '' is not the exact public route and no explicit repair target is bound. typed_public_route='' @
     public_mutation_failure_route_summary status @ ''; route_field='' @ public_mutation_failure_route_field status @
     ''; route_guidance='' @ public_mutation_failure_route_guidance status @ ''; reason_code='' @ md_reason_code decision @
     ''; phase_detail='' @ st_phase_detail status @ ''; state_kind='' @ st_state_kind status @
     ''; runtime_reconcile_required='' @ show_bool (st_phase_detail status = DETAIL_RUNTIME_RECONCILE_REQUIRED) @
     ''; blocked_runtime_bug='' @ show_bool (state_kind_is_blocked_runtime_bug (st_state_kind status)) @
     ''; route_reason_codes=['' @ joined_or_none (st_reason_codes status) @
     '']; public_repair_targets=['' @ joined_or_none (map repair_target_summary (st_public_repair_targets status)) @
     '']; blocking_records=['' @ joined_or_none (map blocking_record_summary (st_blocking_records status)) @
     '']; detail='' @ md_detail decision"

definition require_public_mutation_decision ::
  "PlanExecutionStatus \<Rightarrow> PublicMutationRequest \<Rightarrow> FailureClass \<Rightarrow> JsonFailure + MutationEligibilityDecision" where
  "require_public_mutation_decision status request failure_class =
     (let decision = decide_public_mutation status request in
      if md_allowed decision then Inr decision
      else Inl (json_failure failure_class (refused_mutation_message status request decision)))"

definition require_public_mutation :: "PlanExecutionStatus \<Rightarrow> PublicMutationRequest \<Rightarrow> FailureClass \<Rightarrow> JsonFailure + unit" where
  "require_public_mutation status request failure_class =
     map_sum id (\<lambda>_. ()) (require_public_mutation_decision status request failure_class)"

definition public_advance_late_stage_status_mutation_allowed ::
  "PlanExecutionStatus \<Rightarrow> PublicAdvanceLateStageMode \<Rightarrow> bool" where
  "public_advance_late_stage_status_mutation_allowed status mode \<longleftrightarrow>
     md_allowed (decide_public_mutation status (request_advance_late_stage mode))"

subsection \<open>What the oracle allows\<close>

definition exact_route_exposed :: "PlanExecutionStatus \<Rightarrow> PublicMutationRequest \<Rightarrow> bool" where
  "exact_route_exposed status request \<longleftrightarrow>
     execution_command_kind request = None \<and> route_exposes_public_mutation_request status request"

definition reconcile_admits :: "PlanExecutionStatus \<Rightarrow> PublicMutationRequest \<Rightarrow> bool" where
  "reconcile_admits status request \<longleftrightarrow>
     (st_phase_detail status = DETAIL_RUNTIME_RECONCILE_REQUIRED \<longrightarrow>
        mr_kind request = RepairReviewStateCommand \<and> \<not> runtime_reconcile_route_is_diagnostic_only status)"

definition route_open :: "PlanExecutionStatus \<Rightarrow> PublicMutationRequest \<Rightarrow> bool" where
  "route_open status request \<longleftrightarrow>
     \<not> status_waits_for_external_review_result status \<and> \<not> state_kind_blocks_all_public_mutation status request"

lemma decide_allowed_iff:
  "md_allowed (decide_public_mutation status request) \<longleftrightarrow>
     is_public_mutation (mr_kind request) \<and> \<not> state_kind_is_blocked_runtime_bug (st_state_kind status) \<and>
     reconcile_admits status request \<and>
     (exact_route_exposed status request \<and>
        (external_wait_exact_route_exception status request \<or> route_open status request) \<or>
      route_open status request \<and> (context_authorizes status request \<or> repair_target_authorizes status request))"
proof (cases "public_command_name request")
  case None
  then show ?thesis
    by (simp add: decide_public_mutation_def is_public_mutation_def public_command_name_def)
next
  case (Some name)
  then have public: "is_public_mutation (mr_kind request)"
    by (simp add: is_public_mutation_def public_command_name_def)
  show ?thesis
    unfolding decide_public_mutation_def Some option.case Let_def
    by (simp only: public exact_route_exposed_def reconcile_admits_def route_open_def if_distrib [of md_allowed]
        decision_allow_simps decision_reject_simps if_bool_eq_conj) blast
qed

lemma decide_source:
  "md_source (decide_public_mutation status request) = None \<longleftrightarrow> \<not> md_allowed (decide_public_mutation status request)"
  by (simp add: decide_public_mutation_def Let_def split: option.split)

definition MUTATION_REJECTION_REASON_CODES :: "string list" where
  "MUTATION_REJECTION_REASON_CODES =
     [''mutation_hidden_or_unsupported_command'', ''mutation_blocked_runtime_bug'', ''mutation_runtime_reconcile_required'',
      ''mutation_runtime_reconcile_diagnostic_only'', ''mutation_waiting_external_input'',
      ''mutation_state_kind_blocks_local_mutation'', ''mutation_blocked_until_exact_public_route'',
      ''mutation_not_route_authorized'']"

lemma decide_reason_code:
  "md_reason_code (decide_public_mutation status request) \<in>
     (if md_allowed (decide_public_mutation status request)
      then {''mutation_exact_route_authorized'', ''mutation_explicit_repair_target_authorized''}
      else set MUTATION_REJECTION_REASON_CODES)"
  by (simp add: decide_public_mutation_def Let_def MUTATION_REJECTION_REASON_CODES_def split: option.split)

text \<open>The statuses under which nothing may be mutated.\<close>

lemma nothing_allowed_on_bug:
  "state_kind_is_blocked_runtime_bug (st_state_kind status) \<Longrightarrow> \<not> md_allowed (decide_public_mutation status request)"
  by (simp add: decide_allowed_iff)

lemma nothing_allowed_on_diagnostic_reconcile:
  "runtime_reconcile_route_is_diagnostic_only status \<Longrightarrow> \<not> md_allowed (decide_public_mutation status request)"
  by (auto simp: decide_allowed_iff reconcile_admits_def runtime_reconcile_route_is_diagnostic_only_def)

lemma nothing_allowed_on_blocking_kind:
  assumes "state_kind_blocks_local_mutation (st_state_kind status)"
    and "st_phase_detail status \<noteq> DETAIL_RUNTIME_RECONCILE_REQUIRED"
    and "st_phase_detail status \<noteq> DETAIL_FINAL_REVIEW_DISPATCH_REQUIRED"
  shows "\<not> md_allowed (decide_public_mutation status request)"
  using assms
  by (auto simp: decide_allowed_iff route_open_def state_kind_blocks_all_public_mutation_def
      runtime_reconcile_repair_route_exception_def external_wait_exact_route_exception_def)

text \<open>What a match with the recommended command pins down.\<close>

lemma requests_match_fields:
  "public_mutation_requests_match r q \<Longrightarrow>
     mr_kind r = mr_kind q \<and> mr_task r = mr_task q \<and> mr_step r = mr_step q \<and>
     (mr_expect_execution_fingerprint q = None \<or>
      mr_expect_execution_fingerprint q = mr_expect_execution_fingerprint r)"
  by (auto simp: public_mutation_requests_match_def public_mutation_fingerprint_matches_def
      elim: fingerprint_pair_matches.elims split: if_splits)

lemma requests_match_transfer:
  "public_mutation_requests_match r q \<Longrightarrow> mr_kind q = TransferCommand \<Longrightarrow>
     mr_transfer_mode r = mr_transfer_mode q \<and>
     (mr_transfer_scope r = mr_transfer_scope q \<or>
      mr_transfer_mode r = Some TransferWorkflowHandoff \<and> mr_transfer_scope r = None \<and>
      mr_transfer_scope q \<in> {Some ''task'', Some ''branch''})"
  by (cases "mr_transfer_scope q")
     (auto simp: public_mutation_requests_match_def public_transfer_scope_matches_def split: if_splits)

lemma requests_match_late_stage:
  "public_mutation_requests_match r q \<Longrightarrow> mr_kind q = AdvanceLateStageCommand \<Longrightarrow>
     mr_advance_late_stage_mode r = mr_advance_late_stage_mode q"
  by (auto simp: public_mutation_requests_match_def split: if_splits)

lemma exact_route_exposed_command:
  assumes "exact_route_exposed status request"
  obtains c r where "st_recommended_public_command status = Some c" "to_mutation_request c = Some r"
    "public_mutation_requests_match r request"
    "mr_kind r = AdvanceLateStageCommand \<Longrightarrow>
      public_advance_late_stage_request_mode_matches_routed_public_command (st_phase_detail status)
        (Some c) (mr_advance_late_stage_mode r)"
  using assms
  by (auto simp: exact_route_exposed_def route_exposes_public_mutation_request_def bind_eq_Some_conv
      split: option.splits if_splits)

text \<open>A step command (\<^verbatim>\<open>begin\<close>, \<^verbatim>\<open>complete\<close>, \<^verbatim>\<open>reopen\<close>) is never allowed by the recommended command alone: it needs
  the command context or a repair target, at the status's own fingerprint.\<close>

lemma step_command_authority:
  assumes "md_allowed (decide_public_mutation status request)" and "is_execution_mutation (mr_kind request)"
  shows "context_authorizes status request \<or> repair_target_authorizes status request"
    and "request_fingerprint_matches_status status request"
proof -
  have "execution_command_kind request \<noteq> None"
    using assms(2) by (cases "mr_kind request") (simp_all add: execution_command_kind_def execution_mutation_name_def)
  then show "context_authorizes status request \<or> repair_target_authorizes status request"
    using assms(1) by (auto simp: decide_allowed_iff exact_route_exposed_def)
  then show "request_fingerprint_matches_status status request"
    by (auto simp: context_authorizes_def repair_target_authorizes_def)
qed

lemma context_authorizes_fields:
  "context_authorizes status request \<Longrightarrow>
     \<exists>ctx. st_execution_command_context status = Some ctx \<and> cx_task_number ctx = mr_task request \<and>
       cx_step_id ctx = mr_step request \<and> from_execution_mutation_name (cx_command_kind ctx) = Some (mr_kind request)"
  by (auto simp: context_authorizes_def is_some_and_def from_execution_mutation_name_iff execution_command_kind_def
      split: option.splits)

lemma repair_target_authorizes_fields:
  "repair_target_authorizes status request \<Longrightarrow>
     \<exists>t\<in>set (st_public_repair_targets status). rt_task t = mr_task request \<and> rt_step t = mr_step request \<and>
       public_mutation_name (mr_kind request) = Some (rt_command_kind t) \<and>
       (mr_kind request = TransferCommand \<longrightarrow> mr_transfer_mode request = Some TransferRepairStepMode)"
  by (auto simp: repair_target_authorizes_def list_ex_iff public_repair_target_matches_request_def
      matches_public_mutation_token_def split: if_splits)

text \<open>The oracle reads only these parts of a status.\<close>

lemma command_kind_of_request:
  "to_mutation_request c = Some r \<Longrightarrow> mr_kind r = command_kind c"
  by (cases c) (auto simp: request_defs)

lemma to_mutation_request_iff:
  "to_mutation_request c = None \<longleftrightarrow> public_mutation_name (command_kind c) = None"
  by (cases c) simp_all

subsection \<open>Hidden tokens\<close>

lemma rot13_byte_involution: "rot13_byte (rot13_byte c) = c"
proof -
  have "\<forall>n \<in> {..<256::nat}. rot13_byte (rot13_byte (char_of n)) = char_of n"
    by (auto simp: rot13_byte_def Let_def)
  from bspec [OF this, of "of_char c"] show ?thesis
    using nat_of_char_less_256 [of c] by simp
qed

lemma decode_rot13_involution: "decode_rot13_ascii (decode_rot13_ascii s) = s"
  by (simp add: decode_rot13_ascii_def rot13_byte_involution comp_def)

subsection \<open>Authority of a mutation\<close>

text \<open>A status with nothing bound, for concrete instances.\<close>

definition idle_status :: PlanExecutionStatus where
  "idle_status =
     \<lparr>st_execution_run_id = Some ''run-1'', st_current_final_review_result = None, st_current_qa_result = None,
      st_latest_authoritative_sequence = 1, st_final_review_state = FreshnessNotRequired,
      st_browser_qa_state = FreshnessNotRequired, st_release_docs_state = FreshnessNotRequired,
      st_semantic_workspace_tree_id = [], st_current_branch_reviewed_state_id = None, st_current_branch_closure_id = None,
      st_current_branch_meaningful_drift = False, st_current_task_closures = [], st_stale_unreviewed_closures = [],
      st_current_release_readiness_state = None, st_current_final_review_branch_closure_id = None,
      st_current_qa_branch_closure_id = None, st_finish_review_gate_pass_branch_closure_id = None,
      st_write_authority_state = ''available'', st_repo_state_drift_state = ''clean'', st_handoff_required = False,
      st_execution_mode = ''featureforge:executing-plans'', st_execution_fingerprint = ''fp'', st_execution_started = ''yes'',
      st_active_task = None, st_active_step = None, st_resume_task = None, st_resume_step = None,
      st_phase = Some ''executing'', st_harness_phase = Executing, st_phase_detail = DETAIL_EXECUTION_IN_PROGRESS,
      st_review_state_status = ''clean'', st_recording_context = None, st_execution_command_context = None,
      st_execution_reentry_target_source = None, st_public_repair_targets = [], st_blocking_records = [],
      st_blocking_scope = None, st_external_wait_state = None, st_blocking_reason_codes = [],
      st_projection_diagnostics = [], st_state_kind = STATE_KIND_ACTIONABLE_PUBLIC_COMMAND, st_blocking_task = None,
      st_blocking_step = None, st_reason_codes = [], st_next_public_action = None, st_blockers = [],
      st_next_action = NEXT_ACTION_CONTINUE_EXECUTION, st_recommended_public_command = None,
      st_recommended_public_command_argv = None, st_recommended_public_command_template = None,
      st_required_inputs = [], st_recommended_command = None\<rparr>"

text \<open>C25: a mutation the oracle allows is a public mutation on a status that is not a runtime bug, and something
  on the status names it.  A step command (begin, complete, reopen) is named, task and step, by the execution
  command context or by a repair target, and its fingerprint, if it carries one, is the status's own; the
  recommended command alone never suffices.  Any other command is the recommended one, or is named by a repair
  target at the status's fingerprint.  To be the recommended one it must have the same kind, task, step and, if it
  carries one, fingerprint as that command, a transfer the same mode and scope (a handoff recommended without a
  scope takes either scope), a late-stage command the same mode, which must be the one the phase asks for.  A
  repair target admits a transfer only in its repair-step mode, and a late-stage command never.\<close>

lemma allowed_mutation_is_authorized:
  assumes "md_allowed (decide_public_mutation status request)"
  shows "is_public_mutation (mr_kind request) \<and> \<not> state_kind_is_blocked_runtime_bug (st_state_kind status) \<and>
    (let context = (\<exists>ctx. st_execution_command_context status = Some ctx \<and> cx_task_number ctx = mr_task request \<and>
           cx_step_id ctx = mr_step request \<and> from_execution_mutation_name (cx_command_kind ctx) = Some (mr_kind request));
         target = (\<exists>t\<in>set (st_public_repair_targets status). rt_task t = mr_task request \<and> rt_step t = mr_step request \<and>
           public_mutation_name (mr_kind request) = Some (rt_command_kind t) \<and>
           (mr_kind request = TransferCommand \<longrightarrow> mr_transfer_mode request = Some TransferRepairStepMode));
         route = (\<exists>c r. st_recommended_public_command status = Some c \<and> to_mutation_request c = Some r \<and>
           mr_kind r = mr_kind request \<and> mr_task r = mr_task request \<and> mr_step r = mr_step request \<and>
           (mr_expect_execution_fingerprint request = None \<or>
            mr_expect_execution_fingerprint request = mr_expect_execution_fingerprint r) \<and>
           (mr_kind request = TransferCommand \<longrightarrow>
              mr_transfer_mode r = mr_transfer_mode request \<and>
              (mr_transfer_scope r = mr_transfer_scope request \<or>
               mr_transfer_mode r = Some TransferWorkflowHandoff \<and> mr_transfer_scope r = None \<and>
               mr_transfer_scope request \<in> {Some ''task'', Some ''branch''})) \<and>
           (mr_kind request = AdvanceLateStageCommand \<longrightarrow>
              mr_advance_late_stage_mode r = mr_advance_late_stage_mode request \<and>
              public_advance_late_stage_request_mode_matches_routed_public_command (st_phase_detail status)
                (Some c) (mr_advance_late_stage_mode request)));
         current = (mr_expect_execution_fingerprint request = None \<or>
           mr_expect_execution_fingerprint request = Some (st_execution_fingerprint status))
     in if is_execution_mutation (mr_kind request) then (context \<or> target) \<and> current
        else route \<or> target \<and> current \<and> mr_kind request \<noteq> AdvanceLateStageCommand)"
    (is "_ \<and> _ \<and> (let _ = ?named; _ = ?target; _ = ?route; _ = ?current in _)")
proof -
  note named = context_authorizes_fields [of status request]
  note target = repair_target_authorizes_fields [of status request]
  have current: "request_fingerprint_matches_status status request \<Longrightarrow> ?current"
    by (cases "mr_expect_execution_fingerprint request") (simp_all add: request_fingerprint_matches_status_def)
  show ?thesis
  proof (cases "is_execution_mutation (mr_kind request)")
    case True
    have "?named \<or> ?target" "?current"
      using step_command_authority [OF assms True] named target current by blast+
    then show ?thesis using assms True unfolding decide_allowed_iff Let_def by (simp only: if_True simp_thms)
  next
    case False
    then have no_context: "\<not> context_authorizes status request"
      by (simp add: context_authorizes_def execution_command_kind_def execution_mutation_name_def)
    have authorized: "repair_target_authorizes status request \<Longrightarrow>
        request_fingerprint_matches_status status request \<and> mr_kind request \<noteq> AdvanceLateStageCommand"
      by (auto simp: repair_target_authorizes_def list_ex_iff public_repair_target_matches_request_def split: if_splits)
    have route: "exact_route_exposed status request \<Longrightarrow> ?route"
    proof (elim exact_route_exposed_command)
      fix c r
      assume r: "st_recommended_public_command status = Some c" "to_mutation_request c = Some r"
          "public_mutation_requests_match r request"
        and mode: "mr_kind r = AdvanceLateStageCommand \<Longrightarrow>
          public_advance_late_stage_request_mode_matches_routed_public_command (st_phase_detail status)
            (Some c) (mr_advance_late_stage_mode r)"
      note m = requests_match_fields [OF r(3)]
      have "public_advance_late_stage_request_mode_matches_routed_public_command (st_phase_detail status)
          (Some c) (mr_advance_late_stage_mode request)" if "mr_kind request = AdvanceLateStageCommand"
        using mode m that requests_match_late_stage [OF r(3) that] by simp
      then show ?route
        using r(1,2) m requests_match_transfer [OF r(3)] requests_match_late_stage [OF r(3)] by blast
    qed
    have "exact_route_exposed status request \<or> repair_target_authorizes status request"
      using assms no_context by (auto simp: decide_allowed_iff)
    then have "?route \<or> ?target \<and> ?current \<and> mr_kind request \<noteq> AdvanceLateStageCommand"
      using route target authorized current by blast
    then show ?thesis using assms False unfolding decide_allowed_iff Let_def by (simp only: if_False simp_thms)
  qed
qed

lemma allowed_mutation_is_authorized_witness:
  "md_allowed (decide_public_mutation
     (idle_status\<lparr>st_execution_command_context := Some \<lparr>cx_command_kind = ''begin'', cx_task_number = Some 2, cx_step_id = Some 1\<rparr>\<rparr>)
     (request_begin 2 1 (Some ''fp''))) \<and>
   is_public_mutation (mr_kind (request_begin 2 1 (Some ''fp'')))"
proof -
  let ?s = "idle_status\<lparr>st_execution_command_context := Some \<lparr>cx_command_kind = ''begin'', cx_task_number = Some 2, cx_step_id = Some 1\<rparr>\<rparr>"
  have "md_allowed (decide_public_mutation ?s (request_begin 2 1 (Some ''fp'')))"
    by (simp add: decide_allowed_iff is_public_mutation_def request_defs reconcile_admits_def route_open_def
        status_waits_for_external_review_result_def external_wait_state_is_external_wait_def
        state_kind_blocks_all_public_mutation_def state_kind_blocks_local_mutation_def state_kind_defs
        context_authorizes_def execution_command_kind_def execution_mutation_name_def
        request_fingerprint_matches_status_def idle_status_def)
  then show ?thesis
    using allowed_mutation_is_authorized by blast
qed

end
