(* ===== verification/Route_Commands.thy ===== *)
theory Route_Commands
  imports Execution_Status
begin

text \<open>
  From a next-action decision to the public command that carries it out (\<^verbatim>\<open>route_plan/public_commands.rs\<close>,
  \<^verbatim>\<open>route_plan/next_action_choice/types.rs\<close>), and the execution targets a status authorises
  (\<^verbatim>\<open>route_plan/execution_targets.rs\<close>, \<^verbatim>\<open>execution_target_authority.rs\<close>).
\<close>

subsection \<open>Decisions\<close>

datatype NextActionKind =
    ActBegin
  | ActResume
  | ActReopen
  | ActCloseCurrentTask
  | ActWaitForTaskReviewResult
  | ActAdvanceLateStage
  | ActRequestFinalReview
  | ActWaitForFinalReviewResult
  | ActRefreshTestPlan
  | ActRunQa
  | ActFinishBranch
  | ActRepairReviewState
  | ActPlanningReentry
  | ActHandoff

record NextActionDecision =
  nd_kind :: NextActionKind
  nd_phase :: string
  nd_phase_detail :: string
  nd_review_state_status :: string
  nd_task_number :: "nat option"
  nd_step_number :: "nat option"
  nd_blocking_task :: "nat option"
  nd_blocking_reason_codes :: "string list"

definition structural_task_repair_lane :: "string list \<Rightarrow> bool" where
  "structural_task_repair_lane codes \<longleftrightarrow>
     (let negative_result_reentry = list_ex (\<lambda>c. c = REASON_NEGATIVE_RESULT_REQUIRES_EXECUTION_REENTRY) codes in
      list_ex (\<lambda>c. c = TASK_BOUNDARY_REASON_PRIOR_TASK_CURRENT_CLOSURE_INVALID \<or>
        c = TASK_BOUNDARY_REASON_PRIOR_TASK_CURRENT_CLOSURE_REVIEWED_STATE_MALFORMED \<or>
        c = TASK_BOUNDARY_REASON_PRIOR_TASK_CURRENT_CLOSURE_STALE \<and> \<not> negative_result_reentry) codes)"

definition step_next_action_text :: "NextActionDecision \<Rightarrow> string" where
  "step_next_action_text decision =
     (if nd_phase decision = PHASE_EXECUTION_PREFLIGHT \<or> nd_phase_detail decision = DETAIL_EXECUTION_PREFLIGHT_REQUIRED
      then NEXT_ACTION_CONTINUE_EXECUTION
      else if nd_phase_detail decision = DETAIL_EXECUTION_REENTRY_REQUIRED \<and>
        structural_task_repair_lane (nd_blocking_reason_codes decision) then NEXT_ACTION_REPAIR_REVIEW_STATE
      else if nd_phase_detail decision = DETAIL_EXECUTION_REENTRY_REQUIRED then NEXT_ACTION_EXECUTION_REENTRY_REQUIRED
      else NEXT_ACTION_CONTINUE_EXECUTION)"

definition public_next_action_text :: "NextActionDecision \<Rightarrow> string" where
  "public_next_action_text decision =
     (case nd_kind decision of
        ActBegin \<Rightarrow> step_next_action_text decision
      | ActResume \<Rightarrow> step_next_action_text decision
      | ActReopen \<Rightarrow> step_next_action_text decision
      | ActCloseCurrentTask \<Rightarrow>
          if nd_phase_detail decision = DETAIL_TASK_CLOSURE_RECORDING_READY then NEXT_ACTION_CLOSE_CURRENT_TASK
          else NEXT_ACTION_CONTINUE_EXECUTION
      | ActWaitForTaskReviewResult \<Rightarrow>
          if list_ex task_boundary_verification_diagnostic_reason_code (nd_blocking_reason_codes decision)
          then NEXT_ACTION_RUN_VERIFICATION else NEXT_ACTION_WAIT_FOR_EXTERNAL_REVIEW_RESULT
      | ActAdvanceLateStage \<Rightarrow>
          if nd_phase_detail decision = DETAIL_RELEASE_BLOCKER_RESOLUTION_REQUIRED
          then NEXT_ACTION_RESOLVE_RELEASE_BLOCKER else NEXT_ACTION_ADVANCE_LATE_STAGE
      | ActRequestFinalReview \<Rightarrow> NEXT_ACTION_REQUEST_FINAL_REVIEW
      | ActWaitForFinalReviewResult \<Rightarrow> NEXT_ACTION_WAIT_FOR_EXTERNAL_REVIEW_RESULT
      | ActRefreshTestPlan \<Rightarrow> NEXT_ACTION_REFRESH_TEST_PLAN
      | ActRunQa \<Rightarrow> NEXT_ACTION_RUN_QA
      | ActFinishBranch \<Rightarrow> NEXT_ACTION_FINISH_BRANCH
      | ActRepairReviewState \<Rightarrow> NEXT_ACTION_REPAIR_REVIEW_STATE
      | ActPlanningReentry \<Rightarrow> NEXT_ACTION_PLANNING_REENTRY
      | ActHandoff \<Rightarrow> NEXT_ACTION_HANDOFF)"

subsection \<open>Commands\<close>

definition recommended_execution_source :: "string \<Rightarrow> string" where
  "recommended_execution_source execution_mode =
     (if execution_mode = ''featureforge:executing-plans'' \<or> execution_mode = ''featureforge:subagent-driven-development''
      then execution_mode else ''featureforge:executing-plans'')"

definition handoff_decision_scope ::
  "nat option \<Rightarrow> nat option \<Rightarrow> nat option \<Rightarrow> bool \<Rightarrow> HarnessPhase option \<Rightarrow> string option" where
  "handoff_decision_scope active_task blocking_task resume_task handoff_required harness_phase =
     (if active_task \<noteq> None \<or> blocking_task \<noteq> None \<or> resume_task \<noteq> None then Some ''task''
      else if handoff_required \<or> harness_phase = Some HandoffRequired then Some ''branch''
      else None)"

definition repair_review_state_public_command :: "string \<Rightarrow> PublicCommand" where
  "repair_review_state_public_command plan_path = PublicRepairReviewState plan_path"

definition close_current_task_public_command :: "string \<Rightarrow> nat \<Rightarrow> PublicCommand" where
  "close_current_task_public_command plan_path task_number = PublicCloseCurrentTask plan_path (Some task_number) True"

definition transfer_handoff_public_command :: "string \<Rightarrow> string \<Rightarrow> PublicCommand" where
  "transfer_handoff_public_command plan_path scope = PublicTransferHandoff plan_path scope"

definition begin_public_command :: "string \<Rightarrow> nat \<Rightarrow> nat \<Rightarrow> string option \<Rightarrow> string \<Rightarrow> PublicCommand" where
  "begin_public_command plan_path task_number step_number execution_mode fp =
     PublicBegin plan_path task_number step_number execution_mode (Some fp)"

definition complete_public_command :: "string \<Rightarrow> nat \<Rightarrow> nat \<Rightarrow> string \<Rightarrow> string \<Rightarrow> PublicCommand" where
  "complete_public_command plan_path task_number step_number source fp =
     PublicComplete plan_path task_number step_number (Some source) (Some fp)"

definition runtime_routed_reopen_reason :: "nat \<Rightarrow> nat \<Rightarrow> string" where
  "runtime_routed_reopen_reason task_number step_number =
     ''runtime-routed-execution-reentry-task-'' @ show_nat task_number @ ''-step-'' @ show_nat step_number"

definition reopen_public_command :: "string \<Rightarrow> nat \<Rightarrow> nat \<Rightarrow> string \<Rightarrow> string \<Rightarrow> PublicCommand" where
  "reopen_public_command plan_path task_number step_number source fp =
     PublicReopen plan_path task_number step_number (Some source)
       (Some (runtime_routed_reopen_reason task_number step_number)) (Some fp)"

definition reopen_public_command_with_reason ::
  "string \<Rightarrow> nat \<Rightarrow> nat \<Rightarrow> string \<Rightarrow> string \<Rightarrow> string option \<Rightarrow> PublicCommand" where
  "reopen_public_command_with_reason plan_path task_number step_number source reason fp =
     PublicReopen plan_path task_number step_number (Some source) (Some reason) fp"

definition synthesized_execution_public_command ::
  "PlanExecutionStatus \<Rightarrow> string \<Rightarrow> PublicCommandKind \<Rightarrow> nat \<Rightarrow> nat option \<Rightarrow> PublicCommand option" where
  "synthesized_execution_public_command status plan_path kind task_number step_id =
     (let execution_source = recommended_execution_source (st_execution_mode status) in
      case kind of
        BeginCommand \<Rightarrow>
          map_option (\<lambda>step. begin_public_command plan_path task_number step
            (then_some (st_execution_mode status = ''none'') ''featureforge:executing-plans'')
            (st_execution_fingerprint status)) step_id
      | ReopenCommand \<Rightarrow>
          map_option (\<lambda>step. reopen_public_command plan_path task_number step execution_source
            (st_execution_fingerprint status)) step_id
      | CompleteCommand \<Rightarrow>
          map_option (\<lambda>step. complete_public_command plan_path task_number step execution_source
            (st_execution_fingerprint status)) (st_active_step status)
      | _ \<Rightarrow> None)"

text \<open>The command kind of a step decision; the match arms that return early follow in the next definition.\<close>

fun decision_command_kind :: "NextActionKind \<Rightarrow> PublicCommandKind option" where
  "decision_command_kind ActBegin = Some BeginCommand"
| "decision_command_kind ActResume = Some BeginCommand"
| "decision_command_kind ActReopen = Some ReopenCommand"
| "decision_command_kind ActCloseCurrentTask = Some CompleteCommand"
| "decision_command_kind _ = None"

definition public_command_from_decision :: "PlanExecutionStatus \<Rightarrow> NextActionDecision \<Rightarrow> string \<Rightarrow> PublicCommand option" where
  "public_command_from_decision status decision plan_path =
     (let step_command = (\<lambda>kind. Option.bind (nd_task_number decision) (\<lambda>task.
            synthesized_execution_public_command status plan_path kind task (nd_step_number decision)));
          late_stage = public_advance_late_stage_command_for_phase_detail plan_path (nd_phase_detail decision)
      in case nd_kind decision of
        ActBegin \<Rightarrow> step_command BeginCommand
      | ActResume \<Rightarrow> step_command BeginCommand
      | ActReopen \<Rightarrow> step_command ReopenCommand
      | ActCloseCurrentTask \<Rightarrow> step_command CompleteCommand
      | ActAdvanceLateStage \<Rightarrow> late_stage
      | ActRequestFinalReview \<Rightarrow> late_stage
      | ActRunQa \<Rightarrow> late_stage
      | ActFinishBranch \<Rightarrow> late_stage
      | ActHandoff \<Rightarrow> Some (transfer_handoff_public_command plan_path
          (unwrap_or ''branch'' (handoff_decision_scope (st_active_task status) (st_blocking_task status)
             (st_resume_task status) (st_handoff_required status) (Some (st_harness_phase status)))))
      | ActRepairReviewState \<Rightarrow> Some (repair_review_state_public_command plan_path)
      | ActPlanningReentry \<Rightarrow> None
      | ActWaitForTaskReviewResult \<Rightarrow> None
      | ActWaitForFinalReviewResult \<Rightarrow> None
      | ActRefreshTestPlan \<Rightarrow> None)"

subsection \<open>Execution targets\<close>

record ExecutionCommandRouteTarget =
  xt_kind :: PublicCommandKind
  xt_task_number :: nat
  xt_step_id :: "nat option"

text \<open>\<^verbatim>\<open>expect\<close> on the mutation name: the left side of the sum.\<close>

definition route_target_command_kind :: "ExecutionCommandRouteTarget \<Rightarrow> string panicking" where
  "route_target_command_kind target =
     (case public_mutation_name (xt_kind target) of
        None \<Rightarrow> Inl ''execution route targets must be public execution mutations'' | Some name \<Rightarrow> Inr name)"

definition route_target_is_begin :: "ExecutionCommandRouteTarget \<Rightarrow> bool" where
  "route_target_is_begin target \<longleftrightarrow> xt_kind target = BeginCommand"

definition route_target_is_complete :: "ExecutionCommandRouteTarget \<Rightarrow> bool" where
  "route_target_is_complete target \<longleftrightarrow> xt_kind target = CompleteCommand"

definition execution_route_target :: "PublicCommandKind \<Rightarrow> nat \<Rightarrow> nat \<Rightarrow> ExecutionCommandRouteTarget" where
  "execution_route_target kind task_number step_id =
     \<lparr>xt_kind = kind, xt_task_number = task_number, xt_step_id = Some step_id\<rparr>"

definition opt_zip :: "'a option \<Rightarrow> 'b option \<Rightarrow> ('a \<times> 'b) option" where
  "opt_zip a b = (case (a, b) of (Some x, Some y) \<Rightarrow> Some (x, y) | _ \<Rightarrow> None)"

definition resolve_execution_command_route_target :: "PlanExecutionStatus \<Rightarrow> ExecutionCommandRouteTarget option" where
  "resolve_execution_command_route_target status =
     (case opt_zip (st_active_task status) (st_active_step status) of
        Some (task, step) \<Rightarrow> Some (execution_route_target CompleteCommand task step)
      | None \<Rightarrow>
          map_option (\<lambda>(task, step). execution_route_target BeginCommand task step)
            (opt_or (opt_zip (st_resume_task status) (st_resume_step status))
               (opt_zip (st_blocking_task status) (st_blocking_step status))))"

definition target_step :: "ExecutionCommandRouteTarget \<Rightarrow> (nat \<times> nat) option" where
  "target_step target = map_option (\<lambda>step. (xt_task_number target, step)) (xt_step_id target)"

definition begin_route_target_matches_open_step_status :: "PlanExecutionStatus \<Rightarrow> ExecutionCommandRouteTarget \<Rightarrow> bool" where
  "begin_route_target_matches_open_step_status status target \<longleftrightarrow>
     route_target_is_begin target \<and> st_execution_started status = ''yes'' \<and> st_active_task status = None \<and>
     st_active_step status = None \<and> opt_zip (st_blocking_task status) (st_blocking_step status) = target_step target"

definition execution_command_route_status_blocks_progress :: "PlanExecutionStatus \<Rightarrow> bool" where
  "execution_command_route_status_blocks_progress status \<longleftrightarrow>
     state_kind_blocks_local_mutation (st_state_kind status) \<or>
     st_phase_detail status = DETAIL_RUNTIME_RECONCILE_REQUIRED \<or>
     external_wait_state_is_external_wait (st_external_wait_state status)"

definition execution_command_context_matches_route_target :: "PlanExecutionStatus \<Rightarrow> ExecutionCommandRouteTarget \<Rightarrow> bool" where
  "execution_command_context_matches_route_target status target \<longleftrightarrow>
     is_some_and (st_execution_command_context status) (\<lambda>ctx.
       Inr (cx_command_kind ctx) = route_target_command_kind target \<and> cx_task_number ctx = Some (xt_task_number target) \<and>
       cx_step_id ctx = xt_step_id target)"

definition public_repair_target_matches_execution_route ::
  "PublicRepairTarget list \<Rightarrow> ExecutionCommandRouteTarget \<Rightarrow> bool \<Rightarrow> bool" where
  "public_repair_target_matches_execution_route targets target require_fingerprint_bound \<longleftrightarrow>
     list_ex (\<lambda>t. (\<not> require_fingerprint_bound \<or> rt_expires_when_fingerprint_changes t) \<and>
       matches_public_mutation_token (xt_kind target) (rt_command_kind t) \<and> rt_task t = Some (xt_task_number target) \<and>
       rt_step t = xt_step_id target) targets"

definition public_status_repair_target_matches_execution_route ::
  "PlanExecutionStatus \<Rightarrow> ExecutionCommandRouteTarget \<Rightarrow> bool \<Rightarrow> bool" where
  "public_status_repair_target_matches_execution_route status target require_fingerprint_bound \<longleftrightarrow>
     public_repair_target_matches_execution_route (st_public_repair_targets status) target require_fingerprint_bound"

definition execution_command_route_target_matches_public_status ::
  "PlanExecutionStatus \<Rightarrow> ExecutionCommandRouteTarget \<Rightarrow> bool" where
  "execution_command_route_target_matches_public_status status target \<longleftrightarrow>
     \<not> execution_command_route_status_blocks_progress status \<and>
     (begin_route_target_matches_open_step_status status target \<or>
      execution_command_context_matches_route_target status target \<or>
      public_status_repair_target_matches_execution_route status target False)"

definition authoritative_run_identity_matches_resume_begin_route ::
  "PlanExecutionStatus \<Rightarrow> ExecutionCommandRouteTarget \<Rightarrow> bool" where
  "authoritative_run_identity_matches_resume_begin_route status target \<longleftrightarrow>
     is_some_and (st_execution_run_id status) (\<lambda>run. trim run \<noteq> []) \<and> st_active_task status = None \<and>
     st_active_step status = None \<and> opt_zip (st_resume_task status) (st_resume_step status) = target_step target"

definition fingerprint_bound_begin_route_matches_public_status ::
  "PlanExecutionStatus \<Rightarrow> ExecutionCommandRouteTarget \<Rightarrow> bool" where
  "fingerprint_bound_begin_route_matches_public_status status target \<longleftrightarrow>
     route_target_is_begin target \<and> \<not> execution_command_route_status_blocks_progress status \<and>
     trim (st_execution_fingerprint status) \<noteq> [] \<and>
     (begin_route_target_matches_open_step_status status target \<or>
      authoritative_run_identity_matches_resume_begin_route status target \<or>
      execution_command_context_matches_route_target status target \<or>
      public_status_repair_target_matches_execution_route status target True)"

definition execution_command_route_target_has_public_authority ::
  "PlanExecutionStatus \<Rightarrow> ExecutionCommandRouteTarget \<Rightarrow> bool" where
  "execution_command_route_target_has_public_authority status target \<longleftrightarrow>
     (if route_target_is_begin target then fingerprint_bound_begin_route_matches_public_status status target
      else execution_command_route_target_matches_public_status status target)"

definition route_repair_target_candidates_authorize_target ::
  "PlanExecutionStatus \<Rightarrow> PublicRepairTarget list \<Rightarrow> ExecutionCommandRouteTarget \<Rightarrow> bool" where
  "route_repair_target_candidates_authorize_target status candidates target \<longleftrightarrow>
     \<not> execution_command_route_status_blocks_progress status \<and>
     \<not> (route_target_is_begin target \<and> trim (st_execution_fingerprint status) = []) \<and>
     public_repair_target_matches_execution_route candidates target (route_target_is_begin target)"

definition execution_command_route_target_has_authority ::
  "PlanExecutionStatus \<Rightarrow> ExecutionCommandRouteTarget \<Rightarrow> PublicRepairTarget list \<Rightarrow> bool" where
  "execution_command_route_target_has_authority status target candidates \<longleftrightarrow>
     execution_command_route_target_has_public_authority status target \<or>
     route_repair_target_candidates_authorize_target status candidates target"

definition legal_execution_begin_route :: "PlanExecutionStatus \<Rightarrow> PublicRepairTarget list \<Rightarrow> bool" where
  "legal_execution_begin_route status candidates \<longleftrightarrow>
     is_some_and (resolve_execution_command_route_target status) (\<lambda>target.
       route_target_is_begin target \<and> execution_command_route_target_has_authority status target candidates)"

definition execution_command_route_target_can_drive_next_action ::
  "PlanExecutionStatus \<Rightarrow> ExecutionCommandRouteTarget \<Rightarrow> PublicRepairTarget list \<Rightarrow> bool" where
  "execution_command_route_target_can_drive_next_action status target candidates \<longleftrightarrow>
     \<not> route_target_is_begin target \<or> execution_command_route_target_has_authority status target candidates"

definition resolve_execution_command_route_target_for_next_action ::
  "PlanExecutionStatus \<Rightarrow> PublicRepairTarget list \<Rightarrow> ExecutionCommandRouteTarget option" where
  "resolve_execution_command_route_target_for_next_action status candidates =
     opt_filter (\<lambda>target. execution_command_route_target_can_drive_next_action status target candidates)
       (resolve_execution_command_route_target status)"

definition execution_command_route_target_from_decision ::
  "PlanExecutionStatus \<Rightarrow> NextActionDecision \<Rightarrow> string \<Rightarrow> ExecutionCommandRouteTarget option" where
  "execution_command_route_target_from_decision status decision plan_path =
     Option.bind (decision_command_kind (nd_kind decision)) (\<lambda>kind.
     Option.bind (nd_task_number decision) (\<lambda>task_number.
       let step_id = nd_step_number decision in
       if kind \<noteq> CompleteCommand \<and> step_id = None then None
       else if kind = CompleteCommand \<and> (st_active_task status = None \<or> st_active_step status = None) then None
       else Option.bind (public_command_from_decision status decision plan_path) (\<lambda>_.
         Some \<lparr>xt_kind = kind, xt_task_number = task_number, xt_step_id = step_id\<rparr>)))"

lemma opt_zip_Some [simp]: "opt_zip a b = Some (x, y) \<longleftrightarrow> a = Some x \<and> b = Some y"
  by (simp add: opt_zip_def split: option.split)

text \<open>A resolved target is a step command with a step, so its \<^verbatim>\<open>expect\<close> is never reached.\<close>

lemma resolved_target_step:
  assumes "resolve_execution_command_route_target status = Some target"
  shows "is_execution_mutation (xt_kind target)" "xt_step_id target \<noteq> None" "\<exists>n. route_target_command_kind target = Inr n"
  using assms
  by (auto simp: resolve_execution_command_route_target_def execution_route_target_def route_target_command_kind_def
      split: option.splits)

text \<open>No target has authority on a status that blocks progress.\<close>

lemma blocked_status_has_no_authority:
  "execution_command_route_status_blocks_progress status \<Longrightarrow>
     \<not> execution_command_route_target_has_authority status target candidates"
  by (auto simp: execution_command_route_target_has_authority_def execution_command_route_target_has_public_authority_def
      fingerprint_bound_begin_route_matches_public_status_def execution_command_route_target_matches_public_status_def
      route_repair_target_candidates_authorize_target_def)

text \<open>The commands synthesised for a decision carry the decision's task and, except for a completion, its step,
  at the status's fingerprint; a completion takes the active step.\<close>

lemma synthesized_command_target:
  assumes "synthesized_execution_public_command status plan kind task step_id = Some c"
  shows "command_kind c = kind" "expect_execution_fingerprint c = Some (st_execution_fingerprint status)"
    "\<exists>r. to_mutation_request c = Some r \<and> mr_task r = Some task \<and>
       mr_step r = (if kind = CompleteCommand then st_active_step status else step_id)"
  using assms
  by (cases kind; force simp: synthesized_execution_public_command_def begin_public_command_def complete_public_command_def
      reopen_public_command_def request_defs)+

end
