(* ===== verification/Route_Semantics.thy ===== *)
theory Route_Semantics
  imports Stale_Targets Command_Eligibility Route_Commands
begin

text \<open>
  What a route means for a status: the predicates on a status that routing asks
  (\<^verbatim>\<open>current_truth.rs\<close>, \<^verbatim>\<open>status_assembly/facts.rs\<close>, \<^verbatim>\<open>status_assembly/blocking_records.rs\<close>), the phase, blocking
  scope and task of a phase detail (\<^verbatim>\<open>route_plan/route_semantics.rs\<close>), the reason codes of a route
  (\<^verbatim>\<open>route_plan/route_facts.rs\<close>, \<^verbatim>\<open>query.rs\<close>), its blockers (\<^verbatim>\<open>route_plan/blockers.rs\<close>) and its required follow-up
  (\<^verbatim>\<open>route_plan/follow_up.rs\<close>).

  The execution contexts of the router (\<^verbatim>\<open>ExecutionRoutingExecutionCommandContext\<close>,
  \<^verbatim>\<open>ExecutionRoutingRecordingContext\<close>) have the fields of the public ones, and one record models both.
\<close>

subsection \<open>Reason codes and states of a status\<close>

definition reason_present :: "PlanExecutionStatus \<Rightarrow> string \<Rightarrow> bool" where
  "reason_present status code \<longleftrightarrow> list_ex (\<lambda>c. c = code) (st_reason_codes status)"

definition REASON_CODE_BLOCKED_ON_PLAN_REVISION :: string where [simp, ff_tokens]:
  "REASON_CODE_BLOCKED_ON_PLAN_REVISION = ''blocked_on_plan_revision''"

definition qa_requirement_missing_or_invalid_reason_code :: "string \<Rightarrow> bool" where
  "qa_requirement_missing_or_invalid_reason_code reason_code \<longleftrightarrow> reason_code = ''qa_requirement_missing_or_invalid''"

definition worktree_lease_public_gate_reason_code :: "string \<Rightarrow> bool" where
  "worktree_lease_public_gate_reason_code reason_code \<longleftrightarrow> starts_with reason_code ''worktree_lease_''"

definition branch_closure_refresh_missing_current_closure :: "PlanExecutionStatus \<Rightarrow> bool" where
  "branch_closure_refresh_missing_current_closure status \<longleftrightarrow>
     st_current_release_readiness_state status = None \<and> st_current_branch_closure_id status \<noteq> None \<and>
     st_current_branch_meaningful_drift status"

definition task_review_result_requires_verification_reason_codes :: "string list \<Rightarrow> bool" where
  "task_review_result_requires_verification_reason_codes codes \<longleftrightarrow>
     list_ex task_boundary_verification_diagnostic_reason_code codes"

definition public_late_stage_rederivation_basis_present :: "PlanExecutionStatus \<Rightarrow> bool" where
  "public_late_stage_rederivation_basis_present status \<longleftrightarrow>
     st_current_branch_closure_id status \<noteq> None \<or> st_finish_review_gate_pass_branch_closure_id status \<noteq> None \<or>
     st_current_release_readiness_state status \<noteq> None \<or> st_release_docs_state status \<noteq> FreshnessNotRequired \<or>
     st_current_final_review_branch_closure_id status \<noteq> None \<or> st_current_final_review_result status \<noteq> None \<or>
     st_final_review_state status \<noteq> FreshnessNotRequired \<or> st_current_qa_branch_closure_id status \<noteq> None \<or>
     st_current_qa_result status \<noteq> None \<or> st_browser_qa_state status \<noteq> FreshnessNotRequired"

definition stale_provenance_after_authoritative_closure_is_diagnostic :: "PlanExecutionStatus \<Rightarrow> bool" where
  "stale_provenance_after_authoritative_closure_is_diagnostic status \<longleftrightarrow>
     st_current_task_closures status \<noteq> [] \<and> st_stale_unreviewed_closures status = [] \<and> st_active_task status = None \<and>
     st_blocking_task status = None \<and> st_blocking_step status = None \<and> st_resume_task status = None \<and>
     st_resume_step status = None \<and> st_current_branch_closure_id status \<noteq> None \<and>
     st_current_branch_reviewed_state_id status \<noteq> None \<and> st_semantic_workspace_tree_id status \<noteq> [] \<and>
     \<not> st_current_branch_meaningful_drift status \<and> reason_present status REASON_CODE_STALE_PROVENANCE \<and>
     public_late_stage_rederivation_basis_present status"

definition worktree_lease_review_state_repair_reason :: "PlanExecutionStatus \<Rightarrow> string option" where
  "worktree_lease_review_state_repair_reason status =
     List.find worktree_lease_public_gate_reason_code (st_reason_codes status)"

definition current_branch_closure_structural_review_state_reason :: "PlanExecutionStatus \<Rightarrow> string option" where
  "current_branch_closure_structural_review_state_reason status =
     List.find current_branch_closure_reviewed_state_malformed_reason_code (st_reason_codes status)"

definition task_scope_review_state_repair_reason :: "PlanExecutionStatus \<Rightarrow> string option" where
  "task_scope_review_state_repair_reason status =
     opt_or (List.find (\<lambda>code. code = TASK_BOUNDARY_REASON_PRIOR_TASK_CURRENT_CLOSURE_INVALID \<or>
         code = TASK_BOUNDARY_REASON_PRIOR_TASK_CURRENT_CLOSURE_REVIEWED_STATE_MALFORMED) (st_reason_codes status))
       (List.find (\<lambda>code. code = TASK_BOUNDARY_REASON_PRIOR_TASK_CURRENT_CLOSURE_STALE) (st_reason_codes status))"

definition task_scope_structural_review_state_reason :: "PlanExecutionStatus \<Rightarrow> string option" where
  "task_scope_structural_review_state_reason status =
     opt_filter (\<lambda>code. code = TASK_BOUNDARY_REASON_PRIOR_TASK_CURRENT_CLOSURE_INVALID \<or>
         code = TASK_BOUNDARY_REASON_PRIOR_TASK_CURRENT_CLOSURE_REVIEWED_STATE_MALFORMED)
       (task_scope_review_state_repair_reason status)"

definition prerelease_branch_closure_refresh_required :: "PlanExecutionStatus \<Rightarrow> bool" where
  "prerelease_branch_closure_refresh_required status \<longleftrightarrow>
     st_harness_phase status = DocumentReleasePending \<and> st_current_release_readiness_state status = None \<and>
     st_current_branch_closure_id status \<noteq> None \<and> st_current_branch_meaningful_drift status"

definition effective_review_state_status :: "PlanExecutionStatus \<Rightarrow> string \<Rightarrow> string" where
  "effective_review_state_status status candidate_review_state_status =
     (if candidate_review_state_status \<noteq> ''clean'' then candidate_review_state_status
      else if prerelease_branch_closure_refresh_required status \<or>
        st_phase_detail status = DETAIL_BRANCH_CLOSURE_RECORDING_REQUIRED_FOR_RELEASE_READINESS
      then REVIEW_STATE_MISSING_CURRENT_CLOSURE
      else if st_current_branch_closure_id status = None \<and> reason_present status REVIEW_STATE_MISSING_CURRENT_CLOSURE
      then REVIEW_STATE_MISSING_CURRENT_CLOSURE
      else if st_stale_unreviewed_closures status \<noteq> [] then REVIEW_STATE_STALE_UNREVIEWED
      else ''clean'')"

definition effective_route_review_state_status :: "PlanExecutionStatus \<Rightarrow> string \<Rightarrow> string \<Rightarrow> string" where
  "effective_route_review_state_status status phase_detail candidate_review_state_status =
     (if st_review_state_status status = REVIEW_STATE_STALE_UNREVIEWED \<or>
         st_stale_unreviewed_closures status \<noteq> [] \<and> phase_detail = DETAIL_TASK_CLOSURE_RECORDING_READY
      then REVIEW_STATE_STALE_UNREVIEWED
      else if candidate_review_state_status = ''clean'' \<and>
        phase_detail = DETAIL_BRANCH_CLOSURE_RECORDING_REQUIRED_FOR_RELEASE_READINESS
      then REVIEW_STATE_MISSING_CURRENT_CLOSURE
      else effective_review_state_status status candidate_review_state_status)"

definition canonical_review_state_status :: "PlanExecutionStatus \<Rightarrow> string" where
  "canonical_review_state_status status = effective_review_state_status status (st_review_state_status status)"

definition status_has_current_task_closure_for_task :: "PlanExecutionStatus \<Rightarrow> nat \<Rightarrow> bool" where
  "status_has_current_task_closure_for_task status task_number \<longleftrightarrow>
     list_ex (\<lambda>closure. tc_task closure = task_number) (st_current_task_closures status)"

subsection \<open>Phase, scope and task of a route\<close>

definition default_phase_for_status :: "PlanExecutionStatus \<Rightarrow> string" where
  "default_phase_for_status status =
     (if st_harness_phase status = ContractDrafting \<or> st_harness_phase status = PivotRequired then PHASE_PIVOT_REQUIRED
      else if st_harness_phase status = HandoffRequired \<or>
        st_phase_detail status = DETAIL_EXECUTION_IN_PROGRESS \<and> st_execution_command_context status \<noteq> None
      then PHASE_HANDOFF_REQUIRED
      else if st_harness_phase status = Executing \<and>
          (st_phase_detail status = DETAIL_HANDOFF_RECORDING_REQUIRED \<or>
           st_phase_detail status = DETAIL_PLANNING_REENTRY_REQUIRED \<or>
           st_phase_detail status = DETAIL_EXECUTION_REENTRY_REQUIRED) \<or>
        st_execution_started status = ''yes'' \<and> st_phase_detail status = DETAIL_EXECUTION_IN_PROGRESS \<and>
        st_execution_command_context status = None
      then PHASE_EXECUTING
      else if st_phase_detail status = DETAIL_EXECUTION_PREFLIGHT_REQUIRED \<and>
        st_harness_phase status \<noteq> ExecutionPreflight
      then harness_phase_as_str (st_harness_phase status)
      else unwrap_or (harness_phase_as_str (st_harness_phase status)) (st_phase status))"

definition blocking_task_from_status_records :: "PlanExecutionStatus \<Rightarrow> nat option" where
  "blocking_task_from_status_records status =
     find_map (\<lambda>record. if br_scope_type record = ''task'' then task_scope_key_task_number (br_scope_key record) else None)
       (st_blocking_records status)"

definition status_has_task_blocking_record :: "PlanExecutionStatus \<Rightarrow> nat \<Rightarrow> bool" where
  "status_has_task_blocking_record status task \<longleftrightarrow>
     list_ex (\<lambda>record. br_scope_type record = ''task'' \<and> task_scope_key_task_number (br_scope_key record) = Some task)
       (st_blocking_records status)"

definition reentry_blocking_scope :: "nat option \<Rightarrow> PlanExecutionStatus option \<Rightarrow> string \<Rightarrow> string" where
  "reentry_blocking_scope blocking_task status review_state_status =
     (if review_state_status = REVIEW_STATE_STALE_UNREVIEWED \<and>
         is_some_and blocking_task (\<lambda>task. is_some_and status (\<lambda>s. status_has_task_blocking_record s task))
      then ''task''
      else if review_state_status = REVIEW_STATE_STALE_UNREVIEWED \<and> blocking_task \<noteq> None \<and>
        is_some_and status (\<lambda>s. st_stale_unreviewed_closures s \<noteq> [])
      then ''task''
      else if review_state_status = REVIEW_STATE_MISSING_CURRENT_CLOSURE \<or>
        review_state_status = REVIEW_STATE_STALE_UNREVIEWED \<or>
        is_some_and status (\<lambda>s. branch_closure_refresh_missing_current_closure s \<or>
          current_branch_closure_structural_review_state_reason s \<noteq> None)
      then ''branch''
      else if blocking_task \<noteq> None then ''task''
      else ''workflow'')"

definition BRANCH_SCOPE_PHASE_DETAILS :: "string list" where
  "BRANCH_SCOPE_PHASE_DETAILS =
     [DETAIL_BRANCH_CLOSURE_RECORDING_REQUIRED_FOR_RELEASE_READINESS, DETAIL_RELEASE_READINESS_RECORDING_READY,
      DETAIL_RELEASE_BLOCKER_RESOLUTION_REQUIRED, DETAIL_FINAL_REVIEW_DISPATCH_REQUIRED,
      DETAIL_FINAL_REVIEW_OUTCOME_PENDING, DETAIL_FINAL_REVIEW_RECORDING_READY, DETAIL_QA_RECORDING_REQUIRED,
      DETAIL_TEST_PLAN_REFRESH_REQUIRED, DETAIL_FINISH_REVIEW_GATE_READY, DETAIL_FINISH_COMPLETION_GATE_READY]"

definition blocking_scope_for_phase_detail ::
  "string \<Rightarrow> nat option \<Rightarrow> PlanExecutionStatus option \<Rightarrow> string \<Rightarrow> string option" where
  "blocking_scope_for_phase_detail phase_detail blocking_task status review_state_status =
     (if phase_detail = DETAIL_TASK_REVIEW_RESULT_PENDING \<or> phase_detail = DETAIL_TASK_CLOSURE_RECORDING_READY
      then Some ''task''
      else if phase_detail \<in> set BRANCH_SCOPE_PHASE_DETAILS then Some ''branch''
      else if phase_detail = DETAIL_PLANNING_REENTRY_REQUIRED then Some ''workflow''
      else if phase_detail = DETAIL_HANDOFF_RECORDING_REQUIRED
      then Some (if blocking_task \<noteq> None then ''task'' else ''workflow'')
      else if phase_detail = DETAIL_EXECUTION_REENTRY_REQUIRED
      then Some (reentry_blocking_scope blocking_task status review_state_status)
      else None)"

record ExecutionBlockingProjection =
  bp_scope :: "string option"
  bp_task :: "nat option"

record ExecutionBlockingProjectionInputs =
  bi_phase_detail :: string
  bi_review_state_status :: string
  bi_status :: "PlanExecutionStatus option"
  bi_fallback_scope :: "string option"
  bi_fallback_task :: "nat option"
  bi_execution_command_task :: "nat option"
  bi_recording_task :: "nat option"
  bi_blocker_task :: "nat option"

definition projected_blocking_task :: "ExecutionBlockingProjectionInputs \<Rightarrow> nat option" where
  "projected_blocking_task inputs =
     (let task = bi_fallback_task inputs;
          from_records = Option.bind (bi_status inputs) blocking_task_from_status_records;
          earliest_stale = Option.bind (bi_status inputs) projected_earliest_stale_task_candidate_from_status
      in if bi_phase_detail inputs = DETAIL_EXECUTION_REENTRY_REQUIRED
         then opt_or (opt_or (opt_or (opt_or (bi_execution_command_task inputs) (bi_blocker_task inputs)) from_records)
           earliest_stale) task
         else if bi_phase_detail inputs = DETAIL_TASK_CLOSURE_RECORDING_READY
         then opt_or (opt_or (opt_or (bi_recording_task inputs) task) from_records) earliest_stale
         else if bi_phase_detail inputs = DETAIL_BRANCH_CLOSURE_RECORDING_REQUIRED_FOR_RELEASE_READINESS then None
         else task)"

definition project_execution_blocking :: "ExecutionBlockingProjectionInputs \<Rightarrow> ExecutionBlockingProjection" where
  "project_execution_blocking inputs =
     (let task = projected_blocking_task inputs
      in \<lparr>bp_scope = opt_or (blocking_scope_for_phase_detail (bi_phase_detail inputs) task (bi_status inputs)
            (bi_review_state_status inputs)) (bi_fallback_scope inputs),
          bp_task = task\<rparr>)"

definition canonical_phase_for_shared_decision :: "string \<Rightarrow> string \<Rightarrow> string" where
  "canonical_phase_for_shared_decision default_phase phase_detail =
     (if phase_detail = DETAIL_TASK_REVIEW_RESULT_PENDING \<or> phase_detail = DETAIL_TASK_CLOSURE_RECORDING_READY
      then PHASE_TASK_CLOSURE_PENDING
      else if phase_detail = DETAIL_BRANCH_CLOSURE_RECORDING_REQUIRED_FOR_RELEASE_READINESS \<or>
        phase_detail = DETAIL_RELEASE_READINESS_RECORDING_READY \<or>
        phase_detail = DETAIL_RELEASE_BLOCKER_RESOLUTION_REQUIRED
      then PHASE_DOCUMENT_RELEASE_PENDING
      else if phase_detail = DETAIL_FINAL_REVIEW_DISPATCH_REQUIRED \<and> default_phase = PHASE_DOCUMENT_RELEASE_PENDING
      then PHASE_DOCUMENT_RELEASE_PENDING
      else if phase_detail = DETAIL_FINAL_REVIEW_DISPATCH_REQUIRED \<or>
        phase_detail = DETAIL_FINAL_REVIEW_OUTCOME_PENDING \<or> phase_detail = DETAIL_FINAL_REVIEW_RECORDING_READY
      then PHASE_FINAL_REVIEW_PENDING
      else if phase_detail = DETAIL_QA_RECORDING_REQUIRED \<or> phase_detail = DETAIL_TEST_PLAN_REFRESH_REQUIRED
      then PHASE_QA_PENDING
      else if phase_detail = DETAIL_FINISH_REVIEW_GATE_READY \<or> phase_detail = DETAIL_FINISH_COMPLETION_GATE_READY
      then PHASE_READY_FOR_BRANCH_COMPLETION
      else if phase_detail = DETAIL_EXECUTION_PREFLIGHT_REQUIRED
      then (if default_phase = PHASE_PIVOT_REQUIRED \<or> default_phase = PHASE_HANDOFF_REQUIRED then default_phase
            else PHASE_EXECUTION_PREFLIGHT)
      else if phase_detail = DETAIL_EXECUTION_REENTRY_REQUIRED then PHASE_EXECUTING
      else if phase_detail = DETAIL_EXECUTION_IN_PROGRESS
      then (if default_phase = PHASE_EXECUTION_PREFLIGHT \<or> default_phase = PHASE_HANDOFF_REQUIRED then default_phase
            else PHASE_EXECUTING)
      else if phase_detail = DETAIL_PLANNING_REENTRY_REQUIRED then PHASE_PIVOT_REQUIRED
      else if phase_detail = DETAIL_HANDOFF_RECORDING_REQUIRED
      then (if default_phase = PHASE_EXECUTING then PHASE_EXECUTING else PHASE_HANDOFF_REQUIRED)
      else default_phase)"

definition external_wait_state_for_phase_detail :: "string \<Rightarrow> string list \<Rightarrow> bool \<Rightarrow> string option" where
  "external_wait_state_for_phase_detail phase_detail blocking_reason_codes external_review_result_ready =
     (if external_review_result_ready then None
      else if phase_detail = DETAIL_TASK_REVIEW_RESULT_PENDING \<and>
        \<not> task_review_result_requires_verification_reason_codes blocking_reason_codes
      then Some EXTERNAL_WAITING_FOR_EXTERNAL_REVIEW_RESULT
      else if phase_detail = DETAIL_FINAL_REVIEW_OUTCOME_PENDING then Some EXTERNAL_WAITING_FOR_EXTERNAL_REVIEW_RESULT
      else None)"

subsection \<open>Reason codes of a route\<close>

definition compact_operator_reason_codes :: "PlanExecutionStatus option \<Rightarrow> string \<Rightarrow> string \<Rightarrow> string list" where
  "compact_operator_reason_codes status phase_detail review_state_status =
     (let review = merge_reason_codes []
        ((if review_state_status = REVIEW_STATE_MISSING_CURRENT_CLOSURE then [REVIEW_STATE_MISSING_CURRENT_CLOSURE] else []) @
         (if review_state_status = REVIEW_STATE_STALE_UNREVIEWED then [REVIEW_STATE_STALE_UNREVIEWED] else []))
      in case status of None \<Rightarrow> review
       | Some s \<Rightarrow> merge_reason_codes review
          ((if phase_detail = DETAIL_TASK_CLOSURE_RECORDING_READY \<or> phase_detail = DETAIL_TASK_REVIEW_RESULT_PENDING \<or>
               phase_detail = DETAIL_EXECUTION_REENTRY_REQUIRED
            then tb_public_reason_codes (public_task_boundary_decision s) else []) @
           (if phase_detail = DETAIL_TASK_CLOSURE_RECORDING_READY \<and> st_blocking_task s \<noteq> None \<and>
               st_blocking_step s = None \<and> st_active_task s = None \<and> st_active_step s = None \<and>
               st_resume_task s = None \<and> st_resume_step s = None
            then [TASK_BOUNDARY_REASON_TASK_CLOSURE_BASELINE_REPAIR_CANDIDATE] else []) @
           (if phase_detail = DETAIL_EXECUTION_REENTRY_REQUIRED
            then filter (reason_present s)
              [TASK_BOUNDARY_REASON_PRIOR_TASK_CURRENT_CLOSURE_INVALID,
               TASK_BOUNDARY_REASON_PRIOR_TASK_CURRENT_CLOSURE_REVIEWED_STATE_MALFORMED,
               TASK_BOUNDARY_REASON_PRIOR_TASK_CURRENT_CLOSURE_MISSING,
               TASK_BOUNDARY_REASON_PRIOR_TASK_CURRENT_CLOSURE_STALE,
               TASK_BOUNDARY_REASON_CURRENT_TASK_CLOSURE_OVERLAY_RESTORE_REQUIRED] else []) @
           (if phase_detail = DETAIL_FINAL_REVIEW_DISPATCH_REQUIRED then [DETAIL_FINAL_REVIEW_DISPATCH_REQUIRED] else []) @
           (if reason_present s REASON_CODE_BLOCKED_ON_PLAN_REVISION
            then [REASON_CODE_BLOCKED_ON_PLAN_REVISION] else []) @
           (if reason_present s ''write_authority_conflict'' \<or> st_write_authority_state s = ''conflict''
            then [''write_authority_conflict''] else []) @
           (if reason_present s ''repo_state_drift'' \<or> st_repo_state_drift_state s = ''drifted''
            then [''repo_state_drift''] else []) @
           (if reason_present s ''recovering_incomplete_authoritative_mutation''
            then [''recovering_incomplete_authoritative_mutation''] else [])))"

definition command_context_reopens_current_task_closure ::
  "PlanExecutionStatus \<Rightarrow> PublicExecutionCommandContext option \<Rightarrow> bool" where
  "command_context_reopens_current_task_closure status ctx \<longleftrightarrow>
     \<not> reason_present status REASON_NEGATIVE_RESULT_REQUIRES_EXECUTION_REENTRY \<and>
     is_some_and ctx (\<lambda>c. matches_public_mutation_token ReopenCommand (cx_command_kind c) \<and>
       is_some_and (cx_task_number c) (status_has_current_task_closure_for_task status))"

definition public_route_blocking_reason_codes ::
  "PlanExecutionStatus \<Rightarrow> string \<Rightarrow> nat option \<Rightarrow> string list \<Rightarrow> string list" where
  "public_route_blocking_reason_codes status phase_detail blocking_task candidate_blocking_reason_codes =
     (if blocking_task \<noteq> None \<and> st_blocking_step status = None \<and>
         (phase_detail = DETAIL_TASK_CLOSURE_RECORDING_READY \<or> phase_detail = DETAIL_TASK_REVIEW_RESULT_PENDING \<or>
          phase_detail = DETAIL_EXECUTION_REENTRY_REQUIRED)
      then filter (\<lambda>c. \<not> task_boundary_projection_diagnostic_reason_code c \<and> c \<noteq> DETAIL_TASK_REVIEW_DISPATCH_REQUIRED)
        candidate_blocking_reason_codes
      else if st_blocking_task status \<noteq> None \<and> st_blocking_step status = None \<and>
        phase_detail = DETAIL_TASK_CLOSURE_RECORDING_READY
      then tb_public_reason_codes (public_task_boundary_decision status)
      else candidate_blocking_reason_codes)"

definition targetless_stale_reconcile_for_phase :: "string \<Rightarrow> string list \<Rightarrow> bool" where
  "targetless_stale_reconcile_for_phase phase_detail reason_codes \<longleftrightarrow> from_phase_and_reason_codes phase_detail reason_codes"

definition task_closure_recording_reentry_target_source :: "string \<Rightarrow> string list \<Rightarrow> string option" where
  "task_closure_recording_reentry_target_source phase_detail blocking_reason_codes =
     then_some (phase_detail = DETAIL_TASK_CLOSURE_RECORDING_READY \<and>
       list_ex (\<lambda>c. c = TASK_BOUNDARY_REASON_PRIOR_TASK_CURRENT_CLOSURE_MISSING \<or>
         c = TASK_BOUNDARY_REASON_TASK_CLOSURE_BASELINE_REPAIR_CANDIDATE) blocking_reason_codes) ''baseline_bridge''"

definition compact_route_reason_codes ::
  "PlanExecutionStatus \<Rightarrow> string \<Rightarrow> string \<Rightarrow> nat option \<Rightarrow> nat option \<Rightarrow> string list" where
  "compact_route_reason_codes status phase_detail review_state_status blocking_task blocking_step =
     (let projected_status = (if blocking_task \<noteq> None
            then status\<lparr>st_blocking_task := blocking_task, st_blocking_step := blocking_step\<rparr> else status)
      in compact_operator_reason_codes (Some projected_status) phase_detail review_state_status)"

subsection \<open>Blockers\<close>

definition targetless_stale_reconcile_blockers :: "string \<Rightarrow> Blocker list" where
  "targetless_stale_reconcile_blockers phase_detail =
     [\<lparr>bl_category = ''runtime_bug'', bl_scope_type = ''runtime'', bl_scope_key = phase_detail, bl_record_id = None,
       bl_next_public_action = None, bl_details = TARGETLESS_STALE_RECONCILE_DETAIL\<rparr>]"

definition blocking_task_from_blockers :: "Blocker list \<Rightarrow> nat option" where
  "blocking_task_from_blockers blockers =
     find_map (\<lambda>b. if bl_scope_type b = ''task'' then task_scope_key_task_number (bl_scope_key b) else None) blockers"

definition blocker_from_status_record :: "StatusBlockingRecord \<Rightarrow> NextPublicAction option \<Rightarrow> Blocker" where
  "blocker_from_status_record record next_public_action =
     \<lparr>bl_category =
        (if br_scope_type record = ''task'' then ''task_boundary''
         else if br_scope_type record = ''branch'' then ''late_stage'' else ''structural''),
      bl_scope_type = br_scope_type record, bl_scope_key = br_scope_key record, bl_record_id = br_record_id record,
      bl_next_public_action = next_public_action, bl_details = br_message record\<rparr>"

record BlockerSource =
  bs_phase_detail :: string
  bs_blocking_scope :: "string option"
  bs_blocking_task :: "nat option"
  bs_blocking_records :: "StatusBlockingRecord list"
  bs_planning_next_skill :: "string option"

definition runtime_diagnostic_blocker_details :: "string \<Rightarrow> string" where
  "runtime_diagnostic_blocker_details phase_detail =
     ''Routing reached `'' @ phase_detail @ ''` without an actionable public recommendation.''"

definition planning_reentry_blocker_details :: "string option \<Rightarrow> string" where
  "planning_reentry_blocker_details planning_next_skill =
     ''Return to '' @ unwrap_or ''featureforge:plan-eng-review'' planning_next_skill @
     '' for planning reentry before continuing execution.''"

definition blocker_scope_key :: "BlockerSource \<Rightarrow> string" where
  "blocker_scope_key source =
     unwrap_or (bs_phase_detail source) (map_option (\<lambda>task. ''task-'' @ show_nat task) (bs_blocking_task source))"

definition primary_blocker_for_source :: "BlockerSource \<Rightarrow> string \<Rightarrow> NextPublicAction option \<Rightarrow> Blocker list" where
  "primary_blocker_for_source source state_kind next_public_action =
     (if state_kind_is_terminal state_kind then []
      else if state_kind_is_external_wait state_kind
      then [\<lparr>bl_category = ''external_input'', bl_scope_type = unwrap_or ''external'' (bs_blocking_scope source),
             bl_scope_key = blocker_scope_key source, bl_record_id = None, bl_next_public_action = next_public_action,
             bl_details = ''Waiting for external review result.''\<rparr>]
      else if state_kind_is_planning_reentry_required state_kind
      then [\<lparr>bl_category = ''workflow'', bl_scope_type = unwrap_or ''workflow'' (bs_blocking_scope source),
             bl_scope_key = bs_phase_detail source, bl_record_id = None, bl_next_public_action = next_public_action,
             bl_details = planning_reentry_blocker_details (bs_planning_next_skill source)\<rparr>]
      else case bs_blocking_records source of
        primary # _ \<Rightarrow> [blocker_from_status_record primary next_public_action]
      | [] \<Rightarrow>
          if state_kind_is_runtime_diagnostic state_kind
          then [\<lparr>bl_category = ''runtime_bug'', bl_scope_type = ''runtime'', bl_scope_key = bs_phase_detail source,
                 bl_record_id = None, bl_next_public_action = next_public_action,
                 bl_details = runtime_diagnostic_blocker_details (bs_phase_detail source)\<rparr>]
          else case next_public_action of
            Some action \<Rightarrow>
              [\<lparr>bl_category = ''workflow'', bl_scope_type = unwrap_or ''route'' (bs_blocking_scope source),
                bl_scope_key = blocker_scope_key source, bl_record_id = None, bl_next_public_action = Some action,
                bl_details = ''Follow the public routing lane for `'' @ bs_phase_detail source @ ''`.''\<rparr>]
          | None \<Rightarrow> [])"

definition primary_blocker_for_status :: "PlanExecutionStatus \<Rightarrow> string \<Rightarrow> NextPublicAction option \<Rightarrow> Blocker list" where
  "primary_blocker_for_status status state_kind next_public_action =
     primary_blocker_for_source
       \<lparr>bs_phase_detail = st_phase_detail status, bs_blocking_scope = st_blocking_scope status,
        bs_blocking_task = st_blocking_task status, bs_blocking_records = st_blocking_records status,
        bs_planning_next_skill = None\<rparr> state_kind next_public_action"

text \<open>\<^verbatim>\<open>str::replace\<close> with a pattern that is not empty.\<close>

definition materialize_plan_template :: "string \<Rightarrow> string \<Rightarrow> string" where
  "materialize_plan_template template plan_path = join_with plan_path (split_str ''<approved-plan-path>'' template)"

definition materialize_blocker_actions :: "Blocker list \<Rightarrow> string \<Rightarrow> Blocker list" where
  "materialize_blocker_actions blockers plan_path =
     map (\<lambda>blocker. blocker\<lparr>bl_next_public_action := map_option (\<lambda>action.
         action\<lparr>na_command := materialize_plan_template (na_command action) plan_path,
           na_args_template := map_option (\<lambda>t. materialize_plan_template t plan_path) (na_args_template action)\<rparr>)
       (bl_next_public_action blocker)\<rparr>) blockers"

definition display_summary :: "string \<Rightarrow> NextPublicAction" where
  "display_summary command = \<lparr>na_display_only = True, na_command = command, na_args_template = Some command\<rparr>"

definition synthesize_next_public_action :: "PublicCommand option \<Rightarrow> string \<Rightarrow> NextPublicAction option" where
  "synthesize_next_public_action recommended_public_command phase_detail =
     (case opt_filter (\<lambda>command. phase_detail \<notin> set RECOMMENDED_COMMAND_OMITTED_PHASE_DETAILS \<and>
          command_kind command \<noteq> WorkflowOperator \<and> to_invocation command \<noteq> None) recommended_public_command of
        Some command \<Rightarrow> Some (display_summary (to_display_command command))
      | None \<Rightarrow>
          if phase_detail = DETAIL_FINAL_REVIEW_DISPATCH_REQUIRED
          then Some (display_summary (workflow_operator_json_display_command False)) else None)"

subsection \<open>Required follow-up\<close>

definition route_requires_review_state_repair ::
  "PlanExecutionStatus option \<Rightarrow> string \<Rightarrow> string \<Rightarrow> PublicExecutionCommandContext option \<Rightarrow> bool" where
  "route_requires_review_state_repair status phase_detail review_state_status execution_command_context \<longleftrightarrow>
     (if review_state_status = REVIEW_STATE_STALE_UNREVIEWED then True
      else if phase_detail \<noteq> DETAIL_EXECUTION_REENTRY_REQUIRED then False
      else if execution_command_context = None then True
      else if review_state_status \<noteq> ''clean'' then True
      else is_some_and status (\<lambda>s.
        task_scope_structural_review_state_reason s \<noteq> None \<or> task_scope_review_state_repair_reason s \<noteq> None \<or>
        current_branch_closure_structural_review_state_reason s \<noteq> None \<or>
        (st_harness_phase s = DocumentReleasePending \<or> st_harness_phase s = FinalReviewPending \<or>
         st_harness_phase s = QaPending \<or> st_harness_phase s = ReadyForBranchCompletion) \<and>
        st_current_branch_closure_id s = None \<and> st_stale_unreviewed_closures s \<noteq> [] \<and>
        reason_present s REASON_CODE_STALE_PROVENANCE))"

definition derive_required_follow_up_from_optional_status ::
  "PlanExecutionStatus option \<Rightarrow> string \<Rightarrow> string \<Rightarrow> string list \<Rightarrow> PublicExecutionCommandContext option \<Rightarrow> string option" where
  "derive_required_follow_up_from_optional_status status phase_detail review_state_status blocking_reason_codes ctx =
     (if from_phase_and_reason_codes phase_detail blocking_reason_codes then None
      else if route_requires_review_state_repair status phase_detail review_state_status ctx
      then Some FOLLOW_UP_REPAIR_REVIEW_STATE
      else let derived = map_option follow_up_public_token (follow_up_from_phase_detail phase_detail blocking_reason_codes);
          recorded = Option.bind status (\<lambda>s. case st_blocking_records s of [] \<Rightarrow> None
            | record # _ \<Rightarrow> Option.bind (br_required_follow_up record)
                (\<lambda>follow_up. normalize_public_routing_follow_up_token (Some follow_up)))
      in if review_state_status \<noteq> ''clean'' then opt_or recorded derived else derived)"

definition derive_required_follow_up ::
  "PlanExecutionStatus \<Rightarrow> string \<Rightarrow> string \<Rightarrow> string list \<Rightarrow> PublicExecutionCommandContext option \<Rightarrow> string option" where
  "derive_required_follow_up status phase_detail review_state_status blocking_reason_codes ctx =
     derive_required_follow_up_from_optional_status (Some status) phase_detail review_state_status blocking_reason_codes ctx"

definition public_command_for_required_follow_up ::
  "string option \<Rightarrow> string \<Rightarrow> string \<Rightarrow> string option \<Rightarrow> PublicCommand option" where
  "public_command_for_required_follow_up required_follow_up plan_path phase_detail record_type =
     Option.bind (normalize_follow_up_alias required_follow_up PublicRouting) (\<lambda>kind. case kind of
        FU_RepairReviewState \<Rightarrow> Some (repair_review_state_public_command plan_path)
      | FU_ResolveReleaseBlocker \<Rightarrow>
          public_advance_late_stage_command_for_phase_detail plan_path DETAIL_RELEASE_BLOCKER_RESOLUTION_REQUIRED
      | FU_AdvanceLateStage \<Rightarrow> public_advance_late_stage_command_for_follow_up plan_path phase_detail record_type
      | FU_RecordHandoff \<Rightarrow> Some (transfer_handoff_public_command plan_path ''task|branch'')
      | FU_ExecutionReentry \<Rightarrow> Some (PublicWorkflowOperator plan_path False True)
      | FU_RequestExternalReview \<Rightarrow> Some (PublicWorkflowOperator plan_path False True)
      | FU_WaitForExternalReviewResult \<Rightarrow> Some (PublicWorkflowOperator plan_path False True)
      | FU_RunVerification \<Rightarrow> Some (PublicWorkflowOperator plan_path False True)
      | FU_CloseCurrentTask \<Rightarrow> None
      | FU_GateReview \<Rightarrow> None
      | FU_GateFinish \<Rightarrow> None)"

end
