(* ===== verification/Route_Decision.thy ===== *)
theory Route_Decision
  imports Route_Semantics Public_Command_Correct
begin

text \<open>
  The decision of the route planner (\<^verbatim>\<open>route_plan/decision.rs\<close>): how it is made for the fixed routes
  (\<^verbatim>\<open>route_plan/constructors.rs\<close>, \<^verbatim>\<open>route_plan/decision_support.rs\<close>), written onto the status
  (\<^verbatim>\<open>route_plan/status_application.rs\<close>), and finished with its blockers, follow-up and repair targets
  (\<^verbatim>\<open>route_plan/status_projection.rs\<close>, \<^verbatim>\<open>public_repair_targets.rs\<close>, \<^verbatim>\<open>public_repair_target_reasons.rs\<close>).

  The runtime state holds the fields the planner reads.  The blocking records of a status are computed from
  the plan, the work tree and the authoritative state; that computation is an argument.
\<close>

subsection \<open>The runtime state\<close>

datatype BranchRerecordingUnsupportedReason =
    MissingTaskClosureBaseline
  | LateStageSurfaceNotDeclared
  | DriftEscapesLateStageSurface

record BranchRerecordingAssessment =
  ba_changed_paths :: "string list"
  ba_late_stage_surface :: "string list"
  ba_drift_confined_to_late_stage_surface :: bool
  ba_supported :: bool
  ba_unsupported_reason :: "BranchRerecordingUnsupportedReason option"

record FinalReviewDispatchAuthority =
  fd_dispatch_id :: "string option"
  fd_lineage_present :: bool

record PlanStepState =
  ss_task_number :: nat
  ss_step_number :: nat
  ss_checked :: bool

record EvidenceAttempt =
  at_task_number :: nat
  at_step_number :: nat
  at_status :: string

text \<open>The plan as the planner reads it.  A \<^verbatim>\<open>BTreeMap\<close> from task numbers is the list of its entries in key
  order; of a task only the numbers of its steps are read.\<close>

record ExecutionContext =
  ec_plan_rel :: string
  ec_steps :: "PlanStepState list"
  ec_tasks_by_number :: "(nat \<times> nat list) list"
  ec_plan_document_task_count :: nat
  ec_attempts :: "EvidenceAttempt list"

record RuntimeState =
  rn_context :: ExecutionContext
  rn_status :: PlanExecutionStatus
  rn_route_repair_target_candidates :: "PublicRepairTarget list"
  rn_gate_snapshot :: RuntimeGateSnapshot
  rn_persisted_repair_follow_up :: "string option"
  rn_release_readiness_result_for_current_branch :: "string option"
  rn_branch_rerecording_assessment :: "BranchRerecordingAssessment option"
  rn_task_review_dispatch_id :: "string option"
  rn_final_review_dispatch_authority :: FinalReviewDispatchAuthority
  rn_final_review_outcome_recorded_for_current_dispatch :: bool

definition rn_plan_rel :: "RuntimeState \<Rightarrow> string" where
  "rn_plan_rel runtime_state = ec_plan_rel (rn_context runtime_state)"

subsection \<open>The decision\<close>

record RouteDecision =
  rd_state_kind :: string
  rd_phase :: string
  rd_phase_detail :: string
  rd_review_state_status :: string
  rd_next_action :: string
  rd_blocking_reason_codes :: "string list"
  rd_blocking_scope :: "string option"
  rd_blocking_task :: "nat option"
  rd_external_wait_state :: "string option"
  rd_recommended_command :: "string option"
  rd_recommended_public_command :: "PublicCommand option"
  rd_invocation :: "string list option"
  rd_recommended_public_command_template :: "PublicCommandTemplate option"
  rd_required_inputs :: "PublicCommandInputRequirement list"
  rd_required_follow_up :: "string option"
  rd_next_public_action :: "NextPublicAction option"
  rd_blockers :: "Blocker list"
  rd_public_repair_targets :: "PublicRepairTarget list"
  rd_execution_reentry_target_source :: "string option"
  rd_execution_command_context :: "PublicExecutionCommandContext option"
  rd_recording_context :: "PublicRecordingContext option"

text \<open>Building the template of a command does not panic, so the surfaces of a command are total.\<close>

definition surface_template :: "PublicCommand option \<Rightarrow> PublicCommandTemplate option" where
  "surface_template command = (case recommended_public_command_template command of Inr t \<Rightarrow> t | Inl _ \<Rightarrow> None)"

lemma surface_template_exact: "recommended_public_command_template command = Inr (surface_template command)"
proof (cases command)
  case (Some c)
  then show ?thesis
    using input_template_never_panics [of c] by (auto simp: surface_template_def recommended_public_command_template_def)
qed (simp add: surface_template_def recommended_public_command_template_def)

definition command_surfaces ::
  "PublicCommand option \<Rightarrow>
   string option \<times> string list option \<times> PublicCommandTemplate option \<times> PublicCommandInputRequirement list" where
  "command_surfaces command =
     (recommended_public_command_display command, recommended_public_command_argv command, surface_template command,
      required_inputs_for_public_command command)"

definition apply_public_route_projection :: "PlanExecutionStatus option \<Rightarrow> bool \<Rightarrow> RouteDecision \<Rightarrow> RouteDecision" where
  "apply_public_route_projection status external_review_result_ready d =
     (let projection = project_execution_blocking
        \<lparr>bi_phase_detail = rd_phase_detail d, bi_review_state_status = rd_review_state_status d, bi_status = status,
         bi_fallback_scope = opt_or (rd_blocking_scope d) (Option.bind status st_blocking_scope),
         bi_fallback_task = opt_or (rd_blocking_task d) (Option.bind status st_blocking_task),
         bi_execution_command_task = Option.bind (rd_execution_command_context d) cx_task_number,
         bi_recording_task = Option.bind (rd_recording_context d) rx_task_number,
         bi_blocker_task = blocking_task_from_blockers (rd_blockers d)\<rparr>
      in d\<lparr>rd_blocking_scope := bp_scope projection, rd_blocking_task := bp_task projection,
          rd_external_wait_state := opt_or
            (external_wait_state_for_phase_detail (rd_phase_detail d) (rd_blocking_reason_codes d) external_review_result_ready)
            (Option.bind status st_external_wait_state)\<rparr>)"

definition clear_decision_route :: "RouteDecision \<Rightarrow> RouteDecision" where
  "clear_decision_route d =
     d\<lparr>rd_required_follow_up := None, rd_next_public_action := None, rd_public_repair_targets := [],
       rd_recommended_command := None, rd_recommended_public_command := None, rd_invocation := None,
       rd_recommended_public_command_template := None, rd_required_inputs := [],
       rd_execution_reentry_target_source := None, rd_execution_command_context := None\<rparr>"

definition normalize_diagnostic_route_decision :: "RouteDecision \<Rightarrow> RouteDecision" where
  "normalize_diagnostic_route_decision d =
     (if runtime_route_is_diagnostic (rd_state_kind d) (rd_phase_detail d)
      then (clear_decision_route d)\<lparr>rd_next_action := NEXT_ACTION_RUNTIME_DIAGNOSTIC_REQUIRED, rd_blockers := [],
        rd_recording_context := None\<rparr>
      else d)"

definition normalize_targetless_stale_reconcile_route_decision :: "RouteDecision \<Rightarrow> RouteDecision" where
  "normalize_targetless_stale_reconcile_route_decision d =
     (clear_decision_route d)\<lparr>rd_state_kind := DETAIL_RUNTIME_RECONCILE_REQUIRED,
       rd_next_action := NEXT_ACTION_RUNTIME_DIAGNOSTIC_REQUIRED,
       rd_blockers := targetless_stale_reconcile_blockers (rd_phase_detail d)\<rparr>"

subsection \<open>Fixed routes\<close>

definition close_current_task_route_decision :: "RuntimeState \<Rightarrow> PlanExecutionStatus \<Rightarrow> nat \<Rightarrow> RouteDecision" where
  "close_current_task_route_decision runtime_state status task_number =
     (let phase_detail = DETAIL_TASK_CLOSURE_RECORDING_READY;
          command = Some (close_current_task_public_command (rn_plan_rel runtime_state) task_number);
          (recommended_command, invocation, template, inputs) = command_surfaces command;
          action = synthesize_next_public_action command phase_detail;
          state_kind = derive_state_kind_from_seed None Executing phase_detail (state_kind_command_marker command);
          review_state_status = effective_route_review_state_status status phase_detail (st_review_state_status status);
          codes = compact_route_reason_codes status phase_detail review_state_status (Some task_number) None
      in apply_public_route_projection (Some status) False
        \<lparr>rd_state_kind = state_kind, rd_phase = PHASE_TASK_CLOSURE_PENDING, rd_phase_detail = phase_detail,
         rd_review_state_status = review_state_status, rd_next_action = NEXT_ACTION_CLOSE_CURRENT_TASK,
         rd_blocking_reason_codes = codes, rd_blocking_scope = None, rd_blocking_task = None,
         rd_external_wait_state = None, rd_recommended_command = recommended_command,
         rd_recommended_public_command = command, rd_invocation = invocation,
         rd_recommended_public_command_template = template, rd_required_inputs = inputs, rd_required_follow_up = None,
         rd_next_public_action = action,
         rd_blockers = materialize_blocker_actions (primary_blocker_for_status status state_kind action)
           (rn_plan_rel runtime_state),
         rd_public_repair_targets = [],
         rd_execution_reentry_target_source = task_closure_recording_reentry_target_source phase_detail codes,
         rd_execution_command_context = None,
         rd_recording_context = Some \<lparr>rx_task_number = Some task_number,
           rx_dispatch_id = rn_task_review_dispatch_id runtime_state, rx_branch_closure_id = None\<rparr>\<rparr>)"

definition repair_review_state_route_decision ::
  "RuntimeState \<Rightarrow> PlanExecutionStatus \<Rightarrow> nat option \<Rightarrow> string \<Rightarrow> string option \<Rightarrow> RouteDecision" where
  "repair_review_state_route_decision runtime_state status task_number reason_code execution_reentry_target_source =
     (let phase_detail = DETAIL_EXECUTION_REENTRY_REQUIRED;
          command = Some (repair_review_state_public_command (rn_plan_rel runtime_state));
          (recommended_command, invocation, template, inputs) = command_surfaces command;
          action = synthesize_next_public_action command phase_detail;
          review_state_status = st_review_state_status status;
          codes = push_reason_once (compact_route_reason_codes status phase_detail review_state_status
            (opt_or task_number (st_blocking_task status)) None) reason_code;
          state_kind = derive_state_kind_from_seed None (st_harness_phase status) phase_detail
            (state_kind_command_marker command)
      in apply_public_route_projection (Some status) False (normalize_diagnostic_route_decision
        \<lparr>rd_state_kind = state_kind, rd_phase = PHASE_EXECUTING, rd_phase_detail = phase_detail,
         rd_review_state_status = review_state_status,
         rd_next_action = unwrap_or NEXT_ACTION_REPAIR_REVIEW_STATE
           (diagnostic_next_action_for_route state_kind phase_detail (invocation \<noteq> None) (inputs \<noteq> [])),
         rd_blocking_reason_codes = codes, rd_blocking_scope = None, rd_blocking_task = None,
         rd_external_wait_state = None, rd_recommended_command = recommended_command,
         rd_recommended_public_command = command, rd_invocation = invocation,
         rd_recommended_public_command_template = template, rd_required_inputs = inputs,
         rd_required_follow_up = Some FOLLOW_UP_REPAIR_REVIEW_STATE, rd_next_public_action = action,
         rd_blockers = materialize_blocker_actions (primary_blocker_for_status status state_kind action)
           (rn_plan_rel runtime_state),
         rd_public_repair_targets = [], rd_execution_reentry_target_source = execution_reentry_target_source,
         rd_execution_command_context = None, rd_recording_context = None\<rparr>))"

definition runtime_reconcile_route_decision ::
  "RuntimeState \<Rightarrow> PlanExecutionStatus \<Rightarrow> nat option \<Rightarrow> string \<Rightarrow> RouteDecision" where
  "runtime_reconcile_route_decision runtime_state status task_number reason_code =
     (let phase_detail = TARGETLESS_STALE_RECONCILE_PHASE_DETAIL;
          targetless = targetless_from_reason_code reason_code;
          command = then_some (\<not> targetless) (repair_review_state_public_command (rn_plan_rel runtime_state));
          (recommended_command, invocation, template, inputs) = command_surfaces command;
          action = synthesize_next_public_action command phase_detail;
          review_state_status = st_review_state_status status;
          route_codes = compact_route_reason_codes status phase_detail review_state_status
            (opt_or task_number (st_blocking_task status)) None;
          codes = (if targetless then ensure_reason_codes route_codes else push_reason_once route_codes reason_code);
          state_kind = derive_state_kind_from_seed None (st_harness_phase status) phase_detail
            (state_kind_command_marker command)
      in apply_public_route_projection (Some status) False (normalize_diagnostic_route_decision
        \<lparr>rd_state_kind = state_kind, rd_phase = PHASE_EXECUTING, rd_phase_detail = phase_detail,
         rd_review_state_status = review_state_status,
         rd_next_action = unwrap_or NEXT_ACTION_REPAIR_REVIEW_STATE
           (diagnostic_next_action_for_route state_kind phase_detail (invocation \<noteq> None) (inputs \<noteq> [])),
         rd_blocking_reason_codes = codes, rd_blocking_scope = None, rd_blocking_task = None,
         rd_external_wait_state = None, rd_recommended_command = recommended_command,
         rd_recommended_public_command = command, rd_invocation = invocation,
         rd_recommended_public_command_template = template, rd_required_inputs = inputs,
         rd_required_follow_up = then_some (\<not> targetless) FOLLOW_UP_REPAIR_REVIEW_STATE, rd_next_public_action = action,
         rd_blockers = (if targetless then targetless_stale_reconcile_blockers phase_detail
           else materialize_blocker_actions (primary_blocker_for_status status state_kind action)
             (rn_plan_rel runtime_state)),
         rd_public_repair_targets = [], rd_execution_reentry_target_source = None,
         rd_execution_command_context = None, rd_recording_context = None\<rparr>))"

text \<open>Why a repair target is offered (\<^verbatim>\<open>public_repair_target_reasons.rs\<close>).\<close>

datatype PublicRepairTargetReason =
    AuthoritativePreflightRecoveryTaskClosure
  | AuthoritativeTaskClosurePostconditionCleanup
  | CurrentTaskClosureWorktreeLeaseCleanup
  | ExplicitReopenRepairTargetReason
  | PersistedExecutionReentryFollowUp
  | PersistedReviewStateRepairFollowUp
  | PersistedTaskClosureFollowUp
  | RouteAdvanceLateStageReady
  | RouteExecutionReentryRequired
  | RouteRepairReviewStateAvailable
  | RouteTaskClosureRecordingReady
  | RouteTaskClosureRepairStateRefresh
  | StatusTaskClosureRecordingReady
  | TaskReviewDispatchClosureReady

definition PublicRepairTargetReason_ALL :: "PublicRepairTargetReason list" where
  "PublicRepairTargetReason_ALL =
     [AuthoritativePreflightRecoveryTaskClosure, AuthoritativeTaskClosurePostconditionCleanup,
      CurrentTaskClosureWorktreeLeaseCleanup, ExplicitReopenRepairTargetReason, PersistedExecutionReentryFollowUp,
      PersistedReviewStateRepairFollowUp, PersistedTaskClosureFollowUp, RouteAdvanceLateStageReady,
      RouteExecutionReentryRequired, RouteRepairReviewStateAvailable, RouteTaskClosureRecordingReady,
      RouteTaskClosureRepairStateRefresh, StatusTaskClosureRecordingReady, TaskReviewDispatchClosureReady]"

definition PERSISTED_REVIEW_STATE_REPAIR_FOLLOW_UP_REASON_PREFIX :: string where [simp, ff_tokens]:
  "PERSISTED_REVIEW_STATE_REPAIR_FOLLOW_UP_REASON_PREFIX = ''persisted_review_state_repair_follow_up''"

fun repair_target_reason_as_str :: "PublicRepairTargetReason \<Rightarrow> string" where
  "repair_target_reason_as_str AuthoritativePreflightRecoveryTaskClosure = ''authoritative_preflight_recovery_task_closure''"
| "repair_target_reason_as_str AuthoritativeTaskClosurePostconditionCleanup =
     ''authoritative_task_closure_postcondition_cleanup''"
| "repair_target_reason_as_str CurrentTaskClosureWorktreeLeaseCleanup = ''current_task_closure_worktree_lease_cleanup''"
| "repair_target_reason_as_str ExplicitReopenRepairTargetReason = ''explicit_reopen_repair_target''"
| "repair_target_reason_as_str PersistedExecutionReentryFollowUp = ''persisted_execution_reentry_follow_up''"
| "repair_target_reason_as_str PersistedReviewStateRepairFollowUp = PERSISTED_REVIEW_STATE_REPAIR_FOLLOW_UP_REASON_PREFIX"
| "repair_target_reason_as_str PersistedTaskClosureFollowUp = ''persisted_task_closure_follow_up''"
| "repair_target_reason_as_str RouteAdvanceLateStageReady = ''route_advance_late_stage_ready''"
| "repair_target_reason_as_str RouteExecutionReentryRequired = ''route_execution_reentry_required''"
| "repair_target_reason_as_str RouteRepairReviewStateAvailable = ''route_repair_review_state_available''"
| "repair_target_reason_as_str RouteTaskClosureRecordingReady = ''route_task_closure_recording_ready''"
| "repair_target_reason_as_str RouteTaskClosureRepairStateRefresh = ''route_task_closure_repair_state_refresh''"
| "repair_target_reason_as_str StatusTaskClosureRecordingReady = ''status_task_closure_recording_ready''"
| "repair_target_reason_as_str TaskReviewDispatchClosureReady = ''task_review_dispatch_closure_ready''"

definition persisted_review_state_repair_follow_up_reason :: "string \<Rightarrow> string" where
  "persisted_review_state_repair_follow_up_reason follow_up =
     PERSISTED_REVIEW_STATE_REPAIR_FOLLOW_UP_REASON_PREFIX @ '':'' @ follow_up"

definition is_persisted_review_state_repair_follow_up_reason :: "string \<Rightarrow> bool" where
  "is_persisted_review_state_repair_follow_up_reason reason_code \<longleftrightarrow>
     is_some_and (Option.bind (strip_prefix reason_code PERSISTED_REVIEW_STATE_REPAIR_FOLLOW_UP_REASON_PREFIX)
       (\<lambda>suffix. strip_prefix suffix '':'')) (\<lambda>follow_up. trim follow_up \<noteq> [])"

definition repair_target_reason_matches :: "PublicRepairTargetReason \<Rightarrow> string \<Rightarrow> bool" where
  "repair_target_reason_matches reason reason_code =
     (case reason of
        PersistedReviewStateRepairFollowUp \<Rightarrow> is_persisted_review_state_repair_follow_up_reason reason_code
      | _ \<Rightarrow> reason_code = repair_target_reason_as_str reason)"

definition is_reopen_route_candidate :: "string \<Rightarrow> bool" where
  "is_reopen_route_candidate reason_code \<longleftrightarrow>
     repair_target_reason_matches ExplicitReopenRepairTargetReason reason_code \<or>
     repair_target_reason_matches PersistedExecutionReentryFollowUp reason_code"

definition is_close_current_task_explicit :: "string \<Rightarrow> bool" where
  "is_close_current_task_explicit reason_code \<longleftrightarrow>
     list_ex (\<lambda>reason. repair_target_reason_matches reason reason_code)
       [PersistedTaskClosureFollowUp, AuthoritativeTaskClosurePostconditionCleanup,
        CurrentTaskClosureWorktreeLeaseCleanup, TaskReviewDispatchClosureReady,
        AuthoritativePreflightRecoveryTaskClosure, StatusTaskClosureRecordingReady]"

text \<open>\<^verbatim>\<open>public_mutation_token\<close> panics on a kind without a token; it is asked for four kinds that have one.\<close>

definition public_mutation_token :: "PublicCommandKind \<Rightarrow> string" where
  "public_mutation_token kind = unwrap_or [] (public_mutation_name kind)"

lemma public_mutation_token_exact:
  "list_all (\<lambda>kind. public_mutation_name kind = Some (public_mutation_token kind))
     [ReopenCommand, CloseCurrentTaskCommand, RepairReviewStateCommand, AdvanceLateStageCommand]"
  by (simp add: public_mutation_token_def unwrap_or_def)

record PersistedReopenTarget =
  pr_task_number :: nat
  pr_step_number :: nat

definition execution_reentry_reopen_route_decision ::
  "RuntimeState \<Rightarrow> PersistedReopenTarget \<Rightarrow> string option \<Rightarrow> RouteDecision" where
  "execution_reentry_reopen_route_decision runtime_state target execution_reentry_target_source =
     (let status = rn_status runtime_state;
          task_number = pr_task_number target;
          step_number = pr_step_number target;
          command = Some (reopen_public_command (rn_plan_rel runtime_state) task_number step_number
            (recommended_execution_source (st_execution_mode status)) (st_execution_fingerprint status));
          (recommended_command, invocation, template, inputs) = command_surfaces command;
          phase_detail = DETAIL_EXECUTION_REENTRY_REQUIRED;
          review_state_status = effective_route_review_state_status status phase_detail (st_review_state_status status);
          candidates = compact_route_reason_codes status phase_detail review_state_status (Some task_number) None;
          route_codes = public_route_blocking_reason_codes status phase_detail (Some task_number) candidates;
          codes = (if list_ex (repair_target_reason_matches PersistedExecutionReentryFollowUp) route_codes then route_codes
            else route_codes @ [repair_target_reason_as_str PersistedExecutionReentryFollowUp])
      in apply_public_route_projection (Some status) False
        \<lparr>rd_state_kind = STATE_KIND_ACTIONABLE_PUBLIC_COMMAND, rd_phase = PHASE_EXECUTING, rd_phase_detail = phase_detail,
         rd_review_state_status = review_state_status, rd_next_action = NEXT_ACTION_EXECUTION_REENTRY_REQUIRED,
         rd_blocking_reason_codes = codes, rd_blocking_scope = Some ''task'', rd_blocking_task = Some task_number,
         rd_external_wait_state = None, rd_recommended_command = recommended_command,
         rd_recommended_public_command = command, rd_invocation = invocation,
         rd_recommended_public_command_template = template, rd_required_inputs = inputs,
         rd_required_follow_up = Some FOLLOW_UP_EXECUTION_REENTRY, rd_next_public_action = None, rd_blockers = [],
         rd_public_repair_targets = [], rd_execution_reentry_target_source = execution_reentry_target_source,
         rd_execution_command_context = Some \<lparr>cx_command_kind = public_mutation_token ReopenCommand,
           cx_task_number = Some task_number, cx_step_id = Some step_number\<rparr>,
         rd_recording_context = None\<rparr>)"

definition branch_closure_recording_route_decision :: "RuntimeState \<Rightarrow> PlanExecutionStatus \<Rightarrow> RouteDecision" where
  "branch_closure_recording_route_decision runtime_state status =
     (let phase_detail = DETAIL_BRANCH_CLOSURE_RECORDING_REQUIRED_FOR_RELEASE_READINESS;
          command = public_advance_late_stage_command_for_phase_detail (rn_plan_rel runtime_state) phase_detail;
          (recommended_command, invocation, template, inputs) = command_surfaces command;
          action = synthesize_next_public_action command phase_detail
      in apply_public_route_projection (Some status) False
        \<lparr>rd_state_kind = STATE_KIND_ACTIONABLE_PUBLIC_COMMAND, rd_phase = PHASE_DOCUMENT_RELEASE_PENDING,
         rd_phase_detail = phase_detail,
         rd_review_state_status = effective_route_review_state_status status phase_detail REVIEW_STATE_MISSING_CURRENT_CLOSURE,
         rd_next_action = NEXT_ACTION_ADVANCE_LATE_STAGE, rd_blocking_reason_codes = [REVIEW_STATE_MISSING_CURRENT_CLOSURE],
         rd_blocking_scope = None, rd_blocking_task = None, rd_external_wait_state = None,
         rd_recommended_command = recommended_command, rd_recommended_public_command = command,
         rd_invocation = invocation, rd_recommended_public_command_template = template, rd_required_inputs = inputs,
         rd_required_follow_up = Some FOLLOW_UP_ADVANCE_LATE_STAGE, rd_next_public_action = action,
         rd_blockers = materialize_blocker_actions
           (primary_blocker_for_status status STATE_KIND_ACTIONABLE_PUBLIC_COMMAND action) (rn_plan_rel runtime_state),
         rd_public_repair_targets = [], rd_execution_reentry_target_source = None,
         rd_execution_command_context = None, rd_recording_context = None\<rparr>)"

definition route_decision_for_unroutable_runtime_state :: "PlanExecutionStatus \<Rightarrow> RouteDecision" where
  "route_decision_for_unroutable_runtime_state status =
     apply_public_route_projection (Some status) False
       \<lparr>rd_state_kind = DETAIL_BLOCKED_RUNTIME_BUG,
        rd_phase = canonical_phase_for_shared_decision (default_phase_for_status status) ''runtime_route_unavailable'',
        rd_phase_detail = st_phase_detail status, rd_review_state_status = st_review_state_status status,
        rd_next_action = NEXT_ACTION_RUNTIME_DIAGNOSTIC_REQUIRED,
        rd_blocking_reason_codes =
          compact_operator_reason_codes (Some status) (st_phase_detail status) (st_review_state_status status),
        rd_blocking_scope = None, rd_blocking_task = None, rd_external_wait_state = None,
        rd_recommended_command = None, rd_recommended_public_command = None, rd_invocation = None,
        rd_recommended_public_command_template = None, rd_required_inputs = [], rd_required_follow_up = None,
        rd_next_public_action = None, rd_blockers = primary_blocker_for_status status DETAIL_BLOCKED_RUNTIME_BUG None,
        rd_public_repair_targets = [], rd_execution_reentry_target_source = None,
        rd_execution_command_context = None, rd_recording_context = None\<rparr>"

definition diagnostic_route_decision_from_status :: "PlanExecutionStatus \<Rightarrow> RouteDecision option" where
  "diagnostic_route_decision_from_status status =
     map_option (\<lambda>next_action. apply_public_route_projection (Some status) False
       \<lparr>rd_state_kind = st_state_kind status,
        rd_phase = canonical_phase_for_shared_decision
          (unwrap_or (default_phase_for_status status) (st_phase status)) (st_phase_detail status),
        rd_phase_detail = st_phase_detail status, rd_review_state_status = st_review_state_status status,
        rd_next_action = next_action, rd_blocking_reason_codes = st_blocking_reason_codes status,
        rd_blocking_scope = st_blocking_scope status, rd_blocking_task = st_blocking_task status,
        rd_external_wait_state = st_external_wait_state status, rd_recommended_command = None,
        rd_recommended_public_command = None, rd_invocation = None, rd_recommended_public_command_template = None,
        rd_required_inputs = [], rd_required_follow_up = None, rd_next_public_action = None,
        rd_blockers = st_blockers status, rd_public_repair_targets = st_public_repair_targets status,
        rd_execution_reentry_target_source = None, rd_execution_command_context = None, rd_recording_context = None\<rparr>)
     (diagnostic_next_action_for_route (st_state_kind status) (st_phase_detail status) False False)"

end
