(* ===== verification/Route_Projection.thy ===== *)
theory Route_Projection
  imports Route_Decision
begin

text \<open>
  From a route decision to the status that reports it: the projection onto the status
  (\<^verbatim>\<open>route_plan/status_application.rs\<close>), the repair targets a decision offers
  (\<^verbatim>\<open>public_repair_targets.rs\<close>), the finished decision (\<^verbatim>\<open>route_plan/status_projection.rs\<close>) and the routing
  state that follows a status the invariants have changed (\<^verbatim>\<open>query.rs\<close>).
\<close>

subsection \<open>Writing a decision onto a status\<close>

definition route_status_harness_phase :: "string \<Rightarrow> HarnessPhase option" where
  "route_status_harness_phase route_phase =
     opt_filter (\<lambda>phase. phase = DocumentReleasePending \<or> phase = FinalReviewPending \<or> phase = QaPending \<or>
         phase = ReadyForBranchCompletion \<or> phase = PivotRequired \<or> phase = HandoffRequired \<or> phase = Executing)
       (harness_phase_parse route_phase)"

definition harness_phase_for_route_status :: "PlanExecutionStatus \<Rightarrow> string \<Rightarrow> HarnessPhase" where
  "harness_phase_for_route_status status route_phase =
     (if st_execution_started status = ''no'' \<and> st_harness_phase status = ImplementationHandoff
      then st_harness_phase status
      else if route_phase = PHASE_TASK_CLOSURE_PENDING then Executing
      else unwrap_or (st_harness_phase status) (route_status_harness_phase route_phase))"

definition apply_common_route_status_projection :: "RouteDecision \<Rightarrow> PlanExecutionStatus \<Rightarrow> PlanExecutionStatus" where
  "apply_common_route_status_projection d status =
     status\<lparr>st_phase := Some (rd_phase d), st_harness_phase := harness_phase_for_route_status status (rd_phase d),
       st_phase_detail := rd_phase_detail d, st_review_state_status := rd_review_state_status d,
       st_recording_context := rd_recording_context d, st_execution_command_context := rd_execution_command_context d,
       st_next_action := rd_next_action d, st_state_kind := rd_state_kind d,
       st_next_public_action := rd_next_public_action d, st_blockers := rd_blockers d,
       st_execution_reentry_target_source := rd_execution_reentry_target_source d,
       st_public_repair_targets := rd_public_repair_targets d,
       st_recommended_public_command := rd_recommended_public_command d,
       st_recommended_public_command_argv := rd_invocation d,
       st_recommended_public_command_template := rd_recommended_public_command_template d,
       st_required_inputs := rd_required_inputs d, st_recommended_command := rd_recommended_command d,
       st_blocking_task := rd_blocking_task d, st_blocking_scope := rd_blocking_scope d,
       st_external_wait_state := rd_external_wait_state d, st_blocking_reason_codes := rd_blocking_reason_codes d\<rparr>"

definition apply_route_status_projection_diagnostics :: "PlanExecutionStatus \<Rightarrow> PlanExecutionStatus" where
  "apply_route_status_projection_diagnostics status =
     apply_task_boundary_projection_diagnostics
       (if from_phase_and_reason_codes (st_phase_detail status) (st_blocking_reason_codes status)
        then ensure_status_diagnostic status else clear_status_diagnostic status)"

text \<open>The blocking records of a status are an argument: \<^verbatim>\<open>compute_status_blocking_records\<close> of the status, the
  finish gate and the stale targets.\<close>

type_synonym BlockingRecordsOf =
  "PlanExecutionStatus \<Rightarrow> GateResult \<Rightarrow> AuthoritativeStaleTarget list \<Rightarrow> JsonFailure + StatusBlockingRecord list"

definition status_for_route_plan_projection ::
  "BlockingRecordsOf \<Rightarrow> RuntimeState \<Rightarrow> RouteDecision \<Rightarrow> JsonFailure + PlanExecutionStatus" where
  "status_for_route_plan_projection blocking_records_of runtime_state d =
     (let snapshot = rn_gate_snapshot runtime_state;
          status = project_stale_unreviewed_closures
            (apply_common_route_status_projection d (rn_status runtime_state)) snapshot;
          gate = (case rg_gate_finish snapshot of Some gate \<Rightarrow> gate | None \<Rightarrow> gate_state_finish gate_state_default)
      in res_bind (blocking_records_of status gate (sp_stale_targets snapshot)) (\<lambda>records.
        Inr (apply_route_status_projection_diagnostics (status\<lparr>st_blocking_records := records\<rparr>))))"

subsection \<open>Repair targets of a decision\<close>

definition push_public_repair_target_once :: "PublicRepairTarget \<Rightarrow> PublicRepairTarget list \<Rightarrow> PublicRepairTarget list" where
  "push_public_repair_target_once target targets =
     (if list_ex (\<lambda>existing. rt_command_kind existing = rt_command_kind target \<and> rt_task existing = rt_task target \<and>
           rt_step existing = rt_step target) targets
      then targets else targets @ [target])"

definition route_owned_target ::
  "PublicCommandKind \<Rightarrow> nat option \<Rightarrow> nat option \<Rightarrow> PublicRepairTargetReason \<Rightarrow> string \<Rightarrow> PublicRepairTarget" where
  "route_owned_target kind task step reason source =
     \<lparr>rt_command_kind = public_mutation_token kind, rt_task = task, rt_step = step,
      rt_reason_code = repair_target_reason_as_str reason, rt_source_record_id = Some source,
      rt_expires_when_fingerprint_changes = True\<rparr>"

definition route_reopen_request :: "RouteDecision \<Rightarrow> PublicMutationRequest option" where
  "route_reopen_request d =
     opt_filter (\<lambda>request. mr_kind request = ReopenCommand)
       (Option.bind (rd_recommended_public_command d) to_mutation_request)"

definition push_route_owned_reopen_target :: "RouteDecision \<Rightarrow> PublicRepairTarget list \<Rightarrow> PublicRepairTarget list" where
  "push_route_owned_reopen_target d targets =
     (case route_reopen_request d of
        Some request \<Rightarrow> push_public_repair_target_once
          (route_owned_target ReopenCommand (mr_task request) (mr_step request) RouteExecutionReentryRequired
             ''route_decision:reopen'') targets
      | None \<Rightarrow> targets)"

definition push_route_owned_task_closure_target :: "RouteDecision \<Rightarrow> PublicRepairTarget list \<Rightarrow> PublicRepairTarget list" where
  "push_route_owned_task_closure_target d targets =
     (if rd_phase_detail d \<noteq> DETAIL_TASK_CLOSURE_RECORDING_READY then targets
      else case Option.bind (rd_recording_context d) rx_task_number of
        Some task \<Rightarrow> push_public_repair_target_once
          (route_owned_target CloseCurrentTaskCommand (Some task) None RouteTaskClosureRecordingReady
             ''route_decision:task_closure_recording_ready'') targets
      | None \<Rightarrow> targets)"

definition route_recommended_public_command_is :: "RouteDecision \<Rightarrow> PublicCommandKind \<Rightarrow> bool" where
  "route_recommended_public_command_is d kind \<longleftrightarrow>
     is_some_and (rd_recommended_public_command d) (\<lambda>command. command_kind command = kind)"

definition closure_repair_reason_codes :: "RouteDecision \<Rightarrow> bool" where
  "closure_repair_reason_codes d \<longleftrightarrow>
     list_ex (\<lambda>c. c = TASK_BOUNDARY_REASON_PRIOR_TASK_CURRENT_CLOSURE_MISSING \<or>
       c = TASK_BOUNDARY_REASON_TASK_CLOSURE_BASELINE_REPAIR_CANDIDATE) (rd_blocking_reason_codes d)"

definition route_decision_exposes_repair_review_state_target :: "PlanExecutionStatus \<Rightarrow> RouteDecision \<Rightarrow> bool" where
  "route_decision_exposes_repair_review_state_target status d \<longleftrightarrow>
     route_recommended_public_command_is d RepairReviewStateCommand \<or>
     rd_required_follow_up d = Some FOLLOW_UP_REPAIR_REVIEW_STATE \<or> rd_review_state_status d \<noteq> ''clean'' \<or>
     task_scope_structural_review_state_reason status \<noteq> None \<or>
     current_branch_closure_structural_review_state_reason status \<noteq> None \<or>
     list_ex (\<lambda>record. br_record_type record = ''review_state'' \<and>
       br_required_follow_up record = Some FOLLOW_UP_REPAIR_REVIEW_STATE) (st_blocking_records status) \<or>
     (rd_phase_detail d = DETAIL_EXECUTION_REENTRY_REQUIRED \<or>
      rd_phase_detail d = DETAIL_FINAL_REVIEW_DISPATCH_REQUIRED \<or>
      rd_phase_detail d = DETAIL_RELEASE_READINESS_RECORDING_READY \<or>
      rd_phase_detail d = DETAIL_RUNTIME_RECONCILE_REQUIRED) \<and>
     \<not> (stale_provenance_after_authoritative_closure_is_diagnostic status \<and> rd_review_state_status d = ''clean'') \<or>
     closure_repair_reason_codes d \<or>
     list_ex (\<lambda>c. c = REASON_CODE_STALE_PROVENANCE \<and>
       \<not> stale_provenance_after_authoritative_closure_is_diagnostic status) (rd_blocking_reason_codes d)"

definition public_repair_target_kind :: "PublicRepairTarget \<Rightarrow> PublicCommandKind option" where
  "public_repair_target_kind candidate =
     List.find (\<lambda>kind. matches_public_mutation_token kind (rt_command_kind candidate))
       [ReopenCommand, CloseCurrentTaskCommand, RepairReviewStateCommand, AdvanceLateStageCommand]"

definition route_reentry_target_matches_candidate :: "RouteDecision \<Rightarrow> PublicRepairTarget \<Rightarrow> bool" where
  "route_reentry_target_matches_candidate d candidate =
     (case route_reopen_request d of
        Some request \<Rightarrow> rt_task candidate = mr_task request \<and> rt_step candidate = mr_step request
      | None \<Rightarrow> is_some_and (rd_execution_command_context d) (\<lambda>ctx.
          cx_task_number ctx = rt_task candidate \<and> cx_step_id ctx = rt_step candidate))"

definition route_recording_target_matches_candidate :: "RouteDecision \<Rightarrow> PublicRepairTarget \<Rightarrow> bool" where
  "route_recording_target_matches_candidate d candidate \<longleftrightarrow>
     is_some_and (rd_recording_context d) (\<lambda>ctx. rx_task_number ctx = rt_task candidate)"

definition explicit_close_current_task_candidate :: "PublicRepairTarget \<Rightarrow> bool" where
  "explicit_close_current_task_candidate candidate \<longleftrightarrow> is_close_current_task_explicit (rt_reason_code candidate)"

definition route_allows_public_repair_target_candidate ::
  "PlanExecutionStatus \<Rightarrow> RouteDecision \<Rightarrow> PublicRepairTarget \<Rightarrow> bool" where
  "route_allows_public_repair_target_candidate status d candidate =
     (case public_repair_target_kind candidate of
        Some ReopenCommand \<Rightarrow>
          is_reopen_route_candidate (rt_reason_code candidate) \<or>
          rd_phase_detail d = DETAIL_EXECUTION_REENTRY_REQUIRED \<and> rt_task candidate \<noteq> None \<and>
          route_reentry_target_matches_candidate d candidate
      | Some CloseCurrentTaskCommand \<Rightarrow>
          rt_task candidate \<noteq> None \<and>
          (explicit_close_current_task_candidate candidate \<or>
           rd_phase_detail d = DETAIL_TASK_CLOSURE_RECORDING_READY \<and> route_recording_target_matches_candidate d candidate)
      | Some RepairReviewStateCommand \<Rightarrow>
          route_decision_exposes_repair_review_state_target status d \<and>
          \<not> state_kind_is_blocked_runtime_bug (rd_state_kind d)
      | Some AdvanceLateStageCommand \<Rightarrow>
          route_recommended_public_command_is d AdvanceLateStageCommand \<and>
          rd_phase_detail d \<noteq> DETAIL_RUNTIME_RECONCILE_REQUIRED \<and> \<not> state_kind_is_blocked_runtime_bug (rd_state_kind d)
      | _ \<Rightarrow> False)"

definition push_allowed_authority_candidates ::
  "PlanExecutionStatus \<Rightarrow> RouteDecision \<Rightarrow> PublicRepairTarget list \<Rightarrow> PublicRepairTarget list \<Rightarrow> PublicRepairTarget list" where
  "push_allowed_authority_candidates status d candidates targets =
     fold (\<lambda>candidate targets. if route_allows_public_repair_target_candidate status d candidate
         then push_public_repair_target_once candidate targets else targets) candidates targets"

definition push_route_owned_repair_review_state_target ::
  "PlanExecutionStatus \<Rightarrow> RouteDecision \<Rightarrow> PublicRepairTarget list \<Rightarrow> PublicRepairTarget list" where
  "push_route_owned_repair_review_state_target status d targets =
     (let closure_repair = (rd_phase_detail d = DETAIL_TASK_CLOSURE_RECORDING_READY \<and> closure_repair_reason_codes d);
          allowed = (rd_phase_detail d = DETAIL_RUNTIME_RECONCILE_REQUIRED \<or>
            \<not> state_kind_blocks_local_mutation (rd_state_kind d))
      in if (closure_repair \<or> route_decision_exposes_repair_review_state_target status d) \<and> allowed
         then push_public_repair_target_once
           (route_owned_target RepairReviewStateCommand None None
              (if closure_repair then RouteTaskClosureRepairStateRefresh else RouteRepairReviewStateAvailable)
              (''route_decision:'' @ rd_phase_detail d)) targets
         else targets)"

definition push_route_owned_advance_late_stage_target :: "RouteDecision \<Rightarrow> PublicRepairTarget list \<Rightarrow> PublicRepairTarget list" where
  "push_route_owned_advance_late_stage_target d targets =
     (if route_recommended_public_command_is d AdvanceLateStageCommand \<and>
         rd_phase_detail d \<noteq> DETAIL_RUNTIME_RECONCILE_REQUIRED \<and> \<not> state_kind_blocks_local_mutation (rd_state_kind d)
      then push_public_repair_target_once
        (route_owned_target AdvanceLateStageCommand None None RouteAdvanceLateStageReady
           ''route_decision:advance_late_stage'') targets
      else targets)"

definition route_decision_is_diagnostic_only :: "RouteDecision \<Rightarrow> bool" where
  "route_decision_is_diagnostic_only d \<longleftrightarrow> runtime_route_is_diagnostic (rd_state_kind d) (rd_phase_detail d)"

definition public_repair_targets_for_route_decision ::
  "PlanExecutionStatus \<Rightarrow> RouteDecision \<Rightarrow> PublicRepairTarget list \<Rightarrow> PublicRepairTarget list" where
  "public_repair_targets_for_route_decision status d candidates =
     (if route_decision_is_diagnostic_only d then []
      else if targetless_stale_reconcile_for_phase (rd_phase_detail d) (rd_blocking_reason_codes d) then []
      else if external_wait_state_is_external_wait (st_external_wait_state status) then []
      else push_route_owned_advance_late_stage_target d
        (push_route_owned_repair_review_state_target status d
          (push_allowed_authority_candidates status d candidates
            (push_route_owned_task_closure_target d (push_route_owned_reopen_target d [])))))"

definition close_current_task_public_repair_target_for_task :: "PublicRepairTarget list \<Rightarrow> nat \<Rightarrow> bool" where
  "close_current_task_public_repair_target_for_task targets task \<longleftrightarrow>
     list_ex (\<lambda>target. matches_public_mutation_token CloseCurrentTaskCommand (rt_command_kind target) \<and>
       rt_task target = Some task \<and> rt_step target = None) targets"

subsection \<open>The finished decision\<close>

definition finalize_route_decision_for_route_plan ::
  "RouteDecision \<Rightarrow> PlanExecutionStatus \<Rightarrow> RuntimeState \<Rightarrow> bool \<Rightarrow> RouteDecision" where
  "finalize_route_decision_for_route_plan d status runtime_state external_review_result_ready =
     (let with_blockers =
        (if targetless_stale_reconcile_for_phase (rd_phase_detail d) (rd_blocking_reason_codes d)
         then normalize_targetless_stale_reconcile_route_decision d
         else d\<lparr>rd_blockers := primary_blocker_for_status status (rd_state_kind d) (rd_next_public_action d),
           rd_required_follow_up := derive_required_follow_up status (rd_phase_detail d) (rd_review_state_status d)
             (rd_blocking_reason_codes d) (rd_execution_command_context d)\<rparr>);
          with_targets = with_blockers\<lparr>rd_public_repair_targets := public_repair_targets_for_route_decision status
            with_blockers (rn_route_repair_target_candidates runtime_state)\<rparr>
      in apply_public_route_projection (Some status) external_review_result_ready
        (normalize_diagnostic_route_decision with_targets))"

end
