(* ===== verification/Repair_Targets.thy ===== *)
theory Repair_Targets
  imports Route_Projection
begin

text \<open>
  Which task a repair or a re-entry into execution goes to (\<^verbatim>\<open>repair_target_selection.rs\<close>), and when a missing
  task closure is recorded instead: the baseline bridge (\<^verbatim>\<open>repair_route_decision/baseline_bridge.rs\<close> and its
  predicates) and the plan of a review-state repair (\<^verbatim>\<open>repair_route_decision.rs\<close>).

  What these decisions read from the work tree, the authoritative state and the leases is an argument, the record
  of observations below; everything else they read is the status, the plan and the authority inputs.
\<close>

subsection \<open>Observations\<close>

record TaskClosureBaselineRepairCandidate =
  cand_task :: nat
  cand_dispatch_id :: "string option"

text \<open>\<^verbatim>\<open>task_closure_baseline_repair_candidate_with_stale_target_and_authority\<close>,
  \<^verbatim>\<open>task_closure_baseline_bridge_ready_for_stale_target_with_authority\<close>,
  \<^verbatim>\<open>stale_unreviewed_allows_task_closure_baseline_bridge_with_authority\<close>,
  \<^verbatim>\<open>worktree_drift_escapes_late_stage_surface\<close> and \<^verbatim>\<open>is_runtime_owned_execution_control_plane_path\<close>, for the
  context, the overlay and the authoritative state of one planning run.\<close>

record PlanningObservations =
  po_repair_candidate :: "PlanExecutionStatus \<Rightarrow> nat \<Rightarrow> nat option \<Rightarrow> BranchRerecordingAssessment \<Rightarrow>
     JsonFailure + TaskClosureBaselineRepairCandidate option"
  po_bridge_ready_for_stale_target ::
    "PlanExecutionStatus \<Rightarrow> nat \<Rightarrow> nat option \<Rightarrow> BranchRerecordingAssessment \<Rightarrow> JsonFailure + bool"
  po_stale_unreviewed_allows_bridge :: "PlanExecutionStatus \<Rightarrow> nat \<Rightarrow> JsonFailure + bool"
  po_worktree_drift_escapes_late_stage_surface :: "JsonFailure + bool"
  po_runtime_owned_path :: "string \<Rightarrow> bool"

definition res_unwrap_or :: "'a \<Rightarrow> 'e + 'a \<Rightarrow> 'a" where
  "res_unwrap_or d r = (case r of Inr x \<Rightarrow> x | Inl _ \<Rightarrow> d)"

lemma res_unwrap_or_simps [simp]: "res_unwrap_or d (Inr x) = x" "res_unwrap_or d (Inl e) = d"
  by (simp_all add: res_unwrap_or_def)

definition latest_attempted_step_for_task :: "ExecutionContext \<Rightarrow> nat \<Rightarrow> nat option" where
  "latest_attempted_step_for_task context task_number =
     find_map (\<lambda>attempt. if at_task_number attempt = task_number \<and>
           list_ex (\<lambda>s. ss_task_number s = task_number \<and> ss_step_number s = at_step_number attempt) (ec_steps context)
         then Some (at_step_number attempt) else None) (rev (ec_attempts context))"

definition latest_attempt_for_step :: "ExecutionContext \<Rightarrow> nat \<Rightarrow> nat \<Rightarrow> EvidenceAttempt option" where
  "latest_attempt_for_step context task_number step_number =
     List.find (\<lambda>attempt. at_task_number attempt = task_number \<and> at_step_number attempt = step_number)
       (rev (ec_attempts context))"

definition task_latest_attempts_are_completed :: "ExecutionContext \<Rightarrow> nat \<Rightarrow> bool" where
  "task_latest_attempts_are_completed context task_number \<longleftrightarrow>
     is_some_and (map_of (ec_tasks_by_number context) task_number) (\<lambda>steps. steps \<noteq> [] \<and>
       list_all (\<lambda>step. is_some_and (latest_attempt_for_step context task_number step)
         (\<lambda>attempt. at_status attempt = ''Completed'')) steps)"

definition context_closure_baseline_candidate_task :: "ExecutionContext \<Rightarrow> nat option" where
  "context_closure_baseline_candidate_task context =
     closure_baseline_candidate_task (map (\<lambda>s. (ss_task_number s, ss_checked s)) (ec_steps context))
       (map fst (ec_tasks_by_number context))"

definition latest_checked_task :: "ExecutionContext \<Rightarrow> nat option" where
  "latest_checked_task context = iter_max (map ss_task_number (filter ss_checked (ec_steps context)))"

subsection \<open>The set of current task closures\<close>

record CurrentTaskClosureBranchRouteFacts =
  cf_branch_closure_missing :: bool
  cf_set_present :: bool
  cf_count :: nat
  cf_non_branch_contributing :: bool

definition reviewed_surface_paths_contribute_to_branch_surface :: "PlanningObservations \<Rightarrow> string list \<Rightarrow> bool" where
  "reviewed_surface_paths_contribute_to_branch_surface ob paths \<longleftrightarrow>
     list_ex (\<lambda>p. \<not> po_runtime_owned_path ob p) (filter (\<lambda>p. p \<noteq> NO_REPO_FILES_MARKER) paths)"

definition projected_task_closure_set_is_non_branch_contributing ::
  "PlanningObservations \<Rightarrow> PlanExecutionStatus \<Rightarrow> bool" where
  "projected_task_closure_set_is_non_branch_contributing ob status \<longleftrightarrow>
     st_current_task_closures status \<noteq> [] \<and>
     list_all (\<lambda>closure. tc_effective_reviewed_surface_paths closure \<noteq> [] \<and>
       \<not> reviewed_surface_paths_contribute_to_branch_surface ob (tc_effective_reviewed_surface_paths closure))
       (st_current_task_closures status)"

definition current_task_closure_branch_route_facts_from_status ::
  "PlanningObservations \<Rightarrow> PlanExecutionStatus \<Rightarrow> CurrentTaskClosureBranchRouteFacts" where
  "current_task_closure_branch_route_facts_from_status ob status =
     \<lparr>cf_branch_closure_missing = (st_current_branch_closure_id status = None),
      cf_set_present = (st_current_task_closures status \<noteq> []), cf_count = length (st_current_task_closures status),
      cf_non_branch_contributing = projected_task_closure_set_is_non_branch_contributing ob status\<rparr>"

definition set_should_route_to_branch_closure :: "CurrentTaskClosureBranchRouteFacts \<Rightarrow> bool" where
  "set_should_route_to_branch_closure f \<longleftrightarrow>
     cf_branch_closure_missing f \<and> cf_set_present f \<and> \<not> cf_non_branch_contributing f"

definition set_is_missing_for_late_stage_reentry :: "CurrentTaskClosureBranchRouteFacts \<Rightarrow> bool" where
  "set_is_missing_for_late_stage_reentry f \<longleftrightarrow> cf_branch_closure_missing f \<and> \<not> cf_set_present f"

definition set_has_non_branch_contributing_closure_without_branch :: "CurrentTaskClosureBranchRouteFacts \<Rightarrow> bool" where
  "set_has_non_branch_contributing_closure_without_branch f \<longleftrightarrow>
     cf_branch_closure_missing f \<and> cf_non_branch_contributing f"

definition branch_closure_recorded :: "CurrentTaskClosureBranchRouteFacts \<Rightarrow> bool" where
  "branch_closure_recorded f \<longleftrightarrow> \<not> cf_branch_closure_missing f"

definition missing_current_closure_can_reroute_to_late_stage :: "CurrentTaskClosureBranchRouteFacts \<Rightarrow> bool" where
  "missing_current_closure_can_reroute_to_late_stage f \<longleftrightarrow> cf_branch_closure_missing f \<and> cf_set_present f"

definition all_plan_task_closures_present_without_branch_closure ::
  "CurrentTaskClosureBranchRouteFacts \<Rightarrow> nat \<Rightarrow> bool" where
  "all_plan_task_closures_present_without_branch_closure f plan_task_count \<longleftrightarrow>
     cf_branch_closure_missing f \<and> plan_task_count > 0 \<and> cf_count f \<ge> plan_task_count"

definition task_should_route_to_branch_closure ::
  "CurrentTaskClosureBranchRouteFacts \<Rightarrow> PlanExecutionStatus \<Rightarrow> nat \<Rightarrow> bool" where
  "task_should_route_to_branch_closure f status task_number \<longleftrightarrow>
     set_should_route_to_branch_closure f \<and> status_has_current_task_closure_for_task status task_number"

definition branch_missing_and_task_has_no_current_closure ::
  "CurrentTaskClosureBranchRouteFacts \<Rightarrow> PlanExecutionStatus \<Rightarrow> nat \<Rightarrow> bool" where
  "branch_missing_and_task_has_no_current_closure f status task_number \<longleftrightarrow>
     cf_branch_closure_missing f \<and> \<not> status_has_current_task_closure_for_task status task_number"

definition stale_target_matches_current_task_closure ::
  "CurrentTaskClosureBranchRouteFacts \<Rightarrow> PlanExecutionStatus \<Rightarrow> nat \<Rightarrow> string \<Rightarrow> bool" where
  "stale_target_matches_current_task_closure f status task_number source_record_id \<longleftrightarrow>
     cf_set_present f \<and> list_ex (\<lambda>closure. tc_task closure = task_number \<and>
       tc_closure_record_id closure = source_record_id) (st_current_task_closures status)"

definition inactive_route_facts :: CurrentTaskClosureBranchRouteFacts where
  "inactive_route_facts = \<lparr>cf_branch_closure_missing = False, cf_set_present = False, cf_count = 0,
     cf_non_branch_contributing = False\<rparr>"

subsection \<open>Authority inputs\<close>

datatype ExecutionReentryTargetSource =
    BlockingBeginGuard
  | ResumeStep
  | ActiveStep
  | FromAuthoritativeStaleTarget StaleTargetSource
  | ExactRouteCommand
  | TaskClosureBaselineRepairCandidateSource
  | NegativeReviewOrVerificationResult

fun reentry_target_source_as_str :: "ExecutionReentryTargetSource \<Rightarrow> string" where
  "reentry_target_source_as_str BlockingBeginGuard = ''blocking_begin_guard''"
| "reentry_target_source_as_str ResumeStep = ''resume_step''"
| "reentry_target_source_as_str ActiveStep = ''active_step''"
| "reentry_target_source_as_str (FromAuthoritativeStaleTarget source) = execution_reentry_source_token source"
| "reentry_target_source_as_str ExactRouteCommand = ''exact_route_command''"
| "reentry_target_source_as_str TaskClosureBaselineRepairCandidateSource =
     TASK_BOUNDARY_REASON_TASK_CLOSURE_BASELINE_REPAIR_CANDIDATE"
| "reentry_target_source_as_str NegativeReviewOrVerificationResult = ''negative_review_or_verification_result''"

record ExecutionReentryTarget =
  et_task :: nat
  et_step :: "nat option"
  et_source :: ExecutionReentryTargetSource
  et_reason_code :: string
  et_source_record_id :: "string option"

definition execution_reentry_target_new ::
  "nat \<Rightarrow> nat option \<Rightarrow> ExecutionReentryTargetSource \<Rightarrow> string \<Rightarrow> ExecutionReentryTarget" where
  "execution_reentry_target_new task step source reason_code =
     \<lparr>et_task = task, et_step = step, et_source = source, et_reason_code = reason_code, et_source_record_id = None\<rparr>"

record AuthoritativeStaleReentryTarget =
  sr_task :: nat
  sr_step :: "nat option"
  sr_reason_code :: string
  sr_source :: StaleTargetSource
  sr_source_record_id :: "string option"
  sr_task_closure_bridge_allowed :: bool

definition from_stale_target :: "AuthoritativeStaleTarget \<Rightarrow> AuthoritativeStaleReentryTarget option" where
  "from_stale_target target =
     (if tg_scope target \<noteq> StaleTask then None
      else map_option (\<lambda>task. \<lparr>sr_task = task, sr_step = tg_step target, sr_reason_code = tg_reason_code target,
         sr_source = tg_source target, sr_source_record_id = stale_reentry_source_record_id target,
         sr_task_closure_bridge_allowed = tg_task_closure_bridge_allowed target\<rparr>) (tg_task target))"

definition into_execution_reentry_target :: "AuthoritativeStaleReentryTarget \<Rightarrow> ExecutionReentryTarget" where
  "into_execution_reentry_target target =
     \<lparr>et_task = sr_task target, et_step = sr_step target, et_source = FromAuthoritativeStaleTarget (sr_source target),
      et_reason_code = sr_reason_code target, et_source_record_id = sr_source_record_id target\<rparr>"

text \<open>The overlay and the authoritative state of the inputs are read by the observations only.\<close>

record NextActionAuthorityInputs =
  ai_persisted_repair_follow_up :: "string option"
  ai_branch_rerecording_assessment :: "BranchRerecordingAssessment option"
  ai_gate_finish :: "GateResult option"
  ai_route_repair_target_candidates :: "PublicRepairTarget list"
  ai_has_authoritative_stale_target :: bool
  ai_authoritative_stale_target :: "AuthoritativeStaleReentryTarget option"
  ai_derived_negative_result_reentry :: bool
  ai_current_task_closure_branch_route_facts :: "CurrentTaskClosureBranchRouteFacts option"

definition current_task_closure_branch_route_facts_or_derive ::
  "PlanningObservations \<Rightarrow> NextActionAuthorityInputs \<Rightarrow> PlanExecutionStatus \<Rightarrow> CurrentTaskClosureBranchRouteFacts" where
  "current_task_closure_branch_route_facts_or_derive ob ai status =
     unwrap_or (current_task_closure_branch_route_facts_from_status ob status)
       (ai_current_task_closure_branch_route_facts ai)"

text \<open>The planner seeds the facts before anything reads them, so the \<^verbatim>\<open>expect\<close> of this reader is not reached; its
  branch is the inactive facts.\<close>

definition precomputed_current_task_closure_branch_route_facts ::
  "NextActionAuthorityInputs \<Rightarrow> CurrentTaskClosureBranchRouteFacts" where
  "precomputed_current_task_closure_branch_route_facts ai =
     unwrap_or inactive_route_facts (ai_current_task_closure_branch_route_facts ai)"

definition stale_target_allows_task_closure_bridge_for_task :: "NextActionAuthorityInputs \<Rightarrow> nat \<Rightarrow> bool" where
  "stale_target_allows_task_closure_bridge_for_task ai task_number \<longleftrightarrow>
     stale_task_closure_bridge_allows_task_parts
       (map_option (\<lambda>t. (sr_task t, sr_task_closure_bridge_allowed t)) (ai_authoritative_stale_target ai)) task_number"

definition select_authoritative_stale_reentry_target ::
  "PlanExecutionStatus \<Rightarrow> AuthoritativeStaleTarget list \<Rightarrow> AuthoritativeStaleReentryTarget option" where
  "select_authoritative_stale_reentry_target status stale_targets =
     Option.bind (select_actionable_stale_reentry_target status stale_targets) from_stale_target"

record NextActionAuthorityReadScope =
  sc_persisted_repair_follow_up :: "string option"
  sc_branch_rerecording_assessment :: "BranchRerecordingAssessment option"
  sc_gate_finish :: "GateResult option"
  sc_route_repair_target_candidates :: "PublicRepairTarget list"

definition next_action_authority_inputs_from_stale_targets ::
  "PlanExecutionStatus \<Rightarrow> AuthoritativeStaleTarget list \<Rightarrow> bool \<Rightarrow> NextActionAuthorityReadScope \<Rightarrow> NextActionAuthorityInputs" where
  "next_action_authority_inputs_from_stale_targets status stale_targets stale_target_bound read_scope =
     \<lparr>ai_persisted_repair_follow_up = sc_persisted_repair_follow_up read_scope,
      ai_branch_rerecording_assessment = sc_branch_rerecording_assessment read_scope,
      ai_gate_finish = sc_gate_finish read_scope,
      ai_route_repair_target_candidates = sc_route_repair_target_candidates read_scope,
      ai_has_authoritative_stale_target = stale_target_bound,
      ai_authoritative_stale_target = select_authoritative_stale_reentry_target status stale_targets,
      ai_derived_negative_result_reentry = False, ai_current_task_closure_branch_route_facts = None\<rparr>"

definition next_action_authority_inputs_from_stale_projection ::
  "PlanExecutionStatus \<Rightarrow> StaleTargetProjection \<Rightarrow> NextActionAuthorityReadScope \<Rightarrow> NextActionAuthorityInputs" where
  "next_action_authority_inputs_from_stale_projection status stale_projection read_scope =
     next_action_authority_inputs_from_stale_targets status (sp_stale_targets stale_projection)
       (has_authoritative_stale_binding stale_projection status) read_scope"

definition next_action_authority_inputs_from_gate_snapshot ::
  "PlanExecutionStatus \<Rightarrow> RuntimeGateSnapshot \<Rightarrow> NextActionAuthorityReadScope \<Rightarrow> NextActionAuthorityInputs" where
  "next_action_authority_inputs_from_gate_snapshot status gate_snapshot read_scope =
     next_action_authority_inputs_from_stale_targets status (sp_stale_targets gate_snapshot)
       (has_authoritative_stale_binding gate_snapshot status) (read_scope\<lparr>sc_gate_finish := rg_gate_finish gate_snapshot\<rparr>)"

subsection \<open>Precedence of the baseline bridge\<close>

definition baseline_bridge_precedence ::
  "PlanExecutionStatus \<Rightarrow> StaleBoundaryCandidate option \<Rightarrow> StalePreemptionTarget option \<Rightarrow> ResumeStalePrecedence" where
  "baseline_bridge_precedence status authoritative_stale_boundary stale_preemption_target =
     resume_precedence_from_inputs
       \<lparr>pi_status = status, pi_review_state_status = st_review_state_status status, pi_open_step_task = None,
        pi_authoritative_stale_boundary = authoritative_stale_boundary, pi_baseline_stale_boundary_task = None,
        pi_exact_resume_stale_task_target = map_option sb_task authoritative_stale_boundary,
        pi_stale_preemption_target = stale_preemption_target, pi_legal_resume_begin_route = False,
        pi_targetless_stale_has_concrete_public_target = True\<rparr>"

definition stale_boundary_of :: "AuthoritativeStaleReentryTarget option \<Rightarrow> StaleBoundaryCandidate option" where
  "stale_boundary_of target = map_option (\<lambda>t. from_authoritative_stale_target (sr_task t) (sr_source t)) target"

definition stale_preemption_of :: "AuthoritativeStaleReentryTarget option \<Rightarrow> StalePreemptionTarget option" where
  "stale_preemption_of target = map_option (\<lambda>t. \<lparr>pt_task = sr_task t, pt_step = sr_step t\<rparr>) target"

definition baseline_bridge_authority_precedence ::
  "PlanExecutionStatus \<Rightarrow> NextActionAuthorityInputs \<Rightarrow> ResumeStalePrecedence" where
  "baseline_bridge_authority_precedence status ai =
     baseline_bridge_precedence status (stale_boundary_of (ai_authoritative_stale_target ai))
       (stale_preemption_of (ai_authoritative_stale_target ai))"

definition baseline_bridge_reducer_precedence :: "PlanExecutionStatus \<Rightarrow> nat option \<Rightarrow> ResumeStalePrecedence" where
  "baseline_bridge_reducer_precedence status reducer_stale_target =
     baseline_bridge_precedence status
       (map_option (\<lambda>task. from_authoritative_stale_target task FromClosureGraph) reducer_stale_target)
       (map_option (\<lambda>task. \<lparr>pt_task = task, pt_step = None\<rparr>) reducer_stale_target)"

definition repair_precedence ::
  "PlanExecutionStatus \<Rightarrow> NextActionAuthorityInputs \<Rightarrow> bool \<Rightarrow> ResumeStalePrecedence" where
  "repair_precedence status ai legal_resume_begin_route =
     (let boundary = stale_boundary_of (ai_authoritative_stale_target ai)
      in resume_precedence_from_inputs
       \<lparr>pi_status = status, pi_review_state_status = st_review_state_status status, pi_open_step_task = None,
        pi_authoritative_stale_boundary = boundary, pi_baseline_stale_boundary_task = None,
        pi_exact_resume_stale_task_target = map_option sb_task boundary,
        pi_stale_preemption_target = stale_preemption_of (ai_authoritative_stale_target ai),
        pi_legal_resume_begin_route = legal_resume_begin_route,
        pi_targetless_stale_has_concrete_public_target = True\<rparr>)"

subsection \<open>Repair-target selection\<close>

definition late_stage_missing_task_closure_baseline_bridge_supported :: "BranchRerecordingAssessment \<Rightarrow> bool" where
  "late_stage_missing_task_closure_baseline_bridge_supported assessment \<longleftrightarrow>
     ba_supported assessment \<or>
     ba_unsupported_reason assessment = Some MissingTaskClosureBaseline \<and> ba_changed_paths assessment = []"

definition missing_current_closure_allows_task_closure_baseline_route ::
  "PlanningObservations \<Rightarrow> ExecutionContext \<Rightarrow> PlanExecutionStatus \<Rightarrow> NextActionAuthorityInputs \<Rightarrow> string \<Rightarrow> bool" where
  "missing_current_closure_allows_task_closure_baseline_route ob context status ai review_state_status =
     (let f = current_task_closure_branch_route_facts_or_derive ob ai status;
          completed_plan_missing = (cf_branch_closure_missing f \<and> list_all ss_checked (ec_steps context) \<and>
            st_active_task status = None \<and> st_resume_task status = None \<and> st_blocking_step status = None)
      in if \<not> completed_plan_missing \<and>
            (review_state_status \<noteq> REVIEW_STATE_MISSING_CURRENT_CLOSURE \<or> branch_closure_recorded f) then True
         else if cf_non_branch_contributing f then False
         else is_some_and (ai_branch_rerecording_assessment ai) late_stage_missing_task_closure_baseline_bridge_supported)"

definition prior_task_current_closure_requires_repair :: "PlanExecutionStatus \<Rightarrow> bool" where
  "prior_task_current_closure_requires_repair status \<longleftrightarrow>
     list_ex task_boundary_current_closure_repair_reason_code (st_reason_codes status @ st_blocking_reason_codes status)"

definition completed_task_closure_preempts_execution_reentry ::
  "PlanningObservations \<Rightarrow> ExecutionContext \<Rightarrow> PlanExecutionStatus \<Rightarrow> NextActionAuthorityInputs \<Rightarrow> string \<Rightarrow> nat \<Rightarrow> bool" where
  "completed_task_closure_preempts_execution_reentry ob context status ai review_state_status task_number =
     (let completed_stale = (review_state_status = REVIEW_STATE_STALE_UNREVIEWED \<and>
            st_blocking_task status = Some task_number \<and> st_blocking_step status = None \<and>
            st_active_task status = None \<and> st_resume_task status = None \<and>
            \<not> prior_task_current_closure_requires_repair status \<and>
            is_some_and (ai_authoritative_stale_target ai)
              (\<lambda>t. sr_task t = task_number \<and> sr_task_closure_bridge_allowed t))
      in (review_state_status = ''clean'' \<or> completed_stale) \<and>
         branch_missing_and_task_has_no_current_closure
           (current_task_closure_branch_route_facts_or_derive ob ai status) status task_number \<and>
         context_closure_baseline_candidate_task context = Some task_number \<and>
         task_latest_attempts_are_completed context task_number \<and>
         (completed_stale \<or>
          missing_current_closure_allows_task_closure_baseline_route ob context status ai review_state_status))"

definition task_boundary_block_reason_code :: "PlanExecutionStatus \<Rightarrow> string option" where
  "task_boundary_block_reason_code status =
     (if st_blocking_task status = None \<or> st_blocking_step status \<noteq> None then None
      else List.find task_boundary_begin_block_reason_code (st_reason_codes status))"

definition task_boundary_blocking_task :: "PlanExecutionStatus \<Rightarrow> nat option" where
  "task_boundary_blocking_task status =
     Option.bind (opt_or (st_blocking_task status) (st_active_task status)) (\<lambda>task_number.
     Option.bind (opt_or (task_boundary_block_reason_code status)
       (List.find task_boundary_current_closure_boundary_reason_code (st_reason_codes status))) (\<lambda>code.
     then_some (task_boundary_current_closure_boundary_reason_code code) task_number))"

definition authoritative_stale_target_is_current_task_closure ::
  "PlanExecutionStatus \<Rightarrow> AuthoritativeStaleReentryTarget \<Rightarrow> CurrentTaskClosureBranchRouteFacts \<Rightarrow> bool" where
  "authoritative_stale_target_is_current_task_closure status target f \<longleftrightarrow>
     is_some_and (sr_source_record_id target)
       (\<lambda>record. stale_target_matches_current_task_closure f status (sr_task target) record)"

definition task_closure_baseline_candidate_can_preempt_stale_target ::
  "PlanExecutionStatus \<Rightarrow> nat \<Rightarrow> nat option \<Rightarrow> bool" where
  "task_closure_baseline_candidate_can_preempt_stale_target status candidate_task earliest_unresolved_stale_task =
     (case earliest_unresolved_stale_task of
        None \<Rightarrow> True
      | Some stale_task \<Rightarrow>
          if candidate_task > stale_task then False
          else if candidate_task = stale_task then True
          else st_blocking_step status = None \<and>
            list_ex (\<lambda>c. task_boundary_current_closure_missing_reason_code c \<or>
              task_boundary_closure_baseline_repair_candidate_reason_code c) (st_reason_codes status))"

definition repair_candidate_present ::
  "PlanningObservations \<Rightarrow> PlanExecutionStatus \<Rightarrow> nat \<Rightarrow> nat option \<Rightarrow> BranchRerecordingAssessment \<Rightarrow> bool" where
  "repair_candidate_present ob status task earliest_stale_task assessment \<longleftrightarrow>
     res_unwrap_or None (po_repair_candidate ob status task earliest_stale_task assessment) \<noteq> None"

definition task_closure_baseline_reentry_target_with_authority ::
  "PlanningObservations \<Rightarrow> ExecutionContext \<Rightarrow> PlanExecutionStatus \<Rightarrow> nat option \<Rightarrow> NextActionAuthorityInputs \<Rightarrow>
   ExecutionReentryTarget option" where
  "task_closure_baseline_reentry_target_with_authority ob context status earliest_stale_task ai =
     Option.bind (context_closure_baseline_candidate_task context) (\<lambda>task.
     Option.bind (ai_branch_rerecording_assessment ai) (\<lambda>assessment.
       then_some (repair_candidate_present ob status task earliest_stale_task assessment)
         (execution_reentry_target_new task None TaskClosureBaselineRepairCandidateSource
            TASK_BOUNDARY_REASON_TASK_CLOSURE_BASELINE_REPAIR_CANDIDATE)))"

text \<open>The seven sources of a re-entry target, in the order \<^verbatim>\<open>execution_reentry_target\<close> asks them.\<close>

definition baseline_candidate_reentry_target ::
  "PlanningObservations \<Rightarrow> ExecutionContext \<Rightarrow> PlanExecutionStatus \<Rightarrow> NextActionAuthorityInputs \<Rightarrow> nat option \<Rightarrow>
   ExecutionReentryTarget option" where
  "baseline_candidate_reentry_target ob context status ai earliest_stale_task =
     opt_filter (\<lambda>target.
         task_closure_baseline_candidate_can_preempt_stale_target status (et_task target) earliest_stale_task \<and>
         stale_target_allows_task_closure_bridge_for_task ai (et_task target))
       (task_closure_baseline_reentry_target_with_authority ob context status earliest_stale_task ai)"

definition task_boundary_reentry_target ::
  "PlanExecutionStatus \<Rightarrow> NextActionAuthorityInputs \<Rightarrow> CurrentTaskClosureBranchRouteFacts \<Rightarrow> ExecutionReentryTarget option" where
  "task_boundary_reentry_target status ai f =
     map_option (\<lambda>task.
       let matching = opt_filter (\<lambda>t. sr_task t = task \<and> \<not> authoritative_stale_target_is_current_task_closure status t f)
             (ai_authoritative_stale_target ai)
       in (execution_reentry_target_new task (opt_or (st_blocking_step status) (st_active_step status))
             (case matching of None \<Rightarrow> BlockingBeginGuard | Some t \<Rightarrow> FromAuthoritativeStaleTarget (sr_source t))
             ''task_boundary_blocking_task'')\<lparr>et_source_record_id := Option.bind matching sr_source_record_id\<rparr>)
       (task_boundary_blocking_task status)"

definition active_step_reentry_target ::
  "PlanExecutionStatus \<Rightarrow> ExecutionCommandRouteTarget option \<Rightarrow> ExecutionReentryTarget option" where
  "active_step_reentry_target status route_target =
     Option.bind (opt_zip (st_active_task status) (st_active_step status)) (\<lambda>(task, step).
       then_some (is_some_and route_target (\<lambda>c. route_target_is_complete c \<and> xt_task_number c = task \<and>
           xt_step_id c = Some step))
         (execution_reentry_target_new task (Some step) ActiveStep ''active_step_route_continuation''))"

definition resume_begin_reentry_target ::
  "PlanExecutionStatus \<Rightarrow> ExecutionCommandRouteTarget option \<Rightarrow> bool \<Rightarrow> ExecutionReentryTarget option" where
  "resume_begin_reentry_target status route_target legal_resume_begin_route =
     Option.bind (opt_zip (st_resume_task status) (st_resume_step status)) (\<lambda>(task, step).
       then_some (is_some_and route_target (\<lambda>c. route_target_is_begin c \<and> xt_task_number c = task \<and>
           xt_step_id c = Some step) \<and> legal_resume_begin_route)
         (execution_reentry_target_new task (Some step) ResumeStep ''resume_step_route_begin''))"

definition stale_reentry_target ::
  "PlanExecutionStatus \<Rightarrow> NextActionAuthorityInputs \<Rightarrow> CurrentTaskClosureBranchRouteFacts \<Rightarrow> ExecutionReentryTarget option" where
  "stale_reentry_target status ai f =
     map_option into_execution_reentry_target
       (opt_filter (\<lambda>t. \<not> authoritative_stale_target_is_current_task_closure status t f) (ai_authoritative_stale_target ai))"

definition exact_route_reentry_target ::
  "PlanExecutionStatus \<Rightarrow> NextActionAuthorityInputs \<Rightarrow> ExecutionCommandRouteTarget option \<Rightarrow> ExecutionReentryTarget option" where
  "exact_route_reentry_target status ai route_target =
     map_option (\<lambda>c. execution_reentry_target_new (xt_task_number c) (xt_step_id c) ExactRouteCommand ''exact_route_command'')
       (opt_filter (\<lambda>c. execution_command_route_target_has_authority status c (ai_route_repair_target_candidates ai))
          route_target)"

definition negative_review_reentry_target :: "PlanExecutionStatus \<Rightarrow> ExecutionReentryTarget option" where
  "negative_review_reentry_target status =
     (if list_ex task_boundary_negative_review_reason_code (st_reason_codes status)
      then map_option (\<lambda>task. execution_reentry_target_new task (st_blocking_step status)
             NegativeReviewOrVerificationResult TASK_BOUNDARY_REASON_PRIOR_TASK_REVIEW_NOT_GREEN) (st_blocking_task status)
      else None)"

definition negative_result_reentry_target ::
  "ExecutionContext \<Rightarrow> PlanExecutionStatus \<Rightarrow> NextActionAuthorityInputs \<Rightarrow> ExecutionReentryTarget option" where
  "negative_result_reentry_target context status ai =
     (if ai_derived_negative_result_reentry ai \<or>
         REASON_NEGATIVE_RESULT_REQUIRES_EXECUTION_REENTRY \<in> set (st_reason_codes status)
      then map_option (\<lambda>task. execution_reentry_target_new task (latest_attempted_step_for_task context task)
             NegativeReviewOrVerificationResult REASON_NEGATIVE_RESULT_REQUIRES_EXECUTION_REENTRY)
           (latest_checked_task context)
      else None)"

definition reentry_legal_resume_begin_route :: "PlanExecutionStatus \<Rightarrow> NextActionAuthorityInputs \<Rightarrow> bool" where
  "reentry_legal_resume_begin_route status ai \<longleftrightarrow>
     is_some_and (resolve_execution_command_route_target status) (\<lambda>c. route_target_is_begin c \<and>
       execution_command_route_target_has_authority status c (ai_route_repair_target_candidates ai))"

definition execution_reentry_target ::
  "PlanningObservations \<Rightarrow> ExecutionContext \<Rightarrow> PlanExecutionStatus \<Rightarrow> NextActionAuthorityInputs \<Rightarrow>
   ExecutionReentryTarget option" where
  "execution_reentry_target ob context status ai =
     (let route_target = resolve_execution_command_route_target status;
          legal = reentry_legal_resume_begin_route status ai;
          precedence = repair_precedence status ai legal;
          f = current_task_closure_branch_route_facts_or_derive ob ai status
      in opt_or (baseline_candidate_reentry_target ob context status ai (rs_earliest_stale_task precedence))
        (opt_or (task_boundary_reentry_target status ai f)
        (opt_or (active_step_reentry_target status route_target)
        (opt_or (map_option (\<lambda>b. execution_reentry_target_new (rb_task b) (Some (rb_step b)) ResumeStep
             ''resume_step_preempts_later_stale_target'') (rs_stale_preempted_by_resume precedence))
        (opt_or (resume_begin_reentry_target status route_target legal)
        (opt_or (stale_reentry_target status ai f)
        (opt_or (exact_route_reentry_target status ai route_target)
        (opt_or (negative_review_reentry_target status)
           (negative_result_reentry_target context status ai)))))))))"

subsection \<open>The task-closure baseline bridge\<close>

definition prior_missing_reason_present :: "PlanExecutionStatus \<Rightarrow> bool" where
  "prior_missing_reason_present status \<longleftrightarrow>
     TASK_BOUNDARY_REASON_PRIOR_TASK_CURRENT_CLOSURE_MISSING \<in> set (st_reason_codes status)"

definition prior_stale_reason_present :: "PlanExecutionStatus \<Rightarrow> bool" where
  "prior_stale_reason_present status \<longleftrightarrow>
     TASK_BOUNDARY_REASON_PRIOR_TASK_CURRENT_CLOSURE_STALE \<in> set (st_reason_codes status)"

definition baseline_bridge_candidate_reason_present :: "PlanExecutionStatus \<Rightarrow> bool" where
  "baseline_bridge_candidate_reason_present status \<longleftrightarrow>
     TASK_BOUNDARY_REASON_TASK_CLOSURE_BASELINE_REPAIR_CANDIDATE \<in> set (st_reason_codes status)"

definition baseline_bridge_reason_present :: "PlanExecutionStatus \<Rightarrow> bool" where
  "baseline_bridge_reason_present status \<longleftrightarrow>
     list_ex (\<lambda>c. c = TASK_BOUNDARY_REASON_PRIOR_TASK_CURRENT_CLOSURE_MISSING \<or>
       c = TASK_BOUNDARY_REASON_TASK_CLOSURE_BASELINE_REPAIR_CANDIDATE) (st_reason_codes status)"

definition baseline_bridge_missing_and_candidate_reasons_present :: "PlanExecutionStatus \<Rightarrow> bool" where
  "baseline_bridge_missing_and_candidate_reasons_present status \<longleftrightarrow>
     prior_missing_reason_present status \<and> baseline_bridge_candidate_reason_present status"

definition baseline_bridge_candidate_route_reason_present :: "PlanExecutionStatus \<Rightarrow> bool" where
  "baseline_bridge_candidate_route_reason_present status \<longleftrightarrow>
     list_ex (\<lambda>c. c = TASK_BOUNDARY_REASON_PRIOR_TASK_CURRENT_CLOSURE_MISSING \<or>
       c = TASK_BOUNDARY_REASON_TASK_CLOSURE_BASELINE_REPAIR_CANDIDATE \<or>
       c = TASK_BOUNDARY_REASON_CURRENT_TASK_CLOSURE_OVERLAY_RESTORE_REQUIRED \<or>
       c = ''task_closure_negative_result_overlay_restore_required'') (st_reason_codes status)"

definition task_closure_recording_harness :: "PlanExecutionStatus \<Rightarrow> bool" where
  "task_closure_recording_harness status \<longleftrightarrow>
     st_harness_phase status = Executing \<or> st_harness_phase status = ExecutionPreflight"

definition current_closure_scope_empty :: "PlanExecutionStatus \<Rightarrow> bool" where
  "current_closure_scope_empty status \<longleftrightarrow>
     st_current_branch_closure_id status = None \<and> st_current_task_closures status = []"

definition closure_baseline_routing_reason_codes_compatible :: "PlanExecutionStatus \<Rightarrow> bool" where
  "closure_baseline_routing_reason_codes_compatible status \<longleftrightarrow>
     \<not> list_ex (\<lambda>c. task_closure_recording_blocking_reason_code c \<or>
         task_boundary_current_closure_structural_reason_code c \<or> task_boundary_cycle_break_reason_code c)
       (st_reason_codes status)"

definition prior_task_closure_progress_edge_required :: "PlanExecutionStatus \<Rightarrow> bool" where
  "prior_task_closure_progress_edge_required status \<longleftrightarrow>
     list_ex task_boundary_progress_edge_reason_code (st_reason_codes status) \<and>
     \<not> list_ex task_boundary_current_closure_structural_reason_code (st_reason_codes status)"

definition task_closure_baseline_bridge_allows_task_review_pending_route_impl :: "PlanExecutionStatus \<Rightarrow> bool" where
  "task_closure_baseline_bridge_allows_task_review_pending_route_impl status \<longleftrightarrow>
     closure_baseline_routing_reason_codes_compatible status \<and> baseline_bridge_reason_present status"

definition task_closure_baseline_bridge_allows_blocking_step_route_impl :: "PlanExecutionStatus \<Rightarrow> nat \<Rightarrow> bool" where
  "task_closure_baseline_bridge_allows_blocking_step_route_impl status task_number \<longleftrightarrow>
     st_blocking_task status = Some task_number \<and> prior_missing_reason_present status \<and>
     st_review_state_status status = ''clean''"

definition task_closure_baseline_bridge_missing_current_task_recording_ready ::
  "PlanExecutionStatus \<Rightarrow> string \<Rightarrow> bool" where
  "task_closure_baseline_bridge_missing_current_task_recording_ready status review_state_status \<longleftrightarrow>
     review_state_status \<noteq> REVIEW_STATE_STALE_UNREVIEWED \<and> current_closure_scope_empty status \<and>
     prior_missing_reason_present status"

definition task_closure_baseline_bridge_external_review_ready_promotes_closure_recording ::
  "PlanExecutionStatus \<Rightarrow> bool" where
  "task_closure_baseline_bridge_external_review_ready_promotes_closure_recording status \<longleftrightarrow>
     closure_baseline_routing_reason_codes_compatible status \<and>
     \<not> list_ex task_boundary_pending_review_projection_reason_code (st_reason_codes status)"

definition task_closure_baseline_bridge_task_review_result_ready_promotes_recording ::
  "PlanExecutionStatus \<Rightarrow> bool \<Rightarrow> bool" where
  "task_closure_baseline_bridge_task_review_result_ready_promotes_recording status external_review_result_ready \<longleftrightarrow>
     external_review_result_ready \<and>
     task_closure_baseline_bridge_external_review_ready_promotes_closure_recording status"

definition baseline_bridge_candidate_present ::
  "PlanningObservations \<Rightarrow> PlanExecutionStatus \<Rightarrow> NextActionAuthorityInputs \<Rightarrow> nat \<Rightarrow> bool" where
  "baseline_bridge_candidate_present ob status ai task_number \<longleftrightarrow>
     is_some_and (ai_branch_rerecording_assessment ai) (\<lambda>assessment. repair_candidate_present ob status task_number
       (rs_earliest_stale_task (baseline_bridge_authority_precedence status ai)) assessment)"

definition task_closure_baseline_repair_candidate_for_route ::
  "PlanningObservations \<Rightarrow> PlanExecutionStatus \<Rightarrow> NextActionAuthorityInputs \<Rightarrow> nat \<Rightarrow> nat option \<Rightarrow>
   JsonFailure + TaskClosureBaselineRepairCandidate option" where
  "task_closure_baseline_repair_candidate_for_route ob status ai task earliest_stale_task =
     (case ai_branch_rerecording_assessment ai of
        None \<Rightarrow> Inr None
      | Some assessment \<Rightarrow> po_repair_candidate ob status task earliest_stale_task assessment)"

definition task_closure_baseline_bridge_ready_for_stale_target_for_route ::
  "PlanningObservations \<Rightarrow> PlanExecutionStatus \<Rightarrow> NextActionAuthorityInputs \<Rightarrow> nat \<Rightarrow> nat option \<Rightarrow> JsonFailure + bool" where
  "task_closure_baseline_bridge_ready_for_stale_target_for_route ob status ai task earliest_stale_task =
     (case ai_branch_rerecording_assessment ai of
        None \<Rightarrow> Inr False
      | Some assessment \<Rightarrow> po_bridge_ready_for_stale_target ob status task earliest_stale_task assessment)"

definition non_current_stale_target_can_yield_to_missing_baseline :: "PlanExecutionStatus \<Rightarrow> nat \<Rightarrow> bool" where
  "non_current_stale_target_can_yield_to_missing_baseline status task \<longleftrightarrow>
     st_blocking_task status = Some task \<and> st_blocking_step status = None \<and> current_closure_scope_empty status \<and>
     baseline_bridge_missing_and_candidate_reasons_present status"

definition missing_baseline_bridge_candidate_for_stale_target_with_authority ::
  "PlanningObservations \<Rightarrow> PlanExecutionStatus \<Rightarrow> nat \<Rightarrow> nat option \<Rightarrow> BranchRerecordingAssessment \<Rightarrow> JsonFailure + bool" where
  "missing_baseline_bridge_candidate_for_stale_target_with_authority ob status task earliest_stale_task assessment =
     (if \<not> non_current_stale_target_can_yield_to_missing_baseline status task then Inr False
      else res_bind (po_repair_candidate ob status task earliest_stale_task assessment) (\<lambda>c. Inr (c \<noteq> None)))"

definition missing_baseline_bridge_candidate_ready_for_stale_target_with_route_authority ::
  "PlanningObservations \<Rightarrow> PlanExecutionStatus \<Rightarrow> NextActionAuthorityInputs \<Rightarrow> nat \<Rightarrow> nat option \<Rightarrow> bool" where
  "missing_baseline_bridge_candidate_ready_for_stale_target_with_route_authority ob status ai task earliest_stale_task \<longleftrightarrow>
     is_some_and (ai_branch_rerecording_assessment ai) (\<lambda>assessment. res_unwrap_or False
       (missing_baseline_bridge_candidate_for_stale_target_with_authority ob status task earliest_stale_task assessment))"

definition bridge_ready_signals ::
  "PlanExecutionStatus \<Rightarrow> ResumeStalePrecedence \<Rightarrow> string \<Rightarrow> nat \<Rightarrow> TaskClosureBaselineRepairCandidate \<Rightarrow> bool \<Rightarrow> bool" where
  "bridge_ready_signals status precedence review_state_status task_number candidate reducer_bridge_ready \<longleftrightarrow>
     reducer_bridge_ready \<or>
     closure_baseline_routing_reason_codes_compatible status \<and> prior_missing_reason_present status \<or>
     closure_baseline_routing_reason_codes_compatible status \<and> rs_earliest_stale_task precedence = None \<and>
       st_execution_reentry_target_source status \<noteq> Some CLOSURE_GRAPH_STALE_TARGET_SOURCE_TOKEN \<and>
       baseline_bridge_candidate_reason_present status \<or>
     st_blocking_task status = Some task_number \<and>
       (review_state_status = REVIEW_STATE_STALE_UNREVIEWED \<or> st_stale_unreviewed_closures status \<noteq> []) \<and>
       is_some_and (cand_dispatch_id candidate) (\<lambda>dispatch_id. trim dispatch_id \<noteq> [])"

definition task_closure_baseline_bridge_ready_for_task ::
  "PlanningObservations \<Rightarrow> PlanExecutionStatus \<Rightarrow> NextActionAuthorityInputs \<Rightarrow> string \<Rightarrow> nat \<Rightarrow> bool" where
  "task_closure_baseline_bridge_ready_for_task ob status ai review_state_status task_number \<longleftrightarrow>
     (let precedence = baseline_bridge_authority_precedence status ai;
          reducer_bridge_ready = res_unwrap_or False (task_closure_baseline_bridge_ready_for_stale_target_for_route ob
            status ai task_number (rs_earliest_stale_task precedence));
          candidate = res_unwrap_or None (task_closure_baseline_repair_candidate_for_route ob status ai task_number
            (rs_earliest_stale_task precedence))
      in if review_state_status = REVIEW_STATE_STALE_UNREVIEWED then
           reducer_bridge_ready \<and> stale_target_allows_task_closure_bridge_for_task ai task_number \<or>
           candidate \<noteq> None \<and> non_current_stale_target_can_yield_to_missing_baseline status task_number
         else case candidate of
           None \<Rightarrow> False
         | Some candidate \<Rightarrow>
             (review_state_status = ''clean'' \<and> task_closure_recording_harness status \<or>
              review_state_status = REVIEW_STATE_MISSING_CURRENT_CLOSURE) \<and>
             bridge_ready_signals status precedence review_state_status task_number candidate reducer_bridge_ready)"

definition task_closure_baseline_bridge_route_task ::
  "PlanningObservations \<Rightarrow> PlanExecutionStatus \<Rightarrow> NextActionAuthorityInputs \<Rightarrow> JsonFailure + nat option" where
  "task_closure_baseline_bridge_route_task ob status ai =
     (case st_blocking_task status of
        None \<Rightarrow> Inr None
      | Some task_number \<Rightarrow>
          if \<not> (current_closure_scope_empty status \<and> st_blocking_step status = None \<and> st_active_task status = None \<and>
                st_resume_task status = None \<and> baseline_bridge_missing_and_candidate_reasons_present status)
          then Inr None
          else res_bind (task_closure_baseline_repair_candidate_for_route ob status ai task_number
              (rs_earliest_stale_task (baseline_bridge_authority_precedence status ai)))
            (\<lambda>candidate. Inr (if candidate = None then None else Some task_number)))"

definition task_closure_baseline_bridge_reentry_target ::
  "PlanningObservations \<Rightarrow> ExecutionContext \<Rightarrow> PlanExecutionStatus \<Rightarrow> NextActionAuthorityInputs \<Rightarrow>
   ExecutionReentryTarget option" where
  "task_closure_baseline_bridge_reentry_target ob context status ai =
     baseline_candidate_reentry_target ob context status ai
       (rs_earliest_stale_task (baseline_bridge_authority_precedence status ai))"

definition task_closure_baseline_bridge_persisted_close_current_task_route_task ::
  "ExecutionContext \<Rightarrow> PlanExecutionStatus \<Rightarrow> NextActionAuthorityInputs \<Rightarrow> string option \<Rightarrow> nat option" where
  "task_closure_baseline_bridge_persisted_close_current_task_route_task context status ai persisted_follow_up =
     (if persisted_follow_up \<noteq> Some FOLLOW_UP_CLOSE_CURRENT_TASK \<or> \<not> current_closure_scope_empty status then None
      else opt_filter (stale_target_allows_task_closure_bridge_for_task ai)
        (context_closure_baseline_candidate_task context))"

definition task_closure_baseline_bridge_open_step_preempted_by_closure_recording ::
  "PlanningObservations \<Rightarrow> ExecutionContext \<Rightarrow> PlanExecutionStatus \<Rightarrow> NextActionAuthorityInputs \<Rightarrow> string \<Rightarrow> nat \<Rightarrow> bool" where
  "task_closure_baseline_bridge_open_step_preempted_by_closure_recording ob context status ai review_state_status
     task_number \<longleftrightarrow>
     missing_current_closure_allows_task_closure_baseline_route ob context status ai review_state_status \<and>
     prior_missing_reason_present status \<and>
     task_closure_baseline_bridge_ready_for_task ob status ai review_state_status task_number"

definition task_closure_baseline_bridge_task_review_pending_route_task ::
  "PlanningObservations \<Rightarrow> ExecutionContext \<Rightarrow> PlanExecutionStatus \<Rightarrow> NextActionAuthorityInputs \<Rightarrow> string \<Rightarrow> nat \<Rightarrow>
   nat option" where
  "task_closure_baseline_bridge_task_review_pending_route_task ob context status ai review_state_status task_number =
     then_some (task_closure_baseline_bridge_allows_task_review_pending_route_impl status \<and>
       missing_current_closure_allows_task_closure_baseline_route ob context status ai review_state_status \<and>
       baseline_bridge_candidate_present ob status ai task_number) task_number"

definition task_closure_baseline_bridge_blocking_task_route_ready ::
  "PlanningObservations \<Rightarrow> ExecutionContext \<Rightarrow> PlanExecutionStatus \<Rightarrow> NextActionAuthorityInputs \<Rightarrow> string \<Rightarrow> nat \<Rightarrow> bool" where
  "task_closure_baseline_bridge_blocking_task_route_ready ob context status ai review_state_status task_number \<longleftrightarrow>
     is_none_or (st_blocking_step status)
       (\<lambda>_. task_closure_baseline_bridge_allows_blocking_step_route_impl status task_number) \<and>
     task_closure_recording_harness status \<and>
     missing_current_closure_allows_task_closure_baseline_route ob context status ai review_state_status \<and>
     (review_state_status \<noteq> REVIEW_STATE_STALE_UNREVIEWED \<or>
      task_closure_baseline_bridge_ready_for_task ob status ai review_state_status task_number)"

definition task_closure_baseline_bridge_blocking_task_route_task ::
  "PlanningObservations \<Rightarrow> ExecutionContext \<Rightarrow> PlanExecutionStatus \<Rightarrow> NextActionAuthorityInputs \<Rightarrow> string \<Rightarrow> nat option" where
  "task_closure_baseline_bridge_blocking_task_route_task ob context status ai review_state_status =
     opt_filter (\<lambda>task_number.
       task_closure_baseline_bridge_blocking_task_route_ready ob context status ai review_state_status task_number \<and>
       baseline_bridge_missing_and_candidate_reasons_present status \<and>
       baseline_bridge_candidate_present ob status ai task_number) (st_blocking_task status)"

definition task_closure_baseline_bridge_external_review_route_task ::
  "PlanningObservations \<Rightarrow> ExecutionContext \<Rightarrow> PlanExecutionStatus \<Rightarrow> NextActionAuthorityInputs \<Rightarrow> string \<Rightarrow> bool \<Rightarrow>
   nat option" where
  "task_closure_baseline_bridge_external_review_route_task ob context status ai review_state_status
     external_review_result_ready =
     opt_filter (\<lambda>task_number.
       task_closure_baseline_bridge_task_review_result_ready_promotes_recording status external_review_result_ready \<and>
       is_none_or (st_blocking_step status)
         (\<lambda>_. task_closure_baseline_bridge_allows_blocking_step_route_impl status task_number) \<and>
       task_closure_recording_harness status \<and> baseline_bridge_missing_and_candidate_reasons_present status \<and>
       baseline_bridge_candidate_present ob status ai task_number \<and>
       missing_current_closure_allows_task_closure_baseline_route ob context status ai review_state_status)
       (st_blocking_task status)"

definition task_closure_baseline_bridge_candidate_route_task ::
  "PlanningObservations \<Rightarrow> ExecutionContext \<Rightarrow> PlanExecutionStatus \<Rightarrow> NextActionAuthorityInputs \<Rightarrow> string \<Rightarrow> nat option" where
  "task_closure_baseline_bridge_candidate_route_task ob context status ai review_state_status =
     (if st_blocking_task status \<noteq> None \<or> st_blocking_step status \<noteq> None \<or> \<not> task_closure_recording_harness status
      then None
      else Option.bind (context_closure_baseline_candidate_task context) (\<lambda>candidate_task.
        if \<not> baseline_bridge_candidate_present ob status ai candidate_task \<or>
           \<not> missing_current_closure_allows_task_closure_baseline_route ob context status ai review_state_status
        then None
        else then_some (baseline_bridge_candidate_route_reason_present status \<or>
            st_active_task status = None \<and> st_active_step status = None \<and> st_resume_task status = None \<and>
            st_resume_step status = None \<and> review_state_status = ''clean'' \<and>
            closure_baseline_routing_reason_codes_compatible status) candidate_task))"

definition task_closure_baseline_bridge_late_stage_missing_current_closure_route_task ::
  "PlanningObservations \<Rightarrow> ExecutionContext \<Rightarrow> PlanExecutionStatus \<Rightarrow> NextActionAuthorityInputs \<Rightarrow> string \<Rightarrow> nat option" where
  "task_closure_baseline_bridge_late_stage_missing_current_closure_route_task ob context status ai review_state_status =
     (let allows = missing_current_closure_allows_task_closure_baseline_route ob context status ai review_state_status
      in if \<not> current_closure_scope_empty status then None
         else opt_or (opt_filter (\<lambda>_. allows) (st_blocking_task status))
           (opt_filter (\<lambda>candidate_task. prior_missing_reason_present status \<or>
               baseline_bridge_candidate_present ob status ai candidate_task \<and> allows)
             (context_closure_baseline_candidate_task context)))"

definition task_closure_baseline_bridge_missing_baseline_unsupported_route_task ::
  "PlanningObservations \<Rightarrow> ExecutionContext \<Rightarrow> PlanExecutionStatus \<Rightarrow> NextActionAuthorityInputs \<Rightarrow>
   BranchRerecordingAssessment \<Rightarrow> nat option" where
  "task_closure_baseline_bridge_missing_baseline_unsupported_route_task ob context status ai assessment =
     (if \<not> late_stage_missing_task_closure_baseline_bridge_supported assessment then None
      else opt_filter (baseline_bridge_candidate_present ob status ai) (context_closure_baseline_candidate_task context))"

definition task_closure_baseline_bridge_allows_stale_boundary_route ::
  "PlanningObservations \<Rightarrow> ExecutionContext \<Rightarrow> PlanExecutionStatus \<Rightarrow> NextActionAuthorityInputs \<Rightarrow> string \<Rightarrow> nat \<Rightarrow> bool" where
  "task_closure_baseline_bridge_allows_stale_boundary_route ob context status ai review_state_status task_number \<longleftrightarrow>
     (let earliest = rs_earliest_stale_task (baseline_bridge_authority_precedence status ai)
      in (res_unwrap_or False (task_closure_baseline_bridge_ready_for_stale_target_for_route ob status ai task_number earliest) \<and>
          stale_target_allows_task_closure_bridge_for_task ai task_number \<or>
          missing_baseline_bridge_candidate_ready_for_stale_target_with_route_authority ob status ai task_number earliest) \<and>
         missing_current_closure_allows_task_closure_baseline_route ob context status ai review_state_status \<and>
         task_closure_baseline_bridge_ready_for_task ob status ai review_state_status task_number)"

definition task_closure_baseline_bridge_stale_boundary_route_ready ::
  "PlanningObservations \<Rightarrow> ExecutionContext \<Rightarrow> PlanExecutionStatus \<Rightarrow> NextActionAuthorityInputs \<Rightarrow> string \<Rightarrow> nat \<Rightarrow> bool" where
  "task_closure_baseline_bridge_stale_boundary_route_ready ob context status ai review_state_status stale_task \<longleftrightarrow>
     task_scope_structural_review_state_reason status = None \<and>
     (is_some_and (task_closure_baseline_bridge_reentry_target ob context status ai)
        (\<lambda>target. et_task target = stale_task \<and> review_state_status = ''clean'' \<and>
           st_current_task_closures status = [] \<and> \<not> prior_stale_reason_present status) \<or>
      task_closure_baseline_bridge_missing_current_task_recording_ready status review_state_status \<or>
      task_closure_baseline_bridge_allows_stale_boundary_route ob context status ai review_state_status stale_task)"

definition task_closure_baseline_bridge_target_task_with_authority ::
  "PlanningObservations \<Rightarrow> ExecutionContext \<Rightarrow> PlanExecutionStatus \<Rightarrow> ResumeStalePrecedence \<Rightarrow> bool \<Rightarrow>
   BranchRerecordingAssessment \<Rightarrow> JsonFailure + nat option" where
  "task_closure_baseline_bridge_target_task_with_authority ob context status precedence
     earliest_stale_task_bridge_allowed assessment =
     (let candidate = context_closure_baseline_candidate_task context;
          earliest = rs_earliest_stale_task precedence
      in if st_review_state_status status \<noteq> REVIEW_STATE_STALE_UNREVIEWED \<and> st_stale_unreviewed_closures status = [] \<and>
            candidate = None then Inr None
         else case (if is_some_and (opt_zip earliest candidate) (\<lambda>(_, candidate_task).
               task_closure_baseline_candidate_can_preempt_stale_target status candidate_task earliest)
             then candidate
             else opt_or earliest (opt_or (st_blocking_task status) (opt_or (st_active_task status) candidate))) of
           None \<Rightarrow> Inr None
         | Some stale_task \<Rightarrow>
             if earliest = Some stale_task \<and> \<not> earliest_stale_task_bridge_allowed
             then res_bind (missing_baseline_bridge_candidate_for_stale_target_with_authority ob status stale_task
                 earliest assessment) (\<lambda>ready. Inr (then_some ready stale_task))
             else res_bind (po_bridge_ready_for_stale_target ob status stale_task earliest assessment)
                 (\<lambda>ready. Inr (if ready then Some stale_task else None)))"

definition task_closure_baseline_bridge_repair_review_state_route ::
  "PlanningObservations \<Rightarrow> ExecutionContext \<Rightarrow> PlanExecutionStatus \<Rightarrow> NextActionAuthorityInputs \<Rightarrow> string \<Rightarrow>
   nat option option" where
  "task_closure_baseline_bridge_repair_review_state_route ob context status ai review_state_status =
     (let bridge_target = Option.bind (ai_branch_rerecording_assessment ai) (\<lambda>assessment. res_unwrap_or None
            (task_closure_baseline_bridge_target_task_with_authority ob context status
              (baseline_bridge_authority_precedence status ai)
              (is_none_or (ai_authoritative_stale_target ai) sr_task_closure_bridge_allowed) assessment))
      in case bridge_target of
           Some target_task \<Rightarrow> Some (Some target_task)
         | None \<Rightarrow> then_some (review_state_status = ''clean'' \<and> st_current_task_closures status \<noteq> [] \<and>
             baseline_bridge_missing_and_candidate_reasons_present status \<and>
             task_scope_review_state_repair_reason status = None \<and>
             task_scope_structural_review_state_reason status = None \<and>
             closure_baseline_routing_reason_codes_compatible status) None)"

definition task_closure_baseline_bridge_route_ready_for_status ::
  "PlanningObservations \<Rightarrow> PlanExecutionStatus \<Rightarrow> NextActionAuthorityInputs \<Rightarrow> AuthoritativeStaleTarget option \<Rightarrow> bool" where
  "task_closure_baseline_bridge_route_ready_for_status ob status ai stale_target \<longleftrightarrow>
     task_scope_review_state_repair_reason status = None \<and> task_scope_structural_review_state_reason status = None \<and>
     is_some_and (st_blocking_task status) (\<lambda>task_number.
       let earliest = Option.bind stale_target tg_task;
           missing_baseline = missing_baseline_bridge_candidate_ready_for_stale_target_with_route_authority ob status ai
             task_number earliest
       in if \<not> authoritative_stale_target_allows_task_closure_bridge stale_target task_number
          then missing_baseline
          else res_unwrap_or False (task_closure_baseline_bridge_ready_for_stale_target_for_route ob status ai
              task_number earliest) \<or> missing_baseline)"

record ExecutionReentryTaskClosureBridgeInputs =
  eb_phase_detail :: string
  eb_seed_blocking_task :: "nat option"
  eb_command_context_task :: "nat option"
  eb_earliest_task_stale_target :: "AuthoritativeStaleTarget option"
  eb_close_current_task_repair_targets :: "PublicRepairTarget list"
  eb_task_review_dispatch_id_present :: bool
  eb_baseline_bridge_route_ready_for_blocking_task :: bool

definition close_current_task_public_repair_target_candidate_present :: "PublicRepairTarget list \<Rightarrow> nat \<Rightarrow> bool" where
  "close_current_task_public_repair_target_candidate_present targets task_number \<longleftrightarrow>
     list_ex (\<lambda>t. matches_public_mutation_token CloseCurrentTaskCommand (rt_command_kind t) \<and>
       rt_task t = Some task_number) targets"

definition reducer_dispatch_bridge_ready ::
  "ExecutionContext \<Rightarrow> AuthoritativeStaleTarget option \<Rightarrow> bool \<Rightarrow> nat \<Rightarrow> bool" where
  "reducer_dispatch_bridge_ready context stale_target task_review_dispatch_id_present task_number \<longleftrightarrow>
     Option.bind stale_target tg_task = Some task_number \<and>
     authoritative_stale_target_allows_task_closure_bridge stale_target task_number \<and>
     task_review_dispatch_id_present \<and>
     list_all ss_checked (filter (\<lambda>s. ss_task_number s = task_number) (ec_steps context))"

definition execution_reentry_task_closure_bridge_route_ready ::
  "ExecutionContext \<Rightarrow> ExecutionReentryTaskClosureBridgeInputs \<Rightarrow> nat \<Rightarrow> bool" where
  "execution_reentry_task_closure_bridge_route_ready context i task_number \<longleftrightarrow>
     eb_baseline_bridge_route_ready_for_blocking_task i \<or>
     authoritative_stale_target_allows_task_closure_bridge (eb_earliest_task_stale_target i) task_number \<and>
     close_current_task_public_repair_target_candidate_present (eb_close_current_task_repair_targets i) task_number \<or>
     reducer_dispatch_bridge_ready context (eb_earliest_task_stale_target i) (eb_task_review_dispatch_id_present i)
       task_number"

definition execution_reentry_task_closure_bridge_route_task ::
  "ExecutionContext \<Rightarrow> PlanExecutionStatus \<Rightarrow> ExecutionReentryTaskClosureBridgeInputs \<Rightarrow> nat option" where
  "execution_reentry_task_closure_bridge_route_task context status i =
     (if eb_phase_detail i \<noteq> DETAIL_EXECUTION_REENTRY_REQUIRED then None
      else opt_or
        (opt_filter (\<lambda>task_number. \<not> status_has_current_task_closure_for_task status task_number \<and>
             execution_reentry_task_closure_bridge_route_ready context i task_number)
           (opt_or (st_blocking_task status) (opt_or (eb_seed_blocking_task i) (eb_command_context_task i))))
        (if \<not> list_ex task_boundary_current_closure_stale_reason_code (st_reason_codes status) \<and>
            prior_task_closure_progress_edge_required status
         then opt_filter (authoritative_stale_target_allows_task_closure_bridge (eb_earliest_task_stale_target i))
           (st_blocking_task status)
         else None))"

subsection \<open>The plan of a review-state repair\<close>

datatype RepairBlockerKind =
    TaskScopeStructural
  | UnrecoverableTaskScope
  | TaskClosureBaselineBridge
  | StaleUnreviewedBlocker
  | MissingDerivedTaskScope
  | BranchScopeStructural
  | MissingDerivedBranchScope

record RepairPlanTargetInputs =
  ri_context :: ExecutionContext
  ri_post_repair_blocking_task :: "nat option"
  ri_post_repair_task_number :: "nat option"
  ri_post_repair_step_number :: "nat option"
  ri_post_repair_phase_detail :: string
  ri_post_repair_review_state_status :: string
  ri_task_closure_baseline_bridge_target :: "nat option"
  ri_closure_graph_stale_target :: "nat option"
  ri_branch_stale_source_task :: "nat option"
  ri_status_target_task :: "nat option"
  ri_task_scope_structural_detected :: bool
  ri_task_scope_structural_tasks :: "nat list"
  ri_task_scope_structural_scope_keys :: "string list"
  ri_stale_tasks :: "nat list"
  ri_unrecoverable_task_scope_task :: "nat option"
  ri_stale_unreviewed_execution_reentry_required :: bool
  ri_missing_derived_task_scope_repair_planned :: bool
  ri_missing_derived_branch_scope_repair_planned :: bool
  ri_stale_unreviewed_closures_present :: bool
  ri_task_scope_structural_reason_present :: bool
  ri_branch_scope_structural_reason_present :: bool
  ri_task_scope_structural_blocking_record_present :: bool
  ri_branch_rerecording_supported :: bool
  ri_empty_lineage_branch_reroute_repairable :: bool
  ri_missing_derived_overlays_empty :: bool

record RepairPlanTargetDecision =
  rp_blocker_kind :: "RepairBlockerKind option"
  rp_target_task :: "nat option"
  rp_target_step :: "nat option"
  rp_stale_unreviewed_branch_reroute_available :: bool
  rp_exact_reducer_stale_reentry_target :: bool

definition repair_target_step ::
  "ExecutionContext \<Rightarrow> nat option \<Rightarrow> nat option \<Rightarrow> nat option \<Rightarrow> nat option" where
  "repair_target_step context target_task shared_target_task shared_target_step =
     Option.bind target_task (\<lambda>task.
       if shared_target_task = Some task
       then opt_or shared_target_step (latest_attempted_step_for_task context task)
       else latest_attempted_step_for_task context task)"

definition structural_first_task :: "nat list \<Rightarrow> string list \<Rightarrow> nat option" where
  "structural_first_task structural_tasks structural_scope_keys =
     opt_or (select_first_task_number structural_tasks) (select_first_task_number_from_scope_keys structural_scope_keys)"

fun target_task_for_blocker ::
  "RepairBlockerKind option \<Rightarrow> nat option \<Rightarrow> nat option \<Rightarrow> nat list \<Rightarrow> string list \<Rightarrow> nat list \<Rightarrow> nat option \<Rightarrow> nat option" where
  "target_task_for_blocker (Some TaskScopeStructural) shared status_target tasks keys stale unrecoverable =
     opt_or shared (opt_or status_target (structural_first_task tasks keys))"
| "target_task_for_blocker (Some UnrecoverableTaskScope) shared status_target tasks keys stale unrecoverable =
     opt_or unrecoverable (opt_or status_target shared)"
| "target_task_for_blocker (Some TaskClosureBaselineBridge) shared status_target tasks keys stale unrecoverable =
     opt_or shared (opt_or status_target (select_first_task_number stale))"
| "target_task_for_blocker (Some StaleUnreviewedBlocker) shared status_target tasks keys stale unrecoverable =
     opt_or (select_first_task_number stale) (opt_or status_target shared)"
| "target_task_for_blocker (Some MissingDerivedTaskScope) shared status_target tasks keys stale unrecoverable =
     opt_or (select_first_task_number stale) (opt_or (structural_first_task tasks keys)
       (opt_or unrecoverable (opt_or status_target shared)))"
| "target_task_for_blocker (Some BranchScopeStructural) shared status_target tasks keys stale unrecoverable = shared"
| "target_task_for_blocker (Some MissingDerivedBranchScope) shared status_target tasks keys stale unrecoverable = shared"
| "target_task_for_blocker None shared status_target tasks keys stale unrecoverable = shared"

definition shared_target_task :: "RepairPlanTargetInputs \<Rightarrow> nat option" where
  "shared_target_task i = opt_or (ri_post_repair_blocking_task i) (ri_post_repair_task_number i)"

definition structural_target_task :: "RepairPlanTargetInputs \<Rightarrow> nat option" where
  "structural_target_task i = opt_or (shared_target_task i) (opt_or (ri_status_target_task i)
     (structural_first_task (ri_task_scope_structural_tasks i) (ri_task_scope_structural_scope_keys i)))"

definition plan_stale_target_task :: "RepairPlanTargetInputs \<Rightarrow> nat option" where
  "plan_stale_target_task i = select_repair_plan_stale_target_task (ri_stale_tasks i)
     (ri_closure_graph_stale_target i) (ri_branch_stale_source_task i)"

definition stale_boundary_preempts_structural :: "RepairPlanTargetInputs \<Rightarrow> bool" where
  "stale_boundary_preempts_structural i \<longleftrightarrow>
     ri_stale_unreviewed_execution_reentry_required i \<and> ri_task_scope_structural_detected i \<and>
     is_some_and (plan_stale_target_task i) (\<lambda>stale_task. is_none_or (structural_target_task i)
       (\<lambda>structural_task. stale_task \<le> structural_task))"

definition exact_reducer_stale_reentry_target :: "RepairPlanTargetInputs \<Rightarrow> bool" where
  "exact_reducer_stale_reentry_target i \<longleftrightarrow>
     is_some_and (ri_closure_graph_stale_target i) (\<lambda>stale_task. shared_target_task i = Some stale_task) \<and>
     ri_post_repair_step_number i \<noteq> None \<and> ri_post_repair_phase_detail i = DETAIL_EXECUTION_REENTRY_REQUIRED"

definition reducer_stale_reentry_target :: "RepairPlanTargetInputs \<Rightarrow> bool" where
  "reducer_stale_reentry_target i \<longleftrightarrow>
     ri_closure_graph_stale_target i \<noteq> None \<and> ri_post_repair_phase_detail i = DETAIL_EXECUTION_REENTRY_REQUIRED"

definition repair_blocker_kind :: "RepairPlanTargetInputs \<Rightarrow> RepairBlockerKind option" where
  "repair_blocker_kind i =
     (if stale_boundary_preempts_structural i then Some StaleUnreviewedBlocker
      else if ri_task_scope_structural_detected i then Some TaskScopeStructural
      else if ri_unrecoverable_task_scope_task i \<noteq> None then Some UnrecoverableTaskScope
      else if ri_task_closure_baseline_bridge_target i \<noteq> None then Some TaskClosureBaselineBridge
      else if exact_reducer_stale_reentry_target i \<or> reducer_stale_reentry_target i \<or>
              ri_stale_unreviewed_execution_reentry_required i then Some StaleUnreviewedBlocker
      else if ri_missing_derived_task_scope_repair_planned i then Some MissingDerivedTaskScope
      else if ri_branch_scope_structural_reason_present i then Some BranchScopeStructural
      else if ri_missing_derived_branch_scope_repair_planned i then Some MissingDerivedBranchScope
      else None)"

definition plan_branch_reroute_available :: "RepairPlanTargetInputs \<Rightarrow> RepairBlockerKind option \<Rightarrow> bool" where
  "plan_branch_reroute_available i blocker_kind \<longleftrightarrow>
     (ri_stale_unreviewed_closures_present i \<or> ri_post_repair_review_state_status i = REVIEW_STATE_STALE_UNREVIEWED) \<and>
     (ri_branch_rerecording_supported i \<or> ri_empty_lineage_branch_reroute_repairable i) \<and>
     \<not> (ri_closure_graph_stale_target i \<noteq> None \<or> ri_stale_tasks i \<noteq> []) \<and>
     blocker_kind \<notin> {Some TaskScopeStructural, Some UnrecoverableTaskScope, Some TaskClosureBaselineBridge,
       Some MissingDerivedTaskScope} \<and>
     ri_status_target_task i = None \<and> \<not> ri_task_scope_structural_reason_present i \<and>
     \<not> ri_task_scope_structural_blocking_record_present i \<and> \<not> ri_branch_scope_structural_reason_present i \<and>
     ri_missing_derived_overlays_empty i"

definition repair_plan_target_decision :: "RepairPlanTargetInputs \<Rightarrow> RepairPlanTargetDecision" where
  "repair_plan_target_decision i =
     (let blocker_kind = repair_blocker_kind i;
          named = target_task_for_blocker blocker_kind (shared_target_task i) (ri_status_target_task i)
            (ri_task_scope_structural_tasks i) (ri_task_scope_structural_scope_keys i) (ri_stale_tasks i)
            (ri_unrecoverable_task_scope_task i);
          bridged = (if blocker_kind = Some TaskClosureBaselineBridge
            then opt_or (ri_task_closure_baseline_bridge_target i) named else named);
          stale = (if blocker_kind = Some StaleUnreviewedBlocker \<and> bridged = None
            then plan_stale_target_task i else bridged);
          reroute = plan_branch_reroute_available i blocker_kind;
          target_task = (if reroute \<and> blocker_kind = Some StaleUnreviewedBlocker then None else stale)
      in \<lparr>rp_blocker_kind = blocker_kind, rp_target_task = target_task,
          rp_target_step = repair_target_step (ri_context i) target_task (shared_target_task i)
            (ri_post_repair_step_number i),
          rp_stale_unreviewed_branch_reroute_available = reroute,
          rp_exact_reducer_stale_reentry_target = exact_reducer_stale_reentry_target i\<rparr>)"

definition repair_review_state_follow_up_routes_to_execution_reentry :: "RepairBlockerKind option \<Rightarrow> bool \<Rightarrow> bool" where
  "repair_review_state_follow_up_routes_to_execution_reentry blocker_kind branch_reroute_available \<longleftrightarrow>
     blocker_kind \<in> {Some TaskScopeStructural, Some UnrecoverableTaskScope, Some MissingDerivedTaskScope} \<or>
     blocker_kind = Some StaleUnreviewedBlocker \<and> \<not> branch_reroute_available"

definition repair_plan_required_follow_up_decision ::
  "RepairBlockerKind option \<Rightarrow> string option \<Rightarrow> bool \<Rightarrow> string option" where
  "repair_plan_required_follow_up_decision blocker_kind shared_required_follow_up branch_reroute_available =
     (if blocker_kind = Some TaskClosureBaselineBridge then None
      else if branch_reroute_available then Some FOLLOW_UP_ADVANCE_LATE_STAGE
      else map_option (\<lambda>required.
        if required = FOLLOW_UP_REPAIR_REVIEW_STATE \<and>
           repair_review_state_follow_up_routes_to_execution_reentry blocker_kind branch_reroute_available
        then FOLLOW_UP_EXECUTION_REENTRY else required) shared_required_follow_up)"

subsection \<open>What follows a repair\<close>

datatype ReviewStateRepairReroute = NoReroute | ExecutionReentryReroute | RecordBranchClosureReroute

record RepairFollowUpDecision =
  fd_execution_reentry_target :: "ExecutionReentryTarget option"
  fd_repair_reroute :: ReviewStateRepairReroute

definition requires_execution_reentry :: "RepairFollowUpDecision \<Rightarrow> bool" where
  "requires_execution_reentry d \<longleftrightarrow>
     fd_repair_reroute d = ExecutionReentryReroute \<and> fd_execution_reentry_target d \<noteq> None"

definition requires_planning_reentry :: "RepairFollowUpDecision \<Rightarrow> bool" where
  "requires_planning_reentry d \<longleftrightarrow>
     fd_repair_reroute d = ExecutionReentryReroute \<and> fd_execution_reentry_target d = None"

definition repair_follow_up_decision ::
  "PlanningObservations \<Rightarrow> ExecutionContext \<Rightarrow> PlanExecutionStatus \<Rightarrow> NextActionAuthorityInputs \<Rightarrow>
   ReviewStateRepairReroute \<Rightarrow> RepairFollowUpDecision" where
  "repair_follow_up_decision ob context status ai reroute =
     \<lparr>fd_execution_reentry_target = execution_reentry_target ob context status ai, fd_repair_reroute = reroute\<rparr>"

record RepairPlanFollowUpState =
  fs_blocker_kind :: "RepairBlockerKind option"
  fs_target_task :: "nat option"
  fs_target_step :: "nat option"
  fs_required_follow_up :: "string option"
  fs_post_route_task :: "nat option"
  fs_post_route_blocking_task :: "nat option"

record PostRepairRouteFollowUpState =
  pr_state_kind :: string
  pr_phase_detail :: string
  pr_review_state_status :: string
  pr_required_follow_up :: "string option"
  pr_blocking_reason_codes :: "string list"
  pr_recommends_execution_reentry :: bool

record RepairReviewStateFollowUpInputs =
  fi_repair_plan :: RepairPlanFollowUpState
  fi_stale_reentry_repair_plan :: RepairPlanFollowUpState
  fi_route :: PostRepairRouteFollowUpState
  fi_performed_current_task_closure_cleanup :: bool
  fi_persisted_close_task_follow_up_target :: "nat option"
  fi_cleared_current_branch_closure :: bool
  fi_current_task_closures_empty :: bool
  fi_stale_unreviewed_closures_empty :: bool
  fi_task_scope_structural_reason_present :: bool
  fi_branch_scope_structural_reason_present :: bool
  fi_post_repair_status_current_task_closures_empty :: bool
  fi_branch_rerecording_supported :: bool
  fi_empty_lineage_branch_reroute_repairable :: bool
  fi_original_empty_lineage_branch_reroute_repairable :: bool
  fi_missing_derived_overlays_empty :: bool

record RepairFollowUpTarget =
  ft_task :: "nat option"
  ft_step :: "nat option"

record RepairReviewStateFollowUpDecision =
  fu_required_follow_up :: "string option"
  fu_public_required_follow_up :: "string option"
  fu_persisted_required_follow_up :: "RepairFollowUpKind option"
  fu_target :: RepairFollowUpTarget
  fu_task_closure_repair_ready_for_recording :: bool
  fu_task_closure_repair_target_task :: "nat option"
  fu_current_route_requires_no_repair_follow_up :: bool

definition execution_reentry_repair_follow_up_target ::
  "RepairPlanFollowUpState \<Rightarrow> RepairPlanFollowUpState \<Rightarrow> RepairFollowUpTarget" where
  "execution_reentry_repair_follow_up_target stale_plan repair_plan =
     (case fs_target_task stale_plan of
        Some task \<Rightarrow> \<lparr>ft_task = Some task, ft_step = fs_target_step stale_plan\<rparr>
      | None \<Rightarrow> \<lparr>ft_task = fs_target_task repair_plan, ft_step = fs_target_step repair_plan\<rparr>)"

definition close_task_repair_follow_up_target ::
  "RepairPlanFollowUpState \<Rightarrow> RepairPlanFollowUpState \<Rightarrow> nat option" where
  "close_task_repair_follow_up_target stale_plan repair_plan =
     opt_or (fs_target_task repair_plan) (opt_or (fs_post_route_task repair_plan)
       (opt_or (fs_post_route_blocking_task repair_plan) (fs_target_task stale_plan)))"

definition repair_follow_up_target_binding ::
  "RepairFollowUpKind option \<Rightarrow> RepairPlanFollowUpState \<Rightarrow> RepairPlanFollowUpState \<Rightarrow> RepairFollowUpTarget" where
  "repair_follow_up_target_binding persisted stale_plan repair_plan =
     (if persisted = Some RFU_ExecutionReentry then execution_reentry_repair_follow_up_target stale_plan repair_plan
      else if persisted = Some RFU_CloseTask
      then \<lparr>ft_task = close_task_repair_follow_up_target stale_plan repair_plan, ft_step = None\<rparr>
      else \<lparr>ft_task = None, ft_step = None\<rparr>)"

definition repair_target_task_for_closure :: "RepairReviewStateFollowUpInputs \<Rightarrow> nat option" where
  "repair_target_task_for_closure i =
     opt_or (opt_or (fs_target_task (fi_repair_plan i)) (opt_or (fs_target_task (fi_stale_reentry_repair_plan i))
       (opt_or (fs_post_route_blocking_task (fi_repair_plan i)) (fs_post_route_task (fi_repair_plan i)))))
       (fi_persisted_close_task_follow_up_target i)"

definition closure_scope_cleared :: "RepairReviewStateFollowUpInputs \<Rightarrow> bool" where
  "closure_scope_cleared i \<longleftrightarrow>
     \<not> fi_cleared_current_branch_closure i \<and> fi_current_task_closures_empty i \<and> fi_stale_unreviewed_closures_empty i \<and>
     \<not> fi_task_scope_structural_reason_present i \<and> \<not> fi_branch_scope_structural_reason_present i \<and>
     fi_post_repair_status_current_task_closures_empty i"

definition task_closure_cleanup_promotes_recording :: "RepairReviewStateFollowUpInputs \<Rightarrow> bool" where
  "task_closure_cleanup_promotes_recording i \<longleftrightarrow>
     fi_performed_current_task_closure_cleanup i \<and> closure_scope_cleared i \<and> repair_target_task_for_closure i \<noteq> None"

definition persisted_close_task_follow_up_promotes_recording :: "RepairReviewStateFollowUpInputs \<Rightarrow> bool" where
  "persisted_close_task_follow_up_promotes_recording i \<longleftrightarrow>
     fi_persisted_close_task_follow_up_target i \<noteq> None \<and> closure_scope_cleared i"

definition repair_required_follow_up :: "RepairReviewStateFollowUpInputs \<Rightarrow> string option" where
  "repair_required_follow_up i =
     (let planned = opt_or (fs_required_follow_up (fi_repair_plan i)) (pr_required_follow_up (fi_route i));
          stale_plan = fi_stale_reentry_repair_plan i;
          with_stale = (if planned = None \<and> fs_blocker_kind stale_plan = Some StaleUnreviewedBlocker \<and>
              fs_required_follow_up stale_plan = Some FOLLOW_UP_EXECUTION_REENTRY \<and>
              \<not> task_closure_cleanup_promotes_recording i \<and> \<not> persisted_close_task_follow_up_promotes_recording i
            then Some FOLLOW_UP_EXECUTION_REENTRY else planned)
      in if with_stale = Some FOLLOW_UP_REPAIR_REVIEW_STATE \<and>
            fs_blocker_kind (fi_repair_plan i) \<in> {Some TaskScopeStructural, Some UnrecoverableTaskScope,
              Some MissingDerivedTaskScope, Some StaleUnreviewedBlocker} \<and>
            pr_recommends_execution_reentry (fi_route i)
         then Some FOLLOW_UP_EXECUTION_REENTRY else with_stale)"

definition persist_branch_reroute_follow_up :: "RepairReviewStateFollowUpInputs \<Rightarrow> bool" where
  "persist_branch_reroute_follow_up i \<longleftrightarrow>
     (\<not> fi_stale_unreviewed_closures_empty i \<and> fi_branch_rerecording_supported i \<and>
        \<not> fi_cleared_current_branch_closure i \<or>
      fi_empty_lineage_branch_reroute_repairable i \<or> fi_original_empty_lineage_branch_reroute_repairable i) \<and>
     \<not> fi_task_scope_structural_reason_present i \<and> \<not> fi_branch_scope_structural_reason_present i \<and>
     fi_missing_derived_overlays_empty i"

definition task_closure_recording_follow_up_ready :: "RepairReviewStateFollowUpInputs \<Rightarrow> bool" where
  "task_closure_recording_follow_up_ready i \<longleftrightarrow>
     task_closure_cleanup_promotes_recording i \<or>
     repair_required_follow_up i = Some FOLLOW_UP_EXECUTION_REENTRY \<and>
     \<not> fi_task_scope_structural_reason_present i \<and> \<not> fi_branch_scope_structural_reason_present i \<and>
     TASK_BOUNDARY_REASON_PRIOR_TASK_CURRENT_CLOSURE_MISSING \<in> set (pr_blocking_reason_codes (fi_route i))"

definition branch_rerecording_follow_up_ready :: "RepairReviewStateFollowUpInputs \<Rightarrow> bool" where
  "branch_rerecording_follow_up_ready i \<longleftrightarrow>
     repair_required_follow_up i = Some FOLLOW_UP_ADVANCE_LATE_STAGE \<and> fi_branch_rerecording_supported i \<and>
     \<not> fi_task_scope_structural_reason_present i \<and> \<not> fi_branch_scope_structural_reason_present i \<and>
     \<not> fi_cleared_current_branch_closure i"

definition current_route_requires_no_repair_follow_up :: "RepairReviewStateFollowUpInputs \<Rightarrow> bool" where
  "current_route_requires_no_repair_follow_up i \<longleftrightarrow>
     state_kind_is_terminal (pr_state_kind (fi_route i)) \<and>
     pr_phase_detail (fi_route i) = DETAIL_FINISH_COMPLETION_GATE_READY \<and>
     pr_review_state_status (fi_route i) = ''clean''"

definition persisted_required_follow_up :: "RepairReviewStateFollowUpInputs \<Rightarrow> RepairFollowUpKind option" where
  "persisted_required_follow_up i =
     (if current_route_requires_no_repair_follow_up i then None
      else if persist_branch_reroute_follow_up i \<or> branch_rerecording_follow_up_ready i
      then Some RFU_RecordBranchClosure
      else if task_closure_recording_follow_up_ready i then Some RFU_CloseTask
      else if pr_phase_detail (fi_route i) = DETAIL_EXECUTION_REENTRY_REQUIRED \<and>
        opt_or (fs_target_task (fi_stale_reentry_repair_plan i)) (fs_target_task (fi_repair_plan i)) \<noteq> None
      then Some RFU_ExecutionReentry
      else Option.bind (repair_required_follow_up i) repair_kind_from_persisted_token)"

definition repair_review_state_follow_up_decision ::
  "RepairReviewStateFollowUpInputs \<Rightarrow> RepairReviewStateFollowUpDecision" where
  "repair_review_state_follow_up_decision i =
     \<lparr>fu_required_follow_up = repair_required_follow_up i,
      fu_public_required_follow_up = normalize_public_routing_follow_up_token (repair_required_follow_up i),
      fu_persisted_required_follow_up = persisted_required_follow_up i,
      fu_target = repair_follow_up_target_binding (persisted_required_follow_up i) (fi_stale_reentry_repair_plan i)
        (fi_repair_plan i),
      fu_task_closure_repair_ready_for_recording =
        (task_closure_cleanup_promotes_recording i \<or> persisted_close_task_follow_up_promotes_recording i),
      fu_task_closure_repair_target_task = repair_target_task_for_closure i,
      fu_current_route_requires_no_repair_follow_up = current_route_requires_no_repair_follow_up i\<rparr>"

definition repair_review_state_final_required_follow_up :: "string option \<Rightarrow> string option \<Rightarrow> string option" where
  "repair_review_state_final_required_follow_up routed_required_follow_up repair_public_required_follow_up =
     (let routed = normalize_public_routing_follow_up_token routed_required_follow_up
      in if routed = Some FOLLOW_UP_REPAIR_REVIEW_STATE \<and>
            repair_public_required_follow_up \<noteq> Some FOLLOW_UP_REPAIR_REVIEW_STATE
         then repair_public_required_follow_up else routed)"

end
