(* ===== verification/Next_Action.thy ===== *)
theory Next_Action
  imports Repair_Targets
begin

text \<open>
  The next action of a plan (\<^verbatim>\<open>route_plan/next_action_choice.rs\<close> and its child modules): from the plan, its
  status and the authority inputs, the first of nine routes that applies, in the order the code tries them; when
  none applies the plan returns to planning.

  The plan path the code hands down is written into commands only later, so it is not an argument here; the
  overlay and the authoritative state are read through \<^typ>\<open>PlanningObservations\<close>.
\<close>

subsection \<open>Predicates of a status\<close>

definition late_stage_surface_undeclared :: "PlanExecutionStatus \<Rightarrow> bool" where
  "late_stage_surface_undeclared status \<longleftrightarrow> list_ex late_stage_surface_not_declared_reason_code (st_reason_codes status)"

definition reason_code_requires_test_plan_refresh :: "string \<Rightarrow> bool" where
  "reason_code_requires_test_plan_refresh reason_code \<longleftrightarrow>
     reason_code \<in> {''test_plan_artifact_missing'', ''test_plan_artifact_malformed'', ''test_plan_artifact_stale'',
       ''test_plan_artifact_authoritative_provenance_invalid'', ''test_plan_artifact_generator_mismatch'',
       ''test_plan_generator_mismatch'', ''test_plan_authoritative_fingerprint_mismatch''}"

definition finish_requires_test_plan_refresh :: "GateResult option \<Rightarrow> bool" where
  "finish_requires_test_plan_refresh gate =
     is_some_and gate (\<lambda>g. list_ex reason_code_requires_test_plan_refresh (gr_reason_codes g))"

definition qa_pending_requires_test_plan_refresh :: "GateResult option \<Rightarrow> bool" where
  "qa_pending_requires_test_plan_refresh gate \<longleftrightarrow> finish_requires_test_plan_refresh gate"

definition final_review_result_recorded_for_current_branch :: "PlanExecutionStatus \<Rightarrow> bool" where
  "final_review_result_recorded_for_current_branch status \<longleftrightarrow>
     st_current_final_review_result status \<noteq> None \<and>
     st_current_final_review_branch_closure_id status = st_current_branch_closure_id status"

definition final_review_result_branch_mismatch :: "PlanExecutionStatus \<Rightarrow> bool" where
  "final_review_result_branch_mismatch status \<longleftrightarrow>
     st_current_final_review_result status \<noteq> None \<and>
     st_current_final_review_branch_closure_id status \<noteq> st_current_branch_closure_id status"

definition finish_review_gate_passed_for_current_branch :: "PlanExecutionStatus \<Rightarrow> bool" where
  "finish_review_gate_passed_for_current_branch status \<longleftrightarrow>
     is_some_and (opt_zip (st_finish_review_gate_pass_branch_closure_id status) (st_current_branch_closure_id status))
       (\<lambda>(checkpoint, current). checkpoint = current)"

definition negative_result_requires_execution_reentry ::
  "bool \<Rightarrow> string \<Rightarrow> string option \<Rightarrow> string option \<Rightarrow> string option \<Rightarrow> string option \<Rightarrow> string option \<Rightarrow> bool" where
  "negative_result_requires_execution_reentry task_negative_result_present workflow_phase branch_closure
     final_review_branch final_review_result qa_branch qa_result \<longleftrightarrow>
     (let failed_for_current = (\<lambda>result recorded. result = Some ''fail'' \<and>
            is_some_and (opt_zip recorded branch_closure) (\<lambda>(recorded, current). recorded = current))
      in failed_for_current final_review_result final_review_branch \<or> failed_for_current qa_result qa_branch \<or>
         workflow_phase \<noteq> PHASE_HANDOFF_REQUIRED \<and> workflow_phase \<noteq> PHASE_PIVOT_REQUIRED \<and>
         task_negative_result_present)"

definition negative_result_requires_execution_reentry_for_status ::
  "bool \<Rightarrow> string \<Rightarrow> PlanExecutionStatus \<Rightarrow> bool" where
  "negative_result_requires_execution_reentry_for_status task_negative_result_present workflow_phase status \<longleftrightarrow>
     negative_result_requires_execution_reentry task_negative_result_present workflow_phase
       (st_current_branch_closure_id status) (st_current_final_review_branch_closure_id status)
       (st_current_final_review_result status) (st_current_qa_branch_closure_id status) (st_current_qa_result status)"

definition task_review_result_pending_task :: "PlanExecutionStatus \<Rightarrow> string option \<Rightarrow> nat option" where
  "task_review_result_pending_task status dispatch_id = None"

definition task_scope_overlay_repair_required :: "PlanExecutionStatus \<Rightarrow> bool" where
  "task_scope_overlay_repair_required status \<longleftrightarrow>
     st_harness_phase status = Executing \<and>
     list_ex (\<lambda>c. c = TASK_BOUNDARY_REASON_CURRENT_TASK_CLOSURE_OVERLAY_RESTORE_REQUIRED \<or>
       c = ''task_closure_negative_result_overlay_restore_required'') (st_reason_codes status) \<and>
     st_current_branch_closure_id status = None"

definition execution_reentry_repair_projection_active :: "PlanExecutionStatus \<Rightarrow> bool" where
  "execution_reentry_repair_projection_active status \<longleftrightarrow>
     st_phase_detail status = DETAIL_EXECUTION_REENTRY_REQUIRED \<and>
     (st_review_state_status status = REVIEW_STATE_STALE_UNREVIEWED \<or>
      list_ex (\<lambda>c. c = TASK_BOUNDARY_REASON_PRIOR_TASK_CURRENT_CLOSURE_INVALID \<or>
        c = TASK_BOUNDARY_REASON_PRIOR_TASK_CURRENT_CLOSURE_REVIEWED_STATE_MALFORMED \<or>
        c = BRANCH_BOUNDARY_REASON_CURRENT_BRANCH_CLOSURE_REVIEWED_STATE_MALFORMED) (st_reason_codes status))"

definition task_scope_repair_required :: "PlanExecutionStatus \<Rightarrow> bool" where
  "task_scope_repair_required status \<longleftrightarrow>
     task_scope_overlay_repair_required status \<or> task_scope_structural_review_state_reason status \<noteq> None \<or>
     (st_harness_phase status = Executing \<or> st_harness_phase status = ExecutionPreflight) \<and>
     TASK_BOUNDARY_REASON_PRIOR_TASK_CURRENT_CLOSURE_STALE \<in> set (st_reason_codes status)"

definition execution_reentry_requires_review_state_repair_with_bridge_allowance ::
  "PlanExecutionStatus \<Rightarrow> bool \<Rightarrow> bool" where
  "execution_reentry_requires_review_state_repair_with_bridge_allowance status baseline_bridge_allowed \<longleftrightarrow>
     (if task_closure_baseline_repair_candidate_reason_present status \<and> \<not> task_scope_repair_required status \<and>
         (st_review_state_status status \<noteq> REVIEW_STATE_STALE_UNREVIEWED \<or> baseline_bridge_allowed)
      then False
      else execution_reentry_repair_projection_active status \<or>
        worktree_lease_review_state_repair_reason status \<noteq> None \<or>
        st_current_branch_closure_id status \<noteq> None \<and>
          current_branch_closure_structural_review_state_reason status \<noteq> None \<or>
        task_scope_repair_required status)"

text \<open>Without a context no bridge is allowed; the two callers without one pass \<^verbatim>\<open>None\<close>.\<close>

definition execution_reentry_requires_review_state_repair :: "PlanExecutionStatus \<Rightarrow> bool" where
  "execution_reentry_requires_review_state_repair status \<longleftrightarrow>
     execution_reentry_requires_review_state_repair_with_bridge_allowance status False"

definition execution_reentry_requires_review_state_repair_with_authority ::
  "PlanningObservations \<Rightarrow> PlanExecutionStatus \<Rightarrow> bool" where
  "execution_reentry_requires_review_state_repair_with_authority ob status \<longleftrightarrow>
     execution_reentry_requires_review_state_repair_with_bridge_allowance status
       (is_some_and (st_blocking_task status)
         (\<lambda>task. res_unwrap_or False (po_stale_unreviewed_allows_bridge ob status task)))"

definition task_scope_handoff_override_active :: "PlanExecutionStatus \<Rightarrow> bool" where
  "task_scope_handoff_override_active status \<longleftrightarrow> st_harness_phase status = HandoffRequired"

definition contract_phase :: "HarnessPhase \<Rightarrow> bool" where
  "contract_phase phase \<longleftrightarrow>
     phase \<in> {ContractDrafting, ContractPendingApproval, ContractApproved, Evaluating}"

definition task_scope_pivot_override_active :: "PlanExecutionStatus \<Rightarrow> string \<Rightarrow> bool" where
  "task_scope_pivot_override_active status review_state_status \<longleftrightarrow>
     (if st_execution_started status \<noteq> ''yes'' \<and> contract_phase (st_harness_phase status) \<and>
         st_active_task status = None \<and> st_active_step status = None \<and> st_resume_task status = None \<and>
         st_resume_step status = None \<and> st_blocking_task status = None \<and> st_blocking_step status = None \<and>
         st_reason_codes status = []
      then False
      else if st_execution_started status \<noteq> ''yes'' \<and>
        \<not> (st_harness_phase status = PivotRequired \<or> contract_phase (st_harness_phase status)) then False
      else if review_state_status = REVIEW_STATE_STALE_UNREVIEWED then False
      else if REASON_CODE_STALE_PROVENANCE \<in> set (st_reason_codes status) then False
      else st_harness_phase status = PivotRequired \<or> contract_phase (st_harness_phase status))"

definition malformed_execution_markers :: "PlanExecutionStatus \<Rightarrow> bool" where
  "malformed_execution_markers status \<longleftrightarrow>
     st_active_task status \<noteq> None \<and> st_active_step status = None \<or>
     st_active_task status = None \<and> st_active_step status \<noteq> None \<or>
     st_resume_task status \<noteq> None \<and> st_resume_step status = None \<or>
     st_resume_task status = None \<and> st_resume_step status \<noteq> None \<or>
     st_blocking_task status \<noteq> None \<and> is_some_and (st_blocking_step status) (\<lambda>step. step = 0)"

definition hard_structural_corruption_detected :: "PlanExecutionStatus \<Rightarrow> bool" where
  "hard_structural_corruption_detected status \<longleftrightarrow>
     (let missing_after_repair = (st_blocking_task status \<noteq> None \<and> prior_missing_reason_present status \<and>
            list_ex (\<lambda>c. c = TASK_BOUNDARY_REASON_PRIOR_TASK_CURRENT_CLOSURE_INVALID \<or>
              c = TASK_BOUNDARY_REASON_PRIOR_TASK_CURRENT_CLOSURE_REVIEWED_STATE_MALFORMED \<or>
              c = REASON_CODE_STALE_PROVENANCE) (st_reason_codes status) \<and>
            is_some_and (st_blocking_task status) (\<lambda>t. \<not> status_has_current_task_closure_for_task status t))
      in malformed_execution_markers status \<or>
         task_scope_structural_review_state_reason status \<noteq> None \<and> \<not> missing_after_repair)"

definition completed_execution_missing_branch_closure ::
  "PlanExecutionStatus \<Rightarrow> ExecutionContext \<Rightarrow> CurrentTaskClosureBranchRouteFacts \<Rightarrow> bool" where
  "completed_execution_missing_branch_closure status context f \<longleftrightarrow>
     st_execution_started status = ''yes'' \<and>
     all_plan_task_closures_present_without_branch_closure f (ec_plan_document_task_count context) \<and>
     st_active_task status = None \<and> st_active_step status = None \<and> st_resume_task status = None \<and>
     st_resume_step status = None \<and> st_blocking_step status = None"

subsection \<open>Decisions\<close>

definition late_stage_decision :: "PlanExecutionStatus \<Rightarrow> NextActionKind \<Rightarrow> string \<Rightarrow> NextActionDecision" where
  "late_stage_decision status kind phase_detail =
     \<lparr>nd_kind = kind,
      nd_phase = canonical_phase_for_shared_decision (harness_phase_as_str (st_harness_phase status)) phase_detail,
      nd_phase_detail = phase_detail, nd_review_state_status = canonical_review_state_status status,
      nd_task_number = opt_or (st_blocking_task status) (opt_or (st_resume_task status) (st_active_task status)),
      nd_step_number = opt_or (st_blocking_step status) (opt_or (st_resume_step status) (st_active_step status)),
      nd_blocking_task = st_blocking_task status, nd_blocking_reason_codes = st_reason_codes status\<rparr>"

definition branch_closure_decision :: "PlanExecutionStatus \<Rightarrow> NextActionDecision" where
  "branch_closure_decision status =
     late_stage_decision status ActAdvanceLateStage DETAIL_BRANCH_CLOSURE_RECORDING_REQUIRED_FOR_RELEASE_READINESS"

definition repair_decision_without_target :: "string \<Rightarrow> string \<Rightarrow> string list \<Rightarrow> NextActionDecision" where
  "repair_decision_without_target phase_detail review_state_status codes =
     \<lparr>nd_kind = ActRepairReviewState, nd_phase = PHASE_EXECUTING, nd_phase_detail = phase_detail,
      nd_review_state_status = review_state_status, nd_task_number = None, nd_step_number = None,
      nd_blocking_task = None, nd_blocking_reason_codes = codes\<rparr>"

definition missing_execution_reentry_target_decision :: "PlanExecutionStatus \<Rightarrow> string \<Rightarrow> NextActionDecision" where
  "missing_execution_reentry_target_decision status review_state_status =
     repair_decision_without_target TARGETLESS_STALE_RECONCILE_PHASE_DETAIL review_state_status
       (ensure_reason_codes (st_reason_codes status))"

definition execution_repair_decision_for_task :: "PlanExecutionStatus \<Rightarrow> string \<Rightarrow> nat \<Rightarrow> NextActionDecision" where
  "execution_repair_decision_for_task status review_state_status task_number =
     \<lparr>nd_kind = ActRepairReviewState, nd_phase = PHASE_EXECUTING,
      nd_phase_detail = DETAIL_EXECUTION_REENTRY_REQUIRED, nd_review_state_status = review_state_status,
      nd_task_number = Some task_number,
      nd_step_number = opt_or (st_blocking_step status) (opt_or (st_resume_step status) (st_active_step status)),
      nd_blocking_task = Some task_number, nd_blocking_reason_codes = st_reason_codes status\<rparr>"

definition missing_execution_reentry_target_requires_reconcile ::
  "PlanExecutionStatus \<Rightarrow> string \<Rightarrow> NextActionAuthorityInputs \<Rightarrow> bool" where
  "missing_execution_reentry_target_requires_reconcile status review_state_status ai \<longleftrightarrow>
     \<not> ai_has_authoritative_stale_target ai \<and> missing_reentry_target_requires_reconcile status review_state_status"

definition execution_repair_decision ::
  "PlanningObservations \<Rightarrow> ExecutionContext \<Rightarrow> PlanExecutionStatus \<Rightarrow> string \<Rightarrow> NextActionAuthorityInputs \<Rightarrow>
   NextActionDecision" where
  "execution_repair_decision ob context status review_state_status ai =
     (case execution_reentry_target ob context status ai of
        Some target \<Rightarrow> execution_repair_decision_for_task status review_state_status (et_task target)
      | None \<Rightarrow>
          if missing_execution_reentry_target_requires_reconcile status review_state_status ai
          then missing_execution_reentry_target_decision status review_state_status
          else repair_decision_without_target DETAIL_EXECUTION_REENTRY_REQUIRED review_state_status
            (push_reason_once (st_reason_codes status) ''execution_target_missing''))"

definition closure_prerequisite_decision ::
  "PlanExecutionStatus \<Rightarrow> NextActionKind \<Rightarrow> string \<Rightarrow> nat option \<Rightarrow> nat option \<Rightarrow> NextActionDecision" where
  "closure_prerequisite_decision status kind phase_detail task_number step_number =
     \<lparr>nd_kind = kind, nd_phase = PHASE_TASK_CLOSURE_PENDING, nd_phase_detail = phase_detail,
      nd_review_state_status = canonical_review_state_status status, nd_task_number = task_number,
      nd_step_number = step_number, nd_blocking_task = opt_or task_number (st_blocking_task status),
      nd_blocking_reason_codes = st_reason_codes status\<rparr>"

definition task_closure_recording_ready_decision ::
  "PlanExecutionStatus \<Rightarrow> CurrentTaskClosureBranchRouteFacts \<Rightarrow> nat \<Rightarrow> NextActionDecision" where
  "task_closure_recording_ready_decision status f task_number =
     (if task_should_route_to_branch_closure f status task_number then branch_closure_decision status
      else \<lparr>nd_kind = ActCloseCurrentTask, nd_phase = PHASE_TASK_CLOSURE_PENDING,
        nd_phase_detail = DETAIL_TASK_CLOSURE_RECORDING_READY, nd_review_state_status = ''clean'',
        nd_task_number = Some task_number, nd_step_number = None, nd_blocking_task = Some task_number,
        nd_blocking_reason_codes = tb_public_reason_codes (public_task_boundary_decision status)\<rparr>)"

definition task_scope_decision ::
  "PlanExecutionStatus \<Rightarrow> NextActionKind \<Rightarrow> string \<Rightarrow> string \<Rightarrow> string \<Rightarrow> NextActionDecision" where
  "task_scope_decision status kind phase phase_detail review_state_status =
     (let task = opt_or (st_blocking_task status) (opt_or (st_resume_task status) (st_active_task status))
      in \<lparr>nd_kind = kind, nd_phase = phase, nd_phase_detail = phase_detail,
          nd_review_state_status = review_state_status, nd_task_number = task,
          nd_step_number = opt_or (st_blocking_step status) (opt_or (st_resume_step status) (st_active_step status)),
          nd_blocking_task = task, nd_blocking_reason_codes = st_reason_codes status\<rparr>)"

definition late_stage_planning_reentry_decision :: "PlanExecutionStatus \<Rightarrow> string \<Rightarrow> NextActionDecision" where
  "late_stage_planning_reentry_decision status review_state_status =
     task_scope_decision status ActPlanningReentry PHASE_PIVOT_REQUIRED DETAIL_PLANNING_REENTRY_REQUIRED
       review_state_status"

definition task_scope_handoff_decision :: "PlanExecutionStatus \<Rightarrow> string \<Rightarrow> NextActionDecision" where
  "task_scope_handoff_decision status review_state_status =
     task_scope_decision status ActHandoff
       (if st_blocking_task status \<noteq> None \<or> st_active_task status \<noteq> None \<or> st_resume_task status \<noteq> None
        then PHASE_EXECUTING else PHASE_HANDOFF_REQUIRED)
       DETAIL_HANDOFF_RECORDING_REQUIRED review_state_status"

fun route_target_action_kind :: "PlanExecutionStatus \<Rightarrow> ExecutionCommandRouteTarget \<Rightarrow> NextActionKind option" where
  "route_target_action_kind status target =
     (case xt_kind target of
        BeginCommand \<Rightarrow> Some (if st_resume_task status = Some (xt_task_number target) \<and>
            st_resume_step status = xt_step_id target then ActResume else ActBegin)
      | ReopenCommand \<Rightarrow> Some ActReopen
      | CompleteCommand \<Rightarrow> Some ActCloseCurrentTask
      | _ \<Rightarrow> None)"

definition route_target_phase_detail :: "PlanExecutionStatus \<Rightarrow> ExecutionCommandRouteTarget \<Rightarrow> string" where
  "route_target_phase_detail status target =
     (if xt_kind target = CompleteCommand \<or>
         xt_kind target = BeginCommand \<and>
           (st_blocking_task status = Some (xt_task_number target) \<and> st_blocking_step status = xt_step_id target \<or>
            st_resume_task status = Some (xt_task_number target) \<and> st_resume_step status = xt_step_id target \<and>
              st_harness_phase status = Executing \<and> execution_reentry_requires_review_state_repair status \<or>
            st_blocking_step status \<noteq> None \<and> \<not> execution_reentry_requires_review_state_repair status)
      then DETAIL_EXECUTION_IN_PROGRESS else DETAIL_EXECUTION_REENTRY_REQUIRED)"

definition decision_from_execution_command_route_target ::
  "PlanExecutionStatus \<Rightarrow> ExecutionCommandRouteTarget option \<Rightarrow> NextActionDecision option" where
  "decision_from_execution_command_route_target status route_target =
     Option.bind route_target (\<lambda>target.
     map_option (\<lambda>kind.
       let phase_detail = route_target_phase_detail status target
       in \<lparr>nd_kind = kind,
           nd_phase = (if phase_detail = DETAIL_EXECUTION_IN_PROGRESS then PHASE_HANDOFF_REQUIRED else PHASE_EXECUTING),
           nd_phase_detail = phase_detail, nd_review_state_status = canonical_review_state_status status,
           nd_task_number = Some (xt_task_number target), nd_step_number = xt_step_id target,
           nd_blocking_task = (if xt_kind target = ReopenCommand then Some (xt_task_number target)
             else st_blocking_task status),
           nd_blocking_reason_codes = st_reason_codes status\<rparr>)
       (route_target_action_kind status target))"

definition reopen_step_for_task :: "ExecutionContext \<Rightarrow> nat \<Rightarrow> nat option" where
  "reopen_step_for_task context task_number =
     opt_or (latest_attempted_step_for_task context task_number)
       (map_option ss_step_number (List.find (\<lambda>s. ss_task_number s = task_number) (ec_steps context)))"

definition reopen_execution_command_route_target_for_task ::
  "ExecutionContext \<Rightarrow> nat \<Rightarrow> ExecutionCommandRouteTarget option" where
  "reopen_execution_command_route_target_for_task context task_number =
     map_option (execution_route_target ReopenCommand task_number) (reopen_step_for_task context task_number)"

subsection \<open>Re-entry\<close>

definition persisted_late_stage_reroute_missing_current_closure ::
  "PlanningObservations \<Rightarrow> PlanExecutionStatus \<Rightarrow> NextActionAuthorityInputs \<Rightarrow> string \<Rightarrow> bool" where
  "persisted_late_stage_reroute_missing_current_closure ob status ai review_state_status \<longleftrightarrow>
     review_state_status = REVIEW_STATE_MISSING_CURRENT_CLOSURE \<and>
     missing_current_closure_can_reroute_to_late_stage (precomputed_current_task_closure_branch_route_facts ai) \<and>
     st_blocking_step status = None \<and> ai_persisted_repair_follow_up ai = Some FOLLOW_UP_ADVANCE_LATE_STAGE \<and>
     REASON_CODE_STALE_PROVENANCE \<in> set (st_reason_codes status) \<and> prior_missing_reason_present status \<and>
     \<not> res_unwrap_or False (po_worktree_drift_escapes_late_stage_surface ob) \<and>
     \<not> late_stage_surface_undeclared status"

definition status_blocking_task_fallback :: "PlanExecutionStatus \<Rightarrow> NextActionAuthorityInputs \<Rightarrow> bool" where
  "status_blocking_task_fallback status ai \<longleftrightarrow>
     st_phase_detail status = DETAIL_EXECUTION_REENTRY_REQUIRED \<and> st_harness_phase status = Executing \<and>
     st_blocking_step status = None \<and> st_active_task status = None \<and> st_resume_task status = None \<and>
     \<not> (st_review_state_status status = REVIEW_STATE_MISSING_CURRENT_CLOSURE \<and>
        set_has_non_branch_contributing_closure_without_branch (precomputed_current_task_closure_branch_route_facts ai)) \<and>
     (st_reason_codes status \<noteq> [] \<or> st_review_state_status status \<noteq> ''clean'') \<and>
     task_boundary_block_reason_code status = None \<and>
     \<not> list_ex qa_requirement_missing_or_invalid_reason_code (st_reason_codes status)"

definition execution_reentry_blocking_task ::
  "PlanningObservations \<Rightarrow> PlanExecutionStatus \<Rightarrow> NextActionAuthorityInputs \<Rightarrow> nat option" where
  "execution_reentry_blocking_task ob status ai =
     (let review = canonical_review_state_status status;
          boundary = task_boundary_blocking_task status
      in if persisted_late_stage_reroute_missing_current_closure ob status ai review then None
         else if is_some_and boundary (task_closure_baseline_bridge_ready_for_task ob status ai review) then None
         else opt_or boundary (if status_blocking_task_fallback status ai then st_blocking_task status else None))"

definition target_task_missing_current_closure_after_repair :: "PlanExecutionStatus \<Rightarrow> nat \<Rightarrow> bool" where
  "target_task_missing_current_closure_after_repair status task_number \<longleftrightarrow>
     st_blocking_task status = Some task_number \<and> prior_missing_reason_present status \<and>
     list_ex (\<lambda>c. c = TASK_BOUNDARY_REASON_PRIOR_TASK_CURRENT_CLOSURE_INVALID \<or> c = REASON_CODE_STALE_PROVENANCE)
       (st_reason_codes status) \<and>
     \<not> status_has_current_task_closure_for_task status task_number"

definition bound_route_target_decision :: "PlanExecutionStatus \<Rightarrow> nat \<Rightarrow> NextActionDecision option" where
  "bound_route_target_decision status task_number =
     map_option (\<lambda>d. d\<lparr>nd_blocking_task := opt_or (nd_blocking_task d) (Some task_number),
         nd_phase_detail := (if nd_phase_detail d \<noteq> DETAIL_EXECUTION_IN_PROGRESS
           then DETAIL_EXECUTION_REENTRY_REQUIRED else nd_phase_detail d)\<rparr>)
       (decision_from_execution_command_route_target status
         (opt_filter (\<lambda>t. xt_task_number t = task_number \<and>
             (\<not> route_target_is_begin t \<or> execution_command_route_target_has_public_authority status t))
           (resolve_execution_command_route_target status)))"

definition reopen_decision :: "PlanExecutionStatus \<Rightarrow> string \<Rightarrow> nat \<Rightarrow> nat \<Rightarrow> NextActionDecision" where
  "reopen_decision status review_state_status task_number step_id =
     \<lparr>nd_kind = ActReopen, nd_phase = PHASE_EXECUTING, nd_phase_detail = DETAIL_EXECUTION_REENTRY_REQUIRED,
      nd_review_state_status = review_state_status, nd_task_number = Some task_number,
      nd_step_number = Some step_id, nd_blocking_task = Some task_number,
      nd_blocking_reason_codes = st_reason_codes status\<rparr>"

definition execution_reentry_decision_for_task ::
  "PlanningObservations \<Rightarrow> ExecutionContext \<Rightarrow> PlanExecutionStatus \<Rightarrow> string \<Rightarrow> nat \<Rightarrow> bool \<Rightarrow> NextActionDecision" where
  "execution_reentry_decision_for_task ob context status review_state_status task_number stale_boundary =
     (if execution_reentry_requires_review_state_repair_with_authority ob status \<and> \<not> stale_boundary \<and>
         \<not> late_stage_surface_undeclared status \<and> \<not> target_task_missing_current_closure_after_repair status task_number
      then execution_repair_decision_for_task status review_state_status task_number
      else case (if stale_boundary then None else bound_route_target_decision status task_number) of
        Some d \<Rightarrow> d
      | None \<Rightarrow> (case Option.bind (reopen_execution_command_route_target_for_task context task_number) xt_step_id of
          Some step_id \<Rightarrow> reopen_decision status review_state_status task_number step_id
        | None \<Rightarrow>
            let repair = execution_repair_decision_for_task status review_state_status task_number
            in if stale_boundary
               then repair\<lparr>nd_blocking_reason_codes := push_reason_once (nd_blocking_reason_codes repair)
                 TASK_BOUNDARY_REASON_PRIOR_TASK_CURRENT_CLOSURE_STALE\<rparr>
               else repair))"

subsection \<open>Late-stage repairs\<close>

definition reentry_decision_or ::
  "PlanningObservations \<Rightarrow> ExecutionContext \<Rightarrow> PlanExecutionStatus \<Rightarrow> string \<Rightarrow> ExecutionReentryTarget option \<Rightarrow>
   bool \<Rightarrow> NextActionDecision \<Rightarrow> NextActionDecision" where
  "reentry_decision_or ob context status review_state_status target stale_boundary fallback =
     (case target of
        Some target \<Rightarrow>
          execution_reentry_decision_for_task ob context status review_state_status (et_task target) stale_boundary
      | None \<Rightarrow> fallback)"

definition missing_baseline_unsupported_decision ::
  "PlanningObservations \<Rightarrow> ExecutionContext \<Rightarrow> PlanExecutionStatus \<Rightarrow> string \<Rightarrow> BranchRerecordingAssessment \<Rightarrow>
   NextActionAuthorityInputs \<Rightarrow> NextActionDecision" where
  "missing_baseline_unsupported_decision ob context status review_state_status assessment ai =
     (let f = precomputed_current_task_closure_branch_route_facts ai;
          repair = execution_repair_decision ob context status review_state_status ai
      in if ai_persisted_repair_follow_up ai = Some FOLLOW_UP_ADVANCE_LATE_STAGE then branch_closure_decision status
         else if cf_branch_closure_missing f then
           (if cf_non_branch_contributing f then repair
            else case task_closure_baseline_bridge_missing_baseline_unsupported_route_task ob context status ai assessment of
              Some task_number \<Rightarrow> task_closure_recording_ready_decision status f task_number
            | None \<Rightarrow> reentry_decision_or ob context status review_state_status
                (execution_reentry_target ob context status ai) False repair)
         else repair)"

definition late_stage_missing_current_closure_decision_from_assessment ::
  "PlanningObservations \<Rightarrow> ExecutionContext \<Rightarrow> PlanExecutionStatus \<Rightarrow> string \<Rightarrow> BranchRerecordingAssessment \<Rightarrow>
   NextActionAuthorityInputs \<Rightarrow> NextActionDecision" where
  "late_stage_missing_current_closure_decision_from_assessment ob context status review_state_status assessment ai =
     (let f = precomputed_current_task_closure_branch_route_facts ai;
          repair = execution_repair_decision ob context status review_state_status ai
      in if task_scope_structural_review_state_reason status \<noteq> None
         then execution_repair_decision ob context status (canonical_review_state_status status) ai
         else case task_closure_baseline_bridge_late_stage_missing_current_closure_route_task ob context status ai
             review_state_status of
           Some task_number \<Rightarrow> task_closure_recording_ready_decision status f task_number
         | None \<Rightarrow>
             if set_is_missing_for_late_stage_reentry f
             then reentry_decision_or ob context status review_state_status
               (execution_reentry_target ob context status ai) False repair
             else if set_has_non_branch_contributing_closure_without_branch f then repair
             else if ba_supported assessment then branch_closure_decision status
             else case ba_unsupported_reason assessment of
               Some LateStageSurfaceNotDeclared \<Rightarrow> late_stage_planning_reentry_decision status review_state_status
             | Some MissingTaskClosureBaseline \<Rightarrow>
                 missing_baseline_unsupported_decision ob context status review_state_status assessment ai
             | _ \<Rightarrow> reentry_decision_or ob context status review_state_status
                 (execution_reentry_target ob context status ai) False
                 (late_stage_planning_reentry_decision status review_state_status))"

definition stale_late_stage_repair_decision ::
  "PlanningObservations \<Rightarrow> ExecutionContext \<Rightarrow> PlanExecutionStatus \<Rightarrow> NextActionAuthorityInputs \<Rightarrow> NextActionDecision" where
  "stale_late_stage_repair_decision ob context status ai =
     (let with_stale = (\<lambda>d. d\<lparr>nd_blocking_reason_codes :=
            push_reason_once (nd_blocking_reason_codes d) REVIEW_STATE_STALE_UNREVIEWED\<rparr>);
          codes = push_reason_once (st_reason_codes status) REVIEW_STATE_STALE_UNREVIEWED
      in case opt_filter (\<lambda>a. cf_branch_closure_missing (precomputed_current_task_closure_branch_route_facts ai) \<and>
             ba_supported a) (ai_branch_rerecording_assessment ai) of
           Some assessment \<Rightarrow> late_stage_missing_current_closure_decision_from_assessment ob context status
             REVIEW_STATE_STALE_UNREVIEWED assessment ai
         | None \<Rightarrow> (case execution_reentry_target ob context status ai of
             Some target \<Rightarrow>
               if is_none_or (opt_or (st_resume_task status) (st_active_task status)) (\<lambda>open_task. et_task target < open_task) \<and>
                  st_blocking_step status = None
               then with_stale (execution_reentry_decision_for_task ob context status REVIEW_STATE_STALE_UNREVIEWED
                 (et_task target) False)
               else with_stale (execution_repair_decision_for_task status REVIEW_STATE_STALE_UNREVIEWED (et_task target))
           | None \<Rightarrow>
               if ai_has_authoritative_stale_target ai
               then repair_decision_without_target DETAIL_EXECUTION_REENTRY_REQUIRED REVIEW_STATE_STALE_UNREVIEWED codes
               else repair_decision_without_target TARGETLESS_STALE_RECONCILE_PHASE_DETAIL REVIEW_STATE_STALE_UNREVIEWED
                 (ensure_reason_codes codes)))"

definition late_stage_negative_result_reroute ::
  "PlanExecutionStatus \<Rightarrow> string \<Rightarrow> CurrentTaskClosureBranchRouteFacts \<Rightarrow> bool" where
  "late_stage_negative_result_reroute status review_state_status f \<longleftrightarrow>
     review_state_status = ''clean'' \<and> branch_closure_recorded f \<and> st_blocking_step status = None \<and>
     (REASON_NEGATIVE_RESULT_REQUIRES_EXECUTION_REENTRY \<in> set (st_reason_codes status) \<or>
      negative_result_requires_execution_reentry_for_status False PHASE_EXECUTING status)"

definition stale_provenance_reroute ::
  "PlanExecutionStatus \<Rightarrow> string \<Rightarrow> CurrentTaskClosureBranchRouteFacts \<Rightarrow> bool" where
  "stale_provenance_reroute status review_state_status f \<longleftrightarrow>
     (st_harness_phase status = Executing \<or> st_harness_phase status = FinalReviewPending) \<and>
     review_state_status = ''clean'' \<and> branch_closure_recorded f \<and> st_blocking_step status = None \<and>
     REASON_CODE_STALE_PROVENANCE \<in> set (st_reason_codes status) \<and>
     \<not> stale_provenance_after_authoritative_closure_is_diagnostic status"

definition late_stage_execution_reentry_decision ::
  "PlanningObservations \<Rightarrow> ExecutionContext \<Rightarrow> PlanExecutionStatus \<Rightarrow> string \<Rightarrow> NextActionAuthorityInputs \<Rightarrow>
   NextActionDecision option" where
  "late_stage_execution_reentry_decision ob context status review_state_status ai =
     (let f = precomputed_current_task_closure_branch_route_facts ai;
          negative = late_stage_negative_result_reroute status review_state_status f
      in if \<not> (negative \<or> stale_provenance_reroute status review_state_status f) then None
         else Some (reentry_decision_or ob context status review_state_status
           (execution_reentry_target ob context status (ai\<lparr>ai_derived_negative_result_reentry := negative\<rparr>)) negative
           (missing_execution_reentry_target_decision status review_state_status)))"

subsection \<open>Late-stage milestones\<close>

record LateStageRouteInputs =
  li_external_review_result_ready :: bool
  li_final_review_dispatch_id :: "string option"
  li_final_review_dispatch_lineage_present :: bool
  li_final_review_outcome_recorded_for_current_dispatch :: bool
  li_gate_finish :: "GateResult option"
  li_facts :: CurrentTaskClosureBranchRouteFacts

definition document_release_pending_route_phase_detail :: "PlanExecutionStatus \<Rightarrow> string" where
  "document_release_pending_route_phase_detail status =
     (if st_current_release_readiness_state status = Some ''blocked'' then DETAIL_RELEASE_BLOCKER_RESOLUTION_REQUIRED
      else if st_release_docs_state status = FreshnessFresh then DETAIL_FINAL_REVIEW_DISPATCH_REQUIRED
      else DETAIL_RELEASE_READINESS_RECORDING_READY)"

definition final_review_dispatch_requires_refresh :: "PlanExecutionStatus \<Rightarrow> bool" where
  "final_review_dispatch_requires_refresh status \<longleftrightarrow>
     list_ex is_final_review_refresh_reason (st_reason_codes status) \<or> final_review_result_branch_mismatch status"

definition final_review_pending_decision :: "PlanExecutionStatus \<Rightarrow> LateStageRouteInputs \<Rightarrow> NextActionDecision" where
  "final_review_pending_decision status i =
     (let readiness = st_current_release_readiness_state status;
          result = st_current_final_review_result status;
          dispatched = (li_final_review_dispatch_lineage_present i \<or> li_final_review_dispatch_id i \<noteq> None)
      in if cf_branch_closure_missing (li_facts i) then branch_closure_decision status
         else if readiness \<noteq> Some ''ready''
         then late_stage_decision status ActAdvanceLateStage
           (if readiness = Some ''blocked'' then DETAIL_RELEASE_BLOCKER_RESOLUTION_REQUIRED
            else DETAIL_RELEASE_READINESS_RECORDING_READY)
         else if li_final_review_outcome_recorded_for_current_dispatch i \<and> result = None \<and>
           st_current_branch_meaningful_drift status
         then branch_closure_decision status
         else if st_phase_detail status = DETAIL_FINAL_REVIEW_DISPATCH_REQUIRED \<and> (\<not> dispatched \<or> result \<noteq> None) \<or>
           final_review_dispatch_requires_refresh status \<or> \<not> dispatched \<and> result = None
         then late_stage_decision status ActRequestFinalReview DETAIL_FINAL_REVIEW_DISPATCH_REQUIRED
         else if st_phase_detail status = DETAIL_FINAL_REVIEW_RECORDING_READY \<or>
           final_review_result_recorded_for_current_branch status \<or> li_external_review_result_ready i
         then late_stage_decision status ActAdvanceLateStage DETAIL_FINAL_REVIEW_RECORDING_READY
         else late_stage_decision status ActWaitForFinalReviewResult DETAIL_FINAL_REVIEW_OUTCOME_PENDING)"

definition select_late_stage_public_route ::
  "PlanExecutionStatus \<Rightarrow> LateStageRouteInputs \<Rightarrow> NextActionDecision option" where
  "select_late_stage_public_route status i =
     (case st_harness_phase status of
        DocumentReleasePending \<Rightarrow>
          let phase_detail = document_release_pending_route_phase_detail status
          in Some (late_stage_decision status
            (if phase_detail = DETAIL_FINAL_REVIEW_DISPATCH_REQUIRED then ActRequestFinalReview else ActAdvanceLateStage)
            phase_detail)
      | FinalReviewPending \<Rightarrow> Some (final_review_pending_decision status i)
      | QaPending \<Rightarrow> Some
          (if qa_pending_requires_test_plan_refresh (li_gate_finish i) \<or>
              list_ex reason_code_requires_test_plan_refresh (st_reason_codes status)
           then late_stage_decision status ActRefreshTestPlan DETAIL_TEST_PLAN_REFRESH_REQUIRED
           else late_stage_decision status ActRunQa DETAIL_QA_RECORDING_REQUIRED)
      | ReadyForBranchCompletion \<Rightarrow> Some (late_stage_decision status ActFinishBranch
          (if finish_review_gate_passed_for_current_branch status then DETAIL_FINISH_COMPLETION_GATE_READY
           else DETAIL_FINISH_REVIEW_GATE_READY))
      | HandoffRequired \<Rightarrow> Some (late_stage_decision status ActHandoff DETAIL_HANDOFF_RECORDING_REQUIRED)
      | _ \<Rightarrow> None)"

definition decision_from_assessment_or_repair ::
  "PlanningObservations \<Rightarrow> ExecutionContext \<Rightarrow> PlanExecutionStatus \<Rightarrow> string \<Rightarrow> NextActionAuthorityInputs \<Rightarrow>
   NextActionDecision" where
  "decision_from_assessment_or_repair ob context status review_state_status ai =
     (case ai_branch_rerecording_assessment ai of
        Some assessment \<Rightarrow>
          late_stage_missing_current_closure_decision_from_assessment ob context status review_state_status assessment ai
      | None \<Rightarrow> execution_repair_decision ob context status review_state_status ai)"

definition task_scope_structural_blocker :: "PlanExecutionStatus \<Rightarrow> bool" where
  "task_scope_structural_blocker status \<longleftrightarrow>
     list_ex (\<lambda>c. c = TASK_BOUNDARY_REASON_PRIOR_TASK_CURRENT_CLOSURE_INVALID \<or>
       c = TASK_BOUNDARY_REASON_PRIOR_TASK_CURRENT_CLOSURE_REVIEWED_STATE_MALFORMED \<or>
       c = TASK_BOUNDARY_REASON_PRIOR_TASK_CURRENT_CLOSURE_STALE) (st_reason_codes status)"

definition missing_current_closure_late_stage_route ::
  "PlanningObservations \<Rightarrow> ExecutionContext \<Rightarrow> PlanExecutionStatus \<Rightarrow> string \<Rightarrow> NextActionAuthorityInputs \<Rightarrow>
   NextActionDecision option" where
  "missing_current_closure_late_stage_route ob context status review_state_status ai =
     (let f = precomputed_current_task_closure_branch_route_facts ai;
          from_assessment = decision_from_assessment_or_repair ob context status review_state_status ai
      in if review_state_status \<noteq> REVIEW_STATE_MISSING_CURRENT_CLOSURE then None
         else if st_phase_detail status = DETAIL_BRANCH_CLOSURE_RECORDING_REQUIRED_FOR_RELEASE_READINESS \<or>
           st_harness_phase status = DocumentReleasePending
         then Some (if cf_branch_closure_missing f then from_assessment else branch_closure_decision status)
         else if cf_branch_closure_missing f \<and> st_phase_detail status = DETAIL_EXECUTION_REENTRY_REQUIRED
         then Some from_assessment
         else case execution_reentry_blocking_task ob status ai of
           Some task_number \<Rightarrow>
             Some (execution_reentry_decision_for_task ob context status review_state_status task_number False)
         | None \<Rightarrow> Some (if task_scope_structural_blocker status
             then execution_repair_decision ob context status review_state_status ai else from_assessment))"

definition branch_rerecording_route ::
  "PlanningObservations \<Rightarrow> ExecutionContext \<Rightarrow> PlanExecutionStatus \<Rightarrow> string \<Rightarrow> NextActionAuthorityInputs \<Rightarrow>
   bool \<Rightarrow> CurrentTaskClosureBranchRouteFacts \<Rightarrow> NextActionDecision option" where
  "branch_rerecording_route ob context status review_state_status ai legal_begin_route_active f =
     (let advance = (ai_persisted_repair_follow_up ai = Some FOLLOW_UP_ADVANCE_LATE_STAGE)
      in if legal_begin_route_active then None
         else if (review_state_status \<noteq> REVIEW_STATE_STALE_UNREVIEWED \<or> advance) \<and>
           (st_current_branch_meaningful_drift status \<or> branch_closure_recorded f \<and> advance)
         then map_option (\<lambda>assessment. late_stage_missing_current_closure_decision_from_assessment ob context status
             (effective_route_review_state_status status
               DETAIL_BRANCH_CLOSURE_RECORDING_REQUIRED_FOR_RELEASE_READINESS review_state_status) assessment ai)
           (ai_branch_rerecording_assessment ai)
         else None)"

definition late_stage_milestone_route ::
  "PlanningObservations \<Rightarrow> ExecutionContext \<Rightarrow> PlanExecutionStatus \<Rightarrow> LateStageRouteInputs \<Rightarrow> string \<Rightarrow>
   NextActionAuthorityInputs \<Rightarrow> NextActionDecision option" where
  "late_stage_milestone_route ob context status i review_state_status ai =
     (if task_scope_handoff_override_active status then Some (task_scope_handoff_decision status review_state_status)
      else if persisted_late_stage_reroute_missing_current_closure ob status ai review_state_status
      then Some (branch_closure_decision status)
      else if task_scope_pivot_override_active status review_state_status
      then Some (late_stage_planning_reentry_decision status review_state_status)
      else case missing_current_closure_late_stage_route ob context status review_state_status ai of
        Some d \<Rightarrow> Some d
      | None \<Rightarrow>
          if review_state_status = REVIEW_STATE_STALE_UNREVIEWED
          then Some (stale_late_stage_repair_decision ob context status ai)
          else select_late_stage_public_route status i)"

subsection \<open>The routes in order\<close>

record ExecutionRouteFacts =
  xf_resume_stale_precedence :: ResumeStalePrecedence
  xf_open_step_task :: "nat option"
  xf_legal_begin_route_active :: bool
  xf_open_step_preempted_by_execution_reentry_blocker :: bool
  xf_open_step_preempted_by_closure_recording_ready :: bool
  xf_facts :: CurrentTaskClosureBranchRouteFacts

definition handoff_route_active :: "PlanExecutionStatus \<Rightarrow> bool" where
  "handoff_route_active status \<longleftrightarrow>
     st_handoff_required status \<or> PHASE_HANDOFF_REQUIRED \<in> set (st_reason_codes status)"

definition open_step_task :: "PlanExecutionStatus \<Rightarrow> nat option" where
  "open_step_task status =
     opt_or (st_active_task status) (opt_or (st_resume_task status)
       (opt_filter (\<lambda>_. st_blocking_step status \<noteq> None) (st_blocking_task status)))"

definition execution_route_precedence ::
  "PlanningObservations \<Rightarrow> ExecutionContext \<Rightarrow> PlanExecutionStatus \<Rightarrow> string \<Rightarrow> NextActionAuthorityInputs \<Rightarrow>
   ResumeStalePrecedence" where
  "execution_route_precedence ob context status review_state_status ai =
     (let handoff = handoff_route_active status;
          boundary = stale_boundary_of (ai_authoritative_stale_target ai);
          baseline = (if handoff then None else task_closure_baseline_bridge_reentry_target ob context status ai)
      in resume_precedence_from_inputs
       \<lparr>pi_status = status, pi_review_state_status = review_state_status,
        pi_open_step_task = open_step_task status,
        pi_authoritative_stale_boundary = (if handoff then None else boundary),
        pi_baseline_stale_boundary_task = map_option et_task baseline,
        pi_exact_resume_stale_task_target = map_option sb_task boundary,
        pi_stale_preemption_target = stale_preemption_of (ai_authoritative_stale_target ai),
        pi_legal_resume_begin_route = legal_execution_begin_route status (ai_route_repair_target_candidates ai),
        pi_targetless_stale_has_concrete_public_target = True\<rparr>)"

definition execution_route_facts ::
  "PlanningObservations \<Rightarrow> ExecutionContext \<Rightarrow> PlanExecutionStatus \<Rightarrow> string \<Rightarrow> NextActionAuthorityInputs \<Rightarrow>
   ExecutionRouteFacts" where
  "execution_route_facts ob context status review_state_status ai =
     (let precedence = execution_route_precedence ob context status review_state_status ai;
          open_task = open_step_task status;
          before_open = (\<lambda>blocking_task. is_none_or open_task (\<lambda>t. blocking_task < t))
      in \<lparr>xf_resume_stale_precedence = precedence, xf_open_step_task = open_task,
          xf_legal_begin_route_active = legal_execution_begin_route status (ai_route_repair_target_candidates ai),
          xf_open_step_preempted_by_execution_reentry_blocker =
            (is_some_and (execution_reentry_blocking_task ob status ai) before_open \<or>
             st_phase_detail status = DETAIL_EXECUTION_REENTRY_REQUIRED \<and> st_blocking_step status = None \<and>
               is_some_and (st_blocking_task status) before_open \<or>
             review_state_status = REVIEW_STATE_STALE_UNREVIEWED \<and>
               \<not> rs_open_step_not_after_earliest_stale_boundary precedence),
          xf_open_step_preempted_by_closure_recording_ready =
            is_some_and open_task (task_closure_baseline_bridge_open_step_preempted_by_closure_recording ob context
              status ai review_state_status),
          xf_facts = precomputed_current_task_closure_branch_route_facts ai\<rparr>)"

definition missing_authoritative_stale_reentry_target_route ::
  "PlanExecutionStatus \<Rightarrow> string \<Rightarrow> NextActionAuthorityInputs \<Rightarrow> NextActionDecision option" where
  "missing_authoritative_stale_reentry_target_route status review_state_status ai =
     then_some (review_state_status = REVIEW_STATE_STALE_UNREVIEWED \<and> st_stale_unreviewed_closures status \<noteq> [] \<and>
         ai_authoritative_stale_target ai = None \<and> \<not> ai_has_authoritative_stale_target ai)
       (missing_execution_reentry_target_decision status review_state_status)"

definition hard_structural_corruption_route ::
  "PlanningObservations \<Rightarrow> ExecutionContext \<Rightarrow> PlanExecutionStatus \<Rightarrow> string \<Rightarrow> NextActionAuthorityInputs \<Rightarrow>
   ExecutionRouteFacts \<Rightarrow> NextActionDecision option" where
  "hard_structural_corruption_route ob context status review_state_status ai facts =
     (if \<not> hard_structural_corruption_detected status then None
      else case opt_filter (\<lambda>t. review_state_status = REVIEW_STATE_STALE_UNREVIEWED \<and> Some t \<noteq> st_blocking_task status)
          (rs_earliest_stale_task (xf_resume_stale_precedence facts)) of
        Some stale_task \<Rightarrow>
          Some (execution_reentry_decision_for_task ob context status review_state_status stale_task True)
      | None \<Rightarrow> (case execution_reentry_blocking_task ob status ai of
          Some task_number \<Rightarrow>
            Some (execution_reentry_decision_for_task ob context status review_state_status task_number False)
        | None \<Rightarrow> Some (execution_repair_decision ob context status review_state_status ai)))"

definition completed_execution_missing_branch_closure_route ::
  "PlanningObservations \<Rightarrow> ExecutionContext \<Rightarrow> PlanExecutionStatus \<Rightarrow> string \<Rightarrow> NextActionAuthorityInputs \<Rightarrow>
   ExecutionRouteFacts \<Rightarrow> NextActionDecision option" where
  "completed_execution_missing_branch_closure_route ob context status review_state_status ai facts =
     (if review_state_status \<noteq> ''clean'' \<or> \<not> completed_execution_missing_branch_closure status context (xf_facts facts)
      then None
      else Some (if cf_non_branch_contributing (xf_facts facts)
        then execution_repair_decision ob context status review_state_status ai else branch_closure_decision status))"

definition stale_boundary_open_step_resume_allowed ::
  "PlanExecutionStatus \<Rightarrow> string \<Rightarrow> ExecutionRouteFacts \<Rightarrow> bool" where
  "stale_boundary_open_step_resume_allowed status review_state_status facts \<longleftrightarrow>
     (let precedence = xf_resume_stale_precedence facts
      in is_some_and (map_option sb_task (rs_earliest_stale_boundary precedence))
           (\<lambda>earliest_task. xf_open_step_task facts = Some earliest_task) \<and>
         review_state_status = REVIEW_STATE_STALE_UNREVIEWED \<and> st_blocking_task status = None \<and>
         task_scope_structural_review_state_reason status = None \<or>
         rs_open_step_precedes_earliest_stale_boundary precedence \<and>
         review_state_status = REVIEW_STATE_STALE_UNREVIEWED \<and>
         task_scope_structural_review_state_reason status = None)"

definition open_step_route ::
  "PlanningObservations \<Rightarrow> ExecutionContext \<Rightarrow> PlanExecutionStatus \<Rightarrow> string \<Rightarrow> NextActionAuthorityInputs \<Rightarrow>
   ExecutionRouteFacts \<Rightarrow> NextActionDecision option" where
  "open_step_route ob context status review_state_status ai facts =
     (if xf_open_step_task facts = None \<or>
         rs_open_step_preempted_by_earlier_stale (xf_resume_stale_precedence facts) \<or>
         xf_open_step_preempted_by_execution_reentry_blocker facts \<or>
         xf_open_step_preempted_by_closure_recording_ready facts \<or>
         task_scope_pivot_override_active status review_state_status then None
      else if review_state_status = REVIEW_STATE_STALE_UNREVIEWED \<and> ai_has_authoritative_stale_target ai \<and>
        ai_authoritative_stale_target ai = None
      then Some (missing_execution_reentry_target_decision status review_state_status)
      else if execution_reentry_requires_review_state_repair_with_authority ob status \<and>
        \<not> stale_boundary_open_step_resume_allowed status review_state_status facts \<and>
        \<not> late_stage_negative_result_reroute status review_state_status (xf_facts facts) \<and> st_reason_codes status \<noteq> []
      then Some (execution_repair_decision ob context status review_state_status ai)
      else decision_from_execution_command_route_target status
        (resolve_execution_command_route_target_for_next_action status (ai_route_repair_target_candidates ai)))"

definition stale_boundary_route ::
  "PlanningObservations \<Rightarrow> ExecutionContext \<Rightarrow> PlanExecutionStatus \<Rightarrow> string \<Rightarrow> NextActionAuthorityInputs \<Rightarrow>
   ExecutionRouteFacts \<Rightarrow> NextActionDecision option" where
  "stale_boundary_route ob context status review_state_status ai facts =
     map_option (\<lambda>boundary.
       let stale_task = sb_task boundary;
           baseline = (sb_source boundary = BoundaryTaskClosureBaselineBridge)
       in if task_closure_baseline_bridge_stale_boundary_route_ready ob context status ai review_state_status stale_task \<or>
             baseline \<and> close_current_task_public_repair_target_for_task (ai_route_repair_target_candidates ai) stale_task
          then task_closure_recording_ready_decision status (xf_facts facts) stale_task
          else if baseline then missing_execution_reentry_target_decision status review_state_status
          else execution_reentry_decision_for_task ob context status review_state_status stale_task True)
       (rs_earliest_stale_boundary (xf_resume_stale_precedence facts))"

definition task_review_pending_decision ::
  "PlanningObservations \<Rightarrow> ExecutionContext \<Rightarrow> PlanExecutionStatus \<Rightarrow> string \<Rightarrow> NextActionAuthorityInputs \<Rightarrow> bool \<Rightarrow>
   nat \<Rightarrow> NextActionDecision" where
  "task_review_pending_decision ob context status review_state_status ai external_review_result_ready task_number =
     (let f = precomputed_current_task_closure_branch_route_facts ai
      in case task_closure_baseline_bridge_task_review_pending_route_task ob context status ai review_state_status
          task_number of
        Some t \<Rightarrow> task_closure_recording_ready_decision status f t
      | None \<Rightarrow>
          if task_closure_baseline_bridge_task_review_result_ready_promotes_recording status external_review_result_ready
          then task_closure_recording_ready_decision status f task_number
          else closure_prerequisite_decision status ActWaitForTaskReviewResult DETAIL_TASK_REVIEW_RESULT_PENDING
            (Some task_number) None)"

definition closure_recording_task ::
  "PlanningObservations \<Rightarrow> ExecutionContext \<Rightarrow> PlanExecutionStatus \<Rightarrow> string \<Rightarrow> NextActionAuthorityInputs \<Rightarrow> bool \<Rightarrow>
   nat option" where
  "closure_recording_task ob context status review_state_status ai external_review_result_ready =
     opt_or (task_closure_baseline_bridge_blocking_task_route_task ob context status ai review_state_status)
       (opt_or (task_closure_baseline_bridge_external_review_route_task ob context status ai review_state_status
          external_review_result_ready)
          (task_closure_baseline_bridge_candidate_route_task ob context status ai review_state_status))"

definition closure_repair_required ::
  "PlanningObservations \<Rightarrow> PlanExecutionStatus \<Rightarrow> string \<Rightarrow> CurrentTaskClosureBranchRouteFacts \<Rightarrow> bool" where
  "closure_repair_required ob status review_state_status f \<longleftrightarrow>
     review_state_status \<noteq> REVIEW_STATE_STALE_UNREVIEWED \<and>
       execution_reentry_requires_review_state_repair_with_authority ob status \<and>
       \<not> late_stage_negative_result_reroute status review_state_status f \<or>
     st_harness_phase status = Executing \<and> review_state_status = REVIEW_STATE_MISSING_CURRENT_CLOSURE \<and>
       cf_branch_closure_missing f \<and> st_phase_detail status \<noteq> DETAIL_EXECUTION_REENTRY_REQUIRED \<and>
       st_blocking_task status = None \<and> st_blocking_step status = None \<and> st_active_task status = None \<and>
       st_resume_task status = None"

definition closure_prerequisite_route ::
  "PlanningObservations \<Rightarrow> ExecutionContext \<Rightarrow> PlanExecutionStatus \<Rightarrow> string \<Rightarrow> NextActionAuthorityInputs \<Rightarrow>
   string option \<Rightarrow> bool \<Rightarrow> NextActionDecision option" where
  "closure_prerequisite_route ob context status review_state_status ai task_review_dispatch_id
     external_review_result_ready =
     (let f = precomputed_current_task_closure_branch_route_facts ai;
          repair = execution_repair_decision ob context status review_state_status ai
      in if closure_repair_required ob status review_state_status f then Some repair
         else case late_stage_execution_reentry_decision ob context status review_state_status ai of
           Some d \<Rightarrow> Some d
         | None \<Rightarrow>
             if set_has_non_branch_contributing_closure_without_branch f then Some repair
             else case task_review_result_pending_task status task_review_dispatch_id of
               Some task_number \<Rightarrow> Some (task_review_pending_decision ob context status review_state_status ai
                 external_review_result_ready task_number)
             | None \<Rightarrow> (case closure_recording_task ob context status review_state_status ai external_review_result_ready of
                 Some task_number \<Rightarrow> Some (task_closure_recording_ready_decision status f task_number)
               | None \<Rightarrow> map_option (\<lambda>task_number. execution_reentry_decision_for_task ob context status
                   review_state_status task_number False) (execution_reentry_blocking_task ob status ai)))"

definition no_open_step :: "PlanExecutionStatus \<Rightarrow> bool" where
  "no_open_step status \<longleftrightarrow> st_active_task status = None \<and> st_active_step status = None \<and>
     st_resume_task status = None \<and> st_resume_step status = None \<and> st_blocking_step status = None"

definition first_unchecked_step :: "ExecutionContext \<Rightarrow> PlanExecutionStatus \<Rightarrow> PlanStepState option" where
  "first_unchecked_step context status =
     List.find (\<lambda>s. \<not> ss_checked s \<and> \<not> status_has_current_task_closure_for_task status (ss_task_number s))
       (ec_steps context)"

definition INITIAL_AUTHORITATIVE_SEQUENCE :: nat where [simp]:
  "INITIAL_AUTHORITATIVE_SEQUENCE = 0"

definition authoritative_open_step_marker_loss ::
  "ExecutionContext \<Rightarrow> PlanExecutionStatus \<Rightarrow> CurrentTaskClosureBranchRouteFacts \<Rightarrow> bool" where
  "authoritative_open_step_marker_loss context status f \<longleftrightarrow>
     st_execution_started status = ''yes'' \<and>
     (st_latest_authoritative_sequence status \<noteq> INITIAL_AUTHORITATIVE_SEQUENCE \<or> ec_attempts context \<noteq> []) \<and>
     no_open_step status \<and> st_blocking_task status = None \<and> \<not> cf_set_present f"

definition begin_phase ::
  "PlanExecutionStatus \<Rightarrow> CurrentTaskClosureBranchRouteFacts \<Rightarrow> string \<times> string" where
  "begin_phase status f =
     (if st_execution_mode status \<noteq> ''none'' \<and> st_execution_started status = ''no'' \<and> no_open_step status \<and>
         st_blocking_task status = None \<and> \<not> cf_set_present f
      then (PHASE_EXECUTION_PREFLIGHT, DETAIL_EXECUTION_IN_PROGRESS)
      else if st_execution_started status = ''yes'' then (PHASE_EXECUTING, DETAIL_EXECUTION_REENTRY_REQUIRED)
      else (PHASE_EXECUTION_PREFLIGHT, DETAIL_EXECUTION_PREFLIGHT_REQUIRED))"

definition first_unchecked_step_route ::
  "ExecutionContext \<Rightarrow> PlanExecutionStatus \<Rightarrow> string \<Rightarrow> CurrentTaskClosureBranchRouteFacts \<Rightarrow> NextActionDecision option" where
  "first_unchecked_step_route context status review_state_status f =
     map_option (\<lambda>s.
       let task_number = ss_task_number s; (phase, phase_detail) = begin_phase status f
       in if authoritative_open_step_marker_loss context status f \<or>
             st_execution_started status = ''yes'' \<and> status_has_current_task_closure_for_task status task_number \<and>
               no_open_step status
          then execution_repair_decision_for_task status review_state_status task_number
          else \<lparr>nd_kind = ActBegin, nd_phase = phase, nd_phase_detail = phase_detail,
            nd_review_state_status = review_state_status, nd_task_number = Some task_number,
            nd_step_number = Some (ss_step_number s),
            nd_blocking_task = then_some (st_execution_started status = ''yes'' \<or> cf_set_present f) task_number,
            nd_blocking_reason_codes = st_reason_codes status\<rparr>)
       (first_unchecked_step context status)"

record NextActionRequestInputs =
  nr_external_review_result_ready :: bool
  nr_task_review_dispatch_id :: "string option"
  nr_final_review_dispatch_id :: "string option"
  nr_final_review_dispatch_lineage_present :: bool
  nr_final_review_outcome_recorded_for_current_dispatch :: bool

definition seeded_authority_inputs ::
  "PlanningObservations \<Rightarrow> PlanExecutionStatus \<Rightarrow> NextActionAuthorityInputs \<Rightarrow> NextActionAuthorityInputs" where
  "seeded_authority_inputs ob status ai =
     ai\<lparr>ai_current_task_closure_branch_route_facts :=
       Some (current_task_closure_branch_route_facts_or_derive ob ai status)\<rparr>"

definition next_action_routes ::
  "PlanningObservations \<Rightarrow> ExecutionContext \<Rightarrow> PlanExecutionStatus \<Rightarrow> NextActionRequestInputs \<Rightarrow>
   NextActionAuthorityInputs \<Rightarrow> NextActionDecision option list" where
  "next_action_routes ob context status request ai =
     (let review = canonical_review_state_status status;
          facts = execution_route_facts ob context status review ai
      in [missing_authoritative_stale_reentry_target_route status review ai,
          hard_structural_corruption_route ob context status review ai facts,
          completed_execution_missing_branch_closure_route ob context status review ai facts,
          branch_rerecording_route ob context status review ai (xf_legal_begin_route_active facts) (xf_facts facts),
          open_step_route ob context status review ai facts,
          stale_boundary_route ob context status review ai facts,
          closure_prerequisite_route ob context status review ai (nr_task_review_dispatch_id request)
            (nr_external_review_result_ready request),
          late_stage_milestone_route ob context status
            \<lparr>li_external_review_result_ready = nr_external_review_result_ready request,
             li_final_review_dispatch_id = nr_final_review_dispatch_id request,
             li_final_review_dispatch_lineage_present = nr_final_review_dispatch_lineage_present request,
             li_final_review_outcome_recorded_for_current_dispatch =
               nr_final_review_outcome_recorded_for_current_dispatch request,
             li_gate_finish = ai_gate_finish ai, li_facts = xf_facts facts\<rparr> review ai,
          first_unchecked_step_route context status review (xf_facts facts)])"

definition compute_next_action_decision_with_authority_inputs ::
  "PlanningObservations \<Rightarrow> ExecutionContext \<Rightarrow> PlanExecutionStatus \<Rightarrow> NextActionRequestInputs \<Rightarrow>
   NextActionAuthorityInputs \<Rightarrow> NextActionDecision option" where
  "compute_next_action_decision_with_authority_inputs ob context status request ai =
     Some (unwrap_or (late_stage_decision status ActPlanningReentry DETAIL_PLANNING_REENTRY_REQUIRED)
       (find_map (\<lambda>d. d) (next_action_routes ob context status request (seeded_authority_inputs ob status ai))))"

definition next_action_decision_for_route_plan ::
  "PlanningObservations \<Rightarrow> RuntimeState \<Rightarrow> bool \<Rightarrow> NextActionAuthorityInputs \<Rightarrow> NextActionDecision option" where
  "next_action_decision_for_route_plan ob runtime_state external_review_result_ready ai =
     compute_next_action_decision_with_authority_inputs ob (rn_context runtime_state) (rn_status runtime_state)
       \<lparr>nr_external_review_result_ready = external_review_result_ready,
        nr_task_review_dispatch_id = rn_task_review_dispatch_id runtime_state,
        nr_final_review_dispatch_id = fd_dispatch_id (rn_final_review_dispatch_authority runtime_state),
        nr_final_review_dispatch_lineage_present =
          fd_lineage_present (rn_final_review_dispatch_authority runtime_state),
        nr_final_review_outcome_recorded_for_current_dispatch =
          rn_final_review_outcome_recorded_for_current_dispatch runtime_state\<rparr> ai"

end
