(* ===== verification/Route_Plan.thy ===== *)
theory Route_Plan
  imports Next_Action
begin

text \<open>
  The route plan (\<^verbatim>\<open>route_plan.rs\<close>, \<^verbatim>\<open>planning_facts.rs\<close>, \<^verbatim>\<open>finalization_facts.rs\<close>,
  \<^verbatim>\<open>next_action_finalization.rs\<close>, \<^verbatim>\<open>next_action_route.rs\<close>, \<^verbatim>\<open>final_review_dispatch.rs\<close>,
  \<^verbatim>\<open>stale_repair_target.rs\<close> and \<^verbatim>\<open>repair_follow_up_binding.rs\<close>): from a runtime state to the route decision
  and the status that reports it.

  What binding a follow-up to its source decision reads (the hash of a decision, the follow-up that is still
  actionable, the repair targets of the authoritative state) is the record \<^verbatim>\<open>RouteBindingObservations\<close>.
\<close>

subsection \<open>Stale repair targets\<close>

definition projected_stale_repair_task :: "PlanExecutionStatus \<Rightarrow> nat option" where
  "projected_stale_repair_task status = opt_or (st_blocking_task status) (blocking_task_from_status_records status)"

definition targetless_stale_has_concrete_public_target :: "bool \<Rightarrow> bool \<Rightarrow> bool" where
  "targetless_stale_has_concrete_public_target stale_bound reentry_bound \<longleftrightarrow> stale_bound \<and> reentry_bound"

definition stale_task_scope_lacks_concrete_public_target ::
  "PlanExecutionStatus \<Rightarrow> string \<Rightarrow> bool \<Rightarrow> bool \<Rightarrow> bool" where
  "stale_task_scope_lacks_concrete_public_target status review_state_status stale_bound reentry_bound \<longleftrightarrow>
     review_state_status = REVIEW_STATE_STALE_UNREVIEWED \<and> st_blocking_scope status = Some ''task'' \<and>
     st_blocking_task status \<noteq> None \<and> \<not> targetless_stale_has_concrete_public_target stale_bound reentry_bound"

subsection \<open>Planning facts\<close>

record ExecutionReentryTaskClosureBridgeFacts =
  bf_earliest_task_stale_target :: "AuthoritativeStaleTarget option"
  bf_close_current_task_repair_targets :: "PublicRepairTarget list"
  bf_task_review_dispatch_id_present :: bool
  bf_baseline_bridge_route_ready_for_blocking_task :: bool

definition bridge_facts_route_task ::
  "ExecutionReentryTaskClosureBridgeFacts \<Rightarrow> ExecutionContext \<Rightarrow> PlanExecutionStatus \<Rightarrow> string \<Rightarrow> nat option \<Rightarrow>
   nat option \<Rightarrow> nat option" where
  "bridge_facts_route_task facts context status phase_detail seed_blocking_task command_context_task =
     execution_reentry_task_closure_bridge_route_task context status
       \<lparr>eb_phase_detail = phase_detail, eb_seed_blocking_task = seed_blocking_task,
        eb_command_context_task = command_context_task,
        eb_earliest_task_stale_target = bf_earliest_task_stale_target facts,
        eb_close_current_task_repair_targets = bf_close_current_task_repair_targets facts,
        eb_task_review_dispatch_id_present = bf_task_review_dispatch_id_present facts,
        eb_baseline_bridge_route_ready_for_blocking_task = bf_baseline_bridge_route_ready_for_blocking_task facts\<rparr>"

record RoutePlanningFacts =
  pf_earliest_stale_task_target :: "nat option"
  pf_targetless_stale_reconcile_required :: bool
  pf_baseline_bridge_repair_review_state_ready :: bool
  pf_baseline_bridge_close_current_task_candidate :: "nat option"
  pf_baseline_bridge_execution_reentry_task :: "nat option"
  pf_execution_reentry_task_closure_bridge_facts :: ExecutionReentryTaskClosureBridgeFacts
  pf_execution_reentry_target_source :: "string option"
  pf_completed_task_closure_preemption_tasks :: "nat list"
  pf_fallback_completed_task_closure_preemption_task :: "nat option"
  pf_persisted_close_current_task_bridge_task :: "nat option"
  pf_persisted_reopen_target :: "PersistedReopenTarget option"
  pf_exact_resume_stale_task :: "nat option"
  pf_blocking_records :: "StatusBlockingRecord list"
  pf_review_state_status :: string
  pf_persisted_repair_follow_up :: "string option"
  pf_projected_stale_repair_task :: "nat option"
  pf_authoritative_stale_target_bound :: bool
  pf_actionable_stale_reentry_target_bound :: bool
  pf_targetless_stale_has_concrete_public_target :: bool
  pf_stale_task_scope_lacks_concrete_public_target :: bool
  pf_stale_resume_begin_route_candidate :: bool
  pf_negative_result_requires_execution_reentry :: bool
  pf_task_scope_structural_review_state_reason :: "string option"
  pf_current_task_closure_branch_route_facts :: CurrentTaskClosureBranchRouteFacts

record RoutePlanningFactInputs =
  pn_status :: PlanExecutionStatus
  pn_review_state_status :: string
  pn_earliest_stale_task_target :: "nat option"
  pn_legal_resume_begin_route :: bool
  pn_authoritative_stale_target_bound :: bool
  pn_actionable_stale_reentry_target_bound :: bool
  pn_baseline_bridge_repair_review_state_ready :: bool
  pn_baseline_bridge_close_current_task_candidate :: "nat option"
  pn_baseline_bridge_execution_reentry_task :: "nat option"
  pn_execution_reentry_task_closure_bridge_facts :: ExecutionReentryTaskClosureBridgeFacts
  pn_execution_reentry_target_source :: "string option"
  pn_completed_task_closure_preemption_tasks :: "nat list"
  pn_fallback_completed_task_closure_preemption_task :: "nat option"
  pn_persisted_close_current_task_bridge_task :: "nat option"
  pn_persisted_reopen_target :: "PersistedReopenTarget option"
  pn_persisted_repair_follow_up :: "string option"
  pn_current_task_closure_branch_route_facts :: CurrentTaskClosureBranchRouteFacts

definition route_planning_facts_from_inputs :: "RoutePlanningFactInputs \<Rightarrow> RoutePlanningFacts" where
  "route_planning_facts_from_inputs i =
     (let status = pn_status i; stale = pn_authoritative_stale_target_bound i;
          reentry = pn_actionable_stale_reentry_target_bound i;
          precedence = resume_precedence_from_inputs
            \<lparr>pi_status = status, pi_review_state_status = pn_review_state_status i, pi_open_step_task = None,
             pi_authoritative_stale_boundary = None, pi_baseline_stale_boundary_task = None,
             pi_exact_resume_stale_task_target = pn_earliest_stale_task_target i, pi_stale_preemption_target = None,
             pi_legal_resume_begin_route = pn_legal_resume_begin_route i,
             pi_targetless_stale_has_concrete_public_target = targetless_stale_has_concrete_public_target stale reentry\<rparr>
      in \<lparr>pf_earliest_stale_task_target = pn_earliest_stale_task_target i,
          pf_targetless_stale_reconcile_required = rs_targetless_stale_reconcile_required precedence,
          pf_baseline_bridge_repair_review_state_ready = pn_baseline_bridge_repair_review_state_ready i,
          pf_baseline_bridge_close_current_task_candidate = pn_baseline_bridge_close_current_task_candidate i,
          pf_baseline_bridge_execution_reentry_task = pn_baseline_bridge_execution_reentry_task i,
          pf_execution_reentry_task_closure_bridge_facts = pn_execution_reentry_task_closure_bridge_facts i,
          pf_execution_reentry_target_source = pn_execution_reentry_target_source i,
          pf_completed_task_closure_preemption_tasks = pn_completed_task_closure_preemption_tasks i,
          pf_fallback_completed_task_closure_preemption_task = pn_fallback_completed_task_closure_preemption_task i,
          pf_persisted_close_current_task_bridge_task = pn_persisted_close_current_task_bridge_task i,
          pf_persisted_reopen_target = pn_persisted_reopen_target i,
          pf_exact_resume_stale_task = rs_exact_resume_stale_task precedence,
          pf_blocking_records = st_blocking_records status, pf_review_state_status = pn_review_state_status i,
          pf_persisted_repair_follow_up = pn_persisted_repair_follow_up i,
          pf_projected_stale_repair_task = projected_stale_repair_task status,
          pf_authoritative_stale_target_bound = stale, pf_actionable_stale_reentry_target_bound = reentry,
          pf_targetless_stale_has_concrete_public_target = targetless_stale_has_concrete_public_target stale reentry,
          pf_stale_task_scope_lacks_concrete_public_target =
            stale_task_scope_lacks_concrete_public_target status (pn_review_state_status i) stale reentry,
          pf_stale_resume_begin_route_candidate = rs_stale_resume_begin_route_candidate precedence,
          pf_negative_result_requires_execution_reentry =
            (REASON_NEGATIVE_RESULT_REQUIRES_EXECUTION_REENTRY \<in> set (st_reason_codes status)),
          pf_task_scope_structural_review_state_reason = task_scope_structural_review_state_reason status,
          pf_current_task_closure_branch_route_facts = pn_current_task_closure_branch_route_facts i\<rparr>)"

definition is_repair_review_state_record :: "StatusBlockingRecord \<Rightarrow> bool" where
  "is_repair_review_state_record record \<longleftrightarrow> br_record_type record = ''review_state'' \<and>
     br_required_follow_up record = Some FOLLOW_UP_REPAIR_REVIEW_STATE"

definition has_repair_review_state_blocking_record :: "RoutePlanningFacts \<Rightarrow> bool" where
  "has_repair_review_state_blocking_record facts \<longleftrightarrow> list_ex is_repair_review_state_record (pf_blocking_records facts)"

definition repair_review_state_blocking_reason_code :: "RoutePlanningFacts \<Rightarrow> string option" where
  "repair_review_state_blocking_reason_code facts =
     map_option br_code (List.find is_repair_review_state_record (pf_blocking_records facts))"

definition persisted_repair_follow_up_is :: "RoutePlanningFacts \<Rightarrow> string \<Rightarrow> bool" where
  "persisted_repair_follow_up_is facts expected \<longleftrightarrow> pf_persisted_repair_follow_up facts = Some expected"

definition targetless_stale_lacks_concrete_public_target :: "RoutePlanningFacts \<Rightarrow> bool" where
  "targetless_stale_lacks_concrete_public_target facts \<longleftrightarrow>
     pf_review_state_status facts = REVIEW_STATE_STALE_UNREVIEWED \<and>
     \<not> pf_actionable_stale_reentry_target_bound facts \<and> \<not> pf_targetless_stale_has_concrete_public_target facts \<and>
     (\<not> pf_authoritative_stale_target_bound facts \<or> pf_stale_task_scope_lacks_concrete_public_target facts \<or>
      pf_stale_resume_begin_route_candidate facts)"

definition route_execution_reentry_task_closure_bridge ::
  "RoutePlanningFacts \<Rightarrow> ExecutionContext \<Rightarrow> PlanExecutionStatus \<Rightarrow> string \<Rightarrow> nat option \<Rightarrow> nat option \<Rightarrow> nat option" where
  "route_execution_reentry_task_closure_bridge facts context status phase_detail seed_blocking_task command_context_task =
     bridge_facts_route_task (pf_execution_reentry_task_closure_bridge_facts facts) context status phase_detail
       seed_blocking_task command_context_task"

definition completed_task_closure_preemption_task ::
  "RoutePlanningFacts \<Rightarrow> PlanExecutionStatus \<Rightarrow> nat option \<Rightarrow> nat option" where
  "completed_task_closure_preemption_task facts status preferred_task =
     opt_filter (\<lambda>task. task \<in> set (pf_completed_task_closure_preemption_tasks facts))
       (opt_or preferred_task (opt_or (st_active_task status) (opt_or (st_resume_task status)
         (opt_or (st_blocking_task status) (pf_fallback_completed_task_closure_preemption_task facts)))))"

definition execution_reentry_target_source_for_route ::
  "PlanningObservations \<Rightarrow> RuntimeState \<Rightarrow> PlanExecutionStatus \<Rightarrow> string \<Rightarrow> NextActionAuthorityInputs \<Rightarrow> string option" where
  "execution_reentry_target_source_for_route ob runtime_state status phase_detail ai =
     (if phase_detail \<noteq> DETAIL_EXECUTION_REENTRY_REQUIRED then None
      else map_option (\<lambda>target. reentry_target_source_as_str (et_source target))
        (execution_reentry_target ob (rn_context runtime_state) status ai))"

definition next_action_authority_inputs_for_route_plan ::
  "PlanningObservations \<Rightarrow> RuntimeState \<Rightarrow> PlanExecutionStatus \<Rightarrow> NextActionAuthorityInputs" where
  "next_action_authority_inputs_for_route_plan ob runtime_state status =
     (next_action_authority_inputs_from_gate_snapshot status (rn_gate_snapshot runtime_state)
       \<lparr>sc_persisted_repair_follow_up = rn_persisted_repair_follow_up runtime_state,
        sc_branch_rerecording_assessment = rn_branch_rerecording_assessment runtime_state, sc_gate_finish = None,
        sc_route_repair_target_candidates = rn_route_repair_target_candidates runtime_state\<rparr>)
       \<lparr>ai_current_task_closure_branch_route_facts :=
          Some (current_task_closure_branch_route_facts_from_status ob status)\<rparr>"

definition persisted_reopen_target :: "PublicRepairTarget list \<Rightarrow> PersistedReopenTarget option" where
  "persisted_reopen_target candidates =
     find_map (\<lambda>candidate.
       if \<not> matches_public_mutation_token ReopenCommand (rt_command_kind candidate) \<or>
          \<not> repair_target_reason_matches PersistedExecutionReentryFollowUp (rt_reason_code candidate) then None
       else map_option (\<lambda>(task, step). \<lparr>pr_task_number = task, pr_step_number = step\<rparr>)
         (opt_zip (rt_task candidate) (rt_step candidate))) candidates"

definition legal_resume_begin_route :: "PlanExecutionStatus \<Rightarrow> PublicRepairTarget list \<Rightarrow> bool" where
  "legal_resume_begin_route status candidates \<longleftrightarrow> legal_execution_begin_route status candidates"

definition persisted_close_current_task_bridge_task ::
  "RuntimeState \<Rightarrow> PlanExecutionStatus \<Rightarrow> NextActionAuthorityInputs \<Rightarrow> string option \<Rightarrow> nat option" where
  "persisted_close_current_task_bridge_task runtime_state status ai persisted_repair_follow_up =
     task_closure_baseline_bridge_persisted_close_current_task_route_task (rn_context runtime_state) status ai
       persisted_repair_follow_up"

definition route_planning_authority_for_status ::
  "PlanningObservations \<Rightarrow> RuntimeState \<Rightarrow> PlanExecutionStatus \<Rightarrow> NextActionAuthorityInputs \<Rightarrow> RoutePlanningFacts" where
  "route_planning_authority_for_status ob runtime_state status ai =
     (let context = rn_context runtime_state;
          review_state_status = effective_review_state_status status (st_review_state_status status);
          repair_route = task_closure_baseline_bridge_repair_review_state_route ob context status ai review_state_status;
          earliest = earliest_task_stale_target_details (rn_gate_snapshot runtime_state);
          candidates = rn_route_repair_target_candidates runtime_state;
          tasks = map fst (ec_tasks_by_number context)
      in route_planning_facts_from_inputs
       \<lparr>pn_status = status, pn_review_state_status = review_state_status,
        pn_earliest_stale_task_target = earliest_task_stale_target (rn_gate_snapshot runtime_state),
        pn_legal_resume_begin_route = legal_resume_begin_route status candidates,
        pn_authoritative_stale_target_bound = ai_has_authoritative_stale_target ai,
        pn_actionable_stale_reentry_target_bound = (ai_authoritative_stale_target ai \<noteq> None),
        pn_baseline_bridge_repair_review_state_ready = (repair_route \<noteq> None),
        pn_baseline_bridge_close_current_task_candidate = Option.bind repair_route (\<lambda>target_task. target_task),
        pn_baseline_bridge_execution_reentry_task =
          res_unwrap_or None (task_closure_baseline_bridge_route_task ob status ai),
        pn_execution_reentry_task_closure_bridge_facts =
          \<lparr>bf_earliest_task_stale_target = earliest, bf_close_current_task_repair_targets = candidates,
           bf_task_review_dispatch_id_present = (rn_task_review_dispatch_id runtime_state \<noteq> None),
           bf_baseline_bridge_route_ready_for_blocking_task =
             task_closure_baseline_bridge_route_ready_for_status ob status ai earliest\<rparr>,
        pn_execution_reentry_target_source = execution_reentry_target_source_for_route ob runtime_state status
          DETAIL_EXECUTION_REENTRY_REQUIRED ai,
        pn_completed_task_closure_preemption_tasks =
          filter (completed_task_closure_preempts_execution_reentry ob context status ai review_state_status) tasks,
        pn_fallback_completed_task_closure_preemption_task = iter_max tasks,
        pn_persisted_close_current_task_bridge_task = persisted_close_current_task_bridge_task runtime_state status ai
          (rn_persisted_repair_follow_up runtime_state),
        pn_persisted_reopen_target = persisted_reopen_target candidates,
        pn_persisted_repair_follow_up = rn_persisted_repair_follow_up runtime_state,
        pn_current_task_closure_branch_route_facts =
          current_task_closure_branch_route_facts_or_derive ob ai status\<rparr>)"

subsection \<open>Finalising a next action\<close>

record RouteFinalization =
  rf_phase_detail :: string
  rf_review_state_status :: string
  rf_recording_context :: "PublicRecordingContext option"
  rf_execution_command_context :: "PublicExecutionCommandContext option"
  rf_next_action :: string
  rf_recommended_public_command :: "PublicCommand option"
  rf_blocking_task :: "nat option"

definition finalization_from_decision :: "PlanExecutionStatus \<Rightarrow> NextActionDecision \<Rightarrow> string \<Rightarrow> RouteFinalization" where
  "finalization_from_decision status decision plan_path =
     \<lparr>rf_phase_detail = nd_phase_detail decision, rf_review_state_status = nd_review_state_status decision,
      rf_recording_context = None, rf_execution_command_context = None,
      rf_next_action = public_next_action_text decision,
      rf_recommended_public_command = public_command_from_decision status decision plan_path,
      rf_blocking_task = nd_blocking_task decision\<rparr>"

definition bind_repair_review_state_command :: "string \<Rightarrow> RouteFinalization \<Rightarrow> RouteFinalization" where
  "bind_repair_review_state_command plan_path f =
     f\<lparr>rf_recommended_public_command := Some (repair_review_state_public_command plan_path)\<rparr>"

definition bind_task_closure_recording ::
  "string \<Rightarrow> nat \<Rightarrow> string option \<Rightarrow> RouteFinalization \<Rightarrow> RouteFinalization" where
  "bind_task_closure_recording plan_path task_number dispatch_id f =
     f\<lparr>rf_recording_context := Some \<lparr>rx_task_number = Some task_number, rx_dispatch_id = dispatch_id,
         rx_branch_closure_id = None\<rparr>,
       rf_recommended_public_command := Some (close_current_task_public_command plan_path task_number),
       rf_next_action := NEXT_ACTION_CLOSE_CURRENT_TASK, rf_blocking_task := Some task_number\<rparr>"

definition bind_execution_reentry_task_closure_bridge ::
  "string \<Rightarrow> nat \<Rightarrow> string option \<Rightarrow> RouteFinalization \<Rightarrow> RouteFinalization" where
  "bind_execution_reentry_task_closure_bridge plan_path task_number dispatch_id f =
     bind_task_closure_recording plan_path task_number dispatch_id
       (f\<lparr>rf_phase_detail := DETAIL_TASK_CLOSURE_RECORDING_READY,
          rf_review_state_status := REVIEW_STATE_STALE_UNREVIEWED\<rparr>)"

definition bind_branch_closure_recording :: "string \<Rightarrow> string \<Rightarrow> RouteFinalization \<Rightarrow> RouteFinalization" where
  "bind_branch_closure_recording plan_path phase_detail f =
     f\<lparr>rf_phase_detail := phase_detail, rf_recording_context := None, rf_execution_command_context := None,
       rf_recommended_public_command := public_advance_late_stage_command_for_phase_detail plan_path phase_detail,
       rf_next_action := NEXT_ACTION_ADVANCE_LATE_STAGE, rf_blocking_task := None\<rparr>"

definition bind_late_stage_command :: "string \<Rightarrow> string \<Rightarrow> nat option \<Rightarrow> RouteFinalization \<Rightarrow> RouteFinalization" where
  "bind_late_stage_command plan_path phase_detail blocking_task f =
     f\<lparr>rf_recommended_public_command := public_advance_late_stage_command_for_phase_detail plan_path phase_detail,
       rf_next_action := NEXT_ACTION_ADVANCE_LATE_STAGE, rf_blocking_task := blocking_task\<rparr>"

definition bind_repair_review_state_route :: "string \<Rightarrow> nat option \<Rightarrow> RouteFinalization \<Rightarrow> RouteFinalization" where
  "bind_repair_review_state_route plan_path blocking_task f =
     f\<lparr>rf_recommended_public_command := Some (repair_review_state_public_command plan_path),
       rf_next_action := NEXT_ACTION_REPAIR_REVIEW_STATE, rf_blocking_task := blocking_task\<rparr>"

text \<open>A route target names a public mutation (\<^verbatim>\<open>route_target_names_a_mutation\<close> below), so the \<^verbatim>\<open>expect\<close> of
  its command kind does not panic.\<close>

definition bind_exact_execution_context ::
  "PlanExecutionStatus \<Rightarrow> NextActionDecision \<Rightarrow> string \<Rightarrow> ExecutionCommandRouteTarget \<Rightarrow> RouteFinalization \<Rightarrow>
   RouteFinalization" where
  "bind_exact_execution_context status decision plan_path target f =
     f\<lparr>rf_execution_command_context := Some
         \<lparr>cx_command_kind = (case route_target_command_kind target of Inr name \<Rightarrow> name | Inl _ \<Rightarrow> []),
          cx_task_number = Some (xt_task_number target), cx_step_id = xt_step_id target\<rparr>,
       rf_recommended_public_command := public_command_from_decision status decision plan_path,
       rf_blocking_task := (if nd_kind decision = ActReopen then Some (xt_task_number target) else rf_blocking_task f)\<rparr>"

definition branch_recording_context :: "string option \<Rightarrow> string option \<Rightarrow> PublicRecordingContext option" where
  "branch_recording_context dispatch_id branch_closure_id =
     map_option (\<lambda>branch. \<lparr>rx_task_number = None, rx_dispatch_id = dispatch_id, rx_branch_closure_id = Some branch\<rparr>)
       branch_closure_id"

definition bind_final_review_recording ::
  "string \<Rightarrow> string option \<Rightarrow> string option \<Rightarrow> RouteFinalization \<Rightarrow> RouteFinalization" where
  "bind_final_review_recording plan_path dispatch_id branch_closure_id f =
     f\<lparr>rf_recording_context := branch_recording_context dispatch_id branch_closure_id,
       rf_recommended_public_command :=
         public_advance_late_stage_command_for_phase_detail plan_path DETAIL_FINAL_REVIEW_RECORDING_READY,
       rf_next_action := NEXT_ACTION_ADVANCE_LATE_STAGE\<rparr>"

definition bind_branch_stage_recording_context :: "string option \<Rightarrow> RouteFinalization \<Rightarrow> RouteFinalization" where
  "bind_branch_stage_recording_context branch_closure_id f =
     f\<lparr>rf_recording_context := branch_recording_context None branch_closure_id\<rparr>"

definition bind_follow_up_command :: "PublicCommand \<Rightarrow> RouteFinalization \<Rightarrow> RouteFinalization" where
  "bind_follow_up_command command f = f\<lparr>rf_recommended_public_command := Some command\<rparr>"

subsection \<open>The final review of a repaired branch\<close>

datatype RepairedDriftFinalReviewRouteKind = DispatchReview | WaitForReviewResult | RecordReviewResult

fun repaired_drift_phase_detail :: "RepairedDriftFinalReviewRouteKind \<Rightarrow> string" where
  "repaired_drift_phase_detail DispatchReview = DETAIL_FINAL_REVIEW_DISPATCH_REQUIRED"
| "repaired_drift_phase_detail WaitForReviewResult = DETAIL_FINAL_REVIEW_OUTCOME_PENDING"
| "repaired_drift_phase_detail RecordReviewResult = DETAIL_FINAL_REVIEW_RECORDING_READY"

fun repaired_drift_state_kind :: "RepairedDriftFinalReviewRouteKind \<Rightarrow> string" where
  "repaired_drift_state_kind WaitForReviewResult = STATE_KIND_WAITING_EXTERNAL_INPUT"
| "repaired_drift_state_kind _ = STATE_KIND_ACTIONABLE_PUBLIC_COMMAND"

fun repaired_drift_next_action :: "RepairedDriftFinalReviewRouteKind \<Rightarrow> string" where
  "repaired_drift_next_action DispatchReview = NEXT_ACTION_REQUEST_FINAL_REVIEW"
| "repaired_drift_next_action WaitForReviewResult = NEXT_ACTION_WAIT_FOR_EXTERNAL_REVIEW_RESULT"
| "repaired_drift_next_action RecordReviewResult = NEXT_ACTION_ADVANCE_LATE_STAGE"

fun repaired_drift_blocker_details :: "RepairedDriftFinalReviewRouteKind \<Rightarrow> string" where
  "repaired_drift_blocker_details DispatchReview =
     ''A fresh external final review is required before late-stage progression can continue.''"
| "repaired_drift_blocker_details WaitForReviewResult =
     ''The external final review has been dispatched; wait for the review result before continuing.''"
| "repaired_drift_blocker_details RecordReviewResult =
     ''The external final-review result is ready; record it through public advance-late-stage.''"

fun repaired_drift_required_follow_up :: "RepairedDriftFinalReviewRouteKind \<Rightarrow> string option" where
  "repaired_drift_required_follow_up WaitForReviewResult = None"
| "repaired_drift_required_follow_up _ = Some FOLLOW_UP_ADVANCE_LATE_STAGE"

definition exposes_public_command :: "RepairedDriftFinalReviewRouteKind \<Rightarrow> bool" where
  "exposes_public_command kind \<longleftrightarrow> kind \<noteq> WaitForReviewResult"

definition records_final_review_outcome :: "RepairedDriftFinalReviewRouteKind \<Rightarrow> bool" where
  "records_final_review_outcome kind \<longleftrightarrow> kind = RecordReviewResult"

definition repaired_drift_final_review_route_kind :: "bool \<Rightarrow> bool \<Rightarrow> RepairedDriftFinalReviewRouteKind" where
  "repaired_drift_final_review_route_kind dispatch_lineage_present external_review_result_ready =
     (if \<not> dispatch_lineage_present then DispatchReview
      else if external_review_result_ready then RecordReviewResult else WaitForReviewResult)"

definition repaired_drift_route ::
  "RuntimeState \<Rightarrow> string \<Rightarrow> RepairedDriftFinalReviewRouteKind \<Rightarrow> bool \<Rightarrow> RouteDecision" where
  "repaired_drift_route runtime_state branch_closure_id kind external_review_result_ready =
     (let status = rn_status runtime_state;
          phase_detail = repaired_drift_phase_detail kind;
          command = (if exposes_public_command kind
            then public_advance_late_stage_command_for_phase_detail (rn_plan_rel runtime_state) phase_detail else None);
          (recommended_command, invocation, template, inputs) = command_surfaces command;
          action = synthesize_next_public_action command phase_detail
      in apply_public_route_projection (Some status) external_review_result_ready
        \<lparr>rd_state_kind = repaired_drift_state_kind kind, rd_phase = PHASE_FINAL_REVIEW_PENDING,
         rd_phase_detail = phase_detail, rd_review_state_status = ''clean'',
         rd_next_action = repaired_drift_next_action kind,
         rd_blocking_reason_codes = compact_operator_reason_codes (Some status) phase_detail ''clean'',
         rd_blocking_scope = None, rd_blocking_task = None, rd_external_wait_state = None,
         rd_recommended_command = recommended_command, rd_recommended_public_command = command,
         rd_invocation = invocation, rd_recommended_public_command_template = template, rd_required_inputs = inputs,
         rd_required_follow_up = repaired_drift_required_follow_up kind, rd_next_public_action = action,
         rd_blockers = [\<lparr>bl_category = ''late_stage'', bl_scope_type = ''branch'', bl_scope_key = branch_closure_id,
           bl_record_id = None, bl_next_public_action = action,
           bl_details = repaired_drift_blocker_details kind\<rparr>],
         rd_public_repair_targets = [], rd_execution_reentry_target_source = None,
         rd_execution_command_context = None,
         rd_recording_context = (if records_final_review_outcome kind
           then branch_recording_context (fd_dispatch_id (rn_final_review_dispatch_authority runtime_state))
             (Some branch_closure_id) else None)\<rparr>)"

definition final_review_dispatch_route_for_repaired_late_stage_drift ::
  "RuntimeState \<Rightarrow> RoutePlanningFacts \<Rightarrow> string \<Rightarrow> bool \<Rightarrow> RouteDecision option" where
  "final_review_dispatch_route_for_repaired_late_stage_drift runtime_state facts phase_detail
     external_review_result_ready =
     (if phase_detail \<noteq> DETAIL_BRANCH_CLOSURE_RECORDING_REQUIRED_FOR_RELEASE_READINESS \<or>
         \<not> persisted_repair_follow_up_is facts FOLLOW_UP_ADVANCE_LATE_STAGE \<or>
         rn_release_readiness_result_for_current_branch runtime_state \<noteq> Some ''ready'' \<or>
         \<not> st_current_branch_meaningful_drift (rn_status runtime_state) \<or>
         rn_final_review_outcome_recorded_for_current_dispatch runtime_state then None
      else map_option (\<lambda>branch_closure_id. repaired_drift_route runtime_state branch_closure_id
          (repaired_drift_final_review_route_kind
            (fd_lineage_present (rn_final_review_dispatch_authority runtime_state)) external_review_result_ready)
          external_review_result_ready)
        (st_current_branch_closure_id (rn_status runtime_state)))"

subsection \<open>From the next action to a decision\<close>

definition close_current_task_or_branch_closure_route_decision ::
  "RuntimeState \<Rightarrow> PlanExecutionStatus \<Rightarrow> RoutePlanningFacts \<Rightarrow> nat \<Rightarrow> RouteDecision" where
  "close_current_task_or_branch_closure_route_decision runtime_state status facts task_number =
     (if task_should_route_to_branch_closure (pf_current_task_closure_branch_route_facts facts) status task_number
      then branch_closure_recording_route_decision runtime_state status
      else close_current_task_route_decision runtime_state status task_number)"

definition default_phase_for_shared_decision :: "PlanExecutionStatus \<Rightarrow> NextActionDecision \<Rightarrow> string" where
  "default_phase_for_shared_decision status decision =
     (if st_harness_phase status = ContractDrafting \<or> st_harness_phase status = PivotRequired \<or>
         st_harness_phase status = HandoffRequired
      then default_phase_for_status status else nd_phase decision)"

definition repair_review_state_reentry :: "NextActionDecision \<Rightarrow> bool" where
  "repair_review_state_reentry decision \<longleftrightarrow>
     nd_kind decision = ActReopen \<and>
     (public_next_action_text decision = NEXT_ACTION_REPAIR_REVIEW_STATE \<or>
      nd_phase_detail decision = DETAIL_EXECUTION_REENTRY_REQUIRED \<and>
      nd_review_state_status decision = REVIEW_STATE_MISSING_CURRENT_CLOSURE)"

definition seed_finalization ::
  "RuntimeState \<Rightarrow> RoutePlanningFacts \<Rightarrow> NextActionDecision \<Rightarrow> RouteFinalization" where
  "seed_finalization runtime_state facts decision =
     (let plan = rn_plan_rel runtime_state;
          start = finalization_from_decision (rn_status runtime_state) decision plan;
          repaired = (if repair_review_state_reentry decision
            then bind_repair_review_state_command plan start else start)
      in case opt_filter (\<lambda>_. rf_phase_detail repaired = DETAIL_EXECUTION_REENTRY_REQUIRED \<and>
             rf_review_state_status repaired = REVIEW_STATE_MISSING_CURRENT_CLOSURE)
           (pf_baseline_bridge_execution_reentry_task facts) of
           Some task_number \<Rightarrow> bind_execution_reentry_task_closure_bridge plan task_number
             (rn_task_review_dispatch_id runtime_state) repaired
         | None \<Rightarrow> repaired)"

definition decision_requires_exact_execution_command :: "PlanExecutionStatus \<Rightarrow> NextActionDecision \<Rightarrow> bool" where
  "decision_requires_exact_execution_command status decision \<longleftrightarrow>
     nd_kind decision = ActBegin \<or> nd_kind decision = ActResume \<or>
     nd_kind decision = ActReopen \<and> \<not> repair_review_state_reentry decision \<or>
     nd_kind decision = ActCloseCurrentTask \<and> st_active_task status \<noteq> None \<and> st_active_step status \<noteq> None"

text \<open>The binding of the exact step; nothing when one is demanded and the decision names none.\<close>

definition bind_exact_step ::
  "RuntimeState \<Rightarrow> NextActionDecision \<Rightarrow> bool \<Rightarrow> RouteFinalization \<Rightarrow> RouteFinalization option" where
  "bind_exact_step runtime_state decision require_exact f =
     (let status = rn_status runtime_state; plan = rn_plan_rel runtime_state
      in if \<not> decision_requires_exact_execution_command status decision then Some f
         else case execution_command_route_target_from_decision status decision plan of
           None \<Rightarrow> if require_exact then None else Some f
         | Some target \<Rightarrow> Some (bind_exact_execution_context status decision plan target f))"

definition bind_recording ::
  "RuntimeState \<Rightarrow> NextActionDecision \<Rightarrow> RouteFinalization \<Rightarrow> RouteFinalization" where
  "bind_recording runtime_state decision f =
     (let status = rn_status runtime_state; plan = rn_plan_rel runtime_state;
          task = opt_or (nd_task_number decision) (st_blocking_task status);
          record = (\<lambda>task_number. bind_task_closure_recording plan task_number
            (rn_task_review_dispatch_id runtime_state) f)
      in if rf_phase_detail f = DETAIL_TASK_CLOSURE_RECORDING_READY \<and> \<not> task_closure_recording_harness status then
           (case opt_filter (\<lambda>_. nd_kind decision = ActCloseCurrentTask) task of
              Some task_number \<Rightarrow> record task_number
            | None \<Rightarrow>
                if rf_review_state_status f = REVIEW_STATE_MISSING_CURRENT_CLOSURE
                then bind_late_stage_command plan DETAIL_BRANCH_CLOSURE_RECORDING_REQUIRED_FOR_RELEASE_READINESS task f
                else bind_repair_review_state_route plan task f)
         else if rf_phase_detail f = DETAIL_TASK_CLOSURE_RECORDING_READY then
           (case task of Some task_number \<Rightarrow> record task_number | None \<Rightarrow> f)
         else if rf_phase_detail f = DETAIL_FINAL_REVIEW_RECORDING_READY then
           bind_final_review_recording plan (fd_dispatch_id (rn_final_review_dispatch_authority runtime_state))
             (st_current_branch_closure_id status) f
         else if rf_phase_detail f = DETAIL_RELEASE_READINESS_RECORDING_READY \<or>
           rf_phase_detail f = DETAIL_RELEASE_BLOCKER_RESOLUTION_REQUIRED then
           bind_branch_stage_recording_context (st_current_branch_closure_id status) f
         else f)"

definition bind_branch_refresh :: "RuntimeState \<Rightarrow> RouteFinalization \<Rightarrow> RouteFinalization" where
  "bind_branch_refresh runtime_state f =
     (if rf_phase_detail f = DETAIL_TASK_CLOSURE_RECORDING_READY \<and>
         branch_closure_refresh_missing_current_closure (rn_status runtime_state)
      then bind_branch_closure_recording (rn_plan_rel runtime_state)
        DETAIL_BRANCH_CLOSURE_RECORDING_REQUIRED_FOR_RELEASE_READINESS f
      else f)"

definition planning_reentry_closure_task ::
  "RuntimeState \<Rightarrow> RouteFinalization \<Rightarrow> nat option" where
  "planning_reentry_closure_task runtime_state f =
     (let status = rn_status runtime_state
      in if rf_phase_detail f = DETAIL_PLANNING_REENTRY_REQUIRED \<and> st_execution_started status = ''yes'' \<and>
            st_current_branch_closure_id status = None \<and>
            REASON_CODE_BLOCKED_ON_PLAN_REVISION \<notin> set (st_reason_codes status)
         then opt_or (st_blocking_task status) (iter_max (map fst (ec_tasks_by_number (rn_context runtime_state))))
         else None)"

definition bind_follow_up ::
  "RuntimeState \<Rightarrow> RoutePlanningFacts \<Rightarrow> NextActionDecision \<Rightarrow> RouteFinalization \<Rightarrow> RouteFinalization" where
  "bind_follow_up runtime_state facts decision f =
     (if rf_recommended_public_command f = None \<and>
         rf_phase_detail f \<notin> set RECOMMENDED_COMMAND_OMITTED_PHASE_DETAILS \<and>
         \<not> from_phase_and_reason_codes (rf_phase_detail f) (nd_blocking_reason_codes decision)
      then (case pf_blocking_records facts of
          [] \<Rightarrow> f
        | record # _ \<Rightarrow>
            (case public_command_for_required_follow_up (br_required_follow_up record) (rn_plan_rel runtime_state)
                (rf_phase_detail f) (Some (br_record_type record)) of
               Some command \<Rightarrow> bind_follow_up_command command f
             | None \<Rightarrow> f))
      else f)"

text \<open>The blocking task, reason code and target source of a repair that reopens a current closure are fixed;
  every other override closes the task or records the branch closure.\<close>

definition finalized_route_decision ::
  "RuntimeState \<Rightarrow> RoutePlanningFacts \<Rightarrow> NextActionDecision \<Rightarrow> RouteFinalization \<Rightarrow> bool \<Rightarrow> RouteDecision" where
  "finalized_route_decision runtime_state facts decision f external_review_result_ready =
     (let status = rn_status runtime_state; plan = rn_plan_rel runtime_state;
          phase_detail = rf_phase_detail f; ctx = rf_execution_command_context f;
          command = rf_recommended_public_command f;
          (recommended_command, invocation, template, inputs) = command_surfaces command;
          action = synthesize_next_public_action command phase_detail;
          review_state_status = effective_route_review_state_status status phase_detail (rf_review_state_status f);
          codes = merge_reason_codes
            (public_route_blocking_reason_codes status phase_detail (rf_blocking_task f) (nd_blocking_reason_codes decision))
            (compact_route_reason_codes status phase_detail review_state_status (rf_blocking_task f) None);
          wait = opt_or (external_wait_state_for_phase_detail phase_detail codes external_review_result_ready)
            (st_external_wait_state status);
          state_kind = derive_state_kind_from_seed wait (st_harness_phase status) phase_detail
            (state_kind_command_marker command)
      in apply_public_route_projection (Some status) external_review_result_ready
        \<lparr>rd_state_kind = state_kind,
         rd_phase = canonical_phase_for_shared_decision (default_phase_for_shared_decision status decision) phase_detail,
         rd_phase_detail = phase_detail, rd_review_state_status = review_state_status,
         rd_next_action = rf_next_action f, rd_blocking_reason_codes = codes, rd_blocking_scope = None,
         rd_blocking_task = None, rd_external_wait_state = None, rd_recommended_command = recommended_command,
         rd_recommended_public_command = command, rd_invocation = invocation,
         rd_recommended_public_command_template = template, rd_required_inputs = inputs,
         rd_required_follow_up = derive_required_follow_up status phase_detail review_state_status codes ctx,
         rd_next_public_action = action,
         rd_blockers = (if targetless_stale_reconcile_for_phase phase_detail codes
           then targetless_stale_reconcile_blockers phase_detail
           else materialize_blocker_actions (primary_blocker_for_status status state_kind action) plan),
         rd_public_repair_targets = [],
         rd_execution_reentry_target_source = opt_or
           (if phase_detail = DETAIL_EXECUTION_REENTRY_REQUIRED then pf_execution_reentry_target_source facts else None)
           (task_closure_recording_reentry_target_source phase_detail codes),
         rd_execution_command_context = ctx, rd_recording_context = rf_recording_context f\<rparr>)"

definition bound_finalization ::
  "RuntimeState \<Rightarrow> RoutePlanningFacts \<Rightarrow> NextActionDecision \<Rightarrow> bool \<Rightarrow> RouteFinalization option" where
  "bound_finalization runtime_state facts decision require_exact =
     map_option (\<lambda>f. bind_branch_refresh runtime_state (bind_recording runtime_state decision f))
       (bind_exact_step runtime_state decision require_exact (seed_finalization runtime_state facts decision))"

definition route_decision_from_bound_finalization ::
  "RuntimeState \<Rightarrow> RoutePlanningFacts \<Rightarrow> bool \<Rightarrow> bool \<Rightarrow> NextActionDecision \<Rightarrow> RouteFinalization \<Rightarrow> RouteDecision" where
  "route_decision_from_bound_finalization runtime_state facts handoff external_review_result_ready decision f =
     (let status = rn_status runtime_state;
          close = close_current_task_or_branch_closure_route_decision runtime_state status facts;
          ctx = rf_execution_command_context f;
          context_task = Option.bind ctx cx_task_number
      in case planning_reentry_closure_task runtime_state f of
           Some task_number \<Rightarrow> close task_number
         | None \<Rightarrow>
       (case final_review_dispatch_route_for_repaired_late_stage_drift runtime_state facts (rf_phase_detail f)
           external_review_result_ready of
           Some d \<Rightarrow> d
         | None \<Rightarrow>
             let f = bind_follow_up runtime_state facts decision f in
       (case opt_filter (\<lambda>_. \<not> handoff \<and> rf_phase_detail f = DETAIL_EXECUTION_REENTRY_REQUIRED)
           (completed_task_closure_preemption_task facts status context_task) of
           Some task_number \<Rightarrow> close task_number
         | None \<Rightarrow>
             if command_context_reopens_current_task_closure status ctx
             then repair_review_state_route_decision runtime_state status (opt_or (rf_blocking_task f) context_task)
               TASK_BOUNDARY_REASON_PRIOR_TASK_CURRENT_CLOSURE_STALE (pf_execution_reentry_target_source facts)
             else case route_execution_reentry_task_closure_bridge facts (rn_context runtime_state) status
                 (rf_phase_detail f) (rf_blocking_task f) context_task of
               Some task_number \<Rightarrow> close task_number
             | None \<Rightarrow> finalized_route_decision runtime_state facts decision f
                 external_review_result_ready)))"

text \<open>Nothing in the finalisation fails, so its result is the \<^verbatim>\<open>Ok\<close> value.\<close>

definition route_decision_from_next_action_decision ::
  "RuntimeState \<Rightarrow> RoutePlanningFacts \<Rightarrow> bool \<Rightarrow> bool \<Rightarrow> bool \<Rightarrow> NextActionDecision \<Rightarrow> RouteDecision option" where
  "route_decision_from_next_action_decision runtime_state facts handoff external_review_result_ready require_exact
     decision =
     map_option (route_decision_from_bound_finalization runtime_state facts handoff external_review_result_ready decision)
       (bound_finalization runtime_state facts decision require_exact)"

definition route_decision_from_next_action_choice ::
  "RuntimeState \<Rightarrow> RoutePlanningFacts \<Rightarrow> NextActionDecision option \<Rightarrow> bool \<Rightarrow> bool \<Rightarrow> bool \<Rightarrow> RouteDecision option" where
  "route_decision_from_next_action_choice runtime_state facts decision handoff external_review_result_ready require_exact =
     Option.bind decision (route_decision_from_next_action_decision runtime_state facts handoff
       external_review_result_ready require_exact)"

subsection \<open>Selecting the route\<close>

definition branch_closure_preempts_route :: "RuntimeState \<Rightarrow> RoutePlanningFacts \<Rightarrow> bool" where
  "branch_closure_preempts_route runtime_state facts \<longleftrightarrow>
     pf_review_state_status facts = REVIEW_STATE_MISSING_CURRENT_CLOSURE \<and>
     set_should_route_to_branch_closure (pf_current_task_closure_branch_route_facts facts) \<and>
     is_some_and (rn_branch_rerecording_assessment runtime_state) ba_supported \<and>
     (let phase = st_harness_phase (rn_status runtime_state)
      in phase = DocumentReleasePending \<or> phase = FinalReviewPending \<or> phase = QaPending \<or>
         phase = ReadyForBranchCompletion \<or> phase = Executing)"

definition blocking_record_demands_repair :: "RoutePlanningFacts \<Rightarrow> bool" where
  "blocking_record_demands_repair facts \<longleftrightarrow>
     has_repair_review_state_blocking_record facts \<and> \<not> pf_baseline_bridge_repair_review_state_ready facts \<and>
     \<not> pf_actionable_stale_reentry_target_bound facts \<and> \<not> pf_negative_result_requires_execution_reentry facts"

definition select_primary_runtime_route_decision ::
  "PlanningObservations \<Rightarrow> RuntimeState \<Rightarrow> RoutePlanningFacts \<Rightarrow> NextActionAuthorityInputs \<Rightarrow> bool \<Rightarrow> bool \<Rightarrow>
   RouteDecision" where
  "select_primary_runtime_route_decision ob runtime_state facts ai external_review_result_ready require_exact =
     (let status = rn_status runtime_state;
          decision = next_action_decision_for_route_plan ob runtime_state external_review_result_ready ai;
          chosen = route_decision_from_next_action_choice runtime_state facts decision (handoff_route_active status)
            external_review_result_ready require_exact;
          source = pf_execution_reentry_target_source facts;
          stale_task = pf_projected_stale_repair_task facts;
          reconcile = runtime_reconcile_route_decision runtime_state status stale_task
            TARGETLESS_STALE_RECONCILE_REASON_CODE
      in if branch_closure_preempts_route runtime_state facts
         then branch_closure_recording_route_decision runtime_state status
         else case opt_filter (\<lambda>_. pf_stale_resume_begin_route_candidate facts) chosen of
           Some d \<Rightarrow> d
         | None \<Rightarrow>
             if pf_targetless_stale_reconcile_required facts then reconcile
             else case pf_task_scope_structural_review_state_reason facts of
               Some reason_code \<Rightarrow> repair_review_state_route_decision runtime_state status
                 (opt_or stale_task (map_option crt_task (current_task_closure_route_target status))) reason_code source
             | None \<Rightarrow>
                 (case pf_persisted_close_current_task_bridge_task facts of
                    Some task_number \<Rightarrow>
                      close_current_task_or_branch_closure_route_decision runtime_state status facts task_number
                  | None \<Rightarrow>
                      if targetless_stale_lacks_concrete_public_target facts \<and>
                         \<not> pf_actionable_stale_reentry_target_bound facts \<and>
                         \<not> pf_baseline_bridge_repair_review_state_ready facts
                      then reconcile
                      else if blocking_record_demands_repair facts
                      then (case repair_review_state_blocking_reason_code facts of
                          Some reason_code \<Rightarrow>
                            repair_review_state_route_decision runtime_state status stale_task reason_code source
                        | None \<Rightarrow> route_decision_for_unroutable_runtime_state status)
                      else unwrap_or (route_decision_for_unroutable_runtime_state status) chosen))"

definition persisted_execution_reentry_selection_candidate ::
  "RuntimeState \<Rightarrow> RoutePlanningFacts \<Rightarrow> RouteDecision option" where
  "persisted_execution_reentry_selection_candidate runtime_state facts =
     (if \<not> persisted_repair_follow_up_is facts FOLLOW_UP_EXECUTION_REENTRY then None
      else map_option (\<lambda>target. execution_reentry_reopen_route_decision runtime_state target
        (pf_execution_reentry_target_source facts)) (pf_persisted_reopen_target facts))"

definition route_preempts_persisted_execution_reentry :: "RouteDecision \<Rightarrow> bool" where
  "route_preempts_persisted_execution_reentry d \<longleftrightarrow>
     is_some_and (rd_recommended_public_command d) (\<lambda>command.
       command_kind command = BeginCommand \<or> command_kind command = ReopenCommand)"

definition select_route_planning_candidate ::
  "RouteDecision \<Rightarrow> RuntimeState \<Rightarrow> RoutePlanningFacts \<Rightarrow> RouteDecision" where
  "select_route_planning_candidate primary_route runtime_state facts =
     (if rd_phase_detail primary_route = DETAIL_RUNTIME_RECONCILE_REQUIRED \<and>
         pf_baseline_bridge_repair_review_state_ready facts
      then repair_review_state_route_decision runtime_state (rn_status runtime_state)
        (pf_baseline_bridge_close_current_task_candidate facts)
        TASK_BOUNDARY_REASON_TASK_CLOSURE_BASELINE_REPAIR_CANDIDATE (pf_execution_reentry_target_source facts)
      else if route_preempts_persisted_execution_reentry primary_route then primary_route
      else unwrap_or primary_route (persisted_execution_reentry_selection_candidate runtime_state facts))"

definition select_runtime_route_decision ::
  "PlanningObservations \<Rightarrow> RuntimeState \<Rightarrow> RoutePlanningFacts \<Rightarrow> NextActionAuthorityInputs \<Rightarrow> bool \<Rightarrow> bool \<Rightarrow>
   RouteDecision" where
  "select_runtime_route_decision ob runtime_state facts ai external_review_result_ready require_exact =
     select_route_planning_candidate
       (select_primary_runtime_route_decision ob runtime_state facts ai external_review_result_ready require_exact)
       runtime_state facts"

definition apply_route_planning_fact_adjustments :: "RoutePlanningFacts \<Rightarrow> RouteDecision \<Rightarrow> RouteDecision" where
  "apply_route_planning_fact_adjustments facts d =
     (case pf_exact_resume_stale_task facts of
        Some task \<Rightarrow> d\<lparr>rd_blocking_scope := Some ''task'', rd_blocking_task := Some task\<rparr>
      | None \<Rightarrow> d)"

definition route_decision_and_status_from_runtime_state_with_authority ::
  "PlanningObservations \<Rightarrow> BlockingRecordsOf \<Rightarrow> RuntimeState \<Rightarrow> bool \<Rightarrow> bool \<Rightarrow>
   JsonFailure + (RouteDecision \<times> PlanExecutionStatus)" where
  "route_decision_and_status_from_runtime_state_with_authority ob records_of runtime_state external_review_result_ready
     require_exact =
     (let status = rn_status runtime_state;
          ai = next_action_authority_inputs_for_route_plan ob runtime_state status;
          facts = route_planning_authority_for_status ob runtime_state status ai;
          selected = apply_route_planning_fact_adjustments facts
            (select_runtime_route_decision ob runtime_state facts ai external_review_result_ready require_exact)
      in res_bind (status_for_route_plan_projection records_of runtime_state selected) (\<lambda>route_status.
         let d = finalize_route_decision_for_route_plan selected route_status runtime_state external_review_result_ready
         in res_bind (status_for_route_plan_projection records_of runtime_state d) (\<lambda>status_projection.
            Inr (d, status_projection))))"

subsection \<open>Binding a follow-up to its source decision\<close>

record RouteBindingObservations =
  bo_source_decision_hash :: "RouteDecision \<Rightarrow> string option"
  bo_actionable_follow_up :: "RuntimeState \<Rightarrow> string option \<Rightarrow> RepairFollowUpKind option"
  bo_candidates_from_authority :: "ExecutionContext \<Rightarrow> PlanExecutionStatus \<Rightarrow> string option \<Rightarrow> PublicRepairTarget list"

text \<open>The source route is planned with the candidates and the follow-up taken out of the state; they are put back
  whether it is an error or not.\<close>

definition source_route_decision_for_repair_follow_up_binding ::
  "PlanningObservations \<Rightarrow> BlockingRecordsOf \<Rightarrow> RuntimeState \<Rightarrow> bool \<Rightarrow> bool \<Rightarrow>
   (JsonFailure + RouteDecision) \<times> RuntimeState" where
  "source_route_decision_for_repair_follow_up_binding ob records_of runtime_state external_review_result_ready
     require_exact =
     (let taken = runtime_state\<lparr>rn_route_repair_target_candidates := [], rn_persisted_repair_follow_up := None\<rparr>;
          result = res_bind (route_decision_and_status_from_runtime_state_with_authority ob records_of taken
            external_review_result_ready require_exact) (\<lambda>(d, _). Inr d)
      in (result, taken\<lparr>rn_route_repair_target_candidates := rn_route_repair_target_candidates runtime_state,
           rn_persisted_repair_follow_up := rn_persisted_repair_follow_up runtime_state\<rparr>))"

definition refresh_route_bound_repair_state ::
  "RouteBindingObservations \<Rightarrow> string option \<Rightarrow> RuntimeState \<Rightarrow> RuntimeState" where
  "refresh_route_bound_repair_state bo hash runtime_state =
     (let refreshed = runtime_state\<lparr>rn_persisted_repair_follow_up :=
            map_option repair_kind_public_token (bo_actionable_follow_up bo runtime_state hash)\<rparr>
      in refreshed\<lparr>rn_route_repair_target_candidates :=
           bo_candidates_from_authority bo (rn_context refreshed) (rn_status refreshed) hash\<rparr>)"

definition bind_repair_follow_up_to_source_route ::
  "PlanningObservations \<Rightarrow> BlockingRecordsOf \<Rightarrow> RouteBindingObservations \<Rightarrow> RuntimeState \<Rightarrow> bool \<Rightarrow> bool \<Rightarrow>
   (JsonFailure + unit) \<times> RuntimeState" where
  "bind_repair_follow_up_to_source_route ob records_of bo runtime_state external_review_result_ready require_exact =
     (case source_route_decision_for_repair_follow_up_binding ob records_of runtime_state external_review_result_ready
         require_exact of
        (Inl failure, restored) \<Rightarrow> (Inl failure, restored)
      | (Inr d, restored) \<Rightarrow>
          (Inr (), refresh_route_bound_repair_state bo (bo_source_decision_hash bo d) restored))"

definition plan_runtime_route ::
  "PlanningObservations \<Rightarrow> BlockingRecordsOf \<Rightarrow> RouteBindingObservations \<Rightarrow> bool \<Rightarrow> bool \<Rightarrow> RuntimeState \<Rightarrow>
   (JsonFailure + (RouteDecision \<times> PlanExecutionStatus)) \<times> RuntimeState" where
  "plan_runtime_route ob records_of bo external_review_result_ready require_exact runtime_state =
     (case bind_repair_follow_up_to_source_route ob records_of bo runtime_state external_review_result_ready
         require_exact of
        (Inl failure, bound) \<Rightarrow> (Inl failure, bound)
      | (Inr _, bound) \<Rightarrow>
          (route_decision_and_status_from_runtime_state_with_authority ob records_of bound external_review_result_ready
             require_exact, bound))"

end
