(* ===== verification/Route_Plan_Correct.thy ===== *)
theory Route_Plan_Correct
  imports Route_Plan
begin

text \<open>
  What a planned route guarantees: a next action names a step that the plan or the status has; a planned step
  command comes with its context, and the oracle allows it; a diagnostic route admits nothing; the status says what
  the decision says; the repair targets of a decision are the route's own or allowed candidates, each once.
\<close>

subsection \<open>The step of a next action\<close>

definition plan_has_step :: "ExecutionContext \<Rightarrow> nat \<Rightarrow> nat \<Rightarrow> bool" where
  "plan_has_step context task step \<longleftrightarrow>
     list_ex (\<lambda>s. ss_task_number s = task \<and> ss_step_number s = step) (ec_steps context)"

definition step_can_begin :: "ExecutionContext \<Rightarrow> PlanExecutionStatus \<Rightarrow> nat \<Rightarrow> nat \<Rightarrow> bool" where
  "step_can_begin context status task step \<longleftrightarrow>
     st_resume_task status = Some task \<and> st_resume_step status = Some step \<or>
     st_blocking_task status = Some task \<and> st_blocking_step status = Some step \<or>
     list_ex (\<lambda>s. ss_task_number s = task \<and> ss_step_number s = step \<and> \<not> ss_checked s) (ec_steps context) \<and>
       \<not> status_has_current_task_closure_for_task status task"

definition names_step :: "(nat \<Rightarrow> nat \<Rightarrow> bool) \<Rightarrow> NextActionDecision \<Rightarrow> bool" where
  "names_step ok d = is_some_and (opt_zip (nd_task_number d) (nd_step_number d)) (\<lambda>(task, step). ok task step)"

definition decision_is_grounded :: "ExecutionContext \<Rightarrow> PlanExecutionStatus \<Rightarrow> NextActionDecision \<Rightarrow> bool" where
  "decision_is_grounded context status d =
     (case nd_kind d of
        ActBegin \<Rightarrow> names_step (step_can_begin context status) d
      | ActResume \<Rightarrow> names_step (\<lambda>task step. st_resume_task status = Some task \<and> st_resume_step status = Some step) d
      | ActReopen \<Rightarrow> names_step (plan_has_step context) d
      | ActCloseCurrentTask \<Rightarrow>
          nd_phase_detail d = DETAIL_TASK_CLOSURE_RECORDING_READY \<and> nd_task_number d \<noteq> None \<or>
          names_step (\<lambda>task step. st_active_task status = Some task \<and> st_active_step status = Some step) d
      | _ \<Rightarrow> True)"

lemma names_step_Some:
  "nd_task_number d = Some task \<Longrightarrow> nd_step_number d = Some step \<Longrightarrow> names_step ok d = ok task step"
  by (simp add: names_step_def opt_zip_def)

lemma grounded_kind:
  "nd_kind d \<notin> {ActBegin, ActResume, ActReopen, ActCloseCurrentTask} \<Longrightarrow> decision_is_grounded context status d"
  by (cases "nd_kind d") (simp_all add: decision_is_grounded_def)

lemma grounded_fixed [simp]:
  "decision_is_grounded context status (branch_closure_decision status)"
  "decision_is_grounded context status (repair_decision_without_target phase_detail rv codes)"
  "decision_is_grounded context status (missing_execution_reentry_target_decision status rv)"
  "decision_is_grounded context status (execution_repair_decision_for_task status rv task)"
  "decision_is_grounded context status (late_stage_planning_reentry_decision status rv)"
  "decision_is_grounded context status (task_scope_handoff_decision status rv)"
  by (simp_all add: grounded_kind branch_closure_decision_def late_stage_decision_def repair_decision_without_target_def
      missing_execution_reentry_target_decision_def execution_repair_decision_for_task_def Let_def
      late_stage_planning_reentry_decision_def task_scope_handoff_decision_def task_scope_decision_def)

lemma grounded_late_stage:
  "k \<notin> {ActBegin, ActResume, ActReopen, ActCloseCurrentTask} \<Longrightarrow>
     decision_is_grounded context status (late_stage_decision status k phase_detail)"
  by (simp add: grounded_kind late_stage_decision_def)

lemma grounded_recording [simp]:
  "decision_is_grounded context status (task_closure_recording_ready_decision status f task)"
  by (simp add: task_closure_recording_ready_decision_def decision_is_grounded_def branch_closure_decision_def
      late_stage_decision_def)

lemma grounded_repair [simp]:
  "decision_is_grounded context status (execution_repair_decision ob context status rv ai)"
  by (simp add: execution_repair_decision_def split: option.split)

lemma grounded_codes [simp]:
  "decision_is_grounded context status (d\<lparr>nd_blocking_reason_codes := codes\<rparr>) = decision_is_grounded context status d"
  by (simp add: decision_is_grounded_def names_step_def split: NextActionKind.split)

lemma resolved_target:
  "resolve_execution_command_route_target status = Some target \<Longrightarrow>
     xt_kind target = CompleteCommand \<and> st_active_task status = Some (xt_task_number target) \<and>
       st_active_step status = xt_step_id target \<and> xt_step_id target \<noteq> None \<or>
     xt_kind target = BeginCommand \<and> xt_step_id target \<noteq> None \<and>
       (st_resume_task status = Some (xt_task_number target) \<and> st_resume_step status = xt_step_id target \<or>
        st_blocking_task status = Some (xt_task_number target) \<and> st_blocking_step status = xt_step_id target)"
  by (auto simp: resolve_execution_command_route_target_def execution_route_target_def opt_or_def
      split: option.splits if_splits)

lemma grounded_target:
  assumes "resolve_execution_command_route_target status = Some target"
    and "decision_from_execution_command_route_target status (Some target) = Some d"
  shows "decision_is_grounded context status d"
  using resolved_target [OF assms(1)] assms(2)
  by (auto simp: decision_from_execution_command_route_target_def Let_def decision_is_grounded_def names_step_def
      opt_zip_def step_can_begin_def split: option.splits if_splits)

lemma grounded_open_step_target:
  assumes "decision_from_execution_command_route_target status
    (resolve_execution_command_route_target_for_next_action status candidates) = Some d"
  shows "decision_is_grounded context status d"
proof (cases "resolve_execution_command_route_target_for_next_action status candidates")
  case None
  then show ?thesis
    using assms by (simp add: decision_from_execution_command_route_target_def)
next
  case (Some target)
  then have "resolve_execution_command_route_target status = Some target"
    by (simp add: resolve_execution_command_route_target_for_next_action_def opt_filter_eq_Some)
  then show ?thesis
    using assms Some grounded_target by simp
qed

lemma grounded_blocking_task [simp]:
  "decision_is_grounded context status (d\<lparr>nd_blocking_task := t\<rparr>) = decision_is_grounded context status d"
  by (simp add: decision_is_grounded_def names_step_def split: NextActionKind.split)

lemma grounded_phase_detail:
  assumes "decision_is_grounded context status d" and "nd_phase_detail d \<noteq> DETAIL_TASK_CLOSURE_RECORDING_READY"
  shows "decision_is_grounded context status (d\<lparr>nd_phase_detail := p\<rparr>)"
proof -
  have "names_step ok (d\<lparr>nd_phase_detail := p\<rparr>) = names_step ok d" for ok
    by (simp add: names_step_def)
  then show ?thesis
    using assms by (cases "nd_kind d") (simp_all add: decision_is_grounded_def)
qed

lemma grounded_bound_target:
  assumes "bound_route_target_decision status task = Some d"
  shows "decision_is_grounded context status d"
proof -
  from assms obtain target d' where r: "resolve_execution_command_route_target status = Some target"
    and d': "decision_from_execution_command_route_target status (Some target) = Some d'"
    and d: "d = d'\<lparr>nd_blocking_task := opt_or (nd_blocking_task d') (Some task),
      nd_phase_detail := (if nd_phase_detail d' \<noteq> DETAIL_EXECUTION_IN_PROGRESS
        then DETAIL_EXECUTION_REENTRY_REQUIRED else nd_phase_detail d')\<rparr>"
    by (cases "opt_filter (\<lambda>t. xt_task_number t = task \<and> (\<not> route_target_is_begin t \<or>
          execution_command_route_target_has_public_authority status t)) (resolve_execution_command_route_target status)")
      (auto simp: bound_route_target_decision_def decision_from_execution_command_route_target_def opt_filter_eq_Some)
  have "nd_phase_detail d' \<noteq> DETAIL_TASK_CLOSURE_RECORDING_READY"
    using d' by (auto simp: decision_from_execution_command_route_target_def Let_def route_target_phase_detail_def
        split: option.splits if_splits)
  then show ?thesis
    unfolding d by (intro grounded_phase_detail) (simp_all add: grounded_target [OF r d'])
qed

lemma find_map_Some: "find_map f xs = Some y \<Longrightarrow> \<exists>x\<in>set xs. f x = Some y"
  by (induction xs) (auto split: option.splits)

lemma reopen_step_in_plan:
  "reopen_step_for_task context task = Some step \<Longrightarrow> plan_has_step context task step"
  by (auto simp: reopen_step_for_task_def latest_attempted_step_for_task_def plan_has_step_def opt_or_def list_ex_iff
      find_Some_iff dest!: find_map_Some split: option.splits if_splits)

lemma grounded_reentry [simp]:
  "decision_is_grounded context status (execution_reentry_decision_for_task ob context status rv task stale)"
proof -
  have reopen: "decision_is_grounded context status (reopen_decision status rv task step)"
    if "Option.bind (reopen_execution_command_route_target_for_task context task) xt_step_id = Some step" for step
    using that by (auto simp: reopen_execution_command_route_target_for_task_def execution_route_target_def
        reopen_decision_def decision_is_grounded_def names_step_def opt_zip_def reopen_step_in_plan bind_eq_Some_conv)
  show ?thesis
    by (auto simp: execution_reentry_decision_for_task_def Let_def reopen split: option.splits
        dest: grounded_bound_target)
qed

lemma grounded_reentry_or [simp]:
  "decision_is_grounded context status fallback \<Longrightarrow>
     decision_is_grounded context status (reentry_decision_or ob context status rv target stale fallback)"
  by (simp add: reentry_decision_or_def split: option.split)

lemma grounded_unsupported [simp]:
  "decision_is_grounded context status
     (missing_baseline_unsupported_decision ob context status rv assessment ai)"
  by (simp add: missing_baseline_unsupported_decision_def Let_def split: option.split)

lemma grounded_assessment [simp]:
  "decision_is_grounded context status
     (late_stage_missing_current_closure_decision_from_assessment ob context status rv assessment ai)"
  by (simp add: late_stage_missing_current_closure_decision_from_assessment_def Let_def split: option.split
      BranchRerecordingUnsupportedReason.split)

lemma grounded_assessment_or_repair [simp]:
  "decision_is_grounded context status (decision_from_assessment_or_repair ob context status rv ai)"
  by (simp add: decision_from_assessment_or_repair_def split: option.split)

lemma grounded_stale_late_stage [simp]:
  "decision_is_grounded context status (stale_late_stage_repair_decision ob context status ai)"
  by (simp add: stale_late_stage_repair_decision_def Let_def split: option.split)

lemma grounded_review_pending [simp]:
  "decision_is_grounded context status (task_review_pending_decision ob context status rv ai ready task)"
  by (simp add: task_review_pending_decision_def Let_def closure_prerequisite_decision_def grounded_kind
      split: option.split)

lemma grounded_final_review [simp]: "decision_is_grounded context status (final_review_pending_decision status i)"
  by (simp add: final_review_pending_decision_def Let_def grounded_late_stage)

text \<open>The nine routes.\<close>

definition route_is_grounded :: "ExecutionContext \<Rightarrow> PlanExecutionStatus \<Rightarrow> NextActionDecision option \<Rightarrow> bool" where
  "route_is_grounded context status r = (case r of None \<Rightarrow> True | Some d \<Rightarrow> decision_is_grounded context status d)"

lemma route_is_grounded_simps [simp]:
  "route_is_grounded context status None" "route_is_grounded context status (Some d) = decision_is_grounded context status d"
  "route_is_grounded context status (if b then r else q) =
     (if b then route_is_grounded context status r else route_is_grounded context status q)"
  by (simp_all add: route_is_grounded_def)

lemma grounded_stale_reentry_route:
  "route_is_grounded context status (missing_authoritative_stale_reentry_target_route status rv ai)"
  by (simp add: missing_authoritative_stale_reentry_target_route_def then_some_def)

lemma grounded_corruption_route:
  "route_is_grounded context status (hard_structural_corruption_route ob context status rv ai facts)"
  by (simp add: hard_structural_corruption_route_def split: option.split)

lemma grounded_branch_closure_route:
  "route_is_grounded context status (completed_execution_missing_branch_closure_route ob context status rv ai facts)"
  by (simp add: completed_execution_missing_branch_closure_route_def)

lemma grounded_rerecording_route:
  "route_is_grounded context status (branch_rerecording_route ob context status rv ai legal f)"
  by (simp add: branch_rerecording_route_def Let_def route_is_grounded_def split: option.split)

lemma grounded_open_step_route:
  "route_is_grounded context status (open_step_route ob context status rv ai facts)"
  by (auto simp: open_step_route_def route_is_grounded_def split: option.split intro: grounded_open_step_target)

lemma grounded_stale_boundary_route:
  "route_is_grounded context status (stale_boundary_route ob context status rv ai facts)"
  by (auto simp: stale_boundary_route_def route_is_grounded_def Let_def split: option.split)

lemma grounded_late_stage_reentry:
  "route_is_grounded context status (late_stage_execution_reentry_decision ob context status rv ai)"
  by (simp add: late_stage_execution_reentry_decision_def Let_def)

lemma grounded_closure_route:
  "route_is_grounded context status (closure_prerequisite_route ob context status rv ai dispatch ready)"
  using grounded_late_stage_reentry [of "context" status ob rv ai]
  by (auto simp: closure_prerequisite_route_def Let_def route_is_grounded_def split: option.split)

lemma grounded_missing_closure_route:
  "route_is_grounded context status (missing_current_closure_late_stage_route ob context status rv ai)"
  by (simp add: missing_current_closure_late_stage_route_def Let_def split: option.split)

lemma grounded_public_route: "route_is_grounded context status (select_late_stage_public_route status i)"
  by (simp add: select_late_stage_public_route_def Let_def grounded_late_stage split: HarnessPhase.split)

lemma grounded_milestone_route:
  "route_is_grounded context status (late_stage_milestone_route ob context status i rv ai)"
  using grounded_missing_closure_route [of "context" status ob rv ai] grounded_public_route [of "context" status i]
  by (auto simp: late_stage_milestone_route_def split: option.split)

lemma grounded_begin:
  "nd_kind d = ActBegin \<Longrightarrow> nd_task_number d = Some task \<Longrightarrow> nd_step_number d = Some step \<Longrightarrow>
     step_can_begin context status task step \<Longrightarrow> decision_is_grounded context status d"
  by (simp add: decision_is_grounded_def names_step_Some)

lemma grounded_first_step_route:
  "route_is_grounded context status (first_unchecked_step_route context status rv f)"
proof (cases "first_unchecked_step context status")
  case (Some s)
  then have "step_can_begin context status (ss_task_number s) (ss_step_number s)"
    by (auto simp: first_unchecked_step_def step_can_begin_def find_Some_iff list_ex_iff)
  then show ?thesis
    using Some by (simp add: first_unchecked_step_route_def Let_def grounded_begin split: prod.split)
qed (simp add: first_unchecked_step_route_def)

lemmas grounded_routes =
  grounded_stale_reentry_route grounded_corruption_route grounded_branch_closure_route grounded_rerecording_route
  grounded_open_step_route grounded_stale_boundary_route grounded_closure_route grounded_milestone_route
  grounded_first_step_route

lemma grounded_next_action:
  "\<exists>d. compute_next_action_decision_with_authority_inputs ob context status request ai = Some d \<and>
     decision_is_grounded context status d"
proof -
  let ?routes = "next_action_routes ob context status request (seeded_authority_inputs ob status ai)"
  have routes: "\<forall>r\<in>set ?routes. route_is_grounded context status r"
    by (simp add: next_action_routes_def Let_def grounded_routes)
  have "decision_is_grounded context status
    (unwrap_or (late_stage_decision status ActPlanningReentry DETAIL_PLANNING_REENTRY_REQUIRED) (find_map (\<lambda>d. d) ?routes))"
  proof (cases "find_map (\<lambda>d. d) ?routes")
    case None
    then show ?thesis
      by (simp add: unwrap_or_def grounded_late_stage)
  next
    case (Some d)
    then have "Some d \<in> set ?routes"
      using find_map_Some by force
    then show ?thesis
      using routes Some by (auto simp: unwrap_or_def)
  qed
  then show ?thesis
    by (simp add: compute_next_action_decision_with_authority_inputs_def)
qed

text \<open>The next action always exists, and a step it names is a step that is there: a begin names the resume step,
  the blocking step, or an unchecked step of the plan whose task has no current closure; a resume names the resume
  step; a reopen names a step of the plan; a close names the active step, or a task whose closure is ready to be
  recorded.\<close>

lemma next_action_names_a_real_step:
  "\<exists>d. compute_next_action_decision_with_authority_inputs ob context status request ai = Some d \<and>
     decision_is_grounded context status d"
  by (rule grounded_next_action)

subsection \<open>The context of a step command\<close>

definition context_names :: "PlanExecutionStatus \<Rightarrow> PublicCommand option \<Rightarrow> PublicExecutionCommandContext option \<Rightarrow> bool" where
  "context_names status command ctx =
     (case Option.bind command to_mutation_request of
        Some request \<Rightarrow> is_execution_mutation (mr_kind request) \<longrightarrow>
          context_authorizes (status\<lparr>st_execution_command_context := ctx\<rparr>) request
      | None \<Rightarrow> True)"

definition decision_names_its_step :: "PlanExecutionStatus \<Rightarrow> RouteDecision \<Rightarrow> bool" where
  "decision_names_its_step status d =
     context_names status (rd_recommended_public_command d) (rd_execution_command_context d)"

definition step_command :: "PublicCommand \<Rightarrow> bool" where
  "step_command command = is_some_and (to_mutation_request command) (\<lambda>r. is_execution_mutation (mr_kind r))"

lemma context_names_other:
  "command = None \<or> (\<exists>c. command = Some c \<and> \<not> step_command c) \<Longrightarrow> context_names status command ctx"
  by (auto simp: context_names_def step_command_def split: option.splits)

lemma other_commands [simp]:
  "\<not> step_command (repair_review_state_public_command plan)"
  "\<not> step_command (close_current_task_public_command plan task)"
  "\<not> step_command (transfer_handoff_public_command plan scope)"
  "\<not> step_command (PublicWorkflowOperator plan ready json)"
  "\<not> step_command (PublicAdvanceLateStage plan mode)"
  by (simp_all add: step_command_def repair_review_state_public_command_def close_current_task_public_command_def
      transfer_handoff_public_command_def request_defs)

lemma late_stage_not_step:
  "public_advance_late_stage_command_for_phase_detail plan phase_detail = Some c \<Longrightarrow> \<not> step_command c"
  by (auto simp: public_advance_late_stage_command_for_phase_detail_def)

lemma follow_up_not_step:
  assumes "public_command_for_required_follow_up follow_up plan phase_detail record_type = Some c"
  shows "\<not> step_command c"
proof (cases "normalize_follow_up_alias follow_up PublicRouting")
  case (Some kind)
  then show ?thesis
    using assms by (cases kind) (auto simp: public_command_for_required_follow_up_def
        public_advance_late_stage_command_for_follow_up_def late_stage_not_step)
qed (use assms in \<open>simp add: public_command_for_required_follow_up_def\<close>)

lemma context_names_simps [simp]:
  "context_names status None ctx"
  "context_names status (Some (repair_review_state_public_command plan)) ctx"
  "context_names status (Some (close_current_task_public_command plan task)) ctx"
  "context_names status (public_advance_late_stage_command_for_phase_detail plan phase_detail) ctx"
  by (simp_all add: context_names_other)
    (cases "public_advance_late_stage_command_for_phase_detail plan phase_detail";
      simp add: context_names_other late_stage_not_step)

lemma projection_keeps_command [simp]:
  "rd_recommended_public_command (apply_public_route_projection s ready d) = rd_recommended_public_command d"
  "rd_execution_command_context (apply_public_route_projection s ready d) = rd_execution_command_context d"
  by (simp_all add: apply_public_route_projection_def Let_def)

lemma diagnostic_keeps_context:
  "decision_names_its_step status d \<Longrightarrow> decision_names_its_step status (normalize_diagnostic_route_decision d)"
  by (simp add: decision_names_its_step_def normalize_diagnostic_route_decision_def clear_decision_route_def)

lemma projection_keeps_context [simp]:
  "decision_names_its_step status (apply_public_route_projection s ready d) = decision_names_its_step status d"
  by (simp add: decision_names_its_step_def)

lemma close_names_step [simp]: "decision_names_its_step status (close_current_task_route_decision rs s task)"
  by (simp add: decision_names_its_step_def close_current_task_route_decision_def Let_def split: prod.split)

lemma repair_names_step [simp]:
  "decision_names_its_step status (repair_review_state_route_decision rs s task reason source)"
  unfolding repair_review_state_route_decision_def Let_def case_prod_beta projection_keeps_context
  by (rule diagnostic_keeps_context) (simp add: decision_names_its_step_def)

lemma reconcile_names_step [simp]:
  "decision_names_its_step status (runtime_reconcile_route_decision rs s task reason)"
  unfolding runtime_reconcile_route_decision_def Let_def case_prod_beta projection_keeps_context
  by (rule diagnostic_keeps_context) (simp add: decision_names_its_step_def then_some_def)

lemma branch_names_step [simp]: "decision_names_its_step status (branch_closure_recording_route_decision rs s)"
  by (simp add: decision_names_its_step_def branch_closure_recording_route_decision_def Let_def split: prod.split)

lemma unroutable_names_step [simp]: "decision_names_its_step status (route_decision_for_unroutable_runtime_state s)"
  by (simp add: decision_names_its_step_def route_decision_for_unroutable_runtime_state_def)

lemma reopen_names_step [simp]:
  "decision_names_its_step (rn_status rs) (execution_reentry_reopen_route_decision rs target source)"
  by (simp add: decision_names_its_step_def execution_reentry_reopen_route_decision_def Let_def context_names_def
      reopen_public_command_def request_defs context_authorizes_def execution_command_kind_def
      execution_mutation_name_def public_mutation_token_def unwrap_or_def request_fingerprint_matches_status_def
      split: prod.split)

lemma drift_names_step:
  "final_review_dispatch_route_for_repaired_late_stage_drift rs facts phase_detail ready = Some d \<Longrightarrow>
     decision_names_its_step status d"
  by (auto simp: final_review_dispatch_route_for_repaired_late_stage_drift_def repaired_drift_route_def Let_def
      decision_names_its_step_def split: if_splits prod.splits)

lemma close_or_branch_names_step [simp]:
  "decision_names_its_step status (close_current_task_or_branch_closure_route_decision rs s facts task)"
  by (simp add: close_current_task_or_branch_closure_route_decision_def)

lemma finalized_names_step:
  "context_names status (rf_recommended_public_command f) (rf_execution_command_context f) \<Longrightarrow>
     decision_names_its_step status (finalized_route_decision rs facts decision f ready)"
  by (simp add: finalized_route_decision_def Let_def case_prod_beta) (simp add: decision_names_its_step_def)

text \<open>The command that a step decision is turned into, and the target it is bound to.\<close>

definition step_context :: "PublicCommandKind \<Rightarrow> nat \<Rightarrow> nat \<Rightarrow> PublicExecutionCommandContext" where
  "step_context kind task step =
     \<lparr>cx_command_kind = unwrap_or [] (public_mutation_name kind), cx_task_number = Some task, cx_step_id = Some step\<rparr>"

lemma synthesized_names_step:
  "synthesized_execution_public_command status plan kind task step_id = Some c \<Longrightarrow>
     (if kind = CompleteCommand then st_active_step status else step_id) = Some step \<Longrightarrow>
     context_names status (Some c) (Some (step_context kind task step))"
  by (cases kind) (auto simp: synthesized_execution_public_command_def Let_def context_names_def step_context_def
      begin_public_command_def reopen_public_command_def complete_public_command_def request_defs context_authorizes_def
      execution_command_kind_def execution_mutation_name_def unwrap_or_def request_fingerprint_matches_status_def)

lemma step_decision_command:
  "decision_command_kind (nd_kind decision) = Some kind \<Longrightarrow>
     public_command_from_decision status decision plan =
       Option.bind (nd_task_number decision) (\<lambda>task.
         synthesized_execution_public_command status plan kind task (nd_step_number decision))"
  by (cases "nd_kind decision") (auto simp: public_command_from_decision_def Let_def)

lemma untargeted_decision_has_no_command:
  assumes "execution_command_route_target_from_decision status decision plan = None"
    and "decision_requires_exact_execution_command status decision"
  shows "public_command_from_decision status decision plan = None"
proof -
  obtain kind where kind: "decision_command_kind (nd_kind decision) = Some kind"
    and active: "kind = CompleteCommand \<Longrightarrow> st_active_task status \<noteq> None \<and> st_active_step status \<noteq> None"
    using assms(2) by (auto simp: decision_requires_exact_execution_command_def)
  have kinds: "kind \<in> {BeginCommand, ReopenCommand, CompleteCommand}"
    using kind by (cases "nd_kind decision") auto
  show ?thesis
  proof (cases "nd_task_number decision")
    case (Some task)
    then show ?thesis
      using assms(1) kind kinds active step_decision_command [OF kind, of status plan]
      by (cases "nd_step_number decision")
        (auto simp: execution_command_route_target_from_decision_def Let_def synthesized_execution_public_command_def
          split: option.splits if_splits)
  qed (simp add: step_decision_command [OF kind])
qed

text \<open>While a finalisation is bound, its command is named by its context, or the close of a task will still replace
  it.\<close>

definition finalization_names_step :: "PlanExecutionStatus \<Rightarrow> RouteFinalization \<Rightarrow> bool" where
  "finalization_names_step status f =
     context_names status (rf_recommended_public_command f) (rf_execution_command_context f)"

definition close_is_pending :: "NextActionDecision \<Rightarrow> RouteFinalization \<Rightarrow> bool" where
  "close_is_pending decision f \<longleftrightarrow>
     nd_kind decision = ActCloseCurrentTask \<and> nd_task_number decision \<noteq> None \<and>
     rf_phase_detail f = DETAIL_TASK_CLOSURE_RECORDING_READY"

lemma bind_fields [simp]:
  "finalization_names_step status (bind_repair_review_state_command plan f)"
  "finalization_names_step status (bind_task_closure_recording plan task dispatch f)"
  "finalization_names_step status (bind_execution_reentry_task_closure_bridge plan task dispatch f)"
  "finalization_names_step status (bind_branch_closure_recording plan phase_detail f)"
  "finalization_names_step status (bind_late_stage_command plan phase_detail task_opt f)"
  "finalization_names_step status (bind_repair_review_state_route plan task_opt f)"
  "finalization_names_step status (bind_final_review_recording plan dispatch closure f)"
  "finalization_names_step status (bind_branch_stage_recording_context closure f) = finalization_names_step status f"
  by (simp_all add: finalization_names_step_def bind_repair_review_state_command_def bind_task_closure_recording_def
      bind_execution_reentry_task_closure_bridge_def bind_branch_closure_recording_def bind_late_stage_command_def
      bind_repair_review_state_route_def bind_final_review_recording_def bind_branch_stage_recording_context_def)

lemma step_kind_of_decision:
  "decision_command_kind (nd_kind decision) = None \<longleftrightarrow>
     nd_kind decision \<notin> {ActBegin, ActResume, ActReopen, ActCloseCurrentTask}"
  by (cases "nd_kind decision") simp_all

lemma other_decision_command:
  "decision_command_kind (nd_kind decision) = None \<Longrightarrow>
     context_names status (public_command_from_decision status decision plan) ctx"
  by (cases "nd_kind decision") (simp_all add: public_command_from_decision_def context_names_other)

lemma seed_phase_detail:
  "rf_phase_detail (seed_finalization rs facts decision) = nd_phase_detail decision \<or>
     finalization_names_step (rn_status rs) (seed_finalization rs facts decision) \<and>
     rf_phase_detail (seed_finalization rs facts decision) = DETAIL_TASK_CLOSURE_RECORDING_READY"
  by (auto simp: seed_finalization_def Let_def finalization_from_decision_def bind_repair_review_state_command_def
      bind_execution_reentry_task_closure_bridge_def bind_task_closure_recording_def finalization_names_step_def
      split: option.split)

lemma seed_repair:
  "repair_review_state_reentry decision \<Longrightarrow>
     finalization_names_step (rn_status rs) (seed_finalization rs facts decision)"
  by (simp add: seed_finalization_def Let_def split: option.split)

lemma seed_command:
  "rf_recommended_public_command (seed_finalization rs facts decision) =
     public_command_from_decision (rn_status rs) decision (rn_plan_rel rs) \<or>
   finalization_names_step (rn_status rs) (seed_finalization rs facts decision)"
  by (auto simp: seed_finalization_def Let_def finalization_from_decision_def split: option.split)

lemma seed_close_pending:
  assumes "nd_kind decision = ActCloseCurrentTask" "nd_task_number decision \<noteq> None"
    and "nd_phase_detail decision = DETAIL_TASK_CLOSURE_RECORDING_READY"
  shows "close_is_pending decision (seed_finalization rs facts decision)"
  using assms seed_phase_detail [of rs facts decision] by (auto simp: close_is_pending_def)

lemma bound_target_names_step:
  assumes grounded: "decision_is_grounded context (rn_status rs) decision"
    and target: "execution_command_route_target_from_decision (rn_status rs) decision plan = Some target"
    and phase: "rf_phase_detail f = nd_phase_detail decision \<or>
      rf_phase_detail f = DETAIL_TASK_CLOSURE_RECORDING_READY"
  shows "finalization_names_step (rn_status rs) (bind_exact_execution_context (rn_status rs) decision plan target f) \<or>
    close_is_pending decision (bind_exact_execution_context (rn_status rs) decision plan target f)"
proof -
  let ?status = "rn_status rs"
  obtain kind task c where kind: "decision_command_kind (nd_kind decision) = Some kind"
    and task: "nd_task_number decision = Some task" and c: "public_command_from_decision ?status decision plan = Some c"
    and t: "target = \<lparr>xt_kind = kind, xt_task_number = task, xt_step_id = nd_step_number decision\<rparr>"
    and named: "kind \<noteq> CompleteCommand \<Longrightarrow> nd_step_number decision \<noteq> None"
    using target by (auto simp: execution_command_route_target_from_decision_def bind_eq_Some_conv Let_def
        split: if_splits)
  have made: "synthesized_execution_public_command ?status plan kind task (nd_step_number decision) = Some c"
    using c task step_decision_command [OF kind, of ?status plan] by simp
  have public: "route_target_command_kind target = Inr (unwrap_or [] (public_mutation_name kind))"
    using kind by (cases "nd_kind decision") (auto simp: t route_target_command_kind_def unwrap_or_def)
  consider (pending) "kind = CompleteCommand" "nd_phase_detail decision = DETAIL_TASK_CLOSURE_RECORDING_READY"
    | (step) s where "nd_step_number decision = Some s"
      "(if kind = CompleteCommand then st_active_step ?status else nd_step_number decision) = Some s"
  proof (cases "kind = CompleteCommand")
    case True
    then have "nd_kind decision = ActCloseCurrentTask"
      using kind by (cases "nd_kind decision") auto
    then show thesis
      using grounded True that by (auto simp: decision_is_grounded_def names_step_def opt_zip_def split: option.splits)
  next
    case False
    then obtain s where "nd_step_number decision = Some s"
      using named by blast
    then show thesis
      using that(2) False by simp
  qed
  then show ?thesis
  proof cases
    case pending
    then have "nd_kind decision = ActCloseCurrentTask"
      using kind by (cases "nd_kind decision") auto
    then show ?thesis
      using pending task phase by (auto simp: close_is_pending_def bind_exact_execution_context_def)
  next
    case (step s)
    then show ?thesis
      using synthesized_names_step [OF made step(2)] c public [unfolded t step(1)]
      by (simp add: finalization_names_step_def bind_exact_execution_context_def t step_context_def)
  qed
qed

lemma exact_step_names_step:
  assumes grounded: "decision_is_grounded context (rn_status rs) decision"
    and bound: "bind_exact_step rs decision require_exact (seed_finalization rs facts decision) = Some f"
  shows "finalization_names_step (rn_status rs) f \<or> close_is_pending decision f"
proof -
  let ?seed = "seed_finalization rs facts decision" and ?status = "rn_status rs"
  show ?thesis
  proof (cases "decision_requires_exact_execution_command ?status decision")
    case True
    show ?thesis
    proof (cases "execution_command_route_target_from_decision ?status decision (rn_plan_rel rs)")
      case None
      then have "f = ?seed"
        using bound True by (auto simp: bind_exact_step_def Let_def split: if_splits)
      then show ?thesis
        using seed_command [of rs facts decision] untargeted_decision_has_no_command [OF None True]
        by (auto simp: finalization_names_step_def)
    next
      case (Some target)
      then have "f = bind_exact_execution_context ?status decision (rn_plan_rel rs) target ?seed"
        using bound True by (simp add: bind_exact_step_def Let_def)
      then show ?thesis
        using bound_target_names_step [OF grounded Some] seed_phase_detail [of rs facts decision] by blast
    qed
  next
    case False
    then have f: "f = ?seed"
      using bound by (simp add: bind_exact_step_def Let_def)
    consider (repair) "repair_review_state_reentry decision" | (close) "nd_kind decision = ActCloseCurrentTask"
      | (other) "decision_command_kind (nd_kind decision) = None"
      using False by (auto simp: decision_requires_exact_execution_command_def step_kind_of_decision)
    then show ?thesis
    proof cases
      case close
      then have "nd_phase_detail decision = DETAIL_TASK_CLOSURE_RECORDING_READY \<and> nd_task_number decision \<noteq> None"
        using False grounded by (auto simp: decision_requires_exact_execution_command_def decision_is_grounded_def
            names_step_def opt_zip_def split: option.splits)
      then show ?thesis
        using f close seed_close_pending by blast
    next
      case other
      then show ?thesis
        using f seed_command [of rs facts decision] other_decision_command
        by (metis finalization_names_step_def)
    qed (use f seed_repair in blast)
  qed
qed

lemma recording_names_step:
  assumes "finalization_names_step (rn_status rs) f \<or> close_is_pending decision f"
  shows "finalization_names_step (rn_status rs) (bind_recording rs decision f)"
  using assms by (auto simp: bind_recording_def Let_def close_is_pending_def opt_or_def split: option.splits)

lemma bound_finalization_names_step:
  assumes "decision_is_grounded context (rn_status rs) decision"
    and "bound_finalization rs facts decision require_exact = Some f"
  shows "finalization_names_step (rn_status rs) f"
proof -
  obtain g where "bind_exact_step rs decision require_exact (seed_finalization rs facts decision) = Some g"
    and "f = bind_branch_refresh rs (bind_recording rs decision g)"
    using assms(2) by (auto simp: bound_finalization_def)
  then show ?thesis
    using recording_names_step [OF exact_step_names_step [OF assms(1)]] by (auto simp: bind_branch_refresh_def)
qed

lemma follow_up_names_step:
  "finalization_names_step status f \<Longrightarrow> finalization_names_step status (bind_follow_up rs facts decision f)"
  by (auto simp: bind_follow_up_def finalization_names_step_def bind_follow_up_command_def
      intro!: context_names_other dest: follow_up_not_step split: list.split option.split)

lemma chosen_names_step:
  assumes "decision_is_grounded context (rn_status rs) decision"
    and "route_decision_from_next_action_decision rs facts handoff ready require_exact decision = Some d"
  shows "decision_names_its_step (rn_status rs) d"
proof -
  obtain f where f: "bound_finalization rs facts decision require_exact = Some f"
    and d: "d = route_decision_from_bound_finalization rs facts handoff ready decision f"
    using assms(2) by (auto simp: route_decision_from_next_action_decision_def)
  have "finalization_names_step (rn_status rs) (bind_follow_up rs facts decision f)"
    using bound_finalization_names_step [OF assms(1) f] follow_up_names_step by blast
  then show ?thesis
    unfolding d route_decision_from_bound_finalization_def Let_def
    by (auto split: option.split simp: drift_names_step finalized_names_step finalization_names_step_def)
qed

lemma choice_names_step:
  assumes "route_decision_from_next_action_choice rs facts
    (next_action_decision_for_route_plan ob rs ready ai) handoff ready require_exact = Some d"
  shows "decision_names_its_step (rn_status rs) d"
proof -
  obtain decision where "decision_is_grounded (rn_context rs) (rn_status rs) decision"
    and "next_action_decision_for_route_plan ob rs ready ai = Some decision"
    using grounded_next_action unfolding next_action_decision_for_route_plan_def by blast
  then show ?thesis
    using assms chosen_names_step by (simp add: route_decision_from_next_action_choice_def)
qed

lemma primary_names_step:
  "decision_names_its_step (rn_status rs)
     (select_primary_runtime_route_decision ob rs facts ai ready require_exact)"
  by (auto simp: select_primary_runtime_route_decision_def Let_def unwrap_or_def opt_filter_eq_Some choice_names_step
      split: option.split)

lemma selected_names_step:
  "decision_names_its_step (rn_status rs) (select_runtime_route_decision ob rs facts ai ready require_exact)"
  by (auto simp: select_runtime_route_decision_def select_route_planning_candidate_def unwrap_or_def primary_names_step
      persisted_execution_reentry_selection_candidate_def split: option.split if_splits)

lemma adjusted_names_step:
  "decision_names_its_step status d \<Longrightarrow> decision_names_its_step status (apply_route_planning_fact_adjustments facts d)"
  by (simp add: apply_route_planning_fact_adjustments_def decision_names_its_step_def split: option.split)

lemma finished_names_step:
  assumes "decision_names_its_step status d"
  shows "decision_names_its_step status (finalize_route_decision_for_route_plan d route_status rs ready)"
proof -
  have "decision_names_its_step status (normalize_targetless_stale_reconcile_route_decision d)"
    by (simp add: normalize_targetless_stale_reconcile_route_decision_def clear_decision_route_def
        decision_names_its_step_def)
  then show ?thesis
    using assms unfolding finalize_route_decision_for_route_plan_def Let_def projection_keeps_context
    by - (rule diagnostic_keeps_context, simp add: decision_names_its_step_def)
qed

subsection \<open>The planned status\<close>

definition status_reports :: "RouteDecision \<Rightarrow> PlanExecutionStatus \<Rightarrow> bool" where
  "status_reports d status \<longleftrightarrow>
     st_phase status = Some (rd_phase d) \<and> st_phase_detail status = rd_phase_detail d \<and>
     st_review_state_status status = rd_review_state_status d \<and> st_next_action status = rd_next_action d \<and>
     st_state_kind status = rd_state_kind d \<and> st_recording_context status = rd_recording_context d \<and>
     st_execution_command_context status = rd_execution_command_context d \<and>
     st_next_public_action status = rd_next_public_action d \<and> st_blockers status = rd_blockers d \<and>
     st_public_repair_targets status = rd_public_repair_targets d \<and>
     st_recommended_public_command status = rd_recommended_public_command d \<and>
     st_recommended_public_command_argv status = rd_invocation d \<and>
     st_recommended_public_command_template status = rd_recommended_public_command_template d \<and>
     st_required_inputs status = rd_required_inputs d \<and> st_recommended_command status = rd_recommended_command d \<and>
     st_blocking_task status = rd_blocking_task d \<and> st_blocking_scope status = rd_blocking_scope d \<and>
     st_external_wait_state status = rd_external_wait_state d"

lemma pushed_diagnostics:
  "status_reports d (foldl push_projection_diagnostic_once s codes) = status_reports d s"
  "st_execution_fingerprint (foldl push_projection_diagnostic_once s codes) = st_execution_fingerprint s"
  by (induction codes arbitrary: s) (simp_all add: push_projection_diagnostic_once_def status_reports_def)

lemma diagnostics_keep_report:
  "status_reports d (apply_route_status_projection_diagnostics s) = status_reports d s"
  "st_execution_fingerprint (apply_route_status_projection_diagnostics s) = st_execution_fingerprint s"
  by (simp_all add: apply_route_status_projection_diagnostics_def apply_task_boundary_projection_diagnostics_def
      pushed_diagnostics) (simp_all add: status_reports_def ensure_status_diagnostic_def clear_status_diagnostic_def)

lemma projected_status_reports:
  assumes "status_for_route_plan_projection records_of rs d = Inr status"
  shows "status_reports d status" "st_execution_fingerprint status = st_execution_fingerprint (rn_status rs)"
  using assms
  by (auto simp: status_for_route_plan_projection_def Let_def res_bind_Inr diagnostics_keep_report)
    (simp_all add: status_reports_def project_stale_unreviewed_closures_def Let_def ensure_status_diagnostic_def
      clear_status_diagnostic_def apply_common_route_status_projection_def)

subsection \<open>The surfaces of the command\<close>

definition surfaces_agree :: "RouteDecision \<Rightarrow> bool" where
  "surfaces_agree d \<longleftrightarrow>
     (rd_recommended_command d, rd_invocation d, rd_recommended_public_command_template d, rd_required_inputs d) =
       command_surfaces (rd_recommended_public_command d)"

lemma no_command_surfaces: "command_surfaces None = (None, None, None, [])"
  by (simp add: command_surfaces_def recommended_public_command_display_def recommended_public_command_argv_def
      surface_template_def recommended_public_command_template_def required_inputs_for_public_command_def)

lemma projection_keeps_surfaces [simp]:
  "surfaces_agree (apply_public_route_projection s ready d) = surfaces_agree d"
  by (simp add: surfaces_agree_def apply_public_route_projection_def Let_def)

lemma diagnostic_keeps_surfaces: "surfaces_agree d \<Longrightarrow> surfaces_agree (normalize_diagnostic_route_decision d)"
  by (simp add: surfaces_agree_def normalize_diagnostic_route_decision_def clear_decision_route_def no_command_surfaces)

lemma close_surfaces [simp]: "surfaces_agree (close_current_task_route_decision rs s task)"
  unfolding close_current_task_route_decision_def Let_def case_prod_beta projection_keeps_surfaces by (simp add: surfaces_agree_def)

lemma repair_surfaces [simp]: "surfaces_agree (repair_review_state_route_decision rs s task reason source)"
  unfolding repair_review_state_route_decision_def Let_def case_prod_beta projection_keeps_surfaces
  by (rule diagnostic_keeps_surfaces) (simp add: surfaces_agree_def)

lemma reconcile_surfaces [simp]: "surfaces_agree (runtime_reconcile_route_decision rs s task reason)"
  unfolding runtime_reconcile_route_decision_def Let_def case_prod_beta projection_keeps_surfaces
  by (rule diagnostic_keeps_surfaces) (simp add: surfaces_agree_def)

lemma branch_surfaces [simp]: "surfaces_agree (branch_closure_recording_route_decision rs s)"
  unfolding branch_closure_recording_route_decision_def Let_def case_prod_beta projection_keeps_surfaces by (simp add: surfaces_agree_def)

lemma unroutable_surfaces [simp]: "surfaces_agree (route_decision_for_unroutable_runtime_state s)"
  unfolding route_decision_for_unroutable_runtime_state_def projection_keeps_surfaces
  by (simp add: surfaces_agree_def no_command_surfaces)

lemma reopen_surfaces [simp]: "surfaces_agree (execution_reentry_reopen_route_decision rs target source)"
  unfolding execution_reentry_reopen_route_decision_def Let_def case_prod_beta projection_keeps_surfaces by (simp add: surfaces_agree_def)

lemma drift_surfaces:
  assumes "final_review_dispatch_route_for_repaired_late_stage_drift rs facts phase_detail ready = Some d"
  shows "surfaces_agree d"
proof -
  have "surfaces_agree (repaired_drift_route rs closure kind ready)" for closure kind
    unfolding repaired_drift_route_def Let_def case_prod_beta projection_keeps_surfaces by (simp add: surfaces_agree_def)
  then show ?thesis
    using assms by (auto simp: final_review_dispatch_route_for_repaired_late_stage_drift_def split: if_splits)
qed

lemma close_or_branch_surfaces [simp]:
  "surfaces_agree (close_current_task_or_branch_closure_route_decision rs s facts task)"
  by (simp add: close_current_task_or_branch_closure_route_decision_def)

lemma finalized_surfaces [simp]: "surfaces_agree (finalized_route_decision rs facts decision f ready)"
  unfolding finalized_route_decision_def Let_def case_prod_beta projection_keeps_surfaces by (simp add: surfaces_agree_def)

lemma choice_surfaces:
  "route_decision_from_next_action_choice rs facts decision handoff ready require_exact = Some d \<Longrightarrow> surfaces_agree d"
  by (auto simp: route_decision_from_next_action_choice_def route_decision_from_next_action_decision_def
      route_decision_from_bound_finalization_def Let_def bind_eq_Some_conv drift_surfaces split: option.splits if_splits)

lemma selected_surfaces: "surfaces_agree (select_runtime_route_decision ob rs facts ai ready require_exact)"
proof -
  have primary: "surfaces_agree (select_primary_runtime_route_decision ob rs facts ai ready require_exact)"
    by (auto simp: select_primary_runtime_route_decision_def Let_def unwrap_or_def opt_filter_eq_Some choice_surfaces
        split: option.split)
  show ?thesis
    by (auto simp: select_runtime_route_decision_def select_route_planning_candidate_def unwrap_or_def primary
        persisted_execution_reentry_selection_candidate_def split: option.split if_splits)
qed

lemma adjusted_surfaces:
  "surfaces_agree d \<Longrightarrow> surfaces_agree (apply_route_planning_fact_adjustments facts d)"
  by (simp add: apply_route_planning_fact_adjustments_def surfaces_agree_def split: option.split)

lemma finished_surfaces:
  assumes "surfaces_agree d"
  shows "surfaces_agree (finalize_route_decision_for_route_plan d route_status rs ready)"
proof -
  have "surfaces_agree (normalize_targetless_stale_reconcile_route_decision x)" for x
    by (simp add: normalize_targetless_stale_reconcile_route_decision_def clear_decision_route_def surfaces_agree_def
        no_command_surfaces)
  then show ?thesis
    using assms unfolding finalize_route_decision_for_route_plan_def Let_def projection_keeps_surfaces
    by - (rule diagnostic_keeps_surfaces, simp add: surfaces_agree_def)
qed

subsection \<open>A planned route\<close>

text \<open>The decision before it is finished, and what a plan that succeeds is made of.\<close>

definition planned_facts :: "PlanningObservations \<Rightarrow> RuntimeState \<Rightarrow> RoutePlanningFacts" where
  "planned_facts ob rs = route_planning_authority_for_status ob rs (rn_status rs)
     (next_action_authority_inputs_for_route_plan ob rs (rn_status rs))"

definition planned_selection :: "PlanningObservations \<Rightarrow> RuntimeState \<Rightarrow> bool \<Rightarrow> bool \<Rightarrow> RouteDecision" where
  "planned_selection ob rs ready require_exact =
     apply_route_planning_fact_adjustments (planned_facts ob rs) (select_runtime_route_decision ob rs (planned_facts ob rs)
       (next_action_authority_inputs_for_route_plan ob rs (rn_status rs)) ready require_exact)"

lemma planned_route_once:
  "route_decision_and_status_from_runtime_state_with_authority ob records_of rs ready require_exact =
     res_bind (status_for_route_plan_projection records_of rs (planned_selection ob rs ready require_exact))
       (\<lambda>route_status.
         let d = finalize_route_decision_for_route_plan (planned_selection ob rs ready require_exact) route_status rs ready
         in res_bind (status_for_route_plan_projection records_of rs d) (\<lambda>status. Inr (d, status)))"
  by (simp add: route_decision_and_status_from_runtime_state_with_authority_def planned_selection_def planned_facts_def
      Let_def)

lemma planned_route_parts:
  assumes "plan_runtime_route ob records_of bo ready require_exact rs = (Inr (d, status), bound)"
  shows "\<exists>route_status.
      status_for_route_plan_projection records_of bound (planned_selection ob bound ready require_exact) = Inr route_status \<and>
      d = finalize_route_decision_for_route_plan (planned_selection ob bound ready require_exact) route_status bound ready"
    and "status_for_route_plan_projection records_of bound d = Inr status"
    and "\<exists>hash. bound = refresh_route_bound_repair_state bo hash rs"
proof -
  show "\<exists>hash. bound = refresh_route_bound_repair_state bo hash rs"
    using assms by (auto simp: plan_runtime_route_def bind_repair_follow_up_to_source_route_def
        source_route_decision_for_repair_follow_up_binding_def Let_def split: prod.splits sum.splits)
  have route: "route_decision_and_status_from_runtime_state_with_authority ob records_of bound ready require_exact =
      Inr (d, status)"
    using assms by (auto simp: plan_runtime_route_def bind_repair_follow_up_to_source_route_def
        source_route_decision_for_repair_follow_up_binding_def Let_def split: prod.splits sum.splits)
  then show "\<exists>route_status.
      status_for_route_plan_projection records_of bound (planned_selection ob bound ready require_exact) = Inr route_status \<and>
      d = finalize_route_decision_for_route_plan (planned_selection ob bound ready require_exact) route_status bound ready"
    and "status_for_route_plan_projection records_of bound d = Inr status"
    by (auto simp: planned_route_once Let_def res_bind_Inr)
qed

lemma bound_state:
  "bound = refresh_route_bound_repair_state bo hash rs \<Longrightarrow>
     bound = rs\<lparr>rn_persisted_repair_follow_up := rn_persisted_repair_follow_up bound,
       rn_route_repair_target_candidates := rn_route_repair_target_candidates bound\<rparr>"
  by (simp add: refresh_route_bound_repair_state_def Let_def)

lemma planned_selection_keeps:
  "decision_names_its_step (rn_status rs) (planned_selection ob rs ready require_exact)"
  "surfaces_agree (planned_selection ob rs ready require_exact)"
  using selected_surfaces
  by (simp_all add: planned_selection_def adjusted_names_step selected_names_step adjusted_surfaces)

text \<open>Planning fails only where the blocking records of a status cannot be computed.\<close>

definition records_total :: "BlockingRecordsOf \<Rightarrow> bool" where
  "records_total records_of \<longleftrightarrow> (\<forall>s g t. \<exists>records. records_of s g t = Inr records)"

lemma projection_total:
  "records_total records_of \<Longrightarrow> \<exists>status. status_for_route_plan_projection records_of rs d = Inr status"
  by (simp add: records_total_def status_for_route_plan_projection_def Let_def res_bind_Inr)

lemma planned_once_total:
  assumes "records_total records_of"
  shows "\<exists>d status. route_decision_and_status_from_runtime_state_with_authority ob records_of rs ready require_exact =
    Inr (d, status)"
proof -
  obtain route_status where first:
    "status_for_route_plan_projection records_of rs (planned_selection ob rs ready require_exact) = Inr route_status"
    using projection_total [OF assms] by blast
  obtain status where "status_for_route_plan_projection records_of rs
      (finalize_route_decision_for_route_plan (planned_selection ob rs ready require_exact) route_status rs ready) = Inr status"
    using projection_total [OF assms] by blast
  with first show ?thesis
    by (simp add: planned_route_once Let_def)
qed

lemma planned_route_total:
  assumes "records_total records_of"
  shows "\<exists>d status bound. plan_runtime_route ob records_of bo ready require_exact rs = (Inr (d, status), bound)"
proof -
  obtain d status where source: "route_decision_and_status_from_runtime_state_with_authority ob records_of
      (rs\<lparr>rn_route_repair_target_candidates := [], rn_persisted_repair_follow_up := None\<rparr>) ready require_exact = Inr (d, status)"
    using planned_once_total [OF assms] by blast
  obtain d' status' where "route_decision_and_status_from_runtime_state_with_authority ob records_of
      (refresh_route_bound_repair_state bo (bo_source_decision_hash bo d) rs) ready require_exact = Inr (d', status')"
    using planned_once_total [OF assms] by blast
  with source show ?thesis
    by (simp add: plan_runtime_route_def bind_repair_follow_up_to_source_route_def
        source_route_decision_for_repair_follow_up_binding_def Let_def)
qed

lemma planned_names_step:
  assumes "plan_runtime_route ob records_of bo ready require_exact rs = (Inr (d, status), bound)"
  shows "decision_names_its_step (rn_status bound) d"
  using planned_route_parts(1) [OF assms] finished_names_step [OF planned_selection_keeps(1)] by blast

lemma planned_status:
  assumes "plan_runtime_route ob records_of bo ready require_exact rs = (Inr (d, status), bound)"
  shows "status_reports d status" "st_execution_fingerprint status = st_execution_fingerprint (rn_status bound)"
  using projected_status_reports [OF planned_route_parts(2) [OF assms]] by blast+

lemma finished_diagnostic_offers_nothing:
  assumes "d = finalize_route_decision_for_route_plan selected route_status rs ready"
    and "runtime_route_is_diagnostic (rd_state_kind d) (rd_phase_detail d)"
  shows "rd_recommended_public_command d = None \<and> rd_public_repair_targets d = [] \<and>
    rd_execution_command_context d = None \<and> rd_required_follow_up d = None"
proof -
  obtain x where d: "d = apply_public_route_projection (Some route_status) ready (normalize_diagnostic_route_decision x)"
    using assms(1) by (simp add: finalize_route_decision_for_route_plan_def Let_def)
  have "runtime_route_is_diagnostic (rd_state_kind x) (rd_phase_detail x)"
    using assms(2) unfolding d by (simp add: apply_public_route_projection_def normalize_diagnostic_route_decision_def
        clear_decision_route_def Let_def split: if_splits)
  then show ?thesis
    unfolding d by (simp add: apply_public_route_projection_def normalize_diagnostic_route_decision_def
        clear_decision_route_def Let_def)
qed

lemma planned_diagnostic_offers_nothing:
  assumes "plan_runtime_route ob records_of bo ready require_exact rs = (Inr (d, status), bound)"
    and "runtime_route_is_diagnostic (rd_state_kind d) (rd_phase_detail d)"
  shows "rd_recommended_public_command d = None" "rd_public_repair_targets d = []"
    "rd_execution_command_context d = None"
proof -
  obtain route_status where
    "d = finalize_route_decision_for_route_plan (planned_selection ob bound ready require_exact) route_status bound ready"
    using planned_route_parts(1) [OF assms(1)] by blast
  from finished_diagnostic_offers_nothing [OF this assms(2)]
  show "rd_recommended_public_command d = None" "rd_public_repair_targets d = []"
    "rd_execution_command_context d = None" by simp_all
qed

lemma is_some_and_never [simp]: "\<not> is_some_and x (\<lambda>_. False)"
  by (cases x) simp_all

lemma context_authorizes_context:
  "st_execution_command_context s = st_execution_command_context s' \<Longrightarrow>
     st_execution_fingerprint s = st_execution_fingerprint s' \<Longrightarrow> context_authorizes s r = context_authorizes s' r"
  by (simp add: context_authorizes_def request_fingerprint_matches_status_def)

text \<open>When a planned decision is diagnostic, the status offers no command, repair target or context, and the
  oracle refuses every mutation on it.\<close>

lemma diagnostic_route_admits_nothing:
  assumes "plan_runtime_route ob records_of bo ready require_exact rs = (Inr (d, status), bound)"
    and "runtime_route_is_diagnostic (rd_state_kind d) (rd_phase_detail d)"
  shows "st_recommended_public_command status = None \<and> st_public_repair_targets status = [] \<and>
    st_execution_command_context status = None \<and> \<not> md_allowed (decide_public_mutation status request)"
proof -
  note planned_diagnostic_offers_nothing [OF assms]
  then have "st_recommended_public_command status = None" "st_public_repair_targets status = []"
    "st_execution_command_context status = None"
    using planned_status(1) [OF assms(1)] unfolding status_reports_def by simp_all
  then show ?thesis
    by (simp add: decide_allowed_iff exact_route_exposed_def route_exposes_public_mutation_request_def
        context_authorizes_def repair_target_authorizes_def)
qed

text \<open>C32: a step command that the planner recommends can be run.  When the planner returns a decision and its
  status, on whatever state and observations, and the status recommends a begin, complete or reopen, the mutation
  oracle allows the request of that command on that status, unless the decision blocks local mutations or waits
  for an external review.\<close>

lemma planned_step_command_is_allowed:
  assumes plan: "plan_runtime_route ob records_of bo ready require_exact rs = (Inr (d, status), bound)"
    and command: "st_recommended_public_command status = Some command" "to_mutation_request command = Some request"
      "is_execution_mutation (mr_kind request)"
    and state: "\<not> state_kind_blocks_local_mutation (rd_state_kind d)"
      "\<not> external_wait_state_is_external_wait (rd_external_wait_state d)"
  shows "md_allowed (decide_public_mutation status request)"
proof -
  have report: "st_recommended_public_command status = rd_recommended_public_command d"
    "st_execution_command_context status = rd_execution_command_context d" "st_state_kind status = rd_state_kind d"
    "st_phase_detail status = rd_phase_detail d" "st_external_wait_state status = rd_external_wait_state d"
    using planned_status(1) [OF plan] unfolding status_reports_def by simp_all
  have "\<not> runtime_route_is_diagnostic (rd_state_kind d) (rd_phase_detail d)"
    using command(1) report(1) planned_diagnostic_offers_nothing(1) [OF plan] by auto
  then have "rd_phase_detail d \<noteq> DETAIL_RUNTIME_RECONCILE_REQUIRED" "\<not> state_kind_is_blocked_runtime_bug (rd_state_kind d)"
    by (auto simp: runtime_route_is_diagnostic_def state_kind_or_phase_is_runtime_diagnostic_def state_kind_defs)
  moreover have "context_authorizes status request"
  proof -
    have "context_authorizes (rn_status bound\<lparr>st_execution_command_context := rd_execution_command_context d\<rparr>) request"
      using planned_names_step [OF plan] command report(1) by (simp add: decision_names_its_step_def context_names_def)
    then show ?thesis
      by (subst context_authorizes_context) (simp_all add: report(2) planned_status(2) [OF plan])
  qed
  moreover have "is_public_mutation (mr_kind request)"
    using command(3) by (cases "mr_kind request") (simp_all add: is_public_mutation_def)
  ultimately show ?thesis
    using state by (simp add: report decide_allowed_iff reconcile_admits_def route_open_def
        status_waits_for_external_review_result_def state_kind_blocks_all_public_mutation_def)
qed

text \<open>A plan that succeeds changes in the runtime state at most the persisted follow-up and the repair-target
  candidates; its status says what its decision says; and the command line, template and inputs of the decision are
  those of its command.\<close>

lemma planned_status_reports_the_decision:
  assumes "plan_runtime_route ob records_of bo ready require_exact rs = (Inr (d, status), bound)"
  shows "status_reports d status \<and> surfaces_agree d \<and>
    bound = rs\<lparr>rn_persisted_repair_follow_up := rn_persisted_repair_follow_up bound,
      rn_route_repair_target_candidates := rn_route_repair_target_candidates bound\<rparr>"
proof (intro conjI)
  show "status_reports d status"
    by (rule planned_status(1) [OF assms])
  show "surfaces_agree d"
    using planned_route_parts(1) [OF assms] finished_surfaces [OF planned_selection_keeps(2)] by blast
  show "bound = rs\<lparr>rn_persisted_repair_follow_up := rn_persisted_repair_follow_up bound,
      rn_route_repair_target_candidates := rn_route_repair_target_candidates bound\<rparr>"
    using planned_route_parts(3) [OF assms] bound_state by blast
qed

subsection \<open>Concrete plans\<close>

text \<open>What the planner reads of a state, in the facts it plans with.\<close>

lemma planned_facts_fields [simp]:
  "pf_review_state_status (planned_facts ob rs) =
     effective_review_state_status (rn_status rs) (st_review_state_status (rn_status rs))"
  "pf_current_task_closure_branch_route_facts (planned_facts ob rs) =
     current_task_closure_branch_route_facts_from_status ob (rn_status rs)"
  "pf_persisted_repair_follow_up (planned_facts ob rs) = rn_persisted_repair_follow_up rs"
  "pf_persisted_reopen_target (planned_facts ob rs) = persisted_reopen_target (rn_route_repair_target_candidates rs)"
  by (simp_all add: planned_facts_def route_planning_authority_for_status_def route_planning_facts_from_inputs_def Let_def
      current_task_closure_branch_route_facts_or_derive_def next_action_authority_inputs_for_route_plan_def unwrap_or_def)

lemma finished_keeps_route:
  assumes "\<not> runtime_route_is_diagnostic (rd_state_kind x) (rd_phase_detail x)"
  shows "rd_recommended_public_command (finalize_route_decision_for_route_plan x s rs ready) =
      rd_recommended_public_command x"
    and "rd_state_kind (finalize_route_decision_for_route_plan x s rs ready) = rd_state_kind x"
    and "rd_external_wait_state (finalize_route_decision_for_route_plan x s rs ready) =
      opt_or (external_wait_state_for_phase_detail (rd_phase_detail x) (rd_blocking_reason_codes x) ready)
        (st_external_wait_state s)"
proof -
  have "\<not> targetless_stale_reconcile_for_phase (rd_phase_detail x) (rd_blocking_reason_codes x)"
    using assms by (auto simp: targetless_stale_reconcile_for_phase_def from_phase_and_reason_codes_def
        runtime_route_is_diagnostic_def state_kind_or_phase_is_runtime_diagnostic_def)
  then show "rd_recommended_public_command (finalize_route_decision_for_route_plan x s rs ready) =
      rd_recommended_public_command x"
    and "rd_state_kind (finalize_route_decision_for_route_plan x s rs ready) = rd_state_kind x"
    and "rd_external_wait_state (finalize_route_decision_for_route_plan x s rs ready) =
      opt_or (external_wait_state_for_phase_detail (rd_phase_detail x) (rd_blocking_reason_codes x) ready)
        (st_external_wait_state s)"
    using assms by (simp_all add: finalize_route_decision_for_route_plan_def Let_def normalize_diagnostic_route_decision_def
        apply_public_route_projection_def)
qed

definition sample_observations :: PlanningObservations where
  "sample_observations =
     \<lparr>po_repair_candidate = (\<lambda>_ _ _ _. Inr None), po_bridge_ready_for_stale_target = (\<lambda>_ _ _ _. Inr False),
      po_stale_unreviewed_allows_bridge = (\<lambda>_ _. Inr False),
      po_worktree_drift_escapes_late_stage_surface = Inr False, po_runtime_owned_path = (\<lambda>_. False)\<rparr>"

definition no_records :: BlockingRecordsOf where
  "no_records = (\<lambda>_ _ _. Inr [])"

text \<open>One task of one step, and a binding that finds a reopen of this step persisted.\<close>

definition sample_runtime :: "PlanExecutionStatus \<Rightarrow> RuntimeState" where
  "sample_runtime status =
     \<lparr>rn_context = \<lparr>ec_plan_rel = ''plan.md'',
        ec_steps = [\<lparr>ss_task_number = 1, ss_step_number = 1, ss_checked = False\<rparr>],
        ec_tasks_by_number = [(1, [1])], ec_plan_document_task_count = 1, ec_attempts = []\<rparr>,
      rn_status = status, rn_route_repair_target_candidates = [],
      rn_gate_snapshot = \<lparr>sp_stale_reason_codes = [], sp_stale_targets = [], sp_branch_closure_tracked_drift = False,
        sp_late_stage_stale_unreviewed = False, sp_missing_current_closure_stale_provenance = False,
        rg_preflight = None, rg_gate_review = None, rg_gate_finish = None\<rparr>,
      rn_persisted_repair_follow_up = None, rn_release_readiness_result_for_current_branch = None,
      rn_branch_rerecording_assessment = None, rn_task_review_dispatch_id = None,
      rn_final_review_dispatch_authority = \<lparr>fd_dispatch_id = None, fd_lineage_present = False\<rparr>,
      rn_final_review_outcome_recorded_for_current_dispatch = False\<rparr>"

definition sample_binding :: "RepairFollowUpKind option \<Rightarrow> PublicRepairTarget list \<Rightarrow> RouteBindingObservations" where
  "sample_binding follow_up candidates =
     \<lparr>bo_source_decision_hash = (\<lambda>_. None), bo_actionable_follow_up = (\<lambda>_ _. follow_up),
      bo_candidates_from_authority = (\<lambda>_ _ _. candidates)\<rparr>"

definition sample_reopen_target :: PublicRepairTarget where
  "sample_reopen_target = route_owned_target ReopenCommand (Some 1) (Some 1) PersistedExecutionReentryFollowUp ''follow-up''"

definition sample_closed_status :: PlanExecutionStatus where
  "sample_closed_status = idle_status\<lparr>st_review_state_status := REVIEW_STATE_MISSING_CURRENT_CLOSURE,
     st_current_task_closures := [\<lparr>tc_task = 1, tc_closure_record_id = ''c1'', tc_reviewed_state_id = ''t1'',
       tc_contract_identity = ''k1'', tc_effective_reviewed_surface_paths = []\<rparr>]\<rparr>"

definition sample_reentry_runtime :: RuntimeState where
  "sample_reentry_runtime = (sample_runtime sample_closed_status)\<lparr>rn_branch_rerecording_assessment :=
     Some \<lparr>ba_changed_paths = [], ba_late_stage_surface = [], ba_drift_confined_to_late_stage_surface = True,
       ba_supported = True, ba_unsupported_reason = None\<rparr>\<rparr>"

definition sample_reentry_binding :: RouteBindingObservations where
  "sample_reentry_binding = sample_binding (Some RFU_ExecutionReentry) [sample_reopen_target]"

lemma records_total_none [simp]: "records_total no_records"
  by (simp add: records_total_def no_records_def)

definition sample_reentry_bound :: RuntimeState where
  "sample_reentry_bound = sample_reentry_runtime\<lparr>rn_persisted_repair_follow_up := Some FOLLOW_UP_EXECUTION_REENTRY,
     rn_route_repair_target_candidates := [sample_reopen_target]\<rparr>"

lemma sample_reentry_is_bound:
  "refresh_route_bound_repair_state sample_reentry_binding hash sample_reentry_runtime = sample_reentry_bound"
  by (simp add: refresh_route_bound_repair_state_def sample_reentry_binding_def sample_binding_def
      sample_reentry_bound_def Let_def)

lemma sample_bound_fields [simp]:
  "rn_status sample_reentry_bound = sample_closed_status"
  "rn_persisted_repair_follow_up sample_reentry_bound = Some FOLLOW_UP_EXECUTION_REENTRY"
  "rn_route_repair_target_candidates sample_reentry_bound = [sample_reopen_target]"
  "is_some_and (rn_branch_rerecording_assessment sample_reentry_bound) ba_supported"
  "rn_plan_rel sample_reentry_bound = ''plan.md''"
  by (simp_all add: sample_reentry_bound_def sample_reentry_runtime_def sample_runtime_def rn_plan_rel_def)

lemma sample_branch_preempts:
  "branch_closure_preempts_route sample_reentry_bound (planned_facts sample_observations sample_reentry_bound)"
  by (simp add: branch_closure_preempts_route_def set_should_route_to_branch_closure_def
      current_task_closure_branch_route_facts_from_status_def projected_task_closure_set_is_non_branch_contributing_def
      sample_closed_status_def effective_review_state_status_def idle_status_def)

lemma sample_persisted_target:
  "persisted_reopen_target [sample_reopen_target] = Some \<lparr>pr_task_number = 1, pr_step_number = 1\<rparr>"
  by (simp add: persisted_reopen_target_def sample_reopen_target_def route_owned_target_def public_mutation_token_def
      repair_target_reason_matches_def matches_public_mutation_token_def unwrap_or_def opt_zip_def)

lemma sample_reentry_selection:
  "\<exists>source. select_runtime_route_decision sample_observations sample_reentry_bound
       (planned_facts sample_observations sample_reentry_bound) ai ready require_exact =
     execution_reentry_reopen_route_decision sample_reentry_bound \<lparr>pr_task_number = 1, pr_step_number = 1\<rparr> source"
proof -
  let ?branch = "branch_closure_recording_route_decision sample_reentry_bound sample_closed_status"
  have primary: "select_primary_runtime_route_decision sample_observations sample_reentry_bound
      (planned_facts sample_observations sample_reentry_bound) ai ready require_exact = ?branch"
    using sample_branch_preempts by (simp add: select_primary_runtime_route_decision_def Let_def)
  have "rd_phase_detail ?branch = DETAIL_BRANCH_CLOSURE_RECORDING_REQUIRED_FOR_RELEASE_READINESS"
    unfolding branch_closure_recording_route_decision_def Let_def case_prod_beta
    by (simp add: apply_public_route_projection_def Let_def)
  moreover have "\<not> route_preempts_persisted_execution_reentry ?branch"
    unfolding route_preempts_persisted_execution_reentry_def branch_closure_recording_route_decision_def Let_def
      case_prod_beta projection_keeps_command
    by (simp add: public_advance_late_stage_command_for_phase_detail_def public_advance_late_stage_mode_for_phase_detail_def)
  ultimately show ?thesis
    by (simp add: select_runtime_route_decision_def select_route_planning_candidate_def primary unwrap_or_def
        persisted_execution_reentry_selection_candidate_def persisted_repair_follow_up_is_def sample_persisted_target)
      blast
qed

lemma sample_reopen_decision:
  assumes "x = apply_route_planning_fact_adjustments facts (execution_reentry_reopen_route_decision sample_reentry_bound
    \<lparr>pr_task_number = 1, pr_step_number = 1\<rparr> source)"
  shows "rd_state_kind x = STATE_KIND_ACTIONABLE_PUBLIC_COMMAND" "rd_phase_detail x = DETAIL_EXECUTION_REENTRY_REQUIRED"
    "rd_external_wait_state x = None"
    "rd_recommended_public_command x = Some (PublicReopen ''plan.md'' 1 1 (Some ''featureforge:executing-plans'')
      (Some (runtime_routed_reopen_reason 1 1)) (Some ''fp''))"
  unfolding assms execution_reentry_reopen_route_decision_def Let_def case_prod_beta
  by (simp_all add: apply_route_planning_fact_adjustments_def apply_public_route_projection_def Let_def
      external_wait_state_for_phase_detail_def sample_closed_status_def idle_status_def reopen_public_command_def
      recommended_execution_source_def opt_or_def split: option.split)

lemma sample_reentry_plan:
  "\<exists>d status. plan_runtime_route sample_observations no_records sample_reentry_binding ready require_exact
       sample_reentry_runtime = (Inr (d, status), sample_reentry_bound) \<and>
     rd_recommended_public_command d = Some (PublicReopen ''plan.md'' 1 1 (Some ''featureforge:executing-plans'')
       (Some (runtime_routed_reopen_reason 1 1)) (Some ''fp'')) \<and>
     rd_state_kind d = STATE_KIND_ACTIONABLE_PUBLIC_COMMAND \<and> rd_external_wait_state d = None"
proof -
  obtain d status bound where plan: "plan_runtime_route sample_observations no_records sample_reentry_binding ready
      require_exact sample_reentry_runtime = (Inr (d, status), bound)"
    using planned_route_total [OF records_total_none] by blast
  have bound: "bound = sample_reentry_bound"
    using planned_route_parts(3) [OF plan] sample_reentry_is_bound by blast
  let ?x = "planned_selection sample_observations sample_reentry_bound ready require_exact"
  let ?facts = "planned_facts sample_observations sample_reentry_bound"
  obtain source where "select_runtime_route_decision sample_observations sample_reentry_bound ?facts
      (next_action_authority_inputs_for_route_plan sample_observations sample_reentry_bound (rn_status sample_reentry_bound))
      ready require_exact = execution_reentry_reopen_route_decision sample_reentry_bound
        \<lparr>pr_task_number = 1, pr_step_number = 1\<rparr> source"
    using sample_reentry_selection by blast
  then have x: "?x = apply_route_planning_fact_adjustments ?facts (execution_reentry_reopen_route_decision
      sample_reentry_bound \<lparr>pr_task_number = 1, pr_step_number = 1\<rparr> source)"
    by (simp only: planned_selection_def)
  note fields = sample_reopen_decision [OF x]
  have actionable: "\<not> runtime_route_is_diagnostic (rd_state_kind ?x) (rd_phase_detail ?x)"
    unfolding fields runtime_route_is_diagnostic_def state_kind_or_phase_is_runtime_diagnostic_def state_kind_defs
    by (simp add: Let_def trim_state_kind_tokens)
  obtain s where s: "status_for_route_plan_projection no_records sample_reentry_bound ?x = Inr s"
    and d: "d = finalize_route_decision_for_route_plan ?x s sample_reentry_bound ready"
    using planned_route_parts(1) [OF plan] unfolding bound by blast
  have "st_external_wait_state s = None"
    using projected_status_reports(1) [OF s] fields(3) unfolding status_reports_def by simp
  then have "rd_external_wait_state d = None"
    unfolding d finished_keeps_route(3) [OF actionable] by (simp add: fields external_wait_state_for_phase_detail_def)
  moreover have "rd_recommended_public_command d = rd_recommended_public_command ?x" "rd_state_kind d = rd_state_kind ?x"
    unfolding d by (rule finished_keeps_route(1) [OF actionable], rule finished_keeps_route(2) [OF actionable])
  ultimately show ?thesis
    using plan unfolding bound fields by blast
qed

lemma planned_step_command_is_allowed_witness:
  "\<exists>d status. plan_runtime_route sample_observations no_records sample_reentry_binding False True
       sample_reentry_runtime = (Inr (d, status), sample_reentry_bound) \<and>
     md_allowed (decide_public_mutation status (request_reopen 1 1 (Some ''fp'')))"
proof -
  obtain d status where plan: "plan_runtime_route sample_observations no_records sample_reentry_binding False True
      sample_reentry_runtime = (Inr (d, status), sample_reentry_bound)"
    and command: "rd_recommended_public_command d = Some (PublicReopen ''plan.md'' 1 1
      (Some ''featureforge:executing-plans'') (Some (runtime_routed_reopen_reason 1 1)) (Some ''fp''))"
    and kind: "rd_state_kind d = STATE_KIND_ACTIONABLE_PUBLIC_COMMAND" and wait: "rd_external_wait_state d = None"
    using sample_reentry_plan by blast
  have "md_allowed (decide_public_mutation status (request_reopen 1 1 (Some ''fp'')))"
  proof (rule planned_step_command_is_allowed [OF plan])
    show "st_recommended_public_command status = Some (PublicReopen ''plan.md'' 1 1
        (Some ''featureforge:executing-plans'') (Some (runtime_routed_reopen_reason 1 1)) (Some ''fp''))"
      using planned_status(1) [OF plan] command by (simp add: status_reports_def)
    show "\<not> state_kind_blocks_local_mutation (rd_state_kind d)"
      unfolding kind state_kind_blocks_local_mutation_def state_kind_defs by (simp add: Let_def trim_state_kind_tokens)
  qed (simp_all add: wait request_defs external_wait_state_is_external_wait_def)
  with plan show ?thesis
    by blast
qed

lemma planned_status_reports_the_decision_witness:
  "\<exists>d status. plan_runtime_route sample_observations no_records sample_reentry_binding False True
       sample_reentry_runtime = (Inr (d, status), sample_reentry_bound) \<and>
     status_reports d status \<and> surfaces_agree d"
  using sample_reentry_plan planned_status_reports_the_decision by blast

text \<open>A status with the reason code of a stale review without target.\<close>

definition sample_targetless_runtime :: RuntimeState where
  "sample_targetless_runtime =
     sample_runtime (idle_status\<lparr>st_reason_codes := [TARGETLESS_STALE_RECONCILE_REASON_CODE]\<rparr>)"

lemma planned_facts_precedence:
  "pf_targetless_stale_reconcile_required (planned_facts ob rs) \<longleftrightarrow>
     TARGETLESS_STALE_RECONCILE_REASON_CODE \<in> set (st_reason_codes (rn_status rs)) \<and>
     \<not> (ai_has_authoritative_stale_target (next_action_authority_inputs_for_route_plan ob rs (rn_status rs)) \<and>
        ai_authoritative_stale_target (next_action_authority_inputs_for_route_plan ob rs (rn_status rs)) \<noteq> None)"
  "pf_stale_resume_begin_route_candidate (planned_facts ob rs) \<Longrightarrow>
     effective_review_state_status (rn_status rs) (st_review_state_status (rn_status rs)) = REVIEW_STATE_STALE_UNREVIEWED"
  "pf_baseline_bridge_repair_review_state_ready (planned_facts ob rs) \<longleftrightarrow>
     task_closure_baseline_bridge_repair_review_state_route ob (rn_context rs) (rn_status rs)
       (next_action_authority_inputs_for_route_plan ob rs (rn_status rs))
       (effective_review_state_status (rn_status rs) (st_review_state_status (rn_status rs))) \<noteq> None"
  by (simp_all add: planned_facts_def route_planning_authority_for_status_def route_planning_facts_from_inputs_def Let_def
      resume_precedence_from_inputs_def targetless_stale_has_concrete_public_target_def)

lemma finished_phase_detail:
  "rd_phase_detail (finalize_route_decision_for_route_plan x s rs ready) = rd_phase_detail x"
  by (simp add: finalize_route_decision_for_route_plan_def Let_def normalize_diagnostic_route_decision_def
      normalize_targetless_stale_reconcile_route_decision_def clear_decision_route_def apply_public_route_projection_def)

lemma sample_targetless_facts:
  "pf_targetless_stale_reconcile_required (planned_facts ob sample_targetless_runtime)"
  "\<not> pf_baseline_bridge_repair_review_state_ready (planned_facts ob sample_targetless_runtime)"
  "\<not> pf_stale_resume_begin_route_candidate (planned_facts ob sample_targetless_runtime)"
  "\<not> branch_closure_preempts_route sample_targetless_runtime (planned_facts ob sample_targetless_runtime)"
proof -
  let ?s = "idle_status\<lparr>st_reason_codes := [TARGETLESS_STALE_RECONCILE_REASON_CODE]\<rparr>"
  have clean: "effective_review_state_status ?s (st_review_state_status ?s) = ''clean''"
    by (simp add: effective_review_state_status_def prerelease_branch_closure_refresh_required_def reason_present_def
        idle_status_def)
  have status: "rn_status sample_targetless_runtime = ?s"
    by (simp add: sample_targetless_runtime_def sample_runtime_def)
  have ai: "ai_authoritative_stale_target (next_action_authority_inputs_for_route_plan ob sample_targetless_runtime ?s) = None"
    "ai_branch_rerecording_assessment (next_action_authority_inputs_for_route_plan ob sample_targetless_runtime ?s) = None"
    by (simp_all add: next_action_authority_inputs_for_route_plan_def next_action_authority_inputs_from_gate_snapshot_def
        next_action_authority_inputs_from_stale_targets_def select_authoritative_stale_reentry_target_def
        select_actionable_stale_reentry_target_def sample_targetless_runtime_def sample_runtime_def)
  show "pf_targetless_stale_reconcile_required (planned_facts ob sample_targetless_runtime)"
    unfolding planned_facts_precedence status using ai by simp
  show "\<not> pf_baseline_bridge_repair_review_state_ready (planned_facts ob sample_targetless_runtime)"
    unfolding planned_facts_precedence status task_closure_baseline_bridge_repair_review_state_route_def ai clean
    by (simp add: then_some_def idle_status_def)
  show "\<not> pf_stale_resume_begin_route_candidate (planned_facts ob sample_targetless_runtime)"
    using planned_facts_precedence(2) [of ob sample_targetless_runtime] unfolding status clean by auto
  show "\<not> branch_closure_preempts_route sample_targetless_runtime (planned_facts ob sample_targetless_runtime)"
    unfolding branch_closure_preempts_route_def planned_facts_fields status clean by simp
qed

lemma sample_targetless_selection:
  "rd_phase_detail (planned_selection ob sample_targetless_runtime ready require_exact) =
     DETAIL_RUNTIME_RECONCILE_REQUIRED"
proof -
  let ?rs = sample_targetless_runtime and ?facts = "planned_facts ob sample_targetless_runtime"
  have reconcile: "rd_phase_detail (runtime_reconcile_route_decision ?rs s task code) = DETAIL_RUNTIME_RECONCILE_REQUIRED"
    for s task code
    unfolding runtime_reconcile_route_decision_def Let_def case_prod_beta
    by (simp add: apply_public_route_projection_def Let_def normalize_diagnostic_route_decision_def clear_decision_route_def)
  have no_command: "rd_recommended_public_command (runtime_reconcile_route_decision ?rs s task
      TARGETLESS_STALE_RECONCILE_REASON_CODE) = None" for s task
    unfolding runtime_reconcile_route_decision_def Let_def case_prod_beta projection_keeps_command
    by (simp add: normalize_diagnostic_route_decision_def clear_decision_route_def targetless_from_reason_code_def
        then_some_def)
  have persisted: "persisted_execution_reentry_selection_candidate ?rs ?facts = None"
    by (simp add: persisted_execution_reentry_selection_candidate_def persisted_repair_follow_up_is_def
        sample_targetless_runtime_def sample_runtime_def)
  have "\<exists>task. select_primary_runtime_route_decision ob ?rs ?facts ai ready require_exact =
      runtime_reconcile_route_decision ?rs (rn_status ?rs) task TARGETLESS_STALE_RECONCILE_REASON_CODE" for ai
    unfolding select_primary_runtime_route_decision_def Let_def using sample_targetless_facts [of ob]
    by (simp add: opt_filter_def split: option.split) blast
  then obtain task where primary: "select_primary_runtime_route_decision ob ?rs ?facts
      (next_action_authority_inputs_for_route_plan ob ?rs (rn_status ?rs)) ready require_exact =
      runtime_reconcile_route_decision ?rs (rn_status ?rs) task TARGETLESS_STALE_RECONCILE_REASON_CODE"
    by blast
  have "select_runtime_route_decision ob ?rs ?facts (next_action_authority_inputs_for_route_plan ob ?rs (rn_status ?rs))
      ready require_exact = runtime_reconcile_route_decision ?rs (rn_status ?rs) task TARGETLESS_STALE_RECONCILE_REASON_CODE"
    unfolding select_runtime_route_decision_def select_route_planning_candidate_def primary persisted
      route_preempts_persisted_execution_reentry_def no_command
    using sample_targetless_facts(2) [of ob] by (simp add: unwrap_or_def)
  then show ?thesis
    unfolding planned_selection_def by (simp add: apply_route_planning_fact_adjustments_def reconcile split: option.split)
qed

lemma diagnostic_route_admits_nothing_witness:
  "\<exists>d status bound. plan_runtime_route sample_observations no_records (sample_binding None []) False True
       sample_targetless_runtime = (Inr (d, status), bound) \<and>
     rd_phase_detail d = DETAIL_RUNTIME_RECONCILE_REQUIRED \<and>
     \<not> md_allowed (decide_public_mutation status request_repair_review_state)"
proof -
  obtain d status bound where plan: "plan_runtime_route sample_observations no_records (sample_binding None []) False True
      sample_targetless_runtime = (Inr (d, status), bound)"
    using planned_route_total [OF records_total_none] by blast
  have "bound = sample_targetless_runtime"
    using planned_route_parts(3) [OF plan] by (auto simp: refresh_route_bound_repair_state_def sample_binding_def Let_def
        sample_targetless_runtime_def sample_runtime_def)
  then have detail: "rd_phase_detail d = DETAIL_RUNTIME_RECONCILE_REQUIRED"
    using planned_route_parts(1) [OF plan] by (auto simp: finished_phase_detail sample_targetless_selection)
  then have "runtime_route_is_diagnostic (rd_state_kind d) (rd_phase_detail d)"
    by (simp add: runtime_route_is_diagnostic_def state_kind_or_phase_is_runtime_diagnostic_def)
  with plan detail diagnostic_route_admits_nothing show ?thesis
    by blast
qed

end
