(* ===== verification/Runtime_Invariants.thy ===== *)
theory Runtime_Invariants
  imports Command_Eligibility Route_Commands
begin

text \<open>
  The invariants of a status on the read surface and after a mutation (\<^verbatim>\<open>execution/invariants.rs\<close>): the checks,
  the conversion of a status that violates one into a diagnostic, the violations tests inject through an
  environment variable, and the guard of the mutation commands
  (\<^verbatim>\<open>commands/common/mutation_guards.rs\<close>).

  The lemmas relate the checks to the oracle: a converted status admits no mutation, and a status that comes
  out of the read surface never recommends a mutation the oracle refuses.
\<close>

subsection \<open>Violations\<close>

datatype RuntimeInvariantSeverity = RuntimeBug | ReconcileRequired

record RuntimeInvariantViolation =
  iv_code :: string
  iv_severity :: RuntimeInvariantSeverity
  iv_detail :: string

datatype InvariantEnforcementMode = ReadSurface | PostMutation

definition violation :: "string \<Rightarrow> RuntimeInvariantSeverity \<Rightarrow> string \<Rightarrow> RuntimeInvariantViolation" where
  "violation code severity detail = \<lparr>iv_code = code, iv_severity = severity, iv_detail = detail\<rparr>"

definition RUNTIME_INVARIANT_CODES :: "string list" where
  "RUNTIME_INVARIANT_CODES =
     [''current_stale_closure_overlap'', ''execution_reentry_target_missing'', ''illegal_execution_command_context'',
      ''recommended_command_hidden_or_debug'', ''recommended_public_command_argv_template_tokens'',
      ''next_public_action_hidden_or_debug'', ''recommended_command_next_action_mismatch'',
      TARGETLESS_STALE_RECONCILE_REASON_CODE, ''terminal_recommended_command'',
      ''waiting_external_input_local_mutation'', ''recommended_mutation_command_rejected'']"

definition read_surface_invariant_projection_active :: "PlanExecutionStatus \<Rightarrow> bool" where
  "read_surface_invariant_projection_active status \<longleftrightarrow>
     state_kind_is_blocked_runtime_bug (st_state_kind status) \<or> st_phase_detail status = DETAIL_BLOCKED_RUNTIME_BUG \<or>
     list_ex (\<lambda>code. code \<in> set RUNTIME_INVARIANT_CODES) (st_reason_codes status @ st_blocking_reason_codes status)"

definition execution_command_kind_is_legal_public_token :: "string \<Rightarrow> bool" where
  "execution_command_kind_is_legal_public_token token \<longleftrightarrow> from_execution_mutation_name token \<noteq> None"

definition execution_reentry_has_concrete_target :: "PlanExecutionStatus \<Rightarrow> bool" where
  "execution_reentry_has_concrete_target status \<longleftrightarrow>
     is_some_and (st_execution_command_context status) (\<lambda>ctx.
       cx_task_number ctx \<noteq> None \<and> cx_step_id ctx \<noteq> None \<and> from_execution_mutation_name (cx_command_kind ctx) \<noteq> None)"

definition public_command_recommends_execution_mutation :: "PublicCommand \<Rightarrow> bool" where
  "public_command_recommends_execution_mutation command \<longleftrightarrow> is_execution_mutation (command_kind command)"

definition public_command_recommends_local_mutation :: "PublicCommand \<Rightarrow> bool" where
  "public_command_recommends_local_mutation command \<longleftrightarrow> public_mutation_name (command_kind command) \<noteq> None"

definition status_exposes_public_execution_mutation :: "PlanExecutionStatus \<Rightarrow> bool" where
  "status_exposes_public_execution_mutation status \<longleftrightarrow>
     is_some_and (st_recommended_public_command status) public_command_recommends_execution_mutation"

subsection \<open>The checks\<close>

text \<open>Each check pushes at most a few violations; as a function it is the list it pushes.\<close>

definition check_current_and_stale_closures_are_disjoint :: "PlanExecutionStatus \<Rightarrow> RuntimeInvariantViolation list" where
  "check_current_and_stale_closures_are_disjoint status =
     (let current_ids = map tc_closure_record_id (st_current_task_closures status);
          overlapping_ids = filter (\<lambda>c. c \<in> set current_ids) (st_stale_unreviewed_closures status)
      in if overlapping_ids = [] then []
         else [violation ''current_stale_closure_overlap'' RuntimeBug
           (''current and stale task-closure sets must be disjoint. overlapping_ids='' @ debug_list debug_str overlapping_ids)])"

definition check_execution_reentry_has_concrete_target :: "PlanExecutionStatus \<Rightarrow> RuntimeInvariantViolation list" where
  "check_execution_reentry_has_concrete_target status =
     (if st_phase_detail status \<noteq> DETAIL_EXECUTION_REENTRY_REQUIRED \<or>
         state_kind_is_blocked_runtime_bug (st_state_kind status) \<or>
         st_phase_detail status = DETAIL_RUNTIME_RECONCILE_REQUIRED \<or> \<not> status_exposes_public_execution_mutation status
      then []
      else if execution_reentry_has_concrete_target status then []
      else [violation ''execution_reentry_target_missing'' ReconcileRequired
        ''execution_reentry_required must include a concrete execution command target.''])"

definition check_execution_command_context_kind :: "PlanExecutionStatus \<Rightarrow> RuntimeInvariantViolation list" where
  "check_execution_command_context_kind status =
     (case st_execution_command_context status of
        None \<Rightarrow> []
      | Some ctx \<Rightarrow>
          if execution_command_kind_is_legal_public_token (cx_command_kind ctx) then []
          else [violation ''illegal_execution_command_context'' RuntimeBug
            (''execution command context command_kind `'' @ cx_command_kind ctx @ ''` is not a legal public execution token.'')])"

definition check_public_command_shape :: "string \<Rightarrow> string \<Rightarrow> string \<Rightarrow> RuntimeInvariantViolation list" where
  "check_public_command_shape label command hidden_code =
     (if command_invokes_hidden_lane command
      then [violation hidden_code RuntimeBug (label @ '' must not expose hidden/debug command `'' @ command @ ''`.'')]
      else [])"

definition check_public_commands :: "PlanExecutionStatus \<Rightarrow> InvariantEnforcementMode \<Rightarrow> RuntimeInvariantViolation list" where
  "check_public_commands status mode =
     (case st_recommended_command status of None \<Rightarrow> []
      | Some command \<Rightarrow> check_public_command_shape ''recommended command'' command ''recommended_command_hidden_or_debug'') @
     (case st_next_public_action status of None \<Rightarrow> []
      | Some action \<Rightarrow> check_public_command_shape ''next public action'' (na_command action) ''next_public_action_hidden_or_debug'') @
     (case st_recommended_public_command_argv status of None \<Rightarrow> []
      | Some argv \<Rightarrow>
          if public_argv_has_template_tokens argv
          then [violation ''recommended_public_command_argv_template_tokens'' RuntimeBug
            (''recommended_public_command_argv must be executable-or-absent; got '' @ debug_list debug_str argv @ ''.'')]
          else []) @
     (case (mode, st_recommended_command status, st_next_public_action status) of
        (PostMutation, Some command, Some action) \<Rightarrow>
          if command \<noteq> na_command action
          then [violation ''recommended_command_next_action_mismatch'' RuntimeBug
            (''recommended command `'' @ command @ ''` must match router next public action `'' @ na_command action @ ''`.'')]
          else []
      | _ \<Rightarrow> [])"

definition check_targetless_stale_unreviewed_routes_to_reconcile ::
  "PlanExecutionStatus \<Rightarrow> TargetlessStaleAuthority option \<Rightarrow> RuntimeInvariantViolation list" where
  "check_targetless_stale_unreviewed_routes_to_reconcile status targetless_stale_authority =
     (case targetless_stale_authority of None \<Rightarrow> []
      | Some authority \<Rightarrow>
          if status_has_diagnostic status \<or> \<not> status_needs_marker_for_authority status authority then []
          else [violation TARGETLESS_STALE_RECONCILE_REASON_CODE ReconcileRequired
            ''stale_unreviewed state must include concrete stale targets.''])"

definition check_terminal_states_do_not_recommend_mutations :: "PlanExecutionStatus \<Rightarrow> RuntimeInvariantViolation list" where
  "check_terminal_states_do_not_recommend_mutations status =
     (if \<not> state_kind_is_terminal (st_state_kind status) \<or> st_recommended_command status = None then []
      else [violation ''terminal_recommended_command'' RuntimeBug ''terminal states must not emit a recommended command.''])"

definition check_waiting_external_input_does_not_recommend_local_mutation ::
  "PlanExecutionStatus \<Rightarrow> RuntimeInvariantViolation list" where
  "check_waiting_external_input_does_not_recommend_local_mutation status =
     (if \<not> state_kind_is_external_wait (st_state_kind status) then []
      else case st_recommended_public_command status of
        None \<Rightarrow> []
      | Some command \<Rightarrow>
          if \<not> public_command_recommends_local_mutation command \<or> command_kind command = WorkflowOperator then []
          else [violation ''waiting_external_input_local_mutation'' RuntimeBug
            (''waiting_external_input states must not recommend local mutation command `'' @ to_display_command command @ ''`.'')])"

definition check_recommended_command_matches_mutation_eligibility ::
  "PlanExecutionStatus \<Rightarrow> RuntimeInvariantViolation list" where
  "check_recommended_command_matches_mutation_eligibility status =
     (case st_recommended_public_command status of
        None \<Rightarrow> []
      | Some command \<Rightarrow>
          if \<not> public_command_recommends_local_mutation command then []
          else case to_mutation_request command of
            None \<Rightarrow> []
          | Some request \<Rightarrow>
              if \<not> md_allowed (decide_public_mutation status request)
              then [violation ''recommended_mutation_command_rejected'' RuntimeBug
                (''recommended command `'' @ to_display_command command @
                 ''` is not accepted by the mutation eligibility oracle.'')]
              else [])"

definition check_runtime_status_invariants_with_targetless_authority ::
  "PlanExecutionStatus \<Rightarrow> InvariantEnforcementMode \<Rightarrow> TargetlessStaleAuthority option \<Rightarrow> RuntimeInvariantViolation list" where
  "check_runtime_status_invariants_with_targetless_authority status mode targetless_stale_authority =
     check_current_and_stale_closures_are_disjoint status @
     check_execution_reentry_has_concrete_target status @
     check_execution_command_context_kind status @
     check_public_commands status mode @
     check_targetless_stale_unreviewed_routes_to_reconcile status targetless_stale_authority @
     check_terminal_states_do_not_recommend_mutations status @
     check_waiting_external_input_does_not_recommend_local_mutation status @
     check_recommended_command_matches_mutation_eligibility status"

definition check_runtime_status_invariants ::
  "PlanExecutionStatus \<Rightarrow> InvariantEnforcementMode \<Rightarrow> RuntimeInvariantViolation list" where
  "check_runtime_status_invariants status mode =
     check_runtime_status_invariants_with_targetless_authority status mode None"

subsection \<open>The conversion\<close>

definition push_code_once :: "string list \<Rightarrow> string \<Rightarrow> string list" where
  "push_code_once codes code = (if list_ex (\<lambda>existing. existing = code) codes then codes else codes @ [code])"

definition record_violation :: "PlanExecutionStatus \<Rightarrow> RuntimeInvariantViolation \<Rightarrow> PlanExecutionStatus" where
  "record_violation status v =
     (if targetless_from_reason_code (iv_code v) then ensure_status_diagnostic status
      else status\<lparr>st_reason_codes := push_code_once (st_reason_codes status) (iv_code v),
        st_blocking_reason_codes := push_code_once (st_blocking_reason_codes status) (iv_code v)\<rparr>)"

definition clear_route_surface :: "PlanExecutionStatus \<Rightarrow> PlanExecutionStatus" where
  "clear_route_surface status =
     (let s = status\<lparr>st_recommended_public_command := None, st_recommended_public_command_argv := None,
            st_recommended_public_command_template := None, st_required_inputs := []\<rparr>
      in s\<lparr>st_next_action := unwrap_or NEXT_ACTION_RUNTIME_DIAGNOSTIC_REQUIRED
             (diagnostic_next_action_for_route (st_state_kind s) (st_phase_detail s)
                (st_recommended_public_command_argv s \<noteq> None) (st_required_inputs s \<noteq> [])),
           st_recommended_command := None, st_execution_command_context := None,
           st_execution_reentry_target_source := None, st_public_repair_targets := [],
           st_next_public_action := None, st_blockers := []\<rparr>)"

definition classify_violating_status :: "bool \<Rightarrow> PlanExecutionStatus \<Rightarrow> PlanExecutionStatus" where
  "classify_violating_status has_runtime_bug status =
     (if has_runtime_bug
      then status\<lparr>st_phase := Some ''blocked'', st_phase_detail := DETAIL_BLOCKED_RUNTIME_BUG,
        st_state_kind := DETAIL_BLOCKED_RUNTIME_BUG\<rparr>
      else status\<lparr>st_phase_detail := DETAIL_RUNTIME_RECONCILE_REQUIRED,
        st_state_kind := DETAIL_RUNTIME_RECONCILE_REQUIRED\<rparr>)"

definition convert_status_to_runtime_reconcile_or_bug ::
  "PlanExecutionStatus \<Rightarrow> RuntimeInvariantViolation list \<Rightarrow> PlanExecutionStatus" where
  "convert_status_to_runtime_reconcile_or_bug status violations =
     (let targetless_stale_reconcile = list_ex (\<lambda>v. targetless_from_reason_code (iv_code v)) violations;
          has_runtime_bug = list_ex (\<lambda>v. iv_severity v = RuntimeBug) violations;
          recorded = foldl record_violation (clear_route_surface (classify_violating_status has_runtime_bug status)) violations
      in if targetless_stale_reconcile
         then recorded\<lparr>st_blocking_records := option_list (status_blocking_record recorded)\<rparr> else recorded)"

definition apply_read_surface_invariants_with_targetless_authority ::
  "PlanExecutionStatus \<Rightarrow> TargetlessStaleAuthority option \<Rightarrow> PlanExecutionStatus" where
  "apply_read_surface_invariants_with_targetless_authority status targetless_stale_authority =
     (let violations =
        check_runtime_status_invariants_with_targetless_authority status ReadSurface targetless_stale_authority
      in if violations = [] then status else convert_status_to_runtime_reconcile_or_bug status violations)"


definition enforce_post_mutation_shared_status_invariants :: "PlanExecutionStatus \<Rightarrow> JsonFailure + unit" where
  "enforce_post_mutation_shared_status_invariants status =
     (let violations = check_runtime_status_invariants status PostMutation in
      if violations \<noteq> []
      then Inl (json_failure MalformedExecutionState
        (''Post-mutation invariant violated: '' @
         join_with ''; '' (map (\<lambda>v. iv_code v @ '': '' @ iv_detail v) violations)))
      else Inr ())"

subsection \<open>What the conversion changes\<close>

lemma push_code_once_push: "push_code_once codes code = push_reason_once codes code"
  by (simp add: push_code_once_def push_reason_once_def)

lemma set_push_code_once [simp]: "set (push_code_once codes code) = insert code (set codes)"
  by (simp add: push_code_once_push)

lemma record_violation_codes:
  "\<exists>rs bs. record_violation s v = s\<lparr>st_reason_codes := rs, st_blocking_reason_codes := bs\<rparr> \<and>
     insert (iv_code v) (set (st_reason_codes s)) \<subseteq> set rs \<and>
     insert (iv_code v) (set (st_blocking_reason_codes s)) \<subseteq> set bs"
proof (cases "targetless_from_reason_code (iv_code v)")
  case True
  then show ?thesis
    by (intro exI [of _ "push_reason_once (st_reason_codes s) TARGETLESS_STALE_RECONCILE_REASON_CODE"]
        exI [of _ "ensure_reason_codes (st_blocking_reason_codes s)"])
      (auto simp: record_violation_def ensure_status_diagnostic_def targetless_from_reason_code_def)
next
  case False
  then show ?thesis
    by (intro exI [of _ "push_code_once (st_reason_codes s) (iv_code v)"]
        exI [of _ "push_code_once (st_blocking_reason_codes s) (iv_code v)"])
      (auto simp: record_violation_def)
qed

lemma record_violations_codes:
  "\<exists>rs bs. foldl record_violation s vs = s\<lparr>st_reason_codes := rs, st_blocking_reason_codes := bs\<rparr> \<and>
     iv_code ` set vs \<union> set (st_reason_codes s) \<subseteq> set rs \<and>
     iv_code ` set vs \<union> set (st_blocking_reason_codes s) \<subseteq> set bs"
proof (induction vs arbitrary: s)
  case Nil
  show ?case by (intro exI [of _ "st_reason_codes s"] exI [of _ "st_blocking_reason_codes s"]) simp
next
  case (Cons v vs)
  obtain rs bs where one: "record_violation s v = s\<lparr>st_reason_codes := rs, st_blocking_reason_codes := bs\<rparr>"
      "insert (iv_code v) (set (st_reason_codes s)) \<subseteq> set rs"
      "insert (iv_code v) (set (st_blocking_reason_codes s)) \<subseteq> set bs"
    using record_violation_codes [of s v] by blast
  obtain rs' bs' where rest:
      "foldl record_violation (record_violation s v) vs =
         (record_violation s v)\<lparr>st_reason_codes := rs', st_blocking_reason_codes := bs'\<rparr>"
      "iv_code ` set vs \<union> set (st_reason_codes (record_violation s v)) \<subseteq> set rs'"
      "iv_code ` set vs \<union> set (st_blocking_reason_codes (record_violation s v)) \<subseteq> set bs'"
    using Cons.IH [of "record_violation s v"] by blast
  show ?case
    by (intro exI [of _ rs'] exI [of _ bs']) (use one rest in auto)
qed

text \<open>Every field a violation of the read surface can depend on, after the conversion.\<close>

lemma cleared_fields [simp]:
  fixes s bug
  defines "c \<equiv> clear_route_surface (classify_violating_status bug s)"
  shows "st_recommended_public_command c = None" "st_recommended_public_command_argv c = None"
    "st_recommended_public_command_template c = None" "st_recommended_command c = None"
    "st_next_public_action c = None" "st_public_repair_targets c = []" "st_execution_command_context c = None"
    "st_required_inputs c = []" "st_blockers c = []" "st_execution_reentry_target_source c = None"
    "st_state_kind c = (if bug then DETAIL_BLOCKED_RUNTIME_BUG else DETAIL_RUNTIME_RECONCILE_REQUIRED)"
    "st_phase_detail c = (if bug then DETAIL_BLOCKED_RUNTIME_BUG else DETAIL_RUNTIME_RECONCILE_REQUIRED)"
    "st_phase c = (if bug then Some ''blocked'' else st_phase s)"
    "st_current_task_closures c = st_current_task_closures s"
    "st_stale_unreviewed_closures c = st_stale_unreviewed_closures s"
    "st_review_state_status c = st_review_state_status s" "st_blocking_task c = st_blocking_task s"
    "st_next_action c = NEXT_ACTION_RUNTIME_DIAGNOSTIC_REQUIRED"
    "st_reason_codes c = st_reason_codes s" "st_blocking_reason_codes c = st_blocking_reason_codes s"
    "st_recording_context c = st_recording_context s" "st_external_wait_state c = st_external_wait_state s"
  by (simp_all add: c_def clear_route_surface_def classify_violating_status_def Let_def
      diagnostic_next_action_for_route_def unwrap_or_def)

lemma convert_shape:
  obtains rs bs ks where
    "convert_status_to_runtime_reconcile_or_bug s vs =
       (clear_route_surface (classify_violating_status (list_ex (\<lambda>v. iv_severity v = RuntimeBug) vs) s))
         \<lparr>st_reason_codes := rs, st_blocking_reason_codes := bs, st_blocking_records := ks\<rparr>"
    "iv_code ` set vs \<union> set (st_reason_codes s) \<subseteq> set rs"
    "iv_code ` set vs \<union> set (st_blocking_reason_codes s) \<subseteq> set bs"
proof -
  define c where "c = clear_route_surface (classify_violating_status (list_ex (\<lambda>v. iv_severity v = RuntimeBug) vs) s)"
  obtain rs bs where codes: "foldl record_violation c vs = c\<lparr>st_reason_codes := rs, st_blocking_reason_codes := bs\<rparr>"
      "iv_code ` set vs \<union> set (st_reason_codes c) \<subseteq> set rs"
      "iv_code ` set vs \<union> set (st_blocking_reason_codes c) \<subseteq> set bs"
    using record_violations_codes [of c vs] by blast
  have conv: "convert_status_to_runtime_reconcile_or_bug s vs =
      (let recorded = foldl record_violation c vs
       in if list_ex (\<lambda>v. targetless_from_reason_code (iv_code v)) vs
          then recorded\<lparr>st_blocking_records := option_list (status_blocking_record recorded)\<rparr> else recorded)"
    by (simp add: convert_status_to_runtime_reconcile_or_bug_def c_def Let_def)
  have "\<exists>ks. convert_status_to_runtime_reconcile_or_bug s vs =
      c\<lparr>st_reason_codes := rs, st_blocking_reason_codes := bs, st_blocking_records := ks\<rparr>"
    unfolding conv codes(1) Let_def
    by (cases "list_ex (\<lambda>v. targetless_from_reason_code (iv_code v)) vs")
      (auto intro: exI [of _ "st_blocking_records c"])
  then show thesis
    using codes(2,3) that by (auto simp: c_def)
qed

lemma convert_fields:
  fixes s vs
  defines "s' \<equiv> convert_status_to_runtime_reconcile_or_bug s vs"
  defines "bug \<equiv> list_ex (\<lambda>v. iv_severity v = RuntimeBug) vs"
  shows "st_recommended_public_command s' = None" "st_recommended_public_command_argv s' = None"
    "st_recommended_public_command_template s' = None" "st_recommended_command s' = None"
    "st_next_public_action s' = None" "st_public_repair_targets s' = []" "st_execution_command_context s' = None"
    "st_required_inputs s' = []" "st_blockers s' = []" "st_execution_reentry_target_source s' = None"
    "st_state_kind s' = (if bug then DETAIL_BLOCKED_RUNTIME_BUG else DETAIL_RUNTIME_RECONCILE_REQUIRED)"
    "st_phase_detail s' = (if bug then DETAIL_BLOCKED_RUNTIME_BUG else DETAIL_RUNTIME_RECONCILE_REQUIRED)"
    "st_phase s' = (if bug then Some ''blocked'' else st_phase s)"
    "st_current_task_closures s' = st_current_task_closures s"
    "st_stale_unreviewed_closures s' = st_stale_unreviewed_closures s"
    "st_review_state_status s' = st_review_state_status s" "st_blocking_task s' = st_blocking_task s"
    "st_next_action s' = NEXT_ACTION_RUNTIME_DIAGNOSTIC_REQUIRED"
    "iv_code ` set vs \<union> set (st_reason_codes s) \<subseteq> set (st_reason_codes s')"
    "iv_code ` set vs \<union> set (st_blocking_reason_codes s) \<subseteq> set (st_blocking_reason_codes s')"
  unfolding s'_def bug_def by (rule convert_shape [of s vs], simp)+

subsection \<open>The checks on a cleared surface\<close>


lemma violation_code [simp]: "iv_code (violation c sev d) = c" "iv_severity (violation c sev d) = sev"
  by (simp_all add: violation_def)

definition reported :: "RuntimeInvariantViolation list \<Rightarrow> bool" where
  "reported vs \<longleftrightarrow> list_all (\<lambda>v. iv_code v \<in> set RUNTIME_INVARIANT_CODES) vs"

lemma reported_simps [simp]:
  "reported []" "reported (vs @ ws) \<longleftrightarrow> reported vs \<and> reported ws"
  "reported [violation c sev d] \<longleftrightarrow> c \<in> set RUNTIME_INVARIANT_CODES"
  by (simp_all add: reported_def)

lemma check_codes: "reported (check_runtime_status_invariants_with_targetless_authority s mode a)"
proof -
  note code = RUNTIME_INVARIANT_CODES_def
  have "reported (check_current_and_stale_closures_are_disjoint s)"
    by (simp add: check_current_and_stale_closures_are_disjoint_def code Let_def split: option.split)
  moreover have "reported (check_execution_reentry_has_concrete_target s)"
    by (simp add: check_execution_reentry_has_concrete_target_def code Let_def split: option.split)
  moreover have "reported (check_execution_command_context_kind s)"
    by (simp add: check_execution_command_context_kind_def code Let_def split: option.split)
  moreover have "reported (check_public_commands s mode)"
    by (cases mode) (simp_all add: check_public_commands_def check_public_command_shape_def code split: option.split)
  moreover have "reported (check_targetless_stale_unreviewed_routes_to_reconcile s a)"
    by (simp add: check_targetless_stale_unreviewed_routes_to_reconcile_def code Let_def split: option.split)
  moreover have "reported (check_terminal_states_do_not_recommend_mutations s)"
    by (simp add: check_terminal_states_do_not_recommend_mutations_def code Let_def split: option.split)
  moreover have "reported (check_waiting_external_input_does_not_recommend_local_mutation s)"
    by (simp add: check_waiting_external_input_does_not_recommend_local_mutation_def code Let_def split: option.split)
  moreover have "reported (check_recommended_command_matches_mutation_eligibility s)"
    by (simp add: check_recommended_command_matches_mutation_eligibility_def code Let_def split: option.split)
  ultimately show ?thesis
    by (simp add: check_runtime_status_invariants_with_targetless_authority_def)
qed

subsection \<open>The read surface and the oracle\<close>

text \<open>A status that violates an invariant is converted into one on which every mutation is refused.\<close>

lemma converted_status_refuses:
  "\<not> md_allowed (decide_public_mutation (convert_status_to_runtime_reconcile_or_bug s vs) request)"
proof (cases "list_ex (\<lambda>v. iv_severity v = RuntimeBug) vs")
  case True
  then show ?thesis
    by (intro nothing_allowed_on_bug) (simp add: convert_fields state_kind_is_blocked_runtime_bug_def normalize_state_kind_def)
next
  case False
  then show ?thesis
    by (intro nothing_allowed_on_diagnostic_reconcile) (simp add: runtime_reconcile_route_is_diagnostic_only_def convert_fields)
qed

lemma apply_read_surface_cases:
  obtains (clean) "check_runtime_status_invariants_with_targetless_authority s ReadSurface a = []"
      "apply_read_surface_invariants_with_targetless_authority s a = s"
  | (converted) vs where "vs = check_runtime_status_invariants_with_targetless_authority s ReadSurface a" "vs \<noteq> []"
      "apply_read_surface_invariants_with_targetless_authority s a = convert_status_to_runtime_reconcile_or_bug s vs"
  by (cases "check_runtime_status_invariants_with_targetless_authority s ReadSurface a = []")
    (auto simp: apply_read_surface_invariants_with_targetless_authority_def Let_def)

lemma to_mutation_request_recommends:
  "to_mutation_request c = Some r \<Longrightarrow> public_command_recommends_local_mutation c"
  using to_mutation_request_iff [of c] by (auto simp: public_command_recommends_local_mutation_def)

lemma clean_recommendation_allowed:
  assumes "check_runtime_status_invariants_with_targetless_authority s mode a = []"
    and "st_recommended_public_command s = Some c" "to_mutation_request c = Some r"
  shows "md_allowed (decide_public_mutation s r)"
  using assms to_mutation_request_recommends [OF assms(3)]
  by (auto simp: check_runtime_status_invariants_with_targetless_authority_def
      check_recommended_command_matches_mutation_eligibility_def split: if_splits)

lemma clean_commands_not_hidden:
  assumes "check_runtime_status_invariants_with_targetless_authority s mode a = []"
  shows "st_recommended_command s = Some t \<Longrightarrow> \<not> command_invokes_hidden_lane t"
    and "st_next_public_action s = Some action \<Longrightarrow> \<not> command_invokes_hidden_lane (na_command action)"
    and "st_recommended_public_command_argv s = Some argv \<Longrightarrow> \<not> public_argv_has_template_tokens argv"
  using assms
  by (auto simp: check_runtime_status_invariants_with_targetless_authority_def check_public_commands_def
      check_public_command_shape_def split: if_splits)

subsection \<open>A second pass\<close>

lemma disjoint_check_congr:
  assumes "st_current_task_closures s = st_current_task_closures t"
    and "st_stale_unreviewed_closures s = st_stale_unreviewed_closures t"
  shows "check_current_and_stale_closures_are_disjoint s = check_current_and_stale_closures_are_disjoint t"
  using assms by (simp add: check_current_and_stale_closures_are_disjoint_def)


lemma overlap_is_a_bug:
  "check_current_and_stale_closures_are_disjoint s = [] \<or>
   (\<exists>v. check_current_and_stale_closures_are_disjoint s = [v] \<and> iv_severity v = RuntimeBug \<and>
      iv_code v = ''current_stale_closure_overlap'')"
  by (simp add: check_current_and_stale_closures_are_disjoint_def Let_def)




text \<open>C10: the recommendation that leaves the read surface can be followed.  The oracle allows the mutation of the
  recommended command, neither the recommended command line nor the next action names a hidden command, the
  argument vector has no placeholder, and unless the status is a runtime bug no closure is both current and
  stale.\<close>

lemma read_surface_recommendation_is_executable:
  assumes "s' = apply_read_surface_invariants_with_targetless_authority s a"
  shows "(\<forall>c r. st_recommended_public_command s' = Some c \<and> to_mutation_request c = Some r \<longrightarrow>
           md_allowed (decide_public_mutation s' r)) \<and>
    (\<forall>line. st_recommended_command s' = Some line \<longrightarrow> \<not> command_invokes_hidden_lane line) \<and>
    (\<forall>action. st_next_public_action s' = Some action \<longrightarrow> \<not> command_invokes_hidden_lane (na_command action)) \<and>
    (\<forall>argv. st_recommended_public_command_argv s' = Some argv \<longrightarrow> \<not> public_argv_has_template_tokens argv) \<and>
    (state_kind_is_blocked_runtime_bug (st_state_kind s') \<or>
     set (map tc_closure_record_id (st_current_task_closures s')) \<inter> set (st_stale_unreviewed_closures s') = {})"
proof (cases rule: apply_read_surface_cases [of s a])
  case clean
  have "set (map tc_closure_record_id (st_current_task_closures s)) \<inter> set (st_stale_unreviewed_closures s) = {}"
    using clean(1)
    by (auto simp: check_runtime_status_invariants_with_targetless_authority_def
        check_current_and_stale_closures_are_disjoint_def filter_empty_conv Let_def split: if_splits)
  then show ?thesis
    using clean_recommendation_allowed [OF clean(1)] clean_commands_not_hidden [OF clean(1)]
    by (simp add: assms clean(2))
next
  case (converted vs)
  show ?thesis
  proof (cases "list_ex (\<lambda>v. iv_severity v = RuntimeBug) vs")
    case True
    then show ?thesis
      by (simp add: assms converted(3) convert_fields state_kind_is_blocked_runtime_bug_def normalize_state_kind_def)
  next
    case False
    then have "check_current_and_stale_closures_are_disjoint s = []"
      using converted(1) overlap_is_a_bug [of s]
      by (auto simp: check_runtime_status_invariants_with_targetless_authority_def list_ex_iff)
    then have "set (map tc_closure_record_id (st_current_task_closures s)) \<inter> set (st_stale_unreviewed_closures s) = {}"
      by (auto simp: check_current_and_stale_closures_are_disjoint_def filter_empty_conv Let_def split: if_splits)
    then show ?thesis
      by (simp add: assms converted(3) convert_fields)
  qed
qed

text \<open>C36: reading fails closed.  When a status violates an invariant, the status that leaves the read surface admits
  no mutation at all, recommends nothing, carries the code of every violation in both reason lists, and is
  recognised as an invariant projection.\<close>

lemma violated_invariant_fails_closed:
  assumes "check_runtime_status_invariants_with_targetless_authority s ReadSurface a = vs" and "vs \<noteq> []"
    and "s' = apply_read_surface_invariants_with_targetless_authority s a"
  shows "\<not> md_allowed (decide_public_mutation s' request) \<and> st_recommended_public_command s' = None \<and>
    st_public_repair_targets s' = [] \<and> st_next_action s' = NEXT_ACTION_RUNTIME_DIAGNOSTIC_REQUIRED \<and>
    iv_code ` set vs \<subseteq> set (st_reason_codes s') \<inter> set (st_blocking_reason_codes s') \<and>
    read_surface_invariant_projection_active s'"
proof -
  have s': "s' = convert_status_to_runtime_reconcile_or_bug s vs"
    using assms by (simp add: apply_read_surface_invariants_with_targetless_authority_def)
  obtain v where v: "v \<in> set vs" using assms(2) by (cases vs) auto
  have "iv_code v \<in> set RUNTIME_INVARIANT_CODES"
    using check_codes [of s ReadSurface a] v assms(1) by (simp add: reported_def list_all_iff)
  moreover have "iv_code v \<in> set (st_reason_codes s')"
    using v convert_fields(19) [of vs s] s' by blast
  ultimately have "read_surface_invariant_projection_active s'"
    by (auto simp: read_surface_invariant_projection_active_def list_ex_iff)
  then show ?thesis
    using convert_fields(19,20) [of vs s] converted_status_refuses [of s vs request]
    by (simp add: s' convert_fields)
qed

subsection \<open>Concrete instances\<close>

definition repair_status :: PlanExecutionStatus where
  "repair_status = idle_status\<lparr>st_recommended_public_command := Some (PublicRepairReviewState ''plan.md'')\<rparr>"

lemmas open_status_simps =
  reconcile_admits_def route_open_def status_waits_for_external_review_result_def external_wait_state_is_external_wait_def
  state_kind_blocks_all_public_mutation_def state_kind_blocks_local_mutation_def state_kind_defs

lemma repair_status_clean:
  "check_runtime_status_invariants_with_targetless_authority repair_status ReadSurface None = []"
proof -
  have "md_allowed (decide_public_mutation repair_status request_repair_review_state)"
    by (simp add: decide_allowed_iff is_public_mutation_def request_defs open_status_simps exact_route_exposed_def
        route_exposes_public_mutation_request_def execution_command_kind_def execution_mutation_name_def
        public_mutation_requests_match_def public_mutation_fingerprint_matches_def repair_status_def idle_status_def)
  then show ?thesis
    by (simp add: check_runtime_status_invariants_with_targetless_authority_def
        check_current_and_stale_closures_are_disjoint_def check_execution_reentry_has_concrete_target_def
        check_execution_command_context_kind_def check_public_commands_def
        check_targetless_stale_unreviewed_routes_to_reconcile_def check_terminal_states_do_not_recommend_mutations_def
        check_waiting_external_input_does_not_recommend_local_mutation_def state_kind_defs
        check_recommended_command_matches_mutation_eligibility_def, simp add: repair_status_def idle_status_def)
qed

lemma read_surface_recommendation_is_executable_witness:
  "st_recommended_public_command (apply_read_surface_invariants_with_targetless_authority repair_status None) =
     Some (PublicRepairReviewState ''plan.md'') \<and>
   md_allowed (decide_public_mutation (apply_read_surface_invariants_with_targetless_authority repair_status None)
     request_repair_review_state)"
proof -
  let ?s = "apply_read_surface_invariants_with_targetless_authority repair_status None"
  have "?s = repair_status"
    by (simp add: apply_read_surface_invariants_with_targetless_authority_def repair_status_clean)
  then have "st_recommended_public_command ?s = Some (PublicRepairReviewState ''plan.md'')"
    by (simp add: repair_status_def)
  moreover have "to_mutation_request (PublicRepairReviewState ''plan.md'') = Some request_repair_review_state"
    by simp
  ultimately show ?thesis
    using read_surface_recommendation_is_executable [OF refl, of repair_status None] by blast
qed

definition illegal_context_status :: PlanExecutionStatus where
  "illegal_context_status = idle_status\<lparr>st_execution_command_context :=
     Some \<lparr>cx_command_kind = ''transfer'', cx_task_number = Some 1, cx_step_id = None\<rparr>\<rparr>"

lemma violated_invariant_fails_closed_witness:
  "\<not> md_allowed (decide_public_mutation
     (apply_read_surface_invariants_with_targetless_authority illegal_context_status None) request_repair_review_state)"
proof -
  have "check_execution_command_context_kind illegal_context_status \<noteq> []"
    by (simp add: check_execution_command_context_kind_def illegal_context_status_def
        execution_command_kind_is_legal_public_token_def from_execution_mutation_name_def)
  then have "check_runtime_status_invariants_with_targetless_authority illegal_context_status ReadSurface None \<noteq> []"
    by (simp add: check_runtime_status_invariants_with_targetless_authority_def)
  then show ?thesis
    using violated_invariant_fails_closed [OF refl _ refl] by blast
qed

subsection \<open>A handoff whose scope is still open\<close>

lemma open_scope_is_a_token: "concrete_optional_value (Some ''task|branch'') = None"
  by (simp add: concrete_optional_value_def public_argv_part_is_template_token_def is_known_template_token_def
      trim_def trim_start_def trim_end_def is_ws_def)

lemma open_handoff_refused:
  assumes "st_recommended_public_command s = Some (PublicTransferHandoff plan ''task|branch'')"
  shows "\<not> md_allowed (decide_public_mutation s (request_transfer_handoff None))"
  using assms
  by (auto simp: decide_allowed_iff exact_route_exposed_def route_exposes_public_mutation_request_def open_scope_is_a_token
      request_defs public_mutation_requests_match_def public_transfer_scope_matches_def context_authorizes_def
      execution_command_kind_def execution_mutation_name_def repair_target_authorizes_def list_ex_iff
      public_repair_target_matches_request_def)

text \<open>C26: a route that recommends a handoff whose scope is still to be chosen (\<^verbatim>\<open>task|branch\<close>, as the follow-up
  \<^verbatim>\<open>record_handoff\<close> does) is one the oracle admits once the caller picks a scope.  But the request of the
  recommended command itself has no scope, the oracle refuses that one, and so the read surface turns every such
  status into a diagnostic on which the chosen scope is refused too.\<close>

lemma open_handoff_never_reaches_the_caller:
  assumes "st_recommended_public_command s = Some (PublicTransferHandoff plan ''task|branch'')"
    and "st_state_kind s = STATE_KIND_ACTIONABLE_PUBLIC_COMMAND" "st_external_wait_state s = None"
    and "st_phase_detail s = DETAIL_HANDOFF_RECORDING_REQUIRED"
  shows "md_allowed (decide_public_mutation s (request_transfer_handoff (Some ''task''))) \<and>
    md_allowed (decide_public_mutation s (request_transfer_handoff (Some ''branch''))) \<and>
    st_state_kind (apply_read_surface_invariants_with_targetless_authority s a) = STATE_KIND_BLOCKED_RUNTIME_BUG \<and>
    st_recommended_public_command (apply_read_surface_invariants_with_targetless_authority s a) = None \<and>
    \<not> md_allowed (decide_public_mutation (apply_read_surface_invariants_with_targetless_authority s a)
        (request_transfer_handoff (Some scope)))"
proof -
  have allowed: "scope = ''task'' \<or> scope = ''branch'' \<Longrightarrow>
      md_allowed (decide_public_mutation s (request_transfer_handoff (Some scope)))" for scope
    using assms
    by (auto simp: decide_allowed_iff is_public_mutation_def request_defs open_status_simps exact_route_exposed_def
        route_exposes_public_mutation_request_def execution_command_kind_def execution_mutation_name_def
        public_mutation_requests_match_def public_mutation_fingerprint_matches_def public_transfer_scope_matches_def
        open_scope_is_a_token)
  let ?vs = "check_runtime_status_invariants_with_targetless_authority s ReadSurface a"
  have "\<exists>v\<in>set ?vs. iv_severity v = RuntimeBug"
    using assms(1) open_handoff_refused [OF assms(1)]
    by (auto simp: check_runtime_status_invariants_with_targetless_authority_def
        check_recommended_command_matches_mutation_eligibility_def public_command_recommends_local_mutation_def
        open_scope_is_a_token)
  then have bug: "?vs \<noteq> []" "list_ex (\<lambda>v. iv_severity v = RuntimeBug) ?vs"
    by (auto simp: list_ex_iff)
  then have "apply_read_surface_invariants_with_targetless_authority s a = convert_status_to_runtime_reconcile_or_bug s ?vs"
    by (simp add: apply_read_surface_invariants_with_targetless_authority_def)
  then show ?thesis
    using allowed [of "''task''"] allowed [of "''branch''"] bug(2) converted_status_refuses [of s ?vs]
    by (simp add: convert_fields)
qed

lemma open_handoff_never_reaches_the_caller_witness:
  "st_state_kind (apply_read_surface_invariants_with_targetless_authority
     (idle_status\<lparr>st_recommended_public_command := Some (PublicTransferHandoff ''plan.md'' ''task|branch''),
        st_phase_detail := DETAIL_HANDOFF_RECORDING_REQUIRED\<rparr>) None) = STATE_KIND_BLOCKED_RUNTIME_BUG"
  using open_handoff_never_reaches_the_caller
    [of "idle_status\<lparr>st_recommended_public_command := Some (PublicTransferHandoff ''plan.md'' ''task|branch''),
        st_phase_detail := DETAIL_HANDOFF_RECORDING_REQUIRED\<rparr>" "''plan.md''" None "''task''"]
  by (simp add: idle_status_def)

text \<open>The exception of the oracle for a late-stage command while an external review is awaited: every status it
  applies to is converted as well.\<close>

lemma external_wait_exception_never_survives:
  assumes "st_recommended_public_command s = Some c" "to_mutation_request c = Some r"
    and "external_wait_exact_route_exception s r"
  shows "\<not> md_allowed (decide_public_mutation (apply_read_surface_invariants_with_targetless_authority s a) r)"
proof -
  have "command_kind c = AdvanceLateStageCommand"
    using assms command_kind_of_request [OF assms(2)] by (simp add: external_wait_exact_route_exception_def)
  then have "check_waiting_external_input_does_not_recommend_local_mutation s \<noteq> []"
    using assms to_mutation_request_recommends [OF assms(2)]
    by (simp add: check_waiting_external_input_does_not_recommend_local_mutation_def external_wait_exact_route_exception_def)
  then have "check_runtime_status_invariants_with_targetless_authority s ReadSurface a \<noteq> []"
    by (simp add: check_runtime_status_invariants_with_targetless_authority_def)
  then show ?thesis
    using converted_status_refuses [of s _ r] by (simp add: apply_read_surface_invariants_with_targetless_authority_def)
qed

subsection \<open>Injected violations\<close>

text \<open>Tests make a status violate an invariant through an environment variable; its value is an argument here.  A
  template that cannot be built is a panic, hence the sum.\<close>

definition with_recommended_command :: "PublicCommand \<Rightarrow> PlanExecutionStatus \<Rightarrow> PlanExecutionStatus panicking" where
  "with_recommended_command command status =
     res_bind (recommended_public_command_template (Some command)) (\<lambda>template.
       Inr (status\<lparr>st_recommended_public_command := Some command,
         st_recommended_public_command_argv := recommended_public_command_argv (Some command),
         st_recommended_public_command_template := template,
         st_required_inputs := required_inputs_for_public_command (Some command)\<rparr>))"

definition inject_current_stale_overlap :: "PlanExecutionStatus \<Rightarrow> PlanExecutionStatus panicking" where
  "inject_current_stale_overlap status =
     (case current_task_closure_route_target status of
        None \<Rightarrow> Inr status
      | Some current \<Rightarrow>
          (case crt_closure_record_id current of
             None \<Rightarrow> Inr status
           | Some closure_record_id \<Rightarrow>
               map_sum (\<lambda>e. e) (\<lambda>s. s\<lparr>st_recommended_command :=
                   Some (''featureforge plan execution reopen --plan injected --task '' @ show_nat (crt_task current) @
                     '' --step 1 --source featureforge:executing-plans --reason injected'')\<rparr>)
                 (with_recommended_command
                   (reopen_public_command_with_reason ''injected'' (crt_task current) 1 ''featureforge:executing-plans''
                      ''injected'' None)
                   (status\<lparr>st_stale_unreviewed_closures := push_reason_once (st_stale_unreviewed_closures status) closure_record_id,
                      st_review_state_status := REVIEW_STATE_STALE_UNREVIEWED,
                      st_phase_detail := DETAIL_EXECUTION_REENTRY_REQUIRED\<rparr>))))"

definition inject_raw_targetless_stale_unreviewed :: "PlanExecutionStatus \<Rightarrow> PlanExecutionStatus" where
  "inject_raw_targetless_stale_unreviewed status =
     (let cleared = status\<lparr>st_review_state_status := REVIEW_STATE_STALE_UNREVIEWED, st_phase := Some PHASE_EXECUTING,
            st_harness_phase := Executing, st_phase_detail := TARGETLESS_STALE_RECONCILE_PHASE_DETAIL,
            st_state_kind := TARGETLESS_STALE_RECONCILE_PHASE_DETAIL, st_current_branch_closure_id := None,
            st_finish_review_gate_pass_branch_closure_id := None, st_current_final_review_branch_closure_id := None,
            st_current_qa_branch_closure_id := None, st_stale_unreviewed_closures := [], st_current_task_closures := [],
            st_recording_context := None, st_execution_command_context := None,
            st_execution_reentry_target_source := None, st_public_repair_targets := [],
            st_recommended_public_command := None, st_recommended_public_command_argv := None,
            st_recommended_public_command_template := None, st_required_inputs := []\<rparr>
      in cleared\<lparr>st_next_action := unwrap_or NEXT_ACTION_RUNTIME_DIAGNOSTIC_REQUIRED
             (diagnostic_next_action_for_route (st_state_kind cleared) (st_phase_detail cleared)
                (st_recommended_public_command_argv cleared \<noteq> None) (st_required_inputs cleared \<noteq> [])),
           st_recommended_command := None, st_next_public_action := None, st_blockers := [], st_blocking_scope := None,
           st_blocking_task := None, st_blocking_step := None, st_external_wait_state := None,
           st_reason_codes := filter (\<lambda>code. code \<noteq> TASK_BOUNDARY_REASON_TASK_CLOSURE_BASELINE_REPAIR_CANDIDATE)
             (st_reason_codes cleared),
           st_blocking_reason_codes := filter (\<lambda>code. code \<noteq> TASK_BOUNDARY_REASON_TASK_CLOSURE_BASELINE_REPAIR_CANDIDATE)
             (st_blocking_reason_codes cleared)\<rparr>)"

definition inject_targetless_stale_unreviewed :: "PlanExecutionStatus \<Rightarrow> PlanExecutionStatus" where
  "inject_targetless_stale_unreviewed status =
     (let s = ensure_status_diagnostic (inject_raw_targetless_stale_unreviewed status)
      in s\<lparr>st_blocking_records := option_list (status_blocking_record s)\<rparr>)"

definition inject_status_invariant_test_violation :: "string option \<Rightarrow> PlanExecutionStatus \<Rightarrow> (PlanExecutionStatus \<times> bool) panicking" where
  "inject_status_invariant_test_violation variable status =
     (case variable of
        None \<Rightarrow> Inr (status, False)
      | Some injection \<Rightarrow>
          let injected = (\<lambda>r. map_sum (\<lambda>e. e) (\<lambda>s. (s, True)) r) in
          if injection = ''current_stale_overlap'' then injected (inject_current_stale_overlap status)
          else if injection = ''targetless_stale_unreviewed'' then Inr (inject_targetless_stale_unreviewed status, True)
          else if injection = ''raw_targetless_stale_unreviewed'' then Inr (inject_raw_targetless_stale_unreviewed status, True)
          else if injection = ''hidden_recommended_command''
          then Inr (status\<lparr>st_recommended_command := Some (''featureforge plan execution '' @
              unwrap_or ''hidden-test-command''
                (find (\<lambda>token. split_on CHR ''-'' token = [''gate'', ''review'']) hidden_command_tokens) @
              '' --plan injected'')\<rparr>, True)
          else if injection = ''rejected_recommended_command''
          then injected (map_sum (\<lambda>e. e) (\<lambda>s. s\<lparr>st_recommended_command :=
              Some ''featureforge plan execution begin --plan injected --task 999 --step 1 --expect-execution-fingerprint injected''\<rparr>)
            (with_recommended_command (PublicBegin ''injected'' 999 1 None (Some ''injected'')) status))
          else Inr (status, False))"

text \<open>What the raw injection leaves behind is exactly what the targetless check reports.\<close>

lemma raw_injection_is_reported:
  assumes "REASON_NEGATIVE_RESULT_REQUIRES_EXECUTION_REENTRY \<notin> set (st_reason_codes status)"
    and "TARGETLESS_STALE_RECONCILE_REASON_CODE \<notin> set (st_reason_codes status)"
  shows "check_targetless_stale_unreviewed_routes_to_reconcile (inject_raw_targetless_stale_unreviewed status)
    (Some (TargetlessStaleAuthority False)) \<noteq> []"
  using assms
  by (auto simp: check_targetless_stale_unreviewed_routes_to_reconcile_def inject_raw_targetless_stale_unreviewed_def Let_def
      status_has_diagnostic_def status_needs_marker_for_authority_def status_needs_marker_with_authority_def
      status_needs_marker_def status_has_concrete_public_stale_target_def
      task_closure_baseline_repair_candidate_reason_present_def list_ex_iff)

lemma full_injection_is_a_diagnostic:
  "status_has_diagnostic (inject_targetless_stale_unreviewed status)"
  by (auto simp: inject_targetless_stale_unreviewed_def Let_def status_has_diagnostic_def ensure_status_diagnostic_def
      inject_raw_targetless_stale_unreviewed_def status_has_concrete_public_stale_target_def
      task_closure_baseline_repair_candidate_reason_present_def list_ex_iff)

end
