(* ===== verification/Spec2Isabelle.thy ===== *)
theory Spec2Isabelle
  imports Event_Sample Harness_Phase Repo_Safety Migration_Correct Plan_Discovery Late_Stage_Surface
    Transition_Dispatch Transition_Closures Write_Authority Plan_Correct Plan_Analysis
    Diagram_Correct Exact_Route Route_Plan_Correct Runtime_Invariants
begin

text \<open>
  \<^bold>\<open>A verification library for FeatureForge.\<close>  FeatureForge is a command-line runtime (Rust, under
  \<^verbatim>\<open>src/\<close>) that drives the execution of an approved plan.  Every command reads the authoritative
  execution state, decides what is legal, mutates the state and appends one typed event to an
  append-only, hash-chained log; the state is what the log reduces to.  Around this core stand the
  repository-safety check, the migration of a legacy state file into a log, the closure records of
  reviewed work, the markdown contracts of specifications and plans with the review that a plan needs
  before it is implemented, and the tokens and phases that commands and reports share.

  \<^bold>\<open>Parts and theories.\<close>  Paths are relative to the repository's \<^verbatim>\<open>src/\<close> directory.

  \<^item> \<^verbatim>\<open>FF_Prelude\<close>, \<^verbatim>\<open>Str_Ops\<close>, \<^verbatim>\<open>Json_Value\<close>: strings, decimal numerals and bounded integers as the standard library
    has them; \<^verbatim>\<open>serde_json::Value\<close> with objects as association lists in key order, and the accessors of
    \<^verbatim>\<open>execution/event_log.rs\<close>.
  \<^item> \<^verbatim>\<open>Diagnostics\<close> (\<^verbatim>\<open>diagnostics/mod.rs\<close>): failure classes and failures, the error side of every result.
  \<^item> \<^verbatim>\<open>Runtime_Tokens\<close>, \<^verbatim>\<open>Harness_Phase\<close>, \<^verbatim>\<open>Command_Kind\<close>, \<^verbatim>\<open>Follow_Up\<close>: phases, route tokens, reason codes,
    late-stage precedence, command kinds and follow-ups (\<^verbatim>\<open>execution/phase.rs\<close>, \<^verbatim>\<open>review_route_tokens.rs\<close>,
    \<^verbatim>\<open>closure_diagnostics/reason_codes.rs\<close>, \<^verbatim>\<open>harness.rs\<close>, \<^verbatim>\<open>late_stage_precedence.rs\<close>, \<^verbatim>\<open>follow_up.rs\<close>).
  \<^item> \<^verbatim>\<open>Paths\<close> (\<^verbatim>\<open>paths/mod.rs\<close>) and \<^verbatim>\<open>Task_Scope_Key\<close> (\<^verbatim>\<open>execution/task_scope_key.rs\<close>).
  \<^item> \<^verbatim>\<open>Event_Types\<close>, \<^verbatim>\<open>Event_Chain\<close>, \<^verbatim>\<open>Event_Reduce\<close>, \<^verbatim>\<open>Event_Delta\<close>, \<^verbatim>\<open>Event_Store\<close> (\<^verbatim>\<open>execution/event_log.rs\<close>):
    the 22 events and their fact scopes, envelopes and hash chain, the reducer, the delta from a
    command and a new state to an event, and the log on disk with its lock file.  \<^verbatim>\<open>Event_Sample\<close> holds
    the concrete logs of the witnesses.
  \<^item> \<^verbatim>\<open>Event_Migration\<close>, \<^verbatim>\<open>Migration_Correct\<close>: the migration of a legacy state into a log.
  \<^item> \<^verbatim>\<open>Repo_Safety\<close> (\<^verbatim>\<open>repo_safety/mod.rs\<close>, \<^verbatim>\<open>instructions/mod.rs\<close>) and \<^verbatim>\<open>Plan_Discovery\<close>
    (\<^verbatim>\<open>execution/approved_plan_discovery.rs\<close>).
  \<^item> \<^verbatim>\<open>Task_Contract\<close> (\<^verbatim>\<open>contracts/task_contract.rs\<close>), \<^verbatim>\<open>Plan_Contract\<close> (\<^verbatim>\<open>contracts/headers.rs\<close>, \<^verbatim>\<open>spec.rs\<close>,
    \<^verbatim>\<open>plan.rs\<close>): the readers of specifications, plans, tasks and steps and the quality rules of tasks.
    \<^verbatim>\<open>Plan_Topology\<close> (\<^verbatim>\<open>contracts/plan.rs\<close>): execution strategy, drawn dependency diagram and the analysis
    of the execution topology.  \<^verbatim>\<open>Plan_Fidelity\<close> (\<^verbatim>\<open>plan.rs\<close>, \<^verbatim>\<open>execution/topology.rs\<close>): the review artifact
    that binds to a plan by fingerprint.  \<^verbatim>\<open>Plan_Analysis\<close>: the report on a plan and the choice between
    parallel and conservative execution.  \<^verbatim>\<open>Plan_Correct\<close>, \<^verbatim>\<open>Topology_Correct\<close> and \<^verbatim>\<open>Diagram_Correct\<close> hold what
    is proved of them; the last one says independently of the reader what a diagram draws.
  \<^item> \<^verbatim>\<open>Closure_Graph\<close> (\<^verbatim>\<open>execution/closure_graph.rs\<close>) and \<^verbatim>\<open>Late_Stage_Surface\<close> (parts of
    \<^verbatim>\<open>execution/current_truth.rs\<close>): the graph of closure records and which of them are current.
  \<^item> \<^verbatim>\<open>Transition_State\<close>, \<^verbatim>\<open>Transition_Readers\<close>, \<^verbatim>\<open>Transition_Strategy\<close>, \<^verbatim>\<open>Transition_Lineage\<close>,
    \<^verbatim>\<open>Transition_Records\<close>, \<^verbatim>\<open>Transition_Repair\<close>, \<^verbatim>\<open>Transition_Persist\<close> (\<^verbatim>\<open>execution/transitions.rs\<close>): the mutable
    authoritative state.  Its operations are written in a state and error monad, because a Rust
    method that fails half-way leaves what it has written.  \<^verbatim>\<open>Transition_Invariant\<close>,
    \<^verbatim>\<open>Transition_Correct\<close>, \<^verbatim>\<open>Transition_Cycles\<close>, \<^verbatim>\<open>Transition_Dispatch\<close> and \<^verbatim>\<open>Transition_Closures\<close> hold what is
    proved of them.
  \<^item> \<^verbatim>\<open>Write_Authority\<close> (\<^verbatim>\<open>execution/transitions.rs\<close>, \<^verbatim>\<open>execution/leases.rs\<close>): the lock that serialises
    writers, as a state machine of concurrent processes.
  \<^item> \<^verbatim>\<open>Public_Command\<close> (\<^verbatim>\<open>execution/command_eligibility.rs\<close> and its submodules, \<^verbatim>\<open>public_command_types.rs\<close>,
    \<^verbatim>\<open>public_route_guidance.rs\<close>): the typed public commands, their display text, argument vectors and input
    templates; \<^verbatim>\<open>Public_Command_Correct\<close> reads them back.  \<^verbatim>\<open>Execution_Status\<close> (\<^verbatim>\<open>execution/status.rs\<close>,
    \<^verbatim>\<open>route_plan/state_kind.rs\<close>, \<^verbatim>\<open>closure_diagnostics.rs\<close>): the fields of the public status that routing reads or
    writes, and its state kinds.  \<^verbatim>\<open>Command_Eligibility\<close> (\<^verbatim>\<open>command_eligibility.rs\<close>): the oracle that allows or
    refuses a mutation on a status.  \<^verbatim>\<open>Runtime_Invariants\<close> (\<^verbatim>\<open>execution/invariants.rs\<close>): the checks every
    status passes before a caller sees it.  \<^verbatim>\<open>Exact_Route\<close> (\<^verbatim>\<open>execution/status_assembly/exact_route*.rs\<close>): the
    last comparison of a command with its context.
  \<^item> \<^verbatim>\<open>Gate_State\<close> (\<^verbatim>\<open>execution/status.rs\<close>) and \<^verbatim>\<open>Stale_Targets\<close> (\<^verbatim>\<open>execution/stale_target_projection.rs\<close>,
    \<^verbatim>\<open>stale_target_selection.rs\<close>, \<^verbatim>\<open>resume_stale_precedence.rs\<close>): the outcome of a gate, and the closures that are
    stale and the one to repair first.
  \<^item> The route plan (\<^verbatim>\<open>execution/route_plan/\<close>): \<^verbatim>\<open>Route_Semantics\<close> (phase, scope, task, blocker and follow-up of a
    route), \<^verbatim>\<open>Route_Decision\<close> (the decision and its surfaces), \<^verbatim>\<open>Route_Commands\<close> (the command of a decision),
    \<^verbatim>\<open>Route_Projection\<close> (writing it onto the status, \<^verbatim>\<open>execution/public_repair_targets.rs\<close>), \<^verbatim>\<open>Repair_Targets\<close>
    (\<^verbatim>\<open>execution/repair_target_selection.rs\<close>, \<^verbatim>\<open>repair_route_decision.rs\<close>), \<^verbatim>\<open>Next_Action\<close>
    (\<^verbatim>\<open>route_plan/next_action_choice/\<close>) and \<^verbatim>\<open>Route_Plan\<close> (planning facts, finalisation, selection and
    \<^verbatim>\<open>plan_runtime_route\<close>).  \<^verbatim>\<open>Route_Plan_Correct\<close> holds what is proved of a whole plan.

  \<^bold>\<open>Interfaces.\<close>  What the laws of one part promise to another is stated in locales and discharged
  by interpretations on the model's own definitions: the relations that every mutation preserves
  (\<^verbatim>\<open>mutation_relation\<close>, interpreted for the frame of the state, for unsaved changes, for kept fields
  and for bounded counters), the search that marks what it has seen (\<^verbatim>\<open>exhaustive_search\<close>, interpreted
  for the dependencies of tasks), the steps of the closure graph (\<^verbatim>\<open>graph_step\<close>), ordered maps and hash chains
  (\<^verbatim>\<open>ordered_map\<close>, \<^verbatim>\<open>hash_chain\<close>).

  \<^bold>\<open>Parameters.\<close>  Code outside the repository is an argument: the digest, the serialiser of envelopes
  and the reader of a line (\<^verbatim>\<open>event_codec\<close>), the clock, serde's error texts, and every error of the
  operating system, the failure of the event log lock's own removal included.  What the route plan
  reads outside the runtime state (closure evidence, work tree, git) is in the records
  \<^verbatim>\<open>StaleObservations\<close>, \<^verbatim>\<open>PlanningObservations\<close> and \<^verbatim>\<open>RouteBindingObservations\<close>, and the blocking records of a status
  are an argument of type \<^verbatim>\<open>BlockingRecordsOf\<close>; no theorem assumes anything of them.  The probe of the lock
  holder answers liveness, as it does for processes of one user.  Where a theorem relies on them, the hypothesis names the documented law (a
  line reads back, a digest does not collide on the entries at hand) and a witness instantiates it.

  \<^bold>\<open>What is shown.\<close>  The log: an append commits exactly its entry, never touches earlier entries
  whatever fails, refuses a second writer, and the hash chain detects a removed entry; the event of
  a command replays to the state it came from; reduced states hold only authoritative fields.
  Migration: it round trips and never overwrites a log.  Repository safety: protected branches need
  a matching approval, and approvals are confined.  Closures: the current closures are the newest
  ones, form a chain and are never superseded or stale.  Transitions: every sequence of operations
  keeps the state well formed, nothing unsaved is dropped, recorded closures read back, record ids
  are fresh, and the third review cycle of a task always breaks the cycle.  Write authority: it is
  exclusive while no process exits, a lone claim ends and recovers a stale lock, and the removal of a
  stale lock admits two writers.  Contracts: a plan that parses is well formed, its report is valid
  exactly when five conditions on the documents hold, an accepted topology assigns every task once and
  orders the writers of a file along the drawn edges, the edges are those drawn, parallel runs touch
  disjoint files, and implementation needs a review bound to this very text.  Public commands: a command
  line or a filled-in template reads back as its command; what the oracle allows is named by the status;
  a status that violates an invariant admits nothing, and the read surface is a fixed point.  Routes: the next
  action always exists and names a step of the plan or the status; the context of a planned step command
  names its step, so the oracle allows it; a diagnostic route admits nothing; a status reports its decision; the
  stale closures of a status are those its sources name.  Several theorems state defects of the code and are listed as
  findings beside the library.

  \<^bold>\<open>Bounds and fuel.\<close>  Recursions are structural or have a measure; no definition uses fuel.  Machine
  integers are natural numbers with \<^verbatim>\<open>u32_max\<close> and \<^verbatim>\<open>u64_max\<close> where the code checks or saturates.

  \<^bold>\<open>Not modelled.\<close>  The command bodies, the loading of a runtime state (router, read model, reducer) and
  the gates, which rest on parsed plans, evidence and the work tree; worktree leases and the persisted
  preflight acceptance; the fields of a status that are only reported, and its rendering, which only
  produces text; the packet, evidence and harness artifacts; configuration, update check and command line, which
  are process and file-system calls; a probe of a process of another user.
\<close>

section \<open>The event log\<close>

text \<open>C1: appending a typed event commits it.  When the lock is free, the log on disk is complete and
  valid and the new envelope serialises to a line that reads back, the operation returns
  success, releases the lock, leaves a complete and valid log that reads back as the old
  entries followed by exactly the new one, and the new payload is well formed again, so that the
  hypotheses hold for the next append.\<close>

theorem append_commits:
  assumes "ld_lock d = Absent"
    and "load_event_log cd (ld_path d) (ld_events d) = Inr es"
    and "complete_text (file_text (ld_events d))"
    and "validate_event_log cd es = Inr ()"
    and "\<forall>e\<in>set es. event_wf (payload e)"
    and "json_wf state"
    and "next_typed_envelope cd now sp cmd state hint es = Inr e"
    and "line_ok cd e l"
  shows "\<exists>d'. append_typed_state_event cd no_faults now sp cmd state hint d = (Inr (), d') \<and>
    ld_lock d' = Absent \<and>
    load_event_log cd (ld_path d') (ld_events d') = Inr (es @ [e]) \<and>
    complete_text (file_text (ld_events d')) \<and>
    validate_event_log cd (es @ [e]) = Inr () \<and>
    event_wf (payload e)"
proof -
  let ?d = "d\<lparr>ld_events := Regular (Inr (file_text (ld_events d) @ l @ [newline]))\<rparr>"
  have j: "envelope_json cd e = Inr l" using assms(8) by (simp add: line_ok_def)
  have "json_wf (current_state es)"
    using current_state_inv [OF assms(5)] by (simp add: reduced_inv_def)
  then have "event_wf (payload e)"
    using delta_event_wf [OF next_typed_envelope_payload [OF assms(7)]] assms(6) by blast
  moreover have "append_typed_state_event cd no_faults now sp cmd state hint d = (Inr (), ?d)"
    using append_ok [OF assms(1,2,4,7) j] .
  moreover have "load_event_log cd (ld_path ?d) (ld_events ?d) = Inr (es @ [e])"
    using load_appended [OF assms(2,3,8)] by simp
  moreover have "complete_text (file_text (ld_events ?d))"
    by (simp add: file_text_def complete_text_def)
  ultimately show ?thesis
    using assms(1) next_typed_envelope_valid [OF assms(4,7)] by (intro exI [of _ ?d]) simp
qed

theorem append_commits_witness:
  "\<exists>d'. append_typed_state_event sample_codec no_faults ''t0'' sample_path ''record_handoff''
      sample_state None sample_dir = (Inr (), d') \<and>
    ld_lock d' = Absent \<and>
    load_event_log sample_codec (ld_path d') (ld_events d') = Inr ([] @ [sample_envelope]) \<and>
    complete_text (file_text (ld_events d')) \<and>
    validate_event_log sample_codec ([] @ [sample_envelope]) = Inr () \<and>
    event_wf (payload sample_envelope)"
  by (rule append_commits [where l = "''{}''"])
     (simp_all add: sample_dir_text sample_load_empty complete_text_def validate_Nil sample_state_wf
       sample_next sample_line)

text \<open>C2: the delta is faithful.  After the event produced for a command is applied to the state reduced
  from the log, every field in the event's scope (the constants \<^verbatim>\<open>..._EVENT_FIELDS\<close>) agrees with the
  new state: plain fields by value, record maps entry by entry, an explicit null counting as absent.
  The exception is the six projection summaries, which no event carries: they are absent from the
  reduced state whatever the new state says.  Every field outside the scope, except the
  completed-step index that \<^verbatim>\<open>Complete\<close> and \<^verbatim>\<open>Reopen\<close> keep, is exactly as it was.\<close>

theorem delta_replays_state:
  assumes "\<forall>e\<in>set es. event_wf (payload e)"
    and "json_wf state"
    and "next_typed_envelope cd now sp cmd state hint es = Inr e"
  shows "(\<forall>f\<in>set (event_scope_fields (payload e)).
       if f \<in> set PROJECTION_SUMMARY_FIELDS then json_get (current_state (es @ [e])) f = None
       else same_field (current_state (es @ [e])) state f) \<and>
    (\<forall>f. f \<notin> set (event_scope_fields (payload e)) \<and> f \<noteq> ''event_completed_steps'' \<longrightarrow>
       json_get (current_state (es @ [e])) f = json_get (current_state es) f)"
proof -
  have inv: "reduced_inv (current_state es)" by (rule current_state_inv [OF assms(1)])
  then have wf: "json_wf (current_state es)" by (simp add: reduced_inv_def)
  note p = next_typed_envelope_payload [OF assms(3)]
  have frame: "json_get (current_state (es @ [e])) f = json_get (current_state es) f"
    if "f \<notin> set (event_struct_fields (payload e))" "f \<noteq> ''event_completed_steps''" for f
    unfolding current_state_snoc
    using event_target_frame [OF wf delta_event_typed [OF p] delta_event_shape [OF p]] that by blast
  have same: "same_field (current_state (es @ [e])) state f"
    if "f \<in> set (event_struct_fields (payload e))" for f
    unfolding current_state_snoc using delta_event_same [OF p wf assms(2)] that by blast
  have "json_get (current_state (es @ [e])) f = None" if "f \<in> set PROJECTION_SUMMARY_FIELDS" for f
    using frame [of f] that summary_field_absent [OF inv that] summary_field_not_struct [OF that]
    by (auto simp: PROJECTION_SUMMARY_FIELDS_def)
  moreover have "f \<notin> set (event_struct_fields (payload e))" if "f \<notin> set (event_scope_fields (payload e))" for f
    using event_struct_fields_in_scope [of "payload e"] that by blast
  ultimately show ?thesis
    using same frame scope_field_in_struct by simp
qed

theorem delta_replays_state_witness:
  "same_field (current_state [sample_envelope]) sample_state ''harness_phase''"
proof -
  have "''harness_phase'' \<in> set (event_scope_fields (payload sample_envelope))"
    "''harness_phase'' \<notin> set PROJECTION_SUMMARY_FIELDS"
    by (simp_all add: sample_envelope_def HANDOFF_FIELDS_def PROJECTION_SUMMARY_FIELDS_def)
  then show ?thesis
    using delta_replays_state [of "[]", OF _ sample_state_wf sample_next] by force
qed

text \<open>C3: tamper evidence.  Two non-empty logs that both pass validation and end in the same event
  hash are the same log, entry by entry, as long as the digest has no collision among the hashed
  shapes of their entries.\<close>

theorem same_tip_same_log:
  assumes "validate_event_log cd xs = Inr ()" and "validate_event_log cd ys = Inr ()"
    and "xs \<noteq> []" and "ys \<noteq> []"
    and "event_hash (last xs) = event_hash (last ys)"
    and "inj_on (shape_digest cd) (event_hash_shape ` (set xs \<union> set ys))"
  shows "xs = ys"
  using assms by (intro evc.same_last_same_log [of cd]) (auto dest: validate_chained)

theorem same_tip_same_log_witness:
  "validate_event_log sample_codec [sample_envelope] = Inr () \<and> [sample_envelope] = [sample_envelope]"
  using same_tip_same_log [OF sample_valid sample_valid] sample_valid by simp

text \<open>C4: the completed-step index of a reduced state is what the events say: a step is completed
  exactly when some \<^verbatim>\<open>Complete\<close> event for it is followed by no \<^verbatim>\<open>Reopen\<close> event for it.\<close>

theorem completed_steps_follow_events:
  assumes "\<forall>e\<in>set es. event_wf (payload e)"
  shows "step_completed (current_state es) task step \<longleftrightarrow>
    (\<exists>es1 fs es2. map payload es = es1 @ Complete (Some task) (Some step) fs # es2 \<and>
       (\<forall>gs. Reopen (Some task) (Some step) gs \<notin> set es2))"
proof -
  have "step_completed (current_state es) task step \<longleftrightarrow> (task, step) \<in> completed_set (log_target (map payload es))"
    by (simp add: completed_set_def current_state_log_target)
  also have "\<dots> \<longleftrightarrow> (task, step) \<in> fold completed_set_step (map payload es) {}"
    using completed_set_log [of "map payload es"] assms by simp
  finally show ?thesis by (simp only: completed_set_trace)
qed

definition sample_complete :: ExecutionEventEnvelope where
  "sample_complete = sample_envelope\<lparr>payload := Complete (Some 1) (Some 2) []\<rparr>"

theorem completed_steps_follow_events_witness:
  "step_completed (current_state [sample_complete]) 1 2"
proof -
  have "event_wf (payload sample_complete)"
    by (simp add: sample_complete_def event_wf_def event_typed_def facts_typed_def facts_wf_def)
  moreover have "map payload [sample_complete] = [] @ Complete (Some 1) (Some 2) [] # []"
    by (simp add: sample_complete_def)
  ultimately show ?thesis
    using completed_steps_follow_events [of "[sample_complete]" 1 2]
    by (metis empty_iff empty_set list.set_cases set_ConsD)
qed

text \<open>C5: the invariant of reduced states.  A state reduced from well-formed events is null or an
  object with ordered keys, holds only authoritative fields and the completed-step index, never an
  explicit null, and no record map in it has a null entry.  In particular the six projection
  summaries that the scope lists name never reach it.\<close>

theorem reduced_state_invariant:
  assumes "\<forall>e\<in>set es. event_wf (payload e)"
  shows "reduced_inv (current_state es) \<and>
    (\<forall>f\<in>{''release_docs_state'', ''last_release_docs_artifact_fingerprint'', ''final_review_state'',
        ''last_final_review_artifact_fingerprint'', ''browser_qa_state'',
        ''last_browser_qa_artifact_fingerprint''}. json_get (current_state es) f = None)"
proof -
  have inv: "reduced_inv (current_state es)" by (rule current_state_inv [OF assms])
  have none: "json_get (current_state es) f = None" if "f \<notin> reduced_fields" for f
    using inv that by (cases "json_get (current_state es) f") (auto simp: reduced_inv_def)
  have "''release_docs_state'' \<notin> reduced_fields" "''last_release_docs_artifact_fingerprint'' \<notin> reduced_fields"
    "''final_review_state'' \<notin> reduced_fields" "''last_final_review_artifact_fingerprint'' \<notin> reduced_fields"
    "''browser_qa_state'' \<notin> reduced_fields" "''last_browser_qa_artifact_fingerprint'' \<notin> reduced_fields"
    by (simp_all add: reduced_fields_def AuthoritativeFactBuilder_fields_def)
  then show ?thesis using inv none by (simp only: ball_simps simp_thms)
qed

theorem reduced_state_invariant_witness:
  "reduced_inv (current_state [sample_envelope]) \<and>
   json_get (current_state [sample_envelope]) ''browser_qa_state'' = None"
  using reduced_state_invariant [of "[sample_envelope]"] sample_wf by simp

text \<open>C6: appending is append-only under every fault.  Whatever operating system call fails, and whether
  or not the operation succeeds, the directory differs from before at most in the event file and the
  lock; the old text of the event file is a prefix of the new text; and the lock is as it was, or it was
  free and the operation's own lock file, which could not be removed, is left.\<close>

theorem append_is_append_only:
  "\<exists>entry s lock. snd (append_typed_state_event cd io now sp cmd state hint d) = d\<lparr>ld_events := entry, ld_lock := lock\<rparr> \<and>
     file_text entry = file_text (ld_events d) @ s \<and>
     (lock = ld_lock d \<or> ld_lock d = Absent \<and> fault_lock_release io \<and> lock = Regular (Inr ''pid''))"
  by (rule append_frame) (auto simp: lock_as_before_def)

text \<open>A second writer is refused.  While the lock file exists, an append fails with
  \<^verbatim>\<open>ConcurrentWriterConflict\<close> and changes nothing.\<close>

theorem append_refuses_second_writer:
  assumes "ld_lock d \<noteq> Absent" and "fault_lock_dir io = None"
  shows "\<exists>err. append_typed_state_event cd io now sp cmd state hint d = (Inl err, d) \<and>
    error_class err = ''ConcurrentWriterConflict''"
  using assms by (simp add: append_typed_state_event_def acquire_event_log_lock_def)

theorem append_refuses_second_writer_witness:
  "\<exists>err. append_typed_state_event sample_codec no_faults ''t0'' sample_path ''begin'' JNull None
      (sample_dir\<lparr>ld_lock := Regular (Inr ''pid'')\<rparr>) =
      (Inl err, sample_dir\<lparr>ld_lock := Regular (Inr ''pid'')\<rparr>) \<and>
    error_class err = ''ConcurrentWriterConflict''"
  by (rule append_refuses_second_writer) (simp_all add: no_faults_def)

text \<open>Exactly the mapped commands produce an event.  The delta fails if and only if the trimmed
  command is none of the known names, and then with \<^verbatim>\<open>PartialAuthoritativeMutation\<close>.\<close>

theorem unmapped_commands_are_rejected:
  "((\<exists>e. event_from_command_authoritative_delta cd cmd cur state hint = Inr e) \<longleftrightarrow>
    trim cmd \<in> {''begin'', ''complete'', ''reopen'', ''transfer'', ''note'', ''record_review_dispatch'',
     ''close_current_task'', ''record_branch_closure'', ''record_release_readiness'',
     ''record_final_review'', ''record_qa'', ''advance_late_stage'', ''repair_review_state'',
     ''gate_review'', ''authoritative_state_persist'', ''worktree_lease_index_update'',
     ''preflight_bootstrap'', ''record_contract'', ''record_evaluation'', ''record_handoff''}) \<and>
   (case event_from_command_authoritative_delta cd cmd cur state hint of
      Inl err \<Rightarrow> error_class err = ''PartialAuthoritativeMutation''
    | Inr e \<Rightarrow> event_typed e)"
proof (rule conjI)
  let ?task = "open_step_part ''task'' (from_public_mutation_token (trim cmd) = Some CompleteCommand)
     cur state (map_option fst hint)"
  let ?step = "open_step_part ''step'' (from_public_mutation_token (trim cmd) = Some CompleteCommand)
     cur state (map_option snd hint)"
  have eq: "event_from_command_authoritative_delta cd cmd cur state hint =
    (case event_from_public_command (trim cmd) cur state ?task ?step of
       Some e \<Rightarrow> Inr e | None \<Rightarrow> event_from_internal_command cd (trim cmd) cur state ?task ?step)"
    by (simp only: event_from_command_authoritative_delta_def Let_def)
  have "(\<exists>e. event_from_command_authoritative_delta cd cmd cur state hint = Inr e) \<longleftrightarrow>
    event_from_public_command (trim cmd) cur state ?task ?step \<noteq> None \<or>
    (\<exists>e. event_from_internal_command cd (trim cmd) cur state ?task ?step = Inr e)"
    unfolding eq using public_command_iff [of "trim cmd" cur state ?task ?step]
      internal_command_iff [of cd "trim cmd" cur state ?task ?step]
    by (cases "event_from_public_command (trim cmd) cur state ?task ?step") auto
  then show "(\<exists>e. event_from_command_authoritative_delta cd cmd cur state hint = Inr e) \<longleftrightarrow>
    trim cmd \<in> {''begin'', ''complete'', ''reopen'', ''transfer'', ''note'', ''record_review_dispatch'',
     ''close_current_task'', ''record_branch_closure'', ''record_release_readiness'',
     ''record_final_review'', ''record_qa'', ''advance_late_stage'', ''repair_review_state'',
     ''gate_review'', ''authoritative_state_persist'', ''worktree_lease_index_update'',
     ''preflight_bootstrap'', ''record_contract'', ''record_evaluation'', ''record_handoff''}"
    unfolding public_command_iff internal_command_iff by (simp only: insert_iff empty_iff disj_assoc simp_thms)
  show "case event_from_command_authoritative_delta cd cmd cur state hint of
      Inl err \<Rightarrow> error_class err = ''PartialAuthoritativeMutation''
    | Inr e \<Rightarrow> event_typed e"
    using delta_event_typed [of cd cmd cur state hint]
      internal_command_error [of cd "trim cmd" cur state ?task ?step]
    unfolding eq by (auto split: sum.splits option.splits)
qed

text \<open>A log with an entry cut out of its middle does not validate.\<close>

theorem dropped_entry_detected:
  assumes "validate_event_log cd (xs @ e # ys) = Inr ()" and "ys \<noteq> []"
    and "length (xs @ ys) < u64_max"
  shows "validate_event_log cd (xs @ ys) \<noteq> Inr ()"
proof
  assume v: "validate_event_log cd (xs @ ys) = Inr ()"
  have n: "(xs @ e # ys) ! Suc (length xs) = hd ys" "(xs @ ys) ! length xs = hd ys"
    using assms(2) by (simp_all add: nth_append hd_conv_nth)
  have "entry_valid cd (xs @ e # ys) (Suc (length xs))" "entry_valid cd (xs @ ys) (length xs)"
    using assms(1,2) v by (auto simp: validate_event_log_iff)
  then have "min (length xs + 2) u64_max = min (length xs + 1) u64_max"
    by (simp add: entry_valid_def n)
  moreover have "length xs + 2 \<le> u64_max" using assms(2,3) by (cases ys) auto
  ultimately show False by simp
qed

theorem dropped_entry_detected_witness:
  "\<exists>e2. validate_event_log sample_codec [sample_envelope, e2] = Inr () \<and>
     validate_event_log sample_codec [e2] \<noteq> Inr ()"
proof -
  obtain e2 where "next_event_envelope sample_codec ''t1'' [sample_envelope]
      (append_metadata sample_path ''x'' JNull) sample_migration = Inr e2"
    using sample_envelope_total by blast
  then have "validate_event_log sample_codec ([sample_envelope] @ [e2]) = Inr ()"
    by (rule next_event_envelope_valid [OF sample_valid]) (simp add: payload_in_scope_def sample_migration_def)
  then show ?thesis
    using dropped_entry_detected [of sample_codec "[]" sample_envelope "[e2]"]
    by (auto simp: u64_max_def)
qed

text \<open>A log written as a whole reads back as the same entries.\<close>

theorem written_log_reads_back:
  assumes "write_event_log_atomic cd None path entry es = (Inr (), entry')"
    and "\<forall>e\<in>set es. \<exists>l. line_ok cd e l"
  shows "load_event_log cd path entry' = Inr es"
proof -
  from assms(1) obtain s where "serialize_event_log cd path es = Inr s" "entry' = Regular (Inr s)"
    by (auto simp: write_event_log_atomic_def split: sum.splits)
  with load_serialized [OF _ assms(2)] show ?thesis by simp
qed

theorem written_log_reads_back_witness:
  "load_event_log sample_codec ''p'' (Regular (Inr (''{}'' @ [newline]))) = Inr [sample_envelope]"
proof (rule written_log_reads_back)
  show "write_event_log_atomic sample_codec None ''p'' Absent [sample_envelope] =
      (Inr (), Regular (Inr (''{}'' @ [newline])))"
    by (simp add: write_event_log_atomic_def sample_codec_def)
  show "\<forall>e\<in>set [sample_envelope]. \<exists>l. line_ok sample_codec e l" using sample_line by auto
qed

text \<open>C11: a lost line terminator corrupts the log one append later.  When the terminator of an
  appended line cannot be written, the operation reports the failure, but the next append, which
  reads the unterminated log without complaint, reports success and leaves a file that no longer
  parses, provided the parser rejects two entries on one line.\<close>

theorem lost_terminator_corrupts_next_append:
  assumes "ld_lock d = Absent"
    and "load_event_log cd (ld_path d) (ld_events d) = Inr es"
    and "complete_text (file_text (ld_events d))"
    and "validate_event_log cd es = Inr ()"
    and "next_typed_envelope cd now sp cmd state hint es = Inr e" and "line_ok cd e l"
    and "next_typed_envelope cd now' sp cmd' state' hint' (es @ [e]) = Inr e'"
    and "envelope_json cd e' = Inr m" and "m \<noteq> []" and "newline \<notin> set m" and "\<not> is_ws (last m)"
    and "envelope_parse cd (l @ m) = Inl perr"
  shows "\<exists>err d1 d2 msg.
    append_typed_state_event cd (no_faults\<lparr>fault_newline := Some ioerr\<rparr>) now sp cmd state hint d = (Inl err, d1) \<and>
    append_typed_state_event cd no_faults now' sp cmd' state' hint' d1 = (Inr (), d2) \<and>
    load_event_log cd (ld_path d2) (ld_events d2) = Inl (json_failure MalformedExecutionState msg)"
proof -
  let ?t = "file_text (ld_events d)"
  let ?d1 = "d\<lparr>ld_events := Regular (Inr (?t @ l))\<rparr>"
  have l: "envelope_json cd e = Inr l" "l \<noteq> []" "newline \<notin> set l" "\<not> is_ws (hd l)"
    using assms(6) by (simp_all add: line_ok_def)
  have "load_event_log cd (ld_path ?d1) (ld_events ?d1) = Inr (es @ [e])"
    using load_unterminated [OF assms(2,3,6)] by simp
  from append_ok [OF _ this next_typed_envelope_valid [OF assms(4,5)] assms(7,8)] assms(1)
  have a: "append_typed_state_event cd no_faults now' sp cmd' state' hint' ?d1 =
      (Inr (), ?d1\<lparr>ld_events := Regular (Inr (?t @ l @ m @ [newline]))\<rparr>)"
    by (simp add: file_text_def)
  have "trim (l @ m) = l @ m" using l assms(9,11) by (intro trim_id) simp_all
  moreover have "strip_cr (l @ m) = l @ m"
    using assms(9,11) by (auto simp: strip_cr_def is_ws_def)
  ultimately obtain msg where
    "load_event_log cd (ld_path d) (Regular (Inr (?t @ l @ m @ [newline]))) =
       Inl (json_failure MalformedExecutionState msg)"
    using load_joined_lines [OF assms(2,3) l(3) assms(10)] l(2) assms(12) by blast
  then show ?thesis
    using append_unterminated [OF assms(1,2,4,5) l(1), of ioerr] a by fastforce
qed

theorem lost_terminator_corrupts_next_append_witness:
  "\<exists>err d1 d2 msg.
    append_typed_state_event sample_codec (no_faults\<lparr>fault_newline := Some ''disk full''\<rparr>) ''t0'' sample_path
      ''record_handoff'' sample_state None sample_dir = (Inl err, d1) \<and>
    append_typed_state_event sample_codec no_faults ''t1'' sample_path ''note'' JNull None d1 = (Inr (), d2) \<and>
    load_event_log sample_codec (ld_path d2) (ld_events d2) = Inl (json_failure MalformedExecutionState msg)"
proof -
  let ?cur = "current_state [sample_envelope]"
  obtain ev where "event_from_command_authoritative_delta sample_codec ''note'' ?cur JNull None = Inr ev"
    using sample_note by blast
  moreover obtain e2 where "next_event_envelope sample_codec ''t1'' [sample_envelope]
      (append_metadata sample_path ''note'' JNull) ev = Inr e2"
    using sample_envelope_total by blast
  ultimately have n: "next_typed_envelope sample_codec ''t1'' sample_path ''note'' JNull None ([] @ [sample_envelope]) = Inr e2"
    by (auto simp: next_typed_envelope_Inr)
  show ?thesis
    by (rule lost_terminator_corrupts_next_append [where l = "''{}''" and m = "''{}''",
          OF _ _ _ validate_Nil sample_next sample_line n])
       (simp_all add: sample_dir_text sample_load_empty complete_text_def sample_codec_def is_ws_def)
qed

text \<open>The branch of a state path.  For the state file of a branch, the repository slug and the
  storage key that the log records are the ones the path was built from.\<close>

theorem branch_context_round_trip:
  assumes "\<forall>c\<in>set d. c \<noteq> ''projects'' \<and> c \<noteq> ''branches''"
  shows "bc_repo_slug (branch_context_from_state_path (harness_state_path h d slug br) s) = slug \<and>
    bc_safe_branch (branch_context_from_state_path (harness_state_path h d slug br) s) = branch_storage_key h br"
  using branch_context_of_harness_path [OF assms] by blast

theorem branch_context_round_trip_witness:
  "bc_repo_slug (branch_context_from_state_path
     (harness_state_path (\<lambda>_. ''abc'') [''home'', ''.featureforge''] ''repo'' ''main'') JNull) = ''repo'' \<and>
   bc_safe_branch (branch_context_from_state_path
     (harness_state_path (\<lambda>_. ''abc'') [''home'', ''.featureforge''] ''repo'' ''main'') JNull) =
   branch_storage_key (\<lambda>_. ''abc'') ''main''"
  by (rule branch_context_round_trip) simp

section \<open>Paths and identifiers\<close>

text \<open>An accepted repository path stays inside the repository: it is not empty, does not start
  with a slash, has no backslash, and none of its components is empty, \<^verbatim>\<open>.\<close> or \<^verbatim>\<open>..\<close>.\<close>

theorem normalized_path_is_safe:
  assumes "normalize_repo_relative_path input = Inr p"
  shows "p \<noteq> [] \<and> \<not> starts_with p ''/'' \<and> CHR 0x5C \<notin> set p \<and>
    (\<forall>q\<in>set (split_on (CHR ''/'') p). q \<noteq> [] \<and> q \<noteq> ''.'' \<and> q \<noteq> ''..'')"
  using normalized_path_components [OF assms] by blast

theorem normalized_path_is_safe_witness:
  "CHR 0x5C \<notin> set ''src/a.rs'' \<and> \<not> starts_with ''src/a.rs'' ''/''"
proof -
  have "normalize_repo_relative_path ''./src//a.rs'' = Inr ''src/a.rs''" by code_simp
  from normalized_path_is_safe [OF this] show ?thesis by blast
qed

text \<open>Normalising twice changes nothing, except that a path from which normalisation uncovered a
  drive prefix is refused the second time.\<close>

theorem normalize_path_twice:
  assumes "normalize_repo_relative_path input = Inr p"
  shows "normalize_repo_relative_path p =
    (if looks_like_windows_absolute p then Inl (invalid_repo_path p) else Inr p)"
  by (rule normalize_again [OF assms])

theorem normalize_path_twice_witness:
  "normalize_repo_relative_path ''src/a.rs'' = Inr ''src/a.rs''"
proof -
  have "normalize_repo_relative_path ''./src//a.rs'' = Inr ''src/a.rs''" by code_simp
  moreover have "\<not> looks_like_windows_absolute ''src/a.rs''" by code_simp
  ultimately show ?thesis using normalize_path_twice by simp
qed

text \<open>The drive check can be bypassed: \<^verbatim>\<open>./C:/x\<close> is accepted and normalises to \<^verbatim>\<open>C:/x\<close>,
  which the same function refuses as absolute.\<close>

theorem drive_prefix_can_be_uncovered:
  "normalize_repo_relative_path ''./C:/x'' = Inr ''C:/x'' \<and>
   normalize_repo_relative_path ''C:/x'' = Inl (invalid_repo_path ''C:/x'')"
  by code_simp

text \<open>The storage key of a branch is a single safe path component: it is never empty and only has
  letters, digits, dots, underscores and dashes; on identifiers it is the identity, hence two
  branches that are identifiers never share a key.  Normalising an identifier twice changes
  nothing.\<close>

theorem branch_storage_key_is_safe:
  assumes "\<forall>s. \<forall>c\<in>set (h s). identifier_char c"
  shows "branch_storage_key h a \<noteq> [] \<and> (\<forall>c\<in>set (branch_storage_key h a). identifier_char c) \<and>
    (normalize_identifier_token a = a \<and> a \<noteq> [] \<longrightarrow> branch_storage_key h a = a) \<and>
    normalize_identifier_token (normalize_identifier_token a) = normalize_identifier_token a"
  using branch_storage_key_chars [of h a] assms normalize_identifier_token_idem [of a]
  by (simp add: branch_storage_key_def)

theorem branch_storage_key_is_safe_witness:
  "branch_storage_key (\<lambda>_. ''0123456789abcdef'') ''feature/x'' \<noteq> []"
proof -
  have "\<forall>c\<in>set ''0123456789abcdef''. identifier_char c" by code_simp
  then have "\<forall>s. \<forall>c\<in>set ((\<lambda>_. ''0123456789abcdef'') (s :: string)). identifier_char c" by (intro allI)
  from branch_storage_key_is_safe [OF this] show ?thesis by (rule conjunct1)
qed

section \<open>Phases, commands and follow-ups\<close>

text \<open>Phase names round trip: parsing is exactly the inverse of printing.\<close>

theorem harness_phase_round_trip:
  "harness_phase_from_str value = Inr p \<longleftrightarrow> value = harness_phase_as_str p"
  using harness_phase_from_str_Inr by auto

text \<open>Late-stage precedence.  The phase is decided by the first blocked gate in the order release,
  final review, QA; with no gate blocked the branch is ready; and the phase named is always one
  the harness classifies as late stage.\<close>

theorem late_stage_first_blocked_gate:
  "ls_phase (late_stage_resolve s) =
     harness_phase_as_str
       (if release s = Blocked then DocumentReleasePending
        else if review s = Blocked then FinalReviewPending
        else if qa s = Blocked then QaPending
        else ReadyForBranchCompletion) \<and>
   (\<exists>p. harness_phase_from_str (ls_phase (late_stage_resolve s)) = Inr p \<and> is_late_stage p)"
proof -
  obtain rel rvw q where s: "s = \<lparr>release = rel, review = rvw, qa = q\<rparr>" by (cases s)
  have d: "ls_phase (late_stage_resolve s) = harness_phase_as_str (fst (late_stage_spec rel rvw q))"
    by (simp add: s late_stage_resolve_cases)
  have "harness_phase_from_str (ls_phase (late_stage_resolve s)) = Inr (fst (late_stage_spec rel rvw q))"
    unfolding d by (rule harness_phase_from_str_as_str)
  with late_stage_spec_late [of rel rvw q] d show ?thesis
    unfolding s by (cases rel; cases rvw; cases q) (simp_all add: late_stage_spec_def)
qed

text \<open>Command tokens.  A token names a public mutation command exactly when it is that command's
  own token, so no token names two commands; likewise for the execution mutations.\<close>

theorem public_command_tokens_round_trip:
  "(from_public_mutation_token t = Some k \<longleftrightarrow> public_mutation_name k = Some t) \<and>
   (from_execution_mutation_name t = Some k \<longleftrightarrow> execution_mutation_name k = Some t)"
  using from_public_mutation_token_iff from_execution_mutation_name_iff by simp

text \<open>Normalising a follow-up token is idempotent in each context and only ever yields one of the
  public tokens.\<close>

theorem follow_up_normalisation_is_canonical:
  "normalize_public_routing_follow_up_token (normalize_public_routing_follow_up_token tok) =
     normalize_public_routing_follow_up_token tok \<and>
   normalize_persisted_repair_follow_up_token (normalize_persisted_repair_follow_up_token tok) =
     normalize_persisted_repair_follow_up_token tok \<and>
   set_option (normalize_public_routing_follow_up_token tok) \<union>
     set_option (normalize_persisted_repair_follow_up_token tok) \<subseteq> set public_follow_up_tokens"
proof -
  have "follow_up_public_token k \<in> set public_follow_up_tokens" for k
    by (cases k) (simp_all add: public_follow_up_tokens_def PUBLIC_FOLLOW_UP_KINDS_def)
  moreover have "normalize_follow_up_alias None ctx = None" for ctx
    by (simp add: normalize_follow_up_alias_def)
  ultimately show ?thesis
    unfolding normalize_public_routing_follow_up_token_def normalize_persisted_repair_follow_up_token_def
    by (cases "normalize_follow_up_alias tok PublicRouting";
        cases "normalize_follow_up_alias tok PersistedRepairState") auto
qed

text \<open>Persisted repair tokens.  Every repair kind but two is recovered from the token it is
  persisted under; the tokens of \<^verbatim>\<open>RecordFinalReview\<close> and \<^verbatim>\<open>RecordQa\<close> are not read back at
  all.\<close>

theorem persisted_repair_tokens:
  "repair_kind_from_persisted_token (repair_kind_persisted_token k) =
     (if k = RFU_RecordFinalReview \<or> k = RFU_RecordQa then None else Some k)"
  unfolding repair_kind_from_persisted_token_def trim_persisted_token Let_def
  by (cases k) simp_all

text \<open>A reason code that is only a projection diagnostic never blocks \<^verbatim>\<open>begin\<close> and is never a
  public boundary code; every code that blocks \<^verbatim>\<open>begin\<close> is public.\<close>

theorem diagnostics_never_block_begin:
  "\<not> (task_boundary_projection_diagnostic_reason_code c \<and> public_task_boundary_reason_code c) \<and>
   \<not> (task_boundary_projection_diagnostic_reason_code c \<and> task_boundary_begin_block_reason_code c) \<and>
   (task_boundary_begin_block_reason_code c \<and> public_task_boundary_reason_code c \<longleftrightarrow>
     task_boundary_begin_block_reason_code c)"
proof -
  have "list_all (\<lambda>c. \<not> public_task_boundary_reason_code c) TASK_BOUNDARY_PROJECTION_DIAGNOSTIC_REASON_CODES"
    by (simp add: TASK_BOUNDARY_PROJECTION_DIAGNOSTIC_REASON_CODES_def
        public_task_boundary_reason_code_def PUBLIC_TASK_BOUNDARY_REASON_CODES_def)
  then have d: "task_boundary_projection_diagnostic_reason_code c \<Longrightarrow> \<not> public_task_boundary_reason_code c"
    by (simp add: list_all_iff task_boundary_projection_diagnostic_reason_code_def)
  have b: "task_boundary_begin_block_reason_code c \<Longrightarrow> public_task_boundary_reason_code c"
    unfolding task_boundary_begin_block_reason_code_def task_boundary_negative_review_reason_code_def
      task_boundary_current_closure_stale_reason_code_def
      task_boundary_current_closure_structural_reason_code_def task_boundary_cycle_break_reason_code_def
      task_boundary_overlay_restore_reason_code_def insert_iff empty_iff public_task_boundary_reason_code_def
      PUBLIC_TASK_BOUNDARY_REASON_CODES_def
    by (elim disjE) simp_all
  from d b show ?thesis by blast
qed

end
